(* ===== verification/Prelude.thy ===== *)
theory Prelude
  imports Complex_Main "HOL-Library.AList" "HOL-Library.List_Lexorder" "HOL-Library.Char_ord"
begin

text \<open>
  Shared vocabulary of the development: ordered maps as association lists, the
  64-bit integer arithmetic of release builds, and the handful of string operations
  of the Rust standard library the components call.

  A Rust \<open>String\<close> is a list of bytes (\<open>string\<close>), so that the derived byte-wise order of
  \<open>String\<close> is the lexicographic order of \<open>List_Lexorder\<close>. White space, for \<open>str::trim\<close>,
  is ASCII white space.

  \<open>IndexMap\<close>, \<open>HashMap\<close> and \<open>BTreeMap\<close> are association lists with distinct keys.
  \<open>im_insert\<close> keeps the position of an existing key and appends a new one, which is
  \<open>IndexMap::insert\<close>; for a \<open>HashMap\<close> the list order stands for the unspecified
  iteration order; \<open>bm_insert\<close> keeps the keys sorted, which is \<open>BTreeMap::insert\<close>.
\<close>

named_theorems map_simps \<open>how lookups read the association-list operations\<close>

type_synonym ('k, 'v) imap = "('k \<times> 'v) list"

subsection \<open>Maps\<close>

abbreviation im_get :: "('k, 'v) imap \<Rightarrow> 'k \<Rightarrow> 'v option" where
  "im_get m k \<equiv> map_of m k"

abbreviation im_wf :: "('k, 'v) imap \<Rightarrow> bool" where
  "im_wf m \<equiv> distinct (map fst m)"

definition im_insert :: "'k \<Rightarrow> 'v \<Rightarrow> ('k, 'v) imap \<Rightarrow> ('k, 'v) imap" where
  "im_insert k v m = AList.update k v m"

definition im_remove :: "'k \<Rightarrow> ('k, 'v) imap \<Rightarrow> ('k, 'v) imap" where
  "im_remove k m = filter (\<lambda>p. fst p \<noteq> k) m"

definition im_retain :: "('k \<Rightarrow> 'v \<Rightarrow> bool) \<Rightarrow> ('k, 'v) imap \<Rightarrow> ('k, 'v) imap" where
  "im_retain P m = filter (\<lambda>(k, v). P k v) m"

fun bm_insert :: "'k::linorder \<Rightarrow> 'v \<Rightarrow> ('k, 'v) imap \<Rightarrow> ('k, 'v) imap" where
  "bm_insert k v [] = [(k, v)]"
| "bm_insert k v ((k', v') # m) =
     (if k < k' then (k, v) # (k', v') # m
      else if k = k' then (k, v) # m
      else (k', v') # bm_insert k v m)"

definition bm_of_list :: "('k::linorder \<times> 'v) list \<Rightarrow> ('k, 'v) imap" where
  "bm_of_list ps = fold (\<lambda>(k, v). bm_insert k v) ps []"

definition im_vals :: "('k, 'v) imap \<Rightarrow> 'v set" where
  "im_vals m = snd ` set m"

definition im_contains :: "('k, 'v) imap \<Rightarrow> 'k \<Rightarrow> bool" where
  "im_contains m k = (map_of m k \<noteq> None)"

subsection \<open>64-bit signed arithmetic of a release build\<close>

definition wrap64 :: "int \<Rightarrow> int" where
  "wrap64 x = (x + 2 ^ 63) mod 2 ^ 64 - 2 ^ 63"

abbreviation i64_max :: int where
  "i64_max \<equiv> 9223372036854775807"

abbreviation is_i64 :: "int \<Rightarrow> bool" where
  "is_i64 x \<equiv> - 9223372036854775808 \<le> x \<and> x \<le> 9223372036854775807"

subsection \<open>Strings\<close>

definition quot :: string where
  "quot = [CHR 0x27]"

definition quoted :: "string \<Rightarrow> string" where
  "quoted s = quot @ s @ quot"

definition is_space :: "char \<Rightarrow> bool" where
  "is_space c = (c \<in> {CHR 0x20, CHR 0x09, CHR 0x0A, CHR 0x0B, CHR 0x0C, CHR 0x0D})"

definition trim :: "string \<Rightarrow> string" where
  "trim s = rev (dropWhile is_space (rev (dropWhile is_space s)))"

fun split_once :: "char \<Rightarrow> string \<Rightarrow> (string \<times> string) option" where
  "split_once c [] = None"
| "split_once c (x # xs) =
     (if x = c then Some ([], xs)
      else map_option (\<lambda>(a, b). (x # a, b)) (split_once c xs))"

fun starts_with :: "string \<Rightarrow> string \<Rightarrow> bool" where
  "starts_with s [] = True"
| "starts_with [] (p # ps) = False"
| "starts_with (x # xs) (p # ps) = (x = p \<and> starts_with xs ps)"

text \<open>\<open>str::contains\<close>.\<close>

fun contains_sub :: "string \<Rightarrow> string \<Rightarrow> bool" where
  "contains_sub [] pat = (pat = [])"
| "contains_sub (x # xs) pat = (starts_with (x # xs) pat \<or> contains_sub xs pat)"

fun join :: "string \<Rightarrow> string list \<Rightarrow> string" where
  "join sep [] = []"
| "join sep [s] = s"
| "join sep (s # t # ts) = s @ sep @ join sep (t # ts)"

definition digit :: "nat \<Rightarrow> char" where
  "digit d = char_of (48 + d mod 10)"

fun show_nat :: "nat \<Rightarrow> string" where
  "show_nat n = (if n < 10 then [digit n] else show_nat (n div 10) @ [digit (n mod 10)])"

declare show_nat.simps [simp del]

definition show_int :: "int \<Rightarrow> string" where
  "show_int i = (if i < 0 then CHR ''-'' # show_nat (nat (- i)) else show_nat (nat i))"

definition digit_val :: "char \<Rightarrow> nat option" where
  "digit_val c = (let n = of_char c in if 48 \<le> n \<and> n \<le> (57::nat) then Some (n - 48) else None)"

fun parse_digits :: "nat \<Rightarrow> string \<Rightarrow> nat option" where
  "parse_digits acc [] = Some acc"
| "parse_digits acc (c # cs) =
     (case digit_val c of None \<Rightarrow> None | Some d \<Rightarrow> parse_digits (10 * acc + d) cs)"

text \<open>\<open>str::parse::<u32>\<close>: an optional plus sign, at least one digit, below \<open>2 ^ 32\<close>.\<close>

definition parse_u32 :: "string \<Rightarrow> nat option" where
  "parse_u32 s =
     (let ds = (case s of c # cs \<Rightarrow> if c = CHR ''+'' then cs else s | [] \<Rightarrow> s)
      in if ds = [] then None
         else case parse_digits 0 ds of
                None \<Rightarrow> None
              | Some n \<Rightarrow> if n < 2 ^ 32 then Some n else None)"

text \<open>\<open>str::split\<close> on a character: the pieces between its occurrences, at least one.\<close>

fun split_on :: "char \<Rightarrow> string \<Rightarrow> string list" where
  "split_on c [] = [[]]"
| "split_on c (x # xs) =
     (if x = c then [] # split_on c xs
      else case split_on c xs of p # ps \<Rightarrow> (x # p) # ps | [] \<Rightarrow> [[x]])"

text \<open>\<open>str::parse::<u64>\<close>.\<close>

definition parse_u64 :: "string \<Rightarrow> nat option" where
  "parse_u64 s =
     (let ds = (case s of c # cs \<Rightarrow> if c = CHR ''+'' then cs else s | [] \<Rightarrow> s)
      in if ds = [] then None
         else case parse_digits 0 ds of
                None \<Rightarrow> None
              | Some n \<Rightarrow> if n < 2 ^ 64 then Some n else None)"

definition hex_digit :: "nat \<Rightarrow> char" where
  "hex_digit n = (if n < 10 then char_of (48 + n) else char_of (87 + n))"

definition hex_encode :: "string \<Rightarrow> string" where
  "hex_encode bs =
     concat (map (\<lambda>c. let n = of_char c in [hex_digit (n div 16), hex_digit (n mod 16)]) bs)"

subsection \<open>Lemmas on maps\<close>

lemma im_get_insert [simp, map_simps]:
  "map_of (im_insert k v m) = (map_of m)(k \<mapsto> v)"
  by (simp add: im_insert_def update_conv')

lemma im_get_remove [simp, map_simps]:
  "map_of (im_remove k m) = (map_of m)(k := None)"
  by (induction m) (auto simp: im_remove_def fun_eq_iff)

lemma im_get_retain [map_simps]:
  assumes "im_wf m"
  shows "map_of (im_retain P m) k =
    (case map_of m k of Some v \<Rightarrow> if P k v then Some v else None | None \<Rightarrow> None)"
  using assms
  by (induction m) (auto simp: im_retain_def map_of_eq_None_iff image_iff split: option.splits)

lemma im_get_bm_insert [simp, map_simps]:
  "map_of (bm_insert k v m) = (map_of m)(k \<mapsto> v)"
  by (induction k v m rule: bm_insert.induct) (auto simp: fun_eq_iff)

lemma im_wf_insert [simp]: "im_wf m \<Longrightarrow> im_wf (im_insert k v m)"
  by (simp add: im_insert_def distinct_update)

lemma im_wf_remove [simp]: "im_wf m \<Longrightarrow> im_wf (im_remove k m)"
  by (simp add: im_remove_def distinct_map_filter)

lemma im_wf_retain [simp]: "im_wf m \<Longrightarrow> im_wf (im_retain P m)"
  by (simp add: im_retain_def distinct_map_filter)

lemma set_im_remove [simp]: "set (im_remove k m) = {p \<in> set m. fst p \<noteq> k}"
  by (auto simp: im_remove_def)

lemma set_im_retain [simp]: "set (im_retain P m) = {(k, v) \<in> set m. P k v}"
  by (auto simp: im_retain_def)

lemma keys_im_insert [simp]: "fst ` set (im_insert k v m) = insert k (fst ` set m)"
  by (auto simp: im_insert_def dom_update)

lemma set_im_insertD: "p \<in> set (im_insert k v m) \<Longrightarrow> p = (k, v) \<or> p \<in> set m"
  by (induction m) (auto simp: im_insert_def split: if_splits)

lemma im_get_in_set: "map_of m k = Some v \<Longrightarrow> (k, v) \<in> set m"
  by (rule map_of_SomeD)

lemma im_vals_insert: "v \<in> im_vals (im_insert k x m) \<Longrightarrow> v = x \<or> v \<in> im_vals m"
  by (force simp: im_vals_def dest: set_im_insertD)

lemma im_vals_get: "map_of m k = Some v \<Longrightarrow> v \<in> im_vals m"
  by (force simp: im_vals_def dest: map_of_SomeD)

lemma im_vals_fold_insert:
  "v \<in> im_vals (fold (\<lambda>p. im_insert (f p) p) ps m) \<Longrightarrow> v \<in> set ps \<or> v \<in> im_vals m"
proof (induction ps arbitrary: m)
  case (Cons p ps)
  from Cons.IH [of "im_insert (f p) p m"] Cons.prems im_vals_insert [of v "f p" p m] show ?case by auto
qed simp

lemma im_vals_Nil [simp]: "im_vals [] = {}"
  by (simp add: im_vals_def)

lemma im_vals_map: "snd ` set m = im_vals m"
  by (simp add: im_vals_def)

lemma im_in_set_get: "im_wf m \<Longrightarrow> (k, v) \<in> set m \<Longrightarrow> map_of m k = Some v"
  by simp

lemma fold_im_remove: "fold im_remove ks m = filter (\<lambda>p. fst p \<notin> set ks) m"
  by (induction ks arbitrary: m) (auto simp: im_remove_def intro: filter_cong)

lemma map_of_fold_remove [map_simps]:
  "map_of (fold im_remove ks m) k = (if k \<in> set ks then None else map_of m k)"
  by (induction ks arbitrary: m) auto

lemma map_of_map_val [map_simps]:
  "map_of (map (\<lambda>(k, v). (k, f v)) m) k = map_option f (map_of m k)"
  by (induction m) auto

lemma in_keys_filter:
  assumes "im_wf m"
  shows "k \<in> fst ` set (filter (\<lambda>(k, v). P k v) m) \<longleftrightarrow> (\<exists>v. map_of m k = Some v \<and> P k v)"
  using assms by (auto simp: image_iff dest: im_get_in_set)

lemma keys_bm_insert [simp]: "fst ` set (bm_insert k v m) = insert k (fst ` set m)"
  by (induction k v m rule: bm_insert.induct) auto

lemma bm_insert_sorted:
  "sorted_wrt (<) (map fst m) \<Longrightarrow> sorted_wrt (<) (map fst (bm_insert k v m))"
proof (induction k v m rule: bm_insert.induct)
  case (2 k v k' v' m)
  have "\<forall>x \<in> set (map fst (bm_insert k v m)). x \<in> insert k (set (map fst m))"
    by (metis keys_bm_insert set_map)
  with 2 show ?case by (auto intro: less_trans)
qed simp

lemma bm_wf_insert [simp]:
  "sorted_wrt (<) (map fst m) \<Longrightarrow> im_wf (bm_insert k v m)"
  using bm_insert_sorted [of m k v] by (simp add: strict_sorted_iff)

lemma bm_ext:
  fixes m m' :: "('k::linorder, 'v) imap"
  assumes "sorted_wrt (<) (map fst m)" "sorted_wrt (<) (map fst m')" "map_of m = map_of m'"
  shows "m = m'"
proof -
  have wf: "im_wf m" "im_wf m'" using assms by (auto simp: strict_sorted_iff)
  with assms(3) have "set m = set m'"
    by (simp add: map_of_inject_set)
  moreover have "inj_on fst (set m \<union> set m')"
    using wf \<open>set m = set m'\<close> by (simp add: distinct_map)
  ultimately show ?thesis
    using assms map_sorted_distinct_set_unique [of fst m m'] wf
    by (simp add: strict_sorted_iff)
qed

lemma bm_of_list_sorted: "sorted_wrt (<) (map fst (bm_of_list ps))"
proof -
  have "sorted_wrt (<) (map fst m) \<Longrightarrow> sorted_wrt (<) (map fst (fold (\<lambda>(k, v). bm_insert k v) ps m))" for m
    by (induction ps arbitrary: m) (auto intro: bm_insert_sorted)
  then show ?thesis by (simp add: bm_of_list_def)
qed

lemma map_of_bm_of_list:
  assumes "im_wf ps"
  shows "map_of (bm_of_list ps) = map_of ps"
proof -
  have "map_of (fold (\<lambda>(k, v). bm_insert k v) ps m) = map_of m ++ map_of ps" if "im_wf ps" for m
    using that
  proof (induction ps arbitrary: m)
    case (Cons p ps)
    then show ?case
      by (cases p) (auto simp: map_add_def fun_eq_iff map_of_eq_None_iff[symmetric] split: option.splits
          dest: map_of_SomeD)
  qed simp
  with assms show ?thesis by (simp add: bm_of_list_def)
qed

subsection \<open>Lemmas on 64-bit arithmetic\<close>

lemma wrap64_id [simp]: "is_i64 x \<Longrightarrow> wrap64 x = x"
  by (simp add: wrap64_def)

lemma wrap64_range: "is_i64 (wrap64 x)"
  by (simp add: wrap64_def)

lemma wrap64_max: "wrap64 (i64_max + 1) = - 9223372036854775808"
  by (simp add: wrap64_def)

subsection \<open>Lemmas on strings\<close>

lemma split_once_append [simp]:
  "c \<notin> set a \<Longrightarrow> split_once c (a @ c # b) = Some (a, b)"
  by (induction a) auto

lemma split_once_None_iff: "split_once c s = None \<longleftrightarrow> c \<notin> set s"
  by (induction s) auto

lemma split_once_SomeD:
  "split_once c s = Some (a, b) \<Longrightarrow> s = a @ c # b \<and> c \<notin> set a"
  by (induction s arbitrary: a) (auto split: if_splits)

lemma digit_val_digit [simp]: "d < 10 \<Longrightarrow> digit_val (digit d) = Some d"
  by (simp add: digit_val_def digit_def Let_def)

lemma parse_digits_append:
  "parse_digits acc (xs @ ys) =
     (case parse_digits acc xs of None \<Rightarrow> None | Some n \<Rightarrow> parse_digits n ys)"
  by (induction acc xs rule: parse_digits.induct) (auto split: option.splits)

lemma parse_digits_show_nat [simp]: "parse_digits 0 (show_nat n) = Some n"
proof (induction n rule: show_nat.induct)
  case (1 n)
  then show ?case
    by (cases "n < 10") (auto simp: show_nat.simps [of n] parse_digits_append)
qed

lemma show_nat_nonempty [simp]: "show_nat n \<noteq> []"
  by (subst show_nat.simps) simp

lemma set_show_nat: "set (show_nat n) \<subseteq> digit ` {0..<10}"
proof (induction n rule: show_nat.induct)
  case (1 n)
  then show ?case
    by (cases "n < 10") (auto simp: show_nat.simps [of n])
qed

lemma digit_val_in_show_nat: "c \<in> set (show_nat n) \<Longrightarrow> digit_val c \<noteq> None"
  using set_show_nat [of n] by auto

lemma not_digit_notin_show_nat: "digit_val c = None \<Longrightarrow> c \<notin> set (show_nat n)"
  using digit_val_in_show_nat by blast

lemma show_nat_inject [simp]: "show_nat m = show_nat n \<longleftrightarrow> m = n"
  by (metis option.inject parse_digits_show_nat)

lemma parse_u32_show_nat: "n < 2 ^ 32 \<Longrightarrow> parse_u32 (show_nat n) = Some n"
proof -
  assume n: "n < 2 ^ 32"
  have plus: "CHR ''+'' \<notin> set (show_nat n)"
    by (rule not_digit_notin_show_nat) (simp add: digit_val_def Let_def)
  obtain c cs where s: "show_nat n = c # cs"
    by (cases "show_nat n") auto
  with plus have "c \<noteq> CHR ''+''" by auto
  with s n show ?thesis
    using parse_digits_show_nat [of n] by (simp add: parse_u32_def Let_def)
qed

lemma parse_u64_show_nat: "n < 2 ^ 64 \<Longrightarrow> parse_u64 (show_nat n) = Some n"
proof -
  have "(case show_nat n of c # cs \<Rightarrow> if c = CHR ''+'' then cs else show_nat n | [] \<Rightarrow> show_nat n) = show_nat n"
    using not_digit_notin_show_nat [of "CHR ''+''" n] by (auto simp: digit_val_def split: list.split)
  moreover assume "n < 2 ^ 64"
  ultimately show ?thesis by (simp add: parse_u64_def)
qed

lemma split_on_nonempty [simp]: "split_on c s \<noteq> []"
  by (induction s) (auto split: list.split)

lemma join_split_on [simp]: "join [c] (split_on c s) = s"
proof (induction s)
  case (Cons x xs)
  obtain p ps where "split_on c xs = p # ps" by (cases "split_on c xs") auto
  with Cons show ?case by (cases ps) auto
qed simp

lemma set_split_on: "piece \<in> set (split_on c s) \<Longrightarrow> set piece \<subseteq> set s - {c}"
  by (induction s arbitrary: piece) (fastforce split: list.splits if_splits)+

lemma show_int_inject [simp]: "show_int a = show_int b \<longleftrightarrow> a = b"
proof
  assume eq: "show_int a = show_int b"
  have minus: "CHR ''-'' \<notin> set (show_nat n)" for n
    by (rule not_digit_notin_show_nat) (simp add: digit_val_def Let_def)
  show "a = b"
    using eq minus [of "nat a"] minus [of "nat b"]
    by (auto simp: show_int_def split: if_splits) (metis list.set_intros(1))+
qed simp

lemma of_char_hex_digit:
  "n < 16 \<Longrightarrow> of_char (hex_digit n) = (if n < 10 then 48 + n else 87 + n)"
  by (auto simp: hex_digit_def)

lemma hex_digit_inj:
  assumes "m < 16" "n < 16" "hex_digit m = hex_digit n"
  shows "m = n"
proof -
  have "(if m < 10 then 48 + m else 87 + m) = (if n < 10 then 48 + n else 87 + n)"
    using of_char_hex_digit [OF assms(1)] of_char_hex_digit [OF assms(2)] assms(3) by metis
  then show ?thesis using assms by (auto split: if_splits)
qed

lemma hex_encode_Cons:
  "hex_encode (c # cs) = hex_digit (of_char c div 16) # hex_digit (of_char c mod 16) # hex_encode cs"
  by (simp add: hex_encode_def Let_def)

lemma hex_encode_Nil [simp]: "hex_encode [] = []"
  by (simp add: hex_encode_def)

lemma hex_encode_inject [simp]: "hex_encode a = hex_encode b \<longleftrightarrow> a = b"
proof
  show "hex_encode a = hex_encode b \<Longrightarrow> a = b"
  proof (induction a arbitrary: b)
    case Nil
    then show ?case by (cases b) (simp_all add: hex_encode_Cons)
  next
    case (Cons c cs)
    then obtain d ds where b: "b = d # ds" by (cases b) (auto simp: hex_encode_Cons)
    have lt: "(of_char x :: nat) div 16 < 16" for x :: char
      using nat_of_char_less_256 [of x] by (rule less_mult_imp_div_less [of _ 16 16, simplified])
    have "(of_char c :: nat) div 16 = of_char d div 16"
      using Cons.prems b by (intro hex_digit_inj lt) (simp add: hex_encode_Cons)
    moreover have "(of_char c :: nat) mod 16 = of_char d mod 16"
      using Cons.prems b by (intro hex_digit_inj) (simp_all add: hex_encode_Cons)
    ultimately have "(of_char c :: nat) = of_char d"
      by (metis div_mult_mod_eq)
    then have "c = d" by simp
    with Cons b show ?case by (simp add: hex_encode_Cons)
  qed
qed simp

subsection \<open>Lemmas on lists\<close>

lemma distinct_set_singleton: "distinct xs \<Longrightarrow> set xs = {a} \<Longrightarrow> xs = [a]"
  by (cases xs; cases "tl xs") auto

subsection \<open>Results\<close>

definition and_then :: "'e + 'a \<Rightarrow> ('a \<Rightarrow> 'e + 'b) \<Rightarrow> 'e + 'b" where
  "and_then r f = (case r of Inl e \<Rightarrow> Inl e | Inr x \<Rightarrow> f x)"

text \<open>\<open>iter().map(f).collect::<Result<Vec<_>, _>>()\<close>: the first error wins.\<close>

fun collect_results :: "('a \<Rightarrow> 'e + 'b) \<Rightarrow> 'a list \<Rightarrow> 'e + 'b list" where
  "collect_results f [] = Inr []"
| "collect_results f (x # xs) =
     and_then (f x) (\<lambda>y. and_then (collect_results f xs) (\<lambda>ys. Inr (y # ys)))"

lemma collect_results_cong [fundef_cong]:
  "xs = ys \<Longrightarrow> (\<And>x. x \<in> set ys \<Longrightarrow> f x = g x) \<Longrightarrow> collect_results f xs = collect_results g ys"
proof (induction xs arbitrary: ys)
  case (Cons x xs)
  have "collect_results f xs = collect_results g xs" by (rule Cons.IH) (use Cons.prems in auto)
  with Cons.prems show ?case by auto
qed simp

lemma and_then_Inr [simp]: "and_then r f = Inr y \<longleftrightarrow> (\<exists>x. r = Inr x \<and> f x = Inr y)"
  by (cases r) (auto simp: and_then_def)

lemma and_then_apply [simp]: "and_then (Inr x) f = f x" "and_then (Inl e) f = Inl e"
  by (simp_all add: and_then_def)

lemma collect_results_map: "(\<And>x. x \<in> set xs \<Longrightarrow> f (g x) = Inr x) \<Longrightarrow> collect_results f (map g xs) = Inr xs"
  by (induction xs) simp_all

end
