(* ===== verification/Json.thy ===== *)
theory Json
  imports Prelude
begin

text \<open>
  JSON values as \<open>serde_json::Value\<close> has them, with the accessors the components use.
  The workspace builds \<open>serde_json\<close> with \<open>preserve_order\<close>, so an object is an insertion
  ordered map; equality of objects ignores that order, which \<open>json_eq\<close> models. A number
  is an integer of the \<open>i64\<close>/\<open>u64\<close> range or a float.
\<close>

datatype json =
    JNull
  | JBool bool
  | JInt int
  | JFloat real
  | JStr string
  | JArr "json list"
  | JObj "(string \<times> json) list"

type_synonym JsonDict = "(string, json) imap"

definition as_object :: "json \<Rightarrow> JsonDict option" where
  "as_object v = (case v of JObj m \<Rightarrow> Some m | _ \<Rightarrow> None)"

definition as_str :: "json \<Rightarrow> string option" where
  "as_str v = (case v of JStr s \<Rightarrow> Some s | _ \<Rightarrow> None)"

definition as_bool :: "json \<Rightarrow> bool option" where
  "as_bool v = (case v of JBool b \<Rightarrow> Some b | _ \<Rightarrow> None)"

definition as_i64 :: "json \<Rightarrow> int option" where
  "as_i64 v = (case v of JInt i \<Rightarrow> (if is_i64 i then Some i else None) | _ \<Rightarrow> None)"

text \<open>\<open>Value::get\<close> with a string index: the member of an object, nothing for other values.\<close>

definition jget :: "json \<Rightarrow> string \<Rightarrow> json option" where
  "jget v key = (case v of JObj m \<Rightarrow> im_get m key | _ \<Rightarrow> None)"

definition j_option :: "json option \<Rightarrow> json" where
  "j_option v = (case v of Some x \<Rightarrow> x | None \<Rightarrow> JNull)"

lemma size_in_arr: "x \<in> set xs \<Longrightarrow> size x < size (JArr xs)"
  using size_list_estimation' [of x xs "size x" size] by auto

lemma size_in_obj: "(k, v) \<in> set m \<Longrightarrow> size v < size (JObj m)"
  using size_list_estimation' [of "(k, v)" m "size v" "size_prod (\<lambda>_. 0) size"] by auto

text \<open>
  \<open>==\<close> on values: objects are equal when they have the same members, in whatever order.
\<close>

function json_eq :: "json \<Rightarrow> json \<Rightarrow> bool" where
  "json_eq a b =
     (case (a, b) of
        (JArr xs, JArr ys) \<Rightarrow> length xs = length ys \<and> list_all (\<lambda>(x, y). json_eq x y) (zip xs ys)
      | (JObj m, JObj n) \<Rightarrow>
          length m = length n \<and>
          list_all (\<lambda>(k, v). case map_of n k of Some w \<Rightarrow> json_eq v w | None \<Rightarrow> False) m
      | _ \<Rightarrow> a = b)"
  by pat_completeness auto
termination
proof (relation "measure (size \<circ> fst)", goal_cases)
  case (2 a b aa ba xs ys z x y)
  then have "x \<in> set xs" by (auto dest: set_zip_leftD)
  then show ?case using 2 size_list_estimation' [of x xs "size x" size] by auto
next
  case (3 a b aa ba m n z k v w)
  then show ?case using size_list_estimation' [of "(k, v)" m "size v" "size_prod (\<lambda>_. 0) size"] by auto
qed simp

declare json_eq.simps [simp del]

text \<open>Objects have each member once, at every level.\<close>

function json_wf :: "json \<Rightarrow> bool" where
  "json_wf v =
     (case v of
        JArr xs \<Rightarrow> list_all json_wf xs
      | JObj m \<Rightarrow> im_wf m \<and> list_all (\<lambda>(k, x). json_wf x) m
      | _ \<Rightarrow> True)"
  by pat_completeness auto
termination
proof (relation "measure size", goal_cases)
  case (2 v xs z)
  then show ?case using size_list_estimation' [of z xs "size z" size] by auto
next
  case (3 v m z k x)
  then show ?case using size_list_estimation' [of "(k, x)" m "size x" "size_prod (\<lambda>_. 0) size"] by auto
qed simp

declare json_wf.simps [simp del]

lemma json_wf_simps:
  "json_wf (JArr xs) \<longleftrightarrow> (\<forall>x \<in> set xs. json_wf x)"
  "json_wf (JObj m) \<longleftrightarrow> im_wf m \<and> (\<forall>(k, v) \<in> set m. json_wf v)"
  by (subst json_wf.simps, simp add: list_all_iff)+

lemma json_accessors [simp]:
  "as_object (JObj m) = Some m" "as_str (JStr s) = Some s" "as_bool (JBool b) = Some b"
  "jget (JObj m) k = im_get m k" "as_object JNull = None" "as_str JNull = None"
  "jget JNull k = None" "j_option None = JNull" "j_option (Some v) = v"
  by (simp_all add: as_object_def as_str_def as_bool_def jget_def j_option_def)

subsection \<open>Objects built member by member\<close>

text \<open>An object that is built by inserting its members in order, leaving out the absent ones.\<close>

definition some_members :: "(string \<times> json option) list \<Rightarrow> JsonDict" where
  "some_members fs = concat (map (\<lambda>(k, v). case v of Some x \<Rightarrow> [(k, x)] | None \<Rightarrow> []) fs)"

lemma some_members_keys: "fst ` set (some_members fs) \<subseteq> fst ` set fs"
  by (auto simp: some_members_def rev_image_eqI split: option.splits prod.splits)

lemma map_of_some_members: "distinct (map fst fs) \<Longrightarrow> map_of (some_members fs) k = Option.bind (map_of fs k) id"
proof (induction fs)
  case (Cons f fs)
  obtain k' v where f: "f = (k', v)" by (cases f)
  have "map_of (some_members fs) k' = None"
    using Cons.prems f some_members_keys [of fs] by (auto simp: map_of_eq_None_iff)
  then show ?case using Cons f by (cases v) (auto simp: some_members_def)
qed (simp add: some_members_def)

end
