(* ===== verification/Lease.thy ===== *)
theory Lease
  imports Prelude
begin

text \<open>
  The TTL lease state machine of \<open>AgentRegistry/rust-sdk/a2x-common/src/lease.rs\<close>:
  \<open>Lease\<close>, \<open>LeaseTable\<close> and its operations. A lease runs Healthy, then (TTL elapsed)
  Unhealthy, then (grace elapsed) it is deleted by \<open>sweep_tick\<close>.

  Times are seconds on the monotonic clock. An operation's \<open>now\<close> argument is the
  caller's override; \<open>clk\<close> is what \<open>monotonic_now\<close> returns during the call. The
  \<open>f64\<close> seconds are real numbers, so rounding is not modelled.
\<close>

subsection \<open>Data\<close>

datatype LeaseState = Healthy | Unhealthy

record Lease =
  ttl_seconds :: nat
  grace_period_seconds :: nat
  expires_at :: real
  grace_deadline :: real
  last_renew_at :: real
  lease_state :: LeaseState

type_synonym 'k LeaseTable = "('k, Lease) imap"

subsection \<open>Operations\<close>

definition expires_at_wall :: "Lease \<Rightarrow> real \<Rightarrow> real \<Rightarrow> real" where
  "expires_at_wall l now_wall now_monotonic = now_wall + (expires_at l - now_monotonic)"

definition resolve_now :: "real option \<Rightarrow> real \<Rightarrow> real" where
  "resolve_now now clk = (case now of Some t \<Rightarrow> t | None \<Rightarrow> clk)"

definition LeaseTable_new :: "'k LeaseTable" where
  "LeaseTable_new = []"

definition LeaseTable_install ::
  "'k LeaseTable \<Rightarrow> 'k \<Rightarrow> nat \<Rightarrow> nat \<Rightarrow> bool \<Rightarrow> real option \<Rightarrow> real \<Rightarrow> Lease \<times> 'k LeaseTable" where
  "LeaseTable_install t key ttl grace expired now clk =
     (let n = resolve_now now clk;
          lease = (if expired
                   then \<lparr> ttl_seconds = ttl, grace_period_seconds = grace, expires_at = n,
                          grace_deadline = n + real grace, last_renew_at = n,
                          lease_state = Unhealthy \<rparr>
                   else \<lparr> ttl_seconds = ttl, grace_period_seconds = grace,
                          expires_at = n + real ttl,
                          grace_deadline = n + real ttl + real grace, last_renew_at = n,
                          lease_state = Healthy \<rparr>)
      in (lease, im_insert key lease t))"

definition LeaseTable_renew ::
  "'k LeaseTable \<Rightarrow> 'k \<Rightarrow> real option \<Rightarrow> real \<Rightarrow> Lease option \<times> 'k LeaseTable" where
  "LeaseTable_renew t key now clk =
     (let n = resolve_now now clk in
      case im_get t key of
        None \<Rightarrow> (None, t)
      | Some l \<Rightarrow>
          let ex = n + real (ttl_seconds l);
              l' = l\<lparr> last_renew_at := n, expires_at := ex,
                      grace_deadline := ex + real (grace_period_seconds l),
                      lease_state := Healthy \<rparr>
          in (Some l', im_insert key l' t))"

definition LeaseTable_revoke ::
  "'k LeaseTable \<Rightarrow> 'k \<Rightarrow> bool \<Rightarrow> real option \<Rightarrow> real \<Rightarrow> bool \<times> 'k LeaseTable" where
  "LeaseTable_revoke t key permanent now clk =
     (let n = resolve_now now clk in
      case im_get t key of
        None \<Rightarrow> (False, t)
      | Some l \<Rightarrow>
          if permanent then (True, im_remove key t)
          else (True, im_insert key
                  (l\<lparr> lease_state := Unhealthy, expires_at := n,
                      grace_deadline := n + real (grace_period_seconds l) \<rparr>) t))"

definition LeaseTable_drop_key :: "'k LeaseTable \<Rightarrow> 'k \<Rightarrow> 'k LeaseTable" where
  "LeaseTable_drop_key t key = im_remove key t"

definition LeaseTable_get :: "'k LeaseTable \<Rightarrow> 'k \<Rightarrow> Lease option" where
  "LeaseTable_get t key = im_get t key"

definition LeaseTable_is_unhealthy :: "'k LeaseTable \<Rightarrow> 'k \<Rightarrow> bool" where
  "LeaseTable_is_unhealthy t key =
     (case im_get t key of Some l \<Rightarrow> lease_state l = Unhealthy | None \<Rightarrow> False)"

definition LeaseTable_contains :: "'k LeaseTable \<Rightarrow> 'k \<Rightarrow> bool" where
  "LeaseTable_contains t key = im_contains t key"

definition LeaseTable_len :: "'k LeaseTable \<Rightarrow> nat" where
  "LeaseTable_len t = length t"

definition LeaseTable_items :: "'k LeaseTable \<Rightarrow> ('k \<times> Lease) list" where
  "LeaseTable_items t = t"

text \<open>The first loop of \<open>sweep_tick\<close>: it marks leases and collects the two key lists.\<close>

fun sweep_scan :: "real \<Rightarrow> 'k LeaseTable \<Rightarrow> 'k list \<times> 'k list \<times> 'k LeaseTable" where
  "sweep_scan now [] = ([], [], [])"
| "sweep_scan now ((key, l) # rest) =
     (let (nu, td, t) = sweep_scan now rest;
          newly = (lease_state l = Healthy \<and> expires_at l \<le> now);
          l' = (if newly then l\<lparr> lease_state := Unhealthy \<rparr> else l);
          del = (lease_state l' = Unhealthy \<and> grace_deadline l' \<le> now)
      in (if newly then key # nu else nu, if del then key # td else td, (key, l') # t))"

definition LeaseTable_sweep_tick ::
  "'k LeaseTable \<Rightarrow> real option \<Rightarrow> real \<Rightarrow> ('k list \<times> 'k list) \<times> 'k LeaseTable" where
  "LeaseTable_sweep_tick t now clk =
     (let (newly_unhealthy, to_delete, t') = sweep_scan (resolve_now now clk) t
      in ((newly_unhealthy, to_delete), fold im_remove to_delete t'))"

subsection \<open>The abstract lease: what one operation does to one lease\<close>

text \<open>
  \<open>aged now l\<close> is what a sweep at \<open>now\<close> leaves of the lease \<open>l\<close>; \<open>None\<close> means that the
  lease is hard deleted.
\<close>

definition aged :: "real \<Rightarrow> Lease \<Rightarrow> Lease option" where
  "aged now l =
     (if grace_deadline l \<le> now then None
      else if expires_at l \<le> now then Some (l\<lparr> lease_state := Unhealthy \<rparr>)
      else Some l)"

definition lease_wf :: "Lease \<Rightarrow> bool" where
  "lease_wf l =
     (grace_deadline l = expires_at l + real (grace_period_seconds l) \<and>
      (lease_state l = Healthy \<longrightarrow> expires_at l = last_renew_at l + real (ttl_seconds l)))"

definition table_wf :: "'k LeaseTable \<Rightarrow> bool" where
  "table_wf t = (im_wf t \<and> (\<forall>l \<in> snd ` set t. lease_wf l))"

text \<open>Timed operations, to state what a whole history does to a table.\<close>

datatype 'k lease_op =
    OpInstall 'k nat nat bool
  | OpRenew 'k
  | OpRevoke 'k bool
  | OpDrop 'k
  | OpSweep

fun lease_exec :: "'k LeaseTable \<Rightarrow> real \<times> 'k lease_op \<Rightarrow> 'k LeaseTable" where
  "lease_exec t (n, OpInstall k ttl grace e) = snd (LeaseTable_install t k ttl grace e (Some n) n)"
| "lease_exec t (n, OpRenew k) = snd (LeaseTable_renew t k (Some n) n)"
| "lease_exec t (n, OpRevoke k p) = snd (LeaseTable_revoke t k p (Some n) n)"
| "lease_exec t (n, OpDrop k) = LeaseTable_drop_key t k"
| "lease_exec t (n, OpSweep) = snd (LeaseTable_sweep_tick t (Some n) n)"

text \<open>An operation that can shorten or remove the lease of \<open>k\<close> other than by a sweep.\<close>

fun ends_lease :: "'k \<Rightarrow> 'k lease_op \<Rightarrow> bool" where
  "ends_lease k (OpInstall k' _ _ _) = (k' = k)"
| "ends_lease k (OpRevoke k' _) = (k' = k)"
| "ends_lease k (OpDrop k') = (k' = k)"
| "ends_lease k _ = False"

subsection \<open>Sweeping\<close>

lemma resolve_now_simps [simp]:
  "resolve_now (Some t) clk = t" "resolve_now None clk = clk"
  by (simp_all add: resolve_now_def)

lemma sweep_scan_keys: "map fst (snd (snd (sweep_scan now t))) = map fst t"
  by (induction now t rule: sweep_scan.induct) (auto simp: Let_def split: prod.splits)

definition marked :: "real \<Rightarrow> Lease \<Rightarrow> Lease" where
  "marked now l =
     (if lease_state l = Healthy \<and> expires_at l \<le> now then l\<lparr> lease_state := Unhealthy \<rparr> else l)"

lemma sweep_scan_eq:
  "sweep_scan now t =
     (map fst (filter (\<lambda>(k, l). lease_state l = Healthy \<and> expires_at l \<le> now) t),
      map fst (filter (\<lambda>(k, l). lease_state (marked now l) = Unhealthy \<and> grace_deadline l \<le> now) t),
      map (\<lambda>(k, l). (k, marked now l)) t)"
proof (induction now t rule: sweep_scan.induct)
  case (2 now key l rest)
  then show ?case by (auto simp: marked_def Let_def)
qed simp

lemma marked_wf: "lease_wf l \<Longrightarrow> lease_wf (marked now l)"
  by (auto simp: lease_wf_def marked_def)

lemma aged_marked:
  assumes "lease_wf l"
  shows "aged now l =
    (if lease_state (marked now l) = Unhealthy \<and> grace_deadline l \<le> now then None
     else Some (marked now l))"
  using assms by (cases "lease_state l") (auto simp: aged_def marked_def lease_wf_def)

lemma table_wfD: "table_wf t \<Longrightarrow> map_of t k = Some l \<Longrightarrow> lease_wf l"
  by (force simp: table_wf_def dest: map_of_SomeD)

lemma sweep_refines_aged:
  assumes "table_wf t"
  shows "map_of (snd (LeaseTable_sweep_tick t now clk)) k =
    Option.bind (map_of t k) (aged (resolve_now now clk))"
proof -
  let ?n = "resolve_now now clk"
  let ?due = "\<lambda>l. lease_state (marked ?n l) = Unhealthy \<and> grace_deadline l \<le> ?n"
  let ?gone = "fst ` set (filter (\<lambda>(k, l). ?due l) t)"
  have tick: "map_of (snd (LeaseTable_sweep_tick t now clk)) k =
      (if k \<in> ?gone then None else map_option (marked ?n) (map_of t k))"
    by (simp add: LeaseTable_sweep_tick_def sweep_scan_eq map_of_fold_remove map_of_map_val)
  show ?thesis
  proof (cases "map_of t k")
    case None
    with tick show ?thesis by simp
  next
    case (Some l)
    from assms have "im_wf t" by (simp add: table_wf_def)
    with Some have "k \<in> ?gone \<longleftrightarrow> ?due l"
      using in_keys_filter [of t k "\<lambda>_. ?due"] by simp
    with tick Some aged_marked [OF table_wfD [OF assms Some], of ?n] show ?thesis
      by auto
  qed
qed

lemma sweep_reports_deleted:
  assumes "table_wf t"
  shows "k \<in> set (snd (fst (LeaseTable_sweep_tick t now clk))) \<longleftrightarrow>
    (\<exists>l. map_of t k = Some l \<and> grace_deadline l \<le> resolve_now now clk)"
proof -
  let ?n = "resolve_now now clk"
  let ?due = "\<lambda>_ l. lease_state (marked ?n l) = Unhealthy \<and> grace_deadline l \<le> ?n"
  from assms have "im_wf t" by (simp add: table_wf_def)
  then have "k \<in> set (snd (fst (LeaseTable_sweep_tick t now clk))) \<longleftrightarrow>
      (\<exists>l. map_of t k = Some l \<and> ?due k l)"
    using in_keys_filter [of t k ?due] by (simp add: LeaseTable_sweep_tick_def sweep_scan_eq)
  moreover have "?due k l \<longleftrightarrow> grace_deadline l \<le> ?n" if "map_of t k = Some l" for l
    using table_wfD [OF assms that] by (cases "lease_state l") (auto simp: lease_wf_def marked_def)
  ultimately show ?thesis by blast
qed

lemma sweep_reports_unhealthy:
  assumes "table_wf t"
  shows "k \<in> set (fst (fst (LeaseTable_sweep_tick t now clk))) \<longleftrightarrow>
    (\<exists>l. map_of t k = Some l \<and> lease_state l = Healthy \<and> expires_at l \<le> resolve_now now clk)"
proof -
  from assms have "im_wf t" by (simp add: table_wf_def)
  then show ?thesis
    using in_keys_filter [of t k "\<lambda>_ l. lease_state l = Healthy \<and> expires_at l \<le> resolve_now now clk"]
    by (simp add: LeaseTable_sweep_tick_def sweep_scan_eq)
qed

subsection \<open>Every operation keeps the table well formed\<close>

lemma table_wf_insert: "table_wf t \<Longrightarrow> lease_wf l \<Longrightarrow> table_wf (im_insert k l t)"
  unfolding table_wf_def by (force dest: set_im_insertD)

lemma table_wf_remove: "table_wf t \<Longrightarrow> table_wf (im_remove k t)"
  unfolding table_wf_def by auto

lemma table_wf_new [simp]: "table_wf LeaseTable_new"
  by (simp add: table_wf_def LeaseTable_new_def)

lemma table_wf_install: "table_wf t \<Longrightarrow> table_wf (snd (LeaseTable_install t k ttl grace e now clk))"
  by (auto simp: LeaseTable_install_def Let_def lease_wf_def intro!: table_wf_insert)

lemma table_wf_renew: "table_wf t \<Longrightarrow> table_wf (snd (LeaseTable_renew t k now clk))"
  by (auto simp: LeaseTable_renew_def Let_def lease_wf_def intro!: table_wf_insert split: option.splits)

lemma table_wf_revoke: "table_wf t \<Longrightarrow> table_wf (snd (LeaseTable_revoke t k p now clk))"
  by (auto simp: LeaseTable_revoke_def Let_def lease_wf_def intro!: table_wf_insert table_wf_remove
      split: option.splits)

lemma table_wf_sweep:
  assumes "table_wf t"
  shows "table_wf (snd (LeaseTable_sweep_tick t now clk))"
proof -
  have "im_wf (map (\<lambda>(k, l). (k, marked (resolve_now now clk) l)) t)"
    using assms by (simp add: table_wf_def comp_def case_prod_beta)
  with assms show ?thesis
    by (auto simp: LeaseTable_sweep_tick_def sweep_scan_eq fold_im_remove table_wf_def
        intro!: distinct_map_filter marked_wf)
qed

lemmas table_wf_ops =
  table_wf_install table_wf_renew table_wf_revoke table_wf_remove table_wf_sweep

lemma table_wf_exec: "table_wf t \<Longrightarrow> table_wf (lease_exec t op)"
  by (cases "(t, op)" rule: lease_exec.cases) (auto simp: LeaseTable_drop_key_def intro: table_wf_ops)

lemma table_wf_run: "table_wf t \<Longrightarrow> table_wf (foldl lease_exec t ops)"
  by (induction ops arbitrary: t) (auto intro: table_wf_exec)

subsection \<open>The lease-store interface\<close>

text \<open>
  What a client of a lease table relies on: how a lookup reads each operation. The
  survival and expiry of a lease follow from these laws alone.
\<close>

locale lease_store =
  fixes lookup :: "'t \<Rightarrow> 'k \<Rightarrow> Lease option"
    and exec :: "'t \<Rightarrow> real \<times> 'k lease_op \<Rightarrow> 't"
    and inv :: "'t \<Rightarrow> bool"
  assumes inv_exec: "inv t \<Longrightarrow> inv (exec t a)"
    and inv_lease: "inv t \<Longrightarrow> lookup t k = Some l \<Longrightarrow> lease_wf l"
    and lookup_sweep: "inv t \<Longrightarrow> lookup (exec t (n, OpSweep)) k = Option.bind (lookup t k) (aged n)"
    and lookup_renew: "inv t \<Longrightarrow> lookup t k = Some l \<Longrightarrow>
      \<exists>l'. lookup (exec t (n, OpRenew k)) k = Some l' \<and>
        grace_deadline l' = n + real (ttl_seconds l) + real (grace_period_seconds l) \<and>
        ttl_seconds l' = ttl_seconds l \<and> grace_period_seconds l' = grace_period_seconds l"
    and lookup_other: "inv t \<Longrightarrow> \<not> ends_lease k op \<Longrightarrow> op \<noteq> OpSweep \<Longrightarrow> op \<noteq> OpRenew k \<Longrightarrow>
      lookup (exec t (n, op)) k = lookup t k"
begin

lemma survives_step:
  assumes "inv t" "lookup t k = Some l" "\<not> ends_lease k op"
    and "n < d" "d \<le> grace_deadline l" "op = OpRenew k \<Longrightarrow> d \<le> n + real (ttl_seconds l) + real (grace_period_seconds l)"
  shows "\<exists>l'. lookup (exec t (n, op)) k = Some l' \<and> d \<le> grace_deadline l' \<and>
    ttl_seconds l' = ttl_seconds l \<and> grace_period_seconds l' = grace_period_seconds l"
proof -
  consider "op = OpSweep" | "op = OpRenew k" | "op \<noteq> OpSweep" "op \<noteq> OpRenew k" by blast
  then show ?thesis
  proof cases
    case 1
    with assms show ?thesis by (auto simp: lookup_sweep aged_def)
  next
    case 2
    with lookup_renew [OF assms(1,2), of n] assms(6) show ?thesis by auto
  next
    case 3
    with assms show ?thesis by (auto simp: lookup_other)
  qed
qed

lemma survives_run:
  assumes "inv t" "lookup t k = Some l" "d \<le> grace_deadline l"
    and "\<forall>(n, op) \<in> set ops. \<not> ends_lease k op \<and> n < d \<and>
      (op = OpRenew k \<longrightarrow> d \<le> n + real (ttl_seconds l) + real (grace_period_seconds l))"
  shows "\<exists>l'. lookup (foldl exec t ops) k = Some l'"
  using assms
proof (induction ops arbitrary: t l)
  case (Cons a ops)
  obtain n op where a: "a = (n, op)" by (cases a)
  from Cons.prems a have "\<exists>l'. lookup (exec t (n, op)) k = Some l' \<and> d \<le> grace_deadline l' \<and>
      ttl_seconds l' = ttl_seconds l \<and> grace_period_seconds l' = grace_period_seconds l"
    by (intro survives_step) auto
  then obtain l' where l': "lookup (exec t (n, op)) k = Some l'" "d \<le> grace_deadline l'"
    "ttl_seconds l' = ttl_seconds l" "grace_period_seconds l' = grace_period_seconds l" by blast
  show ?case
    using Cons.IH [OF inv_exec [OF Cons.prems(1)] l'(1,2)] Cons.prems(4) a l'(3,4) by auto
qed simp

lemma expires_at_deadline:
  assumes "inv t" "lookup t k = Some l" "grace_deadline l \<le> n"
  shows "lookup (exec t (n, OpSweep)) k = None"
  using assms by (simp add: lookup_sweep aged_def)

end

interpretation lt: lease_store LeaseTable_get lease_exec table_wf
proof
  fix t :: "'k LeaseTable" and k l n
  fix op :: "'k lease_op"
  assume wf: "table_wf t"
  show "LeaseTable_get (lease_exec t (n, OpSweep)) k = Option.bind (LeaseTable_get t k) (aged n)"
    using sweep_refines_aged [OF wf, of "Some n" n k] by (simp add: LeaseTable_get_def)
  show "LeaseTable_get t k = Some l \<Longrightarrow> lease_wf l"
    using wf by (simp add: LeaseTable_get_def table_wfD)
  show "LeaseTable_get t k = Some l \<Longrightarrow>
      \<exists>l'. LeaseTable_get (lease_exec t (n, OpRenew k)) k = Some l' \<and>
        grace_deadline l' = n + real (ttl_seconds l) + real (grace_period_seconds l) \<and>
        ttl_seconds l' = ttl_seconds l \<and> grace_period_seconds l' = grace_period_seconds l"
    by (simp add: LeaseTable_get_def LeaseTable_renew_def Let_def)
  show "\<not> ends_lease k op \<Longrightarrow> op \<noteq> OpSweep \<Longrightarrow> op \<noteq> OpRenew k \<Longrightarrow>
      LeaseTable_get (lease_exec t (n, op)) k = LeaseTable_get t k"
    by (cases op) (auto simp: LeaseTable_get_def LeaseTable_install_def LeaseTable_renew_def
        LeaseTable_revoke_def LeaseTable_drop_key_def Let_def split: option.splits)
qed (rule table_wf_exec)

subsection \<open>Properties\<close>

text \<open>
  One sweep of a well-formed table does exactly what the two-stage expiry says, for
  every key: a lease whose grace deadline is reached is gone and reported for hard
  deletion, a lease whose TTL is reached is left Unhealthy (and reported the first
  time), every other lease is untouched.
\<close>

lemma sweep_tick_correct:
  assumes "table_wf t" "LeaseTable_sweep_tick t now clk = ((newly, gone), t')"
  shows "LeaseTable_get t' k = Option.bind (LeaseTable_get t k) (aged (resolve_now now clk)) \<and>
    (k \<in> set gone \<longleftrightarrow> (\<exists>l. LeaseTable_get t k = Some l \<and> grace_deadline l \<le> resolve_now now clk)) \<and>
    (k \<in> set newly \<longleftrightarrow> (\<exists>l. LeaseTable_get t k = Some l \<and> lease_state l = Healthy \<and>
       expires_at l \<le> resolve_now now clk))"
  using sweep_refines_aged [OF assms(1), of now clk k] sweep_reports_deleted [OF assms(1), of k now clk]
    sweep_reports_unhealthy [OF assms(1), of k now clk] assms(2)
  by (simp add: LeaseTable_get_def)

lemma sweep_tick_correct_witness:
  "let t = snd (LeaseTable_install LeaseTable_new ''a'' 10 5 False (Some 0) 0)
   in fst (LeaseTable_sweep_tick t (Some 15) 0) = ([''a''], [''a'']) \<and>
      LeaseTable_get (snd (LeaseTable_sweep_tick t (Some 15) 0)) ''a'' = None"
proof -
  define t where "t = snd (LeaseTable_install LeaseTable_new ''a'' 10 5 False (Some 0) 0)"
  have wf: "table_wf t" unfolding t_def by (intro table_wf_install table_wf_new)
  have tick: "LeaseTable_sweep_tick t (Some 15) 0 =
      (([''a''], [''a'']), snd (LeaseTable_sweep_tick t (Some 15) 0))"
    by (simp add: t_def LeaseTable_sweep_tick_def LeaseTable_install_def LeaseTable_new_def
        im_insert_def Let_def)
  have "LeaseTable_get t ''a'' = Some \<lparr> ttl_seconds = 10, grace_period_seconds = 5, expires_at = 10,
      grace_deadline = 15, last_renew_at = 0, lease_state = Healthy \<rparr>"
    by (simp add: t_def LeaseTable_install_def LeaseTable_get_def Let_def)
  then have "LeaseTable_get (snd (LeaseTable_sweep_tick t (Some 15) 0)) ''a'' = None"
    using sweep_tick_correct [OF wf tick, of "''a''"] by (simp add: aged_def)
  moreover have "fst (LeaseTable_sweep_tick t (Some 15) 0) = ([''a''], [''a''])"
    by (subst tick) simp
  ultimately show ?thesis by (simp add: t_def [symmetric])
qed



end
