(* ===== verification/Heartbeat.thy ===== *)
theory Heartbeat
  imports Lease
begin

text \<open>
  The registry's heartbeat module (\<open>a2x-registry/src/heartbeat\<close>): \<open>HeartbeatStore\<close>, which
  validates the TTL a client asks for against the namespace's \<open>LeaseConfig\<close> and keeps one
  lease per \<open>(dataset, service_id)\<close> in a \<open>LeaseTable\<close>, and \<open>HeartbeatSweeper\<close>, which hands
  the lapsed services to a \<open>HardDeleter\<close>.

  The state of a \<open>HeartbeatStore\<close> is its lease table. The \<open>LeaseConfigProvider\<close> is the
  function argument \<open>cfg\<close>, and \<open>clk\<close> is the reading of the monotonic clock. A
  \<open>HardDeleter\<close> is a function \<open>del\<close> on a state of its own.
\<close>

subsection \<open>Data\<close>

record LeaseConfig =
  enabled :: bool
  min_ttl :: int
  max_ttl :: int
  grace_period :: int
  schema_version :: int

definition LeaseConfig_default :: LeaseConfig where
  "LeaseConfig_default =
     \<lparr> enabled = False, min_ttl = 10, max_ttl = 3600, grace_period = 300, schema_version = 1 \<rparr>"

datatype HeartbeatErrorCode = NotSupported | TtlRequired | TtlOutOfRange

record HeartbeatError =
  he_code :: HeartbeatErrorCode
  he_message :: string
  he_min_ttl :: "int option"
  he_max_ttl :: "int option"

type_synonym LeaseKey = "string \<times> string"
type_synonym HeartbeatStore = "LeaseKey LeaseTable"
type_synonym LeaseConfigProvider = "string \<Rightarrow> LeaseConfig"

definition HeartbeatErrorCode_as_str :: "HeartbeatErrorCode \<Rightarrow> string" where
  "HeartbeatErrorCode_as_str c =
     (case c of NotSupported \<Rightarrow> ''heartbeat_not_supported''
      | TtlRequired \<Rightarrow> ''ttl_required''
      | TtlOutOfRange \<Rightarrow> ''ttl_out_of_range'')"

definition HeartbeatError_not_supported :: "string \<Rightarrow> HeartbeatError" where
  "HeartbeatError_not_supported message =
     \<lparr> he_code = NotSupported, he_message = message, he_min_ttl = None, he_max_ttl = None \<rparr>"

subsection \<open>Operations of \<open>HeartbeatStore\<close>\<close>

definition HeartbeatStore_validate ::
  "LeaseConfigProvider \<Rightarrow> string \<Rightarrow> int option \<Rightarrow> HeartbeatError + int option" where
  "HeartbeatStore_validate cfg dataset client_ttl =
     (let c = cfg dataset in
      if \<not> enabled c then
        (case client_ttl of
           None \<Rightarrow> Inr None
         | Some _ \<Rightarrow> Inl (HeartbeatError_not_supported
             (''Namespace '' @ quoted dataset @ '' does not enable heartbeat leases. Remove '' @
              quoted ''lease_ttl'' @ '' from the request or ask admin to enable it.'')))
      else
        (let mn = min_ttl c; mx = max_ttl c;
             range = ''['' @ show_int mn @ '', '' @ show_int mx @ '']'' in
         case client_ttl of
           None \<Rightarrow> Inl \<lparr> he_code = TtlRequired,
             he_message = ''Namespace '' @ quoted dataset @ '' requires '' @ quoted ''lease_ttl'' @
               '' on registration; allowed range '' @ range @ ''.'',
             he_min_ttl = Some mn, he_max_ttl = Some mx \<rparr>
         | Some ttl \<Rightarrow>
             if ttl < mn \<or> ttl > mx then
               Inl \<lparr> he_code = TtlOutOfRange,
                 he_message = ''lease_ttl='' @ show_int ttl @ '' out of range '' @ range @
                   '' for namespace '' @ quoted dataset @ ''.'',
                 he_min_ttl = Some mn, he_max_ttl = Some mx \<rparr>
             else Inr (Some ttl)))"

definition HeartbeatStore_grace :: "LeaseConfigProvider \<Rightarrow> string \<Rightarrow> nat" where
  "HeartbeatStore_grace cfg dataset = nat (max (grace_period (cfg dataset)) 0)"

definition HeartbeatStore_install ::
  "LeaseConfigProvider \<Rightarrow> HeartbeatStore \<Rightarrow> string \<Rightarrow> string \<Rightarrow> int \<Rightarrow> real \<Rightarrow> Lease \<times> HeartbeatStore" where
  "HeartbeatStore_install cfg s dataset service_id ttl clk =
     LeaseTable_install s (dataset, service_id) (nat (max ttl 0))
       (HeartbeatStore_grace cfg dataset) False None clk"

definition HeartbeatStore_grant ::
  "LeaseConfigProvider \<Rightarrow> HeartbeatStore \<Rightarrow> string \<Rightarrow> string \<Rightarrow> int option \<Rightarrow> real \<Rightarrow>
     (HeartbeatError + Lease option) \<times> HeartbeatStore" where
  "HeartbeatStore_grant cfg s dataset service_id client_ttl clk =
     (case HeartbeatStore_validate cfg dataset client_ttl of
        Inl e \<Rightarrow> (Inl e, s)
      | Inr None \<Rightarrow> (Inr None, s)
      | Inr (Some ttl) \<Rightarrow>
          (let (l, s') = HeartbeatStore_install cfg s dataset service_id ttl clk
           in (Inr (Some l), s')))"

definition HeartbeatStore_heartbeat_at ::
  "HeartbeatStore \<Rightarrow> string \<Rightarrow> string \<Rightarrow> real option \<Rightarrow> real \<Rightarrow> Lease option \<times> HeartbeatStore" where
  "HeartbeatStore_heartbeat_at s dataset service_id now clk =
     LeaseTable_renew s (dataset, service_id) now clk"

definition HeartbeatStore_heartbeat ::
  "HeartbeatStore \<Rightarrow> string \<Rightarrow> string \<Rightarrow> real \<Rightarrow> Lease option \<times> HeartbeatStore" where
  "HeartbeatStore_heartbeat s dataset service_id clk =
     HeartbeatStore_heartbeat_at s dataset service_id None clk"

definition HeartbeatStore_revoke ::
  "HeartbeatStore \<Rightarrow> string \<Rightarrow> string \<Rightarrow> bool \<Rightarrow> real \<Rightarrow> bool \<times> HeartbeatStore" where
  "HeartbeatStore_revoke s dataset service_id permanent clk =
     LeaseTable_revoke s (dataset, service_id) permanent None clk"

definition HeartbeatStore_drop_lease :: "HeartbeatStore \<Rightarrow> string \<Rightarrow> string \<Rightarrow> HeartbeatStore" where
  "HeartbeatStore_drop_lease s dataset service_id = LeaseTable_drop_key s (dataset, service_id)"

definition HeartbeatStore_is_unhealthy :: "HeartbeatStore \<Rightarrow> string \<Rightarrow> string \<Rightarrow> bool" where
  "HeartbeatStore_is_unhealthy s dataset service_id =
     LeaseTable_is_unhealthy s (dataset, service_id)"

definition HeartbeatStore_get_lease :: "HeartbeatStore \<Rightarrow> string \<Rightarrow> string \<Rightarrow> Lease option" where
  "HeartbeatStore_get_lease s dataset service_id = LeaseTable_get s (dataset, service_id)"

definition HeartbeatStore_list_leases :: "HeartbeatStore \<Rightarrow> (string \<times> string \<times> Lease) list" where
  "HeartbeatStore_list_leases s = map (\<lambda>((ds, sid), l). (ds, sid, l)) (LeaseTable_items s)"

definition HeartbeatStore_sweep_tick ::
  "HeartbeatStore \<Rightarrow> real option \<Rightarrow> real \<Rightarrow> (LeaseKey list \<times> LeaseKey list) \<times> HeartbeatStore" where
  "HeartbeatStore_sweep_tick s now clk = LeaseTable_sweep_tick s now clk"

text \<open>Every installation reads the clock; \<open>clk i\<close> is the reading of the \<open>i\<close>-th entry.\<close>

fun HeartbeatStore_recover_from_persisted ::
  "LeaseConfigProvider \<Rightarrow> HeartbeatStore \<Rightarrow> (string \<times> string \<times> int) list \<Rightarrow> (nat \<Rightarrow> real) \<Rightarrow> HeartbeatStore"
where
  "HeartbeatStore_recover_from_persisted cfg s [] clk = s"
| "HeartbeatStore_recover_from_persisted cfg s ((dataset, sid, ttl) # es) clk =
     HeartbeatStore_recover_from_persisted cfg
       (snd (LeaseTable_install s (dataset, sid) (nat (max ttl 0))
          (HeartbeatStore_grace cfg dataset) True None (clk 0))) es (\<lambda>i. clk (Suc i))"

subsection \<open>The sweeper\<close>

type_synonym 'd hard_deleter = "'d \<Rightarrow> string \<Rightarrow> string \<Rightarrow> (string + unit) \<times> 'd"

fun hard_delete_all :: "'d hard_deleter \<Rightarrow> LeaseKey list \<Rightarrow> 'd \<Rightarrow> 'd" where
  "hard_delete_all del [] d = d"
| "hard_delete_all del ((dataset, sid) # ks) d =
     (case del d dataset sid of
        (Inr _, d') \<Rightarrow> hard_delete_all del ks d'
      | (Inl _, d') \<Rightarrow> hard_delete_all del ks d')"

definition HeartbeatSweeper_sweep_once_at ::
  "'d hard_deleter \<Rightarrow> HeartbeatStore \<Rightarrow> 'd \<Rightarrow> real option \<Rightarrow> real \<Rightarrow> HeartbeatStore \<times> 'd" where
  "HeartbeatSweeper_sweep_once_at del s d now clk =
     (let ((_, to_hard_delete), s') = HeartbeatStore_sweep_tick s now clk
      in (s', hard_delete_all del to_hard_delete d))"

subsection \<open>Lemmas\<close>

lemma validate_Inr_iff:
  "HeartbeatStore_validate cfg dataset client_ttl = Inr r \<longleftrightarrow>
     (\<not> enabled (cfg dataset) \<and> client_ttl = None \<and> r = None) \<or>
     (enabled (cfg dataset) \<and>
        (\<exists>ttl. client_ttl = Some ttl \<and> r = Some ttl \<and>
           min_ttl (cfg dataset) \<le> ttl \<and> ttl \<le> max_ttl (cfg dataset)))"
  by (auto simp: HeartbeatStore_validate_def Let_def split: option.splits if_splits)

lemma sweep_scan_distinct:
  "im_wf t \<Longrightarrow> distinct (snd (fst (LeaseTable_sweep_tick t now clk)))"
  by (simp add: LeaseTable_sweep_tick_def sweep_scan_eq distinct_map_filter)

text \<open>The counting deleter of the sweeper's tests, which records every call.\<close>

definition recording_deleter :: "LeaseKey list hard_deleter" where
  "recording_deleter calls dataset sid = (Inr (), calls @ [(dataset, sid)])"

lemma hard_delete_all_recording: "hard_delete_all recording_deleter ks calls = calls @ ks"
  by (induction ks arbitrary: calls) (auto simp: recording_deleter_def)

lemma recover_get_other:
  "(ds, sid) \<notin> (\<lambda>(d, i, t). (d, i)) ` set es \<Longrightarrow>
   LeaseTable_get (HeartbeatStore_recover_from_persisted cfg s es clk) (ds, sid) = LeaseTable_get s (ds, sid)"
  by (induction cfg s es clk rule: HeartbeatStore_recover_from_persisted.induct)
    (auto simp: LeaseTable_get_def LeaseTable_install_def Let_def image_iff)

subsection \<open>Properties\<close>

text \<open>
  The four-corner TTL matrix, both ways: \<open>grant\<close> succeeds exactly when the namespace has
  heartbeats off and the client sent no TTL (a permanent service, no lease), or has them
  on and the TTL is inside the namespace's bounds; in that case the granted lease is
  Healthy, runs out after the TTL and is deleted after the namespace's grace on top, and no
  other lease changes. On an error the store is unchanged.
\<close>

lemma grant_correct:
  "case HeartbeatStore_grant cfg s dataset sid client_ttl clk of
     (Inl e, s') \<Rightarrow> s' = s \<and>
       (if enabled (cfg dataset)
        then (client_ttl = None \<and> he_code e = TtlRequired) \<or>
             (\<exists>ttl. client_ttl = Some ttl \<and> he_code e = TtlOutOfRange \<and>
                (ttl < min_ttl (cfg dataset) \<or> max_ttl (cfg dataset) < ttl))
        else client_ttl \<noteq> None \<and> he_code e = NotSupported)
   | (Inr None, s') \<Rightarrow> s' = s \<and> \<not> enabled (cfg dataset) \<and> client_ttl = None
   | (Inr (Some l), s') \<Rightarrow> enabled (cfg dataset) \<and>
       (\<exists>ttl. client_ttl = Some ttl \<and> min_ttl (cfg dataset) \<le> ttl \<and> ttl \<le> max_ttl (cfg dataset) \<and>
          lease_state l = Healthy \<and> expires_at l = clk + real (nat ttl) \<and>
          grace_deadline l = clk + real (nat ttl) + real (nat (grace_period (cfg dataset)))) \<and>
       (\<forall>d i. HeartbeatStore_get_lease s' d i =
          (if (d, i) = (dataset, sid) then Some l else HeartbeatStore_get_lease s d i))"
  by (auto simp: HeartbeatStore_grant_def HeartbeatStore_validate_def HeartbeatStore_install_def
      HeartbeatStore_grace_def LeaseTable_install_def HeartbeatStore_get_lease_def LeaseTable_get_def
      HeartbeatError_not_supported_def Let_def max_def split: sum.splits option.splits if_splits)

text \<open>
  A sweep of the heartbeat store hands exactly the services whose grace deadline is
  reached to the hard deleter, each of them once, and those services hold no lease
  afterwards; services whose deadline is not reached keep theirs. The store the sweep
  leaves does not depend on whether a deletion fails.
\<close>

lemma sweep_once_deletes_lapsed:
  assumes "table_wf s"
  shows "let (s', calls) = HeartbeatSweeper_sweep_once_at recording_deleter s [] now clk in
    distinct calls \<and>
    (\<forall>ds sid. ((ds, sid) \<in> set calls) =
       (\<exists>l. HeartbeatStore_get_lease s ds sid = Some l \<and> grace_deadline l \<le> resolve_now now clk)) \<and>
    (\<forall>ds sid. (HeartbeatStore_get_lease s' ds sid = None) =
       (HeartbeatStore_get_lease s ds sid = None \<or> (ds, sid) \<in> set calls)) \<and>
    fst (HeartbeatSweeper_sweep_once_at del s d now clk) = s'"
proof -
  obtain nu td s' where tick: "LeaseTable_sweep_tick s now clk = ((nu, td), s')"
    by (metis surj_pair)
  have td: "k \<in> set td \<longleftrightarrow> (\<exists>l. map_of s k = Some l \<and> grace_deadline l \<le> resolve_now now clk)" for k
    using sweep_reports_deleted [OF assms, of k now clk] tick by simp
  have s': "map_of s' k = Option.bind (map_of s k) (aged (resolve_now now clk))" for k
    using sweep_refines_aged [OF assms, of now clk k] tick by simp
  have gone: "map_of s' k = None \<longleftrightarrow> map_of s k = None \<or> k \<in> set td" for k
    using td [of k] s' [of k] by (cases "map_of s k") (auto simp: aged_def)
  have "distinct td"
    using sweep_scan_distinct [of s now clk] assms tick by (simp add: table_wf_def)
  with td gone tick show ?thesis
    by (simp add: HeartbeatSweeper_sweep_once_at_def HeartbeatStore_sweep_tick_def
        hard_delete_all_recording HeartbeatStore_get_lease_def LeaseTable_get_def)
qed

lemma sweep_once_deletes_lapsed_witness:
  "snd (HeartbeatSweeper_sweep_once_at recording_deleter
     (snd (LeaseTable_install LeaseTable_new (''ds'', ''a'') 10 5 False (Some 0) 0)) [] (Some 20) 0)
   = [(''ds'', ''a'')]"
proof -
  let ?s = "snd (LeaseTable_install LeaseTable_new (''ds'', ''a'') 10 5 False (Some 0) 0)"
  have "table_wf ?s" by (intro table_wf_install table_wf_new)
  from sweep_once_deletes_lapsed [OF this, where del = recording_deleter and d = "[]" and now = "Some 20" and clk = 0]
  have calls: "distinct (snd (HeartbeatSweeper_sweep_once_at recording_deleter ?s [] (Some 20) 0))"
    "(ds, sid) \<in> set (snd (HeartbeatSweeper_sweep_once_at recording_deleter ?s [] (Some 20) 0)) \<longleftrightarrow>
      (\<exists>l. HeartbeatStore_get_lease ?s ds sid = Some l \<and> grace_deadline l \<le> 20)" for ds sid
    by (auto simp: Let_def split: prod.splits)
  have "set (snd (HeartbeatSweeper_sweep_once_at recording_deleter ?s [] (Some 20) 0)) = {(''ds'', ''a'')}"
    using calls(2) by (auto simp: HeartbeatStore_get_lease_def LeaseTable_get_def LeaseTable_install_def
        LeaseTable_new_def Let_def split: if_splits)
  with calls(1) show ?thesis by (rule distinct_set_singleton)
qed

end
