(* ===== verification/AuthContext.thy ===== *)
theory AuthContext
  imports Prelude
begin

text \<open>
  The neutral caller identity of \<open>a2x-common/src/auth_context.rs\<close>: roles and the
  \<open>AuthContext\<close> that the auth store produces and that the registry, the heartbeat sweeper
  and the cluster handshake consume. A \<open>HashSet\<close> of namespaces is a list read by
  membership.
\<close>

datatype Role = Admin | Provider | User

record AuthContext =
  principal_id :: string
  role :: Role
  namespaces :: "string list option"

definition Role_as_str :: "Role \<Rightarrow> string" where
  "Role_as_str r = (case r of Admin \<Rightarrow> ''admin'' | Provider \<Rightarrow> ''provider'' | User \<Rightarrow> ''user'')"

definition Role_parse :: "string \<Rightarrow> Role option" where
  "Role_parse s =
     (if s = ''admin'' then Some Admin
      else if s = ''provider'' then Some Provider
      else if s = ''user'' then Some User
      else None)"

definition AuthContext_admin :: "string \<Rightarrow> AuthContext" where
  "AuthContext_admin pid = \<lparr> principal_id = pid, role = Admin, namespaces = None \<rparr>"

definition is_admin :: "AuthContext \<Rightarrow> bool" where
  "is_admin c = (role c = Admin)"

definition allows_namespace :: "AuthContext \<Rightarrow> string \<Rightarrow> bool" where
  "allows_namespace c dataset =
     (case namespaces c of None \<Rightarrow> is_admin c | Some ns \<Rightarrow> dataset \<in> set ns)"

definition system_ctx :: AuthContext where
  "system_ctx = AuthContext_admin ''_system''"

lemma Role_parse_as_str [simp]: "Role_parse (Role_as_str r) = Some r"
  by (cases r) (simp_all add: Role_parse_def Role_as_str_def)

lemma Role_parse_SomeD: "Role_parse s = Some r \<Longrightarrow> s = Role_as_str r"
  by (auto simp: Role_parse_def Role_as_str_def split: if_splits)

lemma system_ctx_allows [simp]: "allows_namespace system_ctx ds"
  by (simp add: allows_namespace_def system_ctx_def AuthContext_admin_def is_admin_def)

end
