(* ===== verification/Envelope.thy ===== *)
theory Envelope
  imports Json
begin

text \<open>
  The sync envelope and the last-writer-wins (LWW) version of
  \<open>a2x-cluster/src/envelope.rs\<close>, and the theory of LWW replication that the
  foreign-record overlay of the cluster store and the membership roster share.
\<close>

subsection \<open>Versions\<close>

datatype Version = Version (ver_ms: int) (ver_node_id: string)

text \<open>\<open>Ord\<close>: milliseconds first, then the node id, lexicographically.\<close>

instantiation Version :: linorder
begin

definition less_eq_Version :: "Version \<Rightarrow> Version \<Rightarrow> bool" where
  "less_eq_Version a b \<longleftrightarrow>
     ver_ms a < ver_ms b \<or> (ver_ms a = ver_ms b \<and> ver_node_id a \<le> ver_node_id b)"

definition less_Version :: "Version \<Rightarrow> Version \<Rightarrow> bool" where
  "less_Version a b \<longleftrightarrow>
     ver_ms a < ver_ms b \<or> (ver_ms a = ver_ms b \<and> ver_node_id a < ver_node_id b)"

instance
  by standard (auto simp: less_eq_Version_def less_Version_def Version.expand)

end

lemma less_Version_simps [simp]:
  "Version m n < Version m' n' \<longleftrightarrow> m < m' \<or> (m = m' \<and> n < n')"
  "Version m n \<le> Version m' n' \<longleftrightarrow> m < m' \<or> (m = m' \<and> n \<le> n')"
  by (simp_all add: less_Version_def less_eq_Version_def)

definition version_newer :: "Version \<Rightarrow> Version option \<Rightarrow> bool" where
  "version_newer a b = (case b of None \<Rightarrow> True | Some v \<Rightarrow> v < a)"

subsection \<open>Envelopes\<close>

type_synonym Key = "string \<times> string \<times> string"

record SyncEnvelope =
  dataset :: string
  service_id :: string
  origin_id :: string
  version :: Version
  tombstone :: bool
  payload :: "json option"

definition key :: "SyncEnvelope \<Rightarrow> Key" where
  "key e = (dataset e, origin_id e, service_id e)"

definition wrapped :: "SyncEnvelope \<Rightarrow> JsonDict option" where
  "wrapped e =
     Option.bind (payload e) (\<lambda>p. Option.bind (jget p ''wrapped'') as_object)"

definition entry :: "SyncEnvelope \<Rightarrow> json option" where
  "entry e = Option.bind (payload e) (\<lambda>p. jget p ''entry'')"

subsection \<open>LWW replication\<close>

lemma version_newer_simps [simp]:
  "version_newer a None" "version_newer a (Some b) \<longleftrightarrow> b < a"
  by (simp_all add: version_newer_def)

text \<open>
  The interface of a replicated table: a lookup, an inbound step for one element, and the
  guard under which the table takes elements of that kind at all. The step stores an
  element that is strictly newer than what the table has under its key and leaves
  every other key alone; the guard is not changed by a step.
\<close>

locale lww_table =
  fixes view :: "'s \<Rightarrow> 'k \<Rightarrow> 'e option"
    and step :: "'s \<Rightarrow> 'e \<Rightarrow> 's"
    and ok :: "'s \<Rightarrow> 'e \<Rightarrow> bool"
    and kof :: "'e \<Rightarrow> 'k"
    and vof :: "'e \<Rightarrow> Version"
  assumes view_step: "ok s e \<Longrightarrow> view (step s e) k =
      (if k = kof e \<and> version_newer (vof e) (map_option vof (view s k)) then Some e else view s k)"
    and ok_step: "ok s e \<Longrightarrow> ok (step s e) e' = ok s e'"
begin

text \<open>Applying the same element twice changes nothing the second time.\<close>

lemma step_idem: "ok s e \<Longrightarrow> view (step (step s e) e) = view (step s e)"
  by (rule ext) (auto simp: view_step ok_step split: option.splits)

lemma ok_run: "\<forall>e \<in> set es. ok s e \<Longrightarrow> ok (foldl step s es) e' = ok s e'"
  by (induction es arbitrary: s) (auto simp: ok_step)

text \<open>The version stored under a key never goes back.\<close>

lemma view_mono_step:
  "ok s e \<Longrightarrow> view s k = Some x \<Longrightarrow> \<exists>y. view (step s e) k = Some y \<and> vof x \<le> vof y"
  by (auto simp: view_step)

text \<open>
  What a run leaves under a key: an element of the run, or the one that was there; and
  nothing that was offered under that key is newer.
\<close>

lemma view_run:
  assumes "\<forall>e \<in> set es. ok s e"
  shows "(\<forall>x. view (foldl step s es) k = Some x \<longrightarrow> view s k = Some x \<or> (x \<in> set es \<and> kof x = k)) \<and>
    (\<forall>x. (view s k = Some x \<or> (x \<in> set es \<and> kof x = k)) \<longrightarrow>
       (\<exists>y. view (foldl step s es) k = Some y \<and> vof x \<le> vof y))"
  using assms
proof (induction es arbitrary: s)
  case (Cons e es)
  have ok': "\<forall>e' \<in> set es. ok (step s e) e'"
    using Cons.prems by (simp add: ok_step)
  note IH = Cons.IH [OF ok']
  have step1: "view (step s e) k = Some x \<Longrightarrow> view s k = Some x \<or> (x = e \<and> kof e = k)" for x
    using Cons.prems by (auto simp: view_step split: if_splits)
  have step2: "\<exists>y. view (step s e) k = Some y \<and> vof x \<le> vof y"
    if "view s k = Some x \<or> (x = e \<and> kof e = k)" for x
    using Cons.prems that by (cases "view s k") (auto simp: view_step not_less)
  have "view s k = Some x \<or> (x \<in> set (e # es) \<and> kof x = k)"
    if "view (foldl step (step s e) es) k = Some x" for x
    using IH step1 [of x] that by auto
  moreover have "\<exists>y. view (foldl step (step s e) es) k = Some y \<and> vof x \<le> vof y"
    if "view s k = Some x \<or> (x \<in> set (e # es) \<and> kof x = k)" for x
  proof (cases "x \<in> set es \<and> kof x = k")
    case True
    with IH show ?thesis by blast
  next
    case False
    with that have "view s k = Some x \<or> (x = e \<and> kof e = k)" by auto
    from step2 [OF this] obtain y where y: "view (step s e) k = Some y" "vof x \<le> vof y" by blast
    with IH obtain z where "view (foldl step (step s e) es) k = Some z" "vof y \<le> vof z" by blast
    with y show ?thesis by (blast intro: order_trans)
  qed
  ultimately show ?case unfolding foldl_Cons by blast
qed auto

text \<open>
  Strong convergence: two tables that start with the same content and take the same set
  of elements, in any order and with any repetitions, end with the same content,
  provided that two different elements of the same key never carry the same version.
\<close>

lemma converges:
  assumes ok: "\<forall>e \<in> set es. ok s e" "\<forall>e \<in> set es'. ok s' e"
    and same: "set es = set es'" "\<And>k. view s k = view s' k"
    and uniq: "\<And>x y. x \<in> set es \<or> view s (kof x) = Some x \<Longrightarrow> y \<in> set es \<or> view s (kof y) = Some y \<Longrightarrow>
      kof x = kof y \<Longrightarrow> vof x = vof y \<Longrightarrow> x = y"
    and keyed: "\<And>k x. view s k = Some x \<Longrightarrow> kof x = k"
  shows "view (foldl step s es) k = view (foldl step s' es') k"
proof -
  note A = view_run [OF ok(1), of k] and B = view_run [OF ok(2), of k]
  let ?in = "\<lambda>x. view s k = Some x \<or> (x \<in> set es \<and> kof x = k)"
  have B': "(\<forall>x. view (foldl step s' es') k = Some x \<longrightarrow> ?in x) \<and>
      (\<forall>x. ?in x \<longrightarrow> (\<exists>y. view (foldl step s' es') k = Some y \<and> vof x \<le> vof y))"
    using B same by simp
  show ?thesis
  proof (cases "view (foldl step s es) k")
    case None
    then have "\<nexists>x. ?in x" using A by fastforce
    with B' None show ?thesis by (metis option.exhaust)
  next
    case (Some x)
    with A have inx: "?in x" by blast
    with B' obtain y where y: "view (foldl step s' es') k = Some y" "vof x \<le> vof y" by blast
    with B' have iny: "?in y" by blast
    with A Some have "vof y \<le> vof x" by fastforce
    with y have "vof x = vof y" by simp
    moreover have "kof x = k" "kof y = k" using inx iny keyed by auto
    ultimately have "x = y" using inx iny by (intro uniq) auto
    with Some y show ?thesis by simp
  qed
qed

end

end
