(* ===== verification/Merkle.thy ===== *)
theory Merkle
  imports Envelope "HOL-Library.Product_Lexorder"
begin

text \<open>
  The bucketed Merkle digest of \<open>a2x-cluster/src/merkle.rs\<close>. SHA-256 is the parameter
  \<open>sha256\<close>, from a byte string to a digest; what the code relies on is that digests
  have 32 bytes and that the strings hashed on the two sides do not collide.
\<close>

subsection \<open>Definitions\<close>

definition SEP :: char where
  "SEP = CHR 0x1F"

definition key_str :: "Key \<Rightarrow> string" where
  "key_str k = (case k of (a, b, c) \<Rightarrow> a @ [SEP] @ b @ [SEP] @ c)"

definition from_be_bytes :: "string \<Rightarrow> nat" where
  "from_be_bytes bs = fold (\<lambda>c n. 256 * n + of_char c) bs 0"

definition bucket_of :: "(string \<Rightarrow> string) \<Rightarrow> Key \<Rightarrow> nat \<Rightarrow> nat" where
  "bucket_of sha256 k n_buckets =
     (let n = max n_buckets 1;
          head = from_be_bytes (take 4 (sha256 (key_str k)))
      in head mod n)"

definition entry_raw :: "Key \<times> Version \<Rightarrow> string" where
  "entry_raw e = key_str (fst e) @ [SEP] @ show_int (ver_ms (snd e)) @ [SEP] @ ver_node_id (snd e)"

definition entry_digest :: "(string \<Rightarrow> string) \<Rightarrow> Key \<times> Version \<Rightarrow> string" where
  "entry_digest sha256 e = sha256 (entry_raw e)"

text \<open>The hash map of buckets: every entry is pushed to the vector of its bucket.\<close>

definition push_entry ::
  "(string \<Rightarrow> string) \<Rightarrow> nat \<Rightarrow> Key \<times> Version \<Rightarrow> (nat, (Key \<times> Version) list) imap \<Rightarrow>
     (nat, (Key \<times> Version) list) imap" where
  "push_entry sha256 n e bs =
     (let b = bucket_of sha256 (fst e) n
      in im_insert b ((case im_get bs b of Some es \<Rightarrow> es | None \<Rightarrow> []) @ [e]) bs)"

definition bucket_digest :: "(string \<Rightarrow> string) \<Rightarrow> (Key \<times> Version) list \<Rightarrow> string" where
  "bucket_digest sha256 entries =
     hex_encode (sha256 (concat (map (entry_digest sha256) (sort entries))))"

definition bucket_hashes ::
  "(string \<Rightarrow> string) \<Rightarrow> (Key, Version) imap \<Rightarrow> nat \<Rightarrow> (string, string) imap" where
  "bucket_hashes sha256 index n_buckets =
     (let buckets = fold (push_entry sha256 n_buckets) index []
      in fold (\<lambda>(b, entries). bm_insert (show_nat b) (bucket_digest sha256 entries)) buckets [])"

text \<open>The result is a \<open>BTreeSet\<close>; it is read by membership only.\<close>

definition differing_buckets ::
  "(string, string) imap \<Rightarrow> (string, string) imap \<Rightarrow> nat set" where
  "differing_buckets local remote =
     fold (\<lambda>b diff.
       if im_get local b \<noteq> im_get remote b
       then (case parse_u32 b of Some idx \<Rightarrow> insert idx diff | None \<Rightarrow> diff)
       else diff) (map fst local @ map fst remote) {}"

definition keys_in_buckets ::
  "(string \<Rightarrow> string) \<Rightarrow> Key list \<Rightarrow> nat set \<Rightarrow> nat \<Rightarrow> Key list" where
  "keys_in_buckets sha256 keys buckets n_buckets =
     filter (\<lambda>k. bucket_of sha256 k n_buckets \<in> buckets) keys"

text \<open>The strings whose digests a node computes for an index, and ids free of the separator.\<close>

definition hashed_inputs :: "(string \<Rightarrow> string) \<Rightarrow> nat \<Rightarrow> (Key, Version) imap \<Rightarrow> string set" where
  "hashed_inputs sha256 n index =
     entry_raw ` set index \<union>
     (\<lambda>b. concat (map (entry_digest sha256)
        (sort (filter (\<lambda>e. bucket_of sha256 (fst e) n = b) index)))) `
       (\<lambda>e. bucket_of sha256 (fst e) n) ` set index"

definition sep_free :: "Key \<Rightarrow> bool" where
  "sep_free k = (case k of (a, b, c) \<Rightarrow> SEP \<notin> set a \<and> SEP \<notin> set b \<and> SEP \<notin> set c)"

subsection \<open>Encodings are injective\<close>

lemma split_at_eq:
  "(c :: char) \<notin> set a \<Longrightarrow> c \<notin> set a' \<Longrightarrow> a @ c # b = a' @ c # b' \<longleftrightarrow> a = a' \<and> b = b'"
proof
  assume notin: "c \<notin> set a" "c \<notin> set a'" and eq: "a @ c # b = a' @ c # b'"
  from arg_cong [OF eq, of "split_once c"] notin show "a = a' \<and> b = b'" by simp
qed simp

lemma SEP_notin_show_int: "SEP \<notin> set (show_int i)"
proof -
  have "SEP \<notin> set (show_nat n)" for n
    by (rule not_digit_notin_show_nat) (simp add: SEP_def digit_val_def Let_def)
  then show ?thesis by (auto simp: show_int_def SEP_def)
qed

lemma entry_raw_inj:
  assumes "sep_free k" "sep_free k'" "entry_raw (k, v) = entry_raw (k', v')"
  shows "k = k' \<and> v = v'"
  using assms
  by (cases k; cases k'; cases v; cases v')
     (auto simp: entry_raw_def key_str_def sep_free_def split_at_eq SEP_notin_show_int)

lemma concat_same_length_inj:
  assumes "\<forall>x \<in> set xs. length x = n" "\<forall>y \<in> set ys. length y = n" "0 < n"
  shows "concat xs = concat ys \<Longrightarrow> xs = ys"
  using assms
proof (induction xs arbitrary: ys)
  case Nil
  then show ?case by (cases ys) auto
next
  case (Cons x xs)
  then obtain y ys' where "ys = y # ys'" by (cases ys) auto
  with Cons show ?case by (auto simp: append_eq_append_conv)
qed

subsection \<open>What the bucket map holds\<close>

lemma push_entries:
  "map_of (fold (push_entry sha256 n) es bs) b =
    (let new = filter (\<lambda>e. bucket_of sha256 (fst e) n = b) es
     in if new = [] then map_of bs b
        else Some ((case map_of bs b of Some old \<Rightarrow> old | None \<Rightarrow> []) @ new))"
  by (induction es arbitrary: bs) (auto simp: push_entry_def Let_def split: option.splits)

lemma push_entries_wf: "im_wf bs \<Longrightarrow> im_wf (fold (push_entry sha256 n) es bs)"
  by (induction es arbitrary: bs) (auto simp: push_entry_def Let_def)

lemma map_of_fold_bm_insert:
  "inj f \<Longrightarrow> im_wf ps \<Longrightarrow>
   map_of (fold (\<lambda>(b, es). bm_insert (f b) (g es)) ps m) (f b) =
    (case map_of ps b of Some es \<Rightarrow> Some (g es) | None \<Rightarrow> map_of m (f b))"
  by (induction ps arbitrary: m)
     (auto simp: inj_eq image_iff map_of_eq_None_iff split: option.splits)

lemma map_of_fold_bm_insert_other:
  "l \<notin> range f \<Longrightarrow> map_of (fold (\<lambda>(b, es). bm_insert (f b) (g es)) ps m) l = map_of m l"
  by (induction ps arbitrary: m) auto

lemma bucket_hashes_get:
  "map_of (bucket_hashes sha256 index n) (show_nat b) =
    (let es = filter (\<lambda>e. bucket_of sha256 (fst e) n = b) index
     in if es = [] then None else Some (bucket_digest sha256 es))"
  by (auto simp: bucket_hashes_def Let_def inj_def push_entries push_entries_wf
      map_of_fold_bm_insert [where f = show_nat])

lemma bucket_hashes_label:
  "map_of (bucket_hashes sha256 index n) l \<noteq> None \<Longrightarrow> \<exists>b. l = show_nat b"
  unfolding bucket_hashes_def Let_def
  by (rule ccontr) (simp add: map_of_fold_bm_insert_other image_def)

lemma differing_buckets_iff:
  "differing_buckets local remote =
    {i. \<exists>b. im_get local b \<noteq> im_get remote b \<and> parse_u32 b = Some i}"
  (is "?D = ?R")
proof -
  have "fold (\<lambda>b diff.
       if im_get local b \<noteq> im_get remote b
       then (case parse_u32 b of Some idx \<Rightarrow> insert idx diff | None \<Rightarrow> diff)
       else diff) ls D =
     D \<union> {i. \<exists>b \<in> set ls. im_get local b \<noteq> im_get remote b \<and> parse_u32 b = Some i}" for ls D
    by (induction ls arbitrary: D) (auto split: option.splits)
  moreover have "b \<in> set (map fst local @ map fst remote)"
    if "im_get local b \<noteq> im_get remote b" for b
    using that by (metis UnI1 UnI2 image_set map_of_eq_None_iff set_append)
  ultimately show ?thesis unfolding differing_buckets_def by blast
qed

lemma bucket_of_bound: "bucket_of sha256 k n < max n 1"
  by (simp add: bucket_of_def Let_def)

lemma keys_fold_bm_insert_sorted:
  "sorted_wrt (<) (map fst m) \<Longrightarrow>
   sorted_wrt (<) (map fst (fold (\<lambda>(b, es). bm_insert (f b) (g es)) ps m))"
  by (induction ps arbitrary: m) (auto intro: bm_insert_sorted)

lemma sort_eq_iff: "distinct xs \<Longrightarrow> distinct ys \<Longrightarrow> sort xs = sort ys \<longleftrightarrow> set xs = set ys"
  by (metis distinct_sort set_sort sorted_distinct_set_unique sorted_sort)

text \<open>The part of an index that falls into a bucket.\<close>

definition in_bucket :: "(string \<Rightarrow> string) \<Rightarrow> nat \<Rightarrow> nat \<Rightarrow> (Key, Version) imap \<Rightarrow> (Key, Version) imap" where
  "in_bucket sha256 n b index = filter (\<lambda>e. bucket_of sha256 (fst e) n = b) index"

lemma im_wf_distinct: "im_wf m \<Longrightarrow> distinct m"
  by (simp add: distinct_map)

lemma in_bucket_distinct: "im_wf m \<Longrightarrow> distinct (in_bucket sha256 n b m)"
  by (simp add: in_bucket_def im_wf_distinct)

lemma bucket_digest_cong:
  "distinct xs \<Longrightarrow> distinct ys \<Longrightarrow> set xs = set ys \<Longrightarrow> bucket_digest sha256 xs = bucket_digest sha256 ys"
  using sort_eq_iff [of xs ys] by (simp add: bucket_digest_def)

lemma in_bucket_set_eq_iff:
  assumes "im_wf a" "im_wf c"
  shows "set (in_bucket sha256 n b a) = set (in_bucket sha256 n b c) \<longleftrightarrow>
    (\<forall>k. bucket_of sha256 k n = b \<longrightarrow> im_get a k = im_get c k)"
proof
  assume eq: "set (in_bucket sha256 n b a) = set (in_bucket sha256 n b c)"
  have "im_get a k = Some v \<longleftrightarrow> im_get c k = Some v" if "bucket_of sha256 k n = b" for k v
    using that assms arg_cong [OF eq, of "\<lambda>S. (k, v) \<in> S"] by (simp add: in_bucket_def)
  then show "\<forall>k. bucket_of sha256 k n = b \<longrightarrow> im_get a k = im_get c k"
    by (metis option.exhaust)
next
  assume "\<forall>k. bucket_of sha256 k n = b \<longrightarrow> im_get a k = im_get c k"
  with assms show "set (in_bucket sha256 n b a) = set (in_bucket sha256 n b c)"
    by (fastforce simp: in_bucket_def)
qed

lemma bucket_digest_inj:
  assumes wf: "im_wf a" "im_wf c"
    and inj: "inj_on sha256 (hashed_inputs sha256 n a \<union> hashed_inputs sha256 n c)"
    and len: "\<forall>s. length (sha256 s) = 32"
    and sep: "\<forall>k \<in> fst ` set a \<union> fst ` set c. sep_free k"
    and ne: "in_bucket sha256 n b a \<noteq> []" "in_bucket sha256 n b c \<noteq> []"
    and eq: "bucket_digest sha256 (in_bucket sha256 n b a) = bucket_digest sha256 (in_bucket sha256 n b c)"
  shows "set (in_bucket sha256 n b a) = set (in_bucket sha256 n b c)"
proof -
  let ?A = "sort (in_bucket sha256 n b a)" and ?C = "sort (in_bucket sha256 n b c)"
  have mem: "concat (map (entry_digest sha256) (sort (in_bucket sha256 n b m))) \<in> hashed_inputs sha256 n m"
    if "in_bucket sha256 n b m \<noteq> []" for m
  proof -
    from that obtain e where "e \<in> set m" "bucket_of sha256 (fst e) n = b"
      by (auto simp: in_bucket_def filter_empty_conv)
    then show ?thesis by (auto simp: hashed_inputs_def in_bucket_def)
  qed
  have "concat (map (entry_digest sha256) ?A) = concat (map (entry_digest sha256) ?C)"
    using eq mem [OF ne(1)] mem [OF ne(2)] inj by (auto simp: bucket_digest_def dest: inj_onD)
  then have digests: "map (entry_digest sha256) ?A = map (entry_digest sha256) ?C"
    using len by (intro concat_same_length_inj [where n = 32]) (auto simp: entry_digest_def)
  have "inj_on (entry_digest sha256) (set ?A \<union> set ?C)"
  proof (rule inj_onI)
    fix x y
    assume xy: "x \<in> set ?A \<union> set ?C" "y \<in> set ?A \<union> set ?C"
      "entry_digest sha256 x = entry_digest sha256 y"
    then have in_ac: "x \<in> set a \<union> set c" "y \<in> set a \<union> set c"
      by (auto simp: in_bucket_def)
    then have "entry_raw x \<in> hashed_inputs sha256 n a \<union> hashed_inputs sha256 n c"
      "entry_raw y \<in> hashed_inputs sha256 n a \<union> hashed_inputs sha256 n c"
      by (auto simp: hashed_inputs_def)
    with inj xy(3) have "entry_raw x = entry_raw y"
      by (auto simp: entry_digest_def dest: inj_onD)
    then show "x = y"
      using entry_raw_inj [of "fst x" "fst y" "snd x" "snd y"] sep in_ac
      by (metis UnE UnI1 UnI2 image_eqI prod.collapse)
  qed
  with digests have "?A = ?C" by (simp add: inj_on_map_eq_map)
  then show ?thesis by (metis set_sort)
qed

subsection \<open>Properties\<close>

text \<open>
  The digest is a function of the content of the index: two nodes that hold the same
  version under every key compute the same bucket map, whatever order their hash maps
  iterate in, and so have no differing bucket.
\<close>

lemma bucket_hashes_order_independent:
  assumes "im_wf a" "im_wf c" "\<forall>k. im_get a k = im_get c k"
  shows "bucket_hashes sha256 a n = bucket_hashes sha256 c n \<and>
    differing_buckets (bucket_hashes sha256 a n) (bucket_hashes sha256 c n) = {}"
proof -
  have sets: "set (in_bucket sha256 n b a) = set (in_bucket sha256 n b c)" for b
    using assms by (simp add: in_bucket_set_eq_iff)
  then have "bucket_digest sha256 (in_bucket sha256 n b a) = bucket_digest sha256 (in_bucket sha256 n b c)" for b
    using assms by (intro bucket_digest_cong in_bucket_distinct) simp_all
  then have "map_of (bucket_hashes sha256 a n) (show_nat b) = map_of (bucket_hashes sha256 c n) (show_nat b)" for b
    using sets [of b] by (simp add: bucket_hashes_get Let_def flip: in_bucket_def) (metis set_empty)
  then have "map_of (bucket_hashes sha256 a n) = map_of (bucket_hashes sha256 c n)"
    using bucket_hashes_label by (metis ext option.exhaust_sel)
  then have "bucket_hashes sha256 a n = bucket_hashes sha256 c n"
    by (intro bm_ext) (simp_all add: bucket_hashes_def Let_def keys_fold_bm_insert_sorted)
  then show ?thesis by (simp add: differing_buckets_iff)
qed

lemma bucket_hashes_order_independent_witness:
  "bucket_hashes rev
      [((''ds'', ''A'', ''x''), Version 1 ''A''), ((''ds'', ''B'', ''y''), Version 2 ''B'')] 8 =
    bucket_hashes rev
      [((''ds'', ''B'', ''y''), Version 2 ''B''), ((''ds'', ''A'', ''x''), Version 1 ''A'')] 8"
  using bucket_hashes_order_independent
    [of "[((''ds'', ''A'', ''x''), Version 1 ''A''), ((''ds'', ''B'', ''y''), Version 2 ''B'')]"
      "[((''ds'', ''B'', ''y''), Version 2 ''B''), ((''ds'', ''A'', ''x''), Version 1 ''A'')]" rev 8]
  by simp

text \<open>
  The digest comparison is exact when SHA-256 does not collide on the strings the two
  nodes hash: the differing buckets are the buckets of the keys on which the two
  indexes disagree, so that every such key is among the rows exchanged.
\<close>

lemma differing_buckets_exact:
  assumes "im_wf a" "im_wf c" "n < 2 ^ 32"
    and "inj_on sha256 (hashed_inputs sha256 n a \<union> hashed_inputs sha256 n c)"
    and "\<forall>s. length (sha256 s) = 32"
    and "\<forall>k \<in> fst ` set a \<union> fst ` set c. sep_free k"
  shows "differing_buckets (bucket_hashes sha256 a n) (bucket_hashes sha256 c n) =
      {bucket_of sha256 k n | k. im_get a k \<noteq> im_get c k} \<and>
    (\<forall>k. im_get a k \<noteq> im_get c k \<longrightarrow>
       k \<in> set (keys_in_buckets sha256 (map fst a @ map fst c)
         (differing_buckets (bucket_hashes sha256 a n) (bucket_hashes sha256 c n)) n))"
proof -
  have get: "map_of (bucket_hashes sha256 m n) (show_nat b) =
      (if in_bucket sha256 n b m = [] then None else Some (bucket_digest sha256 (in_bucket sha256 n b m)))"
    for b m by (simp add: bucket_hashes_get Let_def in_bucket_def)
  have digest_iff: "map_of (bucket_hashes sha256 a n) (show_nat b) = map_of (bucket_hashes sha256 c n) (show_nat b)
      \<longleftrightarrow> set (in_bucket sha256 n b a) = set (in_bucket sha256 n b c)" for b
  proof
    assume "set (in_bucket sha256 n b a) = set (in_bucket sha256 n b c)"
    then show "map_of (bucket_hashes sha256 a n) (show_nat b) = map_of (bucket_hashes sha256 c n) (show_nat b)"
      using assms(1,2) bucket_digest_cong [of "in_bucket sha256 n b a" "in_bucket sha256 n b c"]
      by (simp add: get in_bucket_distinct) (metis set_empty)
  qed (use bucket_digest_inj [OF assms(1,2,4-6)] in \<open>force simp: get split: if_splits\<close>)
  have small: "b < 2 ^ 32" if "b = bucket_of sha256 k n" for b k
    using that bucket_of_bound [of sha256 k n] assms(3) by simp
  have differ: "(\<exists>k. bucket_of sha256 k n = b \<and> im_get a k \<noteq> im_get c k) \<longleftrightarrow>
      map_of (bucket_hashes sha256 a n) (show_nat b) \<noteq> map_of (bucket_hashes sha256 c n) (show_nat b)" for b
    using assms(1,2) by (auto simp: digest_iff in_bucket_set_eq_iff)
  have eq: "differing_buckets (bucket_hashes sha256 a n) (bucket_hashes sha256 c n) =
      {bucket_of sha256 k n | k. im_get a k \<noteq> im_get c k}"
  proof (rule set_eqI)
    fix i
    have "i \<in> differing_buckets (bucket_hashes sha256 a n) (bucket_hashes sha256 c n) \<longleftrightarrow>
      (\<exists>b. map_of (bucket_hashes sha256 a n) (show_nat b) \<noteq> map_of (bucket_hashes sha256 c n) (show_nat b)
         \<and> parse_u32 (show_nat b) = Some i)"
      by (auto simp: differing_buckets_iff) (metis bucket_hashes_label)+
    also have "\<dots> \<longleftrightarrow> (\<exists>k. im_get a k \<noteq> im_get c k \<and> bucket_of sha256 k n = i)"
      by (simp only: differ [symmetric]) (metis small option.inject parse_u32_show_nat)
    finally show "i \<in> differing_buckets (bucket_hashes sha256 a n) (bucket_hashes sha256 c n) \<longleftrightarrow>
      i \<in> {bucket_of sha256 k n | k. im_get a k \<noteq> im_get c k}" by blast
  qed
  have "k \<in> fst ` set a \<union> fst ` set c" if "im_get a k \<noteq> im_get c k" for k
    using that by (metis UnI1 UnI2 map_of_eq_None_iff)
  then show ?thesis unfolding eq by (auto simp: keys_in_buckets_def)
qed

text \<open>A function with 32-byte values that separates the strings of a one-record index.\<close>

definition demo_digest :: "string \<Rightarrow> string" where
  "demo_digest s = take 32 (rev s @ replicate 32 (CHR 0x00))"

lemma demo_digest_inj:
  "inj_on demo_digest (hashed_inputs demo_digest 4 [((''ds'', ''A'', ''x''), Version 1 ''A'')] \<union>
     hashed_inputs demo_digest 4 [])"
proof -
  have "hashed_inputs demo_digest 4 [((''ds'', ''A'', ''x''), Version 1 ''A'')] \<union>
      hashed_inputs demo_digest 4 [] =
    {entry_raw ((''ds'', ''A'', ''x''), Version 1 ''A''),
     demo_digest (entry_raw ((''ds'', ''A'', ''x''), Version 1 ''A''))}"
    by (simp add: hashed_inputs_def entry_digest_def insert_commute)
  moreover have "demo_digest (entry_raw ((''ds'', ''A'', ''x''), Version 1 ''A'')) \<noteq>
     demo_digest (demo_digest (entry_raw ((''ds'', ''A'', ''x''), Version 1 ''A'')))"
    by code_simp
  ultimately show ?thesis by (auto simp: inj_on_def)
qed

lemma differing_buckets_exact_witness:
  "differing_buckets
      (bucket_hashes demo_digest [((''ds'', ''A'', ''x''), Version 1 ''A'')] 4)
      (bucket_hashes demo_digest [] 4) = {bucket_of demo_digest (''ds'', ''A'', ''x'') 4}"
proof -
  have "\<forall>s. length (demo_digest s) = 32" by (simp add: demo_digest_def min_def)
  moreover have "sep_free (''ds'', ''A'', ''x'')" by (simp add: sep_free_def SEP_def)
  ultimately show ?thesis
    using differing_buckets_exact
      [of "[((''ds'', ''A'', ''x''), Version 1 ''A'')]" "[]" 4 demo_digest] demo_digest_inj
    by auto
qed

end
