(* ===== verification/AuthStore.thy ===== *)
theory AuthStore
  imports Merkle AuthContext
begin

text \<open>
  The credential store of \<open>a2x-registry/src/auth\<close>: tokens (\<open>tokens.rs\<close>), principals and API
  keys (\<open>models.rs\<close>) and the file-backed \<open>AuthStore\<close> (\<open>store.rs\<close>).

  SHA-256 and the URL-safe base64 encoder are the parameters \<open>sha256\<close> and \<open>b64\<close>. The
  record holds the readings of its surroundings: \<open>as_now\<close> the successive time stamps,
  \<open>as_rnd\<close> the successive random byte strings, \<open>as_io\<close> which writes succeed. The files are
  \<open>principals_file\<close> and \<open>keys_file\<close>, as the lists of records they serialize, and \<open>audit_file\<close>.
\<close>

subsection \<open>Tokens\<close>

unbundle bit_operations_syntax

definition TOKEN_PREFIX :: string where
  "TOKEN_PREFIX = ''a2x_pat_''"

definition hash_token :: "(string \<Rightarrow> string) \<Rightarrow> string \<Rightarrow> string" where
  "hash_token sha256 token = hex_encode (sha256 token)"

definition token_prefix :: "string \<Rightarrow> string" where
  "token_prefix token = take (length TOKEN_PREFIX + 4) token"

definition byte_at :: "string \<Rightarrow> nat \<Rightarrow> nat" where
  "byte_at s i = (if i < length s then of_char (s ! i) else 0)"

text \<open>\<open>diff\<close> is a \<open>u8\<close>: the exclusive or of the lengths is truncated to eight bits.\<close>

definition constant_time_equals :: "string \<Rightarrow> string \<Rightarrow> bool" where
  "constant_time_equals a b =
     (let diff0 = (length a XOR length b) mod 256;
          diff = fold (\<lambda>i d. d OR (byte_at a i XOR byte_at b i)) [0 ..< max (length a) (length b)] diff0
      in diff = 0)"

subsection \<open>Models\<close>

record Principal =
  pr_id :: string
  pr_handle :: string
  pr_role :: Role
  pr_namespaces :: "string list option"
  pr_created_at :: string
  disabled_at :: "string option"
  pr_note :: string

definition to_context :: "Principal \<Rightarrow> AuthContext" where
  "to_context p = \<lparr> principal_id = pr_id p, role = pr_role p, namespaces = pr_namespaces p \<rparr>"

definition is_disabled :: "Principal \<Rightarrow> bool" where
  "is_disabled p = (disabled_at p \<noteq> None)"

record ApiKey =
  key_id :: string
  k_principal_id :: string
  key_hash :: string
  key_prefix :: string
  k_name :: string
  k_created_at :: string
  expires_at :: "string option"
  last_used_at :: "string option"
  revoked_at :: "string option"

definition is_revoked :: "ApiKey \<Rightarrow> bool" where
  "is_revoked k = (revoked_at k \<noteq> None)"

subsection \<open>The store\<close>

datatype AuthStoreError = AlreadyInitialized | Invalid string | NotFound string | Io

datatype NamespacesUpdate = Unset | SetNs "string list option"

record AuthStore =
  principals :: "(string, Principal) imap"
  keys :: "(string, ApiKey) imap"
  keys_by_hash :: "(string, string) imap"
  principals_file :: "Principal list option"
  keys_file :: "ApiKey list option"
  audit_file :: "(string \<times> string \<times> (string \<times> json) list) list"
  as_now :: "nat \<Rightarrow> string"
  as_now_ix :: nat
  as_rnd :: "nat \<Rightarrow> string"
  as_rnd_ix :: nat
  as_io :: "nat \<Rightarrow> bool"
  as_io_ix :: nat

definition utcnow_iso :: "AuthStore \<Rightarrow> string \<times> AuthStore" where
  "utcnow_iso s = (as_now s (as_now_ix s), s\<lparr> as_now_ix := Suc (as_now_ix s) \<rparr>)"

definition fill_bytes :: "AuthStore \<Rightarrow> string \<times> AuthStore" where
  "fill_bytes s = (as_rnd s (as_rnd_ix s), s\<lparr> as_rnd_ix := Suc (as_rnd_ix s) \<rparr>)"

definition io_result :: "AuthStore \<Rightarrow> bool \<times> AuthStore" where
  "io_result s = (as_io s (as_io_ix s), s\<lparr> as_io_ix := Suc (as_io_ix s) \<rparr>)"

definition new_id :: "string \<Rightarrow> AuthStore \<Rightarrow> string \<times> AuthStore" where
  "new_id prefix s = (let (bs, s) = fill_bytes s in (prefix @ ''_'' @ hex_encode bs, s))"

definition generate_token :: "(string \<Rightarrow> string) \<Rightarrow> AuthStore \<Rightarrow> string \<times> AuthStore" where
  "generate_token b64 s = (let (bs, s) = fill_bytes s in (TOKEN_PREFIX @ b64 bs, s))"

definition parse_role :: "string \<Rightarrow> AuthStoreError + Role" where
  "parse_role r =
     (case Role_parse r of
        Some x \<Rightarrow> Inr x
      | None \<Rightarrow> Inl (Invalid (''role must be one of ('' @ quoted ''admin'' @ '', '' @ quoted ''provider'' @
                  '', '' @ quoted ''user'' @ ''), got '' @ quoted r)))"

definition persist_principals :: "AuthStore \<Rightarrow> (AuthStoreError + unit) \<times> AuthStore" where
  "persist_principals s =
     (let (ok, s) = io_result s
      in if ok then (Inr (), s\<lparr> principals_file := Some (map snd (principals s)) \<rparr>) else (Inl Io, s))"

definition persist_keys :: "AuthStore \<Rightarrow> (AuthStoreError + unit) \<times> AuthStore" where
  "persist_keys s =
     (let (ok, s) = io_result s
      in if ok then (Inr (), s\<lparr> keys_file := Some (map snd (keys s)) \<rparr>) else (Inl Io, s))"

definition audit :: "string \<Rightarrow> (string \<times> json) list \<Rightarrow> AuthStore \<Rightarrow> AuthStore" where
  "audit event fs s =
     (let (ts, s) = utcnow_iso s;
          (ok, s) = io_result s
      in if ok then s\<lparr> audit_file := audit_file s @ [(ts, event, fs)] \<rparr> else s)"

definition empty_tables :: "AuthStore \<Rightarrow> AuthStore" where
  "empty_tables s = s\<lparr> principals := [], keys := [], keys_by_hash := [] \<rparr>"

definition load_from_disk :: "AuthStore \<Rightarrow> (AuthStoreError + unit) \<times> AuthStore" where
  "load_from_disk s0 =
     (let s = empty_tables s0
      in case principals_file s of
           None \<Rightarrow> (Inl Io, s)
         | Some ps \<Rightarrow>
             let s = s\<lparr> principals := fold (\<lambda>p. im_insert (pr_id p) p) ps [] \<rparr>
             in case keys_file s of
                  None \<Rightarrow> (Inr (), s)
                | Some ks \<Rightarrow>
                    (Inr (), s\<lparr> keys_by_hash := fold (\<lambda>k. im_insert (key_hash k) (key_id k)) ks [],
                                keys := fold (\<lambda>k. im_insert (key_id k) k) ks [] \<rparr>))"

text \<open>\<open>load_or_none\<close>: the store is available once \<open>principals.json\<close> exists.\<close>

definition load_or_none :: "AuthStore \<Rightarrow> (AuthStoreError + bool) \<times> AuthStore" where
  "load_or_none s =
     (if principals_file s = None then (Inr False, s)
      else case load_from_disk s of
             (Inl e, s) \<Rightarrow> (Inl e, s)
           | (Inr _, s) \<Rightarrow> (Inr True, s))"

definition new_key ::
  "(string \<Rightarrow> string) \<Rightarrow> string \<Rightarrow> string \<Rightarrow> string \<Rightarrow> AuthStore \<Rightarrow> ApiKey \<times> AuthStore" where
  "new_key sha256 pid token name s =
     (let (kid, s) = new_id ''k'' s;
          (now, s) = utcnow_iso s
      in (\<lparr> key_id = kid, k_principal_id = pid, key_hash = hash_token sha256 token,
            key_prefix = token_prefix token, k_name = name, k_created_at = now, expires_at = None,
            last_used_at = None, revoked_at = None \<rparr>, s))"

definition insert_key :: "ApiKey \<Rightarrow> AuthStore \<Rightarrow> AuthStore" where
  "insert_key k s =
     s\<lparr> keys := im_insert (key_id k) k (keys s),
        keys_by_hash := im_insert (key_hash k) (key_id k) (keys_by_hash s) \<rparr>"

definition by_value :: "string option \<Rightarrow> json" where
  "by_value b = (case b of Some x \<Rightarrow> JStr x | None \<Rightarrow> JNull)"

definition bootstrap ::
  "(string \<Rightarrow> string) \<Rightarrow> (string \<Rightarrow> string) \<Rightarrow> string option \<Rightarrow> string \<Rightarrow> AuthStore \<Rightarrow>
     (AuthStoreError + string) \<times> AuthStore" where
  "bootstrap sha256 b64 admin_token admin_handle s0 =
     (if principals_file s0 \<noteq> None then (Inl AlreadyInitialized, s0)
      else let (token, s) = (case admin_token of Some t \<Rightarrow> (t, s0) | None \<Rightarrow> generate_token b64 s0)
           in if \<not> starts_with token TOKEN_PREFIX
              then (Inl (Invalid (''admin_token must start with '' @ quoted TOKEN_PREFIX)), s)
              else let (ok, s) = io_result s
                   in if \<not> ok then (Inl Io, s)
                      else let s = empty_tables s;
                               (pid, s) = new_id ''u'' s;
                               (now, s) = utcnow_iso s;
                               p = \<lparr> pr_id = pid, pr_handle = admin_handle, pr_role = Admin,
                                     pr_namespaces = None, pr_created_at = now, disabled_at = None,
                                     pr_note = ''Bootstrap admin (root)'' \<rparr>;
                               (k, s) = new_key sha256 pid token ''bootstrap'' s;
                               s = insert_key k (s\<lparr> principals := im_insert pid p (principals s) \<rparr>)
                           in case persist_principals s of
                                (Inl e, s) \<Rightarrow> (Inl e, s)
                              | (Inr _, s) \<Rightarrow>
                                  (case persist_keys s of
                                     (Inl e, s) \<Rightarrow> (Inl e, s)
                                   | (Inr _, s) \<Rightarrow>
                                       let s = audit ''principal.created'' [(''principal_id'', JStr pid),
                                                 (''role'', JStr ''admin''), (''by'', JStr ''bootstrap'')] s;
                                           s = audit ''key.created'' [(''key_id'', JStr (key_id k)),
                                                 (''principal_id'', JStr pid), (''key_prefix'', JStr (key_prefix k)),
                                                 (''by'', JStr ''bootstrap'')] s
                                       in (Inr token, s)))"

subsection \<open>Authentication\<close>

type_synonym AuthenticationError = string

definition auth_failed ::
  "(string \<times> json) list \<Rightarrow> string \<Rightarrow> AuthStore \<Rightarrow> (AuthenticationError + AuthContext) \<times> AuthStore" where
  "auth_failed fs msg s = (Inl msg, audit ''auth.failed'' fs s)"

definition authenticate ::
  "(string \<Rightarrow> string) \<Rightarrow> string \<Rightarrow> AuthStore \<Rightarrow> (AuthenticationError + AuthContext) \<times> AuthStore" where
  "authenticate sha256 token s =
     (if token = [] then auth_failed [(''reason'', JStr ''empty_token'')] ''Empty or non-string token'' s
      else if \<not> starts_with token TOKEN_PREFIX
      then auth_failed [(''reason'', JStr ''wrong_prefix''), (''key_prefix'', JStr (take 12 token))]
             ''Token has wrong prefix'' s
      else let h = hash_token sha256 token
           in case im_get (keys_by_hash s) h of
                None \<Rightarrow> auth_failed [(''reason'', JStr ''invalid_token''), (''key_prefix'', JStr (token_prefix token))]
                          ''Invalid API key'' s
              | Some kid \<Rightarrow>
                  let k_opt = im_get (keys s) kid;
                      p_opt = Option.bind k_opt (\<lambda>k. im_get (principals s) (k_principal_id k))
                  in case (k_opt, p_opt) of
                       (Some k, Some p) \<Rightarrow>
                         if \<not> constant_time_equals (key_hash k) h
                         then auth_failed [(''reason'', JStr ''hash_mismatch''), (''key_id'', JStr (key_id k))]
                                ''Hash mismatch'' s
                         else if is_revoked k
                         then auth_failed [(''reason'', JStr ''revoked''), (''key_id'', JStr (key_id k))]
                                ''API key has been revoked'' s
                         else if is_disabled p
                         then auth_failed [(''reason'', JStr ''principal_disabled''), (''principal_id'', JStr (pr_id p)),
                                  (''key_id'', JStr (key_id k))]
                                (''Principal '' @ quoted (pr_handle p) @ '' is disabled'') s
                         else let (now, s) = utcnow_iso s
                              in (Inr (to_context p),
                                  s\<lparr> keys := im_insert kid (k\<lparr> last_used_at := Some now \<rparr>) (keys s) \<rparr>)
                     | _ \<Rightarrow> auth_failed [(''reason'', JStr ''dangling_key''), (''key_id'', JStr kid),
                               (''key_prefix'', JStr (token_prefix token))]
                             ''Key references a missing principal'' s)"

subsection \<open>Principals and keys\<close>

definition create_principal ::
  "(string \<Rightarrow> string) \<Rightarrow> (string \<Rightarrow> string) \<Rightarrow> string \<Rightarrow> string \<Rightarrow> string list option \<Rightarrow> string \<Rightarrow>
     string option \<Rightarrow> AuthStore \<Rightarrow> (AuthStoreError + Principal \<times> string) \<times> AuthStore" where
  "create_principal sha256 b64 handle r ns note by_opt s0 =
     (case parse_role r of
        Inl e \<Rightarrow> (Inl e, s0)
      | Inr parsed \<Rightarrow>
          if parsed = Admin \<and> ns \<noteq> None
          then (Inl (Invalid ''admin principal must have namespaces=None (all)''), s0)
          else if parsed \<noteq> Admin \<and> ns = None
          then (Inl (Invalid (r @ '' principal requires namespaces=list (got NoneType)'')), s0)
          else if list_ex (\<lambda>p. pr_handle p = handle) (map snd (principals s0))
          then (Inl (Invalid (''handle '' @ quoted handle @ '' already in use'')), s0)
          else let (pid, s) = new_id ''u'' s0;
                   (now, s) = utcnow_iso s;
                   p = \<lparr> pr_id = pid, pr_handle = handle, pr_role = parsed, pr_namespaces = ns,
                         pr_created_at = now, disabled_at = None, pr_note = note \<rparr>;
                   s = s\<lparr> principals := im_insert pid p (principals s) \<rparr>;
                   (token, s) = generate_token b64 s;
                   (k, s) = new_key sha256 pid token ''initial'' s;
                   s = insert_key k s
               in case persist_principals s of
                    (Inl e, s) \<Rightarrow> (Inl e, s)
                  | (Inr _, s) \<Rightarrow>
                      (case persist_keys s of
                         (Inl e, s) \<Rightarrow> (Inl e, s)
                       | (Inr _, s) \<Rightarrow>
                           let s = audit ''principal.created'' [(''principal_id'', JStr pid), (''role'', JStr r),
                                     (''by'', by_value by_opt)] s;
                               s = audit ''key.created'' [(''key_id'', JStr (key_id k)), (''principal_id'', JStr pid),
                                     (''key_prefix'', JStr (key_prefix k)), (''by'', by_value by_opt)] s
                           in (Inr (p, token), s)))"

definition list_principals :: "AuthStore \<Rightarrow> Principal list" where
  "list_principals s = map snd (principals s)"

definition get_principal :: "AuthStore \<Rightarrow> string \<Rightarrow> Principal option" where
  "get_principal s pid = im_get (principals s) pid"

definition new_disabled_at ::
  "bool option \<Rightarrow> Principal \<Rightarrow> AuthStore \<Rightarrow> string option \<times> AuthStore" where
  "new_disabled_at disabled p s =
     (case disabled of
        Some True \<Rightarrow> (case disabled_at p of
                        Some d \<Rightarrow> (Some d, s)
                      | None \<Rightarrow> let (now, s) = utcnow_iso s in (Some now, s))
      | Some False \<Rightarrow> (None, s)
      | None \<Rightarrow> (disabled_at p, s))"

definition update_principal ::
  "string \<Rightarrow> NamespacesUpdate \<Rightarrow> string option \<Rightarrow> bool option \<Rightarrow> string option \<Rightarrow> string option \<Rightarrow>
     AuthStore \<Rightarrow> (AuthStoreError + Principal) \<times> AuthStore" where
  "update_principal pid ns r disabled note by_opt s0 =
     (case im_get (principals s0) pid of
        None \<Rightarrow> (Inl (NotFound (''Principal '' @ quoted pid @ '' not found'')), s0)
      | Some p \<Rightarrow>
          (case (case r of Some x \<Rightarrow> parse_role x | None \<Rightarrow> Inr (pr_role p)) of
             Inl e \<Rightarrow> (Inl e, s0)
           | Inr new_role \<Rightarrow>
               let new_ns = (case ns of Unset \<Rightarrow> pr_namespaces p | SetNs v \<Rightarrow> v)
               in if new_role = Admin \<and> new_ns \<noteq> None
                  then (Inl (Invalid ''admin principal must have namespaces=None (all)''), s0)
                  else if new_role \<noteq> Admin \<and> new_ns = None
                  then (Inl (Invalid (Role_as_str new_role @ '' principal requires namespaces=list'')), s0)
                  else let (dis, s) = new_disabled_at disabled p s0;
                           p' = p\<lparr> pr_role := new_role, pr_namespaces := new_ns, disabled_at := dis,
                                   pr_note := (case note of Some n \<Rightarrow> n | None \<Rightarrow> pr_note p) \<rparr>;
                           s = s\<lparr> principals := im_insert pid p' (principals s) \<rparr>
                       in case persist_principals s of
                            (Inl e, s) \<Rightarrow> (Inl e, s)
                          | (Inr _, s) \<Rightarrow>
                              (Inr p', audit ''principal.updated''
                                 [(''principal_id'', JStr pid), (''by'', by_value by_opt)] s)))"

definition create_key ::
  "(string \<Rightarrow> string) \<Rightarrow> (string \<Rightarrow> string) \<Rightarrow> string \<Rightarrow> string \<Rightarrow> string option \<Rightarrow> AuthStore \<Rightarrow>
     (AuthStoreError + ApiKey \<times> string) \<times> AuthStore" where
  "create_key sha256 b64 pid name by_opt s0 =
     (if \<not> im_contains (principals s0) pid
      then (Inl (NotFound (''Principal '' @ quoted pid @ '' not found'')), s0)
      else let (token, s) = generate_token b64 s0;
               (k, s) = new_key sha256 pid token name s;
               s = insert_key k s
           in case persist_keys s of
                (Inl e, s) \<Rightarrow> (Inl e, s)
              | (Inr _, s) \<Rightarrow>
                  (Inr (k, token), audit ''key.created'' [(''key_id'', JStr (key_id k)), (''principal_id'', JStr pid),
                     (''key_prefix'', JStr (key_prefix k)), (''by'', by_value by_opt)] s))"

definition list_keys :: "string option \<Rightarrow> AuthStore \<Rightarrow> ApiKey list" where
  "list_keys pid s =
     (case pid of
        Some p \<Rightarrow> filter (\<lambda>k. k_principal_id k = p) (map snd (keys s))
      | None \<Rightarrow> map snd (keys s))"

definition revoke_key ::
  "string \<Rightarrow> string option \<Rightarrow> AuthStore \<Rightarrow> (AuthStoreError + ApiKey) \<times> AuthStore" where
  "revoke_key kid by_opt s0 =
     (case im_get (keys s0) kid of
        None \<Rightarrow> (Inl (NotFound (''Key '' @ quoted kid @ '' not found'')), s0)
      | Some k \<Rightarrow>
          (let finish = (\<lambda>k s. (Inr k, audit ''key.revoked'' [(''key_id'', JStr kid),
                 (''principal_id'', JStr (k_principal_id k)), (''by'', by_value by_opt)] s))
           in if is_revoked k then finish k s0
              else let (now, s) = utcnow_iso s0;
                       k' = k\<lparr> revoked_at := Some now \<rparr>;
                       s = s\<lparr> keys := im_insert kid k' (keys s),
                              keys_by_hash := im_remove (key_hash k) (keys_by_hash s) \<rparr>
                   in case persist_keys s of
                        (Inl e, s) \<Rightarrow> (Inl e, s)
                      | (Inr _, s) \<Rightarrow> finish k' s))"

end
