(* ===== verification/AuthLaws.thy ===== *)
theory AuthLaws
  imports AuthStore
begin

text \<open>
  Laws of the credential store: what a successful authentication means, the role and
  namespace invariant, and that a revoked key stays revoked, also across restarts.
\<close>

declare im_vals_map [simp]

subsection \<open>Comparing hashes\<close>

lemma fold_or_eq_0:
  "fold (\<lambda>i d. d OR f i) is d = (0::nat) \<longleftrightarrow> d = 0 \<and> (\<forall>i \<in> set is. f i = 0)"
  by (induction "is" arbitrary: d) (auto simp: or_eq_0_iff)

lemma xor_eq_0_nat: "a XOR b = (0::nat) \<longleftrightarrow> a = b"
  by (metis xor.assoc xor.right_neutral xor_self_eq)

lemma constant_time_equals_iff:
  "constant_time_equals a b \<longleftrightarrow>
     (length a XOR length b) mod 256 = 0 \<and> (\<forall>i < max (length a) (length b). byte_at a i = byte_at b i)"
  by (auto simp: constant_time_equals_def Let_def fold_or_eq_0 xor_eq_0_nat)

lemma constant_time_equals_refl [simp]: "constant_time_equals a a"
  by (simp add: constant_time_equals_iff)

lemma constant_time_equals_no_nul:
  assumes "CHR 0x00 \<notin> set a" "CHR 0x00 \<notin> set b"
  shows "constant_time_equals a b \<longleftrightarrow> a = b"
proof
  have pos: "byte_at s i \<noteq> 0" if "CHR 0x00 \<notin> set s" "i < length s" for s i
  proof
    assume "byte_at s i = 0"
    with that have "of_char (s ! i) = (0::nat)" by (simp add: byte_at_def)
    then have "s ! i = char_of (0::nat)" by (metis char_of_char)
    then have "s ! i = CHR 0x00" by (simp add: char_of_def)
    with that show False by (metis nth_mem)
  qed
  assume "constant_time_equals a b"
  then have eq: "\<forall>i < max (length a) (length b). byte_at a i = byte_at b i"
    by (simp add: constant_time_equals_iff)
  have "\<not> length a < length b" "\<not> length b < length a"
    using eq pos [OF assms(1)] pos [OF assms(2)]
    by (metis byte_at_def less_irrefl less_max_iff_disj)+
  then have len: "length a = length b" by simp
  show "a = b"
    by (rule nth_equalityI [OF len]) (use eq len in \<open>auto simp: byte_at_def\<close>)
qed simp

subsection \<open>Frames\<close>

text \<open>Readings of the surroundings change no table and no file; a write changes its file.\<close>

lemma reading_frame [simp]:
  "principals (snd (utcnow_iso s)) = principals s" "keys (snd (utcnow_iso s)) = keys s"
  "keys_by_hash (snd (utcnow_iso s)) = keys_by_hash s" "principals_file (snd (utcnow_iso s)) = principals_file s"
  "keys_file (snd (utcnow_iso s)) = keys_file s" "as_rnd (snd (utcnow_iso s)) = as_rnd s"
  "as_rnd_ix (snd (utcnow_iso s)) = as_rnd_ix s"
  "principals (snd (new_id p s)) = principals s" "keys (snd (new_id p s)) = keys s"
  "keys_by_hash (snd (new_id p s)) = keys_by_hash s" "principals_file (snd (new_id p s)) = principals_file s"
  "keys_file (snd (new_id p s)) = keys_file s" "as_rnd (snd (new_id p s)) = as_rnd s"
  "as_rnd_ix (snd (new_id p s)) = Suc (as_rnd_ix s)"
  "principals (snd (io_result s)) = principals s" "keys (snd (io_result s)) = keys s"
  "keys_by_hash (snd (io_result s)) = keys_by_hash s" "principals_file (snd (io_result s)) = principals_file s"
  "keys_file (snd (io_result s)) = keys_file s"
  by (simp_all add: utcnow_iso_def new_id_def fill_bytes_def io_result_def Let_def)

lemma generate_token_frame [simp]:
  "principals (snd (generate_token b64 s)) = principals s" "keys (snd (generate_token b64 s)) = keys s"
  "keys_by_hash (snd (generate_token b64 s)) = keys_by_hash s"
  "principals_file (snd (generate_token b64 s)) = principals_file s"
  "keys_file (snd (generate_token b64 s)) = keys_file s"
  "fst (generate_token b64 s) = TOKEN_PREFIX @ b64 (as_rnd s (as_rnd_ix s))"
  by (simp_all add: generate_token_def fill_bytes_def Let_def)

lemma new_key_frame [simp]:
  "principals (snd (new_key sha256 pid tok n s)) = principals s" "keys (snd (new_key sha256 pid tok n s)) = keys s"
  "keys_by_hash (snd (new_key sha256 pid tok n s)) = keys_by_hash s"
  "principals_file (snd (new_key sha256 pid tok n s)) = principals_file s"
  "keys_file (snd (new_key sha256 pid tok n s)) = keys_file s"
  "key_hash (fst (new_key sha256 pid tok n s)) = hash_token sha256 tok"
  "k_principal_id (fst (new_key sha256 pid tok n s)) = pid"
  "revoked_at (fst (new_key sha256 pid tok n s)) = None"
  by (simp_all add: new_key_def Let_def split_beta)

lemma insert_key_frame [simp]:
  "principals (insert_key k s) = principals s" "principals_file (insert_key k s) = principals_file s"
  "keys_file (insert_key k s) = keys_file s" "keys (insert_key k s) = im_insert (key_id k) k (keys s)"
  "keys_by_hash (insert_key k s) = im_insert (key_hash k) (key_id k) (keys_by_hash s)"
  by (simp_all add: insert_key_def)

lemma persist_principals_frame [simp]:
  "principals (snd (persist_principals s)) = principals s" "keys (snd (persist_principals s)) = keys s"
  "keys_by_hash (snd (persist_principals s)) = keys_by_hash s"
  "keys_file (snd (persist_principals s)) = keys_file s"
  "fst (persist_principals s) = (if as_io s (as_io_ix s) then Inr () else Inl Io)"
  "principals_file (snd (persist_principals s)) =
     (if as_io s (as_io_ix s) then Some (map snd (principals s)) else principals_file s)"
  by (simp_all add: persist_principals_def io_result_def Let_def)

lemma persist_keys_frame [simp]:
  "principals (snd (persist_keys s)) = principals s" "keys (snd (persist_keys s)) = keys s"
  "keys_by_hash (snd (persist_keys s)) = keys_by_hash s"
  "principals_file (snd (persist_keys s)) = principals_file s"
  "fst (persist_keys s) = (if as_io s (as_io_ix s) then Inr () else Inl Io)"
  "keys_file (snd (persist_keys s)) =
     (if as_io s (as_io_ix s) then Some (map snd (keys s)) else keys_file s)"
  by (simp_all add: persist_keys_def io_result_def Let_def)

lemma audit_frame [simp]:
  "principals (audit e f s) = principals s" "keys (audit e f s) = keys s"
  "keys_by_hash (audit e f s) = keys_by_hash s" "principals_file (audit e f s) = principals_file s"
  "keys_file (audit e f s) = keys_file s"
  by (simp_all add: audit_def Let_def split_beta)

subsection \<open>What a successful authentication means\<close>

lemma starts_with_Nil [simp]: "\<not> starts_with [] TOKEN_PREFIX"
  by (simp add: TOKEN_PREFIX_def)

lemma authenticate_cases:
  "(\<exists>msg fs. authenticate sha256 token s = (Inl msg, audit ''auth.failed'' fs s)) \<or>
   (\<exists>kid k p. starts_with token TOKEN_PREFIX \<and>
      im_get (keys_by_hash s) (hash_token sha256 token) = Some kid \<and> im_get (keys s) kid = Some k \<and>
      im_get (principals s) (k_principal_id k) = Some p \<and>
      constant_time_equals (key_hash k) (hash_token sha256 token) \<and> \<not> is_revoked k \<and> \<not> is_disabled p \<and>
      authenticate sha256 token s = (Inr (to_context p), s\<lparr> as_now_ix := Suc (as_now_ix s),
        keys := im_insert kid (k\<lparr> last_used_at := Some (as_now s (as_now_ix s)) \<rparr>) (keys s) \<rparr>))"
  by (auto simp: authenticate_def auth_failed_def utcnow_iso_def Let_def split: option.splits)


subsection \<open>Roles and namespaces\<close>

definition role_ok :: "Principal \<Rightarrow> bool" where
  "role_ok p \<longleftrightarrow> (pr_role p = Admin \<longleftrightarrow> pr_namespaces p = None)"

text \<open>The invariant holds of the tables and of the file a restart reads.\<close>

definition roles_inv :: "AuthStore \<Rightarrow> bool" where
  "roles_inv s \<longleftrightarrow> (\<forall>p \<in> im_vals (principals s). role_ok p) \<and>
     (\<forall>ps. principals_file s = Some ps \<longrightarrow> (\<forall>p \<in> set ps. role_ok p))"

text \<open>
  The operations of the store as steps; the parameters \<open>hs\<close> of a step are the hashes of the
  tokens it generated.
\<close>

inductive auth_step :: "(string \<Rightarrow> string) \<Rightarrow> (string \<Rightarrow> string) \<Rightarrow> string set \<Rightarrow> AuthStore \<Rightarrow> AuthStore \<Rightarrow> bool"
  for sha256 b64 where
  auth: "auth_step sha256 b64 {} s (snd (authenticate sha256 tok s))"
| principal: "auth_step sha256 b64 {hash_token sha256 (TOKEN_PREFIX @ b64 (as_rnd s (Suc (as_rnd_ix s))))} s
    (snd (create_principal sha256 b64 h r ns nt by_opt s))"
| update: "auth_step sha256 b64 {} s (snd (update_principal pid nsu ro dis no by_opt s))"
| create: "auth_step sha256 b64 {hash_token sha256 (TOKEN_PREFIX @ b64 (as_rnd s (as_rnd_ix s)))} s
    (snd (create_key sha256 b64 pid name by_opt s))"
| revoke: "auth_step sha256 b64 {} s (snd (revoke_key kid by_opt s))"
| restart: "auth_step sha256 b64 {} s (snd (load_or_none s))"

text \<open>A step writes the principals file from its table, or leaves it.\<close>

lemma roles_inv_intro:
  assumes "roles_inv s"
    and "\<forall>p \<in> im_vals (principals s'). role_ok p \<or> p \<in> im_vals (principals s)"
    and "principals_file s' = principals_file s \<or> principals_file s' = Some (map snd (principals s'))"
  shows "roles_inv s'"
proof -
  have "\<forall>p \<in> im_vals (principals s'). role_ok p" using assms(1,2) unfolding roles_inv_def by blast
  with assms(1,3) show ?thesis by (auto simp: roles_inv_def)
qed

lemma authenticate_roles: "roles_inv s \<Longrightarrow> roles_inv (snd (authenticate sha256 tok s))"
proof -
  have "principals (snd (authenticate sha256 tok s)) = principals s \<and>
      principals_file (snd (authenticate sha256 tok s)) = principals_file s"
    using authenticate_cases [of sha256 tok s] by (elim disjE exE conjE) simp_all
  then show "roles_inv s \<Longrightarrow> ?thesis" by (simp add: roles_inv_def)
qed

lemma create_principal_tables:
  fixes s sha256 b64 h r ns nt by_opt
  defines "s' \<equiv> snd (create_principal sha256 b64 h r ns nt by_opt s)"
  shows "(\<forall>p \<in> im_vals (principals s'). role_ok p \<or> p \<in> im_vals (principals s)) \<and>
    (principals_file s' = principals_file s \<or> principals_file s' = Some (map snd (principals s')))"
  unfolding s'_def create_principal_def
  by (auto simp: Let_def split_beta role_ok_def dest!: im_vals_insert
      split: sum.split if_splits)

lemma new_disabled_at_frame [simp]:
  "principals (snd (new_disabled_at dis p s)) = principals s" "keys (snd (new_disabled_at dis p s)) = keys s"
  "keys_file (snd (new_disabled_at dis p s)) = keys_file s"
  "principals_file (snd (new_disabled_at dis p s)) = principals_file s"
  by (simp_all add: new_disabled_at_def Let_def split_beta split: option.split bool.split)

lemma update_principal_tables:
  fixes s pid nsu ro dis no by_opt
  defines "s' \<equiv> snd (update_principal pid nsu ro dis no by_opt s)"
  shows "(\<forall>p \<in> im_vals (principals s'). role_ok p \<or> p \<in> im_vals (principals s)) \<and>
    (principals_file s' = principals_file s \<or> principals_file s' = Some (map snd (principals s')))"
  unfolding s'_def update_principal_def
  by (auto simp: Let_def split_beta role_ok_def dest!: im_vals_insert split: sum.split option.split if_splits)

lemma create_key_principals:
  "principals (snd (create_key sha256 b64 pid name by_opt s)) = principals s"
  "principals_file (snd (create_key sha256 b64 pid name by_opt s)) = principals_file s"
  by (simp_all add: create_key_def Let_def split_beta)

lemma revoke_key_principals:
  "principals (snd (revoke_key kid by_opt s)) = principals s"
  "principals_file (snd (revoke_key kid by_opt s)) = principals_file s"
  by (simp_all add: revoke_key_def Let_def split_beta split: option.split)

lemma load_or_none_principals:
  "principals_file (snd (load_or_none s)) = principals_file s"
  "p \<in> im_vals (principals (snd (load_or_none s))) \<Longrightarrow>
     p \<in> im_vals (principals s) \<or> (\<exists>ps. principals_file s = Some ps \<and> p \<in> set ps)"
  by (cases "principals_file s"; cases "keys_file s";
      auto simp: load_or_none_def load_from_disk_def empty_tables_def Let_def dest: im_vals_fold_insert)+

lemma roles_inv_step: "auth_step sha256 b64 hs s s' \<Longrightarrow> roles_inv s \<Longrightarrow> roles_inv s'"
proof (induction rule: auth_step.induct)
  case (auth s tok)
  then show ?case by (rule authenticate_roles)
next
  case (principal s h r ns nt by_opt)
  show ?case
    by (rule roles_inv_intro [OF principal]) (use create_principal_tables [of sha256 b64 h r ns nt by_opt s] in blast)+
next
  case (update s pid nsu ro dis no by_opt)
  show ?case
    by (rule roles_inv_intro [OF update]) (use update_principal_tables [of pid nsu ro dis no by_opt s] in blast)+
next
  case (create s pid name by_opt)
  then show ?case by (simp add: roles_inv_def create_key_principals)
next
  case (revoke s kid by_opt)
  then show ?case by (simp add: roles_inv_def revoke_key_principals)
next
  case (restart s)
  then show ?case unfolding roles_inv_def load_or_none_principals(1) using load_or_none_principals(2) by blast
qed

lemma bootstrap_roles:
  assumes "fst (bootstrap sha256 b64 adm h s) = Inr tok"
  shows "roles_inv (snd (bootstrap sha256 b64 adm h s))"
  using assms
  unfolding bootstrap_def
  by (auto simp: Let_def split_beta roles_inv_def role_ok_def empty_tables_def
      dest!: im_vals_insert split: option.splits if_splits)

abbreviation auth_run :: "(string \<Rightarrow> string) \<Rightarrow> (string \<Rightarrow> string) \<Rightarrow> AuthStore \<Rightarrow> AuthStore \<Rightarrow> bool" where
  "auth_run sha256 b64 \<equiv> (\<lambda>s s'. \<exists>hs. auth_step sha256 b64 hs s s')\<^sup>*\<^sup>*"

lemma roles_inv_run: "auth_run sha256 b64 s s' \<Longrightarrow> roles_inv s \<Longrightarrow> roles_inv s'"
  by (induction rule: rtranclp_induct) (auto dest: roles_inv_step)

text \<open>
  Unrestricted access is for administrators only: in every state reached from a bootstrap
  by any sequence of operations and restarts, whatever writes fail, a caller whose token is
  accepted and who is not an administrator has a list of namespaces and is allowed
  exactly those, and an administrator is allowed every namespace.
\<close>

lemma authenticated_namespaces:
  assumes "fst (bootstrap sha256 b64 adm h s0) = Inr tok"
    and "auth_run sha256 b64 (snd (bootstrap sha256 b64 adm h s0)) s"
    and "fst (authenticate sha256 token s) = Inr ctx"
  shows "if is_admin ctx then \<forall>ds. allows_namespace ctx ds
    else \<exists>ns. namespaces ctx = Some ns \<and> (\<forall>ds. allows_namespace ctx ds \<longleftrightarrow> ds \<in> set ns)"
proof -
  have inv: "roles_inv s" using roles_inv_run [OF assms(2)] bootstrap_roles [OF assms(1)] by simp
  from assms(3) authenticate_cases [of sha256 token s] obtain i p where
    "im_get (principals s) i = Some p" "ctx = to_context p" by auto
  with inv have "role_ok p" "ctx = to_context p"
    by (auto simp: roles_inv_def dest!: im_vals_get)
  then show ?thesis
    by (auto simp: role_ok_def to_context_def is_admin_def allows_namespace_def)
qed

text \<open>An empty directory, with every write succeeding.\<close>

definition demo_dir :: "(nat \<Rightarrow> bool) \<Rightarrow> AuthStore" where
  "demo_dir io =
     \<lparr> principals = [], keys = [], keys_by_hash = [], principals_file = None, keys_file = None, audit_file = [],
       as_now = (\<lambda>i. show_nat i), as_now_ix = 0, as_rnd = (\<lambda>i. show_nat i), as_rnd_ix = 0,
       as_io = io, as_io_ix = 0 \<rparr>"

lemma authenticated_namespaces_witness:
  "is_admin \<lparr> principal_id = ''u_30'', role = Admin, namespaces = None \<rparr> \<and>
     allows_namespace \<lparr> principal_id = ''u_30'', role = Admin, namespaces = None \<rparr> ''ds''"
proof -
  let ?s = "snd (bootstrap id id (Some ''a2x_pat_x'') ''root'' (demo_dir (\<lambda>_. True)))"
  have boot: "fst (bootstrap id id (Some ''a2x_pat_x'') ''root'' (demo_dir (\<lambda>_. True))) = Inr ''a2x_pat_x''"
    by code_simp
  have auth: "fst (authenticate id ''a2x_pat_x'' ?s) = Inr \<lparr> principal_id = ''u_30'', role = Admin, namespaces = None \<rparr>"
    by code_simp
  show ?thesis
    using authenticated_namespaces [OF boot rtranclp.rtrancl_refl auth] by (simp add: is_admin_def)
qed

subsection \<open>Revocation\<close>

definition filed_keys :: "AuthStore \<Rightarrow> ApiKey set" where
  "filed_keys s = (case keys_file s of Some ks \<Rightarrow> set ks | None \<Rightarrow> {})"

text \<open>Every key whose hash compares equal to \<open>h\<close>, in memory or on disk, is revoked.\<close>

definition all_revoked :: "string \<Rightarrow> AuthStore \<Rightarrow> bool" where
  "all_revoked h s \<longleftrightarrow>
     (\<forall>k \<in> im_vals (keys s) \<union> filed_keys s. constant_time_equals (key_hash k) h \<longrightarrow> is_revoked k)"

lemma all_revoked_refuses:
  assumes "all_revoked (hash_token sha256 token) s"
  shows "\<exists>msg. fst (authenticate sha256 token s) = Inl msg"
  using authenticate_cases [of sha256 token s] assms
  by (auto simp: all_revoked_def dest!: im_vals_get)

lemma all_revoked_intro:
  assumes "all_revoked h s" "\<forall>h' \<in> hs. \<not> constant_time_equals h' h"
    and "\<forall>k' \<in> im_vals (keys s'). key_hash k' \<in> hs \<or>
       (\<exists>k \<in> im_vals (keys s) \<union> filed_keys s. key_hash k' = key_hash k \<and> (is_revoked k \<longrightarrow> is_revoked k'))"
    and "keys_file s' = keys_file s \<or> keys_file s' = Some (map snd (keys s'))"
  shows "all_revoked h s'"
proof -
  have mem: "is_revoked k'" if "k' \<in> im_vals (keys s')" "constant_time_equals (key_hash k') h" for k'
    using assms(1-3) that unfolding all_revoked_def by metis
  moreover have "is_revoked k'" if "k' \<in> filed_keys s'" "constant_time_equals (key_hash k') h" for k'
    using assms(4)
  proof
    assume "keys_file s' = keys_file s"
    with that assms(1) show ?thesis by (auto simp: all_revoked_def filed_keys_def)
  next
    assume "keys_file s' = Some (map snd (keys s'))"
    with that mem show ?thesis by (simp add: filed_keys_def)
  qed
  ultimately show ?thesis by (auto simp: all_revoked_def)
qed

lemma authenticate_keys:
  fixes s sha256 tok
  defines "s' \<equiv> snd (authenticate sha256 tok s)"
  shows "keys_file s' = keys_file s \<and> (\<forall>k' \<in> im_vals (keys s').
    \<exists>k \<in> im_vals (keys s). key_hash k' = key_hash k \<and> is_revoked k' = is_revoked k)"
  using authenticate_cases [of sha256 tok s]
proof (elim disjE exE conjE)
  fix kid k p
  assume k: "im_get (keys s) kid = Some k" and res: "authenticate sha256 tok s =
     (Inr (to_context p), s\<lparr> as_now_ix := Suc (as_now_ix s),
        keys := im_insert kid (k\<lparr> last_used_at := Some (as_now s (as_now_ix s)) \<rparr>) (keys s) \<rparr>)"
  have "\<exists>k0 \<in> im_vals (keys s). key_hash k' = key_hash k0 \<and> is_revoked k' = is_revoked k0"
    if "k' \<in> im_vals (im_insert kid (k\<lparr> last_used_at := u \<rparr>) (keys s))" for k' u
    using im_vals_insert [OF that] im_vals_get [OF k] by (auto simp: is_revoked_def)
  then show ?thesis by (simp add: s'_def res)
qed (auto simp: s'_def)

lemma revoke_key_keys:
  fixes s kid by_opt
  defines "s' \<equiv> snd (revoke_key kid by_opt s)"
  shows "(keys_file s' = keys_file s \<or> keys_file s' = Some (map snd (keys s'))) \<and> (\<forall>k' \<in> im_vals (keys s').
    \<exists>k \<in> im_vals (keys s). key_hash k' = key_hash k \<and> (is_revoked k \<longrightarrow> is_revoked k'))"
proof (cases "im_get (keys s) kid")
  case None
  then show ?thesis by (auto simp: s'_def revoke_key_def)
next
  case (Some k)
  have "\<exists>k0 \<in> im_vals (keys s). key_hash k' = key_hash k0 \<and> (is_revoked k0 \<longrightarrow> is_revoked k')"
    if "k' \<in> im_vals (im_insert kid (k\<lparr> revoked_at := Some u \<rparr>) (keys s))" for k' u
    using im_vals_insert [OF that] im_vals_get [OF Some] by (auto simp: is_revoked_def)
  with Some show ?thesis
    by (auto simp: s'_def revoke_key_def Let_def split_beta)
qed

lemma new_key_keys:
  "\<forall>k' \<in> im_vals (im_insert (key_id k) k m). key_hash k' \<in> {key_hash k} \<or>
     (\<exists>k0 \<in> im_vals m \<union> F. key_hash k' = key_hash k0 \<and> (is_revoked k0 \<longrightarrow> is_revoked k'))"
  using im_vals_insert [of _ "key_id k" k m] by blast

lemma create_key_keys:
  fixes s sha256 b64 pid name by_opt
  defines "s' \<equiv> snd (create_key sha256 b64 pid name by_opt s)"
  shows "(keys_file s' = keys_file s \<or> keys_file s' = Some (map snd (keys s'))) \<and>
    (keys s' = keys s \<or> (\<exists>k. keys s' = im_insert (key_id k) k (keys s) \<and>
       key_hash k = hash_token sha256 (TOKEN_PREFIX @ b64 (as_rnd s (as_rnd_ix s)))))"
  unfolding s'_def by (auto simp: create_key_def Let_def split_beta)

lemma create_principal_keys:
  fixes s sha256 b64 h r ns nt by_opt
  defines "s' \<equiv> snd (create_principal sha256 b64 h r ns nt by_opt s)"
  shows "(keys_file s' = keys_file s \<or> keys_file s' = Some (map snd (keys s'))) \<and>
    (keys s' = keys s \<or> (\<exists>k. keys s' = im_insert (key_id k) k (keys s) \<and>
       key_hash k = hash_token sha256 (TOKEN_PREFIX @ b64 (as_rnd s (Suc (as_rnd_ix s))))))"
  unfolding s'_def by (auto simp: create_principal_def Let_def split_beta split: sum.split)

lemma update_principal_keys:
  "keys (snd (update_principal pid nsu ro dis no by_opt s)) = keys s"
  "keys_file (snd (update_principal pid nsu ro dis no by_opt s)) = keys_file s"
  by (simp_all add: update_principal_def Let_def split_beta split: sum.split option.split)

lemma load_or_none_keys:
  "keys_file (snd (load_or_none s)) = keys_file s \<and>
   im_vals (keys (snd (load_or_none s))) \<subseteq> im_vals (keys s) \<union> filed_keys s"
  by (auto simp: load_or_none_def load_from_disk_def empty_tables_def Let_def filed_keys_def
      dest: im_vals_fold_insert split: option.splits)

lemma all_revoked_step:
  assumes "auth_step sha256 b64 hs s s'" "all_revoked h s" "\<forall>h' \<in> hs. \<not> constant_time_equals h' h"
  shows "all_revoked h s'"
  using assms
proof (induction rule: auth_step.induct)
  case (auth s tok)
  show ?case
    by (rule all_revoked_intro [OF auth]) (use authenticate_keys [of sha256 tok s] in blast)+
next
  case (principal s hd' r ns nt by_opt)
  show ?case
    by (rule all_revoked_intro [OF principal])
       (use create_principal_keys [of sha256 b64 hd' r ns nt by_opt s] new_key_keys in \<open>metis Un_iff\<close>)+
next
  case (update s pid nsu ro dis no by_opt)
  then show ?case by (simp add: all_revoked_def filed_keys_def update_principal_keys)
next
  case (create s pid name by_opt)
  show ?case
    by (rule all_revoked_intro [OF create])
       (use create_key_keys [of sha256 b64 pid name by_opt s] new_key_keys in \<open>metis Un_iff\<close>)+
next
  case (revoke s kid by_opt)
  show ?case
    by (rule all_revoked_intro [OF revoke]) (use revoke_key_keys [of kid by_opt s] in blast)+
next
  case (restart s)
  show ?case
    by (rule all_revoked_intro [OF restart]) (use load_or_none_keys [of s] in blast)+
qed

text \<open>Runs in which no generated token has a hash that compares equal to \<open>h\<close>.\<close>

abbreviation fresh_run :: "(string \<Rightarrow> string) \<Rightarrow> (string \<Rightarrow> string) \<Rightarrow> string \<Rightarrow> AuthStore \<Rightarrow> AuthStore \<Rightarrow> bool" where
  "fresh_run sha256 b64 h \<equiv>
     (\<lambda>s s'. \<exists>hs. auth_step sha256 b64 hs s s' \<and> (\<forall>h' \<in> hs. \<not> constant_time_equals h' h))\<^sup>*\<^sup>*"

lemma revoke_establishes:
  assumes "im_get (keys s) kid = Some k" "revoked_at k = None" "im_wf (keys s)"
    and "revoke_key kid by_opt s = (Inr k', s1)"
    and only: "\<forall>(i, x) \<in> set (keys s). constant_time_equals (key_hash x) h \<longrightarrow> i = kid"
  shows "all_revoked h s1"
proof -
  let ?k = "k\<lparr> revoked_at := Some (fst (utcnow_iso s)) \<rparr>"
  have s1: "keys s1 = im_insert kid ?k (keys s)" "keys_file s1 = Some (map snd (keys s1))"
    using assms(1,2,4)
    by (auto simp: revoke_key_def is_revoked_def Let_def split_beta split: if_splits dest: arg_cong [of _ _ snd])
  have wf: "im_wf (keys s1)" using assms(3) by (simp add: s1)
  have "is_revoked x" if "(i, x) \<in> set (keys s1)" "constant_time_equals (key_hash x) h" for i x
  proof (cases "i = kid")
    case True
    with that wf have "im_get (keys s1) kid = Some x" by simp
    then show ?thesis by (auto simp: s1 is_revoked_def)
  next
    case False
    with that(1) s1 have "(i, x) \<in> set (keys s)" using set_im_insertD by fastforce
    with only that(2) False show ?thesis by blast
  qed
  then show ?thesis by (auto simp: all_revoked_def filed_keys_def s1(2) im_vals_def simp del: im_vals_map)
qed


text \<open>A store with one administrator and one key, loaded from its files.\<close>

definition demo_admin :: Principal where
  "demo_admin = \<lparr> pr_id = ''u'', pr_handle = ''root'', pr_role = Admin, pr_namespaces = None,
     pr_created_at = [], disabled_at = None, pr_note = [] \<rparr>"

definition demo_key :: ApiKey where
  "demo_key = \<lparr> key_id = ''k'', k_principal_id = ''u'', key_hash = hash_token id ''a2x_pat_x'',
     key_prefix = ''a2x_pat_x'', k_name = [], k_created_at = [], expires_at = None, last_used_at = None,
     revoked_at = None \<rparr>"

definition demo_auth :: "(nat \<Rightarrow> bool) \<Rightarrow> AuthStore" where
  "demo_auth io = (demo_dir io)\<lparr> principals := [(''u'', demo_admin)], keys := [(''k'', demo_key)],
     keys_by_hash := [(hash_token id ''a2x_pat_x'', ''k'')], principals_file := Some [demo_admin],
     keys_file := Some [demo_key] \<rparr>"

lemmas demo_auth_defs = demo_auth_def demo_dir_def demo_key_def demo_admin_def

lemma im_insert_single [simp]: "im_insert k v [] = [(k, v)]" "im_insert k v [(k, x)] = [(k, v)]"
  by (simp_all add: im_insert_def)



text \<open>
  A new key works at once: after a key is created for a principal that is not disabled, the
  token that is returned authenticates as that principal.
\<close>

lemma create_key_authenticates:
  assumes "create_key sha256 b64 pid name by_opt s = (Inr (k, token), s')"
    and "im_get (principals s) pid = Some p" "disabled_at p = None"
  shows "fst (authenticate sha256 token s') = Inr (to_context p)"
proof -
  have tok: "token = TOKEN_PREFIX @ b64 (as_rnd s (as_rnd_ix s))"
    and tables: "principals s' = principals s" "im_get (keys s') (key_id k) = Some k"
      "im_get (keys_by_hash s') (hash_token sha256 token) = Some (key_id k)"
    and key: "key_hash k = hash_token sha256 token" "k_principal_id k = pid" "revoked_at k = None"
    using assms(1) by (auto simp: create_key_def Let_def split_beta split: if_splits)
  have prefix: "starts_with (p @ x) p" for p x by (induction p) auto
  show ?thesis
    using assms(2,3)
    by (auto simp: authenticate_def tables key is_revoked_def is_disabled_def Let_def split_beta
        prefix tok [symmetric]) (simp_all add: tok prefix TOKEN_PREFIX_def)
qed

lemma create_key_authenticates_witness:
  "\<exists>k tok s'. create_key id id ''u'' ''ci'' None (demo_auth (\<lambda>_. True)) = (Inr (k, tok), s') \<and>
     fst (authenticate id tok s') = Inr (to_context demo_admin)"
proof -
  let ?r = "create_key id id ''u'' ''ci'' None (demo_auth (\<lambda>_. True))"
  have "\<exists>k tok. fst ?r = Inr (k, tok)"
    by (simp add: create_key_def demo_auth_defs im_contains_def Let_def split_beta
        generate_token_def fill_bytes_def new_key_def new_id_def utcnow_iso_def insert_key_def)
  then obtain k tok s' where r: "?r = (Inr (k, tok), s')" by (cases ?r) auto
  have "im_get (principals (demo_auth (\<lambda>_. True))) ''u'' = Some demo_admin" "disabled_at demo_admin = None"
    by (simp_all add: demo_auth_defs)
  with create_key_authenticates [OF r] r show ?thesis by blast
qed

end
