(* ===== verification/ClusterState.thy ===== *)
theory ClusterState
  imports Merkle AuthContext
begin

text \<open>
  The data of the cluster module: the persisted state of \<open>a2x-cluster/src/state.rs\<close>, the
  configuration, peer sessions, wire messages (\<open>transport.rs\<close>), the traits the store is
  given (\<open>registry_view.rs\<close>), and the \<open>ClusterStore\<close> record itself.

  What the store reads from its surroundings is part of its record: \<open>clk\<close>, \<open>wall\<close> and \<open>rnd\<close>
  are the successive readings of the monotonic clock (seconds), of the wall clock
  (milliseconds) and of the random generator (16 bytes each), and \<open>save_ok\<close> says which
  of the successive writes of the state file succeed; every reading advances the index
  next to it. \<open>disk\<close> is the content of the state file. Times in seconds are reals.

  The local registry and the token verifier are trait objects: records of functions.
\<close>

subsection \<open>Persisted state\<close>

definition STATE_SEP :: char where
  "STATE_SEP = CHR 0x00"

definition make_key :: "string \<Rightarrow> string \<Rightarrow> string" where
  "make_key ds sid = ds @ [STATE_SEP] @ sid"

definition split_key :: "string \<Rightarrow> string \<times> string" where
  "split_key k = (case split_once STATE_SEP k of Some (ds, sid) \<Rightarrow> (ds, sid) | None \<Rightarrow> (k, []))"

record Tombstone =
  tb_version :: Version
  deleted_at_ms :: int

record ClusterState =
  cs_node_id :: string
  version_clock :: int
  local_versions :: "(string, Version) imap"
  tombstones :: "(string, Tombstone) imap"
  cs_cluster_id :: "string option"
  last_roster :: "json list"
  my_membership_version :: "Version option"

definition ClusterState_new :: "string \<Rightarrow> ClusterState" where
  "ClusterState_new nid =
     \<lparr> cs_node_id = nid, version_clock = 0, local_versions = [], tombstones = [],
       cs_cluster_id = None, last_roster = [], my_membership_version = None \<rparr>"

subsection \<open>Configuration\<close>

record ClusterConfig =
  keepalive_interval :: real
  hold_timeout :: real
  anti_entropy_interval :: real
  http_timeout :: real
  broadcast_workers :: nat
  merkle_buckets :: nat

definition ClusterConfig_default :: ClusterConfig where
  "ClusterConfig_default =
     \<lparr> keepalive_interval = 10, hold_timeout = 30, anti_entropy_interval = 20,
       http_timeout = 5, broadcast_workers = 32, merkle_buckets = 256 \<rparr>"

definition tombstone_retention :: "ClusterConfig \<Rightarrow> real" where
  "tombstone_retention c = hold_timeout c + keepalive_interval c"

text \<open>\<open>x as i64\<close> for a float: truncation towards zero, saturating.\<close>

definition f64_as_i64 :: "real \<Rightarrow> int" where
  "f64_as_i64 x =
     (let t = (if 0 \<le> x then \<lfloor>x\<rfloor> else \<lceil>x\<rceil>)
      in max (- 9223372036854775808) (min i64_max t))"

definition retention_ms :: "ClusterConfig \<Rightarrow> int" where
  "retention_ms c = f64_as_i64 (tombstone_retention c * 1000)"

subsection \<open>Peers and messages\<close>

text \<open>A \<open>BTreeSet<String>\<close> is a sorted list without repetitions.\<close>

definition btree_set :: "string list \<Rightarrow> string list" where
  "btree_set xs = sort (remdups xs)"

record Peer =
  p_node_id :: string
  p_address :: string
  p_namespaces :: "string list"
  last_seen :: real
  p_token :: "string option"

record PeerSummary =
  ps_node_id :: string
  ps_address :: string
  ps_namespaces :: "string list"

definition to_summary :: "Peer \<Rightarrow> PeerSummary" where
  "to_summary p =
     \<lparr> ps_node_id = p_node_id p, ps_address = p_address p, ps_namespaces = p_namespaces p \<rparr>"

type_synonym TransportError = string

record OpenRequest =
  or_node_id :: string
  or_address :: string
  or_namespaces :: "string list"
  or_token :: "string option"

record OpenResponse =
  os_node_id :: string
  os_accepted :: "string list"
  os_ephemeral :: "string list"
  os_session_token :: "string option"

type_synonym DigestRow = "string \<times> string \<times> string \<times> Version"

record UpdatesResponse =
  u_accepted :: nat
  u_received :: nat
  u_rejected :: nat

record ReconcileResult =
  pulled :: nat
  pushed :: nat

record MembershipRecord =
  m_node_id :: string
  m_cluster_id :: "string option"
  m_address :: string
  m_version :: Version
  m_removed :: bool

type_synonym Roster = "(string, MembershipRecord) imap"

record JoinRequest =
  j_cluster_id :: "string option"
  j_roster :: "json list"
  j_token :: "string option"
  j_from_node :: string
  j_from_address :: string

record JoinResponse =
  jr_accepted :: bool
  jr_node_id :: "string option"
  jr_cluster_id :: "string option"
  jr_version :: "Version option"
  jr_error :: "string option"

record EvictRequest =
  ev_from_node :: string
  ev_cluster_id :: "string option"
  ev_token :: "string option"

record LeaveRequest =
  lv_from_node :: string
  lv_token :: "string option"

text \<open>
  The RPC boundary: one function per method of the \<open>Transport\<close> trait, on a world \<open>'w\<close> that
  holds the other nodes and the network.
\<close>

record 'w Transport =
  t_open :: "string \<Rightarrow> OpenRequest \<Rightarrow> 'w \<Rightarrow> (TransportError + OpenResponse) \<times> 'w"
  t_merkle :: "string \<Rightarrow> string \<Rightarrow> string list \<Rightarrow> string option \<Rightarrow> 'w \<Rightarrow>
     (TransportError + (string, string) imap) \<times> 'w"
  t_digest :: "string \<Rightarrow> string \<Rightarrow> string list \<Rightarrow> string option \<Rightarrow> nat list option \<Rightarrow> 'w \<Rightarrow>
     (TransportError + DigestRow list) \<times> 'w"
  t_pull :: "string \<Rightarrow> string \<Rightarrow> Key list \<Rightarrow> string option \<Rightarrow> 'w \<Rightarrow>
     (TransportError + SyncEnvelope list) \<times> 'w"
  t_updates :: "string \<Rightarrow> string \<Rightarrow> SyncEnvelope list \<Rightarrow> string option \<Rightarrow> 'w \<Rightarrow>
     (TransportError + UpdatesResponse) \<times> 'w"
  t_keepalive :: "string \<Rightarrow> string \<Rightarrow> string option \<Rightarrow> 'w \<Rightarrow> (TransportError + bool) \<times> 'w"
  t_join :: "string \<Rightarrow> JoinRequest \<Rightarrow> 'w \<Rightarrow> (TransportError + JoinResponse) \<times> 'w"
  t_evict :: "string \<Rightarrow> EvictRequest \<Rightarrow> 'w \<Rightarrow> (TransportError + bool) \<times> 'w"
  t_evict_self :: "string \<Rightarrow> LeaveRequest \<Rightarrow> 'w \<Rightarrow> (TransportError + bool) \<times> 'w"
  t_set_digest :: "string \<Rightarrow> string \<Rightarrow> string option \<Rightarrow> 'w \<Rightarrow>
     (TransportError + (string, Version) imap) \<times> 'w"
  t_set_pull :: "string \<Rightarrow> string \<Rightarrow> string list \<Rightarrow> string option \<Rightarrow> 'w \<Rightarrow>
     (TransportError + json list) \<times> 'w"
  t_set_sync :: "string \<Rightarrow> string \<Rightarrow> MembershipRecord list \<Rightarrow> string option \<Rightarrow> 'w \<Rightarrow>
     (TransportError + bool) \<times> 'w"

subsection \<open>What the store is given\<close>

record LocalEntry =
  le_service_id :: string
  le_source :: string
  le_entry :: json
  le_wrapped :: "json option"

definition is_ephemeral :: "LocalEntry \<Rightarrow> bool" where
  "is_ephemeral e = (le_source e = ''ephemeral'')"

record LocalRegistryView =
  list_datasets :: "string list"
  list_entries :: "string \<Rightarrow> LocalEntry list"
  get_entry :: "string \<Rightarrow> string \<Rightarrow> LocalEntry option"
  is_auth_required :: "string \<Rightarrow> bool"

record PeerAuthVerifier =
  auth_enabled :: bool
  authenticate_token :: "string \<Rightarrow> AuthContext option"

definition AllowAll :: PeerAuthVerifier where
  "AllowAll = \<lparr> auth_enabled = False, authenticate_token = (\<lambda>_. None) \<rparr>"

subsection \<open>The store\<close>

record ClusterStore =
  state :: ClusterState
  foreign :: "(Key, SyncEnvelope) imap"
  sessions :: "(string, Peer) imap"
  evicted_until :: "(string, real) imap"
  config :: ClusterConfig
  registry :: "LocalRegistryView option"
  advertise :: string
  auth :: PeerAuthVerifier
  eviction_sink :: bool
  membership_roster :: "Roster option"
  eviction_log :: "(string \<times> (string \<times> string) list) list"
  clk :: "nat \<Rightarrow> real"
  clk_ix :: nat
  wall :: "nat \<Rightarrow> int"
  wall_ix :: nat
  rnd :: "nat \<Rightarrow> string"
  rnd_ix :: nat
  save_ok :: "nat \<Rightarrow> bool"
  save_ix :: nat
  disk :: "ClusterState option"

datatype ClusterError = SaveFailed

definition node_id :: "ClusterStore \<Rightarrow> string" where
  "node_id s = cs_node_id (state s)"

definition clock_now :: "ClusterStore \<Rightarrow> real \<times> ClusterStore" where
  "clock_now s = (clk s (clk_ix s), s\<lparr> clk_ix := Suc (clk_ix s) \<rparr>)"

definition now_ms :: "ClusterStore \<Rightarrow> int \<times> ClusterStore" where
  "now_ms s = (wall s (wall_ix s), s\<lparr> wall_ix := Suc (wall_ix s) \<rparr>)"

definition random_bytes :: "ClusterStore \<Rightarrow> string \<times> ClusterStore" where
  "random_bytes s = (rnd s (rnd_ix s), s\<lparr> rnd_ix := Suc (rnd_ix s) \<rparr>)"

text \<open>\<open>save\<close>: the state is written atomically, or the write fails and the file is unchanged.\<close>

definition save :: "ClusterStore \<Rightarrow> (ClusterError + unit) \<times> ClusterStore" where
  "save s =
     (let s' = s\<lparr> save_ix := Suc (save_ix s) \<rparr>
      in if save_ok s (save_ix s) then (Inr (), s'\<lparr> disk := Some (state s) \<rparr>)
         else (Inl SaveFailed, s'))"

definition save_logged :: "ClusterStore \<Rightarrow> ClusterStore" where
  "save_logged s = snd (save s)"

subsection \<open>Lemmas\<close>

lemma split_key_make_key: "STATE_SEP \<notin> set ds \<Longrightarrow> split_key (make_key ds sid) = (ds, sid)"
  by (simp add: split_key_def make_key_def)

lemma make_key_inject:
  "STATE_SEP \<notin> set ds \<Longrightarrow> STATE_SEP \<notin> set ds' \<Longrightarrow>
   make_key ds sid = make_key ds' sid' \<longleftrightarrow> ds = ds' \<and> sid = sid'"
  by (metis prod.inject split_key_make_key)

lemma set_btree_set [simp]: "set (btree_set xs) = set xs"
  by (simp add: btree_set_def)

lemma btree_set_Nil [simp]: "btree_set [] = []"
  by (simp add: btree_set_def)

lemma btree_set_eq_Nil_iff [simp]: "btree_set xs = [] \<longleftrightarrow> xs = []"
  by (metis set_btree_set set_empty)

text \<open>What a save leaves alone: everything but the file and the index of the write.\<close>

lemma save_logged_simps [simp]:
  "state (save_logged s) = state s" "foreign (save_logged s) = foreign s"
  "sessions (save_logged s) = sessions s" "evicted_until (save_logged s) = evicted_until s"
  "config (save_logged s) = config s" "registry (save_logged s) = registry s"
  "advertise (save_logged s) = advertise s" "auth (save_logged s) = auth s"
  "membership_roster (save_logged s) = membership_roster s"
  "eviction_log (save_logged s) = eviction_log s" "clk (save_logged s) = clk s"
  "clk_ix (save_logged s) = clk_ix s" "wall (save_logged s) = wall s"
  "wall_ix (save_logged s) = wall_ix s" "eviction_sink (save_logged s) = eviction_sink s"
  by (simp_all add: save_logged_def save_def Let_def)

lemma save_simps [simp]:
  "state (snd (save s)) = state s" "foreign (snd (save s)) = foreign s"
  "sessions (snd (save s)) = sessions s" "evicted_until (snd (save s)) = evicted_until s"
  "config (snd (save s)) = config s" "registry (snd (save s)) = registry s"
  "auth (snd (save s)) = auth s" "membership_roster (snd (save s)) = membership_roster s"
  "eviction_log (snd (save s)) = eviction_log s"
  by (simp_all add: save_def Let_def)

end
