(* ===== verification/ClusterStore.thy ===== *)
theory ClusterStore
  imports ClusterState
begin

text \<open>
  The operations of \<open>ClusterStore\<close> (\<open>a2x-cluster/src/store.rs\<close>) and the handshake
  authorization of \<open>auth_handshake.rs\<close>, in the order of the source. An operation takes the
  store and returns its result with the new store; an outbound one also takes the
  transport and its world. Each operation runs to completion: the store's mutex makes
  the sections of the source atomic, and interleavings at the await points of the
  outbound operations are not modelled.
\<close>

subsection \<open>Versioning\<close>

definition next_ts_locked :: "ClusterStore \<Rightarrow> int \<times> ClusterStore" where
  "next_ts_locked s =
     (let (now, s) = now_ms s;
          ts = max now (wrap64 (version_clock (state s) + 1))
      in (ts, s\<lparr> state := (state s)\<lparr> version_clock := ts \<rparr> \<rparr>))"

definition next_version :: "ClusterStore \<Rightarrow> Version \<times> ClusterStore" where
  "next_version s = (let (ts, s) = next_ts_locked s in (Version ts (node_id s), s))"

definition next_version_after :: "int \<Rightarrow> ClusterStore \<Rightarrow> Version \<times> ClusterStore" where
  "next_version_after floor_ms s =
     (let (now, s) = now_ms s;
          ts = max (max now (wrap64 (version_clock (state s) + 1))) (wrap64 (floor_ms + 1));
          s = s\<lparr> state := (state s)\<lparr> version_clock := ts \<rparr> \<rparr>
      in (Version ts (node_id s), s))"

definition observe_version :: "int \<Rightarrow> ClusterStore \<Rightarrow> ClusterStore" where
  "observe_version ms s =
     (if version_clock (state s) < ms then s\<lparr> state := (state s)\<lparr> version_clock := ms \<rparr> \<rparr> else s)"

definition persist_membership ::
  "string option \<Rightarrow> json list \<Rightarrow> Version option \<Rightarrow> ClusterStore \<Rightarrow> (ClusterError + unit) \<times> ClusterStore" where
  "persist_membership cid recs mmv s =
     save (s\<lparr> state := (state s)\<lparr> cs_cluster_id := cid, last_roster := recs, my_membership_version := mmv \<rparr> \<rparr>)"

definition local_present :: "LocalRegistryView \<Rightarrow> (string \<times> string) list" where
  "local_present reg =
     concat (map (\<lambda>ds. map (\<lambda>e. (ds, le_service_id e))
        (filter (\<lambda>e. \<not> is_ephemeral e) (list_entries reg ds))) (list_datasets reg))"

definition ensure_one :: "string \<times> string \<Rightarrow> bool \<times> ClusterStore \<Rightarrow> bool \<times> ClusterStore" where
  "ensure_one p cs =
     (case (p, cs) of ((ds, sid), (changed, s)) \<Rightarrow>
       let k = make_key ds sid
       in if \<not> im_contains (local_versions (state s)) k \<and> \<not> im_contains (tombstones (state s)) k
          then let (ts, s) = next_ts_locked s
               in (True, s\<lparr> state := (state s)\<lparr> local_versions :=
                     bm_insert k (Version ts (node_id s)) (local_versions (state s)) \<rparr> \<rparr>)
          else (changed, s))"

definition ensure_local_versions :: "ClusterStore \<Rightarrow> ClusterStore" where
  "ensure_local_versions s =
     (case registry s of
        None \<Rightarrow> s
      | Some reg \<Rightarrow>
          let (changed, s) = fold ensure_one (local_present reg) (False, s)
          in if changed then save_logged s else s)"

subsection \<open>Indexes and envelopes\<close>

text \<open>\<open>None\<close> or an empty list of namespaces selects every dataset.\<close>

definition in_scope :: "string list option \<Rightarrow> string \<Rightarrow> bool" where
  "in_scope ns ds = (case ns of Some xs \<Rightarrow> xs = [] \<or> ds \<in> set xs | None \<Rightarrow> True)"

definition local_index :: "string list option \<Rightarrow> ClusterStore \<Rightarrow> (Key, Version) imap \<times> ClusterStore" where
  "local_index ns s0 =
     (let s = ensure_local_versions s0
      in case registry s of
           None \<Rightarrow> ([], s)
         | Some reg \<Rightarrow>
             let me = node_id s;
                 live = filter (\<lambda>(ds, sid). in_scope ns ds) (local_present reg);
                 idx = fold (\<lambda>(ds, sid) idx.
                         case im_get (local_versions (state s)) (make_key ds sid) of
                           Some v \<Rightarrow> im_insert (ds, me, sid) v idx
                         | None \<Rightarrow> idx) live [];
                 idx = fold (\<lambda>(k, t) idx.
                         let (ds, sid) = split_key k
                         in if in_scope ns ds then im_insert (ds, me, sid) (tb_version t) idx else idx)
                       (tombstones (state s)) idx
             in (idx, s))"

definition full_index :: "string list option \<Rightarrow> ClusterStore \<Rightarrow> (Key, Version) imap \<times> ClusterStore" where
  "full_index ns s0 =
     (let (idx, s) = local_index ns s0
      in (fold (\<lambda>(k, e) idx. if in_scope ns (fst k) then im_insert k (version e) idx else idx)
            (foreign s) idx, s))"

definition payload_of :: "json \<Rightarrow> json option \<Rightarrow> json" where
  "payload_of ent w = JObj [(''entry'', ent), (''wrapped'', j_option w)]"

definition build_local_envelope :: "ClusterStore \<Rightarrow> string \<Rightarrow> string \<Rightarrow> SyncEnvelope option" where
  "build_local_envelope s ds sid =
     (case im_get (tombstones (state s)) (make_key ds sid) of
        Some tomb \<Rightarrow>
          Some \<lparr> dataset = ds, service_id = sid, origin_id = node_id s,
                 version = tb_version tomb, tombstone = True, payload = None \<rparr>
      | None \<Rightarrow>
          (case im_get (local_versions (state s)) (make_key ds sid) of
             None \<Rightarrow> None
           | Some v \<Rightarrow>
               (case registry s of
                  None \<Rightarrow> None
                | Some reg \<Rightarrow>
                    (case get_entry reg ds sid of
                       None \<Rightarrow> None
                     | Some e \<Rightarrow>
                         Some \<lparr> dataset = ds, service_id = sid, origin_id = node_id s, version = v,
                                tombstone = False,
                                payload = Some (payload_of (le_entry e) (le_wrapped e)) \<rparr>))))"

definition build_envelope_for_key :: "ClusterStore \<Rightarrow> Key \<Rightarrow> SyncEnvelope option" where
  "build_envelope_for_key s k =
     (case k of (ds, origin, sid) \<Rightarrow>
       if origin = node_id s then build_local_envelope s ds sid else im_get (foreign s) k)"

subsection \<open>Inbound apply\<close>

definition apply_inbound :: "SyncEnvelope \<Rightarrow> ClusterStore \<Rightarrow> bool \<times> ClusterStore" where
  "apply_inbound e s0 =
     (let (now, s) = clock_now s0
      in if origin_id e = node_id s then (False, s)
         else if (case im_get (evicted_until s) (origin_id e) of Some until \<Rightarrow> now < until | None \<Rightarrow> False)
         then (False, s)
         else if \<not> version_newer (version e) (map_option version (im_get (foreign s) (key e)))
         then (False, s)
         else (True, s\<lparr> foreign := im_insert (key e) e (foreign s) \<rparr>))"

subsection \<open>The handshake\<close>

record Authorized =
  accepted :: "string list"
  ephemeral :: "string list"

definition handshake_ctx :: "PeerAuthVerifier \<Rightarrow> string option \<Rightarrow> AuthContext option" where
  "handshake_ctx au token =
     (case token of
        Some t \<Rightarrow> if auth_enabled au \<and> t \<noteq> [] then authenticate_token au t else None
      | None \<Rightarrow> None)"

definition authorize_one ::
  "LocalRegistryView option \<Rightarrow> PeerAuthVerifier \<Rightarrow> AuthContext option \<Rightarrow> string \<Rightarrow> Authorized \<Rightarrow> Authorized" where
  "authorize_one reg au ctx ns out =
     (let existing = (case reg of Some r \<Rightarrow> list_datasets r | None \<Rightarrow> [])
      in if ns \<in> set existing
         then let required = (case reg of Some r \<Rightarrow> is_auth_required r ns | None \<Rightarrow> False)
              in if \<not> auth_enabled au \<or> \<not> required then out\<lparr> accepted := accepted out @ [ns] \<rparr>
                 else (case ctx of
                         Some c \<Rightarrow>
                           let scoped = (case namespaces c of Some xs \<Rightarrow> ns \<in> set xs | None \<Rightarrow> False)
                           in if is_admin c \<or> scoped then out\<lparr> accepted := accepted out @ [ns] \<rparr> else out
                       | None \<Rightarrow> out)
         else let admin = (case ctx of Some c \<Rightarrow> is_admin c | None \<Rightarrow> False)
              in if \<not> auth_enabled au \<or> admin
                 then out\<lparr> accepted := accepted out @ [ns], ephemeral := ephemeral out @ [ns] \<rparr>
                 else out)"

definition authorize_namespaces ::
  "LocalRegistryView option \<Rightarrow> PeerAuthVerifier \<Rightarrow> string list \<Rightarrow> string option \<Rightarrow> Authorized" where
  "authorize_namespaces reg au requested token =
     fold (authorize_one reg au (handshake_ctx au token)) requested \<lparr> accepted = [], ephemeral = [] \<rparr>"

definition handle_open :: "OpenRequest \<Rightarrow> ClusterStore \<Rightarrow> OpenResponse \<times> ClusterStore" where
  "handle_open req s0 =
     (let candidate = btree_set (or_namespaces req @
            (case registry s0 of Some r \<Rightarrow> list_datasets r | None \<Rightarrow> []));
          out = authorize_namespaces (registry s0) (auth s0) candidate (or_token req);
          (session_token, s) = (if auth_enabled (auth s0)
             then let (bs, s) = random_bytes s0 in (Some (hex_encode bs), s)
             else (None, s0));
          (now, s) = clock_now s;
          peer = \<lparr> p_node_id = or_node_id req, p_address = or_address req,
                   p_namespaces = btree_set (accepted out), last_seen = now, p_token = session_token \<rparr>;
          s = s\<lparr> sessions := im_insert (or_node_id req) peer (sessions s),
                 evicted_until := im_remove (or_node_id req) (evicted_until s) \<rparr>
      in (\<lparr> os_node_id = node_id s, os_accepted = accepted out, os_ephemeral = ephemeral out,
            os_session_token = session_token \<rparr>, s))"

subsection \<open>Session checks\<close>

definition touch_peer :: "string \<Rightarrow> ClusterStore \<Rightarrow> ClusterStore" where
  "touch_peer nid s0 =
     (let (now, s) = clock_now s0
      in case im_get (sessions s) nid of
           Some p \<Rightarrow> s\<lparr> sessions := im_insert nid (p\<lparr> last_seen := now \<rparr>) (sessions s) \<rparr>
         | None \<Rightarrow> s)"

definition public_namespaces :: "ClusterStore \<Rightarrow> string list" where
  "public_namespaces s =
     (case registry s of
        None \<Rightarrow> []
      | Some reg \<Rightarrow>
          btree_set (filter (\<lambda>ds. \<not> auth_enabled (auth s) \<or> \<not> is_auth_required reg ds) (list_datasets reg)))"

definition is_authed :: "ClusterStore \<Rightarrow> string \<Rightarrow> string option \<Rightarrow> bool" where
  "is_authed s from token =
     (if \<not> auth_enabled (auth s) then True
      else case im_get (sessions s) from of
             Some sess \<Rightarrow>
               (case (p_token sess, token) of (Some t, Some given) \<Rightarrow> t = given | _ \<Rightarrow> False)
           | None \<Rightarrow> False)"

definition allowed_for :: "ClusterStore \<Rightarrow> string \<Rightarrow> string list option \<Rightarrow> string option \<Rightarrow> string list" where
  "allowed_for s from requested token =
     (let authed = is_authed s from token;
          sess_ns = map_option p_namespaces (im_get (sessions s) from);
          base = (case (authed, sess_ns) of (True, Some ns) \<Rightarrow> ns | _ \<Rightarrow> public_namespaces s)
      in case requested of
           Some req \<Rightarrow> if req \<noteq> [] then filter (\<lambda>ns. ns \<in> set req) base else base
         | None \<Rightarrow> base)"

definition may_accept :: "ClusterStore \<Rightarrow> string \<Rightarrow> string \<Rightarrow> string option \<Rightarrow> bool" where
  "may_accept s from ds token =
     (if \<not> auth_enabled (auth s) then True
      else if is_authed s from token \<and>
              (case im_get (sessions s) from of Some sess \<Rightarrow> ds \<in> set (p_namespaces sess) | None \<Rightarrow> False)
      then True
      else case registry s of
             Some reg \<Rightarrow> if ds \<in> set (list_datasets reg) then \<not> is_auth_required reg ds else False
           | None \<Rightarrow> False)"

subsection \<open>Serving peers\<close>

definition serve_digest ::
  "(string \<Rightarrow> string) \<Rightarrow> string \<Rightarrow> string list option \<Rightarrow> string option \<Rightarrow> nat list option \<Rightarrow>
     ClusterStore \<Rightarrow> DigestRow list \<times> ClusterStore" where
  "serve_digest sha256 from ns token buckets s0 =
     (let s = touch_peer from s0;
          allowed = allowed_for s from ns token;
          (idx, s) = full_index (Some allowed) s;
          rows = filter (\<lambda>(k, v). fst k \<in> set allowed) idx;
          rows = filter (\<lambda>(k, v).
            case buckets of Some b \<Rightarrow> bucket_of sha256 k (merkle_buckets (config s)) \<in> set b | None \<Rightarrow> True) rows
      in (sort (map (\<lambda>(k, v). (fst k, fst (snd k), snd (snd k), v)) rows), s))"

definition serve_merkle ::
  "(string \<Rightarrow> string) \<Rightarrow> string \<Rightarrow> string list option \<Rightarrow> string option \<Rightarrow>
     ClusterStore \<Rightarrow> (string, string) imap \<times> ClusterStore" where
  "serve_merkle sha256 from ns token s0 =
     (let s = touch_peer from s0;
          allowed = allowed_for s from ns token;
          (idx, s) = full_index (Some allowed) s;
          idx = filter (\<lambda>(k, v). fst k \<in> set allowed) idx
      in (bucket_hashes sha256 idx (merkle_buckets (config s)), s))"

definition serve_pull ::
  "string \<Rightarrow> Key list \<Rightarrow> string option \<Rightarrow> ClusterStore \<Rightarrow> SyncEnvelope list \<times> ClusterStore" where
  "serve_pull from keys token s0 =
     (let s = touch_peer from s0;
          allowed = allowed_for s from None token
      in (List.map_filter (build_envelope_for_key s) (filter (\<lambda>k. fst k \<in> set allowed) keys), s))"

definition update_one ::
  "string \<Rightarrow> string option \<Rightarrow> SyncEnvelope \<Rightarrow> nat \<times> nat \<times> ClusterStore \<Rightarrow> nat \<times> nat \<times> ClusterStore" where
  "update_one from token e acc =
     (case acc of (ok, rejected, s) \<Rightarrow>
       if \<not> may_accept s from (dataset e) token then (ok, rejected + 1, s)
       else let (stored, s) = apply_inbound e s
            in (if stored then ok + 1 else ok, rejected, s))"

definition serve_updates ::
  "string \<Rightarrow> SyncEnvelope list \<Rightarrow> string option \<Rightarrow> ClusterStore \<Rightarrow> UpdatesResponse \<times> ClusterStore" where
  "serve_updates from envelopes token s0 =
     (let s = touch_peer from s0;
          (ok, rejected, s) = fold (update_one from token) envelopes (0, 0, s)
      in (\<lparr> u_accepted = ok, u_received = length envelopes, u_rejected = rejected \<rparr>, s))"

subsection \<open>Outbound replication\<close>

text \<open>
  The tasks of a fan-out run concurrently and their errors are dropped; the model runs them
  in list order on the world.
\<close>

definition fan_out :: "('w \<Rightarrow> (TransportError + unit) \<times> 'w) list \<Rightarrow> 'w \<Rightarrow> 'w" where
  "fan_out tasks w = fold (\<lambda>t w. snd (t w)) tasks w"

definition discard :: "('w \<Rightarrow> (TransportError + 'a) \<times> 'w) \<Rightarrow> 'w \<Rightarrow> (TransportError + unit) \<times> 'w" where
  "discard t w = (case t w of (r, w') \<Rightarrow> (map_sum id (\<lambda>_. ()) r, w'))"

definition broadcast :: "'w Transport \<Rightarrow> SyncEnvelope \<Rightarrow> ClusterStore \<Rightarrow> 'w \<Rightarrow> 'w" where
  "broadcast t e s w =
     (let peers = filter (\<lambda>p. dataset e \<in> set (p_namespaces p)) (map snd (sessions s))
      in fan_out (map (\<lambda>p. discard (t_updates t (p_address p) (node_id s) [e] (p_token p))) peers) w)"

definition handle_keepalive :: "string \<Rightarrow> string option \<Rightarrow> ClusterStore \<Rightarrow> bool \<times> ClusterStore" where
  "handle_keepalive from token s =
     (if \<not> is_authed s from token then (False, s) else (True, touch_peer from s))"

definition emit_keepalive :: "'w Transport \<Rightarrow> ClusterStore \<Rightarrow> 'w \<Rightarrow> 'w" where
  "emit_keepalive t s w =
     fan_out (map (\<lambda>p. discard (t_keepalive t (p_address p) (node_id s) (p_token p))) (map snd (sessions s))) w"

subsection \<open>Eviction\<close>

definition disconnect_peer :: "string \<Rightarrow> ClusterStore \<Rightarrow> bool \<times> ClusterStore" where
  "disconnect_peer nid s0 =
     (let (now, s) = clock_now s0;
          deadline = now + tombstone_retention (config s);
          existed = im_contains (sessions s) nid;
          evicted = map (\<lambda>(k, e). (fst k, snd (snd k))) (filter (\<lambda>(k, e). fst (snd k) = nid) (foreign s));
          s = s\<lparr> sessions := im_remove nid (sessions s),
                 foreign := im_retain (\<lambda>k e. fst (snd k) \<noteq> nid) (foreign s),
                 evicted_until := im_insert nid deadline (evicted_until s) \<rparr>;
          s = (if eviction_sink s then s\<lparr> eviction_log := eviction_log s @ [(nid, evicted)] \<rparr> else s)
      in (existed, s))"

definition clock_or :: "real option \<Rightarrow> ClusterStore \<Rightarrow> real \<times> ClusterStore" where
  "clock_or now s = (case now of Some n \<Rightarrow> (n, s) | None \<Rightarrow> clock_now s)"

definition wall_or :: "int option \<Rightarrow> ClusterStore \<Rightarrow> int \<times> ClusterStore" where
  "wall_or now s = (case now of Some n \<Rightarrow> (n, s) | None \<Rightarrow> now_ms s)"

definition check_hold :: "real option \<Rightarrow> ClusterStore \<Rightarrow> string list \<times> ClusterStore" where
  "check_hold now_override s0 =
     (let (now, s) = clock_or now_override s0;
          stale = map p_node_id (filter (\<lambda>p. now - last_seen p > hold_timeout (config s)) (map snd (sessions s)))
      in (stale, fold (\<lambda>nid s. snd (disconnect_peer nid s)) stale s))"

definition prune_suppression :: "real option \<Rightarrow> ClusterStore \<Rightarrow> ClusterStore" where
  "prune_suppression now_override s0 =
     (let (now, s) = clock_or now_override s0
      in s\<lparr> evicted_until := im_retain (\<lambda>_ t. now < t) (evicted_until s) \<rparr>)"

definition suppressed_origins :: "ClusterStore \<Rightarrow> string list" where
  "suppressed_origins s = map fst (evicted_until s)"

subsection \<open>Orchestration\<close>

definition apply_all :: "SyncEnvelope list \<Rightarrow> nat \<times> ClusterStore \<Rightarrow> nat \<times> ClusterStore" where
  "apply_all envs acc =
     fold (\<lambda>e (n, s). let (stored, s) = apply_inbound e s in (if stored then n + 1 else n, s)) envs acc"

definition reconcile_push ::
  "'w Transport \<Rightarrow> Peer \<Rightarrow> (Key, Version) imap \<Rightarrow> (Key, Version) imap \<Rightarrow> nat \<Rightarrow> ClusterStore \<Rightarrow> 'w \<Rightarrow>
     (TransportError + ReconcileResult) \<times> ClusterStore \<times> 'w" where
  "reconcile_push t peer local_sub remote_index n_pulled s w =
     (let push_envs = List.map_filter (\<lambda>(k, v). build_envelope_for_key s k)
            (filter (\<lambda>(k, lv). version_newer lv (im_get remote_index k)) local_sub)
      in if push_envs = [] then (Inr \<lparr> pulled = n_pulled, pushed = 0 \<rparr>, s, w)
         else (case t_updates t (p_address peer) (node_id s) push_envs (p_token peer) w of
                 (Inl err, w) \<Rightarrow> (Inl err, s, w)
               | (Inr res, w) \<Rightarrow> (Inr \<lparr> pulled = n_pulled, pushed = u_accepted res \<rparr>, s, w)))"

definition reconcile ::
  "(string \<Rightarrow> string) \<Rightarrow> 'w Transport \<Rightarrow> Peer \<Rightarrow> ClusterStore \<Rightarrow> 'w \<Rightarrow>
     (TransportError + ReconcileResult) \<times> ClusterStore \<times> 'w" where
  "reconcile sha256 t peer s0 w =
     (let me = node_id s0;
          ns = p_namespaces peer;
          (idx, s) = full_index (Some ns) s0;
          n = merkle_buckets (config s);
          local_buckets = bucket_hashes sha256 idx n
      in case t_merkle t (p_address peer) me ns (p_token peer) w of
           (Inl err, w) \<Rightarrow> (Inl err, s, w)
         | (Inr remote_buckets, w) \<Rightarrow>
             let diff = differing_buckets local_buckets remote_buckets
             in if diff = {} then (Inr \<lparr> pulled = 0, pushed = 0 \<rparr>, s, w)
                else case t_digest t (p_address peer) me ns (p_token peer)
                        (Some (sorted_list_of_set diff)) w of
                  (Inl err, w) \<Rightarrow> (Inl err, s, w)
                | (Inr rows, w) \<Rightarrow>
                    let remote_index = fold (\<lambda>(d, o', sid, v). im_insert (d, o', sid) v) rows [];
                        local_sub = filter (\<lambda>(k, v). bucket_of sha256 k n \<in> diff) idx;
                        to_pull = map fst (filter (\<lambda>(k, rv). version_newer rv (im_get local_sub k)) remote_index)
                    in if to_pull = [] then reconcile_push t peer local_sub remote_index 0 s w
                       else case t_pull t (p_address peer) me to_pull (p_token peer) w of
                              (Inl err, w) \<Rightarrow> (Inl err, s, w)
                            | (Inr envs, w) \<Rightarrow>
                                let (n_pulled, s) = apply_all envs (0, s)
                                in reconcile_push t peer local_sub remote_index n_pulled s w)"

definition connect_peer ::
  "(string \<Rightarrow> string) \<Rightarrow> 'w Transport \<Rightarrow> string \<Rightarrow> string list option \<Rightarrow> string option \<Rightarrow> ClusterStore \<Rightarrow> 'w \<Rightarrow>
     (TransportError + Peer) \<times> ClusterStore \<times> 'w" where
  "connect_peer sha256 t address ns token s0 w =
     (let own = (case registry s0 of Some r \<Rightarrow> list_datasets r | None \<Rightarrow> []);
          offered = (case ns of Some xs \<Rightarrow> if xs \<noteq> [] then xs else own | None \<Rightarrow> own);
          body = \<lparr> or_node_id = node_id s0, or_address = advertise s0, or_namespaces = offered, or_token = token \<rparr>
      in case t_open t address body w of
           (Inl err, w) \<Rightarrow> (Inl err, s0, w)
         | (Inr resp, w) \<Rightarrow>
             let (now, s) = clock_now s0;
                 peer = \<lparr> p_node_id = os_node_id resp, p_address = address,
                          p_namespaces = btree_set (os_accepted resp), last_seen = now,
                          p_token = os_session_token resp \<rparr>;
                 s = s\<lparr> sessions := im_insert (p_node_id peer) peer (sessions s),
                        evicted_until := im_remove (p_node_id peer) (evicted_until s) \<rparr>
             in case reconcile sha256 t peer s w of
                  (Inl err, s, w) \<Rightarrow> (Inl err, s, w)
                | (Inr _, s, w) \<Rightarrow> (Inr peer, s, w))"

definition list_peers :: "ClusterStore \<Rightarrow> Peer list" where
  "list_peers s = map snd (sessions s)"

definition get_peer :: "ClusterStore \<Rightarrow> string \<Rightarrow> Peer option" where
  "get_peer s nid = im_get (sessions s) nid"

definition gc_tombstones :: "int option \<Rightarrow> ClusterStore \<Rightarrow> nat \<times> ClusterStore" where
  "gc_tombstones now_override s0 =
     (let (now, s) = wall_or now_override s0;
          keep = retention_ms (config s);
          before = length (tombstones (state s));
          s = s\<lparr> state := (state s)\<lparr> tombstones :=
                im_retain (\<lambda>_ t. wrap64 (now - deleted_at_ms t) \<le> keep) (tombstones (state s)) \<rparr> \<rparr>;
          removed = before - length (tombstones (state s));
          s = (if 0 < removed then save_logged s else s);
          before_f = length (foreign s);
          s = s\<lparr> foreign := im_retain
                (\<lambda>_ e. \<not> (tombstone e \<and> keep < wrap64 (now - ver_ms (version e)))) (foreign s) \<rparr>
      in (removed + (before_f - length (foreign s)), s))"

subsection \<open>Reading the overlay\<close>

definition namespaced_row :: "JsonDict \<Rightarrow> string \<Rightarrow> string \<Rightarrow> json" where
  "namespaced_row w display_id origin =
     JObj (im_insert ''origin_id'' (JStr origin) (im_insert ''id'' (JStr display_id) w))"

definition foreign_wrapped :: "ClusterStore \<Rightarrow> string \<Rightarrow> json list" where
  "foreign_wrapped s ds =
     List.map_filter (\<lambda>(k, e).
       if fst k \<noteq> ds \<or> tombstone e then None
       else case wrapped e of
              None \<Rightarrow> None
            | Some w \<Rightarrow> if w = [] then None
                        else Some (namespaced_row w (fst (snd k) @ '':'' @ snd (snd k)) (fst (snd k))))
       (foreign s)"

record ForeignRow =
  fr_entry :: json
  fr_wrapped :: json

definition foreign_rows :: "ClusterStore \<Rightarrow> string \<Rightarrow> ForeignRow list" where
  "foreign_rows s ds =
     List.map_filter (\<lambda>(k, e).
       if fst k \<noteq> ds \<or> tombstone e \<or> payload e = None then None
       else case wrapped e of
              None \<Rightarrow> None
            | Some w \<Rightarrow>
                Some \<lparr> fr_entry = j_option (entry e),
                       fr_wrapped = namespaced_row w (fst (snd k) @ '':'' @ snd (snd k)) (fst (snd k)) \<rparr>)
       (foreign s)"

definition foreign_entry :: "ClusterStore \<Rightarrow> string \<Rightarrow> string \<Rightarrow> json option" where
  "foreign_entry s ds display_id =
     (case split_once (CHR '':'') display_id of
        None \<Rightarrow> None
      | Some (origin, sid) \<Rightarrow>
          (case im_get (foreign s) (ds, origin, sid) of
             None \<Rightarrow> None
           | Some e \<Rightarrow> if tombstone e then None
                       else (case wrapped e of
                               None \<Rightarrow> None
                             | Some w \<Rightarrow> Some (namespaced_row w display_id origin))))"

subsection \<open>Local mutations\<close>

datatype MutationOp = Register | Update | Deregister

definition MutationOp_parse :: "string \<Rightarrow> MutationOp option" where
  "MutationOp_parse s =
     (if s = ''register'' then Some Register
      else if s = ''update'' then Some Update
      else if s = ''deregister'' then Some Deregister
      else None)"

definition stamp_local ::
  "string \<Rightarrow> string \<Rightarrow> MutationOp \<Rightarrow> ClusterStore \<Rightarrow> (ClusterError + Version) \<times> ClusterStore" where
  "stamp_local ds sid op s0 =
     (let (ts, s) = next_ts_locked s0;
          ver = Version ts (node_id s);
          k = make_key ds sid;
          st = state s;
          st = (case op of
                  Deregister \<Rightarrow>
                    st\<lparr> tombstones := bm_insert k \<lparr> tb_version = ver, deleted_at_ms = ts \<rparr> (tombstones st),
                        local_versions := im_remove k (local_versions st) \<rparr>
                | _ \<Rightarrow>
                    st\<lparr> local_versions := bm_insert k ver (local_versions st),
                        tombstones := im_remove k (tombstones st) \<rparr>)
      in case save (s\<lparr> state := st \<rparr>) of
           (Inl err, s) \<Rightarrow> (Inl err, s)
         | (Inr _, s) \<Rightarrow> (Inr ver, s))"

definition on_local_mutation ::
  "'w Transport \<Rightarrow> string \<Rightarrow> string \<Rightarrow> MutationOp \<Rightarrow> ClusterStore \<Rightarrow> 'w \<Rightarrow>
     (ClusterError + unit) \<times> ClusterStore \<times> 'w" where
  "on_local_mutation t ds sid op s0 w =
     (case stamp_local ds sid op s0 of
        (Inl err, s) \<Rightarrow> (Inl err, s, w)
      | (Inr _, s) \<Rightarrow>
          (case build_local_envelope s ds sid of
             Some e \<Rightarrow> (Inr (), s, broadcast t e s w)
           | None \<Rightarrow> (Inr (), s, w)))"

definition on_local_upsert ::
  "'w Transport \<Rightarrow> string \<Rightarrow> string \<Rightarrow> json \<Rightarrow> json option \<Rightarrow> ClusterStore \<Rightarrow> 'w \<Rightarrow>
     (ClusterError + unit) \<times> ClusterStore \<times> 'w" where
  "on_local_upsert t ds sid ent w' s0 w =
     (case stamp_local ds sid Update s0 of
        (Inl err, s) \<Rightarrow> (Inl err, s, w)
      | (Inr ver, s) \<Rightarrow>
          let e = \<lparr> dataset = ds, service_id = sid, origin_id = node_id s, version = ver,
                    tombstone = False, payload = Some (payload_of ent w') \<rparr>
          in (Inr (), s, broadcast t e s w))"

definition on_local_delete ::
  "'w Transport \<Rightarrow> string \<Rightarrow> string \<Rightarrow> ClusterStore \<Rightarrow> 'w \<Rightarrow> (ClusterError + unit) \<times> ClusterStore \<times> 'w" where
  "on_local_delete t ds sid s w = on_local_mutation t ds sid Deregister s w"

subsection \<open>Observability\<close>

record StateSummary =
  ss_node_id :: string
  ss_advertise :: string
  ss_peers :: "PeerSummary list"
  foreign_records :: nat
  foreign_by_namespace :: "(string, nat) imap"
  local_records :: nat
  ss_tombstones :: nat

definition count_namespace :: "Key \<times> SyncEnvelope \<Rightarrow> (string, nat) imap \<Rightarrow> (string, nat) imap" where
  "count_namespace ke m =
     (if tombstone (snd ke) then m
      else let ds = fst (fst ke)
           in bm_insert ds (Suc (case im_get m ds of Some n \<Rightarrow> n | None \<Rightarrow> 0)) m)"

definition state_summary :: "ClusterStore \<Rightarrow> StateSummary" where
  "state_summary s =
     (let by_ns = fold count_namespace (foreign s) []
      in \<lparr> ss_node_id = node_id s, ss_advertise = advertise s,
           ss_peers = map to_summary (map snd (sessions s)),
           foreign_records = sum_list (map snd by_ns), foreign_by_namespace = by_ns,
           local_records = length (local_versions (state s)),
           ss_tombstones = length (tombstones (state s)) \<rparr>)"

end
