(* ===== verification/Membership.thy ===== *)
theory Membership
  imports ClusterStore
begin

text \<open>
  The membership control plane of \<open>a2x-cluster/src/membership.rs\<close> and the background ticks of
  \<open>sweepers.rs\<close>. The roster is owned by the store (\<open>membership_roster\<close>); a
  \<open>MembershipStore\<close> is a handle on it, so its methods are operations on the store.
\<close>

subsection \<open>Records and their JSON form\<close>

definition version_to_value :: "Version \<Rightarrow> json" where
  "version_to_value v = JArr [JInt (ver_ms v), JStr (ver_node_id v)]"

definition version_from_value :: "json \<Rightarrow> Version option" where
  "version_from_value j =
     (case j of
        JArr [a, b] \<Rightarrow>
          (case (as_i64 a, as_str b) of (Some ms, Some nid) \<Rightarrow> Some (Version ms nid) | _ \<Rightarrow> None)
      | _ \<Rightarrow> None)"

definition record_to_value :: "MembershipRecord \<Rightarrow> json" where
  "record_to_value r =
     JObj [(''node_id'', JStr (m_node_id r)),
           (''cluster_id'', j_option (map_option JStr (m_cluster_id r))),
           (''address'', JStr (m_address r)),
           (''version'', version_to_value (m_version r)),
           (''removed'', JBool (m_removed r))]"

text \<open>
  The derived deserialization: an object whose \<open>node_id\<close> and \<open>version\<close> are present and whose
  other members have defaults, or an array with the fields in order. A member of
  the wrong type is an error.
\<close>

definition opt_string :: "json \<Rightarrow> string option option" where
  "opt_string j = (case j of JNull \<Rightarrow> Some None | JStr s \<Rightarrow> Some (Some s) | _ \<Rightarrow> None)"

definition field_or :: "(json \<Rightarrow> 'a option) \<Rightarrow> 'a \<Rightarrow> json option \<Rightarrow> 'a option" where
  "field_or parse dflt j = (case j of None \<Rightarrow> Some dflt | Some x \<Rightarrow> parse x)"

definition record_of_fields ::
  "json option \<Rightarrow> json option \<Rightarrow> json option \<Rightarrow> json option \<Rightarrow> json option \<Rightarrow> MembershipRecord option" where
  "record_of_fields nid cid addr ver rem =
     (case (Option.bind nid as_str, field_or opt_string None cid, field_or as_str [] addr,
            Option.bind ver version_from_value, field_or as_bool False rem) of
        (Some n, Some c, Some a, Some v, Some r) \<Rightarrow>
          Some \<lparr> m_node_id = n, m_cluster_id = c, m_address = a, m_version = v, m_removed = r \<rparr>
      | _ \<Rightarrow> None)"

definition record_from_value :: "json \<Rightarrow> MembershipRecord option" where
  "record_from_value j =
     (case j of
        JObj m \<Rightarrow> record_of_fields (im_get m ''node_id'') (im_get m ''cluster_id'') (im_get m ''address'')
                    (im_get m ''version'') (im_get m ''removed'')
      | JArr [n, c, a, v] \<Rightarrow> record_of_fields (Some n) (Some c) (Some a) (Some v) None
      | JArr [n, c, a, v, r] \<Rightarrow> record_of_fields (Some n) (Some c) (Some a) (Some v) (Some r)
      | _ \<Rightarrow> None)"

subsection \<open>The roster\<close>

definition the_roster :: "ClusterStore \<Rightarrow> Roster" where
  "the_roster s = (case membership_roster s of Some r \<Rightarrow> r | None \<Rightarrow> [])"

definition with_roster :: "Roster \<Rightarrow> ClusterStore \<Rightarrow> ClusterStore" where
  "with_roster r s = s\<lparr> membership_roster := Some r \<rparr>"

definition put_record :: "MembershipRecord \<Rightarrow> ClusterStore \<Rightarrow> ClusterStore" where
  "put_record r s = with_roster (im_insert (m_node_id r) r (the_roster s)) s"

definition cluster_id :: "ClusterStore \<Rightarrow> string option" where
  "cluster_id s = Option.bind (im_get (the_roster s) (node_id s)) m_cluster_id"

definition my_record :: "ClusterStore \<Rightarrow> MembershipRecord \<times> ClusterStore" where
  "my_record s0 =
     (case im_get (the_roster s0) (node_id s0) of
        Some own \<Rightarrow> (own, s0)
      | None \<Rightarrow>
          let (ver, s) = next_version s0;
              own = \<lparr> m_node_id = node_id s, m_cluster_id = None, m_address = advertise s,
                      m_version = ver, m_removed = False \<rparr>
          in (own, put_record own s))"

definition gc_membership :: "int option \<Rightarrow> ClusterStore \<Rightarrow> nat \<times> ClusterStore" where
  "gc_membership now_override s0 =
     (let (now, s) = wall_or now_override s0;
          keep = retention_ms (config s);
          r' = im_retain (\<lambda>_ r. \<not> (m_removed r \<and> keep < wrap64 (now - ver_ms (m_version r)))) (the_roster s)
      in (length (the_roster s) - length r', with_roster r' s))"

definition restore_record :: "string \<Rightarrow> json \<Rightarrow> MembershipRecord option" where
  "restore_record cid d =
     (if jget d ''version'' \<noteq> None then record_from_value d
      else case Option.bind (jget d ''node_id'') as_str of
             None \<Rightarrow> None
           | Some nid \<Rightarrow>
               Some \<lparr> m_node_id = nid, m_cluster_id = Some cid,
                      m_address = (case Option.bind (jget d ''address'') as_str of Some a \<Rightarrow> a | None \<Rightarrow> []),
                      m_version = Version 0 nid, m_removed = False \<rparr>)"

definition restore_one :: "string \<Rightarrow> json \<Rightarrow> ClusterStore \<Rightarrow> ClusterStore" where
  "restore_one cid d s =
     (case restore_record cid d of
        None \<Rightarrow> s
      | Some r \<Rightarrow>
          if m_node_id r \<noteq> node_id s \<and> \<not> im_contains (the_roster s) (m_node_id r) then put_record r s else s)"

definition init_from_state :: "ClusterStore \<Rightarrow> ClusterStore" where
  "init_from_state s0 =
     (case cs_cluster_id (state s0) of
        None \<Rightarrow> s0
      | Some cid \<Rightarrow>
          let st = state s0;
              s = (case my_membership_version st of Some mmv \<Rightarrow> observe_version (ver_ms mmv) s0 | None \<Rightarrow> s0);
              (ver, s) = (case my_membership_version st of Some v \<Rightarrow> (v, s) | None \<Rightarrow> next_version s);
              s = put_record \<lparr> m_node_id = node_id s, m_cluster_id = Some cid, m_address = advertise s,
                               m_version = ver, m_removed = False \<rparr> s;
              s = fold (restore_one cid) (last_roster st) s
          in snd (gc_membership None s))"

definition attach :: "ClusterStore \<Rightarrow> ClusterStore" where
  "attach s = (case membership_roster s of Some _ \<Rightarrow> s | None \<Rightarrow> init_from_state (with_roster [] s))"

text \<open>
  The builder: defaults for what is not given, empty tables, and the membership plane
  attached unless it is turned off. The last four arguments are the readings of the
  surroundings.
\<close>

record ClusterStoreBuilder =
  b_config :: "ClusterConfig option"
  b_registry :: "LocalRegistryView option"
  b_advertise :: string
  b_auth :: "PeerAuthVerifier option"
  b_eviction_sink :: bool
  b_membership :: bool

definition ClusterStoreBuilder_default :: ClusterStoreBuilder where
  "ClusterStoreBuilder_default =
     \<lparr> b_config = None, b_registry = None, b_advertise = [], b_auth = None,
       b_eviction_sink = False, b_membership = True \<rparr>"

definition build ::
  "ClusterStoreBuilder \<Rightarrow> ClusterState \<Rightarrow> (nat \<Rightarrow> real) \<Rightarrow> (nat \<Rightarrow> int) \<Rightarrow> (nat \<Rightarrow> string) \<Rightarrow> (nat \<Rightarrow> bool) \<Rightarrow>
     ClusterStore" where
  "build b st clocks walls rands saves =
     (let s = \<lparr> state = st, foreign = [], sessions = [], evicted_until = [],
                config = (case b_config b of Some c \<Rightarrow> c | None \<Rightarrow> ClusterConfig_default),
                registry = b_registry b, advertise = b_advertise b,
                auth = (case b_auth b of Some a \<Rightarrow> a | None \<Rightarrow> AllowAll),
                eviction_sink = b_eviction_sink b, membership_roster = None, eviction_log = [],
                clk = clocks, clk_ix = 0, wall = walls, wall_ix = 0, rnd = rands, rnd_ix = 0,
                save_ok = saves, save_ix = 0, disk = Some st \<rparr>
      in if b_membership b then attach s else s)"

definition persist :: "ClusterStore \<Rightarrow> ClusterStore" where
  "persist s =
     (let me = node_id s;
          own = im_get (the_roster s) me;
          cid = Option.bind own m_cluster_id;
          recs = map record_to_value
            (filter (\<lambda>r. m_node_id r \<noteq> me \<and> m_cluster_id r = cid) (map snd (the_roster s)))
      in snd (persist_membership cid recs (map_option m_version own) s))"

definition become_standalone :: "ClusterStore \<Rightarrow> ClusterStore" where
  "become_standalone s0 =
     (let members = filter (\<lambda>n. n \<noteq> node_id s0) (map fst (the_roster s0));
          s = with_roster [] s0;
          s = fold (\<lambda>nid s. snd (disconnect_peer nid s)) members s
      in persist s)"

subsection \<open>Merging\<close>

definition merge_one :: "string \<Rightarrow> json \<Rightarrow> bool \<times> bool \<times> Roster \<Rightarrow> bool \<times> bool \<times> Roster" where
  "merge_one me d acc =
     (case acc of (changed, evicted_self, r) \<Rightarrow>
       case record_from_value d of
         None \<Rightarrow> acc
       | Some rec \<Rightarrow>
           if \<not> version_newer (m_version rec) (map_option m_version (im_get r (m_node_id rec))) then acc
           else if m_node_id rec = me then (changed, evicted_self \<or> m_removed rec, r)
           else (True, evicted_self, im_insert (m_node_id rec) rec r))"

definition merge_records :: "json list \<Rightarrow> ClusterStore \<Rightarrow> bool \<times> ClusterStore" where
  "merge_records recs s0 =
     (let (changed, evicted_self, r) = fold (merge_one (node_id s0)) recs (False, False, the_roster s0);
          s = with_roster r s0
      in if evicted_self then (True, become_standalone s)
         else if changed then (changed, persist s)
         else (changed, s))"

definition version_map :: "ClusterStore \<Rightarrow> (string, Version) imap" where
  "version_map s = bm_of_list (map (\<lambda>(n, r). (n, m_version r)) (the_roster s))"

definition records_for :: "ClusterStore \<Rightarrow> string list \<Rightarrow> MembershipRecord list" where
  "records_for s nids = List.map_filter (im_get (the_roster s)) nids"

definition reconcile_with :: "'w Transport \<Rightarrow> Peer \<Rightarrow> ClusterStore \<Rightarrow> 'w \<Rightarrow> ClusterStore \<times> 'w" where
  "reconcile_with t peer s w =
     (if cluster_id s = None then (s, w)
      else case t_set_digest t (p_address peer) (node_id s) (p_token peer) w of
             (Inl _, w) \<Rightarrow> (s, w)
           | (Inr remote, w) \<Rightarrow>
               let mine = version_map s;
                   want = map fst (filter (\<lambda>(nid, rv). version_newer rv (im_get mine nid)) remote)
               in if want = [] then (s, w)
                  else case t_set_pull t (p_address peer) (node_id s) want (p_token peer) w of
                         (Inl _, w) \<Rightarrow> (s, w)
                       | (Inr recs, w) \<Rightarrow> (snd (merge_records recs s), w))"

definition serve_set_digest :: "string \<Rightarrow> string option \<Rightarrow> ClusterStore \<Rightarrow> (string, Version) imap" where
  "serve_set_digest from token s = (if \<not> is_authed s from token then [] else version_map s)"

definition serve_set_pull ::
  "string \<Rightarrow> string list \<Rightarrow> string option \<Rightarrow> ClusterStore \<Rightarrow> MembershipRecord list" where
  "serve_set_pull from nids token s = (if \<not> is_authed s from token then [] else records_for s nids)"

definition serve_set_sync ::
  "string \<Rightarrow> json list \<Rightarrow> string option \<Rightarrow> ClusterStore \<Rightarrow> bool \<times> ClusterStore" where
  "serve_set_sync from recs token s =
     (if \<not> is_authed s from token then (False, s) else (True, snd (merge_records recs s)))"

subsection \<open>Outbound\<close>

definition peer_token :: "ClusterStore \<Rightarrow> string \<Rightarrow> string option" where
  "peer_token s nid = Option.bind (get_peer s nid) p_token"

definition push_to_roster ::
  "'w Transport \<Rightarrow> MembershipRecord list option \<Rightarrow> ClusterStore \<Rightarrow> 'w \<Rightarrow> ClusterStore \<times> 'w" where
  "push_to_roster t recs_opt s0 w =
     (let (recs, s) = (case recs_opt of Some rs \<Rightarrow> (rs, s0)
                       | None \<Rightarrow> let (own, s) = my_record s0 in ([own], s));
          me = node_id s;
          cid = cluster_id s;
          targets = map (\<lambda>r. (m_node_id r, m_address r))
            (filter (\<lambda>r. m_node_id r \<noteq> me \<and> \<not> m_removed r \<and> m_cluster_id r = cid \<and> m_address r \<noteq> [])
              (map snd (the_roster s)))
      in (s, fan_out (map (\<lambda>(nid, addr). discard (t_set_sync t addr me recs (peer_token s nid))) targets) w))"

definition desired_peers :: "ClusterStore \<Rightarrow> (string, string) imap" where
  "desired_peers s =
     (case cluster_id s of
        None \<Rightarrow> []
      | Some cid \<Rightarrow>
          bm_of_list (map (\<lambda>r. (m_node_id r, m_address r))
            (filter (\<lambda>r. m_node_id r \<noteq> node_id s \<and> m_cluster_id r = Some cid \<and> \<not> m_removed r \<and> m_address r \<noteq> [])
              (map snd (the_roster s)))))"

definition is_removed_or_absent :: "ClusterStore \<Rightarrow> string \<Rightarrow> bool" where
  "is_removed_or_absent s nid =
     (case im_get (the_roster s) nid of
        None \<Rightarrow> True
      | Some r \<Rightarrow> m_removed r \<or> m_cluster_id r \<noteq> cluster_id s)"

definition connect_missing ::
  "(string \<Rightarrow> string) \<Rightarrow> 'w Transport \<Rightarrow> string list \<Rightarrow> string \<times> string \<Rightarrow> ClusterStore \<times> 'w \<Rightarrow> ClusterStore \<times> 'w" where
  "connect_missing sha256 t actual na sw =
     (case (na, sw) of ((nid, addr), (s, w)) \<Rightarrow>
       if nid \<notin> set actual then snd (connect_peer sha256 t addr None None s w) else (s, w))"

definition reconcile_connections ::
  "(string \<Rightarrow> string) \<Rightarrow> 'w Transport \<Rightarrow> ClusterStore \<Rightarrow> 'w \<Rightarrow> ClusterStore \<times> 'w" where
  "reconcile_connections sha256 t s0 w0 =
     (if cluster_id s0 = None then (s0, w0)
      else let desired = desired_peers s0;
               actual = remdups (map p_node_id (list_peers s0));
               (s, w) = fold (connect_missing sha256 t actual) desired (s0, w0);
               s = fold (\<lambda>nid s.
                     if \<not> im_contains desired nid \<and> is_removed_or_absent s nid
                     then snd (disconnect_peer nid s) else s) actual s
           in (s, w))"

subsection \<open>The control plane\<close>

record MemberSpec =
  ms_address :: "string option"
  ms_node_id :: "string option"

definition generate_cluster_id :: "ClusterStore \<Rightarrow> string \<times> ClusterStore" where
  "generate_cluster_id s = (let (bs, s) = random_bytes s in (''clu-'' @ take 12 (hex_encode bs), s))"

definition add_one ::
  "'w Transport \<Rightarrow> string option \<Rightarrow> json list \<Rightarrow> string option \<Rightarrow> MemberSpec \<Rightarrow>
     json list \<times> ClusterStore \<times> 'w \<Rightarrow> json list \<times> ClusterStore \<times> 'w" where
  "add_one t cid snapshot token m acc =
     (case acc of (results, s, w) \<Rightarrow>
       case ms_address m of
         Some (c # cs) \<Rightarrow>
           (let addr = c # cs;
                body = \<lparr> j_cluster_id = cid, j_roster = snapshot, j_token = token,
                         j_from_node = node_id s, j_from_address = advertise s \<rparr>
            in case t_join t addr body w of
                 (Inl err, w) \<Rightarrow>
                   (results @ [JObj [(''address'', JStr addr), (''ok'', JBool False),
                                     (''error'', JStr (''unreachable: '' @ err))]], s, w)
               | (Inr resp, w) \<Rightarrow>
                   if \<not> jr_accepted resp
                   then (results @ [JObj [(''address'', JStr addr), (''ok'', JBool False),
                           (''error'', JStr (case jr_error resp of Some e \<Rightarrow> e | None \<Rightarrow> ''rejected''))]], s, w)
                   else let nid = (case jr_node_id resp of Some n \<Rightarrow> n | None \<Rightarrow> []);
                            (ver, s) = (case jr_version resp of Some v \<Rightarrow> (v, s) | None \<Rightarrow> next_version s);
                            s = put_record \<lparr> m_node_id = nid, m_cluster_id = cid, m_address = addr,
                                             m_version = ver, m_removed = False \<rparr> s
                        in (results @ [JObj [(''address'', JStr addr), (''node_id'', JStr nid),
                                             (''ok'', JBool True)]], s, w))
       | _ \<Rightarrow> (results @ [JObj [(''address'', j_option (map_option JStr (ms_address m))), (''ok'', JBool False),
                               (''error'', JStr ''address required'')]], s, w))"

definition ensure_cluster :: "ClusterStore \<Rightarrow> ClusterStore" where
  "ensure_cluster s0 =
     (if cluster_id s0 \<noteq> None then s0
      else let (cid, s) = generate_cluster_id s0;
               (ver, s) = next_version s
           in put_record \<lparr> m_node_id = node_id s, m_cluster_id = Some cid, m_address = advertise s,
                           m_version = ver, m_removed = False \<rparr> s)"

definition set_add ::
  "(string \<Rightarrow> string) \<Rightarrow> 'w Transport \<Rightarrow> MemberSpec list \<Rightarrow> string option \<Rightarrow> ClusterStore \<Rightarrow> 'w \<Rightarrow>
     json \<times> ClusterStore \<times> 'w" where
  "set_add sha256 t members token s0 w0 =
     (let s = ensure_cluster s0;
          cid = cluster_id s;
          snapshot = map record_to_value (filter (\<lambda>r. \<not> m_removed r) (map snd (the_roster s)));
          (results, s, w) = fold (add_one t cid snapshot token) members ([], s, w0);
          s = persist s;
          (s, w) = reconcile_connections sha256 t s w;
          (s, w) = push_to_roster t (Some (map snd (the_roster s))) s w
      in (JObj [(''cluster_id'', j_option (map_option JStr (cluster_id s))), (''results'', JArr results)], s, w))"

definition remove_one ::
  "'w Transport \<Rightarrow> MemberSpec \<Rightarrow> json list \<times> MembershipRecord list \<times> ClusterStore \<times> 'w \<Rightarrow>
     json list \<times> MembershipRecord list \<times> ClusterStore \<times> 'w" where
  "remove_one t m acc =
     (case acc of (results, tombs, s, w) \<Rightarrow>
       case ms_node_id m of
         Some (c # cs) \<Rightarrow>
           (let nid = c # cs;
                cid = cluster_id s;
                cur = im_get (the_roster s) nid;
                addr = (case cur of Some r \<Rightarrow> m_address r
                        | None \<Rightarrow> (case ms_address m of Some a \<Rightarrow> a | None \<Rightarrow> []));
                (ver, s) = next_version_after (case cur of Some r \<Rightarrow> ver_ms (m_version r) | None \<Rightarrow> 0) s;
                tomb = \<lparr> m_node_id = nid, m_cluster_id = cid, m_address = addr, m_version = ver, m_removed = True \<rparr>;
                s = put_record tomb s;
                (_, w) = t_evict t addr \<lparr> ev_from_node = node_id s, ev_cluster_id = cid, ev_token = peer_token s nid \<rparr> w;
                s = snd (disconnect_peer nid s)
            in (results @ [JObj [(''node_id'', JStr nid), (''ok'', JBool True)]], tombs @ [tomb], s, w))
       | _ \<Rightarrow> (results @ [JObj [(''ok'', JBool False), (''error'', JStr ''node_id required'')]], tombs, s, w))"

definition set_remove ::
  "'w Transport \<Rightarrow> MemberSpec list \<Rightarrow> ClusterStore \<Rightarrow> 'w \<Rightarrow> json \<times> ClusterStore \<times> 'w" where
  "set_remove t members s0 w0 =
     (let (results, tombs, s, w) = fold (remove_one t) members ([], [], s0, w0);
          s = persist s;
          (s, w) = (if tombs = [] then (s, w) else push_to_roster t (Some tombs) s w)
      in (JObj [(''results'', JArr results)], s, w))"

record RosterEntry =
  re_node_id :: string
  re_address :: string
  re_alive :: bool

definition show_set :: "ClusterStore \<Rightarrow> string option \<times> string \<times> RosterEntry list" where
  "show_set s =
     (let live = map p_node_id (list_peers s)
      in (cluster_id s, node_id s,
          map (\<lambda>r. \<lparr> re_node_id = m_node_id r, re_address = m_address r,
                     re_alive = (m_node_id r \<in> set live \<or> m_node_id r = node_id s) \<rparr>)
            (filter (\<lambda>r. \<not> m_removed r) (map snd (the_roster s)))))"

definition join_authorized :: "ClusterStore \<Rightarrow> string option \<Rightarrow> bool" where
  "join_authorized s token =
     (if \<not> auth_enabled (auth s) then True
      else case token of
             Some t \<Rightarrow> t \<noteq> [] \<and> (case authenticate_token (auth s) t of Some c \<Rightarrow> is_admin c | None \<Rightarrow> False)
           | None \<Rightarrow> False)"

definition leave_old :: "'w Transport \<Rightarrow> string \<Rightarrow> ClusterStore \<Rightarrow> 'w \<Rightarrow> ClusterStore \<times> 'w" where
  "leave_old t old s0 w0 =
     (let me = node_id s0;
          members = map (\<lambda>r. (m_node_id r, m_address r))
            (filter (\<lambda>r. m_node_id r \<noteq> me \<and> m_cluster_id r = Some old \<and> \<not> m_removed r) (map snd (the_roster s0)));
          w = fold (\<lambda>(nid, addr) w. snd (t_evict_self t addr
                \<lparr> lv_from_node = me, lv_token = peer_token s0 nid \<rparr> w)) members w0;
          s = fold (\<lambda>(nid, addr) s. snd (disconnect_peer nid s)) members s0
      in (with_roster (im_retain (\<lambda>n r. n = me \<or> m_cluster_id r \<noteq> Some old) (the_roster s)) s, w))"

definition adopt ::
  "(string \<Rightarrow> string) \<Rightarrow> 'w Transport \<Rightarrow> string \<Rightarrow> json list \<Rightarrow> ClusterStore \<Rightarrow> 'w \<Rightarrow>
     JoinResponse \<times> ClusterStore \<times> 'w" where
  "adopt sha256 t cid recs s0 w0 =
     (let (s, w) = (case cluster_id s0 of
                      Some old \<Rightarrow> if old \<noteq> cid then leave_old t old s0 w0 else (s0, w0)
                    | None \<Rightarrow> (s0, w0));
          (ver, s) = next_version s;
          s = put_record \<lparr> m_node_id = node_id s, m_cluster_id = Some cid, m_address = advertise s,
                           m_version = ver, m_removed = False \<rparr> s;
          s = persist (snd (merge_records recs s));
          (s, w) = reconcile_connections sha256 t s w;
          (s, w) = push_to_roster t None s w
      in (\<lparr> jr_accepted = True, jr_node_id = Some (node_id s), jr_cluster_id = Some cid,
            jr_version = Some ver, jr_error = None \<rparr>, s, w))"

definition join_refused :: "string \<Rightarrow> JoinResponse" where
  "join_refused err =
     \<lparr> jr_accepted = False, jr_node_id = None, jr_cluster_id = None, jr_version = None, jr_error = Some err \<rparr>"

definition handle_join ::
  "(string \<Rightarrow> string) \<Rightarrow> 'w Transport \<Rightarrow> JoinRequest \<Rightarrow> ClusterStore \<Rightarrow> 'w \<Rightarrow> JoinResponse \<times> ClusterStore \<times> 'w" where
  "handle_join sha256 t body s w =
     (if \<not> join_authorized s (j_token body) then (join_refused ''unauthorized'', s, w)
      else case j_cluster_id body of
             Some (c # cs) \<Rightarrow> adopt sha256 t (c # cs) (j_roster body) s w
           | _ \<Rightarrow> (join_refused ''cluster_id required'', s, w))"

definition handle_evict_self ::
  "'w Transport \<Rightarrow> LeaveRequest \<Rightarrow> ClusterStore \<Rightarrow> 'w \<Rightarrow> bool \<times> ClusterStore \<times> 'w" where
  "handle_evict_self t body s0 w0 =
     (let nid = lv_from_node body
      in if nid = [] \<or> \<not> is_authed s0 nid (lv_token body) then (False, s0, w0)
         else let cur = im_get (the_roster s0) nid;
                  (ver, s) = next_version_after (case cur of Some r \<Rightarrow> ver_ms (m_version r) | None \<Rightarrow> 0) s0;
                  cid = (case cur of Some r \<Rightarrow> m_cluster_id r | None \<Rightarrow> cluster_id s);
                  addr = (case cur of Some r \<Rightarrow> m_address r | None \<Rightarrow> []);
                  tomb = \<lparr> m_node_id = nid, m_cluster_id = cid, m_address = addr, m_version = ver, m_removed = True \<rparr>;
                  s = put_record tomb s;
                  s = persist (snd (disconnect_peer nid s));
                  (s, w) = push_to_roster t (Some [tomb]) s w0
              in (True, s, w))"

definition handle_evicted :: "EvictRequest \<Rightarrow> ClusterStore \<Rightarrow> bool \<times> ClusterStore" where
  "handle_evicted body s =
     (if \<not> is_authed s (ev_from_node body) (ev_token body) then (False, s) else (True, become_standalone s))"

subsection \<open>Background ticks\<close>

definition sync_peer ::
  "(string \<Rightarrow> string) \<Rightarrow> 'w Transport \<Rightarrow> Peer \<Rightarrow> ClusterStore \<times> 'w \<Rightarrow> ClusterStore \<times> 'w" where
  "sync_peer sha256 t peer sw =
     (case sw of (s, w) \<Rightarrow>
       case reconcile sha256 t peer s w of
         (Inl _, s, w) \<Rightarrow> (s, w)
       | (Inr _, s, w) \<Rightarrow>
           (case membership_roster s of Some _ \<Rightarrow> reconcile_with t peer s w | None \<Rightarrow> (s, w)))"

definition anti_entropy_tick ::
  "(string \<Rightarrow> string) \<Rightarrow> 'w Transport \<Rightarrow> ClusterStore \<Rightarrow> 'w \<Rightarrow> ClusterStore \<times> 'w" where
  "anti_entropy_tick sha256 t s0 w0 =
     (let (s, w) = (case membership_roster s0 of Some _ \<Rightarrow> reconcile_connections sha256 t s0 w0 | None \<Rightarrow> (s0, w0));
          (s, w) = fold (sync_peer sha256 t) (list_peers s) (s, w);
          s = snd (gc_tombstones None s);
          s = prune_suppression None s;
          s = (case membership_roster s of Some _ \<Rightarrow> snd (gc_membership None s) | None \<Rightarrow> s)
      in (s, w))"

definition keepalive_tick :: "'w Transport \<Rightarrow> ClusterStore \<Rightarrow> 'w \<Rightarrow> ClusterStore \<times> 'w" where
  "keepalive_tick t s w =
     (let w = emit_keepalive t s w
      in (snd (check_hold None s), w))"

end
