(* ===== verification/ClusterLaws.thy ===== *)
theory ClusterLaws
  imports Membership
begin

text \<open>
  Laws of the cluster store: replication of the overlay (an instance of the LWW table),
  eviction, authorization of what peers may read and write, and the well-formedness
  invariant of the store under every operation of the data plane.
\<close>

named_theorems cluster_defs \<open>definitions of the primitive operations on the store\<close>

declare clock_now_def [cluster_defs] now_ms_def [cluster_defs] node_id_def [cluster_defs]
  random_bytes_def [cluster_defs] clock_or_def [cluster_defs] wall_or_def [cluster_defs]
  Let_def [cluster_defs]

subsection \<open>Inbound records\<close>

definition apply_env :: "ClusterStore \<Rightarrow> SyncEnvelope \<Rightarrow> ClusterStore" where
  "apply_env s e = snd (apply_inbound e s)"

text \<open>The store takes records of an origin that is neither itself nor under suppression.\<close>

definition takes :: "ClusterStore \<Rightarrow> SyncEnvelope \<Rightarrow> bool" where
  "takes s e \<longleftrightarrow> origin_id e \<noteq> node_id s \<and> im_get (evicted_until s) (origin_id e) = None"

abbreviation overlay :: "ClusterStore \<Rightarrow> Key \<Rightarrow> SyncEnvelope option" where
  "overlay s \<equiv> im_get (foreign s)"

lemma apply_env_frame [simp]:
  "node_id (apply_env s e) = node_id s" "evicted_until (apply_env s e) = evicted_until s"
  "state (apply_env s e) = state s" "sessions (apply_env s e) = sessions s"
  "config (apply_env s e) = config s" "registry (apply_env s e) = registry s"
  "auth (apply_env s e) = auth s" "membership_roster (apply_env s e) = membership_roster s"
  "clk (apply_env s e) = clk s" "clk_ix (apply_env s e) = Suc (clk_ix s)"
  by (simp_all add: apply_env_def apply_inbound_def cluster_defs)

lemma apply_inbound_stored:
  "fst (apply_inbound e s) \<longleftrightarrow>
     origin_id e \<noteq> node_id s \<and>
     \<not> (\<exists>until. im_get (evicted_until s) (origin_id e) = Some until \<and> clk s (clk_ix s) < until) \<and>
     version_newer (version e) (map_option version (overlay s (key e)))"
  by (auto simp: apply_inbound_def cluster_defs split: option.splits)

lemma overlay_apply_env:
  "overlay (apply_env s e) = (if fst (apply_inbound e s) then (overlay s)(key e \<mapsto> e) else overlay s)"
  by (auto simp: apply_env_def apply_inbound_def cluster_defs split: option.splits)

interpretation overlay_lww: lww_table overlay apply_env takes key version
proof
  show "overlay (apply_env s e) k =
      (if k = key e \<and> version_newer (version e) (map_option version (overlay s k)) then Some e else overlay s k)"
    if "takes s e" for s e k
    using that by (auto simp: overlay_apply_env apply_inbound_stored takes_def)
  show "takes (apply_env s e) e' = takes s e'" if "takes s e" for s e e'
    by (simp add: takes_def)
qed

text \<open>
  C1. Replication converges: two nodes whose overlays agree, and which receive the same set of
  envelopes, in any order and with any repetitions, end with the same overlay,
  whatever their own clocks say, provided that two different envelopes of one record never
  carry the same version and that neither node is the origin or suppresses it.
\<close>

theorem overlay_converges:
  assumes "\<forall>e \<in> set es. takes s e" "\<forall>e \<in> set es'. takes s' e"
    and "set es = set es'" "overlay s = overlay s'"
    and "\<forall>k e. overlay s k = Some e \<longrightarrow> key e = k"
    and "\<forall>x y. x \<in> set es \<or> overlay s (key x) = Some x \<longrightarrow> y \<in> set es \<or> overlay s (key y) = Some y \<longrightarrow>
           key x = key y \<longrightarrow> version x = version y \<longrightarrow> x = y"
  shows "overlay (foldl apply_env s es) = overlay (foldl apply_env s' es')"
proof
  fix k
  show "overlay (foldl apply_env s es) k = overlay (foldl apply_env s' es') k"
  proof (rule overlay_lww.converges [OF assms(1-3)])
    show "overlay s k = overlay s' k" for k by (simp add: assms(4))
    show "key x = k" if "overlay s k = Some x" for k x using assms(5) that by blast
  qed (use assms(6) in blast)
qed

text \<open>A node with empty tables, for examples: open cluster, fixed clocks.\<close>

definition demo_node :: "string \<Rightarrow> ClusterStore" where
  "demo_node nid =
     build ClusterStoreBuilder_default (ClusterState_new nid) (\<lambda>_. 5) (\<lambda>_. 1000) (\<lambda>_. []) (\<lambda>_. True)"

definition demo_env :: "string \<Rightarrow> string \<Rightarrow> int \<Rightarrow> SyncEnvelope" where
  "demo_env origin sid ms =
     \<lparr> dataset = ''ds'', service_id = sid, origin_id = origin, version = Version ms origin,
       tombstone = False, payload = Some JNull \<rparr>"

lemma demo_node_simps [simp]:
  "node_id (demo_node n) = n" "foreign (demo_node n) = []" "evicted_until (demo_node n) = []"
  "sessions (demo_node n) = []" "clk (demo_node n) = (\<lambda>_. 5)"
  "config (demo_node n) = ClusterConfig_default" "registry (demo_node n) = None"
  "auth (demo_node n) = AllowAll" "state (demo_node n) = ClusterState_new n"
  "membership_roster (demo_node n) = Some []"
  by (simp_all add: demo_node_def build_def ClusterStoreBuilder_default_def attach_def
      init_from_state_def ClusterState_new_def with_roster_def cluster_defs)

theorem overlay_converges_witness:
  "overlay (foldl apply_env (demo_node ''A'') [demo_env ''C'' ''x'' 1, demo_env ''C'' ''x'' 2]) =
   overlay (foldl apply_env (demo_node ''B'') [demo_env ''C'' ''x'' 2, demo_env ''C'' ''x'' 1, demo_env ''C'' ''x'' 2])"
  by (rule overlay_converges) (auto simp: takes_def demo_env_def key_def)

subsection \<open>Eviction\<close>

lemma disconnect_peer_simps [simp]:
  "sessions (snd (disconnect_peer nid s)) = im_remove nid (sessions s)"
  "foreign (snd (disconnect_peer nid s)) = im_retain (\<lambda>k e. fst (snd k) \<noteq> nid) (foreign s)"
  "evicted_until (snd (disconnect_peer nid s)) =
     im_insert nid (clk s (clk_ix s) + tombstone_retention (config s)) (evicted_until s)"
  "node_id (snd (disconnect_peer nid s)) = node_id s" "state (snd (disconnect_peer nid s)) = state s"
  "config (snd (disconnect_peer nid s)) = config s" "registry (snd (disconnect_peer nid s)) = registry s"
  "auth (snd (disconnect_peer nid s)) = auth s" "clk (snd (disconnect_peer nid s)) = clk s"
  "clk_ix (snd (disconnect_peer nid s)) = Suc (clk_ix s)" "wall (snd (disconnect_peer nid s)) = wall s"
  "membership_roster (snd (disconnect_peer nid s)) = membership_roster s"
  "fst (disconnect_peer nid s) = im_contains (sessions s) nid"
  by (simp_all add: disconnect_peer_def cluster_defs)

text \<open>While the suppression of an origin lasts, no run of inbound envelopes brings it back.\<close>

lemma suppressed_stays_out:
  assumes "im_get (evicted_until s) nid = Some until"
    and "\<forall>i < length es. clk s (clk_ix s + i) < until"
    and "\<forall>ds sid. overlay s (ds, nid, sid) = None"
  shows "overlay (foldl apply_env s es) (ds, nid, sid) = None"
  using assms
proof (induction es arbitrary: s)
  case (Cons e es)
  have now: "clk s (clk_ix s) < until" using Cons.prems(2) by force
  have later: "\<forall>i < length es. clk s (Suc (clk_ix s) + i) < until" using Cons.prems(2) by force
  have "\<not> fst (apply_inbound e s)" if "origin_id e = nid"
    using Cons.prems(1) now that by (simp add: apply_inbound_stored)
  then have "\<forall>ds sid. overlay (apply_env s e) (ds, nid, sid) = None"
    using Cons.prems(3) by (auto simp: overlay_apply_env key_def)
  with Cons.IH [of "apply_env s e"] Cons.prems later show ?case by simp
qed simp



subsection \<open>The handshake\<close>

text \<open>When the receiver syncs a namespace with a caller whose context is \<open>ctx\<close>.\<close>

definition may_sync :: "LocalRegistryView option \<Rightarrow> PeerAuthVerifier \<Rightarrow> AuthContext option \<Rightarrow> string \<Rightarrow> bool" where
  "may_sync reg au ctx ns \<longleftrightarrow>
     \<not> auth_enabled au \<or>
     (\<exists>c. ctx = Some c \<and> is_admin c) \<or>
     (\<exists>r. reg = Some r \<and> ns \<in> set (list_datasets r) \<and>
        (\<not> is_auth_required r ns \<or> (\<exists>c xs. ctx = Some c \<and> namespaces c = Some xs \<and> ns \<in> set xs)))"

definition is_hosted :: "LocalRegistryView option \<Rightarrow> string \<Rightarrow> bool" where
  "is_hosted reg ns \<longleftrightarrow> (\<exists>r. reg = Some r \<and> ns \<in> set (list_datasets r))"

lemma authorize_one_sets:
  "accepted (authorize_one reg au ctx ns out) = accepted out @ (if may_sync reg au ctx ns then [ns] else [])"
  "ephemeral (authorize_one reg au ctx ns out) =
     ephemeral out @ (if may_sync reg au ctx ns \<and> \<not> is_hosted reg ns then [ns] else [])"
  by (cases reg; cases ctx; force simp: authorize_one_def may_sync_def is_hosted_def Let_def split: option.splits)+

lemma authorize_fold:
  "accepted (fold (authorize_one reg au ctx) nss out) = accepted out @ filter (may_sync reg au ctx) nss"
  "ephemeral (fold (authorize_one reg au ctx) nss out) =
     ephemeral out @ filter (\<lambda>ns. may_sync reg au ctx ns \<and> \<not> is_hosted reg ns) nss"
  by (induction nss arbitrary: out) (simp_all add: authorize_one_sets)

text \<open>
  The handshake grants exactly what the auth rules allow: with auth off, everything; with
  auth on, an administrator gets every namespace, and another caller gets the hosted
  namespaces that are public or within the scope of its token. A namespace the receiver does
  not host is granted to administrators only (or with auth off), and then marked ephemeral.
\<close>

lemma authorize_namespaces_exact:
  "accepted (authorize_namespaces reg au requested token) =
     filter (may_sync reg au (handshake_ctx au token)) requested \<and>
   ephemeral (authorize_namespaces reg au requested token) =
     filter (\<lambda>ns. \<not> is_hosted reg ns) (accepted (authorize_namespaces reg au requested token))"
  by (simp add: authorize_namespaces_def authorize_fold conj_commute cong: conj_cong)

subsection \<open>What peers may read and write\<close>

lemma touch_peer_frame [simp]:
  "node_id (touch_peer n s) = node_id s" "state (touch_peer n s) = state s"
  "foreign (touch_peer n s) = foreign s" "config (touch_peer n s) = config s"
  "registry (touch_peer n s) = registry s" "auth (touch_peer n s) = auth s"
  "evicted_until (touch_peer n s) = evicted_until s" "wall (touch_peer n s) = wall s"
  "membership_roster (touch_peer n s) = membership_roster s"
  by (simp_all add: touch_peer_def cluster_defs split: option.splits)

lemma sessions_touch_peer:
  "im_get (sessions (touch_peer n s)) m =
     (if m = n then map_option (\<lambda>p. p\<lparr> last_seen := clk s (clk_ix s) \<rparr>) (im_get (sessions s) n)
      else im_get (sessions s) m)"
  by (auto simp: touch_peer_def cluster_defs split: option.splits)

lemma is_authed_touch [simp]: "is_authed (touch_peer n s) from token = is_authed s from token"
  by (auto simp: is_authed_def sessions_touch_peer split: option.splits)

lemma may_accept_touch [simp]: "may_accept (touch_peer n s) from ds token = may_accept s from ds token"
  by (auto simp: may_accept_def sessions_touch_peer split: option.splits)

lemma may_accept_apply_env [simp]: "may_accept (apply_env s e) from ds token = may_accept s from ds token"
  by (auto simp: may_accept_def is_authed_def split: option.splits)

text \<open>
  The datasets a caller may read: those of its session when it proves the session with the
  session secret, and otherwise the public ones.
\<close>

definition readable :: "ClusterStore \<Rightarrow> string \<Rightarrow> string option \<Rightarrow> string \<Rightarrow> bool" where
  "readable s from token ds \<longleftrightarrow>
     (is_authed s from token \<and> (\<exists>p. im_get (sessions s) from = Some p \<and> ds \<in> set (p_namespaces p))) \<or>
     (\<exists>r. registry s = Some r \<and> ds \<in> set (list_datasets r) \<and>
        (\<not> auth_enabled (auth s) \<or> \<not> is_auth_required r ds))"

lemma public_namespaces_iff:
  "ds \<in> set (public_namespaces s) \<longleftrightarrow>
     (\<exists>r. registry s = Some r \<and> ds \<in> set (list_datasets r) \<and>
        (\<not> auth_enabled (auth s) \<or> \<not> is_auth_required r ds))"
  by (cases "registry s") (auto simp: public_namespaces_def)

lemma allowed_for_readable:
  "ds \<in> set (allowed_for s from ns token) \<Longrightarrow> readable s from token ds"
  unfolding allowed_for_def readable_def public_namespaces_iff [symmetric]
  by (auto simp: Let_def split: option.splits if_splits bool.splits)

lemma readable_touch [simp]: "readable (touch_peer n s) from token ds = readable s from token ds"
  by (auto simp: readable_def sessions_touch_peer split: if_splits)

lemma build_envelope_dataset:
  assumes "build_envelope_for_key s k = Some e" "\<forall>k e. overlay s k = Some e \<longrightarrow> key e = k"
  shows "dataset e = fst k"
proof (cases "fst (snd k) = node_id s")
  case True
  with assms(1) show ?thesis
    by (cases k) (auto simp: build_envelope_for_key_def build_local_envelope_def split: option.splits)
next
  case False
  with assms show ?thesis
    by (cases k) (auto simp: build_envelope_for_key_def key_def)
qed

text \<open>
  No read reaches beyond the caller's rights: every digest row and every envelope served
  is of a dataset that is readable for the caller, so a caller that does not prove a
  session sees no dataset that requires authentication.
\<close>

lemma serve_reads_authorized:
  assumes "\<forall>k e. overlay s k = Some e \<longrightarrow> key e = k"
  shows "(\<forall>row \<in> set (fst (serve_digest sha256 from ns token buckets s)). readable s from token (fst row)) \<and>
    (\<forall>e \<in> set (fst (serve_pull from keys token s)). readable s from token (dataset e))"
proof -
  have digest: "readable s from token (fst row)"
    if "row \<in> set (fst (serve_digest sha256 from ns token buckets s))" for row
  proof -
    from that have "fst row \<in> set (allowed_for (touch_peer from s) from ns token)"
      by (auto simp: serve_digest_def Let_def split: prod.splits)
    then show ?thesis using allowed_for_readable readable_touch by blast
  qed
  have pull: "readable s from token (dataset e)" if "e \<in> set (fst (serve_pull from keys token s))" for e
  proof -
    from that obtain k where "fst k \<in> set (allowed_for (touch_peer from s) from None token)"
      "build_envelope_for_key (touch_peer from s) k = Some e"
      by (auto simp: serve_pull_def Let_def map_filter_def)
    moreover from this(2) have "dataset e = fst k"
      by (rule build_envelope_dataset) (simp add: assms)
    ultimately show ?thesis using allowed_for_readable readable_touch by metis
  qed
  show ?thesis using digest pull by blast
qed

definition demo_registry :: LocalRegistryView where
  "demo_registry =
     \<lparr> list_datasets = [''pub'', ''priv''],
       list_entries = (\<lambda>ds. [\<lparr> le_service_id = ''x'', le_source = ''user_config'', le_entry = JStr ds, le_wrapped = None \<rparr>]),
       get_entry = (\<lambda>ds sid. if sid = ''x''
          then Some \<lparr> le_service_id = ''x'', le_source = ''user_config'', le_entry = JStr ds, le_wrapped = None \<rparr>
          else None),
       is_auth_required = (\<lambda>ds. ds = ''priv'') \<rparr>"

definition demo_auth_node :: "string \<Rightarrow> ClusterStore" where
  "demo_auth_node nid =
     (demo_node nid)\<lparr> registry := Some demo_registry,
       auth := \<lparr> auth_enabled = True, authenticate_token = (\<lambda>_. None) \<rparr> \<rparr>"

lemma serve_reads_authorized_witness:
  "\<not> list_ex (\<lambda>e. dataset e = ''priv'')
     (fst (serve_pull ''B'' [(''priv'', ''A'', ''x'')] None (demo_auth_node ''A'')))"
proof -
  have "\<not> readable (demo_auth_node ''A'') ''B'' None ''priv''"
    by (simp add: readable_def demo_auth_node_def demo_registry_def)
  then show ?thesis
    using serve_reads_authorized [of "demo_auth_node ''A''" id "''B''" None None None "[(''priv'', ''A'', ''x'')]"]
    by (auto simp: list_ex_iff demo_auth_node_def)
qed

lemma apply_all_step:
  "apply_all (e # es) (n, s) =
     apply_all es (if fst (apply_inbound e s) then Suc n else n, apply_env s e)"
  by (simp add: apply_all_def apply_env_def split_beta Let_def)

lemma apply_all_Nil [simp]: "apply_all [] acc = acc"
  by (simp add: apply_all_def)

lemma apply_all_eq:
  "apply_all es (n, s) = (n + fst (apply_all es (0, s)), foldl apply_env s es)"
proof (induction es arbitrary: n s)
  case (Cons e es)
  show ?case
    by (cases "fst (apply_inbound e s)")
       (simp_all add: apply_all_step Cons [of "Suc n"] Cons [of "Suc 0"] Cons [of n])
qed simp

lemma apply_all_Cons:
  "fst (apply_all (e # es) (0, s)) =
     (if fst (apply_inbound e s) then 1 else 0) + fst (apply_all es (0, apply_env s e))"
  by (simp add: apply_all_step apply_all_eq [of es "Suc 0"])

lemma fold_update_one:
  "fold (update_one from token) es (a, r, s) =
     (a + fst (apply_all (filter (\<lambda>e. may_accept s from (dataset e) token) es) (0, s)),
      r + length (filter (\<lambda>e. \<not> may_accept s from (dataset e) token) es),
      foldl apply_env s (filter (\<lambda>e. may_accept s from (dataset e) token) es))"
proof (induction es arbitrary: a r s)
  case (Cons e es)
  have "update_one from token e (a, r, s) =
      (if may_accept s from (dataset e) token
       then (if fst (apply_inbound e s) then a + 1 else a, r, apply_env s e) else (a, r + 1, s))"
    by (simp add: update_one_def apply_env_def split_beta Let_def)
  then show ?case by (simp add: Cons apply_all_Cons)
qed simp

lemma apply_all_count: "fst (apply_all es (0, s)) \<le> length es"
  by (induction es arbitrary: s) (auto simp: apply_all_Cons intro: le_SucI)

lemma overlay_run_untouched:
  "\<forall>e \<in> set es. dataset e \<noteq> ds \<Longrightarrow> overlay (foldl apply_env s es) (ds, o', sid) = overlay s (ds, o', sid)"
  by (induction es arbitrary: s) (auto simp: overlay_apply_env key_def)

text \<open>
  C30. A batch of updates writes only where the sender may write: the records of a dataset the
  sender may not write are left as they are, each of its envelopes is counted as
  rejected, nothing else is, and the three counts are consistent. With auth on, the datasets a
  sender may write are those of its proven session and the hosted public ones.
\<close>

theorem serve_updates_authorized:
  "u_received (fst (serve_updates from es token s)) = length es \<and>
   u_rejected (fst (serve_updates from es token s)) =
     length (filter (\<lambda>e. \<not> may_accept s from (dataset e) token) es) \<and>
   u_accepted (fst (serve_updates from es token s)) + u_rejected (fst (serve_updates from es token s)) \<le> length es \<and>
   (\<forall>ds o' sid. may_accept s from ds token \<or>
      overlay (snd (serve_updates from es token s)) (ds, o', sid) = overlay s (ds, o', sid)) \<and>
   (\<forall>ds. may_accept s from ds token = (\<not> auth_enabled (auth s) \<or> readable s from token ds))"
proof -
  let ?ok = "\<lambda>e. may_accept s from (dataset e) token" and ?t = "touch_peer from s"
  have res: "serve_updates from es token s =
    (\<lparr> u_accepted = fst (apply_all (filter ?ok es) (0, ?t)), u_received = length es,
       u_rejected = length (filter (\<lambda>e. \<not> ?ok e) es) \<rparr>, foldl apply_env ?t (filter ?ok es))"
    by (simp add: serve_updates_def Let_def fold_update_one)
  have "fst (apply_all (filter ?ok es) (0, ?t)) + length (filter (\<lambda>e. \<not> ?ok e) es) \<le> length es"
    using apply_all_count [of "filter ?ok es" ?t] sum_length_filter_compl [of ?ok es] by simp
  moreover have "overlay (foldl apply_env ?t (filter ?ok es)) (ds, o', sid) = overlay s (ds, o', sid)"
    if "\<not> may_accept s from ds token" for ds o' sid
    by (subst overlay_run_untouched) (use that in auto)
  moreover have "may_accept s from ds token = (\<not> auth_enabled (auth s) \<or> readable s from token ds)" for ds
    by (auto simp: may_accept_def readable_def split: option.splits)
  ultimately show ?thesis by (auto simp: res)
qed

theorem serve_updates_authorized_witness:
  "u_rejected (fst (serve_updates ''B'' [demo_env ''B'' ''x'' 1] None (demo_auth_node ''A''))) = 1"
proof -
  have "\<not> may_accept (demo_auth_node ''A'') ''B'' ''ds'' None"
    by (simp add: may_accept_def is_authed_def demo_auth_node_def demo_registry_def)
  then show ?thesis
    using serve_updates_authorized [of "''B''" "[demo_env ''B'' ''x'' 1]" None "demo_auth_node ''A''"]
    by (simp add: demo_env_def)
qed

end
