(* ===== verification/ClusterInv.thy ===== *)
theory ClusterInv
  imports ClusterLaws
begin

text \<open>
  The well-formedness invariant of the cluster store, kept by every operation of the data
  plane and of the membership plane whatever the transport answers, and the
  monotonicity of the versions a node stamps on its own records.
\<close>

subsection \<open>The invariant\<close>

text \<open>The overlay is keyed by its envelopes and never holds a record of the node itself.\<close>

definition overlay_ok :: "string \<Rightarrow> (Key, SyncEnvelope) imap \<Rightarrow> bool" where
  "overlay_ok me f \<longleftrightarrow> im_wf f \<and> (\<forall>(k, e) \<in> set f. key e = k \<and> origin_id e \<noteq> me)"

definition sessions_ok :: "(string, Peer) imap \<Rightarrow> bool" where
  "sessions_ok ss \<longleftrightarrow> im_wf ss \<and> (\<forall>(n, p) \<in> set ss. p_node_id p = n)"

text \<open>
  A local record is live or deleted but not both; its version carries the node's own id; a
  tombstone is dated by its version.
\<close>

definition local_ok :: "ClusterState \<Rightarrow> bool" where
  "local_ok st \<longleftrightarrow>
     sorted_wrt (<) (map fst (local_versions st)) \<and> sorted_wrt (<) (map fst (tombstones st)) \<and>
     (\<forall>k. im_get (local_versions st) k = None \<or> im_get (tombstones st) k = None) \<and>
     (\<forall>k v. im_get (local_versions st) k = Some v \<longrightarrow> ver_node_id v = cs_node_id st) \<and>
     (\<forall>k t. im_get (tombstones st) k = Some t \<longrightarrow>
        ver_node_id (tb_version t) = cs_node_id st \<and> deleted_at_ms t = ver_ms (tb_version t))"

definition roster_ok :: "Roster option \<Rightarrow> bool" where
  "roster_ok r \<longleftrightarrow> (\<forall>x. r = Some x \<longrightarrow> im_wf x \<and> (\<forall>(n, m) \<in> set x. m_node_id m = n))"

definition store_inv :: "ClusterStore \<Rightarrow> bool" where
  "store_inv s \<longleftrightarrow>
     overlay_ok (node_id s) (foreign s) \<and> sessions_ok (sessions s) \<and> local_ok (state s) \<and>
     roster_ok (membership_roster s)"

lemma store_inv_cong:
  "state s' = state s \<Longrightarrow> foreign s' = foreign s \<Longrightarrow> sessions s' = sessions s \<Longrightarrow>
   membership_roster s' = membership_roster s \<Longrightarrow> store_inv s' = store_inv s"
  by (simp add: store_inv_def node_id_def)

lemma overlay_ok_insert:
  "overlay_ok me f \<Longrightarrow> origin_id e \<noteq> me \<Longrightarrow> overlay_ok me (im_insert (key e) e f)"
  by (auto simp: overlay_ok_def dest!: set_im_insertD)

lemma overlay_ok_retain: "overlay_ok me f \<Longrightarrow> overlay_ok me (im_retain P f)"
  by (auto simp: overlay_ok_def)

lemma sessions_ok_insert: "sessions_ok ss \<Longrightarrow> p_node_id p = n \<Longrightarrow> sessions_ok (im_insert n p ss)"
  by (auto simp: sessions_ok_def dest!: set_im_insertD)

lemma sessions_ok_remove: "sessions_ok ss \<Longrightarrow> sessions_ok (im_remove n ss)"
  by (auto simp: sessions_ok_def)

lemma sessions_ok_get: "sessions_ok ss \<Longrightarrow> im_get ss n = Some p \<Longrightarrow> p_node_id p = n"
  by (auto simp: sessions_ok_def dest: im_get_in_set)

lemma roster_ok_insert:
  "roster_ok (Some r) \<Longrightarrow> m_node_id m = n \<Longrightarrow> roster_ok (Some (im_insert n m r))"
  by (auto simp: roster_ok_def dest!: set_im_insertD)

lemma roster_ok_retain: "roster_ok (Some r) \<Longrightarrow> roster_ok (Some (im_retain P r))"
  by (auto simp: roster_ok_def)

lemma roster_ok_trivial [simp]: "roster_ok None" "roster_ok (Some [])"
  by (simp_all add: roster_ok_def)

lemma sorted_im_remove:
  "sorted_wrt (<) (map fst m) \<Longrightarrow> sorted_wrt (<) (map fst (im_remove k m))"
  by (induction m) (auto simp: im_remove_def)

lemma sorted_im_retain:
  "sorted_wrt (<) (map fst m) \<Longrightarrow> sorted_wrt (<) (map fst (im_retain P m))"
  by (induction m) (auto simp: im_retain_def)

lemma sorted_im_wf:
  fixes m :: "('k::linorder, 'v) imap"
  shows "sorted_wrt (<) (map fst m) \<Longrightarrow> im_wf m"
  by (simp add: strict_sorted_iff)

lemma local_ok_clock [simp]: "local_ok (st\<lparr> version_clock := c \<rparr>) = local_ok st"
  by (simp add: local_ok_def)

lemma local_ok_membership [simp]:
  "local_ok (st\<lparr> cs_cluster_id := a, last_roster := b, my_membership_version := c \<rparr>) = local_ok st"
  by (simp add: local_ok_def)

lemma local_ok_live:
  "local_ok st \<Longrightarrow> ver_node_id v = cs_node_id st \<Longrightarrow>
   local_ok (st\<lparr> local_versions := bm_insert k v (local_versions st), tombstones := im_remove k (tombstones st) \<rparr>)"
  by (auto simp: local_ok_def bm_insert_sorted sorted_im_remove)

lemma local_ok_fresh:
  "local_ok st \<Longrightarrow> ver_node_id v = cs_node_id st \<Longrightarrow> im_get (tombstones st) k = None \<Longrightarrow>
   local_ok (st\<lparr> local_versions := bm_insert k v (local_versions st) \<rparr>)"
  by (auto simp: local_ok_def bm_insert_sorted)

lemma local_ok_dead:
  "local_ok st \<Longrightarrow> ver_node_id v = cs_node_id st \<Longrightarrow>
   local_ok (st\<lparr> tombstones := bm_insert k \<lparr> tb_version = v, deleted_at_ms = ver_ms v \<rparr> (tombstones st),
                 local_versions := im_remove k (local_versions st) \<rparr>)"
  by (auto simp: local_ok_def bm_insert_sorted sorted_im_remove)

lemma local_ok_gc:
  assumes "local_ok st"
  shows "local_ok (st\<lparr> tombstones := im_retain P (tombstones st) \<rparr>)"
proof -
  have "im_get (im_retain P (tombstones st)) k = Some t \<Longrightarrow> im_get (tombstones st) k = Some t" for k t
    using assms by (auto simp: local_ok_def im_get_retain sorted_im_wf split: option.splits if_splits)
  with assms show ?thesis
    unfolding local_ok_def by (simp add: sorted_im_retain) (metis not_None_eq)
qed

subsection \<open>Primitive operations\<close>

lemma save_inv [simp]: "store_inv (snd (save s)) = store_inv s" "store_inv (save_logged s) = store_inv s"
  by (rule store_inv_cong; simp)+

lemma next_ts_inv [simp]:
  "store_inv (snd (next_ts_locked s)) = store_inv s"
  "node_id (snd (next_ts_locked s)) = node_id s"
  "membership_roster (snd (next_ts_locked s)) = membership_roster s"
  by (simp_all add: next_ts_locked_def cluster_defs store_inv_def)

lemma next_version_inv [simp]:
  "store_inv (snd (next_version s)) = store_inv s"
  "node_id (snd (next_version s)) = node_id s"
  "membership_roster (snd (next_version s)) = membership_roster s"
  by (simp_all add: next_version_def Let_def split_beta)

lemma next_version_after_inv [simp]:
  "store_inv (snd (next_version_after f s)) = store_inv s"
  "node_id (snd (next_version_after f s)) = node_id s"
  "membership_roster (snd (next_version_after f s)) = membership_roster s"
  by (simp_all add: next_version_after_def cluster_defs store_inv_def)

lemma observe_version_inv [simp]:
  "store_inv (observe_version ms s) = store_inv s" "node_id (observe_version ms s) = node_id s"
  by (simp_all add: observe_version_def cluster_defs store_inv_def)

lemma ensure_one_inv:
  "store_inv (snd cs) \<Longrightarrow> store_inv (snd (ensure_one p cs))"
proof (cases cs; cases p)
  fix changed s ds sid
  assume cs: "cs = (changed, s)" "p = (ds, sid)" and inv: "store_inv (snd cs)"
  let ?t = "snd (next_ts_locked s)"
  have "store_inv (?t\<lparr> state := (state ?t)\<lparr> local_versions :=
      bm_insert (make_key ds sid) (Version ts (node_id ?t)) (local_versions (state ?t)) \<rparr> \<rparr>)"
    if "im_get (tombstones (state s)) (make_key ds sid) = None" for ts
  proof -
    have "local_ok (state ?t)" "im_get (tombstones (state ?t)) (make_key ds sid) = None"
      using inv cs that by (simp_all add: store_inv_def next_ts_locked_def cluster_defs)
    then have "local_ok ((state ?t)\<lparr> local_versions :=
        bm_insert (make_key ds sid) (Version ts (node_id ?t)) (local_versions (state ?t)) \<rparr>)"
      by (intro local_ok_fresh) (simp_all add: node_id_def)
    with inv cs show ?thesis
      using next_ts_inv(1) [of s] by (simp add: store_inv_def node_id_def)
  qed
  then show ?thesis
    using inv by (auto simp: cs ensure_one_def Let_def split_beta im_contains_def)
qed

lemma ensure_local_versions_inv: "store_inv s \<Longrightarrow> store_inv (ensure_local_versions s)"
proof -
  have fold: "store_inv (snd cs) \<Longrightarrow> store_inv (snd (fold ensure_one ps cs))" for ps cs
    by (induction ps arbitrary: cs) (simp_all add: ensure_one_inv)
  show "store_inv s \<Longrightarrow> ?thesis"
    using fold [of "(False, s)"]
    by (auto simp: ensure_local_versions_def Let_def split_beta split: option.split)
qed

lemma full_index_store: "snd (full_index ns s) = ensure_local_versions s"
  by (simp add: full_index_def local_index_def Let_def split_beta split: option.split)

lemma ensure_local_versions_roster [simp]:
  "membership_roster (ensure_local_versions s) = membership_roster s"
  "node_id (ensure_local_versions s) = node_id s"
proof -
  have one: "membership_roster (snd (ensure_one p cs)) = membership_roster (snd cs) \<and>
      node_id (snd (ensure_one p cs)) = node_id (snd cs)" for p cs
    by (cases cs; cases p) (simp add: ensure_one_def next_ts_locked_def cluster_defs)
  have "membership_roster (snd (fold ensure_one ps cs)) = membership_roster (snd cs) \<and>
      node_id (snd (fold ensure_one ps cs)) = node_id (snd cs)" for ps cs
    by (induction ps arbitrary: cs) (simp_all add: one)
  then show "membership_roster (ensure_local_versions s) = membership_roster s"
    "node_id (ensure_local_versions s) = node_id s"
    by (simp_all add: ensure_local_versions_def Let_def split_beta node_id_def split: option.split)
qed

lemma full_index_inv: "store_inv s \<Longrightarrow> store_inv (snd (full_index ns s))"
  by (simp add: full_index_store ensure_local_versions_inv)

lemma apply_env_inv: "store_inv s \<Longrightarrow> store_inv (apply_env s e)"
proof -
  have "foreign (apply_env s e) = (if fst (apply_inbound e s) then im_insert (key e) e (foreign s) else foreign s)"
    by (auto simp: apply_env_def apply_inbound_def cluster_defs split: option.splits)
  then show "store_inv s \<Longrightarrow> ?thesis"
    by (auto simp: store_inv_def apply_inbound_stored intro: overlay_ok_insert)
qed

lemma run_inv: "store_inv s \<Longrightarrow> store_inv (foldl apply_env s es)"
  by (induction es arbitrary: s) (auto intro: apply_env_inv)

lemma touch_peer_inv: "store_inv s \<Longrightarrow> store_inv (touch_peer n s)"
proof -
  have "sessions (touch_peer n s) = (case im_get (sessions s) n of
      Some p \<Rightarrow> im_insert n (p\<lparr> last_seen := clk s (clk_ix s) \<rparr>) (sessions s) | None \<Rightarrow> sessions s)"
    by (auto simp: touch_peer_def cluster_defs split: option.splits)
  then show "store_inv s \<Longrightarrow> ?thesis"
    by (auto simp: store_inv_def sessions_ok_get intro!: sessions_ok_insert split: option.splits)
qed

lemma disconnect_peer_inv: "store_inv s \<Longrightarrow> store_inv (snd (disconnect_peer n s))"
  by (simp add: store_inv_def overlay_ok_retain sessions_ok_remove)

subsection \<open>Operations of the data plane\<close>

lemma session_insert_inv:
  "store_inv s \<Longrightarrow> p_node_id p = n \<Longrightarrow>
   store_inv (s\<lparr> sessions := im_insert n p (sessions s), evicted_until := u \<rparr>)"
  by (simp add: store_inv_def node_id_def sessions_ok_insert)

lemma clock_now_inv [simp]:
  "store_inv (snd (clock_now s)) = store_inv s" "store_inv (snd (now_ms s)) = store_inv s"
  "store_inv (snd (random_bytes s)) = store_inv s"
  "store_inv (snd (clock_or o1 s)) = store_inv s" "store_inv (snd (wall_or o2 s)) = store_inv s"
  "node_id (snd (clock_now s)) = node_id s" "node_id (snd (random_bytes s)) = node_id s"
  "node_id (snd (wall_or o2 s)) = node_id s"
  "membership_roster (snd (wall_or o2 s)) = membership_roster s"
  "membership_roster (snd (random_bytes s)) = membership_roster s"
  by (simp_all add: cluster_defs store_inv_def split: option.splits)

lemma handle_open_inv: "store_inv s \<Longrightarrow> store_inv (snd (handle_open req s))"
  by (auto simp: handle_open_def Let_def split_beta intro!: session_insert_inv)

lemma serve_digest_inv: "store_inv s \<Longrightarrow> store_inv (snd (serve_digest sha from ns tok b s))"
  by (simp add: serve_digest_def Let_def split_beta full_index_inv touch_peer_inv)

lemma serve_merkle_inv: "store_inv s \<Longrightarrow> store_inv (snd (serve_merkle sha from ns tok s))"
  by (simp add: serve_merkle_def Let_def split_beta full_index_inv touch_peer_inv)

lemma serve_pull_inv: "store_inv s \<Longrightarrow> store_inv (snd (serve_pull from ks tok s))"
  by (simp add: serve_pull_def Let_def touch_peer_inv)

lemma serve_updates_inv: "store_inv s \<Longrightarrow> store_inv (snd (serve_updates from es tok s))"
  by (simp add: serve_updates_def Let_def fold_update_one run_inv touch_peer_inv)

lemma handle_keepalive_inv: "store_inv s \<Longrightarrow> store_inv (snd (handle_keepalive from tok s))"
  by (simp add: handle_keepalive_def touch_peer_inv)

lemma disconnect_fold_inv:
  "store_inv s \<Longrightarrow> store_inv (fold (\<lambda>n s. snd (disconnect_peer n s)) ns s)"
  by (induction ns arbitrary: s) (simp_all add: disconnect_peer_inv)

lemma disconnect_fold_frame [simp]:
  "membership_roster (fold (\<lambda>n s. snd (disconnect_peer n s)) ns s) = membership_roster s"
  "node_id (fold (\<lambda>n s. snd (disconnect_peer n s)) ns s) = node_id s"
  by (induction ns arbitrary: s) simp_all

lemma check_hold_inv: "store_inv s \<Longrightarrow> store_inv (snd (check_hold now s))"
  by (simp add: check_hold_def Let_def split_beta disconnect_fold_inv)

lemma prune_suppression_inv: "store_inv s \<Longrightarrow> store_inv (prune_suppression now s)"
  by (simp add: prune_suppression_def Let_def split_beta)
     (subst store_inv_cong [where s = "snd (clock_or now s)"]; simp)

lemma gc_tombstones_inv:
  assumes "store_inv s"
  shows "store_inv (snd (gc_tombstones now s))"
proof -
  have state_gc: "store_inv (s\<lparr> state := (state s)\<lparr> tombstones := im_retain P (tombstones (state s)) \<rparr> \<rparr>)"
    if "store_inv s" for P s
    using that local_ok_gc by (simp add: store_inv_def node_id_def)
  have foreign_gc: "store_inv (s\<lparr> foreign := im_retain P (foreign s) \<rparr>)" if "store_inv s" for P s
    using that overlay_ok_retain by (simp add: store_inv_def node_id_def)
  show ?thesis
    unfolding gc_tombstones_def Let_def split_beta snd_conv
    by (rule foreign_gc) (simp add: state_gc assms)
qed

lemma stamp_local_inv: "store_inv s \<Longrightarrow> store_inv (snd (stamp_local ds sid op s))"
proof -
  assume inv: "store_inv s"
  obtain ts t where ts: "next_ts_locked s = (ts, t)" by (cases "next_ts_locked s")
  with inv next_ts_inv(1) [of s] have t: "store_inv t" by simp
  have "store_inv (t\<lparr> state := st \<rparr>)" if "local_ok st" "cs_node_id st = cs_node_id (state t)" for st
    using t that by (simp add: store_inv_def node_id_def)
  note upd = this
  have lok: "local_ok (state t)" using t by (simp add: store_inv_def)
  show ?thesis
    using local_ok_live [OF lok, of "Version ts (node_id t)"] local_ok_dead [OF lok, of "Version ts (node_id t)"] save_inv(1)
    by (cases op)
       (auto simp: stamp_local_def ts node_id_def Let_def snd_def [symmetric] split: prod.splits sum.splits
         intro!: upd dest!: arg_cong [of _ _ snd])
qed

lemma reconcile_push_store: "fst (snd (reconcile_push t peer l r n s w)) = s"
  by (simp add: reconcile_push_def Let_def split: prod.splits sum.splits)

lemma snd_apply_all: "snd (apply_all es acc) = foldl apply_env (snd acc) es"
  by (metis apply_all_eq prod.collapse snd_conv)

text \<open>What a reconcile does to the local store: it takes some envelopes into the overlay.\<close>

lemma reconcile_store:
  "\<exists>es. fst (snd (reconcile sha t peer s w)) = foldl apply_env (ensure_local_versions s) es"
proof -
  have base: "\<exists>es. ensure_local_versions s = foldl apply_env (ensure_local_versions s) es"
    by (rule exI [of _ "[]"]) simp
  have more: "\<exists>es'. foldl apply_env (ensure_local_versions s) es = foldl apply_env (ensure_local_versions s) es'" for es
    by blast
  show ?thesis
    unfolding reconcile_def Let_def split_beta full_index_store snd_apply_all
    by (simp only: if_distrib [of "\<lambda>x. fst (snd x)"] sum.case_distrib [of "\<lambda>x. fst (snd x)"]
        fst_conv snd_conv reconcile_push_store snd_apply_all split: sum.split if_split)
       (intro conjI allI impI base more)
qed

lemma run_frame [simp]:
  "membership_roster (foldl apply_env s es) = membership_roster s" "node_id (foldl apply_env s es) = node_id s"
  by (induction es arbitrary: s) simp_all

lemma reconcile_inv:
  "store_inv s \<Longrightarrow> store_inv (fst (snd (reconcile sha t peer s w)))"
  "membership_roster (fst (snd (reconcile sha t peer s w))) = membership_roster s"
  "node_id (fst (snd (reconcile sha t peer s w))) = node_id s"
  using reconcile_store [of sha t peer s w] by (auto simp: run_inv ensure_local_versions_inv)

lemma connect_peer_inv:
  "store_inv s \<Longrightarrow> store_inv (fst (snd (connect_peer sha t addr ns tok s w)))"
  "membership_roster (fst (snd (connect_peer sha t addr ns tok s w))) = membership_roster s"
  "node_id (fst (snd (connect_peer sha t addr ns tok s w))) = node_id s"
proof -
  let ?out = "fst (snd (connect_peer sha t addr ns tok s w))"
  have "?out = s \<or> (\<exists>p u w'. ?out = fst (snd (reconcile sha t p
      ((snd (clock_now s))\<lparr> sessions := im_insert (p_node_id p) p (sessions s), evicted_until := u \<rparr>) w')))"
    by (auto simp: connect_peer_def Let_def clock_now_def split: prod.splits sum.splits option.splits if_splits)
       (metis Peer.select_convs(1) fst_conv snd_conv)+
  moreover have "store_inv ((snd (clock_now s))\<lparr> sessions := im_insert (p_node_id p) p (sessions s), evicted_until := u \<rparr>)"
    if "store_inv s" for p u
    using that session_insert_inv [of s p "p_node_id p" u]
    by (simp add: clock_now_def store_inv_def node_id_def)
  ultimately show "store_inv s \<Longrightarrow> store_inv ?out" "membership_roster ?out = membership_roster s"
    "node_id ?out = node_id s"
    by (auto simp: reconcile_inv) (simp_all add: clock_now_def node_id_def)
qed

lemma on_local_mutation_inv:
  "store_inv s \<Longrightarrow> store_inv (fst (snd (on_local_mutation t ds sid op s w)))"
  using stamp_local_inv [of s ds sid op]
  by (auto simp: on_local_mutation_def split: prod.splits sum.splits option.splits)

lemma on_local_upsert_inv:
  "store_inv s \<Longrightarrow> store_inv (fst (snd (on_local_upsert t ds sid e w' s w)))"
  using stamp_local_inv [of s ds sid Update]
  by (auto simp: on_local_upsert_def Let_def split: prod.splits sum.splits option.splits)

subsection \<open>Operations of the membership plane\<close>

lemma with_roster_inv: "store_inv s \<Longrightarrow> roster_ok (Some r) \<Longrightarrow> store_inv (with_roster r s)"
  by (simp add: with_roster_def store_inv_def node_id_def)

lemma with_roster_simps [simp]:
  "node_id (with_roster r s) = node_id s" "the_roster (with_roster r s) = r"
  by (simp_all add: with_roster_def node_id_def the_roster_def)

lemma the_roster_ok: "store_inv s \<Longrightarrow> roster_ok (Some (the_roster s))"
  by (cases "membership_roster s") (simp_all add: store_inv_def the_roster_def)

lemma put_record_inv: "store_inv s \<Longrightarrow> store_inv (put_record r s)"
  by (simp add: put_record_def with_roster_inv roster_ok_insert the_roster_ok)

lemma put_record_node_id [simp]: "node_id (put_record r s) = node_id s"
  by (simp add: put_record_def)

lemma persist_inv [simp]: "store_inv (persist s) = store_inv s" "node_id (persist s) = node_id s"
  by (simp_all add: persist_def persist_membership_def Let_def store_inv_def node_id_def)

lemma become_standalone_inv: "store_inv s \<Longrightarrow> store_inv (become_standalone s)"
  by (simp add: become_standalone_def Let_def disconnect_fold_inv with_roster_inv)

lemma become_standalone_node_id [simp]: "node_id (become_standalone s) = node_id s"
  by (simp add: become_standalone_def Let_def)

lemma merge_one_ok:
  "roster_ok (Some (snd (snd acc))) \<Longrightarrow> roster_ok (Some (snd (snd (merge_one me d acc))))"
  by (auto simp: merge_one_def split_beta roster_ok_insert split: option.split)

lemma merge_records_inv: "store_inv s \<Longrightarrow> store_inv (snd (merge_records recs s))"
proof -
  assume inv: "store_inv s"
  have "roster_ok (Some (snd (snd acc))) \<Longrightarrow>
      roster_ok (Some (snd (snd (fold (merge_one me) recs acc))))" for me acc
    by (induction recs arbitrary: acc) (simp_all add: merge_one_ok)
  from this [of "(False, False, the_roster s)" "node_id s"] the_roster_ok [OF inv]
  have "store_inv (with_roster (snd (snd (fold (merge_one (node_id s)) recs (False, False, the_roster s)))) s)"
    by (simp add: with_roster_inv inv)
  then show ?thesis
    by (simp add: merge_records_def Let_def split_beta become_standalone_inv)
qed

lemma merge_records_node_id [simp]: "node_id (snd (merge_records recs s)) = node_id s"
  by (simp add: merge_records_def Let_def split_beta)

lemma my_record_inv: "store_inv s \<Longrightarrow> store_inv (snd (my_record s))"
  by (simp add: my_record_def Let_def split_beta put_record_inv split: option.split)

lemma reconcile_with_inv: "store_inv s \<Longrightarrow> store_inv (fst (reconcile_with t peer s w))"
  by (auto simp: reconcile_with_def Let_def merge_records_inv split: prod.splits sum.splits)

lemma serve_set_sync_inv: "store_inv s \<Longrightarrow> store_inv (snd (serve_set_sync from recs tok s))"
  by (simp add: serve_set_sync_def merge_records_inv)

lemma push_to_roster_inv: "store_inv s \<Longrightarrow> store_inv (fst (push_to_roster t recs s w))"
  by (simp add: push_to_roster_def Let_def split_beta my_record_inv split: option.split)

lemma connect_missing_inv:
  "store_inv (fst sw) \<Longrightarrow> store_inv (fst (connect_missing sha t actual na sw))"
  by (cases sw; cases na) (simp add: connect_missing_def connect_peer_inv(1))

lemma reconcile_connections_inv:
  "store_inv s \<Longrightarrow> store_inv (fst (reconcile_connections sha t s w))"
proof -
  have conn: "store_inv (fst sw) \<Longrightarrow> store_inv (fst (fold (connect_missing sha t actual) ds sw))" for actual ds sw
    by (induction ds arbitrary: sw) (simp_all add: connect_missing_inv)
  have disc: "store_inv s \<Longrightarrow> store_inv (fold (\<lambda>nid s.
      if P nid \<and> is_removed_or_absent s nid then snd (disconnect_peer nid s) else s) ns s)" for P ns s
    by (induction ns arbitrary: s) (simp_all add: disconnect_peer_inv)
  show "store_inv s \<Longrightarrow> ?thesis"
    by (simp add: reconcile_connections_def Let_def split_beta conn disc)
qed

lemma gc_membership_inv: "store_inv s \<Longrightarrow> store_inv (snd (gc_membership now s))"
  by (simp add: gc_membership_def Let_def split_beta with_roster_inv roster_ok_retain the_roster_ok)

lemma ensure_cluster_inv: "store_inv s \<Longrightarrow> store_inv (ensure_cluster s)"
  by (simp add: ensure_cluster_def generate_cluster_id_def Let_def split_beta put_record_inv)

lemma add_one_inv:
  "store_inv (fst (snd acc)) \<Longrightarrow> store_inv (fst (snd (add_one t cid snap tok m acc)))"
  by (cases acc)
     (auto simp: add_one_def Let_def put_record_inv split: prod.splits sum.splits option.splits list.splits
       dest!: arg_cong [of _ _ snd])

lemma remove_one_inv:
  "store_inv (fst (snd (snd acc))) \<Longrightarrow> store_inv (fst (snd (snd (remove_one t m acc))))"
  by (cases acc)
     (auto simp: remove_one_def Let_def split_beta put_record_inv disconnect_peer_inv
       split: option.split list.split)

lemma set_add_inv: "store_inv s \<Longrightarrow> store_inv (fst (snd (set_add sha t ms tok s w)))"
proof -
  have "store_inv (fst (snd acc)) \<Longrightarrow> store_inv (fst (snd (fold (add_one t cid snap tok) ms acc)))" for cid snap acc
    by (induction ms arbitrary: acc) (simp_all add: add_one_inv)
  then show "store_inv s \<Longrightarrow> ?thesis"
    by (simp add: set_add_def Let_def split_beta push_to_roster_inv reconcile_connections_inv ensure_cluster_inv)
qed

lemma set_remove_inv: "store_inv s \<Longrightarrow> store_inv (fst (snd (set_remove t ms s w)))"
proof -
  have "store_inv (fst (snd (snd acc))) \<Longrightarrow> store_inv (fst (snd (snd (fold (remove_one t) ms acc))))" for acc
    by (induction ms arbitrary: acc) (simp_all add: remove_one_inv)
  then show "store_inv s \<Longrightarrow> ?thesis"
    by (simp add: set_remove_def Let_def split_beta push_to_roster_inv)
qed

lemma leave_old_inv: "store_inv s \<Longrightarrow> store_inv (fst (leave_old t old s w))"
proof -
  have "store_inv s \<Longrightarrow> store_inv (fold (\<lambda>(nid, addr) s. snd (disconnect_peer nid s)) ms s)" for ms :: "(string \<times> string) list" and s
    by (induction ms arbitrary: s) (auto simp: disconnect_peer_inv)
  then show "store_inv s \<Longrightarrow> ?thesis"
    by (simp add: leave_old_def Let_def with_roster_inv roster_ok_retain the_roster_ok)
qed

lemma adopt_inv: "store_inv s \<Longrightarrow> store_inv (fst (snd (adopt sha t cid recs s w)))"
  by (simp add: adopt_def Let_def split_beta push_to_roster_inv reconcile_connections_inv merge_records_inv
      put_record_inv leave_old_inv split: option.split)

lemma handle_join_inv: "store_inv s \<Longrightarrow> store_inv (fst (snd (handle_join sha t body s w)))"
  by (simp add: handle_join_def adopt_inv split: option.split list.split)

lemma handle_evict_self_inv: "store_inv s \<Longrightarrow> store_inv (fst (snd (handle_evict_self t body s w)))"
  by (simp add: handle_evict_self_def Let_def split_beta push_to_roster_inv disconnect_peer_inv put_record_inv)

lemma handle_evicted_inv: "store_inv s \<Longrightarrow> store_inv (snd (handle_evicted body s))"
  by (simp add: handle_evicted_def become_standalone_inv)

lemma sync_peer_inv: "store_inv (fst sw) \<Longrightarrow> store_inv (fst (sync_peer sha t peer sw))"
proof (cases sw)
  case (Pair s w)
  assume "store_inv (fst sw)"
  with Pair have "store_inv (fst (snd (reconcile sha t peer s w)))" by (simp add: reconcile_inv)
  then show ?thesis
    by (auto simp: Pair sync_peer_def reconcile_with_inv split: prod.splits sum.splits option.splits)
qed

lemma anti_entropy_tick_inv: "store_inv s \<Longrightarrow> store_inv (fst (anti_entropy_tick sha t s w))"
proof -
  have "store_inv (fst sw) \<Longrightarrow> store_inv (fst (fold (sync_peer sha t) ps sw))" for ps sw
    by (induction ps arbitrary: sw) (simp_all add: sync_peer_inv)
  then show "store_inv s \<Longrightarrow> ?thesis"
    by (simp add: anti_entropy_tick_def Let_def split_beta gc_membership_inv prune_suppression_inv
        gc_tombstones_inv reconcile_connections_inv split: option.split)
qed

lemma keepalive_tick_inv: "store_inv s \<Longrightarrow> store_inv (fst (keepalive_tick t s w))"
  by (simp add: keepalive_tick_def Let_def check_hold_inv)

subsection \<open>Runs of a node\<close>

text \<open>
  One step of a node: a handler called by a peer, a local mutation, an operator command or a
  background tick, on the store and the world behind the transport.
\<close>

inductive cluster_step ::
  "(string \<Rightarrow> string) \<Rightarrow> 'w Transport \<Rightarrow> ClusterStore \<times> 'w \<Rightarrow> ClusterStore \<times> 'w \<Rightarrow> bool"
  for sha t where
  open_session: "cluster_step sha t (s, w) (snd (handle_open req s), w)"
| digest: "cluster_step sha t (s, w) (snd (serve_digest sha from ns tok b s), w)"
| merkle: "cluster_step sha t (s, w) (snd (serve_merkle sha from ns tok s), w)"
| pull: "cluster_step sha t (s, w) (snd (serve_pull from ks tok s), w)"
| updates: "cluster_step sha t (s, w) (snd (serve_updates from es tok s), w)"
| keepalive: "cluster_step sha t (s, w) (snd (handle_keepalive from tok s), w)"
| connect: "cluster_step sha t (s, w) (snd (connect_peer sha t addr nso tok s w))"
| reconcile_peer: "cluster_step sha t (s, w) (snd (reconcile sha t peer s w))"
| mutate: "cluster_step sha t (s, w) (snd (on_local_mutation t ds sid op s w))"
| upsert: "cluster_step sha t (s, w) (snd (on_local_upsert t ds sid ent wr s w))"
| disconnect: "cluster_step sha t (s, w) (snd (disconnect_peer nid s), w)"
| gc: "cluster_step sha t (s, w) (snd (gc_tombstones now s), w)"
| set_sync: "cluster_step sha t (s, w) (snd (serve_set_sync from recs tok s), w)"
| add_members: "cluster_step sha t (s, w) (snd (set_add sha t ms tok s w))"
| remove_members: "cluster_step sha t (s, w) (snd (set_remove t ms s w))"
| join_cluster: "cluster_step sha t (s, w) (snd (handle_join sha t jbody s w))"
| evict_self: "cluster_step sha t (s, w) (snd (handle_evict_self t lbody s w))"
| evicted: "cluster_step sha t (s, w) (snd (handle_evicted ebody s), w)"
| tick_anti_entropy: "cluster_step sha t (s, w) (anti_entropy_tick sha t s w)"
| tick_keepalive: "cluster_step sha t (s, w) (keepalive_tick t s w)"

lemma cluster_step_inv: "cluster_step sha t sw sw' \<Longrightarrow> store_inv (fst sw) \<Longrightarrow> store_inv (fst sw')"
  by (induction rule: cluster_step.induct)
     (simp_all add: handle_open_inv serve_digest_inv serve_merkle_inv serve_pull_inv serve_updates_inv
       handle_keepalive_inv connect_peer_inv(1) reconcile_inv(1) on_local_mutation_inv on_local_upsert_inv
       disconnect_peer_inv gc_tombstones_inv serve_set_sync_inv set_add_inv set_remove_inv handle_join_inv
       handle_evict_self_inv handle_evicted_inv anti_entropy_tick_inv keepalive_tick_inv)

lemma init_from_state_inv: "store_inv s \<Longrightarrow> store_inv (init_from_state s)"
proof -
  have "store_inv s \<Longrightarrow> store_inv (fold (restore_one cid) ds s)" for cid ds s
    by (induction ds arbitrary: s) (simp_all add: restore_one_def put_record_inv split: option.split)
  then show "store_inv s \<Longrightarrow> ?thesis"
    by (simp add: init_from_state_def Let_def split_beta gc_membership_inv put_record_inv split: option.split)
qed

lemma build_inv: "local_ok st \<Longrightarrow> store_inv (build b st c wl r sv)"
proof -
  assume "local_ok st"
  then have "store_inv s" if "state s = st" "foreign s = []" "sessions s = []" "membership_roster s \<in> {None, Some []}" for s
    using that by (auto simp: store_inv_def overlay_ok_def sessions_ok_def)
  then show ?thesis
    by (auto simp: build_def Let_def attach_def init_from_state_inv with_roster_def)
qed

text \<open>
  C3. The store of a node stays well formed: started from a well-formed state file and driven by
  any sequence of peer calls, local mutations, operator commands and background
  ticks, with any answers of the transport, its overlay is keyed by its envelopes and never
  contains a record of the node itself, its sessions and roster are keyed by the node
  ids they hold, and no local record is both live and deleted.
\<close>

theorem store_inv_reachable:
  assumes "local_ok st"
    and "(cluster_step sha t)\<^sup>*\<^sup>* (build b st clocks walls rands saves, w) (s, w')"
  shows "store_inv s"
proof -
  have "store_inv (fst sw')" if "(cluster_step sha t)\<^sup>*\<^sup>* sw sw'" "store_inv (fst sw)" for sw sw'
    using that by (induction rule: rtranclp_induct) (auto dest: cluster_step_inv)
  from this [OF assms(2)] build_inv [OF assms(1)] show ?thesis by simp
qed

lemma local_ok_new [simp]: "local_ok (ClusterState_new n)"
  by (simp add: local_ok_def ClusterState_new_def)

theorem store_inv_reachable_witness:
  "store_inv (snd (serve_updates ''B'' [demo_env ''B'' ''x'' 7] None
     (build ClusterStoreBuilder_default (ClusterState_new ''A'') (\<lambda>_. 5) (\<lambda>_. 1000) (\<lambda>_. []) (\<lambda>_. True))))"
  by (rule store_inv_reachable [OF local_ok_new, of undefined undefined ClusterStoreBuilder_default "''A''"
        "\<lambda>_. 5" "\<lambda>_. 1000" "\<lambda>_. []" "\<lambda>_. True" "()" _ "()"])
     (rule r_into_rtranclp, rule cluster_step.updates)

subsection \<open>Versions of local records\<close>

text \<open>Every version of a local record is at most the version clock.\<close>

definition clock_covers :: "ClusterState \<Rightarrow> bool" where
  "clock_covers st \<longleftrightarrow>
     (\<forall>k v. im_get (local_versions st) k = Some v \<longrightarrow> ver_ms v \<le> version_clock st) \<and>
     (\<forall>k t. im_get (tombstones st) k = Some t \<longrightarrow> ver_ms (tb_version t) \<le> version_clock st)"

lemma next_ts_locked_eq:
  "next_ts_locked s = (ts, s') \<Longrightarrow>
   ts = max (wall s (wall_ix s)) (wrap64 (version_clock (state s) + 1)) \<and>
   s' = s\<lparr> wall_ix := Suc (wall_ix s), state := (state s)\<lparr> version_clock := ts \<rparr> \<rparr>"
  by (auto simp: next_ts_locked_def cluster_defs)

lemma next_ts_newer:
  assumes "is_i64 (version_clock (state s))" "version_clock (state s) < i64_max"
    "next_ts_locked s = (ts, s')"
  shows "version_clock (state s) < ts"
  using next_ts_locked_eq [OF assms(3)] assms(1,2) by simp

text \<open>The version recorded for a local record, live or deleted.\<close>

definition local_version :: "ClusterState \<Rightarrow> string \<Rightarrow> Version option" where
  "local_version st k =
     (case im_get (tombstones st) k of Some t \<Rightarrow> Some (tb_version t) | None \<Rightarrow> im_get (local_versions st) k)"

text \<open>
  C29. A local write always wins. Whatever the wall clock reads, also when it has stepped back,
  the version stamped on a register, update or deregister is strictly newer than the version
  of every local record and tombstone of the node; it becomes the version of that
  record, other records keep theirs, and the clock invariant is kept. When the stamp
  succeeds the new state is on disk, so the same holds after a restart; when the state file
  cannot be written the caller gets the error and the file is unchanged.
\<close>

theorem stamp_local_newest:
  assumes "clock_covers (state s)" "is_i64 (version_clock (state s))" "version_clock (state s) < i64_max"
    and "stamp_local ds sid op s = (res, s')"
  shows "clock_covers (state s') \<and>
    (\<forall>k v. local_version (state s) k = Some v \<longrightarrow> v < Version (version_clock (state s')) (node_id s)) \<and>
    local_version (state s') (make_key ds sid) = Some (Version (version_clock (state s')) (node_id s)) \<and>
    (\<forall>k. k \<noteq> make_key ds sid \<longrightarrow> local_version (state s') k = local_version (state s) k) \<and>
    (case res of Inr v \<Rightarrow> v = Version (version_clock (state s')) (node_id s) \<and> disk s' = Some (state s')
               | Inl _ \<Rightarrow> disk s' = disk s)"
proof -
  obtain ts t where ts: "next_ts_locked s = (ts, t)" by (cases "next_ts_locked s")
  note newer = next_ts_newer [OF assms(2,3) ts] and t = next_ts_locked_eq [OF ts, THEN conjunct2]
  have st': "state s' = (case op of
      Deregister \<Rightarrow> (state t)\<lparr> tombstones := bm_insert (make_key ds sid)
          \<lparr> tb_version = Version ts (node_id s), deleted_at_ms = ts \<rparr> (tombstones (state s)),
        local_versions := im_remove (make_key ds sid) (local_versions (state s)) \<rparr>
    | _ \<Rightarrow> (state t)\<lparr> local_versions := bm_insert (make_key ds sid) (Version ts (node_id s)) (local_versions (state s)),
        tombstones := im_remove (make_key ds sid) (tombstones (state s)) \<rparr>)"
    and res: "case res of Inr v \<Rightarrow> v = Version ts (node_id s) \<and> disk s' = Some (state s') | Inl _ \<Rightarrow> disk s' = disk s"
    using assms(4) by (cases op; auto simp: stamp_local_def ts t Let_def save_def node_id_def split: if_splits)+
  have clk: "version_clock (state s') = ts" by (cases op) (simp_all add: st' t)
  have le: "x \<le> version_clock (state s) \<Longrightarrow> x \<le> ts" for x using newer by simp
  have "clock_covers (state s')"
    using assms(1) unfolding clock_covers_def clk by (cases op) (auto simp: st' intro: le)
  moreover have "v < Version ts (node_id s)" if "local_version (state s) k = Some v" for k v
    using that assms(1) newer
    by (cases v) (force simp: local_version_def clock_covers_def split: option.splits)
  moreover have "local_version (state s') (make_key ds sid) = Some (Version ts (node_id s))"
    by (cases op) (simp_all add: st' local_version_def)
  moreover have "local_version (state s') k = local_version (state s) k" if "k \<noteq> make_key ds sid" for k
    using that by (cases op) (simp_all add: st' local_version_def split: option.split)
  ultimately show ?thesis unfolding clk using res by simp
qed

theorem stamp_local_newest_witness:
  "clock_covers (state (snd (stamp_local ''ds'' ''x'' Deregister (demo_node ''A''))))"
  using stamp_local_newest [of "demo_node ''A''" "''ds''" "''x''" Deregister
      "fst (stamp_local ''ds'' ''x'' Deregister (demo_node ''A''))"
      "snd (stamp_local ''ds'' ''x'' Deregister (demo_node ''A''))"]
  by (simp add: ClusterState_new_def clock_covers_def)

end
