(* ===== verification/A4PUtil.thy ===== *)
theory A4PUtil
  imports Json
begin

text \<open>
  Shared pieces of the A4P SDK (\<open>A4P/rust-sdk/src\<close>): the error type of \<open>errors.rs\<close>, the
  Python conventions of \<open>util.rs\<close> on JSON values, and the canonical JSON text of
  \<open>canonical.rs\<close> that signatures cover.

  Libraries are parameters: \<open>disp\<close> is the \<open>Display\<close> of \<open>serde_json\<close> for floats, arrays and
  objects, \<open>esc\<close> its encoding of a string with quotes and escapes, and \<open>sci\<close> the text that
  \<open>{:e}\<close> gives for a positive float, the shortest digits that read back. A JSON number is
  finite, and the two zeros are one number here. Chains of \<open>?\<close> are \<open>and_then\<close> on the sum type, the
  error left.
\<close>

subsection \<open>Errors\<close>

datatype A4PError =
    Protocol (ep_message: string) (ep_code: string) (ep_status: nat)
  | MandateSecurity (es_code: string) (es_message: string)
  | CredentialStoreFormat string
  | UsageStore string
  | ValueError string
  | RuntimeError string

definition error_text :: "A4PError \<Rightarrow> string" where
  "error_text e =
     (case e of
        Protocol m _ _ \<Rightarrow> m
      | MandateSecurity _ m \<Rightarrow> m
      | CredentialStoreFormat m \<Rightarrow> m
      | UsageStore m \<Rightarrow> m
      | ValueError m \<Rightarrow> m
      | RuntimeError m \<Rightarrow> m)"

subsection \<open>Python conventions\<close>

definition is_truthy :: "json \<Rightarrow> bool" where
  "is_truthy v =
     (case v of
        JNull \<Rightarrow> False
      | JBool b \<Rightarrow> b
      | JInt i \<Rightarrow> i \<noteq> 0
      | JFloat r \<Rightarrow> r \<noteq> 0
      | JStr s \<Rightarrow> s \<noteq> []
      | JArr xs \<Rightarrow> xs \<noteq> []
      | JObj m \<Rightarrow> m \<noteq> [])"

definition py_str :: "(json \<Rightarrow> string) \<Rightarrow> json \<Rightarrow> string" where
  "py_str disp v =
     (case v of
        JNull \<Rightarrow> ''None''
      | JBool b \<Rightarrow> if b then ''True'' else ''False''
      | JInt i \<Rightarrow> show_int i
      | JStr s \<Rightarrow> s
      | _ \<Rightarrow> disp v)"

definition str_or_empty :: "(json \<Rightarrow> string) \<Rightarrow> JsonDict \<Rightarrow> string \<Rightarrow> string" where
  "str_or_empty disp m k =
     (case im_get m k of Some v \<Rightarrow> if is_truthy v then py_str disp v else [] | None \<Rightarrow> [])"

definition str_trimmed :: "(json \<Rightarrow> string) \<Rightarrow> JsonDict \<Rightarrow> string \<Rightarrow> string" where
  "str_trimmed disp m k = trim (str_or_empty disp m k)"

definition get_object :: "JsonDict \<Rightarrow> string \<Rightarrow> JsonDict option" where
  "get_object m k = Option.bind (im_get m k) as_object"

lemma get_object_Some: "get_object m k = Some x \<longleftrightarrow> im_get m k = Some (JObj x)"
proof -
  have "as_object v = Some x \<longleftrightarrow> v = JObj x" for v by (cases v) (simp_all add: as_object_def)
  then show ?thesis by (auto simp: get_object_def bind_eq_Some_conv)
qed

definition object_or_empty :: "JsonDict \<Rightarrow> string \<Rightarrow> JsonDict" where
  "object_or_empty m k = (case get_object m k of Some x \<Rightarrow> x | None \<Rightarrow> [])"

definition as_int :: "json \<Rightarrow> int option" where
  "as_int v = (case v of JInt i \<Rightarrow> if is_i64 i then Some i else None | _ \<Rightarrow> None)"

subsection \<open>Canonical JSON\<close>

text \<open>
  \<open>write_object\<close> goes through a \<open>BTreeMap\<close>: members in the order of their keys, each once. The
  recursion is on the size of the value; a member of the sorted map is a member of the
  object.
\<close>

lemma bm_of_list_members: "(k, v) \<in> set (bm_of_list m) \<Longrightarrow> (k, v) \<in> set m"
proof -
  have ins: "(k, v) \<in> set (bm_insert a b xs) \<Longrightarrow> (k, v) = (a, b) \<or> (k, v) \<in> set xs" for a b and xs :: "('a::linorder, 'b) imap" and k v
    by (induction a b xs rule: bm_insert.induct) (auto split: if_splits)
  have "(k, v) \<in> set (fold (\<lambda>(a, b). bm_insert a b) m acc) \<Longrightarrow> (k, v) \<in> set m \<or> (k, v) \<in> set acc" for acc
  proof (induction m arbitrary: acc)
    case (Cons p m)
    then show ?case by (cases p) (auto dest: ins)
  qed simp
  then show "(k, v) \<in> set (bm_of_list m) \<Longrightarrow> (k, v) \<in> set m"
    by (simp add: bm_of_list_def) fastforce
qed

definition parse_i32 :: "string \<Rightarrow> int option" where
  "parse_i32 s =
     (let (neg, ds) = (case s of
            c # cs \<Rightarrow> if c = CHR ''-'' then (True, cs) else if c = CHR ''+'' then (False, cs) else (False, s)
          | [] \<Rightarrow> (False, s))
      in if ds = [] then None
         else case parse_digits 0 ds of
                None \<Rightarrow> None
              | Some n \<Rightarrow>
                  let i = (if neg then - int n else int n) in
                  if - (2 ^ 31) \<le> i \<and> i < 2 ^ 31 then Some i else None)"

text \<open>
  \<open>python_float_repr\<close>: the digits of the mantissa without trailing zeros, in fixed notation when the
  decimal point falls between -3 and 16, in scientific notation otherwise.
\<close>

definition place_point :: "string \<Rightarrow> int \<Rightarrow> string" where
  "place_point digits decpt =
     (if decpt \<le> -4 \<or> decpt > 16 then
        take 1 digits @ (if length digits > 1 then ''.'' @ drop 1 digits else []) @ ''e'' @
        (if decpt - 1 < 0 then ''-'' else ''+'') @
        (if abs (decpt - 1) < 10 then ''0'' else []) @ show_nat (nat (abs (decpt - 1)))
      else if decpt \<le> 0 then ''0.'' @ replicate (nat (- decpt)) CHR ''0'' @ digits
      else if nat decpt \<ge> length digits then
        digits @ replicate (nat decpt - length digits) CHR ''0'' @ ''.0''
      else take (nat decpt) digits @ ''.'' @ drop (nat decpt) digits)"

definition python_float_repr :: "(real \<Rightarrow> string) \<Rightarrow> real \<Rightarrow> A4PError + string" where
  "python_float_repr sci r =
     (if r = 0 then Inr ''0.0''
      else
        let scientific = sci (abs r);
            (mantissa, exponent) = (case split_once CHR ''e'' scientific of
               Some p \<Rightarrow> p | None \<Rightarrow> (scientific, ''0''));
            e = (case parse_i32 exponent of Some i \<Rightarrow> i | None \<Rightarrow> 0);
            digits = filter (\<lambda>c. digit_val c \<noteq> None) mantissa;
            digits = rev (dropWhile (\<lambda>c. c = CHR ''0'') (rev digits));
            digits = (if digits = [] then ''0'' else digits)
        in Inr ((if r < 0 then ''-'' else []) @ place_point digits (e + 1)))"

function write_value :: "(string \<Rightarrow> string) \<Rightarrow> (real \<Rightarrow> string) \<Rightarrow> json \<Rightarrow> A4PError + string" where
  "write_value esc sci v =
     (case v of
        JNull \<Rightarrow> Inr ''null''
      | JBool b \<Rightarrow> Inr (if b then ''true'' else ''false'')
      | JInt i \<Rightarrow> Inr (show_int i)
      | JFloat r \<Rightarrow> python_float_repr sci r
      | JStr s \<Rightarrow> Inr (esc s)
      | JArr xs \<Rightarrow>
          and_then (collect_results (write_value esc sci) xs) (\<lambda>ts. Inr (''['' @ join '','' ts @ '']''))
      | JObj m \<Rightarrow>
          and_then (collect_results (\<lambda>(k, x). and_then (write_value esc sci x) (\<lambda>t. Inr (esc k @ '':'' @ t)))
             (bm_of_list m)) (\<lambda>ts. Inr (''{'' @ join '','' ts @ ''}'')))"
  by pat_completeness auto

termination
proof (relation "measure (\<lambda>(_, _, v). size v)", goal_cases)
  case (2 esc sci v xs z)
  then show ?case using size_list_estimation' [of z xs "size z" size] by auto
next
  case (3 esc sci v m z k x)
  then have "(k, x) \<in> set m" by (auto dest: bm_of_list_members)
  with 3 show ?case using size_list_estimation' [of "(k, x)" m "size x" "size_prod (\<lambda>_. 0) size"] by auto
qed simp

declare write_value.simps [simp del]

lemma collect_results_total: "(\<And>x. x \<in> set xs \<Longrightarrow> \<exists>y. f x = Inr y) \<Longrightarrow> \<exists>ys. collect_results f xs = Inr ys"
proof (induction xs)
  case (Cons x xs)
  then obtain y ys where "f x = Inr y" "collect_results f xs = Inr ys" by fastforce
  then show ?case by (simp add: and_then_def)
qed simp

text \<open>Every number has a text, so writing a value never fails.\<close>

lemma write_value_total: "\<exists>t. write_value esc sci v = Inr t"
proof (induction "size v" arbitrary: v rule: less_induct)
  case less
  show ?case
  proof (cases v)
    case (JArr xs)
    then have "\<exists>t. write_value esc sci x = Inr t" if "x \<in> set xs" for x
      using less size_in_arr [OF that] by simp
    then obtain ts where "collect_results (write_value esc sci) xs = Inr ts"
      using collect_results_total by metis
    with JArr show ?thesis by (subst write_value.simps) (simp add: and_then_def)
  next
    case (JObj m)
    let ?f = "\<lambda>(k, x). and_then (write_value esc sci x) (\<lambda>t. Inr (esc k @ '':'' @ t))"
    have "\<exists>t. ?f p = Inr t" if p: "p \<in> set (bm_of_list m)" for p
    proof -
      obtain k x where kx: "p = (k, x)" by fastforce
      with p bm_of_list_members have "(k, x) \<in> set m" by fast
      then obtain t where "write_value esc sci x = Inr t" using less JObj size_in_obj [of k x m] by auto
      with kx show ?thesis by (simp add: and_then_def)
    qed
    then obtain ts where "collect_results ?f (bm_of_list m) = Inr ts"
      using collect_results_total [of "bm_of_list m" ?f] by blast
    with JObj show ?thesis by (subst write_value.simps) (simp add: and_then_def)
  qed (subst write_value.simps, auto simp: python_float_repr_def Let_def split: prod.splits)+
qed

definition canonical_json :: "(string \<Rightarrow> string) \<Rightarrow> (real \<Rightarrow> string) \<Rightarrow> JsonDict \<Rightarrow> A4PError + string" where
  "canonical_json esc sci m = write_value esc sci (JObj m)"

lemma canonical_json_total: "\<exists>t. canonical_json esc sci m = Inr t"
  by (simp add: canonical_json_def write_value_total)

subsection \<open>The canonical text does not depend on the order of members\<close>

lemma collect_results_eq:
  "length xs = length ys \<Longrightarrow> (\<And>x y. (x, y) \<in> set (zip xs ys) \<Longrightarrow> f x = f y) \<Longrightarrow>
   collect_results f xs = collect_results f ys"
proof (induction xs ys rule: list_induct2)
  case (Cons x xs y ys)
  have "f x = f y" by (rule Cons.prems) simp
  moreover have "collect_results f xs = collect_results f ys" by (rule Cons.IH) (simp add: Cons.prems)
  ultimately show ?case by simp
qed simp

lemma same_keys:
  assumes "im_wf m" "im_wf n" "length m = length n" "fst ` set m \<subseteq> fst ` set n"
  shows "fst ` set m = fst ` set n"
proof -
  have "card (fst ` set m) = length m" "card (fst ` set n) = length n"
    using assms(1,2) by (metis distinct_card length_map set_map)+
  with assms(3,4) show ?thesis by (simp add: card_subset_eq)
qed

lemma bm_of_list_keys: "im_wf m \<Longrightarrow> fst ` set (bm_of_list m) = fst ` set m"
  using map_of_bm_of_list [of m] by (metis dom_map_of_conv_image_fst)

lemma bm_of_list_get: "im_wf m \<Longrightarrow> (k, v) \<in> set (bm_of_list m) \<longleftrightarrow> map_of m k = Some v"
  using map_of_bm_of_list [of m] bm_of_list_sorted [of m]
  by (metis (no_types, lifting) map_of_eq_Some_iff strict_sorted_iff)

lemma json_eq_cases:
  assumes "json_eq a b"
  obtains (arr) xs ys where "a = JArr xs" "b = JArr ys" "length xs = length ys"
      "\<forall>(x, y) \<in> set (zip xs ys). json_eq x y"
    | (obj) m n where "a = JObj m" "b = JObj n" "length m = length n"
      "\<forall>(k, v) \<in> set m. \<exists>w. map_of n k = Some w \<and> json_eq v w"
    | (eq) "a = b"
  using assms
  by (subst (asm) json_eq.simps) (auto simp: list_all_iff split: json.splits option.splits; fastforce)

lemma json_eq_refl: "json_wf v \<Longrightarrow> json_eq v v"
proof (induction "size v" arbitrary: v rule: less_induct)
  case less
  show ?case
  proof (cases v)
    case (JArr xs)
    then have "json_eq x x" if "x \<in> set xs" for x
      using less size_in_arr [OF that] that by (simp add: json_wf_simps)
    with JArr show ?thesis by (subst json_eq.simps) (auto simp: list_all_iff zip_same)
  next
    case (JObj m)
    with less.prems have "map_of m k = Some x" if "(k, x) \<in> set m" for k x
      using that by (simp add: json_wf_simps)
    moreover have "json_eq x x" if "(k, x) \<in> set m" for k x
      using less JObj size_in_obj [OF that] that by (auto simp: json_wf_simps)
    ultimately show ?thesis using JObj by (subst json_eq.simps) (auto simp: list_all_iff)
  qed (subst json_eq.simps, simp)+
qed

lemma sorted_members_eq:
  assumes wf: "im_wf m" "im_wf n" and len: "length m = length n"
    and sub: "\<forall>(k, v) \<in> set m. \<exists>w. map_of n k = Some w \<and> R v w"
  shows "length (bm_of_list m) = length (bm_of_list n) \<and>
    (\<forall>(p, q) \<in> set (zip (bm_of_list m) (bm_of_list n)). fst p = fst q \<and> p \<in> set m \<and> q \<in> set n \<and> R (snd p) (snd q))"
proof -
  have "fst ` set m \<subseteq> fst ` set n" using sub by (force dest: map_of_SomeD)
  from same_keys [OF wf len this] have "fst ` set (bm_of_list m) = fst ` set (bm_of_list n)"
    by (simp add: bm_of_list_keys wf)
  then have keys: "map fst (bm_of_list m) = map fst (bm_of_list n)"
    using bm_of_list_sorted [of m] bm_of_list_sorted [of n] by (intro strict_sorted_equal) auto
  then have "length (bm_of_list m) = length (bm_of_list n)" by (rule map_eq_imp_length_eq)
  moreover have "fst p = fst q \<and> p \<in> set m \<and> q \<in> set n \<and> R (snd p) (snd q)"
    if pq: "(p, q) \<in> set (zip (bm_of_list m) (bm_of_list n))" for p q
  proof -
    from pq obtain i where "i < length (bm_of_list m)" "p = bm_of_list m ! i" "q = bm_of_list n ! i"
      by (auto simp: in_set_zip)
    with keys \<open>length (bm_of_list m) = length (bm_of_list n)\<close> have fst: "fst p = fst q"
      by (metis nth_map)
    have "p \<in> set (bm_of_list m)" "q \<in> set (bm_of_list n)"
      using pq by (auto dest: set_zip_leftD set_zip_rightD)
    then have "p \<in> set m" "q \<in> set n" by (metis bm_of_list_members prod.collapse)+
    with fst sub wf(2) show ?thesis by (cases p; cases q) fastforce
  qed
  ultimately show ?thesis by blast
qed

lemma write_value_json_eq:
  assumes "json_eq a b" "json_wf a" "json_wf b"
  shows "write_value esc sci a = write_value esc sci b"
  using assms
proof (induction "size a" arbitrary: a b rule: less_induct)
  case less
  from less.prems(1) show ?case
  proof (cases rule: json_eq_cases)
    case (arr xs ys)
    have "collect_results (write_value esc sci) xs = collect_results (write_value esc sci) ys"
    proof (rule collect_results_eq [OF arr(3)])
      fix x y assume xy: "(x, y) \<in> set (zip xs ys)"
      then have "x \<in> set xs" "y \<in> set ys" by (auto dest: set_zip_leftD set_zip_rightD)
      then have "size x < size a" using size_in_arr [of x xs] arr(1) by simp
      with \<open>x \<in> set xs\<close> \<open>y \<in> set ys\<close> xy arr less.prems
      show "write_value esc sci x = write_value esc sci y"
        by (intro less.hyps) (auto simp: json_wf_simps)
    qed
    then show ?thesis by (subst (1 2) write_value.simps) (simp add: arr)
  next
    case (obj m n)
    let ?f = "\<lambda>(k, x). and_then (write_value esc sci x) (\<lambda>t. Inr (esc k @ '':'' @ t))"
    have wf: "im_wf m" "im_wf n" using less.prems obj by (auto simp: json_wf_simps)
    note members = sorted_members_eq [OF wf obj(3,4)]
    have "collect_results ?f (bm_of_list m) = collect_results ?f (bm_of_list n)"
    proof (rule collect_results_eq)
      fix p q assume "(p, q) \<in> set (zip (bm_of_list m) (bm_of_list n))"
      with members have pq: "fst p = fst q" "p \<in> set m" "q \<in> set n" "json_eq (snd p) (snd q)" by auto
      then have "write_value esc sci (snd p) = write_value esc sci (snd q)"
        using less.prems obj size_in_obj [of "fst p" "snd p" m]
        by (intro less.hyps) (auto simp: json_wf_simps)
      with pq(1) show "?f p = ?f q" by (simp add: split_beta)
    qed (use members in blast)
    then show ?thesis by (subst (1 2) write_value.simps) (simp add: obj)
  qed simp
qed



end
