(* ===== verification/IntentScope.thy ===== *)
theory IntentScope
  imports A4PUtil
begin

text \<open>
  Intent scopes, \<open>A4P/rust-sdk/src/intent/scope.rs\<close>: normalisation of the actions and the execution
  policy a mandate or a token carries, glob matching of parameter values, and the check of an action
  call against a scope. A pattern is a list of bytes where the code has a list of \<open>char\<close>, which
  is the same for ASCII text.
\<close>

subsection \<open>Normalisation\<close>

definition normalize_params_constraint :: "json option \<Rightarrow> A4PError + json" where
  "normalize_params_constraint v =
     (case v of
        None \<Rightarrow> Inr (JObj [])
      | Some JNull \<Rightarrow> Inr (JObj [])
      | Some (JObj m) \<Rightarrow> Inr (JObj m)
      | Some (JStr s) \<Rightarrow>
          if s = ''*'' then Inr (JStr ''*'')
          else Inl (ValueError (''Action params must be an object or '' @ quoted ''*''))
      | Some _ \<Rightarrow> Inl (ValueError (''Action params must be an object or '' @ quoted ''*'')))"

definition normalize_allow_extra :: "json option \<Rightarrow> A4PError + bool" where
  "normalize_allow_extra v =
     (case v of
        None \<Rightarrow> Inr False
      | Some (JBool b) \<Rightarrow> Inr b
      | Some _ \<Rightarrow> Inl (ValueError ''Intent action allowExtraParams must be a boolean''))"

definition normalize_action_spec :: "(json \<Rightarrow> string) \<Rightarrow> json \<Rightarrow> A4PError + JsonDict" where
  "normalize_action_spec disp v =
     (case v of
        JObj m \<Rightarrow>
          let name = str_trimmed disp m ''name'' in
          if name = [] then Inl (ValueError ''Intent action name missing'')
          else and_then (normalize_allow_extra (im_get m ''allowExtraParams'')) (\<lambda>allow_extra.
               and_then (normalize_params_constraint (im_get m ''params'')) (\<lambda>params.
               Inr (im_insert ''allowExtraParams'' (JBool allow_extra)
                   (im_insert ''params'' params
                   (im_insert ''name'' (JStr name) [])))))
      | _ \<Rightarrow> Inl (ValueError ''Intent actions must be objects with name and params''))"

definition normalize_action_specs :: "(json \<Rightarrow> string) \<Rightarrow> json option \<Rightarrow> A4PError + JsonDict list" where
  "normalize_action_specs disp actions =
     (case actions of
        Some (JArr items) \<Rightarrow>
          and_then (collect_results (normalize_action_spec disp) items) (\<lambda>normalized.
          if normalized = [] then Inl (ValueError ''Intent actions must not be empty'')
          else Inr normalized)
      | _ \<Rightarrow> Inl (ValueError ''Intent actions must be a list''))"

definition positive_int :: "json option \<Rightarrow> string \<Rightarrow> A4PError + int" where
  "positive_int v field_name =
     (case Option.bind v as_int of
        Some number \<Rightarrow>
          if number > 0 then Inr number
          else Inl (ValueError (field_name @ '' must be a positive integer''))
      | None \<Rightarrow> Inl (ValueError (field_name @ '' must be a positive integer'')))"

definition normalize_execution_policy :: "json option \<Rightarrow> A4PError + JsonDict option" where
  "normalize_execution_policy policy =
     (case policy of
        None \<Rightarrow> Inr None
      | Some JNull \<Rightarrow> Inr None
      | Some (JObj m) \<Rightarrow>
          let mx = im_get m ''maxExecutions'' in
          if mx = None \<or> mx = Some JNull then
            Inl (ValueError ''executionPolicy must include maxExecutions'')
          else and_then (positive_int mx ''executionPolicy.maxExecutions'') (\<lambda>n.
            Inr (Some (im_insert ''maxExecutions'' (JInt n) [])))
      | Some _ \<Rightarrow> Inl (ValueError ''Intent executionPolicy must be an object''))"

definition normalize_intent_scope :: "(json \<Rightarrow> string) \<Rightarrow> json option \<Rightarrow> A4PError + JsonDict" where
  "normalize_intent_scope disp intent =
     (let raw = (case intent of Some (JObj m) \<Rightarrow> m | _ \<Rightarrow> []) in
      and_then (normalize_action_specs disp (im_get raw ''actions'')) (\<lambda>actions.
      let normalized = im_insert ''actions'' (JArr (map JObj actions)) [] in
      if im_contains raw ''executionPolicy'' then
        and_then (normalize_execution_policy (im_get raw ''executionPolicy'')) (\<lambda>policy.
        case policy of
          None \<Rightarrow> Inl (ValueError ''executionPolicy must include maxExecutions'')
        | Some p \<Rightarrow> Inr (im_insert ''executionPolicy'' (JObj p) normalized))
      else Inr normalized))"

subsection \<open>Glob matching\<close>

text \<open>The loop that looks for the closing bracket, from index \<open>j\<close>.\<close>

function scan_close :: "string \<Rightarrow> nat \<Rightarrow> nat" where
  "scan_close pat j = (if j < length pat \<and> pat ! j \<noteq> CHR '']'' then scan_close pat (j + 1) else j)"
  by pat_completeness auto
termination by (relation "measure (\<lambda>(pat, j). length pat - j)") auto

declare scan_close.simps [simp del]

text \<open>
  The loop over the body of a bracket expression, from the suffix at the current index: single
  characters and ranges, a range with its ends reversed dropped.
\<close>

fun bracket_items :: "string \<Rightarrow> string \<times> (char \<times> char) list" where
  "bracket_items (a # b # c # rest) =
     (if b = CHR ''-'' then
        (case bracket_items rest of
           (singles, ranges) \<Rightarrow> (singles, if a \<le> c then (a, c) # ranges else ranges))
      else case bracket_items (b # c # rest) of (singles, ranges) \<Rightarrow> (a # singles, ranges))"
| "bracket_items cs = (cs, [])"

definition bracket_matcher :: "string \<times> (char \<times> char) list \<Rightarrow> bool \<Rightarrow> char \<Rightarrow> bool" where
  "bracket_matcher items negate c =
     (case items of (singles, ranges) \<Rightarrow>
        let hit = (c \<in> set singles \<or> list_ex (\<lambda>(a, b). a \<le> c \<and> c \<le> b) ranges)
        in hit \<noteq> negate)"

definition parse_bracket :: "string \<Rightarrow> ((char \<Rightarrow> bool) \<times> nat) option" where
  "parse_bracket pat =
     (let j = 1;
          j = (if j < length pat \<and> pat ! j = CHR ''!'' then j + 1 else j);
          j = (if j < length pat \<and> pat ! j = CHR '']'' then j + 1 else j);
          j = scan_close pat j
      in if j \<ge> length pat then None
         else let body = drop 1 (take j pat);
                  negate = (body \<noteq> [] \<and> hd body = CHR ''!'');
                  body = (if negate then drop 1 body else body)
              in Some (bracket_matcher (bracket_items body) negate, j + 1))"

lemma scan_close_ge: "j \<le> scan_close pat j"
  by (induction pat j rule: scan_close.induct) (subst scan_close.simps, auto)

lemma parse_bracket_consumes: "parse_bracket pat = Some (f, n) \<Longrightarrow> 0 < n"
  by (auto simp: parse_bracket_def Let_def split: if_splits)

function match_here :: "string \<Rightarrow> string \<Rightarrow> bool" where
  "match_here name [] = (name = [])"
| "match_here name (p # pat) =
     (if p = CHR ''*'' then list_ex (\<lambda>skip. match_here (drop skip name) pat) [0..<Suc (length name)]
      else if p = CHR ''?'' then name \<noteq> [] \<and> match_here (tl name) pat
      else if p = CHR ''['' then
        (case parse_bracket (p # pat) of
           Some (matcher, consumed) \<Rightarrow>
             name \<noteq> [] \<and> matcher (hd name) \<and> match_here (tl name) (drop consumed (p # pat))
         | None \<Rightarrow> name \<noteq> [] \<and> hd name = CHR ''['' \<and> match_here (tl name) pat)
      else name \<noteq> [] \<and> hd name = p \<and> match_here (tl name) pat)"
  by pat_completeness auto
termination
  by (relation "measure (\<lambda>(_, pat). length pat)") (auto dest: parse_bracket_consumes)

declare match_here.simps(2) [simp del]

definition fnmatchcase :: "string \<Rightarrow> string \<Rightarrow> bool" where
  "fnmatchcase name pat = match_here name pat"

definition param_value_matches :: "json \<Rightarrow> json \<Rightarrow> bool" where
  "param_value_matches actual expected =
     (if expected = JStr ''*'' then True
      else case (actual, expected) of
        (JStr a, JStr e) \<Rightarrow> fnmatchcase a e
      | _ \<Rightarrow> json_eq actual expected)"

subsection \<open>Matching a call against a scope\<close>

text \<open>The first member of the constraint that the call's parameters miss.\<close>

fun constraint_mismatch :: "string \<Rightarrow> JsonDict \<Rightarrow> JsonDict \<Rightarrow> string option" where
  "constraint_mismatch action actual [] = None"
| "constraint_mismatch action actual ((k, expected) # rest) =
     (case im_get actual k of
        None \<Rightarrow> Some (''Required param '' @ quoted k @ '' missing for action '' @ quoted action)
      | Some v \<Rightarrow>
          if \<not> param_value_matches v expected then
            Some (''Param '' @ quoted k @ '' mismatch for action '' @ quoted action)
          else constraint_mismatch action actual rest)"

definition mismatch_reason :: "string \<Rightarrow> JsonDict \<Rightarrow> bool \<Rightarrow> JsonDict \<Rightarrow> string option" where
  "mismatch_reason action actual allow_extra params_constraint =
     (let extra = (if allow_extra then []
                   else sort (filter (\<lambda>k. \<not> im_contains params_constraint k) (map fst actual)))
      in if extra \<noteq> [] then
           Some (''Unexpected params for action '' @ quoted action @ '': ['' @
             join '', '' (map quoted extra) @ '']'')
         else constraint_mismatch action actual params_constraint)"

text \<open>
  The loop over the allowed actions: \<open>Inr ()\<close> where the code returns \<open>Ok\<close>, otherwise the first
  mismatch reason recorded when it ends.
\<close>

fun scan_actions :: "string \<Rightarrow> JsonDict \<Rightarrow> string option \<Rightarrow> JsonDict list \<Rightarrow> string option + unit" where
  "scan_actions action actual first [] = Inl first"
| "scan_actions action actual first (allowed # rest) =
     (if Option.bind (im_get allowed ''name'') as_str \<noteq> Some action then
        scan_actions action actual first rest
      else
        let record_reason = (\<lambda>reason. case first of Some r \<Rightarrow> Some r | None \<Rightarrow> Some reason) in
        case im_get allowed ''params'' of
          Some (JStr s) \<Rightarrow>
            if s = ''*'' then Inr ()
            else scan_actions action actual (record_reason ''Intent params constraint invalid'') rest
        | Some (JObj m) \<Rightarrow>
            let allow_extra = (case Option.bind (im_get allowed ''allowExtraParams'') as_bool of
                                 Some b \<Rightarrow> b | None \<Rightarrow> False) in
            (case mismatch_reason action actual allow_extra m of
               None \<Rightarrow> Inr ()
             | Some reason \<Rightarrow> scan_actions action actual (record_reason reason) rest)
        | _ \<Rightarrow> scan_actions action actual (record_reason ''Intent params constraint invalid'') rest)"

definition params_match_intent_scope ::
  "(json \<Rightarrow> string) \<Rightarrow> JsonDict \<Rightarrow> string \<Rightarrow> JsonDict option \<Rightarrow> string + unit" where
  "params_match_intent_scope disp intent action params =
     (let expected = trim action in
      if expected = [] then Inl ''Expected action missing''
      else
        let actual = (case params of Some p \<Rightarrow> p | None \<Rightarrow> []) in
        case normalize_action_specs disp (im_get intent ''actions'') of
          Inl e \<Rightarrow> Inl (error_text e)
        | Inr actions \<Rightarrow>
            (case scan_actions expected actual None actions of
               Inr u \<Rightarrow> Inr u
             | Inl (Some reason) \<Rightarrow> Inl reason
             | Inl None \<Rightarrow>
                 Inl (''Action '' @ quoted expected @ '' not in token actions: ['' @
                   join '', '' (map (\<lambda>item. quoted (case Option.bind (im_get item ''name'') as_str of
                     Some s \<Rightarrow> s | None \<Rightarrow> [])) actions) @ '']'')))"

subsection \<open>Scopes are normalised once\<close>

lemma trim_prefix: "\<exists>b. dropWhile is_space s = trim s @ b"
  by (metis rev_append rev_rev_ident takeWhile_dropWhile_id trim_def)

lemma trim_trim [simp]: "trim (trim s) = trim s"
proof -
  obtain b where b: "dropWhile is_space s = trim s @ b" using trim_prefix by blast
  have "dropWhile is_space (trim s) = trim s"
  proof (cases "trim s")
    case (Cons c cs)
    with b have "hd (dropWhile is_space s) = c" "dropWhile is_space s \<noteq> []" by auto
    then have "\<not> is_space c" using hd_dropWhile [of is_space s] by auto
    with Cons show ?thesis by simp
  qed simp
  moreover have "dropWhile is_space (rev (trim s)) = rev (trim s)" by (simp add: trim_def dropWhile_idem)
  ultimately show ?thesis by (simp add: trim_def [of "trim s"])
qed

lemma collect_results_Inr:
  "collect_results f xs = Inr ys \<longleftrightarrow> length xs = length ys \<and> (\<forall>(x, y) \<in> set (zip xs ys). f x = Inr y)"
proof (induction xs arbitrary: ys)
  case (Cons x xs)
  then show ?case by (cases ys) auto
qed auto

lemma str_trimmed_insert_other:
  "k \<noteq> k' \<Longrightarrow> str_trimmed disp (im_insert k v m) k' = str_trimmed disp m k'"
  by (simp add: str_trimmed_def str_or_empty_def)

lemma str_trimmed_name [simp]: "map_of m k = Some (JStr s) \<Longrightarrow> str_trimmed disp m k = trim s"
  by (simp add: str_trimmed_def str_or_empty_def is_truthy_def py_str_def trim_def)

lemma normalize_params_idem:
  "normalize_params_constraint v = Inr c \<Longrightarrow> normalize_params_constraint (Some c) = Inr c"
  by (auto simp: normalize_params_constraint_def split: option.splits json.splits if_splits)

lemma normalize_action_spec_shape:
  "normalize_action_spec disp v = Inr a \<Longrightarrow>
   \<exists>name c b. a = [(''name'', JStr name), (''params'', c), (''allowExtraParams'', JBool b)] \<and>
     name \<noteq> [] \<and> trim name = name \<and> normalize_params_constraint (Some c) = Inr c"
  by (cases v)
    (auto simp: normalize_action_spec_def Let_def im_insert_def str_trimmed_def
      normalize_params_idem split: if_splits)

lemma normalize_action_spec_idem:
  assumes "normalize_action_spec disp v = Inr a"
  shows "normalize_action_spec disp (JObj a) = Inr a"
proof -
  from normalize_action_spec_shape [OF assms] obtain name c b where
    a: "a = [(''name'', JStr name), (''params'', c), (''allowExtraParams'', JBool b)]"
    and "name \<noteq> []" "trim name = name" "normalize_params_constraint (Some c) = Inr c"
    by blast
  then show ?thesis
    by (simp add: normalize_action_spec_def normalize_allow_extra_def im_insert_def Let_def)
qed

lemma normalize_action_specs_idem:
  assumes "normalize_action_specs disp v = Inr as"
  shows "normalize_action_specs disp (Some (JArr (map JObj as))) = Inr as"
proof -
  from assms obtain items where items: "as \<noteq> []" "collect_results (normalize_action_spec disp) items = Inr as"
    by (auto simp: normalize_action_specs_def split: option.splits json.splits if_splits)
  have "normalize_action_spec disp (JObj a) = Inr a" if "a \<in> set as" for a
  proof -
    from items(2) that obtain v where "(v, a) \<in> set (zip items as)"
      by (metis collect_results_Inr in_set_impl_in_set_zip2)
    with items(2) have "normalize_action_spec disp v = Inr a" by (auto simp: collect_results_Inr)
    then show ?thesis by (rule normalize_action_spec_idem)
  qed
  then have "collect_results (normalize_action_spec disp) (map JObj as) = Inr as"
    by (auto simp: collect_results_Inr zip_map1 zip_same)
  with items(1) show ?thesis by (simp add: normalize_action_specs_def)
qed

lemma normalize_execution_policy_shape:
  "normalize_execution_policy v = Inr (Some p) \<Longrightarrow> \<exists>n. p = [(''maxExecutions'', JInt n)] \<and> 0 < n \<and> is_i64 n"
  by (auto simp: normalize_execution_policy_def positive_int_def as_int_def im_insert_def Let_def
      split: option.splits json.splits if_splits)

lemma normalize_intent_scope_policy:
  assumes "normalize_intent_scope disp v = Inr scope" "im_get scope ''executionPolicy'' = Some x"
  shows "\<exists>n. x = JObj [(''maxExecutions'', JInt n)] \<and> 0 < n \<and> is_i64 n"
proof -
  let ?raw = "case v of Some (JObj m) \<Rightarrow> m | _ \<Rightarrow> []"
  from assms obtain actions p where "scope = im_insert ''executionPolicy'' (JObj p) (im_insert ''actions'' (JArr (map JObj actions)) [])"
    "normalize_execution_policy (im_get ?raw ''executionPolicy'') = Inr (Some p)"
    unfolding normalize_intent_scope_def Let_def and_then_Inr
    by (auto simp: im_insert_def split: if_splits option.splits)
  with assms(2) show ?thesis using normalize_execution_policy_shape by fastforce
qed

lemma normalize_execution_policy_idem:
  "normalize_execution_policy v = Inr (Some p) \<Longrightarrow> normalize_execution_policy (Some (JObj p)) = Inr (Some p)"
  by (auto simp: normalize_execution_policy_def positive_int_def as_int_def im_insert_def Let_def
      split: option.splits json.splits if_splits)

lemma normalize_intent_scope_idem:
  assumes "normalize_intent_scope disp v = Inr scope"
  shows "normalize_intent_scope disp (Some (JObj scope)) = Inr scope"
  using assms
  by (auto simp: normalize_intent_scope_def Let_def im_insert_def im_contains_def normalize_action_specs_idem
      normalize_execution_policy_idem split: if_splits option.splits) blast

text \<open>
  Normalisation of a scope is idempotent: normalising an accepted scope again gives the same
  value, so the scope inside a token's signed payload, which is normalised when the token is
  signed and again when it is verified, is the one the user approved.
\<close>

lemma normalize_intent_scope_idempotent:
  assumes "normalize_intent_scope disp v = Inr scope"
  shows "normalize_intent_scope disp (Some (JObj scope)) = Inr scope"
  using assms by (rule normalize_intent_scope_idem)

lemma normalize_intent_scope_idempotent_witness:
  "normalize_intent_scope (\<lambda>_. []) (Some (JObj
      [(''actions'', JArr [JObj [(''name'', JStr ''read''), (''params'', JStr ''*''), (''allowExtraParams'', JBool False)]])])) =
   Inr [(''actions'', JArr [JObj [(''name'', JStr ''read''), (''params'', JStr ''*''), (''allowExtraParams'', JBool False)]])]"
  by (rule normalize_intent_scope_idempotent
      [of _ "Some (JObj [(''note'', JNull), (''actions'', JArr [JObj [(''params'', JStr ''*''), (''name'', JStr '' read '')]])])"])
    (simp add: normalize_intent_scope_def normalize_action_specs_def normalize_action_spec_def
      normalize_allow_extra_def normalize_params_constraint_def im_insert_def im_contains_def trim_def is_space_def)

subsection \<open>Patterns mean what the glob syntax says\<close>

text \<open>
  The syntax of patterns as data, the text of a pattern, and the words it stands for. A bracket
  expression is rendered without the corner cases of the syntax: it is not empty, has no closing
  bracket inside, no item starts with a hyphen, and the first character is an exclamation mark only to negate.
\<close>

datatype bracket_item = Single char | Range char char

datatype glob = Star | Question | Literal char | Bracket bool "bracket_item list"

definition show_item :: "bracket_item \<Rightarrow> string" where
  "show_item it = (case it of Single c \<Rightarrow> [c] | Range a b \<Rightarrow> [a, CHR ''-'', b])"

definition show_glob :: "glob \<Rightarrow> string" where
  "show_glob g =
     (case g of
        Star \<Rightarrow> ''*''
      | Question \<Rightarrow> ''?''
      | Literal c \<Rightarrow> [c]
      | Bracket neg items \<Rightarrow> ''['' @ (if neg then ''!'' else []) @ concat (map show_item items) @ '']'')"

definition item_wf :: "bracket_item \<Rightarrow> bool" where
  "item_wf it = (hd (show_item it) \<noteq> CHR ''-'' \<and> CHR '']'' \<notin> set (show_item it))"

definition glob_wf :: "glob \<Rightarrow> bool" where
  "glob_wf g =
     (case g of
        Literal c \<Rightarrow> c \<noteq> CHR ''*'' \<and> c \<noteq> CHR ''?'' \<and> c \<noteq> CHR ''[''
      | Bracket neg items \<Rightarrow> items \<noteq> [] \<and> list_all item_wf items \<and>
          (neg \<or> hd (show_item (hd items)) \<noteq> CHR ''!'')
      | _ \<Rightarrow> True)"

definition item_chars :: "bracket_item \<Rightarrow> char set" where
  "item_chars it = (case it of Single c \<Rightarrow> {c} | Range a b \<Rightarrow> {a..b})"

definition glob_words :: "glob \<Rightarrow> string set" where
  "glob_words g =
     (case g of
        Star \<Rightarrow> UNIV
      | Question \<Rightarrow> {[c] | c. True}
      | Literal c \<Rightarrow> {[c]}
      | Bracket neg items \<Rightarrow> {[c] | c. (c \<in> (\<Union>it \<in> set items. item_chars it)) \<noteq> neg})"

fun glob_lang :: "glob list \<Rightarrow> string set" where
  "glob_lang [] = {[]}"
| "glob_lang (g # gs) = {a @ b | a b. a \<in> glob_words g \<and> b \<in> glob_lang gs}"

lemma bracket_item_simps [simp]:
  "show_item (Single c) = [c]" "show_item (Range a b) = [a, CHR ''-'', b]"
  "item_chars (Single c) = {c}" "item_chars (Range a b) = {a..b}"
  by (simp_all add: show_item_def item_chars_def)

lemma glob_simps [simp]:
  "show_glob Star = ''*''" "show_glob Question = ''?''" "show_glob (Literal c) = [c]"
  "glob_words Star = UNIV" "glob_words Question = {[c] | c. True}" "glob_words (Literal c) = {[c]}"
  by (simp_all add: show_glob_def glob_words_def)

lemma bracket_items_single:
  "rest = [] \<or> hd rest \<noteq> CHR ''-'' \<Longrightarrow>
   bracket_items (x # rest) = (case bracket_items rest of (s, r) \<Rightarrow> (x # s, r))"
  by (cases rest rule: bracket_items.cases) (auto split: prod.splits)

lemma bracket_items_hit:
  assumes "list_all item_wf items"
  shows "(case bracket_items (concat (map show_item items)) of (singles, ranges) \<Rightarrow>
      c \<in> set singles \<or> list_ex (\<lambda>(a, b). a \<le> c \<and> c \<le> b) ranges) \<longleftrightarrow>
    c \<in> (\<Union>it \<in> set items. item_chars it)"
  using assms
proof (induction items)
  case (Cons it items)
  let ?rest = "concat (map show_item items)"
  have rest: "?rest = [] \<or> hd ?rest \<noteq> CHR ''-''"
  proof (cases items)
    case (Cons i its)
    with Cons.prems show ?thesis by (cases i) (auto simp: item_wf_def show_item_def)
  qed simp
  obtain ss rs where items: "bracket_items ?rest = (ss, rs)" by fastforce
  show ?case
  proof (cases it)
    case (Single x)
    with Cons items bracket_items_single [OF rest, of x] show ?thesis by simp
  next
    case (Range a b)
    with Cons items show ?thesis by auto
  qed
qed simp

lemma scan_close_body:
  "CHR '']'' \<notin> set body \<Longrightarrow> scan_close (pre @ body @ CHR '']'' # rest) (length pre) = length pre + length body"
proof (induction body arbitrary: pre)
  case Nil
  then show ?case by (subst scan_close.simps) simp
next
  case (Cons b body)
  from Cons.IH [of "pre @ [b]"] Cons.prems show ?case by (subst scan_close.simps) (auto simp: nth_append)
qed

lemma parse_bracket_show:
  assumes "body \<noteq> []" "CHR '']'' \<notin> set body" "neg \<or> hd body \<noteq> CHR ''!''"
  shows "parse_bracket (CHR ''['' # (if neg then ''!'' else []) @ body @ CHR '']'' # rest) =
    Some (bracket_matcher (bracket_items body) neg, length body + (if neg then 3 else 2))"
proof -
  obtain b bs where b: "body = b # bs" using assms(1) by (cases body) auto
  with assms(2) have close: "b \<noteq> CHR '']''" by auto
  show ?thesis
  proof (cases neg)
    case True
    have "scan_close (''[!'' @ body @ CHR '']'' # rest) (length ''[!'') = length ''[!'' + length body"
      by (rule scan_close_body [OF assms(2)])
    with True b close show ?thesis by (simp add: parse_bracket_def)
  next
    case False
    have "scan_close (''['' @ body @ CHR '']'' # rest) (length ''['') = length ''['' + length body"
      by (rule scan_close_body [OF assms(2)])
    with False b close assms(3) show ?thesis by (simp add: parse_bracket_def)
  qed
qed

lemma match_here_bracket:
  assumes "glob_wf (Bracket neg items)"
  shows "match_here name (show_glob (Bracket neg items) @ rest) \<longleftrightarrow>
    (\<exists>c cs. name = c # cs \<and> [c] \<in> glob_words (Bracket neg items) \<and> match_here cs rest)"
proof -
  let ?body = "concat (map show_item items)"
  have wf: "list_all item_wf items" "items \<noteq> []" using assms by (auto simp: glob_wf_def)
  obtain i its where i: "items = i # its" using wf(2) by (cases items) auto
  have "show_item i \<noteq> []" by (cases i) (simp_all add: show_item_def)
  then have body: "?body \<noteq> []" "neg \<or> hd ?body \<noteq> CHR ''!''"
    using assms i by (auto simp: glob_wf_def)
  have "CHR '']'' \<notin> set ?body" using wf(1) by (auto simp: item_wf_def list_all_iff)
  note parse = parse_bracket_show [OF body(1) this body(2)]
  have "bracket_matcher (bracket_items ?body) neg c = ([c] \<in> glob_words (Bracket neg items))" for c
    using bracket_items_hit [OF wf(1), of c]
    by (cases "bracket_items ?body") (simp add: bracket_matcher_def glob_words_def Let_def)
  moreover have "drop (length ?body + (if neg then 3 else 2)) (show_glob (Bracket neg items) @ rest) = rest"
    by (simp add: show_glob_def numeral_3_eq_3)
  ultimately show ?thesis
    using parse [of rest] by (cases name) (auto simp: show_glob_def match_here.simps(2))
qed

lemma glob_lang_one:
  assumes "\<And>w. w \<in> glob_words g \<Longrightarrow> length w = 1"
  shows "name \<in> glob_lang (g # gs) \<longleftrightarrow> (\<exists>c cs. name = c # cs \<and> [c] \<in> glob_words g \<and> cs \<in> glob_lang gs)"
proof
  assume "name \<in> glob_lang (g # gs)"
  then obtain a b where "name = a @ b" "a \<in> glob_words g" "b \<in> glob_lang gs" by auto
  moreover from assms [OF this(2)] obtain c where "a = [c]" by (auto simp: length_Suc_conv)
  ultimately show "\<exists>c cs. name = c # cs \<and> [c] \<in> glob_words g \<and> cs \<in> glob_lang gs" by auto
next
  assume "\<exists>c cs. name = c # cs \<and> [c] \<in> glob_words g \<and> cs \<in> glob_lang gs"
  then show "name \<in> glob_lang (g # gs)" by (auto intro: exI [of _ "[_]"])
qed

text \<open>
  C39. Glob matching decides the language of the pattern: a name matches the text of a pattern
  exactly when it is a concatenation of words of the pattern's parts, a star any word, a question
  mark one character, a bracket expression one character of its set or, negated, outside it, and
  any other character itself.
\<close>

theorem fnmatchcase_glob:
  assumes "list_all glob_wf gs"
  shows "fnmatchcase name (concat (map show_glob gs)) \<longleftrightarrow> name \<in> glob_lang gs"
proof -
  have "match_here name (concat (map show_glob gs)) \<longleftrightarrow> name \<in> glob_lang gs"
    using assms
  proof (induction gs arbitrary: name)
    case (Cons g gs)
    then have IH: "match_here n (concat (map show_glob gs)) \<longleftrightarrow> n \<in> glob_lang gs" for n by simp
    have wf: "glob_wf g" using Cons.prems by simp
    show ?case
    proof (cases g)
      case Star
      have "(\<exists>skip < Suc (length name). drop skip name \<in> L) \<longleftrightarrow> (\<exists>a b. name = a @ b \<and> b \<in> L)" for L
      proof
        assume "\<exists>a b. name = a @ b \<and> b \<in> L"
        then obtain a b where "name = a @ b" "b \<in> L" by blast
        then show "\<exists>skip < Suc (length name). drop skip name \<in> L" by (intro exI [of _ "length a"]) simp
      qed (metis append_take_drop_id)
      then show ?thesis
        using Star by (simp add: match_here.simps(2) list_ex_iff Bex_def IH del: upt_Suc)
    next
      case Question
      then show ?thesis by (cases name) (auto simp: match_here.simps(2) IH intro: exI [of _ "[_]"])
    next
      case (Literal c)
      then show ?thesis using wf by (cases name) (auto simp add: glob_wf_def match_here.simps(2) IH)
    next
      case (Bracket neg items)
      have "length w = 1" if "w \<in> glob_words g" for w using that Bracket by (auto simp: glob_words_def)
      from glob_lang_one [of g name gs, OF this] show ?thesis
        using match_here_bracket [of neg items name "concat (map show_glob gs)"] wf Bracket
        by (simp add: IH del: glob_lang.simps)
    qed
  qed simp
  then show ?thesis by (simp add: fnmatchcase_def)
qed

theorem fnmatchcase_glob_witness:
  "fnmatchcase ''v7.md'' ''v[!a-z]*.md'' \<longleftrightarrow>
   ''v7.md'' \<in> glob_lang [Literal CHR ''v'', Bracket True [Range CHR ''a'' CHR ''z''], Star,
     Literal CHR ''.'', Literal CHR ''m'', Literal CHR ''d'']"
  using fnmatchcase_glob [of "[Literal CHR ''v'', Bracket True [Range CHR ''a'' CHR ''z''], Star,
     Literal CHR ''.'', Literal CHR ''m'', Literal CHR ''d'']" "''v7.md''"]
  by (simp add: glob_wf_def item_wf_def show_glob_def show_item_def del: glob_lang.simps)

subsection \<open>When a call is in scope\<close>

text \<open>What one allowed action permits, stated on the call's parameters as a map.\<close>

definition spec_permits :: "JsonDict \<Rightarrow> string \<Rightarrow> JsonDict \<Rightarrow> bool" where
  "spec_permits allowed action actual \<longleftrightarrow>
     im_get allowed ''name'' = Some (JStr action) \<and>
     (im_get allowed ''params'' = Some (JStr ''*'') \<or>
      (\<exists>c. im_get allowed ''params'' = Some (JObj c) \<and>
        (im_get allowed ''allowExtraParams'' = Some (JBool True) \<or> fst ` set actual \<subseteq> fst ` set c) \<and>
        (\<forall>(k, expected) \<in> set c. \<exists>v. im_get actual k = Some v \<and> param_value_matches v expected)))"

lemma constraint_mismatch_None:
  "constraint_mismatch action actual c = None \<longleftrightarrow>
   (\<forall>(k, expected) \<in> set c. \<exists>v. im_get actual k = Some v \<and> param_value_matches v expected)"
  by (induction action actual c rule: constraint_mismatch.induct) (auto split: option.splits)

lemma mismatch_reason_None:
  "mismatch_reason action actual extra c = None \<longleftrightarrow>
   (extra \<or> fst ` set actual \<subseteq> fst ` set c) \<and>
   (\<forall>(k, expected) \<in> set c. \<exists>v. im_get actual k = Some v \<and> param_value_matches v expected)"
proof -
  have sort_Nil: "sort xs = [] \<longleftrightarrow> xs = []" for xs :: "string list" by (metis length_0_conv length_sort)
  have "filter (\<lambda>k. \<not> im_contains c k) (map fst actual) = [] \<longleftrightarrow> fst ` set actual \<subseteq> fst ` set c"
    by (auto simp: filter_empty_conv im_contains_def map_of_eq_None_iff)
  then show ?thesis by (simp add: mismatch_reason_def Let_def sort_Nil constraint_mismatch_None)
qed

lemma as_str_Some: "as_str v = Some s \<longleftrightarrow> v = JStr s"
  by (cases v) (auto simp: as_str_def)

lemma as_bool_True: "(case Option.bind v as_bool of Some b \<Rightarrow> b | None \<Rightarrow> False) \<longleftrightarrow> v = Some (JBool True)"
  by (auto simp: as_bool_def split: option.splits bind_splits json.splits)

lemma scan_actions_Inr:
  "scan_actions action actual first specs = Inr () \<longleftrightarrow> (\<exists>a \<in> set specs. spec_permits a action actual)"
proof (induction specs arbitrary: first)
  case (Cons a specs)
  have name: "Option.bind (im_get a ''name'') as_str = Some action \<longleftrightarrow> im_get a ''name'' = Some (JStr action)"
    by (auto simp: bind_eq_Some_conv as_str_Some)
  have step: "scan_actions action actual first (a # specs) = Inr () \<longleftrightarrow>
      spec_permits a action actual \<or> (\<exists>f. scan_actions action actual f specs = Inr ())"
  proof (cases "im_get a ''params''")
    case (Some v)
    show ?thesis
    proof (cases v)
      case (JObj c)
      with Some show ?thesis
        using mismatch_reason_None [of action actual "im_get a ''allowExtraParams'' = Some (JBool True)" c]
        by (cases "mismatch_reason action actual (im_get a ''allowExtraParams'' = Some (JBool True)) c")
          (auto simp: name as_bool_True spec_permits_def Cons.IH)
    qed (use Some in \<open>auto simp: name spec_permits_def Cons.IH\<close>)
  qed (auto simp: name spec_permits_def Cons.IH)
  then show ?case by (simp add: Cons.IH)
qed simp

text \<open>
  C38. A call is in scope exactly when some allowed action permits it: the scope normalises, the
  call names an action, and one of the actions of that name has the wildcard constraint, or has a
  constraint whose every member the call matches and that, unless extra parameters are allowed, names
  every parameter of the call.
\<close>

theorem params_match_intent_scope_exact:
  "params_match_intent_scope disp intent action params = Inr () \<longleftrightarrow>
   trim action \<noteq> [] \<and>
   (\<exists>specs. normalize_action_specs disp (im_get intent ''actions'') = Inr specs \<and>
     (\<exists>a \<in> set specs. spec_permits a (trim action) (case params of Some p \<Rightarrow> p | None \<Rightarrow> [])))"
proof -
  have "(case r of Inr u \<Rightarrow> Inr u | Inl (Some x) \<Rightarrow> Inl x | Inl None \<Rightarrow> Inl y) = Inr () \<longleftrightarrow> r = Inr ()"
    for r :: "string option + unit" and y :: string
    by (cases r) (auto split: option.splits)
  then show ?thesis
    by (simp add: params_match_intent_scope_def Let_def scan_actions_Inr split: sum.splits)
qed

end
