(* ===== verification/TokenUsage.thy ===== *)
theory TokenUsage
  imports A4PUtil
begin

text \<open>
  Execution counters of intent tokens, \<open>A4P/rust-sdk/src/intent/usage_store.rs\<close>: the in-memory
  store and the SQLite store of the trait \<open>A4PIntentTokenUsageStore\<close>.

  The clock reading of a call (\<open>now_epoch\<close>, whole seconds) is an argument. A SQLite store is the
  committed table; the statements of a call work on a copy that \<open>COMMIT\<close> installs and
  \<open>ROLLBACK\<close> (or closing the connection after a failed \<open>COMMIT\<close>) throws away. Which statements
  the library reports as failed is the argument \<open>fault\<close>. A stored counter is below the limit
  before it is incremented, so the increment stays in the range of \<open>i64\<close>.

  The trait is the locale \<open>usage_store\<close>: what a call may do to the live row of a token, shared by
  both implementations. \<open>reliable_usage_store\<close> adds that no call fails for lack of the store.
\<close>

subsection \<open>The stores\<close>

datatype IntentTokenUsageStoreError = IntentTokenUsageStoreError string

type_synonym consume_result = "IntentTokenUsageStoreError + (bool \<times> int)"

definition validate_consume_arguments :: "string \<Rightarrow> int \<Rightarrow> int \<Rightarrow> IntentTokenUsageStoreError + string" where
  "validate_consume_arguments token_id max_executions expire =
     (let normalized = trim token_id in
      if normalized = [] then Inl (IntentTokenUsageStoreError ''token_id must not be empty'')
      else if max_executions \<le> 0 then
        Inl (IntentTokenUsageStoreError ''max_executions must be a positive integer'')
      else if expire \<le> 0 then
        Inl (IntentTokenUsageStoreError ''expire_at_epoch must be a positive integer'')
      else Inr normalized)"

record UsageRow =
  executions_used :: int
  executions_limit :: int
  expire_at_epoch :: int

type_synonym UsageRows = "(string, UsageRow) imap"

definition policy_mismatch :: IntentTokenUsageStoreError where
  "policy_mismatch =
     IntentTokenUsageStoreError ''Stored intent token usage policy does not match the signed token''"

definition InMemory_consume ::
  "UsageRows \<Rightarrow> int \<Rightarrow> string \<Rightarrow> int \<Rightarrow> int \<Rightarrow> UsageRows \<times> consume_result" where
  "InMemory_consume rows0 now token_id max_executions expire =
     (case validate_consume_arguments token_id max_executions expire of
        Inl e \<Rightarrow> (rows0, Inl e)
      | Inr tid \<Rightarrow>
          let rows = im_retain (\<lambda>_ row. expire_at_epoch row > now) rows0 in
          (case im_get rows tid of
             None \<Rightarrow>
               (im_insert tid \<lparr>executions_used = 1, executions_limit = max_executions,
                  expire_at_epoch = expire\<rparr> rows, Inr (True, 1))
           | Some row \<Rightarrow>
               if executions_limit row \<noteq> max_executions \<or> expire_at_epoch row \<noteq> expire then
                 (rows, Inl policy_mismatch)
               else if executions_used row \<ge> max_executions then (rows, Inr (False, executions_used row))
               else
                 (im_insert tid (row\<lparr>executions_used := executions_used row + 1\<rparr>) rows,
                  Inr (True, executions_used row + 1))))"

text \<open>The library calls of the SQLite store that can fail.\<close>

datatype sql_call =
    CreateDirAll | Open | BusyTimeout | BeginImmediate
  | CreateTable | DeleteExpired | SelectRow | InsertRow | UpdateRow | Commit

definition unavailable :: IntentTokenUsageStoreError where
  "unavailable = IntentTokenUsageStoreError ''Intent token usage store unavailable''"

definition consume_inner ::
  "(sql_call \<Rightarrow> bool) \<Rightarrow> UsageRows \<Rightarrow> int \<Rightarrow> string \<Rightarrow> int \<Rightarrow> int \<Rightarrow>
   IntentTokenUsageStoreError + UsageRows \<times> bool \<times> int" where
  "consume_inner fault table now token_id max_executions expire =
     (if fault CreateTable then Inl unavailable
      else if fault DeleteExpired then Inl unavailable
      else let rows = im_retain (\<lambda>_ row. \<not> expire_at_epoch row \<le> now) table in
        if fault SelectRow then Inl unavailable
        else case im_get rows token_id of
          None \<Rightarrow>
            if fault InsertRow then Inl unavailable
            else Inr (im_insert token_id \<lparr>executions_used = 1, executions_limit = max_executions,
                   expire_at_epoch = expire\<rparr> rows, True, 1)
        | Some row \<Rightarrow>
            if executions_limit row \<noteq> max_executions \<or> expire_at_epoch row \<noteq> expire then
              Inl policy_mismatch
            else if executions_used row \<ge> max_executions then Inr (rows, False, executions_used row)
            else let used = executions_used row + 1 in
              if fault UpdateRow then Inl unavailable
              else Inr (im_insert token_id (row\<lparr>executions_used := used\<rparr>) rows, True, used))"

definition SQLite_consume ::
  "UsageRows \<Rightarrow> (sql_call \<Rightarrow> bool) \<Rightarrow> int \<Rightarrow> string \<Rightarrow> int \<Rightarrow> int \<Rightarrow> UsageRows \<times> consume_result" where
  "SQLite_consume table fault now token_id max_executions expire =
     (case validate_consume_arguments token_id max_executions expire of
        Inl e \<Rightarrow> (table, Inl e)
      | Inr tid \<Rightarrow>
          if fault CreateDirAll \<or> fault Open \<or> fault BusyTimeout \<or> fault BeginImmediate then
            (table, Inl unavailable)
          else case consume_inner fault table now tid max_executions expire of
            Inr (table', r) \<Rightarrow> if fault Commit then (table, Inl unavailable) else (table', Inr r)
          | Inl e \<Rightarrow> (table, Inl e))"

subsection \<open>The contract of the trait\<close>

text \<open>A call: what the environment decides, the clock, the token and its signed policy.\<close>

record 'e usage_call =
  c_env :: 'e
  c_now :: int
  c_token :: string
  c_max :: int
  c_expire :: int

fun run_consumes ::
  "('s \<Rightarrow> 'e \<Rightarrow> int \<Rightarrow> string \<Rightarrow> int \<Rightarrow> int \<Rightarrow> 's \<times> consume_result) \<Rightarrow> 's \<Rightarrow> 'e usage_call list \<Rightarrow>
   consume_result list" where
  "run_consumes consume s [] = []"
| "run_consumes consume s (c # cs) =
     (case consume s (c_env c) (c_now c) (c_token c) (c_max c) (c_expire c) of
        (s', r) \<Rightarrow> r # run_consumes consume s' cs)"

definition was_granted :: "consume_result \<Rightarrow> bool" where
  "was_granted r = (case r of Inr (b, _) \<Rightarrow> b | Inl _ \<Rightarrow> False)"

abbreviation calls_token :: "string \<Rightarrow> 'e usage_call \<Rightarrow> bool" where
  "calls_token t c \<equiv> trim (c_token c) = t"

text \<open>How many calls for a token were granted an execution.\<close>

definition granted ::
  "string \<Rightarrow> ('e usage_call \<times> consume_result) list \<Rightarrow> nat" where
  "granted t rs = length (filter (\<lambda>(c, r). calls_token t c \<and> was_granted r) rs)"

definition live_row :: "UsageRows \<Rightarrow> int \<Rightarrow> string \<Rightarrow> UsageRow option" where
  "live_row rows now t =
     (case im_get rows t of
        Some row \<Rightarrow> if expire_at_epoch row > now then Some row else None
      | None \<Rightarrow> None)"

text \<open>Calls for a token carry its signed policy, before it expires.\<close>

definition token_calls :: "string \<Rightarrow> int \<Rightarrow> int \<Rightarrow> 'e usage_call list \<Rightarrow> bool" where
  "token_calls t mx ex cs =
     list_all (\<lambda>c. calls_token t c \<longrightarrow> c_max c = mx \<and> c_expire c = ex \<and> c_now c < ex) cs"

definition clock_runs :: "'e usage_call list \<Rightarrow> bool" where
  "clock_runs cs = sorted (map c_now cs)"

definition used_before :: "UsageRow option \<Rightarrow> int" where
  "used_before r = (case r of Some row \<Rightarrow> executions_used row | None \<Rightarrow> 0)"

lemma no_calls_after_expiry:
  assumes "clock_runs (c # cs)" "token_calls t mx ex (c # cs)" "\<not> c_now c < ex"
  shows "granted t (zip (c # cs) rs) = 0" "filter (calls_token t) (c # cs) = []"
proof -
  have "\<not> calls_token t c'" if "c' \<in> set (c # cs)" for c'
  proof
    assume "calls_token t c'"
    with assms(2) that have "c_now c' < ex" by (auto simp: token_calls_def list_all_iff)
    moreover have "c_now c \<le> c_now c'" using assms(1) that by (auto simp: clock_runs_def)
    ultimately show False using assms(3) by simp
  qed
  then show "granted t (zip (c # cs) rs) = 0" "filter (calls_token t) (c # cs) = []"
    by (force simp: granted_def filter_empty_conv dest: set_zip_leftD)+
qed

locale usage_store =
  fixes consume :: "'s \<Rightarrow> 'e \<Rightarrow> int \<Rightarrow> string \<Rightarrow> int \<Rightarrow> int \<Rightarrow> 's \<times> consume_result"
    and live :: "'s \<Rightarrow> int \<Rightarrow> string \<Rightarrow> UsageRow option"
    and ok :: "'s \<Rightarrow> bool"
  assumes keeps_ok: "ok s \<Longrightarrow> consume s e now t mx ex = (s', r) \<Longrightarrow> ok s'"
    and frame: "ok s \<Longrightarrow> consume s e now t mx ex = (s', r) \<Longrightarrow> now \<le> later \<Longrightarrow>
      u \<noteq> trim t \<or> \<not> was_granted r \<Longrightarrow> live s' later u = live s later u"
    and grants: "ok s \<Longrightarrow> consume s e now t mx ex = (s', Inr (True, n)) \<Longrightarrow>
      n = used_before (live s now (trim t)) + 1 \<and> n \<le> mx \<and>
      (now \<le> later \<longrightarrow> later < ex \<longrightarrow>
       live s' later (trim t) = Some \<lparr>executions_used = n, executions_limit = mx, expire_at_epoch = ex\<rparr>)"
    and refuses: "ok s \<Longrightarrow> consume s e now t mx ex = (s', Inr (False, n)) \<Longrightarrow>
      n = used_before (live s now (trim t)) \<and> mx \<le> n"
    and live_later: "ok s \<Longrightarrow> now \<le> later \<Longrightarrow>
      live s later u = (case live s now u of
        Some row \<Rightarrow> if expire_at_epoch row > later then Some row else None | None \<Rightarrow> None)"
begin

text \<open>
  The state of the token's row between calls: absent with nothing used, or carrying the signed
  policy, and its use within the limit.
\<close>

definition row_ok :: "'s \<Rightarrow> int \<Rightarrow> string \<Rightarrow> int \<Rightarrow> int \<Rightarrow> bool" where
  "row_ok s now t mx ex \<longleftrightarrow>
     (case live s now t of
        Some row \<Rightarrow> executions_limit row = mx \<and> expire_at_epoch row = ex \<and>
          0 \<le> executions_used row \<and> executions_used row \<le> mx
      | None \<Rightarrow> True)"

lemma row_ok_later:
  "ok s \<Longrightarrow> row_ok s now t mx ex \<Longrightarrow> now \<le> later \<Longrightarrow> later < ex \<Longrightarrow>
   row_ok s later t mx ex \<and> live s later t = live s now t"
  by (auto simp: row_ok_def live_later [of s now later] split: option.splits)

lemma step_other:
  assumes "ok s" "row_ok s now t mx ex" "now < ex"
    and "consume s e now t' mx' ex' = (s', r)" "t \<noteq> trim t' \<or> \<not> was_granted r"
  shows "row_ok s' now t mx ex" "live s' now t = live s now t"
  using assms frame [of s e now t' mx' ex' s' r now t] by (simp_all add: row_ok_def)

lemma step_granted:
  assumes "ok s" "row_ok s now t mx ex" "now < ex"
    and "consume s e now t' mx ex = (s', r)" "t = trim t'" "was_granted r"
  shows "row_ok s' now t mx ex" "used_before (live s' now t) = used_before (live s now t) + 1"
    "used_before (live s now t) < mx"
proof -
  obtain n where r: "r = Inr (True, n)"
    using assms(6) by (auto simp: was_granted_def split: sum.splits prod.splits)
  from grants [OF assms(1) assms(4) [unfolded r], of now]
  have g: "n = used_before (live s now t) + 1" "n \<le> mx"
    "live s' now t = Some \<lparr>executions_used = n, executions_limit = mx, expire_at_epoch = ex\<rparr>"
    using assms(3,5) by auto
  have "0 \<le> used_before (live s now t)"
    using assms(2) by (auto simp: used_before_def row_ok_def split: option.splits)
  with g show "row_ok s' now t mx ex" "used_before (live s' now t) = used_before (live s now t) + 1"
    "used_before (live s now t) < mx"
    by (auto simp: row_ok_def used_before_def [of "Some _"])
qed

lemma granted_bound:
  assumes "ok s" "row_ok s now t mx ex" "now < ex \<or> list_all (\<lambda>c. \<not> calls_token t c) cs" "0 \<le> mx"
    and "clock_runs cs" "list_all (\<lambda>c. now \<le> c_now c) cs" "token_calls t mx ex cs"
  shows "int (granted t (zip cs (run_consumes consume s cs))) \<le> mx - used_before (live s now t)"
  using assms
proof (induction cs arbitrary: s now)
  case Nil
  then show ?case by (auto simp: granted_def row_ok_def used_before_def split: option.splits)
next
  case (Cons c cs)
  have later: "list_all (\<lambda>c'. c_now c \<le> c_now c') cs" "clock_runs cs" "now \<le> c_now c"
    using Cons.prems(5,6) by (auto simp: clock_runs_def list_all_iff)
  have tc: "token_calls t mx ex cs" "calls_token t c \<Longrightarrow> c_max c = mx \<and> c_expire c = ex \<and> c_now c < ex"
    using Cons.prems(7) by (auto simp: token_calls_def)
  obtain s' r where c: "consume s (c_env c) (c_now c) (c_token c) (c_max c) (c_expire c) = (s', r)"
    by (cases "consume s (c_env c) (c_now c) (c_token c) (c_max c) (c_expire c)")
  have ok': "ok s'" using keeps_ok [OF Cons.prems(1) c] .
  show ?case
  proof (cases "c_now c < ex")
    case True
    then have now: "now < ex" using later(3) by simp
    from row_ok_later [OF Cons.prems(1,2) later(3) True]
    have s: "row_ok s (c_now c) t mx ex" "live s (c_now c) t = live s now t" by auto
    show ?thesis
    proof (cases "calls_token t c \<and> was_granted r")
      case g: True
      with tc(2) have c': "consume s (c_env c) (c_now c) (c_token c) mx ex = (s', r)" using c by simp
      note st = step_granted [OF Cons.prems(1) s(1) True c' _ conjunct2 [OF g], OF conjunct1 [OF g, symmetric]]
      from Cons.IH [OF ok' st(1) _ Cons.prems(4) later(2,1) tc(1)] st s True
      show ?thesis using c g by (simp add: granted_def)
    next
      case g: False
      then have "t \<noteq> trim (c_token c) \<or> \<not> was_granted r" by auto
      note st = step_other [OF Cons.prems(1) s(1) True c this]
      from Cons.IH [OF ok' st(1) _ Cons.prems(4) later(2,1) tc(1)] st s True
      show ?thesis using c g by (auto simp: granted_def)
    qed
  next
    case False
    note no_calls_after_expiry [OF Cons.prems(5,7) this]
    moreover have "used_before (live s now t) \<le> mx"
      using Cons.prems(2,4) by (auto simp: row_ok_def used_before_def split: option.splits)
    ultimately show ?thesis by simp
  qed
qed

end

text \<open>A store whose calls fail only on a bad argument or a policy other than the recorded one.\<close>

locale reliable_usage_store = usage_store +
  assumes answers: "ok s \<Longrightarrow> trim t \<noteq> [] \<Longrightarrow> 0 < mx \<Longrightarrow> 0 < ex \<Longrightarrow>
    (\<forall>row. live s now (trim t) = Some row \<longrightarrow> executions_limit row = mx \<and> expire_at_epoch row = ex) \<Longrightarrow>
    \<exists>s' b n. consume s e now t mx ex = (s', Inr (b, n))"
begin

lemma granted_exact:
  assumes "ok s" "row_ok s now t mx ex" "now < ex \<or> list_all (\<lambda>c. \<not> calls_token t c) cs"
    and "0 < mx" "0 < ex" "t \<noteq> []"
    and "clock_runs cs" "list_all (\<lambda>c. now \<le> c_now c) cs" "token_calls t mx ex cs"
  shows "int (granted t (zip cs (run_consumes consume s cs))) =
    min (mx - used_before (live s now t)) (int (length (filter (calls_token t) cs)))"
  using assms
proof (induction cs arbitrary: s now)
  case Nil
  then show ?case by (auto simp: granted_def row_ok_def used_before_def split: option.splits)
next
  case (Cons c cs)
  have later: "list_all (\<lambda>c'. c_now c \<le> c_now c') cs" "clock_runs cs" "now \<le> c_now c"
    using Cons.prems(7,8) by (auto simp: clock_runs_def list_all_iff)
  have tc: "token_calls t mx ex cs" "calls_token t c \<Longrightarrow> c_max c = mx \<and> c_expire c = ex \<and> c_now c < ex"
    using Cons.prems(9) by (auto simp: token_calls_def)
  obtain s' r where c: "consume s (c_env c) (c_now c) (c_token c) (c_max c) (c_expire c) = (s', r)"
    by (cases "consume s (c_env c) (c_now c) (c_token c) (c_max c) (c_expire c)")
  have ok': "ok s'" using keeps_ok [OF Cons.prems(1) c] .
  show ?case
  proof (cases "c_now c < ex")
    case True
    then have now: "now < ex" using later(3) by simp
    from row_ok_later [OF Cons.prems(1,2) later(3) True]
    have s: "row_ok s (c_now c) t mx ex" "live s (c_now c) t = live s now t" by auto
    have le: "used_before (live s now t) \<le> mx"
      using Cons.prems(2,4) by (auto simp: row_ok_def used_before_def split: option.splits)
    show ?thesis
    proof (cases "calls_token t c \<and> was_granted r")
      case g: True
      with tc(2) have c': "consume s (c_env c) (c_now c) (c_token c) mx ex = (s', r)" using c by simp
      note st = step_granted [OF Cons.prems(1) s(1) True c' _ conjunct2 [OF g], OF conjunct1 [OF g, symmetric]]
      from Cons.IH [OF ok' st(1) _ Cons.prems(4-6) later(2,1) tc(1)] st s True
      show ?thesis using c g by (simp add: granted_def)
    next
      case g: False
      then have other: "t \<noteq> trim (c_token c) \<or> \<not> was_granted r" by auto
      note st = step_other [OF Cons.prems(1) s(1) True c other]
      have "used_before (live s now t) = mx" if t: "calls_token t c"
      proof -
        have "\<exists>s' b n. consume s (c_env c) (c_now c) (c_token c) mx ex = (s', Inr (b, n))"
          using Cons.prems(1,4-6) t s(1) by (intro answers) (auto simp: row_ok_def)
        with c tc(2) [OF t] other t obtain n where "r = Inr (False, n)"
          by (auto simp: was_granted_def split: sum.splits prod.splits)
        with refuses [of s "c_env c" "c_now c" "c_token c" "c_max c" "c_expire c" s' n] c Cons.prems(1) tc(2) [OF t] t s(2) le
        show ?thesis by simp
      qed
      with Cons.IH [OF ok' st(1) _ Cons.prems(4-6) later(2,1) tc(1)] st s True
      show ?thesis using c g le by (auto simp: granted_def)
    qed
  next
    case False
    note no_calls_after_expiry [OF Cons.prems(7,9) this]
    moreover have "used_before (live s now t) \<le> mx"
      using Cons.prems(2,4) by (auto simp: row_ok_def used_before_def split: option.splits)
    ultimately show ?thesis by simp
  qed
qed

end

subsection \<open>Both stores keep the contract\<close>

abbreviation row_of :: "int \<Rightarrow> int \<Rightarrow> int \<Rightarrow> UsageRow" where
  "row_of used mx ex \<equiv> \<lparr>executions_used = used, executions_limit = mx, expire_at_epoch = ex\<rparr>"

lemma live_row_retain:
  "im_wf rows \<Longrightarrow> now \<le> later \<Longrightarrow>
   live_row (im_retain (\<lambda>_ row. expire_at_epoch row > now) rows) later u = live_row rows later u"
  by (auto simp: live_row_def im_get_retain split: option.splits)

lemma im_get_retain_live:
  "im_wf rows \<Longrightarrow> im_get (im_retain (\<lambda>_ row. expire_at_epoch row > now) rows) u = live_row rows now u"
  by (auto simp: live_row_def im_get_retain split: option.splits)

lemma live_row_insert:
  "live_row (im_insert t row rows) later u =
     (if u = t then (if expire_at_epoch row > later then Some row else None) else live_row rows later u)"
  by (simp add: live_row_def)

text \<open>The outcome of a call with accepted arguments, by the live row it finds.\<close>

lemma validate_cases:
  "validate_consume_arguments t mx ex =
     (if trim t \<noteq> [] \<and> 0 < mx \<and> 0 < ex then Inr (trim t) else Inl (projl (validate_consume_arguments t mx ex)))"
  by (simp add: validate_consume_arguments_def Let_def)

lemma InMemory_consume_cases:
  assumes "im_wf rows" "InMemory_consume rows now t mx ex = (rows', r)"
  obtains (invalid) e where "\<not> (trim t \<noteq> [] \<and> 0 < mx \<and> 0 < ex)"
        "validate_consume_arguments t mx ex = Inl e" "r = Inl e" "rows' = rows"
    | (first) "trim t \<noteq> [] \<and> 0 < mx \<and> 0 < ex" "live_row rows now (trim t) = None" "r = Inr (True, 1)"
        "\<And>later u. now \<le> later \<Longrightarrow> live_row rows' later u =
          (if u = trim t then if ex > later then Some (row_of 1 mx ex) else None else live_row rows later u)"
    | (mismatch) row where "trim t \<noteq> [] \<and> 0 < mx \<and> 0 < ex" "live_row rows now (trim t) = Some row"
        "executions_limit row \<noteq> mx \<or> expire_at_epoch row \<noteq> ex" "r = Inl policy_mismatch"
        "\<And>later u. now \<le> later \<Longrightarrow> live_row rows' later u = live_row rows later u"
    | (refused) used where "trim t \<noteq> [] \<and> 0 < mx \<and> 0 < ex" "live_row rows now (trim t) = Some (row_of used mx ex)" "mx \<le> used"
        "r = Inr (False, used)"
        "\<And>later u. now \<le> later \<Longrightarrow> live_row rows' later u = live_row rows later u"
    | (counted) used where "trim t \<noteq> [] \<and> 0 < mx \<and> 0 < ex" "live_row rows now (trim t) = Some (row_of used mx ex)" "used < mx"
        "r = Inr (True, used + 1)"
        "\<And>later u. now \<le> later \<Longrightarrow> live_row rows' later u =
          (if u = trim t then if ex > later then Some (row_of (used + 1) mx ex) else None
           else live_row rows later u)"
proof (cases "trim t \<noteq> [] \<and> 0 < mx \<and> 0 < ex")
  case False
  then obtain e where "validate_consume_arguments t mx ex = Inl e" using validate_cases [of t mx ex] by metis
  with assms(2) invalid [OF False this] show thesis by (simp add: InMemory_consume_def)
next
  case True
  then have v: "validate_consume_arguments t mx ex = Inr (trim t)" using validate_cases [of t mx ex] by simp
  note facts = assms(2) [unfolded InMemory_consume_def v Let_def, simplified im_get_retain_live [OF assms(1)]]
  note lv = live_row_insert live_row_retain [OF assms(1)]
  show thesis
  proof (cases "live_row rows now (trim t)")
    case None
    with facts True show thesis by (intro first) (auto simp: lv)
  next
    case (Some row)
    show thesis
    proof (cases "executions_limit row = mx \<and> expire_at_epoch row = ex")
      case False
      with facts Some \<open>trim t \<noteq> [] \<and> 0 < mx \<and> 0 < ex\<close> show thesis by (intro mismatch [of row]) (auto simp: lv)
    next
      case same: True
      then have row: "row = row_of (executions_used row) mx ex" by simp
      show thesis
      proof (cases "mx \<le> executions_used row")
        case True
        with facts Some same row \<open>trim t \<noteq> [] \<and> 0 < mx \<and> 0 < ex\<close> show thesis
          by (intro refused [of "executions_used row"]) (auto simp: lv)
      next
        case False
        with facts Some same row \<open>trim t \<noteq> [] \<and> 0 < mx \<and> 0 < ex\<close> show thesis
          by (intro counted [of "executions_used row"]) (auto simp: lv)
      qed
    qed
  qed
qed

lemma InMemory_consume_wf:
  "im_wf rows \<Longrightarrow> InMemory_consume rows now t mx ex = (rows', r) \<Longrightarrow> im_wf rows'"
  by (auto simp: InMemory_consume_def Let_def split: sum.splits option.splits if_splits)

text \<open>A SQLite call fails and changes nothing, or is the in-memory call.\<close>

lemma SQLite_consume_cases:
  "SQLite_consume table fault now t mx ex = (table', r) \<Longrightarrow>
   (\<exists>e. r = Inl e \<and> table' = table) \<or> InMemory_consume table now t mx ex = (table', r)"
  by (auto simp: SQLite_consume_def InMemory_consume_def consume_inner_def Let_def not_le
      split: sum.splits option.splits if_splits)

lemma SQLite_consume_result:
  "snd (SQLite_consume table (\<lambda>_. False) now t mx ex) = snd (InMemory_consume table now t mx ex)"
  by (auto simp: SQLite_consume_def InMemory_consume_def consume_inner_def Let_def not_le
      split: sum.splits option.splits)

abbreviation memory_consume :: "UsageRows \<Rightarrow> unit \<Rightarrow> int \<Rightarrow> string \<Rightarrow> int \<Rightarrow> int \<Rightarrow> UsageRows \<times> consume_result" where
  "memory_consume s e \<equiv> InMemory_consume s"

lemma live_row_later:
  "now \<le> later \<Longrightarrow> live_row s later u =
     (case live_row s now u of Some row \<Rightarrow> if expire_at_epoch row > later then Some row else None | None \<Rightarrow> None)"
  by (auto simp: live_row_def split: option.splits)

interpretation memory: reliable_usage_store memory_consume live_row im_wf
proof
  fix s :: UsageRows and e :: unit and now mx ex later n :: int and t u :: string and s' r
  assume wf: "im_wf s"
  show "InMemory_consume s now t mx ex = (s', r) \<Longrightarrow> im_wf s'" using wf by (rule InMemory_consume_wf)
  show "live_row s' later u = live_row s later u"
    if "InMemory_consume s now t mx ex = (s', r)" "now \<le> later" "u \<noteq> trim t \<or> \<not> was_granted r"
    using that by (cases rule: InMemory_consume_cases [OF wf that(1)]) (auto simp: was_granted_def)
  show "n = used_before (live_row s now (trim t)) + 1 \<and> n \<le> mx \<and>
      (now \<le> later \<longrightarrow> later < ex \<longrightarrow> live_row s' later (trim t) = Some (row_of n mx ex))"
    if "InMemory_consume s now t mx ex = (s', Inr (True, n))"
    using that by (cases rule: InMemory_consume_cases [OF wf that(1)]) (auto simp: used_before_def)
  show "n = used_before (live_row s now (trim t)) \<and> mx \<le> n"
    if "InMemory_consume s now t mx ex = (s', Inr (False, n))"
    using that by (cases rule: InMemory_consume_cases [OF wf that(1)]) (auto simp: used_before_def)
  show "live_row s later u =
      (case live_row s now u of Some row \<Rightarrow> if expire_at_epoch row > later then Some row else None | None \<Rightarrow> None)"
    if "now \<le> later"
    using that by (rule live_row_later)
  show "\<exists>s' b n. InMemory_consume s now t mx ex = (s', Inr (b, n))"
    if "trim t \<noteq> []" "0 < mx" "0 < ex"
      "\<forall>row. live_row s now (trim t) = Some row \<longrightarrow> executions_limit row = mx \<and> expire_at_epoch row = ex"
  proof -
    obtain s'' r' where "InMemory_consume s now t mx ex = (s'', r')" by fastforce
    then show ?thesis using that by (cases rule: InMemory_consume_cases [OF wf]) auto
  qed
qed

interpretation sqlite: usage_store SQLite_consume live_row im_wf
proof
  fix s :: UsageRows and e :: "sql_call \<Rightarrow> bool" and now mx ex later n :: int and t u :: string and s' r
  assume wf: "im_wf s"
  show "im_wf s'" if "SQLite_consume s e now t mx ex = (s', r)"
    using SQLite_consume_cases [OF that] wf InMemory_consume_wf by blast
  show "live_row s' later u = live_row s later u"
    if "SQLite_consume s e now t mx ex = (s', r)" "now \<le> later" "u \<noteq> trim t \<or> \<not> was_granted r"
    using SQLite_consume_cases [OF that(1)] that(2,3) memory.frame [OF wf] by blast
  show "n = used_before (live_row s now (trim t)) + 1 \<and> n \<le> mx \<and>
      (now \<le> later \<longrightarrow> later < ex \<longrightarrow> live_row s' later (trim t) = Some (row_of n mx ex))"
    if "SQLite_consume s e now t mx ex = (s', Inr (True, n))"
    using SQLite_consume_cases [OF that] memory.grants [OF wf] by blast
  show "n = used_before (live_row s now (trim t)) \<and> mx \<le> n"
    if "SQLite_consume s e now t mx ex = (s', Inr (False, n))"
    using SQLite_consume_cases [OF that] memory.refuses [OF wf] by blast
  show "live_row s later u =
      (case live_row s now u of Some row \<Rightarrow> if expire_at_epoch row > later then Some row else None | None \<Rightarrow> None)"
    if "now \<le> later"
    using that by (rule live_row_later)
qed

subsection \<open>What a limited token can do\<close>

lemma live_row_Nil [simp]: "live_row [] now t = None"
  by (simp add: live_row_def)

lemma used_before_None [simp]: "used_before None = 0"
  by (simp add: used_before_def)

lemma clock_lower_bound:
  obtains now where "list_all (\<lambda>c. now \<le> c_now c) cs" "now < ex"
proof (rule that [of "Min (insert (ex - 1) (c_now ` set cs))"])
  show "list_all (\<lambda>c. Min (insert (ex - 1) (c_now ` set cs)) \<le> c_now c) cs" by (simp add: list_all_iff Min_le_iff) blast
qed (simp add: Min_less_iff)

text \<open>
  A token limited to \<open>mx\<close> executions gets exactly as many as its limit allows, of any sequence of
  calls in clock order with this token's calls before its expiry; on SQLite, whichever calls fail, at
  most that many.
\<close>

lemma memory_granted_exact:
  fixes cs :: "unit usage_call list"
  assumes "0 < mx" "0 < ex" "t \<noteq> []" "clock_runs cs" "token_calls t mx ex cs"
  shows "int (granted t (zip cs (run_consumes memory_consume [] cs))) =
    min mx (int (length (filter (calls_token t) cs)))"
proof -
  obtain now where "list_all (\<lambda>c. now \<le> c_now c) cs" "now < ex" by (rule clock_lower_bound)
  with assms show ?thesis
    using memory.granted_exact [of "[]" now t mx ex cs] by (simp add: memory.row_ok_def)
qed

lemma sqlite_granted_bound:
  assumes "0 < mx" "clock_runs cs" "token_calls t mx ex cs"
  shows "int (granted t (zip cs (run_consumes SQLite_consume [] cs))) \<le> mx"
proof -
  obtain now where "list_all (\<lambda>c. now \<le> c_now c) cs" "now < ex" by (rule clock_lower_bound)
  with assms show ?thesis
    using sqlite.granted_bound [of "[]" now t mx ex cs] by (simp add: sqlite.row_ok_def)
qed

text \<open>From a moment on, two stores show the same live rows.\<close>

definition same_live :: "int \<Rightarrow> UsageRows \<Rightarrow> UsageRows \<Rightarrow> bool" where
  "same_live now a b \<longleftrightarrow> im_wf a \<and> im_wf b \<and> (\<forall>later u. now \<le> later \<longrightarrow> live_row a later u = live_row b later u)"

lemma same_live_step:
  assumes same: "same_live now a b"
    and a: "InMemory_consume a now t mx ex = (a', r)" and b: "SQLite_consume b (\<lambda>_. False) now t mx ex = (b', r')"
  shows "r' = r \<and> same_live now a' b'"
proof -
  have wf: "im_wf a" "im_wf b" and live: "\<And>later u. now \<le> later \<Longrightarrow> live_row a later u = live_row b later u"
    using same by (auto simp: same_live_def)
  obtain c where c: "InMemory_consume b now t mx ex = (c, r')"
    using SQLite_consume_result [of b now t mx ex] b by (cases "InMemory_consume b now t mx ex") auto
  note found = live [of now "trim t", OF order_refl]
  note cases_a = InMemory_consume_cases [OF wf(1) a] and cases_c = InMemory_consume_cases [OF wf(2) c]
  have r: "r' = r" by (cases rule: cases_a; cases rule: cases_c) (use found in auto)
  have c': "live_row c later u = live_row a' later u" if "now \<le> later" for later u
    using live [OF that, of u] that
    by (cases rule: cases_a; cases rule: cases_c) (use found in auto)
  have "live_row b' later u = live_row c later u" if "now \<le> later" for later u
  proof (cases r')
    case (Inl e)
    then show ?thesis
      using sqlite.frame [OF wf(2) b that, of u] memory.frame [OF wf(2) c that, of u]
      by (simp add: was_granted_def)
  next
    case (Inr p)
    with SQLite_consume_cases [OF b] c show ?thesis by simp
  qed
  with r c' wf InMemory_consume_wf [OF wf(1) a] sqlite.keeps_ok [OF wf(2) b] show ?thesis
    by (simp add: same_live_def)
qed

lemma same_live_run:
  "same_live now a b \<Longrightarrow> clock_runs cs \<Longrightarrow> list_all (\<lambda>c. now \<le> c_now c) cs \<Longrightarrow>
   run_consumes (\<lambda>s _. InMemory_consume s) a cs = run_consumes (\<lambda>s _. SQLite_consume s (\<lambda>_. False)) b cs"
proof (induction cs arbitrary: now a b)
  case (Cons c cs)
  obtain a' r where a: "InMemory_consume a (c_now c) (c_token c) (c_max c) (c_expire c) = (a', r)" by fastforce
  obtain b' r' where b: "SQLite_consume b (\<lambda>_. False) (c_now c) (c_token c) (c_max c) (c_expire c) = (b', r')" by fastforce
  have "same_live (c_now c) a b" using Cons.prems by (auto simp: same_live_def)
  with same_live_step [OF this a b] have "r' = r" "same_live (c_now c) a' b'" by auto
  with Cons.IH [of "c_now c" a' b'] Cons.prems a b show ?case by (simp add: clock_runs_def list_all_iff)
qed simp

text \<open>
  C37. The two stores are interchangeable: on the same calls, in clock order and with the
  database working, the SQLite store answers every call as the in-memory store does, although
  it rolls the expiry clean-up back on a policy mismatch and the in-memory store does not.
\<close>

theorem sqlite_refines_memory:
  assumes "clock_runs cs"
  shows "run_consumes (\<lambda>s _. SQLite_consume s (\<lambda>_. False)) [] cs = run_consumes (\<lambda>s _. InMemory_consume s) [] cs"
proof -
  obtain now where "list_all (\<lambda>c. now \<le> c_now c) cs" "now < (0::int)" by (rule clock_lower_bound)
  with assms show ?thesis by (intro same_live_run [symmetric, of now]) (simp_all add: same_live_def)
qed

theorem sqlite_refines_memory_witness:
  "run_consumes (\<lambda>s _. SQLite_consume s (\<lambda>_. False)) []
      [\<lparr>c_env = (), c_now = 5, c_token = ''t'', c_max = 2, c_expire = 9\<rparr>,
       \<lparr>c_env = (), c_now = 6, c_token = ''t'', c_max = 3, c_expire = 9\<rparr>] =
   run_consumes (\<lambda>s _. InMemory_consume s) []
      [\<lparr>c_env = (), c_now = 5, c_token = ''t'', c_max = 2, c_expire = 9\<rparr>,
       \<lparr>c_env = (), c_now = 6, c_token = ''t'', c_max = 3, c_expire = 9\<rparr>]"
  by (rule sqlite_refines_memory) (simp add: clock_runs_def)

lemma consume_at_expiry:
  assumes "im_wf rows" "trim t \<noteq> []" "0 < mx" "0 < ex" "live_row rows ex (trim t) = None"
    and "InMemory_consume rows ex t mx ex = (rows', r)"
  shows "r = Inr (True, 1) \<and> im_wf rows' \<and> live_row rows' ex (trim t) = None"
  using assms InMemory_consume_wf [OF assms(1,6)]
  by (cases rule: InMemory_consume_cases [OF assms(1,6)]) auto

lemma consume_at_expiry_unlimited:
  assumes "trim t \<noteq> []" "0 < mx" "0 < ex" "im_wf rows" "live_row rows ex (trim t) = None"
  shows "run_consumes memory_consume rows
      (replicate n \<lparr>c_env = (), c_now = ex, c_token = t, c_max = mx, c_expire = ex\<rparr>) =
    replicate n (Inr (True, 1))"
  using assms(4,5)
proof (induction n arbitrary: rows)
  case (Suc n)
  obtain rows' r where c: "InMemory_consume rows ex t mx ex = (rows', r)" by fastforce
  with consume_at_expiry [OF Suc.prems(1) assms(1-3) Suc.prems(2) c] Suc.IH [of rows'] show ?case by simp
qed simp

end
