(* ===== verification/A4PSecurity.thy ===== *)
theory A4PSecurity
  imports A4PUtil
begin

text \<open>
  Keys and text signatures of the A4P SDK: \<open>security.rs\<close>, the key configuration of
  \<open>intent/signing.rs\<close> and \<open>operation/signing.rs\<close>, and the encodings of \<open>util.rs\<close> they use.

  The functions of the crates (base64, hex, SHA-256, Ed25519, chrono, \<open>serde_json\<close>) are the members
  of a record \<open>Crates\<close>, over the types of signing and verifying keys; bytes are characters. The
  process environment is a function from names to values. The log entry that warns of the
  development key, written once per purpose, is not modelled.
\<close>

record ('k, 'p) Crates =
  x_display :: "json \<Rightarrow> string"
  x_escape :: "string \<Rightarrow> string"
  x_sci :: "real \<Rightarrow> string"
  x_strptime :: "string \<Rightarrow> int option"
  x_strftime :: "int \<Rightarrow> string option"
  x_beijing :: "int \<Rightarrow> string option"
  x_b64url_encode :: "string \<Rightarrow> string"
  x_b64url_decode :: "string \<Rightarrow> string option"
  x_b64_decode :: "string \<Rightarrow> string option"
  x_hex_encode :: "string \<Rightarrow> string"
  x_hex_decode :: "string \<Rightarrow> string option"
  x_sha256 :: "string \<Rightarrow> string"
  x_key_of_seed :: "string \<Rightarrow> 'k"
  x_key_of_pem :: "string \<Rightarrow> 'k option"
  x_verifying_key :: "'k \<Rightarrow> 'p"
  x_public_of_bytes :: "string \<Rightarrow> 'p option"
  x_sign :: "'k \<Rightarrow> string \<Rightarrow> string"
  x_signature_of :: "string \<Rightarrow> string option"
  x_verify :: "'p \<Rightarrow> string \<Rightarrow> string \<Rightarrow> bool"

type_synonym env_source = "string \<Rightarrow> string option"

subsection \<open>Encodings\<close>

definition b64url_encode :: "('k, 'p) Crates \<Rightarrow> string \<Rightarrow> string" where
  "b64url_encode L bytes = x_b64url_encode L bytes"

definition b64url_decode :: "('k, 'p) Crates \<Rightarrow> string \<Rightarrow> string option" where
  "b64url_decode L s = x_b64url_decode L (rev (dropWhile (\<lambda>c. c = CHR ''='') (rev s)))"

definition token_urlsafe :: "('k, 'p) Crates \<Rightarrow> string \<Rightarrow> string" where
  "token_urlsafe L rnd = b64url_encode L rnd"

definition token_hex :: "('k, 'p) Crates \<Rightarrow> string \<Rightarrow> string" where
  "token_hex L rnd = x_hex_encode L rnd"

definition format_iso_z :: "('k, 'p) Crates \<Rightarrow> int \<Rightarrow> string" where
  "format_iso_z L epoch = (case x_strftime L epoch of Some s \<Rightarrow> s | None \<Rightarrow> [])"

definition parse_iso_z :: "('k, 'p) Crates \<Rightarrow> string \<Rightarrow> int option" where
  "parse_iso_z L s = x_strptime L s"

subsection \<open>Text signatures\<close>

definition ed25519_sign_text :: "('k, 'p) Crates \<Rightarrow> string \<Rightarrow> 'k \<Rightarrow> string" where
  "ed25519_sign_text L msg k = b64url_encode L (x_sign L k msg)"

definition ed25519_verify_text :: "('k, 'p) Crates \<Rightarrow> string \<Rightarrow> string \<Rightarrow> 'p \<Rightarrow> bool" where
  "ed25519_verify_text L msg signature public_key =
     (case b64url_decode L signature of
        None \<Rightarrow> False
      | Some raw \<Rightarrow>
          (case x_signature_of L raw of
             None \<Rightarrow> False
           | Some sig \<Rightarrow> x_verify L public_key msg sig))"

definition is_b64url_char :: "char \<Rightarrow> bool" where
  "is_b64url_char c =
     (let n = of_char c :: nat in
      48 \<le> n \<and> n \<le> 57 \<or> 65 \<le> n \<and> n \<le> 90 \<or> 97 \<le> n \<and> n \<le> 122 \<or> c = CHR ''_'' \<or> c = CHR ''-'')"

definition ed25519_public_key_from_base64url :: "('k, 'p) Crates \<Rightarrow> string \<Rightarrow> A4PError + 'p" where
  "ed25519_public_key_from_base64url L s =
     (if \<not> (s \<noteq> [] \<and> list_all is_b64url_char s) then
        Inl (ValueError ''Ed25519 public key must be valid base64url'')
      else case b64url_decode L s of
        None \<Rightarrow> Inl (ValueError ''Ed25519 public key must be valid base64url'')
      | Some raw \<Rightarrow>
          if length raw \<noteq> 32 then Inl (ValueError ''Ed25519 public key must decode to 32 bytes'')
          else if b64url_encode L raw \<noteq> s then
            Inl (ValueError ''Ed25519 public key must use unpadded canonical base64url'')
          else case x_public_of_bytes L raw of
            None \<Rightarrow> Inl (ValueError ''Ed25519 public key must decode to 32 bytes'')
          | Some p \<Rightarrow> Inr p)"

subsection \<open>Signing keys from the environment\<close>

definition lower_char :: "char \<Rightarrow> char" where
  "lower_char c = (let n = of_char c :: nat in if 65 \<le> n \<and> n \<le> 90 then char_of (n + 32) else c)"

definition to_lowercase :: "string \<Rightarrow> string" where
  "to_lowercase s = map lower_char s"

definition is_production_environment_in :: "env_source \<Rightarrow> bool" where
  "is_production_environment_in env =
     list_ex (\<lambda>name.
        let v = to_lowercase (trim (case env name of Some s \<Rightarrow> s | None \<Rightarrow> []))
        in v = ''prod'' \<or> v = ''production'')
      [''A4P_ENV'', ''APP_ENV'', ''ENV'', ''PYTHON_ENV'']"

definition strip_prefix :: "string \<Rightarrow> string \<Rightarrow> string option" where
  "strip_prefix s p = (if starts_with s p then Some (drop (length p) s) else None)"

definition decode_seed :: "('k, 'p) Crates \<Rightarrow> string \<Rightarrow> string \<Rightarrow> A4PError + string" where
  "decode_seed L s env_name =
     (let format_error = RuntimeError (env_name @
            '' must be an Ed25519 PEM key or a 32-byte seed encoded as base64url, base64:, or hex:'');
          decoded = (case strip_prefix s ''hex:'' of
              Some h \<Rightarrow> x_hex_decode L h
            | None \<Rightarrow> (case strip_prefix s ''base64:'' of
                  Some b \<Rightarrow> x_b64_decode L b
                | None \<Rightarrow> (case strip_prefix s ''base64url:'' of
                      Some u \<Rightarrow> b64url_decode L u
                    | None \<Rightarrow> b64url_decode L s)))
      in case decoded of None \<Rightarrow> Inl format_error | Some bytes \<Rightarrow> Inr bytes)"

definition load_ed25519_private_key :: "('k, 'p) Crates \<Rightarrow> string \<Rightarrow> string \<Rightarrow> A4PError + 'k" where
  "load_ed25519_private_key L s env_name =
     (if starts_with s ''-----BEGIN'' then
        (case x_key_of_pem L s of
           None \<Rightarrow> Inl (RuntimeError (env_name @ '' must contain an Ed25519 private key''))
         | Some k \<Rightarrow> Inr k)
      else and_then (decode_seed L s env_name) (\<lambda>seed.
        if length seed \<noteq> 32 then
          Inl (RuntimeError (env_name @ '' must decode to a 32-byte Ed25519 private key seed''))
        else Inr (x_key_of_seed L seed)))"

definition reject_or_warn_default_key :: "env_source \<Rightarrow> string \<Rightarrow> string \<Rightarrow> A4PError + unit" where
  "reject_or_warn_default_key env purpose env_name =
     (if is_production_environment_in env then
        Inl (RuntimeError (purpose @
          '' is configured with the built-in development Ed25519 signing key via '' @ env_name @
          ''; set '' @ env_name @ '' to a non-default secret.''))
      else Inr ())"

definition ed25519_private_key_from_env_in ::
  "('k, 'p) Crates \<Rightarrow> env_source \<Rightarrow> string \<Rightarrow> string \<Rightarrow> string \<Rightarrow> A4PError + 'k" where
  "ed25519_private_key_from_env_in L env env_name default_seed_label purpose =
     (let configured = (case env env_name of Some raw \<Rightarrow> trim raw | None \<Rightarrow> []) in
      if configured \<noteq> [] then
        and_then (if configured = default_seed_label then reject_or_warn_default_key env purpose env_name else Inr ())
          (\<lambda>_. load_ed25519_private_key L configured env_name)
      else if is_production_environment_in env then
        Inl (RuntimeError (purpose @ '' requires '' @ env_name @
          '' in production mode; refusing to use the built-in development Ed25519 signing key.''))
      else Inr (x_key_of_seed L (x_sha256 L default_seed_label)))"

definition intent_server_signing_key :: "('k, 'p) Crates \<Rightarrow> env_source \<Rightarrow> A4PError + 'k" where
  "intent_server_signing_key L env =
     ed25519_private_key_from_env_in L env ''INTENT_SERVER_ED25519_PRIVATE_KEY''
       ''a4p-intent-server-ed25519-dev-v1'' ''intent mandate server Ed25519 signing key''"

definition operation_server_signing_key :: "('k, 'p) Crates \<Rightarrow> env_source \<Rightarrow> A4PError + 'k" where
  "operation_server_signing_key L env =
     ed25519_private_key_from_env_in L env ''OPERATION_SERVER_ED25519_PRIVATE_KEY''
       ''a4p-operation-server-ed25519-dev-v1'' ''operation mandate server Ed25519 signing key''"

subsection \<open>What is signed verifies, and production has its own key\<close>

text \<open>
  What the SDK relies on of the signature libraries: a signature made with a key verifies under its public
  key, is accepted as a signature of the right length, and survives base64url, whose text is not
  empty and has neither padding nor white space.
\<close>

definition signing_contract :: "('k, 'p) Crates \<Rightarrow> bool" where
  "signing_contract L \<longleftrightarrow>
     (\<forall>k msg. let s = x_sign L k msg; t = x_b64url_encode L s in
        x_verify L (x_verifying_key L k) msg s \<and> x_signature_of L s = Some s \<and>
        x_b64url_decode L t = Some s \<and> t \<noteq> [] \<and> list_all is_b64url_char t)"

lemma b64url_char: "is_b64url_char c \<Longrightarrow> \<not> is_space c \<and> c \<noteq> CHR ''=''"
  by (auto simp: is_b64url_char_def is_space_def Let_def)

lemma dropWhile_none: "(\<And>c. c \<in> set xs \<Longrightarrow> \<not> P c) \<Longrightarrow> dropWhile P xs = xs"
  by (cases xs) auto

lemma verify_own_signature:
  assumes "signing_contract L"
  shows "ed25519_verify_text L msg (ed25519_sign_text L msg k) (x_verifying_key L k)"
proof -
  let ?t = "x_b64url_encode L (x_sign L k msg)"
  note facts = assms [unfolded signing_contract_def Let_def, rule_format, of k msg]
  then have "dropWhile (\<lambda>c. c = CHR ''='') (rev ?t) = rev ?t"
    by (intro dropWhile_none) (auto simp: list_all_iff dest: b64url_char)
  with facts show ?thesis
    by (simp add: ed25519_verify_text_def ed25519_sign_text_def b64url_decode_def b64url_encode_def)
qed

lemma sign_text_clean:
  assumes "signing_contract L"
  shows "trim (ed25519_sign_text L msg k) = ed25519_sign_text L msg k" "ed25519_sign_text L msg k \<noteq> []"
proof -
  let ?t = "x_b64url_encode L (x_sign L k msg)"
  have t: "list_all is_b64url_char ?t" "?t \<noteq> []"
    using assms [unfolded signing_contract_def Let_def, rule_format, of k msg] by auto
  have "dropWhile is_space xs = xs" if "set xs = set ?t" for xs
    using t(1) that by (intro dropWhile_none) (metis b64url_char list_all_iff)
  then have "dropWhile is_space ?t = ?t" "dropWhile is_space (rev ?t) = rev ?t" by simp_all
  then show "trim (ed25519_sign_text L msg k) = ed25519_sign_text L msg k"
    by (simp add: trim_def ed25519_sign_text_def b64url_encode_def)
  show "ed25519_sign_text L msg k \<noteq> []" using t by (simp add: ed25519_sign_text_def b64url_encode_def)
qed

text \<open>A concrete instance of the crates' functions, on which the contract holds.\<close>

definition demo_crates :: "(string, string) Crates" where
  "demo_crates =
     \<lparr>x_display = (\<lambda>_. []), x_escape = (\<lambda>s. [CHR 0x22] @ s @ [CHR 0x22]), x_sci = (\<lambda>_. ''1e0''),
      x_strptime = (\<lambda>s. map_option int (parse_digits 0 s)), x_strftime = (\<lambda>n. Some (show_nat (nat n))),
      x_beijing = (\<lambda>n. Some (show_nat (nat n))), x_b64url_encode = (\<lambda>s. s),
      x_b64url_decode = (\<lambda>s. Some s), x_b64_decode = (\<lambda>s. Some s), x_hex_encode = (\<lambda>s. s),
      x_hex_decode = (\<lambda>s. Some s), x_sha256 = (\<lambda>s. s), x_key_of_seed = (\<lambda>s. s),
      x_key_of_pem = (\<lambda>s. Some s), x_verifying_key = (\<lambda>k. k), x_public_of_bytes = (\<lambda>s. Some s),
      x_sign = (\<lambda>k msg. ''s''), x_signature_of = (\<lambda>s. Some s),
      x_verify = (\<lambda>p msg sig. sig = ''s'')\<rparr>"

lemma demo_crates_signing: "signing_contract demo_crates"
  by (simp add: signing_contract_def demo_crates_def is_b64url_char_def list_all_iff)

text \<open>
  In production the server signs only with a configured key: when an environment variable
  names a production environment, a signing key is returned only if its variable is set to a
  non-blank value other than the label of the development key, and it is the key read from that value.
\<close>

lemma production_key_configured:
  assumes "is_production_environment_in env"
    and "ed25519_private_key_from_env_in L env env_name seed_label purpose = Inr k"
  shows "\<exists>raw. env env_name = Some raw \<and> trim raw \<noteq> [] \<and> trim raw \<noteq> seed_label \<and>
    load_ed25519_private_key L (trim raw) env_name = Inr k"
  using assms
  by (auto simp: ed25519_private_key_from_env_in_def reject_or_warn_default_key_def and_then_def Let_def
      split: if_splits option.splits sum.splits)

lemma production_key_configured_witness:
  "\<exists>raw. (\<lambda>n. if n = ''ENV'' then Some '' prod'' else Some ''-----BEGIN'') ''KEY'' = Some raw \<and>
    trim raw \<noteq> [] \<and> trim raw \<noteq> ''dev'' \<and> load_ed25519_private_key demo_crates (trim raw) ''KEY'' = Inr ''-----BEGIN''"
  by (rule production_key_configured [where purpose = "[]"])
    (simp_all add: is_production_environment_in_def trim_def is_space_def to_lowercase_def lower_char_def
      ed25519_private_key_from_env_in_def load_ed25519_private_key_def demo_crates_def and_then_def)

end
