(* ===== verification/Mandate.thy ===== *)
theory Mandate
  imports IntentScope A4PSecurity
begin

text \<open>
  Mandates of the A4P SDK: the shared challenge binding and local trust of \<open>mandate_security.rs\<close>,
  the user-signature contract of \<open>user_signature/contracts.rs\<close>, and the mandate primitives of
  \<open>intent/mandate.rs\<close> and \<open>operation/mandate.rs\<close>.

  A user-signature method is a trait object: a record of its operations. The clock reading and the
  random bytes a function draws are arguments. Display texts are UTF-8, written as bytes.
\<close>

subsection \<open>Display texts\<close>

definition text_bj :: string where
  "text_bj = [CHR 0x20, CHR 0xE5, CHR 0x8C, CHR 0x97, CHR 0xE4, CHR 0xBA, CHR 0xAC, CHR 0xE6, CHR 0x97, CHR 0xB6, CHR 0xE9, CHR 0x97, CHR 0xB4]"

definition text_noparam :: string where
  "text_noparam = [CHR 0xE6, CHR 0x97, CHR 0xA0, CHR 0xE5, CHR 0x8F, CHR 0x82, CHR 0xE6, CHR 0x95, CHR 0xB0]"

definition text_anyparam :: string where
  "text_anyparam = [CHR 0xE4, CHR 0xBB, CHR 0xBB, CHR 0xE6, CHR 0x84, CHR 0x8F, CHR 0xE5, CHR 0x8F, CHR 0x82, CHR 0xE6, CHR 0x95, CHR 0xB0]"

definition text_any :: string where
  "text_any = [CHR 0xE4, CHR 0xBB, CHR 0xBB, CHR 0xE6, CHR 0x84, CHR 0x8F]"

definition text_semi :: string where
  "text_semi = [CHR 0xEF, CHR 0xBC, CHR 0x9B]"

definition text_atmost :: string where
  "text_atmost = [CHR 0xEF, CHR 0xBC, CHR 0x8C, CHR 0xE6, CHR 0x9C, CHR 0x80, CHR 0xE5, CHR 0xA4, CHR 0x9A, CHR 0x20]"

definition text_times :: string where
  "text_times = [CHR 0x20, CHR 0xE6, CHR 0xAC, CHR 0xA1]"

definition text_grant :: string where
  "text_grant = [CHR 0xE6, CHR 0x8E, CHR 0x88, CHR 0xE6, CHR 0x9D, CHR 0x83]"

definition text_in :: string where
  "text_in = [CHR 0x20, CHR 0xE5, CHR 0x9C, CHR 0xA8, CHR 0x20]"

definition text_to :: string where
  "text_to = [CHR 0x20, CHR 0xE8, CHR 0x87, CHR 0xB3, CHR 0x20]"

definition text_call :: string where
  "text_call = [CHR 0x20, CHR 0xE6, CHR 0x9C, CHR 0x9F, CHR 0xE9, CHR 0x97, CHR 0xB4, CHR 0xE8, CHR 0xB0, CHR 0x83, CHR 0xE7, CHR 0x94, CHR 0xA8, CHR 0x20]"

definition text_grantexec :: string where
  "text_grantexec = [CHR 0xE6, CHR 0x8E, CHR 0x88, CHR 0xE6, CHR 0x9D, CHR 0x83, CHR 0xE6, CHR 0x89, CHR 0xA7, CHR 0xE8, CHR 0xA1, CHR 0x8C]"

definition text_until :: string where
  "text_until = [CHR 0xEF, CHR 0xBC, CHR 0x88, CHR 0xE6, CHR 0x9C, CHR 0x89, CHR 0xE6, CHR 0x95, CHR 0x88, CHR 0xE6, CHR 0x9C, CHR 0x9F, CHR 0xE8, CHR 0x87, CHR 0xB3, CHR 0x20]"

definition text_paren :: string where
  "text_paren = [CHR 0xEF, CHR 0xBC, CHR 0x89]"

function write_python_json :: "('k, 'p) Crates \<Rightarrow> json \<Rightarrow> string" where
  "write_python_json L v =
     (case v of
        JObj m \<Rightarrow>
          ''{'' @ join '', '' (map (\<lambda>(k, x). x_escape L k @ '': '' @ write_python_json L x) (bm_of_list m)) @ ''}''
      | JArr xs \<Rightarrow> ''['' @ join '', '' (map (write_python_json L) xs) @ '']''
      | other \<Rightarrow>
          (case write_value (x_escape L) (x_sci L) other of Inr t \<Rightarrow> t | Inl _ \<Rightarrow> x_display L other))"
  by pat_completeness auto

termination
proof (relation "measure (\<lambda>(_, v). size v)", goal_cases)
  case (2 L v xs z)
  then show ?case using size_in_arr [of z xs] by simp
next
  case (3 L v m z k x)
  then have "(k, x) \<in> set m" by (auto dest: bm_of_list_members)
  with 3 show ?case using size_in_obj [of k x m] by simp
qed simp

declare write_python_json.simps [simp del]

definition python_json_dumps :: "('k, 'p) Crates \<Rightarrow> json \<Rightarrow> string" where
  "python_json_dumps L v = write_python_json L v"

definition format_beijing_display_time :: "('k, 'p) Crates \<Rightarrow> string \<Rightarrow> string" where
  "format_beijing_display_time L utc_iso =
     (case Option.bind (parse_iso_z L utc_iso) (x_beijing L) of
        Some t \<Rightarrow> t @ text_bj
      | None \<Rightarrow> utc_iso)"

definition format_params :: "('k, 'p) Crates \<Rightarrow> json \<Rightarrow> string" where
  "format_params L params =
     (let none = text_noparam in
      case params of
        JStr s \<Rightarrow> if s = ''*'' then text_anyparam else none
      | JObj m \<Rightarrow>
          if m = [] then none
          else join '', '' (map (\<lambda>(k, v).
            if v = JStr ''*'' then k @ ''='' @ text_any
            else k @ ''='' @ python_json_dumps L v) (bm_of_list m))
      | _ \<Rightarrow> none)"

definition str_member :: "JsonDict \<Rightarrow> string \<Rightarrow> string" where
  "str_member m k = (case Option.bind (im_get m k) as_str of Some s \<Rightarrow> s | None \<Rightarrow> [])"

definition format_action_call :: "('k, 'p) Crates \<Rightarrow> JsonDict \<Rightarrow> string" where
  "format_action_call L action =
     str_member action ''name'' @ ''('' @
     format_params L (case im_get action ''params'' of Some v \<Rightarrow> v | None \<Rightarrow> JNull) @ '')''"

definition build_intent_display_text ::
  "('k, 'p) Crates \<Rightarrow> string \<Rightarrow> JsonDict list \<Rightarrow> string \<Rightarrow> string \<Rightarrow> JsonDict option \<Rightarrow> string" where
  "build_intent_display_text L agent_id actions start_iso end_iso execution_policy =
     (let start_local = format_beijing_display_time L start_iso;
          end_local = format_beijing_display_time L end_iso;
          action_text = join text_semi (map (format_action_call L) actions);
          policy_text = (case execution_policy of
            Some p \<Rightarrow> text_atmost @
              (case im_get p ''maxExecutions'' of Some v \<Rightarrow> py_str (x_display L) v | None \<Rightarrow> []) @ text_times
          | None \<Rightarrow> [])
      in text_grant @ '' agent:'' @ agent_id @ text_in @ start_local @
         text_to @ end_local @ text_call @ action_text @ policy_text)"

definition operation_call_text :: "('k, 'p) Crates \<Rightarrow> JsonDict \<Rightarrow> string" where
  "operation_call_text L operation =
     (let action = str_member operation ''action'';
          params = object_or_empty operation ''params''
      in if params = [] then action @ ''('' @ text_noparam @ '')''
         else action @ ''('' @
           join '', '' (map (\<lambda>(k, v). k @ ''='' @ python_json_dumps L v) (bm_of_list params)) @ '')'')"

definition operation_display_text :: "('k, 'p) Crates \<Rightarrow> JsonDict \<Rightarrow> string \<Rightarrow> string" where
  "operation_display_text L operation until =
     text_grantexec @ '' '' @ operation_call_text L operation @ text_until @
     format_beijing_display_time L until @ text_paren"

subsection \<open>Normal form and signed core\<close>

definition INTENT_MANDATE_TYPE :: string where
  "INTENT_MANDATE_TYPE = ''a4p/v1/intent-mandate''"

definition OPERATION_MANDATE_TYPE :: string where
  "OPERATION_MANDATE_TYPE = ''a4p/v1/operation-mandate''"

definition signature_container :: "JsonDict \<Rightarrow> JsonDict" where
  "signature_container mandate =
     (let signatures = object_or_empty mandate ''signatures'' in
      im_insert ''user'' (JObj (object_or_empty signatures ''user''))
        (im_insert ''server'' (JObj (object_or_empty signatures ''server'')) []))"

definition normalize_intent_mandate :: "('k, 'p) Crates \<Rightarrow> JsonDict \<Rightarrow> A4PError + JsonDict" where
  "normalize_intent_mandate L mandate =
     and_then (normalize_intent_scope (x_display L) (im_get mandate ''intent'')) (\<lambda>scope.
     Inr (im_insert ''userAuthorization'' (JObj (object_or_empty mandate ''userAuthorization''))
         (im_insert ''signatures'' (JObj (signature_container mandate))
         (im_insert ''intent'' (JObj scope)
         (im_insert ''type'' (JStr INTENT_MANDATE_TYPE) mandate)))))"

definition field_default :: "JsonDict \<Rightarrow> string \<Rightarrow> json \<Rightarrow> json" where
  "field_default m k d = (case im_get m k of Some v \<Rightarrow> v | None \<Rightarrow> d)"

definition intent_mandate_core_payload :: "('k, 'p) Crates \<Rightarrow> JsonDict \<Rightarrow> A4PError + JsonDict" where
  "intent_mandate_core_payload L mandate =
     and_then (normalize_intent_mandate L mandate) (\<lambda>n.
     Inr (im_insert ''displayText'' (field_default n ''displayText'' (JStr []))
         (im_insert ''userAuthorization'' (field_default n ''userAuthorization'' (JObj []))
         (im_insert ''validTime'' (field_default n ''validTime'' (JObj []))
         (im_insert ''intent'' (field_default n ''intent'' (JObj []))
         (im_insert ''subject'' (field_default n ''subject'' (JObj []))
         (im_insert ''server'' (field_default n ''server'' (JStr []))
         (im_insert ''mandateId'' (field_default n ''mandateId'' (JStr []))
         (im_insert ''type'' (field_default n ''type'' (JStr [])) [])))))))))"

definition normalize_operation_object :: "('k, 'p) Crates \<Rightarrow> JsonDict \<Rightarrow> A4PError + JsonDict" where
  "normalize_operation_object L m =
     (let action = str_trimmed (x_display L) m ''action'' in
      if action = [] then Inl (ValueError ''Operation action missing'')
      else and_then
        (case im_get m ''params'' of
           None \<Rightarrow> Inr []
         | Some JNull \<Rightarrow> Inr []
         | Some (JObj p) \<Rightarrow> Inr p
         | Some _ \<Rightarrow> Inl (ValueError ''Operation params must be an object''))
        (\<lambda>params. Inr (im_insert ''params'' (JObj params) (im_insert ''action'' (JStr action) []))))"

definition normalize_operation :: "('k, 'p) Crates \<Rightarrow> json option \<Rightarrow> A4PError + JsonDict" where
  "normalize_operation L operation =
     (case operation of
        Some (JObj m) \<Rightarrow> normalize_operation_object L m
      | _ \<Rightarrow> Inl (ValueError ''Operation must be an object''))"

definition normalize_operation_mandate :: "('k, 'p) Crates \<Rightarrow> JsonDict \<Rightarrow> A4PError + JsonDict" where
  "normalize_operation_mandate L mandate =
     and_then (normalize_operation_object L (object_or_empty mandate ''operation'')) (\<lambda>operation.
     Inr (im_insert ''type'' (JStr OPERATION_MANDATE_TYPE)
         (im_insert ''userAuthorization'' (JObj (object_or_empty mandate ''userAuthorization''))
         (im_insert ''signatures'' (JObj (signature_container mandate))
         (im_insert ''operation'' (JObj operation) mandate)))))"

definition operation_mandate_core_payload :: "('k, 'p) Crates \<Rightarrow> JsonDict \<Rightarrow> A4PError + JsonDict" where
  "operation_mandate_core_payload L mandate =
     and_then (normalize_operation_mandate L mandate) (\<lambda>n.
     Inr (im_insert ''displayText'' (field_default n ''displayText'' (JStr []))
         (im_insert ''userAuthorization'' (field_default n ''userAuthorization'' (JObj []))
         (im_insert ''validTime'' (field_default n ''validTime'' (JObj []))
         (im_insert ''operation'' (field_default n ''operation'' (JObj []))
         (im_insert ''subject'' (field_default n ''subject'' (JObj []))
         (im_insert ''server'' (field_default n ''server'' (JStr []))
         (im_insert ''operationId'' (field_default n ''operationId'' (JStr []))
         (im_insert ''type'' (field_default n ''type'' (JStr [])) [])))))))))"

text \<open>\<open>python_repr\<close>: a string in quotes with backslashes and quotes escaped.\<close>

definition python_repr :: "('k, 'p) Crates \<Rightarrow> json option \<Rightarrow> string" where
  "python_repr L v =
     (case v of
        None \<Rightarrow> ''None''
      | Some JNull \<Rightarrow> ''None''
      | Some (JStr s) \<Rightarrow>
          quoted (concat (map (\<lambda>c. if c = CHR 0x5C then [CHR 0x5C, CHR 0x5C]
            else if c = CHR 0x27 then [CHR 0x5C, CHR 0x27] else [c]) s))
      | Some other \<Rightarrow> py_str (x_display L) other)"

definition signature_invalid :: "A4PError + 'a \<Rightarrow> A4PError + 'a" where
  "signature_invalid r =
     (case r of Inl e \<Rightarrow> Inl (MandateSecurity ''SERVER_SIGNATURE_INVALID'' (error_text e)) | Inr x \<Rightarrow> Inr x)"

definition mandate_core_payload :: "('k, 'p) Crates \<Rightarrow> JsonDict \<Rightarrow> A4PError + JsonDict" where
  "mandate_core_payload L mandate =
     (let ty = Option.bind (im_get mandate ''type'') as_str in
      if ty = Some INTENT_MANDATE_TYPE then signature_invalid (intent_mandate_core_payload L mandate)
      else if ty = Some OPERATION_MANDATE_TYPE then signature_invalid (operation_mandate_core_payload L mandate)
      else Inl (MandateSecurity ''SERVER_SIGNATURE_INVALID''
        (''Unsupported A4P mandate type: '' @ python_repr L (im_get mandate ''type''))))"

definition mandate_identifier :: "('k, 'p) Crates \<Rightarrow> JsonDict \<Rightarrow> A4PError + string" where
  "mandate_identifier L mandate =
     (let ty = Option.bind (im_get mandate ''type'') as_str;
          identified = (\<lambda>field_name.
            let identifier = str_trimmed (x_display L) mandate field_name in
            if identifier = [] then Inl (ValueError (field_name @ '' missing'')) else Inr identifier)
      in if ty = Some INTENT_MANDATE_TYPE then identified ''mandateId''
         else if ty = Some OPERATION_MANDATE_TYPE then identified ''operationId''
         else Inl (ValueError (''Unsupported A4P mandate type: '' @ python_repr L (im_get mandate ''type''))))"

definition server_signature_of :: "JsonDict \<Rightarrow> JsonDict option" where
  "server_signature_of mandate =
     Option.bind (get_object mandate ''signatures'') (\<lambda>s. get_object s ''server'')"

definition server_signed_mandate_without_user_signature ::
  "('k, 'p) Crates \<Rightarrow> JsonDict \<Rightarrow> A4PError + JsonDict" where
  "server_signed_mandate_without_user_signature L mandate =
     and_then (mandate_core_payload L mandate) (\<lambda>core.
     case server_signature_of mandate of
       None \<Rightarrow> Inl (ValueError ''Server signature missing'')
     | Some sig \<Rightarrow> Inr (im_insert ''signatures'' (JObj (im_insert ''server'' (JObj sig) [])) core))"

definition payload_text :: "('k, 'p) Crates \<Rightarrow> JsonDict \<Rightarrow> A4PError + string" where
  "payload_text L m = canonical_json (x_escape L) (x_sci L) m"

definition canonical_user_authorization_payload :: "('k, 'p) Crates \<Rightarrow> JsonDict \<Rightarrow> A4PError + string" where
  "canonical_user_authorization_payload L mandate =
     and_then (server_signed_mandate_without_user_signature L mandate) (\<lambda>m.
     payload_text L (im_insert ''mandate'' (JObj m) (im_insert ''scope'' (JStr ''a4p/v1/user-authorization'') [])))"

definition derive_user_authorization_challenge :: "('k, 'p) Crates \<Rightarrow> JsonDict \<Rightarrow> A4PError + string" where
  "derive_user_authorization_challenge L mandate =
     and_then (canonical_user_authorization_payload L mandate) (\<lambda>payload. Inr (x_sha256 L payload))"

definition user_authorization_challenge_base64url :: "('k, 'p) Crates \<Rightarrow> JsonDict \<Rightarrow> A4PError + string" where
  "user_authorization_challenge_base64url L mandate =
     and_then (derive_user_authorization_challenge L mandate) (\<lambda>c. Inr (b64url_encode L c))"

definition server_signature_payload :: "('k, 'p) Crates \<Rightarrow> JsonDict \<Rightarrow> A4PError + string" where
  "server_signature_payload L core =
     payload_text L (im_insert ''mandate'' (JObj core) (im_insert ''scope'' (JStr ''server'') []))"

subsection \<open>Local trust in servers\<close>

type_synonym 'p trust_store = "(string \<times> string, string \<times> 'p) imap"

fun trust_keys ::
  "('k, 'p) Crates \<Rightarrow> string \<Rightarrow> (string \<times> json) list \<Rightarrow> 'p trust_store \<Rightarrow> A4PError + 'p trust_store" where
  "trust_keys L server_id [] trusted = Inr trusted"
| "trust_keys L server_id ((kid, v) # rest) trusted =
     (if trim kid = [] then Inl (ValueError ''Trusted A4P keyId must be a non-empty string'')
      else case as_object v of
        None \<Rightarrow> Inl (ValueError (''Trusted A4P key '' @ quoted kid @ '' must be an object''))
      | Some key_map \<Rightarrow>
          let alg = str_trimmed (x_display L) key_map ''alg'' in
          if alg \<noteq> ''EdDSA'' then
            Inl (ValueError (''Trusted A4P key '' @ quoted kid @ '' must use '' @ quoted ''EdDSA''))
          else and_then (ed25519_public_key_from_base64url L (str_trimmed (x_display L) key_map ''publicKey''))
            (\<lambda>pk. trust_keys L server_id rest (im_insert (trim server_id, trim kid) (alg, pk) trusted)))"

fun trust_servers ::
  "('k, 'p) Crates \<Rightarrow> (string \<times> json) list \<Rightarrow> 'p trust_store \<Rightarrow> A4PError + 'p trust_store" where
  "trust_servers L [] trusted = Inr trusted"
| "trust_servers L ((server_id, v) # rest) trusted =
     (if trim server_id = [] then Inl (ValueError ''Trusted A4P serverId must be a non-empty string'')
      else case as_object v of
        Some server_keys \<Rightarrow>
          if server_keys = [] then
            Inl (ValueError (''Trusted A4P server '' @ quoted server_id @ '' must contain keys''))
          else and_then (trust_keys L server_id server_keys trusted) (trust_servers L rest)
      | None \<Rightarrow> Inl (ValueError (''Trusted A4P server '' @ quoted server_id @ '' must contain keys'')))"

definition trust_store_new :: "('k, 'p) Crates \<Rightarrow> JsonDict \<Rightarrow> A4PError + 'p trust_store" where
  "trust_store_new L conf =
     and_then (trust_servers L conf []) (\<lambda>trusted.
     if trusted = [] then Inl (ValueError ''Trusted A4P server key configuration must not be empty'')
     else Inr trusted)"

definition resolve_key :: "'p trust_store \<Rightarrow> string \<Rightarrow> string \<Rightarrow> string \<Rightarrow> A4PError + 'p" where
  "resolve_key trusted server_id kid alg =
     (case im_get trusted (server_id, kid) of
        None \<Rightarrow> Inl (MandateSecurity ''SERVER_KEY_UNTRUSTED''
          (''A4P Server key is not trusted: server='' @ quoted server_id @ '', keyId='' @ quoted kid))
      | Some (trusted_alg, pk) \<Rightarrow>
          if alg \<noteq> trusted_alg then
            Inl (MandateSecurity ''SERVER_KEY_UNTRUSTED''
              (''A4P Server signature algorithm is not trusted: '' @ quoted alg))
          else Inr pk)"

definition verify_trusted_server_mandate ::
  "('k, 'p) Crates \<Rightarrow> JsonDict \<Rightarrow> 'p trust_store \<Rightarrow> A4PError + JsonDict" where
  "verify_trusted_server_mandate L mandate trusted =
     and_then (mandate_core_payload L mandate) (\<lambda>core.
     let server_id = str_trimmed (x_display L) core ''server'' in
     case server_signature_of mandate of
       None \<Rightarrow> Inl (MandateSecurity ''SERVER_SIGNATURE_INVALID'' ''Server signature missing'')
     | Some sig \<Rightarrow>
         let alg = str_trimmed (x_display L) sig ''alg'';
             kid = str_trimmed (x_display L) sig ''keyId'';
             signature = str_trimmed (x_display L) sig ''signature''
         in if server_id = [] \<or> alg = [] \<or> kid = [] \<or> signature = [] then
              Inl (MandateSecurity ''SERVER_SIGNATURE_INVALID'' ''Server signature metadata missing'')
            else and_then (resolve_key trusted server_id kid alg) (\<lambda>pk.
              and_then (signature_invalid (server_signature_payload L core)) (\<lambda>payload.
              if \<not> ed25519_verify_text L payload signature pk then
                Inl (MandateSecurity ''SERVER_SIGNATURE_INVALID'' ''Server signature invalid'')
              else Inr core)))"

fun collect_timestamps ::
  "('k, 'p) Crates \<Rightarrow> JsonDict \<Rightarrow> string list \<Rightarrow> A4PError + int list" where
  "collect_timestamps L valid_time [] = Inr []"
| "collect_timestamps L valid_time (f # fs) =
     (case im_get valid_time f of
        None \<Rightarrow> collect_timestamps L valid_time fs
      | Some v \<Rightarrow>
          if \<not> is_truthy v then collect_timestamps L valid_time fs
          else case parse_iso_z L (py_str (x_display L) v) of
            None \<Rightarrow> Inl (MandateSecurity ''CHALLENGE_BINDING_INVALID'' ''Mandate validTime format invalid'')
          | Some t \<Rightarrow> and_then (collect_timestamps L valid_time fs) (\<lambda>ts. Inr (t # ts)))"

definition verify_mandate_valid_time_at :: "('k, 'p) Crates \<Rightarrow> JsonDict \<Rightarrow> int \<Rightarrow> A4PError + unit" where
  "verify_mandate_valid_time_at L core now =
     (case get_object core ''validTime'' of
        None \<Rightarrow> Inl (MandateSecurity ''CHALLENGE_BINDING_INVALID'' ''Mandate validTime missing'')
      | Some valid_time \<Rightarrow>
          let is_intent = (Option.bind (im_get core ''type'') as_str = Some INTENT_MANDATE_TYPE);
              names = (if is_intent then [''start'', ''end''] else [''until''])
          in and_then (collect_timestamps L valid_time names) (\<lambda>ts.
             if length ts \<noteq> length names then
               Inl (MandateSecurity ''CHALLENGE_BINDING_INVALID'' ''Mandate validTime missing'')
             else if is_intent \<and> now < ts ! 0 then
               Inl (MandateSecurity ''CHALLENGE_BINDING_INVALID'' ''Mandate not yet valid'')
             else if now > ts ! (length ts - 1) then
               Inl (MandateSecurity ''CHALLENGE_BINDING_INVALID'' ''Mandate has expired'')
             else Inr ()))"

subsection \<open>User signatures\<close>

record UserSignatureContext =
  uc_mandate_type :: string
  uc_server_signed_mandate :: JsonDict
  uc_signature_method :: string
  uc_expected_user_id :: "string option"

record A4PUserSignatureMethod =
  m_signature_method :: string
  m_method_policy :: JsonDict
  m_signing_options :: "string \<Rightarrow> JsonDict \<Rightarrow> A4PError + JsonDict"
  m_verify :: "UserSignatureContext \<Rightarrow> JsonDict \<Rightarrow> string + unit"

record A4PUserSigner =
  s_signature_method :: string
  s_sign :: "UserSignatureContext \<Rightarrow> JsonDict option \<Rightarrow> A4PError + JsonDict"

definition attach_user_signature :: "JsonDict \<Rightarrow> JsonDict \<Rightarrow> JsonDict" where
  "attach_user_signature mandate signature =
     (let signatures = (case im_get mandate ''signatures'' of Some (JObj m) \<Rightarrow> m | _ \<Rightarrow> [])
      in im_insert ''signatures'' (JObj (im_insert ''user'' (JObj signature) signatures)) mandate)"

definition sign_user_signature ::
  "UserSignatureContext \<Rightarrow> A4PUserSigner \<Rightarrow> JsonDict option \<Rightarrow> A4PError + JsonDict" where
  "sign_user_signature ctx signer signing_input =
     (if s_signature_method signer \<noteq> uc_signature_method ctx then
        Inl (ValueError (''User signer method mismatch: mandate requires '' @
          quoted (uc_signature_method ctx) @ '', got '' @ quoted (s_signature_method signer)))
      else and_then (s_sign signer ctx signing_input) (\<lambda>signature.
        if Option.bind (im_get signature ''signatureMethod'') as_str \<noteq> Some (uc_signature_method ctx) then
          Inl (ValueError ''User signer returned a mismatched signatureMethod'')
        else Inr signature))"

definition verify_user_signature ::
  "('k, 'p) Crates \<Rightarrow> UserSignatureContext \<Rightarrow> JsonDict \<Rightarrow> A4PUserSignatureMethod option \<Rightarrow> bool \<Rightarrow>
   string + unit" where
  "verify_user_signature L ctx signature method_opt require_user_signature =
     (if \<not> require_user_signature then
        (if signature = [] then Inr () else Inl ''User signature must be empty'')
      else case method_opt of
        None \<Rightarrow> Inl ''User signature method missing''
      | Some m \<Rightarrow>
          let signature_method = str_trimmed (x_display L) signature ''signatureMethod'' in
          if signature_method = [] then Inl ''User signature missing''
          else if signature_method \<noteq> uc_signature_method ctx then
            Inl (''User signature method mismatch: mandate requires '' @ quoted (uc_signature_method ctx) @
              '', got '' @ quoted signature_method)
          else if m_signature_method m \<noteq> uc_signature_method ctx then
            Inl (''Configured user signature method mismatch: mandate requires '' @
              quoted (uc_signature_method ctx) @ '', configured method is '' @ quoted (m_signature_method m))
          else m_verify m ctx signature)"

end
