(* ===== verification/IntentMandate.thy ===== *)
theory IntentMandate
  imports Mandate
begin

text \<open>
  Creation, signing and verification of intent mandates, \<open>intent/mandate.rs\<close>. The addition of the
  validity to the clock wraps as an \<open>i64\<close> does in a release build.
\<close>

definition mandate_user_signature_context ::
  "('k, 'p) Crates \<Rightarrow> string \<Rightarrow> JsonDict \<Rightarrow> string option \<Rightarrow> A4PError + UserSignatureContext" where
  "mandate_user_signature_context L ty normalized expected_user_id =
     (let user_authorization = object_or_empty normalized ''userAuthorization'' in
      case im_get user_authorization ''required'' of
        Some (JBool required) \<Rightarrow>
          let signature_method = str_trimmed (x_display L) user_authorization ''signatureMethod'' in
          if required \<and> signature_method = [] then
            Inl (ValueError ''userAuthorization.signatureMethod missing'')
          else and_then (server_signed_mandate_without_user_signature L normalized) (\<lambda>m.
            Inr \<lparr>uc_mandate_type = ty, uc_server_signed_mandate = m,
                 uc_signature_method = signature_method, uc_expected_user_id = expected_user_id\<rparr>)
      | _ \<Rightarrow> Inl (ValueError ''userAuthorization.required missing''))"

definition intent_user_signature_context ::
  "('k, 'p) Crates \<Rightarrow> JsonDict \<Rightarrow> string option \<Rightarrow> A4PError + UserSignatureContext" where
  "intent_user_signature_context L mandate expected_user_id =
     and_then (normalize_intent_mandate L mandate) (\<lambda>normalized.
     mandate_user_signature_context L INTENT_MANDATE_TYPE normalized expected_user_id)"

definition user_authorization_policy :: "bool \<Rightarrow> string \<Rightarrow> JsonDict option \<Rightarrow> JsonDict" where
  "user_authorization_policy require_user_signature signature_method method_policy =
     (if require_user_signature then
        im_insert ''methodPolicy'' (JObj (case method_policy of Some p \<Rightarrow> p | None \<Rightarrow> []))
          (im_insert ''signatureMethod'' (JStr signature_method)
          (im_insert ''required'' (JBool True) []))
      else im_insert ''required'' (JBool False) [])"

text \<open>The last step of both \<open>sign_server_mandate\<close>: the signature replaces \<open>signatures.server\<close>.\<close>

definition put_server_signature :: "JsonDict \<Rightarrow> JsonDict \<Rightarrow> JsonDict" where
  "put_server_signature sig signed =
     (case im_get signed ''signatures'' of
        Some (JObj m) \<Rightarrow> im_insert ''signatures'' (JObj (im_insert ''server'' (JObj sig) m)) signed
      | _ \<Rightarrow> signed)"

definition server_signature_entry :: "string \<Rightarrow> string \<Rightarrow> JsonDict" where
  "server_signature_entry kid signature =
     im_insert ''signature'' (JStr signature)
       (im_insert ''keyId'' (JStr kid) (im_insert ''alg'' (JStr ''EdDSA'') []))"

definition intent_sign_server_mandate ::
  "('k, 'p) Crates \<Rightarrow> env_source \<Rightarrow> JsonDict \<Rightarrow> A4PError + JsonDict" where
  "intent_sign_server_mandate L env mandate =
     and_then (normalize_intent_mandate L mandate) (\<lambda>signed.
     and_then (intent_mandate_core_payload L signed) (\<lambda>core.
     and_then (server_signature_payload L core) (\<lambda>payload.
     and_then (intent_server_signing_key L env) (\<lambda>k.
     Inr (put_server_signature
       (server_signature_entry ''server#intent-mandate-k1'' (ed25519_sign_text L payload k)) signed)))))"

record CreateIntentMandate =
  ci_server :: string
  ci_agent_id :: string
  ci_actions :: "json option"
  ci_execution_policy :: "json option"
  ci_validity_seconds :: int
  ci_subject_type :: string
  ci_agent_public_key :: "JsonDict option"
  ci_require_user_signature :: bool
  ci_user_signature_method :: "string option"
  ci_user_signature_method_policy :: "JsonDict option"
  ci_display_text_renderer :: "(JsonDict \<Rightarrow> string) option"

definition subject_object :: "string \<Rightarrow> string \<Rightarrow> JsonDict option \<Rightarrow> JsonDict" where
  "subject_object ty sid agent_key =
     (let base = im_insert ''id'' (JStr sid) (im_insert ''type'' (JStr ty) [])
      in case agent_key of Some k \<Rightarrow> im_insert ''agentKey'' (JObj k) base | None \<Rightarrow> base)"

definition create_intent_mandate ::
  "('k, 'p) Crates \<Rightarrow> env_source \<Rightarrow> int \<Rightarrow> string \<Rightarrow> CreateIntentMandate \<Rightarrow> A4PError + JsonDict" where
  "create_intent_mandate L env now rnd params =
     (let signature_method = trim (case ci_user_signature_method params of Some s \<Rightarrow> s | None \<Rightarrow> []) in
      if ci_require_user_signature params \<and> signature_method = [] then
        Inl (ValueError ''userSignatureMethod missing'')
      else
        let mandate_id = ''mdt_'' @ token_urlsafe L rnd;
            start_iso = format_iso_z L now;
            end_iso = format_iso_z L (wrap64 (now + ci_validity_seconds params))
        in and_then (normalize_action_specs (x_display L) (ci_actions params)) (\<lambda>actions.
           and_then (normalize_execution_policy (ci_execution_policy params)) (\<lambda>policy.
           let subject = subject_object (ci_subject_type params)
                 (ci_subject_type params @ '':'' @ ci_agent_id params) (ci_agent_public_key params);
               scope = im_insert ''actions'' (JArr (map JObj actions)) [];
               scope = (case policy of Some p \<Rightarrow> im_insert ''executionPolicy'' (JObj p) scope | None \<Rightarrow> scope);
               valid_time = im_insert ''end'' (JStr end_iso) (im_insert ''start'' (JStr start_iso) []);
               user_authorization = user_authorization_policy (ci_require_user_signature params)
                 signature_method (ci_user_signature_method_policy params);
               signatures = im_insert ''user'' (JObj [])
                 (im_insert ''server'' (JObj (server_signature_entry ''server#intent-mandate-k1'' [])) []);
               mandate = im_insert ''signatures'' (JObj signatures)
                 (im_insert ''displayText'' (JStr (build_intent_display_text L (ci_agent_id params) actions
                    start_iso end_iso policy))
                 (im_insert ''userAuthorization'' (JObj user_authorization)
                 (im_insert ''validTime'' (JObj valid_time)
                 (im_insert ''intent'' (JObj scope)
                 (im_insert ''subject'' (JObj subject)
                 (im_insert ''server'' (JStr (ci_server params))
                 (im_insert ''mandateId'' (JStr mandate_id)
                 (im_insert ''type'' (JStr INTENT_MANDATE_TYPE) []))))))));
               mandate = (case ci_display_text_renderer params of
                   Some render \<Rightarrow> im_insert ''displayText'' (JStr (render mandate)) mandate
                 | None \<Rightarrow> mandate)
           in intent_sign_server_mandate L env mandate)))"

record VerifyIntentMandate =
  vi_expected_server :: "string option"
  vi_expected_user_id :: "string option"
  vi_require_user_signature :: bool
  vi_user_signature_method :: "A4PUserSignatureMethod option"

text \<open>\<open>map_err (|e| e.to_string())\<close>.\<close>

definition err_text :: "A4PError + 'a \<Rightarrow> string + 'a" where
  "err_text r = (case r of Inl e \<Rightarrow> Inl (error_text e) | Inr x \<Rightarrow> Inr x)"

text \<open>The check of \<open>signatures.server\<close> common to both mandate verifications.\<close>

definition check_server_signature ::
  "('k, 'p) Crates \<Rightarrow> JsonDict \<Rightarrow> A4PError + JsonDict \<Rightarrow> A4PError + 'k \<Rightarrow> string + unit" where
  "check_server_signature L signatures core_result key_result =
     (let server_sig = object_or_empty signatures ''server'';
          alg = str_trimmed (x_display L) server_sig ''alg'';
          signature = str_trimmed (x_display L) server_sig ''signature''
      in if alg \<noteq> ''EdDSA'' then
           Inl (''Server signature alg mismatch: expected '' @ quoted ''EdDSA'' @ '', got '' @ quoted alg)
         else if signature = [] then Inl ''Server signature missing''
         else and_then (err_text core_result) (\<lambda>core.
           and_then (err_text (server_signature_payload L core)) (\<lambda>payload.
           case key_result of
             Inl e \<Rightarrow> Inl (''Server signing key unavailable: '' @ error_text e)
           | Inr k \<Rightarrow>
               if \<not> ed25519_verify_text L payload signature (x_verifying_key L k) then
                 Inl ''Server signature invalid''
               else Inr ())))"

definition truthy_text :: "('k, 'p) Crates \<Rightarrow> JsonDict \<Rightarrow> string \<Rightarrow> string option" where
  "truthy_text L m k =
     (case im_get m k of Some v \<Rightarrow> if is_truthy v then Some (py_str (x_display L) v) else None | None \<Rightarrow> None)"

definition check_intent_time :: "('k, 'p) Crates \<Rightarrow> int \<Rightarrow> JsonDict \<Rightarrow> string + unit" where
  "check_intent_time L now valid_time =
     (case (truthy_text L valid_time ''start'', truthy_text L valid_time ''end'') of
        (Some start_str, Some end_str) \<Rightarrow>
          (case (parse_iso_z L start_str, parse_iso_z L end_str) of
             (Some start_ts, Some end_ts) \<Rightarrow>
               if now < start_ts then Inl ''Mandate not yet valid''
               else if now > end_ts then Inl ''Mandate has expired''
               else Inr ()
           | _ \<Rightarrow> Inl ''Mandate validTime format invalid'')
      | _ \<Rightarrow> Inl ''Mandate has no validTime'')"

definition check_server :: "('k, 'p) Crates \<Rightarrow> string option \<Rightarrow> JsonDict \<Rightarrow> string + unit" where
  "check_server L expected_server normalized =
     (case expected_server of
        None \<Rightarrow> Inr ()
      | Some expected \<Rightarrow>
          let mandate_server = str_trimmed (x_display L) normalized ''server'' in
          if mandate_server \<noteq> trim expected then
            Inl (''Mandate server mismatch: expected '' @ quoted (trim expected) @ '', got '' @ quoted mandate_server)
          else Inr ())"

definition verify_intent_mandate ::
  "('k, 'p) Crates \<Rightarrow> env_source \<Rightarrow> int \<Rightarrow> JsonDict \<Rightarrow> VerifyIntentMandate \<Rightarrow> string + unit" where
  "verify_intent_mandate L env now mandate options =
     (if Option.bind (im_get mandate ''type'') as_str \<noteq> Some INTENT_MANDATE_TYPE then Inl ''Invalid mandate type''
      else and_then (err_text (normalize_intent_mandate L mandate)) (\<lambda>normalized.
        let signatures = object_or_empty normalized ''signatures'' in
        and_then (check_server_signature L signatures (intent_mandate_core_payload L normalized)
            (intent_server_signing_key L env)) (\<lambda>_.
        and_then (err_text (intent_user_signature_context L normalized (vi_expected_user_id options))) (\<lambda>ctx.
        and_then (verify_user_signature L ctx (object_or_empty signatures ''user'')
            (vi_user_signature_method options) (vi_require_user_signature options)) (\<lambda>_.
        and_then (check_intent_time L now (object_or_empty normalized ''validTime'')) (\<lambda>_.
        check_server L (vi_expected_server options) normalized))))))"

end
