(* ===== verification/IntentToken.thy ===== *)
theory IntentToken
  imports IntentMandate
begin

text \<open>
  Intent tokens, \<open>intent/token.rs\<close>: issuing a server-signed token from a mandate and verifying it
  against an action call. The clock reading is an argument, as are the random bytes of the token id
  and the nonce.
\<close>

definition INTENT_TOKEN_TYPE :: string where
  "INTENT_TOKEN_TYPE = ''a4p/v1/intent-token''"

definition intent_token_key_id :: "string \<Rightarrow> string" where
  "intent_token_key_id mandate_id =
     (let normalized = trim mandate_id in
      if normalized = [] then ''server#intent-token-v1''
      else ''server#intent-token-v1:'' @ normalized)"

definition intent_token_core_payload :: "('k, 'p) Crates \<Rightarrow> JsonDict \<Rightarrow> A4PError + JsonDict" where
  "intent_token_core_payload L token =
     and_then (normalize_intent_scope (x_display L) (im_get token ''intent'')) (\<lambda>scope.
     Inr (im_insert ''nonce'' (field_default token ''nonce'' (JStr []))
         (im_insert ''expireAt'' (field_default token ''expireAt'' (JStr []))
         (im_insert ''issuedAt'' (field_default token ''issuedAt'' (JStr []))
         (im_insert ''intent'' (JObj scope)
         (im_insert ''user'' (field_default token ''user'' (JObj []))
         (im_insert ''subject'' (field_default token ''subject'' (JObj []))
         (im_insert ''mandateId'' (field_default token ''mandateId'' (JStr []))
         (im_insert ''tokenId'' (field_default token ''tokenId'' (JStr []))
         (im_insert ''type'' (field_default token ''type'' (JStr [])) []))))))))))"

definition intent_token_signing_input :: "('k, 'p) Crates \<Rightarrow> JsonDict \<Rightarrow> A4PError + string" where
  "intent_token_signing_input L token =
     and_then (intent_token_core_payload L token) (\<lambda>core.
     payload_text L (im_insert ''token'' (JObj core) (im_insert ''scope'' (JStr ''server.intent_token'') [])))"

record IssueIntentToken =
  io_user_id :: string
  io_verified_mandate :: bool
  io_require_user_signature :: bool
  io_user_signature_method :: "A4PUserSignatureMethod option"

definition or_else_text :: "string \<Rightarrow> string \<Rightarrow> string" where
  "or_else_text s d = (if s = [] then d else s)"

definition token_subject :: "('k, 'p) Crates \<Rightarrow> JsonDict \<Rightarrow> JsonDict" where
  "token_subject L subject =
     (let base = im_insert ''id'' (JStr (str_trimmed (x_display L) subject ''id''))
            (im_insert ''type'' (JStr (or_else_text (str_trimmed (x_display L) subject ''type'') ''agent'')) [])
      in case get_object subject ''agentKey'' of
           Some k \<Rightarrow> im_insert ''agentKey'' (JObj k) base
         | None \<Rightarrow> base)"

text \<open>The token before its signature is put in.\<close>

definition unsigned_intent_token ::
  "('k, 'p) Crates \<Rightarrow> string \<Rightarrow> JsonDict \<Rightarrow> string \<Rightarrow> JsonDict \<Rightarrow> string \<Rightarrow> string \<Rightarrow> string \<Rightarrow> string \<Rightarrow>
   JsonDict" where
  "unsigned_intent_token L mandate_id subject user_id scope issued_at expire_at rnd_id rnd_nonce =
     (let user = im_insert ''id'' (JStr (or_else_text (trim user_id) ''user:unknown'')) [] in
      im_insert ''keyId'' (JStr (intent_token_key_id mandate_id))
      (im_insert ''alg'' (JStr ''EdDSA'')
      (im_insert ''signature'' (JStr [])
      (im_insert ''nonce'' (JStr (token_urlsafe L rnd_nonce))
      (im_insert ''expireAt'' (JStr expire_at)
      (im_insert ''issuedAt'' (JStr issued_at)
      (im_insert ''intent'' (JObj scope)
      (im_insert ''user'' (JObj user)
      (im_insert ''subject'' (JObj (token_subject L subject))
      (im_insert ''mandateId'' (JStr mandate_id)
      (im_insert ''tokenId'' (JStr (token_hex L rnd_id))
      (im_insert ''type'' (JStr INTENT_TOKEN_TYPE) []))))))))))))"

definition issue_intent_token ::
  "('k, 'p) Crates \<Rightarrow> env_source \<Rightarrow> int \<Rightarrow> string \<Rightarrow> string \<Rightarrow> JsonDict \<Rightarrow> IssueIntentToken \<Rightarrow> A4PError + JsonDict" where
  "issue_intent_token L env now rnd_id rnd_nonce mandate options =
     and_then
       (if io_verified_mandate options then Inr ()
        else case verify_intent_mandate L env now mandate
            \<lparr>vi_expected_server = None, vi_expected_user_id = None,
             vi_require_user_signature = io_require_user_signature options,
             vi_user_signature_method = io_user_signature_method options\<rparr> of
          Inl reason \<Rightarrow> Inl (ValueError (''invalid intent mandate: '' @ reason))
        | Inr _ \<Rightarrow> Inr ()) (\<lambda>_.
     and_then (normalize_intent_mandate L mandate) (\<lambda>normalized.
     let mandate_id = str_trimmed (x_display L) normalized ''mandateId'' in
     if mandate_id = [] then Inl (ValueError ''mandateId missing'')
     else
       let subject = object_or_empty normalized ''subject'';
           intent = object_or_empty normalized ''intent'';
           valid_time = object_or_empty normalized ''validTime'';
           issued_at = format_iso_z L now;
           expire_at = str_trimmed (x_display L) valid_time ''end''
       in if expire_at = [] then Inl (ValueError ''mandate validTime.end missing'')
          else and_then (normalize_intent_scope (x_display L) (Some (JObj intent))) (\<lambda>scope.
            let token = unsigned_intent_token L mandate_id subject (io_user_id options) scope issued_at
                  expire_at rnd_id rnd_nonce
            in and_then (intent_token_signing_input L token) (\<lambda>input.
               and_then (intent_server_signing_key L env) (\<lambda>k.
               Inr (im_insert ''signature'' (JStr (ed25519_sign_text L input k)) token))))))"

definition params_match_intent_token ::
  "('k, 'p) Crates \<Rightarrow> JsonDict \<Rightarrow> string \<Rightarrow> JsonDict option \<Rightarrow> string + unit" where
  "params_match_intent_token L token action params =
     params_match_intent_scope (x_display L) (object_or_empty token ''intent'') action params"

record VerifyIntentToken =
  vt_action :: string
  vt_params :: "JsonDict option"
  vt_expected_agent_id :: "string option"
  vt_expected_user_id :: "string option"
  vt_expected_agent_key_id :: "string option"

definition str_or_empty_key :: "('k, 'p) Crates \<Rightarrow> JsonDict \<Rightarrow> string" where
  "str_or_empty_key L agent_key = str_or_empty (x_display L) agent_key ''keyId''"

definition actual_key_id :: "('k, 'p) Crates \<Rightarrow> JsonDict \<Rightarrow> string" where
  "actual_key_id L agent_key =
     trim (case truthy_text L agent_key ''kid'' of Some s \<Rightarrow> s | None \<Rightarrow> str_or_empty_key L agent_key)"

text \<open>One identity check: nothing to compare when the expectation is absent or empty.\<close>

definition check_binding :: "string option \<Rightarrow> string \<Rightarrow> string \<Rightarrow> string + unit" where
  "check_binding expected actual what =
     (case expected of
        None \<Rightarrow> Inr ()
      | Some e \<Rightarrow>
          if e = [] then Inr ()
          else if actual \<noteq> e then
            Inl (''Token '' @ what @ '' mismatch: expected '' @ quoted e @ '', got '' @ quoted actual)
          else Inr ())"

definition verify_intent_token_after_signature ::
  "('k, 'p) Crates \<Rightarrow> int \<Rightarrow> JsonDict \<Rightarrow> VerifyIntentToken \<Rightarrow> string + unit" where
  "verify_intent_token_after_signature L now token options =
     (let expire_at = str_trimmed (x_display L) token ''expireAt'' in
      if expire_at = [] then Inl ''Token expireAt missing''
      else case parse_iso_z L expire_at of
        None \<Rightarrow> Inl ''Token expireAt format invalid''
      | Some expire_ts \<Rightarrow>
          if now > expire_ts then Inl ''Token expired''
          else
            let subject = object_or_empty token ''subject'';
                user = object_or_empty token ''user''
            in and_then (check_binding (vt_expected_agent_id options)
                 (str_trimmed (x_display L) subject ''id'') ''subject'') (\<lambda>_.
               and_then (check_binding (vt_expected_agent_key_id options)
                 (actual_key_id L (object_or_empty subject ''agentKey'')) ''agent key'') (\<lambda>_.
               and_then (check_binding (vt_expected_user_id options)
                 (str_trimmed (x_display L) user ''id'') ''user'') (\<lambda>_.
               params_match_intent_token L token (vt_action options) (vt_params options)))))"

definition verify_intent_token ::
  "('k, 'p) Crates \<Rightarrow> env_source \<Rightarrow> int \<Rightarrow> JsonDict \<Rightarrow> VerifyIntentToken \<Rightarrow> string + unit" where
  "verify_intent_token L env now token options =
     (if Option.bind (im_get token ''type'') as_str \<noteq> Some INTENT_TOKEN_TYPE then Inl ''Invalid token type''
      else
        let token_alg = str_trimmed (x_display L) token ''alg'';
            signature = str_trimmed (x_display L) token ''signature'';
            mandate_id = str_trimmed (x_display L) token ''mandateId'';
            kid = str_trimmed (x_display L) token ''keyId'';
            expected_kid = intent_token_key_id mandate_id
        in if token_alg \<noteq> ''EdDSA'' then
             Inl (''Token alg mismatch: expected '' @ quoted ''EdDSA'' @ '', got '' @ quoted token_alg)
           else if signature = [] then Inl ''Token signature missing''
           else if mandate_id = [] then Inl ''Token mandateId missing''
           else if kid \<noteq> expected_kid then
             Inl (''Token keyId mismatch: expected '' @ quoted expected_kid @ '', got '' @ quoted kid)
           else and_then (err_text (intent_token_signing_input L token)) (\<lambda>payload.
             case intent_server_signing_key L env of
               Inl e \<Rightarrow> Inl (''Server signing key unavailable: '' @ error_text e)
             | Inr k \<Rightarrow>
                 if \<not> ed25519_verify_text L payload signature (x_verifying_key L k) then
                   Inl ''Token signature invalid''
                 else verify_intent_token_after_signature L now token options))"

end
