(* ===== verification/IntentService.thy ===== *)
theory IntentService
  imports IntentToken TokenUsage
begin

text \<open>
  The intent authorization service, \<open>intent/service.rs\<close> with \<open>authorization_common.rs\<close>: prepare and
  complete a mandate, then verify the issued token and account for its executions.

  The service state is the map of pending authorizations. The usage store of \<open>verify_token\<close> is a
  trait object: its \<open>consume\<close> and its state are arguments. Requests are JSON payloads, as the
  services receive them from every transport.
\<close>

subsection \<open>Shared helpers of the services\<close>

fun contains_text :: "string \<Rightarrow> string \<Rightarrow> bool" where
  "contains_text [] p = (p = [])"
| "contains_text (c # cs) p = (starts_with (c # cs) p \<or> contains_text cs p)"

definition error_code :: "string \<Rightarrow> string \<Rightarrow> string" where
  "error_code reason prefix =
     (let lower = to_lowercase reason in
      if contains_text lower ''expired'' then prefix @ ''_EXPIRED''
      else if contains_text lower ''usage'' \<or> contains_text lower ''execution'' \<or> contains_text lower ''limit''
        then prefix @ ''_USAGE_EXCEEDED''
      else if contains_text lower ''signature'' then prefix @ ''_SIGNATURE_INVALID''
      else if contains_text lower ''mismatch'' \<or> contains_text lower ''scope'' \<or> contains_text lower ''actions''
        \<or> contains_text lower ''param'' then prefix @ ''_SCOPE_MISMATCH''
      else prefix @ ''_INVALID'')"

definition clear_user_signature :: "JsonDict \<Rightarrow> JsonDict" where
  "clear_user_signature mandate =
     (case im_get mandate ''signatures'' of
        None \<Rightarrow> im_insert ''signatures'' (JObj (im_insert ''user'' (JObj []) [])) mandate
      | Some (JObj m) \<Rightarrow> im_insert ''signatures'' (JObj (im_insert ''user'' (JObj []) m)) mandate
      | Some _ \<Rightarrow> mandate)"

definition mandate_matches_pending ::
  "JsonDict \<Rightarrow> JsonDict \<Rightarrow> (JsonDict \<Rightarrow> A4PError + JsonDict) \<Rightarrow> bool" where
  "mandate_matches_pending signed_mandate pending_mandate norm_mandate =
     (case (norm_mandate signed_mandate, norm_mandate pending_mandate) of
        (Inr signed, Inr pend) \<Rightarrow>
          json_eq (JObj (clear_user_signature signed)) (JObj (clear_user_signature pend))
      | _ \<Rightarrow> False)"

record VerificationResult =
  r_valid :: bool
  r_reason :: "string option"
  r_code :: "string option"
  r_matched_scope :: "JsonDict option"

definition verification_ok :: "JsonDict option \<Rightarrow> VerificationResult" where
  "verification_ok scope = \<lparr>r_valid = True, r_reason = None, r_code = None, r_matched_scope = scope\<rparr>"

definition verification_fail :: "string \<Rightarrow> string \<Rightarrow> VerificationResult" where
  "verification_fail reason code =
     \<lparr>r_valid = False, r_reason = Some reason, r_code = Some code, r_matched_scope = None\<rparr>"

definition is_value_error :: "A4PError \<Rightarrow> bool" where
  "is_value_error e =
     (case e of
        ValueError _ \<Rightarrow> True
      | Protocol _ _ _ \<Rightarrow> True
      | MandateSecurity _ _ \<Rightarrow> True
      | CredentialStoreFormat _ \<Rightarrow> True
      | _ \<Rightarrow> False)"

definition is_user_credential_not_registered :: "A4PError \<Rightarrow> bool" where
  "is_user_credential_not_registered e =
     (case e of Protocol _ code _ \<Rightarrow> code = ''USER_CREDENTIAL_NOT_REGISTERED'' | _ \<Rightarrow> False)"

subsection \<open>The service\<close>

record PendingIntent =
  pi_request :: JsonDict
  pi_mandate :: JsonDict

record IntentAuthorizationService =
  sv_server_id :: string
  sv_display_text_renderer :: "(JsonDict \<Rightarrow> string) option"
  sv_require_user_signature :: bool
  sv_user_signature_method :: "A4PUserSignatureMethod option"
  sv_pending :: "(string, PendingIntent) imap"

record IntentAuthorizationResponse =
  ir_mandate :: "JsonDict option"
  ir_signing_options :: JsonDict
  ir_intent_token :: "JsonDict option"
  ir_verification_result :: "VerificationResult option"
  ir_approved :: bool
  ir_reject_reason :: "string option"

definition response_default :: IntentAuthorizationResponse where
  "response_default = \<lparr>ir_mandate = None, ir_signing_options = [], ir_intent_token = None,
     ir_verification_result = None, ir_approved = False, ir_reject_reason = None\<rparr>"

definition intent_rejected :: "JsonDict option \<Rightarrow> string \<Rightarrow> string \<Rightarrow> IntentAuthorizationResponse" where
  "intent_rejected mandate reason code =
     response_default\<lparr>ir_mandate := mandate, ir_reject_reason := Some reason,
       ir_verification_result := Some (verification_fail reason code)\<rparr>"

definition validity_of :: "JsonDict \<Rightarrow> int \<Rightarrow> A4PError + int" where
  "validity_of request default_seconds =
     (case im_get request ''validitySeconds'' of
        None \<Rightarrow> Inr default_seconds
      | Some JNull \<Rightarrow> Inr default_seconds
      | Some v \<Rightarrow>
          (case as_int v of
             Some n \<Rightarrow>
               if n > 0 then Inr n else Inl (ValueError ''validitySeconds must be a positive integer'')
           | None \<Rightarrow> Inl (ValueError ''validitySeconds must be a positive integer'')))"

definition server_of :: "('k, 'p) Crates \<Rightarrow> string \<Rightarrow> JsonDict \<Rightarrow> string" where
  "server_of L server_id request =
     (case truthy_text L request ''server'' of Some s \<Rightarrow> s | None \<Rightarrow> server_id)"

definition intent_prepare_inner ::
  "('k, 'p) Crates \<Rightarrow> env_source \<Rightarrow> int \<Rightarrow> string \<Rightarrow> IntentAuthorizationService \<Rightarrow> JsonDict \<Rightarrow> JsonDict \<Rightarrow>
   A4PError + string \<times> JsonDict \<times> JsonDict" where
  "intent_prepare_inner L env now rnd sv request intent =
     (let agent_id = str_trimmed (x_display L) request ''agentId'';
          user_id = str_trimmed (x_display L) request ''userId''
      in if agent_id = [] then Inl (ValueError ''agentId missing'')
         else if user_id = [] then Inl (ValueError ''userId missing'')
         else and_then (validity_of request 3600) (\<lambda>validity.
           if im_get intent ''executionPolicy'' = Some JNull then
             Inl (ValueError ''executionPolicy must include maxExecutions'')
           else and_then (create_intent_mandate L env now rnd
               \<lparr>ci_server = server_of L (sv_server_id sv) request, ci_agent_id = agent_id,
                ci_actions = im_get intent ''actions'',
                ci_execution_policy = im_get intent ''executionPolicy'',
                ci_validity_seconds = validity, ci_subject_type = ''agent'',
                ci_agent_public_key = get_object request ''agentPublicKey'',
                ci_require_user_signature = sv_require_user_signature sv,
                ci_user_signature_method = map_option m_signature_method (sv_user_signature_method sv),
                ci_user_signature_method_policy = map_option m_method_policy (sv_user_signature_method sv),
                ci_display_text_renderer = sv_display_text_renderer sv\<rparr>) (\<lambda>mandate.
             and_then (mandate_identifier L mandate) (\<lambda>mandate_id.
             and_then (case sv_user_signature_method sv of
                 Some m \<Rightarrow> if sv_require_user_signature sv then m_signing_options m user_id mandate else Inr []
               | None \<Rightarrow> Inr []) (\<lambda>signing_options.
             Inr (mandate_id, mandate, signing_options))))))"

definition intent_prepare ::
  "('k, 'p) Crates \<Rightarrow> env_source \<Rightarrow> int \<Rightarrow> string \<Rightarrow> IntentAuthorizationService \<Rightarrow> JsonDict \<Rightarrow>
   (A4PError + IntentAuthorizationResponse) \<times> IntentAuthorizationService" where
  "intent_prepare L env now rnd sv request =
     (case intent_prepare_inner L env now rnd sv request (object_or_empty request ''intent'') of
        Inr (mandate_id, mandate, signing_options) \<Rightarrow>
          (Inr (response_default\<lparr>ir_mandate := Some mandate, ir_signing_options := signing_options\<rparr>),
           sv\<lparr>sv_pending := im_insert mandate_id \<lparr>pi_request = request, pi_mandate = mandate\<rparr> (sv_pending sv)\<rparr>)
      | Inl e \<Rightarrow>
          if is_user_credential_not_registered e then
            (Inr (response_default\<lparr>ir_reject_reason := Some (ep_message e),
               ir_verification_result := Some (verification_fail (ep_message e) (ep_code e))\<rparr>), sv)
          else if is_value_error e then
            (Inr (response_default\<lparr>ir_reject_reason := Some (error_text e),
               ir_verification_result := Some (verification_fail (error_text e) ''MANDATE_INVALID'')\<rparr>), sv)
          else (Inl e, sv))"

definition intent_complete ::
  "('k, 'p) Crates \<Rightarrow> env_source \<Rightarrow> int \<Rightarrow> int \<Rightarrow> string \<Rightarrow> string \<Rightarrow> IntentAuthorizationService \<Rightarrow> JsonDict \<Rightarrow>
   (A4PError + IntentAuthorizationResponse) \<times> IntentAuthorizationService" where
  "intent_complete L env now now_issue rnd_id rnd_nonce sv request =
     (case get_object request ''signedMandate'' of
        None \<Rightarrow> (Inr (intent_rejected None ''signedMandate missing'' ''MANDATE_INVALID''), sv)
      | Some signed_mandate \<Rightarrow>
          (case mandate_identifier L signed_mandate of
             Inl e \<Rightarrow> (Inr (intent_rejected None (error_text e) ''MANDATE_INVALID''), sv)
           | Inr mandate_id \<Rightarrow>
               (case im_get (sv_pending sv) mandate_id of
                  None \<Rightarrow>
                    (Inr (response_default\<lparr>
                       ir_reject_reason := Some (''No pending intent authorization: '' @ mandate_id),
                       ir_verification_result := Some (verification_fail ''No pending intent authorization''
                         ''AUTHORIZATION_NOT_PENDING'')\<rparr>), sv)
                | Some pend \<Rightarrow>
                    if \<not> mandate_matches_pending signed_mandate (pi_mandate pend) (normalize_intent_mandate L) then
                      (Inr (intent_rejected (Some (pi_mandate pend))
                         ''Signed mandate does not match pending intent authorization''
                         ''MANDATE_PENDING_MISMATCH''), sv)
                    else
                      (case verify_intent_mandate L env now signed_mandate
                         \<lparr>vi_expected_server = Some (server_of L (sv_server_id sv) (pi_request pend)),
                          vi_expected_user_id = Some (str_or_empty (x_display L) (pi_request pend) ''userId''),
                          vi_require_user_signature = sv_require_user_signature sv,
                          vi_user_signature_method = sv_user_signature_method sv\<rparr> of
                         Inl reason \<Rightarrow>
                           (Inr (intent_rejected (Some (pi_mandate pend)) reason (error_code reason ''MANDATE'')), sv)
                       | Inr _ \<Rightarrow>
                           let sv' = sv\<lparr>sv_pending := im_remove mandate_id (sv_pending sv)\<rparr>;
                               user_id = (case truthy_text L (pi_request pend) ''userId'' of
                                  Some s \<Rightarrow> s | None \<Rightarrow> ''user:unknown'')
                           in (case issue_intent_token L env now_issue rnd_id rnd_nonce signed_mandate
                                 \<lparr>io_user_id = user_id, io_verified_mandate = True,
                                  io_require_user_signature = sv_require_user_signature sv,
                                  io_user_signature_method = None\<rparr> of
                                 Inl e \<Rightarrow> (Inl e, sv')
                               | Inr token \<Rightarrow>
                                   (Inr (response_default\<lparr>ir_mandate := Some signed_mandate,
                                      ir_intent_token := Some token, ir_approved := True,
                                      ir_verification_result := Some (verification_ok None)\<rparr>), sv'))))))"

subsection \<open>Token verification\<close>

type_synonym 's consumer = "'s \<Rightarrow> string \<Rightarrow> int \<Rightarrow> int \<Rightarrow> 's \<times> consume_result"

text \<open>
  \<open>consume_token_usage\<close>: the usage counters when an execution was granted or the token has no
  limit, the reason when it was not, the store's error otherwise.
\<close>

definition consume_token_usage ::
  "('k, 'p) Crates \<Rightarrow> 's consumer \<Rightarrow> 's \<Rightarrow> JsonDict \<Rightarrow>
   's \<times> (IntentTokenUsageStoreError + (string + JsonDict))" where
  "consume_token_usage L consume s token =
     (let token_id = str_trimmed (x_display L) token ''tokenId'' in
      if token_id = [] then (s, Inr (Inl ''Token tokenId missing''))
      else case normalize_intent_scope (x_display L) (im_get token ''intent'') of
        Inl e \<Rightarrow> (s, Inr (Inl (error_text e)))
      | Inr intent \<Rightarrow>
          (case get_object intent ''executionPolicy'' of
             None \<Rightarrow> (s, Inr (Inr []))
           | Some policy \<Rightarrow>
               let mx = (case Option.bind (im_get policy ''maxExecutions'') as_int of Some n \<Rightarrow> n | None \<Rightarrow> 0) in
               case parse_iso_z L (str_trimmed (x_display L) token ''expireAt'') of
                 None \<Rightarrow> (s, Inl (IntentTokenUsageStoreError ''Intent token expiration is invalid''))
               | Some expire \<Rightarrow>
                   (case consume s token_id mx expire of
                      (s', Inl e) \<Rightarrow> (s', Inl e)
                    | (s', Inr (consumed, used)) \<Rightarrow>
                        if \<not> consumed then (s', Inr (Inl ''Token execution usage exceeded''))
                        else (s', Inr (Inr (im_insert ''usage'' (JObj
                               (im_insert ''executionsLimit'' (JInt mx)
                               (im_insert ''executionsUsed'' (JInt used) []))) []))))))"

record TokenVerificationResponse =
  tr_valid :: bool
  tr_reason :: "string option"
  tr_code :: "string option"
  tr_matched_scope :: "JsonDict option"

definition token_refused :: "string \<Rightarrow> string \<Rightarrow> TokenVerificationResponse" where
  "token_refused reason code =
     \<lparr>tr_valid = False, tr_reason = Some reason, tr_code = Some code, tr_matched_scope = None\<rparr>"

text \<open>\<open>expected.get(k).filter(not null).map(py_str)\<close>.\<close>

definition expected_text :: "('k, 'p) Crates \<Rightarrow> JsonDict \<Rightarrow> string \<Rightarrow> string option" where
  "expected_text L expected k =
     (case im_get expected k of
        Some v \<Rightarrow> if v = JNull then None else Some (py_str (x_display L) v)
      | None \<Rightarrow> None)"

definition token_options :: "('k, 'p) Crates \<Rightarrow> JsonDict \<Rightarrow> VerifyIntentToken" where
  "token_options L expected =
     \<lparr>vt_action = str_or_empty (x_display L) expected ''action'',
      vt_params = Some (object_or_empty expected ''params''),
      vt_expected_agent_id = expected_text L expected ''agentId'',
      vt_expected_user_id = expected_text L expected ''userId'',
      vt_expected_agent_key_id = expected_text L expected ''agentKeyId''\<rparr>"

definition verify_token ::
  "('k, 'p) Crates \<Rightarrow> env_source \<Rightarrow> int \<Rightarrow> 's consumer \<Rightarrow> 's \<Rightarrow> JsonDict \<Rightarrow> 's \<times> TokenVerificationResponse" where
  "verify_token L env now consume s request =
     (let token = object_or_empty request ''token'';
          expected = object_or_empty request ''expected'';
          params = object_or_empty expected ''params''
      in case verify_intent_token L env now token (token_options L expected) of
           Inl reason \<Rightarrow> (s, token_refused reason (error_code reason ''TOKEN''))
         | Inr _ \<Rightarrow>
             (case consume_token_usage L consume s token of
                (s', Inl _) \<Rightarrow>
                  (s', token_refused ''Intent token usage store unavailable'' ''TOKEN_USAGE_STORE_ERROR'')
              | (s', Inr (Inl reason)) \<Rightarrow> (s', token_refused reason ''TOKEN_USAGE_EXCEEDED'')
              | (s', Inr (Inr usage)) \<Rightarrow>
                  (s', \<lparr>tr_valid = True, tr_reason = None, tr_code = None,
                    tr_matched_scope = Some (fold (\<lambda>(k, v). im_insert k v) usage
                      (im_insert ''params'' (JObj params)
                      (im_insert ''action'' (case im_get expected ''action'' of Some v \<Rightarrow> v | None \<Rightarrow> JNull) [])))\<rparr>)))"

end
