(* ===== verification/Pending.thy ===== *)
theory Pending
  imports Prelude
begin

text \<open>
  What the two authorization services promise of their pending entries, as a locale: an approval
  needs a pending entry and uses it up, and only a prepare adds one. The client's lemma is that no
  identifier is approved more often than it was prepared.
\<close>

fun count_run :: "('ev \<Rightarrow> 's \<Rightarrow> 's) \<Rightarrow> ('ev \<Rightarrow> 's \<Rightarrow> bool) \<Rightarrow> 's \<Rightarrow> 'ev list \<Rightarrow> nat" where
  "count_run exec P s [] = 0"
| "count_run exec P s (ev # evs) = (if P ev s then 1 else 0) + count_run exec P (exec ev s) evs"

locale pending_service =
  fixes exec :: "'ev \<Rightarrow> 's \<Rightarrow> 's"
    and pending :: "'s \<Rightarrow> string \<Rightarrow> bool"
    and prepared :: "string \<Rightarrow> 'ev \<Rightarrow> 's \<Rightarrow> bool"
    and approved :: "string \<Rightarrow> 'ev \<Rightarrow> 's \<Rightarrow> bool"
  assumes approve_uses: "approved i ev s \<Longrightarrow> pending s i \<and> \<not> pending (exec ev s) i"
    and pending_from: "pending (exec ev s) i \<Longrightarrow> pending s i \<or> prepared i ev s"
begin

lemma single_use_from:
  "count_run exec (approved i) s evs \<le> count_run exec (prepared i) s evs + (if pending s i then 1 else 0)"
proof (induction evs arbitrary: s)
  case (Cons ev evs)
  from Cons.IH [of "exec ev s"] approve_uses [of i ev s] pending_from [of ev s i] show ?case
    by (auto split: if_splits)
qed simp

lemma single_use:
  "\<not> pending s i \<Longrightarrow> count_run exec (approved i) s evs \<le> count_run exec (prepared i) s evs"
  using single_use_from [of i s evs] by simp

end

end
