(* ===== verification/OperationService.thy ===== *)
theory OperationService
  imports IntentService Pending
begin

text \<open>
  One-time operation authorization: creation, signing and verification of operation mandates,
  \<open>operation/mandate.rs\<close>, and the service of \<open>operation/service.rs\<close> that prepares and consumes them.
  Each call of the clock is an argument of its own.
\<close>

subsection \<open>Operation mandates\<close>

definition operation_user_signature_context ::
  "('k, 'p) Crates \<Rightarrow> JsonDict \<Rightarrow> string option \<Rightarrow> A4PError + UserSignatureContext" where
  "operation_user_signature_context L mandate expected_user_id =
     and_then (normalize_operation_mandate L mandate) (\<lambda>normalized.
     mandate_user_signature_context L OPERATION_MANDATE_TYPE normalized expected_user_id)"

definition operation_sign_server_mandate ::
  "('k, 'p) Crates \<Rightarrow> env_source \<Rightarrow> JsonDict \<Rightarrow> A4PError + JsonDict" where
  "operation_sign_server_mandate L env mandate =
     and_then (normalize_operation_mandate L mandate) (\<lambda>signed.
     and_then (operation_mandate_core_payload L signed) (\<lambda>core.
     and_then (server_signature_payload L core) (\<lambda>payload.
     and_then (operation_server_signing_key L env) (\<lambda>k.
     Inr (put_server_signature
       (server_signature_entry ''server#operation-mandate-k1'' (ed25519_sign_text L payload k)) signed)))))"

record CreateOperationMandate =
  co_operation :: JsonDict
  co_server_url :: string
  co_agent_id :: string
  co_validity_seconds :: int
  co_agent_public_key :: "JsonDict option"
  co_require_user_signature :: bool
  co_user_signature_method :: "string option"
  co_user_signature_method_policy :: "JsonDict option"
  co_display_text_renderer :: "(JsonDict \<Rightarrow> string) option"

definition create_operation_mandate ::
  "('k, 'p) Crates \<Rightarrow> env_source \<Rightarrow> int \<Rightarrow> string \<Rightarrow> CreateOperationMandate \<Rightarrow> A4PError + JsonDict" where
  "create_operation_mandate L env now rnd params =
     (let signature_method = trim (case co_user_signature_method params of Some s \<Rightarrow> s | None \<Rightarrow> []) in
      if co_require_user_signature params \<and> signature_method = [] then
        Inl (ValueError ''userSignatureMethod missing'')
      else
        let operation_id = ''op_'' @ token_urlsafe L rnd;
            until_iso = format_iso_z L (wrap64 (now + co_validity_seconds params))
        in and_then (normalize_operation_object L (co_operation params)) (\<lambda>operation.
           let subject = subject_object ''agent'' (''agent:'' @ co_agent_id params) (co_agent_public_key params);
               valid_time = im_insert ''timezone'' (JStr ''Asia/Shanghai'')
                 (im_insert ''displayUntil'' (JStr (format_beijing_display_time L until_iso))
                 (im_insert ''until'' (JStr until_iso) []));
               signatures = im_insert ''user'' (JObj [])
                 (im_insert ''server'' (JObj (server_signature_entry ''server#operation-mandate-k1'' [])) []);
               mandate = im_insert ''signatures'' (JObj signatures)
                 (im_insert ''displayText'' (JStr (operation_display_text L operation until_iso))
                 (im_insert ''userAuthorization'' (JObj (user_authorization_policy
                    (co_require_user_signature params) signature_method (co_user_signature_method_policy params)))
                 (im_insert ''validTime'' (JObj valid_time)
                 (im_insert ''operation'' (JObj operation)
                 (im_insert ''subject'' (JObj subject)
                 (im_insert ''server'' (JStr (co_server_url params))
                 (im_insert ''operationId'' (JStr operation_id)
                 (im_insert ''type'' (JStr OPERATION_MANDATE_TYPE) []))))))));
               mandate = (case co_display_text_renderer params of
                   Some render \<Rightarrow> im_insert ''displayText'' (JStr (render mandate)) mandate
                 | None \<Rightarrow> mandate)
           in operation_sign_server_mandate L env mandate))"

record VerifyOperationMandate =
  vo_expected :: "JsonDict option"
  vo_expected_user_id :: "string option"
  vo_require_user_signature :: bool
  vo_user_signature_method :: "A4PUserSignatureMethod option"

text \<open>\<open>==\<close> on optional JSON values.\<close>

definition opt_json_eq :: "json option \<Rightarrow> json option \<Rightarrow> bool" where
  "opt_json_eq a b =
     (case (a, b) of (Some x, Some y) \<Rightarrow> json_eq x y | (None, None) \<Rightarrow> True | _ \<Rightarrow> False)"

definition check_operation_time :: "('k, 'p) Crates \<Rightarrow> int \<Rightarrow> JsonDict \<Rightarrow> string + unit" where
  "check_operation_time L now valid_time =
     (case truthy_text L valid_time ''until'' of
        None \<Rightarrow> Inl ''Mandate has no validTime''
      | Some until_str \<Rightarrow>
          (case parse_iso_z L until_str of
             None \<Rightarrow> Inl ''Mandate validTime format invalid''
           | Some until_ts \<Rightarrow>
               if now > until_ts then Inl (''Mandate has expired (expired at '' @ until_str @ '')'')
               else Inr ()))"

definition verify_operation_mandate_for_completion ::
  "('k, 'p) Crates \<Rightarrow> env_source \<Rightarrow> int \<Rightarrow> JsonDict \<Rightarrow> VerifyOperationMandate \<Rightarrow> string + unit" where
  "verify_operation_mandate_for_completion L env now mandate options =
     (if Option.bind (im_get mandate ''type'') as_str \<noteq> Some OPERATION_MANDATE_TYPE then Inl ''Invalid mandate type''
      else and_then (err_text (normalize_operation_mandate L mandate)) (\<lambda>normalized.
        and_then (err_text (normalize_operation_object L
            (case vo_expected options of Some m \<Rightarrow> m | None \<Rightarrow> []))) (\<lambda>expected_operation.
        let operation = object_or_empty normalized ''operation'';
            signatures = object_or_empty normalized ''signatures''
        in if \<not> opt_json_eq (im_get operation ''action'') (im_get expected_operation ''action'') then
             Inl ''Operation action mismatch''
           else if \<not> opt_json_eq (im_get operation ''params'') (im_get expected_operation ''params'') then
             Inl ''Operation params mismatch''
           else
             and_then (check_server_signature L signatures (operation_mandate_core_payload L normalized)
               (operation_server_signing_key L env)) (\<lambda>_.
             and_then (err_text (operation_user_signature_context L normalized (vo_expected_user_id options))) (\<lambda>ctx.
             and_then (verify_user_signature L ctx (object_or_empty signatures ''user'')
               (vo_user_signature_method options) (vo_require_user_signature options)) (\<lambda>_.
             check_operation_time L now (object_or_empty normalized ''validTime'')))))))"

subsection \<open>The service\<close>

record PendingOperation =
  po_request :: JsonDict
  po_operation :: JsonDict
  po_mandate :: JsonDict
  po_expire_at_epoch :: int

record OperationAuthorizationService =
  os_server_id :: string
  os_display_text_renderer :: "(JsonDict \<Rightarrow> string) option"
  os_require_user_signature :: bool
  os_user_signature_method :: "A4PUserSignatureMethod option"
  os_pending :: "(string, PendingOperation) imap"

record OperationAuthorizationChallenge =
  oc_mandate :: "JsonDict option"
  oc_signing_options :: JsonDict
  oc_verification_result :: "VerificationResult option"
  oc_reject_reason :: "string option"

definition challenge_default :: OperationAuthorizationChallenge where
  "challenge_default = \<lparr>oc_mandate = None, oc_signing_options = [], oc_verification_result = None,
     oc_reject_reason = None\<rparr>"

record OperationAuthorizationResult =
  or_operation_id :: "string option"
  or_approved :: bool
  or_verification_result :: "VerificationResult option"
  or_reject_reason :: "string option"

definition operation_rejected :: "string \<Rightarrow> string \<Rightarrow> OperationAuthorizationResult" where
  "operation_rejected reason code =
     \<lparr>or_operation_id = None, or_approved = False,
      or_verification_result = Some (verification_fail reason code), or_reject_reason = Some reason\<rparr>"

definition set_pending_expiry :: "string \<Rightarrow> int \<Rightarrow> OperationAuthorizationService \<Rightarrow> bool \<times> OperationAuthorizationService" where
  "set_pending_expiry operation_id expire sv =
     (case im_get (os_pending sv) operation_id of
        Some p \<Rightarrow> (True, sv\<lparr>os_pending := im_insert operation_id (p\<lparr>po_expire_at_epoch := expire\<rparr>) (os_pending sv)\<rparr>)
      | None \<Rightarrow> (False, sv))"

definition prune_expired :: "int \<Rightarrow> OperationAuthorizationService \<Rightarrow> OperationAuthorizationService" where
  "prune_expired now sv = sv\<lparr>os_pending := im_retain (\<lambda>_ p. po_expire_at_epoch p > now) (os_pending sv)\<rparr>"

definition operation_prepare_inner ::
  "('k, 'p) Crates \<Rightarrow> env_source \<Rightarrow> int \<Rightarrow> string \<Rightarrow> OperationAuthorizationService \<Rightarrow> JsonDict \<Rightarrow>
   A4PError + string \<times> JsonDict \<times> JsonDict \<times> JsonDict" where
  "operation_prepare_inner L env now rnd sv request =
     (let agent_id = str_trimmed (x_display L) request ''agentId'';
          user_id = str_trimmed (x_display L) request ''userId''
      in if agent_id = [] then Inl (ValueError ''agentId missing'')
         else if user_id = [] then Inl (ValueError ''userId missing'')
         else and_then (validity_of request 300) (\<lambda>validity.
           and_then (normalize_operation L (im_get request ''operation'')) (\<lambda>operation.
           and_then (create_operation_mandate L env now rnd
               \<lparr>co_operation = operation, co_server_url = server_of L (os_server_id sv) request,
                co_agent_id = agent_id, co_validity_seconds = validity,
                co_agent_public_key = get_object request ''agentPublicKey'',
                co_require_user_signature = os_require_user_signature sv,
                co_user_signature_method = map_option m_signature_method (os_user_signature_method sv),
                co_user_signature_method_policy = map_option m_method_policy (os_user_signature_method sv),
                co_display_text_renderer = os_display_text_renderer sv\<rparr>) (\<lambda>mandate.
           and_then (mandate_identifier L mandate) (\<lambda>operation_id.
           and_then (case os_user_signature_method sv of
               Some m \<Rightarrow> if os_require_user_signature sv then m_signing_options m user_id mandate else Inr []
             | None \<Rightarrow> Inr []) (\<lambda>signing_options.
           Inr (operation_id, operation, mandate, signing_options)))))))"

definition operation_prepare ::
  "('k, 'p) Crates \<Rightarrow> env_source \<Rightarrow> int \<Rightarrow> int \<Rightarrow> string \<Rightarrow> OperationAuthorizationService \<Rightarrow> JsonDict \<Rightarrow>
   (A4PError + OperationAuthorizationChallenge) \<times> OperationAuthorizationService" where
  "operation_prepare L env now_prune now rnd sv0 request =
     (let sv = prune_expired now_prune sv0 in
      case operation_prepare_inner L env now rnd sv request of
        Inr (operation_id, operation, mandate, signing_options) \<Rightarrow>
          let until = (case get_object mandate ''validTime'' of
                Some v \<Rightarrow> str_or_empty (x_display L) v ''until'' | None \<Rightarrow> []);
              expire = (case parse_iso_z L until of Some t \<Rightarrow> t | None \<Rightarrow> 0)
          in (Inr (challenge_default\<lparr>oc_mandate := Some mandate, oc_signing_options := signing_options\<rparr>),
              sv\<lparr>os_pending := im_insert operation_id
                 \<lparr>po_request = request, po_operation = operation, po_mandate = mandate,
                  po_expire_at_epoch = expire\<rparr> (os_pending sv)\<rparr>)
      | Inl e \<Rightarrow>
          if is_user_credential_not_registered e then
            (Inr (challenge_default\<lparr>oc_reject_reason := Some (ep_message e),
               oc_verification_result := Some (verification_fail (ep_message e) (ep_code e))\<rparr>), sv)
          else if is_value_error e then
            (Inr (challenge_default\<lparr>oc_reject_reason := Some (error_text e),
               oc_verification_result := Some (verification_fail (error_text e) ''MANDATE_INVALID'')\<rparr>), sv)
          else (Inl e, sv))"

text \<open>
  The checks of \<open>complete\<close> on a pending entry, in the order of the code: the reason and the code of
  the refusal, or approval.
\<close>

definition completion_check ::
  "('k, 'p) Crates \<Rightarrow> env_source \<Rightarrow> int \<Rightarrow> OperationAuthorizationService \<Rightarrow> JsonDict \<Rightarrow> JsonDict \<Rightarrow>
   PendingOperation \<Rightarrow> (string \<times> string) + unit" where
  "completion_check L env now sv request signed_mandate pend =
     (case normalize_operation L (im_get request ''operation'') of
        Inl e \<Rightarrow> Inl (error_text e, ''OPERATION_INVALID'')
      | Inr current \<Rightarrow>
          if \<not> json_eq (JObj current) (JObj (po_operation pend)) then
            Inl (''Current operation does not match pending operation authorization'', ''OPERATION_PENDING_MISMATCH'')
          else if \<not> mandate_matches_pending signed_mandate (po_mandate pend) (normalize_operation_mandate L) then
            Inl (''Signed mandate does not match pending operation authorization'', ''MANDATE_PENDING_MISMATCH'')
          else case normalize_operation L (im_get signed_mandate ''operation'') of
            Inl e \<Rightarrow> Inl (error_text e, ''MANDATE_INVALID'')
          | Inr signed_operation \<Rightarrow>
              if \<not> json_eq (JObj signed_operation) (JObj current) then
                Inl (''Signed mandate operation does not match current operation'', ''OPERATION_MANDATE_MISMATCH'')
              else (case verify_operation_mandate_for_completion L env now signed_mandate
                  \<lparr>vo_expected = Some current,
                   vo_expected_user_id = Some (str_or_empty (x_display L) (po_request pend) ''userId''),
                   vo_require_user_signature = os_require_user_signature sv,
                   vo_user_signature_method = os_user_signature_method sv\<rparr> of
                  Inl reason \<Rightarrow> Inl (reason, error_code reason ''MANDATE'')
                | Inr _ \<Rightarrow> Inr ()))"

definition operation_complete ::
  "('k, 'p) Crates \<Rightarrow> env_source \<Rightarrow> int \<Rightarrow> int \<Rightarrow> OperationAuthorizationService \<Rightarrow> JsonDict \<Rightarrow>
   OperationAuthorizationResult \<times> OperationAuthorizationService" where
  "operation_complete L env now_prune now sv0 request =
     (let sv = prune_expired now_prune sv0 in
      case get_object request ''signedMandate'' of
        None \<Rightarrow> (operation_rejected ''signedMandate missing'' ''MANDATE_INVALID'', sv)
      | Some signed_mandate \<Rightarrow>
          (case mandate_identifier L signed_mandate of
             Inl e \<Rightarrow> (operation_rejected (error_text e) ''MANDATE_INVALID'', sv)
           | Inr operation_id \<Rightarrow>
               (case im_get (os_pending sv) operation_id of
                  None \<Rightarrow>
                    (\<lparr>or_operation_id = None, or_approved = False,
                      or_verification_result = Some (verification_fail ''No pending operation authorization''
                        ''AUTHORIZATION_NOT_PENDING''),
                      or_reject_reason = Some (''No pending operation authorization: '' @ operation_id)\<rparr>, sv)
                | Some pend \<Rightarrow>
                    (case completion_check L env now sv request signed_mandate pend of
                       Inl (reason, code) \<Rightarrow> (operation_rejected reason code, sv)
                     | Inr _ \<Rightarrow>
                         (\<lparr>or_operation_id = Some operation_id, or_approved = True,
                           or_verification_result = Some (verification_ok None), or_reject_reason = None\<rparr>,
                          sv\<lparr>os_pending := im_remove operation_id (os_pending sv)\<rparr>)))))"

end
