(* ===== verification/IntentLaws.thy ===== *)
theory IntentLaws
  imports IntentService Pending
begin

text \<open>
  Correctness of intent authorization: issued tokens verify, an approval needs a pending mandate
  that it uses up, and the execution limit of a token holds over any sequence of verifications
  before the second of its expiry.
\<close>

subsection \<open>Issued tokens verify\<close>

lemma dropWhile_hd: "xs \<noteq> [] \<Longrightarrow> \<not> P (hd xs) \<Longrightarrow> dropWhile P xs = xs"
  by (cases xs) auto

lemma trim_eq_self: "s \<noteq> [] \<Longrightarrow> \<not> is_space (hd s) \<Longrightarrow> \<not> is_space (last s) \<Longrightarrow> trim s = s"
  using dropWhile_hd [of s is_space] dropWhile_hd [of "rev s" is_space] by (simp add: trim_def hd_rev)

lemma trim_last: "trim s \<noteq> [] \<Longrightarrow> \<not> is_space (last (trim s))"
  using hd_dropWhile [of is_space "rev (dropWhile is_space s)"] by (auto simp: trim_def last_rev)

lemma trim_append_trimmed:
  "p \<noteq> [] \<Longrightarrow> \<not> is_space (hd p) \<Longrightarrow> trim m \<noteq> [] \<Longrightarrow> trim (p @ trim m) = p @ trim m"
  using trim_last [of m] by (intro trim_eq_self) auto

lemma token_key_id_trimmed: "trim m \<noteq> [] \<Longrightarrow> trim (intent_token_key_id (trim m)) = intent_token_key_id (trim m)"
  using trim_append_trimmed [of "''server#intent-token-v1:''" m]
  by (simp add: intent_token_key_id_def is_space_def)

lemma str_trimmed_trimmed: "\<exists>x. str_trimmed disp m k = trim x"
  by (auto simp: str_trimmed_def)

lemma signing_input_ignores_signature:
  "intent_token_signing_input L (im_insert ''signature'' v token) = intent_token_signing_input L token"
  by (simp add: intent_token_signing_input_def intent_token_core_payload_def field_default_def)

lemma unsigned_token_members:
  "im_get (unsigned_intent_token L mid subject uid scope iat ex r1 r2) k =
     [''keyId'' \<mapsto> JStr (intent_token_key_id mid), ''alg'' \<mapsto> JStr ''EdDSA'', ''signature'' \<mapsto> JStr [],
      ''nonce'' \<mapsto> JStr (token_urlsafe L r2), ''expireAt'' \<mapsto> JStr ex, ''issuedAt'' \<mapsto> JStr iat,
      ''intent'' \<mapsto> JObj scope, ''user'' \<mapsto> JObj [(''id'', JStr (or_else_text (trim uid) ''user:unknown''))],
      ''subject'' \<mapsto> JObj (token_subject L subject), ''mandateId'' \<mapsto> JStr mid,
      ''tokenId'' \<mapsto> JStr (token_hex L r1), ''type'' \<mapsto> JStr INTENT_TOKEN_TYPE] k"
  by (simp add: unsigned_intent_token_def Let_def im_insert_def [of _ _ "[]"])

lemma issued_token_shape:
  assumes "issue_intent_token L env now r1 r2 mandate options = Inr token"
  obtains mid subject scope iat ex k input where "trim mid \<noteq> []" "intent_server_signing_key L env = Inr k"
    "intent_token_signing_input L token = Inr input"
    "token = im_insert ''signature'' (JStr (ed25519_sign_text L input k))
       (unsigned_intent_token L (trim mid) subject (io_user_id options) scope iat ex r1 r2)"
  using assms unfolding issue_intent_token_def Let_def and_then_Inr str_trimmed_def
  by (auto simp: signing_input_ignores_signature split: if_splits)

text \<open>
  A token the server issued passes every check of its own signature: with the signing key
  unchanged and the signature libraries doing what they document, verification of an issued token is
  exactly its checks of expiry, identity and scope.
\<close>

lemma issued_token_verifies:
  assumes "signing_contract L" "issue_intent_token L env now0 r1 r2 mandate options = Inr token"
  shows "verify_intent_token L env now token opts = verify_intent_token_after_signature L now token opts"
proof -
  obtain mid subject scope iat ex k input where t: "trim mid \<noteq> []" "intent_server_signing_key L env = Inr k"
    "intent_token_signing_input L token = Inr input"
    "token = im_insert ''signature'' (JStr (ed25519_sign_text L input k))
       (unsigned_intent_token L (trim mid) subject (io_user_id options) scope iat ex r1 r2)"
    by (rule issued_token_shape [OF assms(2)])
  have members: "im_get token ''type'' = Some (JStr INTENT_TOKEN_TYPE)" "im_get token ''alg'' = Some (JStr ''EdDSA'')"
    "im_get token ''mandateId'' = Some (JStr (trim mid))"
    "im_get token ''keyId'' = Some (JStr (intent_token_key_id (trim mid)))"
    "im_get token ''signature'' = Some (JStr (ed25519_sign_text L input k))"
    by (simp_all add: t(4) unsigned_token_members)
  have "trim ''EdDSA'' = ''EdDSA''" by (simp add: trim_def is_space_def)
  with t(1-3) members sign_text_clean [OF assms(1)] verify_own_signature [OF assms(1)] token_key_id_trimmed [OF t(1)]
  show ?thesis by (simp add: verify_intent_token_def err_text_def)
qed

text \<open>Issuing fails only for a missing mandate id, a missing expiry, or an unusable signing key.\<close>

lemma normalized_intent:
  "normalize_intent_mandate L m = Inr n \<Longrightarrow>
   \<exists>scope. im_get n ''intent'' = Some (JObj scope) \<and>
     normalize_intent_scope (x_display L) (Some (JObj scope)) = Inr scope"
  by (auto simp: normalize_intent_mandate_def dest: normalize_intent_scope_idem)

lemma issue_total:
  assumes "io_verified_mandate options" "normalize_intent_mandate L m = Inr n"
    and "str_trimmed (x_display L) n ''mandateId'' \<noteq> []"
    and "str_trimmed (x_display L) (object_or_empty n ''validTime'') ''end'' \<noteq> []"
    and "intent_server_signing_key L env = Inr k"
  shows "\<exists>token. issue_intent_token L env now r1 r2 m options = Inr token"
proof -
  obtain scope where scope: "im_get n ''intent'' = Some (JObj scope)"
    "normalize_intent_scope (x_display L) (Some (JObj scope)) = Inr scope"
    using normalized_intent [OF assms(2)] by blast
  then have intent: "object_or_empty n ''intent'' = scope"
    by (simp add: object_or_empty_def get_object_def)
  have "\<exists>input. intent_token_signing_input L (unsigned_intent_token L mid subject uid scope iat ex r1 r2) = Inr input"
    for mid subject uid iat ex
    using scope(2) canonical_json_total
    by (simp add: intent_token_signing_input_def intent_token_core_payload_def unsigned_token_members payload_text_def)
  then show ?thesis
    using assms scope(2) intent by (auto simp: issue_intent_token_def Let_def)
qed

text \<open>A concrete mandate, in normal form, with a limit of one execution and the demo signatures.\<close>

definition demo_mandate :: JsonDict where
  "demo_mandate =
     [(''type'', JStr ''a4p/v1/intent-mandate''), (''mandateId'', JStr ''m1''), (''server'', JStr ''srv''),
      (''intent'', JObj [(''actions'', JArr [JObj [(''name'', JStr ''read''), (''params'', JStr ''*''),
         (''allowExtraParams'', JBool False)]]), (''executionPolicy'', JObj [(''maxExecutions'', JInt 1)])]),
      (''validTime'', JObj [(''start'', JStr ''1''), (''end'', JStr ''9'')]),
      (''userAuthorization'', JObj [(''required'', JBool True), (''signatureMethod'', JStr ''m'')]),
      (''signatures'', JObj [(''server'', JObj [(''alg'', JStr ''EdDSA''), (''signature'', JStr ''s'')]),
         (''user'', JObj [(''signatureMethod'', JStr ''m'')])])]"

definition demo_issue :: IssueIntentToken where
  "demo_issue = \<lparr>io_user_id = ''u'', io_verified_mandate = True, io_require_user_signature = True,
     io_user_signature_method = None\<rparr>"

lemma demo_trim [simp]: "trim ''m1'' = ''m1''" "trim ''9'' = ''9''" "trim ''EdDSA'' = ''EdDSA''" "trim ''s'' = ''s''"
  "trim ''m'' = ''m''" "trim ''srv'' = ''srv''" "trim ''read'' = ''read''" "trim [] = []"
  by (simp_all add: trim_def is_space_def)

lemma demo_mandate_normal: "normalize_intent_mandate demo_crates demo_mandate = Inr demo_mandate"
  by (simp add: normalize_intent_mandate_def demo_mandate_def normalize_intent_scope_def normalize_action_specs_def
      normalize_action_spec_def normalize_allow_extra_def normalize_params_constraint_def
      normalize_execution_policy_def positive_int_def as_int_def im_contains_def im_insert_def
      signature_container_def object_or_empty_def get_object_def INTENT_MANDATE_TYPE_def)

lemma demo_signing_key:
  "intent_server_signing_key demo_crates (\<lambda>_. None) = Inr ''a4p-intent-server-ed25519-dev-v1''"
  by (simp add: intent_server_signing_key_def ed25519_private_key_from_env_in_def
      is_production_environment_in_def to_lowercase_def demo_crates_def)

lemma demo_mandate_members:
  "str_trimmed (x_display demo_crates) demo_mandate ''mandateId'' = ''m1''"
  "object_or_empty demo_mandate ''validTime'' = [(''start'', JStr ''1''), (''end'', JStr ''9'')]"
  by (simp_all add: demo_mandate_def object_or_empty_def get_object_def)

lemma issued_token_verifies_witness:
  "verify_intent_token demo_crates (\<lambda>_. None) 5
     (projr (issue_intent_token demo_crates (\<lambda>_. None) 3 ''i'' ''n'' demo_mandate demo_issue))
     \<lparr>vt_action = ''read'', vt_params = None, vt_expected_agent_id = None, vt_expected_user_id = None,
      vt_expected_agent_key_id = None\<rparr> =
   verify_intent_token_after_signature demo_crates 5
     (projr (issue_intent_token demo_crates (\<lambda>_. None) 3 ''i'' ''n'' demo_mandate demo_issue))
     \<lparr>vt_action = ''read'', vt_params = None, vt_expected_agent_id = None, vt_expected_user_id = None,
      vt_expected_agent_key_id = None\<rparr>"
proof (rule issued_token_verifies [OF demo_crates_signing])
  show "issue_intent_token demo_crates (\<lambda>_. None) 3 ''i'' ''n'' demo_mandate demo_issue =
    Inr (projr (issue_intent_token demo_crates (\<lambda>_. None) 3 ''i'' ''n'' demo_mandate demo_issue))"
    using issue_total [OF _ demo_mandate_normal _ _ demo_signing_key, of demo_issue 3 "''i''" "''n''"]
    by (auto simp: demo_issue_def demo_mandate_members)
qed

subsection \<open>Approvals\<close>

lemma response_default_simps [simp]:
  "\<not> ir_approved response_default" "\<not> ir_approved (intent_rejected m r c)"
  by (simp_all add: response_default_def intent_rejected_def)

text \<open>The one branch of \<open>complete\<close> that approves.\<close>

lemma intent_complete_approved:
  assumes "intent_complete L env now now_issue r1 r2 sv request = (Inr resp, sv')" "ir_approved resp"
  obtains signed mid pend token where "get_object request ''signedMandate'' = Some signed"
    "mandate_identifier L signed = Inr mid" "im_get (sv_pending sv) mid = Some pend"
    "mandate_matches_pending signed (pi_mandate pend) (normalize_intent_mandate L)"
    "verify_intent_mandate L env now signed
       \<lparr>vi_expected_server = Some (server_of L (sv_server_id sv) (pi_request pend)),
        vi_expected_user_id = Some (str_or_empty (x_display L) (pi_request pend) ''userId''),
        vi_require_user_signature = sv_require_user_signature sv,
        vi_user_signature_method = sv_user_signature_method sv\<rparr> = Inr ()"
    "sv' = sv\<lparr>sv_pending := im_remove mid (sv_pending sv)\<rparr>" "ir_intent_token resp = Some token"
proof (cases "get_object request ''signedMandate''")
  case None
  with assms show thesis by (auto simp: intent_complete_def)
next
  case signed: (Some signed)
  show thesis
  proof (cases "mandate_identifier L signed")
    case (Inl e)
    with signed assms show thesis by (auto simp: intent_complete_def)
  next
    case mid: (Inr mid)
    show thesis
    proof (cases "im_get (sv_pending sv) mid")
      case None
      with signed mid assms show thesis by (auto simp: intent_complete_def)
    next
      case pend: (Some pend)
      show thesis
      proof (cases "mandate_matches_pending signed (pi_mandate pend) (normalize_intent_mandate L)")
        case False
        with signed mid pend assms show thesis by (auto simp: intent_complete_def)
      next
        case same: True
        from that [OF signed mid pend same] assms signed mid pend same show thesis
          by (auto simp: intent_complete_def Let_def split: sum.splits)
      qed
    qed
  qed
qed

text \<open>What a passed verification establishes of a mandate.\<close>

lemma verify_intent_mandate_Inr:
  assumes "verify_intent_mandate L env now mandate options = Inr ()"
  obtains n core ctx k payload where "normalize_intent_mandate L mandate = Inr n"
    "intent_mandate_core_payload L n = Inr core" "server_signature_payload L core = Inr payload"
    "intent_server_signing_key L env = Inr k"
    "ed25519_verify_text L payload
       (str_trimmed (x_display L) (object_or_empty (object_or_empty n ''signatures'') ''server'') ''signature'')
       (x_verifying_key L k)"
    "intent_user_signature_context L n (vi_expected_user_id options) = Inr ctx"
    "verify_user_signature L ctx (object_or_empty (object_or_empty n ''signatures'') ''user'')
       (vi_user_signature_method options) (vi_require_user_signature options) = Inr ()"
    "check_intent_time L now (object_or_empty n ''validTime'') = Inr ()"
    "check_server L (vi_expected_server options) n = Inr ()"
  using assms unfolding verify_intent_mandate_def check_server_signature_def Let_def
  by (auto simp: err_text_def split: if_splits sum.splits)

lemma verify_user_signature_required:
  "verify_user_signature L ctx sig mo True = Inr () \<Longrightarrow>
   \<exists>m. mo = Some m \<and> m_signature_method m = uc_signature_method ctx \<and> m_verify m ctx sig = Inr ()"
  by (auto simp: verify_user_signature_def Let_def split: option.splits if_splits)

lemma mandate_context_user:
  assumes c: "mandate_user_signature_context L ty n u = Inr ctx"
  shows "uc_expected_user_id ctx = u"
proof -
  from c obtain b where "im_get (object_or_empty n ''userAuthorization'') ''required'' = Some (JBool b)"
    by (auto simp: mandate_user_signature_context_def Let_def split: option.splits json.splits)
  with c show ?thesis by (auto simp: mandate_user_signature_context_def Let_def split: if_splits)
qed

lemma intent_context_user:
  "intent_user_signature_context L n u = Inr ctx \<Longrightarrow> uc_expected_user_id ctx = u"
  by (auto simp: intent_user_signature_context_def dest: mandate_context_user)

lemma check_intent_time_Inr:
  assumes "check_intent_time L now v = Inr ()"
  obtains a b ta tb where "truthy_text L v ''start'' = Some a" "truthy_text L v ''end'' = Some b"
    "parse_iso_z L a = Some ta" "parse_iso_z L b = Some tb" "ta \<le> now" "now \<le> tb"
  using assms by (auto simp: check_intent_time_def split: option.splits if_splits)


text \<open>A run that is approved: the mandate above is pending and comes back signed.\<close>

definition demo_method :: A4PUserSignatureMethod where
  "demo_method = \<lparr>m_signature_method = ''m'', m_method_policy = [], m_signing_options = (\<lambda>_ _. Inr []),
     m_verify = (\<lambda>_ _. Inr ())\<rparr>"

definition demo_service :: IntentAuthorizationService where
  "demo_service = \<lparr>sv_server_id = ''srv'', sv_display_text_renderer = None, sv_require_user_signature = True,
     sv_user_signature_method = Some demo_method,
     sv_pending = [(''m1'', \<lparr>pi_request = [(''userId'', JStr ''u'')], pi_mandate = demo_mandate\<rparr>)]\<rparr>"

lemma demo_identifier: "mandate_identifier demo_crates demo_mandate = Inr ''m1''"
  using demo_mandate_members(1)
  by (simp add: mandate_identifier_def Let_def) (simp add: demo_mandate_def INTENT_MANDATE_TYPE_def)

lemma demo_matches: "mandate_matches_pending demo_mandate demo_mandate (normalize_intent_mandate demo_crates)"
proof -
  have "json_wf (JObj (clear_user_signature demo_mandate))"
    by (simp add: clear_user_signature_def demo_mandate_def im_insert_def json_wf_simps) (simp add: json_wf.simps)
  then show ?thesis by (simp add: mandate_matches_pending_def demo_mandate_normal json_eq_refl)
qed

lemma demo_core: "\<exists>core. intent_mandate_core_payload demo_crates demo_mandate = Inr core"
  by (simp add: intent_mandate_core_payload_def demo_mandate_normal)

lemma demo_server_signature: "server_signature_of demo_mandate = Some [(''alg'', JStr ''EdDSA''), (''signature'', JStr ''s'')]"
  by (simp add: server_signature_of_def get_object_def demo_mandate_def)

lemma demo_context:
  "\<exists>ctx. intent_user_signature_context demo_crates demo_mandate u = Inr ctx \<and> uc_signature_method ctx = ''m''"
proof -
  obtain core where core: "intent_mandate_core_payload demo_crates demo_mandate = Inr core" using demo_core by blast
  have ty: "im_get demo_mandate ''type'' = Some (JStr INTENT_MANDATE_TYPE)"
    by (simp add: demo_mandate_def INTENT_MANDATE_TYPE_def)
  have ua: "object_or_empty demo_mandate ''userAuthorization'' = [(''required'', JBool True), (''signatureMethod'', JStr ''m'')]"
    by (simp add: demo_mandate_def object_or_empty_def get_object_def)
  show ?thesis
    by (simp add: intent_user_signature_context_def demo_mandate_normal mandate_user_signature_context_def ua
        server_signed_mandate_without_user_signature_def mandate_core_payload_def ty core signature_invalid_def
        demo_server_signature Let_def)
qed

lemma demo_parse: "parse_iso_z demo_crates ''1'' = Some 1" "parse_iso_z demo_crates ''9'' = Some 9"
  by (simp_all add: parse_iso_z_def demo_crates_def digit_val_def)

lemma demo_verified:
  "verify_intent_mandate demo_crates (\<lambda>_. None) 5 demo_mandate
     \<lparr>vi_expected_server = Some ''srv'', vi_expected_user_id = u, vi_require_user_signature = True,
      vi_user_signature_method = Some demo_method\<rparr> = Inr ()"
proof -
  obtain core where core: "intent_mandate_core_payload demo_crates demo_mandate = Inr core" using demo_core by blast
  obtain payload where payload: "server_signature_payload demo_crates core = Inr payload"
    using canonical_json_total by (metis server_signature_payload_def payload_text_def)
  obtain ctx where ctx: "intent_user_signature_context demo_crates demo_mandate u = Inr ctx" "uc_signature_method ctx = ''m''"
    using demo_context by blast
  have sig: "object_or_empty demo_mandate ''signatures'' = [(''server'', JObj [(''alg'', JStr ''EdDSA''), (''signature'', JStr ''s'')]),
      (''user'', JObj [(''signatureMethod'', JStr ''m'')])]"
    "Option.bind (im_get demo_mandate ''type'') as_str = Some INTENT_MANDATE_TYPE"
    "str_trimmed (x_display demo_crates) demo_mandate ''server'' = ''srv''"
    by (simp_all add: demo_mandate_def object_or_empty_def get_object_def INTENT_MANDATE_TYPE_def)
  have "ed25519_verify_text demo_crates payload ''s'' k" for k
    by (simp add: ed25519_verify_text_def b64url_decode_def demo_crates_def)
  then have "check_server_signature demo_crates (object_or_empty demo_mandate ''signatures'')
      (intent_mandate_core_payload demo_crates demo_mandate) (intent_server_signing_key demo_crates (\<lambda>_. None)) = Inr ()"
    unfolding check_server_signature_def sig(1) Let_def
    by (simp add: core payload demo_signing_key err_text_def object_or_empty_def get_object_def)
  moreover have "check_intent_time demo_crates 5 (object_or_empty demo_mandate ''validTime'') = Inr ()"
    by (simp add: check_intent_time_def demo_mandate_members truthy_text_def is_truthy_def py_str_def demo_parse)
  moreover have "verify_user_signature demo_crates ctx [(''signatureMethod'', JStr ''m'')] (Some demo_method) True = Inr ()"
    by (simp add: verify_user_signature_def ctx demo_method_def)
  moreover have "object_or_empty (object_or_empty demo_mandate ''signatures'') ''user'' = [(''signatureMethod'', JStr ''m'')]"
    unfolding sig(1) by (simp add: object_or_empty_def get_object_def)
  ultimately show ?thesis
    by (simp add: verify_intent_mandate_def sig(2,3) demo_mandate_normal err_text_def ctx check_server_def)
qed

lemma demo_completes:
  "\<exists>resp sv'. intent_complete demo_crates (\<lambda>_. None) 5 5 ''i'' ''n'' demo_service
     [(''signedMandate'', JObj demo_mandate)] = (Inr resp, sv') \<and> ir_approved resp"
proof -
  have u: "truthy_text demo_crates [(''userId'', JStr ''u'')] ''userId'' = Some ''u''"
    "truthy_text demo_crates [(''userId'', JStr ''u'')] ''server'' = None"
    by (simp_all add: truthy_text_def is_truthy_def py_str_def)
  obtain token where "issue_intent_token demo_crates (\<lambda>_. None) 5 ''i'' ''n'' demo_mandate demo_issue = Inr token"
    using issue_total [OF _ demo_mandate_normal _ _ demo_signing_key, of demo_issue 5 "''i''" "''n''"]
    by (auto simp: demo_issue_def demo_mandate_members)
  then show ?thesis
    by (simp add: intent_complete_def get_object_def demo_identifier demo_matches demo_service_def server_of_def u
        demo_verified demo_issue_def response_default_def)
qed


subsection \<open>One approval per prepared mandate\<close>

datatype intent_event =
    IntentPrepare env_source int string JsonDict
  | IntentComplete env_source int int string string JsonDict

definition intent_exec ::
  "('k, 'p) Crates \<Rightarrow> intent_event \<Rightarrow> IntentAuthorizationService \<Rightarrow> IntentAuthorizationService" where
  "intent_exec L ev sv =
     (case ev of
        IntentPrepare env now rnd request \<Rightarrow> snd (intent_prepare L env now rnd sv request)
      | IntentComplete env now now' r1 r2 request \<Rightarrow> snd (intent_complete L env now now' r1 r2 sv request))"

definition intent_pending :: "IntentAuthorizationService \<Rightarrow> string \<Rightarrow> bool" where
  "intent_pending sv i = im_contains (sv_pending sv) i"

text \<open>The event prepares, respectively gets approved, the mandate with this identifier.\<close>

definition intent_prepares ::
  "('k, 'p) Crates \<Rightarrow> string \<Rightarrow> intent_event \<Rightarrow> IntentAuthorizationService \<Rightarrow> bool" where
  "intent_prepares L i ev sv =
     (case ev of
        IntentPrepare env now rnd request \<Rightarrow>
          (case intent_prepare_inner L env now rnd sv request (object_or_empty request ''intent'') of
             Inr (mid, _) \<Rightarrow> mid = i
           | Inl _ \<Rightarrow> False)
      | _ \<Rightarrow> False)"

definition intent_approves ::
  "('k, 'p) Crates \<Rightarrow> string \<Rightarrow> intent_event \<Rightarrow> IntentAuthorizationService \<Rightarrow> bool" where
  "intent_approves L i ev sv =
     (case ev of
        IntentComplete env now now' r1 r2 request \<Rightarrow>
          (case fst (intent_complete L env now now' r1 r2 sv request) of
             Inr resp \<Rightarrow> ir_approved resp
           | Inl _ \<Rightarrow> False) \<and>
          map_option (mandate_identifier L) (get_object request ''signedMandate'') = Some (Inr i)
      | _ \<Rightarrow> False)"

lemma intent_prepare_pending:
  "im_contains (sv_pending (snd (intent_prepare L env now rnd sv request))) i \<Longrightarrow>
   im_contains (sv_pending sv) i \<or> intent_prepares L i (IntentPrepare env now rnd request) sv"
  by (auto simp: intent_prepare_def intent_prepares_def im_contains_def split: sum.splits if_splits)

lemma intent_complete_pending:
  "im_contains (sv_pending (snd (intent_complete L env now now' r1 r2 sv request))) i \<Longrightarrow>
   im_contains (sv_pending sv) i"
  unfolding intent_complete_def Let_def im_contains_def
  by (auto split: sum.splits option.splits if_splits)

interpretation intents: pending_service "intent_exec L" intent_pending "intent_prepares L" "intent_approves L"
  for L :: "('k, 'p) Crates"
proof
  fix i ev sv
  assume approved: "intent_approves L i ev sv"
  show "intent_pending sv i \<and> \<not> intent_pending (intent_exec L ev sv) i"
  proof (cases ev)
    case (IntentPrepare env now rnd request)
    with approved show ?thesis by (simp add: intent_approves_def)
  next
    case (IntentComplete env now now' r1 r2 request)
    with approved obtain resp sv' where c: "intent_complete L env now now' r1 r2 sv request = (Inr resp, sv')"
      "ir_approved resp" "map_option (mandate_identifier L) (get_object request ''signedMandate'') = Some (Inr i)"
      by (cases "intent_complete L env now now' r1 r2 sv request") (auto simp: intent_approves_def split: sum.splits)
    from c(1,2) show ?thesis
      by (rule intent_complete_approved)
        (use c IntentComplete in \<open>auto simp: intent_pending_def intent_exec_def im_contains_def\<close>)
  qed
next
  fix ev sv i
  assume "intent_pending (intent_exec L ev sv) i"
  then show "intent_pending sv i \<or> intent_prepares L i ev sv"
    by (cases ev)
      (auto simp: intent_pending_def intent_exec_def dest: intent_prepare_pending intent_complete_pending)
qed

text \<open>
  C35. Every prepared intent mandate yields at most one token: over any interleaving of prepare and
  complete calls, with any clock, keys and randomness, an identifier that is not pending at the start
  is approved at most as often as it was prepared.
\<close>

theorem intent_single_use:
  assumes "\<not> intent_pending sv i"
  shows "count_run (intent_exec L) (intent_approves L i) sv evs \<le> count_run (intent_exec L) (intent_prepares L i) sv evs"
  using assms by (rule intents.single_use)

theorem intent_single_use_witness:
  "count_run (intent_exec demo_crates) (intent_approves demo_crates ''m2'') demo_service
     [IntentComplete (\<lambda>_. None) 5 5 ''i'' ''n'' [(''signedMandate'', JObj demo_mandate)],
      IntentPrepare (\<lambda>_. None) 6 ''r'' []] \<le>
   count_run (intent_exec demo_crates) (intent_prepares demo_crates ''m2'') demo_service
     [IntentComplete (\<lambda>_. None) 5 5 ''i'' ''n'' [(''signedMandate'', JObj demo_mandate)],
      IntentPrepare (\<lambda>_. None) 6 ''r'' []]"
  by (rule intent_single_use) (simp add: intent_pending_def im_contains_def demo_service_def)

subsection \<open>The limit of a token over verifications\<close>

text \<open>
  A call of \<open>verify_token\<close>: what the environment of the store decides, the clock of the stateless
  checks, the clock of the store, and the request. The stateless checks decide which use of the store
  it makes.
\<close>

record 'e verify_call =
  v_env :: 'e
  v_now :: int
  v_store_now :: int
  v_request :: JsonDict

definition usage_call_of ::
  "('k, 'p) Crates \<Rightarrow> env_source \<Rightarrow> 'e verify_call \<Rightarrow> 'e usage_call option" where
  "usage_call_of L env v =
     (let token = object_or_empty (v_request v) ''token'';
          token_id = str_trimmed (x_display L) token ''tokenId''
      in case verify_intent_token L env (v_now v) token
           (token_options L (object_or_empty (v_request v) ''expected'')) of
           Inl _ \<Rightarrow> None
         | Inr _ \<Rightarrow>
             if token_id = [] then None
             else (case normalize_intent_scope (x_display L) (im_get token ''intent'') of
                 Inl _ \<Rightarrow> None
               | Inr intent \<Rightarrow>
                   (case (get_object intent ''executionPolicy'',
                          parse_iso_z L (str_trimmed (x_display L) token ''expireAt'')) of
                      (Some policy, Some expire) \<Rightarrow>
                        Some \<lparr>c_env = v_env v, c_now = v_store_now v, c_token = token_id,
                          c_max = (case Option.bind (im_get policy ''maxExecutions'') as_int of Some n \<Rightarrow> n | None \<Rightarrow> 0),
                          c_expire = expire\<rparr>
                    | _ \<Rightarrow> None)))"

fun run_verify ::
  "('k, 'p) Crates \<Rightarrow> env_source \<Rightarrow> ('s \<Rightarrow> 'e \<Rightarrow> int \<Rightarrow> string \<Rightarrow> int \<Rightarrow> int \<Rightarrow> 's \<times> consume_result) \<Rightarrow>
   's \<Rightarrow> 'e verify_call list \<Rightarrow> TokenVerificationResponse list" where
  "run_verify L env consume s [] = []"
| "run_verify L env consume s (v # vs) =
     (case verify_token L env (v_now v) (\<lambda>s. consume s (v_env v) (v_store_now v)) s (v_request v) of
        (s', r) \<Rightarrow> r # run_verify L env consume s' vs)"

text \<open>How many verifications of the token's limited uses answered that it is valid.\<close>

definition valid_uses ::
  "('k, 'p) Crates \<Rightarrow> env_source \<Rightarrow> string \<Rightarrow> ('e verify_call \<times> TokenVerificationResponse) list \<Rightarrow> nat" where
  "valid_uses L env t rs =
     length (filter (\<lambda>(v, r). (case usage_call_of L env v of Some c \<Rightarrow> calls_token t c | None \<Rightarrow> False) \<and> tr_valid r) rs)"

lemma verify_token_uses:
  assumes "usage_call_of L env v = Some c"
    and "consume s (c_env c) (c_now c) (c_token c) (c_max c) (c_expire c) = (s', r)"
  shows "\<exists>resp. verify_token L env (v_now v) (\<lambda>s. consume s (v_env v) (v_store_now v)) s (v_request v) = (s', resp) \<and>
    tr_valid resp = was_granted r"
  using assms
  by (auto simp: usage_call_of_def verify_token_def consume_token_usage_def token_refused_def was_granted_def Let_def
      split: sum.splits if_splits option.splits)

lemma verify_token_unused:
  assumes "usage_call_of L env v = None"
  shows "fst (verify_token L env (v_now v) consume s (v_request v)) = s"
  using assms
  by (auto simp: usage_call_of_def verify_token_def consume_token_usage_def Let_def
      split: sum.splits if_splits option.splits)

lemma valid_uses_granted:
  "valid_uses L env t (zip vs (run_verify L env consume s vs)) =
   granted t (zip (List.map_filter (usage_call_of L env) vs)
     (run_consumes consume s (List.map_filter (usage_call_of L env) vs)))"
proof (induction vs arbitrary: s)
  case (Cons v vs)
  show ?case
  proof (cases "usage_call_of L env v")
    case None
    then show ?thesis
      using verify_token_unused [OF None, of "\<lambda>s. consume s (v_env v) (v_store_now v)" s] Cons.IH [of s]
      by (cases "verify_token L env (v_now v) (\<lambda>s. consume s (v_env v) (v_store_now v)) s (v_request v)")
        (simp add: valid_uses_def)
  next
    case (Some c)
    obtain s' r where c: "consume s (c_env c) (c_now c) (c_token c) (c_max c) (c_expire c) = (s', r)" by fastforce
    from verify_token_uses [OF Some, of consume s s' r, OF c] Cons.IH [of s'] c Some show ?thesis
      by (auto simp: valid_uses_def granted_def)
  qed
qed (simp add: valid_uses_def granted_def)

text \<open>A concrete token with a limit of one execution, expiring at 9, and a request for it.\<close>

definition demo_token :: JsonDict where
  "demo_token =
     [(''type'', JStr ''a4p/v1/intent-token''), (''alg'', JStr ''EdDSA''), (''signature'', JStr ''s''),
      (''mandateId'', JStr ''m1''), (''keyId'', JStr ''server#intent-token-v1:m1''), (''tokenId'', JStr ''s''),
      (''intent'', JObj [(''actions'', JArr [JObj [(''name'', JStr ''read''), (''params'', JStr ''*''),
         (''allowExtraParams'', JBool False)]]), (''executionPolicy'', JObj [(''maxExecutions'', JInt 1)])]),
      (''expireAt'', JStr ''9'')]"

definition demo_request :: JsonDict where
  "demo_request = [(''token'', JObj demo_token), (''expected'', JObj [(''action'', JStr ''read'')])]"

lemma demo_token_members:
  "str_trimmed d demo_token ''alg'' = ''EdDSA''" "str_trimmed d demo_token ''signature'' = ''s''"
  "str_trimmed d demo_token ''mandateId'' = ''m1''" "str_trimmed d demo_token ''keyId'' = ''server#intent-token-v1:m1''"
  "str_trimmed d demo_token ''tokenId'' = ''s''" "str_trimmed d demo_token ''expireAt'' = ''9''"
  "Option.bind (im_get demo_token ''type'') as_str = Some INTENT_TOKEN_TYPE"
proof -
  have "trim ''server#intent-token-v1:m1'' = ''server#intent-token-v1:m1''" by (rule trim_eq_self) (simp_all add: is_space_def)
  then show "str_trimmed d demo_token ''keyId'' = ''server#intent-token-v1:m1''" by (simp add: demo_token_def)
qed (simp_all add: demo_token_def INTENT_TOKEN_TYPE_def)

lemma demo_token_scope:
  "normalize_intent_scope d (im_get demo_token ''intent'') = Inr (object_or_empty demo_token ''intent'')"
  "get_object (object_or_empty demo_token ''intent'') ''executionPolicy'' = Some [(''maxExecutions'', JInt 1)]"
  "params_match_intent_token demo_crates demo_token ''read'' params = Inr ()"
  by (simp_all add: demo_token_def normalize_intent_scope_def normalize_action_specs_def
      normalize_action_spec_def normalize_allow_extra_def normalize_params_constraint_def
      normalize_execution_policy_def positive_int_def as_int_def im_contains_def im_insert_def
      object_or_empty_def get_object_def params_match_intent_token_def params_match_intent_scope_def as_str_def)

lemma demo_token_verifies:
  assumes "now \<le> 9"
  shows "verify_intent_token demo_crates (\<lambda>_. None) now demo_token
    (token_options demo_crates [(''action'', JStr ''read'')]) = Inr ()"
proof -
  obtain input where input: "intent_token_signing_input demo_crates demo_token = Inr input"
    using canonical_json_total demo_token_scope(1)
    by (fastforce simp: intent_token_signing_input_def intent_token_core_payload_def payload_text_def)
  have sig: "ed25519_verify_text demo_crates input ''s'' k" for k
    by (simp add: ed25519_verify_text_def b64url_decode_def demo_crates_def)
  have kid: "intent_token_key_id ''m1'' = ''server#intent-token-v1:m1''" by (simp add: intent_token_key_id_def)
  have opts: "token_options demo_crates [(''action'', JStr ''read'')] =
      \<lparr>vt_action = ''read'', vt_params = Some [], vt_expected_agent_id = None, vt_expected_user_id = None,
       vt_expected_agent_key_id = None\<rparr>"
    by (simp add: token_options_def str_or_empty_def is_truthy_def py_str_def object_or_empty_def get_object_def
        expected_text_def)
  show ?thesis
    using assms
    by (simp add: verify_intent_token_def demo_token_members input err_text_def demo_signing_key sig kid opts
        verify_intent_token_after_signature_def demo_parse check_binding_def demo_token_scope)
qed

lemma demo_usage:
  assumes "v_request v = demo_request" "v_now v \<le> 9"
  shows "usage_call_of demo_crates (\<lambda>_. None) v =
    Some \<lparr>c_env = v_env v, c_now = v_store_now v, c_token = ''s'', c_max = 1, c_expire = 9\<rparr>"
proof -
  have r: "object_or_empty demo_request ''token'' = demo_token"
    "object_or_empty demo_request ''expected'' = [(''action'', JStr ''read'')]"
    by (simp_all add: demo_request_def object_or_empty_def get_object_def)
  show ?thesis
    using demo_token_verifies [OF assms(2)]
    by (simp add: usage_call_of_def assms(1) r demo_token_members demo_token_scope demo_parse as_int_def)
qed



text \<open>
  With the SQLite store the limit is never exceeded, whichever database calls fail: at most
  \<open>mx\<close> of the requests for the token are answered as valid.
\<close>

lemma token_limit_sqlite:
  fixes vs :: "(sql_call \<Rightarrow> bool) verify_call list"
  assumes "uses = List.map_filter (usage_call_of L env) vs" "0 < mx" "clock_runs uses" "token_calls t mx ex uses"
  shows "int (valid_uses L env t (zip vs (run_verify L env SQLite_consume [] vs))) \<le> mx"
  using assms(2-) by (simp add: valid_uses_granted assms(1) [symmetric] sqlite_granted_bound)

lemma token_limit_sqlite_witness:
  "int (valid_uses demo_crates (\<lambda>_. None) ''s'' (zip
      [\<lparr>v_env = (\<lambda>c. c = Commit), v_now = 4, v_store_now = 5, v_request = demo_request\<rparr>,
       \<lparr>v_env = (\<lambda>_. False), v_now = 6, v_store_now = 6, v_request = demo_request\<rparr>]
      (run_verify demo_crates (\<lambda>_. None) SQLite_consume []
      [\<lparr>v_env = (\<lambda>c. c = Commit), v_now = 4, v_store_now = 5, v_request = demo_request\<rparr>,
       \<lparr>v_env = (\<lambda>_. False), v_now = 6, v_store_now = 6, v_request = demo_request\<rparr>]))) \<le> 1"
  by (rule token_limit_sqlite [OF refl, where ex = 9])
    (simp_all add: demo_usage List.map_filter_def clock_runs_def token_calls_def)

lemma usage_call_facts:
  assumes "usage_call_of L env v = Some c"
  shows "trim (c_token c) = c_token c" "c_token c \<noteq> []" "0 < c_max c"
    "c_env c = v_env v" "c_now c = v_store_now v"
proof -
  obtain intent policy where c: "str_trimmed (x_display L) (object_or_empty (v_request v) ''token'') ''tokenId'' = c_token c"
    "c_token c \<noteq> []" "c_env c = v_env v" "c_now c = v_store_now v"
    "normalize_intent_scope (x_display L) (im_get (object_or_empty (v_request v) ''token'') ''intent'') = Inr intent"
    "get_object intent ''executionPolicy'' = Some policy"
    "c_max c = (case Option.bind (im_get policy ''maxExecutions'') as_int of Some n \<Rightarrow> n | None \<Rightarrow> 0)"
    using assms by (auto simp: usage_call_of_def Let_def split: sum.splits if_splits option.splits)
  from c(6) have "im_get intent ''executionPolicy'' = Some (JObj policy)"
    by (auto simp: get_object_Some)
  from normalize_intent_scope_policy [OF c(5) this] obtain n where "policy = [(''maxExecutions'', JInt n)]" "0 < n" "is_i64 n"
    by auto
  with c(7) have "0 < c_max c" by (simp add: as_int_def)
  with c show "trim (c_token c) = c_token c" "c_token c \<noteq> []" "0 < c_max c"
    "c_env c = v_env v" "c_now c = v_store_now v"
    by (auto simp: str_trimmed_def dest: sym)
qed

lemma run_verify_valid:
  assumes "usage_call_of L env v = Some c"
    and "list_all was_granted (run_consumes consume s (replicate n c))"
  shows "list_all tr_valid (run_verify L env consume s (replicate n v))"
  using assms(2)
proof (induction n arbitrary: s)
  case (Suc n)
  obtain s' r where c: "consume s (c_env c) (c_now c) (c_token c) (c_max c) (c_expire c) = (s', r)" by fastforce
  from verify_token_uses [OF assms(1), of consume s s' r, OF c] c Suc show ?case by auto
qed simp

text \<open>
  In the second of its expiry a token's limit does not hold: verification accepts the token
  up to and including \<open>expireAt\<close>, while the store drops the row of a token whose expiry is not
  after the clock, so any number of requests in that second are all answered as valid, whatever
  the limit.
\<close>

lemma limit_ignored_at_expiry:
  assumes "usage_call_of L env v = Some c" "v_store_now v = c_expire c" "0 < c_expire c"
  shows "list_all tr_valid (run_verify L env memory_consume [] (replicate n v))"
proof (rule run_verify_valid [OF assms(1)])
  note facts = usage_call_facts [OF assms(1)]
  have "c = \<lparr>c_env = (), c_now = c_expire c, c_token = c_token c, c_max = c_max c, c_expire = c_expire c\<rparr>"
    using facts assms(2) by simp
  with consume_at_expiry_unlimited [of "c_token c" "c_max c" "c_expire c" "[]" n] facts assms(3)
  have "run_consumes memory_consume [] (replicate n c) = replicate n (Inr (True, 1))" by simp
  then show "list_all was_granted (run_consumes memory_consume [] (replicate n c))"
    by (simp add: was_granted_def list_all_iff)
qed

lemma limit_ignored_at_expiry_witness:
  "list_all tr_valid (run_verify demo_crates (\<lambda>_. None) memory_consume []
     (replicate 3 \<lparr>v_env = (), v_now = 9, v_store_now = 9, v_request = demo_request\<rparr>))"
  by (rule limit_ignored_at_expiry [OF demo_usage]) simp_all

subsection \<open>Codes of refusals\<close>

text \<open>
  A refusal for a parameter called \<open>limit\<close> is reported under the wrong code: the code of a
  refusal is read off words of its reason, and the reason quotes the parameter's name, so a missing
  or mismatched parameter \<open>limit\<close> is never reported as a scope mismatch but as an exceeded usage
  (or as expired, when the action's name says so).
\<close>

lemma limit_param_misreported:
  assumes "constraint_mismatch action actual [(''limit'', expected)] = Some reason"
  shows "error_code reason ''TOKEN'' = ''TOKEN_USAGE_EXCEEDED'' \<or> error_code reason ''TOKEN'' = ''TOKEN_EXPIRED''"
proof -
  have skip: "contains_text (xs @ ys) p" if "contains_text ys p" for xs ys p
    using that by (induction xs) auto
  have start: "starts_with (p @ ys) p" for p ys by (induction p) auto
  have here: "contains_text (p @ ys) p" for p ys
    using start [of p ys] by (cases "p @ ys") auto
  have found: "contains_text (xs @ p @ ys) p" for xs p ys using skip here by metis
  have "reason = ''Required param '' @ quoted ''limit'' @ '' missing for action '' @ quoted action \<or>
      reason = ''Param '' @ quoted ''limit'' @ '' mismatch for action '' @ quoted action"
    using assms by (auto split: option.splits if_splits)
  then obtain a b where "reason = a @ quoted ''limit'' @ b" by metis
  then have "to_lowercase reason = to_lowercase (a @ quot) @ ''limit'' @ to_lowercase (quot @ b)"
    by (simp add: quoted_def to_lowercase_def lower_char_def)
  then have "contains_text (to_lowercase reason) ''limit''" using found by metis
  then show ?thesis by (simp add: error_code_def Let_def)
qed

lemma limit_param_misreported_witness:
  "error_code (''Required param '' @ quoted ''limit'' @ '' missing for action '' @ quoted ''list'') ''TOKEN'' = ''TOKEN_USAGE_EXCEEDED'' \<or>
   error_code (''Required param '' @ quoted ''limit'' @ '' missing for action '' @ quoted ''list'') ''TOKEN'' = ''TOKEN_EXPIRED''"
  by (rule limit_param_misreported [of "''list''" "[]" "JInt 5"]) simp

end
