(* ===== verification/OperationLaws.thy ===== *)
theory OperationLaws
  imports OperationService IntentLaws
begin

text \<open>
  Correctness of one-time operation authorization: an approval is for the very operation that was
  prepared and signed, inside its validity, and each prepared operation is approved at most once.
\<close>

subsection \<open>Approvals\<close>

lemma operation_rejected_simps [simp]: "\<not> or_approved (operation_rejected r c)"
  by (simp add: operation_rejected_def)

lemma operation_complete_approved:
  assumes "operation_complete L env now_prune now sv request = (res, sv')" "or_approved res"
  obtains signed oid pend where "get_object request ''signedMandate'' = Some signed"
    "mandate_identifier L signed = Inr oid" "im_get (os_pending (prune_expired now_prune sv)) oid = Some pend"
    "completion_check L env now (prune_expired now_prune sv) request signed pend = Inr ()"
    "or_operation_id res = Some oid"
    "os_pending sv' = im_remove oid (os_pending (prune_expired now_prune sv))"
proof (cases "get_object request ''signedMandate''")
  case None
  with assms show thesis by (auto simp: operation_complete_def)
next
  case signed: (Some signed)
  show thesis
  proof (cases "mandate_identifier L signed")
    case (Inl e)
    with signed assms show thesis by (auto simp: operation_complete_def)
  next
    case oid: (Inr oid)
    show thesis
    proof (cases "im_get (os_pending (prune_expired now_prune sv)) oid")
      case None
      with signed oid assms show thesis by (auto simp: operation_complete_def)
    next
      case pend: (Some pend)
      show thesis
      proof (cases "completion_check L env now (prune_expired now_prune sv) request signed pend")
        case (Inl e)
        with signed oid pend assms show thesis by (cases e) (auto simp: operation_complete_def)
      next
        case (Inr u)
        with that [OF signed oid pend] signed oid pend assms show thesis
          by (auto simp: operation_complete_def Let_def)
      qed
    qed
  qed
qed

lemma completion_check_Inr:
  assumes "completion_check L env now sv request signed pend = Inr ()"
  obtains current signed_op where "normalize_operation L (im_get request ''operation'') = Inr current"
    "json_eq (JObj current) (JObj (po_operation pend))"
    "mandate_matches_pending signed (po_mandate pend) (normalize_operation_mandate L)"
    "normalize_operation L (im_get signed ''operation'') = Inr signed_op" "json_eq (JObj signed_op) (JObj current)"
    "verify_operation_mandate_for_completion L env now signed
      \<lparr>vo_expected = Some current,
       vo_expected_user_id = Some (str_or_empty (x_display L) (po_request pend) ''userId''),
       vo_require_user_signature = os_require_user_signature sv,
       vo_user_signature_method = os_user_signature_method sv\<rparr> = Inr ()"
  using assms unfolding completion_check_def by (auto split: sum.splits if_splits)

lemma verify_operation_Inr:
  assumes "verify_operation_mandate_for_completion L env now mandate options = Inr ()"
  obtains n ctx where "normalize_operation_mandate L mandate = Inr n"
    "operation_user_signature_context L n (vo_expected_user_id options) = Inr ctx"
    "verify_user_signature L ctx (object_or_empty (object_or_empty n ''signatures'') ''user'')
       (vo_user_signature_method options) (vo_require_user_signature options) = Inr ()"
    "check_operation_time L now (object_or_empty n ''validTime'') = Inr ()"
  using assms unfolding verify_operation_mandate_for_completion_def Let_def
  by (auto simp: err_text_def split: if_splits sum.splits)

lemma check_operation_time_Inr:
  assumes "check_operation_time L now v = Inr ()"
  obtains u t where "truthy_text L v ''until'' = Some u" "parse_iso_z L u = Some t" "now \<le> t"
  using assms by (auto simp: check_operation_time_def split: option.splits if_splits)


text \<open>A run that is approved.\<close>

definition demo_operation :: JsonDict where
  "demo_operation = [(''action'', JStr ''read''), (''params'', JObj [])]"

definition demo_op_mandate :: JsonDict where
  "demo_op_mandate =
     [(''type'', JStr ''a4p/v1/operation-mandate''), (''operationId'', JStr ''m1''),
      (''operation'', JObj demo_operation), (''validTime'', JObj [(''until'', JStr ''9'')]),
      (''userAuthorization'', JObj [(''required'', JBool True), (''signatureMethod'', JStr ''m'')]),
      (''signatures'', JObj [(''server'', JObj [(''alg'', JStr ''EdDSA''), (''signature'', JStr ''s'')]),
         (''user'', JObj [(''signatureMethod'', JStr ''m'')])])]"

definition demo_op_service :: OperationAuthorizationService where
  "demo_op_service = \<lparr>os_server_id = ''srv'', os_display_text_renderer = None, os_require_user_signature = True,
     os_user_signature_method = Some demo_method,
     os_pending = [(''m1'', \<lparr>po_request = [(''userId'', JStr ''u'')], po_operation = demo_operation,
       po_mandate = demo_op_mandate, po_expire_at_epoch = 9\<rparr>)]\<rparr>"

lemma demo_operation_normal: "normalize_operation_object demo_crates demo_operation = Inr demo_operation"
  by (simp add: normalize_operation_object_def demo_operation_def im_insert_def)

lemma demo_op_members:
  "object_or_empty demo_op_mandate ''operation'' = demo_operation"
  "im_get demo_op_mandate ''operation'' = Some (JObj demo_operation)"
  "im_get demo_op_mandate ''type'' = Some (JStr OPERATION_MANDATE_TYPE)"
  "object_or_empty demo_op_mandate ''validTime'' = [(''until'', JStr ''9'')]"
  "object_or_empty demo_op_mandate ''userAuthorization'' = [(''required'', JBool True), (''signatureMethod'', JStr ''m'')]"
  "object_or_empty demo_op_mandate ''signatures'' =
     [(''server'', JObj [(''alg'', JStr ''EdDSA''), (''signature'', JStr ''s'')]),
      (''user'', JObj [(''signatureMethod'', JStr ''m'')])]"
  "server_signature_of demo_op_mandate = Some [(''alg'', JStr ''EdDSA''), (''signature'', JStr ''s'')]"
  by (simp_all add: demo_op_mandate_def object_or_empty_def get_object_def OPERATION_MANDATE_TYPE_def server_signature_of_def)

lemma demo_op_normal: "normalize_operation_mandate demo_crates demo_op_mandate = Inr demo_op_mandate"
proof -
  have "signature_container demo_op_mandate = object_or_empty demo_op_mandate ''signatures''"
    unfolding signature_container_def demo_op_members Let_def
    by (simp add: object_or_empty_def get_object_def im_insert_def)
  then show ?thesis
    by (simp add: normalize_operation_mandate_def demo_op_members demo_operation_normal)
      (simp add: demo_op_mandate_def im_insert_def OPERATION_MANDATE_TYPE_def)
qed

lemma demo_op_core: "\<exists>core. operation_mandate_core_payload demo_crates demo_op_mandate = Inr core"
  by (simp add: operation_mandate_core_payload_def demo_op_normal)

lemma demo_op_verified:
  "verify_operation_mandate_for_completion demo_crates (\<lambda>_. None) 5 demo_op_mandate
     \<lparr>vo_expected = Some demo_operation, vo_expected_user_id = u, vo_require_user_signature = True,
      vo_user_signature_method = Some demo_method\<rparr> = Inr ()"
proof -
  obtain core where core: "operation_mandate_core_payload demo_crates demo_op_mandate = Inr core" using demo_op_core by blast
  obtain payload where payload: "server_signature_payload demo_crates core = Inr payload"
    using canonical_json_total by (metis server_signature_payload_def payload_text_def)
  have not_intent: "OPERATION_MANDATE_TYPE \<noteq> INTENT_MANDATE_TYPE"
    by (simp add: OPERATION_MANDATE_TYPE_def INTENT_MANDATE_TYPE_def)
  then obtain ctx where ctx: "operation_user_signature_context demo_crates demo_op_mandate u = Inr ctx"
      "uc_signature_method ctx = ''m''"
    by (simp add: operation_user_signature_context_def demo_op_normal mandate_user_signature_context_def demo_op_members
        server_signed_mandate_without_user_signature_def mandate_core_payload_def core signature_invalid_def Let_def)
  have sig: "ed25519_verify_text demo_crates payload ''s'' k" for k
    by (simp add: ed25519_verify_text_def b64url_decode_def demo_crates_def)
  have key: "\<exists>k. operation_server_signing_key demo_crates (\<lambda>_. None) = Inr k"
    by (simp add: operation_server_signing_key_def ed25519_private_key_from_env_in_def
      is_production_environment_in_def to_lowercase_def demo_crates_def)
  then have "check_server_signature demo_crates (object_or_empty demo_op_mandate ''signatures'')
      (operation_mandate_core_payload demo_crates demo_op_mandate) (operation_server_signing_key demo_crates (\<lambda>_. None)) = Inr ()"
    unfolding check_server_signature_def demo_op_members(6) Let_def
    by (auto simp: core payload sig err_text_def object_or_empty_def get_object_def)
  moreover have "verify_user_signature demo_crates ctx [(''signatureMethod'', JStr ''m'')] (Some demo_method) True = Inr ()"
    by (simp add: verify_user_signature_def ctx demo_method_def)
  moreover have "check_operation_time demo_crates 5 [(''until'', JStr ''9'')] = Inr ()"
    by (simp add: check_operation_time_def truthy_text_def is_truthy_def py_str_def demo_parse)
  moreover have "object_or_empty (object_or_empty demo_op_mandate ''signatures'') ''user'' = [(''signatureMethod'', JStr ''m'')]"
    unfolding demo_op_members by (simp add: object_or_empty_def get_object_def)
  moreover have "opt_json_eq (im_get demo_operation k) (im_get demo_operation k)" for k
  proof -
    have "json_eq (JStr ''read'') (JStr ''read'')" "json_eq (JObj []) (JObj [])" by (subst json_eq.simps, simp)+
    then show ?thesis by (simp add: opt_json_eq_def demo_operation_def)
  qed
  ultimately show ?thesis
    by (simp add: verify_operation_mandate_for_completion_def demo_op_members(1,3,4) demo_op_normal err_text_def ctx
        demo_operation_normal)
qed

lemma demo_op_completes:
  "\<exists>res sv'. operation_complete demo_crates (\<lambda>_. None) 4 5 demo_op_service
     [(''signedMandate'', JObj demo_op_mandate), (''operation'', JObj demo_operation)] = (res, sv') \<and> or_approved res"
proof -
  have oid: "mandate_identifier demo_crates demo_op_mandate = Inr ''m1''"
    by (simp add: mandate_identifier_def demo_op_members(3) OPERATION_MANDATE_TYPE_def INTENT_MANDATE_TYPE_def Let_def)
      (simp add: demo_op_mandate_def)
  have wf: "json_wf (JObj demo_operation)" "json_wf (JObj (clear_user_signature demo_op_mandate))"
    by (simp_all add: demo_operation_def clear_user_signature_def demo_op_mandate_def im_insert_def json_wf_simps)
      (simp_all add: json_wf.simps)
  have "mandate_matches_pending demo_op_mandate demo_op_mandate (normalize_operation_mandate demo_crates)"
    using wf by (simp add: mandate_matches_pending_def demo_op_normal json_eq_refl)
  moreover have "prune_expired 4 demo_op_service = demo_op_service"
    by (simp add: prune_expired_def demo_op_service_def im_retain_def)
  moreover have "im_get (os_pending demo_op_service) ''m1'' = Some \<lparr>po_request = [(''userId'', JStr ''u'')],
      po_operation = demo_operation, po_mandate = demo_op_mandate, po_expire_at_epoch = 9\<rparr>"
    "os_require_user_signature demo_op_service" "os_user_signature_method demo_op_service = Some demo_method"
    by (simp_all add: demo_op_service_def)
  ultimately show ?thesis
    using wf
    by (simp add: operation_complete_def get_object_def oid completion_check_def normalize_operation_def
        demo_operation_normal demo_op_members json_eq_refl demo_op_verified Let_def)
qed


subsection \<open>One approval per prepared operation\<close>

datatype operation_event =
    OperationPrepare env_source int int string JsonDict
  | OperationComplete env_source int int JsonDict
  | SetPendingExpiry string int

definition operation_exec ::
  "('k, 'p) Crates \<Rightarrow> operation_event \<Rightarrow> OperationAuthorizationService \<Rightarrow> OperationAuthorizationService" where
  "operation_exec L ev sv =
     (case ev of
        OperationPrepare env t now rnd request \<Rightarrow> snd (operation_prepare L env t now rnd sv request)
      | OperationComplete env t now request \<Rightarrow> snd (operation_complete L env t now sv request)
      | SetPendingExpiry oid t \<Rightarrow> snd (set_pending_expiry oid t sv))"

definition operation_pending :: "OperationAuthorizationService \<Rightarrow> string \<Rightarrow> bool" where
  "operation_pending sv i = im_contains (os_pending sv) i"

definition operation_prepares ::
  "('k, 'p) Crates \<Rightarrow> string \<Rightarrow> operation_event \<Rightarrow> OperationAuthorizationService \<Rightarrow> bool" where
  "operation_prepares L i ev sv =
     (case ev of
        OperationPrepare env t now rnd request \<Rightarrow>
          (case operation_prepare_inner L env now rnd (prune_expired t sv) request of
             Inr (oid, _) \<Rightarrow> oid = i
           | Inl _ \<Rightarrow> False)
      | _ \<Rightarrow> False)"

definition operation_approves ::
  "('k, 'p) Crates \<Rightarrow> string \<Rightarrow> operation_event \<Rightarrow> OperationAuthorizationService \<Rightarrow> bool" where
  "operation_approves L i ev sv =
     (case ev of
        OperationComplete env t now request \<Rightarrow>
          (let res = fst (operation_complete L env t now sv request) in
           or_approved res \<and> or_operation_id res = Some i)
      | _ \<Rightarrow> False)"

lemma prune_contains: "im_contains (os_pending (prune_expired t sv)) i \<Longrightarrow> im_contains (os_pending sv) i"
proof -
  have "dom (map_of (im_retain P m)) \<subseteq> dom (map_of m)" for P and m :: "(string, PendingOperation) imap"
    by (auto simp: dom_map_of_conv_image_fst im_retain_def image_iff)
  then show "im_contains (os_pending (prune_expired t sv)) i \<Longrightarrow> im_contains (os_pending sv) i"
    by (auto simp: im_contains_def prune_expired_def domIff subset_iff)
qed

lemma operation_prepare_pending:
  "im_contains (os_pending (snd (operation_prepare L env t now rnd sv request))) i \<Longrightarrow>
   im_contains (os_pending (prune_expired t sv)) i \<or> operation_prepares L i (OperationPrepare env t now rnd request) sv"
  by (auto simp: operation_prepare_def operation_prepares_def im_contains_def Let_def split: sum.splits if_splits)

lemma operation_complete_pending:
  "im_contains (os_pending (snd (operation_complete L env t now sv request))) i \<Longrightarrow>
   im_contains (os_pending (prune_expired t sv)) i"
  unfolding operation_complete_def Let_def im_contains_def
  by (auto split: sum.splits option.splits if_splits)

interpretation operations: pending_service "operation_exec L" operation_pending "operation_prepares L" "operation_approves L"
  for L :: "('k, 'p) Crates"
proof
  fix i ev sv
  assume approved: "operation_approves L i ev sv"
  then obtain env t now request where ev: "ev = OperationComplete env t now request"
    by (cases ev) (simp_all add: operation_approves_def)
  obtain res sv' where c: "operation_complete L env t now sv request = (res, sv')" by fastforce
  with approved ev have a: "or_approved res" "or_operation_id res = Some i"
    by (simp_all add: operation_approves_def Let_def)
  from c a(1) obtain signed oid pend where "get_object request ''signedMandate'' = Some signed"
      "mandate_identifier L signed = Inr oid" and p: "im_get (os_pending (prune_expired t sv)) oid = Some pend"
      and "completion_check L env now (prune_expired t sv) request signed pend = Inr ()"
      and q: "or_operation_id res = Some oid" "os_pending sv' = im_remove oid (os_pending (prune_expired t sv))"
    by (rule operation_complete_approved)
  from p q have "im_contains (os_pending sv) i"
    using a(2) by - (rule prune_contains [of t], simp add: im_contains_def)
  with q a(2) c ev show "operation_pending sv i \<and> \<not> operation_pending (operation_exec L ev sv) i"
    by (simp add: operation_pending_def operation_exec_def im_contains_def)
next
  fix ev sv i
  assume p: "operation_pending (operation_exec L ev sv) i"
  show "operation_pending sv i \<or> operation_prepares L i ev sv"
  proof (cases ev)
    case (OperationPrepare env t now rnd request)
    with p operation_prepare_pending [of L env t now rnd sv request i] prune_contains [of t sv i] show ?thesis
      by (auto simp: operation_pending_def operation_exec_def)
  next
    case (OperationComplete env t now request)
    with p operation_complete_pending [of L env t now sv request i] prune_contains [of t sv i] show ?thesis
      by (auto simp: operation_pending_def operation_exec_def)
  next
    case (SetPendingExpiry oid t)
    with p show ?thesis
      by (auto simp: operation_pending_def operation_exec_def set_pending_expiry_def im_contains_def
          split: option.splits if_splits)
  qed
qed

text \<open>
  An operation is authorized once: over any sequence of prepare, complete and expiry-setting
  calls, an operation that is not pending at the start is approved at most as often as it was
  prepared.
\<close>

lemma operation_single_use:
  assumes "\<not> operation_pending sv i"
  shows "count_run (operation_exec L) (operation_approves L i) sv evs \<le>
    count_run (operation_exec L) (operation_prepares L i) sv evs"
  using assms by (rule operations.single_use)

lemma operation_single_use_witness:
  "count_run (operation_exec demo_crates) (operation_approves demo_crates ''o1'')
     \<lparr>os_server_id = ''srv'', os_display_text_renderer = None, os_require_user_signature = True,
      os_user_signature_method = Some demo_method, os_pending = []\<rparr>
     [OperationPrepare (\<lambda>_. None) 1 1 ''r'' [], OperationComplete (\<lambda>_. None) 2 2 []] \<le>
   count_run (operation_exec demo_crates) (operation_prepares demo_crates ''o1'')
     \<lparr>os_server_id = ''srv'', os_display_text_renderer = None, os_require_user_signature = True,
      os_user_signature_method = Some demo_method, os_pending = []\<rparr>
     [OperationPrepare (\<lambda>_. None) 1 1 ''r'' [], OperationComplete (\<lambda>_. None) 2 2 []]"
  by (rule operation_single_use) (simp add: operation_pending_def im_contains_def)

end
