(* ===== verification/RegUtil.thy ===== *)
theory RegUtil
  imports Json Heartbeat AuthContext
begin

text \<open>
  Shared pieces of the registry crate (\<open>a2x-registry/src\<close>): the Python coercions of \<open>util/mod.rs\<close>,
  the Python text of the pairs that \<open>util/pyjson.rs\<close> hashes, the errors of \<open>register/errors.rs\<close>
  and the embedding table of \<open>register/embedding.rs\<close>.

  The record \<open>RegEnv\<close> holds what the crate takes from libraries: SHA-256, the \<open>Display\<close> of a float,
  the JSON string encoding, the \<open>Debug\<close> text of a string, the text of a \<open>serde\<close> error for a rejected
  value, the JSON parser and printer, the error of bytes that are not UTF-8, and the ZIP format. An operation on the service is a
  state-exception function; \<open>rthen\<close> is the \<open>?\<close> operator between two of them.
\<close>

named_theorems reg_simps \<open>rewrite rules of the state-exception functions of the registry\<close>

subsection \<open>Surroundings\<close>

record ZipEntry =
  ze_name :: string
  ze_is_dir :: bool
  ze_data :: string

record RegEnv =
  sha256 :: "string \<Rightarrow> string"
  disp_float :: "real \<Rightarrow> string"
  esc_json :: "string \<Rightarrow> string"
  dbg :: "string \<Rightarrow> string"
  de_err :: "json \<Rightarrow> string"
  parse_json :: "string \<Rightarrow> json option"
  print_json :: "json \<Rightarrow> string"
  utf8_err :: "string \<Rightarrow> string option"
  zip_open :: "string \<Rightarrow> string + ZipEntry list"
  zip_write :: "(string \<times> string) list \<Rightarrow> string"

subsection \<open>Errors\<close>

datatype RegistryError =
    NotFound string
  | Invalid string
  | Permission string
  | FileNotFound string
  | Fetch string
  | RegIo string

text \<open>\<open>std::io::Error\<close> is a message and whether its kind is \<open>NotFound\<close>.\<close>

type_synonym IoError = "bool \<times> string"

definition RegistryError_from :: "IoError \<Rightarrow> RegistryError" where
  "RegistryError_from e = (if fst e then FileNotFound (snd e) else RegIo (snd e))"

type_synonym ('s, 'a) rop = "'s \<Rightarrow> (RegistryError + 'a) \<times> 's"

definition rthen :: "('s, 'a) rop \<Rightarrow> ('a \<Rightarrow> ('s, 'b) rop) \<Rightarrow> ('s, 'b) rop" where
  "rthen m f s = (case m s of (Inl e, s') \<Rightarrow> (Inl e, s') | (Inr x, s') \<Rightarrow> f x s')"

definition rok :: "'a \<Rightarrow> ('s, 'a) rop" where
  "rok x s = (Inr x, s)"

definition rfail :: "RegistryError \<Rightarrow> ('s, 'a) rop" where
  "rfail e s = (Inl e, s)"

definition rlift :: "RegistryError + 'a \<Rightarrow> ('s, 'a) rop" where
  "rlift r s = (r, s)"

definition rmodify :: "('s \<Rightarrow> 's) \<Rightarrow> ('s, unit) rop" where
  "rmodify f s = (Inr (), f s)"

text \<open>A call that cannot fail.\<close>

definition rrun :: "('s \<Rightarrow> 'a \<times> 's) \<Rightarrow> ('s, 'a) rop" where
  "rrun f s = (case f s of (x, s') \<Rightarrow> (Inr x, s'))"

definition rget :: "('s \<Rightarrow> ('s, 'a) rop) \<Rightarrow> ('s, 'a) rop" where
  "rget f s = f s s"

subsection \<open>Python coercions\<close>

definition replace_char :: "char \<Rightarrow> string \<Rightarrow> string \<Rightarrow> string" where
  "replace_char c r s = concat (map (\<lambda>x. if x = c then r else [x]) s)"

definition backslash :: char where
  "backslash = CHR 0x5C"

definition dquote :: char where
  "dquote = CHR 0x22"

definition py_repr_str :: "string \<Rightarrow> string" where
  "py_repr_str s =
     (let s' = replace_char backslash [backslash, backslash] s in
      if CHR 0x27 \<in> set s \<and> dquote \<notin> set s then [dquote] @ s' @ [dquote]
      else quoted (replace_char (CHR 0x27) [backslash, CHR 0x27] s'))"

function py_repr :: "RegEnv \<Rightarrow> json \<Rightarrow> string" where
  "py_repr env JNull = ''None''"
| "py_repr env (JBool b) = (if b then ''True'' else ''False'')"
| "py_repr env (JInt i) = show_int i"
| "py_repr env (JFloat r) = disp_float env r"
| "py_repr env (JStr s) = py_repr_str s"
| "py_repr env (JArr xs) = ''['' @ join '', '' (map (py_repr env) xs) @ '']''"
| "py_repr env (JObj m) =
     ''{'' @ join '', '' (map (\<lambda>(k, v). py_repr_str k @ '': '' @ py_repr env v) m) @ ''}''"
  by pat_completeness auto
termination
  by (relation "measure (size \<circ> snd)")
     (auto simp: less_Suc_eq_le dest: size_in_arr size_in_obj simp del: json.size intro: size_in_arr size_in_obj)

definition py_str_value :: "RegEnv \<Rightarrow> json \<Rightarrow> string" where
  "py_str_value env v = (case v of JStr s \<Rightarrow> s | _ \<Rightarrow> py_repr env v)"

definition py_truthy :: "json \<Rightarrow> bool" where
  "py_truthy v =
     (case v of
        JNull \<Rightarrow> False
      | JBool b \<Rightarrow> b
      | JInt i \<Rightarrow> i \<noteq> 0
      | JFloat r \<Rightarrow> r \<noteq> 0
      | JStr s \<Rightarrow> s \<noteq> []
      | JArr xs \<Rightarrow> xs \<noteq> []
      | JObj m \<Rightarrow> m \<noteq> [])"

text \<open>\<open>f.trunc() as i64\<close>: toward zero, saturating at the bounds of \<open>i64\<close>.\<close>

definition trunc_i64 :: "real \<Rightarrow> int" where
  "trunc_i64 r =
     (let i = (if 0 \<le> r then \<lfloor>r\<rfloor> else \<lceil>r\<rceil>) in max (- 9223372036854775808) (min i64_max i))"

definition parse_i64 :: "string \<Rightarrow> int option" where
  "parse_i64 s =
     (let (neg, ds) = (case s of
            c # cs \<Rightarrow> if c = CHR ''-'' then (True, cs) else if c = CHR ''+'' then (False, cs) else (False, s)
          | [] \<Rightarrow> (False, s))
      in if ds = [] then None
         else case parse_digits 0 ds of
                None \<Rightarrow> None
              | Some n \<Rightarrow>
                  let i = (if neg then - int n else int n) in if is_i64 i then Some i else None)"

text \<open>A number of \<open>u64\<close> above the range of \<open>i64\<close> goes through \<open>f64\<close> and saturates.\<close>

definition number_i64 :: "json \<Rightarrow> int option" where
  "number_i64 v =
     (case v of
        JInt i \<Rightarrow> if is_i64 i then Some i else Some (trunc_i64 (of_int i))
      | JFloat r \<Rightarrow> Some (trunc_i64 r)
      | _ \<Rightarrow> None)"

definition py_int :: "json \<Rightarrow> int option" where
  "py_int v =
     (case v of
        JBool b \<Rightarrow> Some (if b then 1 else 0)
      | JStr s \<Rightarrow> parse_i64 (trim s)
      | _ \<Rightarrow> number_i64 v)"

text \<open>\<open>json.dumps\<close> of a list of pairs of strings.\<close>

definition dumps_pairs :: "RegEnv \<Rightarrow> (string \<times> string) list \<Rightarrow> string" where
  "dumps_pairs env ps =
     ''['' @ join '', '' (map (\<lambda>(a, b). ''['' @ esc_json env a @ '', '' @ esc_json env b @ '']'') ps) @ '']''"

definition py_list :: "string list \<Rightarrow> string" where
  "py_list xs = ''['' @ join '', '' (map quoted xs) @ '']''"

subsection \<open>Embedding models\<close>

definition DEFAULT_EMBEDDING_MODEL :: string where
  "DEFAULT_EMBEDDING_MODEL = ''all-MiniLM-L6-v2''"

definition EMBEDDING_MODELS :: "(string \<times> nat \<times> string \<times> string) list" where
  "EMBEDDING_MODELS =
     [(''all-MiniLM-L6-v2'', 384, ''en'', ''English general-purpose (default)''),
      (''shibing624/text2vec-base-chinese'', 768, ''zh'', ''Chinese text embedding''),
      (''paraphrase-multilingual-MiniLM-L12-v2'', 384, ''multilingual'', ''Multilingual 50+ languages'')]"

definition embedding_dim :: "string \<Rightarrow> nat option" where
  "embedding_dim model = map_option fst (map_of EMBEDDING_MODELS model)"

subsection \<open>Lemmas\<close>

lemma rthen_simps [reg_simps]:
  "m s = (Inl e, s') \<Longrightarrow> rthen m f s = (Inl e, s')"
  "m s = (Inr x, s') \<Longrightarrow> rthen m f s = f x s'"
  by (simp_all add: rthen_def)

lemma rbasic_simps [simp, reg_simps]:
  "rthen (rok x) f s = f x s" "rthen (rfail e) f s = (Inl e, s)" "rthen (rmodify g) f' s = f' () (g s)"
  "rthen (rlift (Inr x)) f s = f x s" "rthen (rlift (Inl e)) f s = (Inl e, s)"
  "rthen (rget h) f s = rthen (h s) f s"
  "rok x s = (Inr x, s)" "rfail e s = (Inl e, s)" "rmodify g s = (Inr (), g s)"
  "rlift r s = (r, s)" "rget h s = h s s"
  by (simp_all add: rthen_def rok_def rfail_def rmodify_def rlift_def rget_def)

lemma rthen_Inr:
  "rthen m f s = (Inr y, s2) \<longleftrightarrow> (\<exists>x s1. m s = (Inr x, s1) \<and> f x s1 = (Inr y, s2))"
  by (auto simp: rthen_def split: prod.splits sum.splits)

text \<open>
  Evaluation: these congruences keep the simplifier out of the continuations until they are
  applied, so that a run on concrete states is rewritten step by step.
\<close>

lemma rop_congs:
  "m s = n s \<Longrightarrow> rthen m f s = rthen n f s" "s = t \<Longrightarrow> rget h s = rget h t" "s = t \<Longrightarrow> rmodify g s = rmodify g t"
  by (simp_all add: rthen_def)

lemma rthen_eval: "rthen m f s = (case m s of (r, s') \<Rightarrow> case r of Inl e \<Rightarrow> (Inl e, s') | Inr x \<Rightarrow> f x s')"
  by (simp add: rthen_def split: prod.split sum.split)

lemma rthen_assoc: "rthen (rthen m f) g = rthen m (\<lambda>x. rthen (f x) g)"
  by (auto simp: rthen_def fun_eq_iff split: prod.splits sum.splits)

lemma rthen_rget: "rthen (rget h) f = rget (\<lambda>s. rthen (h s) f)"
  by (simp add: fun_eq_iff)

lemma rthen_InrE:
  assumes "rthen m f s = (Inr y, s2)"
  obtains x s1 where "m s = (Inr x, s1)" "f x s1 = (Inr y, s2)"
  using assms by (auto simp: rthen_Inr)

text \<open>A fact about every outcome of a composition follows from facts about its parts.\<close>

lemma rthen_inv:
  assumes "P s" "\<And>s. P s \<Longrightarrow> P (snd (m s))" "\<And>x s. P s \<Longrightarrow> P (snd (f x s))"
  shows "P (snd (rthen m f s))"
proof (cases "m s")
  case (Pair r t)
  with assms(1,2) have "P t" by (metis snd_conv)
  with Pair show ?thesis by (cases r) (simp_all add: rthen_def assms(3))
qed

lemma trunc_i64_range: "is_i64 (trunc_i64 r)"
  by (simp add: trunc_i64_def Let_def)

lemma py_int_range: "py_int v = Some i \<Longrightarrow> is_i64 i"
  using trunc_i64_range
  by (fastforce simp: py_int_def number_i64_def parse_i64_def Let_def
      split: json.splits if_splits option.splits list.splits)

lemma embedding_default [simp]: "embedding_dim DEFAULT_EMBEDDING_MODEL = Some 384"
  by (simp add: embedding_dim_def EMBEDDING_MODELS_def DEFAULT_EMBEDDING_MODEL_def)

end
