(* ===== verification/RegModels.thy ===== *)
theory RegModels
  imports RegUtil
begin

text \<open>
  The data of the registration module, \<open>register/models.rs\<close>, with the three dump projections of
  agent cards, their decoding by \<open>serde\<close>, and the description text of \<open>register/agent_card.rs\<close>.

  Decoding gives \<open>None\<close> where \<open>serde_json::from_value\<close> fails: a required member is missing or a
  member has the wrong type. A member with a default may be absent but not \<open>null\<close>, except
  an \<open>Option\<close>, for which \<open>null\<close> is absence. A struct without flattened members is also
  decoded from an array of its fields in order.
\<close>

subsection \<open>Enumerations\<close>

datatype TaxonomyState = Nonexistent | Available | Unavailable | Stale

definition TaxonomyState_as_str :: "TaxonomyState \<Rightarrow> string" where
  "TaxonomyState_as_str t =
     (case t of Nonexistent \<Rightarrow> ''nonexistent'' | Available \<Rightarrow> ''available''
      | Unavailable \<Rightarrow> ''unavailable'' | Stale \<Rightarrow> ''stale'')"

datatype ServiceType = Generic | A2a | Skill

definition ServiceType_as_str :: "ServiceType \<Rightarrow> string" where
  "ServiceType_as_str t = (case t of Generic \<Rightarrow> ''generic'' | A2a \<Rightarrow> ''a2a'' | Skill \<Rightarrow> ''skill'')"

definition ServiceType_parse :: "string \<Rightarrow> ServiceType option" where
  "ServiceType_parse s =
     (if s = ''generic'' then Some Generic
      else if s = ''a2a'' then Some A2a
      else if s = ''skill'' then Some Skill
      else None)"

datatype Source = UserConfig | ApiConfig | Ephemeral | SkillFolder

definition Source_as_str :: "Source \<Rightarrow> string" where
  "Source_as_str s =
     (case s of UserConfig \<Rightarrow> ''user_config'' | ApiConfig \<Rightarrow> ''api_config''
      | Ephemeral \<Rightarrow> ''ephemeral'' | SkillFolder \<Rightarrow> ''skill_folder'')"

datatype DumpMode = Full | ExcludeNone | ExcludeDefaults

subsection \<open>Decoding helpers\<close>

definition de_string :: "json \<Rightarrow> string option" where
  "de_string v = (case v of JStr s \<Rightarrow> Some s | _ \<Rightarrow> None)"

fun de_strings_list :: "json list \<Rightarrow> string list option" where
  "de_strings_list [] = Some []"
| "de_strings_list (JStr s # vs) = map_option ((#) s) (de_strings_list vs)"
| "de_strings_list _ = None"

definition de_strings :: "json \<Rightarrow> string list option" where
  "de_strings v = (case v of JArr vs \<Rightarrow> de_strings_list vs | _ \<Rightarrow> None)"

definition de_map :: "json \<Rightarrow> JsonDict option" where
  "de_map v = (case v of JObj m \<Rightarrow> Some m | _ \<Rightarrow> None)"

definition de_option :: "(json \<Rightarrow> 'a option) \<Rightarrow> json \<Rightarrow> 'a option option" where
  "de_option dec v = (if v = JNull then Some None else map_option Some (dec v))"

definition de_required :: "JsonDict \<Rightarrow> string \<Rightarrow> (json \<Rightarrow> 'a option) \<Rightarrow> 'a option" where
  "de_required m k dec = (case im_get m k of Some v \<Rightarrow> dec v | None \<Rightarrow> None)"

definition de_default :: "JsonDict \<Rightarrow> string \<Rightarrow> (json \<Rightarrow> 'a option) \<Rightarrow> 'a \<Rightarrow> 'a option" where
  "de_default m k dec d = (case im_get m k of Some v \<Rightarrow> dec v | None \<Rightarrow> Some d)"

subsection \<open>Generic services and skills\<close>

record GenericServiceData =
  gs_name :: string
  gs_description :: string
  input_schema :: JsonDict
  gs_url :: "string option"

definition GenericServiceData_to_json :: "GenericServiceData \<Rightarrow> JsonDict" where
  "GenericServiceData_to_json d =
     [(''name'', JStr (gs_name d)), (''description'', JStr (gs_description d)),
      (''inputSchema'', JObj (input_schema d)),
      (''url'', case gs_url d of Some u \<Rightarrow> JStr u | None \<Rightarrow> JNull)]"

definition GenericServiceData_to_json_exclude_none :: "GenericServiceData \<Rightarrow> JsonDict" where
  "GenericServiceData_to_json_exclude_none d =
     (let m = GenericServiceData_to_json d in if gs_url d = None then im_remove ''url'' m else m)"

definition GenericServiceData_from_map :: "JsonDict \<Rightarrow> GenericServiceData option" where
  "GenericServiceData_from_map m =
     Option.bind (de_required m ''name'' de_string) (\<lambda>n.
     Option.bind (de_required m ''description'' de_string) (\<lambda>d.
     Option.bind (de_default m ''inputSchema'' de_map []) (\<lambda>i.
     Option.bind (de_default m ''url'' (de_option de_string) None) (\<lambda>u.
       Some \<lparr> gs_name = n, gs_description = d, input_schema = i, gs_url = u \<rparr>))))"

record SkillData =
  sk_name :: string
  sk_description :: string
  license :: string
  skill_path :: string
  sk_files :: "string list"

definition strings :: "string list \<Rightarrow> json" where
  "strings v = JArr (map JStr v)"

definition SkillData_to_json :: "SkillData \<Rightarrow> JsonDict" where
  "SkillData_to_json s =
     [(''name'', JStr (sk_name s)), (''description'', JStr (sk_description s)),
      (''license'', JStr (license s)), (''skill_path'', JStr (skill_path s)),
      (''files'', strings (sk_files s))]"

definition SkillData_from_map :: "JsonDict \<Rightarrow> SkillData option" where
  "SkillData_from_map m =
     Option.bind (de_required m ''name'' de_string) (\<lambda>n.
     Option.bind (de_required m ''description'' de_string) (\<lambda>d.
     Option.bind (de_default m ''license'' de_string []) (\<lambda>l.
     Option.bind (de_default m ''skill_path'' de_string []) (\<lambda>p.
     Option.bind (de_default m ''files'' de_strings []) (\<lambda>f.
       Some \<lparr> sk_name = n, sk_description = d, license = l, skill_path = p, sk_files = f \<rparr>)))))"

subsection \<open>Agent cards\<close>

record AgentSkill =
  as_id :: string
  as_name :: string
  as_description :: string
  as_tags :: "string list"
  as_examples :: "string list"
  as_input_modes :: "string list"
  as_output_modes :: "string list"

definition put :: "bool \<Rightarrow> string \<Rightarrow> json \<Rightarrow> JsonDict" where
  "put skip k v = (if skip then [] else [(k, v)])"

definition AgentSkill_to_json :: "bool \<Rightarrow> AgentSkill \<Rightarrow> JsonDict" where
  "AgentSkill_to_json exclude_defaults s =
     put (exclude_defaults \<and> as_id s = []) ''id'' (JStr (as_id s)) @
     put False ''name'' (JStr (as_name s)) @
     put (exclude_defaults \<and> as_description s = []) ''description'' (JStr (as_description s)) @
     put (exclude_defaults \<and> as_tags s = []) ''tags'' (strings (as_tags s)) @
     put (exclude_defaults \<and> as_examples s = []) ''examples'' (strings (as_examples s)) @
     put (exclude_defaults \<and> as_input_modes s = []) ''inputModes'' (strings (as_input_modes s)) @
     put (exclude_defaults \<and> as_output_modes s = []) ''outputModes'' (strings (as_output_modes s))"

definition AgentSkill_from_map :: "JsonDict \<Rightarrow> AgentSkill option" where
  "AgentSkill_from_map m =
     Option.bind (de_default m ''id'' de_string []) (\<lambda>i.
     Option.bind (de_required m ''name'' de_string) (\<lambda>n.
     Option.bind (de_default m ''description'' de_string []) (\<lambda>d.
     Option.bind (de_default m ''tags'' de_strings []) (\<lambda>t.
     Option.bind (de_default m ''examples'' de_strings []) (\<lambda>e.
     Option.bind (de_default m ''inputModes'' de_strings []) (\<lambda>im.
     Option.bind (de_default m ''outputModes'' de_strings []) (\<lambda>om.
       Some \<lparr> as_id = i, as_name = n, as_description = d, as_tags = t, as_examples = e,
              as_input_modes = im, as_output_modes = om \<rparr>)))))))"

text \<open>An array is read as the members of these names, in this order, without a surplus.\<close>

definition skill_fields :: "string list" where
  "skill_fields = [''id'', ''name'', ''description'', ''tags'', ''examples'', ''inputModes'', ''outputModes'']"

definition AgentSkill_from_value :: "json \<Rightarrow> AgentSkill option" where
  "AgentSkill_from_value v =
     (case v of
        JObj m \<Rightarrow> AgentSkill_from_map m
      | JArr xs \<Rightarrow> if length xs \<le> length skill_fields then AgentSkill_from_map (zip skill_fields xs) else None
      | _ \<Rightarrow> None)"

fun de_skills_list :: "json list \<Rightarrow> AgentSkill list option" where
  "de_skills_list [] = Some []"
| "de_skills_list (v # vs) =
     Option.bind (AgentSkill_from_value v) (\<lambda>s. map_option ((#) s) (de_skills_list vs))"

definition de_skills :: "json \<Rightarrow> AgentSkill list option" where
  "de_skills v = (case v of JArr vs \<Rightarrow> de_skills_list vs | _ \<Rightarrow> None)"

record AgentCard =
  ac_name :: string
  ac_description :: string
  ac_version :: string
  protocol_version :: string
  ac_url :: string
  preferred_transport :: string
  provider :: "json option"
  capabilities :: "json option"
  ac_skills :: "AgentSkill list"
  default_input_modes :: "string list"
  default_output_modes :: "string list"
  documentation_url :: string
  icon_url :: string
  ac_extra :: JsonDict

definition card_fields :: "string list" where
  "card_fields = [''name'', ''description'', ''version'', ''protocolVersion'', ''url'',
     ''preferredTransport'', ''provider'', ''capabilities'', ''skills'', ''defaultInputModes'',
     ''defaultOutputModes'', ''documentationUrl'', ''iconUrl'']"

definition AgentCard_from_value :: "json \<Rightarrow> AgentCard option" where
  "AgentCard_from_value v =
     Option.bind (as_object v) (\<lambda>m.
     Option.bind (de_required m ''name'' de_string) (\<lambda>n.
     Option.bind (de_required m ''description'' de_string) (\<lambda>d.
     Option.bind (de_default m ''version'' de_string []) (\<lambda>ver.
     Option.bind (de_default m ''protocolVersion'' de_string []) (\<lambda>pv.
     Option.bind (de_default m ''url'' de_string []) (\<lambda>u.
     Option.bind (de_default m ''preferredTransport'' de_string []) (\<lambda>pt.
     Option.bind (de_default m ''provider'' (de_option Some) None) (\<lambda>prov.
     Option.bind (de_default m ''capabilities'' (de_option Some) None) (\<lambda>cap.
     Option.bind (de_default m ''skills'' de_skills []) (\<lambda>sk.
     Option.bind (de_default m ''defaultInputModes'' de_strings []) (\<lambda>im.
     Option.bind (de_default m ''defaultOutputModes'' de_strings []) (\<lambda>om.
     Option.bind (de_default m ''documentationUrl'' de_string []) (\<lambda>du.
     Option.bind (de_default m ''iconUrl'' de_string []) (\<lambda>iu.
       Some \<lparr> ac_name = n, ac_description = d, ac_version = ver, protocol_version = pv, ac_url = u,
              preferred_transport = pt, provider = prov, capabilities = cap, ac_skills = sk,
              default_input_modes = im, default_output_modes = om, documentation_url = du,
              icon_url = iu, ac_extra = filter (\<lambda>(k, _). k \<notin> set card_fields) m \<rparr>))))))))))))))"

definition put_option :: "bool \<Rightarrow> string \<Rightarrow> json option \<Rightarrow> JsonDict" where
  "put_option skip_none k v =
     (case v of Some x \<Rightarrow> [(k, x)] | None \<Rightarrow> put skip_none k JNull)"

definition AgentCard_known_json :: "DumpMode \<Rightarrow> AgentCard \<Rightarrow> JsonDict" where
  "AgentCard_known_json mode c =
     (let ex_def = (mode = ExcludeDefaults);
          ex_none = (mode = ExcludeNone);
          put_str = (\<lambda>k v. put (ex_def \<and> v = []) k (JStr v))
      in [(''name'', JStr (ac_name c)), (''description'', JStr (ac_description c))] @
         put_str ''version'' (ac_version c) @
         put_str ''protocolVersion'' (protocol_version c) @
         put_str ''url'' (ac_url c) @
         put_str ''preferredTransport'' (preferred_transport c) @
         put_option (ex_def \<or> ex_none) ''provider'' (provider c) @
         put_option (ex_def \<or> ex_none) ''capabilities'' (capabilities c) @
         put (ex_def \<and> ac_skills c = []) ''skills''
           (JArr (map (\<lambda>s. JObj (AgentSkill_to_json ex_def s)) (ac_skills c))) @
         put (ex_def \<and> default_input_modes c = []) ''defaultInputModes'' (strings (default_input_modes c)) @
         put (ex_def \<and> default_output_modes c = []) ''defaultOutputModes'' (strings (default_output_modes c)) @
         put_str ''documentationUrl'' (documentation_url c) @
         put_str ''iconUrl'' (icon_url c))"

definition AgentCard_to_json :: "DumpMode \<Rightarrow> AgentCard \<Rightarrow> JsonDict" where
  "AgentCard_to_json mode c =
     fold (\<lambda>(k, v) m. if mode = ExcludeNone \<and> v = JNull then m else im_insert k v m)
       (ac_extra c) (AgentCard_known_json mode c)"

text \<open>\<open>build_description\<close> of \<open>agent_card.rs\<close>.\<close>

definition trim_end_dots :: "string \<Rightarrow> string" where
  "trim_end_dots s = rev (dropWhile (\<lambda>c. c = CHR ''.'') (rev s))"

definition skill_text :: "AgentSkill \<Rightarrow> string" where
  "skill_text s =
     trim ((if as_name s = [] then [] else ''['' @ as_name s @ '']'') @ '' '' @ as_description s)"

definition build_description :: "AgentCard \<Rightarrow> string" where
  "build_description ac =
     join '' ''
       ((if ac_description ac = [] then [] else [trim_end_dots (ac_description ac) @ ''.'']) @
        (if ac_skills ac = [] then []
         else [''Skills: '' @ join ''; '' (map skill_text (ac_skills ac))]))"

subsection \<open>Registry entries\<close>

record RegistryEntry =
  service_id :: string
  re_type :: ServiceType
  source :: Source
  service_data :: "GenericServiceData option"
  agent_card :: "AgentCard option"
  agent_card_url :: "string option"
  skill_data :: "SkillData option"
  re_owner_id :: "string option"
  re_lease_ttl :: "int option"

definition display_name :: "RegistryEntry \<Rightarrow> string" where
  "display_name e =
     (case (re_type e, service_data e, skill_data e, agent_card e) of
        (Generic, Some sd, _, _) \<Rightarrow> gs_name sd
      | (Skill, _, Some sk, _) \<Rightarrow> sk_name sk
      | (_, _, _, Some ac) \<Rightarrow> ac_name ac
      | _ \<Rightarrow> service_id e)"

definition display_description :: "RegistryEntry \<Rightarrow> string" where
  "display_description e =
     (case (re_type e, service_data e, skill_data e, agent_card e) of
        (Generic, Some sd, _, _) \<Rightarrow> gs_description sd
      | (Skill, _, Some sk, _) \<Rightarrow> sk_description sk
      | (_, _, _, Some ac) \<Rightarrow> ac_description ac
      | _ \<Rightarrow> [])"

definition put_some :: "string \<Rightarrow> ('a \<Rightarrow> json) \<Rightarrow> 'a option \<Rightarrow> JsonDict" where
  "put_some k f v = (case v of Some x \<Rightarrow> [(k, f x)] | None \<Rightarrow> [])"

definition RegistryEntry_to_json_exclude_none :: "RegistryEntry \<Rightarrow> JsonDict" where
  "RegistryEntry_to_json_exclude_none e =
     [(''service_id'', JStr (service_id e)), (''type'', JStr (ServiceType_as_str (re_type e))),
      (''source'', JStr (Source_as_str (source e)))] @
     put_some ''service_data'' (\<lambda>d. JObj (GenericServiceData_to_json_exclude_none d)) (service_data e) @
     put_some ''agent_card'' (\<lambda>c. JObj (AgentCard_to_json ExcludeNone c)) (agent_card e) @
     put_some ''agent_card_url'' JStr (agent_card_url e) @
     put_some ''skill_data'' (\<lambda>s. JObj (SkillData_to_json s)) (skill_data e) @
     put_some ''owner_id'' JStr (re_owner_id e) @
     put_some ''lease_ttl'' JInt (re_lease_ttl e)"

subsection \<open>Requests and responses\<close>

record RegisterGenericRequest =
  rg_service_id :: "string option"
  rg_dataset :: string
  rg_name :: string
  rg_description :: string
  rg_input_schema :: JsonDict
  rg_url :: string
  rg_persistent :: bool
  rg_lease_ttl :: "int option"

record RegisterA2ARequest =
  ra_service_id :: "string option"
  ra_dataset :: string
  ra_agent_card :: "AgentCard option"
  ra_agent_card_url :: "string option"
  ra_persistent :: bool
  ra_lease_ttl :: "int option"

record RegisterResponse =
  rr_service_id :: string
  rr_dataset :: string
  rr_status :: string
  rr_lease_ttl :: "int option"
  rr_lease_expires_at :: "real option"

record DeregisterResponse =
  dr_service_id :: string
  dr_status :: string

record UpdateResponse =
  ur_service_id :: string
  ur_dataset :: string
  ur_status :: string
  changed_fields :: "string list"
  taxonomy_affected :: bool

record SkillResponse =
  sr_name :: string
  sr_dataset :: string
  sr_service_id :: string
  sr_status :: string

record RegistryStatus =
  total_services :: nat
  by_source :: "(string, nat) imap"
  rst_datasets :: "string list"

subsection \<open>Lemmas on decoding\<close>

lemma de_strings_map [simp]: "de_strings (strings xs) = Some xs"
proof -
  have "de_strings_list (map JStr xs) = Some xs" by (induction xs) auto
  then show ?thesis by (simp add: de_strings_def strings_def)
qed

lemma de_string_JStr [simp]: "de_string (JStr s) = Some s"
  by (simp add: de_string_def)

lemma map_of_put: "map_of (put b k v) x = (if b \<or> x \<noteq> k then None else Some v)"
  by (simp add: put_def)

lemma map_of_put_option:
  "map_of (put_option b k v) x =
     (if x \<noteq> k then None else case v of Some w \<Rightarrow> Some w | None \<Rightarrow> if b then None else Some JNull)"
  by (auto simp: put_option_def put_def split: option.splits)

lemma keys_put: "fst ` set (put b k v) \<subseteq> {k}"
  by (auto simp: put_def)

lemma keys_put_option: "fst ` set (put_option b k v) \<subseteq> {k}"
  by (auto simp: put_option_def put_def split: option.splits)

lemma AgentSkill_roundtrip [simp]: "AgentSkill_from_map (AgentSkill_to_json b s) = Some s"
  by (simp add: AgentSkill_from_map_def AgentSkill_to_json_def de_default_def de_required_def map_add_def
      map_of_put)

lemma de_skills_roundtrip [simp]:
  "de_skills (JArr (map (\<lambda>s. JObj (AgentSkill_to_json b s)) xs)) = Some xs"
proof -
  have "de_skills_list (map (\<lambda>s. JObj (AgentSkill_to_json b s)) xs) = Some xs"
    by (induction xs) (simp_all add: AgentSkill_from_value_def)
  then show ?thesis by (simp add: de_skills_def)
qed

text \<open>
  A card as decoding produces it: its extra members have distinct names that are none of the
  card's own fields, and an explicit \<open>null\<close> is never stored as a provider or as capabilities.
\<close>

definition card_wf :: "AgentCard \<Rightarrow> bool" where
  "card_wf c \<longleftrightarrow>
     im_wf (ac_extra c) \<and> (\<forall>(k, v) \<in> set (ac_extra c). k \<notin> set card_fields) \<and>
     provider c \<noteq> Some JNull \<and> capabilities c \<noteq> Some JNull"

lemma keys_known_json: "fst ` set (AgentCard_known_json mode c) \<subseteq> set card_fields"
  using keys_put keys_put_option
  by (fastforce simp: AgentCard_known_json_def card_fields_def Let_def)

lemma im_insert_fresh: "k \<notin> fst ` set m \<Longrightarrow> im_insert k v m = m @ [(k, v)]"
  by (induction m) (auto simp: im_insert_def)

lemma fold_im_insert_fresh:
  assumes "im_wf xs" "fst ` set xs \<inter> fst ` set m = {}"
  shows "fold (\<lambda>(k, v) m. if P v then m else im_insert k v m) xs m = m @ filter (\<lambda>(k, v). \<not> P v) xs"
  using assms
proof (induction xs arbitrary: m)
  case (Cons p xs)
  obtain k v where p: "p = (k, v)" by (cases p)
  have "im_insert k v m = m @ [(k, v)]"
    using Cons.prems p by (auto intro!: im_insert_fresh)
  with Cons p show ?case by (auto simp: image_iff)
qed simp

lemma AgentCard_to_json_eq:
  assumes "card_wf c"
  shows "AgentCard_to_json mode c =
    AgentCard_known_json mode c @ filter (\<lambda>(k, v). \<not> (mode = ExcludeNone \<and> v = JNull)) (ac_extra c)"
proof -
  have "fst ` set (ac_extra c) \<inter> fst ` set (AgentCard_known_json mode c) = {}"
    using assms keys_known_json [of mode c] by (fastforce simp: card_wf_def)
  with assms fold_im_insert_fresh [of "ac_extra c" _ "\<lambda>v. mode = ExcludeNone \<and> v = JNull"]
  show ?thesis by (simp add: AgentCard_to_json_def card_wf_def)
qed

lemma known_json_roundtrip:
  assumes "provider c \<noteq> Some JNull" "capabilities c \<noteq> Some JNull"
  shows "AgentCard_from_value (JObj (AgentCard_known_json mode c)) = Some (c\<lparr> ac_extra := [] \<rparr>)"
proof -
  have nil: "filter (\<lambda>(k, _). k \<notin> set card_fields) (AgentCard_known_json mode c) = []"
    using keys_known_json [of mode c] by (fastforce simp: filter_empty_conv)
  have lookups: "map_of (AgentCard_known_json mode c) ''name'' = Some (JStr (ac_name c))"
    "map_of (AgentCard_known_json mode c) ''description'' = Some (JStr (ac_description c))"
    "de_default (AgentCard_known_json mode c) ''version'' de_string [] = Some (ac_version c)"
    "de_default (AgentCard_known_json mode c) ''protocolVersion'' de_string [] = Some (protocol_version c)"
    "de_default (AgentCard_known_json mode c) ''url'' de_string [] = Some (ac_url c)"
    "de_default (AgentCard_known_json mode c) ''preferredTransport'' de_string [] = Some (preferred_transport c)"
    "de_default (AgentCard_known_json mode c) ''provider'' (de_option Some) None = Some (provider c)"
    "de_default (AgentCard_known_json mode c) ''capabilities'' (de_option Some) None = Some (capabilities c)"
    "de_default (AgentCard_known_json mode c) ''skills'' de_skills [] = Some (ac_skills c)"
    "de_default (AgentCard_known_json mode c) ''defaultInputModes'' de_strings [] = Some (default_input_modes c)"
    "de_default (AgentCard_known_json mode c) ''defaultOutputModes'' de_strings [] = Some (default_output_modes c)"
    "de_default (AgentCard_known_json mode c) ''documentationUrl'' de_string [] = Some (documentation_url c)"
    "de_default (AgentCard_known_json mode c) ''iconUrl'' de_string [] = Some (icon_url c)"
    using assms
    by (simp_all add: AgentCard_known_json_def Let_def de_default_def map_add_def map_of_put map_of_put_option
        de_option_def split: option.split)
  show ?thesis
    unfolding AgentCard_from_value_def json_accessors Option.bind.bind_lunit nil lookups
    by (simp add: de_required_def lookups)
qed

lemma AgentCard_roundtrip:
  assumes "card_wf c"
  shows "AgentCard_from_value (JObj (AgentCard_to_json mode c)) =
    Some (c\<lparr> ac_extra := filter (\<lambda>(k, v). \<not> (mode = ExcludeNone \<and> v = JNull)) (ac_extra c) \<rparr>)"
proof -
  let ?ex = "filter (\<lambda>(k, v). \<not> (mode = ExcludeNone \<and> v = JNull)) (ac_extra c)"
  have no: "map_of ?ex k = None" if "k \<in> set card_fields" for k
    using assms that by (fastforce simp: card_wf_def map_of_eq_None_iff)
  have get: "map_of (AgentCard_to_json mode c) k = map_of (AgentCard_known_json mode c) k"
    if "k \<in> set card_fields" for k
    using no [OF that] by (simp add: AgentCard_to_json_eq [OF assms] map_add_def split: option.split)
  have "filter (\<lambda>(k, _). k \<notin> set card_fields) (AgentCard_known_json mode c) = []"
    using keys_known_json [of mode c] by (fastforce simp: filter_empty_conv)
  moreover have "filter (\<lambda>(k, _). k \<notin> set card_fields) ?ex = ?ex"
    using assms unfolding filter_id_conv card_wf_def by fastforce
  ultimately have ex: "filter (\<lambda>(k, _). k \<notin> set card_fields) (AgentCard_to_json mode c) = ?ex"
    by (simp add: AgentCard_to_json_eq [OF assms])
  have "AgentCard_from_value (JObj (AgentCard_to_json mode c)) =
        map_option (\<lambda>d. d\<lparr> ac_extra := ?ex \<rparr>) (AgentCard_from_value (JObj (AgentCard_known_json mode c)))"
    unfolding AgentCard_from_value_def ex [symmetric]
    by (simp add: de_required_def de_default_def get card_fields_def map_option_bind comp_def)
  also have "AgentCard_from_value (JObj (AgentCard_known_json mode c)) = Some (c\<lparr> ac_extra := [] \<rparr>)"
    using assms by (intro known_json_roundtrip) (simp_all add: card_wf_def)
  finally show ?thesis by simp
qed

end
