(* ===== verification/RegValidation.thy ===== *)
theory RegValidation
  imports RegModels
begin

text \<open>
  Format validation of registered services, \<open>register/validation.rs\<close>. The three validators are
  named by their service type; \<open>supported_versions\<close> and \<open>check_version\<close> are the methods of the
  trait \<open>FormatValidator\<close>, and \<open>validate\<close> is its provided method.
\<close>

record ValidationResult =
  vr_valid :: bool
  vr_service_type :: "string option"
  matched_version :: "string option"
  vr_errors :: "string list"
  vr_warnings :: "string list"

definition ValidationResult_failure :: "string \<Rightarrow> string list \<Rightarrow> ValidationResult" where
  "ValidationResult_failure t errs =
     \<lparr> vr_valid = False, vr_service_type = Some t, matched_version = None, vr_errors = errs,
       vr_warnings = [] \<rparr>"

definition has_text :: "json option \<Rightarrow> bool" where
  "has_text v = (case v of Some (JStr s) \<Rightarrow> trim s \<noteq> [] | _ \<Rightarrow> False)"

definition strip_v :: "string \<Rightarrow> string" where
  "strip_v s = (case s of c # cs \<Rightarrow> if c = CHR ''v'' then cs else s | [] \<Rightarrow> s)"

definition version_key :: "RegEnv \<Rightarrow> string \<Rightarrow> string + nat list" where
  "version_key env vsn =
     (if vsn = [] then Inl (''Invalid version: '' @ dbg env vsn)
      else let ps = map parse_u64 (split_on (CHR ''.'') (strip_v vsn)) in
           if None \<in> set ps then Inl (''Invalid version string: '' @ dbg env vsn)
           else Inr (map the ps))"

definition to_map :: "json \<Rightarrow> JsonDict" where
  "to_map payload = (case payload of JObj m \<Rightarrow> m | _ \<Rightarrow> [])"

definition opt_truthy :: "json option \<Rightarrow> bool" where
  "opt_truthy v = (case v of Some x \<Rightarrow> py_truthy x | None \<Rightarrow> False)"

subsection \<open>The validators\<close>

definition when_list :: "bool \<Rightarrow> string \<Rightarrow> string list" where
  "when_list b s = (if b then [s] else [])"

definition check_name_description :: "JsonDict \<Rightarrow> string list \<times> string list" where
  "check_name_description payload =
     (when_list (\<not> has_text (im_get payload ''name'')) ''name is required'' @
      when_list (\<not> has_text (im_get payload ''description'')) ''description is required'', [])"

definition v0_0 :: "JsonDict \<Rightarrow> string list \<times> string list" where
  "v0_0 payload =
     (let (errs, warns) = check_name_description payload in
      (errs, warns @
        when_list (\<not> opt_truthy (im_get payload ''version'')) ''version is recommended'' @
        when_list (\<not> opt_truthy (im_get payload ''skills''))
          ''skills is recommended (agent has no declared capabilities)''))"

definition skill_errors :: "nat \<Rightarrow> json \<Rightarrow> string list" where
  "skill_errors i sk =
     (let s = to_map sk; p = ''skills['' @ show_nat i @ '']'' in
      when_list (\<not> has_text (im_get s ''id'')) (p @ ''.id is required'') @
      when_list (\<not> has_text (im_get s ''name'')) (p @ ''.name is required'') @
      when_list (\<not> has_text (im_get s ''description'')) (p @ ''.description is required'') @
      when_list (\<not> opt_truthy (im_get s ''tags'')) (p @ ''.tags is required (at least one tag)''))"

definition text_plain_hint :: string where
  "text_plain_hint = ''['' @ [dquote] @ ''text/plain'' @ [dquote] @ '']''"

definition v1_0 :: "JsonDict \<Rightarrow> string list \<times> string list" where
  "v1_0 payload =
     (let prov = (case im_get payload ''provider'' of
                    Some v \<Rightarrow> if py_truthy v then to_map v else []
                  | None \<Rightarrow> []);
          errs =
            when_list (\<not> has_text (im_get payload ''name'')) ''name is required'' @
            when_list (\<not> has_text (im_get payload ''description'')) ''description is required'' @
            when_list (\<not> has_text (im_get payload ''version'')) ''version is required'' @
            when_list (\<not> has_text (im_get payload ''url'')) ''url (or supported_interfaces) is required'' @
            when_list (im_get payload ''capabilities'' \<in> {None, Some JNull})
              ''capabilities is required (can be empty object)'' @
            when_list (\<not> opt_truthy (im_get payload ''defaultInputModes''))
              (''defaultInputModes is required (e.g. '' @ text_plain_hint @ '')'') @
            when_list (\<not> opt_truthy (im_get payload ''defaultOutputModes''))
              (''defaultOutputModes is required (e.g. '' @ text_plain_hint @ '')'') @
            (case im_get payload ''skills'' of
               Some (JArr (sk # sks)) \<Rightarrow>
                 concat (map (\<lambda>(i, s). skill_errors i s) (enumerate 0 (sk # sks)))
             | _ \<Rightarrow> [''skills is required (at least one skill)'']) @
            (if prov = [] then []
             else when_list (\<not> has_text (im_get prov ''organization''))
                    ''provider.organization is required when provider is present'' @
                  when_list (\<not> has_text (im_get prov ''url''))
                    ''provider.url is required when provider is present'');
          warns =
            when_list (\<not> has_text (im_get payload ''protocolVersion''))
              (''protocolVersion is recommended (e.g. '' @ [dquote] @ ''1.0'' @ [dquote] @ '')'') @
            when_list (prov = []) ''provider is recommended'' @
            when_list (\<not> has_text (im_get payload ''documentationUrl'')) ''documentationUrl is recommended''
      in (errs, warns))"

definition supported_versions :: "ServiceType \<Rightarrow> string list" where
  "supported_versions t = (case t of A2a \<Rightarrow> [''v0.0'', ''v1.0''] | _ \<Rightarrow> [''v0.0''])"

definition check_version :: "ServiceType \<Rightarrow> JsonDict \<Rightarrow> string \<Rightarrow> string list \<times> string list" where
  "check_version t payload vsn =
     (case t of
        A2a \<Rightarrow>
          if vsn = ''v0.0'' then v0_0 payload
          else if vsn = ''v1.0'' then v1_0 payload
          else ([''Unknown a2a version '' @ vsn], [])
      | _ \<Rightarrow>
          if vsn = ''v0.0'' then check_name_description payload
          else ([''Unknown '' @ ServiceType_as_str t @ '' version '' @ vsn], []))"

text \<open>The loop over the versions at or above the threshold, oldest first.\<close>

fun try_versions ::
  "ServiceType \<Rightarrow> JsonDict \<Rightarrow> string list \<Rightarrow> string list \<times> string list \<Rightarrow>
     (string list \<times> string list) + (string \<times> string list)" where
  "try_versions t data [] acc = Inl acc"
| "try_versions t data (v # vs) acc =
     (let (errs, warns) = check_version t data v in
      if errs = [] then Inr (v, warns) else try_versions t data vs (errs, warns))"

definition versions_from :: "RegEnv \<Rightarrow> ServiceType \<Rightarrow> nat list \<Rightarrow> string list" where
  "versions_from env t threshold =
     filter (\<lambda>v. case version_key env v of Inr k \<Rightarrow> threshold \<le> k | Inl _ \<Rightarrow> False) (supported_versions t)"

definition validate :: "RegEnv \<Rightarrow> ServiceType \<Rightarrow> json \<Rightarrow> string \<Rightarrow> ValidationResult" where
  "validate env t payload min_version =
     (let ty = ServiceType_as_str t in
      case version_key env min_version of
        Inl e \<Rightarrow> ValidationResult_failure ty [e]
      | Inr threshold \<Rightarrow>
          let versions = versions_from env t threshold in
          if versions = [] then
            ValidationResult_failure ty
              [''No '' @ ty @ '' version >= '' @ min_version @ ''. Supported: '' @ py_list (supported_versions t)]
          else case try_versions t (to_map payload) versions ([], []) of
                 Inr (v, warns) \<Rightarrow>
                   \<lparr> vr_valid = True, vr_service_type = Some ty, matched_version = Some v, vr_errors = [],
                     vr_warnings = warns \<rparr>
               | Inl (last_errors, last_warnings) \<Rightarrow>
                   \<lparr> vr_valid = False, vr_service_type = Some ty, matched_version = None,
                     vr_errors =
                       [''No allowed '' @ ty @ '' version matched '' @ py_list versions @ ''. Latest errors: '' @
                        join ''; '' last_errors],
                     vr_warnings = last_warnings \<rparr>)"

subsection \<open>Entry points\<close>

definition SUPPORTED_SERVICE_TYPES :: "string list" where
  "SUPPORTED_SERVICE_TYPES = [''generic'', ''a2a'', ''skill'']"

definition DEFAULT_FORMAT_CONFIG :: "(string, string) imap" where
  "DEFAULT_FORMAT_CONFIG = map (\<lambda>t. (t, ''v0.0'')) SUPPORTED_SERVICE_TYPES"

definition validator_for :: "string \<Rightarrow> ServiceType option" where
  "validator_for t = List.find (\<lambda>v. ServiceType_as_str v = t) [Generic, A2a, Skill]"

definition validate_service :: "RegEnv \<Rightarrow> string \<Rightarrow> json \<Rightarrow> string \<Rightarrow> ValidationResult" where
  "validate_service env t payload min_version =
     (case validator_for t of
        Some v \<Rightarrow> validate env v payload min_version
      | None \<Rightarrow>
          ValidationResult_failure t
            [''Unknown service type '' @ dbg env t @ ''. Supported: '' @ py_list SUPPORTED_SERVICE_TYPES])"

text \<open>One member of the \<open>formats\<close> object: its version when type and version are known.\<close>

definition format_version :: "string \<Rightarrow> json \<Rightarrow> string option" where
  "format_version t v =
     (case validator_for t of
        None \<Rightarrow> None
      | Some validator \<Rightarrow>
          let vsn = (case v of
                 JObj o' \<Rightarrow> (case im_get o' ''min_version'' of Some x \<Rightarrow> x | None \<Rightarrow> JStr ''v0.0'')
               | other \<Rightarrow> other)
          in case vsn of
               JStr ver \<Rightarrow> if ver \<in> set (supported_versions validator) then Some ver else None
             | _ \<Rightarrow> None)"

definition normalize_format_config :: "json option \<Rightarrow> (string, string) imap" where
  "normalize_format_config raw =
     (case raw of
        Some (JObj m) \<Rightarrow>
          fold (\<lambda>(t, v) out. case format_version t v of Some ver \<Rightarrow> im_insert t ver out | None \<Rightarrow> out) m []
      | _ \<Rightarrow> [])"

definition validate_agent_card :: "RegEnv \<Rightarrow> AgentCard \<Rightarrow> string list option \<Rightarrow> ValidationResult" where
  "validate_agent_card env c allowed_versions =
     (let all = supported_versions A2a;
          allowed = (case allowed_versions of Some a \<Rightarrow> a | None \<Rightarrow> all);
          known = filter (\<lambda>v. v \<in> set all) allowed
      in if known = [] then
           ValidationResult_failure ''a2a''
             [''No known A2A versions in allowed set: '' @
              ''['' @ join '', '' (map (dbg env) (sort allowed)) @ '']'']
         else validate_service env ''a2a'' (JObj (AgentCard_to_json Full c))
                (hd (sort_key (\<lambda>v. case version_key env v of Inr k \<Rightarrow> k | Inl _ \<Rightarrow> []) known)))"

subsection \<open>Lemmas\<close>

lemma validator_for_as_str [simp]: "validator_for (ServiceType_as_str t) = Some t"
  by (cases t) (simp_all add: validator_for_def ServiceType_as_str_def)

lemma validator_for_SomeD: "validator_for t = Some v \<Longrightarrow> t = ServiceType_as_str v"
  by (auto simp: validator_for_def ServiceType_as_str_def split: if_splits)

lemma version_keys [simp]:
  "version_key env ''v0.0'' = Inr [0, 0]" "version_key env ''v1.0'' = Inr [1, 0]"
  by (simp_all add: version_key_def strip_v_def parse_u64_def digit_val_def Let_def)

lemma try_versions_Inr_iff:
  "(\<exists>r. try_versions t data vs acc = Inr r) \<longleftrightarrow> (\<exists>v \<in> set vs. fst (check_version t data v) = [])"
  by (induction vs arbitrary: acc) (auto simp: split_beta)

lemma try_versions_InrD:
  "try_versions t data vs acc = Inr (v, w) \<Longrightarrow> v \<in> set vs \<and> check_version t data v = ([], w)"
  by (induction vs arbitrary: acc) (auto simp: split_beta prod_eq_iff split: if_splits)

lemma validate_valid_iff:
  "vr_valid (validate env t payload min_version) \<longleftrightarrow>
     (\<exists>threshold v. version_key env min_version = Inr threshold \<and> v \<in> set (versions_from env t threshold) \<and>
        fst (check_version t (to_map payload) v) = [])"
proof (cases "version_key env min_version")
  case (Inr k)
  let ?vs = "versions_from env t k"
  have "vr_valid (validate env t payload min_version) \<longleftrightarrow>
      (\<exists>r. try_versions t (to_map payload) ?vs ([], []) = Inr r)"
    using Inr by (auto simp: validate_def ValidationResult_failure_def Let_def split: sum.splits prod.splits)
  then show ?thesis unfolding try_versions_Inr_iff using Inr by auto
qed (simp add: validate_def ValidationResult_failure_def)

lemma when_list_Nil [simp]: "when_list b s = [] \<longleftrightarrow> \<not> b"
  by (simp add: when_list_def)

text \<open>Every version requires a non-blank name and description.\<close>

lemma check_version_text:
  assumes "fst (check_version t data v) = []"
  shows "has_text (map_of data ''name'') \<and> has_text (map_of data ''description'')"
  using assms
  by (auto simp: check_version_def check_name_description_def v0_0_def v1_0_def Let_def
      split: ServiceType.splits if_splits)

lemma validate_antimono:
  assumes "version_key env low = Inr k'" "version_key env high = Inr k" "k' \<le> k"
    and "vr_valid (validate env t payload high)"
  shows "vr_valid (validate env t payload low)"
proof -
  have "set (versions_from env t k) \<subseteq> set (versions_from env t k')"
    using assms(3) by (auto simp: versions_from_def split: sum.splits)
  with assms show ?thesis unfolding validate_valid_iff by auto
qed

lemma normalize_format_config_get:
  assumes "im_wf m"
  shows "map_of (normalize_format_config (Some (JObj m))) t = Option.bind (map_of m t) (format_version t)"
proof -
  let ?f = "\<lambda>(t, v) out. case format_version t v of Some ver \<Rightarrow> im_insert t ver out | None \<Rightarrow> out"
  have "map_of (fold ?f m acc) t =
      (case Option.bind (map_of m t) (format_version t) of Some w \<Rightarrow> Some w | None \<Rightarrow> map_of acc t)" for acc
    using assms
  proof (induction m arbitrary: acc)
    case (Cons p m)
    then have "map_of m (fst p) = None" by (simp add: map_of_eq_None_iff)
    with Cons show ?case by (cases p) (auto split: option.splits)
  qed simp
  from this [of "[]"] show ?thesis by (simp add: normalize_format_config_def split: option.split)
qed

lemma format_version_known:
  "format_version t v = Some ver \<Longrightarrow> \<exists>ty. t = ServiceType_as_str ty \<and> ver \<in> set (supported_versions ty)"
  by (auto simp: format_version_def Let_def dest: validator_for_SomeD
      split: option.splits json.splits if_splits)

lemma validate_service_v0 [simp]:
  "vr_valid (validate_service env ''generic'' v ''v0.0'') \<longleftrightarrow>
     has_text (map_of (to_map v) ''name'') \<and> has_text (map_of (to_map v) ''description'')"
  "vr_valid (validate_service env ''skill'' v ''v0.0'') \<longleftrightarrow>
     has_text (map_of (to_map v) ''name'') \<and> has_text (map_of (to_map v) ''description'')"
  "vr_valid (validate_service env ''a2a'' v ''v0.0'') \<longleftrightarrow>
     has_text (map_of (to_map v) ''name'') \<and> has_text (map_of (to_map v) ''description'')"
proof -
  have *: "validate_service env (ServiceType_as_str t) v ''v0.0'' = validate env t v ''v0.0''" for t
    by (simp add: validate_service_def)
  have "vr_valid (validate env t v ''v0.0'') \<longleftrightarrow>
     has_text (map_of (to_map v) ''name'') \<and> has_text (map_of (to_map v) ''description'')" for t
  proof -
    have "''v0.0'' \<in> set (versions_from env t [0, 0])" 
      by (cases t) (simp_all add: versions_from_def supported_versions_def)
    moreover have "fst (check_version t (to_map v) ''v0.0'') = [] \<longleftrightarrow>
      has_text (map_of (to_map v) ''name'') \<and> has_text (map_of (to_map v) ''description'')"
      by (cases t) (simp_all add: check_version_def check_name_description_def v0_0_def)
    ultimately show ?thesis unfolding validate_valid_iff using check_version_text by fastforce
  qed
  from this [of Generic] this [of Skill] this [of A2a] * [of Generic] * [of Skill] * [of A2a]
  show "vr_valid (validate_service env ''generic'' v ''v0.0'') \<longleftrightarrow>
     has_text (map_of (to_map v) ''name'') \<and> has_text (map_of (to_map v) ''description'')"
  "vr_valid (validate_service env ''skill'' v ''v0.0'') \<longleftrightarrow>
     has_text (map_of (to_map v) ''name'') \<and> has_text (map_of (to_map v) ''description'')"
  "vr_valid (validate_service env ''a2a'' v ''v0.0'') \<longleftrightarrow>
     has_text (map_of (to_map v) ''name'') \<and> has_text (map_of (to_map v) ''description'')"
    by (simp_all add: ServiceType_as_str_def)
qed

end
