(* ===== verification/RegFs.thy ===== *)
theory RegFs
  imports RegValidation
begin

text \<open>
  The files the registry works on. A path is the list of its components from the root; joining
  resolves \<open>.\<close>, \<open>..\<close> and absolute parts, lexically. A file holds either a JSON value that the registry
  wrote (it is read back as that value) or a text. Every call that changes the file system takes
  the next reading of \<open>fs_fault\<close>: \<open>Some e\<close> makes it fail with that error and no effect.
\<close>

type_synonym path = "string list"

datatype FileData = FJson json | FText string

record Fs =
  fs_files :: "(path, FileData) imap"
  fs_dirs :: "path list"
  fs_fault :: "nat \<Rightarrow> IoError option"
  fs_ix :: nat

subsection \<open>Paths\<close>

definition path_components :: "string \<Rightarrow> string list" where
  "path_components s = filter (\<lambda>c. c \<noteq> [] \<and> c \<noteq> ''.'') (split_on (CHR ''/'') s)"

definition path_resolve :: "path \<Rightarrow> string list \<Rightarrow> path" where
  "path_resolve base cs = fold (\<lambda>c p. if c = ''..'' then butlast p else p @ [c]) cs base"

definition path_join :: "path \<Rightarrow> string \<Rightarrow> path" where
  "path_join base s =
     path_resolve (if starts_with s ''/'' then [] else base) (path_components s)"

definition under :: "path \<Rightarrow> path \<Rightarrow> bool" where
  "under p x = (take (length p) x = p)"

definition path_prefixes :: "path \<Rightarrow> path list" where
  "path_prefixes p = map (\<lambda>n. take n p) [0 ..< Suc (length p)]"

subsection \<open>Calls\<close>

definition fs_exists :: "Fs \<Rightarrow> path \<Rightarrow> bool" where
  "fs_exists fs p = (p \<in> set (fs_dirs fs) \<or> im_contains (fs_files fs) p)"

definition fs_is_dir :: "Fs \<Rightarrow> path \<Rightarrow> bool" where
  "fs_is_dir fs p = (p \<in> set (fs_dirs fs))"

definition fs_try :: "(Fs \<Rightarrow> Fs) \<Rightarrow> (Fs, unit) rop" where
  "fs_try f fs =
     (let fs' = fs\<lparr> fs_ix := Suc (fs_ix fs) \<rparr> in
      case fs_fault fs (fs_ix fs) of
        Some e \<Rightarrow> (Inl (RegistryError_from e), fs')
      | None \<Rightarrow> (Inr (), f fs'))"

definition enoent :: IoError where
  "enoent = (True, ''No such file or directory (os error 2)'')"

definition fs_create_dir_all :: "path \<Rightarrow> (Fs, unit) rop" where
  "fs_create_dir_all p =
     fs_try (\<lambda>fs. fs\<lparr> fs_dirs := filter (\<lambda>d. d \<notin> set (fs_dirs fs)) (path_prefixes p) @ fs_dirs fs \<rparr>)"

definition fs_write :: "path \<Rightarrow> FileData \<Rightarrow> (Fs, unit) rop" where
  "fs_write p d =
     rget (\<lambda>fs. if butlast p \<in> set (fs_dirs fs) then fs_try (\<lambda>fs. fs\<lparr> fs_files := im_insert p d (fs_files fs) \<rparr>)
                else rfail (RegistryError_from enoent))"

definition fs_remove_dir_all :: "path \<Rightarrow> (Fs, unit) rop" where
  "fs_remove_dir_all p =
     fs_try (\<lambda>fs. fs\<lparr> fs_files := filter (\<lambda>(x, _). \<not> under p x) (fs_files fs),
                     fs_dirs := filter (\<lambda>x. \<not> under p x) (fs_dirs fs) \<rparr>)"

definition fs_rename_dir :: "path \<Rightarrow> path \<Rightarrow> (Fs, unit) rop" where
  "fs_rename_dir p q =
     (let mv = (\<lambda>x. if under p x then q @ drop (length p) x else x) in
      fs_try (\<lambda>fs. fs\<lparr> fs_files := map (\<lambda>(x, d). (mv x, d)) (fs_files fs), fs_dirs := map mv (fs_dirs fs) \<rparr>))"

text \<open>The names of the directories directly inside a directory, sorted.\<close>

definition fs_subdirs :: "Fs \<Rightarrow> path \<Rightarrow> string list" where
  "fs_subdirs fs p =
     sort (remdups (map last (filter (\<lambda>d. under p d \<and> length d = Suc (length p)) (fs_dirs fs))))"

definition file_text :: "RegEnv \<Rightarrow> FileData \<Rightarrow> string" where
  "file_text env d = (case d of FText t \<Rightarrow> t | FJson v \<Rightarrow> print_json env v)"

definition read_json :: "RegEnv \<Rightarrow> Fs \<Rightarrow> path \<Rightarrow> json option" where
  "read_json env fs p =
     Option.bind (im_get (fs_files fs) p) (\<lambda>d. case d of FJson v \<Rightarrow> Some v | FText t \<Rightarrow> parse_json env t)"

definition atomic_write_json :: "path \<Rightarrow> json \<Rightarrow> (Fs, unit) rop" where
  "atomic_write_json p v = fs_write p (FJson v)"

subsection \<open>Lemmas\<close>

lemma under_refl [simp]: "under p p"
  by (simp add: under_def)

lemma under_append [simp]: "under p (p @ q)"
  by (simp add: under_def)

lemma under_iff: "under p x \<longleftrightarrow> (\<exists>q. x = p @ q)"
  by (metis append_take_drop_id append_eq_conv_conj under_def)

lemma under_trans: "under p q \<Longrightarrow> under q x \<Longrightarrow> under p x"
  by (auto simp: under_iff)

lemma fs_try_cases:
  obtains e where "fs_try f fs = (Inl e, fs\<lparr> fs_ix := Suc (fs_ix fs) \<rparr>)"
  | "fs_try f fs = (Inr (), f (fs\<lparr> fs_ix := Suc (fs_ix fs) \<rparr>))"
  by (cases "fs_fault fs (fs_ix fs)") (auto simp: fs_try_def)

lemma fs_try_Inr: "fs_try f fs = (Inr u, fs') \<Longrightarrow> fs' = f (fs\<lparr> fs_ix := Suc (fs_ix fs) \<rparr>)"
  by (auto simp: fs_try_def Let_def split: option.splits)

lemma fs_write_InrD:
  assumes "fs_write p d fs = (Inr u, fs')"
  shows "fs' = fs\<lparr> fs_ix := Suc (fs_ix fs), fs_files := im_insert p d (fs_files fs) \<rparr>"
  using assms by (auto simp: fs_write_def dest!: fs_try_Inr split: if_splits)

text \<open>A write changes the file it names, or nothing.\<close>

lemma fs_write_files:
  "fs_files (snd (fs_write p d fs)) = fs_files fs \<or>
   fs_files (snd (fs_write p d fs)) = im_insert p d (fs_files fs)"
  by (cases "fs_fault fs (fs_ix fs)") (auto simp: fs_write_def fs_try_def Let_def)

lemma fs_write_other: "x \<noteq> p \<Longrightarrow> map_of (fs_files (snd (fs_write p d fs))) x = map_of (fs_files fs) x"
  using fs_write_files [of p d fs] by auto

lemma fs_create_files [simp]: "fs_files (snd (fs_create_dir_all p fs)) = fs_files fs"
  by (cases "fs_fault fs (fs_ix fs)") (auto simp: fs_create_dir_all_def fs_try_def Let_def)

lemma read_json_cong: "map_of (fs_files fs) p = map_of (fs_files fs') p \<Longrightarrow> read_json env fs p = read_json env fs' p"
  by (simp add: read_json_def)

lemma read_json_write [simp]: "map_of (fs_files fs) p = Some (FJson v) \<Longrightarrow> read_json env fs p = Some v"
  by (simp add: read_json_def)

end
