(* ===== verification/RegStore.thy ===== *)
theory RegStore
  imports RegFs
begin

text \<open>
  \<open>RegistryStore\<close>, the per-dataset files of \<open>register/store.rs\<close>: the entries of \<open>user_config.json\<close> and
  \<open>api_config.json\<close>, \<open>service.json\<close> and the per-dataset configuration files. An operation works on
  the store and the file system; the cached api entries change before the write, so they stay
  changed when it fails.
\<close>

definition USER_CONFIG_FILE :: string where "USER_CONFIG_FILE = ''user_config.json''"
definition API_CONFIG_FILE :: string where "API_CONFIG_FILE = ''api_config.json''"
definition REGISTER_CONFIG_FILE :: string where "REGISTER_CONFIG_FILE = ''register_config.json''"
definition VECTOR_CONFIG_FILE :: string where "VECTOR_CONFIG_FILE = ''vector_config.json''"
definition AUTH_CONFIG_FILE :: string where "AUTH_CONFIG_FILE = ''auth_config.json''"
definition LEASE_CONFIG_FILE :: string where "LEASE_CONFIG_FILE = ''lease_config.json''"
definition SERVICE_JSON_FILE :: string where "SERVICE_JSON_FILE = ''service.json''"

lemmas file_names = USER_CONFIG_FILE_def API_CONFIG_FILE_def REGISTER_CONFIG_FILE_def
  VECTOR_CONFIG_FILE_def AUTH_CONFIG_FILE_def LEASE_CONFIG_FILE_def SERVICE_JSON_FILE_def

record AuthConfig =
  ac_required :: bool
  ac_schema_version :: int

definition AuthConfig_default :: AuthConfig where
  "AuthConfig_default = \<lparr> ac_required = False, ac_schema_version = 1 \<rparr>"

record RegistryStore =
  st_dir :: path
  api_entries :: "(string, RegistryEntry) imap"

type_synonym store_state = "RegistryStore \<times> Fs"

definition on_fs :: "(RegistryStore \<Rightarrow> (Fs, 'a) rop) \<Rightarrow> (store_state, 'a) rop" where
  "on_fs m s = (case s of (st, fs) \<Rightarrow> case m st fs of (r, fs') \<Rightarrow> (r, (st, fs')))"

definition RegistryStore_new :: "path \<Rightarrow> (Fs, RegistryStore) rop" where
  "RegistryStore_new dir =
     rthen (fs_create_dir_all dir) (\<lambda>_. rok \<lparr> st_dir = dir, api_entries = [] \<rparr>)"

subsection \<open>Entries as configuration objects\<close>

definition generate_service_id :: "RegEnv \<Rightarrow> string \<Rightarrow> string \<Rightarrow> string" where
  "generate_service_id env type_prefix nm = type_prefix @ ''_'' @ take 16 (hex_encode (sha256 env nm))"

definition member_str :: "JsonDict \<Rightarrow> string \<Rightarrow> string option" where
  "member_str m k = Option.bind (im_get m k) as_str"

definition non_empty :: "string option \<Rightarrow> string option" where
  "non_empty v = (case v of Some s \<Rightarrow> if s = [] then None else Some s | None \<Rightarrow> None)"

definition member_str_or :: "JsonDict \<Rightarrow> string \<Rightarrow> string \<Rightarrow> string" where
  "member_str_or m k d = (case member_str m k of Some s \<Rightarrow> s | None \<Rightarrow> d)"

definition parse_lease_ttl :: "JsonDict \<Rightarrow> int option" where
  "parse_lease_ttl m =
     (case Option.bind (im_get m ''lease_ttl'') number_i64 of
        Some t \<Rightarrow> if 0 < t then Some t else None
      | None \<Rightarrow> None)"

definition parse_generic_entry ::
  "RegEnv \<Rightarrow> JsonDict \<Rightarrow> Source \<Rightarrow> string + RegistryEntry option" where
  "parse_generic_entry env m src =
     (let nm = trim (member_str_or m ''name'' []);
          desc = trim (member_str_or m ''description'' []);
          sid0 = member_str_or m ''service_id'' []
      in if nm = [] \<or> desc = [] then Inr None
         else let sid = (if sid0 = [] then generate_service_id env ''generic'' nm else sid0) in
           case (case im_get m ''inputSchema'' of
                   None \<Rightarrow> Some [] | Some (JObj o') \<Rightarrow> Some o' | Some _ \<Rightarrow> None) of
             None \<Rightarrow> Inl ''inputSchema must be an object''
           | Some schema \<Rightarrow>
               (case (case im_get m ''url'' of
                        None \<Rightarrow> Some None | Some JNull \<Rightarrow> Some None
                      | Some (JStr s) \<Rightarrow> Some (Some s) | Some _ \<Rightarrow> None) of
                  None \<Rightarrow> Inl ''url must be a string''
                | Some url \<Rightarrow>
                    Inr (Some
                      \<lparr> service_id = sid, re_type = Generic, source = src,
                        service_data = Some \<lparr> gs_name = nm, gs_description = desc, input_schema = schema,
                                              gs_url = url \<rparr>,
                        agent_card = None, agent_card_url = None, skill_data = None,
                        re_owner_id = non_empty (member_str m ''owner_id''),
                        re_lease_ttl = parse_lease_ttl m \<rparr>)))"

definition parse_a2a_entry ::
  "RegEnv \<Rightarrow> JsonDict \<Rightarrow> Source \<Rightarrow> string + RegistryEntry option" where
  "parse_a2a_entry env m src =
     (let card_url = non_empty (member_str m ''agent_card_url'');
          sid0 = member_str_or m ''service_id'' []
      in case (case im_get m ''agent_card'' of
                 Some v \<Rightarrow>
                   if py_truthy v then
                     (case AgentCard_from_value v of Some c \<Rightarrow> Inr (Some c) | None \<Rightarrow> Inl (de_err env v))
                   else Inr None
               | None \<Rightarrow> Inr None) of
           Inl e \<Rightarrow> Inl e
         | Inr ac \<Rightarrow>
             let nm = (case ac of Some c \<Rightarrow> ac_name c
                       | None \<Rightarrow> (case card_url of Some u \<Rightarrow> u | None \<Rightarrow> ''unknown''));
                 sid = (if sid0 = [] then generate_service_id env ''agent'' nm else sid0)
             in Inr (Some
                  \<lparr> service_id = sid, re_type = A2a, source = src, service_data = None, agent_card = ac,
                    agent_card_url = card_url, skill_data = None,
                    re_owner_id = non_empty (member_str m ''owner_id''),
                    re_lease_ttl = parse_lease_ttl m \<rparr>))"

definition parse_service_entry :: "RegEnv \<Rightarrow> json \<Rightarrow> Source \<Rightarrow> string + RegistryEntry option" where
  "parse_service_entry env svc src =
     (case svc of
        JObj m \<Rightarrow>
          let svc_type = member_str_or m ''type'' ''generic'' in
          if svc_type = ''generic'' then parse_generic_entry env m src
          else if svc_type = ''a2a'' then parse_a2a_entry env m src
          else Inr None
      | _ \<Rightarrow> Inl ''entry is not an object'')"

definition entry_to_config_dict :: "RegistryEntry \<Rightarrow> JsonDict" where
  "entry_to_config_dict e =
     [(''type'', JStr (ServiceType_as_str (re_type e))), (''service_id'', JStr (service_id e))] @
     (case re_type e of
        Generic \<Rightarrow>
          (case service_data e of
             Some sd \<Rightarrow>
               [(''name'', JStr (gs_name sd)), (''description'', JStr (gs_description sd))] @
               put (input_schema sd = []) ''inputSchema'' (JObj (input_schema sd)) @
               put_some ''url'' JStr (non_empty (gs_url sd))
           | None \<Rightarrow> [])
      | A2a \<Rightarrow>
          put_some ''agent_card_url'' JStr (non_empty (agent_card_url e)) @
          put_some ''agent_card'' (\<lambda>c. JObj (AgentCard_to_json ExcludeDefaults c)) (agent_card e)
      | Skill \<Rightarrow> []) @
     put_some ''owner_id'' JStr (non_empty (re_owner_id e)) @
     (case re_lease_ttl e of Some t \<Rightarrow> put (t = 0) ''lease_ttl'' (JInt t) | None \<Rightarrow> [])"

fun parse_services :: "RegEnv \<Rightarrow> Source \<Rightarrow> json list \<Rightarrow> RegistryEntry list" where
  "parse_services env src [] = []"
| "parse_services env src (svc # svcs) =
     (case parse_service_entry env svc src of
        Inr (Some e) \<Rightarrow> e # parse_services env src svcs
      | _ \<Rightarrow> parse_services env src svcs)"

definition load_config_file :: "RegEnv \<Rightarrow> Fs \<Rightarrow> path \<Rightarrow> Source \<Rightarrow> RegistryEntry list" where
  "load_config_file env fs p src =
     (if \<not> fs_exists fs p then []
      else case read_json env fs p of
             None \<Rightarrow> []
           | Some data \<Rightarrow>
               (case jget data ''services'' of
                  Some (JArr services) \<Rightarrow> parse_services env src services
                | _ \<Rightarrow> []))"

subsection \<open>Reading and writing the entries\<close>

definition load_user_config :: "RegEnv \<Rightarrow> Fs \<Rightarrow> RegistryStore \<Rightarrow> RegistryEntry list" where
  "load_user_config env fs st =
     (let p = st_dir st @ [USER_CONFIG_FILE] in
      if fs_exists fs p then load_config_file env fs p UserConfig else [])"

definition by_service_id :: "RegistryEntry list \<Rightarrow> (string, RegistryEntry) imap" where
  "by_service_id es = fold (\<lambda>e. im_insert (service_id e) e) es []"

definition load_api_config :: "RegEnv \<Rightarrow> (store_state, RegistryEntry list) rop" where
  "load_api_config env s =
     (case s of (st, fs) \<Rightarrow>
        let es = load_config_file env fs (st_dir st @ [API_CONFIG_FILE]) ApiConfig in
        (Inr es, (st\<lparr> api_entries := by_service_id es \<rparr>, fs)))"

definition flush_api_config :: "(store_state, unit) rop" where
  "flush_api_config =
     on_fs (\<lambda>st. atomic_write_json (st_dir st @ [API_CONFIG_FILE])
       (JObj [(''services'', JArr (map (\<lambda>(_, e). JObj (entry_to_config_dict e)) (api_entries st)))]))"

definition save_api_entry :: "RegistryEntry \<Rightarrow> (store_state, unit) rop" where
  "save_api_entry e =
     rthen (rmodify (\<lambda>(st, fs). (st\<lparr> api_entries := im_insert (service_id e) e (api_entries st) \<rparr>, fs)))
       (\<lambda>_. flush_api_config)"

definition remove_api_entry :: "string \<Rightarrow> (store_state, bool) rop" where
  "remove_api_entry sid =
     rget (\<lambda>(st, fs).
       if im_contains (api_entries st) sid then
         rthen (rmodify (\<lambda>(st, fs). (st\<lparr> api_entries := im_remove sid (api_entries st) \<rparr>, fs)))
           (\<lambda>_. rthen flush_api_config (\<lambda>_. rok True))
       else rok False)"

definition save_api_batch :: "RegistryEntry list \<Rightarrow> (store_state, unit) rop" where
  "save_api_batch es =
     rthen (rmodify (\<lambda>(st, fs). (st\<lparr> api_entries := by_service_id es \<rparr>, fs))) (\<lambda>_. flush_api_config)"

definition write_service_json :: "json list \<Rightarrow> (store_state, unit) rop" where
  "write_service_json services =
     on_fs (\<lambda>st. atomic_write_json (st_dir st @ [SERVICE_JSON_FILE]) (JArr services))"

subsection \<open>Per-dataset configuration\<close>

definition load_register_config :: "RegEnv \<Rightarrow> Fs \<Rightarrow> RegistryStore \<Rightarrow> (string, string) imap option" where
  "load_register_config env fs st =
     (let p = st_dir st @ [REGISTER_CONFIG_FILE] in
      if \<not> fs_exists fs p then None
      else case read_json env fs p of
             Some data \<Rightarrow> Some (normalize_format_config (jget data ''formats''))
           | None \<Rightarrow> Some [])"

definition write_register_config :: "(string, string) imap \<Rightarrow> (store_state, unit) rop" where
  "write_register_config formats =
     (let known = concat (map (\<lambda>t. put_some t JStr (im_get formats t)) SUPPORTED_SERVICE_TYPES);
          ordered = fold (\<lambda>(t, v) m. if im_contains m t then m else im_insert t (JStr v) m) formats known
      in on_fs (\<lambda>st. atomic_write_json (st_dir st @ [REGISTER_CONFIG_FILE]) (JObj [(''formats'', JObj ordered)])))"

definition load_vector_config :: "RegEnv \<Rightarrow> Fs \<Rightarrow> RegistryStore \<Rightarrow> JsonDict option" where
  "load_vector_config env fs st =
     (let p = st_dir st @ [VECTOR_CONFIG_FILE] in
      if \<not> fs_exists fs p then None else Option.bind (read_json env fs p) as_object)"

definition write_vector_config :: "string \<Rightarrow> int \<Rightarrow> (store_state, unit) rop" where
  "write_vector_config model d =
     on_fs (\<lambda>st. atomic_write_json (st_dir st @ [VECTOR_CONFIG_FILE])
       (JObj [(''embedding_model'', JStr model), (''embedding_dim'', JInt d)]))"

definition load_auth_config :: "RegEnv \<Rightarrow> Fs \<Rightarrow> RegistryStore \<Rightarrow> AuthConfig" where
  "load_auth_config env fs st =
     (let p = st_dir st @ [AUTH_CONFIG_FILE] in
      if \<not> fs_exists fs p then AuthConfig_default
      else case read_json env fs p of
             Some (JObj m) \<Rightarrow>
               let req = (case im_get m ''required'' of Some v \<Rightarrow> py_truthy v | None \<Rightarrow> False) in
               (case (case im_get m ''schema_version'' of None \<Rightarrow> Some 1 | Some v \<Rightarrow> py_int v) of
                  Some i \<Rightarrow> \<lparr> ac_required = req, ac_schema_version = i \<rparr>
                | None \<Rightarrow> AuthConfig_default)
           | _ \<Rightarrow> AuthConfig_default)"

definition write_auth_config :: "bool \<Rightarrow> (store_state, unit) rop" where
  "write_auth_config req =
     on_fs (\<lambda>st. atomic_write_json (st_dir st @ [AUTH_CONFIG_FILE])
       (JObj [(''required'', JBool req), (''schema_version'', JInt 1)]))"

definition int_or :: "JsonDict \<Rightarrow> string \<Rightarrow> int \<Rightarrow> int option" where
  "int_or m k d = (case im_get m k of None \<Rightarrow> Some d | Some v \<Rightarrow> py_int v)"

definition parse_lease_config :: "JsonDict \<Rightarrow> LeaseConfig option" where
  "parse_lease_config m =
     (let d = LeaseConfig_default;
          en = (case im_get m ''enabled'' of Some v \<Rightarrow> py_truthy v | None \<Rightarrow> False)
      in Option.bind (int_or m ''min_ttl'' (min_ttl d)) (\<lambda>lo0.
         let lo = max lo0 1 in
         Option.bind (int_or m ''max_ttl'' (max_ttl d)) (\<lambda>hi0.
         let hi = max hi0 lo in
         Option.bind (int_or m ''grace_period'' (grace_period d)) (\<lambda>g.
         Option.bind (int_or m ''schema_version'' 1) (\<lambda>sv.
           Some \<lparr> enabled = en, min_ttl = lo, max_ttl = hi, grace_period = max g 0, schema_version = sv \<rparr>)))))"

definition load_lease_config :: "RegEnv \<Rightarrow> Fs \<Rightarrow> RegistryStore \<Rightarrow> LeaseConfig" where
  "load_lease_config env fs st =
     (let p = st_dir st @ [LEASE_CONFIG_FILE] in
      if \<not> fs_exists fs p then LeaseConfig_default
      else case read_json env fs p of
             Some (JObj m) \<Rightarrow>
               (case parse_lease_config m of Some c \<Rightarrow> c | None \<Rightarrow> LeaseConfig_default)
           | _ \<Rightarrow> LeaseConfig_default)"

definition LeaseConfig_to_json :: "LeaseConfig \<Rightarrow> JsonDict" where
  "LeaseConfig_to_json c =
     [(''enabled'', JBool (enabled c)), (''min_ttl'', JInt (min_ttl c)), (''max_ttl'', JInt (max_ttl c)),
      (''grace_period'', JInt (grace_period c)), (''schema_version'', JInt (schema_version c))]"

definition write_lease_config :: "bool \<Rightarrow> int \<Rightarrow> int \<Rightarrow> int \<Rightarrow> (store_state, unit) rop" where
  "write_lease_config en lo hi grace =
     (if lo < 1 then rfail (Invalid (''min_ttl must be >= 1, got '' @ show_int lo))
      else if hi < lo then
        rfail (Invalid (''max_ttl ('' @ show_int hi @ '') must be >= min_ttl ('' @ show_int lo @ '')''))
      else if grace < 0 then rfail (Invalid (''grace_period must be >= 0, got '' @ show_int grace))
      else on_fs (\<lambda>st. atomic_write_json (st_dir st @ [LEASE_CONFIG_FILE])
             (JObj (LeaseConfig_to_json
               \<lparr> enabled = en, min_ttl = lo, max_ttl = hi, grace_period = grace, schema_version = 1 \<rparr>))))"

subsection \<open>Laws of the files\<close>

lemma lease_config_bounds:
  "1 \<le> min_ttl (load_lease_config env fs st)"
  "min_ttl (load_lease_config env fs st) \<le> max_ttl (load_lease_config env fs st)"
  "0 \<le> grace_period (load_lease_config env fs st)"
proof -
  have "1 \<le> min_ttl c \<and> min_ttl c \<le> max_ttl c \<and> 0 \<le> grace_period c" if "parse_lease_config m = Some c" for m c
    using that by (auto simp: parse_lease_config_def Let_def bind_eq_Some_conv)
  then have "let c = load_lease_config env fs st in 1 \<le> min_ttl c \<and> min_ttl c \<le> max_ttl c \<and> 0 \<le> grace_period c"
    by (simp add: load_lease_config_def LeaseConfig_default_def Let_def split: option.split json.split)
  then show "1 \<le> min_ttl (load_lease_config env fs st)"
    "min_ttl (load_lease_config env fs st) \<le> max_ttl (load_lease_config env fs st)"
    "0 \<le> grace_period (load_lease_config env fs st)" by (simp_all add: Let_def)
qed

lemma atomic_write_json_InrD:
  assumes "atomic_write_json p v fs = (Inr u, fs')"
  shows "map_of (fs_files fs') = (map_of (fs_files fs))(p \<mapsto> FJson v)" "fs_exists fs' p" "read_json env fs' p = Some v"
  using fs_write_InrD [OF assms [unfolded atomic_write_json_def]]
  by (simp_all add: fs_exists_def im_contains_def)

lemma on_fs_InrD:
  assumes "on_fs m (st, fs) = (Inr x, (st', fs'))"
  shows "st' = st \<and> m st fs = (Inr x, fs')"
  using assms by (auto simp: on_fs_def split: prod.splits)

lemma py_int_JInt [simp]: "is_i64 i \<Longrightarrow> py_int (JInt i) = Some i"
  by (simp add: py_int_def number_i64_def)

lemma lease_config_roundtrip:
  assumes "write_lease_config en lo hi g (st, fs) = (Inr u, (st', fs'))"
    and "is_i64 lo" "is_i64 hi" "is_i64 g"
  shows "load_lease_config env fs' st' =
    \<lparr> enabled = en, min_ttl = lo, max_ttl = hi, grace_period = g, schema_version = 1 \<rparr>"
proof -
  have ok: "1 \<le> lo" "lo \<le> hi" "0 \<le> g"
    using assms(1) by (auto simp: write_lease_config_def split: if_splits)
  from assms(1) ok have w: "st' = st" "atomic_write_json (st_dir st @ [LEASE_CONFIG_FILE])
      (JObj (LeaseConfig_to_json \<lparr> enabled = en, min_ttl = lo, max_ttl = hi, grace_period = g, schema_version = 1 \<rparr>)) fs
        = (Inr u, fs')"
    by (auto simp: write_lease_config_def dest: on_fs_InrD)
  show ?thesis
    using atomic_write_json_InrD(2) [OF w(2)] atomic_write_json_InrD(3) [OF w(2), of env] w(1) ok assms(2-)
    by (simp add: load_lease_config_def parse_lease_config_def int_or_def LeaseConfig_to_json_def py_truthy_def)
qed

lemma auth_config_roundtrip:
  assumes "write_auth_config req (st, fs) = (Inr u, (st', fs'))"
  shows "load_auth_config env fs' st' = \<lparr> ac_required = req, ac_schema_version = 1 \<rparr>"
proof -
  from assms have w: "st' = st" "atomic_write_json (st_dir st @ [AUTH_CONFIG_FILE])
      (JObj [(''required'', JBool req), (''schema_version'', JInt 1)]) fs = (Inr u, fs')"
    by (auto simp: write_auth_config_def dest: on_fs_InrD)
  show ?thesis
    using atomic_write_json_InrD(2) [OF w(2)] atomic_write_json_InrD(3) [OF w(2), of env] w(1) by (simp add: load_auth_config_def py_truthy_def)
qed

subsection \<open>Configuration objects round trip\<close>

text \<open>
  An entry of the API as the register operations build it, and the form it has when it is read
  back: names trimmed, an empty URL or owner absent, only a positive TTL.
\<close>

definition api_entry_ok :: "RegistryEntry \<Rightarrow> bool" where
  "api_entry_ok e \<longleftrightarrow>
     service_id e \<noteq> [] \<and> skill_data e = None \<and> (\<forall>t. re_lease_ttl e = Some t \<longrightarrow> is_i64 t) \<and>
     (case re_type e of
        Generic \<Rightarrow> agent_card e = None \<and> agent_card_url e = None \<and>
          (\<exists>sd. service_data e = Some sd \<and> trim (gs_name sd) \<noteq> [] \<and> trim (gs_description sd) \<noteq> [])
      | A2a \<Rightarrow> service_data e = None \<and> (\<forall>c. agent_card e = Some c \<longrightarrow> card_wf c)
      | Skill \<Rightarrow> False)"

definition persisted :: "Source \<Rightarrow> RegistryEntry \<Rightarrow> RegistryEntry" where
  "persisted src e =
     e\<lparr> source := src,
       service_data := map_option (\<lambda>sd. sd\<lparr> gs_name := trim (gs_name sd), gs_description := trim (gs_description sd),
                                           gs_url := non_empty (gs_url sd) \<rparr>) (service_data e),
       agent_card_url := non_empty (agent_card_url e),
       re_owner_id := non_empty (re_owner_id e),
       re_lease_ttl := (case re_lease_ttl e of Some t \<Rightarrow> if 0 < t then Some t else None | None \<Rightarrow> None) \<rparr>"

lemma map_of_put_some: "map_of (put_some k f v) x = (if x = k then map_option f v else None)"
  by (auto simp: put_some_def split: option.splits)

lemma non_empty_idem [simp]: "non_empty (non_empty v) = non_empty v"
  by (auto simp: non_empty_def split: option.splits)

lemma member_str_put_some: "Option.bind (map_option JStr v) as_str = v"
  by (cases v) simp_all

lemmas config_lookup = entry_to_config_dict_def map_add_def map_of_put map_of_put_some member_str_def
  member_str_or_def member_str_put_some parse_lease_ttl_def number_i64_def

lemma config_dict_generic:
  assumes "api_entry_ok e" "re_type e = Generic"
  shows "parse_service_entry env (JObj (entry_to_config_dict e)) src = Inr (Some (persisted src e))"
proof -
  obtain sd where sd: "service_data e = Some sd" "trim (gs_name sd) \<noteq> []" "trim (gs_description sd) \<noteq> []"
    and other: "service_id e \<noteq> []" "skill_data e = None" "agent_card e = None" "agent_card_url e = None"
      "\<And>t. re_lease_ttl e = Some t \<Longrightarrow> is_i64 t"
    using assms by (auto simp: api_entry_ok_def)
  let ?m = "entry_to_config_dict e"
  have get: "member_str_or ?m ''type'' ''generic'' = ''generic''"
    "member_str_or ?m ''name'' [] = gs_name sd" "member_str_or ?m ''description'' [] = gs_description sd"
    "member_str_or ?m ''service_id'' [] = service_id e"
    "member_str ?m ''owner_id'' = non_empty (re_owner_id e)"
    "map_of ?m ''inputSchema'' = (if input_schema sd = [] then None else Some (JObj (input_schema sd)))"
    "map_of ?m ''url'' = map_option JStr (non_empty (gs_url sd))"
    using assms(2) sd
    by (auto simp: config_lookup ServiceType_as_str_def split: option.split)
  have ttl: "parse_lease_ttl ?m = re_lease_ttl (persisted src e)"
    using assms(2) sd other(5)
    by (auto simp: config_lookup ServiceType_as_str_def persisted_def split: option.split)
  show ?thesis
    using sd other assms(2)
    by (simp add: parse_service_entry_def parse_generic_entry_def get ttl persisted_def non_empty_def
        split: option.split)
qed

lemma card_json_truthy [simp]: "py_truthy (JObj (AgentCard_to_json mode c))"
proof -
  have "fold (\<lambda>(k, v) m. if mode = ExcludeNone \<and> v = JNull then m else im_insert k v m) xs m \<noteq> []"
    if "m \<noteq> []" for xs and m :: JsonDict
    using that
  proof (induction xs arbitrary: m)
    case (Cons p xs)
    have "im_insert k v m \<noteq> []" for k v by (metis keys_im_insert empty_iff image_empty insertI1 list.set(1))
    with Cons show ?case by (cases p) simp
  qed simp
  then show ?thesis by (simp add: py_truthy_def AgentCard_to_json_def AgentCard_known_json_def Let_def)
qed

lemma config_dict_a2a:
  assumes "api_entry_ok e" "re_type e = A2a"
  shows "parse_service_entry env (JObj (entry_to_config_dict e)) src = Inr (Some (persisted src e))"
proof -
  have other: "service_id e \<noteq> []" "skill_data e = None" "service_data e = None"
      "\<And>t. re_lease_ttl e = Some t \<Longrightarrow> is_i64 t" "\<And>c. agent_card e = Some c \<Longrightarrow> card_wf c"
    using assms by (auto simp: api_entry_ok_def)
  let ?m = "entry_to_config_dict e"
  have get: "member_str_or ?m ''type'' ''generic'' = ''a2a''"
    "member_str_or ?m ''service_id'' [] = service_id e"
    "member_str ?m ''owner_id'' = non_empty (re_owner_id e)"
    "member_str ?m ''agent_card_url'' = non_empty (agent_card_url e)"
    "map_of ?m ''agent_card'' = map_option (\<lambda>c. JObj (AgentCard_to_json ExcludeDefaults c)) (agent_card e)"
    using assms(2) by (auto simp: config_lookup ServiceType_as_str_def split: option.split)
  have ttl: "parse_lease_ttl ?m = re_lease_ttl (persisted src e)"
    using assms(2) other(4)
    by (auto simp: config_lookup ServiceType_as_str_def persisted_def split: option.split)
  have card: "AgentCard_from_value (JObj (AgentCard_to_json ExcludeDefaults c)) = Some c" if "agent_card e = Some c" for c
    using AgentCard_roundtrip [OF other(5) [OF that], of ExcludeDefaults] by simp
  show ?thesis
    using other(1-3) assms(2)
    by (cases "agent_card e")
       (simp_all add: parse_service_entry_def parse_a2a_entry_def get ttl persisted_def card)
qed

lemma config_dict_roundtrip:
  assumes "api_entry_ok e"
  shows "parse_service_entry env (JObj (entry_to_config_dict e)) src = Inr (Some (persisted src e))"
  using assms config_dict_generic config_dict_a2a by (cases "re_type e") (auto simp: api_entry_ok_def)

lemma parse_services_roundtrip:
  assumes "\<And>e. e \<in> set es \<Longrightarrow> api_entry_ok e"
  shows "parse_services env src (map (\<lambda>e. JObj (entry_to_config_dict e)) es) = map (persisted src) es"
  using assms by (induction es) (simp_all add: config_dict_roundtrip)

lemma flush_then_load:
  assumes "flush_api_config (st, fs) = (Inr u, (st', fs'))" "\<And>e. e \<in> im_vals (api_entries st) \<Longrightarrow> api_entry_ok e"
  shows "load_config_file env fs' (st_dir st @ [API_CONFIG_FILE]) ApiConfig =
    map (persisted ApiConfig) (map snd (api_entries st))"
proof -
  from assms(1) have "atomic_write_json (st_dir st @ [API_CONFIG_FILE])
      (JObj [(''services'', JArr (map (\<lambda>(_, e). JObj (entry_to_config_dict e)) (api_entries st)))]) fs = (Inr u, fs')"
    by (auto simp: flush_api_config_def dest: on_fs_InrD)
  note w = atomic_write_json_InrD(2) [OF this] atomic_write_json_InrD(3) [OF this, of env]
  have "map (\<lambda>(_, e). JObj (entry_to_config_dict e)) (api_entries st) =
      map (\<lambda>e. JObj (entry_to_config_dict e)) (map snd (api_entries st))"
    by (simp add: case_prod_beta)
  moreover have "parse_services env ApiConfig (map (\<lambda>e. JObj (entry_to_config_dict e)) (map snd (api_entries st))) =
      map (persisted ApiConfig) (map snd (api_entries st))"
    by (rule parse_services_roundtrip) (use assms(2) in \<open>auto simp: im_vals_def\<close>)
  ultimately show ?thesis using w by (simp add: load_config_file_def del: map_map)
qed

end
