(* ===== verification/SkillStore.thy ===== *)
theory SkillStore
  imports RegStore
begin

text \<open>
  The skill folders of \<open>register/store.rs\<close>: the frontmatter of \<open>SKILL.md\<close>, the extraction of an
  uploaded ZIP archive, removal, renaming and packing of a folder. White space, letters and
  digits are those of ASCII.
\<close>

definition SKILLS_DIR :: string where "SKILLS_DIR = ''skills''"
definition REMOVED_SKILLS_DIR :: string where "REMOVED_SKILLS_DIR = ''removed_skills''"

subsection \<open>Text\<close>

definition newline :: char where
  "newline = CHR 0x0A"

definition trim_start :: "string \<Rightarrow> string" where
  "trim_start s = dropWhile is_space s"

text \<open>The first occurrence of a pattern, and \<open>splitn(3, "---")\<close> when it has three parts.\<close>

fun split_sub :: "string \<Rightarrow> string \<Rightarrow> (string \<times> string) option" where
  "split_sub pat [] = (if pat = [] then Some ([], []) else None)"
| "split_sub pat (x # xs) =
     (if starts_with (x # xs) pat then Some ([], drop (length pat) (x # xs))
      else map_option (\<lambda>(a, b). (x # a, b)) (split_sub pat xs))"

definition split_frontmatter :: "string \<Rightarrow> (string \<times> string \<times> string) option" where
  "split_frontmatter content =
     Option.bind (split_sub ''---'' content) (\<lambda>(a, rest).
     Option.bind (split_sub ''---'' rest) (\<lambda>(b, c). Some (a, b, c)))"

definition strip_cr :: "string \<Rightarrow> string" where
  "strip_cr s = (if s \<noteq> [] \<and> last s = CHR 0x0D then butlast s else s)"

definition str_lines :: "string \<Rightarrow> string list" where
  "str_lines s =
     (let ps = split_on newline s in map strip_cr (if last ps = [] then butlast ps else ps))"

definition frontmatter_field :: "string \<Rightarrow> (string \<times> string) option" where
  "frontmatter_field line =
     Option.bind (split_once (CHR '':'') line) (\<lambda>(key, rest).
       if key \<notin> {''name'', ''description'', ''license''} then None
       else let raw = trim_start rest in if raw = [] then None else Some (key, raw))"

definition strip_quotes :: "string \<Rightarrow> string" where
  "strip_quotes v =
     (if 2 \<le> length v \<and> hd v \<in> {CHR 0x22, CHR 0x27} \<and> last v = hd v then butlast (tl v) else v)"

definition no_frontmatter :: RegistryError where
  "no_frontmatter = Invalid ''SKILL.md must have YAML frontmatter delimited by ---''"

definition parse_skill_md_content :: "string \<Rightarrow> RegistryError + (string, string) imap" where
  "parse_skill_md_content content =
     (case split_frontmatter content of
        None \<Rightarrow> Inl no_frontmatter
      | Some (_, fm, _) \<Rightarrow>
          let result = fold (\<lambda>line m.
                case frontmatter_field (trim line) of
                  Some (key, raw) \<Rightarrow> im_insert key (strip_quotes (trim raw)) m
                | None \<Rightarrow> m) (str_lines (trim fm)) []
          in if im_get result ''name'' \<in> {None, Some []} then
               Inl (Invalid (''SKILL.md frontmatter must include '' @ quoted ''name''))
             else if im_get result ''description'' \<in> {None, Some []} then
               Inl (Invalid (''SKILL.md frontmatter must include '' @ quoted ''description''))
             else Inr result)"

definition is_ascii_alpha :: "char \<Rightarrow> bool" where
  "is_ascii_alpha c = (let n = (of_char c :: nat) in (65 \<le> n \<and> n \<le> 90) \<or> (97 \<le> n \<and> n \<le> 122))"

definition key_char :: "char \<Rightarrow> bool" where
  "key_char c = (is_ascii_alpha c \<or> digit_val c \<noteq> None \<or> c = CHR ''_'' \<or> c = CHR ''-'')"

definition split_frontmatter_line :: "string \<Rightarrow> (string \<times> string \<times> string \<times> string) option" where
  "split_frontmatter_line line =
     (let indent = takeWhile is_space line; rest = trim_start line in
      case rest of
        [] \<Rightarrow> None
      | first # _ \<Rightarrow>
          if \<not> (is_ascii_alpha first \<or> first = CHR ''_'') then None
          else let key = takeWhile key_char rest; after_key = dropWhile key_char rest in
            (case split_once (CHR '':'') after_key of
               None \<Rightarrow> None
             | Some (before, after_colon) \<Rightarrow>
                 if \<not> list_all is_space before then None
                 else Some (indent, key, before @ '':'' @ takeWhile is_space after_colon, trim_start after_colon)))"

definition update_line :: "(string, string) imap \<Rightarrow> string \<Rightarrow> string \<times> string list" where
  "update_line updates line =
     (case split_frontmatter_line line of
        Some (indent, key, sep, _) \<Rightarrow>
          (case im_get updates key of
             Some v \<Rightarrow> (indent @ key @ sep @ v, [key])
           | None \<Rightarrow> (line, []))
      | None \<Rightarrow> (line, []))"

definition trim_newlines :: "string \<Rightarrow> string" where
  "trim_newlines s =
     rev (dropWhile (\<lambda>c. c = newline) (rev (dropWhile (\<lambda>c. c = newline) s)))"

definition updated_skill_md :: "string \<Rightarrow> (string, string) imap \<Rightarrow> string option" where
  "updated_skill_md content updates =
     (case split_frontmatter content of
        None \<Rightarrow> None
      | Some (_, fm, body) \<Rightarrow>
          let rewritten = map (update_line updates) (split_on newline (trim_newlines fm));
              seen = concat (map snd rewritten);
              added = map (\<lambda>(k, v). k @ '': '' @ v) (filter (\<lambda>(k, _). k \<notin> set seen) updates)
          in Some (''---'' @ [newline] @ join [newline] (map fst rewritten @ added) @ [newline] @ ''---'' @ body))"

subsection \<open>Folders\<close>

definition skills_path :: "RegistryStore \<Rightarrow> path" where
  "skills_path st = st_dir st @ [SKILLS_DIR]"

definition list_skill_files :: "Fs \<Rightarrow> path \<Rightarrow> string list" where
  "list_skill_files fs dir =
     sort (map (\<lambda>(p, _). join ''/'' (drop (length dir) p)) (filter (\<lambda>(p, _). under dir p) (fs_files fs)))"

definition skill_of_meta :: "(string, string) imap \<Rightarrow> string list \<Rightarrow> SkillData" where
  "skill_of_meta meta files =
     (let get = (\<lambda>k. case im_get meta k of Some v \<Rightarrow> v | None \<Rightarrow> []) in
      \<lparr> sk_name = get ''name'', sk_description = get ''description'', license = get ''license'',
        skill_path = SKILLS_DIR @ ''/'' @ get ''name'', sk_files = files \<rparr>)"

definition load_skills :: "RegEnv \<Rightarrow> Fs \<Rightarrow> RegistryStore \<Rightarrow> RegistryEntry list" where
  "load_skills env fs st =
     (if \<not> fs_is_dir fs (skills_path st) then []
      else concat (map (\<lambda>child.
        let dir = skills_path st @ [child] in
        case im_get (fs_files fs) (dir @ [''SKILL.md'']) of
          None \<Rightarrow> []
        | Some d \<Rightarrow>
            (case parse_skill_md_content (file_text env d) of
               Inl _ \<Rightarrow> []
             | Inr meta \<Rightarrow>
                 let sd = skill_of_meta meta (list_skill_files fs dir) in
                 [\<lparr> service_id = generate_service_id env ''skill'' (sk_name sd), re_type = Skill,
                    source = SkillFolder, service_data = None, agent_card = None, agent_card_url = None,
                    skill_data = Some sd, re_owner_id = None, re_lease_ttl = None \<rparr>]))
        (fs_subdirs fs (skills_path st))))"

fun find_skill_dir :: "string list \<Rightarrow> string list \<Rightarrow> (string \<times> string) option" where
  "find_skill_dir names [] = None"
| "find_skill_dir names (td # tds) =
     (if td @ ''/SKILL.md'' \<in> set names then Some (td @ ''/SKILL.md'', td @ ''/'')
      else find_skill_dir names tds)"

text \<open>The path of \<open>SKILL.md\<close> in the archive and the prefix stripped from every name.\<close>

definition locate_skill_md :: "string list \<Rightarrow> (string \<times> string) option" where
  "locate_skill_md names =
     (if ''SKILL.md'' \<in> set names then Some (''SKILL.md'', [])
      else find_skill_dir names
             (remdups_adj (sort (map (\<lambda>n. hd (split_on (CHR ''/'') n)) (filter (\<lambda>n. CHR ''/'' \<in> set n) names)))))"

definition unsafe_name :: "string \<Rightarrow> bool" where
  "unsafe_name n = (starts_with n ''/'' \<or> contains_sub n ''..'')"

definition entry_rel :: "string \<Rightarrow> string \<Rightarrow> string" where
  "entry_rel strip_prefix nm =
     (if strip_prefix \<noteq> [] \<and> starts_with nm strip_prefix then drop (length strip_prefix) nm else nm)"

definition extract_entry :: "path \<Rightarrow> string \<Rightarrow> ZipEntry \<Rightarrow> (Fs, unit) rop" where
  "extract_entry target strip_prefix z =
     (let rel = entry_rel strip_prefix (ze_name z); dest = path_join target rel in
      if ze_is_dir z \<or> rel = [] then rok ()
      else rthen (fs_create_dir_all (butlast dest)) (\<lambda>_. fs_write dest (FText (ze_data z))))"

fun extract_all :: "path \<Rightarrow> string \<Rightarrow> ZipEntry list \<Rightarrow> (Fs, unit) rop" where
  "extract_all target strip_prefix [] = rok ()"
| "extract_all target strip_prefix (z # zs) =
     rthen (extract_entry target strip_prefix z) (\<lambda>_. extract_all target strip_prefix zs)"

definition check_names :: "string list \<Rightarrow> RegistryError + unit" where
  "check_names names =
     (case List.find unsafe_name names of
        Some n \<Rightarrow> Inl (Invalid (''Unsafe path in ZIP: '' @ n))
      | None \<Rightarrow> Inr ())"

definition read_skill_md :: "RegEnv \<Rightarrow> ZipEntry list \<Rightarrow> RegistryError + (string \<times> (string, string) imap)" where
  "read_skill_md env archive =
     (case locate_skill_md (map ze_name archive) of
        None \<Rightarrow> Inl (Invalid ''ZIP must contain SKILL.md (at root or in a single top-level directory)'')
      | Some (md_path, strip_prefix) \<Rightarrow>
          (case List.find (\<lambda>z. ze_name z = md_path) archive of
             None \<Rightarrow> Inl (Invalid ''Invalid ZIP file: specified file not found in archive'')
           | Some z \<Rightarrow>
               (case utf8_err env (ze_data z) of
                  Some e \<Rightarrow> Inl (Invalid (''SKILL.md is not UTF-8: '' @ e))
                | None \<Rightarrow>
                    (case parse_skill_md_content (ze_data z) of
                       Inl e \<Rightarrow> Inl e
                     | Inr meta \<Rightarrow> Inr (strip_prefix, meta)))))"

definition save_skill_zip :: "RegEnv \<Rightarrow> string \<Rightarrow> (store_state, SkillData) rop" where
  "save_skill_zip env zip_bytes =
     (case zip_open env zip_bytes of
        Inl e \<Rightarrow> rfail (Invalid (''Invalid ZIP file: '' @ e))
      | Inr archive \<Rightarrow>
          rthen (rlift (check_names (map ze_name archive))) (\<lambda>_.
          rthen (rlift (read_skill_md env archive)) (\<lambda>(strip_prefix, meta).
            let nm = (case im_get meta ''name'' of Some v \<Rightarrow> v | None \<Rightarrow> []) in
            on_fs (\<lambda>st.
              let target = path_join (skills_path st) nm in
              rthen (rget (\<lambda>fs. if fs_exists fs target then fs_remove_dir_all target else rok ())) (\<lambda>_.
              rthen (fs_create_dir_all target) (\<lambda>_.
              rthen (extract_all target strip_prefix archive) (\<lambda>_.
              rget (\<lambda>fs. rok (skill_of_meta meta (list_skill_files fs target))))))))))"

definition remove_skill :: "string \<Rightarrow> (store_state, bool) rop" where
  "remove_skill nm =
     on_fs (\<lambda>st.
       let skill_dir = path_join (skills_path st) nm;
           removed_dir = st_dir st @ [REMOVED_SKILLS_DIR];
           dest = path_join removed_dir nm
       in rget (\<lambda>fs.
            if \<not> fs_exists fs skill_dir then rok False
            else rthen (fs_create_dir_all removed_dir) (\<lambda>_.
                 rthen (rget (\<lambda>fs. if fs_exists fs dest then fs_remove_dir_all dest else rok ())) (\<lambda>_.
                 rthen (fs_rename_dir skill_dir dest) (\<lambda>_. rok True)))))"

definition rename_skill :: "string \<Rightarrow> string \<Rightarrow> (store_state, unit) rop" where
  "rename_skill old_name new_name =
     on_fs (\<lambda>st.
       let old_dir = path_join (skills_path st) old_name; new_dir = path_join (skills_path st) new_name in
       if new_name = [] \<or> new_name = old_name then rok ()
       else rget (\<lambda>fs.
              if \<not> fs_exists fs old_dir then rfail (FileNotFound (''Skill folder not found: '' @ old_name))
              else if fs_exists fs new_dir then rfail (Invalid (''Skill folder already exists: '' @ new_name))
              else fs_rename_dir old_dir new_dir))"

definition update_skill_md :: "RegEnv \<Rightarrow> string \<Rightarrow> (string, string) imap \<Rightarrow> (store_state, unit) rop" where
  "update_skill_md env nm updates =
     on_fs (\<lambda>st.
       let p = path_join (skills_path st) nm @ [''SKILL.md''] in
       rget (\<lambda>fs.
         case im_get (fs_files fs) p of
           None \<Rightarrow> rfail (FileNotFound (''SKILL.md not found for skill '' @ quoted nm))
         | Some d \<Rightarrow>
             (case updated_skill_md (file_text env d) updates of
                None \<Rightarrow> rfail no_frontmatter
              | Some t \<Rightarrow> fs_write p (FText t))))"

definition get_skill_zip :: "RegEnv \<Rightarrow> string \<Rightarrow> (store_state, string) rop" where
  "get_skill_zip env nm =
     rget (\<lambda>(st, fs).
       let dir = path_join (skills_path st) nm in
       if \<not> fs_is_dir fs dir then rfail (FileNotFound (''Skill folder not found: '' @ nm))
       else rok (zip_write env (map (\<lambda>rel.
              (rel, case im_get (fs_files fs) (path_join dir rel) of Some d \<Rightarrow> file_text env d | None \<Rightarrow> []))
              (list_skill_files fs dir))))"

end
