(* ===== verification/RegistryCore.thy ===== *)
theory RegistryCore
  imports SkillStore "HOL-Library.Product_Lexorder"
begin

text \<open>
  The state of \<open>RegistryService\<close> (\<open>register/service.rs\<close>) and what its operations share: the stores
  of the datasets, the output cache and \<open>service.json\<close>, the taxonomy state, the per-dataset
  configuration with its caches, and format validation.

  The fields of \<open>Inner\<close> and of the service are one record; each operation is one step, the
  interleaving of two operations is not modelled here. The hooks are the logs of their calls:
  \<open>changed_log\<close> for \<open>on_service_changed\<close>, \<open>mutation_log\<close> for \<open>on_mutation\<close>.
\<close>

datatype MutationOp = OpRegister | OpUpdate | OpDeregister

definition MutationOp_as_str :: "MutationOp \<Rightarrow> string" where
  "MutationOp_as_str op =
     (case op of OpRegister \<Rightarrow> ''register'' | OpUpdate \<Rightarrow> ''update'' | OpDeregister \<Rightarrow> ''deregister'')"

record ReservationLease =
  rl_holder_id :: string
  rl_expires_at :: real

record RegistryService =
  database_dir :: path
  global_config_path :: "path option"
  allowed_a2a_versions :: "string list option"
  stores :: "(string, RegistryStore) imap"
  rs_entries :: "(string, (string, RegistryEntry) imap) imap"
  output_cache :: "(string, json list) imap"
  taxonomy_states :: "(string, TaxonomyState) imap"
  format_configs :: "(string, (string, string) imap) imap"
  rs_leases :: "(string \<times> string, ReservationLease) imap"
  auth_required_cache :: "(string, bool) imap"
  lease_config_cache :: "(string, LeaseConfig) imap"
  unhealthy_check :: "(string \<Rightarrow> string \<Rightarrow> bool) option"
  rs_fs :: Fs
  mutation_log :: "(string \<times> string \<times> MutationOp \<times> RegistryEntry option) list"
  changed_log :: "string list"

type_synonym 'a reg = "(RegistryService, 'a) rop"

definition RegistryService_new :: "path \<Rightarrow> path option \<Rightarrow> Fs \<Rightarrow> RegistryService" where
  "RegistryService_new dir global fs =
     \<lparr> database_dir = dir, global_config_path = global, allowed_a2a_versions = None, stores = [],
       rs_entries = [], output_cache = [], taxonomy_states = [], format_configs = [], rs_leases = [],
       auth_required_cache = [], lease_config_cache = [], unhealthy_check = None, rs_fs = fs,
       mutation_log = [], changed_log = [] \<rparr>"

definition with_allowed_a2a_versions :: "string list option \<Rightarrow> RegistryService \<Rightarrow> RegistryService" where
  "with_allowed_a2a_versions versions s = s\<lparr> allowed_a2a_versions := versions \<rparr>"

definition set_unhealthy_check :: "(string \<Rightarrow> string \<Rightarrow> bool) option \<Rightarrow> RegistryService \<Rightarrow> RegistryService" where
  "set_unhealthy_check callback s = s\<lparr> unhealthy_check := callback \<rparr>"

subsection \<open>Stores\<close>

definition dataset_dir :: "RegistryService \<Rightarrow> string \<Rightarrow> path" where
  "dataset_dir s ds = path_join (database_dir s) ds"

definition run_fs :: "(Fs, 'a) rop \<Rightarrow> 'a reg" where
  "run_fs m s = (case m (rs_fs s) of (r, fs') \<Rightarrow> (r, s\<lparr> rs_fs := fs' \<rparr>))"

definition get_store :: "string \<Rightarrow> RegistryStore reg" where
  "get_store ds =
     rget (\<lambda>s. case im_get (stores s) ds of
        Some st \<Rightarrow> rok st
      | None \<Rightarrow>
          rthen (run_fs (RegistryStore_new (dataset_dir s ds))) (\<lambda>st.
          rthen (rmodify (\<lambda>s. s\<lparr> stores := im_insert ds st (stores s) \<rparr>)) (\<lambda>_. rok st)))"

text \<open>\<open>self.get_store(dataset)?.op()?\<close>: the store is shared, so its changes stay.\<close>

definition with_store :: "string \<Rightarrow> (store_state, 'a) rop \<Rightarrow> 'a reg" where
  "with_store ds m =
     rthen (get_store ds) (\<lambda>st s.
       case m (st, rs_fs s) of
         (r, (st', fs')) \<Rightarrow> (r, s\<lparr> rs_fs := fs', stores := im_insert ds st' (stores s) \<rparr>))"

subsection \<open>Output\<close>

definition entry_to_output :: "RegistryEntry \<Rightarrow> JsonDict" where
  "entry_to_output e =
     [(''id'', JStr (service_id e))] @
     (case (re_type e, skill_data e, service_data e, agent_card e) of
        (Skill, Some sd, _, _) \<Rightarrow>
          [(''type'', JStr ''skill''), (''name'', JStr (sk_name sd)), (''description'', JStr (sk_description sd)),
           (''metadata'', JObj [(''skill_path'', JStr (skill_path sd)), (''license'', JStr (license sd)),
                                (''files'', strings (sk_files sd))])]
      | (Generic, _, Some sd, _) \<Rightarrow>
          [(''type'', JStr ''generic''), (''name'', JStr (gs_name sd)), (''description'', JStr (gs_description sd)),
           (''metadata'', JObj (put (input_schema sd = []) ''inputSchema'' (JObj (input_schema sd)) @
                                put_some ''url'' JStr (non_empty (gs_url sd))))]
      | (A2a, _, _, Some c) \<Rightarrow>
          [(''type'', JStr ''a2a''), (''name'', JStr (ac_name c)), (''description'', JStr (build_description c)),
           (''metadata'', JObj (AgentCard_to_json ExcludeNone c))]
      | _ \<Rightarrow>
          [(''type'', JStr ''a2a''), (''name'', JStr (service_id e)),
           (''description'', JStr (''Unresolved agent card: '' @
              (case agent_card_url e of Some u \<Rightarrow> u | None \<Rightarrow> ''unknown''))),
           (''metadata'', JObj [])]) @
     put_some ''owner_id'' JStr (non_empty (re_owner_id e))"

definition list_services :: "RegistryService \<Rightarrow> string \<Rightarrow> json list" where
  "list_services s ds = (case im_get (output_cache s) ds of Some o' \<Rightarrow> o' | None \<Rightarrow> [])"

definition list_entries :: "RegistryService \<Rightarrow> string \<Rightarrow> RegistryEntry list" where
  "list_entries s ds = (case im_get (rs_entries s) ds of Some d \<Rightarrow> map snd d | None \<Rightarrow> [])"

definition get_entry :: "RegistryService \<Rightarrow> string \<Rightarrow> string \<Rightarrow> RegistryEntry option" where
  "get_entry s ds sid = Option.bind (im_get (rs_entries s) ds) (\<lambda>d. im_get d sid)"

definition output_of :: "RegistryService \<Rightarrow> string \<Rightarrow> json list" where
  "output_of s ds = map (\<lambda>e. JObj (entry_to_output e)) (list_entries s ds)"

definition regenerate_output :: "string \<Rightarrow> bool reg" where
  "regenerate_output ds =
     rget (\<lambda>s.
       let output = output_of s ds;
           changed = \<not> (case im_get (output_cache s) ds of
                          Some old \<Rightarrow> list_all2 json_eq old output | None \<Rightarrow> False)
       in rthen (rmodify (\<lambda>s. s\<lparr> output_cache := im_insert ds output (output_cache s) \<rparr>)) (\<lambda>_.
          if changed then
            rthen (with_store ds (write_service_json output)) (\<lambda>_.
            rthen (rmodify (\<lambda>s. s\<lparr> changed_log := changed_log s @ [ds] \<rparr>)) (\<lambda>_. rok True))
          else rok False))"

subsection \<open>Taxonomy state\<close>

definition taxonomy_dir :: "RegistryService \<Rightarrow> string \<Rightarrow> path" where
  "taxonomy_dir s ds = dataset_dir s ds @ [''taxonomy'']"

definition value_str_or_empty :: "json \<Rightarrow> string \<Rightarrow> string" where
  "value_str_or_empty v k = (case Option.bind (jget v k) as_str of Some t \<Rightarrow> t | None \<Rightarrow> [])"

definition compute_build_hash :: "RegEnv \<Rightarrow> json list \<Rightarrow> string" where
  "compute_build_hash env services =
     hex_encode (sha256 env (dumps_pairs env
       (sort (map (\<lambda>v. (value_str_or_empty v ''name'', value_str_or_empty v ''description'')) services))))"

definition read_build_hash :: "RegEnv \<Rightarrow> Fs \<Rightarrow> path \<Rightarrow> string option" where
  "read_build_hash env fs p =
     Option.bind (read_json env fs p) (\<lambda>v. Option.bind (jget v ''service_hash'') as_str)"

definition compute_taxonomy_state :: "RegEnv \<Rightarrow> RegistryService \<Rightarrow> string \<Rightarrow> TaxonomyState" where
  "compute_taxonomy_state env s ds =
     (let build = taxonomy_dir s ds @ [''build_config.json'']; tax = taxonomy_dir s ds @ [''taxonomy.json''] in
      if \<not> fs_exists (rs_fs s) build \<or> \<not> fs_exists (rs_fs s) tax then Nonexistent
      else case read_build_hash env (rs_fs s) build of
             None \<Rightarrow> Nonexistent
           | Some stored \<Rightarrow>
               if compute_build_hash env (list_services s ds) = stored then Available else Unavailable)"

definition set_taxonomy :: "string \<Rightarrow> TaxonomyState \<Rightarrow> RegistryService \<Rightarrow> RegistryService" where
  "set_taxonomy ds t s = s\<lparr> taxonomy_states := im_insert ds t (taxonomy_states s) \<rparr>"

definition get_taxonomy_state :: "RegistryService \<Rightarrow> string \<Rightarrow> TaxonomyState option" where
  "get_taxonomy_state s ds = im_get (taxonomy_states s) ds"

definition init_taxonomy_state :: "RegEnv \<Rightarrow> string \<Rightarrow> RegistryService \<Rightarrow> TaxonomyState \<times> RegistryService" where
  "init_taxonomy_state env ds s =
     (let t = compute_taxonomy_state env s ds in (t, set_taxonomy ds t s))"

definition mark_taxonomy_stale :: "string \<Rightarrow> RegistryService \<Rightarrow> RegistryService" where
  "mark_taxonomy_stale ds s =
     (if im_get (taxonomy_states s) ds = Some Available then set_taxonomy ds Stale s else s)"

definition check_taxonomy_state ::
  "RegEnv \<Rightarrow> string \<Rightarrow> RegistryService \<Rightarrow> TaxonomyState option \<times> RegistryService" where
  "check_taxonomy_state env ds s =
     (case get_taxonomy_state s ds of
        None \<Rightarrow> (None, s)
      | Some t \<Rightarrow>
          if t \<noteq> Stale then (Some t, s)
          else let t' = compute_taxonomy_state env s ds in (Some t', set_taxonomy ds t' s))"

definition emit_mutation ::
  "string \<Rightarrow> string \<Rightarrow> MutationOp \<Rightarrow> RegistryEntry option \<Rightarrow> RegistryService \<Rightarrow> RegistryService" where
  "emit_mutation ds sid op e s = s\<lparr> mutation_log := mutation_log s @ [(ds, sid, op, e)] \<rparr>"

subsection \<open>Configuration of a dataset\<close>

definition get_register_config :: "RegEnv \<Rightarrow> string \<Rightarrow> (string, string) imap reg" where
  "get_register_config env ds =
     rget (\<lambda>s. case im_get (format_configs s) ds of
        Some c \<Rightarrow> rok c
      | None \<Rightarrow>
          rthen (get_store ds) (\<lambda>st. rget (\<lambda>s.
            let cfg = (case load_register_config env (rs_fs s) st of
                         Some c \<Rightarrow> c | None \<Rightarrow> DEFAULT_FORMAT_CONFIG)
            in rthen (rmodify (\<lambda>s. s\<lparr> format_configs := im_insert ds cfg (format_configs s) \<rparr>)) (\<lambda>_. rok cfg))))"

definition set_register_config :: "string \<Rightarrow> json \<Rightarrow> (string, string) imap reg" where
  "set_register_config ds formats =
     (let cfg = normalize_format_config (Some formats) in
      if cfg = [] then
        rfail (Invalid (''formats must declare at least one valid type with a known version; supported types: '' @
                        py_list SUPPORTED_SERVICE_TYPES))
      else rthen (with_store ds (write_register_config cfg)) (\<lambda>_.
           rthen (rmodify (\<lambda>s. s\<lparr> format_configs := im_insert ds cfg (format_configs s) \<rparr>)) (\<lambda>_. rok cfg)))"

definition get_vector_config :: "RegEnv \<Rightarrow> string \<Rightarrow> JsonDict reg" where
  "get_vector_config env ds =
     rthen (get_store ds) (\<lambda>st. rget (\<lambda>s.
       rok (case load_vector_config env (rs_fs s) st of
              Some c \<Rightarrow> c
            | None \<Rightarrow>
                [(''embedding_model'', JStr DEFAULT_EMBEDDING_MODEL),
                 (''embedding_dim'', JInt (case embedding_dim DEFAULT_EMBEDDING_MODEL of
                                             Some d \<Rightarrow> int d | None \<Rightarrow> 0))])))"

definition set_vector_config :: "string \<Rightarrow> string option \<Rightarrow> int option \<Rightarrow> JsonDict reg" where
  "set_vector_config ds model d =
     (let nm = (case non_empty model of Some m \<Rightarrow> m | None \<Rightarrow> DEFAULT_EMBEDDING_MODEL) in
      case (case embedding_dim nm of Some k \<Rightarrow> Some (int k) | None \<Rightarrow> d) of
        None \<Rightarrow>
          rfail (Invalid (''Unknown embedding model '' @ quoted nm @ ''; provide embedding_dim explicitly''))
      | Some k \<Rightarrow>
          rthen (with_store ds (write_vector_config nm k)) (\<lambda>_.
            rok [(''embedding_model'', JStr nm), (''embedding_dim'', JInt k)]))"

definition no_dataset :: "string \<Rightarrow> RegistryError" where
  "no_dataset ds = Invalid (''Dataset '' @ quoted ds @ '' does not exist'')"

text \<open>A store that cannot be opened counts as an absent file.\<close>

definition is_auth_required :: "RegEnv \<Rightarrow> string \<Rightarrow> RegistryService \<Rightarrow> bool \<times> RegistryService" where
  "is_auth_required env ds s =
     (case im_get (auth_required_cache s) ds of
        Some v \<Rightarrow> (v, s)
      | None \<Rightarrow>
          if \<not> fs_exists (rs_fs s) (dataset_dir s ds) then (False, s)
          else let (r, s') = get_store ds s;
                   req = (case r of Inr st \<Rightarrow> ac_required (load_auth_config env (rs_fs s') st) | Inl _ \<Rightarrow> False)
               in (req, s'\<lparr> auth_required_cache := im_insert ds req (auth_required_cache s') \<rparr>))"

definition set_auth_config :: "string \<Rightarrow> bool \<Rightarrow> JsonDict reg" where
  "set_auth_config ds req =
     rget (\<lambda>s. if \<not> fs_exists (rs_fs s) (dataset_dir s ds) then rfail (no_dataset ds)
       else rthen (with_store ds (write_auth_config req)) (\<lambda>_.
            rthen (rmodify (\<lambda>s. s\<lparr> auth_required_cache := im_insert ds req (auth_required_cache s) \<rparr>)) (\<lambda>_.
            rok [(''required'', JBool req), (''schema_version'', JInt 1)])))"

definition get_lease_config :: "RegEnv \<Rightarrow> string \<Rightarrow> RegistryService \<Rightarrow> LeaseConfig \<times> RegistryService" where
  "get_lease_config env ds s =
     (case im_get (lease_config_cache s) ds of
        Some c \<Rightarrow> (c, s)
      | None \<Rightarrow>
          if \<not> fs_exists (rs_fs s) (dataset_dir s ds) then (LeaseConfig_default, s)
          else let (r, s') = get_store ds s;
                   cfg = (case r of Inr st \<Rightarrow> load_lease_config env (rs_fs s') st | Inl _ \<Rightarrow> LeaseConfig_default)
               in (cfg, s'\<lparr> lease_config_cache := im_insert ds cfg (lease_config_cache s') \<rparr>))"

definition set_lease_config :: "string \<Rightarrow> bool \<Rightarrow> int \<Rightarrow> int \<Rightarrow> int \<Rightarrow> LeaseConfig reg" where
  "set_lease_config ds en lo hi grace =
     rget (\<lambda>s. if \<not> fs_exists (rs_fs s) (dataset_dir s ds) then rfail (no_dataset ds)
       else let cfg = \<lparr> enabled = en, min_ttl = lo, max_ttl = hi, grace_period = grace, schema_version = 1 \<rparr> in
            rthen (with_store ds (write_lease_config en lo hi grace)) (\<lambda>_.
            rthen (rmodify (\<lambda>s. s\<lparr> lease_config_cache := im_insert ds cfg (lease_config_cache s) \<rparr>)) (\<lambda>_.
            rok cfg)))"

subsection \<open>Datasets\<close>

definition formats_to_map :: "(string, string) imap \<Rightarrow> JsonDict" where
  "formats_to_map formats = map (\<lambda>(k, v). (k, JStr v)) formats"

definition init_dataset_files :: "string \<Rightarrow> string \<Rightarrow> (string, string) imap \<Rightarrow> bool \<Rightarrow> unit reg" where
  "init_dataset_files ds model formats auth_required =
     rget (\<lambda>s.
       let dir = dataset_dir s ds; missing = (\<lambda>s f. \<not> fs_exists (rs_fs s) (dir @ [f])) in
       rthen (run_fs (fs_create_dir_all dir)) (\<lambda>_.
       rthen (run_fs (fs_create_dir_all (dir @ [''query'']))) (\<lambda>_.
       rthen (rget (\<lambda>s. if missing s VECTOR_CONFIG_FILE
                        then rthen (set_vector_config ds (Some model) None) (\<lambda>_. rok ()) else rok ())) (\<lambda>_.
       rthen (rget (\<lambda>s. if missing s REGISTER_CONFIG_FILE
                        then rthen (set_register_config ds (JObj (formats_to_map formats))) (\<lambda>_. rok ())
                        else rok ())) (\<lambda>_.
       rget (\<lambda>s. if auth_required \<and> missing s AUTH_CONFIG_FILE then
              rthen (with_store ds (write_auth_config True)) (\<lambda>_.
              rmodify (\<lambda>s. s\<lparr> auth_required_cache := im_insert ds True (auth_required_cache s) \<rparr>))
            else rok ()))))))"

definition ensure_dataset_initialized :: "string \<Rightarrow> unit reg" where
  "ensure_dataset_initialized ds =
     rget (\<lambda>s. if fs_exists (rs_fs s) (dataset_dir s ds @ [VECTOR_CONFIG_FILE]) then rok ()
               else init_dataset_files ds DEFAULT_EMBEDDING_MODEL DEFAULT_FORMAT_CONFIG False)"

definition normalize_or_default_formats :: "json option \<Rightarrow> RegistryError + (string, string) imap" where
  "normalize_or_default_formats formats =
     (case formats of
        None \<Rightarrow> Inr DEFAULT_FORMAT_CONFIG
      | Some raw \<Rightarrow>
          let n = normalize_format_config (Some raw) in
          if n = [] then
            Inl (Invalid (''formats must declare at least one valid type/version. Supported types: '' @
                          py_list SUPPORTED_SERVICE_TYPES))
          else Inr n)"

definition create_dataset :: "string \<Rightarrow> string option \<Rightarrow> json option \<Rightarrow> bool \<Rightarrow> path reg" where
  "create_dataset ds model formats auth_required =
     rget (\<lambda>s. if fs_exists (rs_fs s) (dataset_dir s ds) then
            rfail (Invalid (''Dataset '' @ quoted ds @ '' already exists''))
          else rthen (rlift (normalize_or_default_formats formats)) (\<lambda>n.
               rthen (init_dataset_files ds (case model of Some m \<Rightarrow> m | None \<Rightarrow> DEFAULT_EMBEDDING_MODEL) n
                        auth_required) (\<lambda>_. rok (dataset_dir s ds))))"

definition delete_dataset :: "string \<Rightarrow> unit reg" where
  "delete_dataset ds =
     rget (\<lambda>s. let dir = dataset_dir s ds in
       if \<not> fs_exists (rs_fs s) dir then rfail (no_dataset ds)
       else rthen (rmodify (\<lambda>s. s\<lparr>
              rs_entries := im_remove ds (rs_entries s), output_cache := im_remove ds (output_cache s),
              taxonomy_states := im_remove ds (taxonomy_states s),
              format_configs := im_remove ds (format_configs s),
              rs_leases := im_retain (\<lambda>(d, _) _. d \<noteq> ds) (rs_leases s),
              stores := im_remove ds (stores s), auth_required_cache := im_remove ds (auth_required_cache s),
              lease_config_cache := im_remove ds (lease_config_cache s) \<rparr>)) (\<lambda>_.
            run_fs (fs_remove_dir_all dir)))"

definition list_datasets :: "RegistryService \<Rightarrow> string list" where
  "list_datasets s = fs_subdirs (rs_fs s) (database_dir s)"

subsection \<open>Validation\<close>

definition require_type_allowed :: "RegEnv \<Rightarrow> string \<Rightarrow> string \<Rightarrow> string reg" where
  "require_type_allowed env ds t =
     rthen (get_register_config env ds) (\<lambda>cfg.
       case im_get cfg t of
         Some v \<Rightarrow> rok v
       | None \<Rightarrow>
           rfail (Invalid (''Service type '' @ quoted t @ '' is not allowed for dataset '' @ quoted ds @
                           ''. Allowed: '' @ py_list (sort (map fst cfg)))))"

definition require_valid :: "RegEnv \<Rightarrow> string \<Rightarrow> string \<Rightarrow> json \<Rightarrow> ValidationResult reg" where
  "require_valid env ds t v =
     rthen (require_type_allowed env ds t) (\<lambda>min_version. rget (\<lambda>s.
     rthen (case allowed_a2a_versions s of
              Some allowed \<Rightarrow>
                if t = ''a2a'' then
                  (case AgentCard_from_value v of
                     Some c \<Rightarrow> rok (validate_agent_card env c (Some allowed))
                   | None \<Rightarrow> rfail (Invalid (''invalid agent card: '' @ de_err env v)))
                else rok (validate_service env t v min_version)
            | None \<Rightarrow> rok (validate_service env t v min_version)) (\<lambda>result.
       if \<not> vr_valid result then
         rfail (Invalid (t @ '' payload failed validation for dataset '' @ quoted ds @ '': '' @
                         join ''; '' (vr_errors result)))
       else rok result)))"

definition name_description :: "string \<Rightarrow> string \<Rightarrow> json" where
  "name_description n d = JObj [(''name'', JStr n), (''description'', JStr d)]"

definition validate_entry :: "RegEnv \<Rightarrow> string \<Rightarrow> RegistryEntry \<Rightarrow> bool \<Rightarrow> ValidationResult option reg" where
  "validate_entry env ds e skip_a2a_url_only =
     rthen (get_register_config env ds) (\<lambda>cfg. rget (\<lambda>s.
       let t = ServiceType_as_str (re_type e); fail = (\<lambda>errs. Some (ValidationResult_failure t errs)) in
       rok (case im_get cfg t of
              None \<Rightarrow> fail [''service type '' @ quoted t @ '' not allowed in dataset '' @ quoted ds]
            | Some min_version \<Rightarrow>
                (case re_type e of
                   A2a \<Rightarrow>
                     (case agent_card e of
                        None \<Rightarrow>
                          if skip_a2a_url_only then None
                          else fail [''agent_card not present (URL fetch not yet completed)'']
                      | Some c \<Rightarrow>
                          (case allowed_a2a_versions s of
                             Some allowed \<Rightarrow> Some (validate_agent_card env c (Some allowed))
                           | None \<Rightarrow>
                               Some (validate_service env ''a2a'' (JObj (AgentCard_to_json Full c)) min_version)))
                 | Generic \<Rightarrow>
                     (case service_data e of
                        Some sd \<Rightarrow>
                          Some (validate_service env ''generic''
                            (name_description (gs_name sd) (gs_description sd)) min_version)
                      | None \<Rightarrow> fail [''entry has no payload to validate''])
                 | Skill \<Rightarrow>
                     (case skill_data e of
                        Some sk \<Rightarrow>
                          Some (validate_service env ''skill''
                            (name_description (sk_name sk) (sk_description sk)) min_version)
                      | None \<Rightarrow> fail [''entry has no payload to validate''])))))"

end
