(* ===== verification/RegistryOps.thy ===== *)
theory RegistryOps
  imports RegistryCore
begin

text \<open>
  The operations of \<open>RegistryService\<close> that change its entries (\<open>register/service.rs\<close>): registration of
  generic services, agents, batches and skills, partial updates and deregistration, with the
  ownership checks. The agent card of a URL is fetched by the parameter \<open>fetch\<close>.
\<close>

subsection \<open>Authorization\<close>

definition assert_can_register :: "AuthContext option \<Rightarrow> RegistryError + unit" where
  "assert_can_register caller =
     (case caller of
        None \<Rightarrow> Inr ()
      | Some c \<Rightarrow>
          if is_admin c \<or> role c = Provider then Inr ()
          else Inl (Permission (''Role '' @ quoted (Role_as_str (role c)) @
                                '' cannot register services; need admin or provider'')))"

definition assert_owner :: "RegistryEntry \<Rightarrow> AuthContext \<Rightarrow> RegistryError + unit" where
  "assert_owner e c =
     (if is_admin c then Inr ()
      else case re_owner_id e of
             None \<Rightarrow> Inl (Permission ''System / unclaimed service: admin role required to mutate'')
           | Some o' \<Rightarrow>
               if o' \<noteq> principal_id c then
                 Inl (Permission (''Service '' @ quoted (service_id e) @ '' is owned by another principal''))
               else Inr ())"

definition assert_owner_opt :: "RegistryEntry \<Rightarrow> AuthContext option \<Rightarrow> RegistryError + unit" where
  "assert_owner_opt e caller = (case caller of Some c \<Rightarrow> assert_owner e c | None \<Rightarrow> Inr ())"

subsection \<open>Registration\<close>

definition entries_of :: "RegistryService \<Rightarrow> string \<Rightarrow> (string, RegistryEntry) imap" where
  "entries_of s ds = (case im_get (rs_entries s) ds of Some d \<Rightarrow> d | None \<Rightarrow> [])"

definition set_entries :: "string \<Rightarrow> (string, RegistryEntry) imap \<Rightarrow> RegistryService \<Rightarrow> RegistryService" where
  "set_entries ds d s = s\<lparr> rs_entries := im_insert ds d (rs_entries s) \<rparr>"

definition put_entry :: "string \<Rightarrow> RegistryEntry \<Rightarrow> RegistryService \<Rightarrow> RegistryService" where
  "put_entry ds e s = set_entries ds (im_insert (service_id e) e (entries_of s ds)) s"

definition save_if :: "bool \<Rightarrow> string \<Rightarrow> RegistryEntry \<Rightarrow> unit reg" where
  "save_if b ds e = (if b then with_store ds (save_api_entry e) else rok ())"

definition finish_put :: "string \<Rightarrow> string \<Rightarrow> bool \<Rightarrow> RegistryEntry option \<Rightarrow> unit reg" where
  "finish_put ds sid existed e =
     rthen (regenerate_output ds) (\<lambda>_.
     rmodify (\<lambda>s. emit_mutation ds sid (if existed then OpUpdate else OpRegister) e
                    (mark_taxonomy_stale ds s)))"

definition do_register :: "string \<Rightarrow> RegistryEntry \<Rightarrow> bool \<Rightarrow> RegisterResponse reg" where
  "do_register ds e persistent =
     rthen (ensure_dataset_initialized ds) (\<lambda>_. rget (\<lambda>s.
       let existed = im_contains (entries_of s ds) (service_id e) in
       rthen (rmodify (put_entry ds e)) (\<lambda>_.
       rthen (save_if persistent ds e) (\<lambda>_.
       rthen (finish_put ds (service_id e) existed (Some e)) (\<lambda>_.
       rok \<lparr> rr_service_id = service_id e, rr_dataset = ds,
             rr_status = (if existed then ''updated'' else ''registered''),
             rr_lease_ttl = None, rr_lease_expires_at = None \<rparr>)))))"

definition api_source :: "bool \<Rightarrow> Source" where
  "api_source persistent = (if persistent then ApiConfig else Ephemeral)"

definition generic_entry :: "RegEnv \<Rightarrow> RegisterGenericRequest \<Rightarrow> AuthContext option \<Rightarrow> RegistryEntry" where
  "generic_entry env req caller =
     \<lparr> service_id = (case non_empty (rg_service_id req) of
                       Some i \<Rightarrow> i | None \<Rightarrow> generate_service_id env ''generic'' (rg_name req)),
       re_type = Generic, source = api_source (rg_persistent req),
       service_data = Some \<lparr> gs_name = rg_name req, gs_description = rg_description req,
                             input_schema = rg_input_schema req, gs_url = Some (rg_url req) \<rparr>,
       agent_card = None, agent_card_url = None, skill_data = None,
       re_owner_id = map_option principal_id caller, re_lease_ttl = rg_lease_ttl req \<rparr>"

definition register_generic ::
  "RegEnv \<Rightarrow> RegisterGenericRequest \<Rightarrow> AuthContext option \<Rightarrow> RegisterResponse reg" where
  "register_generic env req caller =
     rthen (rlift (assert_can_register caller)) (\<lambda>_.
     rthen (require_valid env (rg_dataset req) ''generic''
              (JObj [(''name'', JStr (rg_name req)), (''description'', JStr (rg_description req)),
                     (''url'', JStr (rg_url req)), (''inputSchema'', JObj (rg_input_schema req))])) (\<lambda>_.
     do_register (rg_dataset req) (generic_entry env req caller) (rg_persistent req)))"

definition a2a_entry ::
  "RegEnv \<Rightarrow> RegisterA2ARequest \<Rightarrow> AgentCard \<Rightarrow> string option \<Rightarrow> AuthContext option \<Rightarrow> RegistryEntry" where
  "a2a_entry env req c url caller =
     \<lparr> service_id = (case non_empty (ra_service_id req) of
                       Some i \<Rightarrow> i | None \<Rightarrow> generate_service_id env ''agent'' (ac_name c)),
       re_type = A2a, source = api_source (ra_persistent req), service_data = None, agent_card = Some c,
       agent_card_url = url, skill_data = None, re_owner_id = map_option principal_id caller,
       re_lease_ttl = ra_lease_ttl req \<rparr>"

definition register_a2a_resolved ::
  "RegEnv \<Rightarrow> RegisterA2ARequest \<Rightarrow> AgentCard \<Rightarrow> string option \<Rightarrow> AuthContext option \<Rightarrow> RegisterResponse reg" where
  "register_a2a_resolved env req c url caller =
     rthen (rlift (assert_can_register caller)) (\<lambda>_.
     rthen (require_valid env (ra_dataset req) ''a2a'' (JObj (AgentCard_to_json Full c))) (\<lambda>_.
     do_register (ra_dataset req) (a2a_entry env req c url caller) (ra_persistent req)))"

definition register_a2a ::
  "RegEnv \<Rightarrow> (string \<Rightarrow> RegistryError + AgentCard) \<Rightarrow> RegisterA2ARequest \<Rightarrow> AuthContext option \<Rightarrow>
     RegisterResponse reg" where
  "register_a2a env fetch req caller =
     rthen (rlift (assert_can_register caller)) (\<lambda>_.
     rthen (case ra_agent_card req of
              Some c \<Rightarrow> rok (c, None)
            | None \<Rightarrow>
                (case ra_agent_card_url req of
                   Some url \<Rightarrow> rthen (rlift (fetch url)) (\<lambda>c. rok (c, Some url))
                 | None \<Rightarrow> rfail (Invalid ''Either agent_card or agent_card_url must be provided''))) (\<lambda>(c, url).
     register_a2a_resolved env req c url caller))"

definition register_batch :: "RegistryEntry list \<Rightarrow> string \<Rightarrow> bool \<Rightarrow> unit reg" where
  "register_batch es ds persistent =
     rthen (rmodify (\<lambda>s. set_entries ds
       (fold (\<lambda>e. im_insert (service_id e) (e\<lparr> source := api_source persistent \<rparr>)) es (entries_of s ds)) s)) (\<lambda>_.
     rget (\<lambda>s.
       let all_api = (if persistent then filter (\<lambda>e. source e = ApiConfig) (map snd (entries_of s ds)) else []) in
       rthen (if persistent \<and> all_api \<noteq> [] then with_store ds (save_api_batch all_api) else rok ()) (\<lambda>_.
       rthen (regenerate_output ds) (\<lambda>_. rmodify (mark_taxonomy_stale ds)))))"

subsection \<open>Skills\<close>

definition skill_entry :: "RegEnv \<Rightarrow> SkillData \<Rightarrow> AuthContext option \<Rightarrow> RegistryEntry" where
  "skill_entry env sd caller =
     \<lparr> service_id = generate_service_id env ''skill'' (sk_name sd), re_type = Skill, source = SkillFolder,
       service_data = None, agent_card = None, agent_card_url = None, skill_data = Some sd,
       re_owner_id = map_option principal_id caller, re_lease_ttl = None \<rparr>"

definition register_skill :: "RegEnv \<Rightarrow> string \<Rightarrow> string \<Rightarrow> AuthContext option \<Rightarrow> SkillResponse reg" where
  "register_skill env ds zip_bytes caller =
     rthen (rlift (assert_can_register caller)) (\<lambda>_.
     rthen (ensure_dataset_initialized ds) (\<lambda>_.
     rthen (require_type_allowed env ds ''skill'') (\<lambda>_.
     rthen (with_store ds (save_skill_zip env zip_bytes)) (\<lambda>sd.
     rthen (require_valid env ds ''skill'' (JObj (SkillData_to_json sd))) (\<lambda>_. rget (\<lambda>s.
       let e = skill_entry env sd caller; sid = service_id e; old = im_get (entries_of s ds) sid in
       rthen (rlift (case old of Some x \<Rightarrow> assert_owner_opt x caller | None \<Rightarrow> Inr ())) (\<lambda>_.
       rthen (rmodify (put_entry ds e)) (\<lambda>_.
       rthen (finish_put ds sid (old \<noteq> None) (Some e)) (\<lambda>_.
       rok \<lparr> sr_name = sk_name sd, sr_dataset = ds, sr_service_id = sid,
             sr_status = (if old \<noteq> None then ''updated'' else ''registered'') \<rparr>)))))))))"

definition finish_remove :: "string \<Rightarrow> string \<Rightarrow> unit reg" where
  "finish_remove ds sid =
     rthen (regenerate_output ds) (\<lambda>_.
     rmodify (\<lambda>s. emit_mutation ds sid OpDeregister None (mark_taxonomy_stale ds s)))"

definition drop_entry :: "string \<Rightarrow> string \<Rightarrow> RegistryService \<Rightarrow> RegistryService" where
  "drop_entry ds sid s = set_entries ds (im_remove sid (entries_of s ds)) s"

definition deregister_skill :: "RegEnv \<Rightarrow> string \<Rightarrow> string \<Rightarrow> AuthContext option \<Rightarrow> SkillResponse reg" where
  "deregister_skill env ds nm caller =
     (let sid = generate_service_id env ''skill'' nm;
          response = (\<lambda>i status. \<lparr> sr_name = nm, sr_dataset = ds, sr_service_id = i, sr_status = status \<rparr>)
      in rget (\<lambda>s.
           case get_entry s ds sid of
             None \<Rightarrow> rok (response [] ''not_found'')
           | Some existing \<Rightarrow>
               rthen (rlift (assert_owner_opt existing caller)) (\<lambda>_.
               rthen (rmodify (drop_entry ds sid)) (\<lambda>_.
               rthen (with_store ds (remove_skill nm)) (\<lambda>_.
               rthen (finish_remove ds sid) (\<lambda>_. rok (response sid ''deleted'')))))))"

subsection \<open>Update\<close>

definition GENERIC_UPDATE_FIELDS :: "string list" where
  "GENERIC_UPDATE_FIELDS = [''name'', ''description'', ''inputSchema'', ''url'']"

definition SKILL_UPDATE_FIELDS :: "string list" where
  "SKILL_UPDATE_FIELDS = [''name'', ''description'', ''license'']"

definition check_unknown :: "JsonDict \<Rightarrow> string list \<Rightarrow> string \<Rightarrow> RegistryError + unit" where
  "check_unknown updates allowed kind =
     (let unknown = filter (\<lambda>k. k \<notin> set allowed) (map fst updates) in
      if unknown = [] then Inr ()
      else Inl (Invalid (''Unknown '' @ kind @ '' fields: '' @ py_list (sort unknown) @ ''. Allowed: '' @
                         py_list (sort allowed))))"

definition changed_keys :: "JsonDict \<Rightarrow> JsonDict \<Rightarrow> string list" where
  "changed_keys current updates =
     map fst (filter (\<lambda>(k, v). case im_get current k of Some w \<Rightarrow> \<not> json_eq w v | None \<Rightarrow> True) updates)"

definition merge_updates :: "JsonDict \<Rightarrow> JsonDict \<Rightarrow> JsonDict" where
  "merge_updates current updates = fold (\<lambda>(k, v). im_insert k v) updates current"

definition apply_generic_updates ::
  "RegEnv \<Rightarrow> RegistryEntry \<Rightarrow> JsonDict \<Rightarrow> RegistryError + RegistryEntry \<times> string list" where
  "apply_generic_updates env e updates =
     (case check_unknown updates GENERIC_UPDATE_FIELDS ''generic'' of
        Inl err \<Rightarrow> Inl err
      | Inr _ \<Rightarrow>
          let current = (case service_data e of Some sd \<Rightarrow> GenericServiceData_to_json sd | None \<Rightarrow> []);
              merged = merge_updates current updates
          in case GenericServiceData_from_map merged of
               None \<Rightarrow> Inl (Invalid (''invalid generic update: '' @ de_err env (JObj merged)))
             | Some d \<Rightarrow> Inr (e\<lparr> service_data := Some d \<rparr>, changed_keys current updates))"

definition apply_a2a_updates ::
  "RegEnv \<Rightarrow> RegistryEntry \<Rightarrow> JsonDict \<Rightarrow> RegistryError + RegistryEntry \<times> string list" where
  "apply_a2a_updates env e updates =
     (case agent_card e of
        None \<Rightarrow> Inl (Invalid ''Cannot update a2a entry with no resolved agent_card'')
      | Some c \<Rightarrow>
          let current = AgentCard_to_json Full c; merged = merge_updates current updates in
          case AgentCard_from_value (JObj merged) of
            None \<Rightarrow> Inl (Invalid (''invalid agent card update: '' @ de_err env (JObj merged)))
          | Some c' \<Rightarrow> Inr (e\<lparr> agent_card := Some c' \<rparr>, changed_keys current updates))"

definition skill_md_updates :: "RegEnv \<Rightarrow> string list \<Rightarrow> JsonDict \<Rightarrow> (string, string) imap" where
  "skill_md_updates env changed merged =
     concat (map (\<lambda>k.
       case im_get merged k of
         Some v \<Rightarrow> if k \<in> set changed \<and> v \<noteq> JNull then [(k, py_str_value env v)] else []
       | None \<Rightarrow> []) [''name'', ''description'', ''license''])"

definition apply_skill_updates ::
  "RegEnv \<Rightarrow> string \<Rightarrow> RegistryEntry \<Rightarrow> JsonDict \<Rightarrow> (RegistryEntry \<times> string list) reg" where
  "apply_skill_updates env ds e updates =
     rthen (rlift (check_unknown updates SKILL_UPDATE_FIELDS ''skill'')) (\<lambda>_.
       case skill_data e of
         None \<Rightarrow> rfail (Invalid ''skill entry has no skill_data'')
       | Some sk \<Rightarrow>
           let current = SkillData_to_json sk;
               changed = changed_keys current updates;
               merged0 = merge_updates current updates;
               old_name = sk_name sk;
               new_name = (case im_get merged0 ''name'' of Some v \<Rightarrow> py_str_value env v | None \<Rightarrow> []);
               merged = (if new_name \<noteq> old_name
                         then im_insert ''skill_path'' (JStr (SKILLS_DIR @ ''/'' @ new_name)) merged0 else merged0);
               md_updates = skill_md_updates env changed merged
           in rthen (get_store ds) (\<lambda>_.
              rthen (if new_name \<noteq> old_name then with_store ds (rename_skill old_name new_name) else rok ()) (\<lambda>_.
              rthen (if md_updates \<noteq> [] then with_store ds (update_skill_md env new_name md_updates) else rok ()) (\<lambda>_.
                case SkillData_from_map merged of
                  None \<Rightarrow> rfail (Invalid (''invalid skill update: '' @ de_err env (JObj merged)))
                | Some d \<Rightarrow> rok (e\<lparr> skill_data := Some d \<rparr>, changed)))))"

definition update_service ::
  "RegEnv \<Rightarrow> string \<Rightarrow> string \<Rightarrow> JsonDict \<Rightarrow> AuthContext option \<Rightarrow> UpdateResponse reg" where
  "update_service env ds sid updates caller =
     rget (\<lambda>s.
       case get_entry s ds sid of
         None \<Rightarrow> rfail (NotFound (''Service '' @ quoted sid @ '' not found in dataset '' @ quoted ds))
       | Some e \<Rightarrow>
           if source e = UserConfig then
             rfail (Invalid ''Cannot update user_config entries via API. Edit user_config.json directly and restart.'')
           else
             rthen (rlift (assert_owner_opt e caller)) (\<lambda>_.
             rthen (case re_type e of
                      Generic \<Rightarrow> rlift (apply_generic_updates env e updates)
                    | A2a \<Rightarrow> rlift (apply_a2a_updates env e updates)
                    | Skill \<Rightarrow> apply_skill_updates env ds e updates) (\<lambda>(e', changed).
             rthen (rget (\<lambda>s. if \<not> im_contains (entries_of s ds) sid then
                        rfail (NotFound (''Service '' @ quoted sid @ '' was removed during update in dataset '' @ quoted ds))
                      else rmodify (\<lambda>s. set_entries ds (im_insert sid e' (entries_of s ds)) s))) (\<lambda>_.
             rthen (save_if (source e' = ApiConfig) ds e') (\<lambda>_.
             rthen (regenerate_output ds) (\<lambda>_.
               let affected = ''name'' \<in> set changed \<or> ''description'' \<in> set changed in
               rthen (rmodify (\<lambda>s. emit_mutation ds sid OpUpdate (Some e')
                        (if affected then mark_taxonomy_stale ds s else s))) (\<lambda>_.
               rok \<lparr> ur_service_id = sid, ur_dataset = ds, ur_status = ''updated'',
                     changed_fields = sort changed, taxonomy_affected = affected \<rparr>)))))))"

subsection \<open>Deregistration\<close>

definition deregister :: "string \<Rightarrow> string \<Rightarrow> AuthContext option \<Rightarrow> DeregisterResponse reg" where
  "deregister ds sid caller =
     rget (\<lambda>s.
       case get_entry s ds sid of
         None \<Rightarrow> rfail (NotFound (''Service '' @ quoted sid @ '' not found in dataset '' @ quoted ds))
       | Some e \<Rightarrow>
           if source e = UserConfig then
             rfail (Invalid ''Cannot deregister user_config entries via API. Edit user_config.json instead.'')
           else if source e = SkillFolder then
             rfail (Invalid ''Cannot deregister skill entries via generic API. Use DELETE /skills/{name} instead.'')
           else
             rthen (rlift (assert_owner_opt e caller)) (\<lambda>_.
             rthen (rmodify (drop_entry ds sid)) (\<lambda>_.
             rthen (if source e = ApiConfig then rthen (with_store ds (remove_api_entry sid)) (\<lambda>_. rok ())
                    else rok ()) (\<lambda>_.
             rthen (finish_remove ds sid) (\<lambda>_.
             rok \<lparr> dr_service_id = sid, dr_status = ''deregistered'' \<rparr>)))))"

subsection \<open>Status\<close>

definition count_source :: "RegistryEntry \<Rightarrow> (string, nat) imap \<Rightarrow> (string, nat) imap" where
  "count_source e m =
     (let k = Source_as_str (source e) in
      bm_insert k (Suc (case im_get m k of Some n \<Rightarrow> n | None \<Rightarrow> 0)) m)"

definition get_status :: "RegistryService \<Rightarrow> string option \<Rightarrow> RegistryStatus" where
  "get_status s ds =
     (let to_check = (case ds of Some d \<Rightarrow> [d] | None \<Rightarrow> map fst (rs_entries s));
          es = concat (map (list_entries s) to_check)
      in \<lparr> total_services = length es, by_source = fold count_source es [],
           rst_datasets = sort (map fst (rs_entries s)) \<rparr>)"

end
