(* ===== verification/Reservation.thy ===== *)
theory Reservation
  imports RegistryOps
begin

text \<open>
  Reservation leases of \<open>RegistryService\<close> (\<open>register/service.rs\<close>) and the filters that select what is
  reserved. A reservation has two critical sections: \<open>reserve_candidates\<close> takes a snapshot of the
  entries, then \<open>reserve_claim\<close> checks and inserts the leases; between them the unhealthy check is
  asked and other operations may run, so \<open>reserve_claim\<close> takes the snapshot as an argument.
  Clock readings are arguments, as in the \<open>_at\<close> variants; the random holder id is the argument \<open>uuid\<close>.
\<close>

definition DEFAULT_RESERVATION_TTL :: int where
  "DEFAULT_RESERVATION_TTL = 30"

subsection \<open>Filters\<close>

definition entry_filter_dict :: "RegistryEntry \<Rightarrow> JsonDict option" where
  "entry_filter_dict e =
     (case re_type e of
        A2a \<Rightarrow> map_option (AgentCard_to_json ExcludeNone) (agent_card e)
      | Generic \<Rightarrow> map_option GenericServiceData_to_json (service_data e)
      | Skill \<Rightarrow> map_option SkillData_to_json (skill_data e))"

definition filter_matches :: "RegEnv \<Rightarrow> JsonDict \<Rightarrow> JsonDict \<Rightarrow> bool" where
  "filter_matches env filters raw =
     list_all (\<lambda>(k, v).
       let t = py_str_value env v in
       (k = ''status'' \<and> t = ''online'' \<and> \<not> im_contains raw ''status'') \<or>
       (case im_get raw k of Some actual \<Rightarrow> py_str_value env actual = t | None \<Rightarrow> False)) filters"

definition entry_matches_filters :: "RegEnv \<Rightarrow> RegistryEntry \<Rightarrow> JsonDict \<Rightarrow> bool" where
  "entry_matches_filters env e filters =
     (case entry_filter_dict e of Some raw \<Rightarrow> filter_matches env filters raw | None \<Rightarrow> False)"

subsection \<open>Leases\<close>

definition is_unhealthy :: "RegistryService \<Rightarrow> string \<Rightarrow> string \<Rightarrow> bool" where
  "is_unhealthy s ds sid = (case unhealthy_check s of Some cb \<Rightarrow> cb ds sid | None \<Rightarrow> False)"

definition sweep_expired_leases :: "real \<Rightarrow> RegistryService \<Rightarrow> RegistryService" where
  "sweep_expired_leases now s = s\<lparr> rs_leases := im_retain (\<lambda>_ l. rl_expires_at l > now) (rs_leases s) \<rparr>"

definition is_leased :: "real \<Rightarrow> string \<Rightarrow> string \<Rightarrow> RegistryService \<Rightarrow> bool \<times> RegistryService" where
  "is_leased now ds sid s =
     (let s' = sweep_expired_leases now s in (im_contains (rs_leases s') (ds, sid), s'))"

record ReserveRequest =
  rq_dataset :: string
  rq_filters :: JsonDict
  rq_n :: int
  rq_ttl_seconds :: int
  rq_holder_id :: "string option"

definition reserve_candidates :: "RegistryService \<Rightarrow> string \<Rightarrow> RegistryEntry list" where
  "reserve_candidates s ds = sort_key service_id (list_entries s ds)"

definition wrapped_by_id :: "json list \<Rightarrow> (string, json) imap" where
  "wrapped_by_id output =
     fold (\<lambda>v m. case Option.bind (jget v ''id'') as_str of Some i \<Rightarrow> im_insert i v m | None \<Rightarrow> m) output []"

fun claim_loop ::
  "RegEnv \<Rightarrow> string \<Rightarrow> JsonDict \<Rightarrow> int \<Rightarrow> string list \<Rightarrow> (string, json) imap \<Rightarrow>
     (string \<times> string, ReservationLease) imap \<Rightarrow> RegistryEntry list \<Rightarrow> json list \<Rightarrow> json list" where
  "claim_loop env ds filters n unhealthy wrapped leases [] claimed = claimed"
| "claim_loop env ds filters n unhealthy wrapped leases (e # es) claimed =
     (if n \<le> int (length claimed) then claimed
      else if im_contains leases (ds, service_id e) \<or> service_id e \<in> set unhealthy
        \<or> \<not> entry_matches_filters env e filters then
        claim_loop env ds filters n unhealthy wrapped leases es claimed
      else case im_get wrapped (service_id e) of
             None \<Rightarrow> claim_loop env ds filters n unhealthy wrapped leases es claimed
           | Some w \<Rightarrow> claim_loop env ds filters n unhealthy wrapped leases es (claimed @ [w]))"

definition claimed_id :: "json \<Rightarrow> string" where
  "claimed_id w = (case Option.bind (jget w ''id'') as_str of Some i \<Rightarrow> i | None \<Rightarrow> [])"

definition reserve_claim ::
  "RegEnv \<Rightarrow> ReserveRequest \<Rightarrow> string \<Rightarrow> real \<Rightarrow> RegistryEntry list \<Rightarrow> string list \<Rightarrow> RegistryService \<Rightarrow>
     json list \<times> RegistryService" where
  "reserve_claim env rq holder now_mono candidates unhealthy s =
     (let s' = sweep_expired_leases now_mono s; ds = rq_dataset rq;
          wrapped = wrapped_by_id (list_services s' ds);
          claimed = claim_loop env ds (rq_filters rq) (rq_n rq) unhealthy wrapped (rs_leases s') candidates [];
          lease = \<lparr> rl_holder_id = holder, rl_expires_at = now_mono + of_int (rq_ttl_seconds rq) \<rparr>
      in (claimed, s'\<lparr> rs_leases := fold (\<lambda>w. im_insert (ds, claimed_id w) lease) claimed (rs_leases s') \<rparr>))"

definition reserve_holder :: "ReserveRequest \<Rightarrow> AuthContext option \<Rightarrow> string \<Rightarrow> string" where
  "reserve_holder rq caller uuid =
     (case (caller, rq_holder_id rq) of
        (Some c, _) \<Rightarrow> principal_id c
      | (None, Some h) \<Rightarrow> h
      | (None, None) \<Rightarrow> ''holder_'' @ uuid)"

definition check_ttl :: "int \<Rightarrow> RegistryError + unit" where
  "check_ttl ttl =
     (if ttl < 1 then Inl (Invalid (''ttl_seconds must be >= 1, got '' @ show_int ttl)) else Inr ())"

definition reserve_services_at ::
  "RegEnv \<Rightarrow> ReserveRequest \<Rightarrow> AuthContext option \<Rightarrow> string \<Rightarrow> real \<Rightarrow> real \<Rightarrow> (string \<times> real \<times> json list) reg" where
  "reserve_services_at env rq caller uuid now_mono now_wall =
     (if rq_n rq < 0 then rfail (Invalid (''n must be >= 0, got '' @ show_int (rq_n rq)))
      else rthen (rlift (check_ttl (rq_ttl_seconds rq))) (\<lambda>_ s.
        let holder = reserve_holder rq caller uuid;
            candidates = reserve_candidates s (rq_dataset rq);
            unhealthy = map service_id (filter (\<lambda>e. is_unhealthy s (rq_dataset rq) (service_id e)) candidates);
            (claimed, s') = reserve_claim env rq holder now_mono candidates unhealthy s
        in (Inr (holder, now_wall + of_int (rq_ttl_seconds rq), claimed), s')))"

definition holder_denied :: "string \<Rightarrow> AuthContext option \<Rightarrow> bool" where
  "holder_denied holder caller =
     (case caller of Some c \<Rightarrow> \<not> is_admin c \<and> holder \<noteq> principal_id c | None \<Rightarrow> False)"

fun release_ids ::
  "string \<Rightarrow> string \<Rightarrow> string list \<Rightarrow> string list \<Rightarrow> string list reg" where
  "release_ids ds holder [] released = rok released"
| "release_ids ds holder (sid # sids) released =
     rget (\<lambda>s.
       case im_get (rs_leases s) (ds, sid) of
         None \<Rightarrow> release_ids ds holder sids released
       | Some l \<Rightarrow>
           if rl_holder_id l \<noteq> holder then
             rfail (Permission (''Lease on '' @ quoted sid @ '' is held by a different holder''))
           else rthen (rmodify (\<lambda>s. s\<lparr> rs_leases := im_remove (ds, sid) (rs_leases s) \<rparr>))
                  (\<lambda>_. release_ids ds holder sids (released @ [sid])))"

definition release_reservation ::
  "real \<Rightarrow> string \<Rightarrow> string \<Rightarrow> string list option \<Rightarrow> AuthContext option \<Rightarrow> string list reg" where
  "release_reservation now ds holder sids caller =
     (if holder_denied holder caller then
        rfail (Permission (''Cannot release leases of another holder ('' @ quoted holder @ '')''))
      else rthen (rmodify (sweep_expired_leases now)) (\<lambda>_.
        case sids of
          None \<Rightarrow>
            rget (\<lambda>s.
              let ks = map fst (filter (\<lambda>((d, _), l). d = ds \<and> rl_holder_id l = holder) (rs_leases s)) in
              rthen (rmodify (\<lambda>s. s\<lparr> rs_leases := fold im_remove ks (rs_leases s) \<rparr>)) (\<lambda>_. rok (map snd ks)))
        | Some ids \<Rightarrow> release_ids ds holder ids []))"

definition release_lease_by_sid ::
  "real \<Rightarrow> string \<Rightarrow> string \<Rightarrow> AuthContext option \<Rightarrow> (bool \<times> string option) reg" where
  "release_lease_by_sid now ds sid caller =
     rget (\<lambda>s.
       rthen (rlift (case (caller, get_entry s ds sid) of
                       (Some c, Some e) \<Rightarrow> assert_owner e c | _ \<Rightarrow> Inr ())) (\<lambda>_.
       rthen (rmodify (sweep_expired_leases now)) (\<lambda>_. rget (\<lambda>s.
         case im_get (rs_leases s) (ds, sid) of
           None \<Rightarrow> rok (False, None)
         | Some l \<Rightarrow>
             rthen (rmodify (\<lambda>s. s\<lparr> rs_leases := im_remove (ds, sid) (rs_leases s) \<rparr>))
               (\<lambda>_. rok (True, Some (rl_holder_id l)))))))"

definition extend_reservation_at ::
  "string \<Rightarrow> string \<Rightarrow> int \<Rightarrow> AuthContext option \<Rightarrow> real \<Rightarrow> real \<Rightarrow> real reg" where
  "extend_reservation_at ds holder ttl caller now_mono now_wall =
     rthen (rlift (check_ttl ttl)) (\<lambda>_.
       if holder_denied holder caller then
         rfail (Permission (''Cannot extend leases of another holder ('' @ quoted holder @ '')''))
       else
         let mine = (\<lambda>(d, _) l. d = ds \<and> rl_holder_id l = holder) in
         rthen (rmodify (sweep_expired_leases now_mono)) (\<lambda>_. rget (\<lambda>s.
           let owned = length (filter (\<lambda>(k, l). mine k l) (rs_leases s)) in
           rthen (rmodify (\<lambda>s. s\<lparr> rs_leases :=
             map (\<lambda>(k, l). (k, if mine k l then l\<lparr> rl_expires_at := now_mono + of_int ttl \<rparr> else l)) (rs_leases s) \<rparr>))
             (\<lambda>_. if owned = 0 then
                    rfail (NotFound (''No live leases for holder '' @ quoted holder @ '' in dataset '' @ quoted ds))
                  else rok (now_wall + of_int ttl)))))"

end
