(* ===== verification/RegistryStartup.thy ===== *)
theory RegistryStartup
  imports Reservation
begin

text \<open>
  Startup of \<open>RegistryService\<close> (\<open>register/service.rs\<close>): distribution of a global configuration,
  discovery of the datasets, loading and validating their entries, fetching agent cards, and
  the first output and taxonomy state of each dataset. The fetches run concurrently in the code;
  here their outcomes are applied in the order of the requests, the parameter \<open>fetch\<close> giving the
  outcome for a URL.
\<close>

subsection \<open>Discovery and global configuration\<close>

definition discover_datasets :: "RegistryService \<Rightarrow> string list" where
  "discover_datasets s =
     filter (\<lambda>nm.
       let d = dataset_dir s nm in
       fs_exists (rs_fs s) (d @ [USER_CONFIG_FILE]) \<or> fs_exists (rs_fs s) (d @ [API_CONFIG_FILE]) \<or>
       fs_exists (rs_fs s) (d @ [REGISTER_CONFIG_FILE]) \<or> fs_is_dir (rs_fs s) (d @ [SKILLS_DIR]))
     (list_datasets s)"

definition split_dataset :: "json \<Rightarrow> string \<times> json" where
  "split_dataset svc =
     (case svc of
        JObj m \<Rightarrow>
          ((case im_get m ''dataset'' of Some (JStr ds) \<Rightarrow> ds | _ \<Rightarrow> ''default''), JObj (im_remove ''dataset'' m))
      | v \<Rightarrow> (''default'', v))"

definition push_service :: "json \<Rightarrow> (string, json list) imap \<Rightarrow> (string, json list) imap" where
  "push_service svc m =
     (let (ds, v) = split_dataset svc in
      im_insert ds ((case im_get m ds of Some vs \<Rightarrow> vs | None \<Rightarrow> []) @ [v]) m)"

text \<open>Errors of the two file operations are logged and otherwise ignored.\<close>

definition distribute_one :: "string \<times> json list \<Rightarrow> RegistryService \<Rightarrow> RegistryService" where
  "distribute_one p s =
     (case p of (ds, services) \<Rightarrow>
        let dir = dataset_dir s ds; cfg = dir @ [USER_CONFIG_FILE] in
        case run_fs (fs_create_dir_all dir) s of
          (Inl _, s') \<Rightarrow> s'
        | (Inr _, s') \<Rightarrow>
            if fs_exists (rs_fs s') cfg then s'
            else snd (run_fs (fs_write cfg (FJson (JObj [(''services'', JArr services)]))) s'))"

definition distribute_global_config :: "RegEnv \<Rightarrow> path \<Rightarrow> RegistryService \<Rightarrow> RegistryService" where
  "distribute_global_config env p s =
     (case read_json env (rs_fs s) p of
        None \<Rightarrow> s
      | Some data \<Rightarrow>
          let services = (case jget data ''services'' of Some (JArr vs) \<Rightarrow> vs | _ \<Rightarrow> []) in
          fold distribute_one (fold push_service services []) s)"

subsection \<open>Loading a dataset\<close>

definition rejected :: "ValidationResult option \<Rightarrow> bool" where
  "rejected vr = (case vr of Some r \<Rightarrow> \<not> vr_valid r | None \<Rightarrow> False)"

type_synonym load_state = "(string, RegistryEntry) imap \<times> (string \<times> string \<times> string) list"

fun merge_configs :: "RegEnv \<Rightarrow> string \<Rightarrow> RegistryEntry list \<Rightarrow> load_state \<Rightarrow> load_state reg" where
  "merge_configs env ds [] acc = rok acc"
| "merge_configs env ds (e # es) acc =
     rthen (validate_entry env ds e True) (\<lambda>vr.
       if rejected vr then merge_configs env ds es acc
       else merge_configs env ds es
              (case acc of (merged, urls) \<Rightarrow>
                (im_insert (service_id e) e merged,
                 urls @ (case agent_card_url e of Some u \<Rightarrow> [(ds, service_id e, u)] | None \<Rightarrow> []))))"

fun merge_skills :: "RegEnv \<Rightarrow> string \<Rightarrow> RegistryEntry list \<Rightarrow> (string, RegistryEntry) imap \<Rightarrow>
    (string, RegistryEntry) imap reg" where
  "merge_skills env ds [] merged = rok merged"
| "merge_skills env ds (e # es) merged =
     (if im_contains merged (service_id e) then merge_skills env ds es merged
      else rthen (validate_entry env ds e False) (\<lambda>vr.
        merge_skills env ds es (if rejected vr then merged else im_insert (service_id e) e merged)))"

definition load_dataset :: "RegEnv \<Rightarrow> string \<Rightarrow> (string \<times> string \<times> string) list reg" where
  "load_dataset env ds =
     rthen (get_store ds) (\<lambda>st. rget (\<lambda>s.
       let user_entries = load_user_config env (rs_fs s) st in
       rthen (with_store ds (load_api_config env)) (\<lambda>api_entries.
       rthen (merge_configs env ds (user_entries @ api_entries) ([], [])) (\<lambda>(merged, urls). rget (\<lambda>s.
       rthen (merge_skills env ds (load_skills env (rs_fs s) st) merged) (\<lambda>merged.
       rthen (rmodify (set_entries ds merged)) (\<lambda>_. rok urls)))))))"

fun load_datasets :: "RegEnv \<Rightarrow> string list \<Rightarrow> (string \<times> string \<times> string) list reg" where
  "load_datasets env [] = rok []"
| "load_datasets env (ds # dss) =
     rthen (load_dataset env ds) (\<lambda>urls. rthen (load_datasets env dss) (\<lambda>rest. rok (urls @ rest)))"

subsection \<open>Fetching the cards\<close>

definition store_card ::
  "(string \<Rightarrow> RegistryError + AgentCard) \<Rightarrow> string \<times> string \<times> string \<Rightarrow> RegistryService \<Rightarrow> RegistryService" where
  "store_card fetch u s =
     (case u of (ds, sid, url) \<Rightarrow>
        case fetch url of
          Inl _ \<Rightarrow> s
        | Inr c \<Rightarrow>
            (case get_entry s ds sid of
               Some e \<Rightarrow> set_entries ds (im_insert sid (e\<lparr> agent_card := Some c \<rparr>) (entries_of s ds)) s
             | None \<Rightarrow> s))"

fun revalidate :: "RegEnv \<Rightarrow> (string \<times> string \<times> string) list \<Rightarrow> unit reg" where
  "revalidate env [] = rok ()"
| "revalidate env ((ds, sid, _) # us) =
     rget (\<lambda>s.
       case get_entry s ds sid of
         None \<Rightarrow> revalidate env us
       | Some e \<Rightarrow>
           if agent_card e = None then revalidate env us
           else rthen (validate_entry env ds e False) (\<lambda>vr.
                rthen (rmodify (\<lambda>s. if rejected vr then drop_entry ds sid s else s)) (\<lambda>_.
                revalidate env us)))"

subsection \<open>Startup\<close>

fun publish :: "RegEnv \<Rightarrow> string list \<Rightarrow> (string, TaxonomyState) imap \<Rightarrow> (string, TaxonomyState) imap reg" where
  "publish env [] acc = rok acc"
| "publish env (ds # dss) acc =
     rthen (get_store ds) (\<lambda>_. rget (\<lambda>s.
       let api = filter (\<lambda>e. source e = ApiConfig) (list_entries s ds) in
       rthen (if api \<noteq> [] then with_store ds (save_api_batch api) else rok ()) (\<lambda>_.
       rthen (regenerate_output ds) (\<lambda>_.
       rthen (rrun (init_taxonomy_state env ds)) (\<lambda>t. publish env dss (bm_insert ds t acc))))))"

definition startup ::
  "RegEnv \<Rightarrow> (string \<Rightarrow> RegistryError + AgentCard) \<Rightarrow> (string, TaxonomyState) imap reg" where
  "startup env fetch =
     rthen (rmodify (\<lambda>s. case global_config_path s of
              Some p \<Rightarrow> if fs_exists (rs_fs s) p then distribute_global_config env p s else s
            | None \<Rightarrow> s)) (\<lambda>_. rget (\<lambda>s.
       let datasets = discover_datasets s in
       rthen (load_datasets env datasets) (\<lambda>urls.
       rthen (rmodify (\<lambda>s. fold (store_card fetch) urls s)) (\<lambda>_.
       rthen (revalidate env urls) (\<lambda>_. publish env datasets [])))))"

end
