(* ===== verification/RegistryFrame.thy ===== *)
theory RegistryFrame
  imports RegistryStartup
begin

text \<open>
  What the operations of the registry service leave alone. \<open>keeps F m\<close> says that the operation \<open>m\<close>
  never changes the part \<open>F\<close> of the state, whatever it returns; its rules follow the structure of
  the operations. A part is \<open>inner\<close> when it does not depend on the files and the stores.
\<close>

named_theorems keeps_intros \<open>rules for the parts an operation leaves alone\<close>
named_theorems keeps_ops \<open>the same for the shared operations of the service\<close>

definition keeps :: "('s \<Rightarrow> 'b) \<Rightarrow> ('s, 'a) rop \<Rightarrow> bool" where
  "keeps F m \<longleftrightarrow> (\<forall>s. F (snd (m s)) = F s)"

definition inner :: "(RegistryService \<Rightarrow> 'b) \<Rightarrow> bool" where
  "inner F \<longleftrightarrow> (\<forall>s fs sts. F (s\<lparr> rs_fs := fs, stores := sts \<rparr>) = F s)"

lemma keepsD: "keeps F m \<Longrightarrow> F (snd (m s)) = F s"
  by (simp add: keeps_def)

lemma keepsD': "keeps F m \<Longrightarrow> m s = (r, s') \<Longrightarrow> F s' = F s"
  by (metis keepsD snd_conv)

lemma keeps_rthen [keeps_intros]: "keeps F m \<Longrightarrow> (\<And>x. keeps F (f x)) \<Longrightarrow> keeps F (rthen m f)"
  unfolding keeps_def
  using rthen_inv [where P = "\<lambda>s. F s = c" for c] by metis

lemma keeps_basic [keeps_intros]:
  "keeps F (rok x)" "keeps F (rfail e)" "keeps F (rlift r)"
  "(\<And>s. F (g s) = F s) \<Longrightarrow> keeps F (rmodify g)"
  "(\<And>s. keeps F (h s)) \<Longrightarrow> keeps F (rget h)"
  by (simp_all add: keeps_def)

lemma keeps_rrun [keeps_intros]: "(\<And>s. F (snd (f s)) = F s) \<Longrightarrow> keeps F (rrun f)"
  by (simp add: keeps_def rrun_def case_prod_beta)

lemma keeps_if [keeps_intros]: "keeps F m \<Longrightarrow> keeps F n \<Longrightarrow> keeps F (if b then m else n)"
  by simp

lemma keeps_option [keeps_intros]:
  "keeps F m \<Longrightarrow> (\<And>x. keeps F (f x)) \<Longrightarrow> keeps F (case v of None \<Rightarrow> m | Some x \<Rightarrow> f x)"
  by (cases v) simp_all

lemma keeps_prod [keeps_intros]: "(\<And>x y. keeps F (f x y)) \<Longrightarrow> keeps F (case p of (x, y) \<Rightarrow> f x y)"
  by (cases p) simp

lemma keeps_sum [keeps_intros]:
  "(\<And>x. keeps F (f x)) \<Longrightarrow> (\<And>x. keeps F (g x)) \<Longrightarrow> keeps F (case v of Inl x \<Rightarrow> f x | Inr x \<Rightarrow> g x)"
  by (cases v) simp_all

lemma keeps_type [keeps_intros]:
  "keeps F a \<Longrightarrow> keeps F b \<Longrightarrow> keeps F c \<Longrightarrow> keeps F (case t of Generic \<Rightarrow> a | A2a \<Rightarrow> b | Skill \<Rightarrow> c)"
  by (cases t) simp_all

lemma inner_fields [simp, intro!]:
  "inner database_dir" "inner rs_entries" "inner output_cache" "inner taxonomy_states" "inner format_configs"
  "inner rs_leases" "inner unhealthy_check" "inner allowed_a2a_versions" "inner auth_required_cache"
  "inner lease_config_cache" "inner mutation_log" "inner changed_log"
  by (simp_all add: inner_def)

lemma inner_update: "inner F \<Longrightarrow> F (s\<lparr> rs_fs := fs \<rparr>) = F s" "inner F \<Longrightarrow> F (s\<lparr> stores := sts \<rparr>) = F s"
proof -
  assume F: "inner F"
  have "s\<lparr> rs_fs := fs \<rparr> = s\<lparr> rs_fs := fs, stores := stores s \<rparr>" "s\<lparr> stores := sts \<rparr> = s\<lparr> rs_fs := rs_fs s, stores := sts \<rparr>"
    by simp_all
  then show "F (s\<lparr> rs_fs := fs \<rparr>) = F s" "F (s\<lparr> stores := sts \<rparr>) = F s"
    using F by (metis inner_def)+
qed

lemma keeps_run_fs [keeps_ops]: "inner F \<Longrightarrow> keeps F (run_fs m)"
  by (auto simp: keeps_def run_fs_def inner_update split: prod.splits)

lemma keeps_get_store [keeps_ops]: "inner F \<Longrightarrow> keeps F (get_store ds)"
  unfolding get_store_def by (intro keeps_intros keeps_ops) (simp_all add: inner_update)

lemma keeps_with_store [keeps_ops]: "inner F \<Longrightarrow> keeps F (with_store ds m)"
  unfolding with_store_def
  by (intro keeps_intros keeps_ops) (auto simp: keeps_def inner_def split: prod.splits)

lemma keeps_regenerate [keeps_ops]:
  assumes "inner F" "\<And>s x. F (s\<lparr> output_cache := x \<rparr>) = F s" "\<And>s x. F (s\<lparr> changed_log := x \<rparr>) = F s"
  shows "keeps F (regenerate_output ds)"
  unfolding regenerate_output_def Let_def by (intro keeps_intros keeps_ops) (simp_all add: assms)

lemma keeps_config [keeps_ops]:
  assumes "inner F" "\<And>s x. F (s\<lparr> format_configs := x \<rparr>) = F s"
  shows "keeps F (get_register_config env ds)" "keeps F (set_register_config ds v)"
    "keeps F (require_type_allowed env ds t)" "keeps F (require_valid env ds t v)"
    "keeps F (validate_entry env ds e b)"
proof -
  note rules = keeps_intros keeps_ops
  show get: "keeps F (get_register_config env ds)"
    unfolding get_register_config_def Let_def by (intro rules) (simp_all add: assms)
  show "keeps F (set_register_config ds v)"
    unfolding set_register_config_def Let_def by (intro rules) (simp_all add: assms)
  show ty: "keeps F (require_type_allowed env ds t)"
    unfolding require_type_allowed_def by (intro rules get)
  show "keeps F (require_valid env ds t v)"
    unfolding require_valid_def by (intro rules ty)
  show "keeps F (validate_entry env ds e b)"
    unfolding validate_entry_def Let_def by (intro rules get)
qed

lemma keeps_init [keeps_ops]:
  assumes "inner F" "\<And>s x. F (s\<lparr> format_configs := x \<rparr>) = F s" "\<And>s x. F (s\<lparr> auth_required_cache := x \<rparr>) = F s"
  shows "keeps F (init_dataset_files ds m f a)" "keeps F (ensure_dataset_initialized ds)"
proof -
  have v: "keeps F (set_vector_config ds m d)" for m d
    unfolding set_vector_config_def Let_def by (intro keeps_intros keeps_ops assms)
  show i: "keeps F (init_dataset_files ds m f a)" for m f a
    unfolding init_dataset_files_def Let_def by (intro keeps_intros keeps_ops v assms)
  show "keeps F (ensure_dataset_initialized ds)"
    unfolding ensure_dataset_initialized_def by (intro keeps_intros keeps_ops i)
qed

end
