(* ===== verification/RegistryOutput.thy ===== *)
theory RegistryOutput
  imports RegistryFrame
begin

text \<open>
  The published list of services is exact: after calls that returned, what \<open>list_services\<close> gives for
  a dataset is the output of its entries, in their order. The other invariant of the entries is
  that each is filed under its own identifier.
\<close>

subsection \<open>Exact output\<close>

definition exact :: "string \<Rightarrow> RegistryService \<Rightarrow> bool" where
  "exact ds s \<longleftrightarrow> list_services s ds = output_of s ds"

definition others :: "string set \<Rightarrow> RegistryService \<Rightarrow> (string \<rightharpoonup> (string, RegistryEntry) imap) \<times> (string \<rightharpoonup> json list)" where
  "others D s = (map_of (rs_entries s) |` (- D), map_of (output_cache s) |` (- D))"

definition exact_after :: "string \<Rightarrow> 'a reg \<Rightarrow> bool" where
  "exact_after ds m \<longleftrightarrow> (\<forall>s r s'. m s = (Inr r, s') \<longrightarrow> exact ds s')"

definition exact_pres :: "string \<Rightarrow> 'a reg \<Rightarrow> bool" where
  "exact_pres ds m \<longleftrightarrow> (\<forall>s r s'. exact ds s \<longrightarrow> m s = (Inr r, s') \<longrightarrow> exact ds s')"

named_theorems exact_intros \<open>rules for exact output\<close>

lemma others_inner [simp, intro!]: "inner (others D)"
  by (simp add: inner_def others_def)

lemma exact_cong:
  "map_of (rs_entries s') ds = map_of (rs_entries s) ds \<Longrightarrow> map_of (output_cache s') ds = map_of (output_cache s) ds \<Longrightarrow>
   exact ds s' = exact ds s"
  by (simp add: exact_def list_services_def output_of_def list_entries_def)

lemma others_exact: "others D s' = others D s \<Longrightarrow> ds \<notin> D \<Longrightarrow> exact ds s' = exact ds s"
  by (rule exact_cong) (auto simp: others_def restrict_map_def fun_eq_iff split: if_splits)

lemma exact_inner [simp, intro!]: "inner (exact ds)"
  by (simp add: inner_def exact_def list_services_def output_of_def list_entries_def)

lemma exact_unrelated [simp]:
  "exact ds (s\<lparr> taxonomy_states := a \<rparr>) = exact ds s" "exact ds (s\<lparr> mutation_log := b \<rparr>) = exact ds s"
  "exact ds (s\<lparr> changed_log := c \<rparr>) = exact ds s" "exact ds (s\<lparr> rs_leases := d \<rparr>) = exact ds s"
  "exact ds (s\<lparr> format_configs := e \<rparr>) = exact ds s" "exact ds (s\<lparr> auth_required_cache := f \<rparr>) = exact ds s"
  "exact ds (s\<lparr> lease_config_cache := g \<rparr>) = exact ds s"
  "exact ds (s\<lparr> allowed_a2a_versions := h \<rparr>) = exact ds s" "exact ds (s\<lparr> unhealthy_check := i \<rparr>) = exact ds s"
  by (simp_all add: exact_def list_services_def output_of_def list_entries_def)

lemma others_unrelated [simp]:
  "others D (s\<lparr> taxonomy_states := a \<rparr>) = others D s" "others D (s\<lparr> mutation_log := b \<rparr>) = others D s"
  "others D (s\<lparr> changed_log := c \<rparr>) = others D s" "others D (s\<lparr> rs_leases := d \<rparr>) = others D s"
  "others D (s\<lparr> format_configs := e \<rparr>) = others D s" "others D (s\<lparr> auth_required_cache := f \<rparr>) = others D s"
  "others D (s\<lparr> lease_config_cache := g \<rparr>) = others D s"
  by (simp_all add: others_def)

lemma mark_stale_simps [simp]:
  "exact ds (mark_taxonomy_stale d s) = exact ds s" "others D (mark_taxonomy_stale d s) = others D s"
  "rs_entries (mark_taxonomy_stale d s) = rs_entries s" "rs_leases (mark_taxonomy_stale d s) = rs_leases s"
  by (simp_all add: mark_taxonomy_stale_def set_taxonomy_def)

lemma emit_simps [simp]:
  "exact ds (emit_mutation d i op e s) = exact ds s" "others D (emit_mutation d i op e s) = others D s"
  "rs_entries (emit_mutation d i op e s) = rs_entries s" "rs_leases (emit_mutation d i op e s) = rs_leases s"
  by (simp_all add: emit_mutation_def)

lemma set_entries_simps [simp]:
  "ds \<in> D \<Longrightarrow> others D (set_entries ds d s) = others D s" "rs_leases (set_entries ds d s) = rs_leases s"
  "map_of (rs_entries (set_entries ds d s)) = (map_of (rs_entries s))(ds \<mapsto> d)"
  by (auto simp: set_entries_def others_def restrict_map_def fun_eq_iff)

lemma put_drop_simps [simp]:
  "ds \<in> D \<Longrightarrow> others D (put_entry ds e s) = others D s" "rs_leases (put_entry ds e s) = rs_leases s"
  "ds \<in> D \<Longrightarrow> others D (drop_entry ds sid s) = others D s" "rs_leases (drop_entry ds sid s) = rs_leases s"
  by (simp_all add: put_entry_def drop_entry_def)

lemma exact_after_rthen [exact_intros]: "(\<And>x. exact_after ds (f x)) \<Longrightarrow> exact_after ds (rthen m f)"
  unfolding exact_after_def by (metis rthen_InrE)

lemma exact_after_then: "exact_after ds m \<Longrightarrow> (\<And>x. exact_pres ds (f x)) \<Longrightarrow> exact_after ds (rthen m f)"
  unfolding exact_after_def exact_pres_def by (metis rthen_InrE)

lemma exact_after_basic [exact_intros]:
  "(\<And>s. exact_after ds (h s)) \<Longrightarrow> exact_after ds (rget h)" "exact_after ds (rfail e)"
  "exact_after ds m \<Longrightarrow> exact_after ds n \<Longrightarrow> exact_after ds (if b then m else n)"
  "(\<And>x y. exact_after ds (g x y)) \<Longrightarrow> exact_after ds (case p of (x, y) \<Rightarrow> g x y)"
  by (auto simp: exact_after_def split: prod.split)

lemma exact_pres_of_after: "exact_after ds m \<Longrightarrow> exact_pres ds m"
  by (auto simp: exact_after_def exact_pres_def)

lemma exact_pres_of_keeps: "keeps (exact ds) m \<Longrightarrow> exact_pres ds m"
  by (auto simp: exact_pres_def dest: keepsD')

lemma regenerate_output_effect:
  "map_of (output_cache (snd (regenerate_output ds s))) = (map_of (output_cache s))(ds \<mapsto> output_of s ds)"
  "rs_entries (snd (regenerate_output ds s)) = rs_entries s"
proof -
  let ?t = "s\<lparr> output_cache := im_insert ds (output_of s ds) (output_cache s) \<rparr>"
  let ?m = "if \<not> (case im_get (output_cache s) ds of Some old \<Rightarrow> list_all2 json_eq old (output_of s ds) | None \<Rightarrow> False)
     then rthen (with_store ds (write_service_json (output_of s ds))) (\<lambda>_.
       rthen (rmodify (\<lambda>s. s\<lparr> changed_log := changed_log s @ [ds] \<rparr>)) (\<lambda>_. rok True)) else rok False"
  have "keeps output_cache ?m" by (intro keeps_intros keeps_ops) simp_all
  then have "output_cache (snd (?m ?t)) = output_cache ?t" by (rule keepsD)
  then show "map_of (output_cache (snd (regenerate_output ds s))) = (map_of (output_cache s))(ds \<mapsto> output_of s ds)"
    by (simp add: regenerate_output_def Let_def)
  show "rs_entries (snd (regenerate_output ds s)) = rs_entries s"
    by (rule keepsD) (intro keeps_intros keeps_ops; simp)
qed

lemma exact_after_regenerate [exact_intros]: "exact_after ds (regenerate_output ds)"
  unfolding exact_after_def
proof (intro allI impI)
  fix s r s' assume "regenerate_output ds s = (Inr r, s')"
  then have s': "s' = snd (regenerate_output ds s)" by simp
  show "exact ds s'"
    unfolding s' exact_def list_services_def output_of_def list_entries_def
    by (simp add: regenerate_output_effect output_of_def list_entries_def)
qed

lemma keeps_others_regenerate: "ds \<in> D \<Longrightarrow> keeps (others D) (regenerate_output ds)"
  unfolding keeps_def others_def
  by (auto simp: regenerate_output_effect restrict_map_def fun_eq_iff)

lemma exact_regenerate: "exact ds (snd (regenerate_output ds s))"
  by (simp add: exact_def list_services_def output_of_def list_entries_def regenerate_output_effect)

end
