(* ===== verification/RegistryLaws.thy ===== *)
theory RegistryLaws
  imports RegistryOutput
begin

text \<open>
  The registry service as a machine: one event per operation, runs as lists of events, and the
  laws that hold over any run.
\<close>

datatype reg_event =
    EvRegisterGeneric RegisterGenericRequest "AuthContext option"
  | EvRegisterA2A RegisterA2ARequest "AuthContext option"
  | EvRegisterBatch "RegistryEntry list" string bool
  | EvRegisterSkill string string "AuthContext option"
  | EvDeregisterSkill string string "AuthContext option"
  | EvUpdate string string JsonDict "AuthContext option"
  | EvDeregister string string "AuthContext option"
  | EvCreateDataset string "string option" "json option" bool
  | EvDeleteDataset string
  | EvCheckTaxonomy string
  | EvIsAuthRequired string
  | EvSetAuth string bool
  | EvGetLease string
  | EvSetLease string bool int int int
  | EvSetVector string "string option" "int option"
  | EvSetRegister string json
  | EvReserve ReserveRequest "AuthContext option" string real real
  | EvRelease real string string "string list option" "AuthContext option"
  | EvReleaseSid real string string "AuthContext option"
  | EvExtend string string int "AuthContext option" real real
  | EvIsLeased real string string
  | EvAllowVersions "string list option"
  | EvSetUnhealthy "(string \<Rightarrow> string \<Rightarrow> bool) option"
  | EvStartup

definition rvoid :: "('s, 'a) rop \<Rightarrow> ('s, unit) rop" where
  "rvoid m = rthen m (\<lambda>_. rok ())"

definition rstate :: "('s \<Rightarrow> 'a \<times> 's) \<Rightarrow> ('s, unit) rop" where
  "rstate f = rmodify (\<lambda>s. snd (f s))"

fun reg_exec :: "RegEnv \<Rightarrow> (string \<Rightarrow> RegistryError + AgentCard) \<Rightarrow> reg_event \<Rightarrow> unit reg" where
  "reg_exec env fetch (EvRegisterGeneric req c) = rvoid (register_generic env req c)"
| "reg_exec env fetch (EvRegisterA2A req c) = rvoid (register_a2a env fetch req c)"
| "reg_exec env fetch (EvRegisterBatch es ds p) = register_batch es ds p"
| "reg_exec env fetch (EvRegisterSkill ds z c) = rvoid (register_skill env ds z c)"
| "reg_exec env fetch (EvDeregisterSkill ds n c) = rvoid (deregister_skill env ds n c)"
| "reg_exec env fetch (EvUpdate ds sid u c) = rvoid (update_service env ds sid u c)"
| "reg_exec env fetch (EvDeregister ds sid c) = rvoid (deregister ds sid c)"
| "reg_exec env fetch (EvCreateDataset ds m f a) = rvoid (create_dataset ds m f a)"
| "reg_exec env fetch (EvDeleteDataset ds) = delete_dataset ds"
| "reg_exec env fetch (EvCheckTaxonomy ds) = rstate (check_taxonomy_state env ds)"
| "reg_exec env fetch (EvIsAuthRequired ds) = rstate (is_auth_required env ds)"
| "reg_exec env fetch (EvSetAuth ds r) = rvoid (set_auth_config ds r)"
| "reg_exec env fetch (EvGetLease ds) = rstate (get_lease_config env ds)"
| "reg_exec env fetch (EvSetLease ds e lo hi g) = rvoid (set_lease_config ds e lo hi g)"
| "reg_exec env fetch (EvSetVector ds m d) = rvoid (set_vector_config ds m d)"
| "reg_exec env fetch (EvSetRegister ds f) = rvoid (set_register_config ds f)"
| "reg_exec env fetch (EvReserve rq c u t w) = rvoid (reserve_services_at env rq c u t w)"
| "reg_exec env fetch (EvRelease t ds h ids c) = rvoid (release_reservation t ds h ids c)"
| "reg_exec env fetch (EvReleaseSid t ds sid c) = rvoid (release_lease_by_sid t ds sid c)"
| "reg_exec env fetch (EvExtend ds h ttl c t w) = rvoid (extend_reservation_at ds h ttl c t w)"
| "reg_exec env fetch (EvIsLeased t ds sid) = rstate (is_leased t ds sid)"
| "reg_exec env fetch (EvAllowVersions vs) = rmodify (with_allowed_a2a_versions vs)"
| "reg_exec env fetch (EvSetUnhealthy cb) = rmodify (set_unhealthy_check cb)"
| "reg_exec env fetch EvStartup = rvoid (startup env fetch)"

definition reg_run ::
  "RegEnv \<Rightarrow> (string \<Rightarrow> RegistryError + AgentCard) \<Rightarrow> reg_event list \<Rightarrow> RegistryService \<Rightarrow> RegistryService" where
  "reg_run env fetch evs s = fold (\<lambda>ev s. snd (reg_exec env fetch ev s)) evs s"

text \<open>The dataset whose entries an event may change.\<close>

fun event_datasets :: "reg_event \<Rightarrow> string set" where
  "event_datasets (EvRegisterGeneric req _) = {rg_dataset req}"
| "event_datasets (EvRegisterA2A req _) = {ra_dataset req}"
| "event_datasets (EvRegisterBatch _ ds _) = {ds}"
| "event_datasets (EvRegisterSkill ds _ _) = {ds}"
| "event_datasets (EvDeregisterSkill ds _ _) = {ds}"
| "event_datasets (EvUpdate ds _ _ _) = {ds}"
| "event_datasets (EvDeregister ds _ _) = {ds}"
| "event_datasets (EvDeleteDataset ds) = {ds}"
| "event_datasets _ = {}"

subsection \<open>Steps that leave the entries alone\<close>

lemma rvoid_keeps [keeps_intros]: "keeps F m \<Longrightarrow> keeps F (rvoid m)"
  unfolding rvoid_def by (intro keeps_intros)

lemma snd_rvoid [simp]: "snd (rvoid m s) = snd (m s)"
  by (simp add: rvoid_def rthen_def split: prod.split sum.split)

lemma rstate_keeps [keeps_intros]: "(\<And>s. F (snd (f s)) = F s) \<Longrightarrow> keeps F (rstate f)"
  by (simp add: rstate_def keeps_def)

lemma snd_get_store: "inner F \<Longrightarrow> F (snd (get_store ds s)) = F s"
  by (rule keepsD) (rule keeps_get_store)

lemma keeps_caches:
  assumes "inner F" "\<And>s x. F (s\<lparr> auth_required_cache := x \<rparr>) = F s" "\<And>s x. F (s\<lparr> lease_config_cache := x \<rparr>) = F s"
  shows "F (snd (is_auth_required env ds s)) = F s" "F (snd (get_lease_config env ds s)) = F s"
    "keeps F (set_auth_config ds b)" "keeps F (set_lease_config ds e lo hi g)"
    "keeps F (set_vector_config ds m d)"
  subgoal
    using snd_get_store [OF assms(1), of ds s]
    by (auto simp: is_auth_required_def assms Let_def split: option.split prod.split)
  subgoal
    using snd_get_store [OF assms(1), of ds s]
    by (auto simp: get_lease_config_def assms Let_def split: option.split prod.split)
  subgoal unfolding set_auth_config_def by (intro keeps_intros keeps_ops) (simp_all add: assms)
  subgoal unfolding set_lease_config_def Let_def by (intro keeps_intros keeps_ops) (simp_all add: assms)
  subgoal unfolding set_vector_config_def Let_def by (intro keeps_intros keeps_ops assms)
  done

lemma keeps_create:
  assumes "inner F" "\<And>s x. F (s\<lparr> format_configs := x \<rparr>) = F s" "\<And>s x. F (s\<lparr> auth_required_cache := x \<rparr>) = F s"
  shows "keeps F (create_dataset ds m f a)"
  unfolding create_dataset_def by (intro keeps_intros keeps_ops assms)

lemma keeps_check_taxonomy:
  "(\<And>s x. F (s\<lparr> taxonomy_states := x \<rparr>) = F s) \<Longrightarrow> F (snd (check_taxonomy_state env ds s)) = F s"
  by (auto simp: check_taxonomy_state_def set_taxonomy_def Let_def split: option.split)

lemmas setters = with_allowed_a2a_versions_def set_unhealthy_check_def

lemma keeps_setters:
  assumes "\<And>s x. F (s\<lparr> allowed_a2a_versions := x \<rparr>) = F s" "\<And>s x. F (s\<lparr> unhealthy_check := x \<rparr>) = F s"
  shows "keeps F (rmodify (with_allowed_a2a_versions vs))" "keeps F (rmodify (set_unhealthy_check cb))"
  by (simp_all add: keeps_def setters assms)

subsection \<open>Steps that change leases only\<close>

definition lease_free :: "(RegistryService \<Rightarrow> 'b) \<Rightarrow> bool" where
  "lease_free F \<longleftrightarrow> (\<forall>s x. F (s\<lparr> rs_leases := x \<rparr>) = F s)"

lemma keeps_reserve [keeps_intros]:
  assumes "lease_free F"
  shows "keeps F (reserve_services_at env rq c u t w)"
proof -
  have "F (snd (reserve_claim env rq h t cs un s)) = F s" for h cs un s
    using assms by (simp add: reserve_claim_def Let_def sweep_expired_leases_def lease_free_def)
  then show ?thesis
    unfolding reserve_services_at_def
    by (intro keeps_intros) (simp add: keeps_def Let_def case_prod_beta)
qed

lemma keeps_release_ids [keeps_intros]:
  assumes "lease_free F"
  shows "keeps F (release_ids ds h ids acc)"
  using assms by (induction ids arbitrary: acc) (auto intro!: keeps_intros simp: lease_free_def)

lemma keeps_leases [keeps_intros]:
  assumes "lease_free F"
  shows "keeps F (release_reservation t ds h ids c)" "keeps F (release_lease_by_sid t ds sid c)"
    "keeps F (extend_reservation_at ds h ttl c t w)" "F (snd (is_leased t ds sid s)) = F s"
  using assms unfolding release_reservation_def release_lease_by_sid_def extend_reservation_at_def Let_def
  by (auto intro!: keeps_intros simp: lease_free_def sweep_expired_leases_def is_leased_def Let_def)

subsection \<open>Steps that change entries\<close>

text \<open>What holds of a part that no entry operation on the datasets \<open>D\<close> can change.\<close>

definition entry_frame :: "string set \<Rightarrow> (RegistryService \<Rightarrow> 'b) \<Rightarrow> bool" where
  "entry_frame D F \<longleftrightarrow> inner F \<and>
     (\<forall>ds s x. ds \<in> D \<longrightarrow> F (set_entries ds x s) = F s) \<and>
     (\<forall>ds. ds \<in> D \<longrightarrow> keeps F (regenerate_output ds)) \<and>
     (\<forall>s x. F (s\<lparr> taxonomy_states := x \<rparr>) = F s) \<and> (\<forall>s x. F (s\<lparr> mutation_log := x \<rparr>) = F s) \<and>
     (\<forall>s x. F (s\<lparr> format_configs := x \<rparr>) = F s) \<and> (\<forall>s x. F (s\<lparr> auth_required_cache := x \<rparr>) = F s)"

lemma entry_frame_others: "entry_frame D (others D)"
  by (simp add: entry_frame_def keeps_others_regenerate)

lemma entry_frame_leases: "entry_frame D rs_leases"
  by (auto simp: entry_frame_def intro!: keeps_intros keeps_ops)

lemma entry_frame_puts:
  assumes "entry_frame D F" "ds \<in> D"
  shows "F (put_entry ds e s) = F s" "F (drop_entry ds sid s) = F s" "F (set_entries ds x s) = F s"
    "F (mark_taxonomy_stale ds' s) = F s" "F (emit_mutation ds' i op e' s) = F s"
  using assms
  by (simp_all add: entry_frame_def put_entry_def drop_entry_def mark_taxonomy_stale_def set_taxonomy_def
      emit_mutation_def)

lemma entry_frame_keeps:
  assumes "entry_frame D F" "ds \<in> D"
  shows "keeps F (regenerate_output ds)" "keeps F (with_store ds' m)" "keeps F (get_store ds')"
    "keeps F (ensure_dataset_initialized ds')"
    "keeps F (require_valid env ds' t v)" "keeps F (require_type_allowed env ds' t)"
    "keeps F (finish_put ds sid b e)" "keeps F (finish_remove ds sid)" "keeps F (save_if b ds' e')"
proof -
  have F: "inner F" "\<And>s x. F (s\<lparr> format_configs := x \<rparr>) = F s" "\<And>s x. F (s\<lparr> auth_required_cache := x \<rparr>) = F s"
    using assms(1) by (simp_all add: entry_frame_def)
  show reg: "keeps F (regenerate_output ds)" using assms by (simp add: entry_frame_def)
  show "keeps F (finish_put ds sid b e)" "keeps F (finish_remove ds sid)"
    unfolding finish_put_def finish_remove_def
    by (auto intro!: keeps_intros reg simp: entry_frame_puts [OF assms])
  show "keeps F (save_if b ds' e')"
    unfolding save_if_def by (intro keeps_intros keeps_ops F)
qed (intro keeps_ops; use assms(1) in \<open>simp add: entry_frame_def\<close>)+

lemma keeps_do_register:
  assumes "entry_frame D F" "ds \<in> D"
  shows "keeps F (do_register ds e p)"
  unfolding do_register_def Let_def
  by (intro keeps_intros entry_frame_keeps [OF assms]) (simp add: entry_frame_puts [OF assms])

lemma keeps_apply_skill:
  assumes "entry_frame D F" "ds \<in> D"
  shows "keeps F (apply_skill_updates env ds e u)"
  unfolding apply_skill_updates_def Let_def
  by (intro keeps_intros entry_frame_keeps [OF assms])

lemma keeps_entry_ops:
  assumes "entry_frame D F"
  shows "rg_dataset req \<in> D \<Longrightarrow> keeps F (register_generic env req c)"
    "ra_dataset req' \<in> D \<Longrightarrow> keeps F (register_a2a env fetch req' c)"
    "ds \<in> D \<Longrightarrow> keeps F (register_batch es ds p)"
    "ds \<in> D \<Longrightarrow> keeps F (register_skill env ds z c)"
    "ds \<in> D \<Longrightarrow> keeps F (deregister_skill env ds nm c)"
    "ds \<in> D \<Longrightarrow> keeps F (update_service env ds sid u c)"
    "ds \<in> D \<Longrightarrow> keeps F (deregister ds sid c)"
  subgoal premises p
    unfolding register_generic_def
    by (intro keeps_intros keeps_do_register [OF assms p] entry_frame_keeps [OF assms p])
  subgoal premises p
    unfolding register_a2a_def register_a2a_resolved_def
    by (intro keeps_intros keeps_do_register [OF assms p] entry_frame_keeps [OF assms p])
  subgoal premises p
    unfolding register_batch_def Let_def
    by (intro keeps_intros entry_frame_keeps [OF assms p]) (simp_all add: entry_frame_puts [OF assms p])
  subgoal premises p
    unfolding register_skill_def Let_def
    by (intro keeps_intros entry_frame_keeps [OF assms p]) (simp_all add: entry_frame_puts [OF assms p])
  subgoal premises p
    unfolding deregister_skill_def Let_def
    by (intro keeps_intros entry_frame_keeps [OF assms p]) (simp_all add: entry_frame_puts [OF assms p])
  subgoal premises p
    unfolding update_service_def Let_def
    by (intro keeps_intros entry_frame_keeps [OF assms p] keeps_apply_skill [OF assms p])
       (simp_all add: entry_frame_puts [OF assms p])
  subgoal premises p
    unfolding deregister_def
    by (intro keeps_intros entry_frame_keeps [OF assms p]) (simp_all add: entry_frame_puts [OF assms p])
  done

subsection \<open>Exact output after every operation\<close>

lemma exact_pres_basic [exact_intros]:
  "exact_pres ds (rok x)" "exact_pres ds (rfail e)" "(\<And>s. exact ds (g s) = exact ds s) \<Longrightarrow> exact_pres ds (rmodify g)"
  "(\<And>s. exact_pres ds (h s)) \<Longrightarrow> exact_pres ds (rget h)"
  by (auto simp: exact_pres_def)

lemma exact_pres_option [exact_intros]:
  "exact_pres ds m \<Longrightarrow> (\<And>x. exact_pres ds (f x)) \<Longrightarrow> exact_pres ds (case v of None \<Rightarrow> m | Some x \<Rightarrow> f x)"
  "exact_pres ds m \<Longrightarrow> exact_pres ds n \<Longrightarrow> exact_pres ds (if b then m else n)"
  by (auto split: option.split)

lemma exact_pres_rthen [exact_intros]:
  "exact_pres ds m \<Longrightarrow> (\<And>x. exact_pres ds (f x)) \<Longrightarrow> exact_pres ds (rthen m f)"
  unfolding exact_pres_def by (metis rthen_InrE)

lemma exact_pres_rlift: "(\<And>x. exact_after ds (f x)) \<Longrightarrow> exact_pres ds (rthen (rlift r) f)"
  by (cases r) (auto simp: exact_pres_def exact_after_def)

lemma exact_after_finish:
  "exact_after ds (finish_put ds sid b e)" "exact_after ds (finish_remove ds sid)"
  unfolding finish_put_def finish_remove_def
  by (auto intro!: exact_after_then exact_after_regenerate exact_pres_basic)

lemma exact_after_do_register: "exact_after ds (do_register ds e p)"
  unfolding do_register_def Let_def
  by (auto intro!: exact_after_rthen exact_after_basic(1) exact_after_then [OF exact_after_finish(1)] exact_pres_basic)

lemma exact_after_entry_ops:
  "exact_after (rg_dataset req) (register_generic env req c)"
  "exact_after (ra_dataset req') (register_a2a env fetch req' c)"
  "exact_after ds (register_batch es ds p)"
  "exact_after ds (register_skill env ds z c)"
  unfolding register_generic_def register_a2a_def register_a2a_resolved_def register_batch_def register_skill_def
    Let_def
  by (auto intro!: exact_after_rthen exact_after_basic(1,4) exact_after_do_register
      exact_after_then [OF exact_after_finish(1)] exact_after_then [OF exact_after_regenerate] exact_pres_basic
      simp: case_prod_beta)

lemma exact_after_entry_ops2:
  "exact_pres ds (deregister_skill env ds nm c)"
  "exact_pres ds (update_service env ds sid u c)"
  "exact_pres ds (deregister ds sid c)"
  unfolding deregister_skill_def update_service_def deregister_def Let_def
  by (auto intro!: exact_pres_basic exact_pres_option exact_pres_rlift exact_after_rthen exact_after_basic(4)
      exact_after_then [OF exact_after_finish(2)] exact_after_then [OF exact_after_regenerate] exact_pres_rthen
      simp: case_prod_beta split: if_splits)

lemma keeps_delete:
  assumes "ds' \<noteq> ds"
  shows "keeps (exact ds') (delete_dataset ds)"
proof -
  have "exact ds' (s\<lparr> rs_entries := im_remove ds (rs_entries s), output_cache := im_remove ds (output_cache s) \<rparr>) =
      exact ds' s" for s
    using assms by (intro exact_cong) simp_all
  then show ?thesis
    unfolding delete_dataset_def Let_def by (intro keeps_intros keeps_ops) (simp_all add: inner_update)
qed

lemma exact_after_delete: "exact_pres ds (delete_dataset ds)"
proof -
  have "exact ds (s\<lparr> rs_entries := im_remove ds (rs_entries s), output_cache := im_remove ds (output_cache s) \<rparr>)" for s
    by (simp add: exact_def list_services_def output_of_def list_entries_def)
  then show ?thesis
    unfolding delete_dataset_def Let_def
    by (intro exact_pres_basic exact_pres_option)
       (auto simp: exact_pres_def inner_update run_fs_def split: prod.splits)
qed

text \<open>A call settles when it returns, or fails without having changed entries or output.\<close>

definition settled ::
  "RegEnv \<Rightarrow> (string \<Rightarrow> RegistryError + AgentCard) \<Rightarrow> reg_event \<Rightarrow> RegistryService \<Rightarrow> bool" where
  "settled env fetch ev s =
     (case reg_exec env fetch ev s of
        (Inr _, _) \<Rightarrow> True
      | (Inl _, s') \<Rightarrow> rs_entries s' = rs_entries s \<and> output_cache s' = output_cache s)"

fun all_settled ::
  "RegEnv \<Rightarrow> (string \<Rightarrow> RegistryError + AgentCard) \<Rightarrow> reg_event list \<Rightarrow> RegistryService \<Rightarrow> bool" where
  "all_settled env fetch [] s = True"
| "all_settled env fetch (ev # evs) s =
     (settled env fetch ev s \<and> all_settled env fetch evs (snd (reg_exec env fetch ev s)))"

lemma rvoid_exact_pres: "exact_pres ds m \<Longrightarrow> exact_pres ds (rvoid m)"
  unfolding rvoid_def by (intro exact_pres_rthen exact_pres_basic)

lemma lease_free_exact: "lease_free (exact ds)"
  by (simp add: lease_free_def)

lemma entry_frame_exact:
  assumes "ds \<notin> D"
  shows "entry_frame D (exact ds)"
proof -
  have "exact ds (set_entries d x s) = exact ds s" if "d \<in> D" for d x s
    using assms that by (intro others_exact [of D]) simp_all
  moreover have "keeps (exact ds) (regenerate_output d)" if "d \<in> D" for d
    using keeps_others_regenerate [OF that] assms unfolding keeps_def by (metis others_exact)
  ultimately show ?thesis by (simp add: entry_frame_def)
qed

fun entry_event :: "reg_event \<Rightarrow> bool" where
  "entry_event (EvRegisterGeneric _ _) = True"
| "entry_event (EvRegisterA2A _ _) = True"
| "entry_event (EvRegisterBatch _ _ _) = True"
| "entry_event (EvRegisterSkill _ _ _) = True"
| "entry_event (EvDeregisterSkill _ _ _) = True"
| "entry_event (EvUpdate _ _ _ _) = True"
| "entry_event (EvDeregister _ _ _) = True"
| "entry_event _ = False"

lemma reg_exec_keeps_entry:
  assumes "entry_event ev" "entry_frame (event_datasets ev) F"
  shows "keeps F (reg_exec env fetch ev)"
  using assms keeps_entry_ops [OF assms(2)]
  by (cases ev) (auto intro!: rvoid_keeps)

lemma reg_exec_keeps_rest:
  assumes "\<not> entry_event ev" "\<And>ds. ev \<noteq> EvDeleteDataset ds" "ev \<noteq> EvStartup" "inner F" "lease_free F"
    and "\<And>s x. F (s\<lparr> format_configs := x \<rparr>) = F s" "\<And>s x. F (s\<lparr> auth_required_cache := x \<rparr>) = F s"
    "\<And>s x. F (s\<lparr> lease_config_cache := x \<rparr>) = F s" "\<And>s x. F (s\<lparr> taxonomy_states := x \<rparr>) = F s"
    "\<And>s x. F (s\<lparr> allowed_a2a_versions := x \<rparr>) = F s" "\<And>s x. F (s\<lparr> unhealthy_check := x \<rparr>) = F s"
  shows "keeps F (reg_exec env fetch ev)"
  using assms(1-3) keeps_create [OF assms(4,6,7)] keeps_caches [OF assms(4,7,8)] keeps_config(2) [OF assms(4,6)]
    keeps_check_taxonomy [of F, OF assms(9)] keeps_reserve [OF assms(5)] keeps_leases [OF assms(5)]
    keeps_setters [of F, OF assms(10,11)]
  by (cases ev) (auto intro!: rvoid_keeps rstate_keeps)

subsection \<open>Exact output after startup\<close>

lemma keeps_merge [keeps_ops]:
  assumes "inner F" "\<And>s x. F (s\<lparr> format_configs := x \<rparr>) = F s"
  shows "keeps F (merge_configs env ds es acc)" "keeps F (merge_skills env ds es merged)"
proof -
  show "keeps F (merge_configs env ds es acc)"
    by (induction es arbitrary: acc) (auto intro!: keeps_intros keeps_config(5) assms)
  show "keeps F (merge_skills env ds es merged)"
    by (induction es arbitrary: merged) (auto intro!: keeps_intros keeps_config(5) assms)
qed

lemma keeps_load:
  assumes "set dss \<subseteq> D"
  shows "keeps (others D) (load_datasets env dss)"
proof -
  have "keeps (others D) (load_dataset env ds)" if "ds \<in> D" for ds
    unfolding load_dataset_def Let_def by (intro keeps_intros keeps_ops) (simp_all add: that)
  with assms show ?thesis by (induction dss) (auto intro!: keeps_intros)
qed

lemma merge_configs_urls:
  "merge_configs env ds es acc s = (Inr (merged, urls), s') \<Longrightarrow> fst ` set (snd acc) \<subseteq> {ds} \<Longrightarrow> fst ` set urls \<subseteq> {ds}"
proof (induction es arbitrary: acc s)
  case (Cons e es)
  from Cons.prems(1) obtain acc' s1 where
    "merge_configs env ds es acc' s1 = (Inr (merged, urls), s')" "fst ` set (snd acc') \<subseteq> {ds}"
    using Cons.prems(2)
    by (auto elim!: rthen_InrE split: if_splits prod.splits option.splits)
  then show ?case by (rule Cons.IH)
qed auto

lemma load_datasets_urls: "load_datasets env dss s = (Inr urls, s') \<Longrightarrow> fst ` set urls \<subseteq> set dss"
proof (induction dss arbitrary: s urls s')
  case (Cons ds dss)
  then obtain u1 u2 s1 s2 where 1: "load_dataset env ds s = (Inr u1, s1)"
    and 2: "load_datasets env dss s1 = (Inr u2, s2)" and urls: "urls = u1 @ u2" by (auto elim!: rthen_InrE)
  from 1 obtain es m t t' where "merge_configs env ds es ([], []) t = (Inr (m, u1), t')"
    by (auto simp: load_dataset_def Let_def rthen_Inr split: prod.splits)
  then have "fst ` set u1 \<subseteq> {ds}" by (rule merge_configs_urls) simp
  moreover have "fst ` set u2 \<subseteq> set dss" using 2 by (rule Cons.IH)
  ultimately show ?case unfolding urls by (simp add: image_Un) blast
qed simp

lemma others_store_cards:
  "fst ` set urls \<subseteq> D \<Longrightarrow> others D (fold (store_card fetch) urls s) = others D s"
proof (induction urls arbitrary: s)
  case (Cons u urls)
  have "others D (store_card fetch u s) = others D s"
    using Cons.prems by (cases u) (auto simp: store_card_def split: sum.splits option.splits)
  with Cons show ?case by simp
qed simp

lemma keeps_revalidate:
  assumes "fst ` set urls \<subseteq> D"
  shows "keeps (others D) (revalidate env urls)"
  using assms
proof (induction urls)
  case (Cons u urls)
  obtain ds sid x where u: "u = (ds, sid, x)" by (cases u)
  from Cons have IH: "keeps (others D) (revalidate env urls)" by simp
  show ?case
    unfolding u revalidate.simps
    by (intro keeps_intros keeps_config(5) IH) (use Cons.prems u in auto)
qed (simp only: revalidate.simps keeps_basic)

lemma publish_exact:
  assumes "publish env dss acc s = (Inr r, s')" "ds \<in> set dss \<or> exact ds s"
  shows "exact ds s'"
  using assms
proof (induction dss arbitrary: acc s)
  case (Cons d dss)
  let ?step = "rthen (get_store d) (\<lambda>_. rget (\<lambda>s.
     rthen (if filter (\<lambda>e. source e = ApiConfig) (list_entries s d) \<noteq> []
            then with_store d (save_api_batch (filter (\<lambda>e. source e = ApiConfig) (list_entries s d))) else rok ())
       (\<lambda>_. regenerate_output d)))"
  obtain b s1 s2 acc' where step: "?step s = (Inr b, s1)" and s2: "s2 = snd (init_taxonomy_state env d s1)"
    and rest: "publish env dss acc' s2 = (Inr r, s')"
  proof -
    have "publish env (d # dss) acc = rthen ?step (\<lambda>_. rthen (rrun (init_taxonomy_state env d))
        (\<lambda>t. publish env dss (bm_insert d t acc)))"
      by (simp add: rthen_assoc rthen_rget Let_def)
    with Cons.prems(1) obtain b s1 where "?step s = (Inr b, s1)"
      "rthen (rrun (init_taxonomy_state env d)) (\<lambda>t. publish env dss (bm_insert d t acc)) s1 = (Inr r, s')"
      by (auto elim!: rthen_InrE [of ?step])
    then show thesis by (intro that [of b s1]) (auto simp: rthen_def rrun_def case_prod_beta)
  qed
  have "exact ds s1" if "ds = d"
  proof -
    have "exact_after d ?step" by (intro exact_intros)
    with step that show ?thesis unfolding exact_after_def by blast
  qed
  moreover have "exact ds s1 = exact ds s" if "ds \<noteq> d"
  proof -
    have reg: "keeps (exact ds) (regenerate_output d)"
      using entry_frame_exact [of ds "{d}"] that by (simp add: entry_frame_def)
    have "keeps (exact ds) ?step" by (intro keeps_intros keeps_get_store keeps_with_store exact_inner reg)
    from keepsD' [OF this step] show ?thesis .
  qed
  moreover have "exact ds s2 = exact ds s1"
    by (simp add: s2 init_taxonomy_state_def set_taxonomy_def Let_def)
  ultimately show ?case using Cons.IH [OF rest] Cons.prems(2) by auto
qed auto

lemma distribute_inner:
  assumes "inner F"
  shows "F (distribute_global_config env p s) = F s"
proof -
  have fs: "F (snd (run_fs m t)) = F t" for m :: "(Fs, unit) rop" and t
    by (rule keepsD [OF keeps_run_fs [OF assms]])
  have one: "F (distribute_one x t) = F t" for x t
  proof -
    obtain ds services where x: "x = (ds, services)" by (cases x)
    obtain r t1 where r: "run_fs (fs_create_dir_all (dataset_dir t ds)) t = (r, t1)"
      by (cases "run_fs (fs_create_dir_all (dataset_dir t ds)) t")
    have "F t1 = F t" using fs [of "fs_create_dir_all (dataset_dir t ds)" t] r by simp
    with x r fs show ?thesis by (cases r) (simp_all add: distribute_one_def Let_def)
  qed
  have "F (fold distribute_one xs t) = F t" for xs t
    by (induction xs arbitrary: t) (simp_all add: one)
  then show ?thesis by (simp add: distribute_global_config_def Let_def split: option.split)
qed

lemma startup_exact:
  assumes "startup env fetch s = (Inr r, s')" "exact ds s"
  shows "exact ds s'"
proof -
  define s0 where "s0 = (case global_config_path s of
      Some p \<Rightarrow> if fs_exists (rs_fs s) p then distribute_global_config env p s else s | None \<Rightarrow> s)"
  let ?D = "set (discover_datasets s0)"
  obtain urls s1 u s2 where load: "load_datasets env (discover_datasets s0) s0 = (Inr urls, s1)"
    and re: "revalidate env urls (fold (store_card fetch) urls s1) = (Inr u, s2)"
    and pub: "publish env (discover_datasets s0) [] s2 = (Inr r, s')"
    using assms(1) by (auto simp: startup_def Let_def rthen_Inr s0_def)
  have urls: "fst ` set urls \<subseteq> ?D" by (rule load_datasets_urls [OF load])
  have "others ?D s1 = others ?D s0" using keepsD' [OF keeps_load load] by simp
  moreover have "others ?D (fold (store_card fetch) urls s1) = others ?D s1" by (rule others_store_cards [OF urls])
  moreover have "others ?D s2 = others ?D (fold (store_card fetch) urls s1)"
    using keepsD' [OF keeps_revalidate [OF urls] re] .
  moreover have "others ?D s0 = others ?D s" by (simp add: s0_def distribute_inner split: option.split)
  ultimately have "ds \<notin> ?D \<Longrightarrow> exact ds s2 = exact ds s" by (intro others_exact [of ?D]) simp_all
  with assms(2) publish_exact [OF pub, of ds] show ?thesis by blast
qed

subsection \<open>Exact output after every run\<close>

lemma reg_exec_exact: "exact_pres ds (reg_exec env fetch ev)"
proof (cases "ds \<in> event_datasets ev \<or> ev = EvStartup")
  case True
  have "exact_pres ds (startup env fetch)" using startup_exact by (auto simp: exact_pres_def)
  with True show ?thesis
    using exact_after_entry_ops exact_after_entry_ops2 exact_after_delete
    by (cases ev) (auto intro!: rvoid_exact_pres intro: exact_pres_of_after)
next
  case False
  consider "entry_event ev" | d where "ev = EvDeleteDataset d" | "\<not> entry_event ev" "\<And>d. ev \<noteq> EvDeleteDataset d"
    by blast
  then have "keeps (exact ds) (reg_exec env fetch ev)"
  proof cases
    case 1
    with False show ?thesis by (intro reg_exec_keeps_entry entry_frame_exact) simp_all
  next
    case 2
    with False show ?thesis by (simp add: keeps_delete)
  next
    case 3
    with False show ?thesis by (intro reg_exec_keeps_rest) (simp_all add: lease_free_exact)
  qed
  then show ?thesis by (rule exact_pres_of_keeps)
qed

lemma reg_run_exact:
  assumes "all_settled env fetch evs s" "exact ds s"
  shows "exact ds (reg_run env fetch evs s)"
  using assms
proof (induction evs arbitrary: s)
  case (Cons ev evs)
  obtain r s' where ev: "reg_exec env fetch ev s = (r, s')" by (cases "reg_exec env fetch ev s")
  have "exact ds s'"
  proof (cases r)
    case (Inl e)
    with Cons.prems ev have "rs_entries s' = rs_entries s" "output_cache s' = output_cache s"
      by (simp_all add: settled_def)
    with Cons.prems(2) show ?thesis using exact_cong [of s' ds s] by simp
  next
    case (Inr u)
    with ev Cons.prems(2) reg_exec_exact [of ds env fetch ev] show ?thesis by (auto simp: exact_pres_def)
  qed
  with Cons ev show ?case by (simp add: reg_run_def)
qed (simp add: reg_run_def)

lemma new_exact: "exact ds (RegistryService_new dir g fs)"
  by (simp add: exact_def RegistryService_new_def list_services_def output_of_def list_entries_def)

text \<open>
  C8. What the registry publishes for a dataset is exact: after any sequence of operations, startup
  included, that returned (or failed before changing the entries), \<open>list_services\<close> is the output
  of the dataset's current entries, one per entry and in their order.
\<close>

theorem output_exact:
  assumes "all_settled env fetch evs (RegistryService_new dir g fs)"
    and "s = reg_run env fetch evs (RegistryService_new dir g fs)"
  shows "list_services s ds = map (\<lambda>e. JObj (entry_to_output e)) (list_entries s ds)"
  using reg_run_exact [OF assms(1) new_exact] assms(2) by (simp add: exact_def output_of_def)

subsection \<open>A concrete registry\<close>

text \<open>
  Concrete surroundings for the witnesses: an empty database on a disk without faults and
  simple stand-ins for the libraries.
\<close>

definition reg_env :: RegEnv where
  "reg_env =
     \<lparr> sha256 = id, disp_float = (\<lambda>_. ''0.0''), esc_json = (\<lambda>s. dquote # s @ [dquote]),
       dbg = (\<lambda>s. dquote # s @ [dquote]), de_err = (\<lambda>_. ''error''), parse_json = (\<lambda>_. None),
       print_json = (\<lambda>_. []), utf8_err = (\<lambda>_. None), zip_open = (\<lambda>_. Inl ''error''), zip_write = (\<lambda>_. []) \<rparr>"

definition reg_fs :: Fs where
  "reg_fs = \<lparr> fs_files = [], fs_dirs = [[''db''], []], fs_fault = (\<lambda>_. None), fs_ix = 0 \<rparr>"

definition reg_new :: RegistryService where
  "reg_new = RegistryService_new [''db''] None reg_fs"

definition reg_request :: "string \<Rightarrow> string \<Rightarrow> bool \<Rightarrow> RegisterGenericRequest" where
  "reg_request sid nm p =
     \<lparr> rg_service_id = Some sid, rg_dataset = ''d'', rg_name = nm, rg_description = ''text'',
       rg_input_schema = [], rg_url = ''http://a'', rg_persistent = p, rg_lease_ttl = None \<rparr>"

definition reg_caller :: "string \<Rightarrow> Role \<Rightarrow> AuthContext" where
  "reg_caller p r = \<lparr> principal_id = p, role = r, namespaces = None \<rparr>"

definition no_fetch :: "string \<Rightarrow> RegistryError + AgentCard" where
  "no_fetch url = Inl (Fetch url)"

lemmas reg_eval =
  rthen_eval register_generic_def require_valid_def require_type_allowed_def get_register_config_def get_store_def
  do_register_def ensure_dataset_initialized_def init_dataset_files_def set_vector_config_def set_register_config_def
  with_store_def run_fs_def RegistryStore_new_def fs_create_dir_all_def fs_try_def fs_write_def atomic_write_json_def
  on_fs_def save_if_def save_api_entry_def flush_api_config_def finish_put_def regenerate_output_def
  write_vector_config_def write_register_config_def write_service_json_def
  dataset_dir_def path_join_def path_resolve_def path_components_def path_prefixes_def
  fs_exists_def im_contains_def im_insert_def load_register_config_def file_names
  reg_new_def reg_fs_def RegistryService_new_def reg_request_def rvoid_def Let_def assert_can_register_def upt_rec
  DEFAULT_FORMAT_CONFIG_def SUPPORTED_SERVICE_TYPES_def to_map_def has_text_def trim_def is_space_def non_empty_def
  DEFAULT_EMBEDDING_MODEL_def embedding_dim_def EMBEDDING_MODELS_def normalize_format_config_def format_version_def
  validator_for_def ServiceType_as_str_def supported_versions_def formats_to_map_def put_some_def put_entry_def
  set_entries_def entries_of_def generic_entry_def

lemma reg_demo_register:
  "fst (reg_exec reg_env no_fetch (EvRegisterGeneric (reg_request ''s'' ''n'' True) None) reg_new) = Inr ()"
  by (simp add: reg_eval cong: rop_congs)

lemma reg_demo_startup: "startup reg_env no_fetch reg_new = (Inr [], reg_new)"
  by (simp add: startup_def reg_new_def RegistryService_new_def discover_datasets_def list_datasets_def fs_subdirs_def
      reg_fs_def under_def)

definition reg_demo_events :: "reg_event list" where
  "reg_demo_events = [EvStartup, EvRegisterGeneric (reg_request ''s'' ''n'' True) None]"

lemma reg_demo_settled: "all_settled reg_env no_fetch reg_demo_events reg_new"
proof -
  have 1: "reg_exec reg_env no_fetch EvStartup reg_new = (Inr (), reg_new)"
    by (simp add: rvoid_def rthen_def reg_demo_startup)
  obtain s where 2: "reg_exec reg_env no_fetch (EvRegisterGeneric (reg_request ''s'' ''n'' True) None) reg_new = (Inr (), s)"
    using reg_demo_register by (metis prod.collapse)
  show ?thesis by (simp add: reg_demo_events_def settled_def 1 2 del: reg_exec.simps)
qed

theorem output_exact_witness:
  "let s = reg_run reg_env no_fetch reg_demo_events reg_new in
   list_services s ''d'' = map (\<lambda>e. JObj (entry_to_output e)) (list_entries s ''d'')"
  unfolding Let_def reg_new_def
  by (rule output_exact [OF _ refl]) (rule reg_demo_settled [unfolded reg_new_def])

end
