(* ===== verification/RegistrySafety.thy ===== *)
theory RegistrySafety
  imports RegistryLaws
begin

text \<open>
  Who may change a registered service, and what a denied or unrelated call leaves alone.
\<close>

subsection \<open>Mutations of one entry\<close>

definition entries_except :: "string \<Rightarrow> string \<Rightarrow> RegistryService \<Rightarrow> string \<Rightarrow> string \<Rightarrow> RegistryEntry option" where
  "entries_except ds sid s = (\<lambda>d i. if d = ds \<and> i = sid then None else get_entry s d i)"

lemma get_entry_cong: "rs_entries s' = rs_entries s \<Longrightarrow> get_entry s' = get_entry s"
  by (simp add: fun_eq_iff get_entry_def)

lemma entries_except_cong: "rs_entries s' = rs_entries s \<Longrightarrow> entries_except ds sid s' = entries_except ds sid s"
  using get_entry_cong [of s' s] by (auto simp: entries_except_def fun_eq_iff)

lemma entries_except_inner [simp, intro!]: "inner (entries_except ds sid)"
  unfolding inner_def by (intro allI entries_except_cong) simp

lemma get_entry_set_entries:
  "get_entry (set_entries ds m s) d i = (if d = ds then map_of m i else get_entry s d i)"
  by (simp add: get_entry_def)

lemma get_entry_entries_of: "get_entry s ds i = map_of (entries_of s ds) i"
  by (simp add: get_entry_def entries_of_def split: option.split)

lemma entries_except_simps [simp]:
  "entries_except ds sid (set_entries ds (im_insert sid e (entries_of s ds)) s) = entries_except ds sid s"
  "entries_except ds sid (drop_entry ds sid s) = entries_except ds sid s"
  "entries_except ds sid (mark_taxonomy_stale d s) = entries_except ds sid s"
  "entries_except ds sid (emit_mutation d i op e' s) = entries_except ds sid s"
  by (auto simp: entries_except_def drop_entry_def get_entry_set_entries get_entry_entries_of fun_eq_iff)
    (simp_all add: get_entry_def entries_of_def)

lemma except_ops:
  "keeps (entries_except ds sid) (regenerate_output d)" "keeps (entries_except ds sid) (with_store d m)"
  "keeps (entries_except ds sid) (get_store d)"
  "keeps (entries_except ds sid) (finish_remove d i)" "keeps (entries_except ds sid) (save_if b d e)"
  "keeps (entries_except ds sid) (apply_skill_updates env d e u)"
proof -
  show reg: "keeps (entries_except ds sid) (regenerate_output d)" for d
    by (intro keeps_regenerate entries_except_inner entries_except_cong) simp_all
  show st: "keeps (entries_except ds sid) (with_store d m)" "keeps (entries_except ds sid) (get_store d)" 
     for d and m :: "(store_state, 'z) rop"
    by (intro keeps_ops entries_except_inner)+
  show "keeps (entries_except ds sid) (finish_remove d i)" "keeps (entries_except ds sid) (save_if b d e)"
    "keeps (entries_except ds sid) (apply_skill_updates env d e u)"
    unfolding finish_remove_def save_if_def apply_skill_updates_def Let_def
    by (intro keeps_intros reg keeps_with_store keeps_get_store entries_except_inner; simp)+
qed

lemma mutation_elsewhere:
  "keeps (entries_except ds sid) (update_service env ds sid u c)"
  "keeps (entries_except ds sid) (deregister ds sid c)"
  "keeps (entries_except ds (generate_service_id env ''skill'' nm)) (deregister_skill env ds nm c)"
  unfolding update_service_def deregister_def deregister_skill_def Let_def
  by (intro keeps_intros except_ops; simp)+

definition may_mutate :: "RegistryEntry \<Rightarrow> AuthContext \<Rightarrow> bool" where
  "may_mutate e c \<longleftrightarrow> is_admin c \<or> re_owner_id e = Some (principal_id c)"

lemma assert_owner_iff: "assert_owner e c = Inr () \<longleftrightarrow> may_mutate e c"
  by (auto simp: assert_owner_def may_mutate_def split: option.split)

lemma assert_owner_denied: "\<not> may_mutate e c \<Longrightarrow> \<exists>t. assert_owner e c = Inl (Permission t)"
  by (auto simp: assert_owner_def may_mutate_def split: option.split)

lemma mutation_denied:
  assumes "get_entry s ds sid = None \<or> (\<exists>e. get_entry s ds sid = Some e \<and> \<not> may_mutate e c)"
  shows "snd (update_service env ds sid u (Some c) s) = s" "snd (deregister ds sid (Some c) s) = s"
    "sid = generate_service_id env ''skill'' nm \<Longrightarrow> snd (deregister_skill env ds nm (Some c) s) = s"
  using assms assert_owner_denied
  by (fastforce simp: update_service_def deregister_def deregister_skill_def assert_owner_opt_def Let_def)+


text \<open>
  C7. Only the owner of a service or an administrator changes it: when an update, a deregistration or
  a skill removal by an authenticated caller changes any entry of any dataset, the caller is an
  administrator or the recorded owner of that very entry.
\<close>

theorem only_owner_mutates:
  assumes "ev \<in> {EvUpdate ds sid u (Some c), EvDeregister ds sid (Some c), EvDeregisterSkill ds nm (Some c)}"
    and "get_entry (snd (reg_exec env fetch ev s)) d i \<noteq> get_entry s d i"
  shows "\<exists>e. get_entry s d i = Some e \<and> may_mutate e c"
proof -
  obtain sid' where ex: "keeps (entries_except ds sid') (reg_exec env fetch ev)"
    and den: "get_entry s ds sid' = None \<or> (\<exists>e. get_entry s ds sid' = Some e \<and> \<not> may_mutate e c) \<Longrightarrow>
       snd (reg_exec env fetch ev s) = s"
  proof -
    have rv: "snd (rvoid m s) = snd (m s)" for m :: "'z reg"
      by (simp add: rvoid_def rthen_def split: prod.split sum.split)
    consider "ev = EvUpdate ds sid u (Some c)" | "ev = EvDeregister ds sid (Some c)" | "ev = EvDeregisterSkill ds nm (Some c)"
      using assms(1) by auto
    then show thesis
    proof cases
      case 1
      show ?thesis
        by (rule that [of sid]) (simp_all add: 1 rvoid_keeps mutation_elsewhere rv mutation_denied)
    next
      case 2
      show ?thesis
        by (rule that [of sid]) (simp_all add: 2 rvoid_keeps mutation_elsewhere rv mutation_denied)
    next
      case 3
      show ?thesis
        by (rule that [of "generate_service_id env ''skill'' nm"])
           (simp_all add: 3 rvoid_keeps mutation_elsewhere rv mutation_denied)
    qed
  qed
  have "d = ds \<and> i = sid'"
  proof (rule ccontr)
    assume "\<not> (d = ds \<and> i = sid')"
    moreover have "entries_except ds sid' (snd (reg_exec env fetch ev s)) d i = entries_except ds sid' s d i"
      using keepsD [OF ex] by simp
    ultimately show False using assms(2) by (auto simp: entries_except_def)
  qed
  with den assms(2) show ?thesis by fastforce
qed

definition owned_entry :: RegistryEntry where
  "owned_entry = \<lparr> service_id = ''s'', re_type = Generic, source = Ephemeral, service_data = None, agent_card = None,
     agent_card_url = None, skill_data = None, re_owner_id = Some ''p'', re_lease_ttl = None \<rparr>"

definition owned_state :: RegistryService where
  "owned_state = reg_new\<lparr> rs_entries := [(''d'', [(''s'', owned_entry)])] \<rparr>"

theorem only_owner_mutates_witness:
  "get_entry (snd (reg_exec reg_env no_fetch (EvDeregister ''d'' ''s'' (Some (reg_caller ''p'' Provider))) owned_state)) ''d'' ''s''
     \<noteq> get_entry owned_state ''d'' ''s'' \<and>
   (\<exists>e. get_entry owned_state ''d'' ''s'' = Some e \<and> may_mutate e (reg_caller ''p'' Provider))"
proof -
  let ?ev = "EvDeregister ''d'' ''s'' (Some (reg_caller ''p'' Provider))"
  have old: "get_entry owned_state ''d'' ''s'' = Some owned_entry"
    by (simp add: owned_state_def get_entry_def)
  have new: "get_entry (snd (reg_exec reg_env no_fetch ?ev owned_state)) ''d'' ''s'' = None"
    by (simp add: owned_state_def owned_entry_def reg_caller_def is_admin_def deregister_def get_entry_def finish_remove_def
        drop_entry_def output_of_def list_entries_def im_remove_def mark_taxonomy_stale_def emit_mutation_def
        assert_owner_opt_def assert_owner_def reg_eval cong: rop_congs)
  have "get_entry (snd (reg_exec reg_env no_fetch ?ev owned_state)) ''d'' ''s'' \<noteq> get_entry owned_state ''d'' ''s''"
    by (simp only: old new) simp
  moreover have "?ev \<in> {EvUpdate ''d'' ''s'' [] (Some (reg_caller ''p'' Provider)), ?ev,
      EvDeregisterSkill ''d'' [] (Some (reg_caller ''p'' Provider))}" by simp
  ultimately show ?thesis using only_owner_mutates [of ?ev "''d''" "''s''" "[]" "reg_caller ''p'' Provider" "[]"
      reg_env no_fetch owned_state "''d''" "''s''"] by simp
qed

end
