(* ===== verification/RegistryInv.thy ===== *)
theory RegistryInv
  imports RegistryLaws
begin

text \<open>
  Invariants of the registry service under every operation, whatever it returns and whichever
  write fails: entries are filed under their own identifiers and a service has one lease.
\<close>

subsection \<open>Entries are filed under their own identifiers\<close>

definition keyed :: "(string, RegistryEntry) imap \<Rightarrow> bool" where
  "keyed m \<longleftrightarrow> im_wf m \<and> (\<forall>k e. map_of m k = Some e \<longrightarrow> service_id e = k)"

definition entries_inv :: "RegistryService \<Rightarrow> bool" where
  "entries_inv s \<longleftrightarrow> (\<forall>ds m. map_of (rs_entries s) ds = Some m \<longrightarrow> keyed m)"

definition pres :: "('s \<Rightarrow> bool) \<Rightarrow> ('s, 'a) rop \<Rightarrow> bool" where
  "pres P m \<longleftrightarrow> (\<forall>s. P s \<longrightarrow> P (snd (m s)))"

named_theorems pres_intros \<open>rules for invariants of the operations\<close>

lemma pres_rthen [pres_intros]: "pres P m \<Longrightarrow> (\<And>x. pres P (f x)) \<Longrightarrow> pres P (rthen m f)"
  unfolding pres_def using rthen_inv [of P] by blast

lemma pres_basic [pres_intros]:
  "pres P (rok x)" "pres P (rfail e)" "pres P (rlift r)"
  "(\<And>s. P s \<Longrightarrow> P (g s)) \<Longrightarrow> pres P (rmodify g)" "(\<And>s. pres P (h s)) \<Longrightarrow> pres P (rget h)"
  by (simp_all add: pres_def)

lemma pres_cases [pres_intros]:
  "pres P m \<Longrightarrow> pres P n \<Longrightarrow> pres P (if b then m else n)"
  "pres P m \<Longrightarrow> (\<And>x. pres P (f x)) \<Longrightarrow> pres P (case v of None \<Rightarrow> m | Some x \<Rightarrow> f x)"
  "(\<And>x y. pres P (g x y)) \<Longrightarrow> pres P (case p of (x, y) \<Rightarrow> g x y)"
  by (auto split: option.split prod.split)

lemma pres_of_keeps: "keeps F m \<Longrightarrow> (\<And>s s'. F s' = F s \<Longrightarrow> P s \<Longrightarrow> P s') \<Longrightarrow> pres P m"
  unfolding keeps_def pres_def by metis

lemma entries_inv_keeps: "keeps rs_entries m \<Longrightarrow> pres entries_inv m"
  by (erule pres_of_keeps) (simp add: entries_inv_def)

lemma keyed_insert: "keyed m \<Longrightarrow> service_id e = k \<Longrightarrow> keyed (im_insert k e m)"
  by (auto simp: keyed_def split: if_splits)

lemma keyed_Nil [simp]: "keyed []"
  by (simp add: keyed_def)

lemma keyed_remove: "keyed m \<Longrightarrow> keyed (im_remove k m)"
  by (auto simp: keyed_def split: if_splits)

lemma entries_of_keyed: "entries_inv s \<Longrightarrow> keyed (entries_of s ds)"
  by (simp add: entries_inv_def entries_of_def split: option.split)

lemma entries_inv_set: "entries_inv s \<Longrightarrow> keyed m \<Longrightarrow> entries_inv (set_entries ds m s)"
  by (simp add: entries_inv_def)

lemma entries_inv_put: "entries_inv s \<Longrightarrow> entries_inv (put_entry ds e s)"
  unfolding put_entry_def by (intro entries_inv_set keyed_insert entries_of_keyed) simp_all

lemma entries_inv_drop: "entries_inv s \<Longrightarrow> entries_inv (drop_entry ds sid s)"
  unfolding drop_entry_def by (intro entries_inv_set keyed_remove entries_of_keyed)

lemma entries_keeps:
  "keeps rs_entries (regenerate_output ds)" "keeps rs_entries (with_store ds m)" "keeps rs_entries (get_store ds)"
  "keeps rs_entries (ensure_dataset_initialized ds)" "keeps rs_entries (require_valid env ds t v)"
  "keeps rs_entries (require_type_allowed env ds t)" "keeps rs_entries (finish_put ds sid b e)"
  "keeps rs_entries (finish_remove ds sid)" "keeps rs_entries (save_if b ds e')"
  "keeps rs_entries (apply_skill_updates env ds e' u)"
  unfolding finish_put_def finish_remove_def save_if_def apply_skill_updates_def Let_def
  by (intro keeps_intros keeps_ops inner_fields; simp)+

lemma do_register_inv: "pres entries_inv (do_register ds e p)"
  unfolding do_register_def Let_def
  by (intro pres_intros entries_inv_keeps entries_keeps entries_inv_put)

lemma keyed_batch: "keyed m \<Longrightarrow> keyed (fold (\<lambda>e. im_insert (service_id e) (e\<lparr> source := x \<rparr>)) es m)"
  by (induction es arbitrary: m) (simp_all add: keyed_insert)

lemma apply_updates_id:
  "apply_generic_updates env e u = Inr (e', ch) \<Longrightarrow> service_id e' = service_id e"
  "apply_a2a_updates env e u = Inr (e', ch) \<Longrightarrow> service_id e' = service_id e"
  "apply_skill_updates env ds e u s = (Inr (e', ch), s') \<Longrightarrow> service_id e' = service_id e"
  by (auto simp: apply_generic_updates_def apply_a2a_updates_def apply_skill_updates_def Let_def rthen_Inr
      split: sum.splits option.splits)

lemma pres_rthen_fact:
  assumes "pres P m" "\<And>x s s'. m s = (Inr x, s') \<Longrightarrow> Q x" "\<And>x. Q x \<Longrightarrow> pres P (f x)"
  shows "pres P (rthen m f)"
proof -
  have "P (snd (rthen m f s))" if "P s" for s
  proof (cases "m s")
    case (Pair r t)
    with assms(1) that have "P t" unfolding pres_def by (metis snd_conv)
    with Pair assms(2,3) show ?thesis by (cases r) (auto simp: rthen_def pres_def)
  qed
  then show ?thesis by (simp add: pres_def)
qed

lemma update_service_inv: "pres entries_inv (update_service env ds sid u c)"
proof -
  have tail: "pres entries_inv (rthen (rget (\<lambda>s. if \<not> im_contains (entries_of s ds) sid then rfail x
        else rmodify (\<lambda>s. set_entries ds (im_insert sid e' (entries_of s ds)) s))) K)"
    if "service_id e' = sid" "\<And>y. keeps rs_entries (K y)" for e' and K :: "unit \<Rightarrow> 'z reg" and x
    using that by (intro pres_intros entries_inv_set keyed_insert entries_of_keyed entries_inv_keeps)
  have "entries_inv (snd (update_service env ds sid u c s))" if inv: "entries_inv s" for s
  proof (cases "get_entry s ds sid")
    case (Some e)
    then have id: "service_id e = sid"
      using inv by (auto simp: get_entry_def entries_inv_def keyed_def bind_eq_Some_conv)
    let ?K = "\<lambda>(e', changed). rthen (rget (\<lambda>s. if \<not> im_contains (entries_of s ds) sid then
                        rfail (NotFound (''Service '' @ quoted sid @ '' was removed during update in dataset '' @ quoted ds))
                      else rmodify (\<lambda>s. set_entries ds (im_insert sid e' (entries_of s ds)) s))) (\<lambda>_.
             rthen (save_if (source e' = ApiConfig) ds e') (\<lambda>_.
             rthen (regenerate_output ds) (\<lambda>_.
               let affected = ''name'' \<in> set changed \<or> ''description'' \<in> set changed in
               rthen (rmodify (\<lambda>s. emit_mutation ds sid OpUpdate (Some e')
                        (if affected then mark_taxonomy_stale ds s else s))) (\<lambda>_.
               rok \<lparr> ur_service_id = sid, ur_dataset = ds, ur_status = ''updated'',
                     changed_fields = sort changed, taxonomy_affected = affected \<rparr>))))"
    let ?A = "case re_type e of
                      Generic \<Rightarrow> rlift (apply_generic_updates env e u)
                    | A2a \<Rightarrow> rlift (apply_a2a_updates env e u)
                    | Skill \<Rightarrow> apply_skill_updates env ds e u"
    have "pres entries_inv (rthen (rlift (assert_owner_opt e c)) (\<lambda>_. rthen ?A ?K))"
    proof (rule pres_rthen [OF pres_basic(3)], rule pres_rthen_fact [where Q = "\<lambda>(e', _). service_id e' = sid"])
      show "pres entries_inv ?A" by (intro entries_inv_keeps keeps_intros entries_keeps)
      show "case x of (e', _) \<Rightarrow> service_id e' = sid" if "?A s1 = (Inr x, s2)" for x s1 s2
        using that id by (cases x) (auto split: ServiceType.splits dest: apply_updates_id)
      show "pres entries_inv (?K x)" if "case x of (e', _) \<Rightarrow> service_id e' = sid" for x
      proof (cases x)
        case (Pair e' ch)
        with that have id': "service_id e' = sid" by simp
        show ?thesis
          unfolding Pair Let_def prod.case by (rule tail [OF id']) (intro keeps_intros entries_keeps; simp)
      qed
    qed
    with inv Some show ?thesis by (simp add: update_service_def pres_def)
  qed (use inv in \<open>simp add: update_service_def\<close>)
  then show ?thesis by (simp add: pres_def)
qed


lemma entry_ops_inv:
  "pres entries_inv (register_generic env req c)" "pres entries_inv (register_a2a env fetch req' c)"
  "pres entries_inv (register_batch es ds p)" "pres entries_inv (register_skill env ds z c)"
  "pres entries_inv (deregister_skill env ds nm c)" "pres entries_inv (deregister ds sid c)"
  unfolding register_generic_def register_a2a_def register_a2a_resolved_def register_batch_def register_skill_def
    deregister_skill_def deregister_def Let_def
  by (intro pres_intros do_register_inv entries_inv_keeps entries_keeps entries_inv_set keyed_batch entries_of_keyed
      entries_inv_put entries_inv_drop; (assumption | simp add: entries_inv_def))+

lemma delete_inv: "pres entries_inv (delete_dataset ds)"
  unfolding delete_dataset_def Let_def
  by (intro pres_intros entries_inv_keeps keeps_run_fs inner_fields) (simp add: entries_inv_def)

lemma rvoid_pres: "pres P m \<Longrightarrow> pres P (rvoid m)"
  unfolding rvoid_def by (intro pres_intros)

text \<open>Startup files every entry it loads under its identifier.\<close>

lemma merge_configs_keyed:
  "merge_configs env ds es acc s = (Inr acc', s') \<Longrightarrow> keyed (fst acc) \<Longrightarrow> keyed (fst acc')"
proof (induction es arbitrary: acc s)
  case (Cons e es)
  obtain m0 u0 where acc: "acc = (m0, u0)" by (cases acc)
  with Cons.prems obtain acc1 s1 where "merge_configs env ds es acc1 s1 = (Inr acc', s')" "keyed (fst acc1)"
    by (auto simp: rthen_Inr keyed_insert split: if_splits)
  then show ?case by (rule Cons.IH)
qed simp

lemma merge_skills_keyed:
  "merge_skills env ds es m s = (Inr m', s') \<Longrightarrow> keyed m \<Longrightarrow> keyed m'"
proof (induction es arbitrary: m s)
  case (Cons e es)
  then obtain m1 s1 where "merge_skills env ds es m1 s1 = (Inr m', s')" "keyed m1"
    by (auto simp: rthen_Inr keyed_insert split: if_splits)
  then show ?case by (rule Cons.IH)
qed simp

lemma load_dataset_inv: "pres entries_inv (load_dataset env ds)"
proof -
  have skills: "pres entries_inv (rthen (merge_skills env ds es m) (\<lambda>m'. rthen (rmodify (set_entries ds m')) (\<lambda>_. rok x)))"
    if "keyed m" for es m and x :: 'z
    using that
    by (intro pres_rthen_fact [where Q = keyed] entries_inv_keeps keeps_merge pres_rthen pres_basic entries_inv_set)
       (auto dest: merge_skills_keyed)
  show ?thesis
    unfolding load_dataset_def Let_def
  proof (rule pres_rthen [OF entries_inv_keeps [OF entries_keeps(3)]], rule pres_basic(5),
      rule pres_rthen [OF entries_inv_keeps [OF entries_keeps(2)]],
      rule pres_rthen_fact [where Q = "\<lambda>acc. keyed (fst acc)"])
    show "pres entries_inv (merge_configs env ds es acc)" for es acc
      by (intro entries_inv_keeps keeps_merge) simp_all
    show "keyed (fst acc)" if "merge_configs env ds es ([], []) s = (Inr acc, s')" for es acc s s'
      using merge_configs_keyed [OF that] by simp
    show "pres entries_inv (case acc of (merged, urls) \<Rightarrow> rget (\<lambda>s.
        rthen (merge_skills env ds (load_skills env (rs_fs s) st) merged) (\<lambda>merged.
        rthen (rmodify (set_entries ds merged)) (\<lambda>_. rok urls))))" if "keyed (fst acc)" for acc st
      using that skills by (cases acc) (auto intro!: pres_basic(5))
  qed
qed

lemma load_datasets_inv: "pres entries_inv (load_datasets env dss)"
  by (induction dss) (simp_all only: load_datasets.simps, (intro pres_intros load_dataset_inv; assumption)+)

lemma entry_id: "entries_inv s \<Longrightarrow> get_entry s ds sid = Some e \<Longrightarrow> service_id e = sid"
  by (auto simp: get_entry_def entries_inv_def keyed_def bind_eq_Some_conv)

lemma store_cards_inv: "entries_inv s \<Longrightarrow> entries_inv (fold (store_card fetch) urls s)"
proof (induction urls arbitrary: s)
  case (Cons u urls)
  have "entries_inv (store_card fetch u s)"
    using Cons.prems entry_id [OF Cons.prems]
    by (auto simp: store_card_def intro!: entries_inv_set keyed_insert entries_of_keyed
        split: prod.split sum.split option.split)
  with Cons.IH show ?case by simp
qed simp

lemma revalidate_inv: "pres entries_inv (revalidate env urls)"
proof (induction urls)
  case (Cons u urls)
  obtain ds sid x where u: "u = (ds, sid, x)" by (cases u)
  show ?case
    unfolding u revalidate.simps
    by (intro pres_intros Cons.IH entries_inv_keeps keeps_config) (simp_all add: entries_inv_drop)
qed (simp only: revalidate.simps pres_basic)

lemma publish_keeps:
  assumes "inner F" "\<And>d. keeps F (regenerate_output d)" "\<And>s x. F (s\<lparr> taxonomy_states := x \<rparr>) = F s"
  shows "keeps F (publish env dss acc)"
proof (induction dss arbitrary: acc)
  case (Cons d dss)
  show ?case
    unfolding publish.simps Let_def
    by (intro keeps_intros keeps_get_store keeps_with_store assms Cons.IH)
       (simp add: init_taxonomy_state_def set_taxonomy_def Let_def assms)
qed (simp only: publish.simps keeps_basic)

lemma startup_inv: "pres entries_inv (startup env fetch)"
proof -
  have "entries_inv (distribute_global_config env p s)" if "entries_inv s" for p s
    using that distribute_inner [OF inner_fields(2)] by (simp add: entries_inv_def)
  then show ?thesis
    unfolding startup_def Let_def
    by (intro pres_intros load_datasets_inv revalidate_inv entries_inv_keeps publish_keeps inner_fields
        entries_keeps store_cards_inv) (auto split: option.split)
qed

lemma startup_keeps:
  assumes "entry_frame UNIV F"
  shows "keeps F (startup env fetch)"
proof -
  have F: "inner F" "\<And>ds s x. F (set_entries ds x s) = F s" "\<And>ds. keeps F (regenerate_output ds)"
    "\<And>s x. F (s\<lparr> taxonomy_states := x \<rparr>) = F s" "\<And>s x. F (s\<lparr> format_configs := x \<rparr>) = F s"
    "\<And>s x. F (s\<lparr> auth_required_cache := x \<rparr>) = F s"
    using assms by (simp_all add: entry_frame_def)
  have load: "keeps F (load_datasets env dss)" for dss
    by (induction dss)
      (simp_all only: load_datasets.simps load_dataset_def Let_def,
       (intro keeps_intros keeps_ops F; simp add: F)+)
  have cards: "F (fold (store_card fetch) urls s) = F s" for urls s
    by (induction urls arbitrary: s) (auto simp: F store_card_def split: prod.split sum.split option.split)
  have rev: "keeps F (revalidate env urls)" for urls
  proof (induction urls)
    case (Cons u urls)
    obtain ds sid x where u: "u = (ds, sid, x)" by (cases u)
    show ?case
      unfolding u revalidate.simps by (intro keeps_intros Cons.IH keeps_config) (simp_all add: F drop_entry_def)
  qed (simp only: revalidate.simps keeps_basic)
  show ?thesis
    unfolding startup_def Let_def
    by (intro keeps_intros load rev publish_keeps F)
       (simp_all add: F cards distribute_inner split: option.split)
qed

lemma startup_leases: "keeps rs_leases (startup env fetch)"
  by (rule startup_keeps) (rule entry_frame_leases)

lemma reg_exec_entries_inv: "pres entries_inv (reg_exec env fetch ev)"
proof -
  consider "entry_event ev" | d where "ev = EvDeleteDataset d" | "ev = EvStartup"
    | "\<not> entry_event ev" "\<And>d. ev \<noteq> EvDeleteDataset d" "ev \<noteq> EvStartup"
    by blast
  then show ?thesis
  proof cases
    case 1
    then show ?thesis using entry_ops_inv update_service_inv by (cases ev) (simp_all add: rvoid_pres)
  next
    case 2
    then show ?thesis by (simp add: delete_inv)
  next
    case 3
    then show ?thesis by (simp add: rvoid_pres startup_inv)
  next
    case 4
    then have "keeps rs_entries (reg_exec env fetch ev)"
      by (intro reg_exec_keeps_rest) (simp_all add: lease_free_def)
    then show ?thesis by (rule entries_inv_keeps)
  qed
qed

lemma reg_run_entries_inv: "entries_inv s \<Longrightarrow> entries_inv (reg_run env fetch evs s)"
  using reg_exec_entries_inv unfolding reg_run_def pres_def by (induction evs arbitrary: s) simp_all


subsection \<open>Leases\<close>

definition leases_wf :: "RegistryService \<Rightarrow> bool" where
  "leases_wf s \<longleftrightarrow> im_wf (rs_leases s)"

definition live_lease :: "real \<Rightarrow> RegistryService \<Rightarrow> string \<Rightarrow> string \<Rightarrow> ReservationLease option" where
  "live_lease now s ds sid =
     (case map_of (rs_leases s) (ds, sid) of
        Some l \<Rightarrow> if rl_expires_at l > now then Some l else None
      | None \<Rightarrow> None)"

lemma sweep_leases:
  assumes "leases_wf s"
  shows "map_of (rs_leases (sweep_expired_leases now s)) (ds, sid) = live_lease now s ds sid"
  using assms im_get_retain [of "rs_leases s"]
  by (simp add: leases_wf_def sweep_expired_leases_def live_lease_def)

lemma sweep_wf: "leases_wf s \<Longrightarrow> leases_wf (sweep_expired_leases now s)"
  by (simp add: leases_wf_def sweep_expired_leases_def)

lemma sweep_simps [simp]:
  "list_services (sweep_expired_leases now s) ds = list_services s ds"
  "rs_entries (sweep_expired_leases now s) = rs_entries s"
  by (simp_all add: sweep_expired_leases_def list_services_def)

lemma wf_insert_leases: "im_wf L \<Longrightarrow> im_wf (fold (\<lambda>w. im_insert (f w) l) ws L)"
  by (induction ws arbitrary: L) simp_all

lemma map_of_insert_leases:
  "map_of (fold (\<lambda>w. im_insert (f w) l) ws L) k = (if k \<in> f ` set ws then Some l else map_of L k)"
  by (induction ws arbitrary: L) auto

lemma reserve_wf: "pres leases_wf (reserve_services_at env rq c u t w)"
  using sweep_wf
  by (auto simp: pres_def reserve_services_at_def reserve_claim_def Let_def check_ttl_def leases_wf_def
      intro!: wf_insert_leases)

lemma release_ids_wf: "pres leases_wf (release_ids ds h ids acc)"
  by (induction ids arbitrary: acc) (auto simp: pres_def leases_wf_def split: option.split)

lemma im_wf_fold_remove: "im_wf L \<Longrightarrow> im_wf (fold im_remove ks L)"
  by (induction ks arbitrary: L) simp_all

lemma im_wf_map_val: "im_wf (map (\<lambda>(k, l). (k, g k l)) L) = im_wf L"
  by (simp add: comp_def case_prod_beta)

lemma lease_ops_wf:
  "pres leases_wf (release_reservation t ds h ids c)" "pres leases_wf (release_lease_by_sid t ds sid c)"
  "pres leases_wf (extend_reservation_at ds h ttl c t w)" "leases_wf s \<Longrightarrow> leases_wf (snd (is_leased t ds sid s))"
  unfolding release_reservation_def release_lease_by_sid_def extend_reservation_at_def Let_def
     apply (intro pres_intros release_ids_wf sweep_wf; simp add: leases_wf_def im_wf_fold_remove)
    apply (intro pres_intros sweep_wf; simp add: leases_wf_def)
   apply (intro pres_intros sweep_wf; simp add: leases_wf_def comp_def case_prod_beta)
  apply (simp add: is_leased_def sweep_wf Let_def)
  done

lemma reg_exec_leases_wf: "pres leases_wf (reg_exec env fetch ev)"
proof -
  have wf: "keeps rs_leases m \<Longrightarrow> pres leases_wf m" for m :: "'z reg"
    by (erule pres_of_keeps) (simp add: leases_wf_def)
  have fr: "keeps rs_leases (create_dataset ds mo f a)" "keeps rs_leases (set_auth_config ds b)"
    "keeps rs_leases (set_lease_config ds b lo hi g)" "keeps rs_leases (set_vector_config ds mo d)"
    "keeps rs_leases (set_register_config ds v)" "rs_leases (snd (is_auth_required env ds s)) = rs_leases s"
    "rs_leases (snd (get_lease_config env ds s)) = rs_leases s"
    "rs_leases (snd (check_taxonomy_state env ds s)) = rs_leases s" for ds mo f a b lo hi g d v s
    by (simp_all add: keeps_create keeps_caches keeps_config(2) keeps_check_taxonomy)
  show ?thesis
  proof (cases "entry_event ev")
    case True
    then show ?thesis by (intro wf reg_exec_keeps_entry entry_frame_leases)
  next
    case False
    have del: "pres leases_wf (delete_dataset ds)" for ds
      unfolding delete_dataset_def Let_def
      by (intro pres_intros wf keeps_run_fs inner_fields) (simp add: leases_wf_def)
    from False fr del reserve_wf lease_ops_wf keepsD [OF startup_leases] show ?thesis
      by (cases ev) (auto simp: rstate_def pres_def leases_wf_def keeps_def setters)
  qed
qed

lemma reg_run_leases_wf: "leases_wf s \<Longrightarrow> leases_wf (reg_run env fetch evs s)"
  using reg_exec_leases_wf unfolding reg_run_def pres_def by (induction evs arbitrary: s) simp_all

lemma new_invs: "entries_inv (RegistryService_new dir g fs)" "leases_wf (RegistryService_new dir g fs)"
  by (simp_all add: entries_inv_def leases_wf_def RegistryService_new_def)

end
