(* ===== verification/ReservationLaws.thy ===== *)
theory ReservationLaws
  imports RegistryInv RegistrySafety
begin

text \<open>
  Reservations: which services a call claims, and that a claimed service is nobody else's until
  its lease ends.
\<close>

subsection \<open>What a reservation claims\<close>

definition available ::
  "RegEnv \<Rightarrow> string \<Rightarrow> JsonDict \<Rightarrow> string list \<Rightarrow> (string, json) imap \<Rightarrow>
     (string \<times> string, ReservationLease) imap \<Rightarrow> RegistryEntry \<Rightarrow> bool" where
  "available env ds filters unhealthy wrapped leases e \<longleftrightarrow>
     map_of leases (ds, service_id e) = None \<and> service_id e \<notin> set unhealthy \<and>
     entry_matches_filters env e filters \<and> map_of wrapped (service_id e) \<noteq> None"

lemma claim_loop_eq:
  "claim_loop env ds filters n unhealthy wrapped leases es claimed =
     claimed @ take (nat (n - int (length claimed)))
       (map (\<lambda>e. the (map_of wrapped (service_id e)))
         (filter (available env ds filters unhealthy wrapped leases) es))"
proof (induction es arbitrary: claimed)
  case (Cons e es)
  have "nat (n - int (length claimed)) = Suc (nat (n - int (length (claimed @ [w]))))"
    if "\<not> n \<le> int (length claimed)" for w :: json
    using that by simp
  with Cons.IH show ?case
    by (auto simp: available_def im_contains_def split: option.split)
qed simp

lemma wrapped_by_id_get:
  "map_of (wrapped_by_id out) i = Some w \<Longrightarrow> claimed_id w = i \<and> w \<in> set out"
proof -
  let ?f = "\<lambda>v m. case Option.bind (jget v ''id'') as_str of Some i \<Rightarrow> im_insert i v m | None \<Rightarrow> m"
  have "map_of (fold ?f out acc) i = Some w \<Longrightarrow> (claimed_id w = i \<and> w \<in> set out) \<or> map_of acc i = Some w" for acc
  proof (induction out arbitrary: acc)
    case (Cons v out)
    then have "(claimed_id w = i \<and> w \<in> set out) \<or> map_of (?f v acc) i = Some w" by simp
    then show ?case by (auto simp: claimed_id_def split: option.splits if_splits)
  qed simp
  from this [of "[]"] show "map_of (wrapped_by_id out) i = Some w \<Longrightarrow> claimed_id w = i \<and> w \<in> set out"
    by (simp add: wrapped_by_id_def)
qed

lemma output_id [simp]: "map_of (entry_to_output e) ''id'' = Some (JStr (service_id e))"
  by (simp add: entry_to_output_def)

lemma wrapped_by_id_output:
  assumes "distinct (map service_id es)" "e \<in> set es"
  shows "map_of (wrapped_by_id (map (\<lambda>e. JObj (entry_to_output e)) es)) (service_id e) = Some (JObj (entry_to_output e))"
proof -
  let ?f = "\<lambda>v m. case Option.bind (jget v ''id'') as_str of Some i \<Rightarrow> im_insert i v m | None \<Rightarrow> m"
  have "map_of (fold ?f (map (\<lambda>e. JObj (entry_to_output e)) es) acc) i =
      (case find (\<lambda>e. service_id e = i) es of Some e \<Rightarrow> Some (JObj (entry_to_output e)) | None \<Rightarrow> map_of acc i)"
    if "distinct (map service_id es)" for acc i and es
    using that
  proof (induction es arbitrary: acc)
    case (Cons e es)
    have "find (\<lambda>e. service_id e = i) es = None" if "i = service_id e"
      using Cons.prems that by (auto simp: find_None_iff image_iff)
    with Cons show ?case by (auto simp: output_id split: option.split)
  qed simp
  moreover have "find (\<lambda>x. service_id x = service_id e) es = Some e"
    using assms by (induction es) auto
  ultimately show ?thesis using assms(1) by (simp add: wrapped_by_id_def)
qed

lemma keyed_ids: "keyed m \<Longrightarrow> map (service_id \<circ> snd) m = map fst m"
  by (auto simp: keyed_def)

lemma distinct_entries: "entries_inv s \<Longrightarrow> distinct (map service_id (list_entries s ds))"
proof (cases "map_of (rs_entries s) ds")
  case (Some m)
  assume "entries_inv s"
  with Some have m: "keyed m" by (simp add: entries_inv_def)
  then have "distinct (map (service_id \<circ> snd) m)" unfolding keyed_ids [OF m] by (simp add: keyed_def)
  with Some show ?thesis by (simp add: list_entries_def)
qed (simp add: list_entries_def)

text \<open>The entries a reservation may claim: not leased, healthy, and matching the filters.\<close>

definition reservable :: "RegEnv \<Rightarrow> RegistryService \<Rightarrow> ReserveRequest \<Rightarrow> real \<Rightarrow> RegistryEntry \<Rightarrow> bool" where
  "reservable env s rq now e \<longleftrightarrow>
     live_lease now s (rq_dataset rq) (service_id e) = None \<and>
     \<not> is_unhealthy s (rq_dataset rq) (service_id e) \<and> entry_matches_filters env e (rq_filters rq)"

definition reserved_entries :: "RegEnv \<Rightarrow> RegistryService \<Rightarrow> ReserveRequest \<Rightarrow> real \<Rightarrow> RegistryEntry list" where
  "reserved_entries env s rq now =
     take (nat (rq_n rq))
       (filter (reservable env s rq now) (sort_key service_id (list_entries s (rq_dataset rq))))"

lemma set_candidates: "set (reserve_candidates s ds) = set (list_entries s ds)"
  by (simp add: reserve_candidates_def)

lemma claimed_exact:
  assumes "entries_inv s" "leases_wf s" "exact (rq_dataset rq) s"
  shows "claim_loop env (rq_dataset rq) (rq_filters rq) (rq_n rq)
      (map service_id (filter (\<lambda>e. is_unhealthy s (rq_dataset rq) (service_id e)) (reserve_candidates s (rq_dataset rq))))
      (wrapped_by_id (list_services s (rq_dataset rq))) (rs_leases (sweep_expired_leases now s))
      (reserve_candidates s (rq_dataset rq)) [] =
    map (\<lambda>e. JObj (entry_to_output e)) (reserved_entries env s rq now)"
proof -
  let ?ds = "rq_dataset rq" and ?cs = "reserve_candidates s (rq_dataset rq)"
  let ?un = "map service_id (filter (\<lambda>e. is_unhealthy s ?ds (service_id e)) ?cs)"
  let ?wr = "wrapped_by_id (list_services s ?ds)"
  have wr: "map_of ?wr (service_id e) = Some (JObj (entry_to_output e))" if "e \<in> set ?cs" for e
    using assms(3) wrapped_by_id_output [OF distinct_entries [OF assms(1)], of e ?ds] that
    by (simp add: exact_def output_of_def set_candidates)
  have un: "service_id e \<in> set ?un \<longleftrightarrow> is_unhealthy s ?ds (service_id e)" if "e \<in> set ?cs" for e
    using that by (auto intro!: image_eqI)
  have "filter (available env ?ds (rq_filters rq) ?un ?wr (rs_leases (sweep_expired_leases now s))) ?cs =
      filter (reservable env s rq now) ?cs"
    by (rule filter_cong [OF refl])
       (use un wr in \<open>auto simp: available_def reservable_def sweep_leases [OF assms(2)]\<close>)
  moreover have "map (\<lambda>e. the (map_of ?wr (service_id e))) (filter (reservable env s rq now) ?cs) =
      map (\<lambda>e. JObj (entry_to_output e)) (filter (reservable env s rq now) ?cs)"
    using wr by (auto intro!: map_cong)
  ultimately have "take (nat (rq_n rq)) (map (\<lambda>e. the (map_of ?wr (service_id e)))
      (filter (available env ?ds (rq_filters rq) ?un ?wr (rs_leases (sweep_expired_leases now s))) ?cs)) =
    take (nat (rq_n rq)) (map (\<lambda>e. JObj (entry_to_output e)) (filter (reservable env s rq now) ?cs))"
    by (simp only:)
  also have "\<dots> = map (\<lambda>e. JObj (entry_to_output e)) (reserved_entries env s rq now)"
    by (simp add: reserved_entries_def reserve_candidates_def take_map)
  finally show ?thesis by (simp add: claim_loop_eq)
qed

lemma claimed_id_output [simp]: "claimed_id (JObj (entry_to_output e)) = service_id e"
  by (simp add: claimed_id_def)

text \<open>
  C10. A reservation is exact: in any state reached by settled operations it claims, in the order of
  their identifiers, the first \<open>n\<close> services of the dataset that are not leased, not unhealthy and
  match the filters (all of them when there are fewer); these and only these get a lease of the
  holder until the given time, and every other live lease stays as it was.
\<close>

theorem reserve_exact:
  assumes "all_settled env fetch evs (RegistryService_new dir g fs)"
    and "s = reg_run env fetch evs (RegistryService_new dir g fs)"
    and "reserve_services_at env rq caller uuid now wall s = (Inr (holder, expires, claimed), s')"
  shows "claimed = map (\<lambda>e. JObj (entry_to_output e)) (reserved_entries env s rq now) \<and>
    int (length claimed) \<le> rq_n rq \<and>
    (\<forall>ds sid. map_of (rs_leases s') (ds, sid) =
      (if ds = rq_dataset rq \<and> sid \<in> service_id ` set (reserved_entries env s rq now)
       then Some \<lparr> rl_holder_id = holder, rl_expires_at = now + of_int (rq_ttl_seconds rq) \<rparr>
       else live_lease now s ds sid))"
proof -
  have inv: "entries_inv s" "leases_wf s" "exact (rq_dataset rq) s"
    using reg_run_entries_inv [OF new_invs(1)] reg_run_leases_wf [OF new_invs(2)] reg_run_exact [OF assms(1) new_exact]
    by (simp_all add: assms(2))
  have n: "0 \<le> rq_n rq" using assms(3) by (auto simp: reserve_services_at_def split: if_splits)
  have c: "claimed = map (\<lambda>e. JObj (entry_to_output e)) (reserved_entries env s rq now)"
    using assms(3) claimed_exact [OF inv, of env now]
    by (auto simp: reserve_services_at_def reserve_claim_def Let_def check_ttl_def split: if_splits)
  have "rs_leases s' = fold (\<lambda>w. im_insert (rq_dataset rq, claimed_id w)
      \<lparr> rl_holder_id = holder, rl_expires_at = now + of_int (rq_ttl_seconds rq) \<rparr>) claimed
        (rs_leases (sweep_expired_leases now s))"
    using assms(3)
    by (auto simp: reserve_services_at_def reserve_claim_def Let_def check_ttl_def split: if_splits)
  then have "map_of (rs_leases s') (ds, sid) =
      (if ds = rq_dataset rq \<and> sid \<in> service_id ` set (reserved_entries env s rq now)
       then Some \<lparr> rl_holder_id = holder, rl_expires_at = now + of_int (rq_ttl_seconds rq) \<rparr>
       else live_lease now s ds sid)" for ds sid
    by (auto simp: map_of_insert_leases c sweep_leases [OF inv(2)] image_image)
  with c n show ?thesis by (auto simp: reserved_entries_def)
qed

subsection \<open>Exclusive reservations\<close>

definition holds :: "string \<Rightarrow> string \<Rightarrow> string \<Rightarrow> real \<Rightarrow> RegistryService \<Rightarrow> bool" where
  "holds ds sid h until s \<longleftrightarrow>
     leases_wf s \<and> map_of (rs_leases s) (ds, sid) = Some \<lparr> rl_holder_id = h, rl_expires_at = until \<rparr>"

text \<open>The events that may end or change a lease of \<open>h\<close> before it expires, and the clock of an event.\<close>

fun ends_reservation :: "string \<Rightarrow> string \<Rightarrow> string \<Rightarrow> reg_event \<Rightarrow> bool" where
  "ends_reservation ds sid h (EvRelease _ ds' h' _ _) = (ds' = ds \<and> h' = h)"
| "ends_reservation ds sid h (EvReleaseSid _ ds' sid' _) = (ds' = ds \<and> sid' = sid)"
| "ends_reservation ds sid h (EvExtend ds' h' _ _ _ _) = (ds' = ds \<and> h' = h)"
| "ends_reservation ds sid h (EvDeleteDataset ds') = (ds' = ds)"
| "ends_reservation ds sid h _ = False"

fun event_time :: "reg_event \<Rightarrow> real option" where
  "event_time (EvReserve _ _ _ t _) = Some t"
| "event_time (EvRelease t _ _ _ _) = Some t"
| "event_time (EvReleaseSid t _ _ _) = Some t"
| "event_time (EvExtend _ _ _ _ t _) = Some t"
| "event_time (EvIsLeased t _ _) = Some t"
| "event_time _ = None"

lemma holds_sweep: "holds ds sid h until s \<Longrightarrow> now < until \<Longrightarrow> holds ds sid h until (sweep_expired_leases now s)"
  by (simp add: holds_def sweep_leases sweep_wf live_lease_def)

lemma claim_excludes:
  assumes "holds ds sid h until s" "now < until" "reserve_claim env rq h' now cs un s = (claimed, s')" "rq_dataset rq = ds"
  shows "sid \<notin> claimed_id ` set claimed"
proof
  assume "sid \<in> claimed_id ` set claimed"
  then obtain w where w: "w \<in> set claimed" "claimed_id w = sid" by auto
  let ?t = "sweep_expired_leases now s"
  from assms(3,4) w(1) obtain e where "available env ds (rq_filters rq) un (wrapped_by_id (list_services s ds)) (rs_leases ?t) e"
    "w = the (map_of (wrapped_by_id (list_services s ds)) (service_id e))"
    by (auto simp: reserve_claim_def Let_def claim_loop_eq dest!: in_set_takeD)
  then have "map_of (rs_leases ?t) (ds, claimed_id w) = None"
    using wrapped_by_id_get [of "list_services s ds" "service_id e"] by (auto simp: available_def)
  with holds_sweep [OF assms(1,2)] w show False by (simp add: holds_def)
qed

lemma holds_claim:
  assumes "holds ds sid h until s" "now < until"
  shows "holds ds sid h until (snd (reserve_claim env rq h' now cs un s))"
proof -
  obtain claimed s' where r: "reserve_claim env rq h' now cs un s = (claimed, s')"
    by (cases "reserve_claim env rq h' now cs un s")
  have L: "rs_leases s' = fold (\<lambda>w. im_insert (rq_dataset rq, claimed_id w)
      \<lparr> rl_holder_id = h', rl_expires_at = now + of_int (rq_ttl_seconds rq) \<rparr>) claimed (rs_leases (sweep_expired_leases now s))"
    using r by (auto simp: reserve_claim_def Let_def)
  have "(ds, sid) \<notin> (\<lambda>w. (rq_dataset rq, claimed_id w)) ` set claimed"
    using claim_excludes [OF assms r] by auto
  with L holds_sweep [OF assms] show ?thesis
    by (auto simp: r holds_def leases_wf_def map_of_insert_leases intro!: wf_insert_leases)
qed

lemma holds_cong: "rs_leases s' = rs_leases s \<Longrightarrow> holds ds sid h until s' = holds ds sid h until s"
  by (simp add: holds_def leases_wf_def)

lemma holds_release_ids:
  assumes "holds ds sid h until s" "\<not> (ds' = ds \<and> h' = h)"
  shows "holds ds sid h until (snd (release_ids ds' h' ids acc s))"
  using assms
proof (induction ids arbitrary: acc s)
  case (Cons i ids)
  have "holds ds sid h until (s\<lparr> rs_leases := im_remove (ds', i) (rs_leases s) \<rparr>)"
    if "map_of (rs_leases s) (ds', i) = Some l" "rl_holder_id l = h'" for l
    using Cons.prems that by (auto simp: holds_def leases_wf_def)
  with Cons show ?case by (auto split: option.split)
qed simp

lemma holds_release:
  assumes "holds ds sid h until s" "t < until" "\<not> (ds' = ds \<and> h' = h)"
  shows "holds ds sid h until (snd (release_reservation t ds' h' ids c s))"
proof -
  let ?s = "sweep_expired_leases t s"
  have s: "holds ds sid h until ?s" by (rule holds_sweep [OF assms(1,2)])
  have "(ds, sid) \<notin> set (map fst (filter (\<lambda>((d, _), l). d = ds' \<and> rl_holder_id l = h') (rs_leases ?s)))"
    using s assms(3) by (auto simp: holds_def leases_wf_def)
  then have "holds ds sid h until (?s\<lparr> rs_leases := fold im_remove
      (map fst (filter (\<lambda>((d, _), l). d = ds' \<and> rl_holder_id l = h') (rs_leases ?s))) (rs_leases ?s) \<rparr>)"
    using s unfolding holds_def leases_wf_def by (simp add: map_of_fold_remove im_wf_fold_remove del: set_map)
  with assms(1) holds_release_ids [OF s assms(3)] show ?thesis
    by (auto simp: release_reservation_def Let_def split: option.split)
qed

lemma holds_release_sid:
  assumes "holds ds sid h until s" "t < until" "\<not> (ds' = ds \<and> sid' = sid)"
  shows "holds ds sid h until (snd (release_lease_by_sid t ds' sid' c s))"
proof -
  have s: "holds ds sid h until (sweep_expired_leases t s)" by (rule holds_sweep [OF assms(1,2)])
  then have "holds ds sid h until ((sweep_expired_leases t s)\<lparr> rs_leases := im_remove (ds', sid') (rs_leases (sweep_expired_leases t s)) \<rparr>)"
    using assms(3) by (auto simp: holds_def leases_wf_def)
  with s assms(1) show ?thesis
    by (auto simp: release_lease_by_sid_def rthen_def split: option.split sum.split)
qed

lemma holds_extend:
  assumes "holds ds sid h until s" "t < until" "\<not> (ds' = ds \<and> h' = h)"
  shows "holds ds sid h until (snd (extend_reservation_at ds' h' ttl c t w s))"
proof -
  let ?s = "sweep_expired_leases t s"
  let ?g = "\<lambda>(k, l). (k, if (case k of (d, _) \<Rightarrow> \<lambda>l. d = ds' \<and> rl_holder_id l = h') l
     then l\<lparr> rl_expires_at := t + real_of_int ttl \<rparr> else l)"
  have s: "holds ds sid h until ?s" by (rule holds_sweep [OF assms(1,2)])
  have g: "map_of (map ?g L) k = map_option (\<lambda>l. snd (?g (k, l))) (map_of L k)" for L k
    by (induction L) (auto simp: case_prod_beta)
  have l: "map_of (rs_leases ?s) (ds, sid) = Some \<lparr> rl_holder_id = h, rl_expires_at = until \<rparr>" "leases_wf ?s"
    using s by (simp_all add: holds_def)
  have "map_of (map ?g (rs_leases ?s)) (ds, sid) = Some \<lparr> rl_holder_id = h, rl_expires_at = until \<rparr>"
    unfolding g l(1) using assms(3) by auto
  moreover have "im_wf (map ?g (rs_leases ?s))" using l(2) by (simp add: leases_wf_def comp_def case_prod_beta)
  ultimately have "holds ds sid h until (?s\<lparr> rs_leases := map ?g (rs_leases ?s) \<rparr>)"
    unfolding holds_def leases_wf_def by simp
  with s assms(1) show ?thesis
    by (auto simp: extend_reservation_at_def rthen_def check_ttl_def Let_def)
qed

lemma holds_delete:
  assumes "holds ds sid h until s" "ds' \<noteq> ds"
  shows "holds ds sid h until (snd (delete_dataset ds' s))"
  using assms
  by (auto simp: delete_dataset_def Let_def run_fs_def holds_def leases_wf_def im_get_retain split: prod.split option.split)

lemma holds_step:
  assumes "holds ds sid h until s" "\<not> ends_reservation ds sid h ev" "\<And>t. event_time ev = Some t \<Longrightarrow> t < until"
  shows "holds ds sid h until (snd (reg_exec env fetch ev s))"
proof (cases "entry_event ev \<or> ev = EvStartup \<or> event_time ev = None \<and> (\<forall>d. ev \<noteq> EvDeleteDataset d)")
  case True
  have fr: "keeps rs_leases (create_dataset ds mo f a)" "keeps rs_leases (set_auth_config ds b)"
    "keeps rs_leases (set_lease_config ds b lo hi g)" "keeps rs_leases (set_vector_config ds mo d)"
    "keeps rs_leases (set_register_config ds v)" "rs_leases (snd (is_auth_required env ds s)) = rs_leases s"
    "rs_leases (snd (get_lease_config env ds s)) = rs_leases s"
    "rs_leases (snd (check_taxonomy_state env ds s)) = rs_leases s" for ds mo f a b lo hi g d v s
    by (simp_all add: keeps_create keeps_caches keeps_config(2) keeps_check_taxonomy)
  have "keeps rs_leases (reg_exec env fetch ev)"
  proof (cases "entry_event ev")
    case True
    then show ?thesis by (rule reg_exec_keeps_entry) (rule entry_frame_leases)
  next
    case False
    with \<open>entry_event ev \<or> ev = EvStartup \<or> event_time ev = None \<and> (\<forall>d. ev \<noteq> EvDeleteDataset d)\<close> fr startup_leases
    show ?thesis by (cases ev) (auto simp: keeps_setters intro!: rvoid_keeps rstate_keeps)
  qed
  from keepsD [OF this] show ?thesis using assms(1) holds_cong by blast
next
  case False
  have reserve: "holds ds sid h until (snd (reserve_services_at env rq c u t w s))" if "t < until" for rq c u t w
    using holds_claim [OF assms(1) that] assms(1)
    by (auto simp: reserve_services_at_def check_ttl_def Let_def case_prod_beta)
  have leased: "holds ds sid h until (snd (is_leased t d i s))" if "t < until" for t d i
    using holds_sweep [OF assms(1) that] by (simp add: is_leased_def Let_def)
  from False assms(2,3) reserve leased holds_release [OF assms(1)] holds_release_sid [OF assms(1)]
    holds_extend [OF assms(1)] holds_delete [OF assms(1)]
  show ?thesis by (cases ev) (auto simp: rstate_def)
qed

lemma holds_run:
  assumes "holds ds sid h until s"
    and "\<And>ev. ev \<in> set evs \<Longrightarrow> \<not> ends_reservation ds sid h ev \<and> (\<forall>t. event_time ev = Some t \<longrightarrow> t < until)"
  shows "holds ds sid h until (reg_run env fetch evs s)"
  using assms
proof (induction evs arbitrary: s)
  case (Cons ev evs)
  then have "holds ds sid h until (snd (reg_exec env fetch ev s))" by (intro holds_step) auto
  then have "holds ds sid h until (reg_run env fetch evs (snd (reg_exec env fetch ev s)))"
    using Cons.prems(2) [OF list.set_intros(2)] by (rule Cons.IH)
  then show ?case by (simp add: reg_run_def)
qed (simp add: reg_run_def)

text \<open>
  C9. A reservation is exclusive: a service claimed at time \<open>now\<close> for \<open>ttl\<close> seconds is claimed by no
  other reservation of its dataset before \<open>now + ttl\<close>, whatever operations run in between, as long as
  the lease is not released, extended or dropped with its dataset.
\<close>

theorem reservation_exclusive:
  assumes "s = reg_run env fetch before (RegistryService_new dir g fs)"
    and "reserve_services_at env rq caller uuid now wall s = (Inr (h, expires, claimed), s1)" "w \<in> set claimed"
    and "\<And>ev. ev \<in> set evs \<Longrightarrow> \<not> ends_reservation (rq_dataset rq) (claimed_id w) h ev \<and>
        (\<forall>t. event_time ev = Some t \<longrightarrow> t < now + of_int (rq_ttl_seconds rq))"
    and "reserve_services_at env rq' caller' uuid' now' wall' (reg_run env fetch evs s1) = (Inr (h', expires', claimed'), s2)"
    and "rq_dataset rq' = rq_dataset rq" "now' < now + of_int (rq_ttl_seconds rq)"
  shows "claimed_id w \<notin> claimed_id ` set claimed'"
proof -
  let ?until = "now + of_int (rq_ttl_seconds rq)"
  have "leases_wf s" unfolding assms(1) by (rule reg_run_leases_wf [OF new_invs(2)])
  then have "leases_wf s1"
    using reserve_wf [of env rq caller uuid now wall] assms(2) unfolding pres_def by (metis snd_conv)
  moreover have "map_of (rs_leases s1) (rq_dataset rq, claimed_id w) = Some \<lparr> rl_holder_id = h, rl_expires_at = ?until \<rparr>"
    using assms(2,3)
    by (auto simp: reserve_services_at_def reserve_claim_def Let_def check_ttl_def map_of_insert_leases split: if_splits)
  ultimately have "holds (rq_dataset rq) (claimed_id w) h ?until s1" by (simp add: holds_def)
  then have h: "holds (rq_dataset rq) (claimed_id w) h ?until (reg_run env fetch evs s1)"
    using assms(4) by (rule holds_run)
  from assms(5) obtain h2 cs un where "reserve_claim env rq' h2 now' cs un (reg_run env fetch evs s1) = (claimed', s2)"
    by (auto simp: reserve_services_at_def Let_def check_ttl_def split: if_splits prod.splits)
  from claim_excludes [OF h assms(7) this assms(6)] show ?thesis .
qed

subsection \<open>A concrete reservation\<close>

definition reg_demo :: RegistryService where
  "reg_demo = reg_run reg_env no_fetch reg_demo_events reg_new"

lemma reg_demo_entries:
  "list_entries reg_demo ''d'' = [generic_entry reg_env (reg_request ''s'' ''n'' True) None]"
  "unhealthy_check reg_demo = None" "rs_leases reg_demo = []"
proof -
  have 1: "reg_exec reg_env no_fetch EvStartup reg_new = (Inr (), reg_new)"
    by (simp add: rvoid_def rthen_def reg_demo_startup)
  have 2: "reg_demo = snd (register_generic reg_env (reg_request ''s'' ''n'' True) None reg_new)"
    unfolding reg_demo_def reg_demo_events_def reg_run_def by (simp add: 1 reg_exec.simps del: reg_exec.simps(24))
  show   "list_entries reg_demo ''d'' = [generic_entry reg_env (reg_request ''s'' ''n'' True) None]"
  "unhealthy_check reg_demo = None" "rs_leases reg_demo = []"
  unfolding 2
   by (simp_all add: reg_eval list_entries_def mark_taxonomy_stale_def emit_mutation_def cong: rop_congs)
qed

lemma reg_demo_inv: "entries_inv reg_demo" "leases_wf reg_demo" "exact ds reg_demo"
  unfolding reg_demo_def reg_new_def
  using reg_run_entries_inv [OF new_invs(1)] reg_run_leases_wf [OF new_invs(2)]
    reg_run_exact [OF reg_demo_settled [unfolded reg_new_def] new_exact] by simp_all

definition reg_reserve :: "string \<Rightarrow> ReserveRequest" where
  "reg_reserve h = \<lparr> rq_dataset = ''d'', rq_filters = [], rq_n = 1, rq_ttl_seconds = 30, rq_holder_id = Some h \<rparr>"

lemma reg_reserve_returns:
  obtains claimed s' where
    "reserve_services_at reg_env (reg_reserve h) None [] t w s = (Inr (h, w + 30, claimed), s')"
proof -
  obtain claimed s' where "reserve_claim reg_env (reg_reserve h) h t (reserve_candidates s ''d'')
     (map service_id (filter (\<lambda>e. is_unhealthy s ''d'' (service_id e)) (reserve_candidates s ''d''))) s = (claimed, s')"
    by fastforce
  then show thesis
    by (intro that) (simp add: reserve_services_at_def reg_reserve_def check_ttl_def reserve_holder_def Let_def)
qed

lemma reg_demo_reserved:
  "map service_id (reserved_entries reg_env reg_demo (reg_reserve h) t) = [''s'']"
  using reg_demo_entries
  by (simp add: reserved_entries_def reg_reserve_def reservable_def live_lease_def is_unhealthy_def
      entry_matches_filters_def filter_matches_def entry_filter_dict_def generic_entry_def reg_request_def non_empty_def)

theorem reserve_exact_witness:
  "\<exists>claimed s'. reserve_services_at reg_env (reg_reserve ''h'') None [] 0 0 reg_demo = (Inr (''h'', 30, claimed), s') \<and>
     length claimed = 1 \<and>
     map_of (rs_leases s') (''d'', ''s'') = Some \<lparr> rl_holder_id = ''h'', rl_expires_at = 30 \<rparr>"
proof -
  obtain claimed s' where r: "reserve_services_at reg_env (reg_reserve ''h'') None [] 0 0 reg_demo =
      (Inr (''h'', 0 + 30, claimed), s')" by (rule reg_reserve_returns)
  have ids: "map service_id (reserved_entries reg_env reg_demo (reg_reserve ''h'') 0) = [''s'']"
    by (rule reg_demo_reserved)
  then have "length (reserved_entries reg_env reg_demo (reg_reserve ''h'') 0) = 1"
    "''s'' \<in> service_id ` set (reserved_entries reg_env reg_demo (reg_reserve ''h'') 0)"
    by (metis One_nat_def length_map list.size(3,4) add.right_neutral add_Suc_right, metis list.set_intros(1) set_map)
  with reserve_exact [OF reg_demo_settled [unfolded reg_new_def] reg_demo_def [unfolded reg_new_def] r] r
  show ?thesis by (auto simp: reg_reserve_def)
qed

theorem reservation_exclusive_witness:
  "\<exists>claimed s1 claimed' s2.
     reserve_services_at reg_env (reg_reserve ''h'') None [] 0 0 reg_demo = (Inr (''h'', 0 + 30, claimed), s1) \<and>
     ''s'' \<in> claimed_id ` set claimed \<and>
     reserve_services_at reg_env (reg_reserve ''k'') None [] 20 20
       (reg_run reg_env no_fetch [EvIsLeased 10 ''d'' ''s''] s1) = (Inr (''k'', 20 + 30, claimed'), s2) \<and>
     ''s'' \<notin> claimed_id ` set claimed'"
proof -
  obtain claimed s1 where 1: "reserve_services_at reg_env (reg_reserve ''h'') None [] 0 0 reg_demo =
      (Inr (''h'', 0 + 30, claimed), s1)" by (rule reg_reserve_returns)
  obtain claimed' s2 where 2: "reserve_services_at reg_env (reg_reserve ''k'') None [] 20 20
       (reg_run reg_env no_fetch [EvIsLeased 10 ''d'' ''s''] s1) = (Inr (''k'', 20 + 30, claimed'), s2)"
    by (rule reg_reserve_returns)
  have "claimed = map (\<lambda>e. JObj (entry_to_output e)) (reserved_entries reg_env reg_demo (reg_reserve ''h'') 0)"
    using 1 claimed_exact [of reg_demo "reg_reserve ''h''" reg_env 0] reg_demo_inv
    by (auto simp: reserve_services_at_def reserve_claim_def Let_def check_ttl_def split: if_splits)
  then have "map claimed_id claimed = [''s'']" using reg_demo_reserved [of "''h''" 0] by (simp add: comp_def)
  then obtain w where w: "w \<in> set claimed" "claimed_id w = ''s''" by (metis list.set_intros(1) set_map imageE)
  from reservation_exclusive [OF reg_demo_def [unfolded reg_new_def] 1 w(1) _ 2] w
  have 3: "''s'' \<notin> claimed_id ` set claimed'" by (simp add: reg_reserve_def)
  have "''s'' \<in> claimed_id ` set claimed" using w by force
  with 1 2 3 show ?thesis by (intro exI conjI)
qed

end
