(* ===== verification/RegistryDurable.thy ===== *)
theory RegistryDurable
  imports ReservationLaws
begin

text \<open>
  What the registry writes to disk. Every store in the table of stores keeps the directory of its
  dataset (\<open>stores_inv\<close>), an invariant of every operation; from it, a registration that returns leaves its entry
  in \<open>api_config.json\<close> in a form that reads back as the same entry.
\<close>

subsection \<open>The table of stores\<close>

subsection \<open>A store writes into the directory of its dataset\<close>

definition stores_inv :: "RegistryService \<Rightarrow> bool" where
  "stores_inv s \<longleftrightarrow> (\<forall>ds st. map_of (stores s) ds = Some st \<longrightarrow> st_dir st = dataset_dir s ds)"

definition same_dir :: "(store_state, 'a) rop \<Rightarrow> bool" where
  "same_dir m \<longleftrightarrow> keeps (\<lambda>(st, fs). st_dir st) m"

lemma same_dir_on_fs: "same_dir (on_fs m)"
  by (auto simp: same_dir_def keeps_def on_fs_def split: prod.split)

lemma same_dir_store_ops:
  "same_dir (save_api_entry e)" "same_dir (remove_api_entry sid)" "same_dir (save_api_batch es)"
  "same_dir (write_service_json vs)" "same_dir (write_register_config c)" "same_dir (write_vector_config md d)"
  "same_dir (write_auth_config b)" "same_dir (write_lease_config b lo hi g)" "same_dir (load_api_config env)"
  "same_dir (save_skill_zip env z)" "same_dir (remove_skill nm)" "same_dir (rename_skill a b')"
  "same_dir (update_skill_md env nm u)"
proof -
  have flush: "keeps (\<lambda>(st, fs). st_dir st) flush_api_config"
    using same_dir_on_fs unfolding flush_api_config_def same_dir_def .
  have on: "keeps (\<lambda>(st, fs). st_dir st) (on_fs m)" for m :: "RegistryStore \<Rightarrow> (Fs, 'z) rop"
    using same_dir_on_fs unfolding same_dir_def .
  show "same_dir (save_api_entry e)" "same_dir (remove_api_entry sid)" "same_dir (save_api_batch es)"
    unfolding same_dir_def save_api_entry_def remove_api_entry_def save_api_batch_def
    by (intro keeps_intros flush; auto)+
  show "same_dir (write_service_json vs)" "same_dir (write_register_config c)" "same_dir (write_vector_config md d)"
    "same_dir (write_auth_config b)" "same_dir (write_lease_config b lo hi g)" "same_dir (remove_skill nm)"
    "same_dir (rename_skill a b')" "same_dir (update_skill_md env nm u)"
    unfolding write_service_json_def write_register_config_def write_vector_config_def write_auth_config_def
      write_lease_config_def remove_skill_def rename_skill_def update_skill_md_def Let_def same_dir_def
    by (intro keeps_intros on)+
  show "same_dir (load_api_config env)"
    by (auto simp: same_dir_def load_api_config_def keeps_def Let_def)
  show "same_dir (save_skill_zip env z)"
    unfolding save_skill_zip_def Let_def same_dir_def by (intro keeps_intros on)
qed

lemma stores_inv_keeps: "keeps stores m \<Longrightarrow> keeps database_dir m \<Longrightarrow> pres stores_inv m"
  by (auto simp: pres_def keeps_def stores_inv_def dataset_dir_def)

lemma run_fs_stores: "pres stores_inv (run_fs m)"
  by (rule stores_inv_keeps) (auto simp: keeps_def run_fs_def split: prod.split)

lemma stores_inv_cong:
  "stores s' = stores s \<Longrightarrow> database_dir s' = database_dir s \<Longrightarrow> stores_inv s \<Longrightarrow> stores_inv s'"
  by (simp add: stores_inv_def dataset_dir_def)

lemma get_store_dir:
  assumes "get_store ds s = (Inr st, s')" "stores_inv s"
  shows "st_dir st = dataset_dir s ds" "map_of (stores s') ds = Some st" "database_dir s' = database_dir s"
  using assms
  by (auto simp: get_store_def run_fs_def RegistryStore_new_def rthen_Inr stores_inv_def dataset_dir_def
      split: option.splits prod.splits)

lemma get_store_stores: "pres stores_inv (get_store ds)"
proof -
  have "stores_inv (snd (get_store ds s))" if inv: "stores_inv s" for s
  proof (cases "map_of (stores s) ds")
    case None
    obtain r fs where r: "RegistryStore_new (dataset_dir s ds) (rs_fs s) = (r, fs)"
      by (cases "RegistryStore_new (dataset_dir s ds) (rs_fs s)")
    have "st_dir st = dataset_dir s ds" if "r = Inr st" for st
      using r that by (auto simp: RegistryStore_new_def rthen_Inr)
    with None r inv show ?thesis
      by (cases r) (auto simp: get_store_def run_fs_def rthen_def stores_inv_def dataset_dir_def)
  qed (use inv in \<open>simp add: get_store_def\<close>)
  then show ?thesis by (simp add: pres_def)
qed

lemma with_store_stores:
  assumes "same_dir m"
  shows "pres stores_inv (with_store ds m)"
proof -
  have "stores_inv (snd (with_store ds m s))" if inv: "stores_inv s" for s
  proof (cases "get_store ds s")
    case (Pair r s1)
    have s1: "stores_inv s1" using get_store_stores inv Pair unfolding pres_def by (metis snd_conv)
    show ?thesis
    proof (cases r)
      case (Inr st)
      note d = get_store_dir [OF Pair [unfolded Inr] inv]
      obtain r' st' fs' where m: "m (st, rs_fs s1) = (r', (st', fs'))" by (cases "m (st, rs_fs s1)") auto
      have "st_dir st' = st_dir st" using assms m unfolding same_dir_def keeps_def by (metis prod.case snd_conv)
      with d s1 Pair Inr m show ?thesis
        by (auto simp: with_store_def rthen_def stores_inv_def dataset_dir_def)
    qed (use Pair s1 in \<open>simp add: with_store_def rthen_def\<close>)
  qed
  then show ?thesis by (simp add: pres_def)
qed

lemmas stores_rules = run_fs_stores get_store_stores with_store_stores same_dir_store_ops

lemma regenerate_stores: "pres stores_inv (regenerate_output ds)"
  unfolding regenerate_output_def Let_def
  by (intro pres_intros stores_rules; erule stores_inv_cong [rotated 2]; simp)

lemma pres_sum [pres_intros]:
  "(\<And>x. pres P (f x)) \<Longrightarrow> (\<And>x. pres P (g x)) \<Longrightarrow> pres P (case v of Inl x \<Rightarrow> f x | Inr x \<Rightarrow> g x)"
  by (cases v) simp_all

lemma pres_type [pres_intros]:
  "pres P a \<Longrightarrow> pres P b \<Longrightarrow> pres P c \<Longrightarrow> pres P (case t of Generic \<Rightarrow> a | A2a \<Rightarrow> b | Skill \<Rightarrow> c)"
  by (cases t) simp_all

lemma stores_unrelated [simp]:
  "stores (mark_taxonomy_stale ds s) = stores s" "database_dir (mark_taxonomy_stale ds s) = database_dir s"
  "stores (emit_mutation ds i op e s) = stores s" "database_dir (emit_mutation ds i op e s) = database_dir s"
  "stores (set_entries ds m s) = stores s" "database_dir (set_entries ds m s) = database_dir s"
  "stores (put_entry ds e' s) = stores s" "database_dir (put_entry ds e' s) = database_dir s"
  "stores (drop_entry ds i s) = stores s" "database_dir (drop_entry ds i s) = database_dir s"
  "stores (sweep_expired_leases t s) = stores s" "database_dir (sweep_expired_leases t s) = database_dir s"
  by (simp_all add: mark_taxonomy_stale_def set_taxonomy_def emit_mutation_def set_entries_def put_entry_def
      drop_entry_def sweep_expired_leases_def)

lemma config_stores:
  "pres stores_inv (get_register_config env ds)" "pres stores_inv (set_register_config ds v)"
  "pres stores_inv (set_vector_config ds m d)" "pres stores_inv (set_auth_config ds b)"
  "pres stores_inv (set_lease_config ds b lo hi g)"
  unfolding get_register_config_def set_register_config_def set_vector_config_def set_auth_config_def
    set_lease_config_def Let_def
  by (intro pres_intros stores_rules; erule stores_inv_cong [rotated 2]; simp)+

lemma valid_stores:
  "pres stores_inv (require_type_allowed env ds t)" "pres stores_inv (require_valid env ds t v)"
  "pres stores_inv (validate_entry env ds e b)"
  unfolding require_type_allowed_def require_valid_def validate_entry_def Let_def
  by (intro pres_intros config_stores)+

lemma init_stores: "pres stores_inv (init_dataset_files ds m f a)"
  unfolding init_dataset_files_def Let_def
  by (intro pres_intros stores_rules config_stores; erule stores_inv_cong [rotated 2]; simp)

lemma ensure_stores: "pres stores_inv (ensure_dataset_initialized ds)" "pres stores_inv (create_dataset ds m f a)"
  unfolding ensure_dataset_initialized_def create_dataset_def by (intro pres_intros init_stores)+

lemma finish_stores:
  "pres stores_inv (finish_put ds sid b e)" "pres stores_inv (finish_remove ds sid)" "pres stores_inv (save_if b ds e')"
  unfolding finish_put_def finish_remove_def save_if_def
  by (intro pres_intros stores_rules regenerate_stores; erule stores_inv_cong [rotated 2]; simp)+

lemma entry_ops_stores:
  "pres stores_inv (do_register ds e p)"
  "pres stores_inv (register_batch es ds p)" "pres stores_inv (register_skill env ds z c)"
  "pres stores_inv (deregister_skill env ds nm c)" "pres stores_inv (deregister ds sid c)"
  "pres stores_inv (apply_skill_updates env ds e u)"
  unfolding do_register_def register_batch_def register_skill_def deregister_skill_def deregister_def
    apply_skill_updates_def Let_def
  by (intro pres_intros stores_rules config_stores valid_stores ensure_stores finish_stores regenerate_stores;
      erule stores_inv_cong [rotated 2]; simp)+

lemma entry_ops_stores2:
  "pres stores_inv (register_generic env req c)" "pres stores_inv (register_a2a env fetch req' c)"
  "pres stores_inv (update_service env ds sid u c)"
  unfolding register_generic_def register_a2a_def register_a2a_resolved_def update_service_def Let_def
  by (intro pres_intros stores_rules valid_stores entry_ops_stores finish_stores regenerate_stores;
      erule stores_inv_cong [rotated 2]; simp)+

lemma startup_stores: "pres stores_inv (startup env fetch)"
proof -
  have merge: "pres stores_inv (merge_configs env ds es acc)" for ds es acc
    by (induction es arbitrary: acc) (simp_all only: merge_configs.simps, (intro pres_intros valid_stores; assumption?)+)
  have skills: "pres stores_inv (merge_skills env ds es m)" for ds es m
    by (induction es arbitrary: m) (simp_all only: merge_skills.simps, (intro pres_intros valid_stores; assumption?)+)
  have load: "pres stores_inv (load_datasets env dss)" for dss
    by (induction dss)
      (simp_all only: load_datasets.simps load_dataset_def Let_def,
       (intro pres_intros stores_rules merge skills; (assumption | erule stores_inv_cong [rotated 2]; simp)?)+)
  have cards: "stores_inv (fold (store_card fetch) urls s)" if "stores_inv s" for urls s
    using that
    by (induction urls arbitrary: s)
       (auto simp: store_card_def stores_inv_def dataset_dir_def split: prod.split sum.split option.split)
  have reval: "pres stores_inv (revalidate env urls)" for urls
  proof (induction urls)
    case (Cons u urls)
    obtain ds sid x where u: "u = (ds, sid, x)" by (cases u)
    show ?case
      unfolding u revalidate.simps
      by (intro pres_intros Cons.IH valid_stores) (auto simp: stores_inv_def dataset_dir_def)
  qed (simp only: revalidate.simps pres_basic)
  have publish: "pres stores_inv (publish env dss acc)" for dss acc
  proof (induction dss arbitrary: acc)
    case (Cons d dss)
    have "pres stores_inv (rrun (init_taxonomy_state env d))"
      by (simp add: pres_def rrun_def init_taxonomy_state_def set_taxonomy_def stores_inv_def dataset_dir_def Let_def)
    then show ?case
      unfolding publish.simps Let_def by (intro pres_intros stores_rules regenerate_stores Cons.IH)
  qed (simp only: publish.simps pres_basic)
  have fs: "stores_inv (snd (run_fs m t))" if "stores_inv t" for m :: "(Fs, unit) rop" and t
    using run_fs_stores [of m] that by (simp add: pres_def)
  have one: "stores_inv (distribute_one x s)" if inv: "stores_inv s" for x s
  proof -
    obtain ds services where x: "x = (ds, services)" by (cases x)
    obtain r t where r: "run_fs (fs_create_dir_all (dataset_dir s ds)) s = (r, t)"
      by (cases "run_fs (fs_create_dir_all (dataset_dir s ds)) s")
    have "stores_inv t" using fs [OF inv, of "fs_create_dir_all (dataset_dir s ds)"] r by simp
    with x r fs show ?thesis by (cases r) (simp_all add: distribute_one_def Let_def)
  qed
  have "stores_inv (fold distribute_one xs s)" if "stores_inv s" for xs s
    using that by (induction xs arbitrary: s) (simp_all add: one)
  then have "stores_inv (distribute_global_config env p s)" if "stores_inv s" for p s
    using that by (simp add: distribute_global_config_def Let_def split: option.split)
  then show ?thesis
    unfolding startup_def Let_def
    by (intro pres_intros load reval publish cards) (auto split: option.split)
qed

lemma lease_ops_stores:
  "pres stores_inv (reserve_services_at env rq c u t w)" "pres stores_inv (release_reservation t ds h ids c)"
  "pres stores_inv (release_lease_by_sid t ds sid c)" "pres stores_inv (extend_reservation_at ds h ttl c t w)"
  "stores_inv (snd (is_leased t ds sid s)) = stores_inv s"
  using keeps_reserve [of stores_inv] keeps_leases [of stores_inv]
  by (simp_all add: lease_free_def pres_def keeps_def stores_inv_def dataset_dir_def)

lemma cache_stores:
  "stores_inv s \<Longrightarrow> stores_inv (snd (is_auth_required env ds s))"
  "stores_inv s \<Longrightarrow> stores_inv (snd (get_lease_config env ds s))"
  "stores_inv s \<Longrightarrow> stores_inv (snd (check_taxonomy_state env ds s))"
  using get_store_stores [of ds]
  by (auto simp: is_auth_required_def get_lease_config_def check_taxonomy_state_def set_taxonomy_def Let_def pres_def
      stores_inv_def dataset_dir_def case_prod_beta split: option.split)

lemma delete_stores: "pres stores_inv (delete_dataset ds)"
  unfolding delete_dataset_def Let_def
  by (intro pres_intros run_fs_stores) (auto simp: stores_inv_def dataset_dir_def split: if_splits)

lemma setter_stores:
  "stores_inv (with_allowed_a2a_versions vs s) = stores_inv s" "stores_inv (set_unhealthy_check cb s) = stores_inv s"
  by (simp_all add: setters stores_inv_def dataset_dir_def)

lemma reg_exec_stores: "pres stores_inv (reg_exec env fetch ev)"
  by (cases ev)
     (simp_all add: rvoid_pres entry_ops_stores entry_ops_stores2 ensure_stores config_stores lease_ops_stores
       delete_stores startup_stores, simp_all add: pres_def rstate_def cache_stores lease_ops_stores setter_stores)

lemma reg_run_stores_inv: "stores_inv s \<Longrightarrow> stores_inv (reg_run env fetch evs s)"
  using reg_exec_stores unfolding reg_run_def pres_def by (induction evs arbitrary: s) simp_all

lemma new_stores_inv: "stores_inv (RegistryService_new dir g fs)"
  by (simp add: stores_inv_def RegistryService_new_def)

subsection \<open>Files after a registration\<close>

subsection \<open>A registered service is on disk\<close>

abbreviation file_at :: "RegistryService \<Rightarrow> path \<Rightarrow> FileData option" where
  "file_at s p \<equiv> map_of (fs_files (rs_fs s)) p"

lemma get_store_files: "fs_files (rs_fs (snd (get_store ds s))) = fs_files (rs_fs s)"
proof -
  have "fs_files (snd (RegistryStore_new d fs)) = fs_files fs" for d fs
    by (simp add: RegistryStore_new_def rthen_eval case_prod_beta split: sum.split)
  then show ?thesis
    by (simp add: get_store_def run_fs_def rthen_eval case_prod_beta split: option.split sum.split)
qed

lemma with_store_files:
  assumes "stores_inv s"
    and "\<And>st fs. st_dir st = dataset_dir s ds \<Longrightarrow> map_of (fs_files (snd (snd (m (st, fs))))) p = map_of (fs_files fs) p"
  shows "file_at (snd (with_store ds m s)) p = file_at s p"
proof (cases "get_store ds s")
  case (Pair r s1)
  have s1: "fs_files (rs_fs s1) = fs_files (rs_fs s)" using get_store_files [of ds s] Pair by simp
  show ?thesis
  proof (cases r)
    case (Inr st)
    note d = get_store_dir [OF Pair [unfolded Inr] assms(1)]
    with assms(2) [OF d(1), of "rs_fs s1"] Pair Inr s1 show ?thesis
      by (auto simp: with_store_def rthen_def split: prod.split)
  qed (use Pair s1 in \<open>simp add: with_store_def rthen_def\<close>)
qed

lemma regenerate_files:
  assumes "stores_inv s" "p \<noteq> dataset_dir s ds @ [SERVICE_JSON_FILE]"
  shows "file_at (snd (regenerate_output ds s)) p = file_at s p"
proof -
  let ?t = "s\<lparr> output_cache := im_insert ds (output_of s ds) (output_cache s) \<rparr>"
  have t: "stores_inv ?t" "dataset_dir ?t ds = dataset_dir s ds"
    using assms(1) by (simp_all add: stores_inv_def dataset_dir_def)
  have "map_of (fs_files (snd (snd (write_service_json v (st, fs))))) p = map_of (fs_files fs) p"
    if "st_dir st = dataset_dir s ds" for v st fs
    using that fs_write_other [of p "st_dir st @ [SERVICE_JSON_FILE]"] assms(2)
    by (simp add: write_service_json_def on_fs_def atomic_write_json_def case_prod_beta)
  then have "file_at (snd (with_store ds (write_service_json v) ?t)) p = file_at s p" for v
    using with_store_files [OF t(1), of ds "write_service_json v" p] t(2) by simp
  then show ?thesis
    by (simp add: regenerate_output_def Let_def rthen_eval case_prod_beta split: sum.split)
qed

lemma finish_put_files:
  assumes "stores_inv s" "p \<noteq> dataset_dir s ds @ [SERVICE_JSON_FILE]"
  shows "file_at (snd (finish_put ds sid b e s)) p = file_at s p"
proof -
  have "rs_fs (mark_taxonomy_stale d t) = rs_fs t" "rs_fs (emit_mutation d i op x t) = rs_fs t" for d t i op x
    by (simp_all add: mark_taxonomy_stale_def set_taxonomy_def emit_mutation_def)
  then show ?thesis
    using regenerate_files [OF assms] by (simp add: finish_put_def rthen_eval case_prod_beta split: sum.split)
qed

lemma save_api_entry_file:
  assumes "with_store ds (save_api_entry e) s = (Inr u, s')" "stores_inv s"
  obtains es where "e \<in> set es"
    "file_at s' (dataset_dir s ds @ [API_CONFIG_FILE]) =
       Some (FJson (JObj [(''services'', JArr (map (\<lambda>e. JObj (entry_to_config_dict e)) es))]))"
proof -
  obtain st s1 where st: "get_store ds s = (Inr st, s1)"
    and m: "(case save_api_entry e (st, rs_fs s1) of (r, st', fs') \<Rightarrow>
        (r, s1\<lparr> rs_fs := fs', stores := im_insert ds st' (stores s1) \<rparr>)) = (Inr u, s')"
    using assms(1) by (auto simp: with_store_def elim!: rthen_InrE)
  let ?es = "map snd (im_insert (service_id e) e (api_entries st))"
  have d: "st_dir st = dataset_dir s ds" by (rule get_store_dir [OF st assms(2)])
  have e: "e \<in> set ?es" using im_get_in_set [of "im_insert (service_id e) e (api_entries st)" "service_id e" e] by force
  have eq: "map (\<lambda>(_, e). JObj (entry_to_config_dict e)) xs = map (\<lambda>e. JObj (entry_to_config_dict e)) (map snd xs)"
    for xs :: "(string, RegistryEntry) imap" by (simp add: comp_def case_prod_beta)
  have "atomic_write_json (dataset_dir s ds @ [API_CONFIG_FILE])
      (JObj [(''services'', JArr (map (\<lambda>e. JObj (entry_to_config_dict e)) ?es))]) (rs_fs s1) = (Inr u, rs_fs s')"
    using m d
    by (auto simp: save_api_entry_def flush_api_config_def on_fs_def eq simp del: map_map split: prod.splits)
  from atomic_write_json_InrD(1) [OF this] e show thesis by (intro that [of ?es]) simp_all
qed

lemma parse_services_mem:
  "e \<in> set es \<Longrightarrow> api_entry_ok e \<Longrightarrow> persisted src e \<in> set (parse_services env src (map (\<lambda>e. JObj (entry_to_config_dict e)) es))"
proof (induction es)
  case (Cons x es)
  then show ?case
    by (cases "e = x") (auto simp: config_dict_roundtrip split: sum.splits option.splits)
qed simp

lemma file_on_disk:
  assumes "file_at s p = Some (FJson (JObj [(''services'', JArr (map (\<lambda>e. JObj (entry_to_config_dict e)) es))]))"
    and "e \<in> set es" "api_entry_ok e"
  shows "persisted src e \<in> set (load_config_file env (rs_fs s) p src)"
  using parse_services_mem [OF assms(2,3)] assms(1)
  by (simp add: load_config_file_def fs_exists_def im_contains_def)

lemma do_register_durable:
  assumes "do_register ds e True s = (Inr r, s')" "stores_inv s" "api_entry_ok e"
  shows "persisted src e \<in> set (load_config_file env (rs_fs s') (dataset_dir s ds @ [API_CONFIG_FILE]) src)"
    "database_dir s' = database_dir s"
proof -
  let ?p = "dataset_dir s ds @ [API_CONFIG_FILE]"
  obtain u1 s1 u2 s3 u3 s4 b where 1: "ensure_dataset_initialized ds s = (Inr u1, s1)"
    and 2: "with_store ds (save_api_entry e) (put_entry ds e s1) = (Inr u2, s3)"
    and 3: "finish_put ds (service_id e) b (Some e) s3 = (Inr u3, s')"
    using assms(1) by (auto simp: do_register_def Let_def save_if_def rthen_Inr)
  have inv1: "stores_inv s1" using ensure_stores(1) [of ds] 1 assms(2) unfolding pres_def by (metis snd_conv)
  have d1: "database_dir s1 = database_dir s"
    using keepsD' [OF keeps_init(2) 1, of database_dir] by simp
  have inv2: "stores_inv (put_entry ds e s1)" using inv1 by (rule stores_inv_cong [rotated 2]) simp_all
  have inv3: "stores_inv s3"
    using with_store_stores [OF same_dir_store_ops(1), of ds e] 2 inv2 unfolding pres_def by (metis snd_conv)
  have d3: "database_dir s3 = database_dir s"
    using keepsD' [OF keeps_with_store [OF inner_fields(1)] 2] d1 by simp
  have ne: "?p \<noteq> dataset_dir s3 ds @ [SERVICE_JSON_FILE]" by (simp add: file_names)
  obtain es where es: "e \<in> set es" "file_at s3 (dataset_dir (put_entry ds e s1) ds @ [API_CONFIG_FILE]) =
       Some (FJson (JObj [(''services'', JArr (map (\<lambda>e. JObj (entry_to_config_dict e)) es))]))"
    by (rule save_api_entry_file [OF 2 inv2])
  have "file_at s' ?p = file_at s3 ?p" using finish_put_files [OF inv3 ne] 3 by (metis snd_conv)
  with es d1 have "file_at s' ?p = Some (FJson (JObj [(''services'', JArr (map (\<lambda>e. JObj (entry_to_config_dict e)) es))]))"
    by (simp add: dataset_dir_def)
  from file_on_disk [OF this es(1) assms(3)]
  show "persisted src e \<in> set (load_config_file env (rs_fs s') ?p src)" .
  have "keeps database_dir (finish_put ds (service_id e) b (Some e))"
    unfolding finish_put_def
    by (intro keeps_intros keeps_regenerate inner_fields) simp_all
  from keepsD' [OF this 3] d3 show "database_dir s' = database_dir s" by simp
qed

subsection \<open>Durability\<close>

lemma require_valid_text:
  assumes "require_valid env ds t v s = (Inr x, s')" "t = ''generic'' \<or> t = ''skill''"
  shows "has_text (map_of (to_map v) ''name'') \<and> has_text (map_of (to_map v) ''description'')"
proof -
  have "t \<noteq> ''a2a''" using assms(2) by auto
  with assms(1) obtain mv where "vr_valid (validate_service env t v mv)"
    by (auto simp: require_valid_def rthen_Inr split: option.splits if_splits)
  moreover from assms(2) obtain ty where "t = ServiceType_as_str ty"
    by (metis ServiceType_as_str_def ServiceType.case(1) ServiceType.case(3))
  ultimately show ?thesis
    by (auto simp: validate_service_def validate_valid_iff dest!: check_version_text)
qed

lemma do_register_entry:
  assumes "do_register ds e p s = (Inr r, s')"
  shows "get_entry s' ds (service_id e) = Some e" "rr_service_id r = service_id e"
    "rr_status r = (if get_entry s ds (service_id e) = None then ''registered'' else ''updated'')"
proof -
  obtain u1 s1 u2 s2 u3 s3 where 1: "ensure_dataset_initialized ds s = (Inr u1, s1)"
    and 2: "save_if p ds e (put_entry ds e s1) = (Inr u2, s2)"
    and 3: "finish_put ds (service_id e) (im_contains (entries_of s1 ds) (service_id e)) (Some e) s2 = (Inr u3, s')"
    and r: "r = \<lparr> rr_service_id = service_id e, rr_dataset = ds,
             rr_status = (if im_contains (entries_of s1 ds) (service_id e) then ''updated'' else ''registered''),
             rr_lease_ttl = None, rr_lease_expires_at = None \<rparr>"
    using assms by (auto simp: do_register_def Let_def rthen_Inr)
  have e: "rs_entries s1 = rs_entries s" "rs_entries s2 = rs_entries (put_entry ds e s1)" "rs_entries s' = rs_entries s2"
    using keepsD' [OF entries_keeps(4) 1] keepsD' [OF entries_keeps(9) 2] keepsD' [OF entries_keeps(7) 3] .
  show "get_entry s' ds (service_id e) = Some e"
    by (simp add: get_entry_def e put_entry_def)
  show "rr_service_id r = service_id e" by (simp add: r)
  show "rr_status r = (if get_entry s ds (service_id e) = None then ''registered'' else ''updated'')"
    by (simp add: r get_entry_entries_of im_contains_def entries_of_def e)
qed

lemma register_genericE:
  assumes "register_generic env req caller s = (Inr r, s')"
  obtains x s1 where "require_valid env (rg_dataset req) ''generic''
      (JObj [(''name'', JStr (rg_name req)), (''description'', JStr (rg_description req)),
             (''url'', JStr (rg_url req)), (''inputSchema'', JObj (rg_input_schema req))]) s = (Inr x, s1)"
    "do_register (rg_dataset req) (generic_entry env req caller) (rg_persistent req) s1 = (Inr r, s')"
    "assert_can_register caller = Inr ()"
  using assms by (auto simp: register_generic_def rthen_Inr)

text \<open>
  C6. A persistent registration is durable: when \<open>register_generic\<close> returns, in any state reached by
  any operations, the entry is registered under the identifier in the response, and reading
  the \<open>api_config.json\<close> of the dataset gives that entry back (its name and description trimmed, an
  empty URL or owner absent, a TTL only when positive).
\<close>

theorem registered_service_durable:
  assumes "s = reg_run env fetch evs (RegistryService_new dir g fs)"
    and "register_generic env req caller s = (Inr r, s')" "rg_persistent req"
    and "\<And>t. rg_lease_ttl req = Some t \<Longrightarrow> is_i64 t"
  shows "get_entry s' (rg_dataset req) (rr_service_id r) = Some (generic_entry env req caller) \<and>
    persisted ApiConfig (generic_entry env req caller) \<in>
      set (load_config_file env (rs_fs s') (dataset_dir s' (rg_dataset req) @ [API_CONFIG_FILE]) ApiConfig)"
proof -
  let ?e = "generic_entry env req caller"
  obtain x s1 where v: "require_valid env (rg_dataset req) ''generic''
      (JObj [(''name'', JStr (rg_name req)), (''description'', JStr (rg_description req)),
             (''url'', JStr (rg_url req)), (''inputSchema'', JObj (rg_input_schema req))]) s = (Inr x, s1)"
    and d: "do_register (rg_dataset req) ?e True s1 = (Inr r, s')"
    using register_genericE [OF assms(2)] assms(3) by metis
  have "stores_inv s" unfolding assms(1) by (rule reg_run_stores_inv [OF new_stores_inv])
  then have inv: "stores_inv s1" using valid_stores(2) v unfolding pres_def by (metis snd_conv)
  have "api_entry_ok ?e"
    using require_valid_text [OF v] assms(4)
    by (auto simp: api_entry_ok_def generic_entry_def to_map_def has_text_def non_empty_def generate_service_id_def
        split: option.split)
  note dur = do_register_durable [OF d inv this]
  from dur(1) [of ApiConfig env] dur(2) do_register_entry(1,2) [OF d] show ?thesis
    by (simp add: dataset_dir_def)
qed

theorem registered_service_durable_witness:
  "\<exists>r s'. register_generic reg_env (reg_request ''s'' ''n'' True) None reg_new = (Inr r, s') \<and>
     persisted ApiConfig (generic_entry reg_env (reg_request ''s'' ''n'' True) None) \<in>
       set (load_config_file reg_env (rs_fs s') (dataset_dir s' ''d'' @ [API_CONFIG_FILE]) ApiConfig)"
proof -
  have run: "reg_new = reg_run reg_env no_fetch [] (RegistryService_new [''db''] None reg_fs)"
    by (simp add: reg_run_def reg_new_def)
  obtain r s' where r: "register_generic reg_env (reg_request ''s'' ''n'' True) None reg_new = (Inr r, s')"
    using reg_demo_register
    by (cases "register_generic reg_env (reg_request ''s'' ''n'' True) None reg_new")
       (auto simp: rvoid_def rthen_def split: sum.splits)
  from registered_service_durable [OF run r] r show ?thesis by (simp add: reg_request_def)
qed

end
