(* ===== verification/SkillLaws.thy ===== *)
theory SkillLaws
  imports ReservationLaws
begin

text \<open>
  Where an uploaded skill writes. The archive names are checked for \<open>..\<close> and for a leading slash, the prefix of
  the top directory is stripped afterwards; from the check follows that no file outside
  the folder of the skill changes, as long as no stripped name is absolute.
\<close>

subsection \<open>Where an upload writes\<close>

lemma starts_with_iff: "starts_with s p \<longleftrightarrow> (\<exists>b. s = p @ b)"
  by (induction s p rule: starts_with.induct) auto

lemma contains_sub_iff: "contains_sub s p \<longleftrightarrow> (\<exists>a b. s = a @ p @ b)"
proof (induction s)
  case (Cons x xs)
  have "(\<exists>a b. x # xs = a @ p @ b) \<longleftrightarrow> (\<exists>b. x # xs = p @ b) \<or> (\<exists>a b. xs = a @ p @ b)"
    by (metis append_Cons append_Nil list.exhaust list.inject)
  with Cons show ?case by (simp add: starts_with_iff)
qed simp

definition pieces_of :: "string \<Rightarrow> string list \<Rightarrow> bool" where
  "pieces_of s ps = (\<exists>p qs b. ps = p # qs \<and> s = p @ b \<and> (\<forall>q \<in> set qs. \<exists>a b. s = a @ q @ b))"

lemma infix_Cons: "\<exists>a b. xs = a @ q @ b \<Longrightarrow> \<exists>a b. x # xs = a @ q @ b"
  by (metis append_Cons)

lemma split_on_pieces: "pieces_of s (split_on c s)"
proof (induction s)
  case (Cons x xs)
  from Cons obtain p qs b where IH: "split_on c xs = p # qs" "xs = p @ b"
      "\<And>q. q \<in> set qs \<Longrightarrow> \<exists>a b. xs = a @ q @ b" unfolding pieces_of_def by blast
  have rest: "\<And>q. q \<in> set qs \<Longrightarrow> \<exists>a b. x # xs = a @ q @ b" by (rule infix_Cons) (rule IH(3))
  have hd: "\<exists>a b. x # xs = a @ p @ b" using IH(2) by (intro exI [of _ "[x]"] exI [of _ b]) simp
  show ?case
  proof (cases "x = c")
    case True
    then show ?thesis unfolding pieces_of_def using IH(1) rest hd by auto
  next
    case False
    then have "split_on c (x # xs) = (x # p) # qs" using IH(1) by simp
    moreover have "x # xs = (x # p) @ b" using IH(2) by simp
    ultimately show ?thesis unfolding pieces_of_def using rest by blast
  qed
qed (simp add: pieces_of_def)

lemma split_on_infix: "piece \<in> set (split_on c s) \<Longrightarrow> \<exists>a b. s = a @ piece @ b"
  using split_on_pieces [of s c] unfolding pieces_of_def by (metis append_Nil set_ConsD)

lemma contains_sub_drop: "contains_sub (drop n s) p \<Longrightarrow> contains_sub s p"
  unfolding contains_sub_iff by (metis append.assoc append_take_drop_id)

lemma resolve_plain: "''..'' \<notin> set cs \<Longrightarrow> path_resolve base cs = base @ cs"
  by (induction cs arbitrary: base) (auto simp: path_resolve_def)

lemma join_plain:
  assumes "\<not> starts_with rel ''/''" "\<not> contains_sub rel ''..''"
  shows "path_join base rel = base @ path_components rel"
proof -
  have "''..'' \<notin> set (path_components rel)"
    using assms(2) split_on_infix [of "''..''" "CHR ''/''" rel] by (auto simp: path_components_def contains_sub_iff)
  with assms(1) resolve_plain show ?thesis by (simp add: path_join_def)
qed

definition files_outside :: "path \<Rightarrow> Fs \<Rightarrow> path \<Rightarrow> FileData option" where
  "files_outside target fs = (\<lambda>p. if under target p then None else map_of (fs_files fs) p)"

lemma outside_write:
  assumes "under target p"
  shows "keeps (files_outside target) (fs_write p d)"
proof -
  have "files_outside target (snd (fs_write p d fs)) x = files_outside target fs x" for fs x
    using assms fs_write_other [of x p d fs] by (cases "x = p") (simp_all add: files_outside_def)
  then show ?thesis unfolding keeps_def by (intro allI ext)
qed

lemma outside_create: "keeps (files_outside target) (fs_create_dir_all p)"
  by (simp add: keeps_def files_outside_def fun_eq_iff)

lemma map_of_filter_key: "P x \<Longrightarrow> map_of (filter (\<lambda>(k, _). P k) L) x = map_of L x"
  by (induction L) auto

lemma outside_remove: "keeps (files_outside target) (fs_remove_dir_all target)"
proof -
  have "files_outside target (snd (fs_remove_dir_all target fs)) x = files_outside target fs x" for fs x
    using map_of_filter_key [of "\<lambda>k. \<not> under target k" x "fs_files fs"]
    by (cases "fs_fault fs (fs_ix fs)") (auto simp: files_outside_def fs_remove_dir_all_def fs_try_def Let_def)
  then show ?thesis unfolding keeps_def by (intro allI ext)
qed

lemma outside_extract:
  assumes "\<not> starts_with (entry_rel pre (ze_name z)) ''/''" "\<not> unsafe_name (ze_name z)"
  shows "keeps (files_outside target) (extract_entry target pre z)"
proof -
  have "\<not> contains_sub (entry_rel pre (ze_name z)) ''..''"
    using assms(2) by (auto simp: entry_rel_def unsafe_name_def dest: contains_sub_drop)
  then have "under target (path_join target (entry_rel pre (ze_name z)))"
    using join_plain [OF assms(1)] by simp
  then show ?thesis
    unfolding extract_entry_def Let_def by (intro keeps_intros outside_create outside_write)
qed

lemma outside_extract_all:
  assumes "\<And>z. z \<in> set zs \<Longrightarrow> \<not> starts_with (entry_rel pre (ze_name z)) ''/'' \<and> \<not> unsafe_name (ze_name z)"
  shows "keeps (files_outside target) (extract_all target pre zs)"
  using assms
proof (induction zs)
  case (Cons z zs)
  then show ?case
    unfolding extract_all.simps by (intro keeps_intros outside_extract) auto
qed (simp only: extract_all.simps keeps_basic)

text \<open>
  C11. An uploaded skill stays in its folder: when the name in its frontmatter is a plain folder name
  and no archive path becomes absolute once the top directory is stripped, the extraction changes
  no file outside \<open>skills/<name>/\<close>, whether it returns or fails.
\<close>

theorem skill_upload_confined:
  assumes "zip_open env bytes = Inr archive" "read_skill_md env archive = Inr (pre, meta)"
    and "map_of meta ''name'' = Some nm" "path_join (skills_path st) nm = skills_path st @ [nm]"
    and "\<And>z. z \<in> set archive \<Longrightarrow> \<not> starts_with (entry_rel pre (ze_name z)) ''/''"
    and "\<not> under (skills_path st @ [nm]) p"
  shows "map_of (fs_files (snd (snd (save_skill_zip env bytes (st, fs))))) p = map_of (fs_files fs) p"
proof (cases "List.find unsafe_name (map ze_name archive)")
  case None
  let ?t = "skills_path st @ [nm]"
  have safe: "\<not> starts_with (entry_rel pre (ze_name z)) ''/'' \<and> \<not> unsafe_name (ze_name z)" if "z \<in> set archive" for z
    using None that assms(5) by (auto simp: find_None_iff)
  let ?m = "rthen (rget (\<lambda>fs. if fs_exists fs ?t then fs_remove_dir_all ?t else rok ())) (\<lambda>_.
     rthen (fs_create_dir_all ?t) (\<lambda>_. rthen (extract_all ?t pre archive) (\<lambda>_.
     rget (\<lambda>fs. rok (skill_of_meta meta (list_skill_files fs ?t))))))"
  have "keeps (files_outside ?t) ?m"
    by (intro keeps_intros outside_remove outside_create outside_extract_all safe)
  from keepsD [OF this, of fs] have "files_outside ?t (snd (?m fs)) p = files_outside ?t fs p" by (rule fun_cong)
  moreover have "snd (snd (save_skill_zip env bytes (st, fs))) = snd (?m fs)"
    using None assms(1-4) by (simp add: save_skill_zip_def check_names_def on_fs_def Let_def case_prod_beta)
  ultimately show ?thesis using assms(6) by (simp add: files_outside_def)
qed (use assms(1) in \<open>simp add: save_skill_zip_def check_names_def\<close>)

subsection \<open>A concrete upload\<close>

definition skill_md :: "string \<Rightarrow> string" where
  "skill_md nm = ''---'' @ [newline] @ ''name: '' @ nm @ [newline] @ ''description: d'' @ [newline] @ ''---''"

lemmas skill_eval = skill_md_def newline_def read_skill_md_def locate_skill_md_def check_names_def unsafe_name_def
  parse_skill_md_content_def split_frontmatter_def str_lines_def strip_cr_def frontmatter_field_def strip_quotes_def
  trim_start_def trim_def is_space_def

lemma skill_md_parsed: "parse_skill_md_content (skill_md ''a'') = Inr [(''name'', ''a''), (''description'', ''d'')]"
  by (simp add: skill_eval Let_def im_insert_def)

definition other_zip :: "ZipEntry list" where
  "other_zip = [\<lparr> ze_name = ''SKILL.md'', ze_is_dir = False, ze_data = skill_md ''a'' \<rparr>]"

definition owned_skill :: RegistryEntry where
  "owned_skill = skill_entry reg_env
     \<lparr> sk_name = ''a'', sk_description = ''d'', license = [], skill_path = ''skills/a'', sk_files = [''SKILL.md''] \<rparr>
     (Some (reg_caller ''p'' Provider))"

definition skill_state :: RegistryService where
  "skill_state = reg_new\<lparr> rs_entries := [(''d'', [(service_id owned_skill, owned_skill)])],
     rs_fs := \<lparr> fs_files = [([''db'', ''d'', ''skills'', ''a'', ''SKILL.md''], FText ''old''),
                           ([''db'', ''d'', ''vector_config.json''], FJson JNull)],
               fs_dirs = [[], [''db''], [''db'', ''d''], [''db'', ''d'', ''skills''], [''db'', ''d'', ''skills'', ''a'']],
               fs_fault = (\<lambda>_. None), fs_ix = 0 \<rparr> \<rparr>"

theorem skill_upload_confined_witness:
  "let env = reg_env\<lparr> zip_open := \<lambda>_. Inr other_zip \<rparr>; st = \<lparr> st_dir = [''db'', ''d''], api_entries = [] \<rparr>; p = [''db'', ''d'', ''x''] in
   map_of (fs_files (snd (snd (save_skill_zip env [] (st, rs_fs skill_state))))) p = map_of (fs_files (rs_fs skill_state)) p"
  unfolding Let_def
  by (rule skill_upload_confined [where archive = other_zip and pre = "[]" and nm = "''a''"
        and meta = "[(''name'', ''a''), (''description'', ''d'')]"])
     (simp_all add: other_zip_def read_skill_md_def locate_skill_md_def skill_md_parsed reg_env_def path_join_def path_resolve_def
        path_components_def entry_rel_def under_def skills_path_def SKILLS_DIR_def)

end
