(* ===== verification/LeasePolicy.thy ===== *)
theory LeasePolicy
  imports RegistryInv
begin

text \<open>
  The lease policy of a namespace, from \<open>lease_config.json\<close> through the cache of the registry service
  to the heartbeat store, which the service provides with its policy
  (\<open>LeaseConfigProvider for RegistryService\<close>). That every cached policy has
  \<open>1 \<le> min_ttl \<le> max_ttl\<close> and a grace period that is not negative is an invariant of all operations.
\<close>

definition config_ok :: "LeaseConfig \<Rightarrow> bool" where
  "config_ok c \<longleftrightarrow> 1 \<le> min_ttl c \<and> min_ttl c \<le> max_ttl c \<and> 0 \<le> grace_period c"

definition lease_cache_ok :: "RegistryService \<Rightarrow> bool" where
  "lease_cache_ok s \<longleftrightarrow> (\<forall>ds c. map_of (lease_config_cache s) ds = Some c \<longrightarrow> config_ok c)"

lemma config_ok_load: "config_ok (load_lease_config env fs st)" "config_ok LeaseConfig_default"
  using lease_config_bounds by (simp_all add: config_ok_def LeaseConfig_default_def)

lemma get_lease_ok:
  assumes "lease_cache_ok s"
  shows "config_ok (fst (get_lease_config env ds s))" "lease_cache_ok (snd (get_lease_config env ds s))"
proof -
  have same: "lease_config_cache (snd (get_store ds s)) = lease_config_cache s"
    by (rule keepsD) (intro keeps_get_store inner_fields)
  show "config_ok (fst (get_lease_config env ds s))"
    using assms by (auto simp: get_lease_config_def lease_cache_ok_def config_ok_load Let_def case_prod_beta
        split: option.split sum.split)
  show "lease_cache_ok (snd (get_lease_config env ds s))"
    using assms same by (auto simp: get_lease_config_def lease_cache_ok_def config_ok_load Let_def case_prod_beta
        split: option.split sum.split if_splits)
qed

lemma cache_ok_keeps: "keeps lease_config_cache m \<Longrightarrow> pres lease_cache_ok m"
  by (erule pres_of_keeps) (simp add: lease_cache_ok_def)

lemma write_lease_config_ok:
  assumes "with_store ds (write_lease_config en lo hi g) s = (Inr u, s')"
  shows "1 \<le> lo \<and> lo \<le> hi \<and> 0 \<le> g"
  using assms by (auto simp: with_store_def write_lease_config_def rthen_Inr case_prod_beta split: if_splits)

lemma set_lease_ok: "pres lease_cache_ok (set_lease_config ds en lo hi g)"
  unfolding pres_def
proof (intro allI impI)
  fix s assume s: "lease_cache_ok s"
  have keep: "keeps lease_config_cache (with_store ds (write_lease_config en lo hi g))"
    by (intro keeps_with_store inner_fields)
  obtain r s' where w: "with_store ds (write_lease_config en lo hi g) s = (r, s')" by fastforce
  with keepsD' [OF keep w] s have "lease_cache_ok s'" by (simp add: lease_cache_ok_def)
  with s w write_lease_config_ok [of ds en lo hi g s] show "lease_cache_ok (snd (set_lease_config ds en lo hi g s))"
    by (cases r) (auto simp: set_lease_config_def Let_def lease_cache_ok_def config_ok_def rthen_eval split: if_splits)
qed

lemma reg_exec_cache_ok: "pres lease_cache_ok (reg_exec env fetch ev)"
proof -
  have frame: "entry_frame D lease_config_cache" for D
    by (auto simp: entry_frame_def set_entries_def intro!: keeps_intros keeps_ops)
  consider "entry_event ev \<or> ev = EvStartup" | ds where "ev = EvGetLease ds" | ds e lo hi g where "ev = EvSetLease ds e lo hi g"
    | ds where "ev = EvDeleteDataset ds"
    | "\<not> entry_event ev" "ev \<noteq> EvStartup" "\<And>ds. ev \<noteq> EvDeleteDataset ds" "\<And>ds. ev \<noteq> EvGetLease ds"
      "\<forall>ds e lo hi g. ev \<noteq> EvSetLease ds e lo hi g" by blast
  then show ?thesis
  proof cases
    case 1
    then show ?thesis
      using reg_exec_keeps_entry [OF _ frame] startup_keeps [OF frame] by (auto intro!: cache_ok_keeps rvoid_keeps)
  next
    case 2
    then show ?thesis using get_lease_ok(2) by (simp add: rstate_def pres_def)
  next
    case 3
    then show ?thesis using set_lease_ok by (simp add: rvoid_pres)
  next
    case 4
    have "pres lease_cache_ok (delete_dataset ds)"
      unfolding delete_dataset_def Let_def
      by (intro pres_intros cache_ok_keeps keeps_run_fs inner_fields) (auto simp: lease_cache_ok_def split: if_splits)
    with 4 show ?thesis by simp
  next
    case 5
    let ?F = lease_config_cache
    have F: "inner ?F" "lease_free ?F" "\<And>s x. ?F (s\<lparr> format_configs := x \<rparr>) = ?F s"
      "\<And>s x. ?F (s\<lparr> auth_required_cache := x \<rparr>) = ?F s" "\<And>s x. ?F (s\<lparr> taxonomy_states := x \<rparr>) = ?F s"
      by (simp_all add: lease_free_def)
    have auth: "keeps ?F (set_auth_config ds b)" "keeps ?F (set_vector_config ds m d)"
      "?F (snd (is_auth_required env ds s)) = ?F s" for ds b m d s
      using snd_get_store [OF F(1), of ds s] F unfolding set_auth_config_def set_vector_config_def Let_def
      by (auto simp: is_auth_required_def Let_def intro!: keeps_intros keeps_ops split: option.split prod.split)
    from 5 keeps_create [OF F(1,3,4)] keeps_config(2) [OF F(1,3)] keeps_check_taxonomy [of ?F, OF F(5)]
      keeps_reserve [OF F(2)] keeps_leases [OF F(2)] auth
    have "keeps ?F (reg_exec env fetch ev)" by (cases ev) (auto simp: keeps_setters intro!: rvoid_keeps rstate_keeps)
    then show ?thesis by (rule cache_ok_keeps)
  qed
qed

lemma reg_run_cache_ok: "lease_cache_ok s \<Longrightarrow> lease_cache_ok (reg_run env fetch evs s)"
  using reg_exec_cache_ok unfolding reg_run_def pres_def by (induction evs arbitrary: s) simp_all

text \<open>
  C12. The lease policy of a namespace is always sane: in any state the registry service can reach, whatever
  was sent to \<open>set_lease_config\<close> and whatever \<open>lease_config.json\<close> contains, a heartbeat lease
  granted under the policy the service returns runs for at least one second and at most the
  policy's maximum, and its grace deadline is not before its expiry.
\<close>

theorem granted_lease_bounded:
  assumes "s = reg_run env fetch evs (RegistryService_new dir g fs)"
    and "HeartbeatStore_grant (\<lambda>d. fst (get_lease_config env d s)) hs ds sid client_ttl clk = (Inr (Some l), hs')"
  shows "clk + 1 \<le> expires_at l \<and> expires_at l \<le> grace_deadline l \<and>
    expires_at l \<le> clk + of_int (max_ttl (fst (get_lease_config env ds s)))"
proof -
  have "lease_cache_ok s"
    unfolding assms(1) by (rule reg_run_cache_ok) (simp add: lease_cache_ok_def RegistryService_new_def)
  then have "config_ok (fst (get_lease_config env ds s))" by (rule get_lease_ok(1))
  with assms(2) show ?thesis
    by (auto simp: config_ok_def HeartbeatStore_grant_def HeartbeatStore_validate_def HeartbeatStore_install_def
        HeartbeatStore_grace_def LeaseTable_install_def Let_def split: sum.splits option.splits if_splits)
qed

definition lease_events :: "reg_event list" where
  "lease_events = [EvRegisterGeneric (reg_request ''s'' ''n'' True) None, EvSetLease ''d'' True 5 60 30]"

lemma lease_events_config:
  "fst (get_lease_config reg_env ''d'' (reg_run reg_env no_fetch lease_events reg_new)) =
     \<lparr> enabled = True, min_ttl = 5, max_ttl = 60, grace_period = 30, schema_version = 1 \<rparr>"
  by (simp add: lease_events_def reg_run_def get_lease_config_def set_lease_config_def write_lease_config_def
      mark_taxonomy_stale_def emit_mutation_def output_of_def list_entries_def api_source_def entry_to_output_def
      entry_to_config_dict_def put_def reg_eval cong: rop_congs)

theorem granted_lease_bounded_witness:
  "let s = reg_run reg_env no_fetch lease_events reg_new in
   \<exists>l hs'. HeartbeatStore_grant (\<lambda>d. fst (get_lease_config reg_env d s)) LeaseTable_new ''d'' ''s'' (Some 20) 100 = (Inr (Some l), hs') \<and>
     101 \<le> expires_at l"
proof -
  let ?s = "reg_run reg_env no_fetch lease_events reg_new"
  obtain l hs' where "HeartbeatStore_grant (\<lambda>d. fst (get_lease_config reg_env d ?s)) LeaseTable_new ''d'' ''s'' (Some 20) 100 = (Inr (Some l), hs')"
    by (simp add: HeartbeatStore_grant_def HeartbeatStore_validate_def HeartbeatStore_install_def lease_events_config
        LeaseTable_install_def Let_def)
  with granted_lease_bounded [OF refl, of reg_env no_fetch lease_events "[''db'']" None reg_fs] show ?thesis
    unfolding Let_def reg_new_def by fastforce
qed

end
