(* ===== verification/RegistryFindings.thy ===== *)
theory RegistryFindings
  imports RegistryDurable SkillLaws
begin

text \<open>
  Runs of the registry that its documentation does not describe: an archive that writes outside the
  skill folder, an upload that is refused after it replaced the files, a registration that
  takes over the service of another owner, a deregistered service that returns at the next start,
  and an update that leaves the taxonomy marked as available.
\<close>

subsection \<open>Archive names that become absolute\<close>

definition escape_zip :: "ZipEntry list" where
  "escape_zip =
     [\<lparr> ze_name = ''t/SKILL.md'', ze_is_dir = False, ze_data = skill_md ''a'' \<rparr>,
      \<lparr> ze_name = ''t//etc/x'', ze_is_dir = False, ze_data = ''evil'' \<rparr>]"

theorem zip_escapes:
  "file_at (snd (with_store ''d'' (save_skill_zip (reg_env\<lparr> zip_open := \<lambda>_. Inr escape_zip \<rparr>) []) reg_new)) [''etc'', ''x''] =
     Some (FText ''evil'')"
  by (simp add: save_skill_zip_def escape_zip_def check_names_def unsafe_name_def read_skill_md_def locate_skill_md_def skill_md_parsed
     reg_eval  reg_env_def on_fs_def entry_rel_def extract_entry_def skills_path_def SKILLS_DIR_def cong: rop_congs)

subsection \<open>A refused upload replaces the files\<close>

theorem skill_overwritten:
  "case register_skill (reg_env\<lparr> zip_open := \<lambda>_. Inr other_zip \<rparr>) ''d'' [] (Some (reg_caller ''q'' Provider)) skill_state of
     (r, s') \<Rightarrow> r = Inl (Permission (''Service '' @ quoted (service_id owned_skill) @ '' is owned by another principal'')) \<and>
       file_at s' [''db'', ''d'', ''skills'', ''a'', ''SKILL.md''] = Some (FText (skill_md ''a''))"
  by (simp add: register_skill_def skill_state_def owned_skill_def skill_entry_def save_skill_zip_def other_zip_def check_names_def unsafe_name_def read_skill_md_def locate_skill_md_def skill_md_parsed
     reg_eval reg_env_def reg_caller_def is_admin_def on_fs_def entry_rel_def extract_entry_def skills_path_def SKILLS_DIR_def 
     fs_remove_dir_all_def under_def skill_of_meta_def SkillData_to_json_def generate_service_id_def assert_owner_opt_def
     assert_owner_def hex_encode_def hex_digit_def cong: rop_congs)

subsection \<open>Registration over an existing identifier\<close>

theorem register_takes_over:
  "let s = snd (register_generic reg_env (reg_request ''s'' ''n'' False) (Some (reg_caller ''p'' Provider)) reg_new) in
   case register_generic reg_env (reg_request ''s'' ''m'' False) (Some (reg_caller ''q'' Provider)) s of (r, s') \<Rightarrow>
     map_option re_owner_id (get_entry s ''d'' ''s'') = Some (Some ''p'') \<and>
     (\<exists>resp. r = Inr resp \<and> rr_status resp = ''updated'') \<and>
     map_option re_owner_id (get_entry s' ''d'' ''s'') = Some (Some ''q'')"
  by (simp add: reg_eval reg_caller_def is_admin_def get_entry_def mark_taxonomy_stale_def emit_mutation_def output_of_def
     list_entries_def api_source_def entry_to_output_def cong: rop_congs)

subsection \<open>A deregistered service that returns\<close>

theorem deregistered_returns:
  "case register_generic reg_env (reg_request ''s'' ''n'' True) None reg_new of (r1, s1) \<Rightarrow>
   case register_generic reg_env (reg_request ''s'' ''n'' False) None s1 of (r2, s2) \<Rightarrow>
   case deregister ''d'' ''s'' None s2 of (r3, s3) \<Rightarrow>
     r3 = Inr \<lparr> dr_service_id = ''s'', dr_status = ''deregistered'' \<rparr> \<and> get_entry s3 ''d'' ''s'' = None \<and>
     load_config_file reg_env (rs_fs s3) (dataset_dir s3 ''d'' @ [API_CONFIG_FILE]) ApiConfig =
       [persisted ApiConfig (generic_entry reg_env (reg_request ''s'' ''n'' True) None)]"
  by (simp add: reg_eval deregister_def get_entry_def finish_remove_def drop_entry_def output_of_def list_entries_def im_remove_def
     mark_taxonomy_stale_def emit_mutation_def assert_owner_opt_def api_source_def entry_to_config_dict_def put_def
     load_config_file_def read_json_def parse_service_entry_def parse_generic_entry_def member_str_or_def member_str_def parse_lease_ttl_def
     persisted_def json_eq.simps entry_to_output_def
      cong: rop_congs)

subsection \<open>An update of the skills of an agent\<close>

definition tax_card :: "AgentSkill list \<Rightarrow> AgentCard" where
  "tax_card sk = \<lparr> ac_name = ''a'', ac_description = ''b'', ac_version = [], protocol_version = [], ac_url = [],
     preferred_transport = [], provider = None, capabilities = None, ac_skills = sk, default_input_modes = [],
     default_output_modes = [], documentation_url = [], icon_url = [], ac_extra = [] \<rparr>"

definition tax_entry :: RegistryEntry where
  "tax_entry = \<lparr> service_id = ''x'', re_type = A2a, source = Ephemeral, service_data = None, agent_card = Some (tax_card []),
     agent_card_url = None, skill_data = None, re_owner_id = None, re_lease_ttl = None \<rparr>"

definition tax_state :: RegistryService where
  "tax_state = reg_new\<lparr> rs_entries := [(''d'', [(''x'', tax_entry)])], taxonomy_states := [(''d'', Available)],
     output_cache := [(''d'', [JObj (entry_to_output tax_entry)])],
     rs_fs := \<lparr> fs_files = [([''db'', ''d'', ''taxonomy'', ''build_config.json''],
                  FJson (JObj [(''service_hash'', JStr (compute_build_hash reg_env [JObj (entry_to_output tax_entry)]))])),
                 ([''db'', ''d'', ''taxonomy'', ''taxonomy.json''], FJson JNull)],
               fs_dirs = [[], [''db''], [''db'', ''d''], [''db'', ''d'', ''taxonomy'']],
               fs_fault = (\<lambda>_. None), fs_ix = 0 \<rparr> \<rparr>"

definition tax_update :: JsonDict where
  "tax_update = [(''skills'', JArr [JObj [(''name'', JStr ''k'')]])]"

lemma tax_before: "compute_taxonomy_state reg_env tax_state ''d'' = Available"
  by (simp add: compute_taxonomy_state_def tax_state_def reg_eval taxonomy_dir_def read_build_hash_def read_json_def list_services_def)

theorem taxonomy_kept:
  "case update_service reg_env ''d'' ''x'' tax_update None tax_state of (r, s') \<Rightarrow>
     (\<exists>resp. r = Inr resp \<and> \<not> taxonomy_affected resp) \<and>
     fst (check_taxonomy_state reg_env ''d'' s') = Some Available \<and>
     compute_taxonomy_state reg_env s' ''d'' = Unavailable"
  by (simp add: update_service_def tax_state_def tax_entry_def tax_card_def tax_update_def reg_eval get_entry_def assert_owner_opt_def
    apply_a2a_updates_def merge_updates_def changed_keys_def AgentCard_to_json_def AgentCard_known_json_def put_def put_option_def strings_def
    AgentCard_from_value_def de_required_def de_default_def de_option_def de_skills_def de_strings_def de_string_def AgentSkill_from_value_def
    AgentSkill_from_map_def json_eq.simps output_of_def list_entries_def emit_mutation_def card_fields_def
    check_taxonomy_state_def get_taxonomy_state_def compute_taxonomy_state_def taxonomy_dir_def read_build_hash_def read_json_def list_services_def
    compute_build_hash_def value_str_or_empty_def entry_to_output_def build_description_def skill_text_def trim_end_dots_def dumps_pairs_def
    reg_env_def dquote_def
     cong: rop_congs)

end
