(* ===== verification/Utf8.thy ===== *)
theory Utf8
  imports Prelude
begin

text \<open>
  \<open>String::from_utf8_lossy\<close> on bytes: every ill-formed part (a maximal prefix of a character, as the
  standard library cuts it) becomes the bytes of U+FFFD. On well-formed input it is the identity.
\<close>

definition byte_in :: "nat \<Rightarrow> nat \<Rightarrow> char \<Rightarrow> bool" where
  "byte_in lo hi c = (lo \<le> of_char c \<and> of_char c \<le> hi)"

definition is_cont :: "char \<Rightarrow> bool" where
  "is_cont = byte_in 128 191"

text \<open>The second bytes that may follow a first byte of a three or four byte character.\<close>

definition second3 :: "char \<Rightarrow> char \<Rightarrow> bool" where
  "second3 b c =
     (if b = CHR 0xE0 then byte_in 160 191 c
      else if b = CHR 0xED then byte_in 128 159 c
      else is_cont c)"

definition second4 :: "char \<Rightarrow> char \<Rightarrow> bool" where
  "second4 b c =
     (if b = CHR 0xF0 then byte_in 144 191 c
      else if b = CHR 0xF4 then byte_in 128 143 c
      else is_cont c)"

text \<open>How many of the conditions hold for the bytes that follow.\<close>

fun matched :: "(char \<Rightarrow> bool) list \<Rightarrow> string \<Rightarrow> nat" where
  "matched (P # Ps) (c # cs) = (if P c then Suc (matched Ps cs) else 0)"
| "matched _ _ = 0"

definition char_tail :: "char \<Rightarrow> (char \<Rightarrow> bool) list option" where
  "char_tail b =
     (if byte_in 0 127 b then Some []
      else if byte_in 194 223 b then Some [is_cont]
      else if byte_in 224 239 b then Some [second3 b, is_cont]
      else if byte_in 240 244 b then Some [second4 b, is_cont, is_cont]
      else None)"

definition replacement :: string where
  "replacement = [CHR 0xEF, CHR 0xBF, CHR 0xBD]"

function from_utf8_lossy :: "string \<Rightarrow> string" where
  "from_utf8_lossy [] = []"
| "from_utf8_lossy (b # bs) =
     (case char_tail b of
        None \<Rightarrow> replacement @ from_utf8_lossy bs
      | Some Ps \<Rightarrow>
          let n = matched Ps bs in
          (if n = length Ps then b # take n bs else replacement) @ from_utf8_lossy (drop n bs))"
  by pat_completeness auto
termination
  by (relation "measure length") (auto simp: Let_def)

inductive well_formed :: "string \<Rightarrow> bool" where
  nil: "well_formed []"
| char: "char_tail b = Some Ps \<Longrightarrow> matched Ps bs = length Ps \<Longrightarrow> well_formed (drop (length Ps) bs) \<Longrightarrow>
    well_formed (b # bs)"

lemma from_utf8_lossy_id [simp]: "well_formed s \<Longrightarrow> from_utf8_lossy s = s"
  by (induction rule: well_formed.induct) (simp_all add: Let_def)

definition is_ascii :: "string \<Rightarrow> bool" where
  "is_ascii s = list_all (byte_in 0 127) s"

lemma well_formed_ascii: "byte_in 0 127 b \<Longrightarrow> well_formed bs \<Longrightarrow> well_formed (b # bs)"
  by (rule well_formed.char [of _ "[]"]) (auto simp: char_tail_def split: list.split)

lemma matched_append:
  "matched Ps bs = length Ps \<Longrightarrow> matched Ps (bs @ cs) = length Ps"
  by (induction Ps bs rule: matched.induct) (auto split: if_splits)

lemma matched_le: "matched Ps bs \<le> length bs"
  by (induction Ps bs rule: matched.induct) auto

lemma well_formed_append: "well_formed s \<Longrightarrow> well_formed t \<Longrightarrow> well_formed (s @ t)"
proof (induction rule: well_formed.induct)
  case (char b Ps bs)
  have "length Ps \<le> length bs" using char(2) matched_le [of Ps bs] by simp
  then have "well_formed (drop (length Ps) (bs @ t))" using char by simp
  with char(1) matched_append [OF char(2)] show ?case by (simp add: well_formed.char)
qed simp

lemma is_ascii_well_formed: "is_ascii s \<Longrightarrow> well_formed s"
  unfolding is_ascii_def by (induction s) (simp_all add: well_formed.nil well_formed_ascii)

text \<open>An ASCII byte never lies inside a longer character, so text splits at it.\<close>

lemma tail_not_ascii: "char_tail b = Some Ps \<Longrightarrow> P \<in> set Ps \<Longrightarrow> byte_in 0 127 c \<Longrightarrow> \<not> P c"
  by (auto simp: char_tail_def second3_def second4_def is_cont_def byte_in_def split: if_splits)

lemma matched_stops:
  "(\<And>P. P \<in> set Ps \<Longrightarrow> \<not> P c) \<Longrightarrow> matched Ps (a @ c # b) = length Ps \<Longrightarrow>
   length Ps \<le> length a \<and> matched Ps a = length Ps"
proof (induction Ps arbitrary: a)
  case (Cons P Ps)
  then show ?case by (cases a) (auto split: if_splits)
qed (cases a; simp)

lemma well_formed_split:
  assumes "well_formed s" "s = a @ c # b" "byte_in 0 127 c"
  shows "well_formed a \<and> well_formed b"
  using assms
proof (induction arbitrary: a rule: well_formed.induct)
  case (char x Ps bs)
  show ?case
  proof (cases a)
    case Nil
    with char.prems have "x = c" "bs = b" by simp_all
    moreover from this char(1) char.prems have "Ps = []" by (simp add: char_tail_def)
    ultimately show ?thesis using char Nil by (simp add: well_formed.nil)
  next
    case (Cons y a')
    with char.prems have bs: "bs = a' @ c # b" and y: "y = x" by simp_all
    have st: "length Ps \<le> length a' \<and> matched Ps a' = length Ps"
      using matched_stops [of Ps c a' b] tail_not_ascii [OF char(1)] char.prems(2) char(2) unfolding bs by blast
    then have "drop (length Ps) bs = drop (length Ps) a' @ c # b" by (simp add: bs)
    with char.IH char.prems(2) have "well_formed (drop (length Ps) a')" "well_formed b" by blast+
    with st char(1) show ?thesis by (simp add: Cons y well_formed.char)
  qed
qed simp

lemma well_formed_split_on:
  assumes "byte_in 0 127 c"
  shows "well_formed s \<Longrightarrow> piece \<in> set (split_on c s) \<Longrightarrow> well_formed piece"
proof (induction "length s" arbitrary: s piece rule: less_induct)
  case less
  show ?case
  proof (cases "c \<in> set s")
    case True
    then obtain a b where s: "s = a @ c # b" "c \<notin> set a" by (meson split_list_first)
    have "split_on c s = a # split_on c b" unfolding s(1) using s(2) by (induction a) auto
    moreover have "well_formed a" "well_formed b" using well_formed_split [OF less.prems(1) s(1) assms] by auto
    ultimately show ?thesis using less.hyps [of b] less.prems(2) s(1) by auto
  next
    case False
    then have "split_on c s = [s]" by (induction s) auto
    with less.prems show ?thesis by simp
  qed
qed

end
