(* ===== verification/Sse.thy ===== *)
theory Sse
  imports Utf8
begin

text \<open>
  Server-Sent Events of \<open>ap-jsonrpc/src/sse.rs\<close>: the formatter and the incremental parser, which the
  MCP and A2A transports feed with whatever the network delivers. Events that were
  formatted come out again, however the bytes are cut into chunks; for arbitrary streams
  the events do not depend on the cutting either, unless a chunk ends with a carriage return.
\<close>

definition LF :: char where "LF = CHR 0x0A"
definition CR :: char where "CR = CHR 0x0D"

record SseEvent =
  se_event :: "string option"
  se_data :: string
  se_id :: "string option"
  se_retry :: "nat option"

record SseParser =
  sp_buf :: string
  sp_event_type :: "string option"
  sp_data :: "string list"
  sp_id :: "string option"
  sp_retry :: "nat option"
  saw_data_field :: bool
  bom_checked :: bool
  last_was_cr :: bool

subsection \<open>Formatting\<close>

definition field_line :: "string \<Rightarrow> string \<Rightarrow> string" where
  "field_line name v = name @ '': '' @ v @ [LF]"

definition to_wire :: "SseEvent \<Rightarrow> string" where
  "to_wire e =
     (case se_event e of Some ev \<Rightarrow> field_line ''event'' ev | None \<Rightarrow> []) @
     (case se_id e of Some i \<Rightarrow> field_line ''id'' i | None \<Rightarrow> []) @
     (case se_retry e of Some r \<Rightarrow> field_line ''retry'' (show_nat r) | None \<Rightarrow> []) @
     concat (map (field_line ''data'') (split_on LF (se_data e))) @ [LF]"

definition sse_comment :: "string \<Rightarrow> string" where
  "sse_comment t = '': '' @ t @ [LF]"

subsection \<open>Parsing\<close>

definition SseParser_new :: SseParser where
  "SseParser_new =
     \<lparr> sp_buf = [], sp_event_type = None, sp_data = [], sp_id = None, sp_retry = None,
       saw_data_field = False, bom_checked = False, last_was_cr = False \<rparr>"

definition BOM :: string where
  "BOM = [CHR 0xEF, CHR 0xBB, CHR 0xBF]"

text \<open>The first part of \<open>next_line\<close>: \<open>None\<close> when too little has arrived to look for a byte order mark.\<close>

definition check_bom :: "SseParser \<Rightarrow> SseParser option" where
  "check_bom p =
     (if bom_checked p then Some p
      else if length (sp_buf p) < 3 then
        (if sp_buf p \<noteq> [] \<and> \<not> starts_with (sp_buf p) [CHR 0xEF] then Some (p\<lparr> bom_checked := True \<rparr>) else None)
      else Some (p\<lparr> bom_checked := True,
                   sp_buf := (if starts_with (sp_buf p) BOM then drop 3 (sp_buf p) else sp_buf p) \<rparr>))"

definition skip_lf :: "SseParser \<Rightarrow> SseParser" where
  "skip_lf p =
     (if last_was_cr p then
        p\<lparr> last_was_cr := False,
           sp_buf := (case sp_buf p of c # cs \<Rightarrow> if c = LF then cs else sp_buf p | [] \<Rightarrow> []) \<rparr>
      else p)"

definition not_eol :: "char \<Rightarrow> bool" where
  "not_eol c = (c \<noteq> LF \<and> c \<noteq> CR)"

definition scan_line :: "SseParser \<Rightarrow> (string \<times> nat) option \<times> SseParser" where
  "scan_line p =
     (let pre = takeWhile not_eol (sp_buf p); i = length pre; line = from_utf8_lossy pre in
      case dropWhile not_eol (sp_buf p) of
        [] \<Rightarrow> (None, p)
      | b # rest \<Rightarrow>
          if b = LF then (Some (line, i + 1), p)
          else (case rest of
                  c # _ \<Rightarrow> (Some (line, if c = LF then i + 2 else i + 1), p)
                | [] \<Rightarrow> (Some (line, i + 1), p\<lparr> last_was_cr := True \<rparr>)))"

definition next_line :: "SseParser \<Rightarrow> (string \<times> nat) option \<times> SseParser" where
  "next_line p = (case check_bom p of None \<Rightarrow> (None, p) | Some p' \<Rightarrow> scan_line (skip_lf p'))"

definition sse_dispatch :: "SseParser \<Rightarrow> SseEvent option \<times> SseParser" where
  "sse_dispatch p =
     (if \<not> saw_data_field p then (None, p\<lparr> sp_event_type := None, sp_data := [] \<rparr>)
      else (Some \<lparr> se_event = sp_event_type p, se_data = join [LF] (sp_data p), se_id = sp_id p, se_retry = sp_retry p \<rparr>,
            p\<lparr> sp_event_type := None, sp_retry := None, sp_data := [], saw_data_field := False \<rparr>))"

definition split_field :: "string \<Rightarrow> string \<times> string" where
  "split_field line =
     (case split_once (CHR '':'') line of
        Some (field, v) \<Rightarrow> (field, case v of c # cs \<Rightarrow> if c = CHR '' '' then cs else v | [] \<Rightarrow> [])
      | None \<Rightarrow> (line, []))"

definition process_field :: "string \<Rightarrow> string \<Rightarrow> SseParser \<Rightarrow> SseParser" where
  "process_field field v p =
     (if field = ''event'' then p\<lparr> sp_event_type := Some v \<rparr>
      else if field = ''data'' then p\<lparr> sp_data := sp_data p @ [v], saw_data_field := True \<rparr>
      else if field = ''id'' then (if CHR 0x00 \<in> set v then p else p\<lparr> sp_id := Some v \<rparr>)
      else if field = ''retry'' then (case parse_u64 v of Some ms \<Rightarrow> p\<lparr> sp_retry := Some ms \<rparr> | None \<Rightarrow> p)
      else p)"

definition process_line :: "SseParser \<Rightarrow> string \<Rightarrow> SseEvent option \<times> SseParser" where
  "process_line p line =
     (case line of
        [] \<Rightarrow> sse_dispatch p
      | c # _ \<Rightarrow>
          if c = CHR '':'' then (None, p)
          else (case split_field line of (field, v) \<Rightarrow> (None, process_field field v p)))"

definition list_of_option :: "'a option \<Rightarrow> 'a list" where
  "list_of_option x = (case x of Some y \<Rightarrow> [y] | None \<Rightarrow> [])"

lemma skip_lf_length: "length (sp_buf (skip_lf p)) \<le> length (sp_buf p)"
  by (auto simp: skip_lf_def split: list.split)

lemma check_bom_length: "check_bom p = Some q \<Longrightarrow> length (sp_buf q) \<le> length (sp_buf p)"
  by (auto simp: check_bom_def split: if_splits)

lemma dropWhile_length: "dropWhile P xs = y # ys \<Longrightarrow> length xs = length (takeWhile P xs) + Suc (length ys)"
  by (metis length_append length_Cons takeWhile_dropWhile_id)

lemma scan_line_progress:
  "scan_line p = (Some (line, n), q) \<Longrightarrow> 0 < n \<and> n \<le> length (sp_buf q) \<and> sp_buf q = sp_buf p"
  by (auto simp: scan_line_def Let_def dest!: dropWhile_length split: list.splits if_splits)

lemma next_line_progress:
  assumes "next_line p = (Some (line, n), q)"
  shows "0 < n \<and> n \<le> length (sp_buf q) \<and> length (sp_buf q) \<le> length (sp_buf p)"
proof -
  obtain p' where p': "check_bom p = Some p'" and sc: "scan_line (skip_lf p') = (Some (line, n), q)"
    using assms by (auto simp: next_line_def split: option.splits)
  from scan_line_progress [OF sc] check_bom_length [OF p'] skip_lf_length [of p'] show ?thesis by auto
qed

lemma process_line_buf [simp]: "sp_buf (snd (process_line p line)) = sp_buf p"
  by (auto simp: process_line_def sse_dispatch_def process_field_def split: list.split prod.split option.split)

text \<open>The loop of \<open>feed\<close>: it ends because every line consumes at least its terminator.\<close>

function feed_loop :: "SseParser \<Rightarrow> SseEvent list \<times> SseParser" where
  "feed_loop p =
     (case next_line p of
        (None, q) \<Rightarrow> ([], q)
      | (Some (line, n), q) \<Rightarrow>
          let (ev, r) = process_line q line;
              (evs, t) = feed_loop (r\<lparr> sp_buf := drop n (sp_buf r) \<rparr>)
          in (list_of_option ev @ evs, t))"
  by pat_completeness auto
termination
proof (relation "measure (length \<circ> sp_buf)", goal_cases)
  case (2 p ln q lnn line n z ev r)
  then have "sp_buf r = sp_buf q" by (metis process_line_buf snd_conv)
  with 2 next_line_progress [of p line n q] show ?case by auto
qed simp

declare feed_loop.simps [simp del]

definition feed :: "SseParser \<Rightarrow> string \<Rightarrow> SseEvent list \<times> SseParser" where
  "feed p chunk = feed_loop (p\<lparr> sp_buf := sp_buf p @ chunk \<rparr>)"

definition sse_finish :: "SseParser \<Rightarrow> SseEvent option \<times> SseParser" where
  "sse_finish p =
     (if sp_buf p \<noteq> [] then
        (case process_line (p\<lparr> sp_buf := [] \<rparr>) (from_utf8_lossy (sp_buf p)) of
           (Some ev, q) \<Rightarrow> (Some ev, q)
         | (None, q) \<Rightarrow> sse_dispatch q)
      else sse_dispatch p)"

definition parse_all :: "string \<Rightarrow> SseEvent list" where
  "parse_all t =
     (let (events, p) = feed SseParser_new t in events @ list_of_option (fst (sse_finish p)))"

fun feed_all :: "SseParser \<Rightarrow> string list \<Rightarrow> SseEvent list \<times> SseParser" where
  "feed_all p [] = ([], p)"
| "feed_all p (c # cs) =
     (let (evs, q) = feed p c; (evs', r) = feed_all q cs in (evs @ evs', r))"

subsection \<open>The events do not depend on the chunks\<close>

lemma dropWhile_append_some: "dropWhile P xs = y # ys \<Longrightarrow> dropWhile P (xs @ zs) = y # ys @ zs \<and>
    takeWhile P (xs @ zs) = takeWhile P xs"
  by (induction xs) (auto split: if_splits)

lemma dropWhile_append_none: "dropWhile P xs = [] \<Longrightarrow> takeWhile P xs = xs"
  by (metis append_Nil2 takeWhile_dropWhile_id)

definition put_more :: "SseParser \<Rightarrow> string \<Rightarrow> SseParser" where
  "put_more p b = p\<lparr> sp_buf := sp_buf p @ b \<rparr>"

lemma put_more_simps [simp]:
  "sp_buf (put_more p b) = sp_buf p @ b" "last_was_cr (put_more p b) = last_was_cr p"
  "bom_checked (put_more p b) = bom_checked p" "saw_data_field (put_more p b) = saw_data_field p"
  "sp_event_type (put_more p b) = sp_event_type p" "sp_data (put_more p b) = sp_data p"
  "sp_id (put_more p b) = sp_id p" "sp_retry (put_more p b) = sp_retry p"
  by (simp_all add: put_more_def)

lemma starts_with_more: "length p \<le> length s \<Longrightarrow> starts_with (s @ t) p = starts_with s p"
  by (induction s p rule: starts_with.induct) auto

lemma check_bom_more:
  assumes "check_bom p = Some q"
  shows "check_bom (put_more p b) = Some (put_more q b)"
proof (cases "bom_checked p \<or> 3 \<le> length (sp_buf p)")
  case True
  with assms starts_with_more [of BOM "sp_buf p" b] show ?thesis
    by (auto simp: check_bom_def put_more_def BOM_def)
next
  case False
  with assms obtain c cs where c: "sp_buf p = c # cs" "c \<noteq> CHR 0xEF" and q: "q = p\<lparr> bom_checked := True \<rparr>"
    by (cases "sp_buf p") (auto simp: check_bom_def split: if_splits)
  with False show ?thesis by (auto simp: check_bom_def put_more_def BOM_def)
qed

lemma scan_line_more:
  assumes "scan_line p = (Some l, q)" "last (sp_buf p) \<noteq> CR"
  shows "scan_line (put_more p b) = (Some l, put_more q b) \<and> q = p"
proof -
  obtain c rest where d: "dropWhile not_eol (sp_buf p) = c # rest"
    using assms(1) by (auto simp: scan_line_def Let_def split: list.splits)
  have "rest = [] \<Longrightarrow> c = LF"
  proof -
    assume "rest = []"
    then have "last (sp_buf p) = c" by (metis d last_ConsL last_appendR list.distinct(1) takeWhile_dropWhile_id)
    moreover have "\<not> not_eol c" using d by (metis hd_dropWhile list.distinct(1) list.sel(1))
    ultimately show "c = LF" using assms(2) by (simp add: not_eol_def)
  qed
  with assms(1) d dropWhile_append_some [OF d, of b] show ?thesis
    by (cases rest) (auto simp: scan_line_def Let_def put_more_def split: if_splits)
qed

lemma process_line_more: "process_line (put_more p b) line = map_prod id (\<lambda>q. put_more q b) (process_line p line)"
  by (auto simp: process_line_def sse_dispatch_def process_field_def put_more_def split: list.split prod.split option.split)

text \<open>A parser between two chunks that did not end with a carriage return.\<close>

definition cr_free_end :: "string \<Rightarrow> bool" where
  "cr_free_end s = (s = [] \<or> last s \<noteq> CR)"

lemma cr_free_end_drop: "cr_free_end s \<Longrightarrow> cr_free_end (drop n s)"
  by (auto simp: cr_free_end_def)

lemma check_bom_end: "check_bom p = Some q \<Longrightarrow> cr_free_end (sp_buf p) \<Longrightarrow> cr_free_end (sp_buf q)"
  by (auto simp: check_bom_def intro: cr_free_end_drop split: if_splits)

lemma check_bom_cr: "check_bom p = Some q \<Longrightarrow> last_was_cr q = last_was_cr p"
  by (auto simp: check_bom_def split: if_splits)

lemma scan_None: "scan_line p = (None, q) \<Longrightarrow> q = p"
  by (auto simp: scan_line_def Let_def split: list.splits if_splits)

lemma scan_Some_buf: "scan_line p = (Some l, q) \<Longrightarrow> sp_buf p \<noteq> []"
  by (auto simp: scan_line_def Let_def split: list.splits if_splits)

lemma check_bom_again: "check_bom p = Some q \<Longrightarrow> check_bom q = Some q"
  by (auto simp: check_bom_def split: if_splits)

lemma feed_loop_None: "next_line p = (None, q) \<Longrightarrow> feed_loop p = ([], q)"
  by (simp add: feed_loop.simps)

lemma feed_loop_Some:
  "next_line p = (Some (line, n), q) \<Longrightarrow> process_line q line = (ev, r) \<Longrightarrow>
   feed_loop p = (case feed_loop (r\<lparr> sp_buf := drop n (sp_buf r) \<rparr>) of (evs, t) \<Rightarrow> (list_of_option ev @ evs, t))"
  by (simp add: feed_loop.simps)

lemma process_line_cr [simp]: "last_was_cr (snd (process_line p line)) = last_was_cr p"
  by (auto simp: process_line_def sse_dispatch_def process_field_def split: list.split prod.split option.split)

lemma feed_loop_more:
  assumes "cr_free_end (sp_buf p)" "\<not> last_was_cr p"
  shows "feed_loop (put_more p b) =
    (case feed_loop p of (e1, q) \<Rightarrow> case feed_loop (put_more q b) of (e2, r) \<Rightarrow> (e1 @ e2, r)) \<and>
    \<not> last_was_cr (snd (feed_loop p))"
  using assms
proof (induction p rule: feed_loop.induct)
  case (1 p)
  show ?case
  proof (cases "check_bom p")
    case None
    then have "next_line p = (None, p)" by (simp add: next_line_def)
    then show ?thesis using 1(3) by (simp add: feed_loop_None split: prod.split)
  next
    case (Some p')
    note cb = Some
    have p': "\<not> last_was_cr p'" "cr_free_end (sp_buf p')"
      using check_bom_cr [OF Some] check_bom_end [OF Some] 1(2,3) by auto
    have nl: "next_line p = scan_line p'" "next_line (put_more p b) = scan_line (put_more p' b)"
      "next_line (put_more p' b) = scan_line (put_more p' b)"
      using Some check_bom_more [OF Some] check_bom_more [OF check_bom_again [OF Some]] p'
      by (simp_all add: next_line_def skip_lf_def)
    show ?thesis
    proof (cases "scan_line p'")
      case (Pair o' q)
      show ?thesis
      proof (cases o')
        case None
        then have "q = p'" using Pair scan_None by simp
        then have "feed_loop p = ([], p')" using nl(1) Pair None by (simp add: feed_loop_None)
        moreover have "feed_loop (put_more p b) = feed_loop (put_more p' b)"
          by (subst (1 2) feed_loop.simps) (simp add: nl)
        ultimately show ?thesis using p' by (simp split: prod.split)
      next
        case (Some l)
        obtain line n where l: "l = (line, n)" by (cases l)
        have "last (sp_buf p') \<noteq> CR" using p'(2) scan_Some_buf [of p'] Pair Some by (auto simp: cr_free_end_def)
        then have more: "scan_line (put_more p' b) = (Some (line, n), put_more p' b)" "q = p'"
          using scan_line_more [of p' l q b] Pair Some l by auto
        obtain ev r where pl: "process_line p' line = (ev, r)" by fastforce
        have r: "sp_buf r = sp_buf p'" "\<not> last_was_cr r"
          using pl process_line_buf [of p' line] process_line_cr [of p' line] p'(1) by auto
        have n: "n \<le> length (sp_buf r)" using scan_line_progress [of p' line n q] Pair Some l more r by auto
        let ?r = "r\<lparr> sp_buf := drop n (sp_buf r) \<rparr>"
        have "put_more ?r b = (put_more r b)\<lparr> sp_buf := drop n (sp_buf (put_more r b)) \<rparr>"
          using n by (simp add: put_more_def)
        moreover have "process_line (put_more p' b) line = (ev, put_more r b)"
          using pl by (simp add: process_line_more)
        ultimately have m: "feed_loop (put_more p b) =
            (case feed_loop (put_more ?r b) of (evs, t) \<Rightarrow> (list_of_option ev @ evs, t))"
          using feed_loop_Some [of "put_more p b"] nl(2) more(1) by metis
        have "feed_loop p = (case feed_loop ?r of (evs, t) \<Rightarrow> (list_of_option ev @ evs, t))"
          using feed_loop_Some [of p line n p' ev r] nl(1) Pair Some l more(2) pl by simp
        moreover have "cr_free_end (sp_buf ?r)" "\<not> last_was_cr ?r"
          using r p'(2) cr_free_end_drop by simp_all
        ultimately have p: "feed_loop p = (case feed_loop ?r of (evs, t) \<Rightarrow> (list_of_option ev @ evs, t))"
          and ok: "cr_free_end (sp_buf ?r)" "\<not> last_was_cr ?r" by blast+
        have "next_line p = (Some (line, n), p')" using nl(1) Pair Some l more(2) by simp
        note IH = 1(1) [OF this [symmetric] refl refl pl [symmetric] refl ok]
        obtain e1 t where r1: "feed_loop ?r = (e1, t)" by fastforce
        obtain e2 u where r2: "feed_loop (put_more t b) = (e2, u)" by fastforce
        show ?thesis using IH by (simp add: m p r1 r2)
      qed
    qed
  qed
qed

lemma next_line_suffix: "\<exists>n. sp_buf (snd (next_line p)) = drop n (sp_buf p)"
proof (cases "check_bom p")
  case (Some q)
  then have "\<exists>n. sp_buf q = drop n (sp_buf p)" by (auto simp: check_bom_def intro: exI [of _ 0] split: if_splits)
  moreover have "\<exists>n. sp_buf (skip_lf q) = drop n (sp_buf q)"
    by (auto simp: skip_lf_def intro: exI [of _ 0] exI [of _ 1] split: list.split)
  moreover have "sp_buf (snd (scan_line (skip_lf q))) = sp_buf (skip_lf q)"
    by (auto simp: scan_line_def Let_def split: list.split)
  ultimately show ?thesis using Some by (auto simp: next_line_def)
qed (auto simp: next_line_def intro: exI [of _ 0])

lemma feed_loop_suffix: "\<exists>n. sp_buf (snd (feed_loop p)) = drop n (sp_buf p)"
proof (induction p rule: feed_loop.induct)
  case (1 p)
  obtain m where m: "sp_buf (snd (next_line p)) = drop m (sp_buf p)" using next_line_suffix by blast
  show ?case
  proof (cases "next_line p")
    case (Pair l q)
    show ?thesis
    proof (cases l)
      case None
      then show ?thesis using m Pair by (auto simp: feed_loop_None)
    next
      case (Some x)
      obtain line n where x: "x = (line, n)" by (cases x)
      obtain ev r where pl: "process_line q line = (ev, r)" by fastforce
      have "sp_buf r = drop m (sp_buf p)" using pl m Pair process_line_buf [of q line] by simp
      moreover obtain k where "sp_buf (snd (feed_loop (r\<lparr> sp_buf := drop n (sp_buf r) \<rparr>))) = drop k (drop n (sp_buf r))"
        using 1 [OF Pair [symmetric] Some x [symmetric] refl pl [symmetric]] by auto
      ultimately show ?thesis
        using feed_loop_Some [OF _ pl, of p n] Pair Some x by (auto simp: case_prod_beta)
    qed
  qed
qed

lemma feed_all_concat:
  assumes "chunks \<noteq> []" "\<not> last_was_cr p" "cr_free_end (sp_buf p)"
    and "\<And>c. c \<in> set (butlast chunks) \<Longrightarrow> cr_free_end c"
  shows "feed_all p chunks = feed p (concat chunks)"
  using assms
proof (induction chunks arbitrary: p rule: list_nonempty_induct)
  case (single c)
  then show ?case by (simp split: prod.split)
next
  case (cons c cs)
  obtain e q where q: "feed p c = (e, q)" by fastforce
  let ?p = "put_more p c"
  have p: "cr_free_end (sp_buf ?p)" "\<not> last_was_cr ?p"
    using cons.prems cons.hyps by (auto simp: cr_free_end_def last_append)
  have fp: "feed_loop ?p = (e, q)" using q by (simp add: feed_def put_more_def)
  have step: "feed_loop (put_more ?p (concat cs)) =
      (case feed_loop (put_more q (concat cs)) of (e2, r) \<Rightarrow> (e @ e2, r)) \<and> \<not> last_was_cr q"
    using feed_loop_more [OF p, of "concat cs"] by (simp add: fp)
  have "cr_free_end (sp_buf q)" using feed_loop_suffix [of ?p] fp p(1) cr_free_end_drop by (metis snd_conv)
  then have "feed_all q cs = feed q (concat cs)"
    using cons.IH step cons.prems(3) cons.hyps by simp
  with step q show ?case by (simp add: feed_def put_more_def case_prod_beta)
qed

lemma feed_nothing: "feed SseParser_new [] = ([], SseParser_new)"
  by (simp add: feed_def feed_loop_None next_line_def check_bom_def SseParser_new_def)

lemma feed_all_new:
  assumes "\<And>c. c \<in> set (butlast chunks) \<Longrightarrow> c = [] \<or> last c \<noteq> CR"
  shows "feed_all SseParser_new chunks = feed SseParser_new (concat chunks)"
proof (cases "chunks = []")
  case False
  then show ?thesis
    by (rule feed_all_concat) (use assms in \<open>auto simp: SseParser_new_def cr_free_end_def\<close>)
qed (simp add: feed_nothing)

subsection \<open>Formatted events come back\<close>

text \<open>A parser past the byte order mark, by its fields.\<close>

definition parsing ::
  "string option \<Rightarrow> string list \<Rightarrow> string option \<Rightarrow> nat option \<Rightarrow> bool \<Rightarrow> string \<Rightarrow> SseParser" where
  "parsing ev ds i r seen buf =
     \<lparr> sp_buf = buf, sp_event_type = ev, sp_data = ds, sp_id = i, sp_retry = r,
       saw_data_field = seen, bom_checked = True, last_was_cr = False \<rparr>"

definition one_line :: "string \<Rightarrow> bool" where
  "one_line v \<longleftrightarrow> list_all not_eol v \<and> well_formed v"

lemma takeWhile_line:
  "list_all not_eol v \<Longrightarrow> takeWhile not_eol (v @ LF # rest) = v \<and> dropWhile not_eol (v @ LF # rest) = LF # rest"
  by (induction v) (simp_all add: not_eol_def)

lemma feed_one_line:
  assumes "one_line v" "process_line (parsing e ds i r sn (v @ LF # rest)) v = (ev, q)"
  shows "feed_loop (parsing e ds i r sn (v @ LF # rest)) =
    (case feed_loop (q\<lparr> sp_buf := rest \<rparr>) of (evs, t) \<Rightarrow> (list_of_option ev @ evs, t))"
proof -
  let ?p = "parsing e ds i r sn (v @ LF # rest)"
  have "next_line ?p = (Some (v, Suc (length v)), ?p)"
    using assms(1) takeWhile_line [of v rest]
    by (simp add: next_line_def check_bom_def skip_lf_def scan_line_def parsing_def one_line_def)
  moreover have "sp_buf q = v @ LF # rest" using assms(2) process_line_buf [of ?p v] by (simp add: parsing_def)
  ultimately show ?thesis using feed_loop_Some [OF _ assms(2)] by simp
qed

lemma feed_field:
  assumes "one_line v" "CHR '':'' \<notin> set name" "one_line name" "name \<noteq> []"
  shows "feed_loop (parsing e ds i r sn (field_line name v @ rest)) =
    feed_loop ((process_field name v (parsing e ds i r sn (field_line name v @ rest)))\<lparr> sp_buf := rest \<rparr>)"
proof -
  let ?l = "name @ '': '' @ v"
  have l: "one_line ?l"
  proof -
    have "well_formed ('': '' @ v)"
      using assms(1) by (simp add: one_line_def well_formed_ascii byte_in_def)
    then show ?thesis using assms by (auto simp: one_line_def not_eol_def LF_def CR_def intro: well_formed_append)
  qed
  have w: "field_line name v @ rest = ?l @ LF # rest" by (simp add: field_line_def)
  have "process_line p ?l = (None, process_field name v p)" for p
    using assms(2,4) by (cases name) (auto simp: process_line_def split_field_def)
  from feed_one_line [OF l this] show ?thesis unfolding w by (simp add: list_of_option_def)
qed

lemma ascii_line: "list_all (\<lambda>c. not_eol c \<and> byte_in 0 127 c) s \<Longrightarrow> one_line s"
  using is_ascii_well_formed [of s] by (simp add: one_line_def list_all_iff is_ascii_def)

lemma field_names: "one_line ''event''" "one_line ''id''" "one_line ''retry''" "one_line ''data''"
  by (rule ascii_line; simp add: not_eol_def LF_def CR_def byte_in_def)+

lemma feed_event: "one_line v \<Longrightarrow>
    feed_loop (parsing e ds i r sn (field_line ''event'' v @ rest)) = feed_loop (parsing (Some v) ds i r sn rest)"
  by (subst feed_field) (simp_all add: field_names process_field_def parsing_def)

lemma feed_id: "one_line v \<Longrightarrow> CHR 0x00 \<notin> set v \<Longrightarrow>
    feed_loop (parsing e ds i r sn (field_line ''id'' v @ rest)) = feed_loop (parsing e ds (Some v) r sn rest)"
  by (subst feed_field) (simp_all add: field_names process_field_def parsing_def)

lemma show_nat_line: "one_line (show_nat n)"
proof (rule ascii_line, unfold list_all_iff, rule ballI)
  fix c assume "c \<in> set (show_nat n)"
  from digit_val_in_show_nat [OF this] show "not_eol c \<and> byte_in 0 127 c"
    by (auto simp: digit_val_def not_eol_def LF_def CR_def byte_in_def Let_def split: if_splits)
qed

lemma feed_retry: "n < 2 ^ 64 \<Longrightarrow>
    feed_loop (parsing e ds i r sn (field_line ''retry'' (show_nat n) @ rest)) = feed_loop (parsing e ds i (Some n) sn rest)"
  by (subst feed_field) (simp_all add: field_names process_field_def parsing_def show_nat_line parse_u64_show_nat)

lemma feed_data: "list_all one_line vs \<Longrightarrow>
    feed_loop (parsing e ds i r sn (concat (map (field_line ''data'') vs) @ rest)) =
    feed_loop (parsing e (ds @ vs) i r (sn \<or> vs \<noteq> []) rest)"
proof (induction vs arbitrary: ds sn)
  case (Cons v vs)
  then show ?case
    using feed_field [of v "''data''" e ds i r sn "concat (map (field_line ''data'') vs) @ rest"]
      Cons.IH [of "ds @ [v]" True]
    by (simp add: field_names process_field_def parsing_def)
qed simp

lemma feed_blank:
  "feed_loop (parsing e ds i r True (LF # rest)) =
    (case feed_loop (parsing None [] i None False rest) of
       (evs, t) \<Rightarrow> (\<lparr> se_event = e, se_data = join [LF] ds, se_id = i, se_retry = r \<rparr> # evs, t))"
proof -
  have "process_line p [] = sse_dispatch p" for p by (simp add: process_line_def)
  then show ?thesis
    using feed_one_line [of "[]" e ds i r True rest]
    by (simp add: one_line_def well_formed.nil sse_dispatch_def parsing_def list_of_option_def)
qed

text \<open>Events that the line format can carry.\<close>

definition wire_ok :: "SseEvent \<Rightarrow> bool" where
  "wire_ok e \<longleftrightarrow>
     (\<forall>v. se_event e = Some v \<longrightarrow> one_line v) \<and>
     (\<forall>v. se_id e = Some v \<longrightarrow> one_line v \<and> CHR 0x00 \<notin> set v) \<and>
     (\<forall>n. se_retry e = Some n \<longrightarrow> n < 2 ^ 64) \<and> CR \<notin> set (se_data e) \<and> well_formed (se_data e)"

lemma data_lines: "CR \<notin> set d \<Longrightarrow> well_formed d \<Longrightarrow> list_all one_line (split_on LF d)"
  using set_split_on [of _ LF d] well_formed_split_on [of LF d]
  by (fastforce simp: list_all_iff one_line_def not_eol_def byte_in_def LF_def)

definition or_id :: "string option \<Rightarrow> string option \<Rightarrow> string option" where
  "or_id i j = (case i of Some x \<Rightarrow> Some x | None \<Rightarrow> j)"

lemma feed_wire:
  assumes "wire_ok e"
  shows "feed_loop (parsing None [] i None False (to_wire e @ rest)) =
    (case feed_loop (parsing None [] (or_id (se_id e) i) None False rest) of
       (evs, t) \<Rightarrow> (e\<lparr> se_id := or_id (se_id e) i \<rparr> # evs, t))"
proof -
  have d: "list_all one_line (split_on LF (se_data e))" using assms data_lines by (simp add: wire_ok_def)
  have body: "feed_loop (parsing ev [] j r False (concat (map (field_line ''data'') (split_on LF (se_data e))) @ LF # rest)) =
      (case feed_loop (parsing None [] j None False rest) of
         (evs, t) \<Rightarrow> (\<lparr> se_event = ev, se_data = se_data e, se_id = j, se_retry = r \<rparr> # evs, t))" for ev j r
    using feed_data [OF d] feed_blank by simp
  show ?thesis
    using assms
    by (cases "se_event e"; cases "se_id e"; cases "se_retry e")
       (simp_all add: to_wire_def wire_ok_def feed_event feed_id feed_retry body or_id_def, (cases e; simp)+)
qed

text \<open>An event without an identifier comes back with the last one seen, as the specification of event streams says.\<close>

fun carry_ids :: "string option \<Rightarrow> SseEvent list \<Rightarrow> SseEvent list" where
  "carry_ids i [] = []"
| "carry_ids i (e # es) = e\<lparr> se_id := or_id (se_id e) i \<rparr> # carry_ids (or_id (se_id e) i) es"

lemma feed_wires:
  "list_all wire_ok evs \<Longrightarrow>
   fst (feed_loop (parsing None [] i None False (concat (map to_wire evs)))) = carry_ids i evs"
proof (induction evs arbitrary: i)
  case Nil
  show ?case by (simp add: feed_loop_None next_line_def check_bom_def skip_lf_def scan_line_def parsing_def)
next
  case (Cons e evs)
  then show ?case by (simp add: feed_wire case_prod_beta)
qed

lemma to_wire_head: "\<exists>c cs. to_wire e = c # cs \<and> c \<in> {CHR ''e'', CHR ''i'', CHR ''r'', CHR ''d''}"
  by (cases "split_on LF (se_data e)") (auto simp: to_wire_def field_line_def split: option.split)

lemma feed_past_bom:
  assumes "buf = c # cs" "c \<noteq> CHR 0xEF"
  shows "feed SseParser_new buf = feed_loop (parsing None [] None None False buf)"
proof -
  have "next_line (SseParser_new\<lparr> sp_buf := buf \<rparr>) = next_line (parsing None [] None None False buf)"
    using assms by (simp add: next_line_def check_bom_def SseParser_new_def parsing_def BOM_def)
  then show ?thesis unfolding feed_def by (subst (1 2) feed_loop.simps) (simp add: SseParser_new_def)
qed

lemma wire_cr_free: "wire_ok e \<Longrightarrow> CR \<notin> set (to_wire e)"
proof -
  assume ok: "wire_ok e"
  have "CR \<notin> set v" if "one_line v" for v using that by (auto simp: one_line_def list_all_iff not_eol_def)
  moreover have "CR \<notin> set piece" if "piece \<in> set (split_on LF (se_data e))" for piece
    using set_split_on [OF that] ok by (auto simp: wire_ok_def)
  moreover have "CR \<notin> set (show_nat n)" for n using show_nat_line [of n] calculation by blast
  moreover have "LF \<noteq> CR" "CR \<noteq> CHR '' ''" "CR \<noteq> CHR '':''" by (simp_all add: LF_def CR_def)
  moreover have "CR \<notin> set ''event''" "CR \<notin> set ''id''" "CR \<notin> set ''retry''" "CR \<notin> set ''data''" by (simp_all add: CR_def)
  ultimately show ?thesis using ok by (auto simp: to_wire_def field_line_def wire_ok_def split: option.splits)
qed

lemma stream_events:
  assumes "list_all wire_ok evs" "concat chunks = concat (map to_wire evs)"
  shows "fst (feed_all SseParser_new chunks) = carry_ids None evs"
proof -
  have "CR \<notin> set (concat chunks)"
    using assms wire_cr_free by (auto simp: list_all_iff)
  then have "c = [] \<or> last c \<noteq> CR" if "c \<in> set (butlast chunks)" for c
    using in_set_butlastD [OF that] last_in_set [of c] by (metis UN_I set_concat)
  then have "feed_all SseParser_new chunks = feed SseParser_new (concat (map to_wire evs))"
    using feed_all_new assms(2) by simp
  moreover have "fst (feed SseParser_new (concat (map to_wire evs))) = carry_ids None evs"
  proof (cases evs)
    case (Cons e es)
    obtain c cs where "to_wire e = c # cs" "c \<noteq> CHR 0xEF" using to_wire_head [of e] by auto
    with Cons have "concat (map to_wire evs) = c # cs @ concat (map to_wire es)" "c \<noteq> CHR 0xEF" by simp_all
    from feed_past_bom [OF this] show ?thesis using feed_wires [OF assms(1)] by simp
  qed (simp add: feed_nothing)
  ultimately show ?thesis by simp
qed

text \<open>
  C19. Formatted events survive the network: when the wire forms of any list of events (event names
  and identifiers on one line, data without carriage returns, well-formed UTF-8) are
  delivered in any chunks, the parser returns exactly these events in order, an event
  without an identifier carrying the last one before it.
\<close>

theorem sse_stream_roundtrip:
  assumes "list_all wire_ok evs" "concat chunks = concat (map to_wire evs)"
  shows "fst (feed_all SseParser_new chunks) = carry_ids None evs"
  using assms by (rule stream_events)

text \<open>
  The parser does not depend on how the network cuts the stream: for every list of chunks none of
  which, except the last, ends with a carriage return, feeding the chunks one by one gives
  the same events, in the same order, and the same state as feeding the whole stream at once.
\<close>

lemma sse_chunking_independent:
  assumes "\<And>c. c \<in> set (butlast chunks) \<Longrightarrow> c = [] \<or> last c \<noteq> CR"
  shows "feed_all SseParser_new chunks = feed SseParser_new (concat chunks)"
  using assms by (rule feed_all_new)

lemma sse_chunking_independent_witness:
  "feed_all SseParser_new [''data: a'' @ [CR, LF], [CR, LF]] = feed SseParser_new (''data: a'' @ [CR, LF, CR, LF])"
  using sse_chunking_independent [of "[''data: a'' @ [CR, LF], [CR, LF]]"] by (simp add: CR_def LF_def)

definition demo_events :: "SseEvent list" where
  "demo_events =
     [\<lparr> se_event = Some ''status'', se_data = ''a'' @ [LF] @ ''b'', se_id = Some ''9'', se_retry = Some 500 \<rparr>,
      \<lparr> se_event = None, se_data = [], se_id = None, se_retry = None \<rparr>]"

lemma demo_events_ok: "list_all wire_ok demo_events"
  unfolding demo_events_def wire_ok_def
  by (auto intro!: ascii_line is_ascii_well_formed simp: is_ascii_def not_eol_def LF_def CR_def byte_in_def)

theorem sse_stream_roundtrip_witness:
  "fst (feed_all SseParser_new (map (\<lambda>c. [c]) (concat (map to_wire demo_events)))) = carry_ids None demo_events"
  by (rule sse_stream_roundtrip [OF demo_events_ok]) simp

subsection \<open>A carriage return at the end of a chunk\<close>

text \<open>
  When a chunk ends between the two bytes of a CRLF, the flag that should swallow the line feed is
  cleared by the look at the empty buffer that ends the same call of \<open>feed\<close>: the line feed
  then counts as an empty line and dispatches the event early.
\<close>

definition split_crlf :: "string list" where
  "split_crlf = [''data: a'' @ [CR], [LF] @ ''data: b'' @ [CR, LF, CR, LF]]"

lemma split_crlf_events:
  "map se_data (fst (feed_all SseParser_new split_crlf)) = [''a'', ''b'']"
  "map se_data (fst (feed SseParser_new (concat split_crlf))) = [''a'' @ [LF] @ ''b'']"
  by code_simp+

end
