(* ===== verification/JsonRpc.thy ===== *)
theory JsonRpc
  imports Json
begin

text \<open>
  The JSON-RPC 2.0 message model of \<open>ap-jsonrpc/src/lib.rs\<close>, which the MCP and the A2A SDK share:
  requests, notifications, responses and errors, their JSON form and the classification
  of an incoming value. The texts that \<open>serde_json\<close> produces are parameters.
\<close>

record RpcEnv =
  rpc_from_str :: "string \<Rightarrow> string + json"
  rpc_to_string :: "json \<Rightarrow> string"
  rpc_de_err :: "json \<Rightarrow> string"

definition JSONRPC_VERSION :: string where "JSONRPC_VERSION = ''2.0''"

definition PARSE_ERROR :: int where "PARSE_ERROR = - 32700"
definition INVALID_REQUEST :: int where "INVALID_REQUEST = - 32600"
definition METHOD_NOT_FOUND :: int where "METHOD_NOT_FOUND = - 32601"
definition INVALID_PARAMS :: int where "INVALID_PARAMS = - 32602"
definition INTERNAL_ERROR :: int where "INTERNAL_ERROR = - 32603"
definition SERVER_ERROR :: int where "SERVER_ERROR = - 32000"

datatype RequestId = IdNumber int | IdString string

definition RequestId_to_value :: "RequestId \<Rightarrow> json" where
  "RequestId_to_value i = (case i of IdNumber n \<Rightarrow> JInt n | IdString s \<Rightarrow> JStr s)"

definition RequestId_as_key :: "RequestId \<Rightarrow> string" where
  "RequestId_as_key i = (case i of IdNumber n \<Rightarrow> show_int n | IdString s \<Rightarrow> s)"

definition RequestId_from_value :: "json \<Rightarrow> RequestId option" where
  "RequestId_from_value v =
     (case v of
        JInt n \<Rightarrow> map_option IdNumber (as_i64 v)
      | JStr s \<Rightarrow> Some (IdString s)
      | _ \<Rightarrow> None)"

record RpcError =
  rpc_code :: int
  rpc_message :: string
  rpc_data :: "json option"

definition RpcError_new :: "int \<Rightarrow> string \<Rightarrow> RpcError" where
  "RpcError_new c m = \<lparr> rpc_code = c, rpc_message = m, rpc_data = None \<rparr>"

definition RpcError_with_data :: "json \<Rightarrow> RpcError \<Rightarrow> RpcError" where
  "RpcError_with_data d e = e\<lparr> rpc_data := Some d \<rparr>"

definition rpc_parse_error :: "string \<Rightarrow> RpcError" where
  "rpc_parse_error = RpcError_new PARSE_ERROR"

definition rpc_invalid_request :: "string \<Rightarrow> RpcError" where
  "rpc_invalid_request = RpcError_new INVALID_REQUEST"

definition rpc_method_not_found :: "string \<Rightarrow> RpcError" where
  "rpc_method_not_found m = RpcError_new METHOD_NOT_FOUND (''Method not found: '' @ m)"

definition rpc_invalid_params :: "string \<Rightarrow> RpcError" where
  "rpc_invalid_params = RpcError_new INVALID_PARAMS"

definition rpc_internal_error :: "string \<Rightarrow> RpcError" where
  "rpc_internal_error = RpcError_new INTERNAL_ERROR"

definition rpc_server_error :: "string \<Rightarrow> RpcError" where
  "rpc_server_error = RpcError_new SERVER_ERROR"

definition is_standard_code :: "RpcError \<Rightarrow> bool" where
  "is_standard_code e =
     (rpc_code e \<in> {PARSE_ERROR, INVALID_REQUEST, METHOD_NOT_FOUND, INVALID_PARAMS, INTERNAL_ERROR})"

definition RpcError_to_value :: "RpcError \<Rightarrow> json" where
  "RpcError_to_value e =
     JObj (some_members [(''code'', Some (JInt (rpc_code e))), (''message'', Some (JStr (rpc_message e))),
                   (''data'', rpc_data e)])"

record RpcRequest =
  rq_jsonrpc :: string
  rq_id :: RequestId
  rq_method :: string
  rq_params :: "json option"

record RpcNotification =
  nt_jsonrpc :: string
  nt_method :: string
  nt_params :: "json option"

record RpcResponse =
  rs_jsonrpc :: string
  rs_id :: "RequestId option"
  rs_result :: "json option"
  rs_error :: "RpcError option"

definition RpcRequest_new :: "RequestId \<Rightarrow> string \<Rightarrow> json option \<Rightarrow> RpcRequest" where
  "RpcRequest_new i m p = \<lparr> rq_jsonrpc = JSONRPC_VERSION, rq_id = i, rq_method = m, rq_params = p \<rparr>"

definition RpcNotification_new :: "string \<Rightarrow> json option \<Rightarrow> RpcNotification" where
  "RpcNotification_new m p = \<lparr> nt_jsonrpc = JSONRPC_VERSION, nt_method = m, nt_params = p \<rparr>"

definition RpcResponse_success :: "RequestId \<Rightarrow> json \<Rightarrow> RpcResponse" where
  "RpcResponse_success i v = \<lparr> rs_jsonrpc = JSONRPC_VERSION, rs_id = Some i, rs_result = Some v, rs_error = None \<rparr>"

definition RpcResponse_error :: "RequestId option \<Rightarrow> RpcError \<Rightarrow> RpcResponse" where
  "RpcResponse_error i e = \<lparr> rs_jsonrpc = JSONRPC_VERSION, rs_id = i, rs_result = None, rs_error = Some e \<rparr>"

definition is_error :: "RpcResponse \<Rightarrow> bool" where
  "is_error r = (rs_error r \<noteq> None)"

definition into_result :: "RpcResponse \<Rightarrow> RpcError + json" where
  "into_result r =
     (case rs_error r of
        Some e \<Rightarrow> Inl e
      | None \<Rightarrow>
          (case rs_result r of
             Some v \<Rightarrow> Inr v
           | None \<Rightarrow> Inl (rpc_internal_error ''response carries neither result nor error'')))"

definition RpcRequest_to_value :: "RpcRequest \<Rightarrow> json" where
  "RpcRequest_to_value r =
     JObj (some_members [(''jsonrpc'', Some (JStr (rq_jsonrpc r))), (''id'', Some (RequestId_to_value (rq_id r))),
                   (''method'', Some (JStr (rq_method r))), (''params'', rq_params r)])"

definition RpcNotification_to_value :: "RpcNotification \<Rightarrow> json" where
  "RpcNotification_to_value n =
     JObj (some_members [(''jsonrpc'', Some (JStr (nt_jsonrpc n))), (''method'', Some (JStr (nt_method n))),
                   (''params'', nt_params n)])"

definition RpcResponse_to_value :: "RpcResponse \<Rightarrow> json" where
  "RpcResponse_to_value r =
     JObj (some_members [(''jsonrpc'', Some (JStr (rs_jsonrpc r))),
                   (''id'', Some (case rs_id r of Some i \<Rightarrow> RequestId_to_value i | None \<Rightarrow> JNull)),
                   (''result'', rs_result r), (''error'', map_option RpcError_to_value (rs_error r))])"

datatype Message = MRequest RpcRequest | MNotification RpcNotification | MResponse RpcResponse

datatype Incoming = Single Message | Batch "Message list"

datatype ParseError = PJson string | PInvalid string | EmptyBatch

definition to_rpc_error :: "ParseError \<Rightarrow> RpcError" where
  "to_rpc_error e =
     (case e of
        PJson t \<Rightarrow> rpc_parse_error t
      | PInvalid m \<Rightarrow> rpc_invalid_request m
      | EmptyBatch \<Rightarrow> rpc_invalid_request ''empty batch'')"

subsection \<open>Decoding\<close>

text \<open>
  The derived decoders: an absent or null optional member is \<open>None\<close>, unknown members are ignored, and a
  struct is also accepted as the array of its fields.
\<close>

definition opt_member :: "JsonDict \<Rightarrow> string \<Rightarrow> json option" where
  "opt_member m k = (case im_get m k of Some JNull \<Rightarrow> None | v \<Rightarrow> v)"

definition str_of_member :: "JsonDict \<Rightarrow> string \<Rightarrow> string option" where
  "str_of_member m k = Option.bind (im_get m k) as_str"

definition some_value :: "json \<Rightarrow> json option" where
  "some_value v = (if v = JNull then None else Some v)"

definition error_of_fields :: "json \<Rightarrow> json \<Rightarrow> json option \<Rightarrow> RpcError option" where
  "error_of_fields c m d =
     Option.bind (as_i64 c) (\<lambda>n. Option.bind (as_str m) (\<lambda>t. Some \<lparr> rpc_code = n, rpc_message = t, rpc_data = d \<rparr>))"

definition RpcError_from_value :: "json \<Rightarrow> RpcError option" where
  "RpcError_from_value v =
     (case v of
        JObj m \<Rightarrow>
          Option.bind (im_get m ''code'') (\<lambda>c. Option.bind (im_get m ''message'') (\<lambda>t.
            error_of_fields c t (opt_member m ''data'')))
      | JArr [c, t] \<Rightarrow> error_of_fields c t None
      | JArr [c, t, d] \<Rightarrow> error_of_fields c t (some_value d)
      | _ \<Rightarrow> None)"

definition RpcRequest_from_map :: "JsonDict \<Rightarrow> RpcRequest option" where
  "RpcRequest_from_map m =
     Option.bind (str_of_member m ''jsonrpc'') (\<lambda>j.
     Option.bind (Option.bind (im_get m ''id'') RequestId_from_value) (\<lambda>i.
     Option.bind (str_of_member m ''method'') (\<lambda>t.
       Some \<lparr> rq_jsonrpc = j, rq_id = i, rq_method = t, rq_params = opt_member m ''params'' \<rparr>)))"

definition RpcNotification_from_map :: "JsonDict \<Rightarrow> RpcNotification option" where
  "RpcNotification_from_map m =
     Option.bind (str_of_member m ''jsonrpc'') (\<lambda>j.
     Option.bind (str_of_member m ''method'') (\<lambda>t.
       Some \<lparr> nt_jsonrpc = j, nt_method = t, nt_params = opt_member m ''params'' \<rparr>))"

definition opt_decode :: "(json \<Rightarrow> 'a option) \<Rightarrow> json option \<Rightarrow> 'a option option" where
  "opt_decode dec v = (case v of None \<Rightarrow> Some None | Some x \<Rightarrow> map_option Some (dec x))"

definition RpcResponse_from_map :: "JsonDict \<Rightarrow> RpcResponse option" where
  "RpcResponse_from_map m =
     Option.bind (str_of_member m ''jsonrpc'') (\<lambda>j.
     Option.bind (opt_decode RequestId_from_value (opt_member m ''id'')) (\<lambda>i.
     Option.bind (opt_decode RpcError_from_value (opt_member m ''error'')) (\<lambda>e.
       Some \<lparr> rs_jsonrpc = j, rs_id = i, rs_result = opt_member m ''result'', rs_error = e \<rparr>)))"

definition decoded :: "RpcEnv \<Rightarrow> string \<Rightarrow> JsonDict \<Rightarrow> 'a option \<Rightarrow> ParseError + 'a" where
  "decoded env what m r =
     (case r of Some x \<Rightarrow> Inr x | None \<Rightarrow> Inl (PInvalid (''bad '' @ what @ '': '' @ rpc_de_err env (JObj m))))"

definition Message_of_map :: "RpcEnv \<Rightarrow> JsonDict \<Rightarrow> ParseError + Message" where
  "Message_of_map env m =
     (let has_id = (case im_get m ''id'' of Some v \<Rightarrow> v \<noteq> JNull | None \<Rightarrow> False) in
      case im_get m ''method'' of
        Some v \<Rightarrow>
          if as_str v = None then Inl (PInvalid ''method must be a string'')
          else if has_id then map_sum id MRequest (decoded env ''request'' m (RpcRequest_from_map m))
          else map_sum id MNotification (decoded env ''notification'' m (RpcNotification_from_map m))
      | None \<Rightarrow>
          if im_contains m ''result'' \<or> im_contains m ''error'' then
            (case decoded env ''response'' m (RpcResponse_from_map m) of
               Inl e \<Rightarrow> Inl e
             | Inr r \<Rightarrow>
                 if rs_result r \<noteq> None \<and> rs_error r \<noteq> None then Inl (PInvalid ''response has both result and error'')
                 else Inr (MResponse r))
          else Inl (PInvalid ''object is neither a request, notification nor response''))"

definition Message_from_value :: "RpcEnv \<Rightarrow> json \<Rightarrow> ParseError + Message" where
  "Message_from_value env v =
     (case v of
        JObj m \<Rightarrow>
          (case im_get m ''jsonrpc'' of
             Some j \<Rightarrow>
               if as_str j \<noteq> Some JSONRPC_VERSION then
                 Inl (PInvalid (''unsupported jsonrpc version: '' @ rpc_to_string env j))
               else Message_of_map env m
           | None \<Rightarrow> Message_of_map env m)
      | _ \<Rightarrow> Inl (PInvalid ''message must be a JSON object''))"

fun messages_from_values :: "RpcEnv \<Rightarrow> json list \<Rightarrow> ParseError + Message list" where
  "messages_from_values env [] = Inr []"
| "messages_from_values env (v # vs) =
     (case Message_from_value env v of
        Inl e \<Rightarrow> Inl e
      | Inr m \<Rightarrow> map_sum id ((#) m) (messages_from_values env vs))"

definition Message_parse :: "RpcEnv \<Rightarrow> string \<Rightarrow> ParseError + Message" where
  "Message_parse env t = (case rpc_from_str env t of Inl e \<Rightarrow> Inl (PJson e) | Inr v \<Rightarrow> Message_from_value env v)"

definition parse_incoming :: "RpcEnv \<Rightarrow> string \<Rightarrow> ParseError + Incoming" where
  "parse_incoming env t =
     (case rpc_from_str env t of
        Inl e \<Rightarrow> Inl (PJson e)
      | Inr (JArr items) \<Rightarrow>
          if items = [] then Inl EmptyBatch else map_sum id Batch (messages_from_values env items)
      | Inr v \<Rightarrow> map_sum id Single (Message_from_value env v))"

definition Message_to_value :: "Message \<Rightarrow> json" where
  "Message_to_value m =
     (case m of
        MRequest r \<Rightarrow> RpcRequest_to_value r
      | MNotification n \<Rightarrow> RpcNotification_to_value n
      | MResponse r \<Rightarrow> RpcResponse_to_value r)"

definition Message_to_json :: "RpcEnv \<Rightarrow> Message \<Rightarrow> string" where
  "Message_to_json env m = rpc_to_string env (Message_to_value m)"

definition Message_method :: "Message \<Rightarrow> string option" where
  "Message_method m =
     (case m of MRequest r \<Rightarrow> Some (rq_method r) | MNotification n \<Rightarrow> Some (nt_method n) | MResponse _ \<Rightarrow> None)"

definition Message_id :: "Message \<Rightarrow> RequestId option" where
  "Message_id m = (case m of MRequest r \<Rightarrow> Some (rq_id r) | MNotification _ \<Rightarrow> None | MResponse r \<Rightarrow> rs_id r)"

definition try_get_response_id :: "json \<Rightarrow> RequestId option" where
  "try_get_response_id v =
     (case v of
        JObj m \<Rightarrow>
          if im_contains m ''method'' then None
          else if \<not> (im_contains m ''result'' \<or> im_contains m ''error'') then None
          else Option.bind (im_get m ''id'') RequestId_from_value
      | _ \<Rightarrow> None)"

subsection \<open>Messages come back\<close>

definition id_ok :: "RequestId \<Rightarrow> bool" where
  "id_ok i = (case i of IdNumber n \<Rightarrow> is_i64 n | IdString _ \<Rightarrow> True)"

definition error_ok :: "RpcError \<Rightarrow> bool" where
  "error_ok e \<longleftrightarrow> is_i64 (rpc_code e) \<and> rpc_data e \<noteq> Some JNull"

text \<open>Well-formed messages: the version, identifiers and codes of 64 bits, no member that is null.\<close>

definition message_ok :: "Message \<Rightarrow> bool" where
  "message_ok m \<longleftrightarrow>
     (case m of
        MRequest r \<Rightarrow> rq_jsonrpc r = JSONRPC_VERSION \<and> id_ok (rq_id r) \<and> rq_params r \<noteq> Some JNull
      | MNotification n \<Rightarrow> nt_jsonrpc n = JSONRPC_VERSION \<and> nt_params n \<noteq> Some JNull
      | MResponse r \<Rightarrow> rs_jsonrpc r = JSONRPC_VERSION \<and> (\<forall>i. rs_id r = Some i \<longrightarrow> id_ok i) \<and>
          rs_result r \<noteq> Some JNull \<and> (\<forall>e. rs_error r = Some e \<longrightarrow> error_ok e) \<and>
          (rs_result r = None) \<noteq> (rs_error r = None))"

lemma id_roundtrip [simp]: "id_ok i \<Longrightarrow> RequestId_from_value (RequestId_to_value i) = Some i"
  by (cases i) (auto simp: id_ok_def RequestId_from_value_def RequestId_to_value_def as_i64_def)

lemma id_not_null [simp]: "RequestId_to_value i \<noteq> JNull" "JNull \<noteq> RequestId_to_value i"
  by (simp_all add: RequestId_to_value_def split: RequestId.split)

lemma opt_member_get: "opt_member m k = (if map_of m k = Some JNull then None else map_of m k)"
  by (auto simp: opt_member_def split: option.split json.split)

lemma opt_decode_id [simp]:
  "opt_decode dec None = Some None" "dec v = Some x \<Longrightarrow> opt_decode dec (Some v) = Some (Some x)"
  by (simp_all add: opt_decode_def)

lemma error_roundtrip [simp]: "error_ok e \<Longrightarrow> RpcError_from_value (RpcError_to_value e) = Some e"
  by (simp add: error_ok_def RpcError_from_value_def RpcError_to_value_def error_of_fields_def opt_member_get as_i64_def map_of_some_members)

lemma error_not_null [simp]: "RpcError_to_value e \<noteq> JNull"
  by (simp add: RpcError_to_value_def)

lemmas message_defs = Message_from_value_def Message_of_map_def Message_to_value_def RpcRequest_to_value_def
  RpcNotification_to_value_def RpcResponse_to_value_def RpcRequest_from_map_def RpcNotification_from_map_def
  RpcResponse_from_map_def str_of_member_def decoded_def opt_member_get message_ok_def im_contains_def map_of_some_members

text \<open>
  JSON-RPC messages round trip: every well-formed request, notification and response is classified
  as what it is and decoded to the same message from its JSON form, and from a batch of JSON forms
  the batch of messages comes back in order.
\<close>

lemma message_roundtrip:
  assumes "\<And>m. m \<in> set ms \<Longrightarrow> message_ok m"
  shows "messages_from_values env (map Message_to_value ms) = Inr ms"
proof -
  have "Message_from_value env (Message_to_value m) = Inr m" if "message_ok m" for m
  proof (cases m)
    case (MRequest r)
    with that show ?thesis by (cases r) (auto simp: message_defs)
  next
    case (MNotification n)
    with that show ?thesis by (cases n) (auto simp: message_defs)
  next
    case (MResponse r)
    with that show ?thesis
      by (cases r; cases "rs_id r"; cases "rs_error r") (auto simp: message_defs)
  qed
  with assms show ?thesis by (induction ms) auto
qed

definition demo_messages :: "Message list" where
  "demo_messages =
     [MRequest (RpcRequest_new (IdNumber 1) ''ping'' None),
      MNotification (RpcNotification_new ''done'' (Some (JInt 2))),
      MResponse (RpcResponse_success (IdString ''a'') (JBool True)),
      MResponse (RpcResponse_error None (rpc_parse_error ''x''))]"

lemma message_roundtrip_witness:
  "messages_from_values \<lparr> rpc_from_str = Inl, rpc_to_string = (\<lambda>_. []), rpc_de_err = (\<lambda>_. []) \<rparr>
     (map Message_to_value demo_messages) = Inr demo_messages"
  by (rule message_roundtrip)
     (auto simp: demo_messages_def message_ok_def RpcRequest_new_def RpcNotification_new_def RpcResponse_success_def
       RpcResponse_error_def rpc_parse_error_def RpcError_new_def id_ok_def error_ok_def PARSE_ERROR_def)

subsection \<open>A successful response without a value\<close>

text \<open>
  A result of \<open>null\<close> is a valid result, and the sender may form it, but the decoder reads the null
  member as absent: the receiver reports an internal error for a call that succeeded.
\<close>

lemma null_result_lost:
  "\<exists>r. Message_from_value env (Message_to_value (MResponse (RpcResponse_success (IdNumber 1) JNull))) = Inr (MResponse r) \<and>
     into_result r = Inl (rpc_internal_error ''response carries neither result nor error'')"
  by (simp add: message_defs RpcResponse_success_def into_result_def RequestId_to_value_def RequestId_from_value_def
      opt_decode_def as_i64_def)

end
