(* ===== verification/A2ATypes.thy ===== *)
theory A2ATypes
  imports JsonRpc
begin

text \<open>
  The data types of the A2A protocol and their wire form, \<open>A2A/rust-sdk/src/types.rs\<close>: parts,
  artifacts, messages, tasks, streaming events and the parameters of the methods. The trait
  \<open>WireJson\<close> is the locale \<open>wire_json\<close>, interpreted for every type.
\<close>

subsection \<open>Reading and writing members\<close>

definition wire_object :: "json \<Rightarrow> string \<Rightarrow> string + JsonDict" where
  "wire_object v type_name =
     (case as_object v of Some m \<Rightarrow> Inr m | None \<Rightarrow> Inl (type_name @ '' must be a JSON object''))"

definition dotted :: "string \<Rightarrow> string \<Rightarrow> string" where
  "dotted type_name k = type_name @ ''.'' @ k"

text \<open>A value read with one of the accessors of \<open>Value\<close>, or the message as the error.\<close>

definition read_with :: "(json \<Rightarrow> 'a option) \<Rightarrow> string \<Rightarrow> json \<Rightarrow> string + 'a" where
  "read_with f msg v = (case f v of Some x \<Rightarrow> Inr x | None \<Rightarrow> Inl msg)"

text \<open>\<open>match obj.get(..)\<close> around a read, and \<open>if let Some(x)\<close> around a write.\<close>

definition opt_from_json :: "(json \<Rightarrow> string + 'a) \<Rightarrow> json option \<Rightarrow> string + 'a option" where
  "opt_from_json from_json v = (case v of None \<Rightarrow> Inr None | Some w \<Rightarrow> and_then (from_json w) (\<lambda>x. Inr (Some x)))"

definition opt_to_json :: "('a \<Rightarrow> string + json) \<Rightarrow> 'a option \<Rightarrow> string + json option" where
  "opt_to_json to_json x = (case x of None \<Rightarrow> Inr None | Some y \<Rightarrow> and_then (to_json y) (\<lambda>v. Inr (Some v)))"

definition get_string :: "JsonDict \<Rightarrow> string \<Rightarrow> string \<Rightarrow> string + string" where
  "get_string obj k type_name =
     (case im_get obj k of
        Some v \<Rightarrow> read_with as_str (dotted type_name k @ '' must be a string'') v
      | None \<Rightarrow> Inl (type_name @ '' must contain '' @ [CHR 0x27] @ k @ [CHR 0x27] @ '' field''))"

definition wire_opt_string :: "JsonDict \<Rightarrow> string \<Rightarrow> string \<Rightarrow> string + string option" where
  "wire_opt_string obj k type_name =
     opt_from_json (read_with as_str (dotted type_name k @ '' must be a string'')) (im_get obj k)"

definition wire_opt_string_nullable :: "JsonDict \<Rightarrow> string \<Rightarrow> string \<Rightarrow> string + string option" where
  "wire_opt_string_nullable obj k type_name =
     opt_from_json (read_with as_str (dotted type_name k @ '' must be a string'')) (opt_member obj k)"

definition wire_opt_bool :: "JsonDict \<Rightarrow> string \<Rightarrow> string \<Rightarrow> string + bool option" where
  "wire_opt_bool obj k type_name =
     opt_from_json (read_with as_bool (dotted type_name k @ '' must be a boolean'')) (im_get obj k)"

text \<open>\<open>n as i32\<close> keeps the low 32 bits.\<close>

definition wrap32 :: "int \<Rightarrow> int" where
  "wrap32 n = (n + 2 ^ 31) mod 2 ^ 32 - 2 ^ 31"

definition is_i32 :: "int \<Rightarrow> bool" where
  "is_i32 n \<longleftrightarrow> - (2 ^ 31) \<le> n \<and> n < 2 ^ 31"

definition wire_opt_i32 :: "JsonDict \<Rightarrow> string \<Rightarrow> string \<Rightarrow> string + int option" where
  "wire_opt_i32 obj k type_name =
     opt_from_json (read_with (\<lambda>v. map_option wrap32 (as_i64 v)) (dotted type_name k @ '' must be an integer''))
       (im_get obj k)"

definition as_array :: "json \<Rightarrow> json list option" where
  "as_array v = (case v of JArr xs \<Rightarrow> Some xs | _ \<Rightarrow> None)"

definition wire_array :: "json \<Rightarrow> string \<Rightarrow> string + json list" where
  "wire_array v what = read_with as_array (what @ '' must be an array'') v"

definition string_vec :: "json \<Rightarrow> string \<Rightarrow> string + string list" where
  "string_vec v what =
     and_then (wire_array v what) (collect_results (read_with as_str (what @ '' must contain only strings'')))"

definition opt_string_vec :: "JsonDict \<Rightarrow> string \<Rightarrow> string \<Rightarrow> string + string list option" where
  "opt_string_vec obj k type_name = opt_from_json (\<lambda>v. string_vec v (dotted type_name k)) (im_get obj k)"

definition opt_metadata :: "JsonDict \<Rightarrow> json option" where
  "opt_metadata obj = opt_member obj ''metadata''"

definition vec_of :: "(json \<Rightarrow> string + 'a) \<Rightarrow> json \<Rightarrow> string \<Rightarrow> string + 'a list" where
  "vec_of from_json v what = and_then (wire_array v what) (collect_results from_json)"

definition vec_to_json :: "('a \<Rightarrow> string + json) \<Rightarrow> 'a list \<Rightarrow> string + json" where
  "vec_to_json to_json xs = and_then (collect_results to_json xs) (\<lambda>vs. Inr (JArr vs))"

definition string_vec_json :: "string list \<Rightarrow> json" where
  "string_vec_json xs = JArr (map JStr xs)"

text \<open>A check of the source: continue, or return the message as the error.\<close>

definition ensure :: "bool \<Rightarrow> string \<Rightarrow> string + unit" where
  "ensure b msg = (if b then Inr () else Inl msg)"

definition has_all :: "JsonDict \<Rightarrow> string list \<Rightarrow> bool" where
  "has_all obj ks = list_all (im_contains obj) ks"

definition member_of :: "JsonDict \<Rightarrow> string \<Rightarrow> json" where
  "member_of obj k = j_option (im_get obj k)"

subsection \<open>The contract of a wire type\<close>

text \<open>
  \<open>to_json\<close> writes every well-formed value and \<open>from_json\<close> reads it back; what \<open>from_json\<close> accepts is
  well-formed. Lists and optional members of a wire type inherit both laws.
\<close>

locale wire_json =
  fixes to_json :: "'a \<Rightarrow> string + json" and from_json :: "json \<Rightarrow> string + 'a" and ok :: "'a \<Rightarrow> bool"
  assumes encode_decode: "ok x \<Longrightarrow> \<exists>v. to_json x = Inr v \<and> from_json v = Inr x"
    and decode_ok: "from_json v = Inr x \<Longrightarrow> ok x"
begin

lemma decode_encode: "from_json v = Inr x \<Longrightarrow> \<exists>w. to_json x = Inr w \<and> from_json w = Inr x"
  by (rule encode_decode) (rule decode_ok)

lemma written: "ok x \<Longrightarrow> to_json x = Inr (projr (to_json x)) \<and> from_json (projr (to_json x)) = Inr x"
  using encode_decode by fastforce

lemma vec_written:
  assumes "list_all ok xs"
  shows "collect_results to_json xs = Inr (map (projr \<circ> to_json) xs) \<and>
    collect_results from_json (map (projr \<circ> to_json) xs) = Inr xs"
  using assms by (induction xs) (auto dest: written)

lemma vec_roundtrip: "list_all ok xs \<Longrightarrow> \<exists>v. vec_to_json to_json xs = Inr v \<and> vec_of from_json v what = Inr xs"
  using vec_written by (auto simp: vec_to_json_def vec_of_def wire_array_def as_array_def read_with_def)

lemma vec_ok: "vec_of from_json v what = Inr xs \<Longrightarrow> list_all ok xs"
proof -
  have "collect_results from_json vs = Inr xs \<Longrightarrow> list_all ok xs" for vs
    by (induction vs arbitrary: xs) (auto dest: decode_ok)
  then show "vec_of from_json v what = Inr xs \<Longrightarrow> list_all ok xs" by (auto simp: vec_of_def)
qed

lemma opt_roundtrip: "pred_option ok x \<Longrightarrow> \<exists>v. opt_to_json to_json x = Inr v \<and> opt_from_json from_json v = Inr x"
  by (cases x) (auto simp: opt_to_json_def opt_from_json_def dest: encode_decode)

lemma opt_ok: "opt_from_json from_json v = Inr x \<Longrightarrow> pred_option ok x"
  by (auto simp: opt_from_json_def dest: decode_ok split: option.splits)

lemma vec_wire: "wire_json (vec_to_json to_json) (\<lambda>v. vec_of from_json v what) (list_all ok)"
  by unfold_locales (auto intro: vec_roundtrip vec_ok)

end

named_theorems wire_simps

lemma read_written [wire_simps]:
  "opt_from_json (read_with as_str e) (map_option JStr s) = Inr s"
  "opt_from_json (read_with as_bool e) (map_option JBool b) = Inr b"
  "opt_from_json f None = Inr None"
  by (cases s; cases b; simp add: opt_from_json_def read_with_def)+

lemma wrap32_id: "is_i32 n \<Longrightarrow> wrap32 n = n"
  by (simp add: wrap32_def is_i32_def)

lemma wrap32_range: "is_i32 (wrap32 n)"
  by (simp add: wrap32_def is_i32_def)

lemma read_i32_written [wire_simps]:
  "pred_option is_i32 n \<Longrightarrow>
   opt_from_json (read_with (\<lambda>v. map_option wrap32 (as_i64 v)) e) (map_option JInt n) = Inr n"
  by (cases n) (simp_all add: opt_from_json_def read_with_def as_i64_def is_i32_def wrap32_id)

lemma string_vec_written [wire_simps]: "opt_from_json (\<lambda>v. string_vec v e) (map_option string_vec_json xs) = Inr xs"
  "string_vec (string_vec_json ys) w = Inr ys"
proof -
  have *: "string_vec (string_vec_json ys) w = Inr ys" for ys w
    unfolding string_vec_def string_vec_json_def
    by (simp add: wire_array_def as_array_def read_with_def collect_results_map)
  show "string_vec (string_vec_json ys) w = Inr ys" by (rule *)
  show "opt_from_json (\<lambda>v. string_vec v e) (map_option string_vec_json xs) = Inr xs"
    by (cases xs) (simp_all add: opt_from_json_def *)
qed

lemma get_string_written [wire_simps]: "im_get obj k = Some (JStr s) \<Longrightarrow> get_string obj k t = Inr s"
  by (simp add: get_string_def read_with_def)

lemma ensure_simps [simp]: "ensure True m = Inr ()" "ensure b m = Inr u \<longleftrightarrow> b"
  by (simp_all add: ensure_def)

lemma metadata_read: "opt_metadata obj \<noteq> Some JNull"
  by (simp add: opt_metadata_def opt_member_get)

lemma read_i32_range:
  "opt_from_json (read_with (\<lambda>v. map_option wrap32 (as_i64 v)) e) v = Inr n \<Longrightarrow> pred_option is_i32 n"
  by (auto simp: opt_from_json_def read_with_def wrap32_range split: option.splits)

lemmas wire_defs = wire_object_def wire_opt_string_def wire_opt_string_nullable_def wire_opt_bool_def wire_opt_i32_def
  opt_string_vec_def opt_metadata_def opt_member_get has_all_def member_of_def im_contains_def map_of_some_members


subsection \<open>Parts, artifacts and messages\<close>

datatype Role = Agent | User | Unspecified

definition Role_from_wire :: "string \<Rightarrow> string + Role" where
  "Role_from_wire s =
     (if s = ''ROLE_AGENT'' then Inr Agent
      else if s = ''ROLE_USER'' then Inr User
      else if s = ''ROLE_UNSPECIFIED'' then Inr Unspecified
      else Inl (''Invalid Role value: '' @ s))"

definition Role_as_wire :: "Role \<Rightarrow> string" where
  "Role_as_wire r = (case r of Agent \<Rightarrow> ''ROLE_AGENT'' | User \<Rightarrow> ''ROLE_USER'' | Unspecified \<Rightarrow> ''ROLE_UNSPECIFIED'')"

lemma role_roundtrip [simp]: "Role_from_wire (Role_as_wire r) = Inr r"
  by (cases r) (simp_all add: Role_from_wire_def Role_as_wire_def)

record Part =
  pt_text :: "string option"
  pt_raw :: "string option"
  pt_url :: "string option"
  pt_data :: "json option"
  pt_metadata :: "json option"
  pt_filename :: "string option"
  pt_media_type :: "string option"

definition Part_default :: Part where
  "Part_default = \<lparr> pt_text = None, pt_raw = None, pt_url = None, pt_data = None, pt_metadata = None,
     pt_filename = None, pt_media_type = None \<rparr>"

definition Part_text :: "string \<Rightarrow> Part" where
  "Part_text s = Part_default\<lparr> pt_text := Some s \<rparr>"

definition Part_data :: "json \<Rightarrow> Part" where
  "Part_data d = Part_default\<lparr> pt_data := Some d \<rparr>"

definition with_media_type :: "string \<Rightarrow> Part \<Rightarrow> Part" where
  "with_media_type m p = p\<lparr> pt_media_type := Some m \<rparr>"

definition Part_payload :: "Part \<Rightarrow> (string \<times> json option) list" where
  "Part_payload p =
     (case pt_text p of Some s \<Rightarrow> [(''text'', Some (JStr s))] | None \<Rightarrow>
     (case pt_raw p of Some s \<Rightarrow> [(''raw'', Some (JStr s))] | None \<Rightarrow>
     (case pt_url p of Some s \<Rightarrow> [(''url'', Some (JStr s))] | None \<Rightarrow>
     (case pt_data p of Some d \<Rightarrow> [(''data'', Some d)] | None \<Rightarrow> []))))"

definition Part_to_json :: "Part \<Rightarrow> string + json" where
  "Part_to_json p =
     Inr (JObj (some_members (Part_payload p @
       [(''metadata'', pt_metadata p), (''filename'', map_option JStr (pt_filename p)),
        (''mediaType'', map_option JStr (pt_media_type p))])))"

definition data_value :: "json \<Rightarrow> bool" where
  "data_value v = (case v of JStr _ \<Rightarrow> True | JObj _ \<Rightarrow> True | JInt _ \<Rightarrow> True | JFloat _ \<Rightarrow> True | JBool _ \<Rightarrow> True | _ \<Rightarrow> False)"

text \<open>The loop over the members: the first payload that is not null, in the order of the object.\<close>

fun part_scan :: "JsonDict \<Rightarrow> string + Part" where
  "part_scan [] = Inl ''Part must contain one of: text, raw, url, data''"
| "part_scan ((k, v) # obj) =
     (if v = JNull then part_scan obj
      else if k = ''text'' then
        and_then (read_with as_str ''Part.text must be a string'' v) (\<lambda>s. Inr (Part_default\<lparr> pt_text := Some s \<rparr>))
      else if k = ''raw'' then
        and_then (read_with as_str ''Part.raw must be a string'' v) (\<lambda>s. Inr (Part_default\<lparr> pt_raw := Some s \<rparr>))
      else if k = ''url'' then
        and_then (read_with as_str ''Part.url must be a string'' v) (\<lambda>s. Inr (Part_default\<lparr> pt_url := Some s \<rparr>))
      else if k = ''data'' then
        (if data_value v then Inr (Part_default\<lparr> pt_data := Some v \<rparr>)
         else Inl ''data field must be a string, bool, integer double or JSON object'')
      else part_scan obj)"

definition Part_from_json :: "json \<Rightarrow> string + Part" where
  "Part_from_json v =
     and_then (wire_object v ''Part'') (\<lambda>obj.
     and_then (part_scan obj) (\<lambda>p.
     and_then (wire_opt_string_nullable obj ''filename'' ''Part'') (\<lambda>f.
     and_then (wire_opt_string_nullable obj ''mediaType'' ''Part'') (\<lambda>m.
       Inr (p\<lparr> pt_metadata := opt_metadata obj, pt_filename := f, pt_media_type := m \<rparr>)))))"

definition not_null :: "json option \<Rightarrow> bool" where
  "not_null v \<longleftrightarrow> v \<noteq> Some JNull"

text \<open>A part has exactly one payload.\<close>

definition part_ok :: "Part \<Rightarrow> bool" where
  "part_ok p \<longleftrightarrow> not_null (pt_metadata p) \<and>
     (case (pt_text p, pt_raw p, pt_url p, pt_data p) of
        (Some _, None, None, None) \<Rightarrow> True
      | (None, Some _, None, None) \<Rightarrow> True
      | (None, None, Some _, None) \<Rightarrow> True
      | (None, None, None, Some d) \<Rightarrow> data_value d
      | _ \<Rightarrow> False)"

lemma part_scan_ok: "part_scan obj = Inr p \<Longrightarrow> part_ok (p\<lparr> pt_metadata := opt_metadata m, pt_filename := f, pt_media_type := y \<rparr>)"
  by (induction obj rule: part_scan.induct)
     (auto simp: part_ok_def Part_default_def not_null_def metadata_read split: if_splits)

lemma data_not_null: "data_value d \<Longrightarrow> d \<noteq> JNull"
  by (auto simp: data_value_def)

lemma part_payload_scanned:
  assumes "part_ok p"
  obtains k v where "Part_payload p = [(k, Some v)]" "k \<in> {''text'', ''raw'', ''url'', ''data''}"
    "\<forall>m. part_scan ((k, v) # m) = Inr (p\<lparr> pt_metadata := None, pt_filename := None, pt_media_type := None \<rparr>)"
  using assms
  by (cases p) (auto simp: part_ok_def Part_payload_def Part_default_def read_with_def data_not_null split: option.splits)

lemma some_members_Cons [simp]:
  "some_members ((k, Some v) # fs) = (k, v) # some_members fs" "some_members ((k, None) # fs) = some_members fs"
  "some_members [] = []"
  by (simp_all add: some_members_def)

lemma opt_member_written:
  "im_get obj k = v \<Longrightarrow> not_null v \<Longrightarrow> opt_member obj k = v"
  "not_null (map_option JStr s)"
  by (auto simp: opt_member_get not_null_def)

lemma part_encode_decode:
  assumes "part_ok p"
  shows "\<exists>v. Part_to_json p = Inr v \<and> Part_from_json v = Inr p"
proof -
  from assms obtain k v where kv: "Part_payload p = [(k, Some v)]" "k \<in> {''text'', ''raw'', ''url'', ''data''}"
    and scan: "\<forall>m. part_scan ((k, v) # m) = Inr (p\<lparr> pt_metadata := None, pt_filename := None, pt_media_type := None \<rparr>)"
    by (rule part_payload_scanned)
  define rest where "rest = some_members [(''metadata'', pt_metadata p), (''filename'', map_option JStr (pt_filename p)),
    (''mediaType'', map_option JStr (pt_media_type p))]"
  have get: "im_get ((k, v) # rest) ''metadata'' = pt_metadata p" "im_get ((k, v) # rest) ''filename'' = map_option JStr (pt_filename p)"
    "im_get ((k, v) # rest) ''mediaType'' = map_option JStr (pt_media_type p)"
    using kv(2) by (auto simp: rest_def map_of_some_members)
  have "not_null (pt_metadata p)" using assms by (simp add: part_ok_def)
  note opts = opt_member_written(1) [OF get(1) this] opt_member_written(1) [OF get(2) opt_member_written(2)]
    opt_member_written(1) [OF get(3) opt_member_written(2)]
  have "Part_from_json (JObj ((k, v) # rest)) = Inr p"
    unfolding Part_from_json_def wire_object_def opt_metadata_def wire_opt_string_nullable_def
    by (simp add: scan opts wire_simps del: part_scan.simps)
  then show ?thesis by (simp add: Part_to_json_def kv(1) rest_def)
qed

interpretation part: wire_json Part_to_json Part_from_json part_ok
  by unfold_locales (erule part_encode_decode, auto simp: Part_from_json_def intro: part_scan_ok)


record Artifact =
  af_artifact_id :: string
  af_description :: "string option"
  af_extensions :: "string list option"
  af_metadata :: "json option"
  af_name :: "string option"
  af_parts :: "Part list"

definition Artifact_default :: Artifact where
  "Artifact_default = \<lparr> af_artifact_id = [], af_description = None, af_extensions = None, af_metadata = None,
     af_name = None, af_parts = [] \<rparr>"

definition Artifact_to_json :: "Artifact \<Rightarrow> string + json" where
  "Artifact_to_json a =
     and_then (ensure (af_artifact_id a \<noteq> []) ''Artifact.artifactId cannot be empty'') (\<lambda>_.
     and_then (vec_to_json Part_to_json (af_parts a)) (\<lambda>ps.
       Inr (JObj (some_members
         [(''artifactId'', Some (JStr (af_artifact_id a))), (''parts'', Some ps),
          (''description'', map_option JStr (af_description a)),
          (''extensions'', map_option string_vec_json (af_extensions a)),
          (''metadata'', af_metadata a), (''name'', map_option JStr (af_name a))]))))"

definition Artifact_from_json :: "json \<Rightarrow> string + Artifact" where
  "Artifact_from_json v =
     and_then (wire_object v ''Artifact'') (\<lambda>obj.
     and_then (ensure (has_all obj [''artifactId'', ''parts'']) ''Artifact missing required fields'') (\<lambda>_.
     and_then (get_string obj ''artifactId'' ''Artifact'') (\<lambda>i.
     and_then (ensure (i \<noteq> []) ''Artifact.artifactId cannot be empty'') (\<lambda>_.
     and_then (wire_opt_string obj ''description'' ''Artifact'') (\<lambda>d.
     and_then (opt_string_vec obj ''extensions'' ''Artifact'') (\<lambda>e.
     and_then (wire_opt_string obj ''name'' ''Artifact'') (\<lambda>n.
     and_then (vec_of Part_from_json (member_of obj ''parts'') ''Artifact.parts'') (\<lambda>ps.
       Inr \<lparr> af_artifact_id = i, af_description = d, af_extensions = e, af_metadata = opt_metadata obj, af_name = n,
         af_parts = ps \<rparr>))))))))"

definition artifact_ok :: "Artifact \<Rightarrow> bool" where
  "artifact_ok a \<longleftrightarrow> af_artifact_id a \<noteq> [] \<and> not_null (af_metadata a) \<and> list_all part_ok (af_parts a)"

lemma metadata_ok [simp]: "not_null (opt_metadata obj)"
  by (simp add: not_null_def metadata_read)

interpretation artifact: wire_json Artifact_to_json Artifact_from_json artifact_ok
proof
  fix a :: Artifact
  assume ok: "artifact_ok a"
  then obtain ps where "vec_to_json Part_to_json (af_parts a) = Inr ps" "vec_of Part_from_json ps ''Artifact.parts'' = Inr (af_parts a)"
    using part.vec_roundtrip [of "af_parts a"] by (auto simp: artifact_ok_def)
  with ok show "\<exists>v. Artifact_to_json a = Inr v \<and> Artifact_from_json v = Inr a"
    by (simp add: Artifact_to_json_def Artifact_from_json_def artifact_ok_def not_null_def wire_defs wire_simps)
qed (auto simp: Artifact_from_json_def artifact_ok_def dest: part.vec_ok)


record A2AMessage =
  ms_context_id :: "string option"
  ms_extensions :: "string list option"
  ms_message_id :: string
  ms_metadata :: "json option"
  ms_parts :: "Part list"
  ms_reference_task_ids :: "string list option"
  ms_role :: Role
  ms_task_id :: "string option"

definition A2AMessage_default :: A2AMessage where
  "A2AMessage_default = \<lparr> ms_context_id = None, ms_extensions = None, ms_message_id = [], ms_metadata = None,
     ms_parts = [], ms_reference_task_ids = None, ms_role = User, ms_task_id = None \<rparr>"

definition A2AMessage_to_json :: "A2AMessage \<Rightarrow> string + json" where
  "A2AMessage_to_json m =
     and_then (ensure (ms_message_id m \<noteq> []) ''Message.messageId cannot be empty'') (\<lambda>_.
     and_then (vec_to_json Part_to_json (ms_parts m)) (\<lambda>ps.
       Inr (JObj (some_members
         [(''messageId'', Some (JStr (ms_message_id m))), (''parts'', Some ps),
          (''role'', Some (JStr (Role_as_wire (ms_role m)))),
          (''contextId'', map_option JStr (ms_context_id m)),
          (''extensions'', map_option string_vec_json (ms_extensions m)),
          (''metadata'', ms_metadata m),
          (''referenceTaskIds'', map_option string_vec_json (ms_reference_task_ids m)),
          (''taskId'', map_option JStr (ms_task_id m))]))))"

definition read_role :: "JsonDict \<Rightarrow> string + Role" where
  "read_role obj =
     (case im_get obj ''role'' of
        Some v \<Rightarrow> and_then (read_with as_str ''Message.role must be a string'' v) Role_from_wire
      | None \<Rightarrow> Inr User)"

definition A2AMessage_from_json :: "json \<Rightarrow> string + A2AMessage" where
  "A2AMessage_from_json v =
     and_then (wire_object v ''Message'') (\<lambda>obj.
     and_then (ensure (has_all obj [''messageId'', ''parts'']) ''Message missing required fields'') (\<lambda>_.
     and_then (get_string obj ''messageId'' ''Message'') (\<lambda>i.
     and_then (ensure (i \<noteq> []) ''Message.messageId cannot be empty'') (\<lambda>_.
     and_then (read_role obj) (\<lambda>r.
     and_then (wire_opt_string obj ''contextId'' ''Message'') (\<lambda>c.
     and_then (opt_string_vec obj ''extensions'' ''Message'') (\<lambda>e.
     and_then (vec_of Part_from_json (member_of obj ''parts'') ''Message.parts'') (\<lambda>ps.
     and_then (opt_string_vec obj ''referenceTaskIds'' ''Message'') (\<lambda>refs.
     and_then (wire_opt_string obj ''taskId'' ''Message'') (\<lambda>t.
       Inr \<lparr> ms_context_id = c, ms_extensions = e, ms_message_id = i, ms_metadata = opt_metadata obj, ms_parts = ps,
         ms_reference_task_ids = refs, ms_role = r, ms_task_id = t \<rparr>))))))))))"

definition a2a_message_ok :: "A2AMessage \<Rightarrow> bool" where
  "a2a_message_ok m \<longleftrightarrow> ms_message_id m \<noteq> [] \<and> not_null (ms_metadata m) \<and> list_all part_ok (ms_parts m)"

interpretation msg: wire_json A2AMessage_to_json A2AMessage_from_json a2a_message_ok
proof
  fix m :: A2AMessage
  assume ok: "a2a_message_ok m"
  then obtain ps where "vec_to_json Part_to_json (ms_parts m) = Inr ps" "vec_of Part_from_json ps ''Message.parts'' = Inr (ms_parts m)"
    using part.vec_roundtrip [of "ms_parts m"] by (auto simp: a2a_message_ok_def)
  with ok show "\<exists>v. A2AMessage_to_json m = Inr v \<and> A2AMessage_from_json v = Inr m"
    by (simp add: A2AMessage_to_json_def A2AMessage_from_json_def a2a_message_ok_def not_null_def read_role_def read_with_def
        wire_defs wire_simps)
qed (auto simp: A2AMessage_from_json_def a2a_message_ok_def dest: part.vec_ok)

subsection \<open>Tasks\<close>

datatype TaskState = Submitted | Working | InputRequired | Completed | Canceled | Failed | Rejected | AuthRequired | StateUnspecified

definition TaskState_as_wire :: "TaskState \<Rightarrow> string" where
  "TaskState_as_wire s =
     (case s of
        Submitted \<Rightarrow> ''TASK_STATE_SUBMITTED''
      | Working \<Rightarrow> ''TASK_STATE_WORKING''
      | InputRequired \<Rightarrow> ''TASK_STATE_INPUT_REQUIRED''
      | Completed \<Rightarrow> ''TASK_STATE_COMPLETED''
      | Canceled \<Rightarrow> ''TASK_STATE_CANCELED''
      | Failed \<Rightarrow> ''TASK_STATE_FAILED''
      | Rejected \<Rightarrow> ''TASK_STATE_REJECTED''
      | AuthRequired \<Rightarrow> ''TASK_STATE_AUTH_REQUIRED''
      | StateUnspecified \<Rightarrow> ''TASK_STATE_UNSPECIFIED'')"

definition TaskState_from_wire :: "string \<Rightarrow> TaskState" where
  "TaskState_from_wire s =
     (if s = ''TASK_STATE_SUBMITTED'' then Submitted
      else if s = ''TASK_STATE_WORKING'' then Working
      else if s = ''TASK_STATE_INPUT_REQUIRED'' then InputRequired
      else if s = ''TASK_STATE_COMPLETED'' then Completed
      else if s = ''TASK_STATE_CANCELED'' then Canceled
      else if s = ''TASK_STATE_FAILED'' then Failed
      else if s = ''TASK_STATE_REJECTED'' then Rejected
      else if s = ''TASK_STATE_AUTH_REQUIRED'' then AuthRequired
      else StateUnspecified)"

lemma task_state_roundtrip [simp]: "TaskState_from_wire (TaskState_as_wire s) = s"
  by (cases s) (simp_all add: TaskState_from_wire_def TaskState_as_wire_def)

record TaskStatus =
  ts_message :: "A2AMessage option"
  ts_state :: TaskState
  ts_timestamp :: "string option"

definition TaskStatus_new :: "TaskState \<Rightarrow> TaskStatus" where
  "TaskStatus_new s = \<lparr> ts_message = None, ts_state = s, ts_timestamp = None \<rparr>"

definition TaskStatus_to_json :: "TaskStatus \<Rightarrow> string + json" where
  "TaskStatus_to_json s =
     and_then (opt_to_json A2AMessage_to_json (ts_message s)) (\<lambda>m.
       Inr (JObj (some_members
         [(''state'', Some (JStr (TaskState_as_wire (ts_state s)))), (''message'', m),
          (''timestamp'', map_option JStr (ts_timestamp s))])))"

definition TaskStatus_from_json :: "json \<Rightarrow> string + TaskStatus" where
  "TaskStatus_from_json v =
     and_then (wire_object v ''TaskStatus'') (\<lambda>obj.
     let st = (case im_get obj ''state'' of Some (JStr s) \<Rightarrow> TaskState_from_wire s | _ \<Rightarrow> StateUnspecified) in
     and_then (opt_from_json A2AMessage_from_json (im_get obj ''message'')) (\<lambda>m.
     and_then (wire_opt_string obj ''timestamp'' ''TaskStatus'') (\<lambda>t.
       Inr \<lparr> ts_message = m, ts_state = st, ts_timestamp = t \<rparr>)))"

definition status_ok :: "TaskStatus \<Rightarrow> bool" where
  "status_ok s \<longleftrightarrow> pred_option a2a_message_ok (ts_message s)"

interpretation status: wire_json TaskStatus_to_json TaskStatus_from_json status_ok
proof
  fix s :: TaskStatus
  assume ok: "status_ok s"
  then obtain m where "opt_to_json A2AMessage_to_json (ts_message s) = Inr m" "opt_from_json A2AMessage_from_json m = Inr (ts_message s)"
    using msg.opt_roundtrip [of "ts_message s"] by (auto simp: status_ok_def)
  then show "\<exists>v. TaskStatus_to_json s = Inr v \<and> TaskStatus_from_json v = Inr s"
    by (simp add: TaskStatus_to_json_def TaskStatus_from_json_def wire_defs wire_simps)
qed (auto simp: TaskStatus_from_json_def status_ok_def Let_def dest: msg.opt_ok)

record Task =
  tk_artifacts :: "Artifact list option"
  tk_context_id :: string
  tk_history :: "A2AMessage list option"
  tk_id :: string
  tk_metadata :: "json option"
  tk_status :: TaskStatus
  tk_creat_at :: "string option"
  tk_last_modified :: "string option"

definition Task_default :: Task where
  "Task_default = \<lparr> tk_artifacts = None, tk_context_id = [], tk_history = None, tk_id = [], tk_metadata = None,
     tk_status = TaskStatus_new StateUnspecified, tk_creat_at = None, tk_last_modified = None \<rparr>"

definition Task_to_json :: "Task \<Rightarrow> string + json" where
  "Task_to_json t =
     and_then (ensure (tk_id t \<noteq> []) ''Task.id cannot be empty'') (\<lambda>_.
     and_then (TaskStatus_to_json (tk_status t)) (\<lambda>s.
     and_then (opt_to_json (vec_to_json Artifact_to_json) (tk_artifacts t)) (\<lambda>a.
     and_then (opt_to_json (vec_to_json A2AMessage_to_json) (tk_history t)) (\<lambda>h.
       Inr (JObj (some_members
         [(''contextId'', Some (JStr (tk_context_id t))), (''id'', Some (JStr (tk_id t))), (''status'', Some s),
          (''artifacts'', a), (''history'', h), (''metadata'', tk_metadata t)]))))))"

definition Task_from_json :: "json \<Rightarrow> string + Task" where
  "Task_from_json v =
     and_then (wire_object v ''Task'') (\<lambda>obj.
     and_then (ensure (has_all obj [''contextId'', ''id'', ''status'']) ''Task missing required fields'') (\<lambda>_.
     and_then (get_string obj ''id'' ''Task'') (\<lambda>i.
     and_then (ensure (i \<noteq> []) ''Task.id cannot be empty'') (\<lambda>_.
     and_then (opt_from_json (\<lambda>w. vec_of Artifact_from_json w ''Task.artifacts'') (im_get obj ''artifacts'')) (\<lambda>a.
     and_then (opt_from_json (\<lambda>w. vec_of A2AMessage_from_json w ''Task.history'') (im_get obj ''history'')) (\<lambda>h.
     and_then (get_string obj ''contextId'' ''Task'') (\<lambda>c.
     and_then (TaskStatus_from_json (member_of obj ''status'')) (\<lambda>s.
       Inr \<lparr> tk_artifacts = a, tk_context_id = c, tk_history = h, tk_id = i, tk_metadata = opt_metadata obj,
         tk_status = s, tk_creat_at = None, tk_last_modified = None \<rparr>))))))))"

text \<open>The two times are not written.\<close>

definition task_ok :: "Task \<Rightarrow> bool" where
  "task_ok t \<longleftrightarrow> tk_id t \<noteq> [] \<and> not_null (tk_metadata t) \<and> status_ok (tk_status t) \<and>
     pred_option (list_all artifact_ok) (tk_artifacts t) \<and> pred_option (list_all a2a_message_ok) (tk_history t) \<and>
     tk_creat_at t = None \<and> tk_last_modified t = None"

lemmas vec_opts = wire_json.opt_roundtrip [OF artifact.vec_wire] wire_json.opt_roundtrip [OF msg.vec_wire]
lemmas vec_opts_ok = wire_json.opt_ok [OF artifact.vec_wire] wire_json.opt_ok [OF msg.vec_wire]

interpretation task: wire_json Task_to_json Task_from_json task_ok
proof
  fix t :: Task
  assume ok: "task_ok t"
  then obtain s a h where "TaskStatus_to_json (tk_status t) = Inr s" "TaskStatus_from_json s = Inr (tk_status t)"
    "opt_to_json (vec_to_json Artifact_to_json) (tk_artifacts t) = Inr a"
    "opt_from_json (\<lambda>w. vec_of Artifact_from_json w ''Task.artifacts'') a = Inr (tk_artifacts t)"
    "opt_to_json (vec_to_json A2AMessage_to_json) (tk_history t) = Inr h"
    "opt_from_json (\<lambda>w. vec_of A2AMessage_from_json w ''Task.history'') h = Inr (tk_history t)"
    using status.encode_decode [of "tk_status t"] vec_opts(1) [of "tk_artifacts t" "''Task.artifacts''"]
      vec_opts(2) [of "tk_history t" "''Task.history''"] unfolding task_ok_def by blast
  with ok show "\<exists>v. Task_to_json t = Inr v \<and> Task_from_json v = Inr t"
    by (simp add: Task_to_json_def Task_from_json_def task_ok_def not_null_def wire_defs wire_simps)
qed (auto simp: Task_from_json_def task_ok_def dest: vec_opts_ok status.decode_ok)


subsection \<open>Events of a stream\<close>

record TaskArtifactUpdateEvent =
  au_append :: "bool option"
  au_artifact :: Artifact
  au_context_id :: string
  au_last_chunk :: "bool option"
  au_metadata :: "json option"
  au_task_id :: string
  au_index :: "int option"

definition ArtifactUpdate_to_json :: "TaskArtifactUpdateEvent \<Rightarrow> string + json" where
  "ArtifactUpdate_to_json e =
     and_then (Artifact_to_json (au_artifact e)) (\<lambda>a.
       Inr (JObj (some_members
         [(''artifact'', Some a), (''contextId'', Some (JStr (au_context_id e))), (''taskId'', Some (JStr (au_task_id e))),
          (''append'', map_option JBool (au_append e)), (''lastChunk'', map_option JBool (au_last_chunk e)),
          (''metadata'', au_metadata e)])))"

definition ArtifactUpdate_from_json :: "json \<Rightarrow> string + TaskArtifactUpdateEvent" where
  "ArtifactUpdate_from_json v =
     and_then (wire_object v ''TaskArtifactUpdateEvent'') (\<lambda>obj.
     and_then (ensure (has_all obj [''artifact'', ''contextId'', ''taskId'']) ''TaskArtifactUpdateEvent missing required fields'') (\<lambda>_.
     and_then (get_string obj ''taskId'' ''TaskArtifactUpdateEvent'') (\<lambda>i.
     and_then (ensure (i \<noteq> []) ''TaskArtifactUpdateEvent.taskId cannot be empty'') (\<lambda>_.
     and_then (wire_opt_bool obj ''append'' ''TaskArtifactUpdateEvent'') (\<lambda>ap.
     and_then (Artifact_from_json (member_of obj ''artifact'')) (\<lambda>a.
     and_then (get_string obj ''contextId'' ''TaskArtifactUpdateEvent'') (\<lambda>c.
     and_then (wire_opt_bool obj ''lastChunk'' ''TaskArtifactUpdateEvent'') (\<lambda>l.
       Inr \<lparr> au_append = ap, au_artifact = a, au_context_id = c, au_last_chunk = l, au_metadata = opt_metadata obj,
         au_task_id = i, au_index = None \<rparr>))))))))"

definition artifact_update_ok :: "TaskArtifactUpdateEvent \<Rightarrow> bool" where
  "artifact_update_ok e \<longleftrightarrow>
     artifact_ok (au_artifact e) \<and> not_null (au_metadata e) \<and> au_task_id e \<noteq> [] \<and> au_index e = None"

interpretation artifact_update: wire_json ArtifactUpdate_to_json ArtifactUpdate_from_json artifact_update_ok
proof
  fix e :: TaskArtifactUpdateEvent
  assume ok: "artifact_update_ok e"
  then obtain a where "Artifact_to_json (au_artifact e) = Inr a" "Artifact_from_json a = Inr (au_artifact e)"
    using artifact.encode_decode [of "au_artifact e"] by (auto simp: artifact_update_ok_def)
  with ok show "\<exists>v. ArtifactUpdate_to_json e = Inr v \<and> ArtifactUpdate_from_json v = Inr e"
    by (simp add: ArtifactUpdate_to_json_def ArtifactUpdate_from_json_def artifact_update_ok_def not_null_def wire_defs wire_simps)
qed (auto simp: ArtifactUpdate_from_json_def artifact_update_ok_def dest: artifact.decode_ok)

record TaskStatusUpdateEvent =
  su_context_id :: string
  su_metadata :: "json option"
  su_status :: TaskStatus
  su_task_id :: string

definition StatusUpdate_to_json :: "TaskStatusUpdateEvent \<Rightarrow> string + json" where
  "StatusUpdate_to_json e =
     and_then (TaskStatus_to_json (su_status e)) (\<lambda>s.
       Inr (JObj (some_members
         [(''contextId'', Some (JStr (su_context_id e))), (''status'', Some s), (''taskId'', Some (JStr (su_task_id e))),
          (''metadata'', su_metadata e)])))"

definition StatusUpdate_from_json :: "json \<Rightarrow> string + TaskStatusUpdateEvent" where
  "StatusUpdate_from_json v =
     and_then (wire_object v ''TaskStatusUpdateEvent'') (\<lambda>obj.
     and_then (ensure (has_all obj [''contextId'', ''status'', ''taskId'']) ''TaskStatusUpdateEvent missing required fields'') (\<lambda>_.
     and_then (get_string obj ''taskId'' ''TaskStatusUpdateEvent'') (\<lambda>i.
     and_then (ensure (i \<noteq> []) ''TaskStatusUpdateEvent.taskId cannot be empty'') (\<lambda>_.
     and_then (get_string obj ''contextId'' ''TaskStatusUpdateEvent'') (\<lambda>c.
     and_then (TaskStatus_from_json (member_of obj ''status'')) (\<lambda>s.
       Inr \<lparr> su_context_id = c, su_metadata = opt_metadata obj, su_status = s, su_task_id = i \<rparr>))))))"

definition status_update_ok :: "TaskStatusUpdateEvent \<Rightarrow> bool" where
  "status_update_ok e \<longleftrightarrow> status_ok (su_status e) \<and> not_null (su_metadata e) \<and> su_task_id e \<noteq> []"

interpretation status_update: wire_json StatusUpdate_to_json StatusUpdate_from_json status_update_ok
proof
  fix e :: TaskStatusUpdateEvent
  assume ok: "status_update_ok e"
  then obtain s where "TaskStatus_to_json (su_status e) = Inr s" "TaskStatus_from_json s = Inr (su_status e)"
    using status.encode_decode [of "su_status e"] by (auto simp: status_update_ok_def)
  with ok show "\<exists>v. StatusUpdate_to_json e = Inr v \<and> StatusUpdate_from_json v = Inr e"
    by (simp add: StatusUpdate_to_json_def StatusUpdate_from_json_def status_update_ok_def not_null_def wire_defs wire_simps)
qed (auto simp: StatusUpdate_from_json_def status_update_ok_def dest: status.decode_ok)

datatype SendMessageResult = RTask Task | RMessage A2AMessage

definition SendMessageResult_to_json :: "SendMessageResult \<Rightarrow> string + json" where
  "SendMessageResult_to_json r =
     (case r of
        RTask t \<Rightarrow> and_then (Task_to_json t) (\<lambda>v. Inr (JObj [(''task'', v)]))
      | RMessage m \<Rightarrow> and_then (A2AMessage_to_json m) (\<lambda>v. Inr (JObj [(''message'', v)])))"

definition SendMessageResult_from_json :: "json \<Rightarrow> string + SendMessageResult" where
  "SendMessageResult_from_json v =
     and_then (wire_object v ''SendMessage result'') (\<lambda>obj.
       if im_contains obj ''message'' \<and> im_contains obj ''task'' then
         Inl (''Response must contain either '' @ [CHR 0x27] @ ''message'' @ [CHR 0x27] @ '' or '' @ [CHR 0x27] @ ''task'' @ [CHR 0x27] @ '', not both'')
       else if im_contains obj ''message'' then
         and_then (A2AMessage_from_json (member_of obj ''message'')) (\<lambda>m. Inr (RMessage m))
       else if im_contains obj ''task'' then
         and_then (Task_from_json (member_of obj ''task'')) (\<lambda>t. Inr (RTask t))
       else Inl (''Response must contain either '' @ [CHR 0x27] @ ''message'' @ [CHR 0x27] @ '' or '' @ [CHR 0x27] @ ''task'' @ [CHR 0x27] @ '' field''))"

definition send_result_ok :: "SendMessageResult \<Rightarrow> bool" where
  "send_result_ok r = (case r of RTask t \<Rightarrow> task_ok t | RMessage m \<Rightarrow> a2a_message_ok m)"

interpretation send_result: wire_json SendMessageResult_to_json SendMessageResult_from_json send_result_ok
proof
  fix r :: SendMessageResult
  assume ok: "send_result_ok r"
  show "\<exists>v. SendMessageResult_to_json r = Inr v \<and> SendMessageResult_from_json v = Inr r"
  proof (cases r)
    case (RTask t)
    with ok obtain v where "Task_to_json t = Inr v" "Task_from_json v = Inr t"
      using task.encode_decode [of t] by (auto simp: send_result_ok_def)
    with RTask show ?thesis by (simp add: SendMessageResult_to_json_def SendMessageResult_from_json_def wire_object_def
          im_contains_def member_of_def)
  next
    case (RMessage m)
    with ok obtain v where "A2AMessage_to_json m = Inr v" "A2AMessage_from_json v = Inr m"
      using msg.encode_decode [of m] by (auto simp: send_result_ok_def)
    with RMessage show ?thesis by (simp add: SendMessageResult_to_json_def SendMessageResult_from_json_def wire_object_def
          im_contains_def member_of_def)
  qed
qed (auto simp: SendMessageResult_from_json_def send_result_ok_def dest: task.decode_ok msg.decode_ok split: if_splits)

datatype StreamEvent =
    EvTask Task
  | EvMessage A2AMessage
  | EvArtifact TaskArtifactUpdateEvent
  | EvStatus TaskStatusUpdateEvent

definition StreamEvent_task_id :: "StreamEvent \<Rightarrow> string option" where
  "StreamEvent_task_id ev =
     (case ev of
        EvTask t \<Rightarrow> Some (tk_id t)
      | EvMessage m \<Rightarrow> ms_task_id m
      | EvArtifact e \<Rightarrow> Some (au_task_id e)
      | EvStatus e \<Rightarrow> Some (su_task_id e))"

definition StreamEvent_to_json :: "StreamEvent \<Rightarrow> string + json" where
  "StreamEvent_to_json ev =
     (case ev of
        EvStatus e \<Rightarrow> and_then (StatusUpdate_to_json e) (\<lambda>v. Inr (JObj [(''statusUpdate'', v)]))
      | EvArtifact e \<Rightarrow> and_then (ArtifactUpdate_to_json e) (\<lambda>v. Inr (JObj [(''artifactUpdate'', v)]))
      | EvTask t \<Rightarrow> and_then (Task_to_json t) (\<lambda>v. Inr (JObj [(''task'', v)]))
      | EvMessage m \<Rightarrow> and_then (A2AMessage_to_json m) (\<lambda>v. Inr (JObj [(''message'', v)])))"

definition StreamEvent_from_json :: "json \<Rightarrow> string + StreamEvent" where
  "StreamEvent_from_json v =
     and_then (wire_object v ''SendStreamingMessage result'') (\<lambda>obj.
     case im_get obj ''task'' of Some w \<Rightarrow> and_then (Task_from_json w) (\<lambda>t. Inr (EvTask t)) | None \<Rightarrow>
     (case im_get obj ''message'' of Some w \<Rightarrow> and_then (A2AMessage_from_json w) (\<lambda>m. Inr (EvMessage m)) | None \<Rightarrow>
     (case im_get obj ''statusUpdate'' of Some w \<Rightarrow> and_then (StatusUpdate_from_json w) (\<lambda>e. Inr (EvStatus e)) | None \<Rightarrow>
     (case im_get obj ''artifactUpdate'' of Some w \<Rightarrow> and_then (ArtifactUpdate_from_json w) (\<lambda>e. Inr (EvArtifact e)) | None \<Rightarrow>
        Inl ''result deserialize field''))))"

definition stream_event_ok :: "StreamEvent \<Rightarrow> bool" where
  "stream_event_ok ev =
     (case ev of
        EvTask t \<Rightarrow> task_ok t
      | EvMessage m \<Rightarrow> a2a_message_ok m
      | EvArtifact e \<Rightarrow> artifact_update_ok e
      | EvStatus e \<Rightarrow> status_update_ok e)"

lemma stream_event_decode_ok: "StreamEvent_from_json v = Inr ev \<Longrightarrow> stream_event_ok ev"
  unfolding StreamEvent_from_json_def
  by (cases ev) (auto simp: stream_event_ok_def split: option.split_asm
      intro: task.decode_ok msg.decode_ok artifact_update.decode_ok status_update.decode_ok)

interpretation stream_event: wire_json StreamEvent_to_json StreamEvent_from_json stream_event_ok
proof
  fix ev :: StreamEvent
  assume ok: "stream_event_ok ev"
  show "\<exists>v. StreamEvent_to_json ev = Inr v \<and> StreamEvent_from_json v = Inr ev"
  proof (cases ev)
    case (EvTask t)
    with ok obtain v where "Task_to_json t = Inr v" "Task_from_json v = Inr t"
      using task.encode_decode [of t] by (auto simp: stream_event_ok_def)
    with EvTask show ?thesis by (simp add: StreamEvent_to_json_def StreamEvent_from_json_def wire_object_def)
  next
    case (EvMessage m)
    with ok obtain v where "A2AMessage_to_json m = Inr v" "A2AMessage_from_json v = Inr m"
      using msg.encode_decode [of m] by (auto simp: stream_event_ok_def)
    with EvMessage show ?thesis by (simp add: StreamEvent_to_json_def StreamEvent_from_json_def wire_object_def)
  next
    case (EvArtifact e)
    with ok obtain v where "ArtifactUpdate_to_json e = Inr v" "ArtifactUpdate_from_json v = Inr e"
      using artifact_update.encode_decode [of e] by (auto simp: stream_event_ok_def)
    with EvArtifact show ?thesis by (simp add: StreamEvent_to_json_def StreamEvent_from_json_def wire_object_def)
  next
    case (EvStatus e)
    with ok obtain v where "StatusUpdate_to_json e = Inr v" "StatusUpdate_from_json v = Inr e"
      using status_update.encode_decode [of e] by (auto simp: stream_event_ok_def)
    with EvStatus show ?thesis by (simp add: StreamEvent_to_json_def StreamEvent_from_json_def wire_object_def)
  qed
qed (rule stream_event_decode_ok)

definition success_response :: "('a \<Rightarrow> string + json) \<Rightarrow> RequestId option \<Rightarrow> 'a \<Rightarrow> string + RpcResponse" where
  "success_response to_json i x =
     and_then (to_json x) (\<lambda>v. Inr \<lparr> rs_jsonrpc = JSONRPC_VERSION, rs_id = i, rs_result = Some v, rs_error = None \<rparr>)"

end
