(* ===== verification/A2AParams.thy ===== *)
theory A2AParams
  imports A2ATypes
begin

text \<open>
  The parameters of the A2A methods (\<open>A2A/rust-sdk/src/types.rs\<close>): send requests with their
  configuration, push notification configurations and the objects that name a task. Each type
  is an interpretation of \<open>wire_json\<close>.
\<close>

subsection \<open>Push notification configurations\<close>

record PushNotificationAuthenticationInfo =
  pa_credentials :: "string option"
  pa_schemes :: "string list"

definition PushAuth_to_json :: "PushNotificationAuthenticationInfo \<Rightarrow> string + json" where
  "PushAuth_to_json a =
     Inr (JObj (some_members
       [(''schemes'', Some (string_vec_json (pa_schemes a))), (''credentials'', map_option JStr (pa_credentials a))]))"

definition PushAuth_from_json :: "json \<Rightarrow> string + PushNotificationAuthenticationInfo" where
  "PushAuth_from_json v =
     and_then (wire_object v ''PushNotificationAuthenticationInfo'') (\<lambda>obj.
     and_then (ensure (im_contains obj ''schemes'')
       (''PushNotificationAuthenticationInfo must contain '' @ [CHR 0x27] @ ''schemes'' @ [CHR 0x27] @ '' field'')) (\<lambda>_.
     and_then (string_vec (member_of obj ''schemes'') ''PushNotificationAuthenticationInfo.schemes'') (\<lambda>ss.
     and_then (wire_opt_string obj ''credentials'' ''PushNotificationAuthenticationInfo'') (\<lambda>c.
       Inr \<lparr> pa_credentials = c, pa_schemes = ss \<rparr>))))"

interpretation push_auth: wire_json PushAuth_to_json PushAuth_from_json "\<lambda>_. True"
  by unfold_locales (simp_all add: PushAuth_to_json_def PushAuth_from_json_def wire_defs wire_simps)

record PushNotificationConfig =
  pc_authentication :: "PushNotificationAuthenticationInfo option"
  pc_config_id :: "string option"
  pc_id :: "string option"
  pc_token :: "string option"
  pc_url :: string
  pc_created_at :: "string option"

definition PushConfig_default :: PushNotificationConfig where
  "PushConfig_default = \<lparr> pc_authentication = None, pc_config_id = None, pc_id = None, pc_token = None, pc_url = [],
     pc_created_at = None \<rparr>"

definition PushConfig_to_json :: "PushNotificationConfig \<Rightarrow> string + json" where
  "PushConfig_to_json c =
     and_then (ensure (pc_url c \<noteq> []) ''PushNotificationConfig.url cannot be empty'') (\<lambda>_.
     and_then (opt_to_json PushAuth_to_json (pc_authentication c)) (\<lambda>a.
       Inr (JObj (some_members
         [(''url'', Some (JStr (pc_url c))), (''authentication'', a), (''configId'', map_option JStr (pc_config_id c)),
          (''id'', map_option JStr (pc_id c)), (''token'', map_option JStr (pc_token c))]))))"

definition PushConfig_from_json :: "json \<Rightarrow> string + PushNotificationConfig" where
  "PushConfig_from_json v =
     and_then (wire_object v ''PushNotificationConfig'') (\<lambda>obj.
     and_then (ensure (im_contains obj ''url'') (''PushNotificationConfig must contain '' @ [CHR 0x27] @ ''url'' @ [CHR 0x27] @ '' field'')) (\<lambda>_.
     and_then (get_string obj ''url'' ''PushNotificationConfig'') (\<lambda>u.
     and_then (ensure (u \<noteq> []) ''PushNotificationConfig.url cannot be empty'') (\<lambda>_.
     and_then (opt_from_json PushAuth_from_json (im_get obj ''authentication'')) (\<lambda>a.
     and_then (wire_opt_string obj ''id'' ''PushNotificationConfig'') (\<lambda>i.
     and_then (wire_opt_string obj ''configId'' ''PushNotificationConfig'') (\<lambda>ci.
     and_then (wire_opt_string obj ''token'' ''PushNotificationConfig'') (\<lambda>tok.
       Inr \<lparr> pc_authentication = a, pc_config_id = None, pc_id = (case ci of Some x \<Rightarrow> Some x | None \<Rightarrow> i),
         pc_token = tok, pc_url = u, pc_created_at = None \<rparr>))))))))"

text \<open>The decoder puts \<open>configId\<close> into \<open>id\<close>, so a configuration that comes back has only the latter.\<close>

definition push_config_ok :: "PushNotificationConfig \<Rightarrow> bool" where
  "push_config_ok c \<longleftrightarrow> pc_url c \<noteq> [] \<and> pc_config_id c = None \<and> pc_created_at c = None"

interpretation push_config: wire_json PushConfig_to_json PushConfig_from_json push_config_ok
proof
  fix c :: PushNotificationConfig
  assume ok: "push_config_ok c"
  obtain a where "opt_to_json PushAuth_to_json (pc_authentication c) = Inr a" "opt_from_json PushAuth_from_json a = Inr (pc_authentication c)"
    using push_auth.opt_roundtrip [of "pc_authentication c"] by (auto simp: pred_option_def)
  with ok show "\<exists>v. PushConfig_to_json c = Inr v \<and> PushConfig_from_json v = Inr c"
    by (simp add: PushConfig_to_json_def PushConfig_from_json_def push_config_ok_def wire_defs wire_simps)
qed (auto simp: PushConfig_from_json_def push_config_ok_def)

record TaskPushNotificationConfig =
  tpc_config :: PushNotificationConfig
  tpc_task_id :: string

definition TaskPush_to_json :: "TaskPushNotificationConfig \<Rightarrow> string + json" where
  "TaskPush_to_json c =
     and_then (ensure (tpc_task_id c \<noteq> []) ''TaskPushNotificationConfig.taskId cannot be empty'') (\<lambda>_.
     and_then (PushConfig_to_json (tpc_config c)) (\<lambda>p.
       Inr (JObj (some_members [(''pushNotificationConfig'', Some p), (''taskId'', Some (JStr (tpc_task_id c)))]))))"

definition TaskPush_from_json :: "json \<Rightarrow> string + TaskPushNotificationConfig" where
  "TaskPush_from_json v =
     and_then (wire_object v ''TaskPushNotificationConfig'') (\<lambda>obj.
     and_then (ensure (has_all obj [''pushNotificationConfig'', ''taskId'']) ''TaskPushNotificationConfig missing required fields'') (\<lambda>_.
     and_then (get_string obj ''taskId'' ''TaskPushNotificationConfig'') (\<lambda>i.
     and_then (ensure (i \<noteq> []) ''TaskPushNotificationConfig.taskId cannot be empty'') (\<lambda>_.
     and_then (PushConfig_from_json (member_of obj ''pushNotificationConfig'')) (\<lambda>p.
       Inr \<lparr> tpc_config = p, tpc_task_id = i \<rparr>)))))"

definition task_push_ok :: "TaskPushNotificationConfig \<Rightarrow> bool" where
  "task_push_ok c \<longleftrightarrow> tpc_task_id c \<noteq> [] \<and> push_config_ok (tpc_config c)"

interpretation task_push: wire_json TaskPush_to_json TaskPush_from_json task_push_ok
proof
  fix c :: TaskPushNotificationConfig
  assume ok: "task_push_ok c"
  then obtain p where "PushConfig_to_json (tpc_config c) = Inr p" "PushConfig_from_json p = Inr (tpc_config c)"
    using push_config.encode_decode [of "tpc_config c"] by (auto simp: task_push_ok_def)
  with ok show "\<exists>v. TaskPush_to_json c = Inr v \<and> TaskPush_from_json v = Inr c"
    by (simp add: TaskPush_to_json_def TaskPush_from_json_def task_push_ok_def wire_defs wire_simps)
qed (auto simp: TaskPush_from_json_def task_push_ok_def dest: push_config.decode_ok)

subsection \<open>Send requests\<close>

record MessageSendConfiguration =
  mc_accepted_output_modes :: "string list option"
  mc_history_length :: "int option"
  mc_push_notification_config :: "PushNotificationConfig option"
  mc_return_immediately :: "bool option"

definition SendConfig_to_json :: "MessageSendConfiguration \<Rightarrow> string + json" where
  "SendConfig_to_json c =
     and_then (opt_to_json PushConfig_to_json (mc_push_notification_config c)) (\<lambda>p.
       Inr (JObj (some_members
         [(''acceptedOutputModes'', map_option string_vec_json (mc_accepted_output_modes c)),
          (''historyLength'', map_option JInt (mc_history_length c)), (''pushNotificationConfig'', p),
          (''returnImmediately'', map_option JBool (mc_return_immediately c))])))"

definition SendConfig_from_json :: "json \<Rightarrow> string + MessageSendConfiguration" where
  "SendConfig_from_json v =
     and_then (wire_object v ''MessageSendConfiguration'') (\<lambda>obj.
     and_then (opt_from_json (\<lambda>w. string_vec w ''acceptedOutputModes'') (opt_member obj ''acceptedOutputModes'')) (\<lambda>a.
     and_then (opt_from_json PushConfig_from_json (im_get obj ''pushNotificationConfig'')) (\<lambda>p.
     and_then (wire_opt_i32 obj ''historyLength'' ''MessageSendConfiguration'') (\<lambda>h.
     and_then (wire_opt_bool obj ''returnImmediately'' ''MessageSendConfiguration'') (\<lambda>r.
       Inr \<lparr> mc_accepted_output_modes = a, mc_history_length = h, mc_push_notification_config = p,
         mc_return_immediately = r \<rparr>)))))"

definition send_config_ok :: "MessageSendConfiguration \<Rightarrow> bool" where
  "send_config_ok c \<longleftrightarrow> pred_option is_i32 (mc_history_length c) \<and> pred_option push_config_ok (mc_push_notification_config c)"

lemma string_vec_not_null [simp]: "string_vec_json xs \<noteq> JNull"
  by (simp add: string_vec_json_def)

lemma opt_i32_range: "wire_opt_i32 obj k t = Inr n \<Longrightarrow> pred_option is_i32 n"
  unfolding wire_opt_i32_def by (rule read_i32_range)

interpretation send_config: wire_json SendConfig_to_json SendConfig_from_json send_config_ok
proof
  fix c :: MessageSendConfiguration
  assume ok: "send_config_ok c"
  then obtain p where "opt_to_json PushConfig_to_json (mc_push_notification_config c) = Inr p"
    "opt_from_json PushConfig_from_json p = Inr (mc_push_notification_config c)"
    using push_config.opt_roundtrip [of "mc_push_notification_config c"] by (auto simp: send_config_ok_def)
  with ok show "\<exists>v. SendConfig_to_json c = Inr v \<and> SendConfig_from_json v = Inr c"
    by (simp add: SendConfig_to_json_def SendConfig_from_json_def send_config_ok_def wire_defs wire_simps)
qed (auto simp: SendConfig_from_json_def send_config_ok_def dest: push_config.opt_ok opt_i32_range)

record MessageSendParams =
  mp_configuration :: "MessageSendConfiguration option"
  mp_message :: A2AMessage
  mp_metadata :: "json option"

definition SendParams_to_json :: "MessageSendParams \<Rightarrow> string + json" where
  "SendParams_to_json p =
     and_then (A2AMessage_to_json (mp_message p)) (\<lambda>m.
     and_then (opt_to_json SendConfig_to_json (mp_configuration p)) (\<lambda>c.
       Inr (JObj (some_members [(''message'', Some m), (''configuration'', c), (''metadata'', mp_metadata p)]))))"

definition SendParams_from_json :: "json \<Rightarrow> string + MessageSendParams" where
  "SendParams_from_json v =
     and_then (wire_object v ''MessageSendParams'') (\<lambda>obj.
     and_then (ensure (im_contains obj ''message'') (''MessageSendParams must contain '' @ [CHR 0x27] @ ''message'' @ [CHR 0x27] @ '' field'')) (\<lambda>_.
     and_then (opt_from_json SendConfig_from_json (im_get obj ''configuration'')) (\<lambda>c.
     and_then (A2AMessage_from_json (member_of obj ''message'')) (\<lambda>m.
       Inr \<lparr> mp_configuration = c, mp_message = m, mp_metadata = opt_metadata obj \<rparr>))))"

definition send_params_ok :: "MessageSendParams \<Rightarrow> bool" where
  "send_params_ok p \<longleftrightarrow> pred_option send_config_ok (mp_configuration p) \<and> a2a_message_ok (mp_message p) \<and> not_null (mp_metadata p)"

interpretation send_params: wire_json SendParams_to_json SendParams_from_json send_params_ok
proof
  fix p :: MessageSendParams
  assume ok: "send_params_ok p"
  then obtain m c where "A2AMessage_to_json (mp_message p) = Inr m" "A2AMessage_from_json m = Inr (mp_message p)"
    "opt_to_json SendConfig_to_json (mp_configuration p) = Inr c" "opt_from_json SendConfig_from_json c = Inr (mp_configuration p)"
    using msg.encode_decode [of "mp_message p"] send_config.opt_roundtrip [of "mp_configuration p"]
    unfolding send_params_ok_def by blast
  with ok show "\<exists>v. SendParams_to_json p = Inr v \<and> SendParams_from_json v = Inr p"
    by (simp add: SendParams_to_json_def SendParams_from_json_def send_params_ok_def not_null_def wire_defs wire_simps)
qed (auto simp: SendParams_from_json_def send_params_ok_def dest: msg.decode_ok send_config.opt_ok)

subsection \<open>Parameters that name a task\<close>

definition id_params_to_json :: "string \<Rightarrow> string \<Rightarrow> (string \<times> json option) list \<Rightarrow> string + json" where
  "id_params_to_json type_name i others =
     and_then (ensure (i \<noteq> []) (dotted type_name ''id'' @ '' cannot be empty'')) (\<lambda>_.
       Inr (JObj (some_members ((''id'', Some (JStr i)) # others))))"

definition id_params_from_json :: "string \<Rightarrow> json \<Rightarrow> string + JsonDict \<times> string" where
  "id_params_from_json type_name v =
     and_then (wire_object v type_name) (\<lambda>obj.
     and_then (ensure (im_contains obj ''id'') (type_name @ '' must contain '' @ [CHR 0x27] @ ''id'' @ [CHR 0x27] @ '' field'')) (\<lambda>_.
     and_then (get_string obj ''id'' type_name) (\<lambda>i.
     and_then (ensure (i \<noteq> []) (dotted type_name ''id'' @ '' cannot be empty'')) (\<lambda>_.
       Inr (obj, i)))))"

lemmas id_params_defs = id_params_to_json_def id_params_from_json_def

record TaskIdParams =
  ti_id :: string
  ti_metadata :: "json option"

definition TaskId_to_json :: "TaskIdParams \<Rightarrow> string + json" where
  "TaskId_to_json p = id_params_to_json ''TaskIdParams'' (ti_id p) [(''metadata'', ti_metadata p)]"

definition TaskId_from_json :: "json \<Rightarrow> string + TaskIdParams" where
  "TaskId_from_json v =
     and_then (id_params_from_json ''TaskIdParams'' v) (\<lambda>(obj, i). Inr \<lparr> ti_id = i, ti_metadata = opt_metadata obj \<rparr>)"

definition task_id_ok :: "TaskIdParams \<Rightarrow> bool" where
  "task_id_ok p \<longleftrightarrow> ti_id p \<noteq> [] \<and> not_null (ti_metadata p)"

interpretation task_id: wire_json TaskId_to_json TaskId_from_json task_id_ok
proof
  fix p :: TaskIdParams
  assume "task_id_ok p"
  then show "\<exists>v. TaskId_to_json p = Inr v \<and> TaskId_from_json v = Inr p"
    by (simp add: TaskId_to_json_def TaskId_from_json_def id_params_defs task_id_ok_def not_null_def wire_defs wire_simps)
qed (auto simp: TaskId_from_json_def id_params_defs task_id_ok_def)

record TaskQueryParams =
  tq_history_length :: "int option"
  tq_id :: string
  tq_metadata :: "json option"

definition TaskQuery_to_json :: "TaskQueryParams \<Rightarrow> string + json" where
  "TaskQuery_to_json p =
     id_params_to_json ''TaskQueryParams'' (tq_id p)
       [(''historyLength'', map_option JInt (tq_history_length p)), (''metadata'', tq_metadata p)]"

definition TaskQuery_from_json :: "json \<Rightarrow> string + TaskQueryParams" where
  "TaskQuery_from_json v =
     and_then (id_params_from_json ''TaskQueryParams'' v) (\<lambda>(obj, i).
     and_then (wire_opt_i32 obj ''historyLength'' ''TaskQueryParams'') (\<lambda>h.
       Inr \<lparr> tq_history_length = h, tq_id = i, tq_metadata = opt_metadata obj \<rparr>))"

definition task_query_ok :: "TaskQueryParams \<Rightarrow> bool" where
  "task_query_ok p \<longleftrightarrow> tq_id p \<noteq> [] \<and> not_null (tq_metadata p) \<and> pred_option is_i32 (tq_history_length p)"

interpretation task_query: wire_json TaskQuery_to_json TaskQuery_from_json task_query_ok
proof
  fix p :: TaskQueryParams
  assume "task_query_ok p"
  then show "\<exists>v. TaskQuery_to_json p = Inr v \<and> TaskQuery_from_json v = Inr p"
    by (simp add: TaskQuery_to_json_def TaskQuery_from_json_def id_params_defs task_query_ok_def not_null_def wire_defs wire_simps)
qed (auto simp: TaskQuery_from_json_def id_params_defs task_query_ok_def dest: opt_i32_range)

record GetTaskPushNotificationConfigParams =
  gp_id :: string
  gp_metadata :: "json option"
  gp_push_notification_config_id :: "string option"

definition GetPush_to_json :: "GetTaskPushNotificationConfigParams \<Rightarrow> string + json" where
  "GetPush_to_json p =
     id_params_to_json ''GetTaskPushNotificationConfigParams'' (gp_id p)
       [(''metadata'', gp_metadata p), (''pushNotificationConfigId'', map_option JStr (gp_push_notification_config_id p))]"

definition GetPush_from_json :: "json \<Rightarrow> string + GetTaskPushNotificationConfigParams" where
  "GetPush_from_json v =
     and_then (id_params_from_json ''GetTaskPushNotificationConfigParams'' v) (\<lambda>(obj, i).
     and_then (wire_opt_string obj ''pushNotificationConfigId'' ''GetTaskPushNotificationConfigParams'') (\<lambda>c.
       Inr \<lparr> gp_id = i, gp_metadata = opt_metadata obj, gp_push_notification_config_id = c \<rparr>))"

definition get_push_ok :: "GetTaskPushNotificationConfigParams \<Rightarrow> bool" where
  "get_push_ok p \<longleftrightarrow> gp_id p \<noteq> [] \<and> not_null (gp_metadata p)"

interpretation get_push: wire_json GetPush_to_json GetPush_from_json get_push_ok
proof
  fix p :: GetTaskPushNotificationConfigParams
  assume "get_push_ok p"
  then show "\<exists>v. GetPush_to_json p = Inr v \<and> GetPush_from_json v = Inr p"
    by (simp add: GetPush_to_json_def GetPush_from_json_def id_params_defs get_push_ok_def not_null_def wire_defs wire_simps)
qed (auto simp: GetPush_from_json_def id_params_defs get_push_ok_def)

record ListTaskPushNotificationConfigParams =
  lp_id :: string
  lp_metadata :: "json option"

definition ListPush_to_json :: "ListTaskPushNotificationConfigParams \<Rightarrow> string + json" where
  "ListPush_to_json p = id_params_to_json ''ListTaskPushNotificationConfigParams'' (lp_id p) [(''metadata'', lp_metadata p)]"

definition ListPush_from_json :: "json \<Rightarrow> string + ListTaskPushNotificationConfigParams" where
  "ListPush_from_json v =
     and_then (id_params_from_json ''ListTaskPushNotificationConfigParams'' v) (\<lambda>(obj, i).
       Inr \<lparr> lp_id = i, lp_metadata = opt_metadata obj \<rparr>)"

definition list_push_ok :: "ListTaskPushNotificationConfigParams \<Rightarrow> bool" where
  "list_push_ok p \<longleftrightarrow> lp_id p \<noteq> [] \<and> not_null (lp_metadata p)"

interpretation list_push: wire_json ListPush_to_json ListPush_from_json list_push_ok
proof
  fix p :: ListTaskPushNotificationConfigParams
  assume "list_push_ok p"
  then show "\<exists>v. ListPush_to_json p = Inr v \<and> ListPush_from_json v = Inr p"
    by (simp add: ListPush_to_json_def ListPush_from_json_def id_params_defs list_push_ok_def not_null_def wire_defs wire_simps)
qed (auto simp: ListPush_from_json_def id_params_defs list_push_ok_def)

record DeleteTaskPushNotificationConfigParams =
  dp_id :: string
  dp_metadata :: "json option"
  dp_push_notification_config_id :: string

definition DeletePush_to_json :: "DeleteTaskPushNotificationConfigParams \<Rightarrow> string + json" where
  "DeletePush_to_json p =
     and_then (ensure (dp_id p \<noteq> []) ''DeleteTaskPushNotificationConfigParams.id cannot be empty'') (\<lambda>_.
     and_then (ensure (dp_push_notification_config_id p \<noteq> [])
       ''DeleteTaskPushNotificationConfigParams.pushNotificationConfigId cannot be empty'') (\<lambda>_.
       Inr (JObj (some_members
         [(''id'', Some (JStr (dp_id p))), (''pushNotificationConfigId'', Some (JStr (dp_push_notification_config_id p))),
          (''metadata'', dp_metadata p)]))))"

definition DeletePush_from_json :: "json \<Rightarrow> string + DeleteTaskPushNotificationConfigParams" where
  "DeletePush_from_json v =
     and_then (wire_object v ''DeleteTaskPushNotificationConfigParams'') (\<lambda>obj.
     and_then (ensure (has_all obj [''id'', ''pushNotificationConfigId'']) ''DeleteTaskPushNotificationConfigParams missing required fields'') (\<lambda>_.
     and_then (get_string obj ''id'' ''DeleteTaskPushNotificationConfigParams'') (\<lambda>i.
     and_then (get_string obj ''pushNotificationConfigId'' ''DeleteTaskPushNotificationConfigParams'') (\<lambda>c.
     and_then (ensure (i \<noteq> []) ''DeleteTaskPushNotificationConfigParams.id cannot be empty'') (\<lambda>_.
     and_then (ensure (c \<noteq> []) ''DeleteTaskPushNotificationConfigParams.pushNotificationConfigId cannot be empty'') (\<lambda>_.
       Inr \<lparr> dp_id = i, dp_metadata = opt_metadata obj, dp_push_notification_config_id = c \<rparr>))))))"

definition delete_push_ok :: "DeleteTaskPushNotificationConfigParams \<Rightarrow> bool" where
  "delete_push_ok p \<longleftrightarrow> dp_id p \<noteq> [] \<and> dp_push_notification_config_id p \<noteq> [] \<and> not_null (dp_metadata p)"

interpretation delete_push: wire_json DeletePush_to_json DeletePush_from_json delete_push_ok
proof
  fix p :: DeleteTaskPushNotificationConfigParams
  assume "delete_push_ok p"
  then show "\<exists>v. DeletePush_to_json p = Inr v \<and> DeletePush_from_json v = Inr p"
    by (simp add: DeletePush_to_json_def DeletePush_from_json_def delete_push_ok_def not_null_def wire_defs wire_simps)
qed (auto simp: DeletePush_from_json_def delete_push_ok_def)


end
