(* ===== verification/A2AServer.thy ===== *)
theory A2AServer
  imports A2AParams Sse
begin

text \<open>
  The A2A server of \<open>A2A/rust-sdk/src/server\<close>: the task store, the task manager with its callbacks, the
  task updater an agent publishes with, the push notification store, the request handler and
  the JSON-RPC dispatch. Callbacks and emitters are closures in the code; here they are data,
  with one function that runs them. What the code does between two await points is one step;
  the agent is outside of the model, any sequence of calls of its updater may happen. The call
  context is always absent when a request comes through JSON-RPC, and the in-memory store ignores it.
\<close>

subsection \<open>Errors (\<open>error.rs\<close>)\<close>

datatype A2aServerError = ServerError int string | MethodNotImplemented string

definition JsonrpcInternalError :: int where "JsonrpcInternalError = - 32603"
definition JsonrpcInvalidRequest :: int where "JsonrpcInvalidRequest = - 32600"
definition JsonrpcMethodNotFound :: int where "JsonrpcMethodNotFound = - 32601"
definition TaskNotFound :: int where "TaskNotFound = - 32001"
definition TaskNotCancelable :: int where "TaskNotCancelable = - 32002"
definition PushNotificationNotSupported :: int where "PushNotificationNotSupported = - 32003"
definition UnsupportedOperation :: int where "UnsupportedOperation = - 32004"

definition A2aServerError_new :: "string \<Rightarrow> A2aServerError" where
  "A2aServerError_new m = ServerError JsonrpcInternalError m"

definition status_code :: "A2aServerError \<Rightarrow> int" where
  "status_code e = (case e of ServerError c _ \<Rightarrow> c | MethodNotImplemented _ \<Rightarrow> JsonrpcMethodNotFound)"

definition error_message :: "A2aServerError \<Rightarrow> string" where
  "error_message e = (case e of ServerError _ m \<Rightarrow> m | MethodNotImplemented m \<Rightarrow> ''Not Implemented operation Error: '' @ m)"

subsection \<open>Helpers (\<open>utils/helpers.rs\<close>)\<close>

definition is_final :: "TaskState \<Rightarrow> bool" where
  "is_final s \<longleftrightarrow> s \<in> {Completed, Canceled, Failed, Rejected}"

definition is_interrupted :: "TaskState \<Rightarrow> bool" where
  "is_interrupted s \<longleftrightarrow> s \<in> {InputRequired, AuthRequired}"

definition is_final_or_interrupted :: "TaskState \<Rightarrow> bool" where
  "is_final_or_interrupted s \<longleftrightarrow> is_final s \<or> is_interrupted s"

definition is_final_event :: "StreamEvent \<Rightarrow> bool" where
  "is_final_event ev =
     (case ev of
        EvTask t \<Rightarrow> is_final_or_interrupted (ts_state (tk_status t)) \<or> ts_state (tk_status t) = StateUnspecified
      | EvMessage _ \<Rightarrow> True
      | EvStatus e \<Rightarrow> is_final_or_interrupted (ts_state (su_status e))
      | EvArtifact _ \<Rightarrow> False)"

text \<open>\<open>iter_mut().find(..)\<close>: the first element that satisfies the test is changed.\<close>

fun update_first :: "('a \<Rightarrow> bool) \<Rightarrow> ('a \<Rightarrow> 'a) \<Rightarrow> 'a list \<Rightarrow> 'a list" where
  "update_first P f [] = []"
| "update_first P f (x # xs) = (if P x then f x # xs else x # update_first P f xs)"

definition list_or_empty :: "'a list option \<Rightarrow> 'a list" where
  "list_or_empty xs = (case xs of Some ys \<Rightarrow> ys | None \<Rightarrow> [])"

definition same_artifact :: "Artifact \<Rightarrow> Artifact \<Rightarrow> bool" where
  "same_artifact a b \<longleftrightarrow> af_artifact_id b = af_artifact_id a"

definition append_artifact_to_task :: "TaskArtifactUpdateEvent \<Rightarrow> Task \<Rightarrow> Task" where
  "append_artifact_to_task e t =
     (let new = au_artifact e; xs = list_or_empty (tk_artifacts t) in
      t\<lparr> tk_artifacts := Some
        (if au_append e \<noteq> Some True then
           if list_ex (same_artifact new) xs then update_first (same_artifact new) (\<lambda>_. new) xs else xs @ [new]
         else update_first (same_artifact new) (\<lambda>a. a\<lparr> af_parts := af_parts a @ af_parts new \<rparr>) xs) \<rparr>)"

definition are_modalities_compatible :: "string list option \<Rightarrow> string list option \<Rightarrow> bool" where
  "are_modalities_compatible server client \<longleftrightarrow>
     list_or_empty client = [] \<or> list_or_empty server = [] \<or>
     list_ex (\<lambda>c. c \<in> set (list_or_empty server)) (list_or_empty client)"

definition make_error :: "RequestId option \<Rightarrow> int \<Rightarrow> string \<Rightarrow> RpcResponse" where
  "make_error i c m = RpcResponse_error i (RpcError_new c m)"

subsection \<open>Emitters (\<open>emitter.rs\<close>)\<close>

text \<open>
  A \<open>StreamServerEmitter\<close> with what went through its channels. The text that is sent for a response is
  its JSON form; a streaming emitter wraps it in an SSE data event.
\<close>

record Emitter =
  em_streaming :: bool
  em_non_streaming :: bool
  em_response_sent :: bool
  em_out :: "RpcResponse list"

definition Emitter_streaming :: Emitter where
  "Emitter_streaming = \<lparr> em_streaming = True, em_non_streaming = False, em_response_sent = False, em_out = [] \<rparr>"

definition Emitter_non_streaming :: Emitter where
  "Emitter_non_streaming = \<lparr> em_streaming = False, em_non_streaming = True, em_response_sent = False, em_out = [] \<rparr>"

definition write_streaming_data :: "RpcResponse \<Rightarrow> Emitter \<Rightarrow> Emitter" where
  "write_streaming_data r e = (if em_streaming e then e\<lparr> em_out := em_out e @ [r] \<rparr> else e)"

definition write_non_streaming_data :: "RpcResponse \<Rightarrow> Emitter \<Rightarrow> Emitter" where
  "write_non_streaming_data r e =
     (if em_response_sent e then e
      else if em_non_streaming e then e\<lparr> em_response_sent := True, em_non_streaming := False, em_out := em_out e @ [r] \<rparr>
      else e\<lparr> em_response_sent := True \<rparr>)"

definition write_done :: "Emitter \<Rightarrow> Emitter" where
  "write_done e = e\<lparr> em_streaming := False \<rparr>"

subsection \<open>State\<close>

text \<open>The closures of \<open>create_stream_emitter\<close> and \<open>create_non_stream_emitter\<close>: the request and its emitter.\<close>

datatype StreamEmitter = StreamEmit "RequestId option" nat | NonStreamEmit "RequestId option" nat

text \<open>
  The event callbacks: of a send request (its emitter, its task, whether it blocks) and of a streaming
  request (its emitter, its task, whether it is a resubscription).
\<close>

datatype EventCb = SendCb StreamEmitter string bool | StreamCb StreamEmitter string bool

record TaskExecuteInfo =
  ei_message_sent :: bool
  ei_event_cb :: "EventCb list"

definition TaskExecuteInfo_new :: TaskExecuteInfo where
  "TaskExecuteInfo_new = \<lparr> ei_message_sent = False, ei_event_cb = [] \<rparr>"

record TaskUpdaterImpl =
  up_task_id :: string
  up_context_id :: string
  up_terminal_state_reached :: bool

text \<open>A handler that waits for the agent: what it does when the agent returns.\<close>

datatype PendingCall =
    PSend nat "RequestId option" string
  | PStream nat "RequestId option"
  | PCancel nat "RequestId option" string Task

text \<open>
  \<open>sv_requests\<close> counts the requests, \<open>sv_uuids\<close> the generated identifiers, \<open>sv_notified\<close> lists the tasks the push notification sender was
  called with.
\<close>

record A2AServer =
  sv_started :: bool
  sv_tasks :: "(string, Task) imap"
  sv_task_execute_map :: "(string, TaskExecuteInfo) imap"
  sv_push_configs :: "(string, PushNotificationConfig list) imap"
  sv_emitters :: "(nat, Emitter) imap"
  sv_updaters :: "(nat, TaskUpdaterImpl) imap"
  sv_pending :: "(nat, PendingCall) imap"
  sv_requests :: nat
  sv_uuids :: nat
  sv_notified :: "Task list"

text \<open>
  What the server is built with: the identifier generator, whether there is an executor, a push
  configuration store and a sender, whether the card announces streaming, and the JSON form of the card.
\<close>

record A2AConfig =
  cf_uuid :: "nat \<Rightarrow> string"
  cf_executor :: bool
  cf_push_store :: bool
  cf_push_sender :: bool
  cf_streaming :: bool
  cf_card :: "string + json"

definition A2AServer_new :: A2AServer where
  "A2AServer_new = \<lparr> sv_started = False, sv_tasks = [], sv_task_execute_map = [], sv_push_configs = [], sv_emitters = [],
     sv_updaters = [], sv_pending = [], sv_requests = 0, sv_uuids = 0, sv_notified = [] \<rparr>"

definition generate_uuid :: "A2AConfig \<Rightarrow> A2AServer \<Rightarrow> string \<times> A2AServer" where
  "generate_uuid cf s = (cf_uuid cf (sv_uuids s), s\<lparr> sv_uuids := Suc (sv_uuids s) \<rparr>)"

definition with_emitter :: "nat \<Rightarrow> (Emitter \<Rightarrow> Emitter) \<Rightarrow> A2AServer \<Rightarrow> A2AServer" where
  "with_emitter c f s =
     (case im_get (sv_emitters s) c of
        Some e \<Rightarrow> s\<lparr> sv_emitters := im_insert c (f e) (sv_emitters s) \<rparr>
      | None \<Rightarrow> s)"


text \<open>The body of \<open>create_stream_emitter\<close> and \<open>create_non_stream_emitter\<close> (\<open>server_impl.rs\<close>).\<close>

definition emit :: "StreamEmitter \<Rightarrow> StreamEvent \<Rightarrow> A2AServer \<Rightarrow> A2AServer" where
  "emit em ev s =
     (case em of
        StreamEmit i c \<Rightarrow>
          let s1 = (case success_response StreamEvent_to_json i ev of
                      Inr r \<Rightarrow> with_emitter c (write_streaming_data r) s
                    | Inl _ \<Rightarrow> s)
          in if is_final_event ev then with_emitter c write_done s1 else s1
      | NonStreamEmit i c \<Rightarrow>
          (case (case ev of EvTask t \<Rightarrow> Some (RTask t) | EvMessage m \<Rightarrow> Some (RMessage m) | _ \<Rightarrow> None) of
             None \<Rightarrow> s
           | Some res \<Rightarrow>
               (case success_response SendMessageResult_to_json i res of
                  Inr r \<Rightarrow> with_emitter c (write_non_streaming_data r) s
                | Inl _ \<Rightarrow> s)))"

subsection \<open>The task manager (\<open>task_manager.rs\<close>, \<open>task_store.rs\<close>)\<close>

definition get_task :: "string \<Rightarrow> A2AServer \<Rightarrow> Task option" where
  "get_task tid s = im_get (sv_tasks s) tid"

definition save_task :: "Task \<Rightarrow> A2AServer \<Rightarrow> A2AServer" where
  "save_task t s = s\<lparr> sv_tasks := im_insert (tk_id t) t (sv_tasks s) \<rparr>"

definition exec_info :: "string \<Rightarrow> A2AServer \<Rightarrow> TaskExecuteInfo option" where
  "exec_info tid s = im_get (sv_task_execute_map s) tid"

definition set_info :: "string \<Rightarrow> TaskExecuteInfo \<Rightarrow> A2AServer \<Rightarrow> A2AServer" where
  "set_info tid info s = s\<lparr> sv_task_execute_map := im_insert tid info (sv_task_execute_map s) \<rparr>"

definition drop_info :: "string \<Rightarrow> A2AServer \<Rightarrow> A2AServer" where
  "drop_info tid s = s\<lparr> sv_task_execute_map := im_remove tid (sv_task_execute_map s) \<rparr>"

definition register_task :: "string \<Rightarrow> TaskExecuteInfo \<Rightarrow> A2AServer \<Rightarrow> (A2aServerError + unit) \<times> A2AServer" where
  "register_task tid info s =
     (if tid = [] then (Inl (A2aServerError_new ''Task ID must be a non-empty string''), s)
      else (Inr (), set_info tid info s))"

definition get_context_id :: "string \<Rightarrow> A2AServer \<Rightarrow> string" where
  "get_context_id tid s = (case get_task tid s of Some t \<Rightarrow> tk_context_id t | None \<Rightarrow> [])"

text \<open>The message of the status moves into the history.\<close>

definition push_history :: "A2AMessage \<Rightarrow> Task \<Rightarrow> Task" where
  "push_history m t = t\<lparr> tk_history := Some (list_or_empty (tk_history t) @ [m]) \<rparr>"

definition archive_status_message :: "Task \<Rightarrow> Task" where
  "archive_status_message t =
     (case ts_message (tk_status t) of
        Some m \<Rightarrow> push_history m (t\<lparr> tk_status := (tk_status t)\<lparr> ts_message := None \<rparr> \<rparr>)
      | None \<Rightarrow> t)"

definition merge_metadata :: "json option \<Rightarrow> json option \<Rightarrow> json option" where
  "merge_metadata old new =
     (case (old, new) of
        (None, m) \<Rightarrow> m
      | (Some (JObj existing), Some (JObj incoming)) \<Rightarrow>
          Some (JObj (fold (\<lambda>(k, v). im_insert k v) incoming existing))
      | (Some _, Some incoming) \<Rightarrow> Some incoming
      | (Some x, None) \<Rightarrow> Some x)"

definition apply_status_update :: "TaskStatusUpdateEvent \<Rightarrow> Task \<Rightarrow> Task" where
  "apply_status_update e t =
     (let t1 = archive_status_message t in
      t1\<lparr> tk_metadata := merge_metadata (tk_metadata t1) (su_metadata e), tk_status := su_status e \<rparr>)"

definition ensure_task_for_event :: "string \<Rightarrow> string \<Rightarrow> A2AServer \<Rightarrow> Task \<times> A2AServer" where
  "ensure_task_for_event eid ecid s =
     (case get_task eid s of
        Some t \<Rightarrow> (t, s)
      | None \<Rightarrow>
          let t = Task_default\<lparr> tk_id := eid, tk_context_id := ecid, tk_status := TaskStatus_new Submitted \<rparr>
          in (t, save_task t (snd (register_task eid TaskExecuteInfo_new s))))"

definition save_task_event :: "StreamEvent \<Rightarrow> A2AServer \<Rightarrow> A2AServer" where
  "save_task_event ev s =
     (case ev of
        EvTask t \<Rightarrow> save_task t s
      | EvMessage _ \<Rightarrow> s
      | EvStatus e \<Rightarrow>
          let (t, s1) = ensure_task_for_event (su_task_id e) (su_context_id e) s
          in save_task (apply_status_update e t) s1
      | EvArtifact e \<Rightarrow>
          let (t, s1) = ensure_task_for_event (au_task_id e) (au_context_id e) s
          in save_task (append_artifact_to_task e t) s1)"

definition exchange_message_sent :: "string \<Rightarrow> bool \<Rightarrow> A2AServer \<Rightarrow> bool \<times> A2AServer" where
  "exchange_message_sent tid v s =
     (case exec_info tid s of
        Some info \<Rightarrow> (ei_message_sent info, set_info tid (info\<lparr> ei_message_sent := v \<rparr>) s)
      | None \<Rightarrow> (False, s))"

definition add_event_callback :: "string \<Rightarrow> EventCb \<Rightarrow> A2AServer \<Rightarrow> A2AServer" where
  "add_event_callback tid cb s =
     (case exec_info tid s of
        Some info \<Rightarrow> set_info tid (info\<lparr> ei_event_cb := ei_event_cb info @ [cb] \<rparr>) s
      | None \<Rightarrow> s)"

definition send_notification :: "A2AConfig \<Rightarrow> Task \<Rightarrow> A2AServer \<Rightarrow> A2AServer" where
  "send_notification cf t s = (if cf_push_sender cf then s\<lparr> sv_notified := sv_notified s @ [t] \<rparr> else s)"

definition set_state :: "TaskState \<Rightarrow> Task \<Rightarrow> Task" where
  "set_state st t = t\<lparr> tk_status := (tk_status t)\<lparr> ts_state := st \<rparr> \<rparr>"

text \<open>
  The callbacks of \<open>execute_agent_and_get_result\<close> and \<open>setup_and_execute_streaming_agent\<close>
  (\<open>request_handler.rs\<close>).
\<close>

definition emit_once :: "string \<Rightarrow> StreamEmitter \<Rightarrow> StreamEvent \<Rightarrow> A2AServer \<Rightarrow> A2AServer" where
  "emit_once tid em ev s = (let (sent, s1) = exchange_message_sent tid True s in if sent then s1 else emit em ev s1)"

definition run_callback :: "A2AConfig \<Rightarrow> StreamEvent \<Rightarrow> EventCb \<Rightarrow> A2AServer \<Rightarrow> A2AServer" where
  "run_callback cf ev cb s =
     (case cb of
        SendCb em tid blocking \<Rightarrow>
          (case get_task tid s of
             None \<Rightarrow> s
           | Some t \<Rightarrow>
               (case ev of
                  EvMessage _ \<Rightarrow> emit_once tid em ev (save_task (set_state Completed t) s)
                | _ \<Rightarrow> if is_final_event ev \<or> \<not> blocking then emit_once tid em (EvTask t) s else s))
      | StreamCb em tid resubscribe \<Rightarrow>
          let s1 = emit em ev s in
          if \<not> cf_push_sender cf \<or> resubscribe then s1
          else (case get_task tid s1 of Some t \<Rightarrow> send_notification cf t s1 | None \<Rightarrow> s1))"

definition run_callbacks :: "A2AConfig \<Rightarrow> StreamEvent \<Rightarrow> EventCb list \<Rightarrow> A2AServer \<Rightarrow> A2AServer" where
  "run_callbacks cf ev cbs s = fold (run_callback cf ev) cbs s"

definition process :: "A2AConfig \<Rightarrow> string \<Rightarrow> StreamEvent \<Rightarrow> A2AServer \<Rightarrow> A2AServer" where
  "process cf tid ev s =
     (case exec_info tid s of
        None \<Rightarrow> s
      | Some info \<Rightarrow>
          let s1 = run_callbacks cf ev (ei_event_cb info) (save_task_event ev s)
          in if is_final_event ev then drop_info tid s1 else s1)"

definition update_with_message :: "A2AMessage \<Rightarrow> Task \<Rightarrow> A2AServer \<Rightarrow> Task \<times> A2AServer" where
  "update_with_message m t s =
     (let t1 = push_history m (archive_status_message t) in (t1, save_task t1 s))"

definition cancel_task :: "A2AConfig \<Rightarrow> Task \<Rightarrow> A2AServer \<Rightarrow> Task \<times> A2AServer" where
  "cancel_task cf t s =
     (if is_final (ts_state (tk_status t)) then (t, s)
      else
        let t1 = set_state Canceled t in
        case exec_info (tk_id t) s of
          None \<Rightarrow> (t1, save_task t1 s)
        | Some info \<Rightarrow>
            let ev = EvStatus \<lparr> su_context_id = tk_context_id t, su_metadata = None,
                                su_status = TaskStatus_new Canceled, su_task_id = tk_id t \<rparr>
            in (t1, drop_info (tk_id t) (run_callbacks cf ev (ei_event_cb info) (save_task t1 s))))"

subsection \<open>The task updater (\<open>task_updater.rs\<close>)\<close>

record TaskArtifactParam =
  ap_parts :: "Part list"
  ap_artifact_id :: "string option"
  ap_name :: "string option"
  ap_metadata :: "json option"
  ap_append :: bool
  ap_last_chunk :: bool
  ap_extensions :: "string list"

definition set_updater :: "nat \<Rightarrow> TaskUpdaterImpl \<Rightarrow> A2AServer \<Rightarrow> A2AServer" where
  "set_updater u up s = s\<lparr> sv_updaters := im_insert u up (sv_updaters s) \<rparr>"

definition TaskUpdaterImpl_new :: "string \<Rightarrow> string \<Rightarrow> TaskUpdaterImpl" where
  "TaskUpdaterImpl_new tid cid = \<lparr> up_task_id = tid, up_context_id = cid, up_terminal_state_reached = False \<rparr>"

text \<open>The last argument is the current time, which is taken when no time stamp is given.\<close>

definition update_status ::
  "A2AConfig \<Rightarrow> nat \<Rightarrow> TaskState \<Rightarrow> A2AMessage option \<Rightarrow> string option \<Rightarrow> json option \<Rightarrow> string \<Rightarrow> A2AServer \<Rightarrow> A2AServer" where
  "update_status cf u st m ts md now s =
     (case im_get (sv_updaters s) u of
        None \<Rightarrow> s
      | Some up \<Rightarrow>
          if up_terminal_state_reached up then s
          else
            let s1 = (if is_final st then set_updater u (up\<lparr> up_terminal_state_reached := True \<rparr>) s else s);
                t = (case ts of Some x \<Rightarrow> x | None \<Rightarrow> now);
                ev = \<lparr> su_context_id = up_context_id up, su_metadata = md,
                       su_status = \<lparr> ts_message = m, ts_state = st, ts_timestamp = Some t \<rparr>, su_task_id = up_task_id up \<rparr>
            in process cf (up_task_id up) (EvStatus ev) s1)"

definition add_artifact :: "A2AConfig \<Rightarrow> nat \<Rightarrow> TaskArtifactParam \<Rightarrow> A2AServer \<Rightarrow> A2AServer" where
  "add_artifact cf u ap s =
     (case im_get (sv_updaters s) u of
        None \<Rightarrow> s
      | Some up \<Rightarrow>
          if up_terminal_state_reached up then s
          else
            let (aid, s1) = (case ap_artifact_id ap of Some i \<Rightarrow> (i, s) | None \<Rightarrow> generate_uuid cf s);
                a = \<lparr> af_artifact_id = aid, af_description = None, af_extensions = Some (ap_extensions ap),
                      af_metadata = ap_metadata ap, af_name = ap_name ap, af_parts = ap_parts ap \<rparr>;
                ev = \<lparr> au_append = Some (ap_append ap), au_artifact = a, au_context_id = up_context_id up,
                       au_last_chunk = Some (ap_last_chunk ap), au_metadata = ap_metadata ap, au_task_id = up_task_id up,
                       au_index = None \<rparr>
            in process cf (up_task_id up) (EvArtifact ev) s1)"

definition new_agent_message :: "A2AConfig \<Rightarrow> nat \<Rightarrow> Part list \<Rightarrow> json option \<Rightarrow> A2AServer \<Rightarrow> A2AMessage option \<times> A2AServer" where
  "new_agent_message cf u ps md s =
     (case im_get (sv_updaters s) u of
        None \<Rightarrow> (None, s)
      | Some up \<Rightarrow>
          let (i, s1) = generate_uuid cf s in
          (Some (A2AMessage_default\<lparr> ms_parts := ps, ms_role := Agent, ms_message_id := i, ms_task_id := Some (up_task_id up),
             ms_context_id := Some (up_context_id up), ms_metadata := md \<rparr>), s1))"

definition send_response_message :: "A2AConfig \<Rightarrow> nat \<Rightarrow> A2AMessage \<Rightarrow> A2AServer \<Rightarrow> A2AServer" where
  "send_response_message cf u m s =
     (case im_get (sv_updaters s) u of
        None \<Rightarrow> s
      | Some up \<Rightarrow> set_updater u (up\<lparr> up_terminal_state_reached := True \<rparr>) (process cf (up_task_id up) (EvMessage m) s))"

subsection \<open>The push notification store (\<open>push_notification.rs\<close>)\<close>

fun remove_first :: "('a \<Rightarrow> bool) \<Rightarrow> 'a list \<Rightarrow> 'a list" where
  "remove_first P [] = []"
| "remove_first P (x # xs) = (if P x then xs else x # remove_first P xs)"

definition push_set_info :: "string \<Rightarrow> PushNotificationConfig \<Rightarrow> (string, PushNotificationConfig list) imap \<Rightarrow>
    (string, PushNotificationConfig list) imap" where
  "push_set_info tid c d =
     (let c1 = (if pc_id c = None then c\<lparr> pc_id := Some tid \<rparr> else c);
          xs = list_or_empty (im_get d tid)
      in im_insert tid (remove_first (\<lambda>x. pc_id x = pc_id c1) xs @ [c1]) d)"

definition push_get_info :: "string \<Rightarrow> (string, PushNotificationConfig list) imap \<Rightarrow> PushNotificationConfig list" where
  "push_get_info tid d = list_or_empty (im_get d tid)"

definition push_delete_info :: "string \<Rightarrow> string option \<Rightarrow> (string, PushNotificationConfig list) imap \<Rightarrow>
    (string, PushNotificationConfig list) imap" where
  "push_delete_info tid config_id d =
     (case im_get d tid of
        None \<Rightarrow> d
      | Some xs \<Rightarrow>
          let cid = (case config_id of Some c \<Rightarrow> c | None \<Rightarrow> tid);
              ys = remove_first (\<lambda>x. pc_id x = Some cid) xs
          in if ys = [] then im_remove tid d else im_insert tid ys d)"

end
