(* ===== verification/A2AHandler.thy ===== *)
theory A2AHandler
  imports A2AServer
begin

text \<open>
  The request handler (\<open>request_handler.rs\<close>), the JSON-RPC methods (\<open>jsonrpc_handler.rs\<close>) and the dispatch of
  a request body (\<open>server_impl.rs\<close>, with the emitters \<open>http_transport.rs\<close> gives it) of the A2A server, and
  the server as a machine over its events. A request gets a number, under which its emitter, the
  updater given to the agent and the handler that waits for the agent are kept.
\<close>

subsection \<open>Opening a task\<close>

definition generate_task_id :: "A2AConfig \<Rightarrow> A2AServer \<Rightarrow> string \<times> A2AServer" where
  "generate_task_id cf s = (let (u, s1) = generate_uuid cf s in (''task-'' @ u, s1))"

definition determine_task_id ::
  "A2AConfig \<Rightarrow> MessageSendParams \<Rightarrow> A2AServer \<Rightarrow> (A2aServerError + string \<times> Task option) \<times> A2AServer" where
  "determine_task_id cf params s =
     (let tid = (case ms_task_id (mp_message params) of Some i \<Rightarrow> i | None \<Rightarrow> []) in
      if tid = [] then (let (i, s1) = generate_task_id cf s in (Inr (i, None), s1))
      else
        (case get_task tid s of
           None \<Rightarrow> (Inl (ServerError TaskNotFound ''Task id not found''), s)
         | Some t \<Rightarrow>
             (case ms_context_id (mp_message params) of
                Some cid \<Rightarrow>
                  if cid \<noteq> [] \<and> tk_context_id t \<noteq> cid then
                    (Inl (ServerError JsonrpcInvalidRequest ''Existing task contextId does not match requested contextId''), s)
                  else (Inr (tid, Some t), s)
              | None \<Rightarrow> (Inr (tid, Some t), s))))"

definition update_push_notification_config :: "A2AConfig \<Rightarrow> MessageSendParams \<Rightarrow> string \<Rightarrow> A2AServer \<Rightarrow> A2AServer" where
  "update_push_notification_config cf params tid s =
     (case Option.bind (mp_configuration params) mc_push_notification_config of
        Some push \<Rightarrow> if cf_push_store cf then s\<lparr> sv_push_configs := push_set_info tid push (sv_push_configs s) \<rparr> else s
      | None \<Rightarrow> s)"

definition create_new_task :: "A2AConfig \<Rightarrow> MessageSendParams \<Rightarrow> string \<Rightarrow> string \<Rightarrow> A2AServer \<Rightarrow> A2AServer" where
  "create_new_task cf params tid cid s =
     update_push_notification_config cf params tid
       (save_task (Task_default\<lparr> tk_id := tid, tk_context_id := cid, tk_status := TaskStatus_new Submitted,
          tk_history := Some [mp_message params] \<rparr>) s)"

text \<open>
  What \<open>on_send_message\<close> and \<open>initialize_streaming_task\<close> do alike: find or create the task of a request and
  register it. The task returned is the one before the message was added to it.
\<close>

definition open_task ::
  "A2AConfig \<Rightarrow> MessageSendParams \<Rightarrow> A2AServer \<Rightarrow> (A2aServerError + string \<times> Task option) \<times> A2AServer" where
  "open_task cf params s =
     (case determine_task_id cf params s of
        (Inl e, s1) \<Rightarrow> (Inl e, s1)
      | (Inr (tid, Some t), s1) \<Rightarrow>
          if is_final (ts_state (tk_status t)) then
            (Inl (ServerError UnsupportedOperation ''Cannot execute task in final state''), s1)
          else
            (case register_task tid TaskExecuteInfo_new s1 of
               (Inl e, s2) \<Rightarrow> (Inl e, s2)
             | (Inr _, s2) \<Rightarrow> (Inr (tid, Some t), snd (update_with_message (mp_message params) t s2)))
      | (Inr (tid, None), s1) \<Rightarrow>
          let (cid, s2) = (case ms_context_id (mp_message params) of Some c \<Rightarrow> (c, s1) | None \<Rightarrow> generate_uuid cf s1);
              s3 = create_new_task cf params tid cid s2
          in (case register_task tid TaskExecuteInfo_new s3 of
                (Inl e, s4) \<Rightarrow> (Inl e, s4)
              | (Inr _, s4) \<Rightarrow> (Inr (tid, get_task tid s3), s4)))"

subsection \<open>Messages\<close>

text \<open>The handlers up to the call of the agent. \<open>n\<close> is the number of the request.\<close>

definition call_agent :: "A2AConfig \<Rightarrow> nat \<Rightarrow> string \<Rightarrow> string \<Rightarrow> PendingCall \<Rightarrow> A2AServer \<Rightarrow> (A2aServerError + unit) \<times> A2AServer" where
  "call_agent cf n tid cid pending s =
     (if cf_executor cf then
        (Inr (), (set_updater n (TaskUpdaterImpl_new tid cid) s)\<lparr> sv_pending := im_insert n pending (sv_pending s) \<rparr>)
      else (Inl (A2aServerError_new ''Agent executor not available''), s))"

definition is_blocking :: "MessageSendParams \<Rightarrow> bool" where
  "is_blocking params =
     (case mp_configuration params of Some c \<Rightarrow> mc_return_immediately c \<noteq> Some True | None \<Rightarrow> True)"

definition on_send_message :: "A2AConfig \<Rightarrow> nat \<Rightarrow> RequestId option \<Rightarrow> MessageSendParams \<Rightarrow> A2AServer \<Rightarrow>
    (A2aServerError + unit) \<times> A2AServer" where
  "on_send_message cf n i params s =
     (case open_task cf params s of
        (Inl e, s1) \<Rightarrow> (Inl e, s1)
      | (Inr (tid, _), s1) \<Rightarrow>
          let s2 = snd (exchange_message_sent tid False s1);
              s3 = add_event_callback tid (SendCb (NonStreamEmit i n) tid (is_blocking params)) s2
          in call_agent cf n tid (get_context_id tid s2) (PSend n i tid) s3)"

definition on_send_message_streaming :: "A2AConfig \<Rightarrow> nat \<Rightarrow> RequestId option \<Rightarrow> MessageSendParams \<Rightarrow> A2AServer \<Rightarrow>
    (A2aServerError + unit) \<times> A2AServer" where
  "on_send_message_streaming cf n i params s =
     (case open_task cf params s of
        (Inl e, s1) \<Rightarrow> (Inl e, s1)
      | (Inr (tid, None), s1) \<Rightarrow> (Inl (A2aServerError_new ''find or create task failed''), s1)
      | (Inr (tid, Some t), s1) \<Rightarrow>
          let s2 = emit (StreamEmit i n) (EvTask t) s1;
              s3 = add_event_callback tid (StreamCb (StreamEmit i n) tid False) s2
          in call_agent cf n tid (get_context_id tid s3) (PStream n i) s3)"

definition on_resubscribe_to_task :: "A2AConfig \<Rightarrow> nat \<Rightarrow> RequestId option \<Rightarrow> TaskIdParams \<Rightarrow> A2AServer \<Rightarrow>
    (A2aServerError + unit) \<times> A2AServer" where
  "on_resubscribe_to_task cf n i params s =
     (case get_task (ti_id params) s of
        None \<Rightarrow> (Inl (ServerError TaskNotFound ''Task id not found''), s)
      | Some t \<Rightarrow>
          let s1 = emit (StreamEmit i n) (EvTask t) s in
          if is_final_or_interrupted (ts_state (tk_status t)) then (Inr (), s1)
          else (Inr (), add_event_callback (tk_id t) (StreamCb (StreamEmit i n) (tk_id t) True) s1))"

definition send_push_notification_if_needed :: "A2AConfig \<Rightarrow> string \<Rightarrow> A2AServer \<Rightarrow> A2AServer" where
  "send_push_notification_if_needed cf tid s =
     (if tid = [] then s else (case get_task tid s of Some t \<Rightarrow> send_notification cf t s | None \<Rightarrow> s))"

subsection \<open>Tasks and push notification configurations\<close>

definition limit_history :: "int option \<Rightarrow> Task \<Rightarrow> Task" where
  "limit_history limit t =
     (case (limit, tk_history t) of
        (Some l, Some h) \<Rightarrow>
          if 0 < l \<and> nat l < length h then t\<lparr> tk_history := Some (drop (length h - nat l) h) \<rparr> else t
      | _ \<Rightarrow> t)"

definition on_get_task :: "TaskQueryParams \<Rightarrow> A2AServer \<Rightarrow> A2aServerError + Task" where
  "on_get_task params s =
     (case get_task (tq_id params) s of
        None \<Rightarrow> Inl (ServerError TaskNotFound ''Task id not found'')
      | Some t \<Rightarrow> Inr (limit_history (tq_history_length params) t))"

text \<open>\<open>on_cancel_task\<close> up to the call of the agent, and after it: the result is the answer when it is known.\<close>

definition on_cancel_task :: "A2AConfig \<Rightarrow> nat \<Rightarrow> RequestId option \<Rightarrow> TaskIdParams \<Rightarrow> A2AServer \<Rightarrow>
    (A2aServerError + Task option) \<times> A2AServer" where
  "on_cancel_task cf n i params s =
     (case get_task (ti_id params) s of
        None \<Rightarrow> (Inl (ServerError TaskNotFound ''Task id not found''), s)
      | Some t \<Rightarrow>
          if is_final (ts_state (tk_status t)) then (Inl (ServerError TaskNotCancelable ''Cancel task failed''), s)
          else if cf_executor cf then
            (Inr None, snd (call_agent cf n (tk_id t) (tk_context_id t) (PCancel n i (ti_id params) t) s))
          else
            let t1 = set_state Canceled t in (Inr (Some t1), save_task t1 s))"

definition finish_cancel :: "A2AConfig \<Rightarrow> string \<Rightarrow> Task \<Rightarrow> A2AServer \<Rightarrow> Task \<times> A2AServer" where
  "finish_cancel cf tid t s = cancel_task cf (case get_task tid s of Some latest \<Rightarrow> latest | None \<Rightarrow> t) s"

definition push_access :: "A2AConfig \<Rightarrow> string \<Rightarrow> A2AServer \<Rightarrow> A2aServerError + unit" where
  "push_access cf tid s =
     (if \<not> cf_push_store cf then Inl (ServerError PushNotificationNotSupported ''Push notification config is not set'')
      else if get_task tid s = None then Inl (ServerError TaskNotFound ''Task id not found'')
      else Inr ())"

definition on_set_push :: "A2AConfig \<Rightarrow> TaskPushNotificationConfig \<Rightarrow> A2AServer \<Rightarrow> (A2aServerError + unit) \<times> A2AServer" where
  "on_set_push cf c s =
     (case push_access cf (tpc_task_id c) s of
        Inl e \<Rightarrow> (Inl e, s)
      | Inr _ \<Rightarrow> (Inr (), s\<lparr> sv_push_configs := push_set_info (tpc_task_id c) (tpc_config c) (sv_push_configs s) \<rparr>))"

definition on_get_push :: "A2AConfig \<Rightarrow> GetTaskPushNotificationConfigParams \<Rightarrow> A2AServer \<Rightarrow> A2aServerError + TaskPushNotificationConfig" where
  "on_get_push cf p s =
     and_then (push_access cf (gp_id p) s) (\<lambda>_.
       Inr \<lparr> tpc_config = (case push_get_info (gp_id p) (sv_push_configs s) of c # _ \<Rightarrow> c | [] \<Rightarrow> PushConfig_default),
             tpc_task_id = gp_id p \<rparr>)"

definition on_list_push :: "A2AConfig \<Rightarrow> ListTaskPushNotificationConfigParams \<Rightarrow> A2AServer \<Rightarrow> A2aServerError + TaskPushNotificationConfig list" where
  "on_list_push cf p s =
     and_then (push_access cf (lp_id p) s) (\<lambda>_.
       Inr (map (\<lambda>c. \<lparr> tpc_config = c, tpc_task_id = lp_id p \<rparr>) (push_get_info (lp_id p) (sv_push_configs s))))"

definition on_delete_push :: "A2AConfig \<Rightarrow> DeleteTaskPushNotificationConfigParams \<Rightarrow> A2AServer \<Rightarrow> (A2aServerError + unit) \<times> A2AServer" where
  "on_delete_push cf p s =
     (case push_access cf (dp_id p) s of
        Inl e \<Rightarrow> (Inl e, s)
      | Inr _ \<Rightarrow> (Inr (), s\<lparr> sv_push_configs :=
          push_delete_info (dp_id p) (Some (dp_push_notification_config_id p)) (sv_push_configs s) \<rparr>))"

subsection \<open>JSON-RPC methods (\<open>jsonrpc_handler.rs\<close>)\<close>

definition request_id_of :: "json \<Rightarrow> RequestId option" where
  "request_id_of req = Option.bind (jget req ''id'') RequestId_from_value"

definition params_of :: "(json \<Rightarrow> string + 'a) \<Rightarrow> json \<Rightarrow> string + 'a" where
  "params_of from_json req =
     (case jget req ''params'' of
        None \<Rightarrow> Inl (''key '' @ [CHR 0x27] @ ''params'' @ [CHR 0x27] @ '' not found'')
      | Some v \<Rightarrow> from_json v)"

definition internal :: "RequestId option \<Rightarrow> string \<Rightarrow> RpcResponse" where
  "internal i m = make_error i JsonrpcInternalError m"

definition server_error :: "RequestId option \<Rightarrow> A2aServerError \<Rightarrow> RpcResponse" where
  "server_error i e = make_error i (status_code e) (error_message e)"

definition ok_response :: "('a \<Rightarrow> string + json) \<Rightarrow> RequestId option \<Rightarrow> 'a \<Rightarrow> RpcResponse" where
  "ok_response to_json i x = (case success_response to_json i x of Inr r \<Rightarrow> r | Inl e \<Rightarrow> internal i e)"

definition answer :: "('a \<Rightarrow> string + json) \<Rightarrow> RequestId option \<Rightarrow> A2aServerError + 'a \<Rightarrow> RpcResponse" where
  "answer to_json i r = (case r of Inr x \<Rightarrow> ok_response to_json i x | Inl e \<Rightarrow> server_error i e)"

text \<open>
  A method: it decodes its parameters, runs, and either has the response or leaves it to an emitter.
\<close>

definition with_params :: "(json \<Rightarrow> string + 'a) \<Rightarrow> json \<Rightarrow> ('a \<Rightarrow> A2AServer \<Rightarrow> RpcResponse option \<times> A2AServer) \<Rightarrow>
    A2AServer \<Rightarrow> RpcResponse option \<times> A2AServer" where
  "with_params from_json req f s =
     (case params_of from_json req of
        Inl e \<Rightarrow> (Some (internal (request_id_of req) e), s)
      | Inr p \<Rightarrow> f p s)"

definition process_standard_json_rpc :: "A2AConfig \<Rightarrow> nat \<Rightarrow> json \<Rightarrow> string \<Rightarrow> A2AServer \<Rightarrow> RpcResponse option \<times> A2AServer" where
  "process_standard_json_rpc cf n req m s =
     (let i = request_id_of req in
      if m = ''GetAgentCard'' then (Some (ok_response (\<lambda>_. cf_card cf) i ()), s)
      else if m = ''SendMessage'' then
        with_params SendParams_from_json req (\<lambda>p s.
          case on_send_message cf n i p s of
            (Inr _, s1) \<Rightarrow> (None, s1) | (Inl e, s1) \<Rightarrow> (Some (server_error i e), s1)) s
      else if m = ''GetTask'' then
        with_params TaskQuery_from_json req (\<lambda>p s. (Some (answer Task_to_json i (on_get_task p s)), s)) s
      else if m = ''CancelTask'' then
        with_params TaskId_from_json req (\<lambda>p s.
          case on_cancel_task cf n i p s of
            (Inr None, s1) \<Rightarrow> (None, s1)
          | (Inr (Some t), s1) \<Rightarrow> (Some (ok_response Task_to_json i t), s1)
          | (Inl e, s1) \<Rightarrow> (Some (server_error i e), s1)) s
      else if m = ''CreateTaskPushNotificationConfig'' then
        with_params TaskPush_from_json req (\<lambda>c s.
          let (r, s1) = on_set_push cf c s in (Some (answer (\<lambda>_. TaskPush_to_json c) i r), s1)) s
      else if m = ''GetTaskPushNotificationConfig'' then
        with_params GetPush_from_json req (\<lambda>p s. (Some (answer TaskPush_to_json i (on_get_push cf p s)), s)) s
      else if m = ''ListTaskPushNotificationConfigs'' then
        with_params ListPush_from_json req (\<lambda>p s. (Some (answer (vec_to_json TaskPush_to_json) i (on_list_push cf p s)), s)) s
      else if m = ''DeleteTaskPushNotificationConfig'' then
        with_params DeletePush_from_json req (\<lambda>p s.
          let (r, s1) = on_delete_push cf p s in (Some (answer (\<lambda>_. Inr JNull) i r), s1)) s
      else (Some (make_error i JsonrpcMethodNotFound (''Method not found: '' @ m)), s))"

subsection \<open>Dispatch (\<open>server_impl.rs\<close>)\<close>

definition is_supported_streaming_method :: "string \<Rightarrow> bool" where
  "is_supported_streaming_method m \<longleftrightarrow> m = ''SendStreamingMessage'' \<or> m = ''SubscribeToTask''"

definition method_of :: "json \<Rightarrow> string" where
  "method_of req = (case Option.bind (jget req ''method'') as_str of Some m \<Rightarrow> m | None \<Rightarrow> [])"

definition stream_failed :: "nat \<Rightarrow> RequestId option \<Rightarrow> A2aServerError \<Rightarrow> A2AServer \<Rightarrow> A2AServer" where
  "stream_failed n i e s = with_emitter n write_done (with_emitter n (write_streaming_data (server_error i e)) s)"

definition streaming_params :: "string + 'a \<Rightarrow> A2aServerError + 'a" where
  "streaming_params r = (case r of Inl e \<Rightarrow> Inl (A2aServerError_new (''Streaming error: '' @ e)) | Inr p \<Rightarrow> Inr p)"

definition handle_streaming_request :: "A2AConfig \<Rightarrow> nat \<Rightarrow> json \<Rightarrow> string \<Rightarrow> A2AServer \<Rightarrow> A2AServer" where
  "handle_streaming_request cf n req m s =
     (let i = request_id_of req;
          (r, s1) =
            (if \<not> cf_streaming cf then
               (Inl (ServerError UnsupportedOperation ''Streaming is not supported by the agent''), s)
             else if m = ''SendStreamingMessage'' then
               (case streaming_params (params_of SendParams_from_json req) of
                  Inl e \<Rightarrow> (Inl e, s) | Inr p \<Rightarrow> on_send_message_streaming cf n i p s)
             else
               (case streaming_params (params_of TaskId_from_json req) of
                  Inl e \<Rightarrow> (Inl e, s) | Inr p \<Rightarrow> on_resubscribe_to_task cf n i p s))
      in case r of Inr _ \<Rightarrow> s1 | Inl e \<Rightarrow> stream_failed n i e s1)"

definition card_request :: json where
  "card_request = JObj [(''jsonrpc'', JStr ''2.0''), (''method'', JStr ''GetAgentCard''), (''id'', JInt 1)]"

definition handle_non_streaming_request :: "A2AConfig \<Rightarrow> nat \<Rightarrow> json \<Rightarrow> string \<Rightarrow> A2AServer \<Rightarrow> RpcResponse option \<times> A2AServer" where
  "handle_non_streaming_request cf n req body s =
     (if body = ''{}'' then (Some (ok_response (\<lambda>_. cf_card cf) (request_id_of card_request) ()), s)
      else process_standard_json_rpc cf n req (method_of req) s)"

definition respond :: "nat \<Rightarrow> RpcResponse option \<times> A2AServer \<Rightarrow> A2AServer" where
  "respond n r = (case fst r of Some x \<Rightarrow> with_emitter n (write_non_streaming_data x) (snd r) | None \<Rightarrow> snd r)"

text \<open>One POST on the JSON-RPC endpoint: a new emitter, and the handler up to the agent.\<close>

definition new_request :: "Emitter \<Rightarrow> A2AServer \<Rightarrow> A2AServer" where
  "new_request e s =
     s\<lparr> sv_emitters := im_insert (sv_requests s) e (sv_emitters s), sv_requests := Suc (sv_requests s) \<rparr>"

definition handle_request :: "RpcEnv \<Rightarrow> A2AConfig \<Rightarrow> string \<Rightarrow> A2AServer \<Rightarrow> A2AServer" where
  "handle_request env cf body s =
     (let n = sv_requests s in
      case rpc_from_str env body of
        Inl e \<Rightarrow>
          let s1 = new_request Emitter_non_streaming s in
          if \<not> sv_started s then s1
          else respond n (Some (make_error None JsonrpcInternalError (''Internal error: '' @ e)), s1)
      | Inr req \<Rightarrow>
          let m = method_of req in
          if is_supported_streaming_method m then
            let s1 = new_request Emitter_streaming s in
            if \<not> sv_started s then s1 else handle_streaming_request cf n req m s1
          else
            let s1 = new_request Emitter_non_streaming s in
            if \<not> sv_started s then s1 else respond n (handle_non_streaming_request cf n req body s1))"

text \<open>The agent returns to the handler of request \<open>n\<close>.\<close>

definition agent_returns :: "A2AConfig \<Rightarrow> nat \<Rightarrow> A2aServerError + unit \<Rightarrow> A2AServer \<Rightarrow> A2AServer" where
  "agent_returns cf n r s =
     (case im_get (sv_pending s) n of
        None \<Rightarrow> s
      | Some call \<Rightarrow>
          let s1 = s\<lparr> sv_pending := im_remove n (sv_pending s) \<rparr> in
          (case call of
             PSend c i tid \<Rightarrow>
               (case r of
                  Inr _ \<Rightarrow> send_push_notification_if_needed cf tid s1
                | Inl e \<Rightarrow> respond c (Some (server_error i e), s1))
           | PStream c i \<Rightarrow> (case r of Inr _ \<Rightarrow> s1 | Inl e \<Rightarrow> stream_failed c i e s1)
           | PCancel c i tid t0 \<Rightarrow>
               (case r of
                  Inr _ \<Rightarrow>
                    let (t, s2) = finish_cancel cf tid t0 s1
                    in respond c (Some (ok_response Task_to_json i t), s2)
                | Inl e \<Rightarrow> respond c (Some (server_error i e), s1))))"

subsection \<open>The server as a machine\<close>

datatype a2a_event =
    Start
  | Stop
  | Post string
  | UpdateStatus nat TaskState "A2AMessage option" "string option" "json option" string
  | AddArtifact nat TaskArtifactParam
  | NewAgentMessage nat "Part list" "json option"
  | SendResponseMessage nat A2AMessage
  | AgentReturns nat "A2aServerError + unit"

definition a2a_exec :: "RpcEnv \<Rightarrow> A2AConfig \<Rightarrow> a2a_event \<Rightarrow> A2AServer \<Rightarrow> A2AServer" where
  "a2a_exec env cf e s =
     (case e of
        Start \<Rightarrow> s\<lparr> sv_started := True \<rparr>
      | Stop \<Rightarrow> s\<lparr> sv_started := False \<rparr>
      | Post body \<Rightarrow> handle_request env cf body s
      | UpdateStatus u st m ts md now \<Rightarrow> update_status cf u st m ts md now s
      | AddArtifact u ap \<Rightarrow> add_artifact cf u ap s
      | NewAgentMessage u ps md \<Rightarrow> snd (new_agent_message cf u ps md s)
      | SendResponseMessage u m \<Rightarrow> send_response_message cf u m s
      | AgentReturns n r \<Rightarrow> agent_returns cf n r s)"

definition a2a_run :: "RpcEnv \<Rightarrow> A2AConfig \<Rightarrow> a2a_event list \<Rightarrow> A2AServer \<Rightarrow> A2AServer" where
  "a2a_run env cf es s = fold (a2a_exec env cf) es s"

end
