(* ===== verification/A2ASteps.thy ===== *)
theory A2ASteps
  imports A2AHandler
begin

text \<open>
  What the operations of the A2A server leave alone, and the steps of its dispatch: a locale of relations
  between server states that are closed under the parts of a request and so under the request.
\<close>

subsection \<open>Frames\<close>

lemma with_emitter_frame [simp]:
  "sv_tasks (with_emitter c f s) = sv_tasks s" "sv_task_execute_map (with_emitter c f s) = sv_task_execute_map s"
  "sv_updaters (with_emitter c f s) = sv_updaters s" "sv_pending (with_emitter c f s) = sv_pending s"
  "sv_uuids (with_emitter c f s) = sv_uuids s" "sv_requests (with_emitter c f s) = sv_requests s"
  "sv_push_configs (with_emitter c f s) = sv_push_configs s" "sv_started (with_emitter c f s) = sv_started s"
  by (simp_all add: with_emitter_def split: option.split)

lemma emit_frame [simp]:
  "sv_tasks (emit em ev s) = sv_tasks s" "sv_task_execute_map (emit em ev s) = sv_task_execute_map s"
  "sv_updaters (emit em ev s) = sv_updaters s" "sv_pending (emit em ev s) = sv_pending s"
  "sv_uuids (emit em ev s) = sv_uuids s" "sv_requests (emit em ev s) = sv_requests s"
  by (simp_all add: emit_def Let_def split: StreamEmitter.split sum.split option.split StreamEvent.split)

lemma send_notification_frame [simp]:
  "sv_tasks (send_notification cf t s) = sv_tasks s" "sv_task_execute_map (send_notification cf t s) = sv_task_execute_map s"
  "sv_updaters (send_notification cf t s) = sv_updaters s" "sv_pending (send_notification cf t s) = sv_pending s"
  "sv_uuids (send_notification cf t s) = sv_uuids s" "sv_requests (send_notification cf t s) = sv_requests s"
  "sv_emitters (send_notification cf t s) = sv_emitters s"
  by (simp_all add: send_notification_def)

lemma set_info_frame [simp]:
  "sv_tasks (set_info tid i s) = sv_tasks s" "sv_updaters (set_info tid i s) = sv_updaters s"
  "sv_pending (set_info tid i s) = sv_pending s" "sv_uuids (set_info tid i s) = sv_uuids s"
  "sv_requests (set_info tid i s) = sv_requests s" "sv_emitters (set_info tid i s) = sv_emitters s"
  by (simp_all add: set_info_def)

lemma drop_info_frame [simp]:
  "sv_tasks (drop_info tid s) = sv_tasks s" "sv_updaters (drop_info tid s) = sv_updaters s"
  "sv_pending (drop_info tid s) = sv_pending s" "sv_uuids (drop_info tid s) = sv_uuids s"
  "sv_requests (drop_info tid s) = sv_requests s" "sv_emitters (drop_info tid s) = sv_emitters s"
  by (simp_all add: drop_info_def)

lemma save_task_frame [simp]:
  "sv_task_execute_map (save_task t s) = sv_task_execute_map s" "sv_updaters (save_task t s) = sv_updaters s"
  "sv_pending (save_task t s) = sv_pending s" "sv_uuids (save_task t s) = sv_uuids s"
  "sv_requests (save_task t s) = sv_requests s" "sv_emitters (save_task t s) = sv_emitters s"
  by (simp_all add: save_task_def)

lemma lookup_simps [simp]:
  "get_task k (save_task t s) = (if k = tk_id t then Some t else get_task k s)"
  "exec_info k (save_task t s) = exec_info k s"
  "get_task k (set_info tid i s) = get_task k s"
  "exec_info k (set_info tid i s) = (if k = tid then Some i else exec_info k s)"
  "get_task k (drop_info tid s) = get_task k s"
  "exec_info k (drop_info tid s) = (if k = tid then None else exec_info k s)"
  "get_task k (emit em ev s) = get_task k s" "exec_info k (emit em ev s) = exec_info k s"
  "get_task k (with_emitter c f s) = get_task k s" "exec_info k (with_emitter c f s) = exec_info k s"
  "get_task k (send_notification cf t s) = get_task k s" "exec_info k (send_notification cf t s) = exec_info k s"
  by (auto simp: get_task_def exec_info_def save_task_def set_info_def drop_info_def)

lemma exchange_frame [simp]:
  "sv_tasks (snd (exchange_message_sent tid v s)) = sv_tasks s" "sv_updaters (snd (exchange_message_sent tid v s)) = sv_updaters s"
  "sv_pending (snd (exchange_message_sent tid v s)) = sv_pending s" "sv_uuids (snd (exchange_message_sent tid v s)) = sv_uuids s"
  "sv_requests (snd (exchange_message_sent tid v s)) = sv_requests s" "sv_emitters (snd (exchange_message_sent tid v s)) = sv_emitters s"
  "get_task k (snd (exchange_message_sent tid v s)) = get_task k s"
  "map_option ei_event_cb (exec_info k (snd (exchange_message_sent tid v s))) = map_option ei_event_cb (exec_info k s)"
  by (auto simp: exchange_message_sent_def split: option.split)

lemma emit_once_frame [simp]:
  "sv_tasks (emit_once tid em ev s) = sv_tasks s" "sv_updaters (emit_once tid em ev s) = sv_updaters s"
  "sv_pending (emit_once tid em ev s) = sv_pending s" "sv_uuids (emit_once tid em ev s) = sv_uuids s"
  "sv_requests (emit_once tid em ev s) = sv_requests s" "get_task k (emit_once tid em ev s) = get_task k s"
  "map_option ei_event_cb (exec_info k (emit_once tid em ev s)) = map_option ei_event_cb (exec_info k s)"
  by (simp_all add: emit_once_def Let_def split_beta)

lemma run_callback_frame [simp]:
  "sv_updaters (run_callback cf ev cb s) = sv_updaters s" "sv_pending (run_callback cf ev cb s) = sv_pending s"
  "sv_uuids (run_callback cf ev cb s) = sv_uuids s" "sv_requests (run_callback cf ev cb s) = sv_requests s"
  "map_option ei_event_cb (exec_info k (run_callback cf ev cb s)) = map_option ei_event_cb (exec_info k s)"
  by (simp_all add: run_callback_def Let_def split: EventCb.split option.split StreamEvent.split)

lemma run_callbacks_frame [simp]:
  "sv_updaters (run_callbacks cf ev cbs s) = sv_updaters s" "sv_pending (run_callbacks cf ev cbs s) = sv_pending s"
  "sv_uuids (run_callbacks cf ev cbs s) = sv_uuids s" "sv_requests (run_callbacks cf ev cbs s) = sv_requests s"
  "map_option ei_event_cb (exec_info k (run_callbacks cf ev cbs s)) = map_option ei_event_cb (exec_info k s)"
  unfolding run_callbacks_def by (induction cbs arbitrary: s) simp_all

lemma run_callbacks_simps [simp]:
  "run_callbacks cf ev [] s = s" "run_callbacks cf ev (cb # cbs) s = run_callbacks cf ev cbs (run_callback cf ev cb s)"
  by (simp_all add: run_callbacks_def)


lemma register_frame [simp]:
  "sv_tasks (snd (register_task tid i s)) = sv_tasks s" "sv_updaters (snd (register_task tid i s)) = sv_updaters s"
  "sv_pending (snd (register_task tid i s)) = sv_pending s" "sv_uuids (snd (register_task tid i s)) = sv_uuids s"
  "sv_requests (snd (register_task tid i s)) = sv_requests s" "sv_emitters (snd (register_task tid i s)) = sv_emitters s"
  "get_task k (snd (register_task tid i s)) = get_task k s"
  by (simp_all add: register_task_def)

lemma save_task_event_frame [simp]:
  "sv_updaters (save_task_event ev s) = sv_updaters s" "sv_pending (save_task_event ev s) = sv_pending s"
  "sv_uuids (save_task_event ev s) = sv_uuids s" "sv_requests (save_task_event ev s) = sv_requests s"
  "sv_emitters (save_task_event ev s) = sv_emitters s"
  by (simp_all add: save_task_event_def ensure_task_for_event_def Let_def split: StreamEvent.split option.split)

lemma process_frame [simp]:
  "sv_updaters (process cf tid ev s) = sv_updaters s" "sv_pending (process cf tid ev s) = sv_pending s"
  "sv_uuids (process cf tid ev s) = sv_uuids s" "sv_requests (process cf tid ev s) = sv_requests s"
  by (simp_all add: process_def Let_def split: option.split)

lemma snd_case_result:
  "snd (case r of (Inr u, s1) \<Rightarrow> (f u, s1) | (Inl e, s1) \<Rightarrow> (g e, s1)) = snd r"
  by (simp split: prod.split sum.split)

lemma snd_case_cancel:
  "snd (case r of (Inr None, s1) \<Rightarrow> (f, s1) | (Inr (Some t), s1) \<Rightarrow> (g t, s1) | (Inl e, s1) \<Rightarrow> (h e, s1)) = snd r"
  by (simp split: prod.split sum.split option.split)

subsection \<open>The dispatch of a request\<close>

text \<open>The parameters of a message that a request body carries.\<close>

definition body_params :: "RpcEnv \<Rightarrow> string \<Rightarrow> MessageSendParams option" where
  "body_params env body =
     (case rpc_from_str env body of
        Inr req \<Rightarrow> (case params_of SendParams_from_json req of Inr p \<Rightarrow> Some p | Inl _ \<Rightarrow> None)
      | Inl _ \<Rightarrow> None)"

text \<open>
  The laws of a relation between the states before and after a part of the handling of request \<open>n\<close>, which make
  it a relation between the states before and after the whole handler. Messages may be
  restricted to allowed ones; they have been decoded, so they are well formed.
\<close>

locale request_steps =
  fixes cf :: A2AConfig and allowed :: "MessageSendParams \<Rightarrow> bool" and R :: "nat \<Rightarrow> A2AServer \<Rightarrow> A2AServer \<Rightarrow> bool"
  assumes step_refl: "R n s s"
    and step_trans: "R n s s' \<Longrightarrow> R n s' s'' \<Longrightarrow> R n s s''"
    and step_write: "R n s (with_emitter n f s)"
    and step_push: "R n s (s\<lparr> sv_push_configs := d \<rparr>)"
    and step_send: "allowed p \<Longrightarrow> send_params_ok p \<Longrightarrow> R n s (snd (on_send_message cf n i p s))"
    and step_stream: "allowed p \<Longrightarrow> send_params_ok p \<Longrightarrow> R n s (snd (on_send_message_streaming cf n i p s))"
    and step_resubscribe: "R n s (snd (on_resubscribe_to_task cf n i q s))"
    and step_cancel: "R n s (snd (on_cancel_task cf n i q s))"
begin

lemma respond: "R n s (snd r) \<Longrightarrow> R n s (respond n r)"
  by (auto simp: respond_def split: option.split intro: step_trans step_write)

lemma stream_failed: "R n s s' \<Longrightarrow> R n s (stream_failed n i e s')"
  unfolding stream_failed_def by (rule step_trans [OF step_trans [OF _ step_write] step_write])

lemma push_ops: "R n s (snd (on_set_push cf c s))" "R n s (snd (on_delete_push cf d s))"
  by (auto simp: on_set_push_def on_delete_push_def step_refl step_push split: sum.split)

lemma params: "(\<And>p. params_of from_json req = Inr p \<Longrightarrow> R n s (snd (f p s))) \<Longrightarrow> R n s (snd (with_params from_json req f s))"
  by (simp add: with_params_def step_refl split: sum.split)

lemma reading: "R n s (snd (with_params from_json req (\<lambda>p s. (f p s, s)) s))"
  by (rule params) (simp add: step_refl)

lemma params_decoded: "params_of SendParams_from_json req = Inr p \<Longrightarrow> send_params_ok p"
  by (auto simp: params_of_def dest: send_params.decode_ok split: option.splits)

lemma standard:
  assumes "\<And>p. params_of SendParams_from_json req = Inr p \<Longrightarrow> allowed p"
  shows "R n s (snd (process_standard_json_rpc cf n req m s))"
proof -
  have "R n s (snd (with_params SendParams_from_json req (\<lambda>p s. case on_send_message cf n i p s of
      (Inr _, s1) \<Rightarrow> (None, s1) | (Inl e, s1) \<Rightarrow> (Some (server_error i e), s1)) s))" for i
    by (rule params) (simp add: snd_case_result step_send assms params_decoded)
  moreover have "R n s (snd (with_params TaskId_from_json req (\<lambda>p s. case on_cancel_task cf n i p s of
      (Inr None, s1) \<Rightarrow> (None, s1) | (Inr (Some t), s1) \<Rightarrow> (Some (ok_response Task_to_json i t), s1)
      | (Inl e, s1) \<Rightarrow> (Some (server_error i e), s1)) s))" for i
    by (rule params) (simp add: snd_case_cancel step_cancel)
  moreover have "R n s (snd (with_params TaskPush_from_json req (\<lambda>c s.
      let (r, s1) = on_set_push cf c s in (Some (answer (\<lambda>_. TaskPush_to_json c) i r), s1)) s))" for i
    by (rule params) (simp add: split_beta Let_def push_ops)
  moreover have "R n s (snd (with_params DeletePush_from_json req (\<lambda>p s.
      let (r, s1) = on_delete_push cf p s in (Some (answer (\<lambda>_. Inr JNull) i r), s1)) s))" for i
    by (rule params) (simp add: split_beta Let_def push_ops)
  ultimately show ?thesis by (simp add: process_standard_json_rpc_def Let_def reading step_refl)
qed

lemma streaming:
  assumes "\<And>p. params_of SendParams_from_json req = Inr p \<Longrightarrow> allowed p"
  shows "R n s (handle_streaming_request cf n req m s)"
proof -
  obtain r s1 where rs: "(if \<not> cf_streaming cf then
               (Inl (ServerError UnsupportedOperation ''Streaming is not supported by the agent''), s)
             else if m = ''SendStreamingMessage'' then
               (case streaming_params (params_of SendParams_from_json req) of
                  Inl e \<Rightarrow> (Inl e, s) | Inr p \<Rightarrow> on_send_message_streaming cf n (request_id_of req) p s)
             else
               (case streaming_params (params_of TaskId_from_json req) of
                  Inl e \<Rightarrow> (Inl e, s) | Inr p \<Rightarrow> on_resubscribe_to_task cf n (request_id_of req) p s)) = (r, s1)" (is "?x = _")
    by (cases ?x)
  have "R n s (snd ?x)"
    using assms by (auto simp: streaming_params_def step_refl step_stream step_resubscribe params_decoded split: sum.split)
  then have g: "R n s s1" by (simp add: rs)
  have "handle_streaming_request cf n req m s = (case r of Inr _ \<Rightarrow> s1 | Inl e \<Rightarrow> stream_failed n (request_id_of req) e s1)"
    unfolding handle_streaming_request_def Let_def rs by simp
  then show ?thesis using g by (simp add: stream_failed split: sum.split)
qed

lemma request:
  assumes "\<And>p. body_params env body = Some p \<Longrightarrow> allowed p"
  shows "\<exists>e. R (sv_requests s) (new_request e s) (handle_request env cf body s)"
proof (cases "rpc_from_str env body")
  case (Inl e)
  let ?s = "new_request Emitter_non_streaming s"
  have "R (sv_requests s) ?s (handle_request env cf body s)"
    by (simp add: handle_request_def Inl Let_def step_refl respond)
  then show ?thesis ..
next
  case (Inr req)
  have p: "allowed p" if "params_of SendParams_from_json req = Inr p" for p
    using that Inr assms by (simp add: body_params_def)
  let ?e = "if is_supported_streaming_method (method_of req) then Emitter_streaming else Emitter_non_streaming"
  have "R (sv_requests s) (new_request ?e s) (handle_request env cf body s)"
    by (auto simp: handle_request_def handle_non_streaming_request_def Inr Let_def step_refl
        intro!: respond streaming standard p)
  then show ?thesis ..
qed

end

end
