(* ===== verification/A2ALaws.thy ===== *)
theory A2ALaws
  imports A2ASteps
begin

text \<open>
  Laws of the A2A server: the invariant of the reachable states and the life of a task.  What each
  operation leaves alone is in A2ASteps.
\<close>

subsection \<open>The invariant\<close>

definition cb_task :: "EventCb \<Rightarrow> string" where
  "cb_task cb = (case cb of SendCb _ tid _ \<Rightarrow> tid | StreamCb _ tid _ \<Rightarrow> tid)"

text \<open>
  Tasks are filed under their own identifier, which was generated; callbacks of a task are about that
  task; a registered task is stored and not final, when there is an agent at all; without one
  nothing waits for it; a cancellation that waits is of a stored task.
\<close>

definition generated :: "A2AConfig \<Rightarrow> nat \<Rightarrow> string \<Rightarrow> bool" where
  "generated cf n k \<longleftrightarrow> (\<exists>j < n. k = ''task-'' @ cf_uuid cf j)"

lemma generated_mono: "generated cf n k \<Longrightarrow> n \<le> m \<Longrightarrow> generated cf m k"
  unfolding generated_def by (auto intro: less_le_trans)

definition tasks_keyed :: "A2AConfig \<Rightarrow> A2AServer \<Rightarrow> bool" where
  "tasks_keyed cf s \<longleftrightarrow>
     (\<forall>k t. get_task k s = Some t \<longrightarrow> tk_id t = k \<and> generated cf (sv_uuids s) k)"

definition cbs_own :: "A2AServer \<Rightarrow> bool" where
  "cbs_own s \<longleftrightarrow> (\<forall>k info. exec_info k s = Some info \<longrightarrow> (\<forall>cb \<in> set (ei_event_cb info). cb_task cb = k))"

definition task_final :: "Task \<Rightarrow> bool" where
  "task_final t \<longleftrightarrow> is_final (ts_state (tk_status t))"

definition registered_live :: "A2AConfig \<Rightarrow> A2AServer \<Rightarrow> bool" where
  "registered_live cf s \<longleftrightarrow>
     (cf_executor cf \<longrightarrow> (\<forall>k info. exec_info k s = Some info \<longrightarrow> (\<exists>t. get_task k s = Some t \<and> \<not> task_final t)))"

definition no_agent :: "A2AConfig \<Rightarrow> A2AServer \<Rightarrow> bool" where
  "no_agent cf s \<longleftrightarrow> (\<not> cf_executor cf \<longrightarrow> sv_updaters s = [] \<and> sv_pending s = [])"

definition pending_stored :: "A2AServer \<Rightarrow> bool" where
  "pending_stored s \<longleftrightarrow>
     (\<forall>n c i tid t. im_get (sv_pending s) n = Some (PCancel c i tid t) \<longrightarrow> get_task tid s \<noteq> None)"

definition server_inv :: "A2AConfig \<Rightarrow> A2AServer \<Rightarrow> bool" where
  "server_inv cf s \<longleftrightarrow> tasks_keyed cf s \<and> cbs_own s \<and> registered_live cf s \<and> no_agent cf s \<and> pending_stored s"

lemma pending_storedD:
  "server_inv cf s \<Longrightarrow> im_get (sv_pending s) n = Some (PCancel c i k t) \<Longrightarrow> get_task k s \<noteq> None"
  unfolding server_inv_def pending_stored_def by blast

definition is_message :: "StreamEvent \<Rightarrow> bool" where
  "is_message ev = (case ev of EvMessage _ \<Rightarrow> True | _ \<Rightarrow> False)"

text \<open>The step leaves every final task as it is.\<close>

definition keeps_final :: "A2AServer \<Rightarrow> A2AServer \<Rightarrow> bool" where
  "keeps_final s s' \<longleftrightarrow> (\<forall>k t. get_task k s = Some t \<and> task_final t \<longrightarrow> get_task k s' = Some t)"

lemma keeps_final_trans: "keeps_final s s' \<Longrightarrow> keeps_final s' s'' \<Longrightarrow> keeps_final s s''"
  by (simp add: keeps_final_def)

lemma set_state_simps [simp]:
  "tk_id (set_state st t) = tk_id t" "ts_state (tk_status (set_state st t)) = st" "tk_context_id (set_state st t) = tk_context_id t"
  "task_final (set_state st t) \<longleftrightarrow> is_final st"
  by (simp_all add: set_state_def task_final_def)

lemma exchange_elsewhere [simp]: "k \<noteq> tid \<Longrightarrow> exec_info k (snd (exchange_message_sent tid v s)) = exec_info k s"
  by (simp add: exchange_message_sent_def split: option.split)

lemma emit_once_elsewhere [simp]: "k \<noteq> tid \<Longrightarrow> exec_info k (emit_once tid em ev s) = exec_info k s"
  by (simp add: emit_once_def Let_def split_beta)

lemma run_callback_task:
  assumes "cb_task cb = tid" "get_task tid s = Some t" "tk_id t = tid"
  shows "\<exists>t'. get_task tid (run_callback cf ev cb s) = Some t' \<and> tk_id t' = tid \<and> (\<not> is_message ev \<longrightarrow> t' = t)"
    and "k \<noteq> tid \<Longrightarrow> get_task k (run_callback cf ev cb s) = get_task k s"
    and "k \<noteq> tid \<Longrightarrow> exec_info k (run_callback cf ev cb s) = exec_info k s"
  using assms
  by (auto simp: run_callback_def cb_task_def is_message_def Let_def split: EventCb.splits StreamEvent.splits option.splits)

lemma run_callbacks_task:
  assumes "\<forall>cb \<in> set cbs. cb_task cb = tid" "get_task tid s = Some t" "tk_id t = tid"
  shows "(\<exists>t'. get_task tid (run_callbacks cf ev cbs s) = Some t' \<and> tk_id t' = tid \<and> (\<not> is_message ev \<longrightarrow> t' = t)) \<and>
    (\<forall>k. k \<noteq> tid \<longrightarrow> get_task k (run_callbacks cf ev cbs s) = get_task k s \<and>
       exec_info k (run_callbacks cf ev cbs s) = exec_info k s)"
  using assms
proof (induction cbs arbitrary: s t)
  case (Cons cb cbs)
  let ?s = "run_callback cf ev cb s"
  have cb: "cb_task cb = tid" and cbs: "\<forall>cb \<in> set cbs. cb_task cb = tid" using Cons.prems(1) by auto
  note step = run_callback_task [OF cb Cons.prems(2,3), where cf = cf and ev = ev]
  obtain t' where t': "get_task tid ?s = Some t'" "tk_id t' = tid" "\<not> is_message ev \<longrightarrow> t' = t" using step(1) by auto
  show ?case using Cons.IH [OF cbs t'(1,2)] t'(3) step(2,3) by simp
qed simp

definition event_task :: "StreamEvent \<Rightarrow> string \<Rightarrow> bool" where
  "event_task ev tid \<longleftrightarrow>
     (case ev of EvStatus e \<Rightarrow> su_task_id e = tid | EvArtifact e \<Rightarrow> au_task_id e = tid | EvMessage _ \<Rightarrow> True | EvTask t \<Rightarrow> tk_id t = tid)"

lemma tk_id_updates [simp]:
  "tk_id (apply_status_update e t) = tk_id t" "tk_id (append_artifact_to_task a t) = tk_id t"
  "tk_id (archive_status_message t) = tk_id t" "tk_id (push_history m t) = tk_id t"
  by (simp_all add: apply_status_update_def append_artifact_to_task_def archive_status_message_def push_history_def Let_def
      split: option.split)

lemma state_updates [simp]:
  "tk_status (apply_status_update e t) = su_status e" "tk_status (append_artifact_to_task a t) = tk_status t"
  "tk_status (push_history m t) = tk_status t" "ts_state (tk_status (archive_status_message t)) = ts_state (tk_status t)"
  by (simp_all add: apply_status_update_def append_artifact_to_task_def archive_status_message_def push_history_def Let_def
      split: option.split)

lemma save_task_event_task:
  assumes "event_task ev tid" "get_task tid s = Some t" "tk_id t = tid"
  obtains t' where "save_task_event ev s = save_task t' s \<or> (is_message ev \<and> save_task_event ev s = s)"
    "get_task tid (save_task_event ev s) = Some t'" "tk_id t' = tid"
    "task_final t' \<longrightarrow> task_final t \<or> is_final_event ev"
  using assms
  by (cases ev)
     (auto simp: save_task_event_def ensure_task_for_event_def event_task_def is_message_def task_final_def is_final_event_def
       is_final_or_interrupted_def Let_def intro: that)

lemma process_task:
  assumes own: "cbs_own s" and ev: "event_task ev tid" and t: "get_task tid s = Some t" "tk_id t = tid" "\<not> task_final t"
    and reg: "exec_info tid s = Some info"
  shows "\<exists>t'. get_task tid (process cf tid ev s) = Some t' \<and> tk_id t' = tid \<and>
      (exec_info tid (process cf tid ev s) \<noteq> None \<longrightarrow> \<not> task_final t')"
    and "k \<noteq> tid \<Longrightarrow> get_task k (process cf tid ev s) = get_task k s \<and> exec_info k (process cf tid ev s) = exec_info k s"
proof -
  obtain t1 where t1: "save_task_event ev s = save_task t1 s \<or> (is_message ev \<and> save_task_event ev s = s)"
    "get_task tid (save_task_event ev s) = Some t1" "tk_id t1 = tid" "task_final t1 \<longrightarrow> task_final t \<or> is_final_event ev"
    by (rule save_task_event_task [OF ev t(1,2)])
  have cbs: "\<forall>cb \<in> set (ei_event_cb info). cb_task cb = tid" using own reg by (auto simp: cbs_own_def)
  note run = run_callbacks_task [OF cbs t1(2,3), where cf = cf and ev = ev]
  have fin: "is_message ev \<Longrightarrow> is_final_event ev" by (cases ev) (simp_all add: is_message_def is_final_event_def)
  show "\<exists>t'. get_task tid (process cf tid ev s) = Some t' \<and> tk_id t' = tid \<and>
      (exec_info tid (process cf tid ev s) \<noteq> None \<longrightarrow> \<not> task_final t')"
    using run t1(4) t(3) fin by (auto simp: process_def reg Let_def)
  show "k \<noteq> tid \<Longrightarrow> get_task k (process cf tid ev s) = get_task k s \<and> exec_info k (process cf tid ev s) = exec_info k s"
    using run t1(1,3) by (auto simp: process_def reg Let_def)
qed


lemma process_callbacks:
  assumes "event_task ev tid" "get_task tid s = Some t" "tk_id t = tid" "exec_info tid (process cf tid ev s) = Some info"
  shows "\<exists>info0. exec_info tid s = Some info0 \<and> ei_event_cb info = ei_event_cb info0"
proof (cases "exec_info tid s")
  case None
  with assms(4) show ?thesis by (simp add: process_def)
next
  case (Some info0)
  obtain t1 where t1: "save_task_event ev s = save_task t1 s \<or> (is_message ev \<and> save_task_event ev s = s)"
    by (rule save_task_event_task [OF assms(1-3)])
  have "map_option ei_event_cb (exec_info tid (run_callbacks cf ev (ei_event_cb info0) (save_task_event ev s))) =
      Some (ei_event_cb info0)" using t1 Some by auto
  with assms(4) Some show ?thesis by (auto simp: process_def Let_def simp del: run_callbacks_frame(5) split: if_splits)
qed

text \<open>A step that changes one task that is not final, and that leaves it registered only if it stays so.\<close>

lemma server_inv_at:
  assumes inv: "server_inv cf s" and t: "get_task tid s = Some t" "\<not> task_final t"
    and same: "sv_updaters s' = sv_updaters s" "sv_pending s' = sv_pending s" "sv_uuids s' = sv_uuids s"
    and elsewhere: "\<And>k. k \<noteq> tid \<Longrightarrow> get_task k s' = get_task k s \<and> exec_info k s' = exec_info k s"
    and here: "get_task tid s' = Some t'" "tk_id t' = tid" "exec_info tid s' \<noteq> None \<Longrightarrow> \<not> task_final t'"
    and own: "\<And>info. exec_info tid s' = Some info \<Longrightarrow> \<forall>cb \<in> set (ei_event_cb info). cb_task cb = tid"
  shows "server_inv cf s' \<and> keeps_final s s'"
proof -
  have "tasks_keyed cf s'" unfolding tasks_keyed_def
  proof (intro allI impI)
    fix k u assume "get_task k s' = Some u"
    then show "tk_id u = k \<and> generated cf (sv_uuids s') k"
      using inv elsewhere [of k] here(1,2) t(1) same(3) by (cases "k = tid") (auto simp: server_inv_def tasks_keyed_def)
  qed
  moreover have "cbs_own s'" unfolding cbs_own_def
  proof (intro allI impI)
    fix k info assume "exec_info k s' = Some info"
    then show "\<forall>cb \<in> set (ei_event_cb info). cb_task cb = k"
      using own elsewhere [of k] inv by (cases "k = tid") (auto simp: server_inv_def cbs_own_def)
  qed
  moreover have "registered_live cf s'" unfolding registered_live_def
  proof (intro impI allI)
    fix k info assume ex: "cf_executor cf" and k: "exec_info k s' = Some info"
    show "\<exists>t. get_task k s' = Some t \<and> \<not> task_final t"
    proof (cases "k = tid")
      case True
      with here k show ?thesis by simp
    next
      case False
      with elsewhere k have "exec_info k s = Some info" by simp
      with inv ex elsewhere [OF False] show ?thesis by (auto simp: server_inv_def registered_live_def)
    qed
  qed
  moreover have "no_agent cf s'" using inv same by (simp add: server_inv_def no_agent_def)
  moreover have "pending_stored s'" unfolding pending_stored_def
  proof (intro allI impI)
    fix n c i k u assume "im_get (sv_pending s') n = Some (PCancel c i k u)"
    then show "get_task k s' \<noteq> None"
      using pending_storedD [OF inv, of n c i k u] same(2) elsewhere [of k] here(1) by (cases "k = tid") auto
  qed
  moreover have "keeps_final s s'" unfolding keeps_final_def using elsewhere t by (metis option.inject)
  ultimately show ?thesis by (simp add: server_inv_def)
qed

lemma process_inv:
  assumes inv: "server_inv cf s" and ex: "cf_executor cf" and ev: "event_task ev tid"
  shows "server_inv cf (process cf tid ev s) \<and> keeps_final s (process cf tid ev s)"
proof (cases "exec_info tid s")
  case None
  with inv show ?thesis by (simp add: process_def keeps_final_def)
next
  case (Some info)
  have own: "cbs_own s" using inv by (simp add: server_inv_def)
  obtain t where t: "get_task tid s = Some t" "\<not> task_final t" using inv ex Some by (auto simp: server_inv_def registered_live_def)
  have tid: "tk_id t = tid" using inv t(1) by (simp add: server_inv_def tasks_keyed_def)
  note here = process_task(1) [OF own ev t(1) tid t(2) Some, where cf = cf]
  note elsewhere = process_task(2) [OF own ev t(1) tid t(2) Some, where cf = cf]
  from here obtain t' where t': "get_task tid (process cf tid ev s) = Some t'" "tk_id t' = tid"
    "exec_info tid (process cf tid ev s) \<noteq> None \<Longrightarrow> \<not> task_final t'" by auto
  have cbs: "\<forall>cb \<in> set (ei_event_cb info'). cb_task cb = tid" if "exec_info tid (process cf tid ev s) = Some info'" for info'
    using process_callbacks [OF ev t(1) tid that] own by (auto simp: cbs_own_def)
  show ?thesis by (rule server_inv_at [OF inv t _ _ _ elsewhere t' cbs]) simp_all
qed

lemma server_inv_cong:
  "sv_tasks s' = sv_tasks s \<Longrightarrow> sv_task_execute_map s' = sv_task_execute_map s \<Longrightarrow> sv_updaters s' = sv_updaters s \<Longrightarrow>
   sv_pending s' = sv_pending s \<Longrightarrow> sv_uuids s \<le> sv_uuids s' \<Longrightarrow> server_inv cf s \<Longrightarrow> server_inv cf s' \<and> keeps_final s s'"
  by (auto simp: server_inv_def tasks_keyed_def cbs_own_def registered_live_def no_agent_def pending_stored_def keeps_final_def
      get_task_def exec_info_def intro: generated_mono)

text \<open>With an agent, the tables of updaters and of waiting handlers may change.\<close>

lemma server_inv_agent:
  assumes "cf_executor cf" "sv_tasks s' = sv_tasks s" "sv_task_execute_map s' = sv_task_execute_map s" "sv_uuids s \<le> sv_uuids s'"
    and "server_inv cf s \<Longrightarrow> pending_stored s'" and "server_inv cf s"
  shows "server_inv cf s' \<and> keeps_final s s'"
  using assms
  by (auto simp: server_inv_def tasks_keyed_def cbs_own_def registered_live_def no_agent_def keeps_final_def
      get_task_def exec_info_def intro: generated_mono)

subsection \<open>Every step keeps the invariant and the final tasks\<close>

lemma inv_save_live:
  assumes "server_inv cf s" "tk_id t = tid" "\<not> task_final t" "generated cf (sv_uuids s) tid"
    "\<And>t0. get_task tid s = Some t0 \<Longrightarrow> \<not> task_final t0"
  shows "server_inv cf (save_task t (set_info tid TaskExecuteInfo_new s)) \<and>
    keeps_final s (save_task t (set_info tid TaskExecuteInfo_new s))"
  using assms
  by (auto simp: server_inv_def tasks_keyed_def cbs_own_def registered_live_def no_agent_def pending_stored_def keeps_final_def
      TaskExecuteInfo_new_def)

lemma generated_fresh:
  assumes "inj (cf_uuid cf)" "tasks_keyed cf s"
  shows "get_task (''task-'' @ cf_uuid cf (sv_uuids s)) s = None"
proof (rule ccontr)
  assume "get_task (''task-'' @ cf_uuid cf (sv_uuids s)) s \<noteq> None"
  then have "generated cf (sv_uuids s) (''task-'' @ cf_uuid cf (sv_uuids s))" using assms(2) by (auto simp: tasks_keyed_def)
  then show False using assms(1) by (auto simp: generated_def dest: injD)
qed

definition new_task :: "MessageSendParams \<Rightarrow> string \<Rightarrow> string \<Rightarrow> Task" where
  "new_task params tid cid = Task_default\<lparr> tk_id := tid, tk_context_id := cid, tk_status := TaskStatus_new Submitted,
     tk_history := Some [mp_message params] \<rparr>"

lemma new_task_simps [simp]:
  "tk_id (new_task p tid cid) = tid" "\<not> task_final (new_task p tid cid)" "tk_status (new_task p tid cid) = TaskStatus_new Submitted"
  by (simp_all add: new_task_def task_final_def is_final_def TaskStatus_new_def)

lemma push_config_only:
  "update_push_notification_config cf p tid u =
   u\<lparr> sv_push_configs := sv_push_configs (update_push_notification_config cf p tid u) \<rparr>"
  by (auto simp: update_push_notification_config_def split: option.split)

text \<open>The three outcomes of opening a task.\<close>

lemma open_task_cases:
  obtains (refused) e where "open_task cf params s = (Inl e, s)"
  | (existing) tid t where "open_task cf params s =
        (Inr (tid, Some t), save_task (push_history (mp_message params) (archive_status_message t)) (set_info tid TaskExecuteInfo_new s))"
      "get_task tid s = Some t" "\<not> task_final t" "ms_task_id (mp_message params) = Some tid"
  | (created) tid cid d n where "tid = ''task-'' @ cf_uuid cf (sv_uuids s)" "sv_uuids s < n"
      "open_task cf params s = (Inr (tid, Some (new_task params tid cid)),
         set_info tid TaskExecuteInfo_new ((save_task (new_task params tid cid) (s\<lparr> sv_uuids := n \<rparr>))\<lparr> sv_push_configs := d \<rparr>))"
proof (cases "ms_task_id (mp_message params) = None \<or> ms_task_id (mp_message params) = Some []")
  case True
  let ?tid = "''task-'' @ cf_uuid cf (sv_uuids s)"
  have d: "determine_task_id cf params s = (Inr (?tid, None), s\<lparr> sv_uuids := Suc (sv_uuids s) \<rparr>)"
    using True by (auto simp: determine_task_id_def generate_task_id_def generate_uuid_def)
  have create: "\<exists>d. create_new_task cf params tid cid u = (save_task (new_task params tid cid) u)\<lparr> sv_push_configs := d \<rparr>" for tid cid u
    unfolding create_new_task_def new_task_def by (rule exI, rule push_config_only)
  obtain cid n where cid: "(case ms_context_id (mp_message params) of Some c \<Rightarrow> (c, s\<lparr> sv_uuids := Suc (sv_uuids s) \<rparr>)
      | None \<Rightarrow> generate_uuid cf (s\<lparr> sv_uuids := Suc (sv_uuids s) \<rparr>)) = (cid, s\<lparr> sv_uuids := n \<rparr>)" "sv_uuids s < n"
    by (cases "ms_context_id (mp_message params)") (auto simp: generate_uuid_def)
  obtain d where d': "create_new_task cf params ?tid cid (s\<lparr> sv_uuids := n \<rparr>) =
      (save_task (new_task params ?tid cid) (s\<lparr> sv_uuids := n \<rparr>))\<lparr> sv_push_configs := d \<rparr>" using create by blast
  have "get_task ?tid ((save_task (new_task params ?tid cid) (s\<lparr> sv_uuids := n \<rparr>))\<lparr> sv_push_configs := d \<rparr>) =
      Some (new_task params ?tid cid)" by (simp add: get_task_def save_task_def)
  then have "open_task cf params s = (Inr (?tid, Some (new_task params ?tid cid)),
      set_info ?tid TaskExecuteInfo_new ((save_task (new_task params ?tid cid) (s\<lparr> sv_uuids := n \<rparr>))\<lparr> sv_push_configs := d \<rparr>))"
    unfolding open_task_def d using cid(1) d' by (simp add: register_task_def)
  then show thesis using cid(2) by (intro created) auto
next
  case False
  then obtain tid where tid: "ms_task_id (mp_message params) = Some tid" "tid \<noteq> []" by auto
  show thesis
  proof (cases "determine_task_id cf params s")
    case (Pair r s1)
    have s1: "s1 = s" and r: "\<And>i x. r = Inr (i, x) \<Longrightarrow> i = tid \<and> x = get_task tid s \<and> x \<noteq> None"
      using Pair tid by (auto simp: determine_task_id_def split: option.splits if_splits)
    show thesis
    proof (cases "\<exists>t. r = Inr (tid, Some t) \<and> \<not> task_final t")
      case True
      then obtain t where t: "r = Inr (tid, Some t)" "\<not> task_final t" by blast
      have g: "get_task tid s = Some t" using r [OF t(1)] by simp
      have "open_task cf params s = (Inr (tid, Some t),
          save_task (push_history (mp_message params) (archive_status_message t)) (set_info tid TaskExecuteInfo_new s))"
        using t Pair s1 tid by (simp add: open_task_def register_task_def update_with_message_def task_final_def Let_def)
      then show thesis using g t(2) tid(1) by (rule existing)
    next
      case False
      then have "\<exists>e. open_task cf params s = (Inl e, s)"
        using r Pair s1 tid by (cases r) (auto simp: open_task_def task_final_def)
      then show thesis using refused by blast
    qed
  qed
qed

lemma open_task_inv:
  assumes "inj (cf_uuid cf)" "server_inv cf s" "open_task cf params s = (r, s')"
  shows "server_inv cf s' \<and> keeps_final s s' \<and> (\<forall>tid t. r = Inr (tid, Some t) \<longrightarrow> generated cf (sv_uuids s') tid)"
proof (cases rule: open_task_cases [of cf params s])
  case refused
  with assms show ?thesis by (auto simp: keeps_final_def)
next
  case (existing tid t)
  have g: "generated cf (sv_uuids s) tid" "tk_id t = tid"
    using assms(2) existing(2) by (auto simp: server_inv_def tasks_keyed_def)
  have nf: "\<not> task_final (push_history (mp_message params) (archive_status_message t))"
    using existing(3) by (simp add: task_final_def)
  have "server_inv cf s' \<and> keeps_final s s'"
    using inv_save_live [OF assms(2) _ nf g(1)] existing g(2) assms(3) by auto
  then show ?thesis using existing(1) assms(3) g by auto
next
  case (created tid cid d n)
  have fresh: "get_task tid s = None" using generated_fresh [OF assms(1)] assms(2) created(1) by (simp add: server_inv_def)
  have "server_inv cf (s\<lparr> sv_uuids := n \<rparr>)" "keeps_final s (s\<lparr> sv_uuids := n \<rparr>)"
    using server_inv_cong [of "s\<lparr> sv_uuids := n \<rparr>" s] assms(2) created(2) by auto
  moreover have g: "generated cf n tid" using created(1,2) by (auto simp: generated_def)
  ultimately have *: "server_inv cf (save_task (new_task params tid cid) (set_info tid TaskExecuteInfo_new (s\<lparr> sv_uuids := n \<rparr>))) \<and>
      keeps_final (s\<lparr> sv_uuids := n \<rparr>) (save_task (new_task params tid cid) (set_info tid TaskExecuteInfo_new (s\<lparr> sv_uuids := n \<rparr>)))"
    using inv_save_live [of cf "s\<lparr> sv_uuids := n \<rparr>" "new_task params tid cid" tid] fresh by (simp add: get_task_def)
  have s': "s' = set_info tid TaskExecuteInfo_new ((save_task (new_task params tid cid) (s\<lparr> sv_uuids := n \<rparr>))\<lparr> sv_push_configs := d \<rparr>)"
    using created(3) assms(3) by simp
  show ?thesis using server_inv_cong [of s' "save_task (new_task params tid cid) (set_info tid TaskExecuteInfo_new (s\<lparr> sv_uuids := n \<rparr>))" cf]
      * g created(3) assms(3) \<open>keeps_final s (s\<lparr> sv_uuids := n \<rparr>)\<close>
    by (auto simp: s' save_task_def set_info_def intro: keeps_final_trans)
qed


definition good :: "A2AConfig \<Rightarrow> A2AServer \<Rightarrow> A2AServer \<Rightarrow> bool" where
  "good cf s s' \<longleftrightarrow> (inj (cf_uuid cf) \<and> server_inv cf s \<longrightarrow> server_inv cf s' \<and> keeps_final s s')"

lemma good_refl [simp]: "good cf s s"
  by (simp add: good_def keeps_final_def)

lemma good_trans: "good cf s s' \<Longrightarrow> good cf s' s'' \<Longrightarrow> good cf s s''"
  by (auto simp: good_def intro: keeps_final_trans)

lemma good_cong:
  "sv_tasks s' = sv_tasks s \<Longrightarrow> sv_task_execute_map s' = sv_task_execute_map s \<Longrightarrow> sv_updaters s' = sv_updaters s \<Longrightarrow>
   sv_pending s' = sv_pending s \<Longrightarrow> sv_uuids s \<le> sv_uuids s' \<Longrightarrow> good cf s s'"
  unfolding good_def using server_inv_cong [of s' s cf] by simp

lemma good_agent:
  "cf_executor cf \<Longrightarrow> sv_tasks s' = sv_tasks s \<Longrightarrow> sv_task_execute_map s' = sv_task_execute_map s \<Longrightarrow>
   sv_uuids s \<le> sv_uuids s' \<Longrightarrow> (server_inv cf s \<Longrightarrow> pending_stored s') \<Longrightarrow> good cf s s'"
  using server_inv_agent by (simp add: good_def)

lemma good_frames [simp]:
  "good cf s (emit em ev s)" "good cf s (with_emitter c f s)" "good cf s (send_notification cf' t s)"
  "good cf s (s\<lparr> sv_push_configs := d \<rparr>)" "good cf s (new_request e s)" "good cf s (s\<lparr> sv_started := b \<rparr>)"
  by (rule good_cong; simp add: new_request_def)+

lemma good_process: "cf_executor cf \<Longrightarrow> event_task ev tid \<Longrightarrow> good cf s (process cf tid ev s)"
  by (simp add: good_def process_inv)

lemma good_callbacks:
  assumes "\<And>k. get_task k s' = get_task k s" "sv_updaters s' = sv_updaters s" "sv_pending s' = sv_pending s" "sv_uuids s' = sv_uuids s"
    "\<And>k info'. exec_info k s' = Some info' \<Longrightarrow> \<exists>info. exec_info k s = Some info \<and>
       (\<forall>cb \<in> set (ei_event_cb info'). cb \<in> set (ei_event_cb info) \<or> cb_task cb = k)"
  shows "good cf s s'"
proof -
  have "server_inv cf s' \<and> keeps_final s s'" if inv: "server_inv cf s"
  proof -
    have "cbs_own s'" "registered_live cf s'"
      using inv assms(1,5) unfolding server_inv_def cbs_own_def registered_live_def by metis+
    then show ?thesis using inv assms(1-4) by (simp add: server_inv_def tasks_keyed_def no_agent_def pending_stored_def keeps_final_def)
  qed
  then show ?thesis by (simp add: good_def)
qed

lemma good_exchange [simp]: "good cf s (snd (exchange_message_sent tid v s))"
  by (rule good_callbacks) (auto simp: exchange_message_sent_def split: option.splits if_splits)

lemma good_add_callback: "cb_task cb = tid \<Longrightarrow> good cf s (add_event_callback tid cb s)"
  by (rule good_callbacks) (auto simp: add_event_callback_def split: option.splits if_splits)

lemma good_call_agent:
  assumes "\<And>c i k t. p = PCancel c i k t \<Longrightarrow> get_task k s \<noteq> None"
  shows "good cf s (snd (call_agent cf n tid cid p s))"
proof (cases "cf_executor cf")
  case True
  then show ?thesis using assms
    by (intro good_agent) (auto simp: call_agent_def set_updater_def server_inv_def pending_stored_def get_task_def split: if_splits)
qed (simp add: call_agent_def)

lemma good_open_task: "open_task cf params s = (r, s') \<Longrightarrow> good cf s s'"
  unfolding good_def using open_task_inv by blast

lemma good_send: "good cf s (snd (on_send_message cf n i params s))"
  by (auto simp: on_send_message_def Let_def split: prod.split sum.split intro!: good_trans [OF _ good_call_agent]
      good_trans [OF _ good_add_callback] good_trans [OF _ good_exchange] intro: good_open_task simp: cb_task_def)

lemma good_stream: "good cf s (snd (on_send_message_streaming cf n i params s))"
  by (auto simp: on_send_message_streaming_def Let_def split: prod.split sum.split option.split intro!: good_trans [OF _ good_call_agent]
      good_trans [OF _ good_add_callback] good_trans [OF _ good_frames(1)] intro: good_open_task simp: cb_task_def)

lemma good_resubscribe: "good cf s (snd (on_resubscribe_to_task cf n i params s))"
  by (auto simp: on_resubscribe_to_task_def Let_def cb_task_def split: option.split
      intro!: good_trans [OF _ good_add_callback])

lemma good_save_canceled:
  assumes "get_task tid s = Some t" "\<not> task_final t" "\<not> cf_executor cf"
  shows "good cf s (save_task (set_state Canceled t) s)"
  using assms
  by (auto simp: good_def server_inv_def tasks_keyed_def cbs_own_def registered_live_def no_agent_def pending_stored_def keeps_final_def)

lemma cancel_task_inv:
  assumes inv: "server_inv cf s" and ex: "cf_executor cf" and t: "get_task tid s = Some t"
  shows "server_inv cf (snd (cancel_task cf t s)) \<and> keeps_final s (snd (cancel_task cf t s))"
proof (cases "task_final t")
  case True
  with inv show ?thesis by (simp add: cancel_task_def task_final_def keeps_final_def)
next
  case False
  have tid: "tk_id t = tid" using inv t by (simp add: server_inv_def tasks_keyed_def)
  show ?thesis
  proof (cases "exec_info tid s")
    case None
    show ?thesis
      by (rule server_inv_at [OF inv t False, where t' = "set_state Canceled t"])
         (use None tid False in \<open>auto simp: cancel_task_def task_final_def Let_def\<close>)
  next
    case (Some info)
    let ?ev = "EvStatus \<lparr> su_context_id = tk_context_id t, su_metadata = None, su_status = TaskStatus_new Canceled, su_task_id = tk_id t \<rparr>"
    let ?s = "save_task (set_state Canceled t) s"
    let ?s' = "run_callbacks cf ?ev (ei_event_cb info) ?s"
    have cbs: "\<forall>cb \<in> set (ei_event_cb info). cb_task cb = tid" using inv Some by (auto simp: server_inv_def cbs_own_def)
    have r: "(\<exists>t'. get_task tid ?s' = Some t' \<and> tk_id t' = tid) \<and>
        (\<forall>k. k \<noteq> tid \<longrightarrow> get_task k ?s' = get_task k ?s \<and> exec_info k ?s' = exec_info k ?s)"
      using run_callbacks_task [OF cbs, of ?s "set_state Canceled t" cf ?ev] tid by auto
    have s': "snd (cancel_task cf t s) = drop_info tid ?s'"
      using False Some tid by (simp add: cancel_task_def task_final_def Let_def)
    obtain t' where t': "get_task tid ?s' = Some t'" "tk_id t' = tid" using r by blast
    show ?thesis unfolding s'
      by (rule server_inv_at [OF inv t False, where t' = t']) (use r t' tid in auto)
  qed
qed


text \<open>What only an agent can do.\<close>

lemma good_by_agent:
  assumes "cf_executor cf \<Longrightarrow> good cf s s'" "sv_updaters s = [] \<Longrightarrow> sv_pending s = [] \<Longrightarrow> s' = s"
  shows "good cf s s'"
proof (cases "cf_executor cf")
  case False
  then show ?thesis using assms(2) by (auto simp: good_def server_inv_def no_agent_def keeps_final_def)
qed (rule assms(1))

lemma good_set_updater: "cf_executor cf \<Longrightarrow> good cf s (set_updater u up s)"
  by (rule good_agent) (simp_all add: set_updater_def server_inv_def pending_stored_def get_task_def)

lemma good_generate [simp]: "good cf s (snd (generate_uuid cf s))"
  by (rule good_cong) (simp_all add: generate_uuid_def)

lemma good_update_status: "good cf s (update_status cf u st m ts md now s)"
proof (rule good_by_agent)
  assume ex: "cf_executor cf"
  show "good cf s (update_status cf u st m ts md now s)"
    unfolding update_status_def Let_def
    by (auto simp: event_task_def split: option.split intro!: good_trans [OF _ good_process [OF ex]] good_set_updater [OF ex])
qed (simp add: update_status_def)

lemma good_add_artifact: "good cf s (add_artifact cf u ap s)"
proof (rule good_by_agent)
  assume ex: "cf_executor cf"
  show "good cf s (add_artifact cf u ap s)"
  proof (cases "ap_artifact_id ap")
    case None
    then show ?thesis unfolding add_artifact_def Let_def
      by (auto simp: event_task_def split_beta split: option.split intro!: good_trans [OF good_generate good_process [OF ex]])
  next
    case (Some a)
    then show ?thesis unfolding add_artifact_def Let_def
      by (auto simp: event_task_def split: option.split intro!: good_process [OF ex])
  qed
qed (simp add: add_artifact_def)

lemma good_new_agent_message: "good cf s (snd (new_agent_message cf u ps md s))"
  by (auto simp: new_agent_message_def Let_def split_beta split: option.split)

lemma good_send_response: "good cf s (send_response_message cf u m s)"
proof (rule good_by_agent)
  assume ex: "cf_executor cf"
  show "good cf s (send_response_message cf u m s)"
    unfolding send_response_message_def
    by (auto simp: event_task_def split: option.split intro!: good_trans [OF good_process [OF ex] good_set_updater [OF ex]])
qed (simp add: send_response_message_def)

lemma good_cancel_start: "good cf s (snd (on_cancel_task cf n i params s))"
  by (auto simp: on_cancel_task_def Let_def task_final_def intro!: good_call_agent good_save_canceled split: option.split)

lemma good_finish_cancel:
  assumes "cf_executor cf" "get_task tid s \<noteq> None"
  shows "good cf s (snd (finish_cancel cf tid t s))"
  using assms cancel_task_inv by (auto simp: finish_cancel_def good_def)

interpretation good_steps: request_steps cf "\<lambda>_. True" "\<lambda>n. good cf" for cf
  by unfold_locales (auto intro: good_trans good_send good_stream good_resubscribe good_cancel_start)

lemma good_request: "good cf s (handle_request env cf body s)"
  using good_steps.request [of env body cf s] good_trans [OF good_frames(5)] by blast

lemma good_agent_returns: "good cf s (agent_returns cf n r s)"
proof (cases "im_get (sv_pending s) n")
  case None
  then show ?thesis by (simp add: agent_returns_def)
next
  case (Some call)
  let ?s = "s\<lparr> sv_pending := im_remove n (sv_pending s) \<rparr>"
  show ?thesis
  proof (rule good_by_agent)
    assume ex: "cf_executor cf"
    have g: "good cf s ?s"
      by (rule good_agent) (auto simp: ex server_inv_def pending_stored_def get_task_def split: if_splits)
    have push: "good cf s (send_push_notification_if_needed cf tid ?s)" for tid
      by (auto simp: send_push_notification_if_needed_def g split: option.split intro!: good_trans [OF g])
    have cancel: "good cf s (snd (finish_cancel cf tid t ?s))" if "call = PCancel c i tid t" for c i tid t
    proof -
      have "good cf ?s (snd (finish_cancel cf tid t ?s))" if "server_inv cf s"
        using pending_storedD [OF that, of n c i tid t] Some \<open>call = _\<close> by (intro good_finish_cancel ex) (simp_all add: get_task_def)
      then show ?thesis using good_trans [OF g] by (auto simp: good_def)
    qed
    show "good cf s (agent_returns cf n r s)"
      by (auto simp: agent_returns_def Some Let_def g push cancel split_beta split: PendingCall.split sum.split
          intro!: good_steps.respond good_steps.stream_failed)
  qed (use Some in simp)
qed


lemma good_step: "good cf s (a2a_exec env cf e s)"
  by (cases e) (simp_all add: a2a_exec_def good_request good_update_status good_add_artifact good_new_agent_message
      good_send_response good_agent_returns)

lemma good_run: "good cf s (a2a_run env cf es s)"
  unfolding a2a_run_def by (induction es arbitrary: s) (auto intro: good_trans good_step)

lemma new_inv: "server_inv cf A2AServer_new"
  by (simp add: server_inv_def tasks_keyed_def cbs_own_def registered_live_def no_agent_def pending_stored_def get_task_def
      exec_info_def A2AServer_new_def)

lemma reachable_inv: "inj (cf_uuid cf) \<Longrightarrow> server_inv cf (a2a_run env cf es A2AServer_new)"
  using good_run [of cf A2AServer_new env es] new_inv by (simp add: good_def)

text \<open>A server with generated identifiers 0, 1, \<open>\<dots>\<close>, and a body that sends a message.\<close>

definition demo_send :: json where
  "demo_send = JObj [(''id'', JInt 1), (''method'', JStr ''SendMessage''),
     (''params'', JObj [(''message'', JObj [(''messageId'', JStr ''m''), (''parts'', JArr [JObj [(''text'', JStr ''hi'')]])])])]"

definition demo_cf :: A2AConfig where
  "demo_cf = \<lparr> cf_uuid = show_nat, cf_executor = True, cf_push_store = True, cf_push_sender = True, cf_streaming = True,
     cf_card = Inr (JObj []) \<rparr>"

definition demo_rpc :: RpcEnv where
  "demo_rpc = \<lparr> rpc_from_str = (\<lambda>_. Inr demo_send), rpc_to_string = (\<lambda>_. []), rpc_de_err = (\<lambda>_. []) \<rparr>"

definition demo_final :: A2AServer where
  "demo_final = a2a_run demo_rpc demo_cf [Start, Post ''x'', UpdateStatus 0 Completed None None None ''now''] A2AServer_new"

lemma demo_uuids: "inj (cf_uuid demo_cf)"
  by (rule injI) (simp add: demo_cf_def)

text \<open>
  C14. A finished task stays as it is: once a task of the server is completed, canceled, failed or rejected, no
  further request, cancellation, resubscription or late call of an agent, in any order, changes anything of
  it. Every updater may still be used by its agent, and requests may name the task again.
\<close>

theorem final_task_frozen:
  assumes "inj (cf_uuid cf)" and "s = a2a_run env cf es A2AServer_new"
    and "get_task tid s = Some t" and "is_final (ts_state (tk_status t))"
  shows "get_task tid (a2a_run env cf es' s) = Some t"
  using good_run [of cf s env es'] assms(1) reachable_inv [OF assms(1), of env es] assms(2-4)
  by (auto simp: good_def keeps_final_def task_final_def)

theorem final_task_frozen_witness:
  "\<exists>t. get_task ''task-0'' demo_final = Some t \<and> is_final (ts_state (tk_status t)) \<and>
     get_task ''task-0'' (a2a_run demo_rpc demo_cf [Post ''x'', UpdateStatus 0 Working None None None ''now'', AgentReturns 0 (Inr ())] demo_final) = Some t"
proof -
  have "map_option (\<lambda>t. is_final (ts_state (tk_status t))) (get_task ''task-0'' demo_final) = Some True" by code_simp
  then obtain t where t: "get_task ''task-0'' demo_final = Some t" "is_final (ts_state (tk_status t))" by auto
  have "get_task ''task-0'' (a2a_run demo_rpc demo_cf [Post ''x'', UpdateStatus 0 Working None None None ''now'', AgentReturns 0 (Inr ())] demo_final) = Some t"
    by (rule final_task_frozen [OF demo_uuids demo_final_def t])
  with t show ?thesis by blast
qed

end
