(* ===== verification/A2AAnswers.thy ===== *)
theory A2AAnswers
  imports A2ALaws
begin

text \<open>
  The answers of the A2A server: stored tasks are well formed, so they can be written, and a request that
  sends a message is answered exactly once, at the latest when its task ends or waits for the user.
\<close>

subsection \<open>Stored tasks are well formed\<close>

definition tasks_ok :: "A2AServer \<Rightarrow> bool" where
  "tasks_ok s \<longleftrightarrow> (\<forall>k t. get_task k s = Some t \<longrightarrow> task_ok t)"

definition uuids_ok :: "A2AConfig \<Rightarrow> bool" where
  "uuids_ok cf \<longleftrightarrow> inj (cf_uuid cf) \<and> (\<forall>k. cf_uuid cf k \<noteq> [])"

text \<open>What an agent hands to its updater can be written.\<close>

definition event_ok :: "StreamEvent \<Rightarrow> bool" where
  "event_ok ev =
     (case ev of
        EvStatus e \<Rightarrow> status_ok (su_status e) \<and> not_null (su_metadata e)
      | EvArtifact e \<Rightarrow> artifact_ok (au_artifact e)
      | EvMessage m \<Rightarrow> a2a_message_ok m
      | EvTask t \<Rightarrow> task_ok t)"

definition agent_ok :: "a2a_event \<Rightarrow> bool" where
  "agent_ok e =
     (case e of
        UpdateStatus u st m ts md now \<Rightarrow> pred_option a2a_message_ok m \<and> not_null md
      | AddArtifact u ap \<Rightarrow> list_all part_ok (ap_parts ap) \<and> not_null (ap_metadata ap) \<and> ap_artifact_id ap \<noteq> Some []
      | SendResponseMessage u m \<Rightarrow> a2a_message_ok m
      | _ \<Rightarrow> True)"

lemma push_history_ok: "task_ok t \<Longrightarrow> a2a_message_ok m \<Longrightarrow> task_ok (push_history m t)"
  by (auto simp: task_ok_def push_history_def list_or_empty_def split: option.split)

lemma archive_ok: "task_ok t \<Longrightarrow> task_ok (archive_status_message t)"
  unfolding archive_status_message_def
  by (auto simp: task_ok_def status_ok_def push_history_def list_or_empty_def split: option.split)

lemma set_state_ok: "task_ok t \<Longrightarrow> task_ok (set_state st t)"
  by (simp add: task_ok_def set_state_def status_ok_def)

lemma merge_metadata_ok: "not_null a \<Longrightarrow> not_null b \<Longrightarrow> not_null (merge_metadata a b)"
  by (auto simp: merge_metadata_def not_null_def split: option.split json.split)

lemma apply_status_ok: "task_ok t \<Longrightarrow> status_ok (su_status e) \<Longrightarrow> not_null (su_metadata e) \<Longrightarrow> task_ok (apply_status_update e t)"
  using archive_ok [of t] by (simp add: apply_status_update_def Let_def task_ok_def merge_metadata_ok)

lemma update_first_all: "list_all P xs \<Longrightarrow> (\<And>x. P x \<Longrightarrow> P (f x)) \<Longrightarrow> list_all P (update_first Q f xs)"
  by (induction xs) auto

lemma append_artifact_ok: "task_ok t \<Longrightarrow> artifact_ok (au_artifact e) \<Longrightarrow> task_ok (append_artifact_to_task e t)"
  by (auto simp: task_ok_def append_artifact_to_task_def Let_def list_or_empty_def artifact_ok_def intro!: update_first_all
      split: option.splits)

lemma new_task_ok: "tid \<noteq> [] \<Longrightarrow> a2a_message_ok (mp_message p) \<Longrightarrow> task_ok (new_task p tid cid)"
  by (simp add: task_ok_def new_task_def Task_default_def TaskStatus_new_def status_ok_def not_null_def)

lemma tasks_ok_save: "tasks_ok s \<Longrightarrow> task_ok t \<Longrightarrow> tasks_ok (save_task t s)"
  by (simp add: tasks_ok_def)

lemma tasks_ok_get: "tasks_ok s \<Longrightarrow> get_task k s = Some t \<Longrightarrow> task_ok t"
  by (simp add: tasks_ok_def)

lemma tasks_ok_cong: "sv_tasks s' = sv_tasks s \<Longrightarrow> tasks_ok s \<Longrightarrow> tasks_ok s'"
  by (simp add: tasks_ok_def get_task_def)

lemma tasks_ok_frames [simp]:
  "tasks_ok (emit_once tid em ev s) \<longleftrightarrow> tasks_ok s" "tasks_ok (emit em ev s) \<longleftrightarrow> tasks_ok s"
  "tasks_ok (send_notification cf t s) \<longleftrightarrow> tasks_ok s" "tasks_ok (drop_info tid s) \<longleftrightarrow> tasks_ok s"
  "tasks_ok (set_info tid i s) \<longleftrightarrow> tasks_ok s" "tasks_ok (with_emitter c f s) \<longleftrightarrow> tasks_ok s"
  "tasks_ok (snd (exchange_message_sent tid v s)) \<longleftrightarrow> tasks_ok s"
  by (simp_all add: tasks_ok_def)

lemma callback_tasks_ok: "tasks_ok s \<Longrightarrow> tasks_ok (run_callback cf ev cb s)"
  by (simp add: run_callback_def Let_def tasks_ok_save set_state_ok tasks_ok_get split: EventCb.split option.split StreamEvent.split)

lemma callbacks_tasks_ok: "tasks_ok s \<Longrightarrow> tasks_ok (run_callbacks cf ev cbs s)"
  by (induction cbs arbitrary: s) (simp_all add: callback_tasks_ok)

lemma save_event_tasks_ok:
  assumes "tasks_ok s" "event_ok ev" "event_task ev tid" "get_task tid s \<noteq> None"
  shows "tasks_ok (save_task_event ev s)"
  using assms
  by (cases ev) (auto simp: save_task_event_def ensure_task_for_event_def event_ok_def event_task_def Let_def
      intro!: tasks_ok_save apply_status_ok append_artifact_ok dest: tasks_ok_get)

lemma process_tasks_ok:
  assumes "tasks_ok s" "server_inv cf s" "cf_executor cf" "event_ok ev" "event_task ev tid"
  shows "tasks_ok (process cf tid ev s)"
proof (cases "exec_info tid s")
  case (Some info)
  then have "get_task tid s \<noteq> None" using assms(2,3) by (auto simp: server_inv_def registered_live_def)
  then have "tasks_ok (run_callbacks cf ev (ei_event_cb info) (save_task_event ev s))"
    using assms by (intro callbacks_tasks_ok save_event_tasks_ok)
  then show ?thesis using Some by (simp add: process_def Let_def)
qed (simp add: process_def assms(1))


text \<open>A step that keeps the invariant, and keeps stored tasks well formed.\<close>

definition sound :: "A2AConfig \<Rightarrow> A2AServer \<Rightarrow> A2AServer \<Rightarrow> bool" where
  "sound cf s s' \<longleftrightarrow> good cf s s' \<and> (uuids_ok cf \<and> server_inv cf s \<and> tasks_ok s \<longrightarrow> tasks_ok s')"

lemma uuids_ok_inj: "uuids_ok cf \<Longrightarrow> inj (cf_uuid cf)"
  by (simp add: uuids_ok_def)

lemma good_inv: "good cf s s' \<Longrightarrow> inj (cf_uuid cf) \<Longrightarrow> server_inv cf s \<Longrightarrow> server_inv cf s'"
  by (simp add: good_def)

lemma sound_refl [simp]: "sound cf s s"
  by (simp add: sound_def)

lemma sound_trans: "sound cf s s' \<Longrightarrow> sound cf s' s'' \<Longrightarrow> sound cf s s''"
  unfolding sound_def using good_trans good_inv uuids_ok_inj by blast

lemma soundI: "good cf s s' \<Longrightarrow> (uuids_ok cf \<Longrightarrow> server_inv cf s \<Longrightarrow> tasks_ok s \<Longrightarrow> tasks_ok s') \<Longrightarrow> sound cf s s'"
  by (simp add: sound_def)

lemma sound_frame: "good cf s s' \<Longrightarrow> sv_tasks s' = sv_tasks s \<Longrightarrow> sound cf s s'"
  by (rule soundI) (auto intro: tasks_ok_cong)

lemma add_callback_frame [simp]:
  "sv_tasks (add_event_callback tid cb s) = sv_tasks s" "sv_emitters (add_event_callback tid cb s) = sv_emitters s"
  "sv_pending (add_event_callback tid cb s) = sv_pending s" "sv_requests (add_event_callback tid cb s) = sv_requests s"
  "sv_uuids (add_event_callback tid cb s) = sv_uuids s" "get_task k (add_event_callback tid cb s) = get_task k s"
  by (simp_all add: add_event_callback_def split: option.split)

lemma call_agent_frame [simp]:
  "sv_tasks (snd (call_agent cf n tid cid p s)) = sv_tasks s" "sv_emitters (snd (call_agent cf n tid cid p s)) = sv_emitters s"
  "sv_task_execute_map (snd (call_agent cf n tid cid p s)) = sv_task_execute_map s"
  "sv_requests (snd (call_agent cf n tid cid p s)) = sv_requests s" "sv_uuids (snd (call_agent cf n tid cid p s)) = sv_uuids s"
  "get_task k (snd (call_agent cf n tid cid p s)) = get_task k s" "exec_info k (snd (call_agent cf n tid cid p s)) = exec_info k s"
  by (simp_all add: call_agent_def set_updater_def get_task_def exec_info_def)

lemma open_task_tasks_ok:
  assumes "tasks_ok s" "send_params_ok p" "open_task cf p s = (r, s')"
  shows "tasks_ok s'"
proof (cases rule: open_task_cases [of cf p s])
  case (refused e)
  with assms show ?thesis by simp
next
  case (existing tid t)
  then show ?thesis using assms by (auto simp: send_params_ok_def intro!: tasks_ok_save push_history_ok archive_ok dest: tasks_ok_get)
next
  case (created tid cid d n)
  have "tasks_ok (save_task (new_task p tid cid) (s\<lparr> sv_uuids := n \<rparr>))"
    using assms(1,2) created(1) by (intro tasks_ok_save new_task_ok) (simp_all add: tasks_ok_def get_task_def send_params_ok_def)
  then have "tasks_ok ((save_task (new_task p tid cid) (s\<lparr> sv_uuids := n \<rparr>))\<lparr> sv_push_configs := d \<rparr>)"
    by (rule tasks_ok_cong [rotated]) simp
  then show ?thesis using created(3) assms(3) by auto
qed

lemma send_tasks:
  "sv_tasks (snd (on_send_message cf n i p s)) = sv_tasks (snd (open_task cf p s))"
  "sv_tasks (snd (on_send_message_streaming cf n i p s)) = sv_tasks (snd (open_task cf p s))"
  "sv_tasks (snd (on_resubscribe_to_task cf n i q s)) = sv_tasks s"
  by (auto simp: on_send_message_def on_send_message_streaming_def on_resubscribe_to_task_def Let_def
      split: prod.split sum.split option.split)

lemma sound_send: "send_params_ok p \<Longrightarrow> sound cf s (snd (on_send_message cf n i p s))"
  by (rule soundI [OF good_send]) (metis tasks_ok_cong send_tasks(1) open_task_tasks_ok prod.collapse)

lemma sound_stream: "send_params_ok p \<Longrightarrow> sound cf s (snd (on_send_message_streaming cf n i p s))"
  by (rule soundI [OF good_stream]) (metis tasks_ok_cong send_tasks(2) open_task_tasks_ok prod.collapse)

lemma sound_cancel: "sound cf s (snd (on_cancel_task cf n i q s))"
  by (rule soundI [OF good_cancel_start])
     (auto simp: on_cancel_task_def Let_def tasks_ok_cong [OF call_agent_frame(1)] tasks_ok_save set_state_ok tasks_ok_get split: option.split)

interpretation sound_steps: request_steps cf "\<lambda>_. True" "\<lambda>n. sound cf" for cf
  by unfold_locales
     (auto intro: sound_trans sound_frame sound_send sound_stream sound_cancel good_resubscribe simp: send_tasks)

lemma sound_new_request: "sound cf s (new_request e s)"
  by (rule sound_frame [OF good_frames(5)]) (simp add: new_request_def)

lemma sound_request: "sound cf s (handle_request env cf body s)"
  using sound_steps.request [of env body cf s] sound_trans [OF sound_new_request] by blast

lemma sound_process: "event_ok ev \<Longrightarrow> event_task ev tid \<Longrightarrow> cf_executor cf \<Longrightarrow> sound cf s (process cf tid ev s)"
  by (rule soundI [OF good_process]) (auto intro: process_tasks_ok)

lemma sound_by_agent:
  assumes "cf_executor cf \<Longrightarrow> sound cf s s'" "sv_updaters s = [] \<Longrightarrow> sv_pending s = [] \<Longrightarrow> s' = s" "good cf s s'"
  shows "sound cf s s'"
  using assms by (cases "cf_executor cf") (auto simp: sound_def server_inv_def no_agent_def)

lemma sound_set_updater: "cf_executor cf \<Longrightarrow> sound cf s (set_updater u up s)"
  by (rule sound_frame [OF good_set_updater]) (simp_all add: set_updater_def)


lemma sound_update_status:
  "pred_option a2a_message_ok m \<Longrightarrow> not_null md \<Longrightarrow> sound cf s (update_status cf u st m ts md now s)"
proof (rule sound_by_agent)
  assume ok: "pred_option a2a_message_ok m" "not_null md" and ex: "cf_executor cf"
  then show "sound cf s (update_status cf u st m ts md now s)"
    unfolding update_status_def Let_def
    by (auto simp: event_task_def event_ok_def status_ok_def split: option.split
        intro!: sound_trans [OF _ sound_process] sound_set_updater)
qed (rule good_update_status | simp add: update_status_def)+

lemma sound_send_response: "a2a_message_ok m \<Longrightarrow> sound cf s (send_response_message cf u m s)"
proof (rule sound_by_agent)
  assume ok: "a2a_message_ok m" and ex: "cf_executor cf"
  then show "sound cf s (send_response_message cf u m s)"
    unfolding send_response_message_def
    by (auto simp: event_task_def event_ok_def split: option.split intro!: sound_trans [OF sound_process sound_set_updater])
qed (rule good_send_response | simp add: send_response_message_def)+

lemma sound_add_artifact:
  assumes "agent_ok (AddArtifact u ap)"
  shows "sound cf s (add_artifact cf u ap s)"
proof (rule soundI [OF good_add_artifact])
  assume u: "uuids_ok cf" and inv: "server_inv cf s" and ok: "tasks_ok s"
  show "tasks_ok (add_artifact cf u ap s)"
  proof (cases "im_get (sv_updaters s) u")
    case None
    with ok show ?thesis by (simp add: add_artifact_def)
  next
    case (Some up)
    then have ex: "cf_executor cf" using inv by (auto simp: server_inv_def no_agent_def)
    obtain aid s1 where s1: "(case ap_artifact_id ap of Some i \<Rightarrow> (i, s) | None \<Rightarrow> generate_uuid cf s) = (aid, s1)"
      by (cases "ap_artifact_id ap") (auto simp: generate_uuid_def)
    have aid: "aid \<noteq> []" using s1 assms u by (auto simp: agent_ok_def generate_uuid_def uuids_ok_def split: option.splits)
    have "sound cf s s1" using s1 by (auto simp: sound_frame generate_uuid_def good_cong split: option.splits)
    then have "server_inv cf s1" "tasks_ok s1" using u inv ok by (auto simp: sound_def good_def uuids_ok_inj)
    then have "tasks_ok (process cf (up_task_id up) (EvArtifact
       \<lparr> au_append = Some (ap_append ap), au_artifact = \<lparr> af_artifact_id = aid, af_description = None, af_extensions = Some (ap_extensions ap),
          af_metadata = ap_metadata ap, af_name = ap_name ap, af_parts = ap_parts ap \<rparr>, au_context_id = up_context_id up,
         au_last_chunk = Some (ap_last_chunk ap), au_metadata = ap_metadata ap, au_task_id = up_task_id up, au_index = None \<rparr>) s1)"
      using assms aid ex by (intro process_tasks_ok) (simp_all add: event_ok_def event_task_def artifact_ok_def agent_ok_def)
    then show ?thesis using ok Some s1 by (simp add: add_artifact_def Let_def)
  qed
qed

lemma cancel_tasks_ok: "tasks_ok s \<Longrightarrow> task_ok t \<Longrightarrow> tasks_ok (snd (cancel_task cf t s))"
  by (simp add: cancel_task_def Let_def tasks_ok_save set_state_ok callbacks_tasks_ok split: option.split)

lemma tasks_ok_respond [simp]: "tasks_ok (respond n r) \<longleftrightarrow> tasks_ok (snd r)"
  by (simp add: respond_def split: option.split)

lemma tasks_ok_stream_failed [simp]: "tasks_ok (stream_failed n i e s) \<longleftrightarrow> tasks_ok s"
  by (simp add: stream_failed_def)

lemma sound_agent_returns: "sound cf s (agent_returns cf n r s)"
proof (rule soundI [OF good_agent_returns])
  assume inv: "server_inv cf s" and ok: "tasks_ok s"
  show "tasks_ok (agent_returns cf n r s)"
  proof (cases "im_get (sv_pending s) n")
    case (Some call)
    let ?s = "s\<lparr> sv_pending := im_remove n (sv_pending s) \<rparr>"
    have s: "tasks_ok ?s" by (rule tasks_ok_cong [OF _ ok]) simp
    have "tasks_ok (snd (finish_cancel cf tid t ?s))" if "call = PCancel c i tid t" for c i tid t
      using pending_storedD [OF inv, of n c i tid t] Some that cancel_tasks_ok [OF s] tasks_ok_get [OF ok]
      by (auto simp: finish_cancel_def get_task_def)
    then show ?thesis using s
      by (auto simp: agent_returns_def Some Let_def split_beta send_push_notification_if_needed_def split: PendingCall.split sum.split option.split)
  qed (simp add: agent_returns_def ok)
qed

lemma sound_step: "agent_ok e \<Longrightarrow> sound cf s (a2a_exec env cf e s)"
proof (cases e)
  case (NewAgentMessage u ps md)
  have "sv_tasks (snd (new_agent_message cf u ps md s)) = sv_tasks s"
    by (simp add: new_agent_message_def generate_uuid_def split: option.split)
  then show ?thesis using NewAgentMessage by (simp add: a2a_exec_def sound_frame good_new_agent_message)
next
  case (AddArtifact u ap)
  moreover assume "agent_ok e"
  ultimately show ?thesis by (simp add: a2a_exec_def sound_add_artifact)
qed (simp_all add: a2a_exec_def agent_ok_def sound_frame sound_request sound_update_status sound_send_response sound_agent_returns)

lemma sound_run: "list_all agent_ok es \<Longrightarrow> sound cf s (a2a_run env cf es s)"
  unfolding a2a_run_def by (induction es arbitrary: s) (auto intro: sound_trans sound_step)


subsection \<open>The emitter of a request\<close>

definition unanswered :: "nat \<Rightarrow> A2AServer \<Rightarrow> bool" where
  "unanswered n s \<longleftrightarrow> im_get (sv_emitters s) n = Some Emitter_non_streaming"

text \<open>A response to request \<open>i\<close>: an error, or a result that the client reads back.\<close>

definition response_for :: "RequestId option \<Rightarrow> RpcResponse \<Rightarrow> bool" where
  "response_for i r \<longleftrightarrow> rs_id r = i \<and>
     (rs_error r \<noteq> None \<or> (\<exists>x v. rs_result r = Some v \<and> SendMessageResult_from_json v = Inr x \<and> rs_error r = None))"

definition answered :: "RequestId option \<Rightarrow> nat \<Rightarrow> A2AServer \<Rightarrow> bool" where
  "answered i n s \<longleftrightarrow>
     (\<exists>e r. im_get (sv_emitters s) n = Some e \<and> em_response_sent e \<and> \<not> em_streaming e \<and> em_out e = [r] \<and> response_for i r)"

lemma emitter_with [simp]:
  "im_get (sv_emitters (with_emitter c f s)) n = (if c = n then map_option f (im_get (sv_emitters s) n) else im_get (sv_emitters s) n)"
  by (auto simp: with_emitter_def split: option.split)

text \<open>Nothing that is written as a stream reaches a request that is not one.\<close>

definition stream_write :: "(Emitter \<Rightarrow> Emitter) \<Rightarrow> bool" where
  "stream_write f \<longleftrightarrow> (\<forall>e. \<not> em_streaming e \<longrightarrow> f e = e)"

lemma stream_writes: "stream_write (write_streaming_data r)" "stream_write write_done"
  by (simp_all add: stream_write_def write_streaming_data_def write_done_def)

lemma stream_write_status:
  assumes "stream_write f"
  shows "unanswered n s \<Longrightarrow> unanswered n (with_emitter c f s)" "answered i n s \<Longrightarrow> answered i n (with_emitter c f s)"
  using assms by (auto simp: unanswered_def answered_def stream_write_def Emitter_non_streaming_def)

lemma answered_stays: "answered i n s \<Longrightarrow> answered i n (with_emitter c (write_non_streaming_data r) s)"
  by (auto simp: answered_def write_non_streaming_data_def)

lemma response_answers:
  "unanswered n s \<Longrightarrow> response_for i r \<Longrightarrow> answered i n (with_emitter n (write_non_streaming_data r) s)"
  by (auto simp: unanswered_def answered_def write_non_streaming_data_def Emitter_non_streaming_def)

lemma response_status:
  assumes "unanswered n s \<or> answered i n s" "c = n \<Longrightarrow> response_for i r"
  shows "unanswered n (with_emitter c (write_non_streaming_data r) s) \<or> answered i n (with_emitter c (write_non_streaming_data r) s)"
proof (cases "c = n")
  case True
  then show ?thesis using assms response_answers answered_stays by blast
next
  case False
  then show ?thesis using assms(1) by (simp add: unanswered_def answered_def)
qed

lemma not_both: "unanswered n s \<Longrightarrow> answered i n s \<Longrightarrow> False"
  by (simp add: unanswered_def answered_def Emitter_non_streaming_def)

definition payload_ok :: "StreamEvent \<Rightarrow> bool" where
  "payload_ok ev = (case ev of EvTask t \<Rightarrow> task_ok t | EvMessage m \<Rightarrow> a2a_message_ok m | _ \<Rightarrow> True)"

lemma send_result_written:
  assumes "send_result_ok x"
  obtains r where "success_response SendMessageResult_to_json i x = Inr r" "response_for i r"
proof -
  obtain v where "SendMessageResult_to_json x = Inr v" "SendMessageResult_from_json v = Inr x"
    using send_result.encode_decode [OF assms] by blast
  then show thesis by (intro that [of "\<lparr> rs_jsonrpc = JSONRPC_VERSION, rs_id = i, rs_result = Some v, rs_error = None \<rparr>"])
      (auto simp: success_response_def response_for_def)
qed

definition emitter_of :: "StreamEmitter \<Rightarrow> (RequestId option \<times> nat) option" where
  "emitter_of em = (case em of NonStreamEmit i n \<Rightarrow> Some (i, n) | StreamEmit _ _ \<Rightarrow> None)"

lemma emit_status:
  assumes "unanswered n s \<or> answered i n s" "payload_ok ev" "\<And>j. emitter_of em = Some (j, n) \<Longrightarrow> j = i"
  shows "unanswered n (emit em ev s) \<or> answered i n (emit em ev s)"
proof (cases em)
  case (StreamEmit j c)
  then show ?thesis using assms(1) stream_write_status [OF stream_writes(1)] stream_write_status [OF stream_writes(2)]
    by (auto simp: emit_def Let_def split: sum.split)
next
  case (NonStreamEmit j c)
  have "unanswered n (emit em ev s) \<or> answered i n (emit em ev s)" if "ev = EvTask t \<and> x = RTask t \<or> ev = EvMessage m \<and> x = RMessage m" for t m x
  proof -
    have "send_result_ok x" using that assms(2) by (auto simp: send_result_ok_def payload_ok_def)
    then obtain r where r: "success_response SendMessageResult_to_json j x = Inr r" "response_for j r" by (rule send_result_written)
    have "emit em ev s = with_emitter c (write_non_streaming_data r) s" using that r(1) NonStreamEmit by (auto simp: emit_def)
    then show ?thesis using response_status [OF assms(1), of c r] assms(3) r(2) NonStreamEmit by (auto simp: emitter_of_def)
  qed
  then show ?thesis using assms(1) NonStreamEmit by (cases ev) (auto simp: emit_def)
qed

lemma emit_answered: "answered i n s \<Longrightarrow> answered i n (emit em ev s)"
  by (auto simp: emit_def Let_def answered_stays stream_write_status [OF stream_writes(1)] stream_write_status [OF stream_writes(2)]
      split: StreamEmitter.split sum.split option.split StreamEvent.split)

lemma emit_answers:
  assumes "unanswered n s" "payload_ok ev" "(\<exists>t. ev = EvTask t) \<or> (\<exists>m. ev = EvMessage m)"
  shows "answered i n (emit (NonStreamEmit i n) ev s)"
proof -
  define x where "x = (case ev of EvTask t \<Rightarrow> RTask t | EvMessage m \<Rightarrow> RMessage m)"
  have "send_result_ok x" using assms(2,3) by (auto simp: send_result_ok_def payload_ok_def x_def)
  then obtain r where r: "success_response SendMessageResult_to_json i x = Inr r" "response_for i r" by (rule send_result_written)
  have "emit (NonStreamEmit i n) ev s = with_emitter n (write_non_streaming_data r) s"
    using assms(3) r(1) by (auto simp: emit_def x_def)
  then show ?thesis using response_answers [OF assms(1) r(2)] by simp
qed

end
