(* ===== verification/A2AWaiting.thy ===== *)
theory A2AWaiting
  imports A2AAnswers
begin

text \<open>
  A request that sends a message waits in the callbacks of its task until it is answered. The invariant of
  a waiting request, that every step keeps it or answers the request, and the theorem.
\<close>

subsection \<open>Callbacks\<close>

definition is_send_cb :: "EventCb \<Rightarrow> bool" where
  "is_send_cb cb = (case cb of SendCb _ _ _ \<Rightarrow> True | StreamCb _ _ _ \<Rightarrow> False)"

definition cb_emitter :: "EventCb \<Rightarrow> (RequestId option \<times> nat) option" where
  "cb_emitter cb = (case cb of SendCb em _ _ \<Rightarrow> emitter_of em | StreamCb em _ _ \<Rightarrow> emitter_of em)"

definition settled :: "RequestId option \<Rightarrow> nat \<Rightarrow> A2AServer \<Rightarrow> bool" where
  "settled i n s \<longleftrightarrow> unanswered n s \<or> answered i n s"

lemma status_frames:
  "sv_emitters s' = sv_emitters s \<Longrightarrow> unanswered n s' = unanswered n s"
  "sv_emitters s' = sv_emitters s \<Longrightarrow> answered i n s' = answered i n s"
  by (simp_all add: unanswered_def answered_def)

lemmas status_simps [simp] =
  status_frames [OF save_task_frame(6)] status_frames [OF exchange_frame(6)] status_frames [OF send_notification_frame(7)]
  status_frames [OF set_info_frame(6)] status_frames [OF drop_info_frame(6)] status_frames [OF save_task_event_frame(5)]

lemma emit_once_status:
  assumes "settled i n s" "payload_ok ev" "\<And>j. emitter_of em = Some (j, n) \<Longrightarrow> j = i"
  shows "settled i n (emit_once tid em ev s)"
proof -
  have "settled i n (snd (exchange_message_sent tid True s))" using assms(1) by (simp add: settled_def)
  then show ?thesis
    using emit_status [of n "snd (exchange_message_sent tid True s)" i ev em] assms(2,3)
    by (simp add: emit_once_def Let_def split_beta settled_def)
qed

lemma run_callback_status:
  assumes "settled i n s" "payload_ok ev" "tasks_ok s" "\<And>j. cb_emitter cb = Some (j, n) \<Longrightarrow> j = i"
  shows "settled i n (run_callback cf ev cb s)"
proof (cases cb)
  case (SendCb em tid b)
  show ?thesis
  proof (cases "get_task tid s")
    case (Some t)
    have em: "\<And>j. emitter_of em = Some (j, n) \<Longrightarrow> j = i" using assms(4) SendCb by (simp add: cb_emitter_def)
    have t: "payload_ok (EvTask t)" using tasks_ok_get [OF assms(3) Some] by (simp add: payload_ok_def)
    have s1: "settled i n (save_task (set_state Completed t) s)" using assms(1) by (simp add: settled_def)
    show ?thesis
      using emit_once_status [OF s1 assms(2) em] emit_once_status [OF assms(1) t em] assms(1) SendCb Some
      by (cases ev) (simp_all add: run_callback_def)
  qed (use assms(1) SendCb in \<open>simp add: run_callback_def\<close>)
next
  case (StreamCb em tid b)
  have "settled i n (emit em ev s)"
    using emit_status [of n s i ev em] assms StreamCb by (simp add: settled_def cb_emitter_def)
  then show ?thesis using StreamCb by (auto simp: run_callback_def Let_def settled_def split: option.split)
qed

lemma run_callback_answered: "answered i n s \<Longrightarrow> answered i n (run_callback cf ev cb s)"
  by (auto simp: run_callback_def emit_once_def Let_def split_beta emit_answered split: EventCb.split option.split StreamEvent.split)

lemma run_callbacks_answered: "answered i n s \<Longrightarrow> answered i n (run_callbacks cf ev cbs s)"
  by (induction cbs arbitrary: s) (simp_all add: run_callback_answered)

lemma run_callbacks_status:
  assumes "settled i n s" "payload_ok ev" "tasks_ok s" "\<And>cb j. cb \<in> set cbs \<Longrightarrow> cb_emitter cb = Some (j, n) \<Longrightarrow> j = i"
  shows "settled i n (run_callbacks cf ev cbs s)"
  using assms
proof (induction cbs arbitrary: s)
  case (Cons cb cbs)
  have "settled i n (run_callback cf ev cb s)" using Cons.prems by (intro run_callback_status) auto
  moreover have "tasks_ok (run_callback cf ev cb s)" using Cons.prems(3) by (rule callback_tasks_ok)
  ultimately show ?case using Cons.IH Cons.prems(2,4) by auto
qed simp

lemma stream_cb_exec: "\<not> is_send_cb cb \<Longrightarrow> exec_info k (run_callback cf ev cb s) = exec_info k s"
  by (auto simp: run_callback_def is_send_cb_def Let_def split: EventCb.splits option.split)

lemma stream_cb_task: "\<not> is_send_cb cb \<Longrightarrow> get_task k (run_callback cf ev cb s) = get_task k s"
  by (auto simp: run_callback_def is_send_cb_def Let_def split: EventCb.splits option.split)

text \<open>The callback of the request answers it with the first event that ends the exchange.\<close>

lemma send_cb_answers:
  assumes "unanswered n s" "exec_info tid s = Some info" "\<not> ei_message_sent info" "get_task tid s = Some t" "tasks_ok s"
    "payload_ok ev" "is_final_event ev \<or> \<not> b"
  shows "answered i n (run_callback cf ev (SendCb (NonStreamEmit i n) tid b) s)"
proof -
  have once: "answered i n (emit_once tid (NonStreamEmit i n) e u)"
    if "unanswered n u" "exec_info tid u = Some info" "payload_ok e" "(\<exists>t. e = EvTask t) \<or> (\<exists>m. e = EvMessage m)" for e u
  proof -
    have "unanswered n (snd (exchange_message_sent tid True u))" using that(1) by simp
    then have "answered i n (emit (NonStreamEmit i n) e (snd (exchange_message_sent tid True u)))"
      by (rule emit_answers) (use that in auto)
    then show ?thesis using that(2) assms(3) by (simp add: emit_once_def exchange_message_sent_def)
  qed
  have t: "payload_ok (EvTask t)" using tasks_ok_get [OF assms(5,4)] by (simp add: payload_ok_def)
  show ?thesis
    using once [of "save_task (set_state Completed t) s" ev] once [of s "EvTask t"] assms t
    by (cases ev) (simp_all add: run_callback_def)
qed

lemma run_callbacks_answer:
  assumes "settled i n s" "exec_info tid s = Some info" "\<not> ei_message_sent info" "get_task tid s = Some t" "tasks_ok s"
    "payload_ok ev" "is_final_event ev \<or> \<not> b" "filter is_send_cb cbs = [SendCb (NonStreamEmit i n) tid b]"
    "\<And>cb j. cb \<in> set cbs \<Longrightarrow> cb_emitter cb = Some (j, n) \<Longrightarrow> j = i"
  shows "answered i n (run_callbacks cf ev cbs s)"
  using assms
proof (induction cbs arbitrary: s)
  case (Cons cb cbs)
  let ?s = "run_callback cf ev cb s"
  show ?case
  proof (cases "is_send_cb cb")
    case True
    then have cb: "cb = SendCb (NonStreamEmit i n) tid b" using Cons.prems(8) by simp
    have "answered i n ?s"
      using Cons.prems(1) send_cb_answers [of n s tid info t ev b i cf] run_callback_answered [of i n s cf ev cb] Cons.prems(2-7)
      by (auto simp: cb settled_def)
    then show ?thesis by (simp add: run_callbacks_answered)
  next
    case False
    have "settled i n ?s" using Cons.prems by (intro run_callback_status) auto
    moreover have "tasks_ok ?s" using Cons.prems(5) by (rule callback_tasks_ok)
    ultimately show ?thesis
      using Cons.IH [of ?s] Cons.prems False by (auto simp: stream_cb_exec stream_cb_task)
  qed
qed simp

lemma run_callbacks_idle:
  assumes "filter is_send_cb cbs = [SendCb (NonStreamEmit i n) tid True]" "\<not> is_final_event ev"
  shows "exec_info k (run_callbacks cf ev cbs s) = exec_info k s"
proof -
  have "\<not> is_message ev" using assms(2) by (cases ev) (simp_all add: is_message_def is_final_event_def)
  then have idle: "run_callback cf ev (SendCb em tid' True) s = s" for em tid' s
    using assms(2) by (cases ev) (auto simp: run_callback_def is_message_def split: option.split)
  have "\<forall>cb \<in> set cbs. is_send_cb cb \<longrightarrow> cb = SendCb (NonStreamEmit i n) tid True"
  proof (intro ballI impI)
    fix cb assume "cb \<in> set cbs" "is_send_cb cb"
    then have "cb \<in> set (filter is_send_cb cbs)" by simp
    then show "cb = SendCb (NonStreamEmit i n) tid True" by (simp add: assms(1))
  qed
  then show ?thesis
  proof (induction cbs arbitrary: s)
    case (Cons cb cbs)
    then show ?case by (cases "is_send_cb cb") (simp_all add: idle stream_cb_exec)
  qed simp
qed


subsection \<open>A waiting request\<close>

text \<open>
  Request \<open>n\<close> with identifier \<open>i\<close> that sends a message to task \<open>tid\<close>: it has no response or exactly one;
  whoever may write to its emitter answers request \<open>i\<close>; and as long as it has no response, the task is
  registered, its response was not sent, and among its callbacks is that of the request, as the only
  one of a send request.
\<close>

definition callbacks_of :: "A2AServer \<Rightarrow> EventCb set" where
  "callbacks_of s = {cb. \<exists>k info. exec_info k s = Some info \<and> cb \<in> set (ei_event_cb info)}"

definition pending_calls :: "A2AServer \<Rightarrow> PendingCall set" where
  "pending_calls s = {p. \<exists>m. im_get (sv_pending s) m = Some p}"

definition send_view :: "string \<Rightarrow> A2AServer \<Rightarrow> (bool \<times> EventCb list) option" where
  "send_view tid s = map_option (\<lambda>info. (ei_message_sent info, filter is_send_cb (ei_event_cb info))) (exec_info tid s)"

definition writer_ok :: "RequestId option \<Rightarrow> nat \<Rightarrow> PendingCall \<Rightarrow> bool" where
  "writer_ok i n p = (case p of PSend c j _ \<Rightarrow> c = n \<longrightarrow> j = i | PCancel c _ _ _ \<Rightarrow> c \<noteq> n | PStream _ _ \<Rightarrow> True)"

definition writers_ok :: "RequestId option \<Rightarrow> nat \<Rightarrow> A2AServer \<Rightarrow> bool" where
  "writers_ok i n s \<longleftrightarrow> (\<forall>cb \<in> callbacks_of s. \<forall>j. cb_emitter cb = Some (j, n) \<longrightarrow> j = i) \<and> (\<forall>p \<in> pending_calls s. writer_ok i n p)"

definition tracked :: "RequestId option \<Rightarrow> nat \<Rightarrow> string \<Rightarrow> A2AServer \<Rightarrow> bool" where
  "tracked i n tid s \<longleftrightarrow> n < sv_requests s \<and> settled i n s \<and> writers_ok i n s \<and> get_task tid s \<noteq> None \<and>
     (unanswered n s \<longrightarrow> (\<exists>b. send_view tid s = Some (False, [SendCb (NonStreamEmit i n) tid b])))"

text \<open>The step keeps a tracked request, in a state of the invariant with well-formed tasks.\<close>

definition tracks :: "A2AConfig \<Rightarrow> RequestId option \<Rightarrow> nat \<Rightarrow> string \<Rightarrow> A2AServer \<Rightarrow> A2AServer \<Rightarrow> bool" where
  "tracks cf i n tid s s' \<longleftrightarrow> sound cf s s' \<and>
     (uuids_ok cf \<and> server_inv cf s \<and> tasks_ok s \<and> tracked i n tid s \<longrightarrow> tracked i n tid s')"

lemma tracks_refl [simp]: "tracks cf i n tid s s"
  by (simp add: tracks_def)

lemma tracks_trans: "tracks cf i n tid s s' \<Longrightarrow> tracks cf i n tid s' s'' \<Longrightarrow> tracks cf i n tid s s''"
  unfolding tracks_def sound_def using good_trans good_inv uuids_ok_inj by blast

lemma tracksI:
  "sound cf s s' \<Longrightarrow> (uuids_ok cf \<Longrightarrow> server_inv cf s \<Longrightarrow> tasks_ok s \<Longrightarrow> tracked i n tid s \<Longrightarrow> tracked i n tid s') \<Longrightarrow>
   tracks cf i n tid s s'"
  by (simp add: tracks_def)

text \<open>A step that does not reach the request: its emitter and the registration of its task stay.\<close>

definition quiet :: "nat \<Rightarrow> string \<Rightarrow> A2AServer \<Rightarrow> A2AServer \<Rightarrow> bool" where
  "quiet n tid s s' \<longleftrightarrow> im_get (sv_emitters s') n = im_get (sv_emitters s) n \<and> send_view tid s' = send_view tid s \<and>
     (\<forall>cb \<in> callbacks_of s' - callbacks_of s. \<forall>j. cb_emitter cb \<noteq> Some (j, n)) \<and>
     (\<forall>p \<in> pending_calls s' - pending_calls s. \<forall>i. writer_ok i n p) \<and>
     sv_requests s \<le> sv_requests s' \<and> (get_task tid s \<noteq> None \<longrightarrow> get_task tid s' \<noteq> None)"

lemma quiet_tracked: "quiet n tid s s' \<Longrightarrow> tracked i n tid s \<Longrightarrow> tracked i n tid s'"
  unfolding quiet_def tracked_def settled_def writers_ok_def unanswered_def answered_def by (auto dest: less_le_trans)

lemma quiet_trans: "quiet n tid s s' \<Longrightarrow> quiet n tid s' s'' \<Longrightarrow> quiet n tid s s''"
  unfolding quiet_def by (auto dest: le_trans)

lemma quiet_refl [simp]: "quiet n tid s s"
  by (simp add: quiet_def)

lemma views_cong:
  "sv_task_execute_map s' = sv_task_execute_map s \<Longrightarrow> callbacks_of s' = callbacks_of s"
  "sv_task_execute_map s' = sv_task_execute_map s \<Longrightarrow> send_view tid s' = send_view tid s"
  "sv_pending s' = sv_pending s \<Longrightarrow> pending_calls s' = pending_calls s"
  by (simp_all add: callbacks_of_def send_view_def pending_calls_def exec_info_def)

lemma quietI:
  assumes "im_get (sv_emitters s') n = im_get (sv_emitters s) n" "send_view tid s' = send_view tid s"
    "\<And>cb j. cb \<in> callbacks_of s' \<Longrightarrow> cb \<notin> callbacks_of s \<Longrightarrow> cb_emitter cb \<noteq> Some (j, n)"
    "\<And>p i. p \<in> pending_calls s' \<Longrightarrow> p \<notin> pending_calls s \<Longrightarrow> writer_ok i n p"
    "sv_requests s \<le> sv_requests s'" "get_task tid s \<noteq> None \<Longrightarrow> get_task tid s' \<noteq> None"
  shows "quiet n tid s s'"
  using assms unfolding quiet_def by blast

lemma quiet_frame:
  assumes "im_get (sv_emitters s') n = im_get (sv_emitters s) n" "sv_task_execute_map s' = sv_task_execute_map s"
    "sv_pending s' = sv_pending s" "sv_requests s \<le> sv_requests s'" "get_task tid s \<noteq> None \<Longrightarrow> get_task tid s' \<noteq> None"
  shows "quiet n tid s s'"
  using views_cong(1,2) [OF assms(2)] views_cong(3) [OF assms(3)] assms by (intro quietI) auto

definition emitter_no :: "StreamEmitter \<Rightarrow> nat" where
  "emitter_no em = (case em of NonStreamEmit _ n \<Rightarrow> n | StreamEmit _ n \<Rightarrow> n)"

lemma emit_other: "emitter_no em \<noteq> n \<Longrightarrow> im_get (sv_emitters (emit em ev s)) n = im_get (sv_emitters s) n"
  by (auto simp: emit_def emitter_no_def Let_def split: StreamEmitter.splits sum.split option.split StreamEvent.split)

lemma quiet_emit: "emitter_no em \<noteq> n \<Longrightarrow> quiet n tid s (emit em ev s)"
  by (rule quiet_frame) (simp_all add: emit_other)

lemma quiet_write: "c \<noteq> n \<Longrightarrow> quiet n tid s (with_emitter c f s)"
  by (rule quiet_frame) simp_all

lemma quiet_save: "quiet n tid s (save_task t s)"
  by (rule quiet_frame) simp_all

lemma callbacks_set_info:
  "cb \<in> callbacks_of (set_info k info s) \<Longrightarrow> cb \<in> callbacks_of s \<or> cb \<in> set (ei_event_cb info)"
  by (auto simp: callbacks_of_def split: if_splits)

lemma quiet_set_info:
  assumes "k \<noteq> tid" "\<And>cb j. cb \<in> set (ei_event_cb info) \<Longrightarrow> cb \<in> callbacks_of s \<or> cb_emitter cb \<noteq> Some (j, n)"
  shows "quiet n tid s (set_info k info s)"
proof (rule quietI)
  fix cb j assume "cb \<in> callbacks_of (set_info k info s)" "cb \<notin> callbacks_of s"
  then show "cb_emitter cb \<noteq> Some (j, n)" using callbacks_set_info assms(2) by blast
qed (use assms(1) in \<open>simp_all add: send_view_def pending_calls_def\<close>)

lemma in_callbacks: "exec_info k s = Some info \<Longrightarrow> cb \<in> set (ei_event_cb info) \<Longrightarrow> cb \<in> callbacks_of s"
  by (auto simp: callbacks_of_def)

lemma quiet_exchange: "k \<noteq> tid \<Longrightarrow> quiet n tid s (snd (exchange_message_sent k v s))"
  by (auto simp: exchange_message_sent_def split: option.split intro!: quiet_set_info dest: in_callbacks)

lemma quiet_add_callback:
  assumes "k \<noteq> tid \<or> \<not> is_send_cb cb" "\<And>j. cb_emitter cb \<noteq> Some (j, n)"
  shows "quiet n tid s (add_event_callback k cb s)"
proof (cases "exec_info k s")
  case (Some info)
  let ?info = "info\<lparr> ei_event_cb := ei_event_cb info @ [cb] \<rparr>"
  have s': "add_event_callback k cb s = set_info k ?info s" using Some by (simp add: add_event_callback_def)
  show ?thesis unfolding s'
  proof (rule quietI)
    fix cb' j assume "cb' \<in> callbacks_of (set_info k ?info s)" "cb' \<notin> callbacks_of s"
    then have "cb' = cb" using callbacks_set_info [of cb' k ?info s] in_callbacks [OF Some] by auto
    then show "cb_emitter cb' \<noteq> Some (j, n)" using assms(2) by simp
  qed (use assms(1) Some in \<open>auto simp: send_view_def pending_calls_def\<close>)
qed (simp add: add_event_callback_def)

lemma quiet_call_agent:
  assumes "\<And>i. writer_ok i n p"
  shows "quiet n tid s (snd (call_agent cf m k cid p s))"
proof (rule quietI)
  show "send_view tid (snd (call_agent cf m k cid p s)) = send_view tid s" by (simp add: send_view_def)
next
  fix cb j assume "cb \<in> callbacks_of (snd (call_agent cf m k cid p s))" "cb \<notin> callbacks_of s"
  then show "cb_emitter cb \<noteq> Some (j, n)" by (simp add: callbacks_of_def)
next
  fix q i assume "q \<in> pending_calls (snd (call_agent cf m k cid p s))" "q \<notin> pending_calls s"
  then have "q = p" by (auto simp: pending_calls_def call_agent_def set_updater_def split: if_splits)
  then show "writer_ok i n q" using assms by simp
qed simp_all

text \<open>Opening another task does not reach the request.\<close>

lemma quiet_open:
  assumes inv: "uuids_ok cf" "server_inv cf s" and tid: "get_task tid s \<noteq> None"
    and p: "ms_task_id (mp_message p) \<noteq> Some tid" and op: "open_task cf p s = (r, s')"
  shows "quiet n tid s s' \<and> (\<forall>k t. r = Inr (k, t) \<longrightarrow> k \<noteq> tid)"
proof (cases rule: open_task_cases [of cf p s])
  case refused
  with op show ?thesis by auto
next
  case (existing k t)
  then have k: "k \<noteq> tid" using p by auto
  have "quiet n tid s (save_task (push_history (mp_message p) (archive_status_message t)) (set_info k TaskExecuteInfo_new s))"
    by (rule quiet_trans [OF quiet_set_info quiet_save]) (simp_all add: k TaskExecuteInfo_new_def)
  then show ?thesis using existing(1) op k by auto
next
  case (created k cid d m)
  have k: "k \<noteq> tid" using generated_fresh [of cf s] inv created(1) tid by (auto simp: server_inv_def uuids_ok_def)
  let ?u = "(save_task (new_task p k cid) (s\<lparr> sv_uuids := m \<rparr>))\<lparr> sv_push_configs := d \<rparr>"
  have "quiet n tid s ?u" by (rule quiet_frame) (auto simp: save_task_def get_task_def)
  moreover have "quiet n tid ?u (set_info k TaskExecuteInfo_new ?u)" by (rule quiet_set_info) (simp_all add: k TaskExecuteInfo_new_def)
  ultimately have "quiet n tid s (set_info k TaskExecuteInfo_new ?u)" by (rule quiet_trans)
  then show ?thesis using created(3) op k by auto
qed


lemma tracked_stored: "tracked i n tid s \<Longrightarrow> get_task tid s \<noteq> None"
  by (simp add: tracked_def)

lemma tracks_quiet:
  "sound cf s s' \<Longrightarrow> (uuids_ok cf \<Longrightarrow> server_inv cf s \<Longrightarrow> get_task tid s \<noteq> None \<Longrightarrow> quiet n tid s s') \<Longrightarrow> tracks cf i n tid s s'"
  by (rule tracksI) (simp_all add: quiet_tracked tracked_stored)

lemma tracks_send:
  assumes "m \<noteq> n" "ms_task_id (mp_message p) \<noteq> Some tid" "send_params_ok p"
  shows "tracks cf i n tid s (snd (on_send_message cf m j p s))"
proof (rule tracks_quiet [OF sound_send [OF assms(3)]])
  assume a: "uuids_ok cf" "server_inv cf s" "get_task tid s \<noteq> None"
  obtain r s1 where op: "open_task cf p s = (r, s1)" by (cases "open_task cf p s")
  have q: "quiet n tid s s1" "\<And>k t. r = Inr (k, t) \<Longrightarrow> k \<noteq> tid" using quiet_open [OF a assms(2) op] by auto
  show "quiet n tid s (snd (on_send_message cf m j p s))"
  proof (cases r)
    case (Inr kt)
    obtain k t where kt: "kt = (k, t)" by (cases kt)
    let ?s2 = "snd (exchange_message_sent k False s1)"
    let ?s3 = "add_event_callback k (SendCb (NonStreamEmit j m) k (is_blocking p)) ?s2"
    have k: "k \<noteq> tid" using q(2) Inr kt by simp
    have "quiet n tid s ?s2" using q(1) quiet_exchange [OF k] by (rule quiet_trans)
    moreover have "quiet n tid ?s2 ?s3" using assms(1) k by (intro quiet_add_callback) (simp_all add: cb_emitter_def emitter_of_def)
    moreover have "quiet n tid ?s3 (snd (call_agent cf m k (get_context_id k ?s2) (PSend m j k) ?s3))"
      using assms(1) by (intro quiet_call_agent) (simp add: writer_ok_def)
    ultimately show ?thesis using Inr kt op by (auto simp: on_send_message_def Let_def intro: quiet_trans)
  qed (use q(1) op in \<open>simp add: on_send_message_def\<close>)
qed

lemma tracks_stream:
  assumes "m \<noteq> n" "ms_task_id (mp_message p) \<noteq> Some tid" "send_params_ok p"
  shows "tracks cf i n tid s (snd (on_send_message_streaming cf m j p s))"
proof (rule tracks_quiet [OF sound_stream [OF assms(3)]])
  assume a: "uuids_ok cf" "server_inv cf s" "get_task tid s \<noteq> None"
  obtain r s1 where op: "open_task cf p s = (r, s1)" by (cases "open_task cf p s")
  have q: "quiet n tid s s1" "\<And>k t. r = Inr (k, t) \<Longrightarrow> k \<noteq> tid" using quiet_open [OF a assms(2) op] by auto
  show "quiet n tid s (snd (on_send_message_streaming cf m j p s))"
  proof (cases "\<exists>k t. r = Inr (k, Some t)")
    case True
    then obtain k t where r: "r = Inr (k, Some t)" by blast
    let ?s2 = "emit (StreamEmit j m) (EvTask t) s1"
    let ?s3 = "add_event_callback k (StreamCb (StreamEmit j m) k False) ?s2"
    have "quiet n tid s ?s2" using assms(1) by (intro quiet_trans [OF q(1)] quiet_emit) (simp add: emitter_no_def)
    moreover have "quiet n tid ?s2 ?s3" by (intro quiet_add_callback) (simp_all add: cb_emitter_def emitter_of_def is_send_cb_def)
    moreover have "quiet n tid ?s3 (snd (call_agent cf m k (get_context_id k ?s3) (PStream m j) ?s3))"
      by (intro quiet_call_agent) (simp add: writer_ok_def)
    ultimately show ?thesis using r op by (auto simp: on_send_message_streaming_def Let_def intro: quiet_trans)
  next
    case False
    then show ?thesis using q(1) op
      by (cases r) (auto simp: on_send_message_streaming_def split: option.splits)
  qed
qed

lemma tracks_resubscribe: "m \<noteq> n \<Longrightarrow> tracks cf i n tid s (snd (on_resubscribe_to_task cf m j q s))"
proof (rule tracks_quiet)
  assume m: "m \<noteq> n"
  have e: "quiet n tid s (emit (StreamEmit j m) ev s)" for ev using m by (intro quiet_emit) (simp add: emitter_no_def)
  then show "quiet n tid s (snd (on_resubscribe_to_task cf m j q s))"
    by (auto simp: on_resubscribe_to_task_def Let_def cb_emitter_def emitter_of_def is_send_cb_def split: option.split
        intro!: quiet_trans [OF e quiet_add_callback])
qed (rule sound_frame [OF good_resubscribe send_tasks(3)])

lemma tracks_cancel: "m \<noteq> n \<Longrightarrow> tracks cf i n tid s (snd (on_cancel_task cf m j q s))"
  by (rule tracks_quiet [OF sound_cancel])
     (auto simp: on_cancel_task_def Let_def writer_ok_def split: option.split intro!: quiet_call_agent quiet_save)

lemma tracks_write: "m \<noteq> n \<Longrightarrow> tracks cf i n tid s (with_emitter m f s)"
  by (rule tracks_quiet [OF sound_steps.step_write]) (rule quiet_write)

lemma tracks_push: "tracks cf i n tid s (s\<lparr> sv_push_configs := d \<rparr>)"
  by (rule tracks_quiet [OF sound_steps.step_push], rule quiet_frame) (simp_all add: get_task_def)

interpretation tracks_steps: request_steps cf "\<lambda>p. ms_task_id (mp_message p) \<noteq> Some tid"
  "\<lambda>m s s'. sound cf s s' \<and> (m \<noteq> n \<longrightarrow> tracks cf i n tid s s')" for cf tid n i
  by unfold_locales
     (auto intro: sound_trans tracks_trans sound_steps.step_write sound_steps.step_push sound_send sound_stream sound_cancel
        sound_steps.step_resubscribe tracks_send tracks_stream tracks_resubscribe tracks_cancel tracks_write tracks_push)

lemma tracks_request:
  assumes "\<And>p. body_params env body = Some p \<Longrightarrow> ms_task_id (mp_message p) \<noteq> Some tid"
  shows "tracks cf i n tid s (handle_request env cf body s)"
proof (rule tracksI [OF sound_request])
  assume a: "uuids_ok cf" "server_inv cf s" "tasks_ok s" and w: "tracked i n tid s"
  then have n: "sv_requests s \<noteq> n" by (auto simp: tracked_def)
  have new: "tracks cf i n tid s (new_request e s)" for e
    by (rule tracks_quiet [OF sound_new_request], rule quiet_frame) (use n in \<open>simp_all add: new_request_def get_task_def\<close>)
  obtain e where "tracks cf i n tid (new_request e s) (handle_request env cf body s)"
    using tracks_steps.request [where cf = cf and n = n and i = i and tid = tid and s = s and env = env and body = body] assms n by auto
  with new have "tracks cf i n tid s (handle_request env cf body s)" by (rule tracks_trans)
  then show "tracked i n tid (handle_request env cf body s)" using a w by (simp add: tracks_def)
qed

text \<open>Events of the agent: the request stays tracked, and is answered when its task ends.\<close>

lemma event_payload: "event_ok ev \<Longrightarrow> payload_ok ev"
  by (cases ev) (simp_all add: event_ok_def payload_ok_def)

lemma writersD: "writers_ok i n s \<Longrightarrow> exec_info k s = Some info \<Longrightarrow> cb \<in> set (ei_event_cb info) \<Longrightarrow> cb_emitter cb = Some (j, n) \<Longrightarrow> j = i"
  unfolding writers_ok_def by (auto dest: in_callbacks)

text \<open>The callbacks of a task run on a state with the same registrations, then perhaps its registration goes.\<close>

lemma tracked_callbacks:
  assumes w: "tracked i n tid s" and reg: "exec_info k s = Some info"
    and s1: "sv_task_execute_map s1 = sv_task_execute_map s" "sv_emitters s1 = sv_emitters s" "sv_pending s1 = sv_pending s"
      "sv_requests s1 = sv_requests s"
    and ok: "tasks_ok s1" "payload_ok ev" "cbs_own s"
    and t: "get_task k s1 = Some t" "tk_id t = k" "get_task tid s1 \<noteq> None"
    and s': "s' = (if is_final_event ev then drop_info k (run_callbacks cf ev (ei_event_cb info) s1)
                   else run_callbacks cf ev (ei_event_cb info) s1)"
  shows "tracked i n tid s'"
proof -
  let ?s2 = "run_callbacks cf ev (ei_event_cb info) s1"
  have ex: "exec_info k' s1 = exec_info k' s" for k' by (simp add: exec_info_def s1(1))
  have st: "settled i n s1" using w s1(2) by (simp add: tracked_def settled_def unanswered_def answered_def)
  have wr: "cb_emitter cb = Some (j, n) \<Longrightarrow> j = i" if "cb \<in> set (ei_event_cb info)" for cb j
    using w writersD [OF _ reg that, of i n j] by (simp add: tracked_def)
  have own: "\<forall>cb \<in> set (ei_event_cb info). cb_task cb = k" using ok(3) reg by (auto simp: cbs_own_def)
  note run = run_callbacks_task [OF own t(1,2), where cf = cf and ev = ev]
  have st': "settled i n s'"
    using run_callbacks_status [OF st ok(2,1), of "ei_event_cb info" cf] wr by (auto simp: s' settled_def)
  have cbs: "callbacks_of s' \<subseteq> callbacks_of s"
  proof
    fix cb assume "cb \<in> callbacks_of s'"
    then obtain k' info' where "exec_info k' ?s2 = Some info'" "cb \<in> set (ei_event_cb info')"
      by (auto simp: callbacks_of_def s' split: if_splits)
    moreover then obtain info0 where "exec_info k' s = Some info0" "ei_event_cb info0 = ei_event_cb info'"
      using run_callbacks_frame(5) [of k' cf ev "ei_event_cb info" s1] by (cases "exec_info k' s") (auto simp: ex)
    ultimately show "cb \<in> callbacks_of s" using in_callbacks [of k' s info0 cb] by simp
  qed
  have pend: "pending_calls s' = pending_calls s" by (simp add: pending_calls_def s' s1(3))
  have task: "get_task tid s' \<noteq> None" using run t(3) by (cases "tid = k") (auto simp: s')
  have view: "\<exists>b. send_view tid s' = Some (False, [SendCb (NonStreamEmit i n) tid b])" if un: "unanswered n s'"
  proof -
    have un1: "unanswered n s1"
      using st un run_callbacks_answered [of i n s1 cf ev "ei_event_cb info"] by (auto simp: settled_def s' dest: not_both)
    then obtain b where b: "send_view tid s = Some (False, [SendCb (NonStreamEmit i n) tid b])"
      using w s1(2) by (auto simp: tracked_def unanswered_def)
    show ?thesis
    proof (cases "k = tid")
      case False
      then have "exec_info tid s' = exec_info tid s" using run by (simp add: s' ex)
      then have "send_view tid s' = send_view tid s" by (simp add: send_view_def)
      then show ?thesis using b by auto
    next
      case True
      have v: "\<not> ei_message_sent info" "filter is_send_cb (ei_event_cb info) = [SendCb (NonStreamEmit i n) tid b]"
        using b reg True by (auto simp: send_view_def)
      have "\<not> answered i n ?s2" using un by (auto simp: s' dest: not_both)
      then have "\<not> (is_final_event ev \<or> \<not> b)"
        using run_callbacks_answer [OF st _ v(1) _ ok(1,2) _ v(2)] wr reg t(1) True by (auto simp: ex)
      then have "exec_info tid s' = exec_info tid s"
        using run_callbacks_idle [of "ei_event_cb info" i n tid ev tid cf s1] v(2) by (simp add: s' ex)
      then have "send_view tid s' = send_view tid s" by (simp add: send_view_def)
      then show ?thesis using b by auto
    qed
  qed
  show ?thesis using w st' cbs pend task view s1(4) by (auto simp: tracked_def writers_ok_def s')
qed


lemma tracks_process:
  assumes ev: "event_ok ev" "event_task ev k" and ex: "cf_executor cf"
  shows "tracks cf i n tid s (process cf k ev s)"
proof (rule tracksI [OF sound_process [OF ev ex]])
  assume inv: "server_inv cf s" and ok: "tasks_ok s" and w: "tracked i n tid s"
  show "tracked i n tid (process cf k ev s)"
  proof (cases "exec_info k s")
    case (Some info)
    obtain t where t: "get_task k s = Some t" using inv ex Some by (auto simp: server_inv_def registered_live_def)
    have k: "tk_id t = k" and own: "cbs_own s" using inv t by (auto simp: server_inv_def tasks_keyed_def)
    obtain t1 where t1: "save_task_event ev s = save_task t1 s \<or> (is_message ev \<and> save_task_event ev s = s)"
      "get_task k (save_task_event ev s) = Some t1" "tk_id t1 = k"
      by (rule save_task_event_task [OF ev(2) t k])
    have x: "sv_task_execute_map (save_task_event ev s) = sv_task_execute_map s" using t1(1) by auto
    have tid: "get_task tid (save_task_event ev s) \<noteq> None" using t1(1) tracked_stored [OF w] by auto
    have ok': "tasks_ok (save_task_event ev s)" using save_event_tasks_ok [OF ok ev] t by simp
    show ?thesis
      by (rule tracked_callbacks [OF w Some x _ _ _ ok' event_payload [OF ev(1)] own t1(2,3) tid])
         (simp_all add: process_def Some Let_def)
  qed (use w in \<open>simp add: process_def\<close>)
qed

lemma tracked_cancel_task:
  assumes inv: "server_inv cf s" and ok: "tasks_ok s" and w: "tracked i n tid s" and t: "get_task k s = Some t"
  shows "tracked i n tid (snd (cancel_task cf t s))"
proof (cases "task_final t")
  case True
  with w show ?thesis by (simp add: cancel_task_def task_final_def)
next
  case False
  have k: "tk_id t = k" and own: "cbs_own s" using inv t by (auto simp: server_inv_def tasks_keyed_def)
  let ?s = "save_task (set_state Canceled t) s"
  let ?ev = "EvStatus \<lparr> su_context_id = tk_context_id t, su_metadata = None, su_status = TaskStatus_new Canceled, su_task_id = tk_id t \<rparr>"
  have ok': "tasks_ok ?s" using ok t by (intro tasks_ok_save set_state_ok) (auto dest: tasks_ok_get)
  show ?thesis
  proof (cases "exec_info k s")
    case None
    then show ?thesis using False k quiet_tracked [OF quiet_save w] by (simp add: cancel_task_def task_final_def Let_def)
  next
    case (Some info)
    have fin: "is_final_event ?ev" by (simp add: is_final_event_def is_final_or_interrupted_def is_final_def TaskStatus_new_def)
    have tid: "get_task tid ?s \<noteq> None" using tracked_stored [OF w] by simp
    show ?thesis
      by (rule tracked_callbacks [OF w Some _ _ _ _ ok' _ own _ _ tid, where ev = ?ev and t = "set_state Canceled t"])
         (use False k Some fin in \<open>simp_all add: cancel_task_def task_final_def Let_def payload_ok_def\<close>)
  qed
qed

lemma tracks_set_updater: "cf_executor cf \<Longrightarrow> tracks cf i n tid s (set_updater u up s)"
  by (rule tracks_quiet [OF sound_set_updater], assumption, rule quiet_frame) (simp_all add: set_updater_def get_task_def)

lemma tracks_by_agent:
  assumes "cf_executor cf \<Longrightarrow> tracks cf i n tid s s'" "sv_updaters s = [] \<Longrightarrow> sv_pending s = [] \<Longrightarrow> s' = s" "sound cf s s'"
  shows "tracks cf i n tid s s'"
  using assms by (cases "cf_executor cf") (auto simp: tracks_def server_inv_def no_agent_def)

lemma tracks_update_status:
  assumes ok: "pred_option a2a_message_ok m" "not_null md"
  shows "tracks cf i n tid s (update_status cf u st m ts md now s)"
proof (rule tracks_by_agent)
  assume "cf_executor cf"
  with ok show "tracks cf i n tid s (update_status cf u st m ts md now s)"
    unfolding update_status_def Let_def
    by (auto simp: event_task_def event_ok_def status_ok_def split: option.split
        intro!: tracks_trans [OF _ tracks_process] tracks_set_updater)
qed (use sound_update_status [OF ok] in \<open>simp_all add: update_status_def\<close>)

lemma tracks_send_response:
  assumes ok: "a2a_message_ok m"
  shows "tracks cf i n tid s (send_response_message cf u m s)"
proof (rule tracks_by_agent)
  assume "cf_executor cf"
  with ok show "tracks cf i n tid s (send_response_message cf u m s)"
    unfolding send_response_message_def
    by (auto simp: event_task_def event_ok_def split: option.split intro!: tracks_trans [OF tracks_process tracks_set_updater])
qed (use sound_send_response [OF ok] in \<open>simp_all add: send_response_message_def\<close>)

lemma tracks_generate: "tracks cf i n tid s (s\<lparr> sv_uuids := Suc (sv_uuids s) \<rparr>)"
  by (rule tracks_quiet [OF sound_frame], rule good_cong) (simp_all, rule quiet_frame, simp_all add: get_task_def)


lemma tracks_add_artifact:
  assumes ok: "agent_ok (AddArtifact u ap)"
  shows "tracks cf i n tid s (add_artifact cf u ap s)"
proof (rule tracksI [OF sound_add_artifact [OF ok]])
  assume u: "uuids_ok cf" and inv: "server_inv cf s" "tasks_ok s" and w: "tracked i n tid s"
  show "tracked i n tid (add_artifact cf u ap s)"
  proof (cases "im_get (sv_updaters s) u")
    case (Some up)
    then have ex: "cf_executor cf" using inv by (auto simp: server_inv_def no_agent_def)
    obtain aid s1 where s1: "(case ap_artifact_id ap of Some i \<Rightarrow> (i, s) | None \<Rightarrow> generate_uuid cf s) = (aid, s1)"
      by (cases "ap_artifact_id ap") (auto simp: generate_uuid_def)
    have aid: "aid \<noteq> []" using s1 ok u by (auto simp: agent_ok_def generate_uuid_def uuids_ok_def split: option.splits)
    have t1: "tracks cf i n tid s s1" using s1 tracks_generate by (auto simp: generate_uuid_def split: option.splits)
    let ?ev = "EvArtifact \<lparr> au_append = Some (ap_append ap),
        au_artifact = \<lparr> af_artifact_id = aid, af_description = None, af_extensions = Some (ap_extensions ap),
          af_metadata = ap_metadata ap, af_name = ap_name ap, af_parts = ap_parts ap \<rparr>, au_context_id = up_context_id up,
        au_last_chunk = Some (ap_last_chunk ap), au_metadata = ap_metadata ap, au_task_id = up_task_id up, au_index = None \<rparr>"
    have "tracks cf i n tid s1 (process cf (up_task_id up) ?ev s1)"
      using ok aid ex by (intro tracks_process) (simp_all add: event_ok_def event_task_def artifact_ok_def agent_ok_def)
    with t1 have "tracks cf i n tid s (process cf (up_task_id up) ?ev s1)" by (rule tracks_trans)
    then show ?thesis using u inv w Some s1 by (auto simp: add_artifact_def Let_def tracks_def)
  qed (use w in \<open>simp add: add_artifact_def\<close>)
qed

lemma tracked_respond:
  assumes w: "tracked i n tid s" and r: "c = n \<Longrightarrow> response_for i r"
  shows "tracked i n tid (with_emitter c (write_non_streaming_data r) s)"
proof (cases "c = n")
  case True
  have "answered i n (with_emitter c (write_non_streaming_data r) s)"
    using w r True response_answers answered_stays by (auto simp: tracked_def settled_def)
  then show ?thesis using w not_both
    by (fastforce simp: tracked_def settled_def writers_ok_def callbacks_of_def pending_calls_def)
qed (rule quiet_tracked [OF quiet_write w])

lemma tracked_stream_write:
  assumes w: "tracked i n tid s" and f: "stream_write f"
  shows "tracked i n tid (with_emitter c f s)"
proof (cases "c = n")
  case True
  have "im_get (sv_emitters (with_emitter c f s)) n = im_get (sv_emitters s) n"
    using w f True by (auto simp: tracked_def settled_def unanswered_def answered_def stream_write_def Emitter_non_streaming_def)
  then show ?thesis using w by (intro quiet_tracked [OF quiet_frame w]) simp_all
qed (rule quiet_tracked [OF quiet_write w])

lemma tracks_agent_returns: "tracks cf i n tid s (agent_returns cf m r s)"
proof (rule tracksI [OF sound_agent_returns])
  assume u: "uuids_ok cf" and inv: "server_inv cf s" and ok: "tasks_ok s" and w: "tracked i n tid s"
  show "tracked i n tid (agent_returns cf m r s)"
  proof (cases "im_get (sv_pending s) m")
    case (Some call)
    let ?s = "s\<lparr> sv_pending := im_remove m (sv_pending s) \<rparr>"
    have "quiet n tid s ?s"
      by (rule quietI) (auto simp: get_task_def pending_calls_def callbacks_of_def exec_info_def send_view_def split: if_splits)
    then have w1: "tracked i n tid ?s" using w by (rule quiet_tracked)
    have wr: "writer_ok i n call" using w Some by (auto simp: tracked_def writers_ok_def pending_calls_def)
    show ?thesis
    proof (cases call)
      case (PSend c j k)
      have "tracked i n tid (send_notification cf t ?s)" for t
        by (rule quiet_tracked [OF quiet_frame w1]) simp_all
      moreover have "tracked i n tid (with_emitter c (write_non_streaming_data (server_error j e)) ?s)" for e
        using wr PSend
        by (intro tracked_respond [OF w1]) (simp add: writer_ok_def response_for_def server_error_def make_error_def RpcResponse_error_def)
      ultimately show ?thesis using Some PSend w1
        by (auto simp: agent_returns_def Let_def respond_def send_push_notification_if_needed_def split: sum.split option.split)
    next
      case (PStream c j)
      have "tracked i n tid (stream_failed c j e ?s)" for e
        unfolding stream_failed_def by (rule tracked_stream_write [OF tracked_stream_write [OF w1 stream_writes(1)] stream_writes(2)])
      then show ?thesis using Some PStream w1 by (simp add: agent_returns_def Let_def split: sum.split)
    next
      case (PCancel c j k t0)
      have c: "c \<noteq> n" using wr PCancel by (simp add: writer_ok_def)
      obtain t where t: "get_task k s = Some t" using pending_storedD [OF inv] Some PCancel by blast
      have ex: "cf_executor cf" using inv Some by (auto simp: server_inv_def no_agent_def)
      then have "good cf s ?s" by (rule good_agent) (auto simp: get_task_def server_inv_def pending_stored_def split: if_splits)
      then have inv1: "server_inv cf ?s" using inv u by (simp add: good_def uuids_ok_inj)
      have ok1: "tasks_ok ?s" by (rule tasks_ok_cong [OF _ ok]) simp
      have t1: "get_task k ?s = Some t" using t by (simp add: get_task_def)
      have "tracked i n tid (snd (cancel_task cf t ?s))" by (rule tracked_cancel_task [OF inv1 ok1 w1 t1])
      then have "tracked i n tid (with_emitter c (write_non_streaming_data x) (snd (cancel_task cf t ?s)))" for x
        using c by (intro tracked_respond) simp_all
      moreover have "tracked i n tid (with_emitter c (write_non_streaming_data x) ?s)" for x
        using c by (intro tracked_respond [OF w1]) simp_all
      ultimately show ?thesis using Some PCancel t1
        by (simp add: agent_returns_def Let_def split_beta respond_def finish_cancel_def split: sum.split)
    qed
  qed (use w in \<open>simp add: agent_returns_def\<close>)
qed


definition reopens :: "RpcEnv \<Rightarrow> string \<Rightarrow> a2a_event \<Rightarrow> bool" where
  "reopens env tid e =
     (case e of Post body \<Rightarrow> (case body_params env body of Some p \<Rightarrow> ms_task_id (mp_message p) = Some tid | None \<Rightarrow> False) | _ \<Rightarrow> False)"

lemma tracks_step:
  assumes "agent_ok e" "\<not> reopens env tid e"
  shows "tracks cf i n tid s (a2a_exec env cf e s)"
proof (cases e)
  case (Post body)
  then show ?thesis using assms(2) by (auto simp: a2a_exec_def reopens_def intro!: tracks_request)
next
  case (AddArtifact u ap)
  then show ?thesis using assms(1) by (simp add: a2a_exec_def tracks_add_artifact)
next
  case (NewAgentMessage u ps md)
  then show ?thesis using tracks_generate by (auto simp: a2a_exec_def new_agent_message_def generate_uuid_def split: option.split)
next
  case Start
  then show ?thesis by (auto simp: a2a_exec_def get_task_def intro!: tracks_quiet [OF sound_frame] quiet_frame)
next
  case Stop
  then show ?thesis by (auto simp: a2a_exec_def get_task_def intro!: tracks_quiet [OF sound_frame] quiet_frame)
qed (use assms(1) in \<open>simp_all add: a2a_exec_def agent_ok_def tracks_update_status tracks_send_response tracks_agent_returns\<close>)

lemma tracks_run: "list_all agent_ok es \<Longrightarrow> list_all (\<lambda>e. \<not> reopens env tid e) es \<Longrightarrow> tracks cf i n tid s (a2a_run env cf es s)"
  unfolding a2a_run_def by (induction es arbitrary: s) (auto intro: tracks_trans tracks_step)

end
