(* ===== verification/A2ALive.thy ===== *)
theory A2ALive
  imports A2AWaiting
begin

text \<open>
  Requests that send a message are answered: the emitters that a state refers to belong to requests that were
  made, so a new request starts with an emitter of its own, is tracked from then on, and has its answer as soon
  as its task ends.
\<close>

subsection \<open>The requests a state refers to\<close>

definition cb_no :: "EventCb \<Rightarrow> nat" where
  "cb_no cb = (case cb of SendCb em _ _ \<Rightarrow> emitter_no em | StreamCb em _ _ \<Rightarrow> emitter_no em)"

definition call_no :: "PendingCall \<Rightarrow> nat" where
  "call_no p = (case p of PSend c _ _ \<Rightarrow> c | PStream c _ \<Rightarrow> c | PCancel c _ _ _ \<Rightarrow> c)"

definition refs :: "A2AServer \<Rightarrow> nat set" where
  "refs s = cb_no ` callbacks_of s \<union> call_no ` pending_calls s"

text \<open>A step of request \<open>m\<close> adds no references but its own.\<close>

definition reaches :: "nat \<Rightarrow> A2AServer \<Rightarrow> A2AServer \<Rightarrow> bool" where
  "reaches m s s' \<longleftrightarrow> refs s' \<subseteq> insert m (refs s) \<and> sv_requests s' = sv_requests s"

definition keeps_refs :: "A2AServer \<Rightarrow> A2AServer \<Rightarrow> bool" where
  "keeps_refs s s' \<longleftrightarrow> refs s' \<subseteq> refs s \<and> sv_requests s' = sv_requests s"

lemma keeps_refs_refl [simp]: "keeps_refs s s"
  by (simp add: keeps_refs_def)

lemma keeps_refs_trans: "keeps_refs s s' \<Longrightarrow> keeps_refs s' s'' \<Longrightarrow> keeps_refs s s''"
  by (auto simp: keeps_refs_def)

lemma keeps_reaches: "keeps_refs s s' \<Longrightarrow> reaches m s s'"
  by (auto simp: keeps_refs_def reaches_def)

lemma reaches_trans: "reaches m s s' \<Longrightarrow> reaches m s' s'' \<Longrightarrow> reaches m s s''"
  by (auto simp: reaches_def)

lemma reaches_keeps: "reaches m s s' \<Longrightarrow> keeps_refs s' s'' \<Longrightarrow> reaches m s s''"
  by (rule reaches_trans [OF _ keeps_reaches])

lemma keeps_refs_cong:
  "sv_task_execute_map s' = sv_task_execute_map s \<Longrightarrow> sv_pending s' = sv_pending s \<Longrightarrow> sv_requests s' = sv_requests s \<Longrightarrow> keeps_refs s s'"
  using views_cong(1) [of s' s] views_cong(3) [of s' s] by (simp add: keeps_refs_def refs_def)

lemma keeps_refs_callbacks:
  assumes "\<And>k. map_option ei_event_cb (exec_info k s') = map_option ei_event_cb (exec_info k s)" "sv_pending s' = sv_pending s"
    "sv_requests s' = sv_requests s"
  shows "keeps_refs s s'"
proof -
  have "callbacks_of s' \<subseteq> callbacks_of s"
  proof
    fix cb assume "cb \<in> callbacks_of s'"
    then obtain k info where "exec_info k s' = Some info" "cb \<in> set (ei_event_cb info)" by (auto simp: callbacks_of_def)
    then show "cb \<in> callbacks_of s" using assms(1) [of k] by (auto intro: in_callbacks simp: eq_commute [of "Some _"])
  qed
  then show ?thesis using assms(2,3) by (auto simp: keeps_refs_def refs_def pending_calls_def)
qed

lemma keeps_refs_set_info: "cb_no ` set (ei_event_cb info) \<subseteq> refs s \<Longrightarrow> keeps_refs s (set_info k info s)"
  by (auto simp: keeps_refs_def refs_def pending_calls_def dest!: callbacks_set_info)

lemma keeps_refs_frames [simp]:
  "keeps_refs s (with_emitter c f s)" "keeps_refs s (emit em ev s)" "keeps_refs s (save_task t s)" "keeps_refs s (send_notification cf t s)"
  "keeps_refs s (s\<lparr> sv_push_configs := d \<rparr>)" "keeps_refs s (s\<lparr> sv_uuids := u \<rparr>)" "keeps_refs s (set_updater n up s)"
  "keeps_refs s (s\<lparr> sv_started := b \<rparr>)"
  by (auto intro!: keeps_refs_cong simp: set_updater_def)

lemma keeps_refs_drop [simp]: "keeps_refs s (drop_info k s)"
  by (auto simp: keeps_refs_def refs_def callbacks_of_def pending_calls_def split: if_splits)

lemma keeps_refs_exchange [simp]: "keeps_refs s (snd (exchange_message_sent k v s))"
  by (rule keeps_refs_callbacks) simp_all

lemma keeps_refs_run [simp]: "keeps_refs s (run_callbacks cf ev cbs s)"
  by (rule keeps_refs_callbacks) simp_all

lemma keeps_refs_new_info [simp]: "keeps_refs s (set_info k TaskExecuteInfo_new s)"
  by (rule keeps_refs_set_info) (simp add: TaskExecuteInfo_new_def)

lemma keeps_refs_register [simp]: "keeps_refs s (snd (register_task k TaskExecuteInfo_new s))"
  by (simp add: register_task_def)

lemmas keeps_refs_then =
  keeps_refs_frames [THEN keeps_refs_trans [rotated]] keeps_refs_drop [THEN keeps_refs_trans [rotated]]
  keeps_refs_run [THEN keeps_refs_trans [rotated]] keeps_refs_register [THEN keeps_refs_trans [rotated]]
  keeps_refs_new_info [THEN keeps_refs_trans [rotated]]

lemma keeps_refs_save_event [simp]: "keeps_refs s (save_task_event ev s)"
  by (auto simp: save_task_event_def ensure_task_for_event_def Let_def split: StreamEvent.split option.split intro!: keeps_refs_then)

lemma keeps_refs_process [simp]: "keeps_refs s (process cf k ev s)"
proof (cases "exec_info k s")
  case (Some info)
  have "keeps_refs s (run_callbacks cf ev (ei_event_cb info) (save_task_event ev s))"
    by (rule keeps_refs_trans [OF keeps_refs_save_event keeps_refs_run])
  then show ?thesis using Some keeps_refs_trans [OF _ keeps_refs_drop] by (simp add: process_def Let_def)
qed (simp add: process_def)

lemma keeps_refs_cancel_task [simp]: "keeps_refs s (snd (cancel_task cf t s))"
  by (auto simp: cancel_task_def Let_def split: option.split intro!: keeps_refs_then)

lemma reaches_add_callback:
  assumes "cb_no cb = m"
  shows "reaches m s (add_event_callback k cb s)"
proof (cases "exec_info k s")
  case (Some info)
  let ?s = "set_info k (info\<lparr> ei_event_cb := ei_event_cb info @ [cb] \<rparr>) s"
  have "callbacks_of ?s \<subseteq> insert cb (callbacks_of s)"
    using callbacks_set_info [of _ k "info\<lparr> ei_event_cb := ei_event_cb info @ [cb] \<rparr>" s] in_callbacks [OF Some] by auto
  then show ?thesis using Some assms
    by (auto simp: add_event_callback_def reaches_def refs_def pending_calls_def)
qed (simp add: add_event_callback_def keeps_reaches)

lemma reaches_call_agent: "call_no p = m \<Longrightarrow> reaches m s (snd (call_agent cf m k cid p s))"
  by (auto simp: call_agent_def set_updater_def reaches_def refs_def callbacks_of_def exec_info_def pending_calls_def split: if_splits)

lemma keeps_refs_open: "open_task cf p s = (r, s') \<Longrightarrow> keeps_refs s s'"
proof (cases rule: open_task_cases [of cf p s])
  case (existing k t)
  moreover assume "open_task cf p s = (r, s')"
  ultimately show ?thesis by (auto intro!: keeps_refs_then)
next
  case (created k cid d u)
  have "keeps_refs s ((save_task (new_task p k cid) (s\<lparr> sv_uuids := u \<rparr>))\<lparr> sv_push_configs := d \<rparr>)" by (rule keeps_refs_cong) simp_all
  moreover assume "open_task cf p s = (r, s')"
  ultimately show ?thesis using created(3) by (auto intro: keeps_refs_trans)
qed simp

lemma reaches_send: "reaches m s (snd (on_send_message cf m i p s))"
proof (cases "open_task cf p s")
  case (Pair r s1)
  note k = keeps_reaches [OF keeps_refs_open [OF Pair], of m]
  show ?thesis
  proof (cases r)
    case (Inr kt)
    obtain k t where kt: "kt = (k, t)" by (cases kt)
    let ?s2 = "snd (exchange_message_sent k False s1)"
    let ?s3 = "add_event_callback k (SendCb (NonStreamEmit i m) k (is_blocking p)) ?s2"
    have "reaches m s ?s2" by (rule reaches_keeps [OF k keeps_refs_exchange])
    then have "reaches m s ?s3" by (rule reaches_trans [OF _ reaches_add_callback]) (simp add: cb_no_def emitter_no_def)
    then have "reaches m s (snd (call_agent cf m k (get_context_id k ?s2) (PSend m i k) ?s3))"
      by (rule reaches_trans [OF _ reaches_call_agent]) (simp add: call_no_def)
    then show ?thesis using Inr kt Pair by (simp add: on_send_message_def Let_def)
  qed (use k Pair in \<open>simp add: on_send_message_def\<close>)
qed

lemma reaches_stream: "reaches m s (snd (on_send_message_streaming cf m i p s))"
proof (cases "open_task cf p s")
  case (Pair r s1)
  note k = keeps_reaches [OF keeps_refs_open [OF Pair], of m]
  show ?thesis
  proof (cases "\<exists>k t. r = Inr (k, Some t)")
    case True
    then obtain k t where r: "r = Inr (k, Some t)" by blast
    let ?s2 = "emit (StreamEmit i m) (EvTask t) s1"
    let ?s3 = "add_event_callback k (StreamCb (StreamEmit i m) k False) ?s2"
    have "reaches m s ?s2" by (rule reaches_keeps [OF k]) simp
    then have "reaches m s ?s3" by (rule reaches_trans [OF _ reaches_add_callback]) (simp add: cb_no_def emitter_no_def)
    then have "reaches m s (snd (call_agent cf m k (get_context_id k ?s3) (PStream m i) ?s3))"
      by (rule reaches_trans [OF _ reaches_call_agent]) (simp add: call_no_def)
    then show ?thesis using r Pair by (simp add: on_send_message_streaming_def Let_def)
  next
    case False
    then show ?thesis using k Pair by (cases r) (auto simp: on_send_message_streaming_def split: option.splits)
  qed
qed

lemma reaches_resubscribe: "reaches m s (snd (on_resubscribe_to_task cf m i q s))"
  by (auto simp: on_resubscribe_to_task_def Let_def cb_no_def emitter_no_def keeps_reaches split: option.split
      intro!: reaches_trans [OF keeps_reaches [OF keeps_refs_frames(2)] reaches_add_callback])

lemma reaches_cancel: "reaches m s (snd (on_cancel_task cf m i q s))"
  by (auto simp: on_cancel_task_def Let_def call_no_def keeps_reaches split: option.split intro!: reaches_call_agent)

interpretation reaches_steps: request_steps cf "\<lambda>_. True" reaches for cf
  by unfold_locales
     (auto intro: reaches_trans keeps_reaches reaches_send reaches_stream reaches_resubscribe reaches_cancel)

text \<open>The references of a state are to requests that were made.\<close>

definition refs_made :: "A2AServer \<Rightarrow> bool" where
  "refs_made s \<longleftrightarrow> refs s \<subseteq> {..<sv_requests s}"

lemma refs_made_request: "refs_made s \<Longrightarrow> refs_made (handle_request env cf body s)"
proof -
  assume s: "refs_made s"
  obtain e where e: "reaches (sv_requests s) (new_request e s) (handle_request env cf body s)"
    using reaches_steps.request [of env body s cf] by blast
  have "refs (new_request e s) = refs s" "sv_requests (new_request e s) = Suc (sv_requests s)"
    by (simp_all add: new_request_def refs_def callbacks_of_def pending_calls_def exec_info_def)
  with e s show ?thesis by (auto simp: refs_made_def reaches_def less_Suc_eq)
qed

lemma keeps_refs_made: "keeps_refs s s' \<Longrightarrow> refs_made s \<Longrightarrow> refs_made s'"
  by (auto simp: keeps_refs_def refs_made_def)

lemma keeps_refs_updater:
  "keeps_refs s (update_status cf u st m ts md now s)" "keeps_refs s (add_artifact cf u ap s)"
  "keeps_refs s (snd (new_agent_message cf u ps md s))" "keeps_refs s (send_response_message cf u msg s)"
  by (auto simp: update_status_def add_artifact_def new_agent_message_def send_response_message_def generate_uuid_def Let_def
      split: option.split intro!: keeps_refs_then keeps_refs_process [THEN keeps_refs_trans [rotated]])

lemma keeps_refs_returns: "keeps_refs s (agent_returns cf m r s)"
proof (cases "im_get (sv_pending s) m")
  case (Some call)
  let ?s = "s\<lparr> sv_pending := im_remove m (sv_pending s) \<rparr>"
  have k: "keeps_refs s ?s"
    by (auto simp: keeps_refs_def refs_def callbacks_of_def exec_info_def pending_calls_def split: if_splits)
  then show ?thesis using Some
    by (auto simp: agent_returns_def Let_def respond_def stream_failed_def finish_cancel_def split_beta send_push_notification_if_needed_def
        split: PendingCall.split sum.split option.split intro!: keeps_refs_then keeps_refs_cancel_task [THEN keeps_refs_trans [rotated]])
qed (simp add: agent_returns_def)

lemma refs_made_run: "refs_made s \<Longrightarrow> refs_made (a2a_run env cf es s)"
proof -
  have "refs_made (a2a_exec env cf e s)" if "refs_made s" for e s
    using that keeps_refs_updater keeps_refs_returns keeps_refs_frames(8)
    by (cases e) (auto simp: a2a_exec_def refs_made_request elim!: keeps_refs_made [rotated])
  then show "refs_made s \<Longrightarrow> ?thesis" unfolding a2a_run_def by (induction es arbitrary: s) auto
qed


subsection \<open>A new request is tracked\<close>

lemma open_task_registered:
  assumes "open_task cf p s = (Inr (tid, t), s')" "tasks_keyed cf s"
  shows "exec_info tid s' = Some TaskExecuteInfo_new \<and> get_task tid s' \<noteq> None \<and> sv_emitters s' = sv_emitters s"
proof (cases rule: open_task_cases [of cf p s])
  case (existing k u)
  then have "tk_id u = k" using assms(2) by (auto simp: tasks_keyed_def)
  with existing show ?thesis using assms(1) by auto
next
  case (created k cid d u)
  then show ?thesis using assms(1) by (auto simp: get_task_def save_task_def)
qed (use assms in simp)

lemma writers_fresh:
  assumes "refs s \<subseteq> {..<n}" "callbacks_of s' \<subseteq> insert (SendCb (NonStreamEmit i n) tid b) (callbacks_of s)"
    "pending_calls s' \<subseteq> insert (PSend n i tid) (pending_calls s)"
  shows "writers_ok i n s'"
proof -
  have "j = i" if "cb \<in> callbacks_of s'" "cb_emitter cb = Some (j, n)" for cb j
  proof (cases "cb \<in> callbacks_of s")
    case True
    moreover have "cb_no cb = n"
      using that(2) by (auto simp: cb_emitter_def cb_no_def emitter_of_def emitter_no_def split: EventCb.splits StreamEmitter.splits)
    ultimately show ?thesis using assms(1) by (auto simp: refs_def)
  next
    case False
    then show ?thesis using that assms(2) by (auto simp: cb_emitter_def emitter_of_def)
  qed
  moreover have "writer_ok i n q" if "q \<in> pending_calls s'" for q
  proof (cases "q \<in> pending_calls s")
    case True
    then have "call_no q \<noteq> n" using assms(1) by (auto simp: refs_def)
    then show ?thesis by (auto simp: writer_ok_def call_no_def split: PendingCall.splits)
  next
    case False
    then show ?thesis using that assms(3) by (auto simp: writer_ok_def)
  qed
  ultimately show ?thesis by (auto simp: writers_ok_def)
qed

lemma send_tracked:
  assumes inv: "server_inv cf s" and refs: "refs s \<subseteq> {..<n}" and n: "n < sv_requests s" "unanswered n s"
    and sent: "on_send_message cf n i p s = (Inr (), s1)"
  obtains tid where "tracked i n tid s1" "cf_executor cf"
proof -
  obtain tid t s' where op: "open_task cf p s = (Inr (tid, t), s')"
    using sent by (auto simp: on_send_message_def split: prod.splits sum.splits)
  have k: "keeps_refs s s'" using op by (rule keeps_refs_open)
  have reg: "exec_info tid s' = Some TaskExecuteInfo_new" "get_task tid s' \<noteq> None" "sv_emitters s' = sv_emitters s"
    using open_task_registered [OF op] inv by (auto simp: server_inv_def)
  let ?cb = "SendCb (NonStreamEmit i n) tid (is_blocking p)"
  let ?s2 = "set_info tid TaskExecuteInfo_new s'"
  let ?s3 = "set_info tid \<lparr> ei_message_sent = False, ei_event_cb = [?cb] \<rparr> ?s2"
  have s3: "add_event_callback tid ?cb (snd (exchange_message_sent tid False s')) = ?s3"
    using reg(1) by (simp add: exchange_message_sent_def add_event_callback_def TaskExecuteInfo_new_def)
  have ex: "cf_executor cf"
    and s1: "s1 = (set_updater n (TaskUpdaterImpl_new tid (get_context_id tid (snd (exchange_message_sent tid False s')))) ?s3)
        \<lparr> sv_pending := im_insert n (PSend n i tid) (sv_pending ?s3) \<rparr>"
    using sent op s3 by (auto simp: on_send_message_def Let_def call_agent_def split: if_splits)
  have frame: "sv_emitters s1 = sv_emitters s" "sv_task_execute_map s1 = sv_task_execute_map ?s3" "get_task tid s1 = get_task tid s'"
    "sv_pending s1 = im_insert n (PSend n i tid) (sv_pending s')" "sv_requests s1 = sv_requests s"
    using reg(3) k by (simp_all add: s1 set_updater_def get_task_def keeps_refs_def)
  have "callbacks_of s1 \<subseteq> insert ?cb (callbacks_of s')"
    using callbacks_set_info [of _ tid "\<lparr> ei_message_sent = False, ei_event_cb = [?cb] \<rparr>" ?s2]
      callbacks_set_info [of _ tid TaskExecuteInfo_new s'] views_cong(1) [OF frame(2)]
    by (auto simp: TaskExecuteInfo_new_def)
  moreover have "pending_calls s1 \<subseteq> insert (PSend n i tid) (pending_calls s')"
    by (auto simp: pending_calls_def frame(4) split: if_splits)
  moreover have "refs s' \<subseteq> {..<n}" using k refs by (auto simp: keeps_refs_def)
  ultimately have "writers_ok i n s1" by (intro writers_fresh)
  moreover have "send_view tid s1 = Some (False, [?cb])"
    using views_cong(2) [OF frame(2), of tid] by (simp add: send_view_def is_send_cb_def)
  ultimately have "tracked i n tid s1"
    using n reg(2) frame by (auto simp: tracked_def settled_def unanswered_def)
  then show thesis using ex by (rule that)
qed

text \<open>What became of a request: it is answered, or its task is still running.\<close>

definition waits :: "nat \<Rightarrow> string \<Rightarrow> A2AServer \<Rightarrow> bool" where
  "waits n tid s \<longleftrightarrow> unanswered n s \<and> exec_info tid s \<noteq> None \<and>
     (case get_task tid s of Some t \<Rightarrow> \<not> is_final (ts_state (tk_status t)) | None \<Rightarrow> False)"

lemma tracked_waits:
  assumes "tracked i n tid s" "server_inv cf s" "cf_executor cf"
  shows "answered i n s \<or> waits n tid s"
proof (cases "answered i n s")
  case False
  then have un: "unanswered n s" using assms(1) by (auto simp: tracked_def settled_def)
  then obtain info where "exec_info tid s = Some info" using assms(1) by (auto simp: tracked_def send_view_def)
  with assms(2,3) un show ?thesis by (auto simp: waits_def server_inv_def registered_live_def task_final_def)
qed simp

lemma reachable_ok:
  assumes "uuids_ok cf" "list_all agent_ok es"
  shows "server_inv cf (a2a_run env cf es A2AServer_new)" "tasks_ok (a2a_run env cf es A2AServer_new)"
    "refs_made (a2a_run env cf es A2AServer_new)"
proof -
  have new: "tasks_ok A2AServer_new" "refs_made A2AServer_new"
    by (simp_all add: tasks_ok_def refs_made_def refs_def callbacks_of_def pending_calls_def get_task_def exec_info_def A2AServer_new_def)
  show "server_inv cf (a2a_run env cf es A2AServer_new)" using assms(1) by (intro reachable_inv uuids_ok_inj)
  show "tasks_ok (a2a_run env cf es A2AServer_new)"
    using sound_run [OF assms(2), of cf A2AServer_new env] assms(1) new(1) new_inv by (auto simp: sound_def)
  show "refs_made (a2a_run env cf es A2AServer_new)" using new(2) by (rule refs_made_run)
qed

lemma send_emitters: "sv_emitters (snd (on_send_message cf n i p s)) = sv_emitters s"
proof -
  have "sv_emitters (snd (open_task cf p s)) = sv_emitters s" by (cases rule: open_task_cases [of cf p s]) simp_all
  then show ?thesis
    by (auto simp: on_send_message_def Let_def add_event_callback_def split: prod.split sum.split option.split)
qed

text \<open>The first step of the request.\<close>

lemma send_first_step:
  assumes inv: "server_inv cf s" "refs_made s" "sv_started s" and body: "rpc_from_str env body = Inr req" "method_of req = ''SendMessage''" "body \<noteq> ''{}''"
  shows "answered (request_id_of req) (sv_requests s) (handle_request env cf body s) \<or>
     (\<exists>tid. tracked (request_id_of req) (sv_requests s) tid (handle_request env cf body s) \<and> cf_executor cf)"
proof -
  let ?n = "sv_requests s" and ?s = "new_request Emitter_non_streaming s" and ?i = "request_id_of req"
  have un: "unanswered ?n ?s" by (simp add: unanswered_def new_request_def)
  have req: "handle_request env cf body s = respond ?n (process_standard_json_rpc cf ?n req ''SendMessage'' ?s)"
    using assms by (simp add: handle_request_def handle_non_streaming_request_def is_supported_streaming_method_def Let_def)
  have error: "answered ?i ?n (respond ?n (Some r, u))" if "rs_error r \<noteq> None" "rs_id r = ?i" "unanswered ?n u" for r u
    using that by (auto simp: respond_def response_for_def intro: response_answers)
  show ?thesis
  proof (cases "params_of SendParams_from_json req")
    case (Inl e)
    then show ?thesis using req un error [of "internal ?i e" ?s]
      by (simp add: process_standard_json_rpc_def Let_def with_params_def internal_def make_error_def RpcResponse_error_def)
  next
    case (Inr p)
    obtain r s1 where sent: "on_send_message cf ?n ?i p ?s = (r, s1)" by (cases "on_send_message cf ?n ?i p ?s")
    have inv': "server_inv cf ?s" "refs ?s \<subseteq> {..<?n}" "?n < sv_requests ?s"
      using inv(1,2) server_inv_cong [of ?s s cf]
      by (auto simp: new_request_def refs_made_def refs_def callbacks_of_def pending_calls_def exec_info_def)
    show ?thesis
    proof (cases r)
      case (Inl e)
      have "sv_emitters s1 = sv_emitters ?s" using send_emitters [of cf ?n ?i p ?s] sent by simp
      then have "unanswered ?n s1" using un by (simp add: unanswered_def)
      then show ?thesis using req Inl Inr sent error [of "server_error ?i e" s1]
        by (simp add: process_standard_json_rpc_def Let_def with_params_def server_error_def make_error_def RpcResponse_error_def)
    next
      case (Inr u)
      then have "on_send_message cf ?n ?i p ?s = (Inr (), s1)" using sent by simp
      then obtain tid where "tracked ?i ?n tid s1" "cf_executor cf" using send_tracked [OF inv' un] by blast
      moreover have "handle_request env cf body s = s1" using req Inr \<open>params_of _ _ = _\<close> sent
        by (simp add: process_standard_json_rpc_def Let_def with_params_def respond_def)
      ultimately show ?thesis by auto
    qed
  qed
qed



end
