(* ===== verification/A2AClient.thy ===== *)
theory A2AClient
  imports A2AServer
begin

text \<open>
  The A2A client of \<open>A2A/rust-sdk/src/client\<close>: the client errors, the task manager that accumulates the events of a
  stream, the default client with its table of callbacks, and the JSON-RPC transport over HTTP. HTTP itself is outside:
  what a connection yields (a failure, a status with a content type, a body, chunks of a stream) comes as events, in
  any order. The handler, the consumers and the caller that waits for a result are logs of what they
  are given. A request whose task was spawned may still see events after \<open>close\<close> cancelled it.
\<close>

subsection \<open>Errors (\<open>error.rs\<close>, \<open>types.rs\<close>)\<close>

definition JsonrpcParseError :: int where "JsonrpcParseError = - 32700"
definition InvalidAgentResponse :: int where "InvalidAgentResponse = - 32006"
definition A2aRequestTimeout :: int where "A2aRequestTimeout = - 32101"
definition A2aTransportException :: int where "A2aTransportException = - 32102"
definition A2aInvalidFormat :: int where "A2aInvalidFormat = - 32106"
definition A2aStatusError :: int where "A2aStatusError = - 32108"
definition A2aInvalidInput :: int where "A2aInvalidInput = - 32109"
definition HTTP_PARSE_ERROR :: int where "HTTP_PARSE_ERROR = - 1"

datatype A2aClientError = HttpErr int string | JsonErr int string | TimeoutErr string | OtherErr int string

definition is_http_status_code :: "int \<Rightarrow> bool" where
  "is_http_status_code code \<longleftrightarrow> 100 \<le> code \<and> code \<le> 599"

definition is_json_related_error_code :: "int \<Rightarrow> bool" where
  "is_json_related_error_code code \<longleftrightarrow> code = JsonrpcParseError \<or> code = A2aInvalidFormat \<or> code = HTTP_PARSE_ERROR"

definition A2aClientError_make :: "int \<Rightarrow> string \<Rightarrow> A2aClientError" where
  "A2aClientError_make code msg =
     (if is_http_status_code code then HttpErr code msg
      else if is_json_related_error_code code then JsonErr code msg
      else if code = A2aRequestTimeout then TimeoutErr msg
      else OtherErr code msg)"

definition client_error_code :: "A2aClientError \<Rightarrow> int" where
  "client_error_code e =
     (case e of HttpErr c _ \<Rightarrow> c | JsonErr c _ \<Rightarrow> c | TimeoutErr _ \<Rightarrow> A2aRequestTimeout | OtherErr c _ \<Rightarrow> c)"

definition client_error_message :: "A2aClientError \<Rightarrow> string" where
  "client_error_message e = (case e of HttpErr _ m \<Rightarrow> m | JsonErr _ m \<Rightarrow> m | TimeoutErr m \<Rightarrow> m | OtherErr _ m \<Rightarrow> m)"

record A2AError =
  ae_code :: int
  ae_data :: "json option"
  ae_message :: "string option"

definition A2AError_default :: A2AError where
  "A2AError_default = \<lparr> ae_code = - 1, ae_data = None, ae_message = None \<rparr>"

definition A2AError_new :: "int \<Rightarrow> string \<Rightarrow> A2AError" where
  "A2AError_new c m = \<lparr> ae_code = c, ae_data = None, ae_message = Some m \<rparr>"

definition A2AError_from_json :: "json \<Rightarrow> string + A2AError" where
  "A2AError_from_json v =
     and_then (wire_object v ''A2AError'') (\<lambda>obj.
       case Option.bind (im_get obj ''code'') as_i64 of
         None \<Rightarrow> Inl (''A2AError must contain an integer '' @ [CHR 0x27] @ ''code'' @ [CHR 0x27] @ '' field'')
       | Some c \<Rightarrow>
           and_then (wire_opt_string obj ''message'' ''A2AError'') (\<lambda>m.
             Inr \<lparr> ae_code = c, ae_data = im_get obj ''data'', ae_message = m \<rparr>))"

subsection \<open>The task manager (\<open>task_manager.rs\<close>)\<close>

record ClientTaskManager =
  current_task :: "Task option"

definition ClientTaskManager_new :: ClientTaskManager where
  "ClientTaskManager_new = \<lparr> current_task = None \<rparr>"

definition client_append_artifact :: "TaskArtifactUpdateEvent \<Rightarrow> Task \<Rightarrow> Task" where
  "client_append_artifact e t =
     (let new = au_artifact e; xs = list_or_empty (tk_artifacts t) in
      t\<lparr> tk_artifacts := Some
        (if list_ex (same_artifact new) xs then
           update_first (same_artifact new)
             (\<lambda>a. if au_append e = Some True then a\<lparr> af_parts := af_parts a @ af_parts new \<rparr> else new) xs
         else xs @ [new]) \<rparr>)"

definition client_apply_status :: "TaskStatusUpdateEvent \<Rightarrow> Task \<Rightarrow> Task" where
  "client_apply_status u t =
     (let t1 = (case ts_message (su_status u) of Some m \<Rightarrow> push_history m t | None \<Rightarrow> t);
          t2 = (if su_metadata u \<noteq> None \<and> tk_metadata t1 = None then t1\<lparr> tk_metadata := su_metadata u \<rparr> else t1)
      in t2\<lparr> tk_status := su_status u \<rparr>)"

definition client_save_task_event :: "StreamEvent \<Rightarrow> ClientTaskManager \<Rightarrow> string + ClientTaskManager" where
  "client_save_task_event ev mgr =
     (case ev of
        EvTask t \<Rightarrow>
          if current_task mgr \<noteq> None then Inl ''Task is already set, create new manager for new tasks.''
          else Inr (mgr\<lparr> current_task := Some t \<rparr>)
      | EvMessage _ \<Rightarrow> Inr mgr
      | EvStatus u \<Rightarrow>
          let t = (case current_task mgr of Some t \<Rightarrow> t
                   | None \<Rightarrow> Task_default\<lparr> tk_id := su_task_id u, tk_context_id := su_context_id u, tk_status := su_status u \<rparr>)
          in Inr (mgr\<lparr> current_task := Some (client_apply_status u t) \<rparr>)
      | EvArtifact u \<Rightarrow>
          let t = (case current_task mgr of Some t \<Rightarrow> t
                   | None \<Rightarrow> Task_default\<lparr> tk_id := au_task_id u, tk_context_id := au_context_id u,
                              tk_status := TaskStatus_new StateUnspecified \<rparr>)
          in Inr (mgr\<lparr> current_task := Some (client_append_artifact u t) \<rparr>))"

definition client_update_with_message :: "A2AMessage \<Rightarrow> Task \<Rightarrow> ClientTaskManager \<Rightarrow> Task \<times> ClientTaskManager" where
  "client_update_with_message msg t mgr =
     (let t1 = (case ts_message (tk_status t) of
                  Some m \<Rightarrow>
                    (case tk_history t of
                       Some h \<Rightarrow> t\<lparr> tk_history := Some (h @ [m]) \<rparr>
                     | None \<Rightarrow> t\<lparr> tk_history := Some [m], tk_status := (tk_status t)\<lparr> ts_message := None \<rparr> \<rparr>)
                | None \<Rightarrow> t);
          t2 = push_history msg t1
      in (t2, mgr\<lparr> current_task := Some t2 \<rparr>))"

subsection \<open>State\<close>

record TransportError =
  te_code :: int
  te_info :: string

datatype 'card TransportEvent =
    TError TransportError
  | TMessage A2AMessage
  | TTask Task
  | TStatus TaskStatusUpdateEvent
  | TArtifact TaskArtifactUpdateEvent
  | TConfig TaskPushNotificationConfig
  | TConfigs "TaskPushNotificationConfig list"
  | TNone
  | TCard 'card

datatype UpdateEvent = NoUpdate | StatusUpd TaskStatusUpdateEvent | ArtifactUpd TaskArtifactUpdateEvent

datatype ClientEvent = CMessage A2AMessage | CError A2AError | CTaskUpdate Task UpdateEvent

text \<open>The kinds of channel a caller waits on, and what it is sent.\<close>

datatype Completion = CUnit | CTask | CConfig | CConfigs | CCard

datatype 'card Outcome =
    OkUnit
  | OkTask Task
  | OkConfig TaskPushNotificationConfig
  | OkConfigs "TaskPushNotificationConfig list"
  | OkCard 'card
  | Failure A2aClientError

record CallbackInfo =
  ci_method :: string
  ci_completion :: "Completion option"
  ci_handler :: bool
  ci_mgr :: "ClientTaskManager option"

record UserData =
  ud_request_id :: string
  ud_method :: string
  ud_is_stream :: bool

datatype Phase = Sent | ReadJson | ReadSse SseParser

text \<open>
  \<open>cl_info\<close> is the callback table of the client and \<open>cl_request_data\<close> the table of the transport; \<open>cl_tasks\<close> are the spawned
  requests. \<open>cl_sent\<close>, \<open>cl_handled\<close>, \<open>cl_consumed\<close> and \<open>cl_results\<close> log the bodies that were posted, the calls of the handlers
  and consumers, and what the callers were answered.
\<close>

record 'card Client =
  cl_info :: "(string, CallbackInfo) imap"
  cl_request_data :: "(string, UserData) imap"
  cl_tasks :: "(string, UserData \<times> Phase) imap"
  cl_closed :: bool
  cl_uuids :: nat
  cl_sent :: "(string \<times> string) list"
  cl_handled :: "(string \<times> ClientEvent) list"
  cl_consumed :: "ClientEvent list"
  cl_results :: "(string \<times> 'card Outcome) list"

text \<open>The configuration, and what comes from libraries: the JSON texts, the UUIDs, the form of a card, the interceptors.\<close>

record 'card ClientEnv =
  cv_rpc :: RpcEnv
  cv_uuid :: "nat \<Rightarrow> string"
  cv_card_from_json :: "json \<Rightarrow> string + 'card"
  cv_float_text :: "real \<Rightarrow> string"
  cv_intercept :: "string \<Rightarrow> string \<Rightarrow> string"
  cv_streaming :: bool
  cv_card_streaming :: "bool option"
  cv_polling :: bool
  cv_output_modes :: "string list option"
  cv_push_configs :: "PushNotificationConfig list"

definition Client_new :: "'card Client" where
  "Client_new = \<lparr> cl_info = [], cl_request_data = [], cl_tasks = [], cl_closed = False, cl_uuids = 0, cl_sent = [],
     cl_handled = [], cl_consumed = [], cl_results = [] \<rparr>"

subsection \<open>The default client: responses (\<open>default_client.rs\<close>)\<close>

definition client_abandoned :: A2aClientError where
  "client_abandoned = A2aClientError_make A2aStatusError ''Request abandoned''"

definition invalid_input :: A2aClientError where
  "invalid_input = A2aClientError_make A2aInvalidInput ''Invalid parameter''"

definition transport_exception :: "A2aClientError \<Rightarrow> A2aClientError" where
  "transport_exception e = A2aClientError_make A2aTransportException (client_error_message e)"

definition can_stream :: "'card ClientEnv \<Rightarrow> bool" where
  "can_stream env \<longleftrightarrow> cv_streaming env \<and> cv_card_streaming env = Some True"

definition client_register :: "string \<Rightarrow> CallbackInfo \<Rightarrow> 'card Client \<Rightarrow> 'card Client" where
  "client_register rid info s = s\<lparr> cl_info := im_insert rid info (cl_info s) \<rparr>"

definition client_unregister :: "string \<Rightarrow> 'card Client \<Rightarrow> 'card Client" where
  "client_unregister rid s = s\<lparr> cl_info := im_remove rid (cl_info s) \<rparr>"

text \<open>Handler and consumers are called with an event; a caller is answered.\<close>

definition call_handler :: "string \<Rightarrow> CallbackInfo \<Rightarrow> ClientEvent \<Rightarrow> 'card Client \<Rightarrow> 'card Client" where
  "call_handler rid cb ev s = (if ci_handler cb then s\<lparr> cl_handled := cl_handled s @ [(rid, ev)] \<rparr> else s)"

definition consume_event :: "ClientEvent \<Rightarrow> 'card Client \<Rightarrow> 'card Client" where
  "consume_event ev s = s\<lparr> cl_consumed := cl_consumed s @ [ev] \<rparr>"

definition answer_caller :: "string \<Rightarrow> 'card Outcome \<Rightarrow> 'card Client \<Rightarrow> 'card Client" where
  "answer_caller rid r s = s\<lparr> cl_results := cl_results s @ [(rid, r)] \<rparr>"

text \<open>
  \<open>if let Some(Completion::K(tx)) = cb.completion.take()\<close>: the caller gets the result; a sender of another
  kind is dropped, which its caller sees as an abandoned request.
\<close>

definition take_completion :: "string \<Rightarrow> CallbackInfo \<Rightarrow> (Completion \<Rightarrow> 'card Outcome option) \<Rightarrow> 'card Client \<Rightarrow> 'card Client" where
  "take_completion rid cb f s =
     (case ci_completion cb of
        None \<Rightarrow> s
      | Some k \<Rightarrow> answer_caller rid (case f k of Some r \<Rightarrow> r | None \<Rightarrow> Failure client_abandoned) s)"

definition is_stream_method :: "string \<Rightarrow> bool" where
  "is_stream_method m \<longleftrightarrow> m = ''SendStreamingMessage'' \<or> m = ''SubscribeToTask''"

definition handler_error_resp :: "string \<Rightarrow> CallbackInfo \<Rightarrow> TransportError \<Rightarrow> 'card Client \<Rightarrow> 'card Client" where
  "handler_error_resp rid cb e s =
     (let s1 = (if ci_method cb = ''SendMessage'' \<or> is_stream_method (ci_method cb) then
                  call_handler rid cb (CError (A2AError_new (te_code e) (te_info e))) s
                else s)
      in take_completion rid cb (\<lambda>_. Some (Failure (A2aClientError_make (te_code e) (te_info e)))) s1)"

text \<open>What a stream event means to the client: the event for the handler, the manager, whether it ends the request.\<close>

definition stream_update :: "ClientTaskManager \<Rightarrow> 'card TransportEvent \<Rightarrow> (ClientEvent \<times> ClientTaskManager \<times> bool) option" where
  "stream_update mgr ev =
     (case ev of
        TMessage m \<Rightarrow> Some (CMessage m, mgr, False)
      | TTask t \<Rightarrow>
          (case client_save_task_event (EvTask t) mgr of
             Inr mgr1 \<Rightarrow> Some (CTaskUpdate t NoUpdate, mgr1, False) | Inl _ \<Rightarrow> None)
      | TStatus u \<Rightarrow>
          (case client_save_task_event (EvStatus u) mgr of
             Inr mgr1 \<Rightarrow> map_option (\<lambda>t. (CTaskUpdate t (StatusUpd u), mgr1, is_final_or_interrupted (ts_state (su_status u))))
                          (current_task mgr1)
           | Inl _ \<Rightarrow> None)
      | TArtifact a \<Rightarrow>
          (case client_save_task_event (EvArtifact a) mgr of
             Inr mgr1 \<Rightarrow> map_option (\<lambda>t. (CTaskUpdate t (ArtifactUpd a), mgr1, False)) (current_task mgr1)
           | Inl _ \<Rightarrow> None)
      | _ \<Rightarrow> None)"

text \<open>
  \<open>None\<close> when the event does not fit the method. Only the stream methods leave the request registered; its callback
  then has the new manager.
\<close>

definition handler_success_resp :: "string \<Rightarrow> CallbackInfo \<Rightarrow> 'card TransportEvent \<Rightarrow> 'card Client \<Rightarrow> 'card Client option" where
  "handler_success_resp rid cb ev s =
     (let m = ci_method cb in
      if m = ''SendMessage'' then
        (case (case ev of TMessage x \<Rightarrow> Some (CMessage x) | TTask t \<Rightarrow> Some (CTaskUpdate t NoUpdate) | _ \<Rightarrow> None) of
           None \<Rightarrow> None
         | Some ce \<Rightarrow>
             Some (take_completion rid cb (\<lambda>k. if k = CUnit then Some OkUnit else None) (consume_event ce (call_handler rid cb ce s))))
      else if is_stream_method m then
        (case stream_update (case ci_mgr cb of Some g \<Rightarrow> g | None \<Rightarrow> ClientTaskManager_new) ev of
           None \<Rightarrow> None
         | Some (ce, mgr, fin) \<Rightarrow>
             let s1 = consume_event ce (call_handler rid cb ce s) in
             Some (if fin then
                     client_unregister rid (take_completion rid cb (\<lambda>k. if k = CUnit then Some OkUnit else None) s1)
                   else client_register rid (cb\<lparr> ci_mgr := Some mgr \<rparr>) s1))
      else if m = ''GetTask'' \<or> m = ''CancelTask'' then
        (case ev of
           TTask t \<Rightarrow> Some (take_completion rid cb (\<lambda>k. if k = CTask then Some (OkTask t) else None) s)
         | _ \<Rightarrow> None)
      else if m = ''CreateTaskPushNotificationConfig'' \<or> m = ''GetTaskPushNotificationConfig'' then
        (case ev of
           TConfig c \<Rightarrow> Some (take_completion rid cb (\<lambda>k. if k = CConfig then Some (OkConfig c) else None) s)
         | _ \<Rightarrow> None)
      else if m = ''ListTaskPushNotificationConfigs'' then
        (case ev of
           TConfigs c \<Rightarrow> Some (take_completion rid cb (\<lambda>k. if k = CConfigs then Some (OkConfigs c) else None) s)
         | _ \<Rightarrow> None)
      else if m = ''DeleteTaskPushNotificationConfig'' then
        Some (take_completion rid cb (\<lambda>k. if k = CUnit then Some OkUnit else None) s)
      else if m = ''GetAgentCard'' then
        (case ev of
           TCard c \<Rightarrow> Some (take_completion rid cb (\<lambda>k. if k = CCard then Some (OkCard c) else None) s)
         | _ \<Rightarrow> None)
      else Some (take_completion rid cb (\<lambda>_. None) s))"

definition transport_event_cb :: "string \<Rightarrow> 'card TransportEvent \<Rightarrow> 'card Client \<Rightarrow> 'card Client" where
  "transport_event_cb rid ev s =
     (case im_get (cl_info s) rid of
        None \<Rightarrow> s
      | Some cb \<Rightarrow>
          (case ev of
             TError e \<Rightarrow>
               let s1 = client_unregister rid s in
               if te_code e = 0 then
                 take_completion rid cb
                   (\<lambda>k. Some (if k = CUnit then OkUnit else Failure (A2aClientError_make 0 []))) s1
               else handler_error_resp rid cb e s1
           | _ \<Rightarrow>
               let s1 = (if is_stream_method (ci_method cb) then s else client_unregister rid s) in
               (case handler_success_resp rid cb ev s1 of
                  Some s2 \<Rightarrow> s2
                | None \<Rightarrow> take_completion rid cb (\<lambda>_. None) (client_unregister rid s1))))"

subsection \<open>The transport: responses (\<open>jsonrpc_transport.rs\<close>)\<close>

definition client_finish :: "string \<Rightarrow> 'card Client \<Rightarrow> bool \<times> 'card Client" where
  "client_finish rid s =
     (im_get (cl_request_data s) rid \<noteq> None, s\<lparr> cl_request_data := im_remove rid (cl_request_data s) \<rparr>)"

definition client_fail :: "UserData \<Rightarrow> int \<Rightarrow> string \<Rightarrow> 'card Client \<Rightarrow> 'card Client" where
  "client_fail u code msg s =
     (let (live, s1) = client_finish (ud_request_id u) s in
      if live then transport_event_cb (ud_request_id u) (TError \<lparr> te_code = code, te_info = msg \<rparr>) s1 else s1)"

definition on_stream_fin :: "UserData \<Rightarrow> 'card Client \<Rightarrow> 'card Client" where
  "on_stream_fin u s = client_fail u 0 [] s"

definition id_matches :: "'card ClientEnv \<Rightarrow> json \<Rightarrow> string \<Rightarrow> bool" where
  "id_matches env data rid =
     (case jget data ''id'' of
        None \<Rightarrow> True
      | Some (JStr s) \<Rightarrow> s = rid
      | Some (JInt n) \<Rightarrow> show_int n = rid
      | Some (JFloat x) \<Rightarrow> cv_float_text env x = rid
      | Some _ \<Rightarrow> False)"

definition error_of :: "json \<Rightarrow> TransportError" where
  "error_of err =
     (let e = (case A2AError_from_json err of Inr x \<Rightarrow> x | Inl _ \<Rightarrow> A2AError_default)
      in \<lparr> te_code = ae_code e, te_info = (case ae_message e of Some m \<Rightarrow> m | None \<Rightarrow> []) \<rparr>)"

definition mismatch :: string where
  "mismatch = ''RequestId in response data does not match with requestId in request''"

definition transport_event :: "StreamEvent \<Rightarrow> 'card TransportEvent" where
  "transport_event ev = (case ev of EvTask t \<Rightarrow> TTask t | EvMessage m \<Rightarrow> TMessage m | EvStatus u \<Rightarrow> TStatus u | EvArtifact a \<Rightarrow> TArtifact a)"

text \<open>One response of a stream; whether the stream stays open.\<close>

definition on_stream_resp :: "'card ClientEnv \<Rightarrow> UserData \<Rightarrow> json \<Rightarrow> 'card Client \<Rightarrow> bool \<times> 'card Client" where
  "on_stream_resp env u data s =
     (let rid = ud_request_id u in
      case jget data ''error'' of
        Some err \<Rightarrow>
          let (live, s1) = client_finish rid s
          in (False, if live then transport_event_cb rid (TError (error_of err)) s1 else s1)
      | None \<Rightarrow>
          if \<not> id_matches env data rid then (False, client_fail u InvalidAgentResponse mismatch s)
          else
            (case StreamEvent_from_json (j_option (jget data ''result'')) of
               Inl e \<Rightarrow> (False, client_fail u JsonrpcParseError e s)
             | Inr ev \<Rightarrow>
                 if (case ev of EvStatus x \<Rightarrow> is_final_or_interrupted (ts_state (su_status x)) | _ \<Rightarrow> False) then
                   let (live, s1) = client_finish rid s
                   in (False, if live then transport_event_cb rid (transport_event ev) s1 else s1)
                 else (True, transport_event_cb rid (transport_event ev) s)))"

definition result_of :: "(json \<Rightarrow> string + 'a) \<Rightarrow> json \<Rightarrow> string + 'a" where
  "result_of from_json data =
     (case jget data ''result'' of
        None \<Rightarrow> Inl (''Response missing '' @ [CHR 0x27] @ ''result'' @ [CHR 0x27] @ '' field'')
      | Some r \<Rightarrow> from_json r)"

definition parse_result :: "'card ClientEnv \<Rightarrow> string \<Rightarrow> json \<Rightarrow> string + 'card TransportEvent" where
  "parse_result env m data =
     (if m = ''SendMessage'' then
        and_then (result_of SendMessageResult_from_json data) (\<lambda>r. Inr (case r of RTask t \<Rightarrow> TTask t | RMessage x \<Rightarrow> TMessage x))
      else if m = ''GetTask'' \<or> m = ''CancelTask'' then and_then (result_of Task_from_json data) (\<lambda>t. Inr (TTask t))
      else if m = ''CreateTaskPushNotificationConfig'' \<or> m = ''GetTaskPushNotificationConfig'' then
        and_then (result_of TaskPush_from_json data) (\<lambda>c. Inr (TConfig c))
      else if m = ''ListTaskPushNotificationConfigs'' then
        and_then (result_of (\<lambda>v. case as_array v of None \<Rightarrow> Inl (rpc_de_err (cv_rpc env) v) | Some xs \<Rightarrow> collect_results TaskPush_from_json xs) data)
          (\<lambda>c. Inr (TConfigs c))
      else if m = ''DeleteTaskPushNotificationConfig'' then Inr TNone
      else if m = ''GetAgentCard'' then
        and_then (if jget data ''result'' \<noteq> None then result_of (cv_card_from_json env) data else cv_card_from_json env data)
          (\<lambda>c. Inr (TCard c))
      else Inr (TError \<lparr> te_code = JsonrpcMethodNotFound, te_info = ''Method not found in response data'' \<rparr>))"

definition on_non_stream_resp :: "'card ClientEnv \<Rightarrow> UserData \<Rightarrow> json \<Rightarrow> 'card Client \<Rightarrow> 'card Client" where
  "on_non_stream_resp env u data s =
     (let ev = (if \<not> id_matches env data (ud_request_id u) then TError \<lparr> te_code = InvalidAgentResponse, te_info = mismatch \<rparr>
                else (case jget data ''error'' of
                        Some err \<Rightarrow> TError (error_of err)
                      | None \<Rightarrow>
                          (case parse_result env (ud_method u) data of
                             Inr e \<Rightarrow> e
                           | Inl e \<Rightarrow> TError \<lparr> te_code = A2aInvalidFormat, te_info = e \<rparr>)))
      in transport_event_cb (ud_request_id u) ev s)"

definition handle_json_body :: "'card ClientEnv \<Rightarrow> UserData \<Rightarrow> string \<Rightarrow> 'card Client \<Rightarrow> 'card Client" where
  "handle_json_body env u text s =
     (if text = [] then
        if ud_is_stream u then s else client_fail u HTTP_PARSE_ERROR ''Empty non-streaming response'' s
      else
        (case rpc_from_str (cv_rpc env) text of
           Inl e \<Rightarrow> client_fail u JsonrpcParseError e s
         | Inr v \<Rightarrow>
             if ud_is_stream u then snd (on_stream_resp env u v s)
             else
               let (live, s1) = client_finish (ud_request_id u) s
               in if live then on_non_stream_resp env u v s1 else s1))"

text \<open>One SSE payload; whether the stream is finished.\<close>

definition deliver_sse_event :: "'card ClientEnv \<Rightarrow> UserData \<Rightarrow> string \<Rightarrow> 'card Client \<Rightarrow> bool \<times> 'card Client" where
  "deliver_sse_event env u data s =
     (if data = [] then (True, on_stream_fin u s)
      else
        (case rpc_from_str (cv_rpc env) data of
           Inl e \<Rightarrow> (True, client_fail u JsonrpcParseError e s)
         | Inr v \<Rightarrow> let (is_open, s1) = on_stream_resp env u v s in (\<not> is_open, s1)))"

fun deliver_all :: "'card ClientEnv \<Rightarrow> UserData \<Rightarrow> SseEvent list \<Rightarrow> 'card Client \<Rightarrow> bool \<times> 'card Client" where
  "deliver_all env u [] s = (False, s)"
| "deliver_all env u (e # es) s =
     (case deliver_sse_event env u (se_data e) s of (True, s1) \<Rightarrow> (True, s1) | (False, s1) \<Rightarrow> deliver_all env u es s1)"

definition set_task :: "string \<Rightarrow> UserData \<Rightarrow> Phase \<Rightarrow> 'card Client \<Rightarrow> 'card Client" where
  "set_task rid u ph s = s\<lparr> cl_tasks := im_insert rid (u, ph) (cl_tasks s) \<rparr>"

definition end_task :: "string \<Rightarrow> 'card Client \<Rightarrow> 'card Client" where
  "end_task rid s = s\<lparr> cl_tasks := im_remove rid (cl_tasks s) \<rparr>"

text \<open>What reading a body yields: the text or a chunk, an error, a timeout, the end of the stream.\<close>

datatype Read = Bytes string | ReadError string | ReadTimeout | ReadEnd

definition http_failed :: "string \<Rightarrow> string" where
  "http_failed e = ''HTTP request failed: '' @ e"

definition read_json_body :: "'card ClientEnv \<Rightarrow> UserData \<Rightarrow> Read \<Rightarrow> 'card Client \<Rightarrow> 'card Client" where
  "read_json_body env u r s =
     (let rid = ud_request_id u in
      case r of
        Bytes text \<Rightarrow> end_task rid (handle_json_body env u text s)
      | ReadError e \<Rightarrow> end_task rid (client_fail u A2aTransportException (http_failed e) s)
      | ReadTimeout \<Rightarrow> end_task rid (client_fail u A2aRequestTimeout (http_failed ''timeout'') s)
      | ReadEnd \<Rightarrow> s)"

definition read_sse :: "'card ClientEnv \<Rightarrow> UserData \<Rightarrow> SseParser \<Rightarrow> Read \<Rightarrow> 'card Client \<Rightarrow> 'card Client" where
  "read_sse env u p r s =
     (let rid = ud_request_id u in
      case r of
        Bytes chunk \<Rightarrow>
          let (evs, p1) = feed p chunk; (fin, s1) = deliver_all env u evs s
          in if fin then end_task rid s1 else set_task rid u (ReadSse p1) s1
      | ReadError e \<Rightarrow> end_task rid (client_fail u A2aTransportException (http_failed e) s)
      | ReadTimeout \<Rightarrow> end_task rid (client_fail u A2aRequestTimeout ''SSE read timeout'' s)
      | ReadEnd \<Rightarrow>
          let (fin, s1) = deliver_all env u (list_of_option (fst (sse_finish p))) s
          in end_task rid (if fin then s1 else on_stream_fin u s1))"

text \<open>The head of a response: the status and the content type.\<close>

definition on_response :: "UserData \<Rightarrow> int \<Rightarrow> string option \<Rightarrow> 'card Client \<Rightarrow> 'card Client" where
  "on_response u status ctype s =
     (let rid = ud_request_id u; fail = (\<lambda>code msg. end_task rid (client_fail u code msg s)) in
      if status = 404 then fail status ''Session not found or expired''
      else if status \<noteq> 200 then fail status ''Http status not ok''
      else
        (case ctype of
           None \<Rightarrow> fail HTTP_PARSE_ERROR ''Content-Type not found in header''
         | Some ct \<Rightarrow>
             if contains_sub ct ''application/json'' then set_task rid u ReadJson s
             else if contains_sub ct ''text/event-stream'' then set_task rid u (ReadSse SseParser_new) s
             else fail HTTP_PARSE_ERROR ''application/json or text/event-stream not found in header''))"

subsection \<open>Requests\<close>

definition submit :: "UserData \<Rightarrow> string \<Rightarrow> 'card Client \<Rightarrow> (A2aClientError + unit) \<times> 'card Client" where
  "submit u body s =
     (if cl_closed s then (Inl (A2aClientError_make A2aTransportException ''transport exception''), s)
      else (Inr (), s\<lparr> cl_request_data := im_insert (ud_request_id u) u (cl_request_data s),
                      cl_tasks := im_insert (ud_request_id u) (u, Sent) (cl_tasks s),
                      cl_sent := cl_sent s @ [(ud_request_id u, body)] \<rparr>))"

definition transport_send :: "'card ClientEnv \<Rightarrow> string \<Rightarrow> string \<Rightarrow> json \<Rightarrow> 'card Client \<Rightarrow> (A2aClientError + unit) \<times> 'card Client" where
  "transport_send env rid m payload s =
     (let rpc = JObj [(''jsonrpc'', JStr JSONRPC_VERSION), (''id'', JStr rid), (''method'', JStr m), (''params'', payload)]
      in submit \<lparr> ud_request_id = rid, ud_method = m, ud_is_stream = is_stream_method m \<rparr>
           (cv_intercept env m (rpc_to_string (cv_rpc env) rpc)) s)"

text \<open>The parameters are written before anything is sent.\<close>

definition send_payload :: "'card ClientEnv \<Rightarrow> string \<Rightarrow> string \<Rightarrow> string + json \<Rightarrow> 'card Client \<Rightarrow> (A2aClientError + unit) \<times> 'card Client" where
  "send_payload env rid m payload s =
     (case payload of
        Inl e \<Rightarrow> (Inl (A2aClientError_make A2aInvalidInput e), s)
      | Inr v \<Rightarrow> transport_send env rid m v s)"

text \<open>
  The shape of every request: an identifier, a callback, the sending; the callback goes when sending fails.
  The result is the error, or the identifier of the request the caller now waits for.
\<close>

definition start_request :: "'card ClientEnv \<Rightarrow> CallbackInfo \<Rightarrow> (string \<Rightarrow> 'card Client \<Rightarrow> (A2aClientError + unit) \<times> 'card Client) \<Rightarrow>
    'card Client \<Rightarrow> (A2aClientError + string) \<times> 'card Client" where
  "start_request env info send s =
     (let rid = cv_uuid env (cl_uuids s);
          s1 = client_register rid info (s\<lparr> cl_uuids := Suc (cl_uuids s) \<rparr>)
      in case send rid s1 of
           (Inl e, s2) \<Rightarrow> (Inl (transport_exception e), client_unregister rid s2)
         | (Inr _, s2) \<Rightarrow> (Inr rid, s2))"

definition simple_request :: "'card ClientEnv \<Rightarrow> string \<Rightarrow> Completion \<Rightarrow> string + json \<Rightarrow> 'card Client \<Rightarrow> (A2aClientError + string) \<times> 'card Client" where
  "simple_request env m k payload s =
     start_request env \<lparr> ci_method = m, ci_completion = Some k, ci_handler = False, ci_mgr = None \<rparr>
       (\<lambda>rid. send_payload env rid m payload) s"

definition guarded :: "bool \<Rightarrow> ('card Client \<Rightarrow> (A2aClientError + string) \<times> 'card Client) \<Rightarrow> 'card Client \<Rightarrow> (A2aClientError + string) \<times> 'card Client" where
  "guarded ok f s = (if ok then f s else (Inl invalid_input, s))"

definition process_message_request :: "'card ClientEnv \<Rightarrow> MessageSendParams \<Rightarrow> string \<Rightarrow> 'card Client \<Rightarrow> (A2aClientError + string) \<times> 'card Client" where
  "process_message_request env params m s =
     guarded (ms_message_id (mp_message params) \<noteq> [] \<and> ms_parts (mp_message params) \<noteq> [])
       (start_request env
          \<lparr> ci_method = m, ci_completion = Some CUnit, ci_handler = True,
            ci_mgr = (if m \<noteq> ''SendMessage'' then Some ClientTaskManager_new else None) \<rparr>
          (\<lambda>rid. send_payload env rid m (SendParams_to_json params))) s"

definition client_send_message :: "'card ClientEnv \<Rightarrow> A2AMessage \<Rightarrow> 'card Client \<Rightarrow> (A2aClientError + string) \<times> 'card Client" where
  "client_send_message env msg s =
     process_message_request env
       \<lparr> mp_configuration = Some \<lparr> mc_accepted_output_modes = cv_output_modes env, mc_history_length = None,
           mc_push_notification_config = (case cv_push_configs env of c # _ \<Rightarrow> Some c | [] \<Rightarrow> None),
           mc_return_immediately = Some (cv_polling env) \<rparr>,
         mp_message = msg, mp_metadata = None \<rparr>
       (if can_stream env then ''SendStreamingMessage'' else ''SendMessage'') s"

definition client_get_task :: "'card ClientEnv \<Rightarrow> TaskQueryParams \<Rightarrow> 'card Client \<Rightarrow> (A2aClientError + string) \<times> 'card Client" where
  "client_get_task env p s = guarded (tq_id p \<noteq> []) (simple_request env ''GetTask'' CTask (TaskQuery_to_json p)) s"

definition client_cancel_task :: "'card ClientEnv \<Rightarrow> TaskIdParams \<Rightarrow> 'card Client \<Rightarrow> (A2aClientError + string) \<times> 'card Client" where
  "client_cancel_task env p s = guarded (ti_id p \<noteq> []) (simple_request env ''CancelTask'' CTask (TaskId_to_json p)) s"

definition client_set_push :: "'card ClientEnv \<Rightarrow> TaskPushNotificationConfig \<Rightarrow> 'card Client \<Rightarrow> (A2aClientError + string) \<times> 'card Client" where
  "client_set_push env c s =
     guarded (tpc_task_id c \<noteq> []) (simple_request env ''CreateTaskPushNotificationConfig'' CConfig (TaskPush_to_json c)) s"

definition client_get_push :: "'card ClientEnv \<Rightarrow> GetTaskPushNotificationConfigParams \<Rightarrow> 'card Client \<Rightarrow> (A2aClientError + string) \<times> 'card Client" where
  "client_get_push env p s =
     guarded (gp_id p \<noteq> []) (simple_request env ''GetTaskPushNotificationConfig'' CConfig (GetPush_to_json p)) s"

definition client_list_push :: "'card ClientEnv \<Rightarrow> ListTaskPushNotificationConfigParams \<Rightarrow> 'card Client \<Rightarrow> (A2aClientError + string) \<times> 'card Client" where
  "client_list_push env p s =
     guarded (lp_id p \<noteq> []) (simple_request env ''ListTaskPushNotificationConfigs'' CConfigs (ListPush_to_json p)) s"

definition client_delete_push :: "'card ClientEnv \<Rightarrow> DeleteTaskPushNotificationConfigParams \<Rightarrow> 'card Client \<Rightarrow> (A2aClientError + string) \<times> 'card Client" where
  "client_delete_push env p s =
     guarded (dp_id p \<noteq> []) (simple_request env ''DeleteTaskPushNotificationConfig'' CUnit (DeletePush_to_json p)) s"

definition client_resubscribe :: "'card ClientEnv \<Rightarrow> TaskIdParams \<Rightarrow> 'card Client \<Rightarrow> (A2aClientError + string) \<times> 'card Client" where
  "client_resubscribe env p s =
     (if \<not> can_stream env then
        (Inl (A2aClientError_make UnsupportedOperation ''client and/or server do not support resubscription.''), s)
      else
        start_request env
          \<lparr> ci_method = ''SubscribeToTask'', ci_completion = Some CUnit, ci_handler = True, ci_mgr = Some ClientTaskManager_new \<rparr>
          (\<lambda>rid. send_payload env rid ''SubscribeToTask'' (TaskId_to_json p)) s)"

definition client_get_card :: "'card ClientEnv \<Rightarrow> 'card Client \<Rightarrow> (A2aClientError + string) \<times> 'card Client" where
  "client_get_card env s =
     start_request env \<lparr> ci_method = ''GetAgentCard'', ci_completion = Some CCard, ci_handler = False, ci_mgr = None \<rparr>
       (\<lambda>rid. submit \<lparr> ud_request_id = rid, ud_method = ''GetAgentCard'', ud_is_stream = False \<rparr> []) s"

text \<open>Every request the transport has is told that the transport is closed, in some order (here that of the table).\<close>

definition client_close :: "'card Client \<Rightarrow> 'card Client" where
  "client_close s =
     fold (\<lambda>(rid, u). transport_event_cb (ud_request_id u) (TError \<lparr> te_code = A2aStatusError, te_info = ''Transport is closed'' \<rparr>))
       (cl_request_data s) (s\<lparr> cl_closed := True, cl_request_data := [] \<rparr>)"

subsection \<open>The client as a machine\<close>

datatype client_event =
    CallSendMessage A2AMessage
  | CallGetTask TaskQueryParams
  | CallCancelTask TaskIdParams
  | CallSetPush TaskPushNotificationConfig
  | CallGetPush GetTaskPushNotificationConfigParams
  | CallListPush ListTaskPushNotificationConfigParams
  | CallDeletePush DeleteTaskPushNotificationConfigParams
  | CallResubscribe TaskIdParams
  | CallGetCard
  | CallClose
  | HttpFailed string bool string
  | HttpResponse string int "string option"
  | HttpRead string Read

definition client_exec :: "'card ClientEnv \<Rightarrow> client_event \<Rightarrow> 'card Client \<Rightarrow> 'card Client" where
  "client_exec env e s =
     (case e of
        CallSendMessage m \<Rightarrow> snd (client_send_message env m s)
      | CallGetTask p \<Rightarrow> snd (client_get_task env p s)
      | CallCancelTask p \<Rightarrow> snd (client_cancel_task env p s)
      | CallSetPush p \<Rightarrow> snd (client_set_push env p s)
      | CallGetPush p \<Rightarrow> snd (client_get_push env p s)
      | CallListPush p \<Rightarrow> snd (client_list_push env p s)
      | CallDeletePush p \<Rightarrow> snd (client_delete_push env p s)
      | CallResubscribe p \<Rightarrow> snd (client_resubscribe env p s)
      | CallGetCard \<Rightarrow> snd (client_get_card env s)
      | CallClose \<Rightarrow> client_close s
      | HttpFailed rid timeout msg \<Rightarrow>
          (case im_get (cl_tasks s) rid of
             Some (u, Sent) \<Rightarrow>
               end_task rid (client_fail u (if timeout then A2aRequestTimeout else A2aTransportException) (http_failed msg) s)
           | _ \<Rightarrow> s)
      | HttpResponse rid status ctype \<Rightarrow>
          (case im_get (cl_tasks s) rid of Some (u, Sent) \<Rightarrow> on_response u status ctype s | _ \<Rightarrow> s)
      | HttpRead rid r \<Rightarrow>
          (case im_get (cl_tasks s) rid of
             Some (u, ReadJson) \<Rightarrow> read_json_body env u r s
           | Some (u, ReadSse p) \<Rightarrow> read_sse env u p r s
           | _ \<Rightarrow> s))"

definition client_run :: "'card ClientEnv \<Rightarrow> client_event list \<Rightarrow> 'card Client \<Rightarrow> 'card Client" where
  "client_run env es s = fold (client_exec env) es s"

end
