(* ===== verification/A2AClientLaws.thy ===== *)
theory A2AClientLaws
  imports A2AClient
begin

text \<open>
  Every request of the A2A client is answered at most once, and only as long as it has no answer it is in the tables of the
  client and of the transport.
\<close>

subsection \<open>Delivering an event\<close>

definition results_of :: "string \<Rightarrow> 'card Client \<Rightarrow> (string \<times> 'card Outcome) list" where
  "results_of rid s = filter (\<lambda>p. fst p = rid) (cl_results s)"

definition waiting :: "string \<Rightarrow> 'card Client \<Rightarrow> bool" where
  "waiting rid s \<longleftrightarrow> im_get (cl_info s) rid \<noteq> None"

definition weight :: "string \<Rightarrow> 'card Client \<Rightarrow> nat" where
  "weight rid s = length (results_of rid s) + (if waiting rid s then 1 else 0)"

definition callers_wait :: "'card Client \<Rightarrow> bool" where
  "callers_wait s \<longleftrightarrow> (\<forall>rid cb. im_get (cl_info s) rid = Some cb \<longrightarrow> ci_completion cb \<noteq> None)"

text \<open>The state with the answer of a caller, its handler and the consumers aside.\<close>

lemma log_frame [simp]:
  "cl_info (call_handler rid cb ev s) = cl_info s" "cl_request_data (call_handler rid cb ev s) = cl_request_data s"
  "cl_tasks (call_handler rid cb ev s) = cl_tasks s" "cl_sent (call_handler rid cb ev s) = cl_sent s"
  "cl_uuids (call_handler rid cb ev s) = cl_uuids s" "cl_closed (call_handler rid cb ev s) = cl_closed s"
  "cl_results (call_handler rid cb ev s) = cl_results s"
  "cl_info (consume_event ev s) = cl_info s" "cl_request_data (consume_event ev s) = cl_request_data s"
  "cl_tasks (consume_event ev s) = cl_tasks s" "cl_sent (consume_event ev s) = cl_sent s"
  "cl_uuids (consume_event ev s) = cl_uuids s" "cl_closed (consume_event ev s) = cl_closed s"
  "cl_results (consume_event ev s) = cl_results s"
  by (simp_all add: call_handler_def consume_event_def)

lemma take_completion_frame [simp]:
  "cl_info (take_completion rid cb f s) = cl_info s" "cl_request_data (take_completion rid cb f s) = cl_request_data s"
  "cl_tasks (take_completion rid cb f s) = cl_tasks s" "cl_sent (take_completion rid cb f s) = cl_sent s"
  "cl_uuids (take_completion rid cb f s) = cl_uuids s" "cl_closed (take_completion rid cb f s) = cl_closed s"
  by (simp_all add: take_completion_def answer_caller_def split: option.split)

lemma table_frame [simp]:
  "cl_request_data (client_unregister rid s) = cl_request_data s" "cl_tasks (client_unregister rid s) = cl_tasks s"
  "cl_sent (client_unregister rid s) = cl_sent s" "cl_uuids (client_unregister rid s) = cl_uuids s"
  "cl_closed (client_unregister rid s) = cl_closed s" "cl_results (client_unregister rid s) = cl_results s"
  "im_get (cl_info (client_unregister rid s)) k = (if k = rid then None else im_get (cl_info s) k)"
  "cl_request_data (client_register rid cb s) = cl_request_data s" "cl_tasks (client_register rid cb s) = cl_tasks s"
  "cl_sent (client_register rid cb s) = cl_sent s" "cl_uuids (client_register rid cb s) = cl_uuids s"
  "cl_closed (client_register rid cb s) = cl_closed s" "cl_results (client_register rid cb s) = cl_results s"
  "im_get (cl_info (client_register rid cb s)) k = (if k = rid then Some cb else im_get (cl_info s) k)"
  by (auto simp: client_unregister_def client_register_def)

lemma results_of_take:
  "results_of k (take_completion rid cb f s) =
     results_of k s @ (case ci_completion cb of Some c \<Rightarrow> if k = rid then [(rid, case f c of Some r \<Rightarrow> r | None \<Rightarrow> Failure client_abandoned)] else [] | None \<Rightarrow> [])"
  by (simp add: results_of_def take_completion_def answer_caller_def split: option.split)

lemma results_of_cong: "cl_results s' = cl_results s \<Longrightarrow> results_of k s' = results_of k s"
  by (simp add: results_of_def)

lemma results_of_table [simp]:
  "results_of k (client_unregister rid s) = results_of k s" "results_of k (client_register rid cb s) = results_of k s"
  by (simp_all add: results_of_def)

text \<open>What the delivery of an event does to the request it is for: it answers the caller and drops the request, or it does neither.\<close>

definition delivered :: "string \<Rightarrow> 'card Client \<Rightarrow> 'card Client \<Rightarrow> bool" where
  "delivered rid s s' \<longleftrightarrow>
     (cl_request_data s' = cl_request_data s \<and> cl_tasks s' = cl_tasks s \<and> cl_sent s' = cl_sent s \<and> cl_uuids s' = cl_uuids s \<and>
      cl_closed s' = cl_closed s) \<and>
     (\<forall>k. k \<noteq> rid \<longrightarrow> im_get (cl_info s') k = im_get (cl_info s) k \<and> results_of k s' = results_of k s) \<and>
     (\<forall>cb. im_get (cl_info s) rid = Some cb \<longrightarrow> ci_completion cb \<noteq> None \<longrightarrow>
        im_get (cl_info s') rid = None \<and> (\<exists>r. results_of rid s' = results_of rid s @ [(rid, r)]) \<or>
        is_stream_method (ci_method cb) \<and> results_of rid s' = results_of rid s \<and> (\<exists>g. im_get (cl_info s') rid = Some (cb\<lparr> ci_mgr := g \<rparr>))) \<and>
     (im_get (cl_info s) rid = None \<longrightarrow> s' = s)"

definition ends_request :: "CallbackInfo \<Rightarrow> 'card TransportEvent \<Rightarrow> bool" where
  "ends_request cb ev \<longleftrightarrow> \<not> is_stream_method (ci_method cb) \<or>
     (case ev of TError _ \<Rightarrow> True | TStatus u \<Rightarrow> is_final_or_interrupted (ts_state (su_status u)) | _ \<Rightarrow> False)"

text \<open>A state that differs only in the logs of handlers and consumers.\<close>

definition logged :: "'card Client \<Rightarrow> 'card Client \<Rightarrow> bool" where
  "logged s s' \<longleftrightarrow> (\<exists>l m. s' = s\<lparr> cl_handled := l, cl_consumed := m \<rparr>)"

lemma logged_logs [simp]: "logged s s" "logged s (consume_event ce (call_handler rid cb ce s))"
proof -
  show "logged s s" unfolding logged_def by (rule exI [of _ "cl_handled s"], rule exI [of _ "cl_consumed s"]) simp
  show "logged s (consume_event ce (call_handler rid cb ce s))"
    unfolding logged_def consume_event_def call_handler_def
    by (rule exI [of _ "if ci_handler cb then cl_handled s @ [(rid, ce)] else cl_handled s"], rule exI [of _ "cl_consumed s @ [ce]"]) simp
qed

lemma success_resp_plain:
  assumes "\<not> is_stream_method (ci_method cb)" "handler_success_resp rid cb ev s = Some s'"
  shows "\<exists>f s1. logged s s1 \<and> s' = take_completion rid cb f s1"
proof -
  have "\<exists>f s1. logged s s1 \<and> take_completion rid cb f0 s2 = take_completion rid cb f s1" if "logged s s2" for f0 s2
    using that by blast
  then show ?thesis using assms
    by (auto simp: handler_success_resp_def Let_def split: if_splits option.splits TransportEvent.splits intro: logged_logs)
qed

lemma success_resp_stream:
  assumes "is_stream_method (ci_method cb)" "handler_success_resp rid cb ev s = Some s'"
  shows "(\<exists>f s1. logged s s1 \<and> s' = client_unregister rid (take_completion rid cb f s1)) \<or>
    (\<exists>g s1. logged s s1 \<and> s' = client_register rid (cb\<lparr> ci_mgr := g \<rparr>) s1 \<and> \<not> ends_request cb ev)"
proof -
  have m: "ci_method cb \<noteq> ''SendMessage''" using assms(1) by (auto simp: is_stream_method_def)
  obtain ce mgr fin where up: "stream_update (case ci_mgr cb of Some g \<Rightarrow> g | None \<Rightarrow> ClientTaskManager_new) ev = Some (ce, mgr, fin)"
    using assms m by (auto simp: handler_success_resp_def Let_def split: option.splits)
  let ?s = "consume_event ce (call_handler rid cb ce s)"
  have fin: "fin \<longleftrightarrow> ends_request cb ev"
    using up assms(1) by (auto simp: stream_update_def ends_request_def split: TransportEvent.splits sum.splits)
  have s': "s' = (if fin then client_unregister rid (take_completion rid cb (\<lambda>k. if k = CUnit then Some OkUnit else None) ?s)
      else client_register rid (cb\<lparr> ci_mgr := Some mgr \<rparr>) ?s)"
    using assms m up by (simp add: handler_success_resp_def Let_def)
  have l: "logged s ?s" by simp
  show ?thesis
  proof (cases fin)
    case True
    with s' have "s' = client_unregister rid (take_completion rid cb (\<lambda>k. if k = CUnit then Some OkUnit else None) ?s)" by simp
    with l show ?thesis by blast
  next
    case False
    with s' have "s' = client_register rid (cb\<lparr> ci_mgr := Some mgr \<rparr>) ?s" by simp
    with l fin False show ?thesis by blast
  qed
qed

lemma logged_frame:
  "logged s s' \<Longrightarrow> cl_info s' = cl_info s \<and> cl_request_data s' = cl_request_data s \<and> cl_tasks s' = cl_tasks s \<and> cl_sent s' = cl_sent s \<and>
     cl_uuids s' = cl_uuids s \<and> cl_closed s' = cl_closed s \<and> (\<forall>k. results_of k s' = results_of k s)"
  by (auto simp: logged_def results_of_def)

lemma handler_error_frame [simp]:
  "cl_info (handler_error_resp rid cb e s) = cl_info s" "cl_request_data (handler_error_resp rid cb e s) = cl_request_data s"
  "cl_tasks (handler_error_resp rid cb e s) = cl_tasks s" "cl_sent (handler_error_resp rid cb e s) = cl_sent s"
  "cl_uuids (handler_error_resp rid cb e s) = cl_uuids s" "cl_closed (handler_error_resp rid cb e s) = cl_closed s"
  "results_of k (handler_error_resp rid cb e s) =
     results_of k s @ (if k = rid \<and> ci_completion cb \<noteq> None then [(rid, Failure (A2aClientError_make (te_code e) (te_info e)))] else [])"
  by (auto simp: handler_error_resp_def Let_def results_of_take split: option.split cong: results_of_cong intro!: results_of_cong)

lemma delivered_event:
  assumes cb: "im_get (cl_info s) rid = Some cb"
  shows "delivered rid s (transport_event_cb rid ev s) \<and>
    (ends_request cb ev \<longrightarrow> im_get (cl_info (transport_event_cb rid ev s)) rid = None)"
proof (cases "\<exists>e. ev = TError e")
  case True
  then show ?thesis using cb
    by (auto simp: transport_event_cb_def Let_def delivered_def results_of_take split: option.split if_splits)
next
  case False
  let ?s = "if is_stream_method (ci_method cb) then s else client_unregister rid s"
  have s': "transport_event_cb rid ev s = (case handler_success_resp rid cb ev ?s of
      Some s2 \<Rightarrow> s2 | None \<Rightarrow> take_completion rid cb (\<lambda>_. None) (client_unregister rid ?s))"
    using False cb by (cases ev) (simp_all add: transport_event_cb_def Let_def)
  show ?thesis
  proof (cases "handler_success_resp rid cb ev ?s")
    case None
    then show ?thesis using cb
      by (auto simp: s' delivered_def results_of_take split: option.split)
  next
    case (Some s2)
    show ?thesis
    proof (cases "is_stream_method (ci_method cb)")
      case True
      then show ?thesis using success_resp_stream [OF True, of rid ev s s2] Some cb
        by (auto simp: s' delivered_def results_of_take dest!: logged_frame split: option.split)
    next
      case False
      then show ?thesis using success_resp_plain [OF False, of rid ev ?s s2] Some cb
        by (auto simp: s' delivered_def results_of_take dest!: logged_frame split: option.split)
    qed
  qed
qed


subsection \<open>The invariant\<close>

text \<open>
  Who waits is known to the transport, with the method of the request; what the transport knows and is not a stream has its
  task. Every request that was sent has one answer or waits for it.
\<close>

definition linked :: "'card Client \<Rightarrow> bool" where
  "linked s \<longleftrightarrow> (\<forall>rid cb. im_get (cl_info s) rid = Some cb \<longrightarrow>
     (\<exists>u. im_get (cl_request_data s) rid = Some u \<and> ud_method u = ci_method cb))"

definition exchanging :: "'card Client \<Rightarrow> bool" where
  "exchanging s \<longleftrightarrow> (\<forall>rid u. im_get (cl_request_data s) rid = Some u \<longrightarrow>
     ud_request_id u = rid \<and> ud_is_stream u = is_stream_method (ud_method u) \<and> (ud_is_stream u \<or> im_get (cl_tasks s) rid \<noteq> None))"

definition tasks_known :: "'card Client \<Rightarrow> bool" where
  "tasks_known s \<longleftrightarrow> (\<forall>rid u ph. im_get (cl_tasks s) rid = Some (u, ph) \<longrightarrow> ud_request_id u = rid \<and> ud_is_stream u = is_stream_method (ud_method u) \<and>
     (\<forall>v. im_get (cl_request_data s) rid = Some v \<longrightarrow> v = u))"

definition settled_once :: "'card Client \<Rightarrow> bool" where
  "settled_once s \<longleftrightarrow> (\<forall>rid. weight rid s = (if rid \<in> fst ` set (cl_sent s) then 1 else 0))"

definition client_ok :: "'card Client \<Rightarrow> bool" where
  "client_ok s \<longleftrightarrow> callers_wait s \<and> linked s \<and> exchanging s \<and> tasks_known s \<and> settled_once s"

text \<open>What the handling of a response keeps.\<close>

definition keeps_client :: "'card Client \<Rightarrow> 'card Client \<Rightarrow> bool" where
  "keeps_client s s' \<longleftrightarrow> cl_tasks s' = cl_tasks s \<and> cl_sent s' = cl_sent s \<and> cl_uuids s' = cl_uuids s \<and> cl_closed s' = cl_closed s \<and> (client_ok s \<longrightarrow> client_ok s')"

lemma keeps_client_refl [simp]: "keeps_client s s"
  by (simp add: keeps_client_def)

lemma keeps_client_trans: "keeps_client s s' \<Longrightarrow> keeps_client s' s'' \<Longrightarrow> keeps_client s s''"
  by (simp add: keeps_client_def)

lemma delivered_weight:
  assumes "delivered rid s s'" "callers_wait s"
  shows "weight k s' = weight k s"
proof (cases "im_get (cl_info s) rid")
  case None
  with assms(1) show ?thesis by (simp add: delivered_def)
next
  case (Some cb)
  with assms(2) have "ci_completion cb \<noteq> None" by (simp add: callers_wait_def)
  with assms(1) Some show ?thesis
    by (cases "k = rid") (auto simp: delivered_def weight_def waiting_def)
qed

lemma delivered_info:
  assumes "delivered rid s s'" "callers_wait s" "im_get (cl_info s') k = Some cb'"
  obtains cb where "im_get (cl_info s) k = Some cb" "ci_method cb' = ci_method cb" "ci_completion cb' \<noteq> None"
proof (cases "k = rid")
  case False
  then show thesis using that assms by (auto simp: delivered_def callers_wait_def)
next
  case True
  obtain cb where cb: "im_get (cl_info s) rid = Some cb" using assms(1,3) True by (cases "im_get (cl_info s) rid") (auto simp: delivered_def)
  with assms(2) have c: "ci_completion cb \<noteq> None" by (simp add: callers_wait_def)
  with assms(1,3) cb True obtain g where "cb' = cb\<lparr> ci_mgr := g \<rparr>" unfolding delivered_def by auto
  then show thesis using that cb c True by auto
qed

lemma transport_delivered: "delivered rid s (transport_event_cb rid ev s)"
  by (cases "im_get (cl_info s) rid") (auto simp: delivered_event, simp add: transport_event_cb_def delivered_def)

lemma ended_event:
  "im_get (cl_info s) rid = Some cb \<Longrightarrow> ends_request cb ev \<Longrightarrow> im_get (cl_info (transport_event_cb rid ev s)) rid = None"
  using delivered_event by blast

text \<open>An event for a request that stays in the tables, and one for a request that was just removed from the transport.\<close>

lemma keeps_deliver: "keeps_client s (transport_event_cb rid ev s)"
proof -
  let ?s = "transport_event_cb rid ev s"
  have d: "delivered rid s ?s" by (rule transport_delivered)
  then have same: "cl_request_data ?s = cl_request_data s" "cl_tasks ?s = cl_tasks s" "cl_sent ?s = cl_sent s"
    "cl_uuids ?s = cl_uuids s" "cl_closed ?s = cl_closed s" by (simp_all add: delivered_def)
  have "client_ok ?s" if ok: "client_ok s"
  proof -
    have w: "callers_wait s" and l: "linked s" using ok by (simp_all add: client_ok_def)
    have "callers_wait ?s" unfolding callers_wait_def using delivered_info [OF d w] by blast
    moreover have "linked ?s" unfolding linked_def same using delivered_info [OF d w] l unfolding linked_def by metis
    moreover have "settled_once ?s" using ok delivered_weight [OF d w] by (simp add: client_ok_def settled_once_def same)
    moreover have "exchanging ?s" "tasks_known ?s" 
      using ok unfolding client_ok_def exchanging_def tasks_known_def same by blast+
    ultimately show ?thesis by (simp add: client_ok_def)
  qed
  then show ?thesis by (simp add: keeps_client_def same)
qed

lemma keeps_finish:
  assumes u: "im_get (cl_request_data s) rid = Some u"
    and fin: "\<And>cb. im_get (cl_info s) rid = Some cb \<Longrightarrow> ci_method cb = ud_method u \<Longrightarrow> ends_request cb ev"
  shows "keeps_client s (transport_event_cb rid ev (snd (client_finish rid s)))"
proof -
  let ?s = "snd (client_finish rid s)"
  let ?t = "transport_event_cb rid ev ?s"
  have s: "cl_info ?s = cl_info s" "cl_results ?s = cl_results s" "cl_tasks ?s = cl_tasks s" "cl_sent ?s = cl_sent s"
    "cl_uuids ?s = cl_uuids s" "cl_closed ?s = cl_closed s" "cl_request_data ?s = im_remove rid (cl_request_data s)"
    by (simp_all add: client_finish_def)
  have d: "delivered rid ?s ?t" by (rule transport_delivered)
  then have same: "cl_request_data ?t = im_remove rid (cl_request_data s)" "cl_tasks ?t = cl_tasks s" "cl_sent ?t = cl_sent s"
    "cl_uuids ?t = cl_uuids s" "cl_closed ?t = cl_closed s" by (simp_all add: delivered_def s)
  have "client_ok ?t" if ok: "client_ok s"
  proof -
    have w: "callers_wait ?s" and l: "linked s" using ok by (simp_all add: client_ok_def callers_wait_def s)
    have gone: "im_get (cl_info ?t) rid = None"
    proof (cases "im_get (cl_info s) rid")
      case (Some cb)
      then have "ci_method cb = ud_method u" using l u unfolding linked_def by (metis option.inject)
      then show ?thesis using Some fin by (intro ended_event [of ?s rid cb]) (simp_all add: s)
    next
      case None
      then show ?thesis by (simp add: transport_event_cb_def s)
    qed
    have "callers_wait ?t" unfolding callers_wait_def using delivered_info [OF d w] by blast
    moreover have "linked ?t" unfolding linked_def
    proof (intro allI impI)
      fix k cb' assume k: "im_get (cl_info ?t) k = Some cb'"
      then have "k \<noteq> rid" using gone by auto
      moreover obtain cb where "im_get (cl_info s) k = Some cb" "ci_method cb' = ci_method cb"
        using delivered_info [OF d w k] by (auto simp: s)
      ultimately show "\<exists>u. im_get (cl_request_data ?t) k = Some u \<and> ud_method u = ci_method cb'"
        using l by (auto simp: linked_def same)
    qed
    moreover have "settled_once ?t"
      using ok delivered_weight [OF d w] by (simp add: client_ok_def settled_once_def same weight_def results_of_def waiting_def s)
    moreover have "exchanging ?t" "tasks_known ?t"
      using ok by (auto simp: client_ok_def exchanging_def tasks_known_def same split: if_splits)
    ultimately show ?thesis by (simp add: client_ok_def)
  qed
  then show ?thesis by (simp add: keeps_client_def same)
qed


subsection \<open>Responses\<close>

lemma finish_gone:
  assumes "im_get (cl_request_data s) rid = None"
  shows "snd (client_finish rid s) = s"
proof -
  have "im_remove rid (cl_request_data s) = cl_request_data s"
    using assms by (auto simp: im_remove_def map_of_eq_None_iff intro!: filter_True)
  then show ?thesis by (simp add: client_finish_def)
qed

text \<open>\<open>if finish then emit\<close>.\<close>

lemma keeps_finish_emit:
  assumes "\<And>u cb. im_get (cl_request_data s) rid = Some u \<Longrightarrow> ci_method cb = ud_method u \<Longrightarrow> ends_request cb ev"
  shows "keeps_client s (let (live, s1) = client_finish rid s in if live then transport_event_cb rid ev s1 else s1)"
proof (cases "im_get (cl_request_data s) rid")
  case None
  then have "fst (client_finish rid s) = False" by (simp add: client_finish_def)
  then show ?thesis using finish_gone [OF None] by (simp add: split_beta)
next
  case (Some u)
  then have "fst (client_finish rid s)" by (simp add: client_finish_def)
  then show ?thesis using keeps_finish [OF Some] assms [OF Some] by (simp add: split_beta)
qed

lemma finish_emit_data:
  "cl_request_data (let (live, s1) = client_finish rid s in if live then transport_event_cb rid ev s1 else s1) =
     im_remove rid (cl_request_data s)"
  using transport_delivered [of rid "snd (client_finish rid s)" ev] by (simp add: split_beta client_finish_def delivered_def)

lemma keeps_fail: "keeps_client s (client_fail u code msg s)"
  unfolding client_fail_def by (rule keeps_finish_emit) (simp add: ends_request_def)

lemma fail_data: "cl_request_data (client_fail u code msg s) = im_remove (ud_request_id u) (cl_request_data s)"
  unfolding client_fail_def by (rule finish_emit_data)

lemma keeps_stream_resp: "keeps_client s (snd (on_stream_resp env u data s))"
proof -
  let ?rid = "ud_request_id u"
  have err: "keeps_client s (let (live, s1) = client_finish ?rid s in if live then transport_event_cb ?rid (TError e) s1 else s1)" for e
    by (rule keeps_finish_emit) (simp add: ends_request_def)
  have fin: "keeps_client s (let (live, s1) = client_finish ?rid s in if live then transport_event_cb ?rid (transport_event ev) s1 else s1)"
    if "case ev of EvStatus x \<Rightarrow> is_final_or_interrupted (ts_state (su_status x)) | _ \<Rightarrow> False" for ev
    using that by (intro keeps_finish_emit) (auto simp: ends_request_def transport_event_def split: StreamEvent.splits)
  show ?thesis using err fin
    by (auto simp: on_stream_resp_def Let_def split_beta keeps_fail keeps_deliver split: option.split sum.split)
qed

text \<open>A stream that is finished is no longer known to the transport.\<close>

lemma stream_resp_closed:
  "\<not> fst (on_stream_resp env u data s) \<Longrightarrow> im_get (cl_request_data (snd (on_stream_resp env u data s))) (ud_request_id u) = None"
  using finish_emit_data [of "ud_request_id u" s]
  by (auto simp: on_stream_resp_def Let_def split_beta fail_data split: option.splits sum.splits if_splits)

lemma deliver_event_ok:
  "keeps_client s (snd (deliver_sse_event env u data s)) \<and>
   (fst (deliver_sse_event env u data s) \<longrightarrow> im_get (cl_request_data (snd (deliver_sse_event env u data s))) (ud_request_id u) = None)"
  using keeps_stream_resp [of s env u] stream_resp_closed [of env u _ s]
  by (auto simp: deliver_sse_event_def on_stream_fin_def keeps_fail fail_data split_beta Let_def split: sum.split)

lemma deliver_all_ok:
  "keeps_client s (snd (deliver_all env u evs s)) \<and>
   (fst (deliver_all env u evs s) \<longrightarrow> im_get (cl_request_data (snd (deliver_all env u evs s))) (ud_request_id u) = None)"
proof (induction evs arbitrary: s)
  case (Cons e es)
  obtain fin s1 where d: "deliver_sse_event env u (se_data e) s = (fin, s1)" by (cases "deliver_sse_event env u (se_data e) s")
  have "keeps_client s s1" "fin \<longrightarrow> im_get (cl_request_data s1) (ud_request_id u) = None"
    using deliver_event_ok [of s env u "se_data e"] by (simp_all add: d)
  then show ?case using Cons.IH [of s1] d by (cases fin) (auto intro: keeps_client_trans)
qed simp

lemma keeps_non_stream:
  assumes "\<not> is_stream_method (ud_method u)" "im_get (cl_request_data s) (ud_request_id u) = Some u"
  shows "keeps_client s (on_non_stream_resp env u data (snd (client_finish (ud_request_id u) s)))"
  unfolding on_non_stream_resp_def Let_def
  by (rule keeps_finish [OF assms(2)]) (use assms(1) in \<open>simp add: ends_request_def\<close>)

lemma keeps_json_body:
  assumes "tasks_known s" "im_get (cl_tasks s) (ud_request_id u) = Some (u, ph)"
  shows "keeps_client s (handle_json_body env u text s)"
proof (cases "im_get (cl_request_data s) (ud_request_id u)")
  case None
  then have "fst (client_finish (ud_request_id u) s) = False" by (simp add: client_finish_def)
  then show ?thesis using finish_gone [OF None] keeps_stream_resp
    by (auto simp: handle_json_body_def keeps_fail split_beta Let_def split: sum.split)
next
  case (Some v)
  then have v: "v = u" "ud_is_stream u = is_stream_method (ud_method u)" using assms unfolding tasks_known_def by blast+
  have "fst (client_finish (ud_request_id u) s)" using Some by (simp add: client_finish_def)
  then show ?thesis using keeps_stream_resp keeps_non_stream [of u s env] Some v
    by (auto simp: handle_json_body_def keeps_fail split_beta Let_def split: sum.split)
qed

lemma non_stream_data: "cl_request_data (on_non_stream_resp env u data s) = cl_request_data s"
  using transport_delivered unfolding on_non_stream_resp_def delivered_def Let_def by blast

lemma json_body_data:
  "\<not> ud_is_stream u \<Longrightarrow> im_get (cl_request_data (handle_json_body env u text s)) (ud_request_id u) = None"
  by (auto simp: handle_json_body_def fail_data non_stream_data client_finish_def Let_def split: sum.split)

text \<open>A task may end when its request is finished or is a stream.\<close>

lemma client_ok_tasks:
  "client_ok (s\<lparr> cl_tasks := T \<rparr>) \<longleftrightarrow>
     callers_wait s \<and> linked s \<and> exchanging (s\<lparr> cl_tasks := T \<rparr>) \<and> tasks_known (s\<lparr> cl_tasks := T \<rparr>) \<and> settled_once s"
  by (simp add: client_ok_def callers_wait_def linked_def settled_once_def weight_def results_of_def waiting_def)

lemma end_task_ok:
  assumes "client_ok s" "\<And>u. im_get (cl_request_data s) rid = Some u \<Longrightarrow> ud_is_stream u"
  shows "client_ok (end_task rid s)"
proof -
  have "exchanging (end_task rid s)" "tasks_known (end_task rid s)"
    using assms by (auto simp: client_ok_def exchanging_def tasks_known_def end_task_def split: if_splits)
  then show ?thesis using assms(1) unfolding end_task_def client_ok_tasks by (simp add: client_ok_def)
qed

lemma set_task_ok:
  assumes "client_ok s" "im_get (cl_tasks s) rid = Some (u, ph0)"
  shows "client_ok (set_task rid u ph s)"
proof -
  have "exchanging (set_task rid u ph s)" using assms by (auto simp: client_ok_def exchanging_def set_task_def split: if_splits)
  moreover have "tasks_known (set_task rid u ph s)"
    using assms unfolding client_ok_def tasks_known_def set_task_def by (auto split: if_splits)
  ultimately show ?thesis using assms(1) unfolding set_task_def client_ok_tasks by (simp add: client_ok_def)
qed

text \<open>The events of a connection.\<close>

definition steps_client :: "'card Client \<Rightarrow> 'card Client \<Rightarrow> bool" where
  "steps_client s s' \<longleftrightarrow> (client_ok s \<longrightarrow> client_ok s' \<and> cl_sent s' = cl_sent s \<and> cl_uuids s' = cl_uuids s)"

lemma steps_end:
  assumes "keeps_client s s'" "\<And>u. im_get (cl_request_data s') rid = Some u \<Longrightarrow> ud_is_stream u"
  shows "steps_client s (end_task rid s')"
  using assms end_task_ok [of s' rid] by (auto simp: steps_client_def keeps_client_def end_task_def)

lemma steps_set:
  assumes "keeps_client s s'" "im_get (cl_tasks s) rid = Some (u, ph0)"
  shows "steps_client s (set_task rid u ph s')"
  using assms set_task_ok [of s' rid u ph0 ph] by (auto simp: steps_client_def keeps_client_def set_task_def)

lemma steps_fail: "ud_request_id u = rid \<Longrightarrow> steps_client s (end_task rid (client_fail u code msg s))"
  by (rule steps_end [OF keeps_fail]) (simp add: fail_data)

lemma steps_response:
  "im_get (cl_tasks s) (ud_request_id u) = Some (u, ph0) \<Longrightarrow> steps_client s (on_response u status ctype s)"
  by (auto simp: on_response_def Let_def split: option.split intro!: steps_fail steps_set [OF keeps_client_refl])

lemma task_data:
  assumes "client_ok s" "im_get (cl_tasks s) rid = Some (u, ph)" "keeps_client s s'" "im_get (cl_request_data s') rid = Some v"
  shows "v = u"
  using assms unfolding keeps_client_def client_ok_def tasks_known_def by metis

lemma steps_read_json:
  assumes "im_get (cl_tasks s) (ud_request_id u) = Some (u, ph)"
  shows "steps_client s (read_json_body env u r s)"
proof (cases "client_ok s")
  case True
  have k: "keeps_client s (handle_json_body env u b s)" for b
    using True assms by (intro keeps_json_body) (simp_all add: client_ok_def)
  have "ud_is_stream v" if "im_get (cl_request_data (handle_json_body env u b s)) (ud_request_id u) = Some v" for v b
  proof (rule ccontr)
    have "v = u" using task_data [OF True assms k that] .
    moreover assume "\<not> ud_is_stream v"
    ultimately show False using that json_body_data [of u env b s] by simp
  qed
  then show ?thesis using k
    by (auto simp: read_json_body_def Let_def steps_client_def [of s s] split: Read.split intro!: steps_fail steps_end)
next
  case False
  then show ?thesis by (simp add: steps_client_def)
qed


lemma steps_read_sse:
  assumes "im_get (cl_tasks s) (ud_request_id u) = Some (u, ph)"
  shows "steps_client s (read_sse env u p r s)"
proof (cases r)
  case (Bytes chunk)
  obtain evs p1 where f: "feed p chunk = (evs, p1)" by (cases "feed p chunk")
  obtain fin s1 where d: "deliver_all env u evs s = (fin, s1)" by (cases "deliver_all env u evs s")
  have "keeps_client s s1" "fin \<longrightarrow> im_get (cl_request_data s1) (ud_request_id u) = None" using deliver_all_ok [of s env u evs] by (simp_all add: d)
  then show ?thesis using Bytes f d assms by (auto simp: read_sse_def Let_def intro!: steps_end steps_set)
next
  case ReadEnd
  obtain fin s1 where d: "deliver_all env u (list_of_option (fst (sse_finish p))) s = (fin, s1)"
    by (cases "deliver_all env u (list_of_option (fst (sse_finish p))) s")
  have k: "keeps_client s s1" "fin \<longrightarrow> im_get (cl_request_data s1) (ud_request_id u) = None"
    using deliver_all_ok [of s env u "list_of_option (fst (sse_finish p))"] by (simp_all add: d)
  have "keeps_client s (on_stream_fin u s1)" unfolding on_stream_fin_def by (rule keeps_client_trans [OF k(1) keeps_fail])
  then show ?thesis using ReadEnd d k by (auto simp: read_sse_def Let_def on_stream_fin_def fail_data intro!: steps_end)
qed (auto simp: read_sse_def Let_def intro!: steps_fail)

subsection \<open>Requests\<close>

text \<open>The identifiers of the requests that were sent are old ones.\<close>

definition ids_used :: "'card ClientEnv \<Rightarrow> 'card Client \<Rightarrow> bool" where
  "ids_used env s \<longleftrightarrow> fst ` set (cl_sent s) \<subseteq> cv_uuid env ` {..<cl_uuids s}"

lemma client_ok_uuids [simp]: "client_ok (s\<lparr> cl_uuids := n \<rparr>) \<longleftrightarrow> client_ok s"
  by (simp add: client_ok_def callers_wait_def linked_def exchanging_def tasks_known_def settled_once_def weight_def results_of_def waiting_def)

lemma fresh_id:
  assumes "client_ok s" "rid \<notin> fst ` set (cl_sent s)"
  shows "im_get (cl_info s) rid = None" "results_of rid s = []"
proof -
  have "weight rid s = 0" using assms by (simp add: client_ok_def settled_once_def)
  then show "im_get (cl_info s) rid = None" "results_of rid s = []" by (simp_all add: weight_def waiting_def split: if_splits)
qed

text \<open>A request is either sent, with an entry in each table, or leaves no trace but its identifier.\<close>

lemma submit_started:
  assumes ok: "client_ok s" and fresh: "ud_request_id u \<notin> fst ` set (cl_sent s)"
    and cb: "ci_completion cb \<noteq> None" "ci_method cb = ud_method u" "ud_is_stream u = is_stream_method (ud_method u)"
    and sent: "submit u body (client_register (ud_request_id u) cb s) = (Inr x, s')"
  shows "client_ok s'"
proof -
  let ?rid = "ud_request_id u"
  have s': "s' = (client_register ?rid cb s)\<lparr> cl_request_data := im_insert ?rid u (cl_request_data s),
      cl_tasks := im_insert ?rid (u, Sent) (cl_tasks s), cl_sent := cl_sent s @ [(?rid, body)] \<rparr>"
    using sent by (auto simp: submit_def split: if_splits)
  note new = fresh_id [OF ok fresh]
  have info: "im_get (cl_info s') k = (if k = ?rid then Some cb else im_get (cl_info s) k)" for k by (simp add: s')
  have data: "im_get (cl_request_data s') k = (if k = ?rid then Some u else im_get (cl_request_data s) k)" for k by (simp add: s')
  have tasks: "im_get (cl_tasks s') k = (if k = ?rid then Some (u, Sent) else im_get (cl_tasks s) k)" for k by (simp add: s')
  have res: "results_of k s' = results_of k s" for k by (simp add: s' results_of_def client_register_def)
  have "callers_wait s'" using ok cb(1) by (auto simp: client_ok_def callers_wait_def info split: if_splits)
  moreover have "linked s'" using ok cb(2) by (auto simp: client_ok_def linked_def info data split: if_splits)
  moreover have "exchanging s'" using ok cb(3) by (auto simp: client_ok_def exchanging_def data tasks split: if_splits)
  moreover have "tasks_known s'" using ok cb(3) by (auto simp: client_ok_def tasks_known_def data tasks split: if_splits)
  moreover have "settled_once s'" unfolding settled_once_def
  proof
    fix k
    show "weight k s' = (if k \<in> fst ` set (cl_sent s') then 1 else 0)"
    proof (cases "k = ?rid")
      case True
      then show ?thesis using new(2) res [of ?rid] info [of ?rid] by (simp add: weight_def waiting_def) (simp add: s')
    next
      case False
      moreover have "weight k s' = weight k s" using False by (simp add: weight_def waiting_def info res)
      ultimately show ?thesis using ok by (auto simp: client_ok_def settled_once_def s')
    qed
  qed
  ultimately show ?thesis by (simp add: client_ok_def)
qed


lemma client_ok_cong:
  assumes "\<And>k. im_get (cl_info s') k = im_get (cl_info s) k" "cl_request_data s' = cl_request_data s" "cl_tasks s' = cl_tasks s"
    "cl_sent s' = cl_sent s" "cl_results s' = cl_results s" "client_ok s"
  shows "client_ok s'"
  using assms(6) unfolding client_ok_def callers_wait_def linked_def exchanging_def tasks_known_def settled_once_def weight_def
    results_of_def waiting_def assms(1-5) .

definition client_inv :: "'card ClientEnv \<Rightarrow> 'card Client \<Rightarrow> bool" where
  "client_inv env s \<longleftrightarrow> client_ok s \<and> ids_used env s"

text \<open>What the sending of a request comes to: an error, or the request is handed to the transport.\<close>

definition sends :: "(string \<Rightarrow> 'card Client \<Rightarrow> (A2aClientError + unit) \<times> 'card Client) \<Rightarrow> string \<Rightarrow> bool" where
  "sends send m \<longleftrightarrow> (\<forall>rid s. (\<exists>e. send rid s = (Inl e, s)) \<or>
     (\<exists>u body. ud_request_id u = rid \<and> ud_method u = m \<and> ud_is_stream u = is_stream_method m \<and> send rid s = submit u body s))"

lemma sends_payload: "sends (\<lambda>rid. send_payload env rid m payload) m"
proof (cases payload)
  case (Inr v)
  have "\<exists>u body. ud_request_id u = rid \<and> ud_method u = m \<and> ud_is_stream u = is_stream_method m \<and>
      send_payload env rid m payload s = submit u body s" for rid s
    unfolding send_payload_def Inr transport_send_def Let_def sum.case
    by (rule exI [of _ "\<lparr> ud_request_id = rid, ud_method = m, ud_is_stream = is_stream_method m \<rparr>"]) (simp, blast)
  then show ?thesis by (simp add: sends_def)
qed (simp add: sends_def send_payload_def)

lemma sends_card: "sends (\<lambda>rid. submit \<lparr> ud_request_id = rid, ud_method = ''GetAgentCard'', ud_is_stream = False \<rparr> body) ''GetAgentCard''"
proof -
  have "\<exists>u b. ud_request_id u = rid \<and> ud_method u = ''GetAgentCard'' \<and> ud_is_stream u = is_stream_method ''GetAgentCard'' \<and>
      submit \<lparr> ud_request_id = rid, ud_method = ''GetAgentCard'', ud_is_stream = False \<rparr> body s = submit u b s" for rid s
    by (rule exI [of _ "\<lparr> ud_request_id = rid, ud_method = ''GetAgentCard'', ud_is_stream = False \<rparr>"], rule exI [of _ body])
       (simp add: is_stream_method_def)
  then show ?thesis unfolding sends_def by blast
qed

lemma start_inv:
  assumes inj: "inj (cv_uuid env)" and inv: "client_inv env s" and info: "ci_completion info \<noteq> None" and send: "sends send (ci_method info)"
  shows "client_inv env (snd (start_request env info send s))"
proof -
  define rid where "rid = cv_uuid env (cl_uuids s)"
  let ?s = "s\<lparr> cl_uuids := Suc (cl_uuids s) \<rparr>"
  have ok: "client_ok ?s" using inv by (simp add: client_inv_def)
  have old: "fst ` set (cl_sent s) \<subseteq> cv_uuid env ` {..<cl_uuids s}" using inv by (simp add: client_inv_def ids_used_def)
  have fresh: "rid \<notin> fst ` set (cl_sent ?s)" using old inj by (auto simp: rid_def dest: injD)
  note new = fresh_id [OF ok fresh]
  consider e where "send rid (client_register rid info ?s) = (Inl e, client_register rid info ?s)"
    | u body where "ud_request_id u = rid" "ud_method u = ci_method info" "ud_is_stream u = is_stream_method (ci_method info)"
      "send rid (client_register rid info ?s) = submit u body (client_register rid info ?s)"
    using send unfolding sends_def by blast
  then show ?thesis
  proof cases
    case 1
    then have s': "snd (start_request env info send s) = client_unregister rid (client_register rid info ?s)"
      by (simp add: start_request_def rid_def [symmetric] Let_def)
    have "client_ok (client_unregister rid (client_register rid info ?s))"
      by (rule client_ok_cong [OF _ _ _ _ _ ok]) (use new(1) in auto)
    then show ?thesis using old by (auto simp: s' client_inv_def ids_used_def less_Suc_eq)
  next
    case 2
    show ?thesis
    proof (cases "cl_closed s")
      case True
      then have s': "snd (start_request env info send s) = client_unregister rid (client_register rid info ?s)"
        using 2(4) by (simp add: start_request_def rid_def [symmetric] Let_def submit_def)
      have "client_ok (client_unregister rid (client_register rid info ?s))"
        by (rule client_ok_cong [OF _ _ _ _ _ ok]) (use new(1) in auto)
      then show ?thesis using old by (auto simp: s' client_inv_def ids_used_def less_Suc_eq)
    next
      case False
      then obtain s2 where sub: "submit u body (client_register rid info ?s) = (Inr (), s2)" by (simp add: submit_def)
      then have s': "snd (start_request env info send s) = s2" using 2(4) by (simp add: start_request_def rid_def [symmetric] Let_def)
      have "client_ok s2"
        by (rule submit_started [OF ok, of u info body "()" s2]) (use 2 info fresh sub in simp_all)
      moreover have "cl_sent s2 = cl_sent s @ [(rid, body)]" "cl_uuids s2 = Suc (cl_uuids s)"
        using sub False 2(1) by (auto simp: submit_def client_register_def)
      ultimately show ?thesis using old by (auto simp: s' client_inv_def ids_used_def rid_def less_Suc_eq)
    qed
  qed
qed

lemma guarded_inv: "client_inv env s \<Longrightarrow> client_inv env (snd (f s)) \<Longrightarrow> client_inv env (snd (guarded b f s))"
  by (simp add: guarded_def)

lemma calls_inv:
  assumes "inj (cv_uuid env)" "client_inv env s"
  shows "client_inv env (snd (client_send_message env m s))" "client_inv env (snd (client_get_task env p1 s))"
    "client_inv env (snd (client_cancel_task env p2 s))" "client_inv env (snd (client_set_push env p3 s))"
    "client_inv env (snd (client_get_push env p4 s))" "client_inv env (snd (client_list_push env p5 s))"
    "client_inv env (snd (client_delete_push env p6 s))" "client_inv env (snd (client_resubscribe env p2 s))"
    "client_inv env (snd (client_get_card env s))"
proof -
  show "client_inv env (snd (client_get_card env s))"
    unfolding client_get_card_def by (rule start_inv [OF assms]) (simp_all add: sends_card)
qed (use assms in \<open>auto simp: client_send_message_def process_message_request_def client_get_task_def client_cancel_task_def client_set_push_def
    client_get_push_def client_list_push_def client_delete_push_def client_resubscribe_def simple_request_def sends_payload
    intro!: guarded_inv start_inv\<close>)


text \<open>Closing tells everyone who waits.\<close>

definition tell_closed :: "string \<times> UserData \<Rightarrow> 'card Client \<Rightarrow> 'card Client" where
  "tell_closed = (\<lambda>(rid, u). transport_event_cb (ud_request_id u) (TError \<lparr> te_code = A2aStatusError, te_info = ''Transport is closed'' \<rparr>))"

lemma tell_closed_all:
  assumes "callers_wait s"
  shows "callers_wait (fold tell_closed L s) \<and> (\<forall>k. weight k (fold tell_closed L s) = weight k s) \<and>
    cl_sent (fold tell_closed L s) = cl_sent s \<and> cl_uuids (fold tell_closed L s) = cl_uuids s \<and> cl_tasks (fold tell_closed L s) = cl_tasks s \<and>
    cl_request_data (fold tell_closed L s) = cl_request_data s \<and>
    (\<forall>k. waiting k (fold tell_closed L s) \<longrightarrow> waiting k s \<and> k \<notin> ud_request_id ` snd ` set L)"
  using assms
proof (induction L arbitrary: s)
  case (Cons p L)
  obtain x u where p: "p = (x, u)" by (cases p)
  let ?rid = "ud_request_id u" and ?s = "tell_closed p s"
  have d: "delivered ?rid s ?s" by (simp add: tell_closed_def p transport_delivered)
  have w: "callers_wait ?s" unfolding callers_wait_def using delivered_info [OF d Cons.prems] by blast
  have gone: "im_get (cl_info ?s) ?rid = None"
  proof (cases "im_get (cl_info s) ?rid")
    case (Some cb)
    then show ?thesis by (simp add: tell_closed_def p ended_event ends_request_def)
  qed (simp add: tell_closed_def p transport_event_cb_def)
  have "waiting k s \<and> k \<noteq> ?rid" if "waiting k ?s" for k
  proof (cases "k = ?rid")
    case False
    then show ?thesis using that d by (simp add: waiting_def delivered_def)
  qed (use gone that in \<open>simp add: waiting_def\<close>)
  then show ?case using Cons.IH [OF w] delivered_weight [OF d Cons.prems] d by (auto simp: delivered_def p)
qed simp

lemma close_inv:
  assumes "client_inv env s"
  shows "client_inv env (client_close s) \<and> (\<forall>k. \<not> waiting k (client_close s))"
proof -
  let ?s = "s\<lparr> cl_closed := True, cl_request_data := [] \<rparr>"
  have ok: "client_ok s" using assms by (simp add: client_inv_def)
  have close: "client_close s = fold tell_closed (cl_request_data s) ?s" by (simp add: client_close_def tell_closed_def)
  have w: "callers_wait ?s" using ok by (simp add: client_ok_def callers_wait_def)
  note all = tell_closed_all [OF w, of "cl_request_data s", folded close]
  have none: "\<not> waiting k (client_close s)" for k
  proof
    assume k: "waiting k (client_close s)"
    then have "waiting k s" using all by (auto simp: waiting_def)
    then obtain u where u: "im_get (cl_request_data s) k = Some u" using ok by (auto simp: client_ok_def linked_def waiting_def)
    then have "ud_request_id u = k" "(k, u) \<in> set (cl_request_data s)" using ok by (auto simp: client_ok_def exchanging_def dest: map_of_SomeD)
    then show False using k all by force
  qed
  have t: "tasks_known (client_close s)" "exchanging (client_close s)" "callers_wait (client_close s)"
    using all ok by (auto simp: client_ok_def tasks_known_def exchanging_def)
  have "linked (client_close s)" using none by (auto simp: linked_def waiting_def)
  moreover have "settled_once (client_close s)"
    using all ok by (simp add: client_ok_def settled_once_def) (simp add: weight_def results_of_def waiting_def)
  ultimately show ?thesis using t none all assms by (auto simp: client_inv_def client_ok_def ids_used_def)
qed

lemma steps_inv: "steps_client s s' \<Longrightarrow> client_inv env s \<Longrightarrow> client_inv env s'"
  by (simp add: steps_client_def client_inv_def ids_used_def)

lemma exec_inv:
  assumes "inj (cv_uuid env)" "client_inv env s"
  shows "client_inv env (client_exec env e s)"
proof -
  have id: "ud_request_id u = rid" if "im_get (cl_tasks s) rid = Some (u, ph)" for rid u ph
    using assms(2) that by (auto simp: client_inv_def client_ok_def tasks_known_def)
  show ?thesis
  proof (cases e)
    case (HttpFailed rid t m)
    then show ?thesis using assms(2) id
      by (auto simp: client_exec_def split: option.split Phase.split intro!: steps_inv [OF steps_fail])
  next
    case (HttpResponse rid st ct)
    then show ?thesis using assms(2) id
      by (auto simp: client_exec_def split: option.split Phase.split intro!: steps_inv [OF steps_response])
  next
    case (HttpRead rid r)
    then show ?thesis using assms(2) id
      by (auto simp: client_exec_def split: option.split Phase.split intro!: steps_inv [OF steps_read_json] steps_inv [OF steps_read_sse])
  next
    case CallClose
    then show ?thesis using close_inv [OF assms(2)] by (simp add: client_exec_def)
  qed (use assms calls_inv in \<open>auto simp: client_exec_def\<close>)
qed

lemma new_client_inv: "client_inv env Client_new"
  by (simp add: client_inv_def ids_used_def client_ok_def callers_wait_def linked_def exchanging_def tasks_known_def settled_once_def
      weight_def results_of_def waiting_def Client_new_def)

lemma client_run_inv: "inj (cv_uuid env) \<Longrightarrow> client_inv env s \<Longrightarrow> client_inv env (client_run env es s)"
  unfolding client_run_def by (induction es arbitrary: s) (auto intro: exec_inv)

text \<open>
  C16. Every call of the A2A client is answered at most once and is not forgotten. Whatever calls are made and whatever the connections yield, in any order (failures, other
  statuses, bodies and stream chunks of any content, timeouts, closing), a request that was sent either waits, in the table of the client
  and of the transport, and has no answer yet, or has exactly one answer and waits no longer; one that was not sent has no answer. A request that waits and is
  not a stream still has its HTTP exchange running. After closing nobody waits.
\<close>

theorem client_answers_once:
  assumes "inj (cv_uuid env)" and "s = client_run env es Client_new"
  shows "(if rid \<in> fst ` set (cl_sent s) then
            waiting rid s \<and> im_get (cl_request_data s) rid \<noteq> None \<and> results_of rid s = [] \<or> \<not> waiting rid s \<and> length (results_of rid s) = 1
          else \<not> waiting rid s \<and> results_of rid s = []) \<and>
    (case im_get (cl_info s) rid of
       Some cb \<Rightarrow> is_stream_method (ci_method cb) \<or> im_get (cl_tasks s) rid \<noteq> None | None \<Rightarrow> True) \<and>
    \<not> waiting rid (client_close s)"
proof -
  have inv: "client_inv env s" using assms client_run_inv new_client_inv by blast
  then have "weight rid s = (if rid \<in> fst ` set (cl_sent s) then 1 else 0)" by (simp add: client_inv_def client_ok_def settled_once_def)
  moreover have "\<exists>u. im_get (cl_request_data s) rid = Some u \<and> ud_method u = ci_method cb" if "im_get (cl_info s) rid = Some cb" for cb
    using inv that by (auto simp: client_inv_def client_ok_def linked_def)
  moreover have "ud_is_stream u = is_stream_method (ud_method u) \<and> (ud_is_stream u \<or> im_get (cl_tasks s) rid \<noteq> None)"
    if "im_get (cl_request_data s) rid = Some u" for u
    using inv that by (auto simp: client_inv_def client_ok_def exchanging_def)
  ultimately show ?thesis using close_inv [OF inv]
    by (fastforce simp: weight_def waiting_def split: if_splits option.split)
qed

definition get_demo :: "unit ClientEnv" where
  "get_demo = \<lparr> cv_rpc = \<lparr> rpc_from_str = Inl, rpc_to_string = (\<lambda>_. ''x''), rpc_de_err = (\<lambda>_. []) \<rparr>, cv_uuid = show_nat,
     cv_card_from_json = (\<lambda>_. Inr ()), cv_float_text = (\<lambda>_. []), cv_intercept = (\<lambda>_ b. b), cv_streaming = True,
     cv_card_streaming = Some True, cv_polling = False, cv_output_modes = None, cv_push_configs = [] \<rparr>"

definition get_demo_run :: "unit Client" where
  "get_demo_run = client_run get_demo
     [CallGetTask \<lparr> tq_history_length = None, tq_id = ''t'', tq_metadata = None \<rparr>, HttpResponse ''0'' 200 (Some ''application/json''),
      HttpRead ''0'' (Bytes ''not json''), HttpRead ''0'' ReadTimeout] Client_new"

theorem client_answers_once_witness:
  "''0'' \<in> fst ` set (cl_sent get_demo_run) \<and> \<not> waiting ''0'' get_demo_run \<and> length (results_of ''0'' get_demo_run) = 1"
proof -
  have "inj (cv_uuid get_demo)" by (rule injI) (simp add: get_demo_def)
  from client_answers_once [OF this get_demo_run_def, of "''0''"]
  have "if ''0'' \<in> fst ` set (cl_sent get_demo_run) then
      waiting ''0'' get_demo_run \<and> im_get (cl_request_data get_demo_run) ''0'' \<noteq> None \<and> results_of ''0'' get_demo_run = [] \<or>
      \<not> waiting ''0'' get_demo_run \<and> length (results_of ''0'' get_demo_run) = 1
    else \<not> waiting ''0'' get_demo_run \<and> results_of ''0'' get_demo_run = []" by blast
  moreover have "map fst (cl_sent get_demo_run) = [''0'']" "map fst (cl_info get_demo_run) = []" by code_simp+
  ultimately show ?thesis by (auto simp: waiting_def simp flip: list.set_map)
qed

end
