(* ===== verification/A2AStream.thy ===== *)
theory A2AStream
  imports A2AClientLaws A2ALive
begin

text \<open>
  A stream from the A2A server to the handler of the A2A client: the events the server emits for a request, as JSON-RPC responses in
  server-sent events, cut into any chunks, are the events the handler sees; and the task the client accumulates
  is the one of the server.
\<close>

subsection \<open>The emitter of the server\<close>

definition stream_response :: "RequestId option \<Rightarrow> StreamEvent \<Rightarrow> RpcResponse" where
  "stream_response i ev =
     \<lparr> rs_jsonrpc = JSONRPC_VERSION, rs_id = i, rs_result = Some (projr (StreamEvent_to_json ev)), rs_error = None \<rparr>"

lemma stream_response_ok: "stream_event_ok ev \<Longrightarrow> success_response StreamEvent_to_json i ev = Inr (stream_response i ev)"
  using stream_event.encode_decode [of ev] by (auto simp: success_response_def stream_response_def)

lemma emit_open:
  assumes "im_get (sv_emitters s) n = Some e" "em_streaming e" "stream_event_ok ev"
  shows "im_get (sv_emitters (emit (StreamEmit i n) ev s)) n =
    Some (e\<lparr> em_out := em_out e @ [stream_response i ev], em_streaming := \<not> is_final_event ev \<rparr>)"
  using assms by (simp add: emit_def stream_response_ok Let_def write_streaming_data_def write_done_def)

lemma emit_closed:
  assumes "im_get (sv_emitters s) n = Some e" "\<not> em_streaming e"
  shows "im_get (sv_emitters (emit (StreamEmit i n) ev s)) n = Some e"
  using assms by (auto simp: emit_def Let_def write_streaming_data_def write_done_def split: sum.split)

lemma emits_closed:
  "im_get (sv_emitters s) n = Some e \<Longrightarrow> \<not> em_streaming e \<Longrightarrow> im_get (sv_emitters (fold (emit (StreamEmit i n)) evs s)) n = Some e"
  by (induction evs arbitrary: s) (simp_all add: emit_closed)

lemma emits_open:
  assumes "im_get (sv_emitters s) n = Some e" "em_streaming e" "list_all stream_event_ok evs" "list_all (\<lambda>ev. \<not> is_final_event ev) evs"
  shows "im_get (sv_emitters (fold (emit (StreamEmit i n)) evs s)) n = Some (e\<lparr> em_out := em_out e @ map (stream_response i) evs \<rparr>)"
  using assms
proof (induction evs arbitrary: s e)
  case (Cons ev evs)
  have "im_get (sv_emitters (emit (StreamEmit i n) ev s)) n = Some (e\<lparr> em_out := em_out e @ [stream_response i ev] \<rparr>)"
    using emit_open [OF Cons.prems(1,2)] Cons.prems(2,3,4) by (cases e) simp
  then show ?case using Cons.IH [of "emit (StreamEmit i n) ev s" "e\<lparr> em_out := em_out e @ [stream_response i ev] \<rparr>"] Cons.prems by simp
qed simp

lemma emitted_stream:
  assumes "im_get (sv_emitters s) n = Some Emitter_streaming" "list_all stream_event_ok (evs @ [fin])"
    "list_all (\<lambda>ev. \<not> is_final_event ev) evs" "is_final_event fin"
  shows "map_option em_out (im_get (sv_emitters (fold (emit (StreamEmit i n)) (evs @ fin # later) s)) n) =
    Some (map (stream_response i) (evs @ [fin]))"
proof -
  let ?s = "fold (emit (StreamEmit i n)) evs s"
  have "im_get (sv_emitters ?s) n = Some (Emitter_streaming\<lparr> em_out := map (stream_response i) evs \<rparr>)"
    using emits_open [OF assms(1)] assms(2,3) by (simp add: Emitter_streaming_def)
  from emit_open [OF this, of fin i] have "im_get (sv_emitters (emit (StreamEmit i n) fin ?s)) n =
      Some (Emitter_streaming\<lparr> em_out := map (stream_response i) (evs @ [fin]), em_streaming := False \<rparr>)"
    using assms(2,4) by (simp add: Emitter_streaming_def)
  from emits_closed [OF this, of i later] show ?thesis by simp
qed

subsection \<open>The stream of the client\<close>

text \<open>What \<open>serde_json\<close> promises of the text of a value: it is one line of UTF-8 and reads back.\<close>

definition json_text_ok :: "RpcEnv \<Rightarrow> json \<Rightarrow> bool" where
  "json_text_ok env v \<longleftrightarrow> rpc_from_str env (rpc_to_string env v) = Inr v \<and> rpc_to_string env v \<noteq> [] \<and>
     CR \<notin> set (rpc_to_string env v) \<and> well_formed (rpc_to_string env v)"

definition data_event :: "RpcEnv \<Rightarrow> RpcResponse \<Rightarrow> SseEvent" where
  "data_event env r = \<lparr> se_event = None, se_data = rpc_to_string env (RpcResponse_to_value r), se_id = None, se_retry = None \<rparr>"

definition stream_chunk :: "RpcEnv \<Rightarrow> RpcResponse \<Rightarrow> string" where
  "stream_chunk env r = to_wire (data_event env r)"

lemma parsed_stream:
  assumes "\<And>r. r \<in> set rs \<Longrightarrow> json_text_ok env (RpcResponse_to_value r)" "concat chunks = concat (map (stream_chunk env) rs)"
  shows "fst (feed_all SseParser_new chunks) = map (data_event env) rs"
proof -
  have "list_all wire_ok (map (data_event env) rs)"
    using assms(1) by (auto simp: list_all_iff wire_ok_def data_event_def json_text_ok_def)
  moreover have "concat chunks = concat (map to_wire (map (data_event env) rs))"
    using assms(2) by (simp add: comp_def stream_chunk_def [abs_def])
  ultimately have "fst (feed_all SseParser_new chunks) = carry_ids None (map (data_event env) rs)" by (rule stream_events)
  moreover have "carry_ids None (map (data_event env) rs) = map (data_event env) rs"
    by (induction rs) (simp_all add: data_event_def or_id_def)
  ultimately show ?thesis by simp
qed

text \<open>A request whose stream is open, with the task it has accumulated.\<close>

definition live :: "string \<Rightarrow> UserData \<Rightarrow> ClientTaskManager \<Rightarrow> 'card Client \<Rightarrow> bool" where
  "live rid u g s \<longleftrightarrow> ud_request_id u = rid \<and> im_get (cl_request_data s) rid = Some u \<and>
     (\<exists>cb. im_get (cl_info s) rid = Some cb \<and> is_stream_method (ci_method cb) \<and> ci_completion cb = Some CUnit \<and> ci_handler cb \<and>
        ci_mgr cb = Some g)"

text \<open>Events of a running task, and what the handler sees of them.\<close>

definition running :: "StreamEvent \<Rightarrow> bool" where
  "running ev = (case ev of EvStatus u \<Rightarrow> \<not> is_final_or_interrupted (ts_state (su_status u)) | EvArtifact a \<Rightarrow> True | _ \<Rightarrow> False)"

definition client_apply :: "StreamEvent \<Rightarrow> Task \<Rightarrow> Task" where
  "client_apply ev t = (case ev of EvStatus u \<Rightarrow> client_apply_status u t | EvArtifact a \<Rightarrow> client_append_artifact a t | _ \<Rightarrow> t)"

definition update_of :: "StreamEvent \<Rightarrow> UpdateEvent" where
  "update_of ev = (case ev of EvStatus u \<Rightarrow> StatusUpd u | EvArtifact a \<Rightarrow> ArtifactUpd a | _ \<Rightarrow> NoUpdate)"

fun client_view :: "Task \<Rightarrow> StreamEvent list \<Rightarrow> ClientEvent list" where
  "client_view t [] = []"
| "client_view t (ev # evs) = CTaskUpdate (client_apply ev t) (update_of ev) # client_view (client_apply ev t) evs"

lemma response_fields:
  assumes "stream_event_ok ev"
  shows "jget (RpcResponse_to_value (stream_response i ev)) ''error'' = None"
    "jget (RpcResponse_to_value (stream_response i ev)) ''id'' = Some (case i of Some j \<Rightarrow> RequestId_to_value j | None \<Rightarrow> JNull)"
    "StreamEvent_from_json (j_option (jget (RpcResponse_to_value (stream_response i ev)) ''result'')) = Inr ev"
  using stream_event.written [OF assms]
  by (simp_all add: jget_def RpcResponse_to_value_def stream_response_def some_members_def j_option_def)

lemma deliver_response:
  assumes "json_text_ok (cv_rpc env) (RpcResponse_to_value r)" "r = stream_response (Some (IdString rid)) ev" "stream_event_ok ev" "ud_request_id u = rid"
  shows "deliver_sse_event env u (se_data (data_event (cv_rpc env) r)) s =
    (if (case ev of EvStatus x \<Rightarrow> is_final_or_interrupted (ts_state (su_status x)) | _ \<Rightarrow> False) then
       (True, let (is_live, s1) = client_finish rid s in if is_live then transport_event_cb rid (transport_event ev) s1 else s1)
     else (False, transport_event_cb rid (transport_event ev) s))"
  using assms response_fields [OF assms(3), of "Some (IdString rid)"]
  by (simp add: deliver_sse_event_def data_event_def json_text_ok_def on_stream_resp_def id_matches_def RequestId_to_value_def Let_def split_beta)


text \<open>What one event does to an open request.\<close>

lemma live_update:
  fixes s :: "'card Client" and te :: "'card TransportEvent"
  assumes "live rid u g s" "stream_update g te = Some (ce, g', False)" "\<forall>e. te \<noteq> TError e"
  shows "live rid u g' (transport_event_cb rid te s) \<and>
    cl_handled (transport_event_cb rid te s) = cl_handled s @ [(rid, ce)] \<and>
    cl_results (transport_event_cb rid te s) = cl_results s \<and>
    cl_tasks (transport_event_cb rid te s) = cl_tasks s"
proof -
  obtain cb where cb: "im_get (cl_info s) rid = Some cb" "is_stream_method (ci_method cb)" "ci_handler cb" "ci_mgr cb = Some g"
      "ci_completion cb = Some CUnit"
    using assms(1) by (auto simp: live_def)
  have m: "ci_method cb \<noteq> ''SendMessage''" using cb(2) by (auto simp: is_stream_method_def)
  have "transport_event_cb rid te s =
      client_register rid (cb\<lparr> ci_mgr := Some g' \<rparr>) (consume_event ce (call_handler rid cb ce s))"
    using assms(2,3) cb m by (cases te)
      (simp_all add: transport_event_cb_def handler_success_resp_def Let_def)
  then show ?thesis using assms(1) cb by (auto simp: live_def call_handler_def consume_event_def client_register_def)
qed

lemma live_end:
  fixes s :: "'card Client"
  assumes "live rid u g s" "stream_update g (TStatus x :: 'card TransportEvent) = Some (ce, g', True)"
  defines "s1 \<equiv> snd (client_finish rid s)"
  shows "cl_handled (transport_event_cb rid (TStatus x) s1) = cl_handled s @ [(rid, ce)] \<and>
    cl_results (transport_event_cb rid (TStatus x) s1) = cl_results s @ [(rid, OkUnit)] \<and>
    cl_tasks (transport_event_cb rid (TStatus x) s1) = cl_tasks s"
proof -
  obtain cb where cb: "im_get (cl_info s) rid = Some cb" "is_stream_method (ci_method cb)" "ci_handler cb" "ci_mgr cb = Some g"
      "ci_completion cb = Some CUnit"
    using assms(1) by (auto simp: live_def)
  have m: "ci_method cb \<noteq> ''SendMessage''" using cb(2) by (auto simp: is_stream_method_def)
  have "im_get (cl_info s1) rid = Some cb" using cb(1) by (simp add: s1_def client_finish_def)
  then have "transport_event_cb rid (TStatus x) s1 =
      client_unregister rid (answer_caller rid OkUnit (consume_event ce (call_handler rid cb ce s1)))"
    using assms(2) cb m by (simp add: transport_event_cb_def handler_success_resp_def Let_def take_completion_def)
  then show ?thesis using cb by (simp add: client_unregister_def answer_caller_def consume_event_def call_handler_def s1_def client_finish_def)
qed

text \<open>The task a manager holds before and after an event, the events it accepts while the stream is open, and what the handler sees.\<close>

definition accepts :: "Task option \<Rightarrow> StreamEvent \<Rightarrow> bool" where
  "accepts T ev = (case ev of EvTask _ \<Rightarrow> T = None | EvMessage _ \<Rightarrow> False | _ \<Rightarrow> T \<noteq> None \<and> running ev)"

definition next_task :: "Task option \<Rightarrow> StreamEvent \<Rightarrow> Task" where
  "next_task T ev = (case ev of EvTask t \<Rightarrow> t | _ \<Rightarrow> client_apply ev (the T))"

fun accepts_all :: "Task option \<Rightarrow> StreamEvent list \<Rightarrow> bool" where
  "accepts_all T [] = True"
| "accepts_all T (ev # evs) = (accepts T ev \<and> accepts_all (Some (next_task T ev)) evs)"

fun task_after :: "Task option \<Rightarrow> StreamEvent list \<Rightarrow> Task option" where
  "task_after T [] = T"
| "task_after T (ev # evs) = task_after (Some (next_task T ev)) evs"

fun views :: "Task option \<Rightarrow> StreamEvent list \<Rightarrow> ClientEvent list" where
  "views T [] = []"
| "views T (ev # evs) = CTaskUpdate (next_task T ev) (update_of ev) # views (Some (next_task T ev)) evs"

lemma views_append: "views T (xs @ ys) = views T xs @ views (task_after T xs) ys"
  by (induction xs arbitrary: T) simp_all

lemma task_after_append: "task_after T (xs @ ys) = task_after (task_after T xs) ys"
  by (induction xs arbitrary: T) simp_all

lemma accepts_all_append: "accepts_all T (xs @ ys) \<longleftrightarrow> accepts_all T xs \<and> accepts_all (task_after T xs) ys"
  by (induction xs arbitrary: T) auto

lemma accepts_update:
  "accepts T ev \<Longrightarrow> stream_update \<lparr> current_task = T \<rparr> (transport_event ev) =
     Some (CTaskUpdate (next_task T ev) (update_of ev), \<lparr> current_task = Some (next_task T ev) \<rparr>, False)"
  by (cases ev) (auto simp: accepts_def next_task_def running_def stream_update_def transport_event_def client_save_task_event_def client_apply_def
      update_of_def Let_def)

lemma final_update:
  "T \<noteq> None \<Longrightarrow> is_final_or_interrupted (ts_state (su_status x)) \<Longrightarrow> stream_update \<lparr> current_task = T \<rparr> (TStatus x) =
     Some (CTaskUpdate (next_task T (EvStatus x)) (update_of (EvStatus x)), \<lparr> current_task = Some (next_task T (EvStatus x)) \<rparr>, True)"
  by (auto simp: stream_update_def client_save_task_event_def next_task_def client_apply_def update_of_def Let_def)

text \<open>The responses of a stream of running events, and one final event at the end.\<close>

definition stream_data :: "'card ClientEnv \<Rightarrow> string \<Rightarrow> StreamEvent \<Rightarrow> SseEvent" where
  "stream_data env rid ev = data_event (cv_rpc env) (stream_response (Some (IdString rid)) ev)"

definition sendable :: "'card ClientEnv \<Rightarrow> string \<Rightarrow> StreamEvent \<Rightarrow> bool" where
  "sendable env rid ev \<longleftrightarrow> stream_event_ok ev \<and>
     json_text_ok (cv_rpc env) (RpcResponse_to_value (stream_response (Some (IdString rid)) ev))"

lemma deliver_open:
  assumes "live rid u \<lparr> current_task = T \<rparr> s" "list_all (sendable env rid) evs" "accepts_all T evs"
  shows "\<exists>s'. deliver_all env u (map (stream_data env rid) evs) s = (False, s') \<and> live rid u \<lparr> current_task = task_after T evs \<rparr> s' \<and>
    cl_handled s' = cl_handled s @ map (Pair rid) (views T evs) \<and> cl_results s' = cl_results s \<and> cl_tasks s' = cl_tasks s"
  using assms
proof (induction evs arbitrary: T s)
  case (Cons ev evs)
  let ?s = "transport_event_cb rid (transport_event ev) s" and ?T = "Some (next_task T ev)"
  have r: "accepts T ev" using Cons.prems by simp
  then have ne: "\<forall>e. (transport_event ev :: 'a TransportEvent) \<noteq> TError e" by (cases ev) (simp_all add: accepts_def transport_event_def)
  have d: "deliver_sse_event env u (se_data (stream_data env rid ev)) s = (False, ?s)"
    using Cons.prems r deliver_response [OF _ refl, of env rid ev u s]
    by (auto simp: sendable_def stream_data_def live_def accepts_def running_def split: StreamEvent.splits)
  from live_update [OF Cons.prems(1) accepts_update [OF r] ne]
  have l: "live rid u \<lparr> current_task = ?T \<rparr> ?s" "cl_handled ?s = cl_handled s @ [(rid, CTaskUpdate (next_task T ev) (update_of ev))]"
    "cl_results ?s = cl_results s" "cl_tasks ?s = cl_tasks s" by simp_all
  from Cons.IH [OF l(1)] Cons.prems(2,3) obtain s' where
    "deliver_all env u (map (stream_data env rid) evs) ?s = (False, s')" "live rid u \<lparr> current_task = task_after ?T evs \<rparr> s'"
    "cl_handled s' = cl_handled ?s @ map (Pair rid) (views ?T evs)" "cl_results s' = cl_results ?s" "cl_tasks s' = cl_tasks ?s"
    by auto
  then show ?case using d l by simp
qed simp

lemma deliver_all_append:
  "deliver_all env u (xs @ ys) s = (case deliver_all env u xs s of (True, s1) \<Rightarrow> (True, s1) | (False, s1) \<Rightarrow> deliver_all env u ys s1)"
  by (induction xs arbitrary: s) (auto split: prod.split bool.split)

lemma deliver_to_end:
  assumes "live rid u \<lparr> current_task = T \<rparr> s" "list_all (sendable env rid) (evs @ [EvStatus x])" "accepts_all T evs" "task_after T evs \<noteq> None"
    "is_final_or_interrupted (ts_state (su_status x))"
  shows "\<exists>s'. deliver_all env u (map (stream_data env rid) (evs @ [EvStatus x])) s = (True, s') \<and>
    cl_handled s' = cl_handled s @ map (Pair rid) (views T (evs @ [EvStatus x])) \<and>
    cl_results s' = cl_results s @ [(rid, OkUnit)] \<and> cl_tasks s' = cl_tasks s"
proof -
  obtain s1 where s1: "deliver_all env u (map (stream_data env rid) evs) s = (False, s1)" "live rid u \<lparr> current_task = task_after T evs \<rparr> s1"
    "cl_handled s1 = cl_handled s @ map (Pair rid) (views T evs)" "cl_results s1 = cl_results s" "cl_tasks s1 = cl_tasks s"
    using deliver_open [OF assms(1) _ assms(3)] assms(2) by auto
  have live: "fst (client_finish rid s1)" using s1(2) by (simp add: live_def client_finish_def)
  have d: "deliver_sse_event env u (se_data (stream_data env rid (EvStatus x))) s1 =
      (True, transport_event_cb rid (TStatus x) (snd (client_finish rid s1)))"
    using assms(2,5) s1(2) live deliver_response [OF _ refl, of env rid "EvStatus x" u s1]
    by (simp add: sendable_def stream_data_def live_def split_beta transport_event_def)
  show ?thesis using live_end [OF s1(2) final_update [OF assms(4,5)]] s1 d by (simp add: deliver_all_append views_append)
qed

text \<open>The chunks of a stream, one after the other.\<close>

lemma no_task_run: "im_get (cl_tasks s) rid = None \<Longrightarrow> client_run env (map (\<lambda>c. HttpRead rid (Bytes c)) cs) s = s"
  unfolding client_run_def by (induction cs) (simp_all add: client_exec_def)

lemma chunks_to_end:
  assumes "live rid u \<lparr> current_task = T \<rparr> s" "im_get (cl_tasks s) rid = Some (u, ReadSse p)"
    "fst (feed_all p chunks) = map (stream_data env rid) (evs @ [EvStatus x])"
    "list_all (sendable env rid) (evs @ [EvStatus x])" "accepts_all T evs" "task_after T evs \<noteq> None"
    "is_final_or_interrupted (ts_state (su_status x))"
  shows "cl_handled (client_run env (map (\<lambda>c. HttpRead rid (Bytes c)) chunks) s) = cl_handled s @ map (Pair rid) (views T (evs @ [EvStatus x])) \<and>
    cl_results (client_run env (map (\<lambda>c. HttpRead rid (Bytes c)) chunks) s) = cl_results s @ [(rid, OkUnit)]"
  using assms
proof (induction chunks arbitrary: p T s evs)
  case (Cons c cs)
  obtain E1 p1 where f1: "feed p c = (E1, p1)" by (cases "feed p c")
  obtain E2 p2 where f2: "feed_all p1 cs = (E2, p2)" by (cases "feed_all p1 cs")
  have E: "E1 @ E2 = map (stream_data env rid) (evs @ [EvStatus x])" using Cons.prems(3) f1 f2 by simp
  have u: "ud_request_id u = rid" using Cons.prems(1) by (simp add: live_def)
  have run: "client_run env (map (\<lambda>c. HttpRead rid (Bytes c)) (c # cs)) s =
      client_run env (map (\<lambda>c. HttpRead rid (Bytes c)) cs) (read_sse env u p (Bytes c) s)"
    using Cons.prems(2) by (simp add: client_run_def client_exec_def)
  show ?case
  proof (cases "length E1 \<le> length evs")
    case True
    let ?k = "length E1"
    have E1: "E1 = map (stream_data env rid) (take ?k evs)"
      using arg_cong [OF E, of "take ?k"] True by (simp add: take_map)
    have E2: "E2 = map (stream_data env rid) (drop ?k evs @ [EvStatus x])"
      using arg_cong [OF E, of "drop ?k"] True by (simp add: drop_map)
    have parts: "accepts_all T (take ?k evs)" "accepts_all (task_after T (take ?k evs)) (drop ?k evs)"
      "task_after (task_after T (take ?k evs)) (drop ?k evs) = task_after T evs"
      "list_all (sendable env rid) (take ?k evs)" "list_all (sendable env rid) (drop ?k evs @ [EvStatus x])"
      using Cons.prems(4,5) accepts_all_append [of T "take ?k evs" "drop ?k evs"] task_after_append [of T "take ?k evs" "drop ?k evs"]
      by (auto simp: list_all_iff dest: in_set_takeD in_set_dropD)
    obtain s1 where s1: "deliver_all env u E1 s = (False, s1)" "live rid u \<lparr> current_task = task_after T (take ?k evs) \<rparr> s1"
      "cl_handled s1 = cl_handled s @ map (Pair rid) (views T (take ?k evs))" "cl_results s1 = cl_results s"
      using deliver_open [OF Cons.prems(1) parts(4,1)] E1 by auto
    let ?s = "set_task rid u (ReadSse p1) s1"
    have step: "read_sse env u p (Bytes c) s = ?s" using f1 s1(1) u by (simp add: read_sse_def)
    have "live rid u \<lparr> current_task = task_after T (take ?k evs) \<rparr> ?s" using s1(2) by (simp add: live_def set_task_def)
    moreover have "im_get (cl_tasks ?s) rid = Some (u, ReadSse p1)" by (simp add: set_task_def)
    moreover have "fst (feed_all p1 cs) = map (stream_data env rid) (drop ?k evs @ [EvStatus x])" using f2 E2 by simp
    ultimately have "cl_handled (client_run env (map (\<lambda>c. HttpRead rid (Bytes c)) cs) ?s) =
        cl_handled ?s @ map (Pair rid) (views (task_after T (take ?k evs)) (drop ?k evs @ [EvStatus x])) \<and>
      cl_results (client_run env (map (\<lambda>c. HttpRead rid (Bytes c)) cs) ?s) = cl_results ?s @ [(rid, OkUnit)]"
      using Cons.IH parts Cons.prems(6,7) by auto
    moreover have "views T (evs @ [EvStatus x]) = views T (take ?k evs) @ views (task_after T (take ?k evs)) (drop ?k evs @ [EvStatus x])"
      using views_append [of T "take ?k evs" "drop ?k evs @ [EvStatus x]"] by (metis append_assoc append_take_drop_id)
    ultimately show ?thesis using s1(3,4) unfolding run step by (simp add: set_task_def)
  next
    case False
    have "length E1 + length E2 = Suc (length evs)" using arg_cong [OF E, of length] by simp
    with False have "E2 = []" by (cases E2) simp_all
    then have E1: "E1 = map (stream_data env rid) (evs @ [EvStatus x])" using E by simp
    obtain s1 where s1: "deliver_all env u E1 s = (True, s1)"
      "cl_handled s1 = cl_handled s @ map (Pair rid) (views T (evs @ [EvStatus x]))" "cl_results s1 = cl_results s @ [(rid, OkUnit)]"
      using deliver_to_end [OF Cons.prems(1,4,5,6,7)] E1 by auto
    have step: "read_sse env u p (Bytes c) s = end_task rid s1" using f1 s1(1) u by (simp add: read_sse_def)
    have "client_run env (map (\<lambda>c. HttpRead rid (Bytes c)) cs) (end_task rid s1) = end_task rid s1"
      by (rule no_task_run) (simp add: end_task_def)
    then show ?thesis using s1 unfolding run step by (simp add: end_task_def)
  qed
qed simp


lemma send_streaming:
  assumes "can_stream env" "client_send_message env msg s = (Inr rid, s1)"
  obtains u where "live rid u ClientTaskManager_new s1" "im_get (cl_tasks s1) rid = Some (u, Sent)"
proof -
  let ?u = "\<lparr> ud_request_id = rid, ud_method = ''SendStreamingMessage'', ud_is_stream = True \<rparr>"
  have "live rid ?u ClientTaskManager_new s1 \<and> im_get (cl_tasks s1) rid = Some (?u, Sent)"
    using assms
    by (auto simp: client_send_message_def process_message_request_def guarded_def start_request_def send_payload_def transport_send_def
        submit_def live_def is_stream_method_def Let_def split: if_splits sum.splits)
  then show thesis using that by blast
qed

lemma views_from_task: "views (Some t) evs = client_view t evs" if "list_all (\<lambda>ev. \<forall>t. ev \<noteq> EvTask t) evs" for t evs
  using that by (induction evs arbitrary: t) (auto simp: next_task_def split: StreamEvent.split)

lemma accepts_running: "list_all running evs \<Longrightarrow> accepts_all (Some t) evs"
  by (induction evs arbitrary: t) (auto simp: accepts_def running_def split: StreamEvent.splits)

lemma task_after_some: "task_after (Some t) evs \<noteq> None"
  by (induction evs arbitrary: t) auto

text \<open>
  C15. A stream reaches the handler as the server emitted it. Let a client have sent a streaming message request, and let the server emit, on the emitter of that
  request, the task, then any status and artifact updates of the running task, then a final or
  interrupting status, then anything. However the network cuts the bytes, the handler of the request is called with the task, then with
  one snapshot per update, in order, ending with the final one, and with nothing else; and the caller
  is answered once, with success. The text of the responses is assumed to be as \<open>serde_json\<close> writes it.
\<close>

theorem stream_end_to_end:
  assumes "im_get (sv_emitters sv) n = Some Emitter_streaming"
    and "list_all stream_event_ok (EvTask t # us @ [EvStatus x])" and "\<not> is_final_event (EvTask t)" and "list_all running us"
    and "is_final_or_interrupted (ts_state (su_status x))"
    and "im_get (sv_emitters (fold (emit (StreamEmit (Some (IdString rid)) n)) (EvTask t # us @ EvStatus x # later) sv)) n = Some e"
    and "\<And>r. r \<in> set (em_out e) \<Longrightarrow> json_text_ok (cv_rpc env) (RpcResponse_to_value r)"
    and "concat chunks = concat (map (stream_chunk (cv_rpc env)) (em_out e))"
    and "can_stream env" and "client_send_message env msg s0 = (Inr rid, s1)"
    and "s2 = client_run env (HttpResponse rid 200 (Some ''text/event-stream'') # map (\<lambda>c. HttpRead rid (Bytes c)) chunks) s1"
  shows "cl_handled s2 = cl_handled s1 @ map (Pair rid) (CTaskUpdate t NoUpdate # client_view t (us @ [EvStatus x])) \<and>
    cl_results s2 = cl_results s1 @ [(rid, OkUnit)]"
proof -
  let ?evs = "EvTask t # us" and ?i = "Some (IdString rid)"
  have run: "list_all (\<lambda>ev. \<not> is_final_event ev) ?evs"
    using assms(3,4) by (auto simp: list_all_iff running_def is_final_event_def split: StreamEvent.splits)
  have out: "em_out e = map (stream_response ?i) (?evs @ [EvStatus x])"
    using emitted_stream [OF assms(1) _ run, of "EvStatus x" ?i later] assms(2,5,6) by (simp add: is_final_event_def)
  have send: "list_all (sendable env rid) (?evs @ [EvStatus x])"
    using assms(2,7) out by (auto simp: list_all_iff sendable_def)
  have parsed: "fst (feed_all SseParser_new chunks) = map (stream_data env rid) (?evs @ [EvStatus x])"
    using parsed_stream [OF assms(7,8)] by (simp add: out stream_data_def [abs_def])
  obtain u where u: "live rid u ClientTaskManager_new s1" "im_get (cl_tasks s1) rid = Some (u, Sent)"
    using send_streaming [OF assms(9,10)] by blast
  let ?s = "set_task rid u (ReadSse SseParser_new) s1"
  have head: "client_exec env (HttpResponse rid 200 (Some ''text/event-stream'')) s1 = ?s"
    using u by (simp add: client_exec_def on_response_def live_def)
  have "live rid u \<lparr> current_task = None \<rparr> ?s" using u(1) by (simp add: live_def set_task_def ClientTaskManager_new_def)
  moreover have "im_get (cl_tasks ?s) rid = Some (u, ReadSse SseParser_new)" by (simp add: set_task_def)
  moreover have "accepts_all None ?evs" using accepts_running [OF assms(4)] by (simp add: accepts_def next_task_def)
  moreover have "task_after None ?evs \<noteq> None" using task_after_some [of t us] by (simp add: next_task_def)
  ultimately have *: "cl_handled (client_run env (map (\<lambda>c. HttpRead rid (Bytes c)) chunks) ?s) =
      cl_handled ?s @ map (Pair rid) (views None (?evs @ [EvStatus x])) \<and>
    cl_results (client_run env (map (\<lambda>c. HttpRead rid (Bytes c)) chunks) ?s) = cl_results ?s @ [(rid, OkUnit)]"
    using chunks_to_end [OF _ _ parsed send _ _ assms(5)] by blast
  have "list_all (\<lambda>ev. \<forall>t. ev \<noteq> EvTask t) (us @ [EvStatus x])" using assms(4) by (auto simp: list_all_iff running_def)
  then have views: "views None (?evs @ [EvStatus x]) = CTaskUpdate t NoUpdate # client_view t (us @ [EvStatus x])"
    by (simp add: next_task_def update_of_def views_from_task)
  show ?thesis using * head assms(11) unfolding views by (simp add: client_run_def set_task_def)
qed

definition demo_task :: Task where
  "demo_task = Task_default\<lparr> tk_id := ''t'', tk_context_id := ''c'', tk_status := TaskStatus_new Working \<rparr>"

definition demo_done :: TaskStatusUpdateEvent where
  "demo_done = \<lparr> su_context_id = ''c'', su_metadata = None, su_status = TaskStatus_new Completed, su_task_id = ''t'' \<rparr>"

definition demo_chunk :: TaskArtifactUpdateEvent where
  "demo_chunk = \<lparr> au_append = Some False, au_artifact = Artifact_default\<lparr> af_artifact_id := ''a'', af_parts := [Part_text ''x''] \<rparr>, au_context_id = ''c'',
     au_last_chunk = None, au_metadata = None, au_task_id = ''t'', au_index = None \<rparr>"

definition demo_msg :: A2AMessage where
  "demo_msg = A2AMessage_default\<lparr> ms_message_id := ''m'', ms_parts := [Part_text ''hi''] \<rparr>"

text \<open>A writer of the two responses of the demonstration.\<close>

definition demo_value :: "StreamEvent \<Rightarrow> json" where
  "demo_value ev = RpcResponse_to_value (stream_response (Some (IdString ''0'')) ev)"

definition demo_text :: RpcEnv where
  "demo_text = \<lparr> rpc_from_str = (\<lambda>x. if x = ''1'' then Inr (demo_value (EvTask demo_task)) else if x = ''2'' then Inr (demo_value (EvStatus demo_done)) else Inl x),
     rpc_to_string = (\<lambda>v. if v = demo_value (EvTask demo_task) then ''1'' else ''2''), rpc_de_err = (\<lambda>_. []) \<rparr>"

definition demo_client :: "unit ClientEnv" where
  "demo_client = \<lparr> cv_rpc = demo_text, cv_uuid = show_nat, cv_card_from_json = (\<lambda>_. Inr ()), cv_float_text = (\<lambda>_. []), cv_intercept = (\<lambda>_ b. b),
     cv_streaming = True, cv_card_streaming = Some True, cv_polling = False, cv_output_modes = None, cv_push_configs = [] \<rparr>"

definition demo_sent :: "unit Client" where
  "demo_sent = snd (client_send_message demo_client demo_msg Client_new)"

lemma demo_started: "client_send_message demo_client demo_msg Client_new = (Inr ''0'', demo_sent)" "cl_handled demo_sent = []" "cl_results demo_sent = []"
  by code_simp+

lemma demo_stream_ok: "stream_event_ok (EvTask demo_task)" "stream_event_ok (EvStatus demo_done)"
  by (simp_all add: stream_event_ok_def task_ok_def status_ok_def status_update_ok_def demo_task_def demo_done_def Task_default_def
      TaskStatus_new_def not_null_def)

lemma demo_texts: "json_text_ok demo_text (demo_value (EvTask demo_task))" "json_text_ok demo_text (demo_value (EvStatus demo_done))"
proof -
  have "demo_value (EvTask demo_task) \<noteq> demo_value (EvStatus demo_done)" by code_simp
  then show "json_text_ok demo_text (demo_value (EvTask demo_task))" "json_text_ok demo_text (demo_value (EvStatus demo_done))"
    by (auto simp: json_text_ok_def demo_text_def CR_def intro!: is_ascii_well_formed simp: is_ascii_def byte_in_def)
qed

theorem stream_end_to_end_witness:
  "let wire = concat (map (\<lambda>ev. stream_chunk demo_text (stream_response (Some (IdString ''0'')) ev)) [EvTask demo_task, EvStatus demo_done]);
       s2 = client_run demo_client (HttpResponse ''0'' 200 (Some ''text/event-stream'') # map (\<lambda>c. HttpRead ''0'' (Bytes [c])) wire) demo_sent
   in cl_handled s2 = [(''0'', CTaskUpdate demo_task NoUpdate), (''0'', CTaskUpdate (client_apply_status demo_done demo_task) (StatusUpd demo_done))] \<and>
      cl_results s2 = [(''0'', OkUnit)]"
proof -
  let ?sv = "A2AServer_new\<lparr> sv_emitters := [(0, Emitter_streaming)] \<rparr>" and ?i = "Some (IdString ''0'')"
  let ?evs = "[EvTask demo_task] @ [EvStatus demo_done]"
  let ?wire = "concat (map (\<lambda>ev. stream_chunk demo_text (stream_response ?i ev)) ?evs)"
  have final: "is_final_or_interrupted (ts_state (su_status demo_done))" "\<not> is_final_event (EvTask demo_task)" by code_simp+
  have sv: "im_get (sv_emitters ?sv) 0 = Some Emitter_streaming" by simp
  have "map_option em_out (im_get (sv_emitters (fold (emit (StreamEmit ?i 0)) ([EvTask demo_task] @ EvStatus demo_done # []) ?sv)) 0) =
      Some (map (stream_response ?i) ?evs)"
    by (rule emitted_stream [OF sv]) (use demo_stream_ok final in \<open>simp_all add: is_final_event_def\<close>)
  then obtain e where e: "im_get (sv_emitters (fold (emit (StreamEmit ?i 0)) (EvTask demo_task # [] @ EvStatus demo_done # []) ?sv)) 0 = Some e"
      "em_out e = map (stream_response ?i) ?evs" by auto
  have texts: "\<And>r. r \<in> set (em_out e) \<Longrightarrow> json_text_ok (cv_rpc demo_client) (RpcResponse_to_value r)"
    using demo_texts by (auto simp: e(2) demo_client_def demo_value_def)
  have chunks: "concat (map (\<lambda>c. [c]) ?wire) = concat (map (stream_chunk (cv_rpc demo_client)) (em_out e))"
    by (simp add: e(2) demo_client_def)
  have ok: "list_all stream_event_ok (EvTask demo_task # [] @ [EvStatus demo_done])" "list_all running []" "can_stream demo_client"
    using demo_stream_ok by (simp_all add: can_stream_def demo_client_def)
  show ?thesis
    using stream_end_to_end [OF sv ok(1) final(2) ok(2) final(1) e(1) texts chunks ok(3) demo_started(1) refl]
    by (simp add: demo_started(2,3) Let_def client_apply_def update_of_def comp_def)
qed

subsection \<open>The client's task is the server's\<close>

text \<open>The two agree on a task up to its history and metadata.\<close>

definition agree :: "Task \<Rightarrow> Task \<Rightarrow> bool" where
  "agree c t \<longleftrightarrow> tk_id c = tk_id t \<and> tk_context_id c = tk_context_id t \<and> tk_status c = tk_status t \<and>
     list_or_empty (tk_artifacts c) = list_or_empty (tk_artifacts t)"

definition server_apply :: "StreamEvent \<Rightarrow> Task \<Rightarrow> Task" where
  "server_apply ev t = (case ev of EvStatus u \<Rightarrow> apply_status_update u t | EvArtifact a \<Rightarrow> append_artifact_to_task a t | _ \<Rightarrow> t)"

text \<open>A chunk that is appended belongs to an artifact the task has.\<close>

definition chunk_known :: "StreamEvent \<Rightarrow> Task \<Rightarrow> bool" where
  "chunk_known ev t = (case ev of
     EvArtifact a \<Rightarrow> au_append a = Some True \<longrightarrow> list_ex (same_artifact (au_artifact a)) (list_or_empty (tk_artifacts t)) | _ \<Rightarrow> True)"

fun chunks_known :: "StreamEvent list \<Rightarrow> Task \<Rightarrow> bool" where
  "chunks_known [] t = True"
| "chunks_known (ev # evs) t = (chunk_known ev t \<and> chunks_known evs (server_apply ev t))"

lemma agree_step:
  assumes "agree c t" "chunk_known ev t"
  shows "agree (client_apply ev c) (server_apply ev t)"
proof (cases ev)
  case (EvStatus u)
  have "tk_artifacts (archive_status_message t) = tk_artifacts t" "tk_id (archive_status_message t) = tk_id t"
    "tk_context_id (archive_status_message t) = tk_context_id t"
    by (simp_all add: archive_status_message_def push_history_def split: option.split)
  then show ?thesis using assms(1) EvStatus
    by (simp add: agree_def client_apply_def server_apply_def client_apply_status_def apply_status_update_def push_history_def Let_def
        split: option.split)
next
  case (EvArtifact a)
  then show ?thesis using assms
    by (auto simp: agree_def client_apply_def server_apply_def client_append_artifact_def append_artifact_to_task_def chunk_known_def Let_def
        list_or_empty_def split: option.splits)
qed (use assms in \<open>simp_all add: client_apply_def server_apply_def\<close>)

lemma agree_all: "agree c t \<Longrightarrow> chunks_known evs t \<Longrightarrow> agree (fold client_apply evs c) (fold server_apply evs t)"
  by (induction evs arbitrary: c t) (simp_all add: agree_step)


text \<open>The updates of a task, which the server stores as \<open>server_apply\<close> says.\<close>

definition updates :: "string \<Rightarrow> StreamEvent \<Rightarrow> bool" where
  "updates tid ev = (case ev of EvStatus u \<Rightarrow> su_task_id u = tid | EvArtifact a \<Rightarrow> au_task_id a = tid | _ \<Rightarrow> False)"

lemma stored_update:
  assumes "updates tid ev" "get_task tid s = Some t" "tk_id t = tid"
  shows "get_task tid (save_task_event ev s) = Some (server_apply ev t) \<and> tk_id (server_apply ev t) = tid"
proof -
  have "tk_id (archive_status_message t) = tk_id t" by (simp add: archive_status_message_def push_history_def split: option.split)
  then have "tk_id (server_apply ev t) = tid"
    using assms(3) by (simp add: server_apply_def apply_status_update_def append_artifact_to_task_def Let_def split: StreamEvent.split)
  then show ?thesis using assms
    by (cases ev) (simp_all add: updates_def save_task_event_def ensure_task_for_event_def server_apply_def)
qed

lemma stored_updates:
  assumes "list_all (updates tid) evs" "get_task tid s = Some t" "tk_id t = tid"
  shows "get_task tid (fold save_task_event evs s) = Some (fold server_apply evs t)"
  using assms
proof (induction evs arbitrary: s t)
  case (Cons ev evs)
  then show ?case using stored_update [of tid ev s t] by simp
qed simp



end
