(* ===== verification/A2AFindings.thy ===== *)
theory A2AFindings
  imports A2AStream
begin

text \<open>
  Behaviours of the A2A SDK that differ from what its comments and its other parts say, evaluated on the model.
\<close>

subsection \<open>Server\<close>

definition reply_to :: "string \<Rightarrow> string \<Rightarrow> json" where
  "reply_to m tid = JObj [(''id'', JInt 2), (''method'', JStr m),
     (''params'', JObj [(''message'', JObj [(''messageId'', JStr ''n''), (''taskId'', JStr tid), (''parts'', JArr [JObj [(''text'', JStr ''more'')]])])])]"

definition stream_first :: json where
  "stream_first = JObj [(''id'', JInt 3), (''method'', JStr ''SendStreamingMessage''),
     (''params'', JObj [(''message'', JObj [(''messageId'', JStr ''m''), (''parts'', JArr [JObj [(''text'', JStr ''hi'')]])])])]"

definition bodies :: RpcEnv where
  "bodies = \<lparr> rpc_from_str = (\<lambda>b. Inr (if b = ''stream-reply'' then reply_to ''SendStreamingMessage'' ''task-0''
       else if b = ''reply'' then reply_to ''SendMessage'' ''task-0'' else if b = ''stream'' then stream_first else demo_send)),
     rpc_to_string = (\<lambda>_. []), rpc_de_err = (\<lambda>_. []) \<rparr>"

definition agent_status :: "nat \<Rightarrow> TaskState \<Rightarrow> a2a_event" where
  "agent_status u st = UpdateStatus u st None None None ''now''"

text \<open>
  A streaming reply to a task that asked for input: the task is sent first as it was before the reply, in the state
  \<open>InputRequired\<close>, which closes the stream; nothing the agent then does reaches the client.
\<close>

lemma reply_stream_closed:
  "map_option (\<lambda>e. (em_streaming e, length (em_out e))) (im_get (sv_emitters
     (a2a_run bodies demo_cf [Start, Post ''send'', agent_status 0 InputRequired, Post ''stream-reply'', agent_status 1 Working, agent_status 1 Completed]
        A2AServer_new)) 1) = Some (False, 1)"
  by code_simp

text \<open>
  A second message to a task that is still running replaces the registration of the task and with it the callback of the first request, which
  gets no answer even when the task completes.
\<close>

lemma first_request_orphaned:
  "let s = a2a_run bodies demo_cf [Start, Post ''send'', Post ''reply'', agent_status 1 Completed, AgentReturns 0 (Inr ()), AgentReturns 1 (Inr ())] A2AServer_new
   in map_option (\<lambda>t. ts_state (tk_status t)) (get_task ''task-0'' s) = Some Completed \<and>
      map (\<lambda>n. map_option em_response_sent (im_get (sv_emitters s) n)) [0, 1] = [Some False, Some True]"
  by code_simp

text \<open>
  An agent that answers with a message completes the task of a plain request, but leaves that of a streaming request submitted, although it is no
  longer registered, so that no update of its agent reaches it.
\<close>

lemma message_leaves_stream_task_open:
  "let msg = A2AMessage_default\<lparr> ms_message_id := ''m'', ms_role := Agent \<rparr>;
       run = (\<lambda>b. a2a_run bodies demo_cf [Start, Post b, SendResponseMessage 0 msg] A2AServer_new);
       state = (\<lambda>s. (map_option (\<lambda>t. ts_state (tk_status t)) (get_task ''task-0'' s), exec_info ''task-0'' s))
   in state (run ''send'') = (Some Completed, None) \<and> state (run ''stream'') = (Some Submitted, None)"
  by code_simp

text \<open>The requested push configuration is not looked at: the first one of the task is returned.\<close>

lemma push_config_id_ignored:
  "on_get_push cf \<lparr> gp_id = tid, gp_metadata = md, gp_push_notification_config_id = c \<rparr> s =
   on_get_push cf \<lparr> gp_id = tid, gp_metadata = md', gp_push_notification_config_id = c' \<rparr> s"
  by (simp add: on_get_push_def)

subsection \<open>Client\<close>

text \<open>
  A streaming request that is answered with a JSON body whose event does not end the task is never answered and never
  ends: its task is over, and the caller still waits.
\<close>

definition one_event :: "unit ClientEnv" where
  "one_event = demo_client\<lparr> cv_rpc := \<lparr> rpc_from_str = (\<lambda>_. Inr (demo_value (EvTask demo_task))), rpc_to_string = (\<lambda>_. []), rpc_de_err = (\<lambda>_. []) \<rparr> \<rparr>"

lemma stream_request_hangs:
  "let s = client_run one_event [CallSendMessage demo_msg, HttpResponse ''0'' 200 (Some ''application/json''), HttpRead ''0'' (Bytes ''x'')] Client_new
   in map fst (cl_info s) = [''0''] \<and> cl_tasks s = [] \<and> cl_results s = []"
  by code_simp

text \<open>A chunk for an unknown artifact: dropped by the server, added by the client.\<close>

lemma unknown_chunk_diverges:
  "let e = demo_chunk\<lparr> au_append := Some True \<rparr>
   in tk_artifacts (append_artifact_to_task e demo_task) = Some [] \<and> map_option length (tk_artifacts (client_append_artifact e demo_task)) = Some 1"
  by code_simp

text \<open>The status message of a task with a history is copied into it and stays in the status.\<close>

lemma status_message_kept:
  "let t = demo_task\<lparr> tk_history := Some [], tk_status := (TaskStatus_new InputRequired)\<lparr> ts_message := Some demo_msg \<rparr> \<rparr>;
       t' = fst (client_update_with_message demo_msg t ClientTaskManager_new)
   in ts_message (tk_status t') = Some demo_msg \<and> tk_history t' = Some [demo_msg, demo_msg]"
  by code_simp

end
