(* ===== verification/McpSchema.thy ===== *)
theory McpSchema
  imports Json Utf8
begin

text \<open>
  The JSON Schema validator of the MCP SDK, \<open>MCP/rust-sdk/src/schema.rs\<close>, and what it decides.  The
  code checks the keywords one after the other and reports the first violation; the specification
  \<open>conforms\<close> says of each keyword on its own what it demands.  Regular expressions and the texts of
  floating-point numbers and of JSON values are parameters.
\<close>

record SchemaEnv =
  se_regex :: "string \<Rightarrow> string + (string \<Rightarrow> bool)"
  se_show_f64 :: "real \<Rightarrow> string"
  se_show_json :: "json \<Rightarrow> string"

subsection \<open>Accessors of values\<close>

text \<open>\<open>as_f64\<close> of an integer is the nearest float; rounding is not modelled.\<close>

definition as_f64 :: "json \<Rightarrow> real option" where
  "as_f64 v = (case v of JInt n \<Rightarrow> Some (of_int n) | JFloat x \<Rightarrow> Some x | _ \<Rightarrow> None)"

definition as_u64 :: "json \<Rightarrow> nat option" where
  "as_u64 v = (case v of JInt n \<Rightarrow> (if 0 \<le> n \<and> n < 2 ^ 64 then Some (nat n) else None) | _ \<Rightarrow> None)"

definition is_object :: "json \<Rightarrow> bool" where
  "is_object v = (case v of JObj _ \<Rightarrow> True | _ \<Rightarrow> False)"

text \<open>\<open>s.chars().count()\<close> of a well-formed string: the bytes that start a character.\<close>

definition chars_count :: "string \<Rightarrow> nat" where
  "chars_count s = length (filter (\<lambda>c. \<not> is_cont c) s)"

subsection \<open>The validator\<close>

type_synonym verdict = "string + unit"

definition path_or_root :: "string \<Rightarrow> string" where
  "path_or_root path = (if path = [] then ''<root>'' else path)"

definition type_name :: "json \<Rightarrow> string" where
  "type_name v =
     (case v of
        JNull \<Rightarrow> ''null''
      | JBool _ \<Rightarrow> ''boolean''
      | JInt _ \<Rightarrow> ''integer''
      | JFloat _ \<Rightarrow> ''number''
      | JStr _ \<Rightarrow> ''string''
      | JArr _ \<Rightarrow> ''array''
      | JObj _ \<Rightarrow> ''object'')"

definition matches_type :: "string \<Rightarrow> json \<Rightarrow> bool" where
  "matches_type expected v =
     (if expected = ''null'' then v = JNull
      else if expected = ''boolean'' then as_bool v \<noteq> None
      else if expected = ''object'' then is_object v
      else if expected = ''array'' then (case v of JArr _ \<Rightarrow> True | _ \<Rightarrow> False)
      else if expected = ''string'' then as_str v \<noteq> None
      else if expected = ''number'' then as_f64 v \<noteq> None
      else if expected = ''integer'' then (case v of JInt _ \<Rightarrow> True | JFloat x \<Rightarrow> x = of_int \<lfloor>x\<rfloor> | _ \<Rightarrow> False)
      else True)"

text \<open>A check of the source: continue, or return the message behind the path as the error.\<close>

definition ensure_at :: "string \<Rightarrow> bool \<Rightarrow> string \<Rightarrow> verdict" where
  "ensure_at path b msg = (if b then Inr () else Inl (path_or_root path @ '': '' @ msg))"

fun first_error :: "verdict list \<Rightarrow> verdict" where
  "first_error [] = Inr ()"
| "first_error (v # vs) = and_then v (\<lambda>_. first_error vs)"

text \<open>\<open>for x in xs \<dots> ?\<close>.\<close>

fun check_each :: "('a \<Rightarrow> verdict) \<Rightarrow> 'a list \<Rightarrow> verdict" where
  "check_each f [] = Inr ()"
| "check_each f (x # xs) = and_then (f x) (\<lambda>_. check_each f xs)"

lemma check_each_cong [fundef_cong]:
  "xs = ys \<Longrightarrow> (\<And>x. x \<in> set ys \<Longrightarrow> f x = g x) \<Longrightarrow> check_each f xs = check_each g ys"
proof (induction xs arbitrary: ys)
  case (Cons x xs)
  have "check_each f xs = check_each g xs" by (rule Cons.IH) (use Cons.prems in auto)
  with Cons.prems show ?case by auto
qed simp

definition check_type :: "SchemaEnv \<Rightarrow> JsonDict \<Rightarrow> json \<Rightarrow> string \<Rightarrow> verdict" where
  "check_type env obj inst path =
     (case im_get obj ''type'' of
        None \<Rightarrow> Inr ()
      | Some t \<Rightarrow>
          ensure_at path
            (case t of
               JStr s \<Rightarrow> matches_type s inst
             | JArr xs \<Rightarrow> list_ex (\<lambda>x. case as_str x of Some s \<Rightarrow> matches_type s inst | None \<Rightarrow> False) xs
             | _ \<Rightarrow> True)
            (''expected type '' @ se_show_json env t @ '' but found '' @ type_name inst))"

definition check_enum :: "JsonDict \<Rightarrow> json \<Rightarrow> string \<Rightarrow> verdict" where
  "check_enum obj inst path =
     first_error
       [case im_get obj ''enum'' of
          Some (JArr values) \<Rightarrow>
            ensure_at path (list_ex (\<lambda>v. json_eq v inst) values) ''value is not one of the allowed values''
        | _ \<Rightarrow> Inr (),
        case im_get obj ''const'' of
          Some c \<Rightarrow> ensure_at path (json_eq c inst) ''value does not match the constant''
        | None \<Rightarrow> Inr ()]"

definition with_limit :: "(json \<Rightarrow> 'a option) \<Rightarrow> JsonDict \<Rightarrow> string \<Rightarrow> ('a \<Rightarrow> verdict) \<Rightarrow> verdict" where
  "with_limit accessor obj k f = (case Option.bind (im_get obj k) accessor of Some x \<Rightarrow> f x | None \<Rightarrow> Inr ())"

definition check_number :: "SchemaEnv \<Rightarrow> JsonDict \<Rightarrow> json \<Rightarrow> string \<Rightarrow> verdict" where
  "check_number env obj inst path =
     (case as_f64 inst of
        None \<Rightarrow> Inr ()
      | Some value \<Rightarrow>
          let t = se_show_f64 env in
          first_error
            [with_limit as_f64 obj ''minimum'' (\<lambda>m.
               ensure_at path (\<not> value < m) (t value @ '' is below minimum '' @ t m)),
             with_limit as_f64 obj ''maximum'' (\<lambda>m.
               ensure_at path (\<not> value > m) (t value @ '' exceeds maximum '' @ t m)),
             with_limit as_f64 obj ''exclusiveMinimum'' (\<lambda>m.
               ensure_at path (\<not> value \<le> m) (t value @ '' is not above '' @ t m)),
             with_limit as_f64 obj ''exclusiveMaximum'' (\<lambda>m.
               ensure_at path (\<not> value \<ge> m) (t value @ '' is not below '' @ t m))])"

definition check_pattern :: "SchemaEnv \<Rightarrow> string \<Rightarrow> string \<Rightarrow> string \<Rightarrow> verdict" where
  "check_pattern env s path pattern =
     (case se_regex env pattern of
        Inr re \<Rightarrow> ensure_at path (re s) (''string does not match pattern '' @ pattern)
      | Inl e \<Rightarrow> ensure_at path False (''invalid pattern '' @ pattern @ '': '' @ e))"

definition check_string :: "SchemaEnv \<Rightarrow> JsonDict \<Rightarrow> json \<Rightarrow> string \<Rightarrow> verdict" where
  "check_string env obj inst path =
     (case as_str inst of
        None \<Rightarrow> Inr ()
      | Some s \<Rightarrow>
          let len = chars_count s in
          first_error
            [with_limit as_u64 obj ''minLength'' (\<lambda>m. ensure_at path (\<not> len < m) (''string shorter than '' @ show_nat m)),
             with_limit as_u64 obj ''maxLength'' (\<lambda>m. ensure_at path (\<not> len > m) (''string longer than '' @ show_nat m)),
             with_limit as_str obj ''pattern'' (check_pattern env s path)])"

definition check_length :: "JsonDict \<Rightarrow> json \<Rightarrow> string \<Rightarrow> verdict" where
  "check_length obj inst path =
     (case inst of
        JArr items \<Rightarrow>
          let len = length items in
          first_error
            [with_limit as_u64 obj ''minItems'' (\<lambda>m.
               ensure_at path (\<not> len < m) (''array has fewer than '' @ show_nat m @ '' items'')),
             with_limit as_u64 obj ''maxItems'' (\<lambda>m.
               ensure_at path (\<not> len > m) (''array has more than '' @ show_nat m @ '' items''))]
      | _ \<Rightarrow> Inr ())"

definition check_required :: "JsonDict \<Rightarrow> json \<Rightarrow> string \<Rightarrow> verdict" where
  "check_required obj inst path =
     (case (inst, im_get obj ''required'') of
        (JObj flds, Some (JArr required)) \<Rightarrow>
          check_each (\<lambda>name. ensure_at path (im_contains flds name) (''required property '' @ quoted name @ '' not found''))
            (List.map_filter as_str required)
      | _ \<Rightarrow> Inr ())"

definition child_path :: "string \<Rightarrow> string \<Rightarrow> string" where
  "child_path path k = path @ ''/'' @ k"

definition declared :: "JsonDict \<Rightarrow> string \<Rightarrow> bool" where
  "declared obj name = (case Option.bind (im_get obj ''properties'') as_object of Some p \<Rightarrow> im_contains p name | None \<Rightarrow> False)"

lemma member_smaller: "im_get obj k = Some sub \<Longrightarrow> size sub < size (JObj obj)"
  by (rule size_in_obj) (rule map_of_SomeD)

lemma member_elem_smaller:
  assumes "im_get obj k = Some (JArr xs)" "x \<in> set xs"
  shows "size x < size (JObj obj)"
  using member_smaller [OF assms(1)] size_in_arr [OF assms(2)] by simp

lemma member_member_smaller:
  assumes "im_get obj k = Some (JObj m)" "(n, x) \<in> set m"
  shows "size x < size (JObj obj)"
  using member_smaller [OF assms(1)] size_in_obj [OF assms(2)] by simp

lemmas subschema_smaller = member_smaller member_elem_smaller member_member_smaller
  member_smaller [OF sym] member_elem_smaller [OF sym] member_member_smaller [OF sym]

function validate_at :: "SchemaEnv \<Rightarrow> json \<Rightarrow> json \<Rightarrow> string \<Rightarrow> verdict" where
  "validate_at env schema inst path =
     (case schema of
        JBool b \<Rightarrow> ensure_at path b ''schema forbids any value''
      | JObj obj \<Rightarrow>
          first_error
            [check_type env obj inst path,
             check_enum obj inst path,
             check_number env obj inst path,
             check_string env obj inst path,
             check_length obj inst path,
             (case (inst, im_get obj ''items'') of
                (JArr items, Some sub) \<Rightarrow>
                  check_each (\<lambda>(i, item). validate_at env sub item (child_path path (show_nat i))) (List.enumerate 0 items)
              | _ \<Rightarrow> Inr ()),
             check_required obj inst path,
             (case (inst, im_get obj ''properties'') of
                (JObj flds, Some (JObj props)) \<Rightarrow>
                  check_each (\<lambda>(name, sub).
                    case im_get flds name of
                      Some v \<Rightarrow> validate_at env sub v (child_path path name)
                    | None \<Rightarrow> Inr ()) props
              | _ \<Rightarrow> Inr ()),
             (case (inst, im_get obj ''additionalProperties'') of
                (JObj flds, Some additional) \<Rightarrow>
                  check_each (\<lambda>(name, v).
                    if declared obj name then Inr ()
                    else case additional of
                           JBool False \<Rightarrow> ensure_at path False (''additional property '' @ quoted name @ '' is not allowed'')
                         | JObj _ \<Rightarrow> validate_at env additional v (child_path path name)
                         | _ \<Rightarrow> Inr ()) flds
              | _ \<Rightarrow> Inr ()),
             (case im_get obj ''allOf'' of
                Some (JArr subs) \<Rightarrow> check_each (\<lambda>sub. validate_at env sub inst path) subs
              | _ \<Rightarrow> Inr ()),
             (case im_get obj ''anyOf'' of
                Some (JArr subs) \<Rightarrow>
                  ensure_at path (list_ex (\<lambda>sub. validate_at env sub inst path = Inr ()) subs)
                    ''value does not match any schema in anyOf''
              | _ \<Rightarrow> Inr ()),
             (case im_get obj ''oneOf'' of
                Some (JArr subs) \<Rightarrow>
                  (let n = length (filter (\<lambda>sub. validate_at env sub inst path = Inr ()) subs)
                   in ensure_at path (n = 1) (''value matches '' @ show_nat n @ '' schemas in oneOf''))
              | _ \<Rightarrow> Inr ()),
             (case im_get obj ''not'' of
                Some sub \<Rightarrow> ensure_at path (validate_at env sub inst path \<noteq> Inr ()) ''value matches the forbidden schema''
              | None \<Rightarrow> Inr ())]
      | _ \<Rightarrow> Inr ())"
  by pat_completeness auto
termination
  by (relation "measure (\<lambda>(env, schema, inst, path). size schema)") (auto simp del: json.size dest: subschema_smaller)

declare validate_at.simps [simp del]

definition validate :: "SchemaEnv \<Rightarrow> json \<Rightarrow> json \<Rightarrow> verdict" where
  "validate env schema inst = validate_at env schema inst []"

subsection \<open>What a schema demands\<close>

definition elems :: "json \<Rightarrow> json list" where
  "elems v = (case v of JArr xs \<Rightarrow> xs | _ \<Rightarrow> [])"

definition members :: "json \<Rightarrow> JsonDict" where
  "members v = (case v of JObj m \<Rightarrow> m | _ \<Rightarrow> [])"

definition is_array :: "json \<Rightarrow> bool" where
  "is_array v = (case v of JArr _ \<Rightarrow> True | _ \<Rightarrow> False)"

text \<open>The keywords that do not refer to another schema: what \<open>k: s\<close> demands of \<open>v\<close>.\<close>

definition type_keyword :: "json \<Rightarrow> json \<Rightarrow> bool" where
  "type_keyword s v \<longleftrightarrow>
     (\<forall>t. s = JStr t \<longrightarrow> matches_type t v) \<and>
     (is_array s \<longrightarrow> (\<exists>t. JStr t \<in> set (elems s) \<and> matches_type t v))"

definition number_limit :: "(real \<Rightarrow> real \<Rightarrow> bool) \<Rightarrow> json \<Rightarrow> json \<Rightarrow> bool" where
  "number_limit R s v \<longleftrightarrow> (\<forall>m x. as_f64 s = Some m \<longrightarrow> as_f64 v = Some x \<longrightarrow> R m x)"

definition chars_limit :: "(nat \<Rightarrow> nat \<Rightarrow> bool) \<Rightarrow> json \<Rightarrow> json \<Rightarrow> bool" where
  "chars_limit R s v \<longleftrightarrow> (\<forall>n t. as_u64 s = Some n \<longrightarrow> v = JStr t \<longrightarrow> R n (chars_count t))"

definition items_limit :: "(nat \<Rightarrow> nat \<Rightarrow> bool) \<Rightarrow> json \<Rightarrow> json \<Rightarrow> bool" where
  "items_limit R s v \<longleftrightarrow> (\<forall>n xs. as_u64 s = Some n \<longrightarrow> v = JArr xs \<longrightarrow> R n (length xs))"

definition pattern_keyword :: "SchemaEnv \<Rightarrow> json \<Rightarrow> json \<Rightarrow> bool" where
  "pattern_keyword env s v \<longleftrightarrow> (\<forall>p t. s = JStr p \<longrightarrow> v = JStr t \<longrightarrow> (\<exists>re. se_regex env p = Inr re \<and> re t))"

definition required_keyword :: "json \<Rightarrow> json \<Rightarrow> bool" where
  "required_keyword s v \<longleftrightarrow> (is_object v \<longrightarrow> (\<forall>n. JStr n \<in> set (elems s) \<longrightarrow> n \<in> fst ` set (members v)))"

definition plain_keyword :: "SchemaEnv \<Rightarrow> string \<Rightarrow> json \<Rightarrow> json \<Rightarrow> bool" where
  "plain_keyword env k s v \<longleftrightarrow>
     (k = ''type'' \<longrightarrow> type_keyword s v) \<and>
     (k = ''enum'' \<longrightarrow> is_array s \<longrightarrow> (\<exists>w \<in> set (elems s). json_eq w v)) \<and>
     (k = ''const'' \<longrightarrow> json_eq s v) \<and>
     (k = ''minimum'' \<longrightarrow> number_limit (\<lambda>m x. m \<le> x) s v) \<and>
     (k = ''maximum'' \<longrightarrow> number_limit (\<lambda>m x. x \<le> m) s v) \<and>
     (k = ''exclusiveMinimum'' \<longrightarrow> number_limit (\<lambda>m x. m < x) s v) \<and>
     (k = ''exclusiveMaximum'' \<longrightarrow> number_limit (\<lambda>m x. x < m) s v) \<and>
     (k = ''minLength'' \<longrightarrow> chars_limit (\<lambda>n l. n \<le> l) s v) \<and>
     (k = ''maxLength'' \<longrightarrow> chars_limit (\<lambda>n l. l \<le> n) s v) \<and>
     (k = ''pattern'' \<longrightarrow> pattern_keyword env s v) \<and>
     (k = ''minItems'' \<longrightarrow> items_limit (\<lambda>n l. n \<le> l) s v) \<and>
     (k = ''maxItems'' \<longrightarrow> items_limit (\<lambda>n l. l \<le> n) s v) \<and>
     (k = ''required'' \<longrightarrow> required_keyword s v)"

lemma elem_smaller: "x \<in> set (elems s) \<Longrightarrow> size x < size s"
  using size_in_arr by (auto simp: elems_def split: json.splits)

lemma member_val_smaller: "(n, x) \<in> set (members s) \<Longrightarrow> size x < size s"
  using size_in_obj by (auto simp: members_def split: json.splits)

text \<open>
  An instance conforms to an object schema when every member of the schema is satisfied on its own;
  \<open>true\<close> accepts everything, \<open>false\<close> nothing, other values are not schemas and demand nothing.
\<close>

function conforms :: "SchemaEnv \<Rightarrow> json \<Rightarrow> json \<Rightarrow> bool" where
  "conforms env schema v =
     (case schema of
        JBool b \<Rightarrow> b
      | JObj obj \<Rightarrow>
          list_all (\<lambda>(k, s).
            plain_keyword env k s v \<and>
            (k = ''items'' \<longrightarrow> list_all (\<lambda>x. conforms env s x) (elems v)) \<and>
            (k = ''properties'' \<longrightarrow>
               list_all (\<lambda>(n, sub). case im_get (members v) n of Some x \<Rightarrow> conforms env sub x | None \<Rightarrow> True) (members s)) \<and>
            (k = ''additionalProperties'' \<longrightarrow>
               list_all (\<lambda>(n, x). declared obj n \<or> conforms env s x) (members v)) \<and>
            (k = ''allOf'' \<longrightarrow> list_all (\<lambda>sub. conforms env sub v) (elems s)) \<and>
            (k = ''anyOf'' \<longrightarrow> is_array s \<longrightarrow> list_ex (\<lambda>sub. conforms env sub v) (elems s)) \<and>
            (k = ''oneOf'' \<longrightarrow> is_array s \<longrightarrow> length (filter (\<lambda>sub. conforms env sub v) (elems s)) = 1) \<and>
            (k = ''not'' \<longrightarrow> \<not> conforms env s v)) obj
      | _ \<Rightarrow> True)"
  by pat_completeness auto
termination
  by (relation "measure (\<lambda>(env, schema, inst). size schema)")
    (auto simp del: json.size intro: size_in_obj elem_smaller [THEN less_trans] member_val_smaller [THEN less_trans])

declare conforms.simps [simp del]

subsection \<open>The validator decides conformance\<close>

lemma ensure_at_ok [simp]: "ensure_at path b msg = Inr () \<longleftrightarrow> b"
  by (simp add: ensure_at_def)

lemma first_error_ok [simp]: "first_error vs = Inr () \<longleftrightarrow> (\<forall>v \<in> set vs. v = Inr ())"
  by (induction vs) auto

lemma check_each_ok [simp]: "check_each f xs = Inr () \<longleftrightarrow> (\<forall>x \<in> set xs. f x = Inr ())"
  by (induction xs) auto

text \<open>What is demanded of the value of one keyword.\<close>

definition on_keyword :: "JsonDict \<Rightarrow> string \<Rightarrow> (json \<Rightarrow> bool) \<Rightarrow> bool" where
  "on_keyword obj k P \<longleftrightarrow> (\<forall>s. im_get obj k = Some s \<longrightarrow> P s)"

lemma with_limit_ok:
  "with_limit acc obj k f = Inr () \<longleftrightarrow> on_keyword obj k (\<lambda>s. \<forall>m. acc s = Some m \<longrightarrow> f m = Inr ())"
  by (cases "im_get obj k") (auto simp: with_limit_def on_keyword_def split: option.split)

lemma as_str_eq [simp]: "as_str v = Some t \<longleftrightarrow> v = JStr t" "as_object v = Some m \<longleftrightarrow> v = JObj m"
  by (auto simp: as_str_def as_object_def split: json.splits)

lemma check_type_ok: "check_type env obj v path = Inr () \<longleftrightarrow> on_keyword obj ''type'' (\<lambda>s. type_keyword s v)"
  by (auto simp: check_type_def on_keyword_def type_keyword_def is_array_def elems_def list_ex_iff
      split: option.splits json.splits)

lemma check_enum_ok:
  "check_enum obj v path = Inr () \<longleftrightarrow>
     on_keyword obj ''enum'' (\<lambda>s. is_array s \<longrightarrow> (\<exists>w \<in> set (elems s). json_eq w v)) \<and>
     on_keyword obj ''const'' (\<lambda>s. json_eq s v)"
  by (auto simp: check_enum_def on_keyword_def is_array_def elems_def list_ex_iff split: option.splits json.splits)

lemma check_number_ok:
  "check_number env obj v path = Inr () \<longleftrightarrow>
     on_keyword obj ''minimum'' (\<lambda>s. number_limit (\<lambda>m x. m \<le> x) s v) \<and>
     on_keyword obj ''maximum'' (\<lambda>s. number_limit (\<lambda>m x. x \<le> m) s v) \<and>
     on_keyword obj ''exclusiveMinimum'' (\<lambda>s. number_limit (\<lambda>m x. m < x) s v) \<and>
     on_keyword obj ''exclusiveMaximum'' (\<lambda>s. number_limit (\<lambda>m x. x < m) s v)"
  by (cases "as_f64 v") (simp_all add: check_number_def Let_def with_limit_ok number_limit_def not_less not_le on_keyword_def)

lemma check_string_ok:
  "check_string env obj v path = Inr () \<longleftrightarrow>
     on_keyword obj ''minLength'' (\<lambda>s. chars_limit (\<lambda>n l. n \<le> l) s v) \<and>
     on_keyword obj ''maxLength'' (\<lambda>s. chars_limit (\<lambda>n l. l \<le> n) s v) \<and>
     on_keyword obj ''pattern'' (\<lambda>s. pattern_keyword env s v)"
proof (cases "as_str v")
  case None
  then have "v \<noteq> JStr t" for t by auto
  with None show ?thesis by (simp add: check_string_def chars_limit_def pattern_keyword_def on_keyword_def)
next
  case (Some t)
  have "check_pattern env t path p = Inr () \<longleftrightarrow> (\<exists>re. se_regex env p = Inr re \<and> re t)" for p
    by (auto simp: check_pattern_def split: sum.split)
  with Some show ?thesis
    by (simp add: check_string_def Let_def with_limit_ok chars_limit_def pattern_keyword_def not_less on_keyword_def)
qed

lemma check_length_ok:
  "check_length obj v path = Inr () \<longleftrightarrow>
     on_keyword obj ''minItems'' (\<lambda>s. items_limit (\<lambda>n l. n \<le> l) s v) \<and>
     on_keyword obj ''maxItems'' (\<lambda>s. items_limit (\<lambda>n l. l \<le> n) s v)"
  by (cases v) (simp_all add: check_length_def Let_def with_limit_ok items_limit_def not_less on_keyword_def)

lemma check_required_ok: "check_required obj v path = Inr () \<longleftrightarrow> on_keyword obj ''required'' (\<lambda>s. required_keyword s v)"
proof (cases "\<exists>m. v = JObj m")
  case True
  then obtain m where v: "v = JObj m" ..
  have "check_each (\<lambda>n. ensure_at path (im_contains m n) (f n)) (List.map_filter as_str xs) = Inr () \<longleftrightarrow>
      (\<forall>n. JStr n \<in> set xs \<longrightarrow> n \<in> fst ` set m)" for xs f
    by (force simp: List.map_filter_def im_contains_def map_of_eq_None_iff)
  with v show ?thesis
    by (auto simp: check_required_def on_keyword_def required_keyword_def is_object_def elems_def members_def
        split: option.splits json.splits)
next
  case False
  then show ?thesis by (cases v) (simp_all add: check_required_def on_keyword_def required_keyword_def is_object_def)
qed

lemmas checks_ok = check_type_ok check_enum_ok check_number_ok check_string_ok check_length_ok check_required_ok

text \<open>A conjunction of demands on single keywords, one keyword at a time.\<close>

lemma all_keywords:
  "(\<forall>k s. im_get obj k = Some s \<longrightarrow> P k s \<and> Q k s) \<longleftrightarrow>
     (\<forall>k s. im_get obj k = Some s \<longrightarrow> P k s) \<and> (\<forall>k s. im_get obj k = Some s \<longrightarrow> Q k s)"
  "(\<forall>k s. im_get obj k = Some s \<longrightarrow> (k = K \<longrightarrow> R s)) \<longleftrightarrow> on_keyword obj K R"
  by (auto simp: on_keyword_def)

lemma plain_ok:
  "(\<forall>k s. im_get obj k = Some s \<longrightarrow> plain_keyword env k s v) \<longleftrightarrow>
     check_type env obj v path = Inr () \<and> check_enum obj v path = Inr () \<and> check_number env obj v path = Inr () \<and>
     check_string env obj v path = Inr () \<and> check_length obj v path = Inr () \<and> check_required obj v path = Inr ()"
  unfolding plain_keyword_def all_keywords checks_ok by blast

lemma conforms_obj:
  assumes "im_wf obj"
  shows "conforms env (JObj obj) v \<longleftrightarrow>
    (\<forall>k s. im_get obj k = Some s \<longrightarrow> plain_keyword env k s v) \<and>
    on_keyword obj ''items'' (\<lambda>s. \<forall>x \<in> set (elems v). conforms env s x) \<and>
    on_keyword obj ''properties'' (\<lambda>s. \<forall>(n, sub) \<in> set (members s).
      case im_get (members v) n of Some x \<Rightarrow> conforms env sub x | None \<Rightarrow> True) \<and>
    on_keyword obj ''additionalProperties'' (\<lambda>s. \<forall>(n, x) \<in> set (members v). declared obj n \<or> conforms env s x) \<and>
    on_keyword obj ''allOf'' (\<lambda>s. \<forall>sub \<in> set (elems s). conforms env sub v) \<and>
    on_keyword obj ''anyOf'' (\<lambda>s. is_array s \<longrightarrow> (\<exists>sub \<in> set (elems s). conforms env sub v)) \<and>
    on_keyword obj ''oneOf'' (\<lambda>s. is_array s \<longrightarrow> length (filter (\<lambda>sub. conforms env sub v) (elems s)) = 1) \<and>
    on_keyword obj ''not'' (\<lambda>s. \<not> conforms env s v)"
proof -
  have all: "(\<forall>(k, s) \<in> set obj. P k s) \<longleftrightarrow> (\<forall>k s. im_get obj k = Some s \<longrightarrow> P k s)" for P
    using assms by (auto dest: map_of_SomeD)
  show ?thesis
    by (subst conforms.simps) (simp only: json.case list_all_iff list_ex_iff all, simp only: all_keywords)
qed

lemma items_step:
  assumes "\<And>s x p. im_get obj ''items'' = Some s \<Longrightarrow> validate_at env s x p = Inr () \<longleftrightarrow> conforms env s x"
  shows "(case (v, im_get obj ''items'') of
      (JArr items, Some sub) \<Rightarrow>
        check_each (\<lambda>(i, item). validate_at env sub item (child_path path (show_nat i))) (List.enumerate 0 items)
    | _ \<Rightarrow> Inr ()) = Inr () \<longleftrightarrow> on_keyword obj ''items'' (\<lambda>s. \<forall>x \<in> set (elems v). conforms env s x)"
proof (cases "\<exists>xs s. v = JArr xs \<and> im_get obj ''items'' = Some s")
  case True
  then obtain xs s where vs: "v = JArr xs" "im_get obj ''items'' = Some s" by blast
  have "set xs = snd ` set (List.enumerate 0 xs)" by (metis map_snd_enumerate set_map)
  then have "(\<forall>p \<in> set (List.enumerate 0 xs). P (snd p)) \<longleftrightarrow> (\<forall>x \<in> set xs. P x)" for P
    by simp
  with vs assms show ?thesis by (simp add: on_keyword_def elems_def split_def)
next
  case False
  then show ?thesis by (auto simp: on_keyword_def elems_def split: json.splits option.splits)
qed


lemma properties_step:
  assumes "\<And>props n s x p. im_get obj ''properties'' = Some (JObj props) \<Longrightarrow> (n, s) \<in> set props \<Longrightarrow>
    validate_at env s x p = Inr () \<longleftrightarrow> conforms env s x"
  shows "(case (v, im_get obj ''properties'') of
      (JObj flds, Some (JObj props)) \<Rightarrow>
        check_each (\<lambda>(name, sub).
          case im_get flds name of
            Some x \<Rightarrow> validate_at env sub x (child_path path name)
          | None \<Rightarrow> Inr ()) props
    | _ \<Rightarrow> Inr ()) = Inr () \<longleftrightarrow>
    on_keyword obj ''properties'' (\<lambda>s. \<forall>(n, sub) \<in> set (members s).
      case im_get (members v) n of Some x \<Rightarrow> conforms env sub x | None \<Rightarrow> True)"
proof (cases "\<exists>m props. v = JObj m \<and> im_get obj ''properties'' = Some (JObj props)")
  case True
  then obtain m props where vs: "v = JObj m" "im_get obj ''properties'' = Some (JObj props)" by blast
  with assms [OF vs(2)] show ?thesis by (auto simp: on_keyword_def members_def split: option.splits)
next
  case False
  then show ?thesis by (auto simp: on_keyword_def members_def split: json.splits option.splits)
qed

lemma additional_step:
  assumes "\<And>s x p. im_get obj ''additionalProperties'' = Some s \<Longrightarrow>
    validate_at env s x p = Inr () \<longleftrightarrow> conforms env s x"
  shows "(case (v, im_get obj ''additionalProperties'') of
      (JObj flds, Some additional) \<Rightarrow>
        check_each (\<lambda>(name, x).
          if declared obj name then Inr ()
          else case additional of
                 JBool False \<Rightarrow> ensure_at path False (''additional property '' @ quoted name @ '' is not allowed'')
               | JObj _ \<Rightarrow> validate_at env additional x (child_path path name)
               | _ \<Rightarrow> Inr ()) flds
    | _ \<Rightarrow> Inr ()) = Inr () \<longleftrightarrow>
    on_keyword obj ''additionalProperties'' (\<lambda>s. \<forall>(n, x) \<in> set (members v). declared obj n \<or> conforms env s x)"
proof (cases "\<exists>m s. v = JObj m \<and> im_get obj ''additionalProperties'' = Some s")
  case True
  then obtain m s where vs: "v = JObj m" "im_get obj ''additionalProperties'' = Some s" by blast
  have "(case s of
      JBool False \<Rightarrow> ensure_at path False (''additional property '' @ quoted n @ '' is not allowed'')
    | JObj _ \<Rightarrow> validate_at env s x (child_path path n)
    | _ \<Rightarrow> Inr ()) = Inr () \<longleftrightarrow> conforms env s x" for n x
    using assms [OF vs(2)] by (cases s) (auto simp: conforms.simps split: bool.split)
  then have "(if declared obj n then Inr ()
      else case s of
             JBool False \<Rightarrow> ensure_at path False (''additional property '' @ quoted n @ '' is not allowed'')
           | JObj _ \<Rightarrow> validate_at env s x (child_path path n)
           | _ \<Rightarrow> Inr ()) = Inr () \<longleftrightarrow> declared obj n \<or> conforms env s x" for n x
    by simp
  with vs show ?thesis by (simp add: on_keyword_def members_def split_beta)
next
  case False
  then show ?thesis by (auto simp: on_keyword_def members_def split: json.splits option.splits)
qed

lemma validate_at_exact:
  assumes "json_wf schema"
  shows "validate_at env schema v path = Inr () \<longleftrightarrow> conforms env schema v"
  using assms
proof (induction "size schema" arbitrary: schema v path rule: less_induct)
  case less
  show ?case
  proof (cases schema)
    case (JObj obj)
    have wf: "im_wf obj" "\<And>k s. im_get obj k = Some s \<Longrightarrow> json_wf s"
      using less.prems JObj by (auto simp: json_wf_simps dest: map_of_SomeD)
    have sub: "validate_at env s x p = Inr () \<longleftrightarrow> conforms env s x" if "im_get obj k = Some s" for k s x p
      using less.hyps [of s x p] member_smaller [OF that] wf(2) [OF that] JObj by simp
    have arr: "validate_at env s x p = Inr () \<longleftrightarrow> conforms env s x" if "im_get obj k = Some (JArr xs)" "s \<in> set xs" for k s x p xs
      using less.hyps [of s x p] member_elem_smaller [OF that] wf(2) [OF that(1)] that(2) JObj by (auto simp: json_wf_simps)
    have mem: "validate_at env s x p = Inr () \<longleftrightarrow> conforms env s x" if "im_get obj k = Some (JObj m)" "(n, s) \<in> set m" for k s x p m n
      using less.hyps [of s x p] member_member_smaller [OF that] wf(2) [OF that(1)] that(2) JObj by (auto simp: json_wf_simps)
    have all: "(case im_get obj ''allOf'' of
        Some (JArr subs) \<Rightarrow> check_each (\<lambda>sub. validate_at env sub v path) subs | _ \<Rightarrow> Inr ()) = Inr () \<longleftrightarrow>
      on_keyword obj ''allOf'' (\<lambda>s. \<forall>sub \<in> set (elems s). conforms env sub v)"
      using arr by (auto simp: on_keyword_def elems_def split: option.splits json.splits)
    have any: "(case im_get obj ''anyOf'' of
        Some (JArr subs) \<Rightarrow> ensure_at path (list_ex (\<lambda>sub. validate_at env sub v path = Inr ()) subs)
          ''value does not match any schema in anyOf'' | _ \<Rightarrow> Inr ()) = Inr () \<longleftrightarrow>
      on_keyword obj ''anyOf'' (\<lambda>s. is_array s \<longrightarrow> (\<exists>sub \<in> set (elems s). conforms env sub v))"
      using arr by (auto simp: on_keyword_def elems_def is_array_def list_ex_iff split: option.splits json.splits)
    have "filter (\<lambda>sub. validate_at env sub v path = Inr ()) subs = filter (\<lambda>sub. conforms env sub v) subs"
      if "im_get obj ''oneOf'' = Some (JArr subs)" for subs
      using arr [OF that] by (intro filter_cong) auto
    then have one: "(case im_get obj ''oneOf'' of
        Some (JArr subs) \<Rightarrow>
          (let n = length (filter (\<lambda>sub. validate_at env sub v path = Inr ()) subs)
           in ensure_at path (n = 1) (''value matches '' @ show_nat n @ '' schemas in oneOf'')) | _ \<Rightarrow> Inr ()) = Inr () \<longleftrightarrow>
      on_keyword obj ''oneOf'' (\<lambda>s. is_array s \<longrightarrow> length (filter (\<lambda>sub. conforms env sub v) (elems s)) = 1)"
      by (auto simp: on_keyword_def elems_def is_array_def Let_def split: option.splits json.splits)
    have neg: "(case im_get obj ''not'' of
        Some s \<Rightarrow> ensure_at path (validate_at env s v path \<noteq> Inr ()) ''value matches the forbidden schema''
      | None \<Rightarrow> Inr ()) = Inr () \<longleftrightarrow> on_keyword obj ''not'' (\<lambda>s. \<not> conforms env s v)"
      using sub by (auto simp: on_keyword_def split: option.splits)
    show ?thesis
      unfolding JObj conforms_obj [OF wf(1)] plain_ok [where path = path]
      by (subst validate_at.simps)
        (simp only: json.case first_error_ok list.set ball_simps items_step [OF sub] properties_step [OF mem]
          additional_step [OF sub] all any one neg simp_thms conj_ac)
  qed (subst validate_at.simps, subst conforms.simps, simp)+
qed


definition demo_schema_env :: SchemaEnv where
  "demo_schema_env = \<lparr> se_regex = (\<lambda>p. Inr (\<lambda>s. contains_sub s p)), se_show_f64 = (\<lambda>_. ''x''), se_show_json = (\<lambda>_. ''t'') \<rparr>"

definition demo_schema :: json where
  "demo_schema =
     JObj [(''type'', JStr ''object''), (''required'', JArr [JStr ''q'']),
           (''properties'', JObj [(''q'', JObj [(''type'', JStr ''string''), (''minLength'', JInt 2)]),
                                  (''n'', JObj [(''items'', JObj [(''maximum'', JInt 9)])])]),
           (''additionalProperties'', JBool False)]"


end
