(* ===== verification/McpTypes.thy ===== *)
theory McpTypes
  imports JsonRpc McpSchema
begin

text \<open>
  The wire types of the MCP SDK, \<open>MCP/rust-sdk/src/types.rs\<close>, and the typed parameters of
  \<open>protocol.rs\<close>.  The source derives most of its encoders and decoders; the combinators below say what a
  derived decoder does: a struct is read from an object or from the array of its fields, unknown members
  are ignored, an optional member may be absent or null, a member with a default may be absent.
  What a type promises is the locale \<open>mcp_codec\<close> (what is written is read back) or \<open>mcp_wire\<close> (and only
  well-formed values are ever read), interpreted for each.
\<close>

named_theorems wire \<open>reading back what was written\<close>
named_theorems wire_dest \<open>what is read is well-formed\<close>

subsection \<open>Derived codecs\<close>

definition struct_get :: "string list \<Rightarrow> json \<Rightarrow> (string \<Rightarrow> json option) option" where
  "struct_get ks v =
     (case v of
        JObj m \<Rightarrow> Some (im_get m)
      | JArr xs \<Rightarrow> (if length xs \<le> length ks then Some (map_of (zip ks xs)) else None)
      | _ \<Rightarrow> None)"

definition opt_dec :: "(json \<Rightarrow> 'a option) \<Rightarrow> json option \<Rightarrow> 'a option option" where
  "opt_dec dec v =
     (case v of None \<Rightarrow> Some None | Some x \<Rightarrow> (if x = JNull then Some None else map_option Some (dec x)))"

definition dflt_dec :: "(json \<Rightarrow> 'a option) \<Rightarrow> 'a \<Rightarrow> json option \<Rightarrow> 'a option" where
  "dflt_dec dec d v = (case v of None \<Rightarrow> Some d | Some x \<Rightarrow> dec x)"

fun all_some :: "('a \<Rightarrow> 'b option) \<Rightarrow> 'a list \<Rightarrow> 'b list option" where
  "all_some f [] = Some []"
| "all_some f (x # xs) = Option.bind (f x) (\<lambda>y. Option.bind (all_some f xs) (\<lambda>ys. Some (y # ys)))"

definition list_enc :: "('a \<Rightarrow> json) \<Rightarrow> 'a list \<Rightarrow> json" where
  "list_enc enc xs = JArr (map enc xs)"

definition list_dec :: "(json \<Rightarrow> 'a option) \<Rightarrow> json \<Rightarrow> 'a list option" where
  "list_dec dec v = (case v of JArr xs \<Rightarrow> all_some dec xs | _ \<Rightarrow> None)"

definition value_enc :: "json \<Rightarrow> json" where "value_enc v = v"

definition value_dec :: "json \<Rightarrow> json option" where "value_dec v = Some v"

text \<open>Well-formedness: no demand, a 64-bit integer, a value that is not read as absent.\<close>

definition any_ok :: "'a \<Rightarrow> bool" where "any_ok x = True"

definition i64_ok :: "int \<Rightarrow> bool" where "i64_ok n = is_i64 n"

definition value_ok :: "json \<Rightarrow> bool" where "value_ok v = (v \<noteq> JNull)"

lemma list_any: "list_all any_ok xs"
  by (simp add: list_all_iff any_ok_def)

lemma opt_any: "pred_option any_ok y" "pred_option (list_all any_ok) z"
  by (simp_all add: pred_option_def any_ok_def list_any)

lemma struct_get_obj [wire]: "struct_get ks (JObj m) = Some (im_get m)"
  by (simp add: struct_get_def)

lemmas [wire] = any_ok_def list_any opt_any value_dec_def value_enc_def map_of_some_members

locale mcp_codec =
  fixes enc :: "'a \<Rightarrow> json" and dec :: "json \<Rightarrow> 'a option" and ok :: "'a \<Rightarrow> bool"
  assumes dec_enc [wire]: "ok x \<Longrightarrow> dec (enc x) = Some x"
    and enc_not_null: "ok x \<Longrightarrow> enc x \<noteq> JNull"
begin

lemma all_some_enc: "list_all ok xs \<Longrightarrow> all_some dec (map enc xs) = Some xs"
  by (induction xs) (auto simp: dec_enc)

lemma list_enc_dec [wire]: "list_all ok xs \<Longrightarrow> list_dec dec (list_enc enc xs) = Some xs"
  by (simp add: list_dec_def list_enc_def all_some_enc)

lemma opt_enc_dec [wire]: "pred_option ok y \<Longrightarrow> opt_dec dec (map_option enc y) = Some y"
  by (cases y) (auto simp: opt_dec_def dec_enc enc_not_null)

lemma opt_list_enc_dec [wire]:
  "pred_option (list_all ok) y \<Longrightarrow> opt_dec (list_dec dec) (map_option (list_enc enc) y) = Some y"
  by (cases y) (auto simp: opt_dec_def list_enc_dec, simp add: list_enc_def)

lemma dflt_enc_dec [wire]: "ok x \<Longrightarrow> dflt_dec dec d (Some (enc x)) = Some x"
  by (simp add: dflt_dec_def dec_enc)

lemma dflt_list_enc_dec [wire]: "list_all ok xs \<Longrightarrow> dflt_dec (list_dec dec) d (Some (list_enc enc xs)) = Some xs"
  by (simp add: dflt_dec_def list_enc_dec)

end

locale mcp_wire = mcp_codec +
  assumes dec_ok [wire_dest]: "dec v = Some x \<Longrightarrow> ok x"
begin

lemma all_some_ok: "all_some dec vs = Some xs \<Longrightarrow> list_all ok xs"
  by (induction vs arbitrary: xs) (auto simp: bind_eq_Some_conv dec_ok)

lemma list_dec_ok [wire_dest]: "list_dec dec v = Some xs \<Longrightarrow> list_all ok xs"
  by (auto simp: list_dec_def all_some_ok split: json.splits)

lemma opt_dec_ok [wire_dest]: "opt_dec dec v = Some y \<Longrightarrow> pred_option ok y"
  by (auto simp: opt_dec_def dec_ok split: option.splits if_splits)

lemma opt_list_dec_ok [wire_dest]: "opt_dec (list_dec dec) v = Some y \<Longrightarrow> pred_option (list_all ok) y"
  by (auto simp: opt_dec_def split: option.splits if_splits dest: list_dec_ok)

lemma dflt_dec_ok [wire_dest]: "dflt_dec dec d v = Some x \<Longrightarrow> ok d \<longrightarrow> ok x"
  by (auto simp: dflt_dec_def split: option.splits dest: dec_ok)

lemma dflt_list_dec_ok [wire_dest]: "dflt_dec (list_dec dec) [] v = Some xs \<Longrightarrow> list_all ok xs"
  by (auto simp: dflt_dec_def split: option.splits dest: list_dec_ok)

end

interpretation wstr: mcp_wire JStr as_str any_ok
  by unfold_locales (auto simp: any_ok_def as_str_def split: json.splits)

interpretation wbool: mcp_wire JBool as_bool any_ok
  by unfold_locales (auto simp: any_ok_def as_bool_def split: json.splits)

interpretation wi64: mcp_wire JInt as_i64 i64_ok
  by unfold_locales (auto simp: i64_ok_def as_i64_def split: json.splits if_splits)

interpretation wf64: mcp_wire JFloat as_f64 any_ok
  by unfold_locales (auto simp: any_ok_def as_f64_def split: json.splits)

interpretation wmeta: mcp_wire JObj as_object any_ok
  by unfold_locales (auto simp: any_ok_def as_object_def split: json.splits)

interpretation wid: mcp_wire RequestId_to_value RequestId_from_value id_ok
  by unfold_locales
    (auto simp: RequestId_from_value_def RequestId_to_value_def id_ok_def as_i64_def split: RequestId.splits json.splits if_splits)

text \<open>An optional value: null is read as absent.\<close>

interpretation wvalue: mcp_codec value_enc value_dec value_ok
  by unfold_locales (auto simp: value_enc_def value_dec_def value_ok_def)

lemma opt_value_ok [wire_dest]: "opt_dec value_dec v = Some y \<Longrightarrow> pred_option value_ok y"
  by (auto simp: opt_dec_def value_dec_def value_ok_def split: option.splits if_splits)

lemma dflt_value [wire]: "dflt_dec value_dec d (Some v) = Some v"
  by (simp add: dflt_dec_def value_dec_def)

lemmas [wire] = bind_eq_Some_conv Option.bind_lunit

subsection \<open>Tokens and capabilities\<close>

datatype ProgressToken = TokenNumber int | TokenString string

definition ProgressToken_of_id :: "RequestId \<Rightarrow> ProgressToken" where
  "ProgressToken_of_id i = (case i of IdNumber n \<Rightarrow> TokenNumber n | IdString s \<Rightarrow> TokenString s)"

text \<open>\<open>str::parse::<i64>\<close>.\<close>

definition parse_i64 :: "string \<Rightarrow> int option" where
  "parse_i64 s =
     (let (neg, ds) = (case s of
            c # cs \<Rightarrow> if c = CHR ''-'' then (True, cs) else if c = CHR ''+'' then (False, cs) else (False, s)
          | [] \<Rightarrow> (False, []))
      in if ds = [] then None
         else case parse_digits 0 ds of
                None \<Rightarrow> None
              | Some n \<Rightarrow> (let i = (if neg then - int n else int n) in if is_i64 i then Some i else None))"

definition to_request_id :: "ProgressToken \<Rightarrow> RequestId" where
  "to_request_id t =
     (case t of
        TokenNumber n \<Rightarrow> IdNumber n
      | TokenString s \<Rightarrow> (case parse_i64 s of Some n \<Rightarrow> IdNumber n | None \<Rightarrow> IdString s))"

definition ProgressToken_to_value :: "ProgressToken \<Rightarrow> json" where
  "ProgressToken_to_value t = (case t of TokenNumber n \<Rightarrow> JInt n | TokenString s \<Rightarrow> JStr s)"

definition ProgressToken_from_value :: "json \<Rightarrow> ProgressToken option" where
  "ProgressToken_from_value v =
     (case as_i64 v of Some n \<Rightarrow> Some (TokenNumber n) | None \<Rightarrow> map_option TokenString (as_str v))"

definition ProgressToken_ok :: "ProgressToken \<Rightarrow> bool" where
  "ProgressToken_ok t = (case t of TokenNumber n \<Rightarrow> is_i64 n | TokenString _ \<Rightarrow> True)"

interpretation wProgressToken: mcp_wire ProgressToken_to_value ProgressToken_from_value ProgressToken_ok
  by unfold_locales
    (auto simp: ProgressToken_to_value_def ProgressToken_from_value_def ProgressToken_ok_def as_i64_def as_str_def
      split: ProgressToken.splits json.splits if_splits)

record RequestParamsMeta =
  rm_progress_token :: "ProgressToken option"

definition RequestParamsMeta_to_value :: "RequestParamsMeta \<Rightarrow> json" where
  "RequestParamsMeta_to_value x =
     JObj (some_members [(''progressToken'', map_option ProgressToken_to_value (rm_progress_token x))])"

definition RequestParamsMeta_from_value :: "json \<Rightarrow> RequestParamsMeta option" where
  "RequestParamsMeta_from_value v = Option.bind (struct_get [''progressToken''] v) (\<lambda>f.
     Option.bind (opt_dec ProgressToken_from_value (f ''progressToken'')) (\<lambda>progress_token_v.
       Some \<lparr> rm_progress_token = progress_token_v \<rparr>))"

definition RequestParamsMeta_ok :: "RequestParamsMeta \<Rightarrow> bool" where
  "RequestParamsMeta_ok x \<longleftrightarrow> pred_option ProgressToken_ok (rm_progress_token x)"

interpretation wRequestParamsMeta: mcp_wire RequestParamsMeta_to_value RequestParamsMeta_from_value RequestParamsMeta_ok
  by unfold_locales (auto simp: RequestParamsMeta_to_value_def RequestParamsMeta_from_value_def RequestParamsMeta_ok_def wire dest: wire_dest)

datatype LoggingCapabilities = LoggingCapabilities

definition LoggingCapabilities_to_value :: "LoggingCapabilities \<Rightarrow> json" where
  "LoggingCapabilities_to_value x =
     JObj (some_members [])"

definition LoggingCapabilities_from_value :: "json \<Rightarrow> LoggingCapabilities option" where
  "LoggingCapabilities_from_value v = map_option (\<lambda>_. LoggingCapabilities) (struct_get [] v)"

definition LoggingCapabilities_ok :: "LoggingCapabilities \<Rightarrow> bool" where
  "LoggingCapabilities_ok x \<longleftrightarrow> True"

interpretation wLoggingCapabilities: mcp_wire LoggingCapabilities_to_value LoggingCapabilities_from_value LoggingCapabilities_ok
  by unfold_locales (auto simp: LoggingCapabilities_to_value_def LoggingCapabilities_from_value_def LoggingCapabilities_ok_def wire dest: wire_dest, metis LoggingCapabilities.exhaust)

record PromptsCapabilities =
  pc_list_changed :: "bool option"

definition PromptsCapabilities_to_value :: "PromptsCapabilities \<Rightarrow> json" where
  "PromptsCapabilities_to_value x =
     JObj (some_members [(''listChanged'', map_option JBool (pc_list_changed x))])"

definition PromptsCapabilities_from_value :: "json \<Rightarrow> PromptsCapabilities option" where
  "PromptsCapabilities_from_value v = Option.bind (struct_get [''listChanged''] v) (\<lambda>f.
     Option.bind (opt_dec as_bool (f ''listChanged'')) (\<lambda>list_changed_v.
       Some \<lparr> pc_list_changed = list_changed_v \<rparr>))"

definition PromptsCapabilities_ok :: "PromptsCapabilities \<Rightarrow> bool" where
  "PromptsCapabilities_ok x \<longleftrightarrow> True"

interpretation wPromptsCapabilities: mcp_wire PromptsCapabilities_to_value PromptsCapabilities_from_value PromptsCapabilities_ok
  by unfold_locales (auto simp: PromptsCapabilities_to_value_def PromptsCapabilities_from_value_def PromptsCapabilities_ok_def wire dest: wire_dest)

record ResourcesCapabilities =
  rc_subscribe :: "bool option"
  rc_list_changed :: "bool option"

definition ResourcesCapabilities_to_value :: "ResourcesCapabilities \<Rightarrow> json" where
  "ResourcesCapabilities_to_value x =
     JObj (some_members [(''subscribe'', map_option JBool (rc_subscribe x)),
       (''listChanged'', map_option JBool (rc_list_changed x))])"

definition ResourcesCapabilities_from_value :: "json \<Rightarrow> ResourcesCapabilities option" where
  "ResourcesCapabilities_from_value v = Option.bind (struct_get [''subscribe'', ''listChanged''] v) (\<lambda>f.
     Option.bind (opt_dec as_bool (f ''subscribe'')) (\<lambda>subscribe_v.
     Option.bind (opt_dec as_bool (f ''listChanged'')) (\<lambda>list_changed_v.
       Some \<lparr> rc_subscribe = subscribe_v, rc_list_changed = list_changed_v \<rparr>)))"

definition ResourcesCapabilities_ok :: "ResourcesCapabilities \<Rightarrow> bool" where
  "ResourcesCapabilities_ok x \<longleftrightarrow> True"

interpretation wResourcesCapabilities: mcp_wire ResourcesCapabilities_to_value ResourcesCapabilities_from_value ResourcesCapabilities_ok
  by unfold_locales (auto simp: ResourcesCapabilities_to_value_def ResourcesCapabilities_from_value_def ResourcesCapabilities_ok_def wire dest: wire_dest)

record ToolsCapabilities =
  tc_list_changed :: "bool option"

definition ToolsCapabilities_to_value :: "ToolsCapabilities \<Rightarrow> json" where
  "ToolsCapabilities_to_value x =
     JObj (some_members [(''listChanged'', map_option JBool (tc_list_changed x))])"

definition ToolsCapabilities_from_value :: "json \<Rightarrow> ToolsCapabilities option" where
  "ToolsCapabilities_from_value v = Option.bind (struct_get [''listChanged''] v) (\<lambda>f.
     Option.bind (opt_dec as_bool (f ''listChanged'')) (\<lambda>list_changed_v.
       Some \<lparr> tc_list_changed = list_changed_v \<rparr>))"

definition ToolsCapabilities_ok :: "ToolsCapabilities \<Rightarrow> bool" where
  "ToolsCapabilities_ok x \<longleftrightarrow> True"

interpretation wToolsCapabilities: mcp_wire ToolsCapabilities_to_value ToolsCapabilities_from_value ToolsCapabilities_ok
  by unfold_locales (auto simp: ToolsCapabilities_to_value_def ToolsCapabilities_from_value_def ToolsCapabilities_ok_def wire dest: wire_dest)

record ServerCapabilities =
  sc_experimental :: "JsonDict option"
  sc_logging :: "LoggingCapabilities option"
  sc_prompts :: "PromptsCapabilities option"
  sc_resources :: "ResourcesCapabilities option"
  sc_tools :: "ToolsCapabilities option"

definition ServerCapabilities_to_value :: "ServerCapabilities \<Rightarrow> json" where
  "ServerCapabilities_to_value x =
     JObj (some_members [(''experimental'', map_option JObj (sc_experimental x)),
       (''logging'', map_option LoggingCapabilities_to_value (sc_logging x)),
       (''prompts'', map_option PromptsCapabilities_to_value (sc_prompts x)),
       (''resources'', map_option ResourcesCapabilities_to_value (sc_resources x)),
       (''tools'', map_option ToolsCapabilities_to_value (sc_tools x))])"

definition ServerCapabilities_from_value :: "json \<Rightarrow> ServerCapabilities option" where
  "ServerCapabilities_from_value v = Option.bind (struct_get [''experimental'', ''logging'', ''prompts'', ''resources'', ''tools''] v) (\<lambda>f.
     Option.bind (opt_dec as_object (f ''experimental'')) (\<lambda>experimental_v.
     Option.bind (opt_dec LoggingCapabilities_from_value (f ''logging'')) (\<lambda>logging_v.
     Option.bind (opt_dec PromptsCapabilities_from_value (f ''prompts'')) (\<lambda>prompts_v.
     Option.bind (opt_dec ResourcesCapabilities_from_value (f ''resources'')) (\<lambda>resources_v.
     Option.bind (opt_dec ToolsCapabilities_from_value (f ''tools'')) (\<lambda>tools_v.
       Some \<lparr> sc_experimental = experimental_v, sc_logging = logging_v, sc_prompts = prompts_v, sc_resources = resources_v, sc_tools = tools_v \<rparr>))))))"

definition ServerCapabilities_ok :: "ServerCapabilities \<Rightarrow> bool" where
  "ServerCapabilities_ok x \<longleftrightarrow> pred_option LoggingCapabilities_ok (sc_logging x) \<and> pred_option PromptsCapabilities_ok (sc_prompts x) \<and> pred_option ResourcesCapabilities_ok (sc_resources x) \<and> pred_option ToolsCapabilities_ok (sc_tools x)"

interpretation wServerCapabilities: mcp_wire ServerCapabilities_to_value ServerCapabilities_from_value ServerCapabilities_ok
  by unfold_locales (auto simp: ServerCapabilities_to_value_def ServerCapabilities_from_value_def ServerCapabilities_ok_def wire dest: wire_dest)

text \<open>The client's capabilities have a wire form of their own: flags are present or absent objects.\<close>

definition flag_member :: "string \<Rightarrow> bool \<Rightarrow> string \<times> json option" where
  "flag_member k b = (k, if b then Some (JObj []) else None)"

definition has_flag :: "json \<Rightarrow> string \<Rightarrow> bool" where
  "has_flag v k = (case jget v k of Some x \<Rightarrow> is_object x | None \<Rightarrow> False)"

record SamplingCapability =
  sp_context :: bool
  sp_tools :: bool

definition SamplingCapability_to_value :: "SamplingCapability \<Rightarrow> json" where
  "SamplingCapability_to_value x = JObj (some_members [flag_member ''context'' (sp_context x), flag_member ''tools'' (sp_tools x)])"

definition SamplingCapability_from_value :: "json \<Rightarrow> SamplingCapability option" where
  "SamplingCapability_from_value v = Some \<lparr> sp_context = has_flag v ''context'', sp_tools = has_flag v ''tools'' \<rparr>"

datatype FormElicitationCapability = FormElicitationCapability
datatype UrlElicitationCapability = UrlElicitationCapability

record ElicitationCapability =
  ec_form :: "FormElicitationCapability option"
  ec_url :: "UrlElicitationCapability option"

definition ElicitationCapability_to_value :: "ElicitationCapability \<Rightarrow> json" where
  "ElicitationCapability_to_value x = JObj []"

definition ElicitationCapability_from_value :: "json \<Rightarrow> ElicitationCapability option" where
  "ElicitationCapability_from_value v =
     Some \<lparr> ec_form = (if has_flag v ''form'' then Some FormElicitationCapability else None),
            ec_url = (if has_flag v ''url'' then Some UrlElicitationCapability else None) \<rparr>"

record RootsCapability =
  rk_list_changed :: bool

definition RootsCapability_to_value :: "RootsCapability \<Rightarrow> json" where
  "RootsCapability_to_value x =
     JObj (some_members [(''listChanged'', if rk_list_changed x then Some (JBool True) else None)])"

definition RootsCapability_from_value :: "json \<Rightarrow> RootsCapability option" where
  "RootsCapability_from_value v =
     Some \<lparr> rk_list_changed = (case Option.bind (jget v ''listChanged'') as_bool of Some b \<Rightarrow> b | None \<Rightarrow> False) \<rparr>"

record ClientTasksCapability =
  tk_list :: bool
  tk_cancel :: bool
  tk_sampling_create_message :: bool
  tk_elicitation_create :: bool

definition ClientTasksCapability_to_value :: "ClientTasksCapability \<Rightarrow> json" where
  "ClientTasksCapability_to_value x =
     JObj (some_members
       [flag_member ''list'' (tk_list x), flag_member ''cancel'' (tk_cancel x),
        (''requests'',
         if tk_sampling_create_message x \<or> tk_elicitation_create x then
           Some (JObj (some_members
             [(''sampling'', if tk_sampling_create_message x then Some (JObj [(''createMessage'', JObj [])]) else None),
              (''elicitation'', if tk_elicitation_create x then Some (JObj [(''create'', JObj [])]) else None)]))
         else None)])"

definition nested_flag :: "json \<Rightarrow> string \<Rightarrow> string \<Rightarrow> bool" where
  "nested_flag v k k' = (case jget v k of Some x \<Rightarrow> has_flag x k' | None \<Rightarrow> False)"

definition ClientTasksCapability_from_value :: "json \<Rightarrow> ClientTasksCapability option" where
  "ClientTasksCapability_from_value v =
     (let req = (case jget v ''requests'' of Some r \<Rightarrow> (if is_object r then r else JNull) | None \<Rightarrow> JNull) in
      Some \<lparr> tk_list = has_flag v ''list'', tk_cancel = has_flag v ''cancel'',
             tk_sampling_create_message = nested_flag req ''sampling'' ''createMessage'',
             tk_elicitation_create = nested_flag req ''elicitation'' ''create'' \<rparr>)"

record ClientCapabilities =
  kc_experimental :: "JsonDict option"
  kc_sampling :: "SamplingCapability option"
  kc_elicitation :: "ElicitationCapability option"
  kc_roots :: "RootsCapability option"
  kc_tasks :: "ClientTasksCapability option"

definition ClientCapabilities_default :: ClientCapabilities where
  "ClientCapabilities_default =
     \<lparr> kc_experimental = None, kc_sampling = None, kc_elicitation = None, kc_roots = None, kc_tasks = None \<rparr>"

definition ClientCapabilities_to_value :: "ClientCapabilities \<Rightarrow> json" where
  "ClientCapabilities_to_value x =
     JObj (some_members
       [(''experimental'', map_option JObj (kc_experimental x)),
        (''sampling'', map_option SamplingCapability_to_value (kc_sampling x)),
        (''elicitation'', map_option (\<lambda>_. JObj []) (kc_elicitation x)),
        (''tasks'', map_option ClientTasksCapability_to_value (kc_tasks x)),
        (''roots'', map_option RootsCapability_to_value (kc_roots x))])"

definition object_member :: "JsonDict \<Rightarrow> string \<Rightarrow> json option" where
  "object_member obj k = (case im_get obj k of Some v \<Rightarrow> (if is_object v then Some v else None) | None \<Rightarrow> None)"

definition ClientCapabilities_from_value :: "json \<Rightarrow> ClientCapabilities option" where
  "ClientCapabilities_from_value v =
     (case v of
        JObj obj \<Rightarrow>
          Some \<lparr> kc_experimental = Option.bind (object_member obj ''experimental'') as_object,
                 kc_sampling = Option.bind (object_member obj ''sampling'') SamplingCapability_from_value,
                 kc_elicitation = Option.bind (object_member obj ''elicitation'') ElicitationCapability_from_value,
                 kc_roots = Option.bind (object_member obj ''roots'') RootsCapability_from_value,
                 kc_tasks = Option.bind (object_member obj ''tasks'') ClientTasksCapability_from_value \<rparr>
      | _ \<Rightarrow> Some ClientCapabilities_default)"

text \<open>The modes of elicitation are not written, so only capabilities without them come back as they were.\<close>

definition ClientCapabilities_ok :: "ClientCapabilities \<Rightarrow> bool" where
  "ClientCapabilities_ok x \<longleftrightarrow> pred_option (\<lambda>e. e = \<lparr> ec_form = None, ec_url = None \<rparr>) (kc_elicitation x)"

lemma sampling_written: "Option.bind (Some (SamplingCapability_to_value x)) SamplingCapability_from_value = Some x"
  by (cases x) (simp add: SamplingCapability_to_value_def SamplingCapability_from_value_def flag_member_def has_flag_def
      is_object_def wire del: bind_eq_Some_conv)

lemma tasks_written: "ClientTasksCapability_from_value (ClientTasksCapability_to_value x) = Some x"
  by (cases x)
    (auto simp: ClientTasksCapability_to_value_def ClientTasksCapability_from_value_def flag_member_def has_flag_def
      nested_flag_def is_object_def map_of_some_members)

interpretation wClientCapabilities: mcp_codec ClientCapabilities_to_value ClientCapabilities_from_value ClientCapabilities_ok
proof
  fix x assume ok: "ClientCapabilities_ok x"
  have obj: "is_object (JObj m)" "is_object (SamplingCapability_to_value s)" "is_object (ClientTasksCapability_to_value t)"
    "is_object (RootsCapability_to_value r)" for m s t r
    by (simp_all add: is_object_def SamplingCapability_to_value_def ClientTasksCapability_to_value_def RootsCapability_to_value_def)
  have get: "object_member (some_members fs) k = (case Option.bind (map_of fs k) id of Some v \<Rightarrow> (if is_object v then Some v else None) | None \<Rightarrow> None)"
    if "distinct (map fst fs)" for fs k
    using that by (simp add: object_member_def map_of_some_members)
  have opt: "Option.bind (case y of None \<Rightarrow> None | Some z \<Rightarrow> ((\<lambda>v. if is_object v then Some v else None) \<circ> f) z) g = y"
    if "\<And>z. y = Some z \<Longrightarrow> is_object (f z) \<and> g (f z) = Some z" for y f g
    using that by (cases y) auto
  have "SamplingCapability_from_value (SamplingCapability_to_value s) = Some s" for s
    using sampling_written [of s] by simp
  moreover have "RootsCapability_from_value (RootsCapability_to_value r) = Some r" for r
    by (cases r) (simp add: RootsCapability_from_value_def RootsCapability_to_value_def map_of_some_members)
  moreover have "ElicitationCapability_from_value (JObj []) = Some z" if "kc_elicitation x = Some z" for z
    using ok that by (simp add: ClientCapabilities_ok_def ElicitationCapability_from_value_def has_flag_def)
  ultimately show "ClientCapabilities_from_value (ClientCapabilities_to_value x) = Some x"
    by (simp add: ClientCapabilities_from_value_def ClientCapabilities_to_value_def get tasks_written obj opt)
qed (simp add: ClientCapabilities_to_value_def)

subsection \<open>Content\<close>

record Icon =
  ic_src :: "string"
  ic_mime_type :: "string option"
  ic_sizes :: "(string list) option"
  ic_theme :: "string option"

definition Icon_to_value :: "Icon \<Rightarrow> json" where
  "Icon_to_value x =
     JObj (some_members [(''src'', Some (JStr (ic_src x))),
       (''mimeType'', map_option JStr (ic_mime_type x)),
       (''sizes'', map_option (list_enc JStr) (ic_sizes x)),
       (''theme'', map_option JStr (ic_theme x))])"

definition Icon_from_value :: "json \<Rightarrow> Icon option" where
  "Icon_from_value v = Option.bind (struct_get [''src'', ''mimeType'', ''sizes'', ''theme''] v) (\<lambda>f.
     Option.bind (Option.bind (f ''src'') as_str) (\<lambda>src_v.
     Option.bind (opt_dec as_str (f ''mimeType'')) (\<lambda>mime_type_v.
     Option.bind (opt_dec (list_dec as_str) (f ''sizes'')) (\<lambda>sizes_v.
     Option.bind (opt_dec as_str (f ''theme'')) (\<lambda>theme_v.
       Some \<lparr> ic_src = src_v, ic_mime_type = mime_type_v, ic_sizes = sizes_v, ic_theme = theme_v \<rparr>)))))"

definition Icon_ok :: "Icon \<Rightarrow> bool" where
  "Icon_ok x \<longleftrightarrow> True"

interpretation wIcon: mcp_wire Icon_to_value Icon_from_value Icon_ok
  by unfold_locales (auto simp: Icon_to_value_def Icon_from_value_def Icon_ok_def wire dest: wire_dest)

record Implementation =
  ii_name :: "string"
  ii_title :: "string option"
  ii_version :: "string"
  ii_website_url :: "string option"
  ii_icons :: "(Icon list) option"

definition Implementation_to_value :: "Implementation \<Rightarrow> json" where
  "Implementation_to_value x =
     JObj (some_members [(''name'', Some (JStr (ii_name x))),
       (''title'', map_option JStr (ii_title x)),
       (''version'', Some (JStr (ii_version x))),
       (''websiteUrl'', map_option JStr (ii_website_url x)),
       (''icons'', map_option (list_enc Icon_to_value) (ii_icons x))])"

definition Implementation_from_value :: "json \<Rightarrow> Implementation option" where
  "Implementation_from_value v = Option.bind (struct_get [''name'', ''title'', ''version'', ''websiteUrl'', ''icons''] v) (\<lambda>f.
     Option.bind (dflt_dec as_str [] (f ''name'')) (\<lambda>name_v.
     Option.bind (opt_dec as_str (f ''title'')) (\<lambda>title_v.
     Option.bind (dflt_dec as_str [] (f ''version'')) (\<lambda>version_v.
     Option.bind (opt_dec as_str (f ''websiteUrl'')) (\<lambda>website_url_v.
     Option.bind (opt_dec (list_dec Icon_from_value) (f ''icons'')) (\<lambda>icons_v.
       Some \<lparr> ii_name = name_v, ii_title = title_v, ii_version = version_v, ii_website_url = website_url_v, ii_icons = icons_v \<rparr>))))))"

definition Implementation_ok :: "Implementation \<Rightarrow> bool" where
  "Implementation_ok x \<longleftrightarrow> pred_option (list_all Icon_ok) (ii_icons x)"

interpretation wImplementation: mcp_wire Implementation_to_value Implementation_from_value Implementation_ok
  by unfold_locales (auto simp: Implementation_to_value_def Implementation_from_value_def Implementation_ok_def wire dest: wire_dest)

definition Implementation_default :: Implementation where
  "Implementation_default = \<lparr> ii_name = [], ii_title = None, ii_version = [], ii_website_url = None, ii_icons = None \<rparr>"

definition Implementation_new :: "string \<Rightarrow> string \<Rightarrow> Implementation" where
  "Implementation_new name version = Implementation_default\<lparr> ii_name := name, ii_version := version \<rparr>"

datatype RoleType = RoleUser | RoleAssistant

definition RoleType_as_str :: "RoleType \<Rightarrow> string" where
  "RoleType_as_str r = (case r of RoleUser \<Rightarrow> ''user'' | RoleAssistant \<Rightarrow> ''assistant'')"

definition RoleType_to_value :: "RoleType \<Rightarrow> json" where
  "RoleType_to_value r = JStr (RoleType_as_str r)"

definition RoleType_from_value :: "json \<Rightarrow> RoleType option" where
  "RoleType_from_value v = map_option (\<lambda>s. if s = ''assistant'' then RoleAssistant else RoleUser) (as_str v)"

definition RoleType_ok :: "RoleType \<Rightarrow> bool" where "RoleType_ok r = True"

interpretation wRoleType: mcp_wire RoleType_to_value RoleType_from_value RoleType_ok
  by unfold_locales
    (auto simp: RoleType_to_value_def RoleType_from_value_def RoleType_ok_def RoleType_as_str_def split: RoleType.splits)

record Annotations =
  an_audience :: "(RoleType list) option"
  an_last_modified :: "string option"
  an_priority :: "real option"

definition Annotations_to_value :: "Annotations \<Rightarrow> json" where
  "Annotations_to_value x =
     JObj (some_members [(''audience'', map_option (list_enc RoleType_to_value) (an_audience x)),
       (''lastModified'', map_option JStr (an_last_modified x)),
       (''priority'', map_option JFloat (an_priority x))])"

definition Annotations_from_value :: "json \<Rightarrow> Annotations option" where
  "Annotations_from_value v = Option.bind (struct_get [''audience'', ''lastModified'', ''priority''] v) (\<lambda>f.
     Option.bind (opt_dec (list_dec RoleType_from_value) (f ''audience'')) (\<lambda>audience_v.
     Option.bind (opt_dec as_str (f ''lastModified'')) (\<lambda>last_modified_v.
     Option.bind (opt_dec as_f64 (f ''priority'')) (\<lambda>priority_v.
       Some \<lparr> an_audience = audience_v, an_last_modified = last_modified_v, an_priority = priority_v \<rparr>))))"

definition Annotations_ok :: "Annotations \<Rightarrow> bool" where
  "Annotations_ok x \<longleftrightarrow> pred_option (list_all RoleType_ok) (an_audience x)"

interpretation wAnnotations: mcp_wire Annotations_to_value Annotations_from_value Annotations_ok
  by unfold_locales (auto simp: Annotations_to_value_def Annotations_from_value_def Annotations_ok_def wire dest: wire_dest)

record TextContent =
  tx_text :: "string"
  tx_annotations :: "Annotations option"

definition TextContent_to_value :: "TextContent \<Rightarrow> json" where
  "TextContent_to_value x =
     JObj (some_members [(''text'', Some (JStr (tx_text x))),
       (''annotations'', map_option Annotations_to_value (tx_annotations x))])"

definition TextContent_from_value :: "json \<Rightarrow> TextContent option" where
  "TextContent_from_value v = Option.bind (struct_get [''text'', ''annotations''] v) (\<lambda>f.
     Option.bind (dflt_dec as_str [] (f ''text'')) (\<lambda>text_v.
     Option.bind (opt_dec Annotations_from_value (f ''annotations'')) (\<lambda>annotations_v.
       Some \<lparr> tx_text = text_v, tx_annotations = annotations_v \<rparr>)))"

definition TextContent_ok :: "TextContent \<Rightarrow> bool" where
  "TextContent_ok x \<longleftrightarrow> pred_option Annotations_ok (tx_annotations x)"

interpretation wTextContent: mcp_wire TextContent_to_value TextContent_from_value TextContent_ok
  by unfold_locales (auto simp: TextContent_to_value_def TextContent_from_value_def TextContent_ok_def wire dest: wire_dest)

definition TextContent_new :: "string \<Rightarrow> TextContent" where
  "TextContent_new s = \<lparr> tx_text = s, tx_annotations = None \<rparr>"

record ImageContent =
  ig_data :: "string"
  ig_mime_type :: "string"
  ig_annotations :: "Annotations option"

definition ImageContent_to_value :: "ImageContent \<Rightarrow> json" where
  "ImageContent_to_value x =
     JObj (some_members [(''data'', Some (JStr (ig_data x))),
       (''mimeType'', Some (JStr (ig_mime_type x))),
       (''annotations'', map_option Annotations_to_value (ig_annotations x))])"

definition ImageContent_from_value :: "json \<Rightarrow> ImageContent option" where
  "ImageContent_from_value v = Option.bind (struct_get [''data'', ''mimeType'', ''annotations''] v) (\<lambda>f.
     Option.bind (dflt_dec as_str [] (f ''data'')) (\<lambda>data_v.
     Option.bind (Option.bind (f ''mimeType'') as_str) (\<lambda>mime_type_v.
     Option.bind (opt_dec Annotations_from_value (f ''annotations'')) (\<lambda>annotations_v.
       Some \<lparr> ig_data = data_v, ig_mime_type = mime_type_v, ig_annotations = annotations_v \<rparr>))))"

definition ImageContent_ok :: "ImageContent \<Rightarrow> bool" where
  "ImageContent_ok x \<longleftrightarrow> pred_option Annotations_ok (ig_annotations x)"

interpretation wImageContent: mcp_wire ImageContent_to_value ImageContent_from_value ImageContent_ok
  by unfold_locales (auto simp: ImageContent_to_value_def ImageContent_from_value_def ImageContent_ok_def wire dest: wire_dest)

record AudioContent =
  au_data :: "string"
  au_mime_type :: "string"
  au_annotations :: "Annotations option"

definition AudioContent_to_value :: "AudioContent \<Rightarrow> json" where
  "AudioContent_to_value x =
     JObj (some_members [(''data'', Some (JStr (au_data x))),
       (''mimeType'', Some (JStr (au_mime_type x))),
       (''annotations'', map_option Annotations_to_value (au_annotations x))])"

definition AudioContent_from_value :: "json \<Rightarrow> AudioContent option" where
  "AudioContent_from_value v = Option.bind (struct_get [''data'', ''mimeType'', ''annotations''] v) (\<lambda>f.
     Option.bind (dflt_dec as_str [] (f ''data'')) (\<lambda>data_v.
     Option.bind (Option.bind (f ''mimeType'') as_str) (\<lambda>mime_type_v.
     Option.bind (opt_dec Annotations_from_value (f ''annotations'')) (\<lambda>annotations_v.
       Some \<lparr> au_data = data_v, au_mime_type = mime_type_v, au_annotations = annotations_v \<rparr>))))"

definition AudioContent_ok :: "AudioContent \<Rightarrow> bool" where
  "AudioContent_ok x \<longleftrightarrow> pred_option Annotations_ok (au_annotations x)"

interpretation wAudioContent: mcp_wire AudioContent_to_value AudioContent_from_value AudioContent_ok
  by unfold_locales (auto simp: AudioContent_to_value_def AudioContent_from_value_def AudioContent_ok_def wire dest: wire_dest)

record TextResourceContents =
  tr_uri :: "string"
  tr_text :: "string"
  tr_mime_type :: "string option"

definition TextResourceContents_to_value :: "TextResourceContents \<Rightarrow> json" where
  "TextResourceContents_to_value x =
     JObj (some_members [(''uri'', Some (JStr (tr_uri x))),
       (''text'', Some (JStr (tr_text x))),
       (''mimeType'', map_option JStr (tr_mime_type x))])"

definition TextResourceContents_from_value :: "json \<Rightarrow> TextResourceContents option" where
  "TextResourceContents_from_value v = Option.bind (struct_get [''uri'', ''text'', ''mimeType''] v) (\<lambda>f.
     Option.bind (Option.bind (f ''uri'') as_str) (\<lambda>uri_v.
     Option.bind (dflt_dec as_str [] (f ''text'')) (\<lambda>text_v.
     Option.bind (opt_dec as_str (f ''mimeType'')) (\<lambda>mime_type_v.
       Some \<lparr> tr_uri = uri_v, tr_text = text_v, tr_mime_type = mime_type_v \<rparr>))))"

definition TextResourceContents_ok :: "TextResourceContents \<Rightarrow> bool" where
  "TextResourceContents_ok x \<longleftrightarrow> True"

interpretation wTextResourceContents: mcp_wire TextResourceContents_to_value TextResourceContents_from_value TextResourceContents_ok
  by unfold_locales (auto simp: TextResourceContents_to_value_def TextResourceContents_from_value_def TextResourceContents_ok_def wire dest: wire_dest)

record BlobResourceContents =
  br_uri :: "string"
  br_blob :: "string"
  br_mime_type :: "string option"

definition BlobResourceContents_to_value :: "BlobResourceContents \<Rightarrow> json" where
  "BlobResourceContents_to_value x =
     JObj (some_members [(''uri'', Some (JStr (br_uri x))),
       (''blob'', Some (JStr (br_blob x))),
       (''mimeType'', map_option JStr (br_mime_type x))])"

definition BlobResourceContents_from_value :: "json \<Rightarrow> BlobResourceContents option" where
  "BlobResourceContents_from_value v = Option.bind (struct_get [''uri'', ''blob'', ''mimeType''] v) (\<lambda>f.
     Option.bind (Option.bind (f ''uri'') as_str) (\<lambda>uri_v.
     Option.bind (dflt_dec as_str [] (f ''blob'')) (\<lambda>blob_v.
     Option.bind (opt_dec as_str (f ''mimeType'')) (\<lambda>mime_type_v.
       Some \<lparr> br_uri = uri_v, br_blob = blob_v, br_mime_type = mime_type_v \<rparr>))))"

definition BlobResourceContents_ok :: "BlobResourceContents \<Rightarrow> bool" where
  "BlobResourceContents_ok x \<longleftrightarrow> True"

interpretation wBlobResourceContents: mcp_wire BlobResourceContents_to_value BlobResourceContents_from_value BlobResourceContents_ok
  by unfold_locales (auto simp: BlobResourceContents_to_value_def BlobResourceContents_from_value_def BlobResourceContents_ok_def wire dest: wire_dest)

text \<open>Text or bytes, told apart by the member that is present; with neither, an empty text.\<close>

datatype ResourceContents = RcText TextResourceContents | RcBlob BlobResourceContents

definition ResourceContents_to_value :: "ResourceContents \<Rightarrow> json" where
  "ResourceContents_to_value x =
     (case x of RcText t \<Rightarrow> TextResourceContents_to_value t | RcBlob b \<Rightarrow> BlobResourceContents_to_value b)"

definition ResourceContents_from_value :: "json \<Rightarrow> ResourceContents option" where
  "ResourceContents_from_value v =
     (if jget v ''text'' \<noteq> None then map_option RcText (TextResourceContents_from_value v)
      else if jget v ''blob'' \<noteq> None then map_option RcBlob (BlobResourceContents_from_value v)
      else Some (RcText \<lparr> tr_uri = (case Option.bind (jget v ''uri'') as_str of Some u \<Rightarrow> u | None \<Rightarrow> []),
                          tr_text = [], tr_mime_type = None \<rparr>))"

definition ResourceContents_ok :: "ResourceContents \<Rightarrow> bool" where "ResourceContents_ok x = True"

lemma contents_members:
  "jget (TextResourceContents_to_value t) ''text'' \<noteq> None" "jget (BlobResourceContents_to_value b) ''text'' = None"
  "jget (BlobResourceContents_to_value b) ''blob'' \<noteq> None"
  by (simp_all add: TextResourceContents_to_value_def BlobResourceContents_to_value_def map_of_some_members)

interpretation wResourceContents: mcp_wire ResourceContents_to_value ResourceContents_from_value ResourceContents_ok
proof
  fix x :: ResourceContents
  have ok: "TextResourceContents_ok t" "BlobResourceContents_ok b" for t b
    by (simp_all add: TextResourceContents_ok_def BlobResourceContents_ok_def)
  show "ResourceContents_from_value (ResourceContents_to_value x) = Some x"
    using ok by (cases x)
      (simp_all add: ResourceContents_from_value_def ResourceContents_to_value_def contents_members
        wTextResourceContents.dec_enc wBlobResourceContents.dec_enc)
  show "ResourceContents_to_value x \<noteq> JNull"
    using ok by (cases x) (simp_all add: ResourceContents_to_value_def TextResourceContents_to_value_def BlobResourceContents_to_value_def)
qed (simp add: ResourceContents_ok_def)

record EmbeddedResource =
  er_resource :: "ResourceContents"
  er_annotations :: "Annotations option"

definition EmbeddedResource_to_value :: "EmbeddedResource \<Rightarrow> json" where
  "EmbeddedResource_to_value x =
     JObj (some_members [(''resource'', Some (ResourceContents_to_value (er_resource x))),
       (''annotations'', map_option Annotations_to_value (er_annotations x))])"

definition EmbeddedResource_from_value :: "json \<Rightarrow> EmbeddedResource option" where
  "EmbeddedResource_from_value v = Option.bind (struct_get [''resource'', ''annotations''] v) (\<lambda>f.
     Option.bind (Option.bind (f ''resource'') ResourceContents_from_value) (\<lambda>resource_v.
     Option.bind (opt_dec Annotations_from_value (f ''annotations'')) (\<lambda>annotations_v.
       Some \<lparr> er_resource = resource_v, er_annotations = annotations_v \<rparr>)))"

definition EmbeddedResource_ok :: "EmbeddedResource \<Rightarrow> bool" where
  "EmbeddedResource_ok x \<longleftrightarrow> ResourceContents_ok (er_resource x) \<and> pred_option Annotations_ok (er_annotations x)"

interpretation wEmbeddedResource: mcp_wire EmbeddedResource_to_value EmbeddedResource_from_value EmbeddedResource_ok
  by unfold_locales (auto simp: EmbeddedResource_to_value_def EmbeddedResource_from_value_def EmbeddedResource_ok_def wire dest: wire_dest)

record ResourceLink =
  rl_uri :: "string"
  rl_name :: "string"
  rl_title :: "string option"
  rl_description :: "string option"
  rl_mime_type :: "string option"
  rl_size :: "int option"
  rl_icons :: "(Icon list) option"
  rl_annotations :: "Annotations option"

definition ResourceLink_to_value :: "ResourceLink \<Rightarrow> json" where
  "ResourceLink_to_value x =
     JObj (some_members [(''uri'', Some (JStr (rl_uri x))),
       (''name'', Some (JStr (rl_name x))),
       (''title'', map_option JStr (rl_title x)),
       (''description'', map_option JStr (rl_description x)),
       (''mimeType'', map_option JStr (rl_mime_type x)),
       (''size'', map_option JInt (rl_size x)),
       (''icons'', map_option (list_enc Icon_to_value) (rl_icons x)),
       (''annotations'', map_option Annotations_to_value (rl_annotations x))])"

definition ResourceLink_from_value :: "json \<Rightarrow> ResourceLink option" where
  "ResourceLink_from_value v = Option.bind (struct_get [''uri'', ''name'', ''title'', ''description'', ''mimeType'', ''size'', ''icons'', ''annotations''] v) (\<lambda>f.
     Option.bind (Option.bind (f ''uri'') as_str) (\<lambda>uri_v.
     Option.bind (Option.bind (f ''name'') as_str) (\<lambda>name_v.
     Option.bind (opt_dec as_str (f ''title'')) (\<lambda>title_v.
     Option.bind (opt_dec as_str (f ''description'')) (\<lambda>description_v.
     Option.bind (opt_dec as_str (f ''mimeType'')) (\<lambda>mime_type_v.
     Option.bind (opt_dec as_i64 (f ''size'')) (\<lambda>size_v.
     Option.bind (opt_dec (list_dec Icon_from_value) (f ''icons'')) (\<lambda>icons_v.
     Option.bind (opt_dec Annotations_from_value (f ''annotations'')) (\<lambda>annotations_v.
       Some \<lparr> rl_uri = uri_v, rl_name = name_v, rl_title = title_v, rl_description = description_v, rl_mime_type = mime_type_v, rl_size = size_v, rl_icons = icons_v, rl_annotations = annotations_v \<rparr>)))))))))"

definition ResourceLink_ok :: "ResourceLink \<Rightarrow> bool" where
  "ResourceLink_ok x \<longleftrightarrow> pred_option i64_ok (rl_size x) \<and> pred_option (list_all Icon_ok) (rl_icons x) \<and> pred_option Annotations_ok (rl_annotations x)"

interpretation wResourceLink: mcp_wire ResourceLink_to_value ResourceLink_from_value ResourceLink_ok
  by unfold_locales (auto simp: ResourceLink_to_value_def ResourceLink_from_value_def ResourceLink_ok_def wire dest: wire_dest)

record ToolAnnotations =
  ta_title :: "string option"
  ta_read_only_hint :: "bool option"
  ta_destructive_hint :: "bool option"
  ta_idempotent_hint :: "bool option"
  ta_open_world_hint :: "bool option"

definition ToolAnnotations_to_value :: "ToolAnnotations \<Rightarrow> json" where
  "ToolAnnotations_to_value x =
     JObj (some_members [(''title'', map_option JStr (ta_title x)),
       (''readOnlyHint'', map_option JBool (ta_read_only_hint x)),
       (''destructiveHint'', map_option JBool (ta_destructive_hint x)),
       (''idempotentHint'', map_option JBool (ta_idempotent_hint x)),
       (''openWorldHint'', map_option JBool (ta_open_world_hint x))])"

definition ToolAnnotations_from_value :: "json \<Rightarrow> ToolAnnotations option" where
  "ToolAnnotations_from_value v = Option.bind (struct_get [''title'', ''readOnlyHint'', ''destructiveHint'', ''idempotentHint'', ''openWorldHint''] v) (\<lambda>f.
     Option.bind (opt_dec as_str (f ''title'')) (\<lambda>title_v.
     Option.bind (opt_dec as_bool (f ''readOnlyHint'')) (\<lambda>read_only_hint_v.
     Option.bind (opt_dec as_bool (f ''destructiveHint'')) (\<lambda>destructive_hint_v.
     Option.bind (opt_dec as_bool (f ''idempotentHint'')) (\<lambda>idempotent_hint_v.
     Option.bind (opt_dec as_bool (f ''openWorldHint'')) (\<lambda>open_world_hint_v.
       Some \<lparr> ta_title = title_v, ta_read_only_hint = read_only_hint_v, ta_destructive_hint = destructive_hint_v, ta_idempotent_hint = idempotent_hint_v, ta_open_world_hint = open_world_hint_v \<rparr>))))))"

definition ToolAnnotations_ok :: "ToolAnnotations \<Rightarrow> bool" where
  "ToolAnnotations_ok x \<longleftrightarrow> True"

interpretation wToolAnnotations: mcp_wire ToolAnnotations_to_value ToolAnnotations_from_value ToolAnnotations_ok
  by unfold_locales (auto simp: ToolAnnotations_to_value_def ToolAnnotations_from_value_def ToolAnnotations_ok_def wire dest: wire_dest)

text \<open>A content block is the object of its contents with the type in front.\<close>

definition with_type :: "json \<Rightarrow> string \<Rightarrow> json" where
  "with_type v name =
     (case v of
        JObj obj \<Rightarrow> JObj ((''type'', JStr name) # filter (\<lambda>p. fst p \<noteq> ''type'') obj)
      | _ \<Rightarrow> v)"

definition type_of_block :: "json \<Rightarrow> string" where
  "type_of_block v = (case Option.bind (jget v ''type'') as_str of Some s \<Rightarrow> s | None \<Rightarrow> [])"

datatype ContentBlock =
    CbText TextContent
  | CbImage ImageContent
  | CbAudio AudioContent
  | CbResourceLink ResourceLink
  | CbEmbeddedResource EmbeddedResource

definition ContentBlock_text :: "string \<Rightarrow> ContentBlock" where
  "ContentBlock_text s = CbText (TextContent_new s)"

definition ContentBlock_default :: ContentBlock where
  "ContentBlock_default = CbText (TextContent_new [])"

definition ContentBlock_to_value :: "ContentBlock \<Rightarrow> json" where
  "ContentBlock_to_value x =
     (case x of
        CbText c \<Rightarrow> with_type (TextContent_to_value c) ''text''
      | CbImage c \<Rightarrow> with_type (ImageContent_to_value c) ''image''
      | CbAudio c \<Rightarrow> with_type (AudioContent_to_value c) ''audio''
      | CbResourceLink c \<Rightarrow> with_type (ResourceLink_to_value c) ''resource_link''
      | CbEmbeddedResource c \<Rightarrow> with_type (EmbeddedResource_to_value c) ''resource'')"

text \<open>A block of an unknown type is kept as the text of the value.\<close>

definition ContentBlock_from_value :: "(json \<Rightarrow> string) \<Rightarrow> json \<Rightarrow> ContentBlock option" where
  "ContentBlock_from_value tj v =
     (let t = type_of_block v in
      if t = ''text'' then map_option CbText (TextContent_from_value v)
      else if t = ''image'' then map_option CbImage (ImageContent_from_value v)
      else if t = ''audio'' then map_option CbAudio (AudioContent_from_value v)
      else if t = ''resource'' then map_option CbEmbeddedResource (EmbeddedResource_from_value v)
      else if t = ''resource_link'' then map_option CbResourceLink (ResourceLink_from_value v)
      else Some (CbText (TextContent_new (tj v))))"

definition ContentBlock_ok :: "ContentBlock \<Rightarrow> bool" where
  "ContentBlock_ok x =
     (case x of
        CbText c \<Rightarrow> TextContent_ok c
      | CbImage c \<Rightarrow> ImageContent_ok c
      | CbAudio c \<Rightarrow> AudioContent_ok c
      | CbResourceLink c \<Rightarrow> ResourceLink_ok c
      | CbEmbeddedResource c \<Rightarrow> EmbeddedResource_ok c)"

lemma map_of_drop: "k \<noteq> k' \<Longrightarrow> map_of (filter (\<lambda>p. fst p \<noteq> k') m) k = map_of m k"
  by (induction m) auto

lemma struct_get_typed: "struct_get ks (with_type (JObj m) t) = Some (\<lambda>k. if k = ''type'' then Some (JStr t) else im_get m k)"
  by (auto simp: struct_get_def with_type_def fun_eq_iff map_of_drop)

lemma typed_block:
  "type_of_block (with_type (JObj m) t) = t" "with_type (JObj m) t \<noteq> JNull"
  by (simp_all add: type_of_block_def with_type_def)

lemma typed_contents:
  "TextContent_from_value (with_type (TextContent_to_value a) t) = TextContent_from_value (TextContent_to_value a)"
  "ImageContent_from_value (with_type (ImageContent_to_value b) t) = ImageContent_from_value (ImageContent_to_value b)"
  "AudioContent_from_value (with_type (AudioContent_to_value c) t) = AudioContent_from_value (AudioContent_to_value c)"
  "ResourceLink_from_value (with_type (ResourceLink_to_value d) t) = ResourceLink_from_value (ResourceLink_to_value d)"
  "EmbeddedResource_from_value (with_type (EmbeddedResource_to_value e) t) = EmbeddedResource_from_value (EmbeddedResource_to_value e)"
  by (simp_all add: TextContent_to_value_def TextContent_from_value_def ImageContent_to_value_def ImageContent_from_value_def
      AudioContent_to_value_def AudioContent_from_value_def ResourceLink_to_value_def ResourceLink_from_value_def
      EmbeddedResource_to_value_def EmbeddedResource_from_value_def struct_get_typed struct_get_obj)

lemma contents_typed:
  "type_of_block (with_type (TextContent_to_value a) t) = t" "type_of_block (with_type (ImageContent_to_value b) t) = t"
  "type_of_block (with_type (AudioContent_to_value c) t) = t" "type_of_block (with_type (ResourceLink_to_value d) t) = t"
  "type_of_block (with_type (EmbeddedResource_to_value e) t) = t"
  "with_type (TextContent_to_value a) t \<noteq> JNull" "with_type (ImageContent_to_value b) t \<noteq> JNull"
  "with_type (AudioContent_to_value c) t \<noteq> JNull" "with_type (ResourceLink_to_value d) t \<noteq> JNull"
  "with_type (EmbeddedResource_to_value e) t \<noteq> JNull"
  by (simp_all add: TextContent_to_value_def ImageContent_to_value_def AudioContent_to_value_def ResourceLink_to_value_def
      EmbeddedResource_to_value_def typed_block)

lemma text_ok [simp]: "TextContent_ok (TextContent_new s)"
  by (simp add: TextContent_ok_def TextContent_new_def)

interpretation wContentBlock: mcp_wire ContentBlock_to_value "ContentBlock_from_value tj" ContentBlock_ok
  for tj
  by unfold_locales
    (auto simp: ContentBlock_to_value_def ContentBlock_from_value_def ContentBlock_ok_def Let_def typed_contents contents_typed wire
      split: ContentBlock.splits if_splits dest: wire_dest)

record ToolUseContent =
  tu_id :: "string"
  tu_name :: "string"
  tu_input :: "JsonDict"
  tu_meta :: "JsonDict option"

definition ToolUseContent_to_value :: "ToolUseContent \<Rightarrow> json" where
  "ToolUseContent_to_value x =
     JObj (some_members [(''id'', Some (JStr (tu_id x))),
       (''name'', Some (JStr (tu_name x))),
       (''input'', Some (JObj (tu_input x))),
       (''_meta'', map_option JObj (tu_meta x))])"

definition ToolUseContent_from_value :: "json \<Rightarrow> ToolUseContent option" where
  "ToolUseContent_from_value v = Option.bind (struct_get [''id'', ''name'', ''input'', ''_meta''] v) (\<lambda>f.
     Option.bind (dflt_dec as_str [] (f ''id'')) (\<lambda>id_v.
     Option.bind (dflt_dec as_str [] (f ''name'')) (\<lambda>name_v.
     Option.bind (dflt_dec as_object [] (f ''input'')) (\<lambda>input_v.
     Option.bind (opt_dec as_object (f ''_meta'')) (\<lambda>meta_v.
       Some \<lparr> tu_id = id_v, tu_name = name_v, tu_input = input_v, tu_meta = meta_v \<rparr>)))))"

definition ToolUseContent_ok :: "ToolUseContent \<Rightarrow> bool" where
  "ToolUseContent_ok x \<longleftrightarrow> True"

interpretation wToolUseContent: mcp_wire ToolUseContent_to_value ToolUseContent_from_value ToolUseContent_ok
  by unfold_locales (auto simp: ToolUseContent_to_value_def ToolUseContent_from_value_def ToolUseContent_ok_def wire dest: wire_dest)

record ToolResultContent =
  tt_tool_use_id :: "string"
  tt_content :: "ContentBlock list"
  tt_structured_content :: "json option"
  tt_is_error :: "bool option"
  tt_meta :: "JsonDict option"

definition ToolResultContent_to_value :: "ToolResultContent \<Rightarrow> json" where
  "ToolResultContent_to_value x =
     JObj (some_members [(''toolUseId'', Some (JStr (tt_tool_use_id x))),
       (''content'', Some (list_enc ContentBlock_to_value (tt_content x))),
       (''structuredContent'', map_option value_enc (tt_structured_content x)),
       (''isError'', map_option JBool (tt_is_error x)),
       (''_meta'', map_option JObj (tt_meta x))])"

definition ToolResultContent_from_value :: "(json \<Rightarrow> string) \<Rightarrow> json \<Rightarrow> ToolResultContent option" where
  "ToolResultContent_from_value tj v = Option.bind (struct_get [''toolUseId'', ''content'', ''structuredContent'', ''isError'', ''_meta''] v) (\<lambda>f.
     Option.bind (dflt_dec as_str [] (f ''toolUseId'')) (\<lambda>tool_use_id_v.
     Option.bind (dflt_dec (list_dec (ContentBlock_from_value tj)) [] (f ''content'')) (\<lambda>content_v.
     Option.bind (opt_dec value_dec (f ''structuredContent'')) (\<lambda>structured_content_v.
     Option.bind (opt_dec as_bool (f ''isError'')) (\<lambda>is_error_v.
     Option.bind (opt_dec as_object (f ''_meta'')) (\<lambda>meta_v.
       Some \<lparr> tt_tool_use_id = tool_use_id_v, tt_content = content_v, tt_structured_content = structured_content_v, tt_is_error = is_error_v, tt_meta = meta_v \<rparr>))))))"

definition ToolResultContent_ok :: "ToolResultContent \<Rightarrow> bool" where
  "ToolResultContent_ok x \<longleftrightarrow> list_all ContentBlock_ok (tt_content x) \<and> pred_option value_ok (tt_structured_content x)"

interpretation wToolResultContent: mcp_wire ToolResultContent_to_value "ToolResultContent_from_value tj" ToolResultContent_ok
  for tj
  by unfold_locales (auto simp: ToolResultContent_to_value_def ToolResultContent_from_value_def ToolResultContent_ok_def wire dest: wire_dest)

datatype SamplingMessageContentBlock =
    SbText TextContent
  | SbImage ImageContent
  | SbAudio AudioContent
  | SbToolUse ToolUseContent
  | SbToolResult ToolResultContent

definition SamplingMessageContentBlock_to_value :: "SamplingMessageContentBlock \<Rightarrow> json" where
  "SamplingMessageContentBlock_to_value x =
     (case x of
        SbText c \<Rightarrow> with_type (TextContent_to_value c) ''text''
      | SbImage c \<Rightarrow> with_type (ImageContent_to_value c) ''image''
      | SbAudio c \<Rightarrow> with_type (AudioContent_to_value c) ''audio''
      | SbToolUse c \<Rightarrow> with_type (ToolUseContent_to_value c) ''tool_use''
      | SbToolResult c \<Rightarrow> with_type (ToolResultContent_to_value c) ''tool_result'')"

definition SamplingMessageContentBlock_from_value :: "(json \<Rightarrow> string) \<Rightarrow> json \<Rightarrow> SamplingMessageContentBlock option" where
  "SamplingMessageContentBlock_from_value tj v =
     (let t = type_of_block v in
      if t = ''text'' then map_option SbText (TextContent_from_value v)
      else if t = ''image'' then map_option SbImage (ImageContent_from_value v)
      else if t = ''audio'' then map_option SbAudio (AudioContent_from_value v)
      else if t = ''tool_use'' then map_option SbToolUse (ToolUseContent_from_value v)
      else if t = ''tool_result'' then map_option SbToolResult (ToolResultContent_from_value tj v)
      else Some (SbText (TextContent_new (tj v))))"

definition SamplingMessageContentBlock_ok :: "SamplingMessageContentBlock \<Rightarrow> bool" where
  "SamplingMessageContentBlock_ok x =
     (case x of
        SbText c \<Rightarrow> TextContent_ok c
      | SbImage c \<Rightarrow> ImageContent_ok c
      | SbAudio c \<Rightarrow> AudioContent_ok c
      | SbToolUse c \<Rightarrow> ToolUseContent_ok c
      | SbToolResult c \<Rightarrow> ToolResultContent_ok c)"

lemma typed_tool_contents:
  "ToolUseContent_from_value (with_type (ToolUseContent_to_value a) t) = ToolUseContent_from_value (ToolUseContent_to_value a)"
  "ToolResultContent_from_value tj (with_type (ToolResultContent_to_value b) t) =
     ToolResultContent_from_value tj (ToolResultContent_to_value b)"
  "type_of_block (with_type (ToolUseContent_to_value a) t) = t" "type_of_block (with_type (ToolResultContent_to_value b) t) = t"
  "with_type (ToolUseContent_to_value a) t \<noteq> JNull" "with_type (ToolResultContent_to_value b) t \<noteq> JNull"
  by (simp_all add: ToolUseContent_to_value_def ToolUseContent_from_value_def ToolResultContent_to_value_def
      ToolResultContent_from_value_def struct_get_typed struct_get_obj typed_block)

interpretation wSamplingBlock: mcp_wire SamplingMessageContentBlock_to_value "SamplingMessageContentBlock_from_value tj"
    SamplingMessageContentBlock_ok
  for tj
  by unfold_locales
    (auto simp: SamplingMessageContentBlock_to_value_def SamplingMessageContentBlock_from_value_def
      SamplingMessageContentBlock_ok_def Let_def typed_contents contents_typed typed_tool_contents wire
      split: SamplingMessageContentBlock.splits if_splits dest: wire_dest)

datatype SamplingContent = SingleBlock SamplingMessageContentBlock | Multiple "SamplingMessageContentBlock list"

definition as_list :: "SamplingContent \<Rightarrow> SamplingMessageContentBlock list" where
  "as_list c = (case c of SingleBlock b \<Rightarrow> [b] | Multiple bs \<Rightarrow> bs)"

definition SamplingContent_to_value :: "SamplingContent \<Rightarrow> json" where
  "SamplingContent_to_value x =
     (case x of
        SingleBlock b \<Rightarrow> SamplingMessageContentBlock_to_value b
      | Multiple bs \<Rightarrow> list_enc SamplingMessageContentBlock_to_value bs)"

definition SamplingContent_from_value :: "(json \<Rightarrow> string) \<Rightarrow> json \<Rightarrow> SamplingContent option" where
  "SamplingContent_from_value tj v =
     (case v of
        JArr items \<Rightarrow> map_option Multiple (all_some (SamplingMessageContentBlock_from_value tj) items)
      | JObj _ \<Rightarrow> map_option SingleBlock (SamplingMessageContentBlock_from_value tj v)
      | _ \<Rightarrow> Some (Multiple []))"

definition SamplingContent_ok :: "SamplingContent \<Rightarrow> bool" where
  "SamplingContent_ok x = list_all SamplingMessageContentBlock_ok (as_list x)"

lemma block_is_object: "\<exists>m. SamplingMessageContentBlock_to_value b = JObj m"
  by (cases b) (simp_all add: SamplingMessageContentBlock_to_value_def with_type_def TextContent_to_value_def
      ImageContent_to_value_def AudioContent_to_value_def ToolUseContent_to_value_def ToolResultContent_to_value_def)

interpretation wSamplingContent: mcp_wire SamplingContent_to_value "SamplingContent_from_value tj" SamplingContent_ok
  for tj
proof
  fix x assume ok: "SamplingContent_ok x"
  show "SamplingContent_from_value tj (SamplingContent_to_value x) = Some x"
  proof (cases x)
    case (SingleBlock b)
    with ok have "SamplingMessageContentBlock_from_value tj (SamplingMessageContentBlock_to_value b) = Some b"
      by (intro wSamplingBlock.dec_enc) (simp add: SamplingContent_ok_def as_list_def)
    with SingleBlock block_is_object [of b] show ?thesis
      by (auto simp: SamplingContent_from_value_def SamplingContent_to_value_def)
  next
    case (Multiple bs)
    with ok show ?thesis
      by (simp add: SamplingContent_from_value_def SamplingContent_to_value_def list_enc_def
          wSamplingBlock.all_some_enc SamplingContent_ok_def as_list_def)
  qed
  show "SamplingContent_to_value x \<noteq> JNull"
    using block_is_object by (cases x) (auto simp: SamplingContent_to_value_def list_enc_def, metis json.distinct(11))
next
  fix v x assume "SamplingContent_from_value tj v = Some x"
  then show "SamplingContent_ok x"
    by (auto simp: SamplingContent_from_value_def SamplingContent_ok_def as_list_def split: json.splits
        dest: wSamplingBlock.dec_ok wSamplingBlock.all_some_ok)
qed

end
