(* ===== verification/McpResults.thy ===== *)
theory McpResults
  imports McpTypes
begin

text \<open>
  The results of the MCP methods, the parameters of sampling, completion and elicitation, and the typed
  parameters of \<open>protocol.rs\<close>, with their wire forms.
\<close>

subsection \<open>Results\<close>

lemma default_fields_ok [wire]: "RoleType_ok r" "SamplingContent_ok (Multiple [])" "i64_ok 0"
  by (simp_all add: RoleType_ok_def SamplingContent_ok_def as_list_def i64_ok_def)

record SamplingMessage =
  sm_role :: "RoleType"
  sm_content :: "SamplingContent"
  sm_meta :: "JsonDict option"

definition SamplingMessage_to_value :: "SamplingMessage \<Rightarrow> json" where
  "SamplingMessage_to_value x =
     JObj (some_members [(''role'', Some (RoleType_to_value (sm_role x))),
       (''content'', Some (SamplingContent_to_value (sm_content x))),
       (''_meta'', map_option JObj (sm_meta x))])"

definition SamplingMessage_from_value :: "(json \<Rightarrow> string) \<Rightarrow> json \<Rightarrow> SamplingMessage option" where
  "SamplingMessage_from_value tj v = Option.bind (struct_get [''role'', ''content'', ''_meta''] v) (\<lambda>f.
     Option.bind (dflt_dec RoleType_from_value RoleUser (f ''role'')) (\<lambda>role_v.
     Option.bind (dflt_dec (SamplingContent_from_value tj) (Multiple []) (f ''content'')) (\<lambda>content_v.
     Option.bind (opt_dec as_object (f ''_meta'')) (\<lambda>meta_v.
       Some \<lparr> sm_role = role_v, sm_content = content_v, sm_meta = meta_v \<rparr>))))"

definition SamplingMessage_ok :: "SamplingMessage \<Rightarrow> bool" where
  "SamplingMessage_ok x \<longleftrightarrow> RoleType_ok (sm_role x) \<and> SamplingContent_ok (sm_content x)"

interpretation wSamplingMessage: mcp_wire SamplingMessage_to_value "SamplingMessage_from_value tj" SamplingMessage_ok
  for tj
  by unfold_locales (auto simp: SamplingMessage_to_value_def SamplingMessage_from_value_def SamplingMessage_ok_def wire dest: wire_dest)

record ModelHint =
  mh_name :: "string option"

definition ModelHint_to_value :: "ModelHint \<Rightarrow> json" where
  "ModelHint_to_value x =
     JObj (some_members [(''name'', map_option JStr (mh_name x))])"

definition ModelHint_from_value :: "json \<Rightarrow> ModelHint option" where
  "ModelHint_from_value v = Option.bind (struct_get [''name''] v) (\<lambda>f.
     Option.bind (opt_dec as_str (f ''name'')) (\<lambda>name_v.
       Some \<lparr> mh_name = name_v \<rparr>))"

definition ModelHint_ok :: "ModelHint \<Rightarrow> bool" where
  "ModelHint_ok x \<longleftrightarrow> True"

interpretation wModelHint: mcp_wire ModelHint_to_value ModelHint_from_value ModelHint_ok
  by unfold_locales (auto simp: ModelHint_to_value_def ModelHint_from_value_def ModelHint_ok_def wire dest: wire_dest)

record ModelPreferences =
  mp_hints :: "(ModelHint list) option"
  mp_cost_priority :: "real option"
  mp_speed_priority :: "real option"
  mp_intelligence_priority :: "real option"

definition ModelPreferences_to_value :: "ModelPreferences \<Rightarrow> json" where
  "ModelPreferences_to_value x =
     JObj (some_members [(''hints'', map_option (list_enc ModelHint_to_value) (mp_hints x)),
       (''costPriority'', map_option JFloat (mp_cost_priority x)),
       (''speedPriority'', map_option JFloat (mp_speed_priority x)),
       (''intelligencePriority'', map_option JFloat (mp_intelligence_priority x))])"

definition ModelPreferences_from_value :: "json \<Rightarrow> ModelPreferences option" where
  "ModelPreferences_from_value v = Option.bind (struct_get [''hints'', ''costPriority'', ''speedPriority'', ''intelligencePriority''] v) (\<lambda>f.
     Option.bind (opt_dec (list_dec ModelHint_from_value) (f ''hints'')) (\<lambda>hints_v.
     Option.bind (opt_dec as_f64 (f ''costPriority'')) (\<lambda>cost_priority_v.
     Option.bind (opt_dec as_f64 (f ''speedPriority'')) (\<lambda>speed_priority_v.
     Option.bind (opt_dec as_f64 (f ''intelligencePriority'')) (\<lambda>intelligence_priority_v.
       Some \<lparr> mp_hints = hints_v, mp_cost_priority = cost_priority_v, mp_speed_priority = speed_priority_v, mp_intelligence_priority = intelligence_priority_v \<rparr>)))))"

definition ModelPreferences_ok :: "ModelPreferences \<Rightarrow> bool" where
  "ModelPreferences_ok x \<longleftrightarrow> pred_option (list_all ModelHint_ok) (mp_hints x)"

interpretation wModelPreferences: mcp_wire ModelPreferences_to_value ModelPreferences_from_value ModelPreferences_ok
  by unfold_locales (auto simp: ModelPreferences_to_value_def ModelPreferences_from_value_def ModelPreferences_ok_def wire dest: wire_dest)

record ToolChoice =
  th_mode :: "string option"

definition ToolChoice_to_value :: "ToolChoice \<Rightarrow> json" where
  "ToolChoice_to_value x =
     JObj (some_members [(''mode'', map_option JStr (th_mode x))])"

definition ToolChoice_from_value :: "json \<Rightarrow> ToolChoice option" where
  "ToolChoice_from_value v = Option.bind (struct_get [''mode''] v) (\<lambda>f.
     Option.bind (opt_dec as_str (f ''mode'')) (\<lambda>mode_v.
       Some \<lparr> th_mode = mode_v \<rparr>))"

definition ToolChoice_ok :: "ToolChoice \<Rightarrow> bool" where
  "ToolChoice_ok x \<longleftrightarrow> True"

interpretation wToolChoice: mcp_wire ToolChoice_to_value ToolChoice_from_value ToolChoice_ok
  by unfold_locales (auto simp: ToolChoice_to_value_def ToolChoice_from_value_def ToolChoice_ok_def wire dest: wire_dest)

record CreateMessageResult =
  cm_model :: "string"
  cm_stop_reason :: "string option"
  cm_role :: "RoleType"
  cm_content :: "SamplingContent"
  cm_meta :: "JsonDict option"

definition CreateMessageResult_to_value :: "CreateMessageResult \<Rightarrow> json" where
  "CreateMessageResult_to_value x =
     JObj (some_members [(''model'', Some (JStr (cm_model x))),
       (''stopReason'', map_option JStr (cm_stop_reason x)),
       (''role'', Some (RoleType_to_value (cm_role x))),
       (''content'', Some (SamplingContent_to_value (cm_content x))),
       (''_meta'', map_option JObj (cm_meta x))])"

definition CreateMessageResult_from_value :: "(json \<Rightarrow> string) \<Rightarrow> json \<Rightarrow> CreateMessageResult option" where
  "CreateMessageResult_from_value tj v = Option.bind (struct_get [''model'', ''stopReason'', ''role'', ''content'', ''_meta''] v) (\<lambda>f.
     Option.bind (dflt_dec as_str [] (f ''model'')) (\<lambda>model_v.
     Option.bind (opt_dec as_str (f ''stopReason'')) (\<lambda>stop_reason_v.
     Option.bind (dflt_dec RoleType_from_value RoleAssistant (f ''role'')) (\<lambda>role_v.
     Option.bind (dflt_dec (SamplingContent_from_value tj) (Multiple []) (f ''content'')) (\<lambda>content_v.
     Option.bind (opt_dec as_object (f ''_meta'')) (\<lambda>meta_v.
       Some \<lparr> cm_model = model_v, cm_stop_reason = stop_reason_v, cm_role = role_v, cm_content = content_v, cm_meta = meta_v \<rparr>))))))"

definition CreateMessageResult_ok :: "CreateMessageResult \<Rightarrow> bool" where
  "CreateMessageResult_ok x \<longleftrightarrow> RoleType_ok (cm_role x) \<and> SamplingContent_ok (cm_content x)"

interpretation wCreateMessageResult: mcp_wire CreateMessageResult_to_value "CreateMessageResult_from_value tj" CreateMessageResult_ok
  for tj
  by unfold_locales (auto simp: CreateMessageResult_to_value_def CreateMessageResult_from_value_def CreateMessageResult_ok_def wire dest: wire_dest)

record Tool =
  tl_name :: "string"
  tl_title :: "string option"
  tl_description :: "string option"
  tl_input_schema :: "json option"
  tl_output_schema :: "json option"
  tl_annotations :: "ToolAnnotations option"
  tl_icons :: "(Icon list) option"

definition Tool_to_value :: "Tool \<Rightarrow> json" where
  "Tool_to_value x =
     JObj (some_members [(''name'', Some (JStr (tl_name x))),
       (''title'', map_option JStr (tl_title x)),
       (''description'', map_option JStr (tl_description x)),
       (''inputSchema'', map_option value_enc (tl_input_schema x)),
       (''outputSchema'', map_option value_enc (tl_output_schema x)),
       (''annotations'', map_option ToolAnnotations_to_value (tl_annotations x)),
       (''icons'', map_option (list_enc Icon_to_value) (tl_icons x))])"

definition Tool_from_value :: "json \<Rightarrow> Tool option" where
  "Tool_from_value v = Option.bind (struct_get [''name'', ''title'', ''description'', ''inputSchema'', ''outputSchema'', ''annotations'', ''icons''] v) (\<lambda>f.
     Option.bind (Option.bind (f ''name'') as_str) (\<lambda>name_v.
     Option.bind (opt_dec as_str (f ''title'')) (\<lambda>title_v.
     Option.bind (opt_dec as_str (f ''description'')) (\<lambda>description_v.
     Option.bind (opt_dec value_dec (f ''inputSchema'')) (\<lambda>input_schema_v.
     Option.bind (opt_dec value_dec (f ''outputSchema'')) (\<lambda>output_schema_v.
     Option.bind (opt_dec ToolAnnotations_from_value (f ''annotations'')) (\<lambda>annotations_v.
     Option.bind (opt_dec (list_dec Icon_from_value) (f ''icons'')) (\<lambda>icons_v.
       Some \<lparr> tl_name = name_v, tl_title = title_v, tl_description = description_v, tl_input_schema = input_schema_v, tl_output_schema = output_schema_v, tl_annotations = annotations_v, tl_icons = icons_v \<rparr>))))))))"

definition Tool_ok :: "Tool \<Rightarrow> bool" where
  "Tool_ok x \<longleftrightarrow> pred_option value_ok (tl_input_schema x) \<and> pred_option value_ok (tl_output_schema x) \<and> pred_option ToolAnnotations_ok (tl_annotations x) \<and> pred_option (list_all Icon_ok) (tl_icons x)"

interpretation wTool: mcp_wire Tool_to_value Tool_from_value Tool_ok
  by unfold_locales (auto simp: Tool_to_value_def Tool_from_value_def Tool_ok_def wire dest: wire_dest)

record CreateMessageParams =
  cp_messages :: "SamplingMessage list"
  cp_model_preferences :: "ModelPreferences option"
  cp_system_prompt :: "string option"
  cp_include_context :: "string option"
  cp_temperature :: "real option"
  cp_max_tokens :: "int"
  cp_stop_sequences :: "(string list) option"
  cp_metadata :: "JsonDict option"
  cp_tools :: "(Tool list) option"
  cp_tool_choice :: "ToolChoice option"

definition CreateMessageParams_to_value :: "CreateMessageParams \<Rightarrow> json" where
  "CreateMessageParams_to_value x =
     JObj (some_members [(''messages'', Some (list_enc SamplingMessage_to_value (cp_messages x))),
       (''modelPreferences'', map_option ModelPreferences_to_value (cp_model_preferences x)),
       (''systemPrompt'', map_option JStr (cp_system_prompt x)),
       (''includeContext'', map_option JStr (cp_include_context x)),
       (''temperature'', map_option JFloat (cp_temperature x)),
       (''maxTokens'', Some (JInt (cp_max_tokens x))),
       (''stopSequences'', map_option (list_enc JStr) (cp_stop_sequences x)),
       (''metadata'', map_option JObj (cp_metadata x)),
       (''tools'', map_option (list_enc Tool_to_value) (cp_tools x)),
       (''toolChoice'', map_option ToolChoice_to_value (cp_tool_choice x))])"

definition CreateMessageParams_from_value :: "(json \<Rightarrow> string) \<Rightarrow> json \<Rightarrow> CreateMessageParams option" where
  "CreateMessageParams_from_value tj v = Option.bind (struct_get [''messages'', ''modelPreferences'', ''systemPrompt'', ''includeContext'', ''temperature'', ''maxTokens'', ''stopSequences'', ''metadata'', ''tools'', ''toolChoice''] v) (\<lambda>f.
     Option.bind (dflt_dec (list_dec (SamplingMessage_from_value tj)) [] (f ''messages'')) (\<lambda>messages_v.
     Option.bind (opt_dec ModelPreferences_from_value (f ''modelPreferences'')) (\<lambda>model_preferences_v.
     Option.bind (opt_dec as_str (f ''systemPrompt'')) (\<lambda>system_prompt_v.
     Option.bind (opt_dec as_str (f ''includeContext'')) (\<lambda>include_context_v.
     Option.bind (opt_dec as_f64 (f ''temperature'')) (\<lambda>temperature_v.
     Option.bind (dflt_dec as_i64 0 (f ''maxTokens'')) (\<lambda>max_tokens_v.
     Option.bind (opt_dec (list_dec as_str) (f ''stopSequences'')) (\<lambda>stop_sequences_v.
     Option.bind (opt_dec as_object (f ''metadata'')) (\<lambda>metadata_v.
     Option.bind (opt_dec (list_dec Tool_from_value) (f ''tools'')) (\<lambda>tools_v.
     Option.bind (opt_dec ToolChoice_from_value (f ''toolChoice'')) (\<lambda>tool_choice_v.
       Some \<lparr> cp_messages = messages_v, cp_model_preferences = model_preferences_v, cp_system_prompt = system_prompt_v, cp_include_context = include_context_v, cp_temperature = temperature_v, cp_max_tokens = max_tokens_v, cp_stop_sequences = stop_sequences_v, cp_metadata = metadata_v, cp_tools = tools_v, cp_tool_choice = tool_choice_v \<rparr>)))))))))))"

definition CreateMessageParams_ok :: "CreateMessageParams \<Rightarrow> bool" where
  "CreateMessageParams_ok x \<longleftrightarrow> list_all SamplingMessage_ok (cp_messages x) \<and> pred_option ModelPreferences_ok (cp_model_preferences x) \<and> i64_ok (cp_max_tokens x) \<and> pred_option (list_all Tool_ok) (cp_tools x) \<and> pred_option ToolChoice_ok (cp_tool_choice x)"

interpretation wCreateMessageParams: mcp_wire CreateMessageParams_to_value "CreateMessageParams_from_value tj" CreateMessageParams_ok
  for tj
  by unfold_locales (auto simp: CreateMessageParams_to_value_def CreateMessageParams_from_value_def CreateMessageParams_ok_def wire dest: wire_dest)

text \<open>A list of blocks; a plain string is one text block, other values are no block.\<close>

definition ContentList_to_value :: "ContentBlock list \<Rightarrow> json" where
  "ContentList_to_value = list_enc ContentBlock_to_value"

definition ContentList_from_value :: "(json \<Rightarrow> string) \<Rightarrow> json \<Rightarrow> ContentBlock list option" where
  "ContentList_from_value tj v =
     (case v of
        JArr items \<Rightarrow> all_some (ContentBlock_from_value tj) items
      | JStr s \<Rightarrow> Some [ContentBlock_text s]
      | _ \<Rightarrow> Some [])"

definition ContentList_ok :: "ContentBlock list \<Rightarrow> bool" where
  "ContentList_ok xs = list_all ContentBlock_ok xs"

lemma block_text_ok [simp]: "ContentBlock_ok (ContentBlock_text s)" "ContentBlock_ok ContentBlock_default"
  by (simp_all add: ContentBlock_ok_def ContentBlock_text_def ContentBlock_default_def)

lemma content_list_nil [wire]: "ContentList_ok []"
  by (simp add: ContentList_ok_def)

interpretation wContentList: mcp_wire ContentList_to_value "ContentList_from_value tj" ContentList_ok
  for tj
  by unfold_locales
    (auto simp: ContentList_to_value_def ContentList_from_value_def ContentList_ok_def list_enc_def wContentBlock.all_some_enc
      split: json.splits dest: wContentBlock.all_some_ok)

record CallToolResult =
  ct_content :: "ContentBlock list"
  ct_structured_content :: "json option"
  ct_is_error :: "bool"
  ct_meta :: "JsonDict option"

definition CallToolResult_to_value :: "CallToolResult \<Rightarrow> json" where
  "CallToolResult_to_value x =
     JObj (some_members [(''content'', Some (ContentList_to_value (ct_content x))),
       (''structuredContent'', map_option value_enc (ct_structured_content x)),
       (''isError'', Some (JBool (ct_is_error x))),
       (''_meta'', map_option JObj (ct_meta x))])"

definition CallToolResult_from_value :: "(json \<Rightarrow> string) \<Rightarrow> json \<Rightarrow> CallToolResult option" where
  "CallToolResult_from_value tj v = Option.bind (struct_get [''content'', ''structuredContent'', ''isError'', ''_meta''] v) (\<lambda>f.
     Option.bind (dflt_dec (ContentList_from_value tj) [] (f ''content'')) (\<lambda>content_v.
     Option.bind (opt_dec value_dec (f ''structuredContent'')) (\<lambda>structured_content_v.
     Option.bind (dflt_dec as_bool False (f ''isError'')) (\<lambda>is_error_v.
     Option.bind (opt_dec as_object (f ''_meta'')) (\<lambda>meta_v.
       Some \<lparr> ct_content = content_v, ct_structured_content = structured_content_v, ct_is_error = is_error_v, ct_meta = meta_v \<rparr>)))))"

definition CallToolResult_ok :: "CallToolResult \<Rightarrow> bool" where
  "CallToolResult_ok x \<longleftrightarrow> ContentList_ok (ct_content x) \<and> pred_option value_ok (ct_structured_content x)"

interpretation wCallToolResult: mcp_wire CallToolResult_to_value "CallToolResult_from_value tj" CallToolResult_ok
  for tj
  by unfold_locales (auto simp: CallToolResult_to_value_def CallToolResult_from_value_def CallToolResult_ok_def wire dest: wire_dest)

definition CallToolResult_error :: "string \<Rightarrow> CallToolResult" where
  "CallToolResult_error s =
     \<lparr> ct_content = [ContentBlock_text s], ct_structured_content = None, ct_is_error = True, ct_meta = None \<rparr>"

definition CallToolResult_text :: "string \<Rightarrow> CallToolResult" where
  "CallToolResult_text s =
     \<lparr> ct_content = [ContentBlock_text s], ct_structured_content = None, ct_is_error = False, ct_meta = None \<rparr>"

definition CallToolResult_from_structured :: "(json \<Rightarrow> string) \<Rightarrow> json \<Rightarrow> CallToolResult" where
  "CallToolResult_from_structured tj v =
     \<lparr> ct_content = [ContentBlock_text (case v of JStr s \<Rightarrow> s | _ \<Rightarrow> tj v)], ct_structured_content = Some v,
       ct_is_error = False, ct_meta = None \<rparr>"

record ListToolsResult =
  lt_tools :: "Tool list"
  lt_next_cursor :: "string option"
  lt_meta :: "JsonDict option"

definition ListToolsResult_to_value :: "ListToolsResult \<Rightarrow> json" where
  "ListToolsResult_to_value x =
     JObj (some_members [(''tools'', Some (list_enc Tool_to_value (lt_tools x))),
       (''nextCursor'', map_option JStr (lt_next_cursor x)),
       (''_meta'', map_option JObj (lt_meta x))])"

definition ListToolsResult_from_value :: "json \<Rightarrow> ListToolsResult option" where
  "ListToolsResult_from_value v = Option.bind (struct_get [''tools'', ''nextCursor'', ''_meta''] v) (\<lambda>f.
     Option.bind (dflt_dec (list_dec Tool_from_value) [] (f ''tools'')) (\<lambda>tools_v.
     Option.bind (opt_dec as_str (f ''nextCursor'')) (\<lambda>next_cursor_v.
     Option.bind (opt_dec as_object (f ''_meta'')) (\<lambda>meta_v.
       Some \<lparr> lt_tools = tools_v, lt_next_cursor = next_cursor_v, lt_meta = meta_v \<rparr>))))"

definition ListToolsResult_ok :: "ListToolsResult \<Rightarrow> bool" where
  "ListToolsResult_ok x \<longleftrightarrow> list_all Tool_ok (lt_tools x)"

interpretation wListToolsResult: mcp_wire ListToolsResult_to_value ListToolsResult_from_value ListToolsResult_ok
  by unfold_locales (auto simp: ListToolsResult_to_value_def ListToolsResult_from_value_def ListToolsResult_ok_def wire dest: wire_dest)

definition PromptContent_from_value :: "(json \<Rightarrow> string) \<Rightarrow> json \<Rightarrow> ContentBlock option" where
  "PromptContent_from_value tj v =
     (case v of
        JArr items \<Rightarrow> (case items of [] \<Rightarrow> Some ContentBlock_default | x # _ \<Rightarrow> ContentBlock_from_value tj x)
      | JObj _ \<Rightarrow> ContentBlock_from_value tj v
      | _ \<Rightarrow> Some ContentBlock_default)"

lemma content_is_object: "\<exists>m. ContentBlock_to_value b = JObj m"
  by (cases b) (simp_all add: ContentBlock_to_value_def with_type_def TextContent_to_value_def ImageContent_to_value_def
      AudioContent_to_value_def ResourceLink_to_value_def EmbeddedResource_to_value_def)

interpretation wPromptContent: mcp_wire ContentBlock_to_value "PromptContent_from_value tj" ContentBlock_ok
  for tj
proof
  fix x assume "ContentBlock_ok x"
  then show "PromptContent_from_value tj (ContentBlock_to_value x) = Some x" "ContentBlock_to_value x \<noteq> JNull"
    using content_is_object [of x] wContentBlock.dec_enc [of x tj] by (auto simp: PromptContent_from_value_def)
qed (auto simp: PromptContent_from_value_def split: json.splits list.splits dest: wContentBlock.dec_ok)

record PromptMessage =
  pm_role :: "RoleType"
  pm_content :: "ContentBlock"

definition PromptMessage_to_value :: "PromptMessage \<Rightarrow> json" where
  "PromptMessage_to_value x =
     JObj (some_members [(''role'', Some (RoleType_to_value (pm_role x))),
       (''content'', Some (ContentBlock_to_value (pm_content x)))])"

definition PromptMessage_from_value :: "(json \<Rightarrow> string) \<Rightarrow> json \<Rightarrow> PromptMessage option" where
  "PromptMessage_from_value tj v = Option.bind (struct_get [''role'', ''content''] v) (\<lambda>f.
     Option.bind (dflt_dec RoleType_from_value RoleUser (f ''role'')) (\<lambda>role_v.
     Option.bind (dflt_dec (PromptContent_from_value tj) ContentBlock_default (f ''content'')) (\<lambda>content_v.
       Some \<lparr> pm_role = role_v, pm_content = content_v \<rparr>)))"

definition PromptMessage_ok :: "PromptMessage \<Rightarrow> bool" where
  "PromptMessage_ok x \<longleftrightarrow> RoleType_ok (pm_role x) \<and> ContentBlock_ok (pm_content x)"

interpretation wPromptMessage: mcp_wire PromptMessage_to_value "PromptMessage_from_value tj" PromptMessage_ok
  for tj
  by unfold_locales (auto simp: PromptMessage_to_value_def PromptMessage_from_value_def PromptMessage_ok_def wire dest: wire_dest)

record PromptArgument =
  pa_name :: "string"
  pa_description :: "string option"
  pa_required :: "bool option"
  pa_title :: "string option"

definition PromptArgument_to_value :: "PromptArgument \<Rightarrow> json" where
  "PromptArgument_to_value x =
     JObj (some_members [(''name'', Some (JStr (pa_name x))),
       (''description'', map_option JStr (pa_description x)),
       (''required'', map_option JBool (pa_required x)),
       (''title'', map_option JStr (pa_title x))])"

definition PromptArgument_from_value :: "json \<Rightarrow> PromptArgument option" where
  "PromptArgument_from_value v = Option.bind (struct_get [''name'', ''description'', ''required'', ''title''] v) (\<lambda>f.
     Option.bind (Option.bind (f ''name'') as_str) (\<lambda>name_v.
     Option.bind (opt_dec as_str (f ''description'')) (\<lambda>description_v.
     Option.bind (opt_dec as_bool (f ''required'')) (\<lambda>required_v.
     Option.bind (opt_dec as_str (f ''title'')) (\<lambda>title_v.
       Some \<lparr> pa_name = name_v, pa_description = description_v, pa_required = required_v, pa_title = title_v \<rparr>)))))"

definition PromptArgument_ok :: "PromptArgument \<Rightarrow> bool" where
  "PromptArgument_ok x \<longleftrightarrow> True"

interpretation wPromptArgument: mcp_wire PromptArgument_to_value PromptArgument_from_value PromptArgument_ok
  by unfold_locales (auto simp: PromptArgument_to_value_def PromptArgument_from_value_def PromptArgument_ok_def wire dest: wire_dest)

record GetPromptResult =
  gp_description :: "string option"
  gp_messages :: "PromptMessage list"
  gp_meta :: "JsonDict option"

definition GetPromptResult_to_value :: "GetPromptResult \<Rightarrow> json" where
  "GetPromptResult_to_value x =
     JObj (some_members [(''description'', map_option JStr (gp_description x)),
       (''messages'', Some (list_enc PromptMessage_to_value (gp_messages x))),
       (''_meta'', map_option JObj (gp_meta x))])"

definition GetPromptResult_from_value :: "(json \<Rightarrow> string) \<Rightarrow> json \<Rightarrow> GetPromptResult option" where
  "GetPromptResult_from_value tj v = Option.bind (struct_get [''description'', ''messages'', ''_meta''] v) (\<lambda>f.
     Option.bind (opt_dec as_str (f ''description'')) (\<lambda>description_v.
     Option.bind (Option.bind (f ''messages'') (list_dec (PromptMessage_from_value tj))) (\<lambda>messages_v.
     Option.bind (opt_dec as_object (f ''_meta'')) (\<lambda>meta_v.
       Some \<lparr> gp_description = description_v, gp_messages = messages_v, gp_meta = meta_v \<rparr>))))"

definition GetPromptResult_ok :: "GetPromptResult \<Rightarrow> bool" where
  "GetPromptResult_ok x \<longleftrightarrow> list_all PromptMessage_ok (gp_messages x)"

interpretation wGetPromptResult: mcp_wire GetPromptResult_to_value "GetPromptResult_from_value tj" GetPromptResult_ok
  for tj
  by unfold_locales (auto simp: GetPromptResult_to_value_def GetPromptResult_from_value_def GetPromptResult_ok_def wire dest: wire_dest)

record PromptInfo =
  pi_name :: "string"
  pi_description :: "string option"
  pi_title :: "string option"
  pi_icons :: "(Icon list) option"
  pi_arguments :: "(PromptArgument list) option"

definition PromptInfo_to_value :: "PromptInfo \<Rightarrow> json" where
  "PromptInfo_to_value x =
     JObj (some_members [(''name'', Some (JStr (pi_name x))),
       (''description'', map_option JStr (pi_description x)),
       (''title'', map_option JStr (pi_title x)),
       (''icons'', map_option (list_enc Icon_to_value) (pi_icons x)),
       (''arguments'', map_option (list_enc PromptArgument_to_value) (pi_arguments x))])"

definition PromptInfo_from_value :: "json \<Rightarrow> PromptInfo option" where
  "PromptInfo_from_value v = Option.bind (struct_get [''name'', ''description'', ''title'', ''icons'', ''arguments''] v) (\<lambda>f.
     Option.bind (Option.bind (f ''name'') as_str) (\<lambda>name_v.
     Option.bind (opt_dec as_str (f ''description'')) (\<lambda>description_v.
     Option.bind (opt_dec as_str (f ''title'')) (\<lambda>title_v.
     Option.bind (opt_dec (list_dec Icon_from_value) (f ''icons'')) (\<lambda>icons_v.
     Option.bind (opt_dec (list_dec PromptArgument_from_value) (f ''arguments'')) (\<lambda>arguments_v.
       Some \<lparr> pi_name = name_v, pi_description = description_v, pi_title = title_v, pi_icons = icons_v, pi_arguments = arguments_v \<rparr>))))))"

definition PromptInfo_ok :: "PromptInfo \<Rightarrow> bool" where
  "PromptInfo_ok x \<longleftrightarrow> pred_option (list_all Icon_ok) (pi_icons x) \<and> pred_option (list_all PromptArgument_ok) (pi_arguments x)"

interpretation wPromptInfo: mcp_wire PromptInfo_to_value PromptInfo_from_value PromptInfo_ok
  by unfold_locales (auto simp: PromptInfo_to_value_def PromptInfo_from_value_def PromptInfo_ok_def wire dest: wire_dest)

definition DEFAULT_PROTOCOL_VERSION :: string where "DEFAULT_PROTOCOL_VERSION = ''2025-03-26''"

definition ServerCapabilities_default :: ServerCapabilities where
  "ServerCapabilities_default =
     \<lparr> sc_experimental = None, sc_logging = None, sc_prompts = None, sc_resources = None, sc_tools = None \<rparr>"

lemma defaults_ok [simp]: "ServerCapabilities_ok ServerCapabilities_default" "Implementation_ok Implementation_default"
  "ClientCapabilities_ok ClientCapabilities_default"
  by (simp_all add: ServerCapabilities_ok_def ServerCapabilities_default_def Implementation_ok_def Implementation_default_def
      ClientCapabilities_ok_def ClientCapabilities_default_def)

record InitializeResult =
  ir_protocol_version :: "string"
  ir_capabilities :: "ServerCapabilities"
  ir_server_info :: "Implementation"
  ir_instructions :: "string option"
  ir_meta :: "JsonDict option"

definition InitializeResult_to_value :: "InitializeResult \<Rightarrow> json" where
  "InitializeResult_to_value x =
     JObj (some_members [(''protocolVersion'', Some (JStr (ir_protocol_version x))),
       (''capabilities'', Some (ServerCapabilities_to_value (ir_capabilities x))),
       (''serverInfo'', Some (Implementation_to_value (ir_server_info x))),
       (''instructions'', map_option JStr (ir_instructions x)),
       (''_meta'', map_option JObj (ir_meta x))])"

definition InitializeResult_from_value :: "json \<Rightarrow> InitializeResult option" where
  "InitializeResult_from_value v = Option.bind (struct_get [''protocolVersion'', ''capabilities'', ''serverInfo'', ''instructions'', ''_meta''] v) (\<lambda>f.
     Option.bind (dflt_dec as_str DEFAULT_PROTOCOL_VERSION (f ''protocolVersion'')) (\<lambda>protocol_version_v.
     Option.bind (dflt_dec ServerCapabilities_from_value ServerCapabilities_default (f ''capabilities'')) (\<lambda>capabilities_v.
     Option.bind (dflt_dec Implementation_from_value Implementation_default (f ''serverInfo'')) (\<lambda>server_info_v.
     Option.bind (opt_dec as_str (f ''instructions'')) (\<lambda>instructions_v.
     Option.bind (opt_dec as_object (f ''_meta'')) (\<lambda>meta_v.
       Some \<lparr> ir_protocol_version = protocol_version_v, ir_capabilities = capabilities_v, ir_server_info = server_info_v, ir_instructions = instructions_v, ir_meta = meta_v \<rparr>))))))"

definition InitializeResult_ok :: "InitializeResult \<Rightarrow> bool" where
  "InitializeResult_ok x \<longleftrightarrow> ServerCapabilities_ok (ir_capabilities x) \<and> Implementation_ok (ir_server_info x)"

interpretation wInitializeResult: mcp_wire InitializeResult_to_value InitializeResult_from_value InitializeResult_ok
  by unfold_locales (auto simp: InitializeResult_to_value_def InitializeResult_from_value_def InitializeResult_ok_def wire dest: wire_dest)

definition InitializeResult_new :: "string \<Rightarrow> ServerCapabilities \<Rightarrow> Implementation \<Rightarrow> string option \<Rightarrow> InitializeResult" where
  "InitializeResult_new version caps info instructions =
     \<lparr> ir_protocol_version = version, ir_capabilities = caps, ir_server_info = info, ir_instructions = instructions,
       ir_meta = None \<rparr>"

record ListPromptsResult =
  lp_prompts :: "PromptInfo list"
  lp_next_cursor :: "string option"
  lp_meta :: "JsonDict option"

definition ListPromptsResult_to_value :: "ListPromptsResult \<Rightarrow> json" where
  "ListPromptsResult_to_value x =
     JObj (some_members [(''prompts'', Some (list_enc PromptInfo_to_value (lp_prompts x))),
       (''nextCursor'', map_option JStr (lp_next_cursor x)),
       (''_meta'', map_option JObj (lp_meta x))])"

definition ListPromptsResult_from_value :: "json \<Rightarrow> ListPromptsResult option" where
  "ListPromptsResult_from_value v = Option.bind (struct_get [''prompts'', ''nextCursor'', ''_meta''] v) (\<lambda>f.
     Option.bind (dflt_dec (list_dec PromptInfo_from_value) [] (f ''prompts'')) (\<lambda>prompts_v.
     Option.bind (opt_dec as_str (f ''nextCursor'')) (\<lambda>next_cursor_v.
     Option.bind (opt_dec as_object (f ''_meta'')) (\<lambda>meta_v.
       Some \<lparr> lp_prompts = prompts_v, lp_next_cursor = next_cursor_v, lp_meta = meta_v \<rparr>))))"

definition ListPromptsResult_ok :: "ListPromptsResult \<Rightarrow> bool" where
  "ListPromptsResult_ok x \<longleftrightarrow> list_all PromptInfo_ok (lp_prompts x)"

interpretation wListPromptsResult: mcp_wire ListPromptsResult_to_value ListPromptsResult_from_value ListPromptsResult_ok
  by unfold_locales (auto simp: ListPromptsResult_to_value_def ListPromptsResult_from_value_def ListPromptsResult_ok_def wire dest: wire_dest)

record Root =
  rt_name :: "string option"
  rt_uri :: "string"

definition Root_to_value :: "Root \<Rightarrow> json" where
  "Root_to_value x =
     JObj (some_members [(''name'', map_option JStr (rt_name x)),
       (''uri'', Some (JStr (rt_uri x)))])"

definition Root_from_value :: "json \<Rightarrow> Root option" where
  "Root_from_value v = Option.bind (struct_get [''name'', ''uri''] v) (\<lambda>f.
     Option.bind (opt_dec as_str (f ''name'')) (\<lambda>name_v.
     Option.bind (Option.bind (f ''uri'') as_str) (\<lambda>uri_v.
       Some \<lparr> rt_name = name_v, rt_uri = uri_v \<rparr>)))"

definition Root_ok :: "Root \<Rightarrow> bool" where
  "Root_ok x \<longleftrightarrow> True"

interpretation wRoot: mcp_wire Root_to_value Root_from_value Root_ok
  by unfold_locales (auto simp: Root_to_value_def Root_from_value_def Root_ok_def wire dest: wire_dest)

record ListRootsResult =
  lr_roots :: "Root list"
  lr_meta :: "JsonDict option"

definition ListRootsResult_to_value :: "ListRootsResult \<Rightarrow> json" where
  "ListRootsResult_to_value x =
     JObj (some_members [(''roots'', Some (list_enc Root_to_value (lr_roots x))),
       (''_meta'', map_option JObj (lr_meta x))])"

definition ListRootsResult_from_value :: "json \<Rightarrow> ListRootsResult option" where
  "ListRootsResult_from_value v = Option.bind (struct_get [''roots'', ''_meta''] v) (\<lambda>f.
     Option.bind (dflt_dec (list_dec Root_from_value) [] (f ''roots'')) (\<lambda>roots_v.
     Option.bind (opt_dec as_object (f ''_meta'')) (\<lambda>meta_v.
       Some \<lparr> lr_roots = roots_v, lr_meta = meta_v \<rparr>)))"

definition ListRootsResult_ok :: "ListRootsResult \<Rightarrow> bool" where
  "ListRootsResult_ok x \<longleftrightarrow> list_all Root_ok (lr_roots x)"

interpretation wListRootsResult: mcp_wire ListRootsResult_to_value ListRootsResult_from_value ListRootsResult_ok
  by unfold_locales (auto simp: ListRootsResult_to_value_def ListRootsResult_from_value_def ListRootsResult_ok_def wire dest: wire_dest)

record ElicitResult =
  el_action :: "string"
  el_content :: "JsonDict"
  el_meta :: "JsonDict option"

definition ElicitResult_to_value :: "ElicitResult \<Rightarrow> json" where
  "ElicitResult_to_value x =
     JObj (some_members [(''action'', Some (JStr (el_action x))),
       (''content'', Some (JObj (el_content x))),
       (''_meta'', map_option JObj (el_meta x))])"

definition ElicitResult_from_value :: "json \<Rightarrow> ElicitResult option" where
  "ElicitResult_from_value v = Option.bind (struct_get [''action'', ''content'', ''_meta''] v) (\<lambda>f.
     Option.bind (dflt_dec as_str [] (f ''action'')) (\<lambda>action_v.
     Option.bind (dflt_dec as_object [] (f ''content'')) (\<lambda>content_v.
     Option.bind (opt_dec as_object (f ''_meta'')) (\<lambda>meta_v.
       Some \<lparr> el_action = action_v, el_content = content_v, el_meta = meta_v \<rparr>))))"

definition ElicitResult_ok :: "ElicitResult \<Rightarrow> bool" where
  "ElicitResult_ok x \<longleftrightarrow> True"

interpretation wElicitResult: mcp_wire ElicitResult_to_value ElicitResult_from_value ElicitResult_ok
  by unfold_locales (auto simp: ElicitResult_to_value_def ElicitResult_from_value_def ElicitResult_ok_def wire dest: wire_dest)

record EmptyResult =
  em_meta :: "JsonDict option"

definition EmptyResult_to_value :: "EmptyResult \<Rightarrow> json" where
  "EmptyResult_to_value x =
     JObj (some_members [(''_meta'', map_option JObj (em_meta x))])"

definition EmptyResult_from_value :: "json \<Rightarrow> EmptyResult option" where
  "EmptyResult_from_value v = Option.bind (struct_get [''_meta''] v) (\<lambda>f.
     Option.bind (opt_dec as_object (f ''_meta'')) (\<lambda>meta_v.
       Some \<lparr> em_meta = meta_v \<rparr>))"

definition EmptyResult_ok :: "EmptyResult \<Rightarrow> bool" where
  "EmptyResult_ok x \<longleftrightarrow> True"

interpretation wEmptyResult: mcp_wire EmptyResult_to_value EmptyResult_from_value EmptyResult_ok
  by unfold_locales (auto simp: EmptyResult_to_value_def EmptyResult_from_value_def EmptyResult_ok_def wire dest: wire_dest)

record ResourceInfo =
  ri_uri :: "string"
  ri_name :: "string"
  ri_title :: "string option"
  ri_description :: "string option"
  ri_mime_type :: "string option"
  ri_size :: "int option"
  ri_icons :: "(Icon list) option"
  ri_annotations :: "Annotations option"

definition ResourceInfo_to_value :: "ResourceInfo \<Rightarrow> json" where
  "ResourceInfo_to_value x =
     JObj (some_members [(''uri'', Some (JStr (ri_uri x))),
       (''name'', Some (JStr (ri_name x))),
       (''title'', map_option JStr (ri_title x)),
       (''description'', map_option JStr (ri_description x)),
       (''mimeType'', map_option JStr (ri_mime_type x)),
       (''size'', map_option JInt (ri_size x)),
       (''icons'', map_option (list_enc Icon_to_value) (ri_icons x)),
       (''annotations'', map_option Annotations_to_value (ri_annotations x))])"

definition ResourceInfo_from_value :: "json \<Rightarrow> ResourceInfo option" where
  "ResourceInfo_from_value v = Option.bind (struct_get [''uri'', ''name'', ''title'', ''description'', ''mimeType'', ''size'', ''icons'', ''annotations''] v) (\<lambda>f.
     Option.bind (Option.bind (f ''uri'') as_str) (\<lambda>uri_v.
     Option.bind (Option.bind (f ''name'') as_str) (\<lambda>name_v.
     Option.bind (opt_dec as_str (f ''title'')) (\<lambda>title_v.
     Option.bind (opt_dec as_str (f ''description'')) (\<lambda>description_v.
     Option.bind (opt_dec as_str (f ''mimeType'')) (\<lambda>mime_type_v.
     Option.bind (opt_dec as_i64 (f ''size'')) (\<lambda>size_v.
     Option.bind (opt_dec (list_dec Icon_from_value) (f ''icons'')) (\<lambda>icons_v.
     Option.bind (opt_dec Annotations_from_value (f ''annotations'')) (\<lambda>annotations_v.
       Some \<lparr> ri_uri = uri_v, ri_name = name_v, ri_title = title_v, ri_description = description_v, ri_mime_type = mime_type_v, ri_size = size_v, ri_icons = icons_v, ri_annotations = annotations_v \<rparr>)))))))))"

definition ResourceInfo_ok :: "ResourceInfo \<Rightarrow> bool" where
  "ResourceInfo_ok x \<longleftrightarrow> pred_option i64_ok (ri_size x) \<and> pred_option (list_all Icon_ok) (ri_icons x) \<and> pred_option Annotations_ok (ri_annotations x)"

interpretation wResourceInfo: mcp_wire ResourceInfo_to_value ResourceInfo_from_value ResourceInfo_ok
  by unfold_locales (auto simp: ResourceInfo_to_value_def ResourceInfo_from_value_def ResourceInfo_ok_def wire dest: wire_dest)

record ResourceTemplate =
  te_uri_template :: "string"
  te_name :: "string"
  te_title :: "string option"
  te_description :: "string option"
  te_mime_type :: "string option"
  te_icons :: "(Icon list) option"
  te_annotations :: "Annotations option"

definition ResourceTemplate_to_value :: "ResourceTemplate \<Rightarrow> json" where
  "ResourceTemplate_to_value x =
     JObj (some_members [(''uriTemplate'', Some (JStr (te_uri_template x))),
       (''name'', Some (JStr (te_name x))),
       (''title'', map_option JStr (te_title x)),
       (''description'', map_option JStr (te_description x)),
       (''mimeType'', map_option JStr (te_mime_type x)),
       (''icons'', map_option (list_enc Icon_to_value) (te_icons x)),
       (''annotations'', map_option Annotations_to_value (te_annotations x))])"

definition ResourceTemplate_from_value :: "json \<Rightarrow> ResourceTemplate option" where
  "ResourceTemplate_from_value v = Option.bind (struct_get [''uriTemplate'', ''name'', ''title'', ''description'', ''mimeType'', ''icons'', ''annotations''] v) (\<lambda>f.
     Option.bind (Option.bind (f ''uriTemplate'') as_str) (\<lambda>uri_template_v.
     Option.bind (Option.bind (f ''name'') as_str) (\<lambda>name_v.
     Option.bind (opt_dec as_str (f ''title'')) (\<lambda>title_v.
     Option.bind (opt_dec as_str (f ''description'')) (\<lambda>description_v.
     Option.bind (opt_dec as_str (f ''mimeType'')) (\<lambda>mime_type_v.
     Option.bind (opt_dec (list_dec Icon_from_value) (f ''icons'')) (\<lambda>icons_v.
     Option.bind (opt_dec Annotations_from_value (f ''annotations'')) (\<lambda>annotations_v.
       Some \<lparr> te_uri_template = uri_template_v, te_name = name_v, te_title = title_v, te_description = description_v, te_mime_type = mime_type_v, te_icons = icons_v, te_annotations = annotations_v \<rparr>))))))))"

definition ResourceTemplate_ok :: "ResourceTemplate \<Rightarrow> bool" where
  "ResourceTemplate_ok x \<longleftrightarrow> pred_option (list_all Icon_ok) (te_icons x) \<and> pred_option Annotations_ok (te_annotations x)"

interpretation wResourceTemplate: mcp_wire ResourceTemplate_to_value ResourceTemplate_from_value ResourceTemplate_ok
  by unfold_locales (auto simp: ResourceTemplate_to_value_def ResourceTemplate_from_value_def ResourceTemplate_ok_def wire dest: wire_dest)

record ListResourcesResult =
  ls_resources :: "ResourceInfo list"
  ls_next_cursor :: "string option"
  ls_meta :: "JsonDict option"

definition ListResourcesResult_to_value :: "ListResourcesResult \<Rightarrow> json" where
  "ListResourcesResult_to_value x =
     JObj (some_members [(''resources'', Some (list_enc ResourceInfo_to_value (ls_resources x))),
       (''nextCursor'', map_option JStr (ls_next_cursor x)),
       (''_meta'', map_option JObj (ls_meta x))])"

definition ListResourcesResult_from_value :: "json \<Rightarrow> ListResourcesResult option" where
  "ListResourcesResult_from_value v = Option.bind (struct_get [''resources'', ''nextCursor'', ''_meta''] v) (\<lambda>f.
     Option.bind (dflt_dec (list_dec ResourceInfo_from_value) [] (f ''resources'')) (\<lambda>resources_v.
     Option.bind (opt_dec as_str (f ''nextCursor'')) (\<lambda>next_cursor_v.
     Option.bind (opt_dec as_object (f ''_meta'')) (\<lambda>meta_v.
       Some \<lparr> ls_resources = resources_v, ls_next_cursor = next_cursor_v, ls_meta = meta_v \<rparr>))))"

definition ListResourcesResult_ok :: "ListResourcesResult \<Rightarrow> bool" where
  "ListResourcesResult_ok x \<longleftrightarrow> list_all ResourceInfo_ok (ls_resources x)"

interpretation wListResourcesResult: mcp_wire ListResourcesResult_to_value ListResourcesResult_from_value ListResourcesResult_ok
  by unfold_locales (auto simp: ListResourcesResult_to_value_def ListResourcesResult_from_value_def ListResourcesResult_ok_def wire dest: wire_dest)

record ReadResourceResult =
  rr_contents :: "ResourceContents list"
  rr_meta :: "JsonDict option"

definition ReadResourceResult_to_value :: "ReadResourceResult \<Rightarrow> json" where
  "ReadResourceResult_to_value x =
     JObj (some_members [(''contents'', Some (list_enc ResourceContents_to_value (rr_contents x))),
       (''_meta'', map_option JObj (rr_meta x))])"

definition ReadResourceResult_from_value :: "json \<Rightarrow> ReadResourceResult option" where
  "ReadResourceResult_from_value v = Option.bind (struct_get [''contents'', ''_meta''] v) (\<lambda>f.
     Option.bind (dflt_dec (list_dec ResourceContents_from_value) [] (f ''contents'')) (\<lambda>contents_v.
     Option.bind (opt_dec as_object (f ''_meta'')) (\<lambda>meta_v.
       Some \<lparr> rr_contents = contents_v, rr_meta = meta_v \<rparr>)))"

definition ReadResourceResult_ok :: "ReadResourceResult \<Rightarrow> bool" where
  "ReadResourceResult_ok x \<longleftrightarrow> list_all ResourceContents_ok (rr_contents x)"

interpretation wReadResourceResult: mcp_wire ReadResourceResult_to_value ReadResourceResult_from_value ReadResourceResult_ok
  by unfold_locales (auto simp: ReadResourceResult_to_value_def ReadResourceResult_from_value_def ReadResourceResult_ok_def wire dest: wire_dest)

record ListResourceTemplatesResult =
  rx_resource_templates :: "ResourceTemplate list"
  rx_next_cursor :: "string option"
  rx_meta :: "JsonDict option"

definition ListResourceTemplatesResult_to_value :: "ListResourceTemplatesResult \<Rightarrow> json" where
  "ListResourceTemplatesResult_to_value x =
     JObj (some_members [(''resourceTemplates'', Some (list_enc ResourceTemplate_to_value (rx_resource_templates x))),
       (''nextCursor'', map_option JStr (rx_next_cursor x)),
       (''_meta'', map_option JObj (rx_meta x))])"

definition ListResourceTemplatesResult_from_value :: "json \<Rightarrow> ListResourceTemplatesResult option" where
  "ListResourceTemplatesResult_from_value v = Option.bind (struct_get [''resourceTemplates'', ''nextCursor'', ''_meta''] v) (\<lambda>f.
     Option.bind (dflt_dec (list_dec ResourceTemplate_from_value) [] (f ''resourceTemplates'')) (\<lambda>resource_templates_v.
     Option.bind (opt_dec as_str (f ''nextCursor'')) (\<lambda>next_cursor_v.
     Option.bind (opt_dec as_object (f ''_meta'')) (\<lambda>meta_v.
       Some \<lparr> rx_resource_templates = resource_templates_v, rx_next_cursor = next_cursor_v, rx_meta = meta_v \<rparr>))))"

definition ListResourceTemplatesResult_ok :: "ListResourceTemplatesResult \<Rightarrow> bool" where
  "ListResourceTemplatesResult_ok x \<longleftrightarrow> list_all ResourceTemplate_ok (rx_resource_templates x)"

interpretation wListResourceTemplatesResult: mcp_wire ListResourceTemplatesResult_to_value ListResourceTemplatesResult_from_value ListResourceTemplatesResult_ok
  by unfold_locales (auto simp: ListResourceTemplatesResult_to_value_def ListResourceTemplatesResult_from_value_def ListResourceTemplatesResult_ok_def wire dest: wire_dest)

subsection \<open>Logging levels and completion\<close>

datatype LoggingLevel = LvDebug | LvInfo | LvNotice | LvWarning | LvError | LvCritical | LvAlert | LvEmergency

definition LoggingLevel_as_str :: "LoggingLevel \<Rightarrow> string" where
  "LoggingLevel_as_str l =
     (case l of
        LvDebug \<Rightarrow> ''debug'' | LvInfo \<Rightarrow> ''info'' | LvNotice \<Rightarrow> ''notice'' | LvWarning \<Rightarrow> ''warning''
      | LvError \<Rightarrow> ''error'' | LvCritical \<Rightarrow> ''critical'' | LvAlert \<Rightarrow> ''alert'' | LvEmergency \<Rightarrow> ''emergency'')"

definition LoggingLevel_parse :: "string \<Rightarrow> LoggingLevel option" where
  "LoggingLevel_parse s =
     map_of (map (\<lambda>l. (LoggingLevel_as_str l, l))
       [LvDebug, LvInfo, LvNotice, LvWarning, LvError, LvCritical, LvAlert, LvEmergency]) s"

lemma level_roundtrip: "LoggingLevel_parse (LoggingLevel_as_str l) = Some l"
  by (cases l) (simp_all add: LoggingLevel_parse_def LoggingLevel_as_str_def)

record ResourceTemplateReference =
  rf_uri :: "string"

definition ResourceTemplateReference_to_value :: "ResourceTemplateReference \<Rightarrow> json" where
  "ResourceTemplateReference_to_value x =
     JObj (some_members [(''uri'', Some (JStr (rf_uri x)))])"

definition ResourceTemplateReference_from_value :: "json \<Rightarrow> ResourceTemplateReference option" where
  "ResourceTemplateReference_from_value v = Option.bind (struct_get [''uri''] v) (\<lambda>f.
     Option.bind (Option.bind (f ''uri'') as_str) (\<lambda>uri_v.
       Some \<lparr> rf_uri = uri_v \<rparr>))"

definition ResourceTemplateReference_ok :: "ResourceTemplateReference \<Rightarrow> bool" where
  "ResourceTemplateReference_ok x \<longleftrightarrow> True"

interpretation wResourceTemplateReference: mcp_wire ResourceTemplateReference_to_value ResourceTemplateReference_from_value ResourceTemplateReference_ok
  by unfold_locales (auto simp: ResourceTemplateReference_to_value_def ResourceTemplateReference_from_value_def ResourceTemplateReference_ok_def wire dest: wire_dest)

record PromptReference =
  pf_name :: "string"

definition PromptReference_to_value :: "PromptReference \<Rightarrow> json" where
  "PromptReference_to_value x =
     JObj (some_members [(''name'', Some (JStr (pf_name x)))])"

definition PromptReference_from_value :: "json \<Rightarrow> PromptReference option" where
  "PromptReference_from_value v = Option.bind (struct_get [''name''] v) (\<lambda>f.
     Option.bind (Option.bind (f ''name'') as_str) (\<lambda>name_v.
       Some \<lparr> pf_name = name_v \<rparr>))"

definition PromptReference_ok :: "PromptReference \<Rightarrow> bool" where
  "PromptReference_ok x \<longleftrightarrow> True"

interpretation wPromptReference: mcp_wire PromptReference_to_value PromptReference_from_value PromptReference_ok
  by unfold_locales (auto simp: PromptReference_to_value_def PromptReference_from_value_def PromptReference_ok_def wire dest: wire_dest)

text \<open>A derived enum that carries its variant in a member: the tag is taken out, the rest is the variant.\<close>

definition take_tag :: "string \<Rightarrow> json \<Rightarrow> (string \<times> json) option" where
  "take_tag k v =
     (case v of
        JObj m \<Rightarrow> map_option (\<lambda>t. (t, JObj (im_remove k m))) (Option.bind (im_get m k) as_str)
      | JArr (t # xs) \<Rightarrow> map_option (\<lambda>t. (t, JArr xs)) (as_str t)
      | _ \<Rightarrow> None)"

definition put_tag :: "string \<Rightarrow> string \<Rightarrow> json \<Rightarrow> json" where
  "put_tag k t v = (case v of JObj m \<Rightarrow> JObj ((k, JStr t) # m) | _ \<Rightarrow> v)"

lemma take_put_tag [wire]: "im_get m k = None \<Longrightarrow> take_tag k (put_tag k t (JObj m)) = Some (t, JObj m)"
  by (simp add: take_tag_def put_tag_def im_remove_def map_of_eq_None_iff filter_id_conv) (metis image_eqI)

datatype CompleteReference = RefResource ResourceTemplateReference | RefPrompt PromptReference

definition CompleteReference_to_value :: "CompleteReference \<Rightarrow> json" where
  "CompleteReference_to_value x =
     (case x of
        RefResource r \<Rightarrow> put_tag ''type'' ''ref/resource'' (ResourceTemplateReference_to_value r)
      | RefPrompt p \<Rightarrow> put_tag ''type'' ''ref/prompt'' (PromptReference_to_value p))"

definition CompleteReference_from_value :: "json \<Rightarrow> CompleteReference option" where
  "CompleteReference_from_value v =
     Option.bind (take_tag ''type'' v) (\<lambda>(t, rest).
       if t = ''ref/resource'' then map_option RefResource (ResourceTemplateReference_from_value rest)
       else if t = ''ref/prompt'' then map_option RefPrompt (PromptReference_from_value rest)
       else None)"

definition CompleteReference_ok :: "CompleteReference \<Rightarrow> bool" where "CompleteReference_ok x = True"

interpretation wCompleteReference: mcp_wire CompleteReference_to_value CompleteReference_from_value CompleteReference_ok
proof
  fix x
  show "CompleteReference_from_value (CompleteReference_to_value x) = Some x"
    by (cases x)
      (simp_all add: CompleteReference_to_value_def CompleteReference_from_value_def put_tag_def take_tag_def im_remove_def
        ResourceTemplateReference_to_value_def PromptReference_to_value_def ResourceTemplateReference_from_value_def
        PromptReference_from_value_def some_members_def struct_get_obj)
  show "CompleteReference_to_value x \<noteq> JNull"
    by (cases x) (simp_all add: CompleteReference_to_value_def put_tag_def ResourceTemplateReference_to_value_def PromptReference_to_value_def)
qed (simp add: CompleteReference_ok_def)

text \<open>A map of strings.\<close>

type_synonym StringMap = "(string, string) imap"

definition StringMap_to_value :: "StringMap \<Rightarrow> json" where
  "StringMap_to_value m = JObj (map (\<lambda>(k, s). (k, JStr s)) m)"

definition StringMap_from_value :: "json \<Rightarrow> StringMap option" where
  "StringMap_from_value v =
     Option.bind (as_object v) (all_some (\<lambda>(k, x). map_option (Pair k) (as_str x)))"

definition StringMap_ok :: "StringMap \<Rightarrow> bool" where "StringMap_ok m = True"

interpretation wStringMap: mcp_wire StringMap_to_value StringMap_from_value StringMap_ok
proof
  fix m
  show "StringMap_from_value (StringMap_to_value m) = Some m"
    by (induction m) (auto simp: StringMap_from_value_def StringMap_to_value_def)
qed (simp_all add: StringMap_ok_def StringMap_to_value_def)

record CompletionArgument =
  ca_name :: "string"
  ca_value :: "string"

definition CompletionArgument_to_value :: "CompletionArgument \<Rightarrow> json" where
  "CompletionArgument_to_value x =
     JObj (some_members [(''name'', Some (JStr (ca_name x))),
       (''value'', Some (JStr (ca_value x)))])"

definition CompletionArgument_from_value :: "json \<Rightarrow> CompletionArgument option" where
  "CompletionArgument_from_value v = Option.bind (struct_get [''name'', ''value''] v) (\<lambda>f.
     Option.bind (Option.bind (f ''name'') as_str) (\<lambda>name_v.
     Option.bind (Option.bind (f ''value'') as_str) (\<lambda>value_v.
       Some \<lparr> ca_name = name_v, ca_value = value_v \<rparr>)))"

definition CompletionArgument_ok :: "CompletionArgument \<Rightarrow> bool" where
  "CompletionArgument_ok x \<longleftrightarrow> True"

interpretation wCompletionArgument: mcp_wire CompletionArgument_to_value CompletionArgument_from_value CompletionArgument_ok
  by unfold_locales (auto simp: CompletionArgument_to_value_def CompletionArgument_from_value_def CompletionArgument_ok_def wire dest: wire_dest)

record CompletionContext =
  cc_arguments :: "StringMap option"

definition CompletionContext_to_value :: "CompletionContext \<Rightarrow> json" where
  "CompletionContext_to_value x =
     JObj (some_members [(''arguments'', map_option StringMap_to_value (cc_arguments x))])"

definition CompletionContext_from_value :: "json \<Rightarrow> CompletionContext option" where
  "CompletionContext_from_value v = Option.bind (struct_get [''arguments''] v) (\<lambda>f.
     Option.bind (opt_dec StringMap_from_value (f ''arguments'')) (\<lambda>arguments_v.
       Some \<lparr> cc_arguments = arguments_v \<rparr>))"

definition CompletionContext_ok :: "CompletionContext \<Rightarrow> bool" where
  "CompletionContext_ok x \<longleftrightarrow> pred_option StringMap_ok (cc_arguments x)"

interpretation wCompletionContext: mcp_wire CompletionContext_to_value CompletionContext_from_value CompletionContext_ok
  by unfold_locales (auto simp: CompletionContext_to_value_def CompletionContext_from_value_def CompletionContext_ok_def wire dest: wire_dest)

record Completion =
  co_values :: "string list"
  co_total :: "int option"
  co_has_more :: "bool option"

definition Completion_to_value :: "Completion \<Rightarrow> json" where
  "Completion_to_value x =
     JObj (some_members [(''values'', Some (list_enc JStr (co_values x))),
       (''total'', map_option JInt (co_total x)),
       (''hasMore'', map_option JBool (co_has_more x))])"

definition Completion_from_value :: "json \<Rightarrow> Completion option" where
  "Completion_from_value v = Option.bind (struct_get [''values'', ''total'', ''hasMore''] v) (\<lambda>f.
     Option.bind (Option.bind (f ''values'') (list_dec as_str)) (\<lambda>values_v.
     Option.bind (opt_dec as_i64 (f ''total'')) (\<lambda>total_v.
     Option.bind (opt_dec as_bool (f ''hasMore'')) (\<lambda>has_more_v.
       Some \<lparr> co_values = values_v, co_total = total_v, co_has_more = has_more_v \<rparr>))))"

definition Completion_ok :: "Completion \<Rightarrow> bool" where
  "Completion_ok x \<longleftrightarrow> pred_option i64_ok (co_total x)"

interpretation wCompletion: mcp_wire Completion_to_value Completion_from_value Completion_ok
  by unfold_locales (auto simp: Completion_to_value_def Completion_from_value_def Completion_ok_def wire dest: wire_dest)

record CompleteResult =
  cr_completion :: "Completion"
  cr_meta :: "JsonDict option"

definition CompleteResult_to_value :: "CompleteResult \<Rightarrow> json" where
  "CompleteResult_to_value x =
     JObj (some_members [(''completion'', Some (Completion_to_value (cr_completion x))),
       (''_meta'', map_option JObj (cr_meta x))])"

definition CompleteResult_from_value :: "json \<Rightarrow> CompleteResult option" where
  "CompleteResult_from_value v = Option.bind (struct_get [''completion'', ''_meta''] v) (\<lambda>f.
     Option.bind (Option.bind (f ''completion'') Completion_from_value) (\<lambda>completion_v.
     Option.bind (opt_dec as_object (f ''_meta'')) (\<lambda>meta_v.
       Some \<lparr> cr_completion = completion_v, cr_meta = meta_v \<rparr>)))"

definition CompleteResult_ok :: "CompleteResult \<Rightarrow> bool" where
  "CompleteResult_ok x \<longleftrightarrow> Completion_ok (cr_completion x)"

interpretation wCompleteResult: mcp_wire CompleteResult_to_value CompleteResult_from_value CompleteResult_ok
  by unfold_locales (auto simp: CompleteResult_to_value_def CompleteResult_from_value_def CompleteResult_ok_def wire dest: wire_dest)

subsection \<open>Parameters\<close>

record InitializeRequestParams =
  ip_protocol_version :: "string"
  ip_capabilities :: "ClientCapabilities"
  ip_client_info :: "Implementation"
  ip_meta :: "RequestParamsMeta option"

definition InitializeRequestParams_to_value :: "InitializeRequestParams \<Rightarrow> json" where
  "InitializeRequestParams_to_value x =
     JObj (some_members [(''protocolVersion'', Some (JStr (ip_protocol_version x))),
       (''capabilities'', Some (ClientCapabilities_to_value (ip_capabilities x))),
       (''clientInfo'', Some (Implementation_to_value (ip_client_info x))),
       (''_meta'', map_option RequestParamsMeta_to_value (ip_meta x))])"

definition InitializeRequestParams_from_value :: "json \<Rightarrow> InitializeRequestParams option" where
  "InitializeRequestParams_from_value v = Option.bind (struct_get [''protocolVersion'', ''capabilities'', ''clientInfo'', ''_meta''] v) (\<lambda>f.
     Option.bind (dflt_dec as_str DEFAULT_PROTOCOL_VERSION (f ''protocolVersion'')) (\<lambda>protocol_version_v.
     Option.bind (dflt_dec ClientCapabilities_from_value ClientCapabilities_default (f ''capabilities'')) (\<lambda>capabilities_v.
     Option.bind (dflt_dec Implementation_from_value Implementation_default (f ''clientInfo'')) (\<lambda>client_info_v.
     Option.bind (opt_dec RequestParamsMeta_from_value (f ''_meta'')) (\<lambda>meta_v.
       Some \<lparr> ip_protocol_version = protocol_version_v, ip_capabilities = capabilities_v, ip_client_info = client_info_v, ip_meta = meta_v \<rparr>)))))"

definition InitializeRequestParams_ok :: "InitializeRequestParams \<Rightarrow> bool" where
  "InitializeRequestParams_ok x \<longleftrightarrow> ClientCapabilities_ok (ip_capabilities x) \<and> Implementation_ok (ip_client_info x) \<and> pred_option RequestParamsMeta_ok (ip_meta x)"

interpretation wInitializeRequestParams: mcp_codec InitializeRequestParams_to_value InitializeRequestParams_from_value InitializeRequestParams_ok
  by unfold_locales (auto simp: InitializeRequestParams_to_value_def InitializeRequestParams_from_value_def InitializeRequestParams_ok_def wire dest: wire_dest)

definition InitializeRequestParams_default :: InitializeRequestParams where
  "InitializeRequestParams_default =
     \<lparr> ip_protocol_version = DEFAULT_PROTOCOL_VERSION, ip_capabilities = ClientCapabilities_default,
       ip_client_info = Implementation_default, ip_meta = None \<rparr>"

record CallToolParams =
  kp_name :: "string"
  kp_arguments :: "json option"
  kp_meta :: "RequestParamsMeta option"

definition CallToolParams_to_value :: "CallToolParams \<Rightarrow> json" where
  "CallToolParams_to_value x =
     JObj (some_members [(''name'', Some (JStr (kp_name x))),
       (''arguments'', map_option value_enc (kp_arguments x)),
       (''_meta'', map_option RequestParamsMeta_to_value (kp_meta x))])"

definition CallToolParams_from_value :: "json \<Rightarrow> CallToolParams option" where
  "CallToolParams_from_value v = Option.bind (struct_get [''name'', ''arguments'', ''_meta''] v) (\<lambda>f.
     Option.bind (Option.bind (f ''name'') as_str) (\<lambda>name_v.
     Option.bind (opt_dec value_dec (f ''arguments'')) (\<lambda>arguments_v.
     Option.bind (opt_dec RequestParamsMeta_from_value (f ''_meta'')) (\<lambda>meta_v.
       Some \<lparr> kp_name = name_v, kp_arguments = arguments_v, kp_meta = meta_v \<rparr>))))"

definition CallToolParams_ok :: "CallToolParams \<Rightarrow> bool" where
  "CallToolParams_ok x \<longleftrightarrow> pred_option value_ok (kp_arguments x) \<and> pred_option RequestParamsMeta_ok (kp_meta x)"

interpretation wCallToolParams: mcp_wire CallToolParams_to_value CallToolParams_from_value CallToolParams_ok
  by unfold_locales (auto simp: CallToolParams_to_value_def CallToolParams_from_value_def CallToolParams_ok_def wire dest: wire_dest)

record GetPromptParams =
  gq_name :: "string"
  gq_arguments :: "json option"
  gq_meta :: "RequestParamsMeta option"

definition GetPromptParams_to_value :: "GetPromptParams \<Rightarrow> json" where
  "GetPromptParams_to_value x =
     JObj (some_members [(''name'', Some (JStr (gq_name x))),
       (''arguments'', map_option value_enc (gq_arguments x)),
       (''_meta'', map_option RequestParamsMeta_to_value (gq_meta x))])"

definition GetPromptParams_from_value :: "json \<Rightarrow> GetPromptParams option" where
  "GetPromptParams_from_value v = Option.bind (struct_get [''name'', ''arguments'', ''_meta''] v) (\<lambda>f.
     Option.bind (Option.bind (f ''name'') as_str) (\<lambda>name_v.
     Option.bind (opt_dec value_dec (f ''arguments'')) (\<lambda>arguments_v.
     Option.bind (opt_dec RequestParamsMeta_from_value (f ''_meta'')) (\<lambda>meta_v.
       Some \<lparr> gq_name = name_v, gq_arguments = arguments_v, gq_meta = meta_v \<rparr>))))"

definition GetPromptParams_ok :: "GetPromptParams \<Rightarrow> bool" where
  "GetPromptParams_ok x \<longleftrightarrow> pred_option value_ok (gq_arguments x) \<and> pred_option RequestParamsMeta_ok (gq_meta x)"

interpretation wGetPromptParams: mcp_wire GetPromptParams_to_value GetPromptParams_from_value GetPromptParams_ok
  by unfold_locales (auto simp: GetPromptParams_to_value_def GetPromptParams_from_value_def GetPromptParams_ok_def wire dest: wire_dest)

record UriParams =
  up_uri :: "string"
  up_meta :: "RequestParamsMeta option"

definition UriParams_to_value :: "UriParams \<Rightarrow> json" where
  "UriParams_to_value x =
     JObj (some_members [(''uri'', Some (JStr (up_uri x))),
       (''_meta'', map_option RequestParamsMeta_to_value (up_meta x))])"

definition UriParams_from_value :: "json \<Rightarrow> UriParams option" where
  "UriParams_from_value v = Option.bind (struct_get [''uri'', ''_meta''] v) (\<lambda>f.
     Option.bind (Option.bind (f ''uri'') as_str) (\<lambda>uri_v.
     Option.bind (opt_dec RequestParamsMeta_from_value (f ''_meta'')) (\<lambda>meta_v.
       Some \<lparr> up_uri = uri_v, up_meta = meta_v \<rparr>)))"

definition UriParams_ok :: "UriParams \<Rightarrow> bool" where
  "UriParams_ok x \<longleftrightarrow> pred_option RequestParamsMeta_ok (up_meta x)"

interpretation wUriParams: mcp_wire UriParams_to_value UriParams_from_value UriParams_ok
  by unfold_locales (auto simp: UriParams_to_value_def UriParams_from_value_def UriParams_ok_def wire dest: wire_dest)

record PaginatedParams =
  pp_cursor :: "string option"
  pp_meta :: "RequestParamsMeta option"

definition PaginatedParams_to_value :: "PaginatedParams \<Rightarrow> json" where
  "PaginatedParams_to_value x =
     JObj (some_members [(''cursor'', map_option JStr (pp_cursor x)),
       (''_meta'', map_option RequestParamsMeta_to_value (pp_meta x))])"

definition PaginatedParams_from_value :: "json \<Rightarrow> PaginatedParams option" where
  "PaginatedParams_from_value v = Option.bind (struct_get [''cursor'', ''_meta''] v) (\<lambda>f.
     Option.bind (opt_dec as_str (f ''cursor'')) (\<lambda>cursor_v.
     Option.bind (opt_dec RequestParamsMeta_from_value (f ''_meta'')) (\<lambda>meta_v.
       Some \<lparr> pp_cursor = cursor_v, pp_meta = meta_v \<rparr>)))"

definition PaginatedParams_ok :: "PaginatedParams \<Rightarrow> bool" where
  "PaginatedParams_ok x \<longleftrightarrow> pred_option RequestParamsMeta_ok (pp_meta x)"

interpretation wPaginatedParams: mcp_wire PaginatedParams_to_value PaginatedParams_from_value PaginatedParams_ok
  by unfold_locales (auto simp: PaginatedParams_to_value_def PaginatedParams_from_value_def PaginatedParams_ok_def wire dest: wire_dest)

record SetLoggingLevelParams =
  sl_level :: "string"

definition SetLoggingLevelParams_to_value :: "SetLoggingLevelParams \<Rightarrow> json" where
  "SetLoggingLevelParams_to_value x =
     JObj (some_members [(''level'', Some (JStr (sl_level x)))])"

definition SetLoggingLevelParams_from_value :: "json \<Rightarrow> SetLoggingLevelParams option" where
  "SetLoggingLevelParams_from_value v = Option.bind (struct_get [''level''] v) (\<lambda>f.
     Option.bind (Option.bind (f ''level'') as_str) (\<lambda>level_v.
       Some \<lparr> sl_level = level_v \<rparr>))"

definition SetLoggingLevelParams_ok :: "SetLoggingLevelParams \<Rightarrow> bool" where
  "SetLoggingLevelParams_ok x \<longleftrightarrow> True"

interpretation wSetLoggingLevelParams: mcp_wire SetLoggingLevelParams_to_value SetLoggingLevelParams_from_value SetLoggingLevelParams_ok
  by unfold_locales (auto simp: SetLoggingLevelParams_to_value_def SetLoggingLevelParams_from_value_def SetLoggingLevelParams_ok_def wire dest: wire_dest)

record CompleteRequestParams =
  cq_reference :: "CompleteReference"
  cq_argument :: "CompletionArgument"
  cq_context :: "CompletionContext option"

definition CompleteRequestParams_to_value :: "CompleteRequestParams \<Rightarrow> json" where
  "CompleteRequestParams_to_value x =
     JObj (some_members [(''ref'', Some (CompleteReference_to_value (cq_reference x))),
       (''argument'', Some (CompletionArgument_to_value (cq_argument x))),
       (''context'', map_option CompletionContext_to_value (cq_context x))])"

definition CompleteRequestParams_from_value :: "json \<Rightarrow> CompleteRequestParams option" where
  "CompleteRequestParams_from_value v = Option.bind (struct_get [''ref'', ''argument'', ''context''] v) (\<lambda>f.
     Option.bind (Option.bind (f ''ref'') CompleteReference_from_value) (\<lambda>reference_v.
     Option.bind (Option.bind (f ''argument'') CompletionArgument_from_value) (\<lambda>argument_v.
     Option.bind (opt_dec CompletionContext_from_value (f ''context'')) (\<lambda>context_v.
       Some \<lparr> cq_reference = reference_v, cq_argument = argument_v, cq_context = context_v \<rparr>))))"

definition CompleteRequestParams_ok :: "CompleteRequestParams \<Rightarrow> bool" where
  "CompleteRequestParams_ok x \<longleftrightarrow> CompleteReference_ok (cq_reference x) \<and> CompletionArgument_ok (cq_argument x) \<and> pred_option CompletionContext_ok (cq_context x)"

interpretation wCompleteRequestParams: mcp_wire CompleteRequestParams_to_value CompleteRequestParams_from_value CompleteRequestParams_ok
  by unfold_locales (auto simp: CompleteRequestParams_to_value_def CompleteRequestParams_from_value_def CompleteRequestParams_ok_def wire dest: wire_dest)

record CancelledNotificationParams =
  cn_request_id :: "RequestId"
  cn_reason :: "string"

definition CancelledNotificationParams_to_value :: "CancelledNotificationParams \<Rightarrow> json" where
  "CancelledNotificationParams_to_value x =
     JObj (some_members [(''requestId'', Some (RequestId_to_value (cn_request_id x))),
       (''reason'', Some (JStr (cn_reason x)))])"

definition CancelledNotificationParams_from_value :: "json \<Rightarrow> CancelledNotificationParams option" where
  "CancelledNotificationParams_from_value v = Option.bind (struct_get [''requestId'', ''reason''] v) (\<lambda>f.
     Option.bind (Option.bind (f ''requestId'') RequestId_from_value) (\<lambda>request_id_v.
     Option.bind (dflt_dec as_str [] (f ''reason'')) (\<lambda>reason_v.
       Some \<lparr> cn_request_id = request_id_v, cn_reason = reason_v \<rparr>)))"

definition CancelledNotificationParams_ok :: "CancelledNotificationParams \<Rightarrow> bool" where
  "CancelledNotificationParams_ok x \<longleftrightarrow> id_ok (cn_request_id x)"

interpretation wCancelledNotificationParams: mcp_wire CancelledNotificationParams_to_value CancelledNotificationParams_from_value CancelledNotificationParams_ok
  by unfold_locales (auto simp: CancelledNotificationParams_to_value_def CancelledNotificationParams_from_value_def CancelledNotificationParams_ok_def wire dest: wire_dest)

record ProgressNotificationParams =
  pn_progress_token :: "ProgressToken"
  pn_progress :: "real"
  pn_total :: "real option"
  pn_message :: "string option"

definition ProgressNotificationParams_to_value :: "ProgressNotificationParams \<Rightarrow> json" where
  "ProgressNotificationParams_to_value x =
     JObj (some_members [(''progressToken'', Some (ProgressToken_to_value (pn_progress_token x))),
       (''progress'', Some (JFloat (pn_progress x))),
       (''total'', map_option JFloat (pn_total x)),
       (''message'', map_option JStr (pn_message x))])"

definition ProgressNotificationParams_from_value :: "json \<Rightarrow> ProgressNotificationParams option" where
  "ProgressNotificationParams_from_value v = Option.bind (struct_get [''progressToken'', ''progress'', ''total'', ''message''] v) (\<lambda>f.
     Option.bind (Option.bind (f ''progressToken'') ProgressToken_from_value) (\<lambda>progress_token_v.
     Option.bind (dflt_dec as_f64 0 (f ''progress'')) (\<lambda>progress_v.
     Option.bind (opt_dec as_f64 (f ''total'')) (\<lambda>total_v.
     Option.bind (opt_dec as_str (f ''message'')) (\<lambda>message_v.
       Some \<lparr> pn_progress_token = progress_token_v, pn_progress = progress_v, pn_total = total_v, pn_message = message_v \<rparr>)))))"

definition ProgressNotificationParams_ok :: "ProgressNotificationParams \<Rightarrow> bool" where
  "ProgressNotificationParams_ok x \<longleftrightarrow> ProgressToken_ok (pn_progress_token x)"

interpretation wProgressNotificationParams: mcp_wire ProgressNotificationParams_to_value ProgressNotificationParams_from_value ProgressNotificationParams_ok
  by unfold_locales (auto simp: ProgressNotificationParams_to_value_def ProgressNotificationParams_from_value_def ProgressNotificationParams_ok_def wire dest: wire_dest)

record LoggingMessageNotificationParams =
  ln_level :: "string"
  ln_logger :: "string"
  ln_data :: "json"

definition LoggingMessageNotificationParams_to_value :: "LoggingMessageNotificationParams \<Rightarrow> json" where
  "LoggingMessageNotificationParams_to_value x =
     JObj (some_members [(''level'', Some (JStr (ln_level x))),
       (''logger'', Some (JStr (ln_logger x))),
       (''data'', Some (value_enc (ln_data x)))])"

definition LoggingMessageNotificationParams_from_value :: "json \<Rightarrow> LoggingMessageNotificationParams option" where
  "LoggingMessageNotificationParams_from_value v = Option.bind (struct_get [''level'', ''logger'', ''data''] v) (\<lambda>f.
     Option.bind (dflt_dec as_str [] (f ''level'')) (\<lambda>level_v.
     Option.bind (dflt_dec as_str [] (f ''logger'')) (\<lambda>logger_v.
     Option.bind (dflt_dec value_dec JNull (f ''data'')) (\<lambda>data_v.
       Some \<lparr> ln_level = level_v, ln_logger = logger_v, ln_data = data_v \<rparr>))))"

definition LoggingMessageNotificationParams_ok :: "LoggingMessageNotificationParams \<Rightarrow> bool" where
  "LoggingMessageNotificationParams_ok x \<longleftrightarrow> True"

interpretation wLoggingMessageNotificationParams: mcp_wire LoggingMessageNotificationParams_to_value LoggingMessageNotificationParams_from_value LoggingMessageNotificationParams_ok
  by unfold_locales (auto simp: LoggingMessageNotificationParams_to_value_def LoggingMessageNotificationParams_from_value_def LoggingMessageNotificationParams_ok_def wire dest: wire_dest)

datatype ElicitParams =
    ElicitForm string JsonDict
  | ElicitUrl string string string

definition ElicitParams_to_value :: "ElicitParams \<Rightarrow> json" where
  "ElicitParams_to_value x =
     (case x of
        ElicitForm message schema \<Rightarrow>
          put_tag ''mode'' ''form'' (JObj [(''message'', JStr message), (''requestedSchema'', JObj schema)])
      | ElicitUrl message url elicitation_id \<Rightarrow>
          put_tag ''mode'' ''url''
            (JObj [(''message'', JStr message), (''url'', JStr url), (''elicitationId'', JStr elicitation_id)]))"

definition ElicitParams_from_value :: "json \<Rightarrow> ElicitParams option" where
  "ElicitParams_from_value v =
     Option.bind (take_tag ''mode'' v) (\<lambda>(t, rest).
       if t = ''form'' then
         Option.bind (struct_get [''message'', ''requestedSchema''] rest) (\<lambda>f.
         Option.bind (Option.bind (f ''message'') as_str) (\<lambda>m.
         Option.bind (Option.bind (f ''requestedSchema'') as_object) (\<lambda>s. Some (ElicitForm m s))))
       else if t = ''url'' then
         Option.bind (struct_get [''message'', ''url'', ''elicitationId''] rest) (\<lambda>f.
         Option.bind (Option.bind (f ''message'') as_str) (\<lambda>m.
         Option.bind (Option.bind (f ''url'') as_str) (\<lambda>u.
         Option.bind (Option.bind (f ''elicitationId'') as_str) (\<lambda>e. Some (ElicitUrl m u e)))))
       else None)"

definition ElicitParams_ok :: "ElicitParams \<Rightarrow> bool" where "ElicitParams_ok x = True"

interpretation wElicitParams: mcp_wire ElicitParams_to_value ElicitParams_from_value ElicitParams_ok
proof
  fix x
  show "ElicitParams_from_value (ElicitParams_to_value x) = Some x"
    by (cases x)
      (simp_all add: ElicitParams_to_value_def ElicitParams_from_value_def put_tag_def take_tag_def im_remove_def struct_get_obj)
  show "ElicitParams_to_value x \<noteq> JNull"
    by (cases x) (simp_all add: ElicitParams_to_value_def put_tag_def)
qed (simp add: ElicitParams_ok_def)

subsection \<open>Reading and writing messages\<close>

text \<open>
  C28. The decoders of the MCP results and parameters are typed: whatever JSON value the peer sends, what is
  decoded from it is well-formed (64-bit sizes, no optional member that is null, at every depth), and it
  is read back unchanged from the value it is written to.
\<close>

theorem mcp_decoders_typed:
  "(\<forall>r. CallToolResult_from_value tj v = Some r \<longrightarrow>
      CallToolResult_ok r \<and> CallToolResult_from_value tj (CallToolResult_to_value r) = Some r) \<and>
   (\<forall>r. ListToolsResult_from_value v = Some r \<longrightarrow>
      ListToolsResult_ok r \<and> ListToolsResult_from_value (ListToolsResult_to_value r) = Some r) \<and>
   (\<forall>r. GetPromptResult_from_value tj v = Some r \<longrightarrow>
      GetPromptResult_ok r \<and> GetPromptResult_from_value tj (GetPromptResult_to_value r) = Some r) \<and>
   (\<forall>r. ListResourcesResult_from_value v = Some r \<longrightarrow>
      ListResourcesResult_ok r \<and> ListResourcesResult_from_value (ListResourcesResult_to_value r) = Some r) \<and>
   (\<forall>r. ReadResourceResult_from_value v = Some r \<longrightarrow>
      ReadResourceResult_ok r \<and> ReadResourceResult_from_value (ReadResourceResult_to_value r) = Some r) \<and>
   (\<forall>r. InitializeResult_from_value v = Some r \<longrightarrow>
      InitializeResult_ok r \<and> InitializeResult_from_value (InitializeResult_to_value r) = Some r) \<and>
   (\<forall>r. CreateMessageParams_from_value tj v = Some r \<longrightarrow>
      CreateMessageParams_ok r \<and> CreateMessageParams_from_value tj (CreateMessageParams_to_value r) = Some r)"
  by (intro conjI allI impI)
    (auto dest: wCallToolResult.dec_ok wListToolsResult.dec_ok wGetPromptResult.dec_ok wListResourcesResult.dec_ok
      wReadResourceResult.dec_ok wInitializeResult.dec_ok wCreateMessageParams.dec_ok
      intro: wCallToolResult.dec_enc wListToolsResult.dec_enc wGetPromptResult.dec_enc wListResourcesResult.dec_enc
      wReadResourceResult.dec_enc wInitializeResult.dec_enc wCreateMessageParams.dec_enc)

definition demo_tool_result :: json where
  "demo_tool_result =
     JObj [(''isError'', JBool False), (''content'', JArr [JObj [(''type'', JStr ''text''), (''text'', JStr ''hi'')],
       JObj [(''type'', JStr ''video'')]]), (''structuredContent'', JNull)]"

theorem mcp_decoders_typed_witness:
  "\<exists>r. CallToolResult_from_value (\<lambda>_. ''raw'') demo_tool_result = Some r \<and> length (ct_content r) = 2 \<and>
     CallToolResult_from_value (\<lambda>_. ''raw'') (CallToolResult_to_value r) = Some r"
proof -
  have "map_option (\<lambda>r. length (ct_content r)) (CallToolResult_from_value (\<lambda>_. ''raw'') demo_tool_result) = Some 2"
    by code_simp
  then obtain r where r: "CallToolResult_from_value (\<lambda>_. ''raw'') demo_tool_result = Some r" "length (ct_content r) = 2"
    by auto
  with mcp_decoders_typed [of "\<lambda>_. ''raw''" demo_tool_result] show ?thesis by blast
qed

end
