(* ===== verification/McpProtocol.thy ===== *)
theory McpProtocol
  imports McpResults
begin

text \<open>
  Errors, constants, message classification and endpoint validation of the MCP SDK, \<open>error.rs\<close> and
  \<open>protocol.rs\<close>.  Messages are those of \<open>JsonRpc\<close>; the SDK classifies them by rules of its own.
\<close>

datatype McpError =
    ErrRpc RpcError
  | ErrTransport string
  | ErrTimeout nat
  | ErrNotInitialized
  | ErrAlreadyInitialized
  | ErrClosed
  | ErrState string
  | ErrArgument string
  | ErrValidation string
  | ErrJson string

definition McpError_to_string :: "McpError \<Rightarrow> string" where
  "McpError_to_string e =
     (case e of
        ErrRpc r \<Rightarrow> rpc_message r
      | ErrTransport m \<Rightarrow> ''transport error: '' @ m
      | ErrTimeout ms \<Rightarrow> ''request timed out after '' @ show_nat ms @ '' ms''
      | ErrNotInitialized \<Rightarrow> ''client is not initialized.''
      | ErrAlreadyInitialized \<Rightarrow> ''client is initialized.''
      | ErrClosed \<Rightarrow> ''connection closed''
      | ErrState m \<Rightarrow> m
      | ErrArgument m \<Rightarrow> m
      | ErrValidation m \<Rightarrow> m
      | ErrJson m \<Rightarrow> ''json error: '' @ m)"

definition McpError_message :: "McpError \<Rightarrow> string" where
  "McpError_message e = (case e of ErrRpc r \<Rightarrow> rpc_message r | _ \<Rightarrow> McpError_to_string e)"

definition McpError_code :: "McpError \<Rightarrow> int option" where
  "McpError_code e = (case e of ErrRpc r \<Rightarrow> Some (rpc_code r) | _ \<Rightarrow> None)"

definition McpError_to_rpc_error :: "McpError \<Rightarrow> RpcError" where
  "McpError_to_rpc_error e =
     (case e of
        ErrRpc r \<Rightarrow> r
      | ErrArgument m \<Rightarrow> rpc_invalid_params m
      | ErrValidation m \<Rightarrow> rpc_invalid_params m
      | _ \<Rightarrow> rpc_internal_error (McpError_to_string e))"

subsection \<open>Versions\<close>

definition LATEST_PROTOCOL_VERSION :: string where "LATEST_PROTOCOL_VERSION = ''2025-06-18''"

definition SUPPORTED_PROTOCOL_VERSIONS :: "string list" where
  "SUPPORTED_PROTOCOL_VERSIONS = [''2025-03-26'', LATEST_PROTOCOL_VERSION]"

definition SUPPORTED_PROTOCOL_VERSIONS_STRING :: string where
  "SUPPORTED_PROTOCOL_VERSIONS_STRING = ''2025-03-26, 2025-06-18''"

definition is_supported_protocol_version :: "string \<Rightarrow> bool" where
  "is_supported_protocol_version v = List.member SUPPORTED_PROTOCOL_VERSIONS v"

subsection \<open>Progress tokens in parameters\<close>

definition progress_meta :: "json option \<Rightarrow> RequestParamsMeta option" where
  "progress_meta params =
     Option.bind params (\<lambda>p. Option.bind (jget p ''_meta'') (\<lambda>m.
       if is_object m then RequestParamsMeta_from_value m else None))"

definition inject_progress_token :: "json option \<Rightarrow> ProgressToken \<Rightarrow> json option" where
  "inject_progress_token params token =
     (let obj = (case params of Some (JObj m) \<Rightarrow> m | _ \<Rightarrow> []);
          meta = (case im_get obj ''_meta'' of Some (JObj m) \<Rightarrow> m | _ \<Rightarrow> [])
      in Some (JObj (im_insert ''_meta'' (JObj (im_insert ''progressToken'' (ProgressToken_to_value token) meta)) obj)))"

lemma progress_token_read:
  assumes "ProgressToken_ok token"
  shows "progress_meta (inject_progress_token params token) = Some \<lparr> rm_progress_token = Some token \<rparr>"
  using assms
  by (simp add: progress_meta_def inject_progress_token_def Let_def is_object_def RequestParamsMeta_from_value_def struct_get_obj
      opt_dec_def wProgressToken.dec_enc wProgressToken.enc_not_null)

subsection \<open>Classification\<close>

datatype MessageParseError =
    InvalidJson string
  | InvalidMessage RequestId string bool

definition MessageParseError_to_rpc_error :: "MessageParseError \<Rightarrow> RpcError" where
  "MessageParseError_to_rpc_error e =
     (case e of
        InvalidJson m \<Rightarrow> RpcError_new PARSE_ERROR m
      | InvalidMessage _ m _ \<Rightarrow> RpcError_new INVALID_REQUEST m)"

definition to_error_response :: "MessageParseError \<Rightarrow> RpcResponse" where
  "to_error_response e =
     RpcResponse_error (Some (case e of InvalidJson _ \<Rightarrow> IdNumber 0 | InvalidMessage i _ _ \<Rightarrow> i))
       (MessageParseError_to_rpc_error e)"

definition id_from_value :: "json option \<Rightarrow> RequestId" where
  "id_from_value v =
     (case v of
        Some (JStr s) \<Rightarrow> IdString s
      | Some (JInt n) \<Rightarrow> (case as_i64 (JInt n) of Some i \<Rightarrow> IdNumber i | None \<Rightarrow> IdNumber 0)
      | _ \<Rightarrow> IdNumber 0)"

definition invalid_message :: "JsonDict \<Rightarrow> string \<Rightarrow> MessageParseError" where
  "invalid_message obj detail =
     InvalidMessage (id_from_value (im_get obj ''id'')) (''Deserialization Failed: '' @ detail) (im_contains obj ''method'')"

text \<open>An identifier is a string or an integer; both signed and unsigned 64-bit integers count.\<close>

definition valid_id :: "json option \<Rightarrow> bool" where
  "valid_id v = (case v of Some (JStr _) \<Rightarrow> True | Some (JInt _) \<Rightarrow> True | _ \<Rightarrow> False)"

definition error_object :: "JsonDict \<Rightarrow> JsonDict" where
  "error_object obj = (case Option.bind (im_get obj ''error'') as_object of Some e \<Rightarrow> e | None \<Rightarrow> [])"

definition classify_object :: "JsonDict \<Rightarrow> MessageParseError + Message" where
  "classify_object obj =
     (let has_id = im_contains obj ''id'';
          has_method = im_contains obj ''method'';
          has_code = im_contains (error_object obj) ''code'';
          valid = valid_id (im_get obj ''id'');
          rid = id_from_value (im_get obj ''id'');
          meth = Option.bind (im_get obj ''method'') as_str
      in
      if Option.bind (im_get obj ''jsonrpc'') as_str \<noteq> Some JSONRPC_VERSION then
        Inl (invalid_message obj ''jsonrpc must be \"2.0\"'')
      else if has_id \<and> has_method then
        if \<not> valid then Inl (invalid_message obj ''id must be a string or an integer'')
        else (case meth of
                None \<Rightarrow> Inl (invalid_message obj ''method must be a string'')
              | Some m \<Rightarrow> Inr (MRequest (RpcRequest_new rid m (im_get obj ''params''))))
      else if has_id \<and> \<not> has_method \<and> \<not> has_code then
        if \<not> valid then Inl (invalid_message obj ''id must be a string or an integer'')
        else Inr (MResponse \<lparr> rs_jsonrpc = JSONRPC_VERSION, rs_id = Some rid, rs_result = im_get obj ''result'', rs_error = None \<rparr>)
      else if \<not> has_id \<and> has_method then
        (case meth of
           None \<Rightarrow> Inl (invalid_message obj ''method must be a string'')
         | Some m \<Rightarrow> Inr (MNotification (RpcNotification_new m (im_get obj ''params''))))
      else if has_id \<and> has_code then
        if \<not> valid then Inl (invalid_message obj ''id must be a string or an integer'')
        else (case Option.bind (im_get (error_object obj) ''code'') as_i64 of
                None \<Rightarrow> Inl (invalid_message obj ''error.code must be an integer'')
              | Some c \<Rightarrow>
                  (case Option.bind (im_get (error_object obj) ''message'') as_str of
                     None \<Rightarrow> Inl (invalid_message obj ''error.message must be a string'')
                   | Some m \<Rightarrow>
                       Inr (MResponse (RpcResponse_error (Some rid)
                         \<lparr> rpc_code = c, rpc_message = m, rpc_data = im_get (error_object obj) ''data'' \<rparr>))))
      else Inl (invalid_message obj ''No matching message type''))"

definition classify_message :: "json \<Rightarrow> MessageParseError + Message" where
  "classify_message v =
     (case v of
        JObj obj \<Rightarrow> classify_object obj
      | _ \<Rightarrow> Inl (InvalidMessage (IdNumber 0) ''Deserialization Failed: No matching message type'' False))"

definition mcp_parse_message :: "RpcEnv \<Rightarrow> string \<Rightarrow> MessageParseError + Message" where
  "mcp_parse_message env t =
     (case rpc_from_str env t of Inl e \<Rightarrow> Inl (InvalidJson e) | Inr v \<Rightarrow> classify_message v)"

text \<open>A posted body: one message, or a batch that is rejected as a whole when one of its messages is.\<close>

definition parse_payload :: "RpcEnv \<Rightarrow> string \<Rightarrow> MessageParseError + Incoming" where
  "parse_payload env t =
     (case rpc_from_str env t of
        Inl e \<Rightarrow> Inl (InvalidJson e)
      | Inr (JArr items) \<Rightarrow>
          if items = [] then Inl (InvalidMessage (IdNumber 0) ''Deserialization Failed: empty batch'' False)
          else map_sum id Batch (collect_results classify_message items)
      | Inr v \<Rightarrow> map_sum id Single (classify_message v))"

definition serialize_message :: "RpcEnv \<Rightarrow> Message \<Rightarrow> string" where
  "serialize_message env m = rpc_to_string env (Message_to_value m)"

text \<open>What a session sends: 64-bit identifiers and codes, and a response is to a request.\<close>

definition sendable :: "Message \<Rightarrow> bool" where
  "sendable m \<longleftrightarrow>
     (case m of
        MRequest r \<Rightarrow> rq_jsonrpc r = JSONRPC_VERSION \<and> id_ok (rq_id r)
      | MNotification n \<Rightarrow> nt_jsonrpc n = JSONRPC_VERSION
      | MResponse r \<Rightarrow> rs_jsonrpc r = JSONRPC_VERSION \<and> (\<exists>i. rs_id r = Some i \<and> id_ok i) \<and>
          (rs_result r = None \<or> rs_error r = None) \<and> (\<forall>e. rs_error r = Some e \<longrightarrow> is_i64 (rpc_code e)))"

lemma id_value:
  "id_ok i \<Longrightarrow> id_from_value (Some (RequestId_to_value i)) = i" "valid_id (Some (RequestId_to_value i))"
  by (auto simp: id_from_value_def valid_id_def id_ok_def RequestId_to_value_def as_i64_def split: RequestId.splits)

lemma classify_sent: "sendable m \<Longrightarrow> classify_message (Message_to_value m) = Inr m"
proof (cases m)
  case (MRequest r)
  moreover assume "sendable m"
  ultimately show ?thesis
    by (cases r) (simp add: sendable_def classify_message_def Message_to_value_def RpcRequest_to_value_def classify_object_def
        Let_def im_contains_def map_of_some_members id_value RpcRequest_new_def)
next
  case (MNotification n)
  moreover assume "sendable m"
  ultimately show ?thesis
    by (cases n) (simp add: sendable_def classify_message_def Message_to_value_def RpcNotification_to_value_def classify_object_def
        Let_def im_contains_def map_of_some_members RpcNotification_new_def)
next
  case (MResponse r)
  moreover assume "sendable m"
  ultimately show ?thesis
    by (cases r; cases "rs_error r")
      (auto simp: sendable_def classify_message_def Message_to_value_def RpcResponse_to_value_def classify_object_def
        Let_def im_contains_def map_of_some_members id_value RpcResponse_error_def error_object_def RpcError_to_value_def as_i64_def)
qed

subsection \<open>Endpoints\<close>

definition strip_prefix :: "string \<Rightarrow> string \<Rightarrow> string option" where
  "strip_prefix p s = (if starts_with s p then Some (drop (length p) s) else None)"

definition MAX_STREAMABLE_HTTP_URL_LENGTH :: nat where "MAX_STREAMABLE_HTTP_URL_LENGTH = 2048"

definition split_http_endpoint :: "string \<Rightarrow> (string \<times> string option) option" where
  "split_http_endpoint endpoint =
     Option.bind (case strip_prefix ''http://'' endpoint of Some r \<Rightarrow> Some r | None \<Rightarrow> strip_prefix ''https://'' endpoint) (\<lambda>rest.
       let authority = takeWhile (\<lambda>c. c \<noteq> CHR ''/'') rest;
           path = dropWhile (\<lambda>c. c \<noteq> CHR ''/'') rest;
           (host, port) = (case split_once CHR '':'' authority of Some (h, p) \<Rightarrow> (h, Some p) | None \<Rightarrow> (authority, None))
       in
       if list_ex (\<lambda>c. is_space c \<or> c = CHR ''?'' \<or> c = CHR ''#'') authority then None
       else if list_ex (\<lambda>c. is_space c \<or> c = CHR ''#'') path then None
       else if host = [] then None
       else if (case port of Some p \<Rightarrow> p = [] \<or> \<not> list_all (\<lambda>c. digit_val c \<noteq> None) p | None \<Rightarrow> False) then None
       else Some (host, port))"

definition is_valid_streamable_http_endpoint :: "string \<Rightarrow> string + unit" where
  "is_valid_streamable_http_endpoint endpoint =
     (if endpoint = [] then Inl ''endpoint is empty''
      else if List.member endpoint CHR '' '' then Inl ''endpoint contains spaces''
      else if length endpoint > MAX_STREAMABLE_HTTP_URL_LENGTH then Inl ''url length more than max url length''
      else case split_http_endpoint endpoint of
             None \<Rightarrow> Inl ''url is not valid''
           | Some (host, None) \<Rightarrow> Inr ()
           | Some (host, Some port) \<Rightarrow>
               (case parse_i64 port of
                  Some p \<Rightarrow> if 1 \<le> p \<and> p \<le> 65535 then Inr () else Inl ''port out of range''
                | None \<Rightarrow> Inl ''invalid port''))"

end
