(* ===== verification/McpSampling.thy ===== *)
theory McpSampling
  imports McpProtocol
begin

text \<open>
  Validation of tool calls in sampling messages, \<open>sampling_validation.rs\<close>.  The loop looks at the message
  before and the message after each one; what it accepts is the language \<open>dialogue\<close>: plain messages, and
  calls of the assistant that are answered at once, all of them and nothing else.
\<close>

definition MIXED_CONTENT :: string where "MIXED_CONTENT = ''Tool results mixed with other content''"

definition MISSING_RESULT :: string where "MISSING_RESULT = ''Tool result missing in request''"

definition contains_tool_use :: "SamplingMessageContentBlock list \<Rightarrow> bool" where
  "contains_tool_use blocks = list_ex (\<lambda>b. case b of SbToolUse _ \<Rightarrow> True | _ \<Rightarrow> False) blocks"

definition is_tool_result :: "SamplingMessageContentBlock \<Rightarrow> bool" where
  "is_tool_result b = (case b of SbToolResult _ \<Rightarrow> True | _ \<Rightarrow> False)"

definition contains_tool_result :: "SamplingMessageContentBlock list \<Rightarrow> bool" where
  "contains_tool_result blocks = list_ex is_tool_result blocks"

definition tool_use_ids :: "SamplingMessageContentBlock list \<Rightarrow> string set" where
  "tool_use_ids blocks = set (List.map_filter (\<lambda>b. case b of SbToolUse t \<Rightarrow> Some (tu_id t) | _ \<Rightarrow> None) blocks)"

definition tool_result_ids :: "SamplingMessageContentBlock list \<Rightarrow> string set" where
  "tool_result_ids blocks = set (List.map_filter (\<lambda>b. case b of SbToolResult t \<Rightarrow> Some (tt_tool_use_id t) | _ \<Rightarrow> None) blocks)"

definition ensure_only_tool_results :: "SamplingMessageContentBlock list \<Rightarrow> McpError + unit" where
  "ensure_only_tool_results blocks = (if list_all is_tool_result blocks then Inr () else Inl (ErrArgument MIXED_CONTENT))"

definition sampling_error :: "string \<Rightarrow> McpError + unit" where
  "sampling_error msg = Inl (ErrArgument msg)"

definition blocks_of :: "SamplingMessage \<Rightarrow> SamplingMessageContentBlock list" where
  "blocks_of m = as_list (sm_content m)"

text \<open>The two parts of the loop body: the message with its predecessor, and with its successor.\<close>

definition check_results :: "SamplingMessage option \<Rightarrow> SamplingMessage \<Rightarrow> McpError + unit" where
  "check_results prev m =
     (let blocks = blocks_of m in
      if contains_tool_result blocks then
        and_then (ensure_only_tool_results blocks) (\<lambda>_.
          if sm_role m \<noteq> RoleUser then sampling_error MIXED_CONTENT
          else case prev of
                 None \<Rightarrow> sampling_error MISSING_RESULT
               | Some p \<Rightarrow>
                   let use_ids = tool_use_ids (blocks_of p) in
                   if use_ids = {} then sampling_error MISSING_RESULT
                   else if use_ids \<noteq> tool_result_ids blocks then sampling_error MISSING_RESULT
                   else Inr ())
      else Inr ())"

definition check_uses :: "SamplingMessage \<Rightarrow> SamplingMessage option \<Rightarrow> McpError + unit" where
  "check_uses m next_msg =
     (let blocks = blocks_of m in
      if contains_tool_use blocks then
        if sm_role m \<noteq> RoleAssistant then sampling_error MISSING_RESULT
        else case next_msg of
               None \<Rightarrow> sampling_error MISSING_RESULT
             | Some n \<Rightarrow>
                 let next_blocks = blocks_of n in
                 if \<not> contains_tool_result next_blocks then sampling_error MISSING_RESULT
                 else and_then (ensure_only_tool_results next_blocks) (\<lambda>_.
                   if tool_use_ids blocks \<noteq> tool_result_ids next_blocks then sampling_error MISSING_RESULT
                   else Inr ())
      else Inr ())"

definition first_msg :: "SamplingMessage list \<Rightarrow> SamplingMessage option" where
  "first_msg ms = (case ms of [] \<Rightarrow> None | m # _ \<Rightarrow> Some m)"

fun validate_from :: "SamplingMessage option \<Rightarrow> SamplingMessage list \<Rightarrow> McpError + unit" where
  "validate_from prev [] = Inr ()"
| "validate_from prev (m # ms) =
     and_then (check_results prev m) (\<lambda>_. and_then (check_uses m (first_msg ms)) (\<lambda>_. validate_from (Some m) ms))"

definition validate_tool_use_result_messages :: "SamplingMessage list \<Rightarrow> McpError + unit" where
  "validate_tool_use_result_messages messages = validate_from None messages"

subsection \<open>What is accepted\<close>

definition plain_message :: "SamplingMessage \<Rightarrow> bool" where
  "plain_message m \<longleftrightarrow> \<not> contains_tool_use (blocks_of m) \<and> \<not> contains_tool_result (blocks_of m)"

text \<open>An assistant's message that calls tools, and the user's message that answers exactly these calls.\<close>

definition answered_call :: "SamplingMessage \<Rightarrow> SamplingMessage \<Rightarrow> bool" where
  "answered_call a u \<longleftrightarrow>
     sm_role a = RoleAssistant \<and> contains_tool_use (blocks_of a) \<and> \<not> contains_tool_result (blocks_of a) \<and>
     sm_role u = RoleUser \<and> (\<forall>b \<in> set (blocks_of u). is_tool_result b) \<and>
     tool_use_ids (blocks_of a) = tool_result_ids (blocks_of u)"

inductive dialogue :: "SamplingMessage list \<Rightarrow> bool" where
  empty: "dialogue []"
| plain: "plain_message m \<Longrightarrow> dialogue ms \<Longrightarrow> dialogue (m # ms)"
| call: "answered_call a u \<Longrightarrow> dialogue ms \<Longrightarrow> dialogue (a # u # ms)"

inductive_cases dialogue_ConsE: "dialogue (m # ms)"

lemma use_ids_iff: "tool_use_ids bs = {} \<longleftrightarrow> \<not> contains_tool_use bs"
  by (induction bs)
    (auto simp: tool_use_ids_def contains_tool_use_def List.map_filter_simps split: SamplingMessageContentBlock.splits)

lemma result_ids_iff: "tool_result_ids bs = {} \<longleftrightarrow> \<not> contains_tool_result bs"
  by (induction bs)
    (auto simp: tool_result_ids_def contains_tool_result_def is_tool_result_def List.map_filter_simps
      split: SamplingMessageContentBlock.splits)

lemma only_results_no_use: "\<forall>b \<in> set bs. is_tool_result b \<Longrightarrow> \<not> contains_tool_use bs"
  by (auto simp: contains_tool_use_def is_tool_result_def list_ex_iff split: SamplingMessageContentBlock.splits)

lemma check_results_ok:
  "check_results prev m = Inr () \<longleftrightarrow>
     (contains_tool_result (blocks_of m) \<longrightarrow>
        (\<forall>b \<in> set (blocks_of m). is_tool_result b) \<and> sm_role m = RoleUser \<and>
        (\<exists>p. prev = Some p \<and> tool_use_ids (blocks_of p) = tool_result_ids (blocks_of m)))"
  by (auto simp: check_results_def Let_def ensure_only_tool_results_def sampling_error_def list_all_iff result_ids_iff
      split: option.splits)

lemma check_uses_ok:
  "check_uses m n = Inr () \<longleftrightarrow>
     (contains_tool_use (blocks_of m) \<longrightarrow>
        sm_role m = RoleAssistant \<and>
        (\<exists>u. n = Some u \<and> contains_tool_result (blocks_of u) \<and> (\<forall>b \<in> set (blocks_of u). is_tool_result b) \<and>
           tool_use_ids (blocks_of m) = tool_result_ids (blocks_of u)))"
  by (auto simp: check_uses_def Let_def ensure_only_tool_results_def sampling_error_def list_all_iff split: option.splits)

lemma plain_step:
  assumes "plain_message m"
  shows "validate_from prev (m # ms) = validate_from (Some m) ms"
  using assms by (simp add: plain_message_def check_results_def check_uses_def Let_def)

lemma call_step:
  assumes "answered_call a u"
  shows "validate_from prev (a # u # ms) = validate_from (Some u) ms"
proof -
  have "contains_tool_result (blocks_of u)"
    using assms by (metis answered_call_def result_ids_iff use_ids_iff)
  moreover have "\<not> contains_tool_use (blocks_of u)"
    using assms only_results_no_use by (auto simp: answered_call_def)
  ultimately have "check_uses a (Some u) = Inr ()" "check_results prev a = Inr ()" "check_results (Some a) u = Inr ()"
    "check_uses u (first_msg ms) = Inr ()"
    using assms by (auto simp: answered_call_def check_results_ok check_uses_ok)
  then show ?thesis by (simp add: first_msg_def)
qed

text \<open>The predecessor matters only when the next message brings results.\<close>

lemma accepted_dialogue:
  assumes "validate_from prev ms = Inr ()" "\<And>p m. prev = Some p \<Longrightarrow> \<not> contains_tool_use (blocks_of p)"
  shows "dialogue ms"
  using assms
proof (induction "length ms" arbitrary: prev ms rule: less_induct)
  case less
  show ?case
  proof (cases ms)
    case Nil
    then show ?thesis by (simp add: dialogue.empty)
  next
    case (Cons m rest)
    with less.prems(1) have ok: "check_results prev m = Inr ()" "check_uses m (first_msg rest) = Inr ()"
      "validate_from (Some m) rest = Inr ()" by auto
    have nores: "\<not> contains_tool_result (blocks_of m)"
      using ok(1) less.prems(2) by (metis check_results_ok result_ids_iff use_ids_iff)
    show ?thesis
    proof (cases "contains_tool_use (blocks_of m)")
      case False
      have "dialogue rest"
        by (rule less.hyps [OF _ ok(3)]) (use Cons False in auto)
      with False nores Cons show ?thesis by (simp add: dialogue.plain plain_message_def)
    next
      case True
      then obtain u ms' where rest: "rest = u # ms'" and u: "\<forall>b \<in> set (blocks_of u). is_tool_result b"
        "sm_role m = RoleAssistant" "contains_tool_result (blocks_of u)"
        "tool_use_ids (blocks_of m) = tool_result_ids (blocks_of u)"
        using ok(2) by (cases rest) (auto simp: check_uses_ok first_msg_def)
      with ok(3) have "check_results (Some m) u = Inr ()" "validate_from (Some u) ms' = Inr ()" by auto
      moreover from this(2) have "dialogue ms'"
        by (rule less.hyps [rotated]) (use Cons rest u(1) only_results_no_use in auto)
      ultimately show ?thesis
        using True nores u rest Cons by (auto simp: answered_call_def check_results_ok intro: dialogue.call)
    qed
  qed
qed

lemma dialogue_accepted: "dialogue ms \<Longrightarrow> validate_from prev ms = Inr ()"
  by (induction ms arbitrary: prev rule: dialogue.induct) (simp_all add: plain_step call_step del: validate_from.simps(2))

text \<open>
  C27. The validation of sampling messages accepts exactly the dialogues: sequences of messages without tool
  blocks and of pairs in which the assistant calls tools and the user answers at once, with results
  only, the very calls that were made.
\<close>

theorem tool_dialogue_exact: "validate_tool_use_result_messages messages = Inr () \<longleftrightarrow> dialogue messages"
  unfolding validate_tool_use_result_messages_def using accepted_dialogue [of None] dialogue_accepted by auto

end
