(* ===== verification/McpManagers.thy ===== *)
theory McpManagers
  imports McpProtocol
begin

text \<open>
  The registries of an MCP server, \<open>tool_manager.rs\<close>, \<open>prompt_manager.rs\<close> and \<open>resource_manager.rs\<close>: tools,
  prompts, resources and resource templates by name, with cursor pagination.  A handler is code of the
  application: an opaque value \<open>'h\<close> here, and a call is split where the handler is awaited.
\<close>

type_synonym 'a mcp = "McpError + 'a"

subsection \<open>Pages\<close>

text \<open>
  A cursor is the decimal index of the first entry.  The sum of start and page size is of \<open>usize\<close>, which
  wraps at 64 bits in a release build; a range that ends before it starts panics (\<open>None\<close>).
\<close>

definition cursor_start :: "string option \<Rightarrow> nat \<Rightarrow> nat" where
  "cursor_start cursor len =
     min (case Option.bind cursor (\<lambda>c. parse_i64 (trim c)) of
            Some v \<Rightarrow> if v < 0 then 0 else nat v
          | None \<Rightarrow> 0) len"

definition page_range :: "string option \<Rightarrow> nat \<Rightarrow> nat \<Rightarrow> (nat \<times> nat) option" where
  "page_range cursor page_size len =
     (let start = cursor_start cursor len;
          stop = min ((start + page_size) mod 2 ^ 64) len
      in if start \<le> stop then Some (start, stop) else None)"

definition next_page :: "nat \<Rightarrow> nat \<Rightarrow> string option" where
  "next_page stop len = (if stop < len then Some (show_nat stop) else None)"

subsection \<open>Tools\<close>

record 'h ServerTool =
  st_name :: string
  st_handler :: 'h
  st_title :: "string option"
  st_description :: "string option"
  st_input_schema :: "json option"
  st_output_schema :: "json option"
  st_structured_output :: bool
  st_annotations :: "ToolAnnotations option"
  st_icons :: "Icon list option"

definition to_tool :: "'h ServerTool \<Rightarrow> Tool" where
  "to_tool t =
     \<lparr> tl_name = st_name t, tl_title = st_title t, tl_description = st_description t, tl_input_schema = st_input_schema t,
       tl_output_schema = st_output_schema t, tl_annotations = st_annotations t, tl_icons = st_icons t \<rparr>"

record 'h ToolManager =
  tm_overwrite :: bool
  tm_tools :: "(string, 'h ServerTool) imap"
  tm_page_size :: nat

definition ToolManager_new :: "bool \<Rightarrow> nat \<Rightarrow> 'h ToolManager" where
  "ToolManager_new overwrite page_size = \<lparr> tm_overwrite = overwrite, tm_tools = [], tm_page_size = page_size \<rparr>"

definition set_overwrite :: "bool \<Rightarrow> 'h ToolManager \<Rightarrow> 'h ToolManager" where
  "set_overwrite b m = m\<lparr> tm_overwrite := b \<rparr>"

definition set_tools_page_size :: "nat \<Rightarrow> 'h ToolManager \<Rightarrow> 'h ToolManager" where
  "set_tools_page_size n m = m\<lparr> tm_page_size := n \<rparr>"

definition add_tool :: "'h ServerTool \<Rightarrow> 'h ToolManager \<Rightarrow> 'h ToolManager mcp" where
  "add_tool tool m =
     (if im_contains (tm_tools m) (st_name tool) \<and> \<not> tm_overwrite m then
        Inl (ErrState (''Tool '' @ quoted (st_name tool) @ '' already exists''))
      else Inr (m\<lparr> tm_tools := bm_insert (st_name tool) tool (tm_tools m) \<rparr>))"

definition remove_tool :: "string \<Rightarrow> 'h ToolManager \<Rightarrow> 'h ToolManager mcp" where
  "remove_tool name m =
     (if name = [] then Inl (ErrArgument ''Tool name cannot be empty'')
      else if \<not> im_contains (tm_tools m) name then Inl (ErrState (''Tool '' @ quoted name @ '' not found''))
      else Inr (m\<lparr> tm_tools := im_remove name (tm_tools m) \<rparr>))"

definition list_tools :: "string option \<Rightarrow> 'h ToolManager \<Rightarrow> ListToolsResult option" where
  "list_tools cursor m =
     (let names = map fst (tm_tools m) in
      map_option (\<lambda>(start, stop).
        \<lparr> lt_tools = map to_tool (List.map_filter (im_get (tm_tools m)) (take (stop - start) (drop start names))),
          lt_next_cursor = next_page stop (length names), lt_meta = None \<rparr>)
        (page_range cursor (tm_page_size m) (length names)))"

definition call_error :: "string \<Rightarrow> string \<Rightarrow> string \<Rightarrow> McpError" where
  "call_error what name e = ErrValidation (what @ '' validation failed for tool '' @ quoted name @ '': '' @ e)"

text \<open>Before the handler runs: the tool is found and the arguments conform to its input schema.\<close>

definition call_tool_begin :: "SchemaEnv \<Rightarrow> string \<Rightarrow> json \<Rightarrow> 'h ToolManager \<Rightarrow> 'h ServerTool mcp" where
  "call_tool_begin env name arguments m =
     (case im_get (tm_tools m) name of
        None \<Rightarrow> Inl (ErrState (''Tool not found: '' @ name))
      | Some tool \<Rightarrow>
          (case st_input_schema tool of
             None \<Rightarrow> Inr tool
           | Some schema \<Rightarrow>
               (case validate env schema arguments of
                  Inl e \<Rightarrow> Inl (call_error ''Input'' name e)
                | Inr _ \<Rightarrow> Inr tool)))"

text \<open>After it: a failure of the handler is a result, and a structured result conforms to the output schema.\<close>

definition call_tool_end :: "SchemaEnv \<Rightarrow> 'h ServerTool \<Rightarrow> string \<Rightarrow> CallToolResult mcp \<Rightarrow> CallToolResult mcp" where
  "call_tool_end env tool name outcome =
     (let result = (case outcome of Inr r \<Rightarrow> r | Inl e \<Rightarrow> CallToolResult_error (McpError_message e)) in
      case (st_output_schema tool, ct_structured_content result) of
        (Some schema, Some structured) \<Rightarrow>
          if ct_is_error result then Inr result
          else if \<not> is_object structured then
            Inl (call_error ''Output'' name (''structuredContent must be a JSON object for tool '' @ quoted name))
          else (case validate env schema structured of
                  Inl e \<Rightarrow> Inl (call_error ''Output'' name e)
                | Inr _ \<Rightarrow> Inr result)
      | _ \<Rightarrow> Inr result)"

subsection \<open>Prompts\<close>

record 'h PromptManager =
  pr_overwrite :: bool
  pr_prompts :: "(string, PromptInfo \<times> 'h) imap"

definition PromptManager_new :: "bool \<Rightarrow> 'h PromptManager" where
  "PromptManager_new overwrite = \<lparr> pr_overwrite = overwrite, pr_prompts = [] \<rparr>"

definition add_prompt :: "PromptInfo \<times> 'h \<Rightarrow> 'h PromptManager \<Rightarrow> 'h PromptManager mcp" where
  "add_prompt entry m =
     (let name = pi_name (fst entry) in
      if name = [] then Inl (ErrArgument ''Prompt name cannot be empty'')
      else if im_contains (pr_prompts m) name \<and> \<not> pr_overwrite m then
        Inl (ErrState (''Prompt already exists: '' @ name))
      else Inr (m\<lparr> pr_prompts := bm_insert name entry (pr_prompts m) \<rparr>))"

definition remove_prompt :: "string \<Rightarrow> 'h PromptManager \<Rightarrow> 'h PromptManager" where
  "remove_prompt name m = m\<lparr> pr_prompts := im_remove name (pr_prompts m) \<rparr>"

definition list_prompts :: "'h PromptManager \<Rightarrow> ListPromptsResult" where
  "list_prompts m = \<lparr> lp_prompts = map (fst \<circ> snd) (pr_prompts m), lp_next_cursor = None, lp_meta = None \<rparr>"

definition find_prompt :: "string \<Rightarrow> 'h PromptManager \<Rightarrow> 'h mcp" where
  "find_prompt name m =
     (case im_get (pr_prompts m) name of
        Some e \<Rightarrow> Inr (snd e)
      | None \<Rightarrow> Inl (ErrState (''Prompt not found: '' @ name)))"

subsection \<open>Resources\<close>

record 'h ResourceManager =
  ro_overwrite :: bool
  ro_resources :: "(string, ResourceInfo \<times> 'h) imap"
  ro_templates :: "(string, ResourceTemplate) imap"
  ro_page_size :: nat

definition ResourceManager_new :: "bool \<Rightarrow> nat \<Rightarrow> 'h ResourceManager" where
  "ResourceManager_new overwrite page_size =
     \<lparr> ro_overwrite = overwrite, ro_resources = [], ro_templates = [], ro_page_size = page_size \<rparr>"

definition set_resources_page_size :: "nat \<Rightarrow> 'h ResourceManager \<Rightarrow> 'h ResourceManager" where
  "set_resources_page_size n m = m\<lparr> ro_page_size := n \<rparr>"

definition add_resource :: "ResourceInfo \<times> 'h \<Rightarrow> 'h ResourceManager \<Rightarrow> 'h ResourceManager mcp" where
  "add_resource entry m =
     (let uri = ri_uri (fst entry) in
      if uri = [] then Inl (ErrArgument ''Resource URI cannot be empty'')
      else if ri_name (fst entry) = [] then Inl (ErrArgument ''Resource name cannot be empty'')
      else if im_contains (ro_resources m) uri \<and> \<not> ro_overwrite m then
        Inl (ErrState (''Resource '' @ quoted uri @ '' already exists''))
      else Inr (m\<lparr> ro_resources := bm_insert uri entry (ro_resources m) \<rparr>))"

definition remove_resource :: "string \<Rightarrow> 'h ResourceManager \<Rightarrow> 'h ResourceManager mcp" where
  "remove_resource uri m =
     (if uri = [] then Inl (ErrArgument ''Resource URI cannot be empty'')
      else if \<not> im_contains (ro_resources m) uri then Inl (ErrState (''Resource '' @ quoted uri @ '' not found''))
      else Inr (m\<lparr> ro_resources := im_remove uri (ro_resources m) \<rparr>))"

definition add_resource_template :: "ResourceTemplate \<Rightarrow> 'h ResourceManager \<Rightarrow> 'h ResourceManager mcp" where
  "add_resource_template t m =
     (let uri = te_uri_template t in
      if uri = [] then Inl (ErrArgument ''Resource template URI cannot be empty'')
      else if te_name t = [] then Inl (ErrArgument ''Resource template name cannot be empty'')
      else if im_contains (ro_templates m) uri \<and> \<not> ro_overwrite m then
        Inl (ErrState (''Resource template '' @ quoted uri @ '' already exists''))
      else Inr (m\<lparr> ro_templates := bm_insert uri t (ro_templates m) \<rparr>))"

definition remove_resource_template :: "string \<Rightarrow> 'h ResourceManager \<Rightarrow> 'h ResourceManager mcp" where
  "remove_resource_template uri m =
     (if uri = [] then Inl (ErrArgument ''Resource template URI cannot be empty'')
      else if \<not> im_contains (ro_templates m) uri then Inl (ErrState (''Resource template '' @ quoted uri @ '' not found''))
      else Inr (m\<lparr> ro_templates := im_remove uri (ro_templates m) \<rparr>))"

definition list_resources :: "string option \<Rightarrow> 'h ResourceManager \<Rightarrow> ListResourcesResult option" where
  "list_resources cursor m =
     (let uris = map fst (ro_resources m) in
      map_option (\<lambda>(start, stop).
        \<lparr> ls_resources = map fst (List.map_filter (im_get (ro_resources m)) (take (stop - start) (drop start uris))),
          ls_next_cursor = next_page stop (length uris), ls_meta = None \<rparr>)
        (page_range cursor (ro_page_size m) (length uris)))"

definition find_resource :: "string \<Rightarrow> 'h ResourceManager \<Rightarrow> 'h mcp" where
  "find_resource uri m =
     (case im_get (ro_resources m) uri of
        Some e \<Rightarrow> Inr (snd e)
      | None \<Rightarrow> Inl (ErrState (''Resource not found:'' @ uri)))"

definition list_resource_templates :: "'h ResourceManager \<Rightarrow> ListResourceTemplatesResult" where
  "list_resource_templates m =
     \<lparr> rx_resource_templates = map snd (ro_templates m), rx_next_cursor = None, rx_meta = None \<rparr>"

text \<open>Subscribing and unsubscribing only look the resource up.\<close>

definition subscribe_resource :: "string \<Rightarrow> 'h ResourceManager \<Rightarrow> unit mcp" where
  "subscribe_resource uri m =
     (if im_contains (ro_resources m) uri then Inr () else Inl (ErrState (''Resource not found:'' @ uri)))"

definition unsubscribe_resource :: "string \<Rightarrow> 'h ResourceManager \<Rightarrow> unit mcp" where
  "unsubscribe_resource uri m =
     (if im_contains (ro_resources m) uri then Inr () else Inl (ErrState (''Resource not found:'' @ uri)))"

subsection \<open>What a registry promises\<close>

text \<open>
  Entries are kept by key, sorted.  An addition is refused for a bad entry, or for a known key when nothing
  may be overwritten; otherwise the entry is there and nothing else changes.
\<close>

locale registry =
  fixes entries :: "'s \<Rightarrow> (string, 'e) imap" and overwrite :: "'s \<Rightarrow> bool" and key :: "'e \<Rightarrow> string"
    and bad :: "'e \<Rightarrow> bool" and add :: "'e \<Rightarrow> 's \<Rightarrow> 's mcp" and remove :: "string \<Rightarrow> 's \<Rightarrow> 's mcp"
  assumes add_refused: "(\<exists>err. add e s = Inl err) \<longleftrightarrow> bad e \<or> im_contains (entries s) (key e) \<and> \<not> overwrite s"
    and add_stored: "add e s = Inr s' \<Longrightarrow> entries s' = bm_insert (key e) e (entries s) \<and> overwrite s' = overwrite s"
    and remove_stored: "remove k s = Inr s' \<Longrightarrow> entries s' = im_remove k (entries s) \<and> overwrite s' = overwrite s"
begin

definition sorted_keys :: "'s \<Rightarrow> bool" where
  "sorted_keys s \<longleftrightarrow> sorted_wrt (<) (map fst (entries s)) \<and> (\<forall>(k, e) \<in> set (entries s). k = key e)"

lemma add_sorted: "sorted_keys s \<Longrightarrow> add e s = Inr s' \<Longrightarrow> sorted_keys s'"
proof -
  assume s: "sorted_keys s" and "add e s = Inr s'"
  then have e: "entries s' = bm_insert (key e) e (entries s)" by (simp add: add_stored)
  have "p \<in> set (bm_insert k v m) \<Longrightarrow> p = (k, v) \<or> p \<in> set m" for p k and v :: 'e and m
    by (induction k v m rule: bm_insert.induct) (auto split: if_splits)
  with s e show ?thesis by (fastforce simp: sorted_keys_def intro: bm_insert_sorted)
qed

lemma remove_sorted: "sorted_keys s \<Longrightarrow> remove k s = Inr s' \<Longrightarrow> sorted_keys s'"
proof -
  assume s: "sorted_keys s" and "remove k s = Inr s'"
  then have e: "entries s' = im_remove k (entries s)" by (simp add: remove_stored)
  have "map fst (im_remove k m) = filter (\<lambda>x. x \<noteq> k) (map fst m)" for m :: "(string, 'e) imap"
    by (simp add: im_remove_def filter_map comp_def)
  with s e show ?thesis by (auto simp: sorted_keys_def intro: sorted_wrt_filter)
qed

lemma add_get: "add e s = Inr s' \<Longrightarrow> im_get (entries s') k = (if k = key e then Some e else im_get (entries s) k)"
  by (simp add: add_stored)

lemma first_wins: "\<not> overwrite s \<Longrightarrow> add e s = Inr s' \<Longrightarrow> im_get (entries s) k = Some e' \<Longrightarrow> im_get (entries s') k = Some e'"
  using add_refused [of e s] by (auto simp: add_stored im_contains_def)

end

interpretation tool_reg: registry tm_tools tm_overwrite st_name "\<lambda>_. False" add_tool remove_tool
  by unfold_locales (auto simp: add_tool_def remove_tool_def split: if_splits)

interpretation prompt_reg: registry pr_prompts pr_overwrite "pi_name \<circ> fst" "\<lambda>e. pi_name (fst e) = []" add_prompt
    "\<lambda>k m. Inr (remove_prompt k m)"
  by unfold_locales (auto simp: add_prompt_def remove_prompt_def Let_def split: if_splits)

interpretation resource_reg: registry ro_resources ro_overwrite "ri_uri \<circ> fst"
    "\<lambda>e. ri_uri (fst e) = [] \<or> ri_name (fst e) = []" add_resource remove_resource
  by unfold_locales (auto simp: add_resource_def remove_resource_def Let_def split: if_splits)

interpretation template_reg: registry ro_templates ro_overwrite te_uri_template
    "\<lambda>t. te_uri_template t = [] \<or> te_name t = []" add_resource_template remove_resource_template
  by unfold_locales (auto simp: add_resource_template_def remove_resource_template_def Let_def split: if_splits)

subsection \<open>Following the cursors lists everything once\<close>

text \<open>A client that asks for pages until there is no next cursor, with at most \<open>n\<close> requests.\<close>

fun collect_pages :: "nat \<Rightarrow> (string option \<Rightarrow> ('a list \<times> string option) option) \<Rightarrow> string option \<Rightarrow> 'a list option" where
  "collect_pages 0 f c = None"
| "collect_pages (Suc n) f c =
     (case f c of
        None \<Rightarrow> None
      | Some (xs, None) \<Rightarrow> Some xs
      | Some (xs, Some c') \<Rightarrow> map_option ((@) xs) (collect_pages n f (Some c')))"

definition page_of :: "'a list \<Rightarrow> nat \<Rightarrow> string option \<Rightarrow> ('a list \<times> string option) option" where
  "page_of xs p c =
     map_option (\<lambda>(start, stop). (take (stop - start) (drop start xs), next_page stop (length xs))) (page_range c p (length xs))"

text \<open>The number of requests: the pages of the list, at least one.\<close>

definition page_count :: "nat \<Rightarrow> nat \<Rightarrow> nat" where
  "page_count len p = max 1 ((len + p - 1) div p)"

lemma show_nat_no_space: "c \<in> set (show_nat n) \<Longrightarrow> \<not> is_space c"
  using digit_val_in_show_nat [of c n] by (auto simp: is_space_def digit_val_def Let_def)

lemma trim_show_nat [simp]: "trim (show_nat n) = show_nat n"
proof -
  have "dropWhile is_space s = s" if "\<And>c. c \<in> set s \<Longrightarrow> \<not> is_space c" for s
    using that by (cases s) auto
  from this [of "show_nat n"] this [of "rev (show_nat n)"] show ?thesis
    by (simp add: trim_def show_nat_no_space)
qed

lemma parse_i64_show_nat: "int n \<le> i64_max \<Longrightarrow> parse_i64 (show_nat n) = Some (int n)"
proof -
  assume n: "int n \<le> i64_max"
  obtain c cs where s: "show_nat n = c # cs" by (cases "show_nat n") auto
  have "c \<noteq> CHR ''-''" "c \<noteq> CHR ''+''"
    using not_digit_notin_show_nat [of "CHR ''-''" n] not_digit_notin_show_nat [of "CHR ''+''" n] s
    by (auto simp: digit_val_def Let_def)
  with s n show ?thesis using parse_digits_show_nat [of n] by (simp add: parse_i64_def Let_def)
qed

lemma page_of_start:
  assumes "k \<le> length xs" "int (length xs) \<le> i64_max" "length xs + p < 2 ^ 64"
  shows "page_of xs p (if k = 0 then None else Some (show_nat k)) =
      Some (take p (drop k xs), if k + p < length xs then Some (show_nat (k + p)) else None)" (is "?a")
    and "page_of xs p (Some (show_nat k)) =
      Some (take p (drop k xs), if k + p < length xs then Some (show_nat (k + p)) else None)" (is "?b")
proof -
  have c: "cursor_start (Some (show_nat k)) (length xs) = k" "cursor_start None (length xs) = 0"
    using assms parse_i64_show_nat [of k] by (simp_all add: cursor_start_def min_absorb1)
  have m: "(k + p) mod 2 ^ 64 = k + p" "p mod 2 ^ 64 = p" using assms by simp_all
  have t: "take (min (k + p) (length xs) - k) (drop k xs) = take p (drop k xs)" for k
    by (cases "k + p \<le> length xs") (simp_all add: min_def)
  show ?a ?b using c m assms(1) t [of k] t [of 0] by (auto simp: page_of_def page_range_def next_page_def Let_def)
qed

lemma collect_from:
  assumes "0 < p" "int (length xs) \<le> i64_max" "length xs + p < 2 ^ 64"
  shows "k \<le> length xs \<Longrightarrow> k < length xs \<or> xs = [] \<Longrightarrow>
    collect_pages n (page_of xs p) (Some (show_nat k)) =
      (if page_count (length xs - k) p \<le> n then Some (drop k xs) else None)"
proof (induction n arbitrary: k)
  case 0
  then show ?case by (simp add: page_count_def)
next
  case (Suc n)
  note page = page_of_start(2) [OF Suc.prems(1) assms(2,3)]
  show ?case
  proof (cases "k + p < length xs")
    case True
    then have "page_count (length xs - k) p = Suc (page_count (length xs - (k + p)) p)"
    proof -
      define d where "d = length xs - (k + p)"
      have "length xs - k = d + p" "0 < d" using True by (auto simp: d_def)
      moreover have "(d + p + p - 1) div p = Suc ((d + p - 1) div p)"
        using assms(1) \<open>0 < d\<close> div_add_self2 [of p "d + p - 1"] by (simp add: algebra_simps)
      moreover have "1 \<le> (d + p - 1) div p" using assms(1) \<open>0 < d\<close> by (simp add: Suc_leI div_greater_zero_iff)
      ultimately show ?thesis unfolding page_count_def d_def [symmetric] by simp
    qed
    moreover have "drop k xs = take p (drop k xs) @ drop (k + p) xs"
      using append_take_drop_id [of p "drop k xs"] by (simp add: add.commute)
    ultimately show ?thesis using True Suc.IH [of "k + p"] by (simp add: page)
  next
    case False
    then have "length xs - k + p - 1 < 2 * p" using assms(1) by simp
    then have "(length xs - k + p - 1) div p < 2" by (rule less_mult_imp_div_less)
    then have "page_count (length xs - k) p = 1" by (simp add: page_count_def)
    with False show ?thesis by (simp add: page)
  qed
qed

lemma collect_all:
  assumes "0 < p" "int (length xs) \<le> i64_max" "length xs + p < 2 ^ 64"
  shows "collect_pages n (page_of xs p) None = (if page_count (length xs) p \<le> n then Some xs else None)"
proof -
  have "page_of xs p None = page_of xs p (Some (show_nat 0))"
    using page_of_start [of 0 xs p] assms by simp
  then have "collect_pages n (page_of xs p) None = collect_pages n (page_of xs p) (Some (show_nat 0))"
    by (cases n) simp_all
  then show ?thesis using collect_from [OF assms, of 0 n] by (cases xs) simp_all
qed

lemma entries_of_keys: "im_wf m \<Longrightarrow> List.map_filter (im_get m) (map fst (take i (drop k m))) = map snd (take i (drop k m))"
proof -
  assume "im_wf m"
  then have "im_get m (fst p) = Some (snd p)" if "p \<in> set m" for p
    using that by simp
  moreover have "set (take i (drop k m)) \<subseteq> set m" by (meson set_drop_subset set_take_subset subset_trans)
  ultimately have "im_get m (fst p) = Some (snd p)" if "p \<in> set (take i (drop k m))" for p
    using that by blast
  then show ?thesis
    by (induction "take i (drop k m)" arbitrary: i k) (auto simp: List.map_filter_def filter_map comp_def cong: filter_cong map_cong)
qed

definition tools_page :: "'h ToolManager \<Rightarrow> string option \<Rightarrow> (Tool list \<times> string option) option" where
  "tools_page m c = map_option (\<lambda>r. (lt_tools r, lt_next_cursor r)) (list_tools c m)"

definition resources_page :: "'h ResourceManager \<Rightarrow> string option \<Rightarrow> (ResourceInfo list \<times> string option) option" where
  "resources_page m c = map_option (\<lambda>r. (ls_resources r, ls_next_cursor r)) (list_resources c m)"

lemma tools_page_of: "im_wf (tm_tools m) \<Longrightarrow> tools_page m = page_of (map (to_tool \<circ> snd) (tm_tools m)) (tm_page_size m)"
  by (auto simp: fun_eq_iff tools_page_def list_tools_def page_of_def Let_def entries_of_keys option.map_comp comp_def
      take_map drop_map split_def)

lemma resources_page_of:
  "im_wf (ro_resources m) \<Longrightarrow> resources_page m = page_of (map (fst \<circ> snd) (ro_resources m)) (ro_page_size m)"
  by (auto simp: fun_eq_iff resources_page_def list_resources_def page_of_def Let_def entries_of_keys option.map_comp comp_def
      take_map drop_map split_def)


definition demo_tool :: "string \<Rightarrow> nat ServerTool" where
  "demo_tool name =
     \<lparr> st_name = name, st_handler = 0, st_title = None, st_description = None, st_input_schema = None,
       st_output_schema = None, st_structured_output = False, st_annotations = None, st_icons = None \<rparr>"

definition demo_tools :: "nat ToolManager" where
  "demo_tools = (ToolManager_new True 2)\<lparr> tm_tools := [(''a'', demo_tool ''a''), (''b'', demo_tool ''b''), (''c'', demo_tool ''c'')] \<rparr>"


subsection \<open>Page sizes at the ends\<close>

text \<open>A page size of zero, which no configuration check excludes, yields empty pages and never ends.\<close>

lemma zero_page_endless:
  assumes "im_wf (tm_tools m)" "tm_tools m \<noteq> []" "tm_page_size m = 0"
  shows "collect_pages n (tools_page m) None = None"
proof -
  have "parse_i64 (show_nat 0) = Some 0" using parse_i64_show_nat [of 0] by simp
  then have "tools_page m c = Some ([], Some (show_nat 0))" if "c = None \<or> c = Some (show_nat 0)" for c
    using assms that by (auto simp: tools_page_of page_of_def page_range_def cursor_start_def next_page_def Let_def)
  then have "collect_pages n (tools_page m) c = None" if "c = None \<or> c = Some (show_nat 0)" for c
    using that by (induction n arbitrary: c) simp_all
  then show ?thesis by simp
qed

text \<open>The largest page size, a natural way to ask for one page, panics on the cursor of any later entry.\<close>

lemma largest_page_panics: "list_tools (Some ''2'') (demo_tools\<lparr> tm_page_size := 2 ^ 64 - 1 \<rparr>) = None"
proof -
  have "cursor_start (Some ''2'') 3 = 2" by code_simp
  then have "page_range (Some ''2'') (2 ^ 64 - 1) 3 = None" by (simp add: page_range_def Let_def)
  then show ?thesis by (simp add: list_tools_def demo_tools_def ToolManager_new_def Let_def numeral_3_eq_3)
qed

end
