(* ===== verification/McpPending.thy ===== *)
theory McpPending
  imports McpProtocol
begin

text \<open>
  The table of outstanding requests that both MCP sessions build on, \<open>session.rs\<close>.  A call of
  \<open>send_request_raw\<close> is a \<open>PendingCall\<close>: it registers, sends its message, then waits on a one-shot channel.
  \<open>pl_slot\<close> is the value in the channel; the sender lives in the table, under the identifier of the request,
  as the number of the call.  Instants are numbers of milliseconds and callbacks opaque values \<open>'cb\<close>.
\<close>

definition PROGRESS_GRACE :: nat where "PROGRESS_GRACE = 5000"

type_synonym PendingResult = "RpcError + json"

datatype CallPhase = CallSending | CallAwaiting | CallDone "McpError + json"

record PendingCall =
  pl_id :: RequestId
  pl_phase :: CallPhase
  pl_slot :: "PendingResult option"

record 'cb PendingRequests =
  pq_next_id :: int
  pq_map :: "(RequestId, nat) imap"
  pq_progress :: "(RequestId, 'cb) imap"
  pq_recent :: "(nat \<times> RequestId \<times> 'cb) list"
  pq_calls :: "PendingCall list"

definition PendingRequests_new :: "'cb PendingRequests" where
  "PendingRequests_new = \<lparr> pq_next_id = 1, pq_map = [], pq_progress = [], pq_recent = [], pq_calls = [] \<rparr>"

definition retire_progress :: "nat \<Rightarrow> RequestId \<Rightarrow> 'cb PendingRequests \<Rightarrow> 'cb PendingRequests" where
  "retire_progress now i p =
     (let recent = filter (\<lambda>(t, _, _). now - t < PROGRESS_GRACE) (pq_recent p) in
      p\<lparr> pq_progress := im_remove i (pq_progress p),
         pq_recent := recent @ (case im_get (pq_progress p) i of Some cb \<Rightarrow> [(now, i, cb)] | None \<Rightarrow> []) \<rparr>)"

text \<open>\<open>AtomicI64::fetch_add\<close> wraps.\<close>

definition pending_next_id :: "'cb PendingRequests \<Rightarrow> RequestId \<times> 'cb PendingRequests" where
  "pending_next_id p = (IdNumber (pq_next_id p), p\<lparr> pq_next_id := wrap64 (pq_next_id p + 1) \<rparr>)"

definition pending_register :: "'cb option \<Rightarrow> 'cb PendingRequests \<Rightarrow> RequestId \<times> 'cb PendingRequests" where
  "pending_register progress p0 =
     (let (i, p) = pending_next_id p0 in
      (i, p\<lparr> pq_progress := (case progress of Some cb \<Rightarrow> im_insert i cb (pq_progress p) | None \<Rightarrow> pq_progress p),
             pq_map := im_insert i (length (pq_calls p)) (pq_map p),
             pq_calls := pq_calls p @ [\<lparr> pl_id = i, pl_phase = CallSending, pl_slot = None \<rparr>] \<rparr>))"

text \<open>\<open>tx.send(..).is_ok()\<close>: the receiver is alive until its caller has returned.\<close>

definition is_done :: "PendingCall \<Rightarrow> bool" where
  "is_done c = (case pl_phase c of CallDone _ \<Rightarrow> True | _ \<Rightarrow> False)"

definition tx_send :: "nat \<Rightarrow> PendingResult \<Rightarrow> 'cb PendingRequests \<Rightarrow> bool \<times> 'cb PendingRequests" where
  "tx_send c r p =
     (if is_done (pq_calls p ! c) then (False, p)
      else (True, p\<lparr> pq_calls := (pq_calls p)[c := (pq_calls p ! c)\<lparr> pl_slot := Some r \<rparr>] \<rparr>))"

definition pending_complete :: "nat \<Rightarrow> RequestId \<Rightarrow> PendingResult \<Rightarrow> 'cb PendingRequests \<Rightarrow> bool \<times> 'cb PendingRequests" where
  "pending_complete now i result p0 =
     (let p = retire_progress now i p0 in
      case im_get (pq_map p) i of
        Some c \<Rightarrow> tx_send c result (p\<lparr> pq_map := im_remove i (pq_map p) \<rparr>)
      | None \<Rightarrow> (False, p))"

definition pending_remove :: "nat \<Rightarrow> RequestId \<Rightarrow> 'cb PendingRequests \<Rightarrow> 'cb PendingRequests" where
  "pending_remove now i p0 = (let p = retire_progress now i p0 in p\<lparr> pq_map := im_remove i (pq_map p) \<rparr>)"

definition progress_callback :: "nat \<Rightarrow> ProgressToken \<Rightarrow> 'cb PendingRequests \<Rightarrow> 'cb option" where
  "progress_callback now token p =
     (let i = to_request_id token in
      case im_get (pq_progress p) i of
        Some cb \<Rightarrow> Some cb
      | None \<Rightarrow>
          map_option (\<lambda>(_, _, cb). cb)
            (List.find (\<lambda>(t, rid, _). rid = i \<and> now - t < PROGRESS_GRACE) (rev (pq_recent p))))"

definition pending_len :: "'cb PendingRequests \<Rightarrow> nat" where "pending_len p = length (pq_map p)"

definition pending_is_empty :: "'cb PendingRequests \<Rightarrow> bool" where "pending_is_empty p = (pq_map p = [])"

definition progress_len :: "'cb PendingRequests \<Rightarrow> nat" where "progress_len p = length (pq_progress p)"

definition fail_all :: "RpcError \<Rightarrow> 'cb PendingRequests \<Rightarrow> 'cb PendingRequests" where
  "fail_all e p =
     fold (\<lambda>(_, c) q. snd (tx_send c (Inl e) q)) (pq_map p) (p\<lparr> pq_map := [], pq_progress := [], pq_recent := [] \<rparr>)"

definition finish_call :: "nat \<Rightarrow> McpError + json \<Rightarrow> 'cb PendingRequests \<Rightarrow> 'cb PendingRequests" where
  "finish_call c r p = p\<lparr> pq_calls := (pq_calls p)[c := (pq_calls p ! c)\<lparr> pl_phase := CallDone r \<rparr>] \<rparr>"

text \<open>
  \<open>await_response\<close>, polled when the channel or the timer (\<open>timed_out\<close>) wakes it; the channel is looked at
  first.  A caller whose sender is gone has no value to wait for.
\<close>

definition sender_alive :: "nat \<Rightarrow> 'cb PendingRequests \<Rightarrow> bool" where
  "sender_alive c p = list_ex (\<lambda>(_, d). d = c) (pq_map p)"

definition await_response :: "nat \<Rightarrow> nat \<Rightarrow> nat \<Rightarrow> bool \<Rightarrow> 'cb PendingRequests \<Rightarrow> 'cb PendingRequests" where
  "await_response now c timeout timed_out p =
     (let i = pl_id (pq_calls p ! c) in
      case pl_slot (pq_calls p ! c) of
        Some (Inr v) \<Rightarrow> finish_call c (Inr v) p
      | Some (Inl e) \<Rightarrow> finish_call c (Inl (ErrRpc e)) p
      | None \<Rightarrow>
          if \<not> sender_alive c p then finish_call c (Inl ErrClosed) (pending_remove now i p)
          else if timed_out then finish_call c (Inl (ErrTimeout timeout)) (pending_remove now i p)
          else p)"

subsection \<open>Runs\<close>

text \<open>The message has been sent: the caller starts to wait.\<close>

definition call_sent :: "nat \<Rightarrow> 'cb PendingRequests \<Rightarrow> 'cb PendingRequests" where
  "call_sent c p = p\<lparr> pq_calls := (pq_calls p)[c := (pq_calls p ! c)\<lparr> pl_phase := CallAwaiting \<rparr>] \<rparr>"

text \<open>The message could not be sent: the request is forgotten, and the caller has the error.\<close>

definition send_failed :: "nat \<Rightarrow> nat \<Rightarrow> McpError \<Rightarrow> 'cb PendingRequests \<Rightarrow> 'cb PendingRequests" where
  "send_failed now c e p =
     finish_call c (Inl (ErrRpc (rpc_internal_error (''Transport error: '' @ McpError_to_string e))))
       (pending_remove now (pl_id (pq_calls p ! c)) p)"

datatype 'cb pending_event =
    PeCall "'cb option"
  | PeSent nat
  | PeSendFailed nat nat McpError
  | PeResponse nat RequestId PendingResult
  | PePoll nat nat nat bool
  | PeFailAll RpcError

definition in_phase :: "CallPhase \<Rightarrow> nat \<Rightarrow> 'cb PendingRequests \<Rightarrow> bool" where
  "in_phase ph c p = (c < length (pq_calls p) \<and> pl_phase (pq_calls p ! c) = ph)"

fun pending_step :: "'cb pending_event \<Rightarrow> 'cb PendingRequests \<Rightarrow> 'cb PendingRequests" where
  "pending_step (PeCall cb) p = snd (pending_register cb p)"
| "pending_step (PeSent c) p = (if in_phase CallSending c p then call_sent c p else p)"
| "pending_step (PeSendFailed now c e) p = (if in_phase CallSending c p then send_failed now c e p else p)"
| "pending_step (PeResponse now i r) p = snd (pending_complete now i r p)"
| "pending_step (PePoll now c timeout timed_out) p =
     (if in_phase CallAwaiting c p then await_response now c timeout timed_out p else p)"
| "pending_step (PeFailAll e) p = fail_all e p"

definition pending_run :: "'cb pending_event list \<Rightarrow> 'cb PendingRequests" where
  "pending_run es = fold pending_step es PendingRequests_new"

subsection \<open>The invariant\<close>

text \<open>
  The table holds exactly the calls that have neither returned nor been answered, each under its identifier;
  progress callbacks are only held for those.
\<close>

definition outstanding :: "PendingCall \<Rightarrow> bool" where
  "outstanding c \<longleftrightarrow> \<not> is_done c \<and> pl_slot c = None"

text \<open>The number of identifiers.\<close>

definition ID_SPACE :: nat where "ID_SPACE = 2 ^ 64"

definition call_id :: "nat \<Rightarrow> RequestId" where "call_id c = IdNumber (wrap64 (int c + 1))"

definition pending_inv :: "'cb PendingRequests \<Rightarrow> bool" where
  "pending_inv p \<longleftrightarrow>
     im_wf (pq_map p) \<and> pq_next_id p = wrap64 (int (length (pq_calls p)) + 1) \<and>
     (\<forall>c < length (pq_calls p). pl_id (pq_calls p ! c) = call_id c) \<and>
     (\<forall>i c. im_get (pq_map p) i = Some c \<longleftrightarrow> c < length (pq_calls p) \<and> outstanding (pq_calls p ! c) \<and> i = call_id c) \<and>
     (\<forall>c < length (pq_calls p). pl_phase (pq_calls p ! c) \<noteq> CallDone (Inl ErrClosed)) \<and>
     fst ` set (pq_progress p) \<subseteq> fst ` set (pq_map p)"

lemma pending_invI:
  assumes "im_wf (pq_map p)" "pq_next_id p = wrap64 (int (length (pq_calls p)) + 1)"
    "\<And>c. c < length (pq_calls p) \<Longrightarrow> pl_id (pq_calls p ! c) = call_id c"
    "\<And>i c. im_get (pq_map p) i = Some c \<longleftrightarrow> c < length (pq_calls p) \<and> outstanding (pq_calls p ! c) \<and> i = call_id c"
    "\<And>c. c < length (pq_calls p) \<Longrightarrow> pl_phase (pq_calls p ! c) \<noteq> CallDone (Inl ErrClosed)"
    "fst ` set (pq_progress p) \<subseteq> fst ` set (pq_map p)"
  shows "pending_inv p"
  unfolding pending_inv_def using assms by blast

lemma pending_invD:
  assumes "pending_inv p"
  shows "im_wf (pq_map p)" "pq_next_id p = wrap64 (int (length (pq_calls p)) + 1)"
    "c < length (pq_calls p) \<Longrightarrow> pl_id (pq_calls p ! c) = call_id c"
    "im_get (pq_map p) i = Some c \<longleftrightarrow> c < length (pq_calls p) \<and> outstanding (pq_calls p ! c) \<and> i = call_id c"
    "c < length (pq_calls p) \<Longrightarrow> pl_phase (pq_calls p ! c) \<noteq> CallDone (Inl ErrClosed)"
    "fst ` set (pq_progress p) \<subseteq> fst ` set (pq_map p)"
  using assms unfolding pending_inv_def by blast+

lemma keys_remove: "fst ` set (im_remove k m) = fst ` set m - {k}"
  by force

lemma wrap64_inj: "wrap64 x = wrap64 y \<longleftrightarrow> x mod 2 ^ 64 = y mod 2 ^ 64"
proof -
  have "wrap64 x = wrap64 y \<longleftrightarrow> (x + 2 ^ 63) mod 2 ^ 64 = (y + 2 ^ 63) mod 2 ^ 64" by (simp add: wrap64_def)
  then show ?thesis by (simp add: mod_eq_dvd_iff)
qed

lemma wrap64_step: "wrap64 (wrap64 x + 1) = wrap64 (x + 1)"
  by (simp add: wrap64_inj) (simp add: wrap64_def mod_simps add.commute)

lemma call_id_inj: "c < ID_SPACE \<Longrightarrow> d < ID_SPACE \<Longrightarrow> call_id c = call_id d \<longleftrightarrow> c = d"
proof -
  assume b: "c < ID_SPACE" "d < ID_SPACE"
  have "call_id c = call_id d \<longleftrightarrow> int c mod 2 ^ 64 = int d mod 2 ^ 64"
    by (simp add: call_id_def wrap64_inj mod_eq_dvd_iff)
  with b show ?thesis by (simp add: ID_SPACE_def flip: of_nat_power)
qed

lemma pending_new_inv: "pending_inv PendingRequests_new"
  by (simp add: pending_inv_def PendingRequests_new_def wrap64_def)

lemma retire_simps [simp]:
  "pq_map (retire_progress now i p) = pq_map p" "pq_calls (retire_progress now i p) = pq_calls p"
  "pq_next_id (retire_progress now i p) = pq_next_id p"
  "pq_progress (retire_progress now i p) = im_remove i (pq_progress p)"
  by (simp_all add: retire_progress_def Let_def)

lemma remove_simps [simp]:
  "pq_map (pending_remove now i p) = im_remove i (pq_map p)" "pq_calls (pending_remove now i p) = pq_calls p"
  "pq_next_id (pending_remove now i p) = pq_next_id p"
  "pq_progress (pending_remove now i p) = im_remove i (pq_progress p)"
  by (simp_all add: pending_remove_def Let_def)

lemma pending_register_inv:
  assumes inv: "pending_inv p" and few: "length (pq_calls p) < ID_SPACE"
  shows "pending_inv (snd (pending_register cb p))"
proof -
  let ?n = "length (pq_calls p)"
  have i: "fst (pending_register cb p) = call_id ?n"
    using pending_invD(2) [OF inv] by (simp add: pending_register_def pending_next_id_def call_id_def)
  have new: "call_id c \<noteq> call_id ?n" if "c < ?n" for c
    using that few call_id_inj [of c ?n] by simp
  have old: "im_get (pq_map p) i = Some c \<longleftrightarrow> c < ?n \<and> outstanding (pq_calls p ! c) \<and> i = call_id c" for i c
    by (rule pending_invD(4) [OF inv])
  let ?q = "snd (pending_register cb p)"
  have q: "pq_map ?q = im_insert (call_id ?n) ?n (pq_map p)"
    "pq_calls ?q = pq_calls p @ [\<lparr> pl_id = call_id ?n, pl_phase = CallSending, pl_slot = None \<rparr>]"
    "pq_next_id ?q = wrap64 (int ?n + 1 + 1)" "fst ` set (pq_progress ?q) \<subseteq> insert (call_id ?n) (fst ` set (pq_progress p))"
    using pending_invD(2) [OF inv] i
    by (auto simp: pending_register_def pending_next_id_def Let_def wrap64_step split: option.split)
  show ?thesis
  proof (rule pending_invI)
    show "im_get (pq_map ?q) i = Some c \<longleftrightarrow> c < length (pq_calls ?q) \<and> outstanding (pq_calls ?q ! c) \<and> i = call_id c" for i c
      using new [of c] by (auto simp: q old nth_append outstanding_def is_done_def less_Suc_eq)
    show "fst ` set (pq_progress ?q) \<subseteq> fst ` set (pq_map ?q)"
      using q(4) pending_invD(6) [OF inv] unfolding q(1) keys_im_insert by blast
  qed (use pending_invD(1,3,5) [OF inv] in \<open>auto simp: q nth_append less_Suc_eq\<close>)
qed

text \<open>A call that returns, or is answered, leaves the table and nothing else changes.\<close>

lemma pending_close_inv:
  assumes inv: "pending_inv p" and few: "length (pq_calls p) \<le> ID_SPACE" and c: "c < length (pq_calls p)"
    and q: "pq_map q = im_remove (call_id c) (pq_map p)" "pq_calls q = (pq_calls p)[c := x]" "pq_next_id q = pq_next_id p"
      "pq_progress q = im_remove (call_id c) (pq_progress p)"
    and x: "pl_id x = call_id c" "\<not> outstanding x" "pl_phase x \<noteq> CallDone (Inl ErrClosed)"
  shows "pending_inv q"
proof -
  have same: "call_id d = call_id c \<longleftrightarrow> d = c" if "d < length (pq_calls p)" for d
    by (rule call_id_inj [OF less_le_trans [OF that few] less_le_trans [OF c few]])
  have old: "im_get (pq_map p) i = Some d \<longleftrightarrow> d < length (pq_calls p) \<and> outstanding (pq_calls p ! d) \<and> i = call_id d" for i d
    by (rule pending_invD(4) [OF inv])
  show ?thesis
  proof (rule pending_invI)
    show "im_get (pq_map q) i = Some d \<longleftrightarrow> d < length (pq_calls q) \<and> outstanding (pq_calls q ! d) \<and> i = call_id d" for i d
      unfolding q im_get_remove fun_upd_apply using same [of d] x(2) old [of i d] c by (cases "d = c") auto
    show "fst ` set (pq_progress q) \<subseteq> fst ` set (pq_map q)"
      using pending_invD(6) [OF inv] unfolding q keys_remove by blast
  qed (use pending_invD(1,2,3,5) [OF inv] c x in \<open>simp_all add: q nth_list_update\<close>)
qed

lemma pending_phase_inv:
  assumes inv: "pending_inv p" and c: "c < length (pq_calls p)" and x: "pl_id x = call_id c" "pl_phase x \<noteq> CallDone (Inl ErrClosed)"
    "outstanding x \<longleftrightarrow> outstanding (pq_calls p ! c)"
  shows "pending_inv (p\<lparr> pq_calls := (pq_calls p)[c := x] \<rparr>)" (is "pending_inv ?q")
proof -
  have q: "pq_map ?q = pq_map p" "pq_calls ?q = (pq_calls p)[c := x]" "pq_next_id ?q = pq_next_id p" "pq_progress ?q = pq_progress p"
    by simp_all
  show ?thesis
  proof (rule pending_invI)
    show "im_get (pq_map ?q) i = Some d \<longleftrightarrow> d < length (pq_calls ?q) \<and> outstanding (pq_calls ?q ! d) \<and> i = call_id d" for i d
      unfolding q pending_invD(4) [OF inv] using x(3) c by (auto simp: nth_list_update)
    show "fst ` set (pq_progress ?q) \<subseteq> fst ` set (pq_map ?q)" unfolding q by (rule pending_invD(6) [OF inv])
  qed (use pending_invD(1,2,3,5) [OF inv] c x in \<open>simp_all add: nth_list_update\<close>)
qed

lemma pending_progress_inv:
  assumes inv: "pending_inv p"
  shows "pending_inv (retire_progress now i p)"
proof (rule pending_invI)
  show "fst ` set (pq_progress (retire_progress now i p)) \<subseteq> fst ` set (pq_map (retire_progress now i p))"
    using pending_invD(6) [OF inv] unfolding retire_simps keys_remove by blast
qed (use pending_invD(1-5) [OF inv] in \<open>unfold retire_simps, blast+\<close>)

lemma pending_complete_inv:
  assumes "pending_inv p" "length (pq_calls p) \<le> ID_SPACE"
  shows "pending_inv (snd (pending_complete now i r p))"
proof (cases "im_get (pq_map p) i")
  case None
  then show ?thesis using assms by (simp add: pending_complete_def pending_progress_inv)
next
  case (Some c)
  then have "c < length (pq_calls p)" "outstanding (pq_calls p ! c)" "i = call_id c"
    unfolding pending_invD(4) [OF assms(1)] by blast+
  moreover from this have "pl_id (pq_calls p ! c) = call_id c" by (simp add: pending_invD(3) [OF assms(1)])
  ultimately show ?thesis
    using Some pending_invD(5) [OF assms(1)] pending_close_inv [OF assms, of c _ "(pq_calls p ! c)\<lparr> pl_slot := Some r \<rparr>"]
    by (simp add: pending_complete_def tx_send_def outstanding_def)
qed

lemma finish_removed_inv:
  assumes "pending_inv p" "length (pq_calls p) \<le> ID_SPACE" "c < length (pq_calls p)" "r \<noteq> Inl ErrClosed"
  shows "pending_inv (finish_call c r (pending_remove now (pl_id (pq_calls p ! c)) p))"
proof -
  have "pl_id (pq_calls p ! c) = call_id c" by (rule pending_invD(3) [OF assms(1,3)])
  then show ?thesis
    using assms(4) pending_close_inv [OF assms(1-3), of _ "(pq_calls p ! c)\<lparr> pl_phase := CallDone r \<rparr>"]
    by (simp add: finish_call_def outstanding_def is_done_def)
qed

lemma alive_iff:
  assumes "pending_inv p" "c < length (pq_calls p)"
  shows "sender_alive c p \<longleftrightarrow> outstanding (pq_calls p ! c)"
proof -
  have "sender_alive c p \<longleftrightarrow> (\<exists>i. im_get (pq_map p) i = Some c)"
    unfolding sender_alive_def list_ex_iff
    using im_in_set_get [OF pending_invD(1) [OF assms(1)]] im_get_in_set [of "pq_map p"] by blast
  with assms(2) show ?thesis unfolding pending_invD(4) [OF assms(1)] by blast
qed

lemma await_inv:
  assumes inv: "pending_inv p" and few: "length (pq_calls p) \<le> ID_SPACE" and c: "in_phase CallAwaiting c p"
  shows "pending_inv (await_response now c timeout timed_out p)"
proof (cases "pl_slot (pq_calls p ! c)")
  case None
  with c have "outstanding (pq_calls p ! c)" by (simp add: in_phase_def outstanding_def is_done_def)
  with None assms show ?thesis
    by (auto simp: await_response_def alive_iff in_phase_def intro: finish_removed_inv)
next
  case (Some r)
  have "pending_inv (finish_call c v p)" if "v \<noteq> Inl ErrClosed" for v
    using inv c Some that pending_invD(3) [OF inv]
    by (auto simp: finish_call_def in_phase_def outstanding_def intro!: pending_phase_inv)
  with Some show ?thesis by (auto simp: await_response_def split: sum.split)
qed

lemma fold_tx_send:
  "let q = fold (\<lambda>(_, c) q. snd (tx_send c r q)) ps p in
     pq_map q = pq_map p \<and> pq_progress q = pq_progress p \<and> pq_next_id q = pq_next_id p \<and>
     length (pq_calls q) = length (pq_calls p) \<and>
     (\<forall>c < length (pq_calls p). pq_calls q ! c =
        (if c \<in> snd ` set ps \<and> \<not> is_done (pq_calls p ! c) then (pq_calls p ! c)\<lparr> pl_slot := Some r \<rparr> else pq_calls p ! c))"
proof (induction ps arbitrary: p)
  case (Cons x ps)
  obtain i d where x: "x = (i, d)" by (cases x)
  have s: "pq_map (snd (tx_send d r p)) = pq_map p" "pq_progress (snd (tx_send d r p)) = pq_progress p"
    "pq_next_id (snd (tx_send d r p)) = pq_next_id p" "length (pq_calls (snd (tx_send d r p))) = length (pq_calls p)"
    by (simp_all add: tx_send_def)
  have n: "pq_calls (snd (tx_send d r p)) ! c =
      (if c = d \<and> \<not> is_done (pq_calls p ! c) then (pq_calls p ! c)\<lparr> pl_slot := Some r \<rparr> else pq_calls p ! c)"
    if "c < length (pq_calls p)" for c
    using that by (auto simp: tx_send_def nth_list_update)
  have k: "is_done (c\<lparr> pl_slot := s \<rparr>) = is_done c" for c s by (simp add: is_done_def)
  from Cons.IH [of "snd (tx_send d r p)"] show ?case by (auto simp: x Let_def s n k)
qed simp

lemma fail_all_inv:
  assumes inv: "pending_inv p"
  shows "pending_inv (fail_all e p)"
proof -
  have m: "c \<in> snd ` set (pq_map p)" if "c < length (pq_calls p)" "outstanding (pq_calls p ! c)" for c
    using that im_get_in_set [of "pq_map p" "call_id c" c] pending_invD(4) [OF inv] by (force simp: image_iff)
  have k: "is_done (c\<lparr> pl_slot := s \<rparr>) = is_done c" for c s by (simp add: is_done_def)
  let ?q = "fail_all e p"
  have q: "pq_map ?q = []" "pq_progress ?q = []" "pq_next_id ?q = pq_next_id p" "length (pq_calls ?q) = length (pq_calls p)"
    and n: "\<And>c. c < length (pq_calls p) \<Longrightarrow> pq_calls ?q ! c =
      (if c \<in> snd ` set (pq_map p) \<and> \<not> is_done (pq_calls p ! c) then (pq_calls p ! c)\<lparr> pl_slot := Some (Inl e) \<rparr> else pq_calls p ! c)"
    using fold_tx_send [of "Inl e" "pq_map p" "p\<lparr> pq_map := [], pq_progress := [], pq_recent := [] \<rparr>"]
    by (simp_all add: fail_all_def Let_def)
  have "\<not> outstanding (pq_calls ?q ! c)" if "c < length (pq_calls p)" for c
    using m [OF that] n [OF that] by (cases "outstanding (pq_calls p ! c)") (auto simp: outstanding_def k)
  then show ?thesis
    by (intro pending_invI) (use pending_invD(2,3,5) [OF inv] n in \<open>auto simp: q\<close>)
qed

lemma calls_step:
  "length (pq_calls (pending_step e p)) =
     length (pq_calls p) + (case e of PeCall _ \<Rightarrow> 1 | _ \<Rightarrow> 0)"
proof (cases e)
  case (PeFailAll x)
  then show ?thesis
    using fold_tx_send [of "Inl x" "pq_map p" "p\<lparr> pq_map := [], pq_progress := [], pq_recent := [] \<rparr>"]
    by (simp add: fail_all_def Let_def)
qed (auto simp: pending_register_def pending_next_id_def Let_def call_sent_def send_failed_def finish_call_def
      pending_complete_def tx_send_def await_response_def split: option.split sum.split)

lemma pending_step_inv:
  assumes inv: "pending_inv p" and few: "length (pq_calls (pending_step e p)) \<le> ID_SPACE"
  shows "pending_inv (pending_step e p)"
proof (cases e)
  case (PeCall cb)
  with few inv pending_register_inv [of p cb] calls_step [of e p] show ?thesis by simp
next
  case (PeSent c)
  with inv pending_invD(3) [OF inv] show ?thesis
    by (auto simp: call_sent_def in_phase_def outstanding_def is_done_def intro!: pending_phase_inv)
next
  case (PeSendFailed now c x)
  with inv few calls_step [of e p] show ?thesis by (auto simp: send_failed_def in_phase_def intro!: finish_removed_inv)
next
  case (PeResponse now i r)
  with inv few calls_step [of e p] show ?thesis by (simp add: pending_complete_inv)
next
  case (PePoll now c timeout timed_out)
  with inv few calls_step [of e p] show ?thesis by (auto intro: await_inv)
next
  case (PeFailAll x)
  with inv show ?thesis by (simp add: fail_all_inv)
qed

lemma pending_run_inv: "length (pq_calls (pending_run es)) \<le> ID_SPACE \<Longrightarrow> pending_inv (pending_run es)"
proof (induction es rule: rev_induct)
  case Nil
  then show ?case by (simp add: pending_run_def pending_new_inv)
next
  case (snoc e es)
  have r: "pending_run (es @ [e]) = pending_step e (pending_run es)" by (simp add: pending_run_def)
  with snoc.prems calls_step [of e "pending_run es"] have "length (pq_calls (pending_run es)) \<le> ID_SPACE" by simp
  with snoc r show ?case by (auto intro: pending_step_inv)
qed

lemma pending_count:
  assumes inv: "pending_inv p" and few: "length (pq_calls p) \<le> ID_SPACE"
  shows "pending_len p = length (filter outstanding (pq_calls p))"
proof -
  let ?S = "{c. c < length (pq_calls p) \<and> outstanding (pq_calls p ! c)}"
  have "fst ` set (pq_map p) = call_id ` ?S"
    using im_in_set_get [OF pending_invD(1) [OF inv]] im_get_in_set [of "pq_map p"] pending_invD(4) [OF inv]
    by (fastforce simp: image_iff)
  moreover have "inj_on call_id ?S"
    using call_id_inj few by (auto intro!: inj_onI)
  moreover have "card (fst ` set (pq_map p)) = pending_len p"
    using pending_invD(1) [OF inv] distinct_card [of "map fst (pq_map p)"] by (simp add: pending_len_def)
  ultimately show ?thesis by (simp add: card_image length_filter_conv_card)
qed

definition outcome_of :: "PendingResult \<Rightarrow> McpError + json" where
  "outcome_of r = map_sum ErrRpc id r"

lemma answered:
  assumes inv: "pending_inv p" and c: "c < length (pq_calls p)" "outstanding (pq_calls p ! c)"
  shows "pq_calls (pending_step (PeResponse now (call_id c) r) p) = (pq_calls p)[c := (pq_calls p ! c)\<lparr> pl_slot := Some r \<rparr>]"
proof -
  have "im_get (pq_map p) (call_id c) = Some c" using c unfolding pending_invD(4) [OF inv] by blast
  with c show ?thesis by (simp add: pending_complete_def tx_send_def outstanding_def)
qed

lemma polled:
  assumes inv: "pending_inv p" and c: "in_phase CallAwaiting c p"
  shows "pq_calls (pending_step (PePoll now c timeout True) p) =
    (pq_calls p)[c := (pq_calls p ! c)\<lparr> pl_phase := CallDone
       (case pl_slot (pq_calls p ! c) of Some r \<Rightarrow> outcome_of r | None \<Rightarrow> Inl (ErrTimeout timeout)) \<rparr>]"
  using assms alive_iff [of p c]
  by (auto simp: await_response_def finish_call_def outcome_of_def in_phase_def outstanding_def is_done_def
      split: option.split sum.split)

text \<open>
  C24. Both sides of an MCP connection match responses to callers through the table of outstanding requests.  In
  every run of calls, responses, failed sends, polls, timeouts and disconnections with at most \<open>2 ^ 64\<close> calls
  (the identifiers are 64-bit and wrap), the table holds exactly the calls that have neither returned nor been
  answered, so nothing leaks and no caller is left without a sender (none ends as closed).  A response under
  the identifier of such a call reaches that call and no other, and a caller whose time is up returns the
  response it was sent, if any, and otherwise the timeout, which no later response changes.
\<close>

theorem mcp_pending_exact:
  assumes "length (pq_calls (pending_run es)) \<le> ID_SPACE" "c < length (pq_calls (pending_run es))"
  defines "p \<equiv> pending_run es"
  shows "(im_get (pq_map p) (call_id c) = Some c \<longleftrightarrow> outstanding (pq_calls p ! c)) \<and>
    pending_len p = length (filter outstanding (pq_calls p)) \<and>
    fst ` set (pq_progress p) \<subseteq> fst ` set (pq_map p) \<and>
    pl_phase (pq_calls p ! c) \<noteq> CallDone (Inl ErrClosed) \<and>
    (if outstanding (pq_calls p ! c) then
       pq_calls (pending_step (PeResponse now (call_id c) r) p) =
         (pq_calls p)[c := (pq_calls p ! c)\<lparr> pl_slot := Some r \<rparr>]
     else pq_calls (pending_step (PeResponse now (call_id c) r) p) = pq_calls p) \<and>
    (if pl_phase (pq_calls p ! c) = CallAwaiting then
       pq_calls (pending_step (PePoll now c timeout True) p) =
         (pq_calls p)[c := (pq_calls p ! c)\<lparr> pl_phase := CallDone
            (case pl_slot (pq_calls p ! c) of Some r \<Rightarrow> outcome_of r | None \<Rightarrow> Inl (ErrTimeout timeout)) \<rparr>]
     else pq_calls (pending_step (PePoll now c timeout True) p) = pq_calls p)"
proof -
  have inv: "pending_inv p" and few: "length (pq_calls p) \<le> ID_SPACE" and c: "c < length (pq_calls p)"
    using assms pending_run_inv by (auto simp: p_def)
  have get: "im_get (pq_map p) i = Some d \<longleftrightarrow> d < length (pq_calls p) \<and> outstanding (pq_calls p ! d) \<and> i = call_id d" for i d
    by (rule pending_invD(4) [OF inv])
  have late: "im_get (pq_map p) (call_id c) = None" if "\<not> outstanding (pq_calls p ! c)"
  proof (rule ccontr)
    assume "im_get (pq_map p) (call_id c) \<noteq> None"
    then obtain d where "d < length (pq_calls p)" "outstanding (pq_calls p ! d)" "call_id c = call_id d" using get by auto
    with that c few call_id_inj [of c d] show False by auto
  qed
  show ?thesis
    using get [of "call_id c" c] c pending_count [OF inv few] answered [OF inv c] polled [OF inv] late
      pending_invD(5,6) [OF inv]
    by (simp add: in_phase_def pending_complete_def)
qed

definition pending_demo :: "nat pending_event list" where
  "pending_demo = [PeCall (Some 7), PeCall None, PeSent 0, PeSent 1, PeResponse 10 (IdNumber 2) (Inr (JBool True)),
     PePoll 20 1 30000 False]"

text \<open>Two calls, the second answered first; the first then times out.\<close>

theorem mcp_pending_exact_witness:
  "map pl_phase (pq_calls (pending_run pending_demo)) = [CallAwaiting, CallDone (Inr (JBool True))] \<and>
   map pl_phase (pq_calls (pending_step (PePoll 30000 0 30000 True) (pending_run pending_demo))) =
     [CallDone (Inl (ErrTimeout 30000)), CallDone (Inr (JBool True))]"
proof -
  have p: "pq_calls (pending_run pending_demo) =
      [\<lparr> pl_id = IdNumber 1, pl_phase = CallAwaiting, pl_slot = None \<rparr>,
       \<lparr> pl_id = IdNumber 2, pl_phase = CallDone (Inr (JBool True)), pl_slot = Some (Inr (JBool True)) \<rparr>]"
    by (simp add: pending_demo_def pending_run_def PendingRequests_new_def pending_register_def pending_next_id_def wrap64_def
        in_phase_def call_sent_def pending_complete_def retire_progress_def tx_send_def is_done_def await_response_def finish_call_def
        im_insert_def im_remove_def)
  from mcp_pending_exact [of pending_demo 0 30000 _ 30000] p show ?thesis by (simp add: ID_SPACE_def)
qed

end
