(* ===== verification/McpAuth.thy ===== *)
theory McpAuth
  imports McpProtocol
begin

text \<open>
  Authentication hooks of the MCP SDK, \<open>auth.rs\<close>: the bearer token a client sends, the authenticator that
  reads it back, the static token table and the authorizer on scopes.  Header names are lower case.  Scopes
  are separated by ASCII white space; a slice of a header inside a character panics (\<open>None\<close>).
\<close>

type_synonym HeaderMap = "(string, string) imap"

definition AUTHORIZATION :: string where "AUTHORIZATION = ''authorization''"

subsection \<open>The client side\<close>

definition BearerTokenProvider_apply :: "string \<Rightarrow> HeaderMap \<Rightarrow> HeaderMap" where
  "BearerTokenProvider_apply token headers =
     (if token = [] then headers
      else if CHR 0x0D \<in> set token \<or> CHR 0x0A \<in> set token then headers
      else im_insert AUTHORIZATION (''Bearer '' @ token) headers)"

subsection \<open>The server side\<close>

record McpAuthContext =
  ma_client_id :: "string option"
  ma_scopes :: "string option"

record AuthenticationResult =
  ar_authenticated :: bool
  ar_context :: "McpAuthContext option"
  ar_error_description :: "string option"

definition auth_failure :: "string \<Rightarrow> AuthenticationResult" where
  "auth_failure description =
     \<lparr> ar_authenticated = False, ar_context = None, ar_error_description = Some description \<rparr>"

definition NoAuth_authenticate :: "HeaderMap \<Rightarrow> AuthenticationResult option" where
  "NoAuth_authenticate headers =
     Some \<lparr> ar_authenticated = True, ar_context = Some \<lparr> ma_client_id = None, ma_scopes = None \<rparr>, ar_error_description = None \<rparr>"

definition ascii_lower :: "char \<Rightarrow> char" where
  "ascii_lower c = (if CHR ''A'' \<le> c \<and> c \<le> CHR ''Z'' then char_of (of_char c + 32 :: nat) else c)"

definition eq_ignore_ascii_case :: "string \<Rightarrow> string \<Rightarrow> bool" where
  "eq_ignore_ascii_case a b = (map ascii_lower a = map ascii_lower b)"

text \<open>\<open>&value[..n]\<close>: a panic unless the cut is at the start of a character.\<close>

definition slice_to :: "string \<Rightarrow> nat \<Rightarrow> string option" where
  "slice_to s n = (if n < length s \<and> is_cont (s ! n) then None else Some (take n s))"

definition bearer_prefix :: string where "bearer_prefix = ''bearer ''"

definition Bearer_authenticate ::
    "(string \<Rightarrow> AuthenticationResult) option \<Rightarrow> HeaderMap \<Rightarrow> AuthenticationResult option" where
  "Bearer_authenticate verifier headers =
     (case verifier of
        None \<Rightarrow> Some (auth_failure ''Token verifier not configured'')
      | Some verify \<Rightarrow>
          (case im_get headers AUTHORIZATION of
             None \<Rightarrow> Some (auth_failure ''Missing Authorization header'')
           | Some v \<Rightarrow>
               if length v < length bearer_prefix then
                 Some (auth_failure ''Authorization header must use Bearer scheme'')
               else map_option (\<lambda>scheme.
                 if \<not> eq_ignore_ascii_case scheme bearer_prefix then
                   auth_failure ''Authorization header must use Bearer scheme''
                 else
                   let token = dropWhile (\<lambda>c. c = CHR '' '' \<or> c = CHR 0x09) (drop (length bearer_prefix) v) in
                   if token = [] then auth_failure ''Bearer token is empty'' else verify token)
                 (slice_to v (length bearer_prefix))))"

subsection \<open>Tokens and scopes\<close>

definition split_scopes :: "string \<Rightarrow> string set" where
  "split_scopes scopes =
     set (filter (\<lambda>s. s \<noteq> []) (split_on CHR '' '' (map (\<lambda>c. if is_space c then CHR '' '' else c) scopes)))"

definition required_scopes_of :: "string \<Rightarrow> McpError + string set" where
  "required_scopes_of scopes =
     (let parsed = split_scopes scopes in
      if parsed = {} then Inl (ErrArgument ''requiredScopes must not be empty'') else Inr parsed)"

definition Scope_authorize :: "string set \<Rightarrow> AuthenticationResult \<Rightarrow> bool" where
  "Scope_authorize required r =
     (if \<not> ar_authenticated r then False
      else case ar_context r of
             None \<Rightarrow> False
           | Some ctx \<Rightarrow>
               (case ma_scopes ctx of
                  None \<Rightarrow> False
                | Some scopes \<Rightarrow>
                    let provided = split_scopes scopes in
                    if provided = {} then False else required \<subseteq> provided))"

type_synonym TokenTable = "(string, string) imap"

definition add_token :: "string \<Rightarrow> string \<Rightarrow> TokenTable \<Rightarrow> TokenTable" where
  "add_token token scopes tokens = im_insert token scopes tokens"

definition remove_token :: "string \<Rightarrow> TokenTable \<Rightarrow> TokenTable" where
  "remove_token token tokens = im_remove token tokens"

definition SimpleTokenVerifier_verify :: "TokenTable \<Rightarrow> string \<Rightarrow> AuthenticationResult" where
  "SimpleTokenVerifier_verify tokens token =
     (if token = [] then auth_failure ''Token is empty''
      else case im_get tokens token of
             None \<Rightarrow> auth_failure ''Invalid token''
           | Some scopes \<Rightarrow>
               \<lparr> ar_authenticated = True,
                 ar_context = Some \<lparr> ma_client_id = Some (''client-'' @ token), ma_scopes = Some scopes \<rparr>,
                 ar_error_description = None \<rparr>)"

subsection \<open>What is accepted\<close>

text \<open>The token a header value carries.\<close>

definition bearer_token :: "string \<Rightarrow> string option" where
  "bearer_token v =
     (if length bearer_prefix \<le> length v \<and> map ascii_lower (take (length bearer_prefix) v) = bearer_prefix then
        let token = dropWhile (\<lambda>c. c = CHR '' '' \<or> c = CHR 0x09) (drop (length bearer_prefix) v) in
        if token = [] then None else Some token
      else None)"

lemma lower_prefix: "map ascii_lower bearer_prefix = bearer_prefix" "map ascii_lower ''Bearer '' = bearer_prefix"
  by code_simp+

lemma bearer_exact:
  assumes "Bearer_authenticate (Some verify) headers = Some r"
  shows "ar_authenticated r \<longleftrightarrow>
    (\<exists>v token. im_get headers AUTHORIZATION = Some v \<and> bearer_token v = Some token \<and> r = verify token \<and> ar_authenticated r)"
proof (cases "im_get headers AUTHORIZATION")
  case None
  with assms show ?thesis by (auto simp: Bearer_authenticate_def auth_failure_def)
next
  case (Some v)
  have r: "r = (case bearer_token v of
       Some token \<Rightarrow> verify token
     | None \<Rightarrow> auth_failure
         (if length bearer_prefix \<le> length v \<and> map ascii_lower (take (length bearer_prefix) v) = bearer_prefix
          then ''Bearer token is empty'' else ''Authorization header must use Bearer scheme''))"
    using assms Some
    by (auto simp: Bearer_authenticate_def bearer_token_def eq_ignore_ascii_case_def lower_prefix slice_to_def Let_def
        simp del: length_dropWhile_le split: if_splits)
  show ?thesis
    by (cases "bearer_token v") (simp_all add: r Some auth_failure_def)
qed

text \<open>A token that a client attaches is the token the server verifies.\<close>

lemma provider_read:
  assumes "token \<noteq> []" "CHR 0x0D \<notin> set token" "CHR 0x0A \<notin> set token"
    "hd token \<noteq> CHR '' ''" "hd token \<noteq> CHR 0x09" "\<not> is_cont (hd token)"
  shows "Bearer_authenticate (Some verify) (BearerTokenProvider_apply token headers) = Some (verify token)"
proof -
  obtain c cs where t: "token = c # cs" using assms(1) by (cases token) auto
  have "take (length bearer_prefix) (''Bearer '' @ token) = ''Bearer ''" "drop (length bearer_prefix) (''Bearer '' @ token) = token"
    "length bearer_prefix \<le> length (''Bearer '' @ token)" "(''Bearer '' @ token) ! length bearer_prefix = c"
    by (simp_all add: bearer_prefix_def t)
  moreover have "eq_ignore_ascii_case ''Bearer '' bearer_prefix" by (simp only: eq_ignore_ascii_case_def lower_prefix)
  moreover have "im_get (BearerTokenProvider_apply token headers) AUTHORIZATION = Some (''Bearer '' @ token)"
    using assms by (simp add: BearerTokenProvider_apply_def)
  ultimately show ?thesis
    using assms by (simp add: Bearer_authenticate_def slice_to_def t del: append.simps)
qed

end
