(* ===== verification/McpTransport.thy ===== *)
theory McpTransport
  imports McpAuth Sse
begin

text \<open>
  The HTTP side of an MCP server: \<open>transport/mod.rs\<close> (requests, replies, response sinks, request contexts) and
  \<open>transport/streamable_http_server.rs\<close>.  Sinks and GET streams are shared by reference in the code; here
  they live in a heap, \<open>McpHeap\<close>, and a reference is an index.  What a receiver gets from a sink is in the
  sink: the JSON reply (\<open>sk_reply\<close>) or the frames, where \<open>None\<close> ends the stream; \<open>sk_gone\<close> and \<open>gs_gone\<close> say that
  the receiver has been dropped.
\<close>

subsection \<open>Requests and replies\<close>

record HttpRequest =
  hq_method :: string
  hq_url :: string
  hq_headers :: HeaderMap
  hq_body :: string

definition header :: "HttpRequest \<Rightarrow> string \<Rightarrow> string option" where
  "header r name = im_get (hq_headers r) name"

definition header_or :: "HttpRequest \<Rightarrow> string \<Rightarrow> string \<Rightarrow> string" where
  "header_or r name d = (case header r name of Some v \<Rightarrow> v | None \<Rightarrow> d)"

record HttpResponse =
  hr_status :: nat
  hr_headers :: "(string \<times> string) list"
  hr_body :: string

definition HttpResponse_new :: "nat \<Rightarrow> HttpResponse" where
  "HttpResponse_new status = \<lparr> hr_status = status, hr_headers = [], hr_body = [] \<rparr>"

definition MCP_SESSION_ID :: string where "MCP_SESSION_ID = ''mcp-session-id''"
definition MCP_PROTOCOL_VERSION :: string where "MCP_PROTOCOL_VERSION = ''mcp-protocol-version''"
definition CONTENT_TYPE :: string where "CONTENT_TYPE = ''content-type''"
definition CONTENT_TYPE_JSON :: string where "CONTENT_TYPE_JSON = ''application/json''"
definition CONTENT_TYPE_SSE :: string where "CONTENT_TYPE_SSE = ''text/event-stream''"
definition CONTENT_TYPE_TEXT_PLAIN :: string where "CONTENT_TYPE_TEXT_PLAIN = ''text/plain''"

type_synonym SseFrame = "string option"

text \<open>A streamed body is read from a sink or from a GET stream.\<close>

datatype StreamBody = SinkBody nat | GetBody nat

datatype HttpReply =
    Full HttpResponse
  | Deferred nat
  | Stream nat "(string \<times> string) list" StreamBody

subsection \<open>Sinks\<close>

record McpSink =
  sk_json :: bool
  sk_sender :: bool
  sk_collected :: "json list"
  sk_batch :: bool
  sk_headers :: "(string \<times> string) list"
  sk_expected :: nat
  sk_gone :: bool
  sk_reply :: "HttpResponse option"
  sk_frames :: "SseFrame list"

record GetStream =
  gs_frames :: "SseFrame list"
  gs_gone :: bool

record McpHeap =
  hp_sinks :: "McpSink list"
  hp_streams :: "GetStream list"

definition ResponseSink_json :: "nat \<Rightarrow> bool \<Rightarrow> (string \<times> string) list \<Rightarrow> McpSink" where
  "ResponseSink_json expected batch headers =
     \<lparr> sk_json = True, sk_sender = True, sk_collected = [], sk_batch = batch, sk_headers = headers, sk_expected = expected,
       sk_gone = False, sk_reply = None, sk_frames = [] \<rparr>"

definition ResponseSink_sse :: "nat \<Rightarrow> McpSink" where
  "ResponseSink_sse expected =
     \<lparr> sk_json = False, sk_sender = False, sk_collected = [], sk_batch = False, sk_headers = [], sk_expected = expected,
       sk_gone = False, sk_reply = None, sk_frames = [] \<rparr>"

text \<open>\<open>AtomicUsize::fetch_sub\<close> wraps; the answer is about the value before.\<close>

definition response_delivered :: "McpSink \<Rightarrow> bool \<times> McpSink" where
  "response_delivered s = (sk_expected s \<le> 1, s\<lparr> sk_expected := (sk_expected s + (2 ^ 64 - 1)) mod 2 ^ 64 \<rparr>)"

definition send_frame :: "string \<Rightarrow> McpSink \<Rightarrow> (McpError + unit) \<times> McpSink" where
  "send_frame bytes s =
     (if sk_json s then (Inl (ErrState ''cannot stream to a JSON response sink''), s)
      else if sk_gone s then (Inl (ErrTransport ''SSE stream is closed''), s)
      else (Inr (), s\<lparr> sk_frames := sk_frames s @ [Some bytes] \<rparr>))"

definition finish_sink :: "McpSink \<Rightarrow> McpSink" where
  "finish_sink s = (if sk_json s \<or> sk_gone s then s else s\<lparr> sk_frames := sk_frames s @ [None] \<rparr>)"

definition deliver_json :: "RpcEnv \<Rightarrow> json \<Rightarrow> McpSink \<Rightarrow> (McpError + unit) \<times> McpSink" where
  "deliver_json env v s0 =
     (if \<not> sk_json s0 then (Inl (ErrState ''cannot deliver JSON to an SSE sink''), s0)
      else
        let (complete, s) = response_delivered (s0\<lparr> sk_collected := sk_collected s0 @ [v] \<rparr>) in
        if \<not> complete then (Inr (), s)
        else
          let items = sk_collected s;
              body = (if sk_batch s then JArr items else case items of x # _ \<Rightarrow> x | [] \<Rightarrow> JNull);
              response = \<lparr> hr_status = 200, hr_headers = sk_headers s, hr_body = rpc_to_string env body \<rparr>;
              s' = s\<lparr> sk_collected := [] \<rparr>
          in
          if \<not> sk_sender s' then (Inr (), s')
          else if sk_gone s' then (Inl (ErrTransport ''HTTP response receiver is gone''), s'\<lparr> sk_sender := False \<rparr>)
          else (Inr (), s'\<lparr> sk_sender := False, sk_reply := Some response \<rparr>))"

definition on_sink :: "(McpSink \<Rightarrow> 'a \<times> McpSink) \<Rightarrow> nat \<Rightarrow> McpHeap \<Rightarrow> 'a \<times> McpHeap" where
  "on_sink f i h = (let (r, s) = f (hp_sinks h ! i) in (r, h\<lparr> hp_sinks := (hp_sinks h)[i := s] \<rparr>))"

subsection \<open>Contexts\<close>

record RequestContext =
  cx_connection_id :: int
  cx_session_id :: string
  cx_method :: string
  cx_is_get_stream :: bool
  cx_is_cancelled :: bool
  cx_sink :: "nat option"

definition server_initiated :: "string \<Rightarrow> string \<Rightarrow> RequestContext" where
  "server_initiated session_id meth =
     \<lparr> cx_connection_id = 0, cx_session_id = session_id, cx_method = meth, cx_is_get_stream = False,
       cx_is_cancelled = False, cx_sink = None \<rparr>"

subsection \<open>The transport of one session\<close>

record HttpTransport =
  ht_session_id :: string
  ht_json :: bool
  ht_stateless :: bool
  ht_get_stream :: "nat option"
  ht_terminated :: bool
  ht_counter :: int

definition is_visible_ascii :: "string \<Rightarrow> bool" where
  "is_visible_ascii t = list_all (\<lambda>b. 33 \<le> (of_char b :: nat) \<and> of_char b \<le> (126 :: nat)) t"

definition HttpTransport_new :: "string \<Rightarrow> bool \<Rightarrow> bool \<Rightarrow> McpError + HttpTransport" where
  "HttpTransport_new session_id js stateless =
     (if session_id \<noteq> [] \<and> \<not> is_visible_ascii session_id then
        Inl (ErrArgument ''Session ID must only contain visible ASCII characters (0x21-0x7E)'')
      else Inr \<lparr> ht_session_id = session_id, ht_json = js, ht_stateless = stateless, ht_get_stream = None,
             ht_terminated = False, ht_counter = 1 \<rparr>)"

definition session_header :: "HttpTransport \<Rightarrow> (string \<times> string) list" where
  "session_header t = (if ht_session_id t = [] then [] else [(MCP_SESSION_ID, ht_session_id t)])"

definition server_error_body :: "int \<Rightarrow> string \<Rightarrow> json" where
  "server_error_body code message =
     JObj [(''jsonrpc'', JStr JSONRPC_VERSION), (''id'', JStr ''server-error''),
       (''error'', JObj [(''code'', JInt code), (''message'', JStr message)])]"

definition error_response ::
    "RpcEnv \<Rightarrow> HttpTransport \<Rightarrow> string \<Rightarrow> nat \<Rightarrow> int \<Rightarrow> (string \<times> string) list \<Rightarrow> HttpReply" where
  "error_response env t message status code extra =
     Full \<lparr> hr_status = status, hr_headers = extra @ [(CONTENT_TYPE, CONTENT_TYPE_JSON)] @ session_header t,
       hr_body = rpc_to_string env (server_error_body code message) \<rparr>"

definition invalid_request :: "RpcEnv \<Rightarrow> HttpTransport \<Rightarrow> string \<Rightarrow> nat \<Rightarrow> HttpReply" where
  "invalid_request env t message status = error_response env t message status INVALID_REQUEST []"

definition json_response :: "HttpTransport \<Rightarrow> string option \<Rightarrow> nat \<Rightarrow> HttpReply" where
  "json_response t body status =
     Full \<lparr> hr_status = status, hr_headers = [(CONTENT_TYPE, CONTENT_TYPE_JSON)] @ session_header t,
       hr_body = (case body of Some b \<Rightarrow> b | None \<Rightarrow> []) \<rparr>"

definition sse_headers :: "HttpTransport \<Rightarrow> bool \<Rightarrow> (string \<times> string) list" where
  "sse_headers t with_accel =
     [(CONTENT_TYPE, CONTENT_TYPE_SSE), (''cache-control'', ''no-cache, no-transform''), (''connection'', ''keep-alive'')] @
     (if with_accel then [(''x-accel-buffering'', ''no'')] else []) @ session_header t"

text \<open>The checks give the reply with which a request is refused, if it is.\<close>

definition validate_protocol_version :: "RpcEnv \<Rightarrow> HttpTransport \<Rightarrow> HttpRequest \<Rightarrow> HttpReply option" where
  "validate_protocol_version env t r =
     (let version = header_or r MCP_PROTOCOL_VERSION DEFAULT_PROTOCOL_VERSION in
      if is_supported_protocol_version version then None
      else Some (invalid_request env t
        (''Bad Request: Unsupported protocol version: '' @ version @ ''. Supported versions: '' @
          SUPPORTED_PROTOCOL_VERSIONS_STRING) 400))"

definition validate_post_headers :: "RpcEnv \<Rightarrow> HttpTransport \<Rightarrow> HttpRequest \<Rightarrow> HttpReply option" where
  "validate_post_headers env t r =
     (let accept = header_or r ''accept'' [];
          has_json = contains_sub accept CONTENT_TYPE_JSON;
          has_sse = contains_sub accept CONTENT_TYPE_SSE
      in
      if ht_json t \<and> \<not> has_json then
        Some (invalid_request env t ''Not Acceptable: Client must accept application/json'' 406)
      else if \<not> ht_json t \<and> (\<not> has_json \<or> \<not> has_sse) then
        Some (invalid_request env t ''Not Acceptable: Client must accept both application/json and text/event-stream'' 406)
      else if \<not> contains_sub (header_or r CONTENT_TYPE []) CONTENT_TYPE_JSON then
        Some (invalid_request env t ''Unsupported Media Type: Content-Type must be application/json'' 415)
      else None)"

definition validate_session_id :: "RpcEnv \<Rightarrow> HttpTransport \<Rightarrow> HttpRequest \<Rightarrow> bool \<Rightarrow> HttpReply option" where
  "validate_session_id env t r is_initialization =
     (let expected = ht_session_id t in
      if is_initialization \<or> expected = [] then None
      else case header r MCP_SESSION_ID of
             None \<Rightarrow> Some (invalid_request env t ''Bad Request: Missing session ID'' 400)
           | Some i \<Rightarrow>
               if i = [] then Some (invalid_request env t ''Bad Request: Missing session ID'' 400)
               else if i \<noteq> expected then Some (invalid_request env t ''Not Found: Invalid or expired session ID'' 404)
               else None)"

definition new_context :: "nat option \<Rightarrow> HttpTransport \<Rightarrow> RequestContext \<times> HttpTransport" where
  "new_context sink t =
     (\<lparr> cx_connection_id = ht_counter t, cx_session_id = ht_session_id t, cx_method = [], cx_is_get_stream = False,
        cx_is_cancelled = False, cx_sink = sink \<rparr>,
      t\<lparr> ht_counter := wrap64 (ht_counter t + 1) \<rparr>)"

definition is_initialize :: "json \<Rightarrow> bool" where
  "is_initialize m = (Option.bind (jget m ''method'') as_str = Some ''initialize'')"

definition is_initialization :: "json \<Rightarrow> bool" where
  "is_initialization raw =
     (case raw of JObj _ \<Rightarrow> is_initialize raw | JArr items \<Rightarrow> list_ex is_initialize items | _ \<Rightarrow> False)"

definition is_request :: "Message \<Rightarrow> bool" where
  "is_request m = (case m of MRequest _ \<Rightarrow> True | _ \<Rightarrow> False)"

definition is_response :: "Message \<Rightarrow> bool" where
  "is_response m = (case m of MResponse _ \<Rightarrow> True | _ \<Rightarrow> False)"

definition with_method :: "RequestContext \<Rightarrow> Message \<Rightarrow> Message \<times> RequestContext" where
  "with_method ctx m = (m, ctx\<lparr> cx_method := (case Message_method m of Some s \<Rightarrow> s | None \<Rightarrow> []) \<rparr>)"

type_synonym Delivery = "(Message \<times> RequestContext) list"

text \<open>
  A request handled by the transport gives the reply, the messages that a spawned task delivers to the session
  one after the other, and the new state.  \<open>callback\<close> says that the session is alive.
\<close>

type_synonym TransportState = "HttpTransport \<times> McpHeap"

definition deliver_payload :: "RpcEnv \<Rightarrow> Message list \<Rightarrow> bool \<Rightarrow> TransportState \<Rightarrow> HttpReply \<times> Delivery \<times> TransportState" where
  "deliver_payload env messages is_batch st =
     (let (t, h) = st;
          request_count = length (filter is_request messages);
          n = length (hp_sinks h)
      in
      if request_count = 0 then
        let (ctx, t') = new_context None t in (json_response t' None 202, map (\<lambda>m. (m, ctx)) messages, (t', h))
      else if ht_json t then
        let sink = ResponseSink_json request_count is_batch ([(CONTENT_TYPE, CONTENT_TYPE_JSON)] @ session_header t);
            (ctx, t') = new_context (Some n) t
        in (Deferred n, map (with_method ctx) messages, (t', h\<lparr> hp_sinks := hp_sinks h @ [sink] \<rparr>))
      else
        let (ctx, t') = new_context (Some n) t
        in (Stream 200 (sse_headers t' True) (SinkBody n), map (with_method ctx) messages,
            (t', h\<lparr> hp_sinks := hp_sinks h @ [ResponseSink_sse request_count] \<rparr>)))"

definition handle_post :: "RpcEnv \<Rightarrow> bool \<Rightarrow> HttpRequest \<Rightarrow> TransportState \<Rightarrow> HttpReply \<times> Delivery \<times> TransportState" where
  "handle_post env callback r st =
     (let (t, h) = st in
      if \<not> callback then
        (Full \<lparr> hr_status = 500, hr_headers = [(CONTENT_TYPE, CONTENT_TYPE_TEXT_PLAIN)], hr_body = ''Callbacks not set'' \<rparr>, [], st)
      else case validate_post_headers env t r of Some reply \<Rightarrow> (reply, [], st) | None \<Rightarrow>
      case rpc_from_str env (hq_body r) of
        Inl e \<Rightarrow> (error_response env t (''Parse error: '' @ e) 400 PARSE_ERROR [], [], st)
      | Inr raw \<Rightarrow>
      (case validate_session_id env t r (is_initialization raw) of Some reply \<Rightarrow> (reply, [], st) | None \<Rightarrow>
       case validate_protocol_version env t r of Some reply \<Rightarrow> (reply, [], st) | None \<Rightarrow>
       case parse_payload env (hq_body r) of
         Inr (Single m) \<Rightarrow> deliver_payload env [m] False st
       | Inr (Batch ms) \<Rightarrow> deliver_payload env ms True st
       | Inl err \<Rightarrow>
           let response = MResponse (to_error_response err) in
           if (case err of InvalidMessage _ _ has_method \<Rightarrow> has_method | InvalidJson _ \<Rightarrow> False) then
             (json_response t (Some (serialize_message env response)) (if ht_json t then 200 else 400), [], st)
           else
             let (ctx, t') = new_context None t in (json_response t' None 202, [(response, ctx)], (t', h))))"

definition stream_open :: "nat option \<Rightarrow> McpHeap \<Rightarrow> bool" where
  "stream_open slot h = (case slot of Some i \<Rightarrow> \<not> gs_gone (hp_streams h ! i) | None \<Rightarrow> False)"

definition handle_get :: "RpcEnv \<Rightarrow> HttpRequest \<Rightarrow> TransportState \<Rightarrow> HttpReply \<times> TransportState" where
  "handle_get env r st =
     (let (t, h) = st;
          expected = ht_session_id t;
          got = header_or r MCP_SESSION_ID []
      in
      if \<not> contains_sub (header_or r ''accept'' []) CONTENT_TYPE_SSE then
        (invalid_request env t ''Not Acceptable: Client must accept text/event-stream'' 406, st)
      else if expected \<noteq> [] \<and> (got = [] \<or> got \<noteq> expected) then
        (invalid_request env t ''Bad Request: Invalid session ID'' 400, st)
      else case validate_protocol_version env t r of Some reply \<Rightarrow> (reply, st) | None \<Rightarrow>
      if stream_open (ht_get_stream t) h then
        (invalid_request env t ''Conflict: Only one SSE stream is allowed per session'' 409, st)
      else
        let n = length (hp_streams h) in
        (Stream 200 (sse_headers t False) (GetBody n),
         (t\<lparr> ht_get_stream := Some n \<rparr>, h\<lparr> hp_streams := hp_streams h @ [\<lparr> gs_frames = [], gs_gone = False \<rparr>] \<rparr>)))"

definition push_stream :: "nat \<Rightarrow> SseFrame \<Rightarrow> McpHeap \<Rightarrow> McpHeap" where
  "push_stream i f h =
     (if gs_gone (hp_streams h ! i) then h
      else h\<lparr> hp_streams := (hp_streams h)[i := (hp_streams h ! i)\<lparr> gs_frames := gs_frames (hp_streams h ! i) @ [f] \<rparr>] \<rparr>)"

definition transport_terminate :: "TransportState \<Rightarrow> TransportState" where
  "transport_terminate st =
     (let (t, h) = st in
      (t\<lparr> ht_terminated := True, ht_get_stream := None, ht_session_id := [] \<rparr>,
       case ht_get_stream t of Some i \<Rightarrow> push_stream i None h | None \<Rightarrow> h))"

definition handle_delete :: "RpcEnv \<Rightarrow> HttpRequest \<Rightarrow> TransportState \<Rightarrow> HttpReply \<times> TransportState" where
  "handle_delete env r st =
     (let (t, h) = st;
          expected = ht_session_id t;
          got = header_or r MCP_SESSION_ID []
      in
      if expected = [] then
        (error_response env t ''Method Not Allowed: Session termination not supported'' 405 INVALID_REQUEST [], st)
      else if got = [] \<or> got \<noteq> expected then (invalid_request env t ''Bad Request: Invalid session ID'' 400, st)
      else (json_response t None 200, transport_terminate st))"

definition transport_handle_request ::
    "RpcEnv \<Rightarrow> bool \<Rightarrow> HttpRequest \<Rightarrow> TransportState \<Rightarrow> HttpReply \<times> Delivery \<times> TransportState" where
  "transport_handle_request env callback r st =
     (let (t, h) = st in
      if ht_stateless t \<and> hq_method r \<noteq> ''POST'' then
        (error_response env t ''Method Not Allowed'' 405 INVALID_REQUEST [(''allow'', ''POST'')], [], st)
      else if ht_terminated t then (invalid_request env t ''Not Found: Session has been terminated'' 404, [], st)
      else if hq_method r = ''POST'' then handle_post env callback r st
      else if hq_method r = ''GET'' then let (reply, st') = handle_get env r st in (reply, [], st')
      else if hq_method r = ''DELETE'' then let (reply, st') = handle_delete env r st in (reply, [], st')
      else (error_response env t ''Method Not Allowed'' 405 INVALID_REQUEST [(''allow'', ''GET, POST, DELETE'')], [], st))"

definition event_data :: "RpcEnv \<Rightarrow> Message \<Rightarrow> string" where
  "event_data env m =
     to_wire \<lparr> se_event = Some ''message'', se_data = serialize_message env m, se_id = None, se_retry = None \<rparr>"

text \<open>
  A server initiated send waits up to two seconds for the GET stream; the step is the moment at which it goes on.
\<close>

definition send_message :: "RpcEnv \<Rightarrow> Message \<Rightarrow> RequestContext \<Rightarrow> TransportState \<Rightarrow> (McpError + unit) \<times> TransportState" where
  "send_message env m ctx st =
     (let (t, h) = st in
      if cx_is_get_stream ctx \<or> cx_connection_id ctx = 0 then
        (case ht_get_stream t of
           None \<Rightarrow> (Inl (ErrState ''SSE stream request context not set''), st)
         | Some i \<Rightarrow>
             if gs_gone (hp_streams h ! i) then
               (Inl (ErrTransport ''SSE stream is closed''), (t\<lparr> ht_get_stream := None \<rparr>, h))
             else (Inr (), (t, push_stream i (Some (event_data env m)) h)))
      else case cx_sink ctx of
        None \<Rightarrow> (Inl (ErrState ''HTTP callback not set''), st)
      | Some i \<Rightarrow>
          if ht_json t \<and> sk_json (hp_sinks h ! i) then
            if is_response m then let (r, h') = on_sink (deliver_json env (Message_to_value m)) i h in (r, (t, h'))
            else (Inr (), st)
          else
            (case on_sink (send_frame (event_data env m)) i h of
               (Inl e, h') \<Rightarrow> (Inl e, (t, h'))
             | (Inr _, h') \<Rightarrow>
                 if is_response m then
                   let (complete, h2) = on_sink response_delivered i h'
                   in (Inr (), (t, if complete then snd (on_sink (\<lambda>s. ((), finish_sink s)) i h2) else h2))
                 else (Inr (), (t, h'))))"

end
