(* ===== verification/McpSession.thy ===== *)
theory McpSession
  imports McpTransport McpManagers McpSampling McpPending
begin

text \<open>
  The server session of \<open>server/session.rs\<close> and the request dispatch of \<open>server/mod.rs\<close>.  A request that
  reaches a tool, prompt, resource or completion handler suspends there (\<open>Running\<close>): what the handler returns is
  an input of the model, and the rest of the request is \<open>finish_handler\<close>.  Handlers are opaque values \<open>'h\<close>.
\<close>

record McpEnv =
  me_rpc :: RpcEnv
  me_schema :: SchemaEnv

record ServerConfig =
  cf_name :: string
  cf_version :: string
  cf_worker_threads :: nat
  cf_tools_page_size :: nat
  cf_resources_page_size :: nat
  cf_capabilities :: ServerCapabilities

record ServerSession =
  ss_session_id :: string
  ss_config :: ServerConfig
  ss_capabilities :: ServerCapabilities
  ss_client_capabilities :: "ClientCapabilities option"
  ss_initialized :: bool
  ss_stateless :: bool
  ss_handler :: bool
  ss_requests :: "(RequestId, RequestContext) imap"
  ss_pending :: "unit PendingRequests"

definition ServerSession_new :: "ServerConfig \<Rightarrow> string \<Rightarrow> bool \<Rightarrow> ServerSession" where
  "ServerSession_new config session_id stateless =
     \<lparr> ss_session_id = session_id, ss_config = config, ss_capabilities = ServerCapabilities_default,
       ss_client_capabilities = None, ss_initialized = False, ss_stateless = stateless, ss_handler = False,
       ss_requests = [], ss_pending = PendingRequests_new \<rparr>"

text \<open>Resource subscription is never advertised.\<close>

definition set_server_capabilities :: "ServerCapabilities \<Rightarrow> ServerSession \<Rightarrow> ServerSession" where
  "set_server_capabilities caps s =
     s\<lparr> ss_capabilities := caps\<lparr> sc_resources := map_option (\<lambda>r. r\<lparr> rc_subscribe := Some False \<rparr>) (sc_resources caps) \<rparr> \<rparr>"

definition set_incoming_request_handler :: "ServerSession \<Rightarrow> ServerSession" where
  "set_incoming_request_handler s = s\<lparr> ss_handler := True \<rparr>"

definition get_client_capabilities :: "ServerSession \<Rightarrow> ClientCapabilities" where
  "get_client_capabilities s =
     (case ss_client_capabilities s of Some c \<Rightarrow> c | None \<Rightarrow> ClientCapabilities_default)"

text \<open>A session with its transport, and the heap both write to.\<close>

record McpEntry =
  en_transport :: HttpTransport
  en_session :: ServerSession

type_synonym SessionState = "McpEntry \<times> McpHeap"

definition on_session :: "(ServerSession \<Rightarrow> ServerSession) \<Rightarrow> SessionState \<Rightarrow> SessionState" where
  "on_session f st = (case st of (e, h) \<Rightarrow> (e\<lparr> en_session := f (en_session e) \<rparr>, h))"

definition transport_send :: "McpEnv \<Rightarrow> Message \<Rightarrow> RequestContext \<Rightarrow> SessionState \<Rightarrow> (McpError + unit) \<times> SessionState" where
  "transport_send env m ctx st =
     (let (e, h) = st;
          (r, (t, h')) = send_message (me_rpc env) m ctx (en_transport e, h)
      in (r, (e\<lparr> en_transport := t \<rparr>, h')))"

subsection \<open>Responses\<close>

definition was_cancelled :: "RequestId \<Rightarrow> ServerSession \<Rightarrow> bool" where
  "was_cancelled i s = (case im_get (ss_requests s) i of Some c \<Rightarrow> cx_is_cancelled c | None \<Rightarrow> False)"

definition forget_request :: "RequestId \<Rightarrow> ServerSession \<Rightarrow> ServerSession" where
  "forget_request i s = s\<lparr> ss_requests := im_remove i (ss_requests s) \<rparr>"

definition send_response :: "McpEnv \<Rightarrow> RequestId \<Rightarrow> json \<Rightarrow> RequestContext \<Rightarrow> SessionState \<Rightarrow> (McpError + unit) \<times> SessionState" where
  "send_response env i result ctx st =
     (let cancelled = was_cancelled i (en_session (fst st));
          st' = on_session (forget_request i) st
      in if cancelled \<or> cx_is_cancelled ctx then (Inr (), st')
         else transport_send env (MResponse (RpcResponse_success i result)) ctx st')"

definition send_error_response ::
    "McpEnv \<Rightarrow> RequestId \<Rightarrow> RpcError \<Rightarrow> RequestContext \<Rightarrow> SessionState \<Rightarrow> (McpError + unit) \<times> SessionState" where
  "send_error_response env i e ctx st =
     transport_send env (MResponse (RpcResponse_error (Some i) e)) ctx (on_session (forget_request i) st)"

definition send_notification :: "McpEnv \<Rightarrow> string \<Rightarrow> json option \<Rightarrow> SessionState \<Rightarrow> (McpError + unit) \<times> SessionState" where
  "send_notification env meth params st =
     transport_send env (MNotification (RpcNotification_new meth params))
       ((server_initiated (ss_session_id (en_session (fst st))) meth)\<lparr> cx_is_get_stream := True \<rparr>) st"

subsection \<open>Requests to the client\<close>

datatype ServerRequest =
    ReqListRoots
  | ReqSampling CreateMessageParams
  | ReqElicit string JsonDict
  | ReqElicitUrl string string string

definition check_can_request :: "string \<Rightarrow> ServerSession \<Rightarrow> McpError + unit" where
  "check_can_request what s =
     (if ss_stateless s then Inl (ErrState (what @ '' is not supported in stateless server mode''))
      else if \<not> ss_initialized s then Inl (ErrState ''Session is not initialized'')
      else Inr ())"

definition list_roots_request :: "ServerSession \<Rightarrow> McpError + string \<times> json \<times> string" where
  "list_roots_request s =
     and_then (check_can_request ''roots/list'' s) (\<lambda>_.
       if kc_roots (get_client_capabilities s) = None then Inl (ErrState ''Client does not support roots/list'')
       else Inr (''roots/list'', JNull, ''ListRoots''))"

definition needs_context :: "string option \<Rightarrow> bool" where
  "needs_context v = (v = Some ''thisServer'' \<or> v = Some ''allServers'')"

definition sampling_request :: "CreateMessageParams \<Rightarrow> ServerSession \<Rightarrow> McpError + string \<times> json \<times> string" where
  "sampling_request params s =
     and_then (check_can_request ''sampling/createMessage'' s) (\<lambda>_.
       case kc_sampling (get_client_capabilities s) of
         None \<Rightarrow> Inl (ErrState ''Client does not support sampling/createMessage'')
       | Some sampling \<Rightarrow>
           if cp_tools params \<noteq> None \<and> \<not> sp_tools sampling then
             Inl (ErrState ''Tool-enabled sampling requested but client did not advertise sampling.tools capability'')
           else if needs_context (cp_include_context params) \<and> \<not> sp_context sampling then
             Inl (ErrState ''includeContext requires sampling.context capability'')
           else case validate_tool_use_result_messages (cp_messages params) of
                  Inl e \<Rightarrow> Inl (ErrState (McpError_message e))
                | Inr _ \<Rightarrow> Inr (''sampling/createMessage'', CreateMessageParams_to_value params, ''SamplingCreateMessage''))"

definition elicit_request :: "ElicitParams \<Rightarrow> string \<Rightarrow> ServerSession \<Rightarrow> McpError + string \<times> json \<times> string" where
  "elicit_request params op_name s =
     and_then (check_can_request ''elicitation/create'' s) (\<lambda>_.
       Inr (''elicitation/create'', ElicitParams_to_value params, op_name))"

fun server_request :: "ServerRequest \<Rightarrow> ServerSession \<Rightarrow> McpError + string \<times> json \<times> string" where
  "server_request ReqListRoots s = list_roots_request s"
| "server_request (ReqSampling params) s = sampling_request params s"
| "server_request (ReqElicit message schema) s = elicit_request (ElicitForm message schema) ''Elicit'' s"
| "server_request (ReqElicitUrl message url i) s = elicit_request (ElicitUrl message url i) ''ElicitUrl'' s"

text \<open>
  \<open>send_request\<close>: the request is registered, then sent (\<open>c\<close> is the number of the call), then awaited; the value
  that resumes the caller is checked by \<open>request_result\<close>.
\<close>

definition begin_request :: "ServerRequest \<Rightarrow> SessionState \<Rightarrow> (McpError + RpcRequest) \<times> SessionState" where
  "begin_request req st =
     (case server_request req (en_session (fst st)) of
        Inl e \<Rightarrow> (Inl e, st)
      | Inr (meth, params, _) \<Rightarrow>
          let (i, p) = pending_register None (ss_pending (en_session (fst st)))
          in (Inr (RpcRequest_new i meth (Some params)), on_session (\<lambda>s. s\<lparr> ss_pending := p \<rparr>) st))"

definition send_begun :: "McpEnv \<Rightarrow> nat \<Rightarrow> nat \<Rightarrow> RpcRequest \<Rightarrow> SessionState \<Rightarrow> SessionState" where
  "send_begun env now c req st =
     (let ctx = server_initiated (ss_session_id (en_session (fst st))) (rq_method req);
          (r, st') = transport_send env (MRequest req) ctx st
      in on_session (\<lambda>s. s\<lparr> ss_pending :=
           (case r of
              Inr _ \<Rightarrow> call_sent c (ss_pending s)
            | Inl e \<Rightarrow> finish_call c (Inl e) (pending_remove now (pl_id (pq_calls (ss_pending s) ! c)) (ss_pending s))) \<rparr>) st')"

definition request_result :: "RpcEnv \<Rightarrow> string \<Rightarrow> (json \<Rightarrow> 'a option) \<Rightarrow> McpError + json \<Rightarrow> McpError + 'a" where
  "request_result env op_name decode outcome =
     (case outcome of
        Inl (ErrRpc e) \<Rightarrow> Inl (ErrState (op_name @ '' failed: '' @ rpc_message e))
      | Inl e \<Rightarrow> Inl e
      | Inr v \<Rightarrow>
          if v = JNull then Inl (ErrState (op_name @ '' failed: null result''))
          else case decode v of
                 Some r \<Rightarrow> Inr r
               | None \<Rightarrow> Inl (ErrState (op_name @ '' failed: result type mismatch ('' @ rpc_de_err env v @ '')'')))"

subsection \<open>Initialization and cancellation\<close>

definition initialize_params :: "json option \<Rightarrow> InitializeRequestParams" where
  "initialize_params params =
     (case params of
        Some v \<Rightarrow>
          if is_object v then (case InitializeRequestParams_from_value v of Some p \<Rightarrow> p | None \<Rightarrow> InitializeRequestParams_default)
          else InitializeRequestParams_default
      | None \<Rightarrow> InitializeRequestParams_default)"

definition initialize_result :: "InitializeRequestParams \<Rightarrow> ServerSession \<Rightarrow> InitializeResult" where
  "initialize_result params s =
     (let v = ip_protocol_version params in
      InitializeResult_new (if is_supported_protocol_version v then v else LATEST_PROTOCOL_VERSION) (ss_capabilities s)
        (Implementation_new (cf_name (ss_config s)) (cf_version (ss_config s))) None)"

definition handle_initialize :: "McpEnv \<Rightarrow> RequestId \<Rightarrow> json option \<Rightarrow> RequestContext \<Rightarrow> SessionState \<Rightarrow> SessionState" where
  "handle_initialize env i params ctx st =
     (let p = initialize_params params;
          st1 = on_session (\<lambda>s. s\<lparr> ss_client_capabilities := Some (ip_capabilities p) \<rparr>) st;
          v = InitializeResult_to_value (initialize_result p (en_session (fst st1)))
      in on_session (\<lambda>s. s\<lparr> ss_initialized := True \<rparr>) (snd (send_response env i v ctx st1)))"

definition CANCELLED :: RpcError where "CANCELLED = RpcError_new 0 ''Request cancelled''"

definition handle_cancelled :: "McpEnv \<Rightarrow> json option \<Rightarrow> SessionState \<Rightarrow> SessionState" where
  "handle_cancelled env params st =
     (case CancelledNotificationParams_from_value (case params of Some v \<Rightarrow> v | None \<Rightarrow> JNull) of
        None \<Rightarrow> st
      | Some p \<Rightarrow>
          let i = cn_request_id p in
          (case im_get (ss_requests (en_session (fst st))) i of
             None \<Rightarrow> st
           | Some c \<Rightarrow>
               let ctx = c\<lparr> cx_is_cancelled := True \<rparr>;
                   st1 = on_session (\<lambda>s. s\<lparr> ss_requests := im_insert i ctx (ss_requests s) \<rparr>) st
               in snd (transport_send env (MResponse (RpcResponse_error (Some i) CANCELLED)) ctx st1)))"

subsection \<open>Dispatch\<close>

record 'h ServerInner =
  si_tools :: "'h ToolManager"
  si_prompts :: "'h PromptManager"
  si_resources :: "'h ResourceManager"
  si_set_level_handler :: "(string \<Rightarrow> McpError + unit) option"
  si_complete_handler :: "'h option"

datatype 'h Running =
    RunTool "'h ServerTool" "RequestParamsMeta option" string json
  | RunPrompt 'h "RequestParamsMeta option" string "json option"
  | RunResource 'h "RequestParamsMeta option" string
  | RunComplete 'h CompleteReference CompletionArgument "CompletionContext option"

datatype HandlerOutcome =
    OutTool "CallToolResult mcp"
  | OutPrompt "GetPromptResult mcp"
  | OutResource "ReadResourceResult mcp"
  | OutComplete "CompleteResult mcp"

text \<open>A request is answered with a result or an error, goes to a handler, or makes its task panic.\<close>

datatype 'h Dispatch = Answer "RpcError + json" | RunHandler "'h Running" | Panicked

definition object_params :: "(json \<Rightarrow> 'a option) \<Rightarrow> RpcRequest \<Rightarrow> 'a option" where
  "object_params decode r = Option.bind (rq_params r) (\<lambda>p. if is_object p then decode p else None)"

definition answer_error :: "int \<Rightarrow> string \<Rightarrow> 'h Dispatch" where
  "answer_error code message = Answer (Inl (RpcError_new code message))"

definition answer_result :: "json \<Rightarrow> 'h Dispatch" where
  "answer_result v = Answer (Inr v)"

definition cursor_of :: "RpcRequest \<Rightarrow> string option" where
  "cursor_of r = Option.bind (object_params PaginatedParams_from_value r) pp_cursor"

definition dispatch_call :: "McpEnv \<Rightarrow> 'h ServerInner \<Rightarrow> RpcRequest \<Rightarrow> 'h Dispatch" where
  "dispatch_call env core r =
     (case object_params CallToolParams_from_value r of
        None \<Rightarrow> answer_error INVALID_PARAMS ''Invalid params for tools/call''
      | Some p \<Rightarrow>
          let args = (case kp_arguments p of Some a \<Rightarrow> a | None \<Rightarrow> JObj []) in
          (case call_tool_begin (me_schema env) (kp_name p) args (si_tools core) of
             Inl e \<Rightarrow> answer_error INVALID_PARAMS (McpError_message e)
           | Inr tool \<Rightarrow> RunHandler (RunTool tool (progress_meta (rq_params r)) (kp_name p) args)))"

definition dispatch_prompt :: "'h ServerInner \<Rightarrow> RpcRequest \<Rightarrow> 'h Dispatch" where
  "dispatch_prompt core r =
     (case object_params GetPromptParams_from_value r of
        None \<Rightarrow> answer_error INVALID_PARAMS ''Invalid params for prompts/get''
      | Some p \<Rightarrow>
          (case find_prompt (gq_name p) (si_prompts core) of
             Inl e \<Rightarrow> answer_error INVALID_PARAMS (McpError_message e)
           | Inr h \<Rightarrow> RunHandler (RunPrompt h (progress_meta (rq_params r)) (gq_name p) (gq_arguments p))))"

definition dispatch_read :: "'h ServerInner \<Rightarrow> RpcRequest \<Rightarrow> 'h Dispatch" where
  "dispatch_read core r =
     (case object_params UriParams_from_value r of
        None \<Rightarrow> answer_error INVALID_PARAMS ''Invalid params for resources/read''
      | Some p \<Rightarrow>
          if up_uri p = [] then answer_error INVALID_PARAMS ''URI cannot be empty''
          else case find_resource (up_uri p) (si_resources core) of
                 Inl e \<Rightarrow> answer_error INVALID_PARAMS (McpError_message e)
               | Inr h \<Rightarrow> RunHandler (RunResource h (progress_meta (rq_params r)) (up_uri p)))"

definition dispatch_subscribe :: "'h ServerInner \<Rightarrow> RpcRequest \<Rightarrow> 'h Dispatch" where
  "dispatch_subscribe core r =
     (case object_params UriParams_from_value r of
        None \<Rightarrow> answer_error INVALID_PARAMS (''Invalid params for '' @ rq_method r)
      | Some p \<Rightarrow>
          if up_uri p = [] then answer_error INVALID_PARAMS ''URI cannot be empty''
          else case (if rq_method r = ''resources/subscribe'' then subscribe_resource (up_uri p) (si_resources core)
                     else unsubscribe_resource (up_uri p) (si_resources core)) of
                 Inr _ \<Rightarrow> answer_result (JObj [])
               | Inl e \<Rightarrow> answer_error SERVER_ERROR (McpError_message e))"

definition dispatch_set_level :: "'h ServerInner \<Rightarrow> RpcRequest \<Rightarrow> 'h Dispatch" where
  "dispatch_set_level core r =
     (case object_params SetLoggingLevelParams_from_value r of
        None \<Rightarrow> answer_error INVALID_PARAMS ''Invalid params for logging/setLevel''
      | Some p \<Rightarrow>
          (case si_set_level_handler core of
             None \<Rightarrow> answer_error INVALID_PARAMS ''not set LoggingLevelHandler''
           | Some h \<Rightarrow>
               (case h (sl_level p) of
                  Inr _ \<Rightarrow> answer_result (JObj [])
                | Inl e \<Rightarrow> answer_error SERVER_ERROR (McpError_message e))))"

definition dispatch_complete :: "'h ServerInner \<Rightarrow> RpcRequest \<Rightarrow> 'h Dispatch" where
  "dispatch_complete core r =
     (case object_params CompleteRequestParams_from_value r of
        None \<Rightarrow> answer_error INVALID_REQUEST ''Invalid complete request''
      | Some p \<Rightarrow>
          (case si_complete_handler core of
             None \<Rightarrow> answer_error SERVER_ERROR ''Completion handler not registered''
           | Some h \<Rightarrow> RunHandler (RunComplete h (cq_reference p) (cq_argument p) (cq_context p))))"

definition dispatch :: "McpEnv \<Rightarrow> 'h ServerInner \<Rightarrow> RpcRequest \<Rightarrow> 'h Dispatch" where
  "dispatch env core r =
     (let m = rq_method r in
      if m = ''tools/list'' then
        (case list_tools (cursor_of r) (si_tools core) of
           Some l \<Rightarrow> answer_result (ListToolsResult_to_value l) | None \<Rightarrow> Panicked)
      else if m = ''tools/call'' then dispatch_call env core r
      else if m = ''prompts/list'' then answer_result (ListPromptsResult_to_value (list_prompts (si_prompts core)))
      else if m = ''prompts/get'' then dispatch_prompt core r
      else if m = ''resources/list'' then
        (case list_resources (cursor_of r) (si_resources core) of
           Some l \<Rightarrow> answer_result (ListResourcesResult_to_value l) | None \<Rightarrow> Panicked)
      else if m = ''resources/read'' then dispatch_read core r
      else if m = ''resources/subscribe'' \<or> m = ''resources/unsubscribe'' then dispatch_subscribe core r
      else if m = ''resources/templates/list'' then
        answer_result (ListResourceTemplatesResult_to_value (list_resource_templates (si_resources core)))
      else if m = ''logging/setLevel'' then dispatch_set_level core r
      else if m = ''ping'' then answer_result (JObj [])
      else if m = ''completion/complete'' then dispatch_complete core r
      else answer_error METHOD_NOT_FOUND (''Method not found: '' @ m))"

text \<open>What is sent when the handler has returned; \<open>None\<close> when the outcome is not one of that handler.\<close>

definition finish_handler :: "McpEnv \<Rightarrow> 'h Running \<Rightarrow> HandlerOutcome \<Rightarrow> (RpcError + json) option" where
  "finish_handler env run out =
     (case (run, out) of
        (RunTool tool _ name _, OutTool r) \<Rightarrow>
          Some (case call_tool_end (me_schema env) tool name r of
                  Inr v \<Rightarrow> Inr (CallToolResult_to_value v)
                | Inl e \<Rightarrow> Inl (RpcError_new INVALID_PARAMS (McpError_message e)))
      | (RunPrompt _ _ _ _, OutPrompt r) \<Rightarrow>
          Some (case r of
                  Inr v \<Rightarrow> Inr (GetPromptResult_to_value v)
                | Inl e \<Rightarrow> Inl (RpcError_new INVALID_PARAMS (McpError_message e)))
      | (RunResource _ _ _, OutResource r) \<Rightarrow>
          Some (case r of
                  Inr v \<Rightarrow> Inr (ReadResourceResult_to_value v)
                | Inl e \<Rightarrow> Inl (RpcError_new INVALID_PARAMS (McpError_message e)))
      | (RunComplete _ _ _ _, OutComplete r) \<Rightarrow>
          Some (case r of
                  Inr v \<Rightarrow> Inr (CompleteResult_to_value v)
                | Inl e \<Rightarrow> Inl (RpcError_new SERVER_ERROR (''Complete handler error: '' @ McpError_message e)))
      | _ \<Rightarrow> None)"

text \<open>\<open>send_result\<close> and \<open>send_error\<close>: a failure to send is only logged.\<close>

definition send_answer :: "McpEnv \<Rightarrow> RequestId \<Rightarrow> RpcError + json \<Rightarrow> RequestContext \<Rightarrow> SessionState \<Rightarrow> SessionState" where
  "send_answer env i a ctx st =
     (case a of
        Inr v \<Rightarrow> snd (send_response env i v ctx st)
      | Inl e \<Rightarrow> snd (send_error_response env i e ctx st))"

subsection \<open>Incoming messages\<close>

definition NOT_INITIALIZED :: "string \<Rightarrow> RpcError" where
  "NOT_INITIALIZED meth = RpcError_new INVALID_REQUEST (''Received request before initialization: '' @ meth)"

definition received_request ::
    "McpEnv \<Rightarrow> 'h ServerInner \<Rightarrow> RpcRequest \<Rightarrow> RequestContext \<Rightarrow> SessionState \<Rightarrow> 'h Dispatch option \<times> SessionState" where
  "received_request env core r ctx0 st =
     (let ctx = ctx0\<lparr> cx_method := rq_method r \<rparr>;
          s = en_session (fst st)
      in
      if rq_method r = ''initialize'' then (None, handle_initialize env (rq_id r) (rq_params r) ctx st)
      else if \<not> ss_stateless s \<and> \<not> ss_initialized s then
        (None, snd (send_error_response env (rq_id r) (NOT_INITIALIZED (rq_method r)) ctx st))
      else if \<not> ss_handler s then (None, st)
      else
        let st' = on_session (\<lambda>s. s\<lparr> ss_requests := im_insert (rq_id r) ctx (ss_requests s) \<rparr>) st;
            d = dispatch env core r
        in (Some d, case d of Answer a \<Rightarrow> send_answer env (rq_id r) a ctx st' | _ \<Rightarrow> st'))"

definition received_notification :: "McpEnv \<Rightarrow> RpcNotification \<Rightarrow> SessionState \<Rightarrow> SessionState" where
  "received_notification env n st =
     (if nt_method n = ''notifications/initialized'' then on_session (\<lambda>s. s\<lparr> ss_initialized := True \<rparr>) st
      else if nt_method n = ''notifications/cancelled'' then handle_cancelled env (nt_params n) st
      else st)"

definition session_handle_response :: "nat \<Rightarrow> RpcResponse \<Rightarrow> ServerSession \<Rightarrow> ServerSession" where
  "session_handle_response now r s =
     (case rs_id r of
        None \<Rightarrow> s
      | Some i \<Rightarrow>
          let result = (case rs_error r of Some e \<Rightarrow> Inl e | None \<Rightarrow> Inr (case rs_result r of Some v \<Rightarrow> v | None \<Rightarrow> JNull))
          in s\<lparr> ss_pending := snd (pending_complete now i result (ss_pending s)) \<rparr>)"

definition session_disconnected :: "string \<Rightarrow> ServerSession \<Rightarrow> ServerSession" where
  "session_disconnected reason s =
     s\<lparr> ss_pending := fail_all (rpc_internal_error (''Transport disconnected: '' @ reason)) (ss_pending s) \<rparr>"

definition on_message_received ::
    "McpEnv \<Rightarrow> 'h ServerInner \<Rightarrow> nat \<Rightarrow> Message \<Rightarrow> RequestContext \<Rightarrow> SessionState \<Rightarrow> 'h Dispatch option \<times> SessionState" where
  "on_message_received env core now m ctx st =
     (case m of
        MRequest r \<Rightarrow> received_request env core r ctx st
      | MNotification n \<Rightarrow> (None, received_notification env n st)
      | MResponse r \<Rightarrow> (None, on_session (session_handle_response now r) st))"

end
