(* ===== verification/McpServer.thy ===== *)
theory McpServer
  imports McpSession
begin

text \<open>
  The MCP server of \<open>server/mod.rs\<close> and the session manager of \<open>server/manager.rs\<close>, as a machine.  Its state
  has the sessions that were ever created with their transports, the table of live ones, the heap of
  sinks and streams, and the tasks that deliver the messages of a posted body to their session, one after the
  other.  A task may stand in a handler, so the tasks of several requests interleave.  Session identifiers
  are drawn from the parameter \<open>uuid\<close>; authenticators and authorizers are functions of the configuration.
\<close>

subsection \<open>Configuration\<close>

record TlsConfig =
  tc_enabled :: bool
  tc_cert_file :: string
  tc_key_file :: string
  tc_ca_file :: string
  tc_server_name :: string

record HttpServerConfig =
  hc_endpoint :: string
  hc_json :: bool
  hc_stateless :: bool
  hc_io_threads :: nat
  hc_tls :: TlsConfig
  hc_authenticator :: "(HeaderMap \<Rightarrow> AuthenticationResult option) option"
  hc_authorizer :: "(AuthenticationResult \<Rightarrow> bool) option"

definition MAX_THREAD_NUM :: nat where "MAX_THREAD_NUM = 64"

definition validate_config :: "ServerConfig \<Rightarrow> bool \<Rightarrow> McpError + unit" where
  "validate_config config is_stdio =
     (if trim (cf_name config) = [] \<or> cf_version config = [] \<or> CHR ''.'' \<notin> set (cf_version config) then
        Inl (ErrArgument ''Invalid server configuration'')
      else if is_stdio then Inr ()
      else if cf_worker_threads config = 0 \<or> cf_worker_threads config > MAX_THREAD_NUM then
        Inl (ErrArgument ''Invalid server configuration'')
      else Inr ())"

definition INVALID_HTTP_CONFIG :: McpError where
  "INVALID_HTTP_CONFIG = ErrArgument ''Invalid Streamable HTTP transport configuration''"

text \<open>\<open>file_exists\<close> says whether \<open>std::fs::canonicalize\<close> succeeds.\<close>

definition validate_file_path :: "(string \<Rightarrow> bool) \<Rightarrow> string \<Rightarrow> McpError + unit" where
  "validate_file_path file_exists path =
     (if path = [] then Inr () else if file_exists path then Inr () else Inl INVALID_HTTP_CONFIG)"

definition validate_tls_config :: "(string \<Rightarrow> bool) \<Rightarrow> TlsConfig \<Rightarrow> McpError + unit" where
  "validate_tls_config file_exists config =
     (if \<not> tc_enabled config then Inr ()
      else if length (tc_server_name config) > 253 then Inl INVALID_HTTP_CONFIG
      else if list_ex (\<lambda>c. c = CHR '' '' \<or> c = CHR 0x09 \<or> c = CHR 0x0D \<or> c = CHR 0x0A) (tc_server_name config) then
        Inl INVALID_HTTP_CONFIG
      else if contains_sub (tc_server_name config) ''..'' then Inl INVALID_HTTP_CONFIG
      else and_then (validate_file_path file_exists (tc_cert_file config)) (\<lambda>_.
           and_then (validate_file_path file_exists (tc_key_file config)) (\<lambda>_.
           validate_file_path file_exists (tc_ca_file config))))"

definition validate_streamable_http_config :: "(string \<Rightarrow> bool) \<Rightarrow> HttpServerConfig \<Rightarrow> McpError + unit" where
  "validate_streamable_http_config file_exists config =
     (case is_valid_streamable_http_endpoint (hc_endpoint config) of
        Inl _ \<Rightarrow> Inl INVALID_HTTP_CONFIG
      | Inr _ \<Rightarrow>
          if hc_io_threads config = 0 \<or> hc_io_threads config > MAX_THREAD_NUM then Inl INVALID_HTTP_CONFIG
          else validate_tls_config file_exists (hc_tls config))"

subsection \<open>The state\<close>

datatype ServerState = StInit | StRunning | StStopped

definition ServerState_name :: "ServerState \<Rightarrow> string" where
  "ServerState_name s = (case s of StInit \<Rightarrow> ''INIT'' | StRunning \<Rightarrow> ''RUNNING'' | StStopped \<Rightarrow> ''STOPPED'')"

text \<open>
  A delivery task: the session, the messages it was given, those that are left, the request that is in a
  handler, and whether it has panicked.  \<open>tk_sink\<close> is where the responses of its requests go.
\<close>

record 'h McpTask =
  tk_entry :: nat
  tk_sink :: "nat option"
  tk_all :: Delivery
  tk_queue :: Delivery
  tk_running :: "(RequestId \<times> RequestContext \<times> 'h Running) option"
  tk_dead :: bool

record 'h McpWorld =
  w_state :: ServerState
  w_config :: ServerConfig
  w_transport_config :: "HttpServerConfig option"
  w_core :: "'h ServerInner"
  w_sessions :: "(string, nat) imap"
  w_entries :: "McpEntry list"
  w_heap :: McpHeap
  w_tasks :: "'h McpTask list"
  w_uuids :: nat

definition McpServer_build :: "ServerConfig \<Rightarrow> HttpServerConfig option \<Rightarrow> 'h McpWorld" where
  "McpServer_build config transport_config =
     \<lparr> w_state = StInit, w_config = config, w_transport_config = transport_config,
       w_core = \<lparr> si_tools = ToolManager_new True (cf_tools_page_size config), si_prompts = PromptManager_new True,
         si_resources = ResourceManager_new True (cf_resources_page_size config), si_set_level_handler = None,
         si_complete_handler = None \<rparr>,
       w_sessions = [], w_entries = [], w_heap = \<lparr> hp_sinks = [], hp_streams = [] \<rparr>, w_tasks = [], w_uuids = 0 \<rparr>"

definition new_streamable_http :: "(string \<Rightarrow> bool) \<Rightarrow> ServerConfig \<Rightarrow> HttpServerConfig \<Rightarrow> McpError + 'h McpWorld" where
  "new_streamable_http file_exists config transport_config =
     and_then (validate_config config False) (\<lambda>_.
     and_then (validate_streamable_http_config file_exists transport_config) (\<lambda>_.
       Inr (McpServer_build config (Some transport_config))))"

text \<open>\<open>started\<close> says whether the listener could be started.\<close>

definition server_run :: "(McpError + unit) \<Rightarrow> 'h McpWorld \<Rightarrow> (McpError + unit) \<times> 'h McpWorld" where
  "server_run started w =
     (if w_state w \<noteq> StInit then
        (Inl (ErrState (''run failed. Server is not in init state, current state: '' @ ServerState_name (w_state w))), w)
      else case started of Inl e \<Rightarrow> (Inl e, w) | Inr _ \<Rightarrow> (Inr (), w\<lparr> w_state := StRunning \<rparr>))"

subsection \<open>Registration\<close>

datatype 'h AdminOp =
    AddTool "'h ServerTool"
  | RemoveTool string
  | AddPrompt "PromptInfo \<times> 'h"
  | RemovePrompt string
  | AddResource "ResourceInfo \<times> 'h"
  | RemoveResource string
  | AddTemplate ResourceTemplate
  | RemoveTemplate string

definition check_state :: "'h McpWorld \<Rightarrow> McpError + unit" where
  "check_state w =
     (if w_state w = StStopped then Inl (ErrState ''Cannot perform operation: server has been stopped'') else Inr ())"

fun admin_core :: "'h AdminOp \<Rightarrow> 'h ServerInner \<Rightarrow> McpError + 'h ServerInner" where
  "admin_core (AddTool t) c =
     (if st_name t = [] then Inl (ErrArgument ''Tool name cannot be empty'')
      else map_sum id (\<lambda>m. c\<lparr> si_tools := m \<rparr>) (add_tool t (si_tools c)))"
| "admin_core (RemoveTool n) c = map_sum id (\<lambda>m. c\<lparr> si_tools := m \<rparr>) (remove_tool n (si_tools c))"
| "admin_core (AddPrompt p) c = map_sum id (\<lambda>m. c\<lparr> si_prompts := m \<rparr>) (add_prompt p (si_prompts c))"
| "admin_core (RemovePrompt n) c = Inr (c\<lparr> si_prompts := remove_prompt n (si_prompts c) \<rparr>)"
| "admin_core (AddResource r) c = map_sum id (\<lambda>m. c\<lparr> si_resources := m \<rparr>) (add_resource r (si_resources c))"
| "admin_core (RemoveResource u) c = map_sum id (\<lambda>m. c\<lparr> si_resources := m \<rparr>) (remove_resource u (si_resources c))"
| "admin_core (AddTemplate t) c = map_sum id (\<lambda>m. c\<lparr> si_resources := m \<rparr>) (add_resource_template t (si_resources c))"
| "admin_core (RemoveTemplate u) c = map_sum id (\<lambda>m. c\<lparr> si_resources := m \<rparr>) (remove_resource_template u (si_resources c))"

definition server_admin :: "'h AdminOp \<Rightarrow> 'h McpWorld \<Rightarrow> (McpError + unit) \<times> 'h McpWorld" where
  "server_admin op w =
     (case and_then (check_state w) (\<lambda>_. admin_core op (w_core w)) of
        Inl e \<Rightarrow> (Inl e, w)
      | Inr c \<Rightarrow> (Inr (), w\<lparr> w_core := c \<rparr>))"

definition register_set_logging_level_handler :: "(string \<Rightarrow> McpError + unit) \<Rightarrow> 'h McpWorld \<Rightarrow> 'h McpWorld" where
  "register_set_logging_level_handler f w = w\<lparr> w_core := (w_core w)\<lparr> si_set_level_handler := Some f \<rparr> \<rparr>"

definition add_completion :: "'h \<Rightarrow> 'h McpWorld \<Rightarrow> 'h McpWorld" where
  "add_completion f w = w\<lparr> w_core := (w_core w)\<lparr> si_complete_handler := Some f \<rparr> \<rparr>"

subsection \<open>HTTP requests\<close>

definition new_http_session :: "ServerConfig \<Rightarrow> HttpServerConfig \<Rightarrow> string \<Rightarrow> bool \<Rightarrow> McpError + McpEntry" where
  "new_http_session config cfg session_id stateless =
     map_sum id (\<lambda>t.
       \<lparr> en_transport = t,
         en_session = set_incoming_request_handler (set_server_capabilities (cf_capabilities config)
           (ServerSession_new config session_id stateless)) \<rparr>)
       (HttpTransport_new (if stateless then [] else session_id) (hc_json cfg) stateless)"

definition auth_error :: "RpcEnv \<Rightarrow> nat \<Rightarrow> string \<Rightarrow> string \<Rightarrow> HttpReply" where
  "auth_error env status txt message =
     Full \<lparr> hr_status = status, hr_headers = [(CONTENT_TYPE, CONTENT_TYPE_JSON), (''x-status-text'', txt)],
       hr_body = rpc_to_string env (JObj [(''error'', JStr message)]) \<rparr>"

definition internal_error :: "McpError \<Rightarrow> HttpReply" where
  "internal_error e =
     Full \<lparr> hr_status = 500, hr_headers = [(CONTENT_TYPE, CONTENT_TYPE_TEXT_PLAIN)],
       hr_body = ''Error: '' @ McpError_to_string e \<rparr>"

text \<open>The verdict of the hooks: \<open>None\<close> lets the request in; an outer \<open>None\<close> is a panic of the authenticator.\<close>

definition authorize_request :: "RpcEnv \<Rightarrow> HttpServerConfig \<Rightarrow> HeaderMap \<Rightarrow> HttpReply option option" where
  "authorize_request env cfg headers =
     (case hc_authenticator cfg of
        None \<Rightarrow> Some None
      | Some authenticate \<Rightarrow>
          map_option (\<lambda>r.
            if \<not> ar_authenticated r then
              Some (auth_error env 401 ''Unauthorized''
                (case ar_error_description r of Some d \<Rightarrow> d | None \<Rightarrow> ''Authentication failed''))
            else case hc_authorizer cfg of
              None \<Rightarrow> None
            | Some authorize \<Rightarrow>
                if \<not> authorize r then Some (auth_error env 403 ''Forbidden'' ''Insufficient permissions'') else None)
            (authenticate headers))"

definition rejected :: "HttpReply \<Rightarrow> bool" where
  "rejected reply = (case reply of Full r \<Rightarrow> 400 \<le> hr_status r | _ \<Rightarrow> False)"

definition sink_of :: "Delivery \<Rightarrow> nat option" where
  "sink_of d = (case d of (_, ctx) # _ \<Rightarrow> cx_sink ctx | [] \<Rightarrow> None)"

text \<open>The transport of entry \<open>n\<close> handles the request, and a task is spawned for what it delivers.\<close>

definition entry_handle :: "McpEnv \<Rightarrow> nat \<Rightarrow> HttpRequest \<Rightarrow> 'h McpWorld \<Rightarrow> HttpReply \<times> 'h McpWorld" where
  "entry_handle env n r w =
     (let e = w_entries w ! n;
          (reply, d, (t, h)) = transport_handle_request (me_rpc env) True r (en_transport e, w_heap w)
      in (reply,
          w\<lparr> w_entries := (w_entries w)[n := e\<lparr> en_transport := t \<rparr>], w_heap := h,
             w_tasks := w_tasks w @
               (if d = [] then [] else [\<lparr> tk_entry = n, tk_sink = sink_of d, tk_all = d, tk_queue = d, tk_running = None, tk_dead = False \<rparr>]) \<rparr>))"

definition add_entry :: "McpEntry \<Rightarrow> 'h McpWorld \<Rightarrow> nat \<times> 'h McpWorld" where
  "add_entry e w = (length (w_entries w), w\<lparr> w_entries := w_entries w @ [e] \<rparr>)"

definition session_not_found :: "RpcEnv \<Rightarrow> HttpReply" where
  "session_not_found env =
     Full \<lparr> hr_status = 404, hr_headers = [(CONTENT_TYPE, CONTENT_TYPE_JSON)],
       hr_body = rpc_to_string env (server_error_body (- 32600) ''Not Found: Invalid or expired session ID'') \<rparr>"

text \<open>After the request, a terminated session and a new one whose first request was rejected are dropped.\<close>

definition settle_entry :: "nat \<Rightarrow> bool \<Rightarrow> HttpReply \<times> 'h McpWorld \<Rightarrow> HttpReply \<times> 'h McpWorld" where
  "settle_entry n created rw =
     (let (reply, w) = rw; e = w_entries w ! n in
      if ht_terminated (en_transport e) \<or> (created \<and> rejected reply)
      then (reply, w\<lparr> w_sessions := im_remove (ss_session_id (en_session e)) (w_sessions w) \<rparr>)
      else (reply, w))"

definition serve_stateful :: "McpEnv \<Rightarrow> (nat \<Rightarrow> string) \<Rightarrow> HttpServerConfig \<Rightarrow> HttpRequest \<Rightarrow> 'h McpWorld \<Rightarrow> HttpReply \<times> 'h McpWorld" where
  "serve_stateful env uuid cfg r w =
     (let sid = header_or r MCP_SESSION_ID [] in
      if sid = [] then
        let i = uuid (w_uuids w); w0 = w\<lparr> w_uuids := Suc (w_uuids w) \<rparr> in
        (case new_http_session (w_config w) cfg i False of
           Inl e \<Rightarrow> (internal_error e, w0)
         | Inr e \<Rightarrow>
             let (n, w1) = add_entry e w0;
                 w2 = w1\<lparr> w_sessions := im_insert (ss_session_id (en_session e)) n (w_sessions w1) \<rparr>
             in settle_entry n True (entry_handle env n r w2))
      else case im_get (w_sessions w) sid of
             None \<Rightarrow> (session_not_found (me_rpc env), w)
           | Some n \<Rightarrow> settle_entry n False (entry_handle env n r w))"

definition manager_handle_request ::
    "McpEnv \<Rightarrow> (nat \<Rightarrow> string) \<Rightarrow> HttpRequest \<Rightarrow> 'h McpWorld \<Rightarrow> HttpReply option \<times> 'h McpWorld" where
  "manager_handle_request env uuid r w =
     (case w_transport_config w of
        None \<Rightarrow> (Some (Full \<lparr> hr_status = 404, hr_headers = [], hr_body = ''Endpoint not found'' \<rparr>), w)
      | Some cfg \<Rightarrow>
          (case authorize_request (me_rpc env) cfg (hq_headers r) of
             None \<Rightarrow> (None, w)
           | Some (Some refusal) \<Rightarrow> (Some refusal, w)
           | Some None \<Rightarrow>
               if hc_stateless cfg then
                 (case new_http_session (w_config w) cfg (header_or r MCP_SESSION_ID []) True of
                    Inl e \<Rightarrow> (Some (internal_error e), w)
                  | Inr e \<Rightarrow> let (n, w1) = add_entry e w in apfst Some (entry_handle env n r w1))
               else apfst Some (serve_stateful env uuid cfg r w)))"

definition server_stop :: "'h McpWorld \<Rightarrow> 'h McpWorld" where
  "server_stop w =
     (if w_state w \<noteq> StRunning then w
      else
        let stop_one = (\<lambda>(_, n) v.
              let (t, h) = transport_terminate (en_transport (w_entries v ! n), w_heap v)
              in v\<lparr> w_entries := (w_entries v)[n := (w_entries v ! n)\<lparr> en_transport := t \<rparr>], w_heap := h \<rparr>)
        in fold stop_one (w_sessions w) (w\<lparr> w_state := StStopped, w_sessions := [] \<rparr>))"

subsection \<open>Tasks\<close>

definition set_entry :: "nat \<Rightarrow> SessionState \<Rightarrow> 'h McpWorld \<Rightarrow> 'h McpWorld" where
  "set_entry n st w = w\<lparr> w_entries := (w_entries w)[n := fst st], w_heap := snd st \<rparr>"

definition set_task :: "nat \<Rightarrow> 'h McpTask \<Rightarrow> 'h McpWorld \<Rightarrow> 'h McpWorld" where
  "set_task k t w = w\<lparr> w_tasks := (w_tasks w)[k := t] \<rparr>"

text \<open>The next message of a task that is not in a handler.\<close>

definition task_step :: "McpEnv \<Rightarrow> nat \<Rightarrow> nat \<Rightarrow> 'h McpWorld \<Rightarrow> 'h McpWorld" where
  "task_step env now k w =
     (if k < length (w_tasks w) \<and> \<not> tk_dead (w_tasks w ! k) then
        let t = w_tasks w ! k; n = tk_entry t in
        (case (tk_running t, tk_queue t) of
           (None, (m, ctx) # rest) \<Rightarrow>
             let (d, st) = on_message_received env (w_core w) now m ctx (w_entries w ! n, w_heap w);
                 t' = (case (d, m) of
                         (Some (RunHandler run), MRequest r) \<Rightarrow>
                           t\<lparr> tk_queue := rest, tk_running := Some (rq_id r, ctx\<lparr> cx_method := rq_method r \<rparr>, run) \<rparr>
                       | (Some Panicked, _) \<Rightarrow> t\<lparr> tk_queue := rest, tk_dead := True \<rparr>
                       | _ \<Rightarrow> t\<lparr> tk_queue := rest \<rparr>)
             in set_task k t' (set_entry n st w)
         | _ \<Rightarrow> w)
      else w)"

definition task_finish :: "McpEnv \<Rightarrow> nat \<Rightarrow> HandlerOutcome \<Rightarrow> 'h McpWorld \<Rightarrow> 'h McpWorld" where
  "task_finish env k out w =
     (if k < length (w_tasks w) then
        let t = w_tasks w ! k; n = tk_entry t in
        (case tk_running t of
           Some (i, ctx, run) \<Rightarrow>
             (case finish_handler env run out of
                Some a \<Rightarrow>
                  set_task k (t\<lparr> tk_running := None \<rparr>) (set_entry n (send_answer env i a ctx (w_entries w ! n, w_heap w)) w)
              | None \<Rightarrow> w)
         | None \<Rightarrow> w)
      else w)"

text \<open>A handler that panics takes its task with it.\<close>

definition task_panic :: "nat \<Rightarrow> 'h McpWorld \<Rightarrow> 'h McpWorld" where
  "task_panic k w =
     (if k < length (w_tasks w) \<and> tk_running (w_tasks w ! k) \<noteq> None
      then set_task k ((w_tasks w ! k)\<lparr> tk_running := None, tk_dead := True \<rparr>) w else w)"

subsection \<open>The machine\<close>

text \<open>
  \<open>WNotify\<close> is a notification a handler or the application sends, \<open>WBegin\<close>, \<open>WSend\<close> and \<open>WAwait\<close> the three parts of a
  request to the client; \<open>WSinkGone\<close> and \<open>WStreamGone\<close> are clients that go away.
\<close>

datatype 'h mcp_event =
    WRequest HttpRequest
  | WTask nat nat
  | WFinish nat HandlerOutcome
  | WPanic nat
  | WAdmin "'h AdminOp"
  | WSetLevel "string \<Rightarrow> McpError + unit"
  | WCompletion 'h
  | WNotify nat string "json option"
  | WBegin nat ServerRequest
  | WSend nat nat nat RpcRequest
  | WAwait nat nat nat nat bool
  | WSinkGone nat
  | WStreamGone nat
  | WStop

definition on_entry :: "nat \<Rightarrow> (SessionState \<Rightarrow> SessionState) \<Rightarrow> 'h McpWorld \<Rightarrow> 'h McpWorld" where
  "on_entry n f w = (if n < length (w_entries w) then set_entry n (f (w_entries w ! n, w_heap w)) w else w)"

text \<open>Call \<open>c\<close> has been registered under the identifier of the request and not been sent.\<close>

definition is_sending :: "nat \<Rightarrow> RpcRequest \<Rightarrow> McpEntry \<Rightarrow> bool" where
  "is_sending c r e =
     (in_phase CallSending c (ss_pending (en_session e)) \<and> rq_id r = pl_id (pq_calls (ss_pending (en_session e)) ! c))"

definition is_awaiting :: "nat \<Rightarrow> McpEntry \<Rightarrow> bool" where
  "is_awaiting c e = in_phase CallAwaiting c (ss_pending (en_session e))"

fun mcp_step :: "McpEnv \<Rightarrow> (nat \<Rightarrow> string) \<Rightarrow> 'h mcp_event \<Rightarrow> 'h McpWorld \<Rightarrow> 'h McpWorld" where
  "mcp_step env uuid (WRequest r) w =
     (if w_state w = StRunning then snd (manager_handle_request env uuid r w) else w)"
| "mcp_step env uuid (WTask now k) w = task_step env now k w"
| "mcp_step env uuid (WFinish k out) w = task_finish env k out w"
| "mcp_step env uuid (WPanic k) w = task_panic k w"
| "mcp_step env uuid (WAdmin op) w = snd (server_admin op w)"
| "mcp_step env uuid (WSetLevel f) w = register_set_logging_level_handler f w"
| "mcp_step env uuid (WCompletion f) w = add_completion f w"
| "mcp_step env uuid (WNotify n meth params) w = on_entry n (\<lambda>st. snd (send_notification env meth params st)) w"
| "mcp_step env uuid (WBegin n req) w = on_entry n (\<lambda>st. snd (begin_request req st)) w"
| "mcp_step env uuid (WSend n now c r) w =
     on_entry n (\<lambda>st. if is_sending c r (fst st) then send_begun env now c r st else st) w"
| "mcp_step env uuid (WAwait n now c timeout timed_out) w =
     on_entry n (\<lambda>st. if is_awaiting c (fst st)
       then on_session (\<lambda>s. s\<lparr> ss_pending := await_response now c timeout timed_out (ss_pending s) \<rparr>) st else st) w"
| "mcp_step env uuid (WSinkGone i) w =
     (if i < length (hp_sinks (w_heap w)) then
        w\<lparr> w_heap := (w_heap w)\<lparr> hp_sinks := (hp_sinks (w_heap w))[i := (hp_sinks (w_heap w) ! i)\<lparr> sk_gone := True \<rparr>] \<rparr> \<rparr>
      else w)"
| "mcp_step env uuid (WStreamGone i) w =
     (if i < length (hp_streams (w_heap w)) then
        w\<lparr> w_heap := (w_heap w)\<lparr> hp_streams := (hp_streams (w_heap w))[i := (hp_streams (w_heap w) ! i)\<lparr> gs_gone := True \<rparr>] \<rparr> \<rparr>
      else w)"
| "mcp_step env uuid WStop w = server_stop w"

definition mcp_run :: "McpEnv \<Rightarrow> (nat \<Rightarrow> string) \<Rightarrow> 'h mcp_event list \<Rightarrow> 'h McpWorld \<Rightarrow> 'h McpWorld" where
  "mcp_run env uuid es w = fold (mcp_step env uuid) es w"

end
