(* ===== verification/McpServerLaws.thy ===== *)
theory McpServerLaws
  imports McpServer
begin

text \<open>
  What the MCP server does with a posted body.  In every run in which no request is cancelled, the responses
  in the sink of a body are those of its requests, one each and in their order, however the tasks of other
  bodies and other sessions interleave; and the reply is complete when the task is.
\<close>

subsection \<open>What is written to a sink\<close>

definition sink_put :: "RpcEnv \<Rightarrow> bool \<Rightarrow> Message \<Rightarrow> McpSink \<Rightarrow> McpSink" where
  "sink_put env js m s =
     (if js \<and> sk_json s then snd (deliver_json env (Message_to_value m) s)
      else case send_frame (event_data env m) s of
             (Inl _, s') \<Rightarrow> s'
           | (Inr _, s') \<Rightarrow> let (c, s2) = response_delivered s' in if c then finish_sink s2 else s2)"

definition put_sink :: "RpcEnv \<Rightarrow> bool \<Rightarrow> nat \<Rightarrow> Message \<Rightarrow> McpHeap \<Rightarrow> McpHeap" where
  "put_sink env js i m h = h\<lparr> hp_sinks := (hp_sinks h)[i := sink_put env js m (hp_sinks h ! i)] \<rparr>"

lemma sinks_put [simp]:
  "hp_sinks (put_sink env js i m h) = (hp_sinks h)[i := sink_put env js m (hp_sinks h ! i)]"
  "hp_streams (put_sink env js i m h) = hp_streams h"
  by (simp_all add: put_sink_def)

text \<open>The context of a message of a task with the sink \<open>s\<close>.\<close>

definition ctx_ok :: "nat option \<Rightarrow> RequestContext \<Rightarrow> bool" where
  "ctx_ok s c \<longleftrightarrow> \<not> cx_is_cancelled c \<and> \<not> cx_is_get_stream c \<and> cx_connection_id c \<noteq> 0 \<and> cx_sink c = s"

lemma ctx_ok_method [simp]: "ctx_ok s (c\<lparr> cx_method := m \<rparr>) = ctx_ok s c"
  by (simp add: ctx_ok_def)

lemma send_to_sink:
  assumes "ctx_ok (Some i) ctx" "is_response m" "i < length (hp_sinks h)"
  shows "snd (transport_send env m ctx (e, h)) = (e, put_sink (me_rpc env) (ht_json (en_transport e)) i m h)"
  using assms
  by (auto simp: transport_send_def send_message_def ctx_ok_def on_sink_def sink_put_def put_sink_def Let_def finish_sink_def
      split: prod.split sum.split)

text \<open>The response a request is answered with.\<close>

definition answer_response :: "RequestId \<Rightarrow> RpcError + json \<Rightarrow> RpcResponse" where
  "answer_response i a = (case a of Inr v \<Rightarrow> RpcResponse_success i v | Inl e \<Rightarrow> RpcResponse_error (Some i) e)"

lemma answer_response_id [simp]: "rs_id (answer_response i a) = Some i"
  by (simp add: answer_response_def RpcResponse_success_def RpcResponse_error_def split: sum.split)

text \<open>Sessions in which nothing has been cancelled.\<close>

definition session_ok :: "ServerSession \<Rightarrow> bool" where
  "session_ok s \<longleftrightarrow> ss_handler s \<and> (\<forall>p \<in> set (ss_requests s). \<not> cx_is_cancelled (snd p))"

lemma session_ok_forget [simp]: "session_ok s \<Longrightarrow> session_ok (forget_request i s)"
  by (auto simp: session_ok_def forget_request_def)

lemma session_ok_insert:
  "session_ok s \<Longrightarrow> \<not> cx_is_cancelled c \<Longrightarrow> session_ok (s\<lparr> ss_requests := im_insert i c (ss_requests s) \<rparr>)"
  by (auto simp: session_ok_def dest!: set_im_insertD)

lemma not_cancelled: "session_ok s \<Longrightarrow> \<not> was_cancelled i s"
  by (auto simp: session_ok_def was_cancelled_def split: option.split dest!: im_get_in_set)

lemma answered_sink:
  assumes "session_ok (en_session e)" "ctx_ok (Some i) ctx" "i < length (hp_sinks h)"
  shows "send_answer env rid a ctx (e, h) =
    (e\<lparr> en_session := forget_request rid (en_session e) \<rparr>,
     put_sink (me_rpc env) (ht_json (en_transport e)) i (MResponse (answer_response rid a)) h)"
  using assms not_cancelled [OF assms(1), of rid]
    send_to_sink [OF assms(2) _ assms(3), of _ env "e\<lparr> en_session := forget_request rid (en_session e) \<rparr>"]
  by (auto simp: send_answer_def send_response_def send_error_response_def on_session_def answer_response_def is_response_def ctx_ok_def
      split: sum.split)

lemma initialize_sink:
  assumes "session_ok (en_session e)" "ctx_ok (Some i) ctx" "i < length (hp_sinks h)"
  obtains s v where "handle_initialize env rid ps ctx (e, h) =
      (e\<lparr> en_session := s \<rparr>, put_sink (me_rpc env) (ht_json (en_transport e)) i (MResponse (RpcResponse_success rid v)) h)"
    "session_ok s" "ss_initialized s" "ss_stateless s = ss_stateless (en_session e)" "ss_session_id s = ss_session_id (en_session e)"
proof -
  let ?e = "e\<lparr> en_session := (en_session e)\<lparr> ss_client_capabilities := Some (ip_capabilities (initialize_params ps)) \<rparr> \<rparr>"
  let ?v = "InitializeResult_to_value (initialize_result (initialize_params ps) (en_session ?e))"
  have ok: "session_ok (en_session ?e)" using assms(1) by (simp add: session_ok_def)
  have r: "snd (send_response env rid ?v ctx (?e, h)) =
      (?e\<lparr> en_session := forget_request rid (en_session ?e) \<rparr>,
       put_sink (me_rpc env) (ht_json (en_transport e)) i (MResponse (RpcResponse_success rid ?v)) h)"
    using answered_sink [OF ok assms(2,3), of env rid "Inr ?v"] by (simp add: send_answer_def answer_response_def)
  show ?thesis
    by (rule that [of "(forget_request rid (en_session ?e))\<lparr> ss_initialized := True \<rparr>" ?v])
      (use r ok in \<open>simp_all add: handle_initialize_def on_session_def Let_def session_ok_def forget_request_def\<close>)
qed

text \<open>
  A message of a task.  Either nothing is written, or one response to the sink of the task, with the
  identifier of the request.
\<close>

definition is_cancel :: "Message \<Rightarrow> bool" where
  "is_cancel m = (case m of MNotification n \<Rightarrow> nt_method n = ''notifications/cancelled'' | _ \<Rightarrow> False)"

definition suspended :: "'h Dispatch option \<Rightarrow> bool" where
  "suspended d = (case d of Some (RunHandler _) \<Rightarrow> True | Some Panicked \<Rightarrow> True | _ \<Rightarrow> False)"

lemma request_received:
  assumes ok: "session_ok (en_session e)" and ctx: "ctx_ok (Some i) ctx" and i: "i < length (hp_sinks h)"
  shows "\<exists>d s h'. received_request env core r ctx (e, h) = (d, (e\<lparr> en_session := s \<rparr>, h')) \<and> session_ok s \<and>
     (if suspended d then h' = h
      else \<exists>resp. rs_id resp = Some (rq_id r) \<and> h' = put_sink (me_rpc env) (ht_json (en_transport e)) i (MResponse resp) h)"
proof -
  let ?ctx = "ctx\<lparr> cx_method := rq_method r \<rparr>"
  have c: "ctx_ok (Some i) ?ctx" using ctx by simp
  let ?s = "(en_session e)\<lparr> ss_requests := im_insert (rq_id r) ?ctx (ss_requests (en_session e)) \<rparr>"
  have s: "session_ok ?s" using ok ctx by (intro session_ok_insert) (simp_all add: ctx_ok_def)
  consider (init) "rq_method r = ''initialize''"
    | (early) "rq_method r \<noteq> ''initialize''" "\<not> ss_stateless (en_session e)" "\<not> ss_initialized (en_session e)"
    | (run) "rq_method r \<noteq> ''initialize''" "ss_stateless (en_session e) \<or> ss_initialized (en_session e)" by blast
  then show ?thesis
  proof cases
    case init
    obtain s v where "handle_initialize env (rq_id r) (rq_params r) ?ctx (e, h) =
        (e\<lparr> en_session := s \<rparr>, put_sink (me_rpc env) (ht_json (en_transport e)) i (MResponse (RpcResponse_success (rq_id r) v)) h)"
      "session_ok s"
      using initialize_sink [OF ok c i] by metis
    moreover have "rs_id (RpcResponse_success (rq_id r) v) = Some (rq_id r)" by (simp add: RpcResponse_success_def)
    ultimately show ?thesis
      using init unfolding received_request_def suspended_def by (simp add: Let_def) blast
  next
    case early
    then show ?thesis
      using answered_sink [OF ok c i, of env "rq_id r" "Inl (NOT_INITIALIZED (rq_method r))"] ok
      by (auto simp: received_request_def suspended_def send_answer_def intro!: exI answer_response_id)
  next
    case run
    have h: "ss_handler (en_session e)" using ok by (simp add: session_ok_def)
    have r: "received_request env core r ctx (e, h) =
        (Some (dispatch env core r), case dispatch env core r of
           Answer a \<Rightarrow> send_answer env (rq_id r) a ?ctx (e\<lparr> en_session := ?s \<rparr>, h)
         | _ \<Rightarrow> (e\<lparr> en_session := ?s \<rparr>, h))"
      using run h by (auto simp: received_request_def Let_def on_session_def)
    show ?thesis
    proof (cases "dispatch env core r")
      case (Answer a)
      with r s answered_sink [of "e\<lparr> en_session := ?s \<rparr>", OF _ c i, of env "rq_id r" a] show ?thesis
        by (auto simp: suspended_def intro!: exI answer_response_id)
    qed (use r s in \<open>auto simp: suspended_def\<close>)
  qed
qed

lemma other_received:
  assumes ok: "session_ok (en_session e)" and "\<not> is_request m" "\<not> is_cancel m"
  shows "\<exists>s. on_message_received env core now m ctx (e, h) = (None, (e\<lparr> en_session := s \<rparr>, h)) \<and> session_ok s"
proof (cases m)
  case (MNotification n)
  let ?s = "if nt_method n = ''notifications/initialized'' then (en_session e)\<lparr> ss_initialized := True \<rparr> else en_session e"
  from MNotification assms show ?thesis
    by (intro exI [of _ ?s]) (simp add: on_message_received_def received_notification_def is_cancel_def on_session_def session_ok_def)
next
  case (MResponse r)
  from MResponse assms show ?thesis
    by (intro exI [of _ "session_handle_response now r (en_session e)"])
      (simp add: on_message_received_def on_session_def session_handle_response_def session_ok_def Let_def split: option.split)
qed (use assms in \<open>simp add: is_request_def\<close>)

subsection \<open>What a request adds\<close>

definition fresh_sink :: "bool \<Rightarrow> nat \<Rightarrow> bool \<Rightarrow> (string \<times> string) list \<Rightarrow> McpSink" where
  "fresh_sink js n batch headers = (if js then ResponseSink_json n batch headers else ResponseSink_sse n)"

definition request_ids :: "Delivery \<Rightarrow> RequestId list" where
  "request_ids d = List.map_filter (\<lambda>(m, _). case m of MRequest r \<Rightarrow> Some (rq_id r) | _ \<Rightarrow> None) d"

lemma request_ids_simps [simp]:
  "request_ids [] = []" "request_ids (xs @ ys) = request_ids xs @ request_ids ys"
  "request_ids ((m, c) # xs) = (case m of MRequest r \<Rightarrow> rq_id r # request_ids xs | _ \<Rightarrow> request_ids xs)"
  by (simp_all add: request_ids_def List.map_filter_def split: Message.split)

lemma length_request_ids:
  "length (request_ids (map (with_method ctx) ms)) = length (filter is_request ms)"
  "length (request_ids (map (\<lambda>m. (m, ctx)) ms)) = length (filter is_request ms)"
  by (induction ms) (auto simp: with_method_def is_request_def split: Message.split)

text \<open>The messages of a posted body.\<close>

definition posted :: "RpcEnv \<Rightarrow> HttpRequest \<Rightarrow> Message list" where
  "posted env r =
     (case parse_payload env (hq_body r) of Inr (Single m) \<Rightarrow> [m] | Inr (Batch ms) \<Rightarrow> ms | Inl err \<Rightarrow> [MResponse (to_error_response err)])"

definition frame :: "HttpTransport \<Rightarrow> HttpTransport \<Rightarrow> bool" where
  "frame t t' \<longleftrightarrow> ht_json t' = ht_json t \<and> ht_counter t \<le> ht_counter t' \<and> ht_counter t' \<le> ht_counter t + 1"

definition spawned :: "RpcEnv \<Rightarrow> bool \<Rightarrow> Delivery \<Rightarrow> McpHeap \<Rightarrow> McpHeap \<Rightarrow> bool" where
  "spawned env js d h h' \<longleftrightarrow>
     (\<forall>p \<in> set d. ctx_ok (sink_of d) (snd p)) \<and>
     (case sink_of d of
        None \<Rightarrow> request_ids d = [] \<and> hp_sinks h' = hp_sinks h
      | Some i \<Rightarrow> i = length (hp_sinks h) \<and> request_ids d \<noteq> [] \<and>
          (\<exists>batch headers. hp_sinks h' = hp_sinks h @ [fresh_sink js (length (request_ids d)) batch headers] \<and>
             (js \<and> \<not> batch \<longrightarrow> length (request_ids d) = 1)))"

lemma spawned_nothing: "hp_sinks h' = hp_sinks h \<Longrightarrow> spawned env js [] h h'"
  by (simp add: spawned_def sink_of_def)

lemma wrap64_small: "1 \<le> x \<Longrightarrow> x < 2 ^ 63 - 1 \<Longrightarrow> wrap64 (x + 1) = x + 1"
  by (simp add: wrap64_def)

lemma payload_spawned:
  assumes "deliver_payload env ms batch (t, h) = (reply, d, (t', h'))" "1 \<le> ht_counter t" "ht_counter t < 2 ^ 63 - 1" "ms \<noteq> []"
    "batch \<or> length ms = 1"
  shows "frame t t' \<and> spawned env (ht_json t) d h h' \<and> fst ` set d = set ms"
proof -
  obtain m ms' where ms: "ms = m # ms'" using assms(4) by (cases ms) auto
  let ?ctx = "\<lambda>s. fst (new_context s t)"
  have c: "ctx_ok s (?ctx s)" for s using assms(2) by (simp add: ctx_ok_def new_context_def)
  have sm: "sink_of (map (with_method (?ctx s)) ms) = s" "sink_of (map (\<lambda>m. (m, ?ctx s)) ms) = s" for s
    by (simp_all add: ms sink_of_def with_method_def new_context_def)
  have all: "\<forall>p \<in> set (map (with_method (?ctx s)) ms). ctx_ok s (snd p)" "\<forall>p \<in> set (map (\<lambda>m. (m, ?ctx s)) ms). ctx_ok s (snd p)" for s
    using c by (auto simp: with_method_def)
  have ms1: "fst ` set (map (with_method x) ms) = set ms" "fst ` set (map (\<lambda>m. (m, x)) ms) = set ms" for x
    by (auto simp: with_method_def image_image)
  have t: "frame t (snd (new_context s t))" for s using assms(2,3) by (simp add: frame_def new_context_def wrap64_small)
  consider (none) "filter is_request ms = []" | (js) "filter is_request ms \<noteq> []" "ht_json t" | (sse) "filter is_request ms \<noteq> []" "\<not> ht_json t"
    by blast
  then show ?thesis
  proof cases
    case none
    with assms(1) have "d = map (\<lambda>m. (m, ?ctx None)) ms" "t' = snd (new_context None t)" "h' = h"
      by (auto simp: deliver_payload_def Let_def split: prod.splits)
    moreover have "request_ids (map (\<lambda>m. (m, ?ctx None)) ms) = []"
      using length_request_ids(2) [of "?ctx None" ms] none by simp
    ultimately show ?thesis using sm(2) [of None] all(2) [of None] t ms1(2) unfolding spawned_def by simp
  next
    case js
    with assms(1) have d: "d = map (with_method (?ctx (Some (length (hp_sinks h))))) ms" "t' = snd (new_context (Some (length (hp_sinks h))) t)"
      "\<exists>headers. hp_sinks h' = hp_sinks h @ [fresh_sink True (length (filter is_request ms)) batch headers]"
      by (auto simp: deliver_payload_def Let_def fresh_sink_def split: prod.splits)
    moreover have "request_ids d \<noteq> []" using js length_request_ids(1) [of "?ctx (Some (length (hp_sinks h)))" ms] d(1) by fastforce
    moreover have "length (filter is_request ms) = 1" if "length ms = 1"
      using that js(1) length_filter_le [of is_request ms] by (cases "filter is_request ms") auto
    then have "batch \<or> length (request_ids d) = 1" using assms(5) by (auto simp: d(1) length_request_ids)
    ultimately show ?thesis
      using sm(1) [of "Some (length (hp_sinks h))"] all(1) [of "Some (length (hp_sinks h))"] t ms1(1) js unfolding spawned_def
      by (auto simp: length_request_ids)
  next
    case sse
    with assms(1) have d: "d = map (with_method (?ctx (Some (length (hp_sinks h))))) ms" "t' = snd (new_context (Some (length (hp_sinks h))) t)"
      "hp_sinks h' = hp_sinks h @ [fresh_sink False (length (filter is_request ms)) False []]"
      by (auto simp: deliver_payload_def Let_def fresh_sink_def split: prod.splits)
    moreover have "request_ids d \<noteq> []" using sse length_request_ids(1) [of "?ctx (Some (length (hp_sinks h)))" ms] d(1) by fastforce
    ultimately show ?thesis
      using sm(1) [of "Some (length (hp_sinks h))"] all(1) [of "Some (length (hp_sinks h))"] t ms1(1) sse unfolding spawned_def
      by (auto simp: length_request_ids fresh_sink_def)
  qed
qed

lemma collect_results_nonempty: "collect_results f xs = Inr ys \<Longrightarrow> xs \<noteq> [] \<Longrightarrow> ys \<noteq> []"
  by (cases xs) auto

lemma batch_nonempty: "parse_payload env s = Inr (Batch ms) \<Longrightarrow> ms \<noteq> []"
  by (auto simp: parse_payload_def map_sum_def dest: collect_results_nonempty split: sum.splits json.splits if_splits)

lemma frame_refl [simp]: "frame t t"
  by (simp add: frame_def)

lemma error_spawned:
  assumes "1 \<le> ht_counter t" "ht_counter t < 2 ^ 63 - 1"
  shows "frame t (snd (new_context None t))" "spawned env js [(MResponse m, fst (new_context None t))] h h"
  using assms by (simp_all add: frame_def new_context_def wrap64_small spawned_def sink_of_def ctx_ok_def)

text \<open>A request to the transport of a session.\<close>

lemma handle_post_cases:
  "(\<exists>reply. handle_post env True r (t, h) = (reply, [], (t, h))) \<or>
   handle_post env True r (t, h) =
     (case parse_payload env (hq_body r) of
        Inr (Single m) \<Rightarrow> deliver_payload env [m] False (t, h)
      | Inr (Batch ms) \<Rightarrow> deliver_payload env ms True (t, h)
      | Inl err \<Rightarrow> (json_response (snd (new_context None t)) None 202,
          [(MResponse (to_error_response err), fst (new_context None t))], (snd (new_context None t), h)))"
proof (cases "parse_payload env (hq_body r)")
  case (Inl e)
  then show ?thesis
    by (auto simp: handle_post_def Let_def split_beta split: option.split sum.split)
next
  case (Inr p)
  then show ?thesis
    by (cases p) (simp_all add: handle_post_def split: option.split sum.split)
qed

lemma post_spawned:
  assumes "handle_post env True r (t, h) = (reply, d, (t', h'))" "1 \<le> ht_counter t" "ht_counter t < 2 ^ 63 - 1"
  shows "frame t t' \<and> spawned env (ht_json t) d h h' \<and> fst ` set d \<subseteq> set (posted env r)"
proof (cases "d = [] \<and> t' = t \<and> h' = h")
  case True
  then show ?thesis by (simp add: spawned_nothing)
next
  case False
  then consider (single) m where "parse_payload env (hq_body r) = Inr (Single m)" "deliver_payload env [m] False (t, h) = (reply, d, (t', h'))"
    | (batch) ms where "parse_payload env (hq_body r) = Inr (Batch ms)" "deliver_payload env ms True (t, h) = (reply, d, (t', h'))"
    | (err) e where "parse_payload env (hq_body r) = Inl e" "d = [(MResponse (to_error_response e), fst (new_context None t))]"
        "t' = snd (new_context None t)" "h' = h"
    using assms(1) handle_post_cases [of env r t h] by (auto split: sum.splits Incoming.splits)
  then show ?thesis
  proof cases
    case single
    with payload_spawned [OF single(2) assms(2,3)] show ?thesis by (simp add: posted_def)
  next
    case batch
    with payload_spawned [OF batch(2) assms(2,3) batch_nonempty [OF batch(1)]] show ?thesis by (simp add: posted_def)
  next
    case err
    with error_spawned [OF assms(2,3)] show ?thesis by (simp add: posted_def)
  qed
qed

lemma push_stream_sinks [simp]: "hp_sinks (push_stream i f h) = hp_sinks h"
  by (simp add: push_stream_def)

lemma terminate_quiet:
  "transport_terminate (t, h) = (t', h') \<Longrightarrow> ht_json t' = ht_json t \<and> ht_counter t' = ht_counter t \<and> hp_sinks h' = hp_sinks h"
  by (auto simp: transport_terminate_def split: option.split)

lemma request_spawned:
  assumes "transport_handle_request env True r (t, h) = (reply, d, (t', h'))" "1 \<le> ht_counter t" "ht_counter t < 2 ^ 63 - 1"
  shows "frame t t' \<and> spawned env (ht_json t) d h h' \<and> fst ` set d \<subseteq> set (posted env r)"
proof -
  consider (post) "handle_post env True r (t, h) = (reply, d, (t', h'))"
    | (get) "handle_get env r (t, h) = (reply, (t', h'))" "d = []"
    | (delete) "handle_delete env r (t, h) = (reply, (t', h'))" "d = []"
    | (none) "d = []" "t' = t" "h' = h"
    using assms(1) by (auto simp: transport_handle_request_def Let_def split: if_splits prod.splits)
  then show ?thesis
  proof cases
    case post
    with post_spawned [OF post assms(2,3)] show ?thesis by simp
  next
    case get
    then have "frame t t'" "hp_sinks h' = hp_sinks h"
      by (auto simp: handle_get_def Let_def frame_def split: if_splits option.splits)
    with get show ?thesis by (simp add: spawned_nothing)
  next
    case delete
    then have "frame t t' \<and> hp_sinks h' = hp_sinks h"
      using terminate_quiet [of t h t' h'] by (auto simp: handle_delete_def Let_def frame_def split: if_splits)
    with delete show ?thesis by (simp add: spawned_nothing)
  qed (simp add: spawned_nothing)
qed

subsection \<open>The invariant\<close>

definition running_ids :: "'h McpTask \<Rightarrow> RequestId list" where
  "running_ids t = (case tk_running t of Some (i, _, _) \<Rightarrow> [i] | None \<Rightarrow> [])"

definition put_all :: "RpcEnv \<Rightarrow> bool \<Rightarrow> RpcResponse list \<Rightarrow> McpSink \<Rightarrow> McpSink" where
  "put_all env js rs s = fold (\<lambda>r. sink_put env js (MResponse r)) rs s"

text \<open>The sink of a task has the responses of the requests that are done.\<close>

definition written :: "RpcEnv \<Rightarrow> bool \<Rightarrow> 'h McpTask \<Rightarrow> McpSink \<Rightarrow> bool" where
  "written env js t s \<longleftrightarrow>
     (\<exists>pre rs batch headers. tk_all t = pre @ tk_queue t \<and> map rs_id rs @ map Some (running_ids t) = map Some (request_ids pre) \<and>
        s = put_all env js rs (fresh_sink js (length (request_ids (tk_all t))) batch headers) \<and>
        (js \<and> \<not> batch \<longrightarrow> length (request_ids (tk_all t)) = 1))"

definition task_ok :: "RpcEnv \<Rightarrow> 'h McpWorld \<Rightarrow> 'h McpTask \<Rightarrow> bool" where
  "task_ok env w t \<longleftrightarrow>
     tk_entry t < length (w_entries w) \<and> set (tk_queue t) \<subseteq> set (tk_all t) \<and>
     (\<forall>p \<in> set (tk_all t). ctx_ok (tk_sink t) (snd p) \<and> \<not> is_cancel (fst p)) \<and>
     (\<forall>i c run. tk_running t = Some (i, c, run) \<longrightarrow> ctx_ok (tk_sink t) c) \<and>
     (case tk_sink t of
        None \<Rightarrow> request_ids (tk_all t) = [] \<and> tk_running t = None
      | Some i \<Rightarrow> i < length (hp_sinks (w_heap w)) \<and> request_ids (tk_all t) \<noteq> [] \<and>
          (tk_dead t \<or> sk_gone (hp_sinks (w_heap w) ! i) \<or>
           written env (ht_json (en_transport (w_entries w ! tk_entry t))) t (hp_sinks (w_heap w) ! i)))"

definition entry_ok :: "int \<Rightarrow> McpEntry \<Rightarrow> bool" where
  "entry_ok b e \<longleftrightarrow> session_ok (en_session e) \<and> 1 \<le> ht_counter (en_transport e) \<and> ht_counter (en_transport e) \<le> b"

definition sinks_apart :: "'h McpTask list \<Rightarrow> bool" where
  "sinks_apart ts \<longleftrightarrow>
     (\<forall>j k. j < length ts \<longrightarrow> k < length ts \<longrightarrow> j \<noteq> k \<longrightarrow> tk_sink (ts ! j) \<noteq> None \<longrightarrow> tk_sink (ts ! j) \<noteq> tk_sink (ts ! k))"

definition world_inv :: "RpcEnv \<Rightarrow> int \<Rightarrow> 'h McpWorld \<Rightarrow> bool" where
  "world_inv env b w \<longleftrightarrow>
     (\<forall>e \<in> set (w_entries w). entry_ok b e) \<and> (\<forall>t \<in> set (w_tasks w). task_ok env w t) \<and> sinks_apart (w_tasks w)"

text \<open>Changes that leave tasks and sinks alone.\<close>

definition same_kind :: "McpEntry list \<Rightarrow> McpEntry list \<Rightarrow> bool" where
  "same_kind es es' \<longleftrightarrow> length es \<le> length es' \<and> (\<forall>n < length es. ht_json (en_transport (es' ! n)) = ht_json (en_transport (es ! n)))"

lemma task_ok_cong:
  assumes "task_ok env w t" "same_kind (w_entries w) (w_entries w')" "length (hp_sinks (w_heap w)) \<le> length (hp_sinks (w_heap w'))"
    "\<And>i. tk_sink t = Some i \<Longrightarrow> hp_sinks (w_heap w') ! i = hp_sinks (w_heap w) ! i"
  shows "task_ok env w' t"
  using assms by (auto simp: task_ok_def same_kind_def split: option.split)

lemma same_kind_update: "ht_json (en_transport e) = ht_json (en_transport (es ! n)) \<Longrightarrow> same_kind es (es[n := e])"
  by (cases "n < length es") (auto simp: same_kind_def nth_list_update)

lemma entries_update:
  "\<forall>e \<in> set es. entry_ok b e \<Longrightarrow> entry_ok b' e' \<Longrightarrow> b \<le> b' \<Longrightarrow> \<forall>e \<in> set (es[n := e']). entry_ok b' e"
  by (auto simp: entry_ok_def dest!: set_update_subset_insert [THEN subsetD])

lemma quiet_inv:
  assumes "world_inv env b w" "w_tasks w' = w_tasks w" "hp_sinks (w_heap w') = hp_sinks (w_heap w)"
    "same_kind (w_entries w) (w_entries w')" "\<forall>e \<in> set (w_entries w'). entry_ok b' e"
  shows "world_inv env b' w'"
  using assms by (auto simp: world_inv_def intro: task_ok_cong)

lemma inv_mono: "world_inv env b w \<Longrightarrow> b \<le> b' \<Longrightarrow> world_inv env b' w"
  by (auto simp: world_inv_def entry_ok_def)

definition quiet_op :: "(SessionState \<Rightarrow> SessionState) \<Rightarrow> bool" where
  "quiet_op f \<longleftrightarrow>
     (\<forall>e h. hp_sinks (snd (f (e, h))) = hp_sinks h \<and> ht_json (en_transport (fst (f (e, h)))) = ht_json (en_transport e) \<and>
       ht_counter (en_transport (fst (f (e, h)))) = ht_counter (en_transport e) \<and>
       (session_ok (en_session e) \<longrightarrow> session_ok (en_session (fst (f (e, h))))))"

lemma on_entry_inv:
  assumes "world_inv env b w" "quiet_op f"
  shows "world_inv env b (on_entry n f w)"
proof (cases "n < length (w_entries w)")
  case True
  obtain e' h' where f: "f (w_entries w ! n, w_heap w) = (e', h')" by fastforce
  from assms(2) have q: "hp_sinks h' = hp_sinks (w_heap w)" "ht_json (en_transport e') = ht_json (en_transport (w_entries w ! n))"
    "ht_counter (en_transport e') = ht_counter (en_transport (w_entries w ! n))"
    "session_ok (en_session (w_entries w ! n)) \<longrightarrow> session_ok (en_session e')"
    unfolding quiet_op_def by (metis f fst_conv snd_conv)+
  have "entry_ok b (w_entries w ! n)" using assms(1) True by (simp add: world_inv_def)
  then have "entry_ok b e'" using q by (simp add: entry_ok_def)
  then have "\<forall>e \<in> set ((w_entries w)[n := e']). entry_ok b e"
    using assms(1) by (intro entries_update [of _ b]) (simp_all add: world_inv_def)
  moreover have "same_kind (w_entries w) ((w_entries w)[n := e'])" using q by (intro same_kind_update)
  ultimately show ?thesis
    using True f q by (auto simp: on_entry_def set_entry_def intro!: quiet_inv [OF assms(1)])
qed (use assms in \<open>simp add: on_entry_def\<close>)

lemma quiet_send:
  assumes "\<And>e. cx_connection_id (ctx e) = 0"
  shows "quiet_op (\<lambda>st. snd (transport_send env m (ctx (fst st)) st))"
  using assms by (auto simp: quiet_op_def transport_send_def send_message_def Let_def split: option.split)

lemma quiet_session:
  assumes "\<And>s. ss_requests (f s) = ss_requests s" "\<And>s. ss_handler (f s) = ss_handler s"
  shows "quiet_op (on_session f)"
  using assms by (auto simp: quiet_op_def on_session_def session_ok_def)

lemma quiet_comp: "quiet_op f \<Longrightarrow> quiet_op g \<Longrightarrow> quiet_op (\<lambda>st. f (g st))"
  unfolding quiet_op_def by (metis prod.collapse)

lemma quiet_if: "quiet_op f \<Longrightarrow> quiet_op (\<lambda>st. if P st then f st else st)"
  by (auto simp: quiet_op_def)

subsection \<open>Every event keeps it\<close>

definition new_task :: "nat \<Rightarrow> Delivery \<Rightarrow> 'h McpTask" where
  "new_task n d = \<lparr> tk_entry = n, tk_sink = sink_of d, tk_all = d, tk_queue = d, tk_running = None, tk_dead = False \<rparr>"

lemma new_task_sink [simp]: "tk_sink (new_task n d) = sink_of d"
  by (simp add: new_task_def)

lemma fresh_task_ok:
  assumes "spawned env js d h (w_heap w)" "n < length (w_entries w)" "js = ht_json (en_transport (w_entries w ! n))"
    "\<forall>p \<in> set d. \<not> is_cancel (fst p)"
  shows "task_ok env (w :: 'h McpWorld) (new_task n d)"
proof (cases "sink_of d")
  case None
  with assms show ?thesis by (simp add: task_ok_def new_task_def spawned_def)
next
  case (Some i)
  with assms(1) obtain batch headers where i: "i = length (hp_sinks h)" "request_ids d \<noteq> []"
    "hp_sinks (w_heap w) = hp_sinks h @ [fresh_sink js (length (request_ids d)) batch headers]"
    "js \<and> \<not> batch \<longrightarrow> length (request_ids d) = 1" "\<forall>p \<in> set d. ctx_ok (Some i) (snd p)"
    by (auto simp: spawned_def)
  then have "written env js (new_task n d :: 'h McpTask) (hp_sinks (w_heap w) ! i)"
    unfolding written_def
    by (intro exI [of _ "[]"] exI [of _ batch] exI [of _ headers]) (simp add: new_task_def running_ids_def put_all_def)
  with Some i assms(2-4) show ?thesis by (simp add: task_ok_def new_task_def)
qed

lemma sinks_apart_snoc:
  assumes "sinks_apart ts" "\<And>u. u \<in> set ts \<Longrightarrow> tk_sink u = None \<or> tk_sink u \<noteq> tk_sink t"
  shows "sinks_apart (ts @ [t])"
  unfolding sinks_apart_def
proof (intro allI impI)
  fix j k
  assume jk: "j < length (ts @ [t])" "k < length (ts @ [t])" "j \<noteq> k" "tk_sink ((ts @ [t]) ! j) \<noteq> None"
  then consider "j < length ts" "k < length ts" | "j = length ts" "k < length ts" | "j < length ts" "k = length ts" by fastforce
  then show "tk_sink ((ts @ [t]) ! j) \<noteq> tk_sink ((ts @ [t]) ! k)"
  proof cases
    case 1
    with assms(1) jk show ?thesis by (simp add: sinks_apart_def nth_append)
  next
    case 2
    with assms(2) [of "ts ! k"] jk show ?thesis by (auto simp: nth_append)
  next
    case 3
    with assms(2) [of "ts ! j"] jk show ?thesis by (auto simp: nth_append)
  qed
qed

lemma entry_handle_inv:
  assumes inv: "world_inv (me_rpc env) b w" and n: "n < length (w_entries w)" and b: "b < 2 ^ 63 - 1"
    and free: "\<forall>m \<in> set (posted (me_rpc env) r). \<not> is_cancel m"
  shows "world_inv (me_rpc env) (b + 1) (snd (entry_handle env n r w))" (is "world_inv _ _ ?w'")
proof -
  let ?e = "w_entries w ! n" and ?rpc = "me_rpc env"
  obtain reply d t' h' where r: "transport_handle_request ?rpc True r (en_transport ?e, w_heap w) = (reply, d, (t', h'))"
    by (metis prod.exhaust)
  have e: "entry_ok b ?e" using inv n by (simp add: world_inv_def)
  then have eff: "frame (en_transport ?e) t'" "spawned ?rpc (ht_json (en_transport ?e)) d (w_heap w) h'" "fst ` set d \<subseteq> set (posted ?rpc r)"
    using request_spawned [OF r] b by (auto simp: entry_ok_def)
  let ?es = "(w_entries w)[n := ?e\<lparr> en_transport := t' \<rparr>]"
  have w': "?w' = w\<lparr> w_entries := ?es, w_heap := h', w_tasks := w_tasks w @ (if d = [] then [] else [new_task n d]) \<rparr>"
    by (simp add: entry_handle_def r new_task_def)
  have es: "\<forall>e \<in> set ?es. entry_ok (b + 1) e"
    using inv e eff(1) by (intro entries_update [of _ b]) (simp_all add: world_inv_def entry_ok_def frame_def)
  have kind: "same_kind (w_entries w) ?es" using eff(1) by (intro same_kind_update) (simp add: frame_def)
  have sinks: "length (hp_sinks (w_heap w)) \<le> length (hp_sinks h')" "i < length (hp_sinks (w_heap w)) \<Longrightarrow> hp_sinks h' ! i = hp_sinks (w_heap w) ! i" for i
    using eff(2) by (auto simp: spawned_def nth_append split: option.splits)
  have sk: "i < length (hp_sinks (w_heap w))" if "t \<in> set (w_tasks w)" "tk_sink t = Some i" for t i
    using inv that by (auto simp: world_inv_def task_ok_def)
  have old: "task_ok ?rpc ?w' t" if "t \<in> set (w_tasks w)" for t
    by (rule task_ok_cong [of ?rpc w]) (use inv that kind sinks sk [OF that] in \<open>simp_all add: world_inv_def w'\<close>)
  have "ht_json (en_transport (w_entries ?w' ! n)) = ht_json (en_transport ?e)" using eff(1) n by (simp add: w' frame_def)
  moreover have "\<forall>p \<in> set d. \<not> is_cancel (fst p)" using eff(3) free by auto
  ultimately have new: "task_ok ?rpc ?w' (new_task n d)"
    using eff(2) n by (intro fresh_task_ok [of _ "ht_json (en_transport ?e)" _ "w_heap w"]) (simp_all add: w')
  have "tk_sink u = None \<or> tk_sink u \<noteq> tk_sink (new_task n d)" if "u \<in> set (w_tasks w)" for u
    using sk [OF that] eff(2) by (cases "tk_sink u") (auto simp: spawned_def split: option.splits)
  then have "sinks_apart (w_tasks ?w')"
    using inv sinks_apart_snoc [of "w_tasks w" "new_task n d"] by (auto simp: w' world_inv_def)
  with es old new show ?thesis unfolding world_inv_def by (auto simp: w')
qed

lemma new_entry_ok: "new_http_session config cfg sid stateless = Inr e \<Longrightarrow> 1 \<le> b \<Longrightarrow> entry_ok b e"
  by (auto simp: new_http_session_def HttpTransport_new_def entry_ok_def session_ok_def set_incoming_request_handler_def
      set_server_capabilities_def ServerSession_new_def split: if_splits)

lemma add_entry_inv:
  assumes "world_inv env b w" "entry_ok b e" "w_tasks w' = w_tasks w" "w_heap w' = w_heap w" "w_entries w' = w_entries w @ [e]"
  shows "world_inv env b w'"
  by (rule quiet_inv [OF assms(1)]) (use assms in \<open>auto simp: same_kind_def nth_append world_inv_def\<close>)

lemma same_inv:
  assumes "world_inv env b w" "w_tasks w' = w_tasks w" "w_heap w' = w_heap w" "w_entries w' = w_entries w"
  shows "world_inv env b w'"
  by (rule quiet_inv [OF assms(1)]) (use assms in \<open>simp_all add: same_kind_def world_inv_def\<close>)

lemma sessions_inv:
  "world_inv env b w \<Longrightarrow> world_inv env b (w\<lparr> w_sessions := ss \<rparr>)" "world_inv env b w \<Longrightarrow> world_inv env b (w\<lparr> w_uuids := u \<rparr>)"
  by (erule same_inv; simp)+

lemma settle_entry_inv: "world_inv env b (snd rw) \<Longrightarrow> world_inv env b (snd (settle_entry n created rw))"
  by (auto simp: settle_entry_def Let_def sessions_inv split: prod.split)

text \<open>The table names sessions that exist.\<close>

definition table_ok :: "'h McpWorld \<Rightarrow> bool" where
  "table_ok w \<longleftrightarrow> snd ` set (w_sessions w) \<subseteq> {..< length (w_entries w)}"

lemma entry_handle_table: "table_ok w \<Longrightarrow> table_ok (snd (entry_handle env n r w))"
  by (simp add: entry_handle_def table_ok_def Let_def split: prod.split)

lemma settle_entry_table: "table_ok (snd rw) \<Longrightarrow> table_ok (snd (settle_entry n created rw))"
  by (fastforce simp: settle_entry_def table_ok_def Let_def split: prod.split)

lemma stateful_inv:
  assumes inv: "world_inv (me_rpc env) b w" and tab: "table_ok w" and b: "1 \<le> b" "b < 2 ^ 63 - 1"
    and free: "\<forall>m \<in> set (posted (me_rpc env) r). \<not> is_cancel m"
  shows "world_inv (me_rpc env) (b + 1) (snd (serve_stateful env uuid cfg r w)) \<and> table_ok (snd (serve_stateful env uuid cfg r w))"
proof (cases "header_or r MCP_SESSION_ID [] = []")
  case True
  let ?s = "new_http_session (w_config w) cfg (uuid (w_uuids w)) False"
  show ?thesis
  proof (cases ?s)
    case (Inl e)
    with True inv tab show ?thesis by (auto simp: serve_stateful_def Let_def table_ok_def intro: inv_mono sessions_inv)
  next
    case (Inr e)
    let ?n = "length (w_entries w)"
    let ?w = "w\<lparr> w_uuids := Suc (w_uuids w), w_entries := w_entries w @ [e],
      w_sessions := im_insert (ss_session_id (en_session e)) ?n (w_sessions w) \<rparr>"
    have i: "world_inv (me_rpc env) b ?w" by (rule add_entry_inv [OF inv new_entry_ok [OF Inr b(1)]]) simp_all
    have "table_ok ?w" using tab by (fastforce simp: table_ok_def dest!: set_im_insertD)
    with i entry_handle_inv [OF i _ b(2) free, of ?n] show ?thesis
      using True Inr by (auto simp: serve_stateful_def Let_def add_entry_def intro!: settle_entry_inv settle_entry_table entry_handle_table)
  qed
next
  case False
  show ?thesis
  proof (cases "im_get (w_sessions w) (header_or r MCP_SESSION_ID [])")
    case None
    with False inv tab show ?thesis by (auto simp: serve_stateful_def Let_def intro: inv_mono)
  next
    case (Some n)
    then have "n < length (w_entries w)" using tab by (force simp: table_ok_def dest!: im_get_in_set)
    with False Some entry_handle_inv [OF inv _ b(2) free] tab show ?thesis
      by (auto simp: serve_stateful_def Let_def intro!: settle_entry_inv settle_entry_table entry_handle_table)
  qed
qed

lemma manager_inv:
  assumes inv: "world_inv (me_rpc env) b w" and tab: "table_ok w" and b: "1 \<le> b" "b < 2 ^ 63 - 1"
    and free: "\<forall>m \<in> set (posted (me_rpc env) r). \<not> is_cancel m"
  shows "world_inv (me_rpc env) (b + 1) (snd (manager_handle_request env uuid r w)) \<and> table_ok (snd (manager_handle_request env uuid r w))"
proof -
  have same: "world_inv (me_rpc env) (b + 1) w" by (rule inv_mono [OF inv]) simp
  have stateless: "world_inv (me_rpc env) (b + 1) (snd (entry_handle env (length (w_entries w)) r (w\<lparr> w_entries := w_entries w @ [e] \<rparr>))) \<and>
      table_ok (snd (entry_handle env (length (w_entries w)) r (w\<lparr> w_entries := w_entries w @ [e] \<rparr>)))"
    if "new_http_session (w_config w) cfg sid True = Inr e" for cfg sid e
  proof -
    have i: "world_inv (me_rpc env) b (w\<lparr> w_entries := w_entries w @ [e] \<rparr>)"
      by (rule add_entry_inv [OF inv new_entry_ok [OF that b(1)]]) simp_all
    have "table_ok (w\<lparr> w_entries := w_entries w @ [e] \<rparr>)" using tab by (auto simp: table_ok_def)
    with entry_handle_inv [OF i _ b(2) free] show ?thesis by (simp add: entry_handle_table)
  qed
  show ?thesis
    using same tab stateless stateful_inv [OF inv tab b free]
    by (auto simp: manager_handle_request_def add_entry_def split: option.split sum.split)
qed

subsubsection \<open>Tasks\<close>

lemma sinks_apartD:
  assumes "sinks_apart ts" "j < length ts" "k < length ts" "j \<noteq> k" "tk_sink (ts ! j) = Some i"
  shows "tk_sink (ts ! k) \<noteq> Some i"
proof -
  have "tk_sink (ts ! j) \<noteq> tk_sink (ts ! k)" using assms unfolding sinks_apart_def by blast
  with assms(5) show ?thesis by simp
qed

lemma task_update_inv:
  assumes inv: "world_inv env b w" and k: "k < length (w_tasks w)" and e: "e' = (w_entries w ! tk_entry (w_tasks w ! k))\<lparr> en_session := s \<rparr>" "session_ok s"
    and t: "tk_sink t' = tk_sink (w_tasks w ! k)" "task_ok env (set_task k t' (set_entry (tk_entry (w_tasks w ! k)) (e', h') w)) t'"
    and h: "length (hp_sinks h') = length (hp_sinks (w_heap w))"
      "\<And>i. tk_sink (w_tasks w ! k) \<noteq> Some i \<Longrightarrow> hp_sinks h' ! i = hp_sinks (w_heap w) ! i"
  shows "world_inv env b (set_task k t' (set_entry (tk_entry (w_tasks w ! k)) (e', h') w))" (is "world_inv env b ?w'")
proof -
  let ?n = "tk_entry (w_tasks w ! k)"
  have n: "?n < length (w_entries w)" using inv k by (auto simp: world_inv_def task_ok_def)
  have w': "w_entries ?w' = (w_entries w)[?n := e']" "w_heap ?w' = h'" "w_tasks ?w' = (w_tasks w)[k := t']"
    by (simp_all add: set_task_def set_entry_def)
  have "entry_ok b (w_entries w ! ?n)" using inv n by (simp add: world_inv_def)
  then have es: "\<forall>e \<in> set (w_entries ?w'). entry_ok b e"
    unfolding w' using inv e by (intro entries_update [of _ b]) (simp_all add: world_inv_def entry_ok_def)
  have kind: "same_kind (w_entries w) (w_entries ?w')" unfolding w' by (rule same_kind_update) (simp add: e)
  have "task_ok env ?w' ((w_tasks ?w') ! j)" if j: "j < length (w_tasks w)" for j
  proof (cases "j = k")
    case False
    have "task_ok env w (w_tasks w ! j)" using inv j by (simp add: world_inv_def)
    moreover have "tk_sink (w_tasks w ! k) \<noteq> Some i" if "tk_sink (w_tasks w ! j) = Some i" for i
      using inv j k False that by (intro sinks_apartD [of _ j]) (simp_all add: world_inv_def)
    ultimately have "task_ok env ?w' (w_tasks w ! j)"
      using kind h task_ok_cong [of env w "w_tasks w ! j" ?w'] by (simp add: w')
    then show ?thesis using False by (simp add: w')
  qed (use t k in \<open>simp add: w'\<close>)
  then have "\<forall>u \<in> set (w_tasks ?w'). task_ok env ?w' u" by (auto simp: in_set_conv_nth w')
  moreover have "tk_sink ((w_tasks w)[k := t'] ! j) = tk_sink (w_tasks w ! j)" for j
    using t(1) k by (cases "j = k") simp_all
  then have "sinks_apart (w_tasks ?w')" using inv by (simp add: world_inv_def sinks_apart_def w')
  ultimately show ?thesis using es by (simp add: world_inv_def)
qed

lemma written_answered:
  assumes "written env js t s" "tk_queue t = (MRequest r, c) # rest" "tk_running t = None" "rs_id resp = Some (rq_id r)"
  shows "written env js (t\<lparr> tk_queue := rest \<rparr>) (sink_put env js (MResponse resp) s)"
proof -
  obtain pre rs batch headers where w: "tk_all t = pre @ tk_queue t" "map rs_id rs @ map Some (running_ids t) = map Some (request_ids pre)"
    "s = put_all env js rs (fresh_sink js (length (request_ids (tk_all t))) batch headers)"
    "js \<and> \<not> batch \<longrightarrow> length (request_ids (tk_all t)) = 1"
    using assms(1) unfolding written_def by blast
  show ?thesis unfolding written_def
    by (intro exI [of _ "pre @ [(MRequest r, c)]"] exI [of _ "rs @ [resp]"] exI [of _ batch] exI [of _ headers])
      (use w assms in \<open>simp add: running_ids_def put_all_def\<close>)
qed

lemma written_suspended:
  assumes "written env js t s" "tk_queue t = (MRequest r, c) # rest" "tk_running t = None"
  shows "written env js (t\<lparr> tk_queue := rest, tk_running := Some (rq_id r, c', run) \<rparr>) s"
proof -
  obtain pre rs batch headers where w: "tk_all t = pre @ tk_queue t" "map rs_id rs @ map Some (running_ids t) = map Some (request_ids pre)"
    "s = put_all env js rs (fresh_sink js (length (request_ids (tk_all t))) batch headers)"
    "js \<and> \<not> batch \<longrightarrow> length (request_ids (tk_all t)) = 1"
    using assms(1) unfolding written_def by blast
  show ?thesis unfolding written_def
    by (intro exI [of _ "pre @ [(MRequest r, c)]"] exI [of _ rs] exI [of _ batch] exI [of _ headers])
      (use w assms in \<open>simp add: running_ids_def\<close>)
qed

lemma written_other:
  assumes "written env js t s" "tk_queue t = (m, c) # rest" "\<not> is_request m"
  shows "written env js (t\<lparr> tk_queue := rest \<rparr>) s"
proof -
  obtain pre rs batch headers where w: "tk_all t = pre @ tk_queue t" "map rs_id rs @ map Some (running_ids t) = map Some (request_ids pre)"
    "s = put_all env js rs (fresh_sink js (length (request_ids (tk_all t))) batch headers)"
    "js \<and> \<not> batch \<longrightarrow> length (request_ids (tk_all t)) = 1"
    using assms(1) unfolding written_def by blast
  have "request_ids [(m, c)] = []" using assms(3) by (simp add: is_request_def split: Message.splits)
  then show ?thesis unfolding written_def
    by (intro exI [of _ "pre @ [(m, c)]"] exI [of _ rs] exI [of _ batch] exI [of _ headers])
      (use w assms in \<open>simp add: running_ids_def\<close>)
qed

lemma written_finished:
  assumes "written env js t s" "tk_running t = Some (i, c, run)" "rs_id resp = Some i"
  shows "written env js (t\<lparr> tk_running := None \<rparr>) (sink_put env js (MResponse resp) s)"
proof -
  obtain pre rs batch headers where w: "tk_all t = pre @ tk_queue t" "map rs_id rs @ map Some (running_ids t) = map Some (request_ids pre)"
    "s = put_all env js rs (fresh_sink js (length (request_ids (tk_all t))) batch headers)"
    "js \<and> \<not> batch \<longrightarrow> length (request_ids (tk_all t)) = 1"
    using assms(1) unfolding written_def by blast
  show ?thesis unfolding written_def
    by (intro exI [of _ pre] exI [of _ "rs @ [resp]"] exI [of _ batch] exI [of _ headers])
      (use w assms in \<open>simp add: running_ids_def put_all_def\<close>)
qed

lemma put_gone: "sk_gone (sink_put env js m s) = sk_gone s"
  by (auto simp: sink_put_def deliver_json_def send_frame_def response_delivered_def finish_sink_def Let_def split: sum.split)

lemma request_in_ids: "(MRequest r, c) \<in> set d \<Longrightarrow> request_ids d \<noteq> []"
  by (induction d) (auto split: Message.splits)

lemma task_ok_step:
  assumes ok: "task_ok env w t" and n: "tk_entry t' = tk_entry t" and all: "tk_all t' = tk_all t" "tk_sink t' = tk_sink t"
    and q: "set (tk_queue t') \<subseteq> set (tk_all t)" "\<And>i c run. tk_running t' = Some (i, c, run) \<Longrightarrow> ctx_ok (tk_sink t) c"
    and none: "tk_sink t = None \<Longrightarrow> tk_running t' = None"
    and w': "same_kind (w_entries w) (w_entries w')" "length (hp_sinks (w_heap w')) = length (hp_sinks (w_heap w))"
    and sink: "\<And>i. tk_sink t = Some i \<Longrightarrow> tk_dead t' \<or> sk_gone (hp_sinks (w_heap w') ! i) \<or>
       written env (ht_json (en_transport (w_entries w ! tk_entry t))) t' (hp_sinks (w_heap w') ! i)"
  shows "task_ok env w' t'"
proof -
  have "tk_entry t < length (w_entries w)" using ok by (simp add: task_ok_def)
  then have "tk_entry t < length (w_entries w')" "ht_json (en_transport (w_entries w' ! tk_entry t)) = ht_json (en_transport (w_entries w ! tk_entry t))"
    using w'(1) by (auto simp: same_kind_def)
  with ok all q none w'(2) sink n show ?thesis by (cases "tk_sink t") (auto simp: task_ok_def)
qed

lemma step_same_kind: "same_kind (w_entries w) (w_entries (set_task k t' (set_entry n ((w_entries w ! n)\<lparr> en_session := s \<rparr>, h') w)))"
  by (simp add: set_task_def set_entry_def same_kind_update)

lemma step_heap: "w_heap (set_task k t' (set_entry n (e, h') w)) = h'"
  by (simp add: set_task_def set_entry_def)

lemma request_step_inv:
  assumes inv: "world_inv (me_rpc env) b w" and k: "k < length (w_tasks w)" and t: "t = w_tasks w ! k"
    and idle: "tk_running t = None" "\<not> tk_dead t" and q: "tk_queue t = (MRequest r, ctx) # rest"
  shows "world_inv (me_rpc env) b (task_step env now k w)"
proof -
  let ?n = "tk_entry t" and ?rpc = "me_rpc env"
  let ?e = "w_entries w ! ?n"
  let ?js = "ht_json (en_transport ?e)"
  have ok: "task_ok ?rpc w t" using inv k t by (simp add: world_inv_def)
  then have n: "?n < length (w_entries w)" and mem: "(MRequest r, ctx) \<in> set (tk_all t)" and rest: "set rest \<subseteq> set (tk_all t)"
    using q by (auto simp: task_ok_def)
  from ok mem obtain i where i: "tk_sink t = Some i" "i < length (hp_sinks (w_heap w))" "ctx_ok (Some i) ctx"
      "tk_dead t \<or> sk_gone (hp_sinks (w_heap w) ! i) \<or> written ?rpc ?js t (hp_sinks (w_heap w) ! i)"
    using request_in_ids [OF mem] by (cases "tk_sink t") (fastforce simp: task_ok_def)+
  have s0: "session_ok (en_session ?e)" using inv n by (auto simp: world_inv_def entry_ok_def)
  obtain d s h' where r: "received_request env (w_core w) r ctx (?e, w_heap w) = (d, (?e\<lparr> en_session := s \<rparr>, h'))" "session_ok s"
      "if suspended d then h' = w_heap w
       else \<exists>resp. rs_id resp = Some (rq_id r) \<and> h' = put_sink ?rpc ?js i (MResponse resp) (w_heap w)"
    using request_received [OF s0 i(3,2)] by metis
  define t' where "t' = (case d of
       Some (RunHandler run) \<Rightarrow> t\<lparr> tk_queue := rest, tk_running := Some (rq_id r, ctx\<lparr> cx_method := rq_method r \<rparr>, run) \<rparr>
     | Some Panicked \<Rightarrow> t\<lparr> tk_queue := rest, tk_dead := True \<rparr> | _ \<Rightarrow> t\<lparr> tk_queue := rest \<rparr>)"
  let ?w' = "set_task k t' (set_entry ?n (?e\<lparr> en_session := s \<rparr>, h') w)"
  have w': "task_step env now k w = ?w'"
    using k t idle q r(1) by (auto simp: task_step_def on_message_received_def t'_def Let_def split: option.split Dispatch.split)
  have h': "length (hp_sinks h') = length (hp_sinks (w_heap w))" "j \<noteq> i \<Longrightarrow> hp_sinks h' ! j = hp_sinks (w_heap w) ! j" for j
    using r(3) by (auto split: if_splits)
  have t's: "tk_entry t' = tk_entry t" "tk_all t' = tk_all t" "tk_sink t' = tk_sink t" "set (tk_queue t') \<subseteq> set (tk_all t)"
    using rest by (auto simp: t'_def split: option.split Dispatch.split)
  have "tk_dead t' \<or> sk_gone (hp_sinks h' ! i) \<or> written ?rpc ?js t' (hp_sinks h' ! i)"
  proof (cases "suspended d")
    case True
    with r(3) i(4) written_suspended [OF _ q idle(1)] show ?thesis
      by (auto simp: t'_def suspended_def split: option.splits Dispatch.splits)
  next
    case False
    then obtain resp where "rs_id resp = Some (rq_id r)" "hp_sinks h' ! i = sink_put ?rpc ?js (MResponse resp) (hp_sinks (w_heap w) ! i)"
      using r(3) i(2) by auto
    moreover have "t' = t\<lparr> tk_queue := rest \<rparr>" using False by (auto simp: t'_def suspended_def split: option.splits Dispatch.splits)
    ultimately show ?thesis using i(4) written_answered [OF _ q idle(1)] by (auto simp: put_gone)
  qed
  moreover have "ctx_ok (tk_sink t) c" if "tk_running t' = Some (j, c, run)" for j c run
    using that i idle by (auto simp: t'_def split: option.splits Dispatch.splits)
  ultimately have "task_ok ?rpc ?w' t'"
    using i(1) h'(1) by (intro task_ok_step [OF ok t's(1-4)] step_same_kind) (auto simp: step_heap)
  then show ?thesis
    unfolding w' using inv k t r(2) t's h' i(1) by (intro task_update_inv [OF inv k, folded t]) auto
qed

lemma other_step_inv:
  assumes inv: "world_inv (me_rpc env) b w" and k: "k < length (w_tasks w)" and t: "t = w_tasks w ! k"
    and idle: "tk_running t = None" "\<not> tk_dead t" and q: "tk_queue t = (m, ctx) # rest" and m: "\<not> is_request m"
  shows "world_inv (me_rpc env) b (task_step env now k w)"
proof -
  let ?n = "tk_entry t" and ?rpc = "me_rpc env"
  let ?e = "w_entries w ! ?n"
  have ok: "task_ok ?rpc w t" using inv k t by (simp add: world_inv_def)
  then have n: "?n < length (w_entries w)" and mem: "(m, ctx) \<in> set (tk_all t)" and rest: "set rest \<subseteq> set (tk_all t)"
    using q by (auto simp: task_ok_def)
  have s0: "session_ok (en_session ?e)" using inv n by (auto simp: world_inv_def entry_ok_def)
  have "\<not> is_cancel m" using ok mem by (auto simp: task_ok_def)
  from other_received [OF s0 m this, of env "w_core w" now ctx "w_heap w"] obtain s
    where s: "on_message_received env (w_core w) now m ctx (?e, w_heap w) = (None, (?e\<lparr> en_session := s \<rparr>, w_heap w))" "session_ok s"
    by blast
  let ?t = "t\<lparr> tk_queue := rest \<rparr>"
  let ?w' = "set_task k ?t (set_entry ?n (?e\<lparr> en_session := s \<rparr>, w_heap w) w)"
  have w': "task_step env now k w = ?w'"
    using k t idle q s(1) by (simp add: task_step_def Let_def)
  have "tk_dead ?t \<or> sk_gone (hp_sinks (w_heap w) ! i) \<or> written ?rpc (ht_json (en_transport ?e)) ?t (hp_sinks (w_heap w) ! i)"
    if "tk_sink t = Some i" for i
    using ok that written_other [OF _ q m] by (auto simp: task_ok_def)
  then have "task_ok ?rpc ?w' ?t"
    using rest idle by (intro task_ok_step [OF ok] step_same_kind) (auto simp: step_heap)
  then show ?thesis
    unfolding w' using inv k t s(2) by (intro task_update_inv [OF inv k, folded t]) auto
qed

lemma task_step_inv:
  assumes inv: "world_inv (me_rpc env) b w"
  shows "world_inv (me_rpc env) b (task_step env now k w)"
proof (cases "k < length (w_tasks w) \<and> \<not> tk_dead (w_tasks w ! k) \<and> tk_running (w_tasks w ! k) = None \<and> tk_queue (w_tasks w ! k) \<noteq> []")
  case True
  then obtain m ctx rest where q: "tk_queue (w_tasks w ! k) = (m, ctx) # rest"
    by (cases "tk_queue (w_tasks w ! k)") auto
  show ?thesis
  proof (cases m)
    case (MRequest r)
    with True q show ?thesis by (intro request_step_inv [OF inv _ refl, of k r ctx rest]) auto
  qed (use True q in \<open>auto simp: is_request_def intro!: other_step_inv [OF inv _ refl]\<close>)
next
  case False
  then have "task_step env now k w = w" by (auto simp: task_step_def Let_def split: option.split list.split)
  with inv show ?thesis by simp
qed

lemma task_finish_inv:
  assumes inv: "world_inv (me_rpc env) b w"
  shows "world_inv (me_rpc env) b (task_finish env k out w)"
proof (cases "\<exists>i ctx run a. k < length (w_tasks w) \<and> tk_running (w_tasks w ! k) = Some (i, ctx, run) \<and> finish_handler env run out = Some a")
  case True
  then obtain rid ctx run a where k: "k < length (w_tasks w)" and run: "tk_running (w_tasks w ! k) = Some (rid, ctx, run)"
    and a: "finish_handler env run out = Some a" by blast
  let ?t = "w_tasks w ! k" and ?rpc = "me_rpc env"
  let ?n = "tk_entry ?t"
  let ?e = "w_entries w ! ?n"
  let ?js = "ht_json (en_transport ?e)"
  have ok: "task_ok ?rpc w ?t" using inv k by (simp add: world_inv_def)
  then have n: "?n < length (w_entries w)" and ctx: "ctx_ok (tk_sink ?t) ctx" using run by (auto simp: task_ok_def)
  from ok run obtain i where i: "tk_sink ?t = Some i" "i < length (hp_sinks (w_heap w))"
      "tk_dead ?t \<or> sk_gone (hp_sinks (w_heap w) ! i) \<or> written ?rpc ?js ?t (hp_sinks (w_heap w) ! i)"
    by (cases "tk_sink ?t") (auto simp: task_ok_def)
  have s0: "session_ok (en_session ?e)" using inv n by (auto simp: world_inv_def entry_ok_def)
  let ?resp = "answer_response rid a"
  let ?h = "put_sink ?rpc ?js i (MResponse ?resp) (w_heap w)" and ?s = "forget_request rid (en_session ?e)"
  have "send_answer env rid a ctx (?e, w_heap w) = (?e\<lparr> en_session := ?s \<rparr>, ?h)"
    using answered_sink [OF s0] ctx i by simp
  then have w': "task_finish env k out w = set_task k (?t\<lparr> tk_running := None \<rparr>) (set_entry ?n (?e\<lparr> en_session := ?s \<rparr>, ?h) w)"
    using k run a by (simp add: task_finish_def Let_def)
  have "tk_dead ?t \<or> sk_gone (hp_sinks ?h ! i) \<or> written ?rpc ?js (?t\<lparr> tk_running := None \<rparr>) (hp_sinks ?h ! i)"
    using i written_finished [OF _ run, of ?rpc ?js _ ?resp] by (auto simp: put_gone)
  then have "task_ok ?rpc (set_task k (?t\<lparr> tk_running := None \<rparr>) (set_entry ?n (?e\<lparr> en_session := ?s \<rparr>, ?h) w)) (?t\<lparr> tk_running := None \<rparr>)"
    using ok i(1) by (intro task_ok_step [OF ok] step_same_kind) (auto simp: step_heap task_ok_def)
  then show ?thesis
    unfolding w' using i(1) by (intro task_update_inv [OF inv k refl session_ok_forget [OF s0]]) (auto simp: nth_list_update)
next
  case False
  then have "task_finish env k out w = w" by (auto simp: task_finish_def Let_def split: option.split)
  with inv show ?thesis by simp
qed

lemma task_panic_inv:
  assumes inv: "world_inv env b w"
  shows "world_inv env b (task_panic k w)"
proof (cases "k < length (w_tasks w) \<and> tk_running (w_tasks w ! k) \<noteq> None")
  case True
  let ?t = "w_tasks w ! k"
  let ?t' = "?t\<lparr> tk_running := None, tk_dead := True \<rparr>" and ?n = "tk_entry ?t"
  let ?w' = "set_task k ?t' (set_entry ?n ((w_entries w ! ?n)\<lparr> en_session := en_session (w_entries w ! ?n) \<rparr>, w_heap w) w)"
  have ok: "task_ok env w ?t" using inv True by (simp add: world_inv_def)
  then have n: "?n < length (w_entries w)" by (simp add: task_ok_def)
  then have s: "session_ok (en_session (w_entries w ! ?n))" using inv by (auto simp: world_inv_def entry_ok_def)
  have "task_ok env ?w' ?t'" using ok by (intro task_ok_step [OF ok] step_same_kind) (auto simp: step_heap task_ok_def)
  then have "world_inv env b ?w'" using True s by (intro task_update_inv [OF inv]) auto
  moreover have "?w' = task_panic k w" using True n by (simp add: task_panic_def set_entry_def set_task_def)
  ultimately show ?thesis by simp
qed (use inv in \<open>auto simp: task_panic_def\<close>)

subsubsection \<open>Runs\<close>

lemma on_entry_table: "table_ok w \<Longrightarrow> table_ok (on_entry n f w)"
  by (simp add: on_entry_def table_ok_def set_entry_def)

lemma task_table:
  "table_ok w \<Longrightarrow> table_ok (task_step env now k w)" "table_ok w \<Longrightarrow> table_ok (task_finish env k out w)" "table_ok w \<Longrightarrow> table_ok (task_panic k w)"
  by (auto simp: table_ok_def task_step_def task_finish_def task_panic_def set_task_def set_entry_def Let_def
      split: prod.split option.split list.split)

lemma stop_one_inv:
  assumes "world_inv env b w" "n < length (w_entries w)" "transport_terminate (en_transport (w_entries w ! n), w_heap w) = (t, h)"
  shows "world_inv env b (w\<lparr> w_entries := (w_entries w)[n := (w_entries w ! n)\<lparr> en_transport := t \<rparr>], w_heap := h \<rparr>)"
proof (rule quiet_inv [OF assms(1)])
  have q: "ht_json t = ht_json (en_transport (w_entries w ! n))" "ht_counter t = ht_counter (en_transport (w_entries w ! n))" "hp_sinks h = hp_sinks (w_heap w)"
    using terminate_quiet [OF assms(3)] by simp_all
  have e: "entry_ok b (w_entries w ! n)" using assms by (simp add: world_inv_def)
  show "\<forall>e \<in> set (w_entries (w\<lparr> w_entries := (w_entries w)[n := (w_entries w ! n)\<lparr> en_transport := t \<rparr>], w_heap := h \<rparr>)). entry_ok b e"
    using assms(1) e q entries_update [of "w_entries w" b b "(w_entries w ! n)\<lparr> en_transport := t \<rparr>" n]
    by (simp add: world_inv_def entry_ok_def)
qed (use terminate_quiet [OF assms(3)] in \<open>simp_all add: same_kind_update\<close>)

lemma stop_inv:
  assumes "world_inv env b w" "table_ok w"
  shows "world_inv env b (server_stop w) \<and> table_ok (server_stop w)"
proof -
  let ?one = "\<lambda>p v. case transport_terminate (en_transport (w_entries v ! snd p), w_heap v) of
      (t, h) \<Rightarrow> v\<lparr> w_entries := (w_entries v)[snd p := (w_entries v ! snd p)\<lparr> en_transport := t \<rparr>], w_heap := h \<rparr>"
  have "world_inv env b (fold ?one ps v) \<and> w_sessions (fold ?one ps v) = w_sessions v"
    if "world_inv env b v" "snd ` set ps \<subseteq> {..< length (w_entries v)}" for ps :: "(string \<times> nat) list" and v :: "'a McpWorld"
    using that
  proof (induction ps arbitrary: v)
    case (Cons p ps)
    obtain t h where th: "transport_terminate (en_transport (w_entries v ! snd p), w_heap v) = (t, h)" by fastforce
    let ?v = "v\<lparr> w_entries := (w_entries v)[snd p := (w_entries v ! snd p)\<lparr> en_transport := t \<rparr>], w_heap := h \<rparr>"
    have "world_inv env b ?v" using stop_one_inv [OF Cons.prems(1) _ th] Cons.prems(2) by simp
    with Cons.IH [of ?v] Cons.prems(2) show ?case by (simp add: th)
  qed simp
  from this [of "w\<lparr> w_state := StStopped, w_sessions := [] \<rparr>" "w_sessions w"] assms same_inv [OF assms(1)]
  show ?thesis by (auto simp: server_stop_def table_ok_def Let_def case_prod_unfold)
qed

text \<open>No message that an event brings is a cancellation.\<close>

definition uncancelled :: "McpEnv \<Rightarrow> 'h mcp_event \<Rightarrow> bool" where
  "uncancelled env e = (case e of WRequest r \<Rightarrow> list_all (\<lambda>m. \<not> is_cancel m) (posted (me_rpc env) r) | _ \<Rightarrow> True)"

lemma core_inv: "world_inv env b w \<Longrightarrow> world_inv env b (w\<lparr> w_core := c \<rparr>)" "table_ok w \<Longrightarrow> table_ok (w\<lparr> w_core := c \<rparr>)"
  by (erule same_inv; simp) (simp add: table_ok_def)

lemma sink_gone_inv:
  assumes "world_inv env b w" "i < length (hp_sinks (w_heap w))"
    "w' = w\<lparr> w_heap := (w_heap w)\<lparr> hp_sinks := (hp_sinks (w_heap w))[i := (hp_sinks (w_heap w) ! i)\<lparr> sk_gone := True \<rparr>] \<rparr> \<rparr>"
  shows "world_inv env b w'"
proof -
  have "task_ok env w' t" if "task_ok env w t" for t
    using that assms(2) by (auto simp: task_ok_def assms(3) nth_list_update split: option.splits)
  with assms show ?thesis by (auto simp: world_inv_def)
qed

lemma begin_request_quiet: "quiet_op (\<lambda>st. snd (begin_request req st))"
  by (auto simp: quiet_op_def begin_request_def on_session_def session_ok_def split: sum.split prod.split)

lemma send_begun_quiet: "quiet_op (send_begun env now c r)"
proof -
  let ?ctx = "\<lambda>e. server_initiated (ss_session_id (en_session e)) (rq_method r)"
  have q: "quiet_op (\<lambda>st. snd (transport_send env (MRequest r) (?ctx (fst st)) st))" by (rule quiet_send) (simp add: server_initiated_def)
  show ?thesis unfolding quiet_op_def
  proof (intro allI)
    fix e h
    obtain x e' h' where s: "transport_send env (MRequest r) (?ctx e) (e, h) = (x, (e', h'))" by (metis prod.exhaust)
    with q have "hp_sinks h' = hp_sinks h" "ht_json (en_transport e') = ht_json (en_transport e)" "ht_counter (en_transport e') = ht_counter (en_transport e)"
      "session_ok (en_session e) \<longrightarrow> session_ok (en_session e')"
      unfolding quiet_op_def by (metis fst_conv snd_conv)+
    then show "hp_sinks (snd (send_begun env now c r (e, h))) = hp_sinks h \<and>
        ht_json (en_transport (fst (send_begun env now c r (e, h)))) = ht_json (en_transport e) \<and>
        ht_counter (en_transport (fst (send_begun env now c r (e, h)))) = ht_counter (en_transport e) \<and>
        (session_ok (en_session e) \<longrightarrow> session_ok (en_session (fst (send_begun env now c r (e, h)))))"
      using s by (simp add: send_begun_def on_session_def session_ok_def)
  qed
qed

lemma notification_quiet: "quiet_op (\<lambda>st. snd (send_notification env meth ps st))"
  unfolding send_notification_def
  by (rule quiet_send [of "\<lambda>e. (server_initiated (ss_session_id (en_session e)) meth)\<lparr> cx_is_get_stream := True \<rparr>"]) (simp add: server_initiated_def)

lemma mcp_step_inv:
  assumes inv: "world_inv (me_rpc env) b w" and tab: "table_ok w" and b: "1 \<le> b" "b < 2 ^ 63 - 1" and e: "uncancelled env e"
  shows "world_inv (me_rpc env) (b + 1) (mcp_step env uuid e w) \<and> table_ok (mcp_step env uuid e w)"
proof -
  have up: "world_inv (me_rpc env) (b + 1) v" if "world_inv (me_rpc env) b v" for v :: "'a McpWorld"
    using that by (rule inv_mono) simp
  have quiet: "world_inv (me_rpc env) (b + 1) (on_entry n f w) \<and> table_ok (on_entry n f w)" if "quiet_op f" for n f
    using up [OF on_entry_inv [OF inv that]] on_entry_table [OF tab] by blast
  show ?thesis
  proof (cases e)
    case (WRequest r)
    then show ?thesis using manager_inv [OF inv tab b, of r uuid] e up [OF inv] tab by (auto simp: uncancelled_def list_all_iff)
  next
    case (WTask now k)
    then show ?thesis using up [OF task_step_inv [OF inv]] task_table(1) [OF tab] by simp
  next
    case (WFinish k out)
    then show ?thesis using up [OF task_finish_inv [OF inv]] task_table(2) [OF tab] by simp
  next
    case (WPanic k)
    then show ?thesis using up [OF task_panic_inv [OF inv]] task_table(3) [OF tab] by simp
  next
    case (WAdmin op)
    then show ?thesis using up [OF inv] tab by (auto simp: server_admin_def core_inv split: sum.split)
  next
    case (WSetLevel f)
    then show ?thesis using up [OF inv] tab by (simp add: register_set_logging_level_handler_def core_inv)
  next
    case (WCompletion f)
    then show ?thesis using up [OF inv] tab by (simp add: add_completion_def core_inv)
  next
    case (WNotify n meth ps)
    then show ?thesis using quiet [OF notification_quiet] by simp
  next
    case (WBegin n req)
    then show ?thesis using quiet [OF begin_request_quiet] by simp
  next
    case (WSend n now c r)
    then show ?thesis using quiet [OF quiet_if [OF send_begun_quiet]] by simp
  next
    case (WAwait n now c timeout timed_out)
    then show ?thesis using quiet [OF quiet_if [OF quiet_session]] by simp
  next
    case (WSinkGone i)
    then show ?thesis using up [OF inv] up [OF sink_gone_inv [OF inv _ refl]] tab by (auto simp: table_ok_def)
  next
    case (WStreamGone i)
    have "world_inv (me_rpc env) (b + 1) (w\<lparr> w_heap := (w_heap w)\<lparr> hp_streams := xs \<rparr> \<rparr>)" for xs
      by (rule quiet_inv [OF inv]) (use up [OF inv] in \<open>simp_all add: same_kind_def world_inv_def\<close>)
    with WStreamGone up [OF inv] tab show ?thesis by (simp add: table_ok_def)
  next
    case WStop
    then show ?thesis using up stop_inv [OF inv tab] by simp
  qed
qed

lemma mcp_run_inv:
  assumes "world_inv (me_rpc env) 1 w" "table_ok w" "list_all (uncancelled env) es" "length es < 2 ^ 63 - 1"
  shows "world_inv (me_rpc env) (1 + int (length es)) (mcp_run env uuid es w) \<and> table_ok (mcp_run env uuid es w)"
  using assms(3,4)
proof (induction es rule: rev_induct)
  case Nil
  then show ?case using assms by (simp add: mcp_run_def)
next
  case (snoc e es)
  then have ih: "world_inv (me_rpc env) (1 + int (length es)) (mcp_run env uuid es w)" "table_ok (mcp_run env uuid es w)" by simp_all
  have "1 + int (length es) < 2 ^ 63 - 1" using snoc.prems(2) by simp
  from mcp_step_inv [OF ih _ this, of e uuid] snoc.prems(1) show ?case by (simp add: mcp_run_def add.assoc)
qed

lemma built_inv: "world_inv env b (McpServer_build config cfg)" "table_ok (McpServer_build config cfg)"
  by (simp_all add: world_inv_def McpServer_build_def sinks_apart_def table_ok_def)

subsection \<open>Complete replies\<close>

abbreviation response_value :: "RpcResponse \<Rightarrow> json" where
  "response_value r \<equiv> Message_to_value (MResponse r)"

definition reply_value :: "bool \<Rightarrow> RpcResponse list \<Rightarrow> json" where
  "reply_value batch rs =
     (if batch then JArr (map response_value rs) else case rs of r # _ \<Rightarrow> response_value r | [] \<Rightarrow> JNull)"

lemma delivered_counts:
  assumes "0 < sk_expected s" "sk_expected s < 2 ^ 64"
  shows "response_delivered s = (sk_expected s \<le> 1, s\<lparr> sk_expected := sk_expected s - 1 \<rparr>)"
proof -
  have "sk_expected s + (2 ^ 64 - 1) = (sk_expected s - 1) + 2 ^ 64" using assms(1) by simp
  then have "(sk_expected s + (2 ^ 64 - 1)) mod 2 ^ 64 = sk_expected s - 1" using assms(2) by (simp only: mod_add_self2) simp
  then show ?thesis by (simp only: response_delivered_def)
qed

lemma json_sink:
  assumes "length rs \<le> n" "0 < n" "n < 2 ^ 64"
  shows "put_all env True rs (fresh_sink True n batch headers) =
    (if length rs < n then (fresh_sink True n batch headers)\<lparr> sk_collected := map response_value rs, sk_expected := n - length rs \<rparr>
     else (fresh_sink True n batch headers)\<lparr> sk_sender := False, sk_expected := 0,
       sk_reply := Some \<lparr> hr_status = 200, hr_headers = headers, hr_body = rpc_to_string env (reply_value batch rs) \<rparr> \<rparr>)"
  using assms(1)
proof (induction rs rule: rev_induct)
  case Nil
  then show ?case using assms by (simp add: put_all_def fresh_sink_def ResponseSink_json_def)
next
  case (snoc r rs)
  let ?s = "(fresh_sink True n batch headers)\<lparr> sk_collected := map response_value rs, sk_expected := n - length rs \<rparr>"
  have "put_all env True (rs @ [r]) (fresh_sink True n batch headers) = sink_put env True (MResponse r) ?s"
    using snoc by (simp add: put_all_def)
  moreover have "response_delivered (?s\<lparr> sk_collected := sk_collected ?s @ [response_value r] \<rparr>) =
      (n - length rs \<le> 1, ?s\<lparr> sk_collected := sk_collected ?s @ [response_value r], sk_expected := n - Suc (length rs) \<rparr>)"
    using delivered_counts [of "?s\<lparr> sk_collected := sk_collected ?s @ [response_value r] \<rparr>"] snoc.prems assms(3) by simp
  moreover have "(case map response_value (rs @ [r]) of x # _ \<Rightarrow> x | [] \<Rightarrow> JNull) = (case rs @ [r] of x # _ \<Rightarrow> response_value x | [] \<Rightarrow> JNull)"
    by (cases rs) simp_all
  ultimately show ?case using snoc.prems
    by (auto simp: sink_put_def deliver_json_def fresh_sink_def ResponseSink_json_def Let_def reply_value_def)
qed

lemma sse_sink:
  assumes "length rs \<le> n" "0 < n" "n < 2 ^ 64"
  shows "put_all env False rs (fresh_sink False n batch headers) =
    (fresh_sink False n batch headers)\<lparr> sk_expected := n - length rs,
       sk_frames := map (\<lambda>r. Some (event_data env (MResponse r))) rs @ (if length rs = n then [None] else []) \<rparr>"
  using assms(1)
proof (induction rs rule: rev_induct)
  case Nil
  then show ?case using assms by (simp add: put_all_def fresh_sink_def ResponseSink_sse_def)
next
  case (snoc r rs)
  let ?s = "(fresh_sink False n batch headers)\<lparr> sk_expected := n - length rs, sk_frames := map (\<lambda>r. Some (event_data env (MResponse r))) rs \<rparr>"
  let ?s' = "?s\<lparr> sk_frames := sk_frames ?s @ [Some (event_data env (MResponse r))] \<rparr>"
  have "put_all env False (rs @ [r]) (fresh_sink False n batch headers) = sink_put env False (MResponse r) ?s"
    using snoc by (simp add: put_all_def)
  also have "\<dots> = (let (c, s) = response_delivered ?s' in if c then finish_sink s else s)"
    by (simp add: sink_put_def send_frame_def fresh_sink_def ResponseSink_sse_def)
  also have "response_delivered ?s' = (n - length rs \<le> 1, ?s'\<lparr> sk_expected := n - Suc (length rs) \<rparr>)"
    using delivered_counts [of ?s'] snoc.prems assms(3) by simp
  finally show ?case using snoc.prems
    by (auto simp: finish_sink_def fresh_sink_def ResponseSink_sse_def)
qed

definition running_server :: "ServerConfig \<Rightarrow> HttpServerConfig \<Rightarrow> 'h McpWorld" where
  "running_server config cfg = (McpServer_build config (Some cfg))\<lparr> w_state := StRunning \<rparr>"

lemma running_inv: "world_inv env b (running_server config cfg)" "table_ok (running_server config cfg)"
  by (simp_all add: running_server_def same_inv [OF built_inv(1)]) (simp add: table_ok_def McpServer_build_def)

text \<open>The task has answered everything: it is in no handler and no request is left.\<close>

definition all_answered :: "'h McpTask \<Rightarrow> bool" where
  "all_answered t \<longleftrightarrow> tk_running t = None \<and> request_ids (tk_queue t) = []"

lemma written_reply:
  assumes w: "written env js t s" and few: "length (tk_all t) < 2 ^ 64" and req: "request_ids (tk_all t) \<noteq> []"
  shows "\<exists>rs pre. tk_all t = pre @ tk_queue t \<and> map rs_id rs @ map Some (running_ids t) = map Some (request_ids pre) \<and>
    (if sk_json s then sk_reply s = (if all_answered t
         then Some \<lparr> hr_status = 200, hr_headers = sk_headers s, hr_body = rpc_to_string env (reply_value (sk_batch s) rs) \<rparr> else None) \<and>
         (sk_batch s \<or> length (request_ids (tk_all t)) = 1)
     else sk_frames s = map (\<lambda>r. Some (event_data env (MResponse r))) rs @ (if all_answered t then [None] else []))"
proof -
  let ?n = "length (request_ids (tk_all t))"
  obtain pre rs batch headers where a: "tk_all t = pre @ tk_queue t" "map rs_id rs @ map Some (running_ids t) = map Some (request_ids pre)"
    and s: "s = put_all env js rs (fresh_sink js ?n batch headers)" and b: "js \<longrightarrow> batch \<or> ?n = 1"
    using w unfolding written_def by blast
  have "length rs + length (running_ids t) = length (request_ids pre)" using arg_cong [OF a(2), of length] by simp
  then have le: "length rs \<le> ?n" and eq: "length rs = ?n \<longleftrightarrow> all_answered t"
    by (auto simp: a(1) all_answered_def running_ids_def split: option.splits)
  have "?n \<le> length (tk_all t)" by (simp add: request_ids_def List.map_filter_def)
  with few req have n: "0 < ?n" "?n < 2 ^ 64" by simp_all
  have "length rs < ?n \<longleftrightarrow> \<not> all_answered t" using le eq by linarith
  then show ?thesis
    using a b s eq json_sink [OF le n, of env batch headers] sse_sink [OF le n, of env batch headers]
    by (intro exI [of _ rs] exI [of _ pre])
      (cases js; cases "all_answered t"; simp add: fresh_sink_def ResponseSink_json_def ResponseSink_sse_def)
qed

text \<open>
  C20. Every request an MCP server accepts is answered once, in order, on the reply of the body that brought it.
  In every run of the server (any interleaving of HTTP requests, deliveries, handlers that return or panic,
  registrations, notifications and requests to the client, clients that go away, and a stop) in which no
  request is cancelled, and with fewer than \<open>2 ^ 63 - 1\<close> events (connection numbers are 64-bit), take the task
  of a posted body whose client is still there and which has not panicked: the responses written so far have
  the identifiers of the requests of that body that are done, one each and in their order, and nothing else is
  written; a JSON reply arrives, and an event stream is ended, exactly when the last request is answered,
  and holds then all the responses.
\<close>

theorem mcp_requests_answered:
  fixes env :: McpEnv and uuid :: "nat \<Rightarrow> string" and config :: ServerConfig and cfg :: HttpServerConfig
    and es :: "'h mcp_event list" and k i :: nat
  assumes "list_all (uncancelled env) es" "length es < 2 ^ 63 - 1"
  defines "w \<equiv> mcp_run env uuid es (running_server config cfg)"
  assumes "k < length (w_tasks w)" "tk_sink (w_tasks w ! k) = Some i" "\<not> tk_dead (w_tasks w ! k)"
    "\<not> sk_gone (hp_sinks (w_heap w) ! i)" "length (tk_all (w_tasks w ! k)) < 2 ^ 64"
  shows "\<exists>rs pre. tk_all (w_tasks w ! k) = pre @ tk_queue (w_tasks w ! k) \<and>
    map rs_id rs @ map Some (running_ids (w_tasks w ! k)) = map Some (request_ids pre) \<and>
    (let s = hp_sinks (w_heap w) ! i in
     if sk_json s then sk_reply s = (if all_answered (w_tasks w ! k)
         then Some \<lparr> hr_status = 200, hr_headers = sk_headers s, hr_body = rpc_to_string (me_rpc env) (reply_value (sk_batch s) rs) \<rparr>
         else None) \<and> (sk_batch s \<or> length (request_ids (tk_all (w_tasks w ! k))) = 1)
     else sk_frames s = map (\<lambda>r. Some (event_data (me_rpc env) (MResponse r))) rs @
       (if all_answered (w_tasks w ! k) then [None] else []))"
proof -
  have "world_inv (me_rpc env) (1 + int (length es)) w"
    unfolding w_def using mcp_run_inv [OF running_inv assms(1,2)] by blast
  then have "task_ok (me_rpc env) w (w_tasks w ! k)" using assms(4) by (simp add: world_inv_def)
  then have "written (me_rpc env) (ht_json (en_transport (w_entries w ! tk_entry (w_tasks w ! k)))) (w_tasks w ! k) (hp_sinks (w_heap w) ! i)"
    "request_ids (tk_all (w_tasks w ! k)) \<noteq> []"
    using assms(5-7) by (auto simp: task_ok_def)
  from written_reply [OF this(1) assms(8) this(2)] show ?thesis unfolding Let_def .
qed

definition demo_ping :: "int \<Rightarrow> json" where
  "demo_ping n = JObj [(''jsonrpc'', JStr ''2.0''), (''id'', JInt n), (''method'', JStr ''ping'')]"

definition demo_mcp_env :: McpEnv where
  "demo_mcp_env = \<lparr> me_rpc = \<lparr> rpc_from_str = (\<lambda>s. if s = ''b'' then Inr (JArr [demo_ping 1, demo_ping 2]) else Inl ''?''),
     rpc_to_string = (\<lambda>_. ''...''), rpc_de_err = (\<lambda>_. []) \<rparr>, me_schema = demo_schema_env \<rparr>"

definition demo_config :: ServerConfig where
  "demo_config = \<lparr> cf_name = ''s'', cf_version = ''1.0'', cf_worker_threads = 1, cf_tools_page_size = 50, cf_resources_page_size = 50,
     cf_capabilities = ServerCapabilities_default \<rparr>"

definition demo_http :: HttpServerConfig where
  "demo_http = \<lparr> hc_endpoint = ''http://h/mcp'', hc_json = False, hc_stateless = True, hc_io_threads = 1,
     hc_tls = \<lparr> tc_enabled = False, tc_cert_file = [], tc_key_file = [], tc_ca_file = [], tc_server_name = [] \<rparr>,
     hc_authenticator = None, hc_authorizer = None \<rparr>"

definition demo_post :: HttpRequest where
  "demo_post = \<lparr> hq_method = ''POST'', hq_url = ''/mcp'',
     hq_headers = [(''accept'', ''application/json, text/event-stream''), (''content-type'', ''application/json'')], hq_body = ''b'' \<rparr>"

definition demo_mcp_run :: "nat McpWorld" where
  "demo_mcp_run = mcp_run demo_mcp_env (\<lambda>_. ''u'') [WRequest demo_post, WTask 0 0, WTask 0 0] (running_server demo_config demo_http)"

lemmas demo_request_defs = manager_handle_request_def running_server_def McpServer_build_def demo_http_def authorize_request_def
  new_http_session_def HttpTransport_new_def add_entry_def entry_handle_def apfst_def map_prod_def transport_handle_request_def
  handle_post_def demo_post_def validate_post_headers_def header_or_def header_def CONTENT_TYPE_def CONTENT_TYPE_JSON_def
  CONTENT_TYPE_SSE_def demo_mcp_env_def validate_session_id_def validate_protocol_version_def MCP_PROTOCOL_VERSION_def
  DEFAULT_PROTOCOL_VERSION_def is_supported_protocol_version_def SUPPORTED_PROTOCOL_VERSIONS_def parse_payload_def demo_ping_def
  classify_message_def classify_object_def im_contains_def error_object_def valid_id_def id_from_value_def JSONRPC_VERSION_def
  deliver_payload_def is_request_def new_context_def with_method_def Message_method_def RpcRequest_new_def as_i64_def sink_of_def

lemmas demo_task_defs = task_step_def on_message_received_def received_request_def set_incoming_request_handler_def
  set_server_capabilities_def ServerSession_new_def on_session_def dispatch_def answer_result_def send_answer_def send_response_def
  was_cancelled_def transport_send_def send_message_def on_sink_def send_frame_def ResponseSink_sse_def is_response_def
  response_delivered_def finish_sink_def forget_request_def im_insert_def im_remove_def set_task_def set_entry_def

lemma demo_mcp_state:
  "length (w_tasks demo_mcp_run) = 1 \<and> tk_sink (w_tasks demo_mcp_run ! 0) = Some 0 \<and> \<not> tk_dead (w_tasks demo_mcp_run ! 0) \<and>
   \<not> sk_gone (hp_sinks (w_heap demo_mcp_run) ! 0) \<and> \<not> sk_json (hp_sinks (w_heap demo_mcp_run) ! 0) \<and>
   tk_queue (w_tasks demo_mcp_run ! 0) = [] \<and> tk_running (w_tasks demo_mcp_run ! 0) = None \<and>
   length (tk_all (w_tasks demo_mcp_run ! 0)) = 2 \<and> request_ids (tk_all (w_tasks demo_mcp_run ! 0)) = [IdNumber 1, IdNumber 2]"
proof -
  have run: "demo_mcp_run = task_step demo_mcp_env 0 0 (task_step demo_mcp_env 0 0
      (snd (manager_handle_request demo_mcp_env (\<lambda>_. ''u'') demo_post (running_server demo_config demo_http))))"
    by (simp add: demo_mcp_run_def mcp_run_def running_server_def)
  show ?thesis unfolding run by (simp add: demo_request_defs) (simp add: demo_task_defs)
qed

text \<open>A batch of two pings on an event stream: two responses and the end of the stream.\<close>

theorem mcp_requests_answered_witness:
  "\<exists>rs. map rs_id rs = [Some (IdNumber 1), Some (IdNumber 2)] \<and>
     sk_frames (hp_sinks (w_heap demo_mcp_run) ! 0) = map (\<lambda>r. Some (event_data (me_rpc demo_mcp_env) (MResponse r))) rs @ [None]"
proof -
  have c: "list_all (uncancelled demo_mcp_env) [WRequest demo_post, WTask 0 0, WTask 0 0 :: nat mcp_event]"
    by (simp add: uncancelled_def posted_def demo_request_defs is_cancel_def)
  show ?thesis
    using mcp_requests_answered [OF c, where uuid = "\<lambda>_. ''u''" and config = demo_config and cfg = demo_http and k = 0 and i = 0] demo_mcp_state
    by (auto simp: demo_mcp_run_def [symmetric] all_answered_def running_ids_def Let_def)
qed

end
