(* ===== verification/McpAccess.thy ===== *)
theory McpAccess
  imports McpServerLaws
begin

text \<open>
  Who may do what at an MCP server: which requests the authentication hooks let in, in which sessions handlers
  run, and that a session that was closed stays closed.  The last two are read off an invariant of the
  sessions, tasks and session table that holds in every run, with cancellations and panics.
\<close>

subsection \<open>The hooks\<close>

text \<open>The scopes of the token that a request carries.\<close>

definition granted_scopes :: "TokenTable \<Rightarrow> HeaderMap \<Rightarrow> string set option" where
  "granted_scopes tokens headers =
     map_option split_scopes (Option.bind (Option.bind (im_get headers AUTHORIZATION) bearer_token) (im_get tokens))"

lemma dropWhile_nil_token: "bearer_token v = Some token \<Longrightarrow> token \<noteq> []"
  by (auto simp: bearer_token_def Let_def split: if_splits)

lemma table_verify:
  assumes "Bearer_authenticate (Some (SimpleTokenVerifier_verify tokens)) headers = Some r"
  shows "ar_authenticated r \<longleftrightarrow> granted_scopes tokens headers \<noteq> None"
    and "ar_authenticated r \<Longrightarrow> map_option split_scopes (Option.bind (ar_context r) ma_scopes) = granted_scopes tokens headers"
proof -
  have v: "SimpleTokenVerifier_verify tokens token = (case im_get tokens token of None \<Rightarrow> auth_failure ''Invalid token''
      | Some scopes \<Rightarrow> \<lparr> ar_authenticated = True, ar_context = Some \<lparr> ma_client_id = Some (''client-'' @ token), ma_scopes = Some scopes \<rparr>,
          ar_error_description = None \<rparr>)" if "token \<noteq> []" for token
    using that by (simp add: SimpleTokenVerifier_verify_def)
  show iff: "ar_authenticated r \<longleftrightarrow> granted_scopes tokens headers \<noteq> None"
  proof
    assume "ar_authenticated r"
    then obtain w token where h: "im_get headers AUTHORIZATION = Some w" "bearer_token w = Some token" "r = SimpleTokenVerifier_verify tokens token"
      using bearer_exact [OF assms] by blast
    with v [OF dropWhile_nil_token [OF h(2)]] \<open>ar_authenticated r\<close> show "granted_scopes tokens headers \<noteq> None"
      by (auto simp: granted_scopes_def auth_failure_def split: option.splits)
  next
    assume "granted_scopes tokens headers \<noteq> None"
    then obtain w token s where h: "im_get headers AUTHORIZATION = Some w" "bearer_token w = Some token" "im_get tokens token = Some s"
      by (auto simp: granted_scopes_def bind_eq_Some_conv)
    have "r = SimpleTokenVerifier_verify tokens token"
      using assms h by (auto simp: Bearer_authenticate_def bearer_token_def eq_ignore_ascii_case_def lower_prefix Let_def slice_to_def split: if_splits)
    then show "ar_authenticated r" using v [OF dropWhile_nil_token [OF h(2)]] h(3) by simp
  qed
  show "map_option split_scopes (Option.bind (ar_context r) ma_scopes) = granted_scopes tokens headers" if ok: "ar_authenticated r"
  proof -
    obtain w token where h: "im_get headers AUTHORIZATION = Some w" "bearer_token w = Some token" "r = SimpleTokenVerifier_verify tokens token"
      using bearer_exact [OF assms] ok by blast
    with v [OF dropWhile_nil_token [OF h(2)]] ok show ?thesis by (auto simp: granted_scopes_def auth_failure_def split: option.splits)
  qed
qed

lemma scopes_cover:
  assumes "ar_authenticated r" "map_option split_scopes (Option.bind (ar_context r) ma_scopes) = Some have_s" "required \<noteq> {}"
  shows "Scope_authorize required r \<longleftrightarrow> required \<subseteq> have_s"
  using assms by (auto simp: Scope_authorize_def Let_def split: option.splits)

text \<open>
  C22. With a bearer authenticator over a table of tokens and an authorizer on scopes, an HTTP request is let in
  exactly when its authorization header carries a token of the table whose scopes cover the required ones.
  Every other request is refused with 401, when the token is missing or unknown, or with 403, when its scopes
  are not enough, and leaves the server as it was; an authenticator that panics leaves it as it was too.
\<close>

theorem mcp_authorized_exact:
  fixes env :: McpEnv and uuid :: "nat \<Rightarrow> string" and r :: HttpRequest and w :: "'h McpWorld" and cfg :: HttpServerConfig
  assumes "w_transport_config w = Some cfg"
    and "hc_authenticator cfg = Some (Bearer_authenticate (Some (SimpleTokenVerifier_verify tokens)))"
    and "hc_authorizer cfg = Some (Scope_authorize required)" and "required_scopes_of spec = Inr required"
  shows "case authorize_request (me_rpc env) cfg (hq_headers r) of
      None \<Rightarrow> manager_handle_request env uuid r w = (None, w)
    | Some None \<Rightarrow> (\<exists>scopes. granted_scopes tokens (hq_headers r) = Some scopes \<and> required \<subseteq> scopes)
    | Some (Some refusal) \<Rightarrow>
        \<not> (\<exists>scopes. granted_scopes tokens (hq_headers r) = Some scopes \<and> required \<subseteq> scopes) \<and>
        manager_handle_request env uuid r w = (Some refusal, w) \<and>
        (\<exists>body. refusal = Full body \<and> hr_status body = (if granted_scopes tokens (hq_headers r) = None then 401 else 403))"
proof (cases "Bearer_authenticate (Some (SimpleTokenVerifier_verify tokens)) (hq_headers r)")
  case None
  then show ?thesis using assms by (simp add: authorize_request_def manager_handle_request_def)
next
  case (Some res)
  have req: "required \<noteq> {}" using assms(4) by (auto simp: required_scopes_of_def Let_def split: if_splits)
  show ?thesis
  proof (cases "granted_scopes tokens (hq_headers r)")
    case None
    with Some assms table_verify(1) [OF Some] show ?thesis
      by (simp add: authorize_request_def manager_handle_request_def auth_error_def)
  next
    case (Some scopes)
    then have "ar_authenticated res" using table_verify(1) [OF \<open>_ = Some res\<close>] by simp
    moreover have "Scope_authorize required res \<longleftrightarrow> required \<subseteq> scopes"
      using scopes_cover [OF calculation _ req] table_verify(2) [OF \<open>_ = Some res\<close> calculation] Some by simp
    ultimately show ?thesis
      using Some \<open>_ = Some res\<close> assms by (auto simp: authorize_request_def manager_handle_request_def auth_error_def)
  qed
qed

subsection \<open>An invariant of sessions and tasks\<close>

text \<open>What a session is (its identifier, whether it is stateless) and whether it is initialized.\<close>

definition skey :: "McpEntry \<Rightarrow> string \<times> bool \<times> bool" where
  "skey e = (ss_session_id (en_session e), ss_stateless (en_session e), ss_initialized (en_session e))"

abbreviation keys_of :: "'h McpWorld \<Rightarrow> (string \<times> bool \<times> bool) list" where
  "keys_of w \<equiv> map skey (w_entries w)"

text \<open>The messages that initialize a session, and those a task has delivered.\<close>

definition opens :: "Message \<Rightarrow> bool" where
  "opens m = (case m of MRequest r \<Rightarrow> rq_method r = ''initialize'' | MNotification n \<Rightarrow> nt_method n = ''notifications/initialized'' | _ \<Rightarrow> False)"

definition handled :: "'h McpTask \<Rightarrow> Delivery" where
  "handled t = take (length (tk_all t) - length (tk_queue t)) (tk_all t)"

definition table_keys :: "(nat \<Rightarrow> string) \<Rightarrow> (string \<times> bool \<times> bool) list \<Rightarrow> (string, nat) imap \<Rightarrow> nat \<Rightarrow> bool" where
  "table_keys uuid ks ss u \<longleftrightarrow> (\<forall>(sid, n) \<in> set ss. n < length ks \<and> fst (ks ! n) = sid \<and> (\<exists>j < u. sid = uuid j))"

definition task_opened :: "(string \<times> bool \<times> bool) list \<Rightarrow> 'h McpTask \<Rightarrow> bool" where
  "task_opened ks t \<longleftrightarrow> tk_entry t < length ks \<and> (\<exists>pre. tk_all t = pre @ tk_queue t) \<and>
     (tk_running t \<noteq> None \<longrightarrow> fst (snd (ks ! tk_entry t)) \<or> snd (snd (ks ! tk_entry t)))"

definition opened_by :: "nat \<Rightarrow> 'h McpTask list \<Rightarrow> bool" where
  "opened_by n ts \<longleftrightarrow> (\<exists>t \<in> set ts. tk_entry t = n \<and> list_ex (\<lambda>p. opens (fst p)) (handled t))"

definition access_inv :: "(nat \<Rightarrow> string) \<Rightarrow> 'h McpWorld \<Rightarrow> bool" where
  "access_inv uuid w \<longleftrightarrow> table_keys uuid (keys_of w) (w_sessions w) (w_uuids w) \<and> (\<forall>t \<in> set (w_tasks w). task_opened (keys_of w) t) \<and>
     (\<forall>n < length (w_entries w). snd (snd (keys_of w ! n)) \<longrightarrow> opened_by n (w_tasks w))"

lemma table_keys_mono: "table_keys uuid ks ss u \<Longrightarrow> u \<le> u' \<Longrightarrow> table_keys uuid ks ss u'"
  unfolding table_keys_def by (fast intro: less_le_trans)

lemma table_keys_append: "table_keys uuid ks ss u \<Longrightarrow> table_keys uuid (ks @ ks') ss u"
  by (auto simp: table_keys_def nth_append)

lemma access_cong:
  assumes "access_inv uuid w" "keys_of w' = keys_of w" "w_tasks w' = w_tasks w" "w_sessions w' = w_sessions w" "w_uuids w \<le> w_uuids w'"
  shows "access_inv uuid w'"
proof -
  have "length (w_entries w') = length (w_entries w)" using arg_cong [OF assms(2), of length] by simp
  moreover have "table_keys uuid (keys_of w) (w_sessions w) (w_uuids w')"
    using assms(1,5) unfolding access_inv_def by (blast intro: table_keys_mono)
  ultimately show ?thesis using assms by (simp add: access_inv_def)
qed

subsubsection \<open>Sessions\<close>

lemma transport_send_session [simp]: "skey (fst (snd (transport_send env m ctx st))) = skey (fst st)"
  by (simp add: transport_send_def skey_def Let_def split: prod.split)

lemma on_session_fst [simp]: "fst (on_session f st) = (fst st)\<lparr> en_session := f (en_session (fst st)) \<rparr>"
  by (simp add: on_session_def split: prod.split)

lemma forget_skey [simp]: "skey (e\<lparr> en_session := forget_request i (en_session e) \<rparr>) = skey e"
  by (simp add: skey_def forget_request_def)

lemma answers_skey [simp]:
  "skey (fst (snd (send_response env i v ctx st))) = skey (fst st)"
  "skey (fst (snd (send_error_response env i er ctx st))) = skey (fst st)"
  "skey (fst (send_answer env i a ctx st)) = skey (fst st)"
  by (simp_all add: send_response_def send_error_response_def send_answer_def Let_def split: sum.split)

lemma cancelled_skey [simp]: "skey (fst (handle_cancelled env ps st)) = skey (fst st)"
  by (simp add: handle_cancelled_def Let_def split: option.split) (simp add: skey_def)

lemma initialized_skey: "skey (e\<lparr> en_session := (en_session e)\<lparr> ss_initialized := True \<rparr> \<rparr>) = (fst (skey e), fst (snd (skey e)), True)"
  by (simp add: skey_def)

lemma capabilities_skey: "skey (e\<lparr> en_session := (en_session e)\<lparr> ss_client_capabilities := c \<rparr> \<rparr>) = skey e"
  by (simp add: skey_def)

lemma initialize_skey: "skey (fst (handle_initialize env i ps ctx st)) = (fst (skey (fst st)), fst (snd (skey (fst st))), True)"
  by (simp add: handle_initialize_def Let_def initialized_skey capabilities_skey)

lemma received_skey:
  assumes "on_message_received env core now m ctx (e, h) = (d, st)"
  shows "skey (fst st) = (ss_session_id (en_session e), ss_stateless (en_session e), ss_initialized (en_session e) \<or> opens m) \<and>
    (d \<noteq> None \<longrightarrow> ss_stateless (en_session e) \<or> ss_initialized (en_session e))"
proof (cases m)
  case (MRequest r)
  have i: "skey (e\<lparr> en_session := (en_session e)\<lparr> ss_requests := x \<rparr> \<rparr>) = skey e" for x by (simp add: skey_def)
  have a: "skey (fst (case d' of Answer a \<Rightarrow> send_answer env (rq_id r) a c st' | _ \<Rightarrow> st')) = skey (fst st')" for d' :: "'a Dispatch" and c st'
    by (simp split: Dispatch.split)
  show ?thesis
  proof (cases "rq_method r = ''initialize''")
    case True
    with assms MRequest show ?thesis by (auto simp: on_message_received_def received_request_def initialize_skey opens_def) (simp_all add: skey_def)
  next
    case False
    with assms MRequest have "skey (fst st) = skey e \<and> (d \<noteq> None \<longrightarrow> ss_stateless (en_session e) \<or> ss_initialized (en_session e))"
      by (auto simp: on_message_received_def received_request_def Let_def a i split: if_splits)
    with False MRequest show ?thesis by (simp add: opens_def skey_def)
  qed
next
  case (MNotification n)
  show ?thesis
  proof (cases "nt_method n = ''notifications/initialized''")
    case True
    with assms MNotification show ?thesis by (auto simp: on_message_received_def received_notification_def opens_def skey_def)
  next
    case False
    have "skey (fst st) = skey e" using assms MNotification False by (auto simp: on_message_received_def received_notification_def)
    with False MNotification assms show ?thesis by (auto simp: opens_def skey_def on_message_received_def)
  qed
next
  case (MResponse r)
  have "skey (e\<lparr> en_session := session_handle_response now r (en_session e) \<rparr>) = skey e"
    by (simp add: skey_def session_handle_response_def Let_def split: option.split)
  with assms MResponse show ?thesis by (auto simp: on_message_received_def opens_def skey_def on_session_def)
qed

subsubsection \<open>Steps\<close>

lemma keys_update: "skey e = skey (w_entries w ! n) \<Longrightarrow> map skey ((w_entries w)[n := e]) = keys_of w"
  by (cases "n < length (w_entries w)") (auto simp: nth_list_update list_eq_iff_nth_eq)

lemma on_entry_access:
  assumes "access_inv uuid w" "\<And>st. skey (fst (f st)) = skey (fst st)"
  shows "access_inv uuid (on_entry n f w)"
proof -
  have "keys_of (on_entry n f w) = keys_of w"
    using assms(2) [of "(w_entries w ! n, w_heap w)"] by (simp add: on_entry_def set_entry_def keys_update)
  then show ?thesis by (rule access_cong [OF assms(1)]) (simp_all add: on_entry_def set_entry_def)
qed

lemma spawn_access:
  assumes "access_inv uuid w" "n < length (w_entries w)"
  shows "access_inv uuid (snd (entry_handle env n r w))"
proof -
  obtain reply d t h where th: "transport_handle_request (me_rpc env) True r (en_transport (w_entries w ! n), w_heap w) = (reply, d, (t, h))"
    by (metis prod.exhaust)
  have ks: "map skey ((w_entries w)[n := (w_entries w ! n)\<lparr> en_transport := t \<rparr>]) = keys_of w" by (rule keys_update) (simp add: skey_def)
  have "task_opened (keys_of w) \<lparr> tk_entry = n, tk_sink = sink_of d, tk_all = d, tk_queue = d, tk_running = None, tk_dead = False \<rparr>"
    using assms(2) by (simp add: task_opened_def)
  with assms(1) th ks show ?thesis by (auto simp: access_inv_def entry_handle_def opened_by_def)
qed

lemma entry_access:
  assumes "access_inv uuid w" "\<not> ss_initialized (en_session e)" "w_sessions w' = w_sessions w" "w_uuids w \<le> w_uuids w'"
    "w_entries w' = w_entries w @ [e]" "w_tasks w' = w_tasks w"
  shows "access_inv uuid w'"
  unfolding access_inv_def
proof (intro conjI ballI allI impI)
  show "table_keys uuid (keys_of w') (w_sessions w') (w_uuids w')"
    using assms(1,3-5) table_keys_mono [OF table_keys_append] by (fastforce simp: access_inv_def)
  show "task_opened (keys_of w') t" if "t \<in> set (w_tasks w')" for t
    using assms that by (auto simp: access_inv_def task_opened_def nth_append)
  show "opened_by n (w_tasks w')" if "n < length (w_entries w')" "snd (snd (keys_of w' ! n))" for n
    using assms that by (auto simp: access_inv_def nth_append skey_def less_Suc_eq split: if_splits)
qed

lemma register_access:
  assumes "access_inv uuid w" "n < length (w_entries w)" "fst (keys_of w ! n) = sid" "\<exists>j < w_uuids w. sid = uuid j"
  shows "access_inv uuid (w\<lparr> w_sessions := im_insert sid n (w_sessions w) \<rparr>)"
  using assms by (fastforce simp: access_inv_def table_keys_def dest!: set_im_insertD)

lemma unregister_access: "access_inv uuid w \<Longrightarrow> set ss \<subseteq> set (w_sessions w) \<Longrightarrow> access_inv uuid (w\<lparr> w_sessions := ss \<rparr>)"
  by (auto simp: access_inv_def table_keys_def)

lemma settle_access: "access_inv uuid (snd rw) \<Longrightarrow> access_inv uuid (snd (settle_entry n created rw))"
  by (auto simp: settle_entry_def Let_def im_remove_def intro!: unregister_access split: prod.split)

lemma new_session_key:
  "new_http_session config cfg sid stateless = Inr e \<Longrightarrow> skey e = (sid, stateless, False)"
  by (auto simp: new_http_session_def skey_def set_incoming_request_handler_def set_server_capabilities_def ServerSession_new_def
      HttpTransport_new_def split: if_splits)

lemma stateful_access:
  assumes inv: "access_inv uuid w"
  shows "access_inv uuid (snd (serve_stateful env uuid cfg r w))"
proof (cases "header_or r MCP_SESSION_ID [] = []")
  case True
  show ?thesis
  proof (cases "new_http_session (w_config w) cfg (uuid (w_uuids w)) False")
    case (Inl e)
    with True show ?thesis by (auto simp: serve_stateful_def Let_def intro!: access_cong [OF inv])
  next
    case (Inr e)
    let ?n = "length (w_entries w)"
    let ?v = "w\<lparr> w_uuids := Suc (w_uuids w), w_entries := w_entries w @ [e] \<rparr>"
    note k = new_session_key [OF Inr]
    have "access_inv uuid ?v" by (rule entry_access [OF inv]) (use k in \<open>simp_all add: skey_def\<close>)
    then have "access_inv uuid (?v\<lparr> w_sessions := im_insert (ss_session_id (en_session e)) ?n (w_sessions ?v) \<rparr>)"
      by (rule register_access) (use k in \<open>auto simp: skey_def nth_append\<close>)
    from spawn_access [OF this, of ?n] True Inr show ?thesis
      by (auto simp: serve_stateful_def Let_def add_entry_def intro!: settle_access)
  qed
next
  case False
  show ?thesis
  proof (cases "im_get (w_sessions w) (header_or r MCP_SESSION_ID [])")
    case (Some n)
    then have "n < length (w_entries w)" using inv by (auto simp: access_inv_def table_keys_def dest!: im_get_in_set)
    with False Some spawn_access [OF inv] show ?thesis by (auto simp: serve_stateful_def Let_def intro!: settle_access)
  qed (use False inv in \<open>simp add: serve_stateful_def Let_def\<close>)
qed

lemma manager_access:
  assumes inv: "access_inv uuid w"
  shows "access_inv uuid (snd (manager_handle_request env uuid r w))"
proof -
  have "access_inv uuid (snd (entry_handle env (length (w_entries w)) r (w\<lparr> w_entries := w_entries w @ [e] \<rparr>)))"
    if "new_http_session (w_config w) cfg sid True = Inr e" for cfg sid e
    by (rule spawn_access, rule entry_access [OF inv]) (use new_session_key [OF that] in \<open>simp_all add: skey_def\<close>)
  with inv stateful_access [OF inv] show ?thesis
    by (auto simp: manager_handle_request_def add_entry_def split: option.split sum.split)
qed

text \<open>A task goes on, and its session with it.\<close>

lemma handled_mono:
  assumes "tk_all t' = tk_all t" "length (tk_queue t') \<le> length (tk_queue t)" "list_ex P (handled t)"
  shows "list_ex P (handled t')"
proof -
  have "set (handled t) \<subseteq> set (handled t')"
    unfolding handled_def assms(1) by (rule set_take_subset_set_take) (use assms(2) in simp)
  with assms(3) show ?thesis by (auto simp: list_ex_iff)
qed

lemma task_access:
  assumes inv: "access_inv uuid w" and k: "k < length (w_tasks w)" and t: "t = w_tasks w ! k" "n = tk_entry t"
    and t': "tk_entry t' = n" "tk_all t' = tk_all t" "\<exists>pre. tk_all t' = pre @ tk_queue t'" "length (tk_queue t') \<le> length (tk_queue t)"
    and s: "skey (fst st) = (fst (keys_of w ! n), fst (snd (keys_of w ! n)), snd (snd (keys_of w ! n)) \<or> opened)"
    and o: "opened \<Longrightarrow> list_ex (\<lambda>p. opens (fst p)) (handled t')"
    and r: "tk_running t' \<noteq> None \<Longrightarrow> fst (snd (keys_of w ! n)) \<or> snd (snd (keys_of w ! n))"
  shows "access_inv uuid (set_task k t' (set_entry n st w))" (is "access_inv uuid ?w'")
proof -
  have n: "n < length (w_entries w)" using inv k t by (auto simp: access_inv_def task_opened_def)
  have w': "keys_of ?w' = (keys_of w)[n := skey (fst st)]" "w_tasks ?w' = (w_tasks w)[k := t']" "w_sessions ?w' = w_sessions w"
    "w_uuids ?w' = w_uuids w" "length (w_entries ?w') = length (w_entries w)"
    by (simp_all add: set_task_def set_entry_def map_update)
  have same: "fst (keys_of ?w' ! m) = fst (keys_of w ! m)" "fst (snd (keys_of ?w' ! m)) = fst (snd (keys_of w ! m))"
    "snd (snd (keys_of w ! m)) \<Longrightarrow> snd (snd (keys_of ?w' ! m))" if "m < length (w_entries w)" for m
    unfolding w' using that s n by (auto simp: nth_list_update)
  have tab: "table_keys uuid (keys_of ?w') (w_sessions ?w') (w_uuids ?w')"
    using inv same(1) unfolding access_inv_def table_keys_def w'(3,4) by (fastforce simp: w'(5))
  have task: "task_opened (keys_of ?w') u" if "u \<in> set (w_tasks w)" for u
    using inv that same unfolding access_inv_def task_opened_def by (auto simp: w'(5) simp del: nth_map)
  have "task_opened (keys_of ?w') t'"
    using t' n r same(2,3) [OF n] by (auto simp: task_opened_def w'(5) simp del: nth_map)
  then have ts: "\<forall>u \<in> set (w_tasks ?w'). task_opened (keys_of ?w') u"
    using task unfolding w'(2) by (auto dest!: set_update_subset_insert [THEN subsetD])
  have t_in: "t' \<in> set (w_tasks ?w')" unfolding w'(2) using k by (simp add: set_update_memI)
  have keep: "opened_by m (w_tasks ?w')" if opened: "opened_by m (w_tasks w)" for m
  proof -
    obtain j where j: "j < length (w_tasks w)" "tk_entry (w_tasks w ! j) = m" "list_ex (\<lambda>p. opens (fst p)) (handled (w_tasks w ! j))"
      using opened by (auto simp: opened_by_def in_set_conv_nth)
    show ?thesis
    proof (cases "j = k")
      case True
      then show ?thesis using j t t' t_in handled_mono [OF t'(2,4)] by (auto simp: opened_by_def)
    next
      case False
      then have "w_tasks ?w' ! j = w_tasks w ! j" unfolding w'(2) by simp
      then show ?thesis using j unfolding opened_by_def by (metis nth_mem w'(2) length_list_update)
    qed
  qed
  have "opened_by m (w_tasks ?w')" if "m < length (w_entries w)" "snd (snd (keys_of ?w' ! m))" for m
  proof (cases "snd (snd (keys_of w ! m))")
    case True
    then show ?thesis using inv that(1) keep by (auto simp: access_inv_def)
  next
    case False
    with that s n have "m = n" "opened" unfolding w' by (auto simp: nth_list_update split: if_splits)
    then show ?thesis using o t_in t'(1) by (auto simp: opened_by_def)
  qed
  with tab ts show ?thesis unfolding access_inv_def w'(5) by blast
qed

lemma task_step_access:
  assumes inv: "access_inv uuid w"
  shows "access_inv uuid (task_step env now k w)"
proof (cases "k < length (w_tasks w) \<and> \<not> tk_dead (w_tasks w ! k) \<and> tk_running (w_tasks w ! k) = None \<and> tk_queue (w_tasks w ! k) \<noteq> []")
  case True
  let ?t = "w_tasks w ! k"
  let ?e = "w_entries w ! tk_entry ?t"
  obtain m ctx rest where q: "tk_queue ?t = (m, ctx) # rest" using True by (metis list.exhaust prod.exhaust)
  obtain d st where rec: "on_message_received env (w_core w) now m ctx (?e, w_heap w) = (d, st)" by (metis prod.exhaust)
  define t' where "t' = (case (d, m) of
      (Some (RunHandler run), MRequest r) \<Rightarrow> ?t\<lparr> tk_queue := rest, tk_running := Some (rq_id r, ctx\<lparr> cx_method := rq_method r \<rparr>, run) \<rparr>
    | (Some Panicked, _) \<Rightarrow> ?t\<lparr> tk_queue := rest, tk_dead := True \<rparr> | _ \<Rightarrow> ?t\<lparr> tk_queue := rest \<rparr>)"
  have t': "tk_entry t' = tk_entry ?t" "tk_all t' = tk_all ?t" "tk_queue t' = rest" "tk_running t' \<noteq> None \<longrightarrow> d \<noteq> None"
    using True by (auto simp: t'_def split: option.split Dispatch.split Message.split)
  have n: "tk_entry ?t < length (w_entries w)" using inv True by (auto simp: access_inv_def task_opened_def)
  obtain pre where pre: "tk_all ?t = pre @ (m, ctx) # rest" using inv True unfolding q [symmetric] access_inv_def task_opened_def by (metis nth_mem)
  then have h: "handled t' = pre @ [(m, ctx)]" by (simp add: handled_def t')
  have "access_inv uuid (set_task k t' (set_entry (tk_entry ?t) st w))"
  proof (rule task_access [OF inv _ refl refl t'(1,2), where opened = "opens m"])
    show "\<exists>pre. tk_all t' = pre @ tk_queue t'" using pre by (auto simp: t' intro: exI [of _ "pre @ [(m, ctx)]"])
    show "skey (fst st) = (fst (keys_of w ! tk_entry ?t), fst (snd (keys_of w ! tk_entry ?t)), snd (snd (keys_of w ! tk_entry ?t)) \<or> opens m)"
      using received_skey [OF rec] n by (simp add: skey_def)
    show "fst (snd (keys_of w ! tk_entry ?t)) \<or> snd (snd (keys_of w ! tk_entry ?t))" if "tk_running t' \<noteq> None"
      using received_skey [OF rec] t'(4) that n by (simp add: skey_def)
  qed (use True h q in \<open>simp_all add: t'\<close>)
  moreover have "task_step env now k w = set_task k t' (set_entry (tk_entry ?t) st w)"
    unfolding task_step_def t'_def using True rec by (simp only: q if_True simp_thms Let_def option.case list.case prod.case)
  ultimately show ?thesis by simp
next
  case False
  then have "task_step env now k w = w" by (auto simp: task_step_def Let_def split: option.split list.split)
  with inv show ?thesis by simp
qed

lemma task_finish_access:
  assumes inv: "access_inv uuid w"
  shows "access_inv uuid (task_finish env k out w)"
proof -
  let ?t = "w_tasks w ! k"
  have "access_inv uuid (set_task k (?t\<lparr> tk_running := None \<rparr>) (set_entry (tk_entry ?t) (send_answer env i a ctx (w_entries w ! tk_entry ?t, w_heap w)) w))"
    if k: "k < length (w_tasks w)" for i a ctx
  proof (rule task_access [OF inv k refl refl, where opened = False])
    have "task_opened (keys_of w) ?t" using inv k by (simp add: access_inv_def)
    then show "\<exists>pre. tk_all (?t\<lparr> tk_running := None \<rparr>) = pre @ tk_queue (?t\<lparr> tk_running := None \<rparr>)"
      "skey (fst (send_answer env i a ctx (w_entries w ! tk_entry ?t, w_heap w))) =
        (fst (keys_of w ! tk_entry ?t), fst (snd (keys_of w ! tk_entry ?t)), snd (snd (keys_of w ! tk_entry ?t)) \<or> False)"
      by (simp_all add: task_opened_def)
  qed simp_all
  with inv show ?thesis by (auto simp: task_finish_def Let_def split: option.split prod.split)
qed

lemma task_panic_access:
  assumes inv: "access_inv uuid w"
  shows "access_inv uuid (task_panic k w)"
proof -
  let ?t = "w_tasks w ! k"
  have "access_inv uuid (set_task k (?t\<lparr> tk_running := None, tk_dead := True \<rparr>) (set_entry (tk_entry ?t) (w_entries w ! tk_entry ?t, w_heap w) w))"
    if k: "k < length (w_tasks w)"
  proof (rule task_access [OF inv k refl refl, where opened = False])
    have "task_opened (keys_of w) ?t" using inv k by (simp add: access_inv_def)
    then show "\<exists>pre. tk_all (?t\<lparr> tk_running := None, tk_dead := True \<rparr>) = pre @ tk_queue (?t\<lparr> tk_running := None, tk_dead := True \<rparr>)"
      "skey (fst (w_entries w ! tk_entry ?t, w_heap w)) =
        (fst (keys_of w ! tk_entry ?t), fst (snd (keys_of w ! tk_entry ?t)), snd (snd (keys_of w ! tk_entry ?t)) \<or> False)"
      by (simp_all add: task_opened_def)
  qed simp_all
  with inv show ?thesis by (auto simp: task_panic_def set_task_def set_entry_def)
qed

lemma stop_keys:
  "keys_of (server_stop w) = keys_of w \<and> w_tasks (server_stop w) = w_tasks w \<and> w_uuids (server_stop w) = w_uuids w \<and>
   w_transport_config (server_stop w) = w_transport_config w \<and> w_sessions (server_stop w) = (if w_state w = StRunning then [] else w_sessions w)"
proof -
  let ?one = "\<lambda>p v. case transport_terminate (en_transport (w_entries v ! snd p), w_heap v) of
      (t, h) \<Rightarrow> v\<lparr> w_entries := (w_entries v)[snd p := (w_entries v ! snd p)\<lparr> en_transport := t \<rparr>], w_heap := h \<rparr>"
  have "keys_of (fold ?one ps v) = keys_of v \<and> w_tasks (fold ?one ps v) = w_tasks v \<and> w_uuids (fold ?one ps v) = w_uuids v \<and>
      w_transport_config (fold ?one ps v) = w_transport_config v \<and> w_sessions (fold ?one ps v) = w_sessions v"
    for ps :: "(string \<times> nat) list" and v :: "'a McpWorld"
  proof (induction ps arbitrary: v)
    case (Cons p ps)
    have "map skey ((w_entries v)[snd p := (w_entries v ! snd p)\<lparr> en_transport := t \<rparr>]) = keys_of v" for t
      by (rule keys_update) (simp add: skey_def)
    with Cons.IH [of "?one p v"] show ?case by (simp split: prod.split)
  qed simp
  then show ?thesis by (simp add: server_stop_def Let_def case_prod_unfold)
qed

lemma stop_access:
  assumes "access_inv uuid w"
  shows "access_inv uuid (server_stop w)"
proof (rule access_cong)
  show "access_inv uuid (w\<lparr> w_sessions := w_sessions (server_stop w) \<rparr>)"
    by (rule unregister_access [OF assms]) (simp add: stop_keys)
qed (simp_all add: stop_keys)

lemma requests_skey:
  "skey (fst (snd (send_notification env meth ps st))) = skey (fst st)"
  "skey (fst (snd (begin_request req st))) = skey (fst st)"
  "skey (fst (send_begun env now c rq st)) = skey (fst st)"
proof -
  have p: "skey (e\<lparr> en_session := (en_session e)\<lparr> ss_pending := x \<rparr> \<rparr>) = skey e" for e x by (simp add: skey_def)
  show "skey (fst (snd (send_notification env meth ps st))) = skey (fst st)" by (simp add: send_notification_def)
  show "skey (fst (snd (begin_request req st))) = skey (fst st)" by (simp add: begin_request_def p split: sum.split prod.split)
  show "skey (fst (send_begun env now c rq st)) = skey (fst st)" by (simp add: send_begun_def Let_def p case_prod_unfold)
qed

lemma mcp_step_access:
  assumes "access_inv uuid w"
  shows "access_inv uuid (mcp_step env uuid e w)"
proof (cases e)
  case (WAwait n now c timeout timed_out)
  then show ?thesis using assms by (auto intro!: on_entry_access) (simp add: skey_def)
qed (use assms in \<open>auto intro!: stop_access manager_access task_step_access task_finish_access task_panic_access on_entry_access
    simp: requests_skey intro: access_cong [OF assms] unregister_access
    simp: server_admin_def register_set_logging_level_handler_def add_completion_def split: sum.split\<close>)

lemma mcp_run_access: "access_inv uuid w \<Longrightarrow> access_inv uuid (mcp_run env uuid es w)"
  by (induction es rule: rev_induct) (simp_all add: mcp_run_def mcp_step_access)

lemma running_access: "access_inv uuid (running_server config cfg)"
  by (simp add: access_inv_def running_server_def McpServer_build_def table_keys_def)

subsection \<open>Handlers run in initialized sessions\<close>

text \<open>
  C23. In every run of an MCP server, a handler of the application (of a tool, a prompt, a resource or of
  completion) is running only in a session that is stateless or into which a message that initializes it, an
  \<open>initialize\<close> request or the notification \<open>notifications/initialized\<close>, has been delivered; and as long as no such
  message has been delivered to a stateful session, every other request in it is answered with the error
  that the session is not initialized and reaches neither a handler nor a registry.
\<close>

theorem mcp_handlers_initialized:
  fixes env :: McpEnv and uuid :: "nat \<Rightarrow> string" and config :: ServerConfig and cfg :: HttpServerConfig
    and es :: "'h mcp_event list" and n :: nat
  defines "w \<equiv> mcp_run env uuid es (running_server config cfg)"
  assumes "n < length (w_entries w)" "\<not> ss_stateless (en_session (w_entries w ! n))" "\<not> opened_by n (w_tasks w)"
  shows "(\<forall>t \<in> set (w_tasks w). tk_entry t = n \<longrightarrow> tk_running t = None) \<and>
    (\<forall>r ctx. rq_method r \<noteq> ''initialize'' \<longrightarrow>
       received_request env (w_core w) r ctx (w_entries w ! n, w_heap w) =
         (None, snd (send_error_response env (rq_id r) (NOT_INITIALIZED (rq_method r)) (ctx\<lparr> cx_method := rq_method r \<rparr>)
            (w_entries w ! n, w_heap w))))"
proof -
  have inv: "access_inv uuid w" unfolding w_def by (rule mcp_run_access [OF running_access])
  then have "\<not> ss_initialized (en_session (w_entries w ! n))"
    using assms(2,4) by (auto simp: access_inv_def skey_def)
  moreover have "tk_running t = None" if "t \<in> set (w_tasks w)" "tk_entry t = n" for t
  proof -
    have "task_opened (keys_of w) t" using inv that by (simp add: access_inv_def)
    then show ?thesis using calculation that assms(2,3) by (cases "tk_running t") (auto simp: task_opened_def skey_def)
  qed
  ultimately show ?thesis using assms(3) by (simp add: received_request_def)
qed

subsection \<open>Closed sessions\<close>

definition closed_id :: "(nat \<Rightarrow> string) \<Rightarrow> string \<Rightarrow> 'h McpWorld \<Rightarrow> bool" where
  "closed_id uuid sid w \<longleftrightarrow> sid \<notin> fst ` set (w_sessions w) \<and> (\<exists>j < w_uuids w. sid = uuid j)"

lemma closed_mono:
  "closed_id uuid sid w \<Longrightarrow> fst ` set (w_sessions w') \<subseteq> fst ` set (w_sessions w) \<Longrightarrow> w_uuids w \<le> w_uuids w' \<Longrightarrow> closed_id uuid sid w'"
  by (auto simp: closed_id_def intro: less_le_trans)

lemma entry_handle_table_same [simp]:
  "w_sessions (snd (entry_handle env n r w)) = w_sessions w" "w_uuids (snd (entry_handle env n r w)) = w_uuids w"
  "w_transport_config (snd (entry_handle env n r w)) = w_transport_config w"
  by (simp_all add: entry_handle_def Let_def split: prod.split)

lemma settle_table:
  "fst ` set (w_sessions (snd (settle_entry n created rw))) \<subseteq> fst ` set (w_sessions (snd rw))"
  "w_uuids (snd (settle_entry n created rw)) = w_uuids (snd rw)"
  "w_transport_config (snd (settle_entry n created rw)) = w_transport_config (snd rw)"
  by (auto simp: settle_entry_def Let_def im_remove_def split: prod.split)

lemma settle_closed: "closed_id uuid sid w \<Longrightarrow> closed_id uuid sid (snd (settle_entry n created (entry_handle env n r w)))"
  by (erule closed_mono) (use settle_table(1) [of n created "entry_handle env n r w"] in \<open>simp_all add: settle_table(2)\<close>)

lemma stateful_closed:
  assumes "inj uuid" "closed_id uuid sid w"
  shows "closed_id uuid sid (snd (serve_stateful env uuid cfg r w))"
proof (cases "header_or r MCP_SESSION_ID [] = []")
  case True
  show ?thesis
  proof (cases "new_http_session (w_config w) cfg (uuid (w_uuids w)) False")
    case (Inl e)
    have "closed_id uuid sid (w\<lparr> w_uuids := Suc (w_uuids w) \<rparr>)" by (rule closed_mono [OF assms(2)]) simp_all
    with True Inl show ?thesis by (simp add: serve_stateful_def Let_def)
  next
    case (Inr e)
    have "sid \<noteq> uuid (w_uuids w)" using assms by (auto simp: closed_id_def inj_eq)
    moreover have "ss_session_id (en_session e) = uuid (w_uuids w)" using new_session_key [OF Inr] by (simp add: skey_def)
    ultimately have "closed_id uuid sid (w\<lparr> w_uuids := Suc (w_uuids w), w_entries := w_entries w @ [e],
        w_sessions := im_insert (ss_session_id (en_session e)) (length (w_entries w)) (w_sessions w) \<rparr>)"
      using assms(2) by (auto simp: closed_id_def dest!: set_im_insertD intro: less_SucI)
    then show ?thesis using True Inr by (simp add: serve_stateful_def Let_def add_entry_def settle_closed)
  qed
next
  case False
  with assms(2) show ?thesis by (simp add: serve_stateful_def Let_def settle_closed split: option.split)
qed

lemma manager_closed:
  assumes "inj uuid" "closed_id uuid sid w"
  shows "closed_id uuid sid (snd (manager_handle_request env uuid r w))"
proof -
  have "closed_id uuid sid (snd (entry_handle env n r (w\<lparr> w_entries := es \<rparr>)))" for n es by (rule closed_mono [OF assms(2)]) simp_all
  with assms stateful_closed [OF assms] show ?thesis
    by (auto simp: manager_handle_request_def add_entry_def split: option.split sum.split)
qed

lemma task_table_same:
  "w_sessions (task_step env now k w) = w_sessions w \<and> w_uuids (task_step env now k w) = w_uuids w \<and> w_transport_config (task_step env now k w) = w_transport_config w"
  "w_sessions (task_finish env k out w) = w_sessions w \<and> w_uuids (task_finish env k out w) = w_uuids w \<and> w_transport_config (task_finish env k out w) = w_transport_config w"
  "w_sessions (task_panic k w) = w_sessions w \<and> w_uuids (task_panic k w) = w_uuids w \<and> w_transport_config (task_panic k w) = w_transport_config w"
  "w_sessions (on_entry n f w) = w_sessions w \<and> w_uuids (on_entry n f w) = w_uuids w \<and> w_transport_config (on_entry n f w) = w_transport_config w"
  by (simp_all add: task_step_def task_finish_def task_panic_def on_entry_def set_task_def set_entry_def Let_def
      split: prod.split option.split list.split)

lemma stateful_config: "w_transport_config (snd (serve_stateful env uuid cfg r w)) = w_transport_config w"
  by (simp add: serve_stateful_def add_entry_def Let_def settle_table(3) split: sum.split option.split)

lemma manager_config: "w_transport_config (snd (manager_handle_request env uuid r w)) = w_transport_config w"
  by (simp add: manager_handle_request_def add_entry_def stateful_config split: option.split sum.split)

lemma step_config: "w_transport_config (mcp_step env uuid e w) = w_transport_config w"
  by (cases e) (simp_all add: manager_config task_table_same stop_keys server_admin_def register_set_logging_level_handler_def
      add_completion_def split: sum.split)

lemma step_closed:
  assumes "inj uuid" "closed_id uuid sid w"
  shows "closed_id uuid sid (mcp_step env uuid e w)"
proof (cases e)
  case (WRequest r)
  with manager_closed [OF assms] assms(2) show ?thesis by simp
qed (rule closed_mono [OF assms(2)]; simp add: task_table_same stop_keys server_admin_def register_set_logging_level_handler_def
      add_completion_def split: sum.split)+

lemma run_closed:
  assumes "inj uuid" "closed_id uuid sid w"
  shows "closed_id uuid sid (mcp_run env uuid es w) \<and> w_transport_config (mcp_run env uuid es w) = w_transport_config w"
  by (induction es rule: rev_induct) (simp_all add: mcp_run_def step_closed [OF assms(1)] step_config assms(2))

text \<open>A request that is answered with 200 to a DELETE has closed its session.\<close>

lemma delete_terminates:
  assumes "transport_handle_request env True r (t, h) = (Full resp, d, (t', h'))" "hq_method r = ''DELETE''" "hr_status resp = 200"
  shows "ht_terminated t' \<and> header_or r MCP_SESSION_ID [] \<noteq> [] \<and> \<not> ht_stateless t"
  using assms by (auto simp: transport_handle_request_def handle_delete_def error_response_def invalid_request_def
      json_response_def transport_terminate_def Let_def split: if_splits prod.splits)

lemma delete_entry:
  assumes "entry_handle env n r w = (Full resp, w')" "hq_method r = ''DELETE''" "hr_status resp = 200" "n < length (w_entries w)"
  shows "ht_terminated (en_transport (w_entries w' ! n)) \<and> header_or r MCP_SESSION_ID [] \<noteq> [] \<and> skey (w_entries w' ! n) = skey (w_entries w ! n)"
proof -
  obtain reply d t h where th: "transport_handle_request (me_rpc env) True r (en_transport (w_entries w ! n), w_heap w) = (reply, d, (t, h))"
    by (metis prod.exhaust)
  with assms(1) have "reply = Full resp" "w_entries w' = (w_entries w)[n := (w_entries w ! n)\<lparr> en_transport := t \<rparr>]"
    by (auto simp: entry_handle_def)
  with th delete_terminates [of "me_rpc env" r "en_transport (w_entries w ! n)" "w_heap w" resp d t h] assms(2-4) show ?thesis
    by (simp add: skey_def)
qed

lemma delete_closes:
  assumes inv: "access_inv uuid w" and cfg: "w_transport_config w = Some cfg" and del: "hq_method r = ''DELETE''"
    and ok: "manager_handle_request env uuid r w = (Some (Full resp), w1)" "hr_status resp = 200"
  shows "closed_id uuid (header_or r MCP_SESSION_ID []) w1 \<and> header_or r MCP_SESSION_ID [] \<noteq> [] \<and> \<not> hc_stateless cfg"
proof -
  let ?sid = "header_or r MCP_SESSION_ID []"
  have auth: "authorize_request (me_rpc env) cfg (hq_headers r) = Some None"
    using cfg ok by (auto simp: manager_handle_request_def authorize_request_def auth_error_def split: option.splits if_splits)
  have stateful: "\<not> hc_stateless cfg"
  proof
    assume s: "hc_stateless cfg"
    show False
    proof (cases "new_http_session (w_config w) cfg ?sid True")
      case (Inl e)
      with s auth cfg ok show False by (auto simp: manager_handle_request_def internal_error_def)
    next
      case (Inr e)
      then have "ht_stateless (en_transport e)" by (auto simp: new_http_session_def HttpTransport_new_def)
      with Inr s auth cfg ok del show False
        by (auto simp: manager_handle_request_def add_entry_def entry_handle_def transport_handle_request_def error_response_def
            nth_append apfst_def map_prod_def)
    qed
  qed
  with auth cfg ok(1) have st: "serve_stateful env uuid cfg r w = (Full resp, w1)"
    by (cases "serve_stateful env uuid cfg r w") (auto simp: manager_handle_request_def)
  have settle: "\<exists>v. entry_handle env n r u = (Full resp, v) \<and> w1 = (if ht_terminated (en_transport (w_entries v ! n)) \<or> created \<and> rejected (Full resp)
      then v\<lparr> w_sessions := im_remove (ss_session_id (en_session (w_entries v ! n))) (w_sessions v) \<rparr> else v)"
    if "settle_entry n created (entry_handle env n r u) = (Full resp, w1)" for n created u
    using that by (cases "entry_handle env n r u") (auto simp: settle_entry_def Let_def split: if_splits)
  show ?thesis
  proof (cases "?sid = []")
    case True
    then obtain e where "new_http_session (w_config w) cfg (uuid (w_uuids w)) False = Inr e"
      using st ok(2) by (cases "new_http_session (w_config w) cfg (uuid (w_uuids w)) False") (auto simp: serve_stateful_def internal_error_def)
    with True st have "\<exists>v. entry_handle env (length (w_entries w)) r (w\<lparr> w_uuids := Suc (w_uuids w), w_entries := w_entries w @ [e],
        w_sessions := im_insert (ss_session_id (en_session e)) (length (w_entries w)) (w_sessions w) \<rparr>) = (Full resp, v)"
      by (auto simp: serve_stateful_def Let_def add_entry_def dest!: settle)
    with delete_entry [OF _ del ok(2)] True show ?thesis by fastforce
  next
    case False
    then obtain n where n: "im_get (w_sessions w) ?sid = Some n"
      using st ok(2) by (cases "im_get (w_sessions w) ?sid") (auto simp: serve_stateful_def Let_def session_not_found_def)
    then have k: "n < length (w_entries w)" "fst (keys_of w ! n) = ?sid" "\<exists>j < w_uuids w. ?sid = uuid j"
      using inv by (auto simp: access_inv_def table_keys_def dest!: im_get_in_set)
    from False n st obtain v where v: "entry_handle env n r w = (Full resp, v)"
      "w1 = (if ht_terminated (en_transport (w_entries v ! n)) \<or> False \<and> rejected (Full resp)
        then v\<lparr> w_sessions := im_remove (ss_session_id (en_session (w_entries v ! n))) (w_sessions v) \<rparr> else v)"
      by (auto simp: serve_stateful_def Let_def dest!: settle)
    have "ht_terminated (en_transport (w_entries v ! n))" "ss_session_id (en_session (w_entries v ! n)) = ?sid"
      using delete_entry [OF v(1) del ok(2) k(1)] k by (auto simp: skey_def)
    moreover have "w_uuids v = w_uuids w" using arg_cong [OF v(1), of snd] entry_handle_table_same(2) [of env n r w] by simp
    ultimately show ?thesis using k(3) False stateful by (auto simp: v(2) closed_id_def im_remove_def)
  qed
qed

text \<open>
  C21. A closed MCP session stays closed. Once a DELETE with a session identifier was answered with 200, then after
  any further run of the server every request with that identifier changes nothing at the server, and is
  answered, if the hooks let it in, with 404 and the body of an unknown session (session identifiers do not repeat).
\<close>

theorem mcp_session_closed:
  fixes env :: McpEnv and uuid :: "nat \<Rightarrow> string" and config :: ServerConfig and cfg :: HttpServerConfig
    and es es' :: "'h mcp_event list" and r r' :: HttpRequest
  defines "w \<equiv> mcp_run env uuid es (running_server config cfg)"
  defines "w' \<equiv> mcp_run env uuid es' (snd (manager_handle_request env uuid r w))"
  assumes "inj uuid" "hq_method r = ''DELETE''" "fst (manager_handle_request env uuid r w) = Some (Full resp)" "hr_status resp = 200"
    "header_or r' MCP_SESSION_ID [] = header_or r MCP_SESSION_ID []"
  shows "snd (manager_handle_request env uuid r' w') = w' \<and>
    (authorize_request (me_rpc env) cfg (hq_headers r') = Some None \<longrightarrow>
       fst (manager_handle_request env uuid r' w') = Some (session_not_found (me_rpc env)))"
proof -
  have "w_transport_config w = Some cfg"
    unfolding w_def by (induction es rule: rev_induct) (simp_all add: mcp_run_def step_config running_server_def McpServer_build_def)
  moreover have "access_inv uuid w" unfolding w_def by (rule mcp_run_access [OF running_access])
  ultimately have d: "closed_id uuid (header_or r MCP_SESSION_ID []) (snd (manager_handle_request env uuid r w)) \<and>
      header_or r MCP_SESSION_ID [] \<noteq> [] \<and> \<not> hc_stateless cfg"
    using assms(4-6) by (intro delete_closes [OF _ _ assms(4), of uuid w cfg env resp]) (simp_all add: prod_eq_iff)
  from run_closed [OF assms(3) conjunct1 [OF d], of env es'] have c: "closed_id uuid (header_or r MCP_SESSION_ID []) w'" "w_transport_config w' = Some cfg"
    using \<open>w_transport_config w = Some cfg\<close> by (simp_all add: w'_def manager_config)
  then have "im_get (w_sessions w') (header_or r' MCP_SESSION_ID []) = None"
    using assms(7) by (simp add: closed_id_def map_of_eq_None_iff)
  then have "serve_stateful env uuid cfg r' w' = (session_not_found (me_rpc env), w')"
    using assms(7) d by (simp add: serve_stateful_def Let_def)
  then show ?thesis using c(2) d by (simp add: manager_handle_request_def split: option.split)
qed

subsection \<open>A concrete run\<close>

definition demo_initialize :: json where
  "demo_initialize = JObj [(''jsonrpc'', JStr ''2.0''), (''id'', JInt 1), (''method'', JStr ''initialize'')]"

definition demo_access_env :: McpEnv where
  "demo_access_env = \<lparr> me_rpc = \<lparr> rpc_from_str = (\<lambda>s. if s = ''i'' then Inr demo_initialize else Inl ''?''),
     rpc_to_string = (\<lambda>_. ''...''), rpc_de_err = (\<lambda>_. []) \<rparr>, me_schema = demo_schema_env \<rparr>"

definition demo_uuid :: "nat \<Rightarrow> string" where
  "demo_uuid n = replicate (Suc n) CHR ''u''"

definition demo_stateful :: HttpServerConfig where
  "demo_stateful = demo_http\<lparr> hc_stateless := False,
     hc_authenticator := Some (Bearer_authenticate (Some (SimpleTokenVerifier_verify [(''t'', ''read write'')]))),
     hc_authorizer := Some (Scope_authorize {''read''}) \<rparr>"

definition demo_request :: "string \<Rightarrow> (string \<times> string) list \<Rightarrow> HttpRequest" where
  "demo_request meth hs = \<lparr> hq_method = meth, hq_url = ''/mcp'',
     hq_headers = hs @ [(''accept'', ''application/json, text/event-stream''), (''content-type'', ''application/json'')], hq_body = ''i'' \<rparr>"

definition demo_auth :: "string \<times> string" where
  "demo_auth = (''authorization'', ''bearer t'')"

definition demo_open :: "nat McpWorld" where
  "demo_open = mcp_run demo_access_env demo_uuid [WRequest (demo_request ''POST'' [demo_auth])] (running_server demo_config demo_stateful)"

lemma demo_uuid_inj: "inj demo_uuid"
  by (rule injI) (simp add: demo_uuid_def)

lemma demo_scopes: "split_scopes ''read write'' = {''read'', ''write''}" "required_scopes_of ''read'' = Inr {''read''}"
  by (simp_all add: split_scopes_def required_scopes_of_def is_space_def)

lemmas demo_access_defs = demo_request_defs demo_stateful_def demo_request_def demo_auth_def demo_access_env_def demo_initialize_def
  Bearer_authenticate_def SimpleTokenVerifier_verify_def bearer_prefix_def slice_to_def eq_ignore_ascii_case_def AUTHORIZATION_def
  Scope_authorize_def demo_scopes auth_failure_def auth_error_def

lemma demo_lower: "map ascii_lower ''bearer '' = ''bearer ''"
  by code_simp

lemma demo_verdicts:
  "authorize_request env demo_stateful (hq_headers (demo_request meth (demo_auth # hs))) = Some None"
  "authorize_request env demo_stateful (hq_headers (demo_request meth [])) =
     Some (Some (auth_error env 401 ''Unauthorized'' ''Missing Authorization header''))"
  by (simp_all add: authorize_request_def demo_access_defs demo_lower is_cont_def byte_in_def del: list.map)

theorem mcp_authorized_exact_witness:
  "(\<exists>scopes. granted_scopes [(''t'', ''read write'')] (hq_headers (demo_request ''POST'' [demo_auth])) = Some scopes \<and> {''read''} \<subseteq> scopes) \<and>
   (\<exists>body. manager_handle_request demo_access_env demo_uuid (demo_request ''POST'' []) (running_server demo_config demo_stateful :: nat McpWorld) =
      (Some (Full body), running_server demo_config demo_stateful) \<and>
      hr_status body = (if granted_scopes [(''t'', ''read write'')] (hq_headers (demo_request ''POST'' [])) = None then 401 else 403))"
proof -
  let ?w = "running_server demo_config demo_stateful :: nat McpWorld"
  have c: "w_transport_config ?w = Some demo_stateful" by (simp add: running_server_def McpServer_build_def)
  have h: "hc_authenticator demo_stateful = Some (Bearer_authenticate (Some (SimpleTokenVerifier_verify [(''t'', ''read write'')])))"
    "hc_authorizer demo_stateful = Some (Scope_authorize {''read''})"
    by (simp_all add: demo_stateful_def)
  note e = mcp_authorized_exact [OF c h demo_scopes(2), where env = demo_access_env and uuid = demo_uuid]
  note refused = e [where r = "demo_request ''POST'' []", unfolded demo_verdicts option.case]
  from refused [THEN conjunct2, THEN conjunct2] obtain body where b:
      "auth_error (me_rpc demo_access_env) 401 ''Unauthorized'' ''Missing Authorization header'' = Full body"
      "hr_status body = (if granted_scopes [(''t'', ''read write'')] (hq_headers (demo_request ''POST'' [])) = None then 401 else 403)"
    by (elim exE conjE)
  show ?thesis
    using e [where r = "demo_request ''POST'' [demo_auth]", unfolded demo_verdicts option.case] refused [THEN conjunct2, THEN conjunct1, unfolded b(1)] b(2)
    by (intro conjI) (assumption, intro exI conjI)
qed

lemma demo_opened:
  "length (w_entries demo_open) = 1 \<and> \<not> ss_stateless (en_session (w_entries demo_open ! 0)) \<and> \<not> opened_by 0 (w_tasks demo_open) \<and>
   length (w_tasks demo_open) = 1 \<and> tk_entry (w_tasks demo_open ! 0) = 0 \<and> length (tk_queue (w_tasks demo_open ! 0)) = 1 \<and>
   ht_session_id (en_transport (w_entries demo_open ! 0)) = ''u'' \<and> \<not> ht_stateless (en_transport (w_entries demo_open ! 0)) \<and>
   \<not> ht_terminated (en_transport (w_entries demo_open ! 0)) \<and> w_sessions demo_open = [(''u'', 0)] \<and>
   w_transport_config demo_open = Some demo_stateful"
proof -
  have run: "demo_open = snd (serve_stateful demo_access_env demo_uuid demo_stateful (demo_request ''POST'' [demo_auth]) (running_server demo_config demo_stateful))"
    by (simp add: demo_open_def mcp_run_def manager_handle_request_def running_server_def McpServer_build_def demo_verdicts)
      (simp add: demo_stateful_def)
  show ?thesis unfolding run
    by (simp add: serve_stateful_def settle_entry_def demo_access_defs demo_uuid_def MCP_SESSION_ID_def is_visible_ascii_def im_insert_def
        set_incoming_request_handler_def set_server_capabilities_def ServerSession_new_def is_initialization_def is_initialize_def
        opened_by_def handled_def rejected_def Let_def)
qed

theorem mcp_handlers_initialized_witness:
  "length (tk_queue (w_tasks demo_open ! 0)) = 1 \<and>
   received_request demo_access_env (w_core demo_open) (RpcRequest_new (IdNumber 7) ''ping'' None) (server_initiated ''u'' []) (w_entries demo_open ! 0, w_heap demo_open) =
     (None, snd (send_error_response demo_access_env (IdNumber 7) (NOT_INITIALIZED ''ping'') (server_initiated ''u'' ''ping'')
        (w_entries demo_open ! 0, w_heap demo_open)))"
  using mcp_handlers_initialized [where env = demo_access_env and uuid = demo_uuid and config = demo_config and cfg = demo_stateful
      and es = "[WRequest (demo_request ''POST'' [demo_auth])] :: nat mcp_event list" and n = 0] demo_opened
  unfolding demo_open_def [symmetric]
  by (simp add: RpcRequest_new_def server_initiated_def)

theorem mcp_session_closed_witness:
  "fst (manager_handle_request demo_access_env demo_uuid (demo_request ''GET'' [demo_auth, (MCP_SESSION_ID, ''u'')])
     (mcp_run demo_access_env demo_uuid [WRequest (demo_request ''POST'' [demo_auth]), WTask 0 0]
       (snd (manager_handle_request demo_access_env demo_uuid (demo_request ''DELETE'' [demo_auth, (MCP_SESSION_ID, ''u'')]) demo_open)))) =
   Some (session_not_found (me_rpc demo_access_env))"
proof -
  let ?r = "demo_request ''DELETE'' [demo_auth, (MCP_SESSION_ID, ''u'')]"
  let ?g = "demo_request ''GET'' [demo_auth, (MCP_SESSION_ID, ''u'')]"
  have s: "header_or ?r MCP_SESSION_ID [] = ''u''" "header_or ?g MCP_SESSION_ID [] = ''u''"
    by (simp_all add: header_or_def header_def demo_request_def demo_auth_def MCP_SESSION_ID_def)
  have f: "\<not> hc_stateless demo_stateful" "hq_method ?r = ''DELETE''" by (simp_all add: demo_stateful_def demo_request_def)
  have "fst (manager_handle_request demo_access_env demo_uuid ?r demo_open) = Some (json_response (en_transport (w_entries demo_open ! 0)) None 200)"
    using demo_opened s f
    by (simp add: manager_handle_request_def demo_verdicts serve_stateful_def settle_entry_def entry_handle_def transport_handle_request_def
        handle_delete_def Let_def split: prod.split)
  then have "\<exists>resp. hr_status resp = 200 \<and> fst (manager_handle_request demo_access_env demo_uuid ?r demo_open) = Some (Full resp)"
    by (simp add: json_response_def)
  then obtain resp where "hr_status resp = 200" "fst (manager_handle_request demo_access_env demo_uuid ?r demo_open) = Some (Full resp)" by (elim exE conjE)
  with s show ?thesis
    using mcp_session_closed [OF demo_uuid_inj, where env = demo_access_env and config = demo_config and cfg = demo_stateful and r = ?r and r' = ?g
        and es = "[WRequest (demo_request ''POST'' [demo_auth])] :: nat mcp_event list" and es' = "[WRequest (demo_request ''POST'' [demo_auth]), WTask 0 0]"]
    unfolding demo_open_def [symmetric] demo_verdicts by (simp add: f(2))
qed

subsection \<open>Cancelled requests\<close>

text \<open>
  A request that was cancelled while its handler runs has been answered with the cancellation.  A result that
  the handler returns later is dropped; an error is sent all the same, as a second response.
\<close>

lemma cancel_flag_unread: "transport_send env m (c\<lparr> cx_is_cancelled := True \<rparr>) st = transport_send env m c st"
  by (simp add: transport_send_def send_message_def cong: if_cong)

lemma cancelled_then_failed:
  fixes env :: McpEnv and e :: McpEntry and h :: McpHeap and i :: RequestId and n :: nat
  assumes "im_get (ss_requests (en_session e)) i = Some c" "ctx_ok (Some n) c" "n < length (hp_sinks h)"
    "CancelledNotificationParams_from_value v = Some p" "cn_request_id p = i"
  defines "put \<equiv> \<lambda>er. put_sink (me_rpc env) (ht_json (en_transport e)) n (MResponse (RpcResponse_error (Some i) er))"
  shows "snd (handle_cancelled env (Some v) (e, h)) = put CANCELLED h"
    and "snd (send_answer env i (Inr res) c (handle_cancelled env (Some v) (e, h))) = put CANCELLED h"
    and "snd (send_answer env i (Inl er) c (handle_cancelled env (Some v) (e, h))) = put er (put CANCELLED h)"
proof -
  let ?e = "e\<lparr> en_session := (en_session e)\<lparr> ss_requests := im_insert i (c\<lparr> cx_is_cancelled := True \<rparr>) (ss_requests (en_session e)) \<rparr> \<rparr>"
  have h: "handle_cancelled env (Some v) (e, h) = (?e, put CANCELLED h)"
    using assms(1,4,5) send_to_sink [OF assms(2) _ assms(3), of _ env ?e]
    by (simp add: handle_cancelled_def on_session_def cancel_flag_unread is_response_def put_def Let_def)
  then show "snd (handle_cancelled env (Some v) (e, h)) = put CANCELLED h" by simp
  have "was_cancelled i (en_session ?e)" by (simp add: was_cancelled_def)
  then show "snd (send_answer env i (Inr res) c (handle_cancelled env (Some v) (e, h))) = put CANCELLED h"
    by (simp add: h send_answer_def send_response_def on_session_def Let_def)
  show "snd (send_answer env i (Inl er) c (handle_cancelled env (Some v) (e, h))) = put er (put CANCELLED h)"
    unfolding h using send_to_sink [OF assms(2), of _ "put CANCELLED h" env "?e\<lparr> en_session := forget_request i (en_session ?e) \<rparr>"] assms(3)
    by (simp add: send_answer_def send_error_response_def on_session_def is_response_def put_def)
qed

end
