(* ===== verification/Spec2Isabelle.thy ===== *)
theory Spec2Isabelle
  imports Prelude Json Lease Heartbeat AuthContext AuthStore AuthLaws
    Envelope Merkle ClusterState ClusterStore Membership ClusterLaws ClusterInv
    A4PUtil IntentScope TokenUsage A4PSecurity Mandate IntentMandate IntentToken IntentService
    Pending OperationService IntentLaws OperationLaws
    RegUtil RegModels RegValidation RegFs RegStore SkillStore RegistryCore RegistryOps Reservation
    RegistryStartup RegistryFrame RegistryOutput RegistryLaws RegistrySafety RegistryInv
    ReservationLaws RegistryDurable SkillLaws LeasePolicy RegistryFindings
    Utf8 Sse JsonRpc A2ATypes A2AParams A2AServer A2AHandler A2ASteps A2ALaws A2AAnswers A2AWaiting A2ALive
    A2AClient A2AClientLaws A2AStream A2AFindings
    McpSchema McpTypes McpResults McpProtocol McpSampling McpManagers McpPending
    McpAuth McpTransport McpSession McpServer McpServerLaws McpAccess
begin

text \<open>
  \<^bold>\<open>Verification of the agent registry and of the A4P, A2A and MCP SDKs.\<close>

  The repository is a Rust workspace of agent protocols. Four of its programs carry most of the
  state and most of the decisions, and are modelled here: the agent registry
  (\<open>AgentRegistry/rust-sdk\<close>: a multi-namespace service registry with credentials, heartbeat leases
  and peer-to-peer replication), the A4P SDK (\<open>A4P/rust-sdk\<close>: user-signed mandates and tokens
  that authorize an agent's payments and operations), the A2A SDK (\<open>A2A/rust-sdk\<close>: the server and
  the client of the agent-to-agent protocol) and the server side of the MCP SDK (\<open>MCP/rust-sdk\<close>: tools, prompts
  and resources offered to a model over JSON-RPC and HTTP).

  \<^bold>\<open>Conventions\<close> (\<open>Prelude\<close>, \<open>Json\<close>, \<open>A4PUtil\<close>). A Rust \<open>String\<close> is a list of bytes. Maps are
  association lists with distinct keys; for a \<open>HashMap\<close> the list order stands for the
  unspecified iteration order. JSON values are \<open>serde_json::Value\<close> with insertion-ordered objects
  and order-insensitive equality (\<open>json_eq\<close>). \<open>i64\<close> arithmetic wraps (\<open>wrap64\<close>) where overflow is
  reachable; clocks in seconds (\<open>f64\<close>) are reals, so rounding is not modelled. A fallible
  function returns a sum, \<open>Inl\<close> the error with its text. What the code takes from outside the
  repository is a parameter: SHA-256, base64, HMAC and Ed25519 (the record \<open>Crates\<close>), the clock,
  random bytes, the cluster transport, and whether a write to disk or a SQLite call succeeds.
  What a property needs of a parameter is one of its hypotheses, and its witness instantiates
  the parameter with a concrete function.

  \<^bold>\<open>The registry.\<close>

  \<^item> \<open>Lease\<close>, \<open>Heartbeat\<close>: the TTL lease table of \<open>a2x-common/src/lease.rs\<close> and the heartbeat
    store and sweeper of \<open>a2x-registry/src/heartbeat\<close>. A lease that is renewed in time is never
    swept, one that is not lapses, then expires, and the sweeper deregisters exactly the expired.
  \<^item> \<open>AuthContext\<close>, \<open>AuthStore\<close>, \<open>AuthLaws\<close>: roles, API keys and principals of
    \<open>a2x-registry/src/auth\<close>, with the files they persist to and the audit log. Authentication is
    characterised exactly; revocation is final, across restarts too, when its write succeeded.
  \<^item> \<open>Envelope\<close>, \<open>Merkle\<close>: last-writer-wins versions and the bucketed digest of \<open>a2x-cluster\<close>.
    The locale of LWW tables proves once that applying envelopes is order independent.
  \<^item> \<open>ClusterState\<close>, \<open>ClusterStore\<close>, \<open>Membership\<close>: the persisted state, the peers, every handler
    of \<open>store.rs\<close>, the roster and the ticks of \<open>membership.rs\<close> and \<open>sweepers.rs\<close>.
    \<open>ClusterLaws\<close> and \<open>ClusterInv\<close> hold their laws: convergence of the overlay, eviction, what
    a peer may read and write, and an invariant kept by every operation for any transport.

  \<^bold>\<open>The registry service\<close> (\<open>a2x-registry/src/register\<close>).

  \<^item> \<open>RegUtil\<close>, \<open>RegModels\<close>, \<open>RegValidation\<close>: the Python-compatible coercions, \<open>models.rs\<close> with
    the JSON form of every type, and the three format validators. \<open>RegUtil\<close> also has the
    operations of the service (\<open>rop\<close>): a state transformer that returns a value or a
    \<open>RegistryError\<close> and keeps the changes made before the error, as the code does.
  \<^item> \<open>RegFs\<close>, \<open>RegStore\<close>, \<open>SkillStore\<close>: a file system of paths and contents in which any change may
    fail, and \<open>store.rs\<close> over it: configuration files, \<open>api_config.json\<close>, skill folders and archives.
  \<^item> \<open>RegistryCore\<close>, \<open>RegistryOps\<close>, \<open>Reservation\<close>, \<open>RegistryStartup\<close>: \<open>service.rs\<close>, one definition
    per operation over the record \<open>RegistryService\<close>.
  \<^item> \<open>RegistryLaws\<close> makes it a machine (\<open>reg_event\<close>, \<open>reg_exec\<close>, \<open>reg_run\<close>). \<open>RegistryFrame\<close> says which
    operations leave which part of the state alone, \<open>RegistryOutput\<close> and \<open>RegistryLaws\<close> that the
    published output is exactly the entries, \<open>RegistrySafety\<close> who may change an entry,
    \<open>RegistryInv\<close> the invariants of entries and leases, \<open>ReservationLaws\<close> what a reservation claims
    and that it is exclusive, \<open>RegistryDurable\<close> that a registration is on disk, \<open>SkillLaws\<close> where
    an upload writes, and \<open>LeasePolicy\<close> that the policy the heartbeat store works with is
    always within its bounds. \<open>RegistryFindings\<close> evaluates runs that go against the documentation.

  \<^bold>\<open>The A4P SDK.\<close>

  \<^item> \<open>IntentScope\<close>: \<open>intent/scope.rs\<close>, normal forms of scopes and the matching of calls against
    them; the backtracking matcher \<open>fnmatchcase\<close> is proved equal to the language of its pattern.
  \<^item> \<open>TokenUsage\<close>: \<open>intent/usage_store.rs\<close>. The in-memory store and the SQLite store implement one
    interface, a locale interpreted for both; SQLite refines memory while its calls succeed.
  \<^item> \<open>A4PSecurity\<close>, \<open>Mandate\<close>, \<open>IntentMandate\<close>, \<open>IntentToken\<close>: keys and signatures of \<open>security.rs\<close>
    and the signing modules, the signed texts and trust rules of \<open>mandate_security.rs\<close>, creation,
    signing and verification of mandates and tokens.
  \<^item> \<open>IntentService\<close>, \<open>OperationService\<close> with \<open>Pending\<close>, \<open>IntentLaws\<close>, \<open>OperationLaws\<close>: the two
    services as state machines over their pending entries. What they promise of a pending entry is
    the locale \<open>pending_service\<close>, interpreted for both: no identifier is approved more often than
    it was prepared. An approval is sound: it rests on a verified signature over the very payload.

  \<^bold>\<open>Messages and streams\<close> (\<open>rust/ap-jsonrpc\<close>, shared by the A2A and the MCP SDK).

  \<^item> \<open>JsonRpc\<close>: \<open>lib.rs\<close>, JSON-RPC requests, notifications, responses and batches, their JSON form
    and the classification of an incoming value. Well-formed messages come back.
  \<^item> \<open>Utf8\<close>, \<open>Sse\<close>: the lossy UTF-8 decoding of the standard library and \<open>sse.rs\<close>, the incremental
    parser of server-sent events over bytes. What is written is read back, in any chunks; the one
    exception, a carriage return that ends a chunk, is evaluated.

  \<^bold>\<open>The A2A SDK.\<close>

  \<^item> \<open>A2ATypes\<close>, \<open>A2AParams\<close>: \<open>types.rs\<close>, messages, tasks, events and request parameters with their JSON
    forms and every error text. What a type promises is the locale \<open>wire_json\<close>, interpreted for each:
    well-formed values are written and read back, and only those are ever decoded.
  \<^item> \<open>A2AServer\<close>, \<open>A2AHandler\<close>: the emitters, the task manager with its callbacks, the updater, the push
    store, the request handler, the JSON-RPC methods and the dispatch of \<open>server/\<close>. A handler is split
    at the await of the agent: \<open>sv_pending\<close> keeps what it does when the agent returns, and \<open>a2a_exec\<close>
    is the machine over requests, calls of the updaters and returns, in any order. Between
    two awaits the code holds no other suspension, so a step is atomic. The agent is outside: any calls
    may come, at any time. The call context is always absent over JSON-RPC.
  \<^item> \<open>A2ASteps\<close>: the locale \<open>request_steps\<close>, relations closed under the parts of the dispatch, interpreted for
    each invariant below. \<open>A2ALaws\<close>: the invariant of the server; finished tasks never change.
    \<open>A2AAnswers\<close>, \<open>A2AWaiting\<close>, \<open>A2ALive\<close>: well-formedness of the stored tasks, the life of a waiting
    request, and that it is answered once, by the time its task ends.
  \<^item> \<open>A2AClient\<close>, \<open>A2AClientLaws\<close>: the task manager, the default client and the HTTP transport of
    \<open>client/\<close>; connections yield events in any order. Every call is answered at most once and is in the
    tables exactly while it waits; closing leaves nobody waiting.
  \<^item> \<open>A2AStream\<close>: server and client together. What the server emits reaches the handler of the client, in any
    chunks, and the client's task agrees with the server's. \<open>A2AFindings\<close> evaluates
    where they do not do what they mean to.

  \<^bold>\<open>The MCP SDK.\<close>

  \<^item> \<open>McpTypes\<close>, \<open>McpResults\<close>, \<open>McpProtocol\<close>: \<open>types.rs\<close>, \<open>protocol.rs\<close> and \<open>error.rs\<close>, the data of the protocol with
    its JSON forms, parameters, the classification of incoming values and the endpoint check. What a decoder accepts is
    well formed and is read back from what it is written to.
  \<^item> \<open>McpSchema\<close>, \<open>McpSampling\<close>: the validators of \<open>schema.rs\<close> and \<open>sampling_validation.rs\<close>, each equal to a
    specification of what it accepts.
  \<^item> \<open>McpManagers\<close>: the registries of \<open>server/tool_manager.rs\<close>, \<open>prompt_manager.rs\<close> and \<open>resource_manager.rs\<close>;
    following the cursors of a listing ends with everything that is registered. A page size of 0, or one so large that
    the end of a page wraps around, breaks it, and both are evaluated.
  \<^item> \<open>McpPending\<close>: \<open>session.rs\<close>, the table of outstanding requests that the server and the client session share, as a
    machine over calls, responses, timeouts and disconnections.
  \<^item> \<open>McpAuth\<close>, \<open>McpTransport\<close>: \<open>auth.rs\<close> and the HTTP server transport (\<open>transport/mod.rs\<close>,
    \<open>streamable_http_server.rs\<close>). Response sinks and GET streams are cells of a heap that the sessions share; a
    sink collects the responses of one posted body, as JSON or as server-sent events.
  \<^item> \<open>McpSession\<close>, \<open>McpServer\<close>: \<open>server/session.rs\<close>, \<open>server/mod.rs\<close> and \<open>server/manager.rs\<close>. A posted body becomes a
    task that delivers its messages one after the other and may stand in a handler of the application, so
    \<open>mcp_step\<close> interleaves tasks, HTTP requests, handlers that return or panic, and clients that go away.
  \<^item> \<open>McpServerLaws\<close>: an invariant of sinks and tasks, and that every accepted request is answered once, on its
    own reply. \<open>McpAccess\<close>: which requests the hooks let in, that handlers run only in initialized sessions, and
    that a closed session stays closed; it also shows how a cancelled request is answered twice.

  \<^bold>\<open>Termination and bounds.\<close> Every definition is total. The matcher, the JSON writer and the JSON
  comparison recurse on their input, the SSE parser on the bytes left in its buffer; loops over
  collections are folds. The one fuel is the number of pages a client of an MCP listing asks for; the listing is
  shown to end within the number of registered items. The counters of MCP connections and requests are 64-bit, and the
  theorems that need it bound the number of events by \<open>2 ^ 63\<close> or of calls by \<open>2 ^ 64\<close>.

  \<^bold>\<open>Not modelled.\<close> HTTP routers, command lines and background task loops (their bodies are the
  modelled operations); interleavings inside one operation at its await points; environment
  variables; floating-point rounding; the agent card and the HTTP sockets
  and headers of the A2A SDK; a task of the A2A client that \<open>close\<close> cancels between a test and an insertion;
  of the MCP SDK the client facade and callbacks, stdio, the HTTP client and the sockets and TLS of the server;
  the search crates; the C++ and Python SDKs.
\<close>

end
